(* ===== verification/Fix_Prelude.thy ===== *)
theory Fix_Prelude
  imports "HOL-Library.Word" "HOL-Library.Monad_Syntax" "HOL-Library.Signed_Division"
begin

text \<open>
  Shared vocabulary of the development.

  \<^item> Bytes are 8-bit words. Plain \<open>char\<close> is signed on every platform the project builds for
    (x86-64 Linux and Windows, Apple arm64), so where the code computes with a \<open>char\<close> directly
    the model reads it with \<open>sint\<close>; where it casts to \<open>unsigned char\<close> first, with \<open>uint\<close>.
  \<^item> Memory is a byte list and a pointer an offset into it. A read or a write outside the list is
    undefined behaviour of the C++ program, and so is a failed \<open>HFFIX_ASSERT\<close> (a trap in debug
    builds) and a loop that never returns: all three are the value \<open>None\<close> of an \<open>option\<close>.
    A theorem that a model function is never \<open>None\<close> is therefore a memory safety,
    no-trap and termination result at once.
  \<^item> Lemmas about decimal numerals, digit bytes and memory ranges used by several components.
\<close>

section \<open>Types and constants\<close>

type_synonym byte = "8 word"
type_synonym u32 = "32 word"
type_synonym u64 = "64 word"
type_synonym ptr = nat

abbreviation SOH :: byte where "SOH \<equiv> 1"
abbreviation EQ_CH :: byte where "EQ_CH \<equiv> 61"
abbreviation MINUS_CH :: byte where "MINUS_CH \<equiv> 45"
abbreviation DOT_CH :: byte where "DOT_CH \<equiv> 46"
abbreviation COLON_CH :: byte where "COLON_CH \<equiv> 58"
abbreviation ZERO_CH :: byte where "ZERO_CH \<equiv> 48"
abbreviation NINE_CH :: byte where "NINE_CH \<equiv> 57"

text \<open>A string literal as the bytes of its characters (the terminating NUL is not part of it).\<close>

definition lit :: "string \<Rightarrow> byte list" where
  "lit s = map of_char s"

section \<open>Collections of facts\<close>

named_theorems mem_simps \<open>reads and writes of memory\<close>
named_theorems digit_simps \<open>facts on digit bytes\<close>

section \<open>Memory\<close>

definition rd :: "byte list \<Rightarrow> ptr \<Rightarrow> byte option" where
  "rd mem p = (if p < length mem then Some (mem ! p) else None)"

text \<open>The bytes of the pointer range \<open>[b, e)\<close>, read by a loop that runs while \<open>b < e\<close>.\<close>

definition rd_range :: "byte list \<Rightarrow> ptr \<Rightarrow> ptr \<Rightarrow> byte list option" where
  "rd_range mem b e =
     (if b < e then if e \<le> length mem then Some (take (e - b) (drop b mem)) else None
      else Some [])"

text \<open>\<open>wr mem p bs\<close> stores the bytes \<open>bs\<close> at \<open>p\<close>.\<close>

definition wr :: "byte list \<Rightarrow> ptr \<Rightarrow> byte list \<Rightarrow> byte list option" where
  "wr mem p bs =
     (if p + length bs \<le> length mem
      then Some (take p mem @ bs @ drop (p + length bs) mem) else None)"

lemma rd_Some [mem_simps]: "p < length mem \<Longrightarrow> rd mem p = Some (mem ! p)"
  by (simp add: rd_def)

lemma rd_eq_Some_iff: "rd mem p = Some c \<longleftrightarrow> p < length mem \<and> mem ! p = c"
  by (auto simp: rd_def)

lemma rd_eq_None_iff: "rd mem p = None \<longleftrightarrow> length mem \<le> p"
  by (auto simp: rd_def)

lemma rd_range_Some [mem_simps]:
  "e \<le> length mem \<Longrightarrow> rd_range mem b e = Some (take (e - b) (drop b mem))"
  by (simp add: rd_range_def)

lemma rd_range_all [mem_simps]: "rd_range mem 0 (length mem) = Some mem"
  by (simp add: rd_range_def)

lemma rd_range_length: "rd_range mem b e = Some bs \<Longrightarrow> length bs = e - b"
  by (auto simp: rd_range_def split: if_splits)

lemma wr_Some [mem_simps]:
  "p + length bs \<le> length mem \<Longrightarrow>
     wr mem p bs = Some (take p mem @ bs @ drop (p + length bs) mem)"
  by (simp add: wr_def)

lemma wr_length: "wr mem p bs = Some mem' \<Longrightarrow> length mem' = length mem"
  by (auto simp: wr_def split: if_splits)

lemma wr_take: "wr mem p bs = Some mem' \<Longrightarrow> q \<le> p \<Longrightarrow> take q mem' = take q mem"
  by (auto simp: wr_def min_def split: if_splits)

lemma take_wr_end:
  "wr mem p bs = Some mem' \<Longrightarrow> take (p + length bs) mem' = take p mem @ bs"
  by (auto simp: wr_def split: if_splits)

section \<open>Decimal numerals\<close>

definition is_digit :: "byte \<Rightarrow> bool" where
  "is_digit c \<longleftrightarrow> ZERO_CH \<le> c \<and> c \<le> NINE_CH"

definition digit_val :: "byte \<Rightarrow> nat" where
  "digit_val c = unat c - 48"

lemma digit_not_special:
  "is_digit c \<Longrightarrow> c \<noteq> SOH \<and> c \<noteq> EQ_CH \<and> c \<noteq> MINUS_CH \<and> c \<noteq> DOT_CH"
  by (auto simp: is_digit_def word_le_nat_alt)

text \<open>The number a digit string denotes, with a starting accumulator.\<close>

fun dec_acc :: "nat \<Rightarrow> byte list \<Rightarrow> nat" where
  "dec_acc a [] = a"
| "dec_acc a (c # cs) = dec_acc (a * 10 + digit_val c) cs"

abbreviation dec_val :: "byte list \<Rightarrow> nat" where
  "dec_val \<equiv> dec_acc 0"

lemma dec_acc_append [simp]: "dec_acc a (xs @ ys) = dec_acc (dec_acc a xs) ys"
  by (induction xs arbitrary: a) auto

lemma dec_acc_eq: "dec_acc a cs = a * 10 ^ length cs + dec_val cs"
proof (induction cs arbitrary: a)
  case Nil
  show ?case by simp
next
  case (Cons c cs)
  show ?case
    using Cons.IH [of "a * 10 + digit_val c"] Cons.IH [of "digit_val c"]
    by (simp add: algebra_simps)
qed

lemma dec_acc_ge: "a \<le> dec_acc a cs"
proof -
  have "a * 1 \<le> a * 10 ^ length cs"
    by (rule mult_le_mono2) simp
  with dec_acc_eq [of a cs] show ?thesis by linarith
qed

lemma digit_val_le: "is_digit c \<Longrightarrow> digit_val c \<le> 9"
  unfolding is_digit_def digit_val_def word_le_nat_alt by simp linarith

lemma is_digit_unat: "is_digit c \<longleftrightarrow> 48 \<le> unat c \<and> unat c \<le> 57"
  by (simp add: is_digit_def word_le_nat_alt)

lemma dec_val_bound: "\<forall>c \<in> set cs. is_digit c \<Longrightarrow> dec_val cs < 10 ^ length cs"
proof (induction cs rule: rev_induct)
  case Nil
  show ?case by simp
next
  case (snoc c cs)
  then have "dec_val cs + 1 \<le> 10 ^ length cs" and "digit_val c \<le> 9"
    by (auto simp: digit_val_le)
  then have "(dec_val cs + 1) * 10 \<le> 10 ^ length cs * 10"
    by (intro mult_le_mono1)
  with \<open>digit_val c \<le> 9\<close> show ?case by simp
qed

text \<open>The decimal digits of a number, without leading zeros, at least one.\<close>

fun dec_digits :: "nat \<Rightarrow> byte list" where
  "dec_digits n = (if n < 10 then [] else dec_digits (n div 10)) @ [of_nat (48 + n mod 10)]"

declare dec_digits.simps [simp del]

lemma digit_byte [digit_simps]:
  assumes "d < 10"
  shows "is_digit (of_nat (48 + d))" "digit_val (of_nat (48 + d)) = d"
    and "(of_nat (48 + d) :: byte) \<noteq> SOH" "(of_nat (48 + d) :: byte) \<noteq> EQ_CH"
    and "(of_nat (48 + d) :: byte) \<noteq> MINUS_CH" "(of_nat (48 + d) :: byte) \<noteq> DOT_CH"
proof -
  have u: "unat (of_nat (48 + d) :: byte) = 48 + d"
    using assms by (simp only: unat_of_nat) simp
  then show "is_digit (of_nat (48 + d))" "digit_val (of_nat (48 + d)) = d"
    using assms by (simp_all only: is_digit_unat digit_val_def)  auto
  then show "(of_nat (48 + d) :: byte) \<noteq> SOH" "(of_nat (48 + d) :: byte) \<noteq> EQ_CH"
     "(of_nat (48 + d) :: byte) \<noteq> MINUS_CH" "(of_nat (48 + d) :: byte) \<noteq> DOT_CH"
    by (blast dest: digit_not_special)+
qed

lemma dec_digits_digit: "c \<in> set (dec_digits n) \<Longrightarrow> is_digit c"
proof (induction n rule: dec_digits.induct)
  case (1 n)
  from "1.prems" consider "c = of_nat (48 + n mod 10)" | "\<not> n < 10" "c \<in> set (dec_digits (n div 10))"
    by (subst (asm) dec_digits.simps) (auto split: if_splits)
  then show ?case
  proof cases
    case 1
    then show ?thesis using digit_byte(1) [of "n mod 10"] by simp
  next
    case 2
    then show ?thesis by (rule "1.IH")
  qed
qed

lemma dec_val_digits: "dec_val (dec_digits n) = n"
proof (induction n rule: dec_digits.induct)
  case (1 n)
  have last: "digit_val (of_nat (48 + n mod 10)) = n mod 10"
    by (rule digit_byte) simp
  show ?case
  proof (cases "n < 10")
    case True
    then show ?thesis using last by (subst dec_digits.simps) simp
  next
    case False
    with "1.IH" last show ?thesis by (subst dec_digits.simps) simp
  qed
qed

lemma dec_digits_nonempty [simp]: "dec_digits n \<noteq> []"
  by (subst dec_digits.simps) simp

lemma dec_digits_length: "0 < k \<Longrightarrow> n < 10 ^ k \<Longrightarrow> length (dec_digits n) \<le> k"
proof (induction n arbitrary: k rule: dec_digits.induct)
  case (1 n)
  show ?case
  proof (cases "n < 10")
    case True
    then show ?thesis using "1.prems" by (subst dec_digits.simps) simp
  next
    case False
    with "1.prems"(2) obtain j where k: "k = Suc j" "0 < j"
      by (cases k; cases "k - 1") auto
    with "1.prems"(2) have "n div 10 < 10 ^ j" by auto
    with "1.IH" [of j] False k show ?thesis by (subst dec_digits.simps) simp
  qed
qed


text \<open>An element of an array or a vector: an index outside is undefined behaviour, as for memory.\<close>

definition elem_at :: "'a list \<Rightarrow> nat \<Rightarrow> 'a option" where
  "elem_at xs i = (if i < length xs then Some (xs ! i) else None)"

lemma elem_at_Some [mem_simps]: "i < length xs \<Longrightarrow> elem_at xs i = Some (xs ! i)"
  by (simp add: elem_at_def)

lemma those_Some_iff: "those xs = Some ys \<longleftrightarrow> xs = map Some ys"
  by (induction xs arbitrary: ys) (auto split: option.splits)

lemma those_map_total: "(\<And>x. x \<in> set xs \<Longrightarrow> \<exists>y. f x = Some y) \<Longrightarrow> \<exists>ys. those (map f xs) = Some ys"
  by (induction xs) fastforce+

text \<open>A loop over a list whose body can fail.\<close>

fun try_each :: "('a \<Rightarrow> 's \<Rightarrow> 's option) \<Rightarrow> 'a list \<Rightarrow> 's \<Rightarrow> 's option" where
  "try_each f [] s = Some s"
| "try_each f (x # xs) s = do { s \<leftarrow> f x s; try_each f xs s }"

lemma try_each_inv:
  "(\<And>x s. x \<in> set xs \<Longrightarrow> I s \<Longrightarrow> \<exists>s'. f x s = Some s' \<and> I s') \<Longrightarrow> I s \<Longrightarrow> \<exists>s'. try_each f xs s = Some s' \<and> I s'"
proof (induction xs arbitrary: s)
  case (Cons x xs)
  from Cons.prems(1) [of x s] Cons.prems(2) obtain s1 where "f x s = Some s1" "I s1" by auto
  with Cons.IH [of s1] Cons.prems(1) show ?case by auto
qed simp

end
