(* ===== verification/Ascii_Numbers.thy ===== *)
theory Ascii_Numbers
  imports Fix_Prelude
begin

text \<open>
  The ASCII number conversions of \<open>hffix::details\<close>: the unchecked parsers \<open>atoi\<close>, \<open>atou\<close>,
  \<open>atod\<close>, the validating parsers \<open>try_atoi\<close>, \<open>try_atou\<close>, \<open>try_atod\<close>, and the printers
  \<open>utoa_unchecked\<close>, \<open>itoa_unchecked\<close>, \<open>dtoa_unchecked\<close>, \<open>itoa_padded_unchecked\<close>.
  An integer type of the code is a word type \<open>'a word\<close>; a signed value is read with \<open>sint\<close>.
  A parser takes the bytes of its range \<open>[begin, end)\<close>; a printer returns the bytes it leaves
  at its buffer pointer, in buffer order (the code writes them reversed and calls
  \<open>std::reverse\<close> on the same range). A \<open>bool\<close> result with an out-parameter is an \<open>option\<close>.
\<close>

section \<open>Checksum\<close>

text \<open>The sum of \<open>[begin, end)\<close> modulo 256.\<close>

fun checksum_bytes :: "byte \<Rightarrow> byte list \<Rightarrow> byte" where
  "checksum_bytes acc [] = acc"
| "checksum_bytes acc (c # cs) = checksum_bytes (acc + c) cs"

section \<open>Parsers that do not validate\<close>

fun atoi_loop :: "'a::len word \<Rightarrow> byte list \<Rightarrow> 'a word" where
  "atoi_loop uval [] = uval"
| "atoi_loop uval (c # cs) = atoi_loop (uval * 10 + word_of_int (uint c - 48)) cs"

definition atoi :: "byte list \<Rightarrow> 'a::len word" where
  "atoi bs =
     (let isnegative = (case bs of c # _ \<Rightarrow> c = MINUS_CH | [] \<Rightarrow> False);
          uval = atoi_loop 0 (if isnegative then tl bs else bs)
      in if isnegative then 0 - uval else uval)"

fun atou_loop :: "'a::len word \<Rightarrow> byte list \<Rightarrow> 'a word" where
  "atou_loop val [] = val"
| "atou_loop val (c # cs) = atou_loop (val * 10 + word_of_int (sint c - 48)) cs"

definition atou :: "byte list \<Rightarrow> 'a::len word" where
  "atou bs = atou_loop 0 bs"

text \<open>\<open>atod_loop isdecimal m expo bs\<close>: the loop of \<open>atod\<close>, with its three variables.\<close>

fun atod_loop :: "bool \<Rightarrow> 'a::len word \<Rightarrow> 'a word \<Rightarrow> byte list \<Rightarrow> 'a word \<times> 'a word" where
  "atod_loop isdecimal m expo [] = (m, expo)"
| "atod_loop isdecimal m expo (c # cs) =
     (if c = DOT_CH then atod_loop True m expo cs
      else atod_loop isdecimal (m * 10 + word_of_int (uint c - 48))
             (if isdecimal then expo - 1 else expo) cs)"

definition atod :: "byte list \<Rightarrow> 'a::len word \<times> 'a word" where
  "atod bs =
     (let isnegative = (case bs of c # _ \<Rightarrow> c = MINUS_CH | [] \<Rightarrow> False);
          (m, expo) = atod_loop False 0 0 (if isnegative then tl bs else bs)
      in (if isnegative then 0 - m else m, expo))"

section \<open>Validating parsers\<close>

text \<open>The accumulation loop that \<open>try_atoi\<close> and \<open>try_atou\<close> share, up to the limit.\<close>

fun try_digits :: "'a::len word \<Rightarrow> 'a word \<Rightarrow> byte list \<Rightarrow> 'a word option" where
  "try_digits limit val [] = Some val"
| "try_digits limit val (c # cs) =
     (if c < ZERO_CH \<or> NINE_CH < c then None
      else let d = ucast (c - ZERO_CH) in
        if (limit - d) div 10 < val then None
        else try_digits limit (val * 10 + d) cs)"

definition max_pos :: "'a::len word" where
  "max_pos = mask (LENGTH('a) - 1)"

definition try_atoi :: "byte list \<Rightarrow> 'a::len word option" where
  "try_atoi bs =
     (case bs of [] \<Rightarrow> None
      | c # cs \<Rightarrow>
          let neg = (c = MINUS_CH); rest = (if neg then cs else bs) in
          if neg \<and> cs = [] then None
          else let limit = (if neg then max_pos + 1 else max_pos) in
            map_option (\<lambda>val. if neg then 0 - val else val) (try_digits limit 0 rest))"

definition try_atou :: "byte list \<Rightarrow> 'a::len word option" where
  "try_atou bs = (if bs = [] then None else try_digits (- 1) 0 bs)"

text \<open>The loop of \<open>try_atod\<close>: limit, \<open>seen_dot\<close>, \<open>seen_digit\<close>, \<open>m\<close>, \<open>e\<close>.\<close>

fun try_atod_loop ::
  "'a::len word \<Rightarrow> bool \<Rightarrow> bool \<Rightarrow> 'a word \<Rightarrow> 'a word \<Rightarrow> byte list \<Rightarrow> ('a word \<times> 'a word) option" where
  "try_atod_loop limit seen_dot seen_digit m e [] = (if seen_digit then Some (m, e) else None)"
| "try_atod_loop limit seen_dot seen_digit m e (c # cs) =
     (if c = DOT_CH then
        (if seen_dot then None else try_atod_loop limit True seen_digit m e cs)
      else if c < ZERO_CH \<or> NINE_CH < c then None
      else let d = ucast (c - ZERO_CH) in
        if (limit - d) div 10 < m then None
        else try_atod_loop limit seen_dot True (m * 10 + d) (if seen_dot then e - 1 else e) cs)"

definition try_atod :: "byte list \<Rightarrow> ('a::len word \<times> 'a word) option" where
  "try_atod bs =
     (case bs of [] \<Rightarrow> None
      | c # cs \<Rightarrow>
          let neg = (c = MINUS_CH); rest = (if neg then cs else bs) in
          if neg \<and> cs = [] then None
          else let limit = (if neg then max_pos + 1 else max_pos) in
            map_option (\<lambda>(m, e). (if neg then 0 - m else m, e))
              (try_atod_loop limit False False 0 0 rest))"

section \<open>Printers\<close>

text \<open>\<open>std::numeric_limits<Int_type>::digits10 + 2\<close>, for the widths the library is used with.\<close>

definition max_ascii_chars_int :: nat where "max_ascii_chars_int = 11"
definition max_ascii_chars_int64 :: nat where "max_ascii_chars_int64 = 20"

lemma two_le_word10: "(10 :: 'a::len word) \<noteq> 0 \<Longrightarrow> 2 \<le> unat (10 :: 'a word)"
proof -
  assume nz: "(10 :: 'a word) \<noteq> 0"
  have e: "unat (10 :: 'a word) = 10 mod 2 ^ LENGTH('a)"
    using unat_of_nat [where 'a = 'a, of 10] by simp
  have "even (2 ^ LENGTH('a) :: nat)" by simp
  then have "even (unat (10 :: 'a word))"
    unfolding e by (subst dvd_mod_iff) simp_all
  moreover have "unat (10 :: 'a word) \<noteq> 0" using nz by (metis unat_eq_zero)
  ultimately show ?thesis by presburger
qed

lemma word_div10_less [termination_simp]:
  "n div 10 \<noteq> 0 \<Longrightarrow> unat (n div (10 :: 'a::len word)) < unat n"
proof -
  assume nz: "n div (10 :: 'a word) \<noteq> 0"
  then have t: "(10 :: 'a word) \<noteq> 0" and n: "n \<noteq> 0"
    by (metis div_by_0, auto)
  from t have "2 \<le> unat (10 :: 'a word)" by (rule two_le_word10)
  moreover have "0 < unat n" using n by (metis gr0I unat_eq_zero)
  ultimately show ?thesis by (simp only: unat_div div_less_dividend)
qed

text \<open>Digits of a number, least significant first, as the \<open>do\<close>/\<open>while\<close> loops emit them.\<close>

function utoa_loop :: "'a::len word \<Rightarrow> byte list" where
  "utoa_loop number =
     (ZERO_CH + ucast (number mod 10)) #
     (if number div 10 \<noteq> 0 then utoa_loop (number div 10) else [])"
  by pat_completeness auto
termination
  by (relation "measure unat") (auto simp: word_div10_less)

declare utoa_loop.simps [simp del]

definition utoa_unchecked :: "'a::len word \<Rightarrow> byte list" where
  "utoa_unchecked number = rev (utoa_loop number)"

definition itoa_unchecked :: "'a::len word \<Rightarrow> byte list" where
  "itoa_unchecked number =
     (let isnegative = number <s 0;
          n = (if isnegative then 0 - number else number)
      in rev (utoa_loop n @ (if isnegative then [MINUS_CH] else [])))"

text \<open>
  \<open>dtoa_unchecked\<close>: the exponent is an \<open>int\<close>, so that its increments do not wrap (the code's
  do not either, except from \<open>INT_MAX\<close>, which is undefined behaviour there).
\<close>

function dtoa_loop :: "'a::len word \<Rightarrow> int \<Rightarrow> byte list" where
  "dtoa_loop m exponent =
     (ZERO_CH + ucast (m mod 10)) #
     (if exponent + 1 = 0 then [DOT_CH] else []) @
     (if 0 < m div 10 \<or> exponent + 1 < 1 then dtoa_loop (m div 10) (exponent + 1) else [])"
  by pat_completeness auto
termination
proof (relation "measures [\<lambda>(m, e). nat (1 - e), \<lambda>(m, e). unat m]")
  show "wf (measures [\<lambda>(m, e). nat (1 - e), \<lambda>(m :: 'a word, e). unat m])" by simp
next
  fix m :: "'a word" and exponent :: int
  assume c: "0 < m div 10 \<or> exponent + 1 < 1"
  show "((m div 10, exponent + 1), (m, exponent))
    \<in> measures [\<lambda>(m, e). nat (1 - e), \<lambda>(m, e). unat m]"
  proof (cases "exponent < 1")
    case True
    then show ?thesis by simp
  next
    case False
    with c have "m div 10 \<noteq> 0" by auto
    from word_div10_less [OF this] False show ?thesis by simp
  qed
qed

declare dtoa_loop.simps [simp del]

definition dtoa_unchecked :: "'a::len word \<Rightarrow> int \<Rightarrow> byte list" where
  "dtoa_unchecked mantissa exponent =
     (let isnegative = mantissa <s 0;
          m = (if isnegative then 0 - mantissa else mantissa)
      in rev (dtoa_loop m exponent @ (if isnegative then [MINUS_CH] else [])))"

text \<open>\<open>itoa_padded_unchecked (int x, char* b, char* e)\<close> with \<open>k = e - b\<close>: fills from the right,
  with the truncating \<open>%\<close> and \<open>/\<close> of C++.\<close>

fun itoa_padded_loop :: "nat \<Rightarrow> int \<Rightarrow> byte list" where
  "itoa_padded_loop 0 x = []"
| "itoa_padded_loop (Suc k) x = word_of_int (48 + x smod 10) # itoa_padded_loop k (x sdiv 10)"

definition itoa_padded_unchecked :: "int \<Rightarrow> nat \<Rightarrow> byte list" where
  "itoa_padded_unchecked x k = rev (itoa_padded_loop k x)"

end
