(* ===== verification/Number_Lemmas.thy ===== *)
theory Number_Lemmas
  imports Ascii_Numbers
begin

text \<open>
  Correctness of the number conversions: the validating parsers decide exactly the decimal
  numerals that fit the type (\<open>try_atou_eq\<close>, \<open>try_atoi_eq\<close>), the unchecked parsers compute
  the same value on them, the printers print decimal numerals (\<open>utoa_eq\<close>, \<open>itoa_eq\<close>,
  \<open>dtoa_eq\<close>), and parsing a printed number gives it back. The facts are for every integer
  type of at least 8 bits.
\<close>

section \<open>Small constants of a word type\<close>

lemma unat_of_nat_lt: "k < 2 ^ LENGTH('a::len) \<Longrightarrow> unat (of_nat k :: 'a word) = k"
  by (simp add: unat_of_nat take_bit_nat_eq_self)

lemma word_small:
  assumes "8 \<le> LENGTH('a::len)" "k < 256"
  shows "unat (of_nat k :: 'a word) = k"
proof -
  have "(2::nat) ^ 8 \<le> 2 ^ LENGTH('a)" using assms(1) by (rule power_increasing) simp
  with assms(2) have "k < 2 ^ LENGTH('a)" by simp
  then show ?thesis by (simp add: unat_of_nat)
qed

lemma take_bit_ten [simp]: "8 \<le> LENGTH('a::len) \<Longrightarrow> take_bit LENGTH('a) (10 :: nat) = 10"
  using word_small [where 'a = 'a, of 10] by simp

lemma unat_ten: "8 \<le> LENGTH('a::len) \<Longrightarrow> unat (10 :: 'a word) = 10"
  by simp

lemma unat_digit:
  assumes "8 \<le> LENGTH('a::len)" "is_digit c"
  shows "unat (ucast (c - ZERO_CH) :: 'a word) = digit_val c"
proof -
  have le: "ZERO_CH \<le> c" using assms(2) by (simp add: is_digit_def)
  have u: "unat (c - ZERO_CH) = digit_val c"
    using unat_sub [OF le] by (simp add: digit_val_def)
  have "unat (of_nat (unat (c - ZERO_CH)) :: 'a word) = unat (c - ZERO_CH)"
    by (rule word_small [OF assms(1)]) (use u digit_val_le [OF assms(2)] in linarith)
  moreover have "(of_nat (unat (c - ZERO_CH)) :: 'a word) = ucast (c - ZERO_CH)"
    by (rule of_nat_unat)
  ultimately show ?thesis using u by simp
qed

lemma not_is_digit_iff: "(c < ZERO_CH \<or> NINE_CH < c) \<longleftrightarrow> \<not> is_digit c"
  by (auto simp: is_digit_def not_le)

section \<open>One accumulation step\<close>

text \<open>
  The overflow test \<open>val > (limit - d) / 10\<close> is exact: it fails just when
  \<open>val * 10 + d\<close> exceeds the limit, and otherwise the step does not wrap.
\<close>

lemma overflow_test:
  assumes w: "8 \<le> LENGTH('a::len)" and d: "unat (d :: 'a word) \<le> 9" and l: "9 \<le> unat limit"
  shows "(limit - d) div 10 < val \<longleftrightarrow> unat limit < unat val * 10 + unat d"
proof -
  have "unat (limit - d) = unat limit - unat d"
    using d l by (intro unat_sub) (simp add: word_le_nat_alt)
  then have "(limit - d) div 10 < val \<longleftrightarrow> (unat limit - unat d) div 10 < unat val"
    using w by (simp add: word_less_nat_alt unat_div)
  also have "\<dots> \<longleftrightarrow> unat limit < unat val * 10 + unat d"
    using d l by auto
  finally show ?thesis .
qed

lemma step_value:
  assumes w: "8 \<le> LENGTH('a::len)" and b: "unat (val :: 'a word) * 10 + unat d \<le> unat (limit :: 'a word)"
  shows "unat (val * 10 + d) = unat val * 10 + unat d"
proof -
  have lt: "unat val * 10 + unat d < 2 ^ LENGTH('a)"
    using b unsigned_less [of limit] by (rule le_less_trans)
  then show ?thesis
    using w by (simp add: unat_word_ariths take_bit_eq_mod mod_simps)
qed

section \<open>The validating loop\<close>

lemma try_digits_eq:
  assumes w: "8 \<le> LENGTH('a::len)" and l: "9 \<le> unat (limit :: 'a word)"
  shows "unat val \<le> unat limit \<Longrightarrow> try_digits limit val cs =
    (if (\<forall>c \<in> set cs. is_digit c) \<and> dec_acc (unat val) cs \<le> unat limit
     then Some (of_nat (dec_acc (unat val) cs)) else None)"
proof (induction cs arbitrary: val)
  case Nil
  then show ?case by simp
next
  case (Cons c cs)
  show ?case
  proof (cases "is_digit c")
    case False
    then show ?thesis by (simp add: not_is_digit_iff)
  next
    case True
    let ?d = "ucast (c - ZERO_CH) :: 'a word"
    have d: "unat ?d = digit_val c" "digit_val c \<le> 9"
      using w True by (simp_all only: unat_digit digit_val_le)
    have t: "(limit - ?d) div 10 < val \<longleftrightarrow> unat limit < unat val * 10 + digit_val c"
      using overflow_test [OF w _ l, of ?d val] d by simp
    show ?thesis
    proof (cases "unat limit < unat val * 10 + digit_val c")
      case over: True
      then have "\<not> dec_acc (unat val * 10 + digit_val c) cs \<le> unat limit"
        using dec_acc_ge [of "unat val * 10 + digit_val c" cs] by linarith
      with over True t show ?thesis by (simp add: Let_def)
    next
      case False
      then have s: "unat (val * 10 + ?d) = unat val * 10 + digit_val c"
        using step_value [OF w, of val ?d limit] d by simp
      then have "try_digits limit (val * 10 + ?d) cs =
        (if (\<forall>c \<in> set cs. is_digit c) \<and> dec_acc (unat val * 10 + digit_val c) cs \<le> unat limit
         then Some (of_nat (dec_acc (unat val * 10 + digit_val c) cs)) else None)"
        using Cons.IH [of "val * 10 + ?d"] False by simp
      with False True t show ?thesis by (simp add: Let_def not_is_digit_iff)
    qed
  qed
qed

section \<open>Unsigned numbers\<close>

lemma unat_max: "unat (- 1 :: 'a::len word) = 2 ^ LENGTH('a) - 1"
  by (simp add: unsigned_minus_1_eq_mask mask_eq_exp_minus_1)

lemma nine_le_max: "8 \<le> LENGTH('a::len) \<Longrightarrow> 255 \<le> (2 ^ LENGTH('a) - 1 :: nat)"
proof -
  assume "8 \<le> LENGTH('a)"
  then have "(2::nat) ^ 8 \<le> 2 ^ LENGTH('a)" by (rule power_increasing) simp
  then show ?thesis by simp
qed

theorem try_atou_eq:
  assumes w: "8 \<le> LENGTH('a::len)"
  shows "(try_atou bs :: 'a word option) =
    (if bs \<noteq> [] \<and> (\<forall>c \<in> set bs. is_digit c) \<and> dec_val bs < 2 ^ LENGTH('a)
     then Some (of_nat (dec_val bs)) else None)"
proof -
  have "9 \<le> unat (- 1 :: 'a word)"
    using nine_le_max [OF w] by (simp add: unat_max)
  moreover have "dec_val bs \<le> unat (- 1 :: 'a word) \<longleftrightarrow> dec_val bs < 2 ^ LENGTH('a)"
    by (simp only: unat_max) (use nine_le_max [OF w] in linarith)
  ultimately show ?thesis
    using try_digits_eq [OF w, of "- 1" 0 bs] by (simp add: try_atou_def)
qed

section \<open>Signed numbers\<close>

lemma sint_unat:
  "sint (w :: 'a::len word) =
     (if unat w < 2 ^ (LENGTH('a) - 1) then int (unat w) else int (unat w) - 2 ^ LENGTH('a))"
proof -
  obtain n where n: "LENGTH('a) = Suc n" using len_gt_0 [where 'a = 'a] by (cases "LENGTH('a)") auto
  have lt: "uint w < 2 ^ Suc n" using unsigned_less [of w] n by simp
  have "sint w = take_bit (Suc n) (uint w) - 2 ^ Suc n * of_bool (bit (uint w) n)"
    using n by (simp add: signed_take_bit_eq_take_bit_minus sint_uint)
  moreover have "take_bit (Suc n) (uint w) = uint w"
    using lt by (simp add: take_bit_int_eq_self)
  moreover have "bit (uint w) n \<longleftrightarrow> 2 ^ n \<le> uint w"
  proof (cases "2 ^ n \<le> uint w")
    case True
    then have "uint w div 2 ^ n = 1" using lt
      by (intro int_div_pos_eq [where r = "uint w - 2 ^ n"]) auto
    with True show ?thesis by (simp add: bit_iff_odd)
  next
    case False
    then show ?thesis by (simp add: bit_iff_odd div_pos_pos_trivial)
  qed
  moreover have "2 ^ n \<le> uint w \<longleftrightarrow> \<not> unat w < 2 ^ n"
  proof -
    have "uint w = int (unat w)" "(2::int) ^ n = int (2 ^ n)" by simp_all
    then show ?thesis by (simp only: of_nat_le_iff not_less)
  qed
  ultimately show ?thesis using n by simp
qed

lemma sint_word_of_int:
  assumes "- (2 ^ (LENGTH('a::len) - 1)) \<le> k" "k < 2 ^ (LENGTH('a) - 1)"
  shows "sint (word_of_int k :: 'a word) = k"
  using assms by (simp add: sint_sbintrunc' signed_take_bit_int_eq_self)

lemma unat_max_pos: "unat (max_pos :: 'a::len word) = 2 ^ (LENGTH('a) - 1) - 1"
proof -
  have "(2::nat) ^ (LENGTH('a) - 1) < 2 ^ LENGTH('a)"
    by (rule power_strict_increasing) (simp_all add: len_gt_0)
  then have "(2::nat) ^ (LENGTH('a) - 1) - 1 < 2 ^ LENGTH('a)" by (rule less_imp_diff_less)
  moreover have "(max_pos :: 'a word) = of_nat (2 ^ (LENGTH('a) - 1) - 1)"
    by (simp add: max_pos_def mask_eq_exp_minus_1)
  ultimately show ?thesis by (metis unat_of_nat_lt)
qed

lemma unat_max_neg: "unat (max_pos + 1 :: 'a::len word) = 2 ^ (LENGTH('a) - 1)"
proof -
  have "(2::nat) ^ (LENGTH('a) - 1) < 2 ^ LENGTH('a)"
    by (rule power_strict_increasing) (simp_all add: len_gt_0)
  moreover have "(max_pos + 1 :: 'a word) = of_nat (2 ^ (LENGTH('a) - 1))"
    by (simp add: max_pos_def mask_eq_exp_minus_1)
  ultimately show ?thesis by (simp only: unat_of_nat_lt)
qed

lemma half_range: "8 \<le> LENGTH('a::len) \<Longrightarrow> 128 \<le> (2 ^ (LENGTH('a) - 1) :: nat)"
proof -
  assume "8 \<le> LENGTH('a)"
  then have "(2::nat) ^ 7 \<le> 2 ^ (LENGTH('a) - 1)" by (intro power_increasing) auto
  then show ?thesis by simp
qed

text \<open>Signed numerals: digits after an optional minus sign, and the integer they denote.\<close>

definition numeral_digits :: "byte list \<Rightarrow> byte list" where
  "numeral_digits bs = (case bs of c # cs \<Rightarrow> if c = MINUS_CH then cs else bs | [] \<Rightarrow> [])"

definition is_numeral :: "byte list \<Rightarrow> bool" where
  "is_numeral bs \<longleftrightarrow> numeral_digits bs \<noteq> [] \<and> (\<forall>c \<in> set (numeral_digits bs). is_digit c)"

definition numeral_val :: "byte list \<Rightarrow> int" where
  "numeral_val bs =
     (if bs \<noteq> [] \<and> hd bs = MINUS_CH then - int (dec_val (tl bs)) else int (dec_val bs))"

definition in_range :: "nat \<Rightarrow> int \<Rightarrow> bool" where
  "in_range w k \<longleftrightarrow> - (2 ^ (w - 1)) \<le> k \<and> k < 2 ^ (w - 1)"

theorem try_atoi_eq:
  assumes w: "8 \<le> LENGTH('a::len)"
  shows "(try_atoi bs :: 'a word option) =
    (if is_numeral bs \<and> in_range LENGTH('a) (numeral_val bs)
     then Some (word_of_int (numeral_val bs)) else None)"
proof (cases bs)
  case Nil
  then show ?thesis by (simp add: try_atoi_def is_numeral_def numeral_digits_def)
next
  case (Cons c cs)
  have hr: "128 \<le> (2 ^ (LENGTH('a) - 1) :: nat)" using w by (rule half_range)
  show ?thesis
  proof (cases "c = MINUS_CH")
    case True
    have "9 \<le> unat (max_pos + 1 :: 'a word)" using hr by (simp add: unat_max_neg)
    from try_digits_eq [OF w this, of 0 cs]
    have "try_atoi bs = (if cs \<noteq> [] \<and> (\<forall>c \<in> set cs. is_digit c) \<and> dec_val cs \<le> 2 ^ (LENGTH('a) - 1)
      then Some (- of_nat (dec_val cs) :: 'a word) else None)"
      using Cons True by (simp add: try_atoi_def Let_def unat_max_neg)
    moreover have "dec_val cs \<le> 2 ^ (LENGTH('a) - 1) \<longleftrightarrow> in_range LENGTH('a) (- int (dec_val cs))"
    proof -
      have "dec_val cs \<le> 2 ^ (LENGTH('a) - 1) \<longleftrightarrow> int (dec_val cs) \<le> 2 ^ (LENGTH('a) - 1)"
        by (metis of_nat_le_iff of_nat_numeral of_nat_power)
      moreover have "- int (dec_val cs) < 2 ^ (LENGTH('a) - 1)"
        by (rule le_less_trans [where y = 0]) simp_all
      ultimately show ?thesis unfolding in_range_def by linarith
    qed
    ultimately show ?thesis
      using Cons True by (simp add: is_numeral_def numeral_digits_def numeral_val_def)
  next
    case False
    have "9 \<le> unat (max_pos :: 'a word)" using hr by (simp add: unat_max_pos)
    from try_digits_eq [OF w this, of 0 bs]
    have "try_atoi bs = (if (\<forall>c \<in> set bs. is_digit c) \<and> dec_val bs \<le> 2 ^ (LENGTH('a) - 1) - 1
      then Some (of_nat (dec_val bs) :: 'a word) else None)"
      using Cons False by (simp add: try_atoi_def Let_def unat_max_pos)
    moreover have "dec_val bs \<le> 2 ^ (LENGTH('a) - 1) - 1 \<longleftrightarrow> in_range LENGTH('a) (int (dec_val bs))"
    proof -
      have "dec_val bs \<le> 2 ^ (LENGTH('a) - 1) - 1 \<longleftrightarrow> dec_val bs < 2 ^ (LENGTH('a) - 1)"
        using hr by linarith
      also have "\<dots> \<longleftrightarrow> int (dec_val bs) < 2 ^ (LENGTH('a) - 1)"
        by (metis of_nat_less_iff of_nat_numeral of_nat_power)
      moreover have "- (2 ^ (LENGTH('a) - 1)) \<le> int (dec_val bs)"
        by (rule order_trans [where y = 0]) simp_all
      ultimately show ?thesis unfolding in_range_def by blast
    qed
    ultimately show ?thesis
      using Cons False by (simp add: is_numeral_def numeral_digits_def numeral_val_def)
  qed
qed

section \<open>Printing and parsing integers\<close>

lemma digit_byte_word:
  assumes w: "8 \<le> LENGTH('a::len)"
  shows "ZERO_CH + ucast ((n :: 'a word) mod 10) = of_nat (48 + unat n mod 10)"
proof -
  have "(ucast (n mod 10) :: byte) = of_nat (unat (n mod 10))" by (rule of_nat_unat [symmetric])
  also have "unat (n mod 10) = unat n mod 10" using w by (simp add: unat_mod)
  finally show ?thesis by simp
qed

lemma div10_eq_0_iff:
  assumes w: "8 \<le> LENGTH('a::len)"
  shows "(n :: 'a word) div 10 = 0 \<longleftrightarrow> unat n < 10"
proof -
  have "n div 10 = 0 \<longleftrightarrow> unat (n div 10) = 0" by (simp only: unat_eq_zero)
  also have "unat (n div 10) = unat n div 10" using w by (simp add: unat_div)
  finally show ?thesis by auto
qed

lemma unat_div10: "8 \<le> LENGTH('a::len) \<Longrightarrow> unat ((n :: 'a word) div 10) = unat n div 10"
  by (simp add: unat_div)

lemma utoa_loop_eq:
  assumes w: "8 \<le> LENGTH('a::len)"
  shows "utoa_loop (n :: 'a word) = rev (dec_digits (unat n))"
proof (induction n rule: utoa_loop.induct)
  case (1 n)
  show ?case
  proof (cases "n div 10 = 0")
    case True
    then show ?thesis using w
      by (subst utoa_loop.simps, subst dec_digits.simps)
         (simp add: div10_eq_0_iff digit_byte_word)
  next
    case False
    then have "utoa_loop (n div 10) = rev (dec_digits (unat n div 10))"
      using "1.IH" w by (simp add: unat_div10)
    with False w show ?thesis
      by (subst utoa_loop.simps, subst dec_digits.simps)
         (simp add: div10_eq_0_iff digit_byte_word)
  qed
qed

theorem utoa_eq: "8 \<le> LENGTH('a::len) \<Longrightarrow> utoa_unchecked (n :: 'a word) = dec_digits (unat n)"
  by (simp add: utoa_unchecked_def utoa_loop_eq)

definition int_digits :: "int \<Rightarrow> byte list" where
  "int_digits k = (if k < 0 then [MINUS_CH] else []) @ dec_digits (nat \<bar>k\<bar>)"

lemma unat_neg_word:
  assumes "(n :: 'a::len word) <s 0"
  shows "unat (0 - n) = nat (- sint n)"
proof -
  have s: "sint n = int (unat n) - 2 ^ LENGTH('a)" "sint n < 0"
    using assms by (simp_all add: word_sless_alt sint_unat split: if_splits)
  have lt: "unat n < 2 ^ LENGTH('a)" by (rule unsigned_less)
  have pos: "0 < unat n" using s by (cases "unat n = 0") (simp_all add: sint_unat)
  have "(of_nat (2 ^ LENGTH('a) - unat n) :: 'a word) = 0 - n"
    using lt by (simp only: of_nat_diff less_imp_le of_nat_power of_nat_numeral word_exp_length_eq_0 of_nat_unat ucast_id)
  moreover have "unat (of_nat (2 ^ LENGTH('a) - unat n) :: 'a word) = 2 ^ LENGTH('a) - unat n"
    using pos by (intro unat_of_nat_lt) simp
  moreover have "nat (- sint n) = 2 ^ LENGTH('a) - unat n"
  proof -
    have "- sint n = int (2 ^ LENGTH('a) - unat n)"
      using s(1) lt by (simp only: of_nat_diff less_imp_le of_nat_power of_nat_numeral)
    then show ?thesis by simp
  qed
  ultimately show ?thesis by metis
qed

lemma unat_nonneg_word: "\<not> (n :: 'a::len word) <s 0 \<Longrightarrow> unat n = nat (sint n)"
proof -
  assume "\<not> n <s 0"
  then have nn: "0 \<le> sint n" by (simp add: word_sless_alt)
  have "int (unat n) < int (2 ^ LENGTH('a))"
    by (simp only: of_nat_less_iff unsigned_less)
  then have "int (unat n) - 2 ^ LENGTH('a) < 0" by (simp only: of_nat_power of_nat_numeral)
  with nn have "sint n = int (unat n)" by (metis sint_unat not_less)
  then show ?thesis by simp
qed

theorem itoa_eq:
  assumes w: "8 \<le> LENGTH('a::len)"
  shows "itoa_unchecked (n :: 'a word) = int_digits (sint n)"
proof (cases "n <s 0")
  case True
  moreover from this have "sint n < 0" by (simp add: word_sless_alt)
  ultimately show ?thesis using unat_neg_word [OF True] w
    by (simp add: itoa_unchecked_def utoa_loop_eq int_digits_def)
next
  case False
  moreover from this have "0 \<le> sint n" by (simp add: word_sless_alt)
  ultimately show ?thesis using unat_nonneg_word [OF False] w
    by (simp add: itoa_unchecked_def utoa_loop_eq int_digits_def)
qed

lemma dec_digits_head: "hd (dec_digits n) \<noteq> MINUS_CH"
proof -
  have "hd (dec_digits n) \<in> set (dec_digits n)" by simp
  then show ?thesis by (blast dest: dec_digits_digit digit_not_special)
qed

lemma is_numeral_int_digits: "is_numeral (int_digits k)"
proof (cases "k < 0")
  case True
  then show ?thesis
    by (auto simp: is_numeral_def numeral_digits_def int_digits_def dec_digits_digit)
next
  case False
  then have "numeral_digits (int_digits k) = dec_digits (nat k)"
    using dec_digits_head [of "nat k"]
    by (cases "dec_digits (nat k)") (simp_all add: numeral_digits_def int_digits_def)
  then show ?thesis by (simp add: is_numeral_def dec_digits_digit)
qed

lemma numeral_val_int_digits: "numeral_val (int_digits k) = k"
  using dec_digits_head [of "nat \<bar>k\<bar>"]
  by (auto simp: numeral_val_def int_digits_def dec_val_digits)

lemma sint_in_range: "in_range LENGTH('a::len) (sint (n :: 'a word))"
  using sint_lt [of n] sint_ge [of n] by (simp add: in_range_def)

theorem utoa_roundtrip:
  "8 \<le> LENGTH('a::len) \<Longrightarrow> try_atou (utoa_unchecked (n :: 'a word)) = Some n"
  by (simp add: try_atou_eq utoa_eq dec_val_digits dec_digits_digit unsigned_less)

theorem itoa_roundtrip:
  "8 \<le> LENGTH('a::len) \<Longrightarrow> try_atoi (itoa_unchecked (n :: 'a word)) = Some n"
  by (simp add: try_atoi_eq itoa_eq is_numeral_int_digits numeral_val_int_digits sint_in_range)

section \<open>The unchecked parsers on validated input\<close>

lemma digit_int:
  assumes "is_digit c"
  shows "uint c - 48 = int (digit_val c)" "sint c - 48 = int (digit_val c)"
proof -
  have u: "48 \<le> unat c" "unat c \<le> 57" using assms by (simp_all only: is_digit_unat)
  have "uint c = int (unat c)" by simp
  with u show "uint c - 48 = int (digit_val c)" unfolding digit_val_def by linarith
  have "sint c = int (unat c)" using u by (simp only: sint_unat) simp
  with u show "sint c - 48 = int (digit_val c)" unfolding digit_val_def by linarith
qed

lemma word_digit [digit_simps]:
  assumes "is_digit c"
  shows "(ucast c - 48 :: 'a::len word) = of_nat (digit_val c)"
    and "(scast c - 48 :: 'a::len word) = of_nat (digit_val c)"
proof -
  have "(ucast c - 48 :: 'a word) = word_of_int (uint c - 48)" by simp
  then show "(ucast c - 48 :: 'a word) = of_nat (digit_val c)"
    by (simp only: digit_int [OF assms] of_int_of_nat_eq)
  have "(scast c - 48 :: 'a word) = word_of_int (sint c - 48)" by simp
  then show "(scast c - 48 :: 'a word) = of_nat (digit_val c)"
    by (simp only: digit_int [OF assms] of_int_of_nat_eq)
qed

lemma atoi_loop_eq:
  "\<forall>c \<in> set cs. is_digit c \<Longrightarrow> atoi_loop (of_nat a :: 'a::len word) cs = of_nat (dec_acc a cs)"
proof (induction cs arbitrary: a)
  case Nil
  show ?case by simp
next
  case (Cons c cs)
  then show ?case using Cons.IH [of "a * 10 + digit_val c"] by (simp add: digit_simps)
qed

lemma atou_loop_eq:
  "\<forall>c \<in> set cs. is_digit c \<Longrightarrow> atou_loop (of_nat a :: 'a::len word) cs = of_nat (dec_acc a cs)"
proof (induction cs arbitrary: a)
  case Nil
  show ?case by simp
next
  case (Cons c cs)
  then show ?case using Cons.IH [of "a * 10 + digit_val c"] by (simp add: digit_simps)
qed

lemma atou_eq: "\<forall>c \<in> set cs. is_digit c \<Longrightarrow> atou cs = (of_nat (dec_val cs) :: 'a::len word)"
  using atou_loop_eq [of cs 0] by (simp add: atou_def)

lemma atoi_eq: "is_numeral bs \<Longrightarrow> atoi bs = (word_of_int (numeral_val bs) :: 'a::len word)"
proof (cases bs)
  case (Cons c cs)
  assume "is_numeral bs"
  with Cons show ?thesis
    using atoi_loop_eq [where 'a = 'a, of cs 0] atoi_loop_eq [where 'a = 'a, of bs 0]
    by (auto simp: is_numeral_def numeral_digits_def numeral_val_def atoi_def
        split: if_splits)
qed (simp add: is_numeral_def numeral_digits_def)

section \<open>Decimals\<close>

text \<open>\<open>low_digits k n\<close>: exactly the \<open>k\<close> low decimal digits of \<open>n\<close>, most significant first.\<close>

fun low_digits :: "nat \<Rightarrow> nat \<Rightarrow> byte list" where
  "low_digits 0 n = []"
| "low_digits (Suc k) n = low_digits k (n div 10) @ [of_nat (48 + n mod 10)]"

lemma low_digits_length [simp]: "length (low_digits k n) = k"
  by (induction k n rule: low_digits.induct) auto

lemma low_digits_digit: "c \<in> set (low_digits k n) \<Longrightarrow> is_digit c"
  by (induction k n rule: low_digits.induct) (auto simp: digit_byte [OF mod_less_divisor, simplified])

lemma dec_acc_low_digits: "dec_acc a (low_digits k n) = a * 10 ^ k + n mod 10 ^ k"
proof (induction k n arbitrary: a rule: low_digits.induct)
  case (1 n)
  show ?case by simp
next
  case (2 k n)
  have "n mod 10 ^ Suc k = n div 10 mod 10 ^ k * 10 + n mod 10"
    by (simp add: mod_mult2_eq)
  moreover have "digit_val (of_nat (48 + n mod 10)) = n mod 10"
    by (rule digit_byte) simp
  ultimately show ?case using "2" by (simp add: algebra_simps)
qed

text \<open>The text of \<open>m * 10 ^ e\<close> for \<open>e \<le> 0\<close>.\<close>

definition decimal_digits :: "nat \<Rightarrow> nat \<Rightarrow> byte list" where
  "decimal_digits m k =
     dec_digits (m div 10 ^ k) @ (if k = 0 then [] else DOT_CH # low_digits k m)"

lemma dtoa_loop_nonneg:
  assumes w: "8 \<le> LENGTH('a::len)"
  shows "0 \<le> e \<Longrightarrow> dtoa_loop (m :: 'a word) e = rev (dec_digits (unat m))"
proof (induction m e rule: dtoa_loop.induct)
  case (1 m e)
  show ?case
  proof (cases "m div 10 = 0")
    case True
    then have "unat m < 10" using w by (simp add: div10_eq_0_iff)
    then show ?thesis using w "1.prems"
      by (subst dtoa_loop.simps, subst dec_digits.simps) (simp add: True digit_byte_word)
  next
    case False
    then have "0 < m div 10" by (simp add: word_greater_zero_iff)
    then have "dtoa_loop (m div 10) (e + 1) = rev (dec_digits (unat m div 10))"
      using "1.IH" "1.prems" w by (simp add: unat_div10)
    with False \<open>0 < m div 10\<close> w "1.prems" show ?thesis
      by (subst dtoa_loop.simps, subst dec_digits.simps)
         (simp add: div10_eq_0_iff digit_byte_word)
  qed
qed

lemma dtoa_loop_neg:
  assumes w: "8 \<le> LENGTH('a::len)"
  shows "dtoa_loop (m :: 'a word) (- int k) = rev (decimal_digits (unat m) k)"
proof (induction k arbitrary: m)
  case 0
  then show ?case using dtoa_loop_nonneg [OF w, of 0 m] by (simp add: decimal_digits_def)
next
  case (Suc k)
  have step: "dtoa_loop m (- int (Suc k)) =
    of_nat (48 + unat m mod 10) # (if k = 0 then [DOT_CH] else []) @ dtoa_loop (m div 10) (- int k)"
    using w by (subst dtoa_loop.simps) (simp add: digit_byte_word)
  have d: "unat m div 10 ^ Suc k = unat m div 10 div 10 ^ k" by (simp add: div_mult2_eq)
  show ?case
    unfolding step using Suc [of "m div 10"] w d
    by (simp add: decimal_digits_def unat_div10 del: power_Suc)
qed

theorem dtoa_eq:
  assumes w: "8 \<le> LENGTH('a::len)"
  shows "dtoa_unchecked (m :: 'a word) (- int k) =
    (if sint m < 0 then [MINUS_CH] else []) @ decimal_digits (nat \<bar>sint m\<bar>) k"
proof (cases "m <s 0")
  case True
  moreover from this have "sint m < 0" by (simp add: word_sless_alt)
  ultimately show ?thesis using unat_neg_word [OF True] w
    by (simp add: dtoa_unchecked_def dtoa_loop_neg)
next
  case False
  moreover from this have "0 \<le> sint m" by (simp add: word_sless_alt)
  ultimately show ?thesis using unat_nonneg_word [OF False] w
    by (simp add: dtoa_unchecked_def dtoa_loop_neg)
qed

text \<open>A positive exponent is not printed: the text is that of the mantissa.\<close>

lemma dtoa_positive:
  assumes w: "8 \<le> LENGTH('a::len)" and e: "0 \<le> e"
  shows "dtoa_unchecked (m :: 'a word) e = itoa_unchecked m"
proof -
  have "dtoa_unchecked m e = dtoa_unchecked m (- int 0)"
    using dtoa_loop_nonneg [OF w e] dtoa_loop_nonneg [OF w order_refl] by (simp add: dtoa_unchecked_def)
  also have "\<dots> = itoa_unchecked m"
    unfolding dtoa_eq [OF w] itoa_eq [OF w] by (simp add: int_digits_def decimal_digits_def)
  finally show ?thesis .
qed

lemma decimal_digits_length:
  "length (decimal_digits m k) = length (dec_digits (m div 10 ^ k)) + (if k = 0 then 0 else Suc k)"
  by (simp add: decimal_digits_def)

text \<open>The validating decimal loop over a run of digits that stays within the limit.\<close>

lemma try_atod_loop_digits:
  assumes w: "8 \<le> LENGTH('a::len)" and l: "9 \<le> unat (limit :: 'a word)"
  shows "\<forall>c \<in> set cs. is_digit c \<Longrightarrow> dec_acc (unat m) cs \<le> unat limit \<Longrightarrow>
    try_atod_loop limit dot dig m e (cs @ rest) =
    try_atod_loop limit dot (dig \<or> cs \<noteq> []) (of_nat (dec_acc (unat m) cs))
      (if dot then e - of_nat (length cs) else e) rest"
proof (induction cs arbitrary: m e dig)
  case Nil
  then show ?case by simp
next
  case (Cons c cs)
  let ?d = "ucast (c - ZERO_CH) :: 'a word"
  have c: "is_digit c" using Cons.prems by simp
  then have d: "unat ?d = digit_val c" "digit_val c \<le> 9"
    using w by (simp_all only: unat_digit digit_val_le)
  have "unat m * 10 + digit_val c \<le> unat limit"
    using Cons.prems(2) dec_acc_ge [of "unat m * 10 + digit_val c" cs] by simp
  moreover from this have s: "unat (m * 10 + ?d) = unat m * 10 + digit_val c"
    using step_value [OF w, of m ?d limit] d by simp
  moreover have "(limit - ?d) div 10 < m \<longleftrightarrow> unat limit < unat m * 10 + digit_val c"
    using overflow_test [OF w _ l, of ?d m] d by simp
  moreover have "try_atod_loop limit dot True (m * 10 + ?d) (if dot then e - 1 else e) (cs @ rest) =
    try_atod_loop limit dot True (of_nat (dec_acc (unat m * 10 + digit_val c) cs))
      (if dot then e - of_nat (length (c # cs)) else e) rest"
    using Cons.IH [of "m * 10 + ?d" True "if dot then e - 1 else e"] Cons.prems s
    by (simp add: algebra_simps)
  ultimately show ?case
    using c digit_not_special [OF c] by (simp add: Let_def not_is_digit_iff)
qed

lemma try_atod_loop_decimal:
  assumes w: "8 \<le> LENGTH('a::len)" and l: "9 \<le> unat (limit :: 'a word)" and m: "m \<le> unat limit"
  shows "try_atod_loop limit False False 0 0 (decimal_digits m k) = Some (of_nat m, - of_nat k)"
proof -
  have ip: "m div 10 ^ k \<le> unat limit" using div_le_dividend [of m "10 ^ k"] m by linarith
  have intp: "try_atod_loop limit False False 0 0 (dec_digits (m div 10 ^ k) @ rest) =
    try_atod_loop limit False True (of_nat (m div 10 ^ k)) 0 rest" for rest
    using try_atod_loop_digits [OF w l, of "dec_digits (m div 10 ^ k)" 0 False False 0 rest] ip
    by (simp add: dec_digits_digit dec_val_digits)
  show ?thesis
  proof (cases "k = 0")
    case True
    then show ?thesis using intp [of "[]"] by (simp add: decimal_digits_def)
  next
    case False
    have u: "unat (of_nat (m div 10 ^ k) :: 'a word) = m div 10 ^ k"
    proof (rule unat_of_nat_lt)
      have "unat limit < 2 ^ LENGTH('a)" by (rule unsigned_less)
      with ip show "m div 10 ^ k < 2 ^ LENGTH('a)" by linarith
    qed
    have v: "dec_acc (m div 10 ^ k) (low_digits k m) = m"
      by (simp only: dec_acc_low_digits div_mult_mod_eq)
    have "try_atod_loop limit True True (of_nat (m div 10 ^ k)) 0 (low_digits k m) =
      Some (of_nat m, - of_nat k)"
      using try_atod_loop_digits [OF w l, of "low_digits k m" "of_nat (m div 10 ^ k)" True True 0 "[]"]
        u v m by (simp add: low_digits_digit)
    with False intp [of "DOT_CH # low_digits k m"] show ?thesis
      by (simp add: decimal_digits_def)
  qed
qed

lemma decimal_digits_head: "decimal_digits m k \<noteq> []" "hd (decimal_digits m k) \<noteq> MINUS_CH"
  using dec_digits_head [of "m div 10 ^ k"] by (simp_all add: decimal_digits_def)

theorem dtoa_roundtrip:
  assumes w: "8 \<le> LENGTH('a::len)"
  shows "try_atod (dtoa_unchecked (m :: 'a word) (- int k)) = Some (m, - of_nat k)"
proof -
  have hr: "128 \<le> (2 ^ (LENGTH('a) - 1) :: nat)" using w by (rule half_range)
  have r: "- (2 ^ (LENGTH('a) - 1)) \<le> sint m" "sint m < 2 ^ (LENGTH('a) - 1)"
    using sint_in_range [of m] by (simp_all add: in_range_def)
  let ?ds = "decimal_digits (nat \<bar>sint m\<bar>) k"
  show ?thesis
  proof (cases "sint m < 0")
    case True
    have b: "nat \<bar>sint m\<bar> \<le> unat (max_pos + 1 :: 'a word)"
      using r True by (simp add: unat_max_neg nat_le_iff)
    have l: "9 \<le> unat (max_pos + 1 :: 'a word)" using hr by (simp add: unat_max_neg)
    have "try_atod (MINUS_CH # ?ds) = Some (- of_nat (nat \<bar>sint m\<bar>) :: 'a word, - of_nat k)"
      using try_atod_loop_decimal [OF w l b, of k] decimal_digits_head
      by (simp add: try_atod_def Let_def)
    moreover have "(- of_nat (nat \<bar>sint m\<bar>) :: 'a word) = m" using True by simp
    ultimately show ?thesis using True by (simp add: dtoa_eq [OF w])
  next
    case False
    have b: "nat \<bar>sint m\<bar> \<le> unat (max_pos :: 'a word)"
      using r False by (simp add: unat_max_pos nat_le_iff of_nat_diff)
    have l: "9 \<le> unat (max_pos :: 'a word)" using hr by (simp add: unat_max_pos)
    have "try_atod ?ds = Some (of_nat (nat \<bar>sint m\<bar>) :: 'a word, - of_nat k)"
      using try_atod_loop_decimal [OF w l b, of k] decimal_digits_head [of "nat \<bar>sint m\<bar>" k]
      by (cases ?ds) (simp_all add: try_atod_def Let_def)
    moreover have "(of_nat (nat \<bar>sint m\<bar>) :: 'a word) = m" using False by simp
    ultimately show ?thesis using False by (simp add: dtoa_eq [OF w])
  qed
qed

text \<open>With the exponent as the code has it: kept when it is not positive, else lost.\<close>

lemma dtoa_exponent:
  assumes w: "8 \<le> LENGTH('a::len)"
  shows "sint (e :: 'a word) \<le> 0 \<Longrightarrow> try_atod (dtoa_unchecked (m :: 'a word) (sint e)) = Some (m, e)"
    and "0 \<le> sint e \<Longrightarrow> dtoa_unchecked m (sint e) = itoa_unchecked m \<and> try_atod (itoa_unchecked m) = Some (m, 0)"
proof -
  show "try_atod (dtoa_unchecked m (sint e)) = Some (m, e)" if "sint e \<le> 0"
  proof -
    have e: "sint e = - int (nat (- sint e))" using that by simp
    have "- of_nat (nat (- sint e)) = e" using that by simp
    with dtoa_roundtrip [OF w, of m "nat (- sint e)"] e show ?thesis by metis
  qed
  show "dtoa_unchecked m (sint e) = itoa_unchecked m \<and> try_atod (itoa_unchecked m) = Some (m, 0)" if "0 \<le> sint e"
    using dtoa_positive [OF w that] dtoa_roundtrip [OF w, of m 0] dtoa_positive [OF w order_refl, of m] by simp
qed

section \<open>Fixed-width fields\<close>

lemma itoa_padded_eq: "itoa_padded_unchecked (int n) k = low_digits k n"
proof -
  have "itoa_padded_loop k (int n) = rev (low_digits k n)"
  proof (induction k arbitrary: n)
    case (Suc k)
    have "int n smod 10 = int (n mod 10)" "int n sdiv 10 = int (n div 10)"
      by (cases "n = 0"; simp add: signed_modulo_int_def signed_divide_int_def zdiv_int zmod_int)+
    then show ?case using Suc [of "n div 10"] by simp
  qed simp
  then show ?thesis by (simp add: itoa_padded_unchecked_def)
qed

lemma itoa_padded_length [simp]: "length (itoa_padded_unchecked x k) = k"
proof -
  have "length (itoa_padded_loop k x) = k" by (induction k x rule: itoa_padded_loop.induct) auto
  then show ?thesis by (simp add: itoa_padded_unchecked_def)
qed

end
