(* ===== verification/Swar.thy ===== *)
theory Swar
  imports Number_Lemmas
begin

text \<open>
  The digit parsers that work on several bytes at once: \<open>parse_two_digits\<close>,
  \<open>parse_four_digits\<close> and \<open>parse_eight_digits\<close>, the last two by masks, shifts and multiplications
  of a little-endian machine word (SIMD within a register). On digits they compute the decimal
  value of their bytes. They read a fixed number of bytes, and a read behind the end of the bytes
  they are given is \<open>None\<close>; the callers test the length first.
\<close>

unbundle bit_operations_syntax

section \<open>The parsers\<close>

definition parse_two_digits :: "byte list \<Rightarrow> u32 option" where
  "parse_two_digits p = do {
     tens \<leftarrow> rd p 0;
     ones \<leftarrow> rd p 1;
     Some (word_of_int (sint tens - 48) * 10 + word_of_int (sint ones - 48))
   }"

text \<open>\<open>std::memcpy(&v, p, n)\<close> on a little-endian machine.\<close>

fun le_word :: "byte list \<Rightarrow> 'a::len word" where
  "le_word [] = 0"
| "le_word (b # bs) = ucast b + 256 * le_word bs"

definition parse_four_digits :: "byte list \<Rightarrow> u32 option" where
  "parse_four_digits p = do {
     bs \<leftarrow> rd_range p 0 4;
     let v = le_word bs - 0x30303030;
     let v = (v AND 0x000f000f) * 10 + drop_bit 8 (v AND 0x0f000f00);
     Some ((v AND 0x000000ff) * 100 + drop_bit 16 (v AND 0x00ff0000))
   }"

definition parse_eight_digits :: "byte list \<Rightarrow> u32 option" where
  "parse_eight_digits p = do {
     bs \<leftarrow> rd_range p 0 8;
     let v = (le_word bs :: u64) - 0x3030303030303030;
     let v = (v AND 0x000f000f000f000f) * 10 + drop_bit 8 (v AND 0x0f000f000f000f00);
     let v = (v AND 0x000000ff000000ff) * 100 + drop_bit 16 (v AND 0x00ff000000ff0000);
     let v = (v AND 0x000000000000ffff) * 10000 + drop_bit 32 v;
     Some (ucast v)
   }"

section \<open>Masks on concatenated digits\<close>

lemma bit_concat:
  "x < 2 ^ k \<Longrightarrow> bit (x + 2 ^ k * y :: nat) n \<longleftrightarrow> (if n < k then bit x n else bit y (n - k))"
proof -
  assume x: "x < 2 ^ k"
  then have z: "\<not> bit x m" if "k \<le> m" for m
    using that by (metis bit_take_bit_iff not_le take_bit_nat_eq_self)
  have "x + 2 ^ k * y = x + push_bit k y" by (simp add: push_bit_eq_mult mult.commute)
  also have "\<dots> = x OR push_bit k y"
    using z by (intro disjunctive_add) (auto simp: bit_push_bit_iff)
  finally show ?thesis using z by (auto simp: bit_or_iff bit_push_bit_iff)
qed

lemma and_concat:
  assumes "x < 2 ^ k" "m < 2 ^ k"
  shows "(x + 2 ^ k * y) AND (m + 2 ^ k * n) = (x AND m) + 2 ^ k * (y AND n :: nat)"
proof (rule bit_eqI)
  fix i
  have "x AND m = take_bit k (x AND m)" using assms by (simp add: take_bit_nat_eq_self)
  then have "x AND m < 2 ^ k" by (metis take_bit_nat_less_exp)
  then show "bit ((x + 2 ^ k * y) AND (m + 2 ^ k * n)) i \<longleftrightarrow> bit ((x AND m) + 2 ^ k * (y AND n)) i"
    using assms by (simp add: bit_and_iff bit_concat)
qed

lemma and_ones: "x < 2 ^ k \<Longrightarrow> x AND (2 ^ k - 1) = (x :: nat)"
  by (metis mask_eq_exp_minus_1 take_bit_eq_mask take_bit_nat_eq_self)

text \<open>One machine step \<open>(v & hi) * k + ((v & lo) >> s)\<close> on two concatenated lanes.\<close>

lemma unat_mult_add:
  "unat x * unat k + unat y < 2 ^ LENGTH('a) \<Longrightarrow>
     unat ((x :: 'a::len word) * k + y) = unat x * unat k + unat y"
  by (simp add: unat_word_ariths)

section \<open>Bytes of a machine word\<close>

fun le_nat :: "nat list \<Rightarrow> nat" where
  "le_nat [] = 0"
| "le_nat (d # ds) = d + 2 ^ 8 * le_nat ds"

lemma le_nat_bound: "\<forall>d \<in> set ds. d < 2 ^ 8 \<Longrightarrow> le_nat ds < 2 ^ (8 * length ds)"
proof (induction ds)
  case Nil
  show ?case by simp
next
  case (Cons d ds)
  then have "le_nat ds + 1 \<le> 2 ^ (8 * length ds)" "d < 2 ^ 8" by auto
  then have "2 ^ 8 * (le_nat ds + 1) \<le> 2 ^ 8 * 2 ^ (8 * length ds)" by (intro mult_le_mono2)
  with \<open>d < 2 ^ 8\<close> show ?case by (simp add: power_add)
qed

lemma le_word_of_nat: "le_word bs = (of_nat (le_nat (map unat bs)) :: 'a::len word)"
  by (induction bs) simp_all

text \<open>Subtracting the zero digit from each byte.\<close>

lemma le_nat_digits:
  "\<forall>c \<in> set bs. is_digit c \<Longrightarrow>
     le_nat (map unat bs) = le_nat (map digit_val bs) + le_nat (replicate (length bs) 48)"
  by (induction bs) (auto simp: digit_val_def is_digit_unat)

lemma le_word_digits:
  assumes "\<forall>c \<in> set bs. is_digit c"
  shows "(le_word bs :: 'a::len word) - of_nat (le_nat (replicate (length bs) 48)) =
    of_nat (le_nat (map digit_val bs))"
  by (simp add: le_word_of_nat le_nat_digits [OF assms])

section \<open>The parsers compute decimal values\<close>

lemma parse_two_digits_eq:
  assumes "is_digit a" "is_digit b"
  shows "parse_two_digits (a # b # cs) = Some (of_nat (dec_val [a, b]))"
proof -
  have "rd (a # b # cs) 0 = Some a" "rd (a # b # cs) 1 = Some b" by (simp_all add: rd_def)
  then show ?thesis
    by (simp only: parse_two_digits_def bind.simps digit_int(2) [OF assms(1)] digit_int(2) [OF assms(2)]) simp
qed

lemma drop_bit_lanes:
  assumes "2 ^ k * x < 2 ^ LENGTH('a::len)"
  shows "drop_bit k (of_nat (2 ^ k * x)) = (of_nat x :: 'a word)"
proof -
  have "x \<le> 2 ^ k * x" by simp
  from this assms have x: "x < 2 ^ LENGTH('a)" by (rule le_less_trans)
  have "unat (drop_bit k (of_nat (2 ^ k * x) :: 'a word)) = drop_bit k (2 ^ k * x)"
    using unat_of_nat_lt [OF assms] by (simp add: unat_drop_bit_eq)
  also have "\<dots> = x" by (simp add: drop_bit_eq_div)
  finally show ?thesis using unat_of_nat_lt [OF x] by (simp only: word_unat_eq_iff)
qed

text \<open>\<open>(v & a) * k + ((v & b) >> s)\<close> on a word, given what the masks select.\<close>

lemma swar_step:
  assumes "N AND a = x" "N AND b = 2 ^ s * y" "2 ^ s * y < 2 ^ LENGTH('a::len)"
  shows "(of_nat N AND of_nat a) * of_nat k + drop_bit s (of_nat N AND of_nat b) =
    (of_nat (x * k + y) :: 'a word)"
  by (simp only: of_nat_and_eq [symmetric] assms(1,2) drop_bit_lanes [OF assms(3)]) simp

lemma four_lanes:
  assumes "d0 \<le> 9" "d1 \<le> 9" "d2 \<le> 9" "d3 \<le> (9 :: nat)"
  shows "le_nat [d0, d1, d2, d3] AND 0x000f000f = d0 + 2 ^ 16 * d2"
    and "le_nat [d0, d1, d2, d3] AND 0x0f000f00 = 2 ^ 8 * (d1 + 2 ^ 16 * d3)"
proof -
  have small: "d < 2 ^ 8" "d AND 15 = d" if "d \<le> 9" for d :: nat
    using and_ones [of d 4] that by auto
  have m: "(0x000f000f :: nat) = 15 + 2 ^ 8 * (0 + 2 ^ 8 * (15 + 2 ^ 8 * (0 + 2 ^ 8 * 0)))"
    "(0x0f000f00 :: nat) = 0 + 2 ^ 8 * (15 + 2 ^ 8 * (0 + 2 ^ 8 * (15 + 2 ^ 8 * 0)))" by simp_all
  have e: "(x + 2 ^ 8 * y) AND (15 + 2 ^ 8 * n) = x + 2 ^ 8 * (y AND n)"
    "(x + 2 ^ 8 * y) AND (0 + 2 ^ 8 * n) = 2 ^ 8 * (y AND n)" if "x \<le> 9" for x y n :: nat
    using and_concat [of x 8 15 y n] and_concat [of x 8 0 y n] small [OF that] by simp_all
  show "le_nat [d0, d1, d2, d3] AND 0x000f000f = d0 + 2 ^ 16 * d2"
    unfolding m le_nat.simps using assms by (simp only: e) simp
  show "le_nat [d0, d1, d2, d3] AND 0x0f000f00 = 2 ^ 8 * (d1 + 2 ^ 16 * d3)"
    unfolding m le_nat.simps using assms by (simp only: e) simp
qed

text \<open>Two values below 256 in the 16-bit lanes of a 32-bit half.\<close>

lemma two_lanes:
  assumes "p \<le> 99" "q \<le> (99 :: nat)"
  shows "(p + 2 ^ 16 * q) AND 0x000000ff = p" and "(p + 2 ^ 16 * q) AND 0x00ff0000 = 2 ^ 16 * q"
proof -
  have s: "p AND 255 = p" "q AND 255 = q" using and_ones [of p 8] and_ones [of q 8] assms by auto
  show "(p + 2 ^ 16 * q) AND 0x000000ff = p"
    using and_concat [of p 16 255 q 0] assms s by simp
  show "(p + 2 ^ 16 * q) AND 0x00ff0000 = 2 ^ 16 * q"
    using and_concat [of p 16 0 q 255] assms s by simp
qed

lemma digit_val_9: "is_digit c \<Longrightarrow> digit_val c \<le> 9"
  by (rule digit_val_le)

lemma parse_four_digits_eq:
  assumes "is_digit a" "is_digit b" "is_digit c" "is_digit d"
  shows "parse_four_digits (a # b # c # d # cs) = Some (of_nat (dec_val [a, b, c, d]))"
proof -
  define N where "N = le_nat (map digit_val [a, b, c, d])"
  let ?p = "digit_val a * 10 + digit_val b" and ?q = "digit_val c * 10 + digit_val d"
  let ?P = "?p + 2 ^ 16 * ?q"
  have le: "digit_val a \<le> 9" "digit_val b \<le> 9" "digit_val c \<le> 9" "digit_val d \<le> 9"
    using assms by (simp_all add: digit_val_9)
  have lanes: "N AND 0x000f000f = digit_val a + 2 ^ 16 * digit_val c"
      "N AND 0x0f000f00 = 2 ^ 8 * (digit_val b + 2 ^ 16 * digit_val d)"
    using four_lanes [OF le] by (simp_all only: N_def list.map)
  have P: "(digit_val a + 2 ^ 16 * digit_val c) * 10 + (digit_val b + 2 ^ 16 * digit_val d) = ?P"
    by simp
  have "2 ^ 8 * (digit_val b + 2 ^ 16 * digit_val d) < 2 ^ LENGTH(32)" using le by simp
  from swar_step [OF lanes this, of 10]
  have s1: "(of_nat N AND 0x000f000f) * 10 + drop_bit 8 (of_nat N AND 0x0f000f00) = (of_nat ?P :: u32)"
    by (simp only: P of_nat_numeral)
  have "?p \<le> 99" "?q \<le> 99" using le by auto
  note pq = two_lanes [OF this]
  have "2 ^ 16 * ?q < 2 ^ LENGTH(32)" using le by simp
  from swar_step [OF pq this, of 100]
  have s2: "(of_nat ?P AND 0x000000ff) * 100 + drop_bit 16 (of_nat ?P AND 0x00ff0000) =
      (of_nat (?p * 100 + ?q) :: u32)"
    by (simp only: of_nat_numeral)
  have t: "rd_range (a # b # c # d # cs) 0 4 = Some [a, b, c, d]" by (simp add: rd_range_def)
  have s0: "le_word [a, b, c, d] - (0x30303030 :: u32) = of_nat N"
    using le_word_digits [of "[a, b, c, d]", where 'a = 32] assms by (simp add: N_def)
  have "parse_four_digits (a # b # c # d # cs) = Some (of_nat (?p * 100 + ?q))"
    unfolding parse_four_digits_def Let_def t by (simp only: bind.simps s0 s1 s2)
  then show ?thesis by (simp add: algebra_simps)
qed

text \<open>The eight-byte word is two four-byte halves: every mask is the same in both.\<close>

lemma halves:
  assumes "x < 2 ^ 32" "m < 2 ^ 32" "x AND m = u" "y AND m = (w :: nat)"
  shows "(x + 2 ^ 32 * y) AND (m + 2 ^ 32 * m) = u + 2 ^ 32 * w"
  using and_concat [of x 32 m y m] assms by simp

text \<open>The three steps: digits to pairs, pairs to fours, and the two fours.\<close>

lemma doubled_masks:
  "(0x000f000f :: nat) + 2 ^ 32 * 0x000f000f = 0x000f000f000f000f"
  "(0x0f000f00 :: nat) + 2 ^ 32 * 0x0f000f00 = 0x0f000f000f000f00"
  "(0x000000ff :: nat) + 2 ^ 32 * 0x000000ff = 0x000000ff000000ff"
  "(0x00ff0000 :: nat) + 2 ^ 32 * 0x00ff0000 = 0x00ff000000ff0000" by simp_all

lemma eight_pairs:
  assumes le: "a \<le> 9" "b \<le> 9" "c \<le> 9" "d \<le> 9" "e \<le> 9" "f \<le> 9" "g \<le> 9" "h \<le> 9"
  defines "X \<equiv> le_nat [a, b, c, d] + 2 ^ 32 * le_nat [e, f, g, h]"
  shows "(of_nat X AND 0x000f000f000f000f) * 10 + drop_bit 8 (of_nat X AND 0x0f000f000f000f00) =
    (of_nat ((a * 10 + b + 2 ^ 16 * (c * 10 + d)) + 2 ^ 32 * (e * 10 + f + 2 ^ 16 * (g * 10 + h))) :: u64)"
proof -
  let ?hi = "(a + 2 ^ 16 * c) + 2 ^ 32 * (e + 2 ^ 16 * g)" and ?lo = "(b + 2 ^ 16 * d) + 2 ^ 32 * (f + 2 ^ 16 * h)"
  have small: "le_nat [a, b, c, d] < 2 ^ 32" using le_nat_bound [of "[a, b, c, d]"] le by simp
  have "X AND 0x000f000f000f000f = ?hi"
    using halves [OF small _ four_lanes(1) [OF le(1-4)] four_lanes(1) [OF le(5-8)]]
    unfolding X_def by (simp only: doubled_masks) simp
  moreover have "X AND 0x0f000f000f000f00 = 2 ^ 8 * ?lo"
    using halves [OF small _ four_lanes(2) [OF le(1-4)] four_lanes(2) [OF le(5-8)]]
    unfolding X_def by (simp only: doubled_masks) simp
  moreover have "2 ^ 8 * ?lo < 2 ^ LENGTH(64)" using le by simp
  moreover have "?hi * 10 + ?lo = (a * 10 + b + 2 ^ 16 * (c * 10 + d)) + 2 ^ 32 * (e * 10 + f + 2 ^ 16 * (g * 10 + h))"
    by simp
  ultimately show ?thesis
    using swar_step [of X "0x000f000f000f000f" ?hi "0x0f000f000f000f00" 8 ?lo 10, where 'a = 64]
    by (simp only: of_nat_numeral)
qed

lemma eight_fours:
  assumes le: "p \<le> 99" "q \<le> 99" "r \<le> 99" "s \<le> 99"
  defines "X \<equiv> (p + 2 ^ 16 * q) + 2 ^ 32 * (r + 2 ^ 16 * s)"
  shows "(of_nat X AND 0x000000ff000000ff) * 100 + drop_bit 16 (of_nat X AND 0x00ff000000ff0000) =
    (of_nat ((p * 100 + q) + 2 ^ 32 * (r * 100 + s)) :: u64)"
proof -
  have small: "p + 2 ^ 16 * q < 2 ^ 32" using le by simp
  have "X AND 0x000000ff000000ff = p + 2 ^ 32 * r"
    using halves [OF small _ two_lanes(1) two_lanes(1)] le unfolding X_def by (simp only: doubled_masks) simp
  moreover have "X AND 0x00ff000000ff0000 = 2 ^ 16 * (q + 2 ^ 32 * s)"
    using halves [OF small _ two_lanes(2) two_lanes(2)] le unfolding X_def by (simp only: doubled_masks) simp
  moreover have "2 ^ 16 * (q + 2 ^ 32 * s) < 2 ^ LENGTH(64)" using le by simp
  moreover have "(p + 2 ^ 32 * r) * 100 + (q + 2 ^ 32 * s) = (p * 100 + q) + 2 ^ 32 * (r * 100 + s)" by simp
  ultimately show ?thesis
    using swar_step [of X "0x000000ff000000ff" "p + 2 ^ 32 * r" "0x00ff000000ff0000" 16 "q + 2 ^ 32 * s" 100, where 'a = 64]
    by (simp only: of_nat_numeral)
qed

lemma eight_halves:
  assumes XY: "X \<le> 9999" "Y \<le> 9999"
  shows "of_nat (X + 2 ^ 32 * Y) AND 0x000000000000ffff = (of_nat X :: u64)"
    and "drop_bit 32 (of_nat (X + 2 ^ 32 * Y)) = (of_nat Y :: u64)"
proof -
  have "(X + 2 ^ 32 * Y) AND 0xffff = X"
    using and_concat [of X 32 "0xffff" Y 0] and_ones [of X 16] XY by simp
  then show "of_nat (X + 2 ^ 32 * Y) AND 0x000000000000ffff = (of_nat X :: u64)"
    by (metis of_nat_and_eq of_nat_numeral)
  have bound: "X + 2 ^ 32 * Y < 2 ^ LENGTH(64)" using XY by simp
  have "unat (drop_bit 32 (of_nat (X + 2 ^ 32 * Y) :: u64)) = (X + 2 ^ 32 * Y) div 2 ^ 32"
    by (simp only: unat_drop_bit_eq unat_of_nat_lt [OF bound] drop_bit_eq_div [where 'a = nat])
  also have "\<dots> = Y" using XY by simp
  also have "\<dots> = unat (of_nat Y :: u64)" using XY by (intro unat_of_nat_lt [symmetric]) simp
  finally show "drop_bit 32 (of_nat (X + 2 ^ 32 * Y)) = (of_nat Y :: u64)" by (simp only: word_unat_eq_iff)
qed

lemma parse_eight_digits_eq:
  assumes "is_digit a" "is_digit b" "is_digit c" "is_digit d"
    "is_digit e" "is_digit f" "is_digit g" "is_digit h"
  shows "parse_eight_digits (a # b # c # d # e # f # g # h # cs) = Some (of_nat (dec_val [a, b, c, d, e, f, g, h]))"
proof -
  define p where "p = digit_val a * 10 + digit_val b"
  define q where "q = digit_val c * 10 + digit_val d"
  define r where "r = digit_val e * 10 + digit_val f"
  define s where "s = digit_val g * 10 + digit_val h"
  define X where "X = p * 100 + q"
  define Y where "Y = r * 100 + s"
  have le: "digit_val a \<le> 9" "digit_val b \<le> 9" "digit_val c \<le> 9" "digit_val d \<le> 9"
    "digit_val e \<le> 9" "digit_val f \<le> 9" "digit_val g \<le> 9" "digit_val h \<le> 9"
    using assms by (simp_all add: digit_val_9)
  then have pq: "p \<le> 99" "q \<le> 99" "r \<le> 99" "s \<le> 99" by (simp_all add: p_def q_def r_def s_def)
  then have XY: "X \<le> 9999" "Y \<le> 9999" by (simp_all add: X_def Y_def)
  have s0: "le_word [a, b, c, d, e, f, g, h] - (0x3030303030303030 :: u64) =
      of_nat (le_nat [digit_val a, digit_val b, digit_val c, digit_val d] +
        2 ^ 32 * le_nat [digit_val e, digit_val f, digit_val g, digit_val h])"
    using le_word_digits [of "[a, b, c, d, e, f, g, h]", where 'a = 64] assms by simp
  have t: "rd_range (a # b # c # d # e # f # g # h # cs) 0 8 = Some [a, b, c, d, e, f, g, h]"
    by (simp add: rd_range_def)
  have "parse_eight_digits (a # b # c # d # e # f # g # h # cs) = Some (ucast (of_nat X * 10000 + of_nat Y :: u64))"
    unfolding parse_eight_digits_def Let_def t bind.simps s0 eight_pairs [OF le, folded p_def q_def r_def s_def] eight_fours [OF pq]
    by (simp only: X_def [symmetric] Y_def [symmetric] eight_halves [OF XY])
  also have "\<dots> = Some (of_nat (X * 10000 + Y) :: u32)"
  proof -
    have "X * 10000 + Y < 2 ^ LENGTH(64)" using XY by simp
    then have "ucast (of_nat (X * 10000 + Y) :: u64) = (of_nat (X * 10000 + Y) :: u32)"
      by (simp only: unsigned_of_nat take_bit_nat_eq_self)
    then show ?thesis by simp
  qed
  finally show ?thesis by (simp add: X_def Y_def p_def q_def r_def s_def algebra_simps)
qed

text \<open>They return exactly when their bytes are there.\<close>

lemma parse_two_digits_iff: "(\<exists>n. parse_two_digits p = Some n) \<longleftrightarrow> 2 \<le> length p"
  by (auto simp: parse_two_digits_def rd_def)

lemma parse_four_digits_iff: "(\<exists>n. parse_four_digits p = Some n) \<longleftrightarrow> 4 \<le> length p"
  by (auto simp: parse_four_digits_def rd_range_def Let_def)

lemma parse_eight_digits_iff: "(\<exists>n. parse_eight_digits p = Some n) \<longleftrightarrow> 8 \<le> length p"
  by (auto simp: parse_eight_digits_def rd_range_def Let_def)

lemmas parsers_return =
  parse_two_digits_iff [THEN iffD2] parse_four_digits_iff [THEN iffD2] parse_eight_digits_iff [THEN iffD2]

end
