(* ===== verification/Date_Time.thy ===== *)
theory Date_Time
  imports Swar
begin

text \<open>
  Dates and times: the parsers \<open>atodate\<close>, \<open>atotime\<close>, \<open>atotime_nano\<close>, the conversions
  \<open>atotimepoint\<close>, \<open>atotimepoint_nano\<close> to a time since 1970 and \<open>timepointtoparts\<close>,
  \<open>timepointtoparts_nano\<close> back. An \<open>int\<close> of the code is an \<open>int\<close> in its range (\<open>i32\<close>
  where a wider value is narrowed to it), an \<open>unsigned\<close> one below \<open>2 ^ 32\<close> (\<open>u32i\<close>); \<open>long\<close> has
  64 bits. A time point with \<open>den\<close> ticks per second is its count of ticks.
  The calendar itself is specified by \<open>next_day\<close>: the day number of the next day is one more.
\<close>

section \<open>Integer conversions\<close>

definition u32i :: "int \<Rightarrow> int" where
  "u32i x = x mod 2 ^ 32"

definition i32 :: "int \<Rightarrow> int" where
  "i32 x = (x + 2 ^ 31) mod 2 ^ 32 - 2 ^ 31"

lemma u32i_id: "0 \<le> x \<Longrightarrow> x < 2 ^ 32 \<Longrightarrow> u32i x = x"
  by (simp add: u32i_def)

lemma i32_id: "- (2 ^ 31) \<le> x \<Longrightarrow> x < 2 ^ 31 \<Longrightarrow> i32 x = x"
  by (simp add: i32_def)

lemma sdiv_nonneg: "0 \<le> a \<Longrightarrow> 0 < b \<Longrightarrow> (a :: int) sdiv b = a div b"
  by (cases "a = 0") (simp_all add: signed_divide_int_def sgn_if)

lemma smod_nonneg: "0 \<le> a \<Longrightarrow> 0 < b \<Longrightarrow> (a :: int) smod b = a mod b"
  by (cases "a = 0") (simp_all add: signed_modulo_int_def sdiv_nonneg minus_div_mult_eq_mod)

text \<open>The value of a \<open>uint32_t\<close> cast to \<open>int\<close>.\<close>

definition int_of_u32 :: "u32 \<Rightarrow> int" where
  "int_of_u32 w = sint w"

section \<open>Parsers of dates and times\<close>

text \<open>
  A parser has two ways not to give a value: it answers \<open>false\<close> (\<open>Some None\<close>), or it reads outside
  the bytes of the value (\<open>None\<close>, as everywhere in the model).
\<close>

type_synonym 'a parsed = "'a option option"

lemma accepted:
  "(case x of None \<Rightarrow> Some None | Some y \<Rightarrow> f y) = Some (Some z) \<longleftrightarrow> (\<exists>y. x = Some y \<and> f y = Some (Some z))"
  "(if c then Some None else p) = Some (Some z) \<longleftrightarrow> \<not> c \<and> p = Some (Some z)"
  by (cases x) auto

definition atodate :: "byte list \<Rightarrow> (int \<times> int \<times> int) parsed" where
  "atodate bs =
     (if length bs \<noteq> 8 then Some None
      else do {
        yyyymmdd \<leftarrow> parse_eight_digits bs;
        Some (Some (int_of_u32 (yyyymmdd div 10000), int_of_u32 (yyyymmdd div 100 mod 100),
          int_of_u32 (yyyymmdd mod 100)))
      })"

definition atotime :: "byte list \<Rightarrow> (int \<times> int \<times> int \<times> int) parsed" where
  "atotime bs =
     (if length bs \<noteq> 8 \<and> length bs \<noteq> 12 then Some None
      else do {
        hour \<leftarrow> parse_two_digits bs;
        minute \<leftarrow> parse_two_digits (drop 3 bs);
        second \<leftarrow> parse_two_digits (drop 6 bs);
        millisecond \<leftarrow>
          (if length bs = 12 then do {
             hundredths \<leftarrow> parse_two_digits (drop 9 bs);
             c \<leftarrow> rd bs 11;
             Some (int_of_u32 hundredths * 10 + (sint c - 48))
           }
           else Some 0);
        Some (Some (int_of_u32 hour, int_of_u32 minute, int_of_u32 second, millisecond))
      })"

text \<open>
  \<open>atotime_nano\<close> assigns its out-parameters before it knows the length: the result is the
  returned \<open>bool\<close> and the four \<open>int\<close>s after the call.
\<close>

definition atotime_nano ::
  "byte list \<Rightarrow> int \<times> int \<times> int \<times> int \<Rightarrow> (bool \<times> int \<times> int \<times> int \<times> int) option" where
  "atotime_nano bs outs =
     (if length bs < 8 then Some (False, outs)
      else do {
        hour \<leftarrow> map_option int_of_u32 (parse_two_digits bs);
        minute \<leftarrow> map_option int_of_u32 (parse_two_digits (drop 3 bs));
        second \<leftarrow> map_option int_of_u32 (parse_two_digits (drop 6 bs));
        if length bs = 12 then do {
          x \<leftarrow> parse_two_digits (drop 9 bs);
          c \<leftarrow> rd bs 11;
          Some (True, hour, minute, second,
            i32 (int_of_u32 (x * 10 + word_of_int (sint c - 48)) * 1000000))
        }
        else if length bs = 15 then do {
          x \<leftarrow> parse_four_digits (drop 9 bs);
          y \<leftarrow> parse_two_digits (drop 13 bs);
          Some (True, hour, minute, second, i32 (int_of_u32 (x * 100 + y) * 1000))
        }
        else if length bs = 18 then do {
          x \<leftarrow> parse_eight_digits (drop 9 bs);
          c \<leftarrow> rd bs 17;
          Some (True, hour, minute, second, int_of_u32 (x * 10 + word_of_int (sint c - 48)))
        }
        else Some (False, hour, minute, second, snd (snd (snd outs)))
      })"

section \<open>Time points\<close>

definition kMinSupportedYear :: int where "kMinSupportedYear = 1970"
definition kMaxSupportedYear :: int where "kMaxSupportedYear = 2200"

text \<open>Days since 1970-01-01 of a date of the proleptic Gregorian calendar.\<close>

definition days_from_civil :: "int \<Rightarrow> int \<Rightarrow> int \<Rightarrow> int" where
  "days_from_civil year month day =
     (let year = year - (if month \<le> 2 then 1 else 0);
          era = u32i year div 400;
          yoe = u32i (u32i year - era * 400);
          doy = u32i ((153 * (month + (if 2 < month then - 3 else 9)) + 2) sdiv 5 + day - 1);
          doe = u32i (yoe * 365 + yoe div 4 - yoe div 100 + doy)
      in era * 146097 + doe - 719468)"

definition date_supported :: "int \<Rightarrow> int \<Rightarrow> int \<Rightarrow> bool" where
  "date_supported year month day \<longleftrightarrow>
     \<not> (year < kMinSupportedYear \<or> kMaxSupportedYear < year \<or> month < 1 \<or> 12 < month \<or> day < 1 \<or> 31 < day)"

text \<open>The result counts milliseconds, the unit of the sum of durations the code builds.\<close>

definition atotimepoint :: "byte list \<Rightarrow> int parsed" where
  "atotimepoint bs =
     (if length bs < 9 then Some None
      else do {
        time \<leftarrow> atotime (drop 9 bs);
        case time of
          None \<Rightarrow> Some None
        | Some (hour, minute, second, millisecond) \<Rightarrow> do {
            date \<leftarrow> do { ymd \<leftarrow> rd_range bs 0 8; atodate ymd };
            case date of
              None \<Rightarrow> Some None
            | Some (year, month, day) \<Rightarrow>
                if \<not> date_supported year month day then Some None
                else Some (Some ((days_from_civil year month day * 86400 + hour * 3600 + minute * 60 + second) *
                       1000 + millisecond))
          }
      })"

definition atotimepoint_nano :: "byte list \<Rightarrow> int parsed" where
  "atotimepoint_nano bs =
     (if length bs < 9 then Some None
      else do {
        (ok, hour, minute, second, nanosecond) \<leftarrow> atotime_nano (drop 9 bs) (0, 0, 0, 0);
        if \<not> ok then Some None
        else do {
          date \<leftarrow> do { ymd \<leftarrow> rd_range bs 0 8; atodate ymd };
          case date of
            None \<Rightarrow> Some None
          | Some (year, month, day) \<Rightarrow>
              if \<not> date_supported year month day then Some None
              else Some (Some ((days_from_civil year month day * 86400 + hour * 3600 + minute * 60 + second) *
                     1000000000 + nanosecond))
        }
      })"

text \<open>The date of a day number counted from 0000-03-01, in \<open>unsigned\<close> arithmetic.\<close>

definition civil_from_days :: "int \<Rightarrow> int \<times> int \<times> int" where
  "civil_from_days days =
     (let era = u32i ((if 0 \<le> days then days else days - 146096) sdiv 146097);
          doe = u32i (days - u32i (era * 146097));
          yoe = u32i (doe - doe div 1460 + doe div 36524 - doe div 146096) div 365;
          year = i32 (yoe + era * 400);
          doy = u32i (doe - (365 * yoe + yoe div 4 - yoe div 100));
          mp = u32i (5 * doy + 2) div 153;
          day = i32 (doy - u32i (153 * mp + 2) div 5 + 1);
          month = i32 (mp + (if mp < 10 then 3 else - 9))
      in (year + (if month \<le> 2 then 1 else 0), month, day))"

definition timepointtoparts :: "int \<Rightarrow> int \<Rightarrow> int \<times> int \<times> int \<times> int \<times> int \<times> int \<times> int" where
  "timepointtoparts den tp =
     (let epoch_sec = tp sdiv den;
          day_sec = epoch_sec - epoch_sec smod 86400;
          days_since_epoch = day_sec sdiv 86400 + 719468;
          (year, month, day) = civil_from_days days_since_epoch;
          in_day = tp - day_sec * den;
          millisecond = i32 (in_day * 1000 sdiv den);
          hour = millisecond sdiv (60 * 60 * 1000);
          millisecond = millisecond - hour * 60 * 60 * 1000;
          minute = millisecond sdiv (60 * 1000);
          millisecond = millisecond - minute * 60 * 1000;
          second = millisecond sdiv 1000;
          millisecond = millisecond - second * 1000
      in (year, month, day, hour, minute, second, millisecond))"

definition timepointtoparts_nano :: "int \<Rightarrow> int \<Rightarrow> int \<times> int \<times> int \<times> int \<times> int \<times> int \<times> int" where
  "timepointtoparts_nano den tp =
     (let epoch_sec = tp sdiv den;
          day_sec = epoch_sec - epoch_sec smod 86400;
          days_since_epoch = day_sec sdiv 86400 + 719468;
          (year, month, day) = civil_from_days days_since_epoch;
          in_day = tp - day_sec * den;
          lnanosecond = in_day * 1000000000 sdiv den;
          hour = i32 (lnanosecond sdiv (60 * 60 * 1000000000));
          lnanosecond = lnanosecond - hour * 60 * 60 * 1000000000;
          minute = i32 (lnanosecond sdiv (60 * 1000000000));
          lnanosecond = lnanosecond - minute * 60 * 1000000000;
          second = i32 (lnanosecond sdiv 1000000000);
          lnanosecond = lnanosecond - second * 1000000000
      in (year, month, day, hour, minute, second, i32 lnanosecond))"

section \<open>The calendar\<close>

definition leap :: "int \<Rightarrow> bool" where
  "leap y \<longleftrightarrow> 4 dvd y \<and> (\<not> 100 dvd y \<or> 400 dvd y)"

definition month_length :: "int \<Rightarrow> int \<Rightarrow> int" where
  "month_length y m =
     (if m = 2 then (if leap y then 29 else 28) else if m \<in> {4, 6, 9, 11} then 30 else 31)"

definition is_date :: "int \<Rightarrow> int \<Rightarrow> int \<Rightarrow> bool" where
  "is_date y m d \<longleftrightarrow> 1 \<le> m \<and> m \<le> 12 \<and> 1 \<le> d \<and> d \<le> month_length y m"

text \<open>The day after a date.\<close>

definition next_day :: "int \<times> int \<times> int \<Rightarrow> int \<times> int \<times> int" where
  "next_day = (\<lambda>(y, m, d).
     if d < month_length y m then (y, m, d + 1)
     else if m < 12 then (y, m + 1, 1)
     else (y + 1, 1, 1))"

text \<open>A year of the March-based calendar has its leap day at its end.\<close>

definition day_of_year :: "int \<Rightarrow> int \<Rightarrow> int" where
  "day_of_year m d = (153 * (m + (if 2 < m then - 3 else 9)) + 2) div 5 + d - 1"

definition march_year :: "int \<Rightarrow> int \<Rightarrow> int" where
  "march_year y m = y - (if m \<le> 2 then 1 else 0)"

lemma month_cases:
  "1 \<le> m \<Longrightarrow> m \<le> 12 \<Longrightarrow> m = 1 \<or> m = 2 \<or> m = 3 \<or> m = 4 \<or> m = 5 \<or> m = 6 \<or> m = 7 \<or> m = 8 \<or>
     m = 9 \<or> m = 10 \<or> m = 11 \<or> m = (12 :: int)"
  by presburger

lemma month_length_le: "28 \<le> month_length y m" "month_length y m \<le> 31"
  by (simp_all add: month_length_def)

lemma doy_bounds:
  assumes "is_date y m d"
  shows "0 \<le> day_of_year m d" "day_of_year m d \<le> 365"
    and "day_of_year m d = 365 \<Longrightarrow> leap (march_year y m + 1)"
    and "(5 * day_of_year m d + 2) div 153 = m + (if 2 < m then - 3 else 9)"
proof -
  have m: "m = 1 \<or> m = 2 \<or> m = 3 \<or> m = 4 \<or> m = 5 \<or> m = 6 \<or> m = 7 \<or> m = 8 \<or>
     m = 9 \<or> m = 10 \<or> m = 11 \<or> m = 12" and d: "1 \<le> d" "d \<le> month_length y m"
    using assms month_cases [of m] by (auto simp: is_date_def)
  have d31: "d \<le> 31" using d(2) month_length_le(2) [of y m] by linarith
  have feb: "d \<le> 28 \<or> d = 29 \<and> leap y" if "m = 2"
    using d that by (auto simp: month_length_def split: if_splits)
  have short: "d \<le> 30" if "m = 4 \<or> m = 6 \<or> m = 9 \<or> m = 11"
    using d that by (auto simp: month_length_def)
  show "0 \<le> day_of_year m d"
    using m d(1) by (elim disjE) (simp_all add: day_of_year_def)
  show "day_of_year m d \<le> 365"
    using m d31 feb by (elim disjE) (auto simp: day_of_year_def)
  show "leap (march_year y m + 1)" if "day_of_year m d = 365"
    using m d31 feb short that by (elim disjE) (simp_all add: day_of_year_def march_year_def)
  show "(5 * day_of_year m d + 2) div 153 = m + (if 2 < m then - 3 else 9)"
    using m d(1) d31 feb short by (elim disjE) (auto simp: day_of_year_def)
qed

text \<open>The year before a leap day is the last of four, and the last of a century only at the end of the era.\<close>

lemma leap_end_of_century:
  assumes leap: "leap (100 * c + 4 * q + r + 1)" and c: "0 \<le> c" "c \<le> 3" and r: "0 \<le> r" "r \<le> (3 :: int)"
  shows "r = 3 \<and> (q = 24 \<longrightarrow> c = 3)"
proof -
  let ?y = "100 * c + 4 * q + r"
  from leap have l: "4 dvd ?y + 1" "100 dvd ?y + 1 \<longrightarrow> 400 dvd ?y + 1" by (auto simp: leap_def)
  have "4 dvd 4 * (25 * c + q) + (r + 1)" using l(1) by (simp add: algebra_simps)
  then have "4 dvd r + 1" by (simp only: dvd_add_right_iff [OF dvd_triv_left])
  with r have "r = 3" by presburger
  moreover have "c = 3" if "q = 24"
  proof -
    have "?y + 1 = 100 * (c + 1)" using that \<open>r = 3\<close> by simp
    with l(2) have "400 dvd 100 * (c + 1)" by simp
    then obtain k where "100 * (c + 1) = 400 * k" by (rule dvdE)
    then have "c + 1 = 4 * k" by simp
    with c show ?thesis by presburger
  qed
  ultimately show ?thesis by blast
qed

text \<open>Years of an era of 400 years: century, four-year block, year.\<close>

lemma year_of_era:
  assumes y: "0 \<le> y" "y < 400" and doy: "0 \<le> doy" "doy \<le> 365" "doy = 365 \<Longrightarrow> leap (y + 1)"
    and doe: "doe = 365 * y + y div 4 - y div 100 + doy"
  shows "0 \<le> doe" "doe \<le> 146096"
    and "(doe - doe div 1460 + doe div 36524 - doe div 146096) div 365 = (y :: int)"
    and "0 \<le> doe - doe div 1460 + doe div 36524 - doe div 146096"
    and "doe - doe div 1460 + doe div 36524 - doe div 146096 < 146000"
proof -
  define c where "c = y div 100"
  define q where "q = y mod 100 div 4"
  define r where "r = y mod 100 mod 4"
  have c: "0 \<le> c" "c \<le> 3" using y by (auto simp: c_def)
  have q: "0 \<le> q" "q \<le> 24" by (auto simp: q_def)
  have r: "0 \<le> r" "r \<le> 3" by (auto simp: r_def)
  have y_eq: "y = 100 * c + 4 * q + r" by (simp add: c_def q_def r_def)
  have div4: "y div 4 = 25 * c + q" unfolding y_eq using r by simp
  have div100: "y div 100 = c" by (simp add: c_def)
  have last: "r = 3 \<and> (q = 24 \<longrightarrow> c = 3)" if "doy = 365"
    using doy(3) [OF that] unfolding y_eq by (rule leap_end_of_century [OF _ c r])
  define R where "R = 24 * c + q + 365 * r + doy"
  define S where "S = 1461 * q + 365 * r + doy"
  have e1: "doe = R + 1460 * (25 * c + q)" and e2: "doe = S + 36524 * c"
    unfolding doe div4 div100 by (simp_all add: y_eq R_def S_def)
  have S: "0 \<le> S" "S \<le> 36524" using q r doy by (auto simp: S_def)
  have S3: "c = 3" if "S = 36524"
  proof -
    have "doy = 365" using that q r doy(1,2) unfolding S_def by linarith
    moreover have "q = 24" using that q r doy(1,2) unfolding S_def by linarith
    ultimately show ?thesis using last by blast
  qed
  have R: "0 \<le> R" "R \<le> 1556" using c q r doy by (auto simp: R_def)
  show d: "0 \<le> doe" using e2 S(1) c(1) by linarith
  show d2: "doe \<le> 146096" using e2 S c by linarith
  define s where "s = (if S < 36524 then 0 else 1 :: int)"
  define t where "t = (if R < 1460 then 0 else 1 :: int)"
  have "R div 1460 = t" using R by (auto simp: t_def)
  then have a1: "doe div 1460 = 25 * c + q + t" unfolding e1 by simp
  have "S div 36524 = s" using S by (auto simp: s_def)
  then have a2: "doe div 36524 = c + s" unfolding e2 by simp
  have "doe < 146096 \<longleftrightarrow> S < 36524"
  proof (cases "S = 36524")
    case True
    with S3 e2 show ?thesis by simp
  next
    case False
    with S e2 c show ?thesis by linarith
  qed
  then have a3: "doe div 146096 = s" using d d2 by (auto simp: s_def)
  have k: "doe - doe div 1460 + doe div 36524 - doe div 146096 = 365 * y + (doy - t)"
    unfolding a1 a2 a3 using e2 by (simp add: y_eq S_def)
  have "0 \<le> doy - t \<and> doy - t < 365"
  proof (cases "doy = 365")
    case True
    with last c q show ?thesis by (auto simp: R_def t_def)
  next
    case False
    with c q r doy show ?thesis by (auto simp: R_def t_def)
  qed
  then show "(doe - doe div 1460 + doe div 36524 - doe div 146096) div 365 = y"
      "0 \<le> doe - doe div 1460 + doe div 36524 - doe div 146096"
      "doe - doe div 1460 + doe div 36524 - doe div 146096 < 146000"
    unfolding k using y by simp_all
qed

text \<open>The day number in closed form, counted from 0000-03-01.\<close>

definition year_start :: "int \<Rightarrow> int" where
  "year_start k = 365 * k + k div 4 - k div 100 + k div 400"

definition day_number :: "int \<Rightarrow> int \<Rightarrow> int \<Rightarrow> int" where
  "day_number y m d = year_start (march_year y m) + day_of_year m d"

lemma era_div:
  assumes "y = 400 * e + k" "0 \<le> k" "k < (400 :: int)"
  shows "y div 4 = 100 * e + k div 4" "y div 100 = 4 * e + k div 100" "y div 400 = e"
  using assms by (auto simp: div_pos_pos_trivial)

lemma day_of_year_range:
  assumes "1 \<le> m" "m \<le> 12" "1 \<le> d" "d \<le> 31"
  shows "0 \<le> day_of_year m d" "day_of_year m d \<le> 367"
  using month_cases [OF assms(1,2)] assms(3,4) by (elim disjE; simp add: day_of_year_def)+

lemma days_from_civil_eq:
  assumes "1 \<le> m" "m \<le> 12" "1 \<le> d" "d \<le> 31" "0 \<le> march_year y m" "y \<le> 9999"
  shows "days_from_civil y m d = day_number y m d - 719468"
proof -
  define k where "k = march_year y m"
  define e where "e = k div 400"
  define yoe where "yoe = k mod 400"
  have k: "k = 400 * e + yoe" "0 \<le> yoe" "yoe < 400" by (simp_all add: e_def yoe_def)
  have k_bounds: "0 \<le> k" "k \<le> 9999" using assms(5,6) by (auto simp: k_def march_year_def)
  then have uk: "u32i k = k" by (simp add: u32i_id)
  have uy: "u32i (k - e * 400) = yoe" using k by (simp add: u32i_id)
  have "0 \<le> 153 * (m + (if 2 < m then - 3 else 9)) + 2" using assms(1) by auto
  then have "(153 * (m + (if 2 < m then - 3 else 9)) + 2) sdiv 5 =
      (153 * (m + (if 2 < m then - 3 else 9)) + 2) div 5"
    by (rule sdiv_nonneg) simp
  then have ud: "u32i ((153 * (m + (if 2 < m then - 3 else 9)) + 2) sdiv 5 + d - 1) = day_of_year m d"
    using day_of_year_range [OF assms(1-4)] by (simp add: u32i_id day_of_year_def)
  have "0 \<le> yoe * 365 + yoe div 4 - yoe div 100 + day_of_year m d"
    using k(2,3) day_of_year_range(1) [OF assms(1-4)] by linarith
  moreover have "yoe * 365 + yoe div 4 - yoe div 100 + day_of_year m d < 4294967296"
    using k(2,3) day_of_year_range(2) [OF assms(1-4)] by linarith
  ultimately have ue: "u32i (yoe * 365 + yoe div 4 - yoe div 100 + day_of_year m d) =
      yoe * 365 + yoe div 4 - yoe div 100 + day_of_year m d" by (intro u32i_id) simp_all
  have "days_from_civil y m d =
      e * 146097 + (yoe * 365 + yoe div 4 - yoe div 100 + day_of_year m d) - 719468"
    unfolding days_from_civil_def Let_def march_year_def [symmetric] k_def [symmetric] uk
      e_def [symmetric] uy ud ue ..
  then show ?thesis
    unfolding day_number_def year_start_def k_def [symmetric] using era_div [OF k] k(1) by linarith
qed

lemma div_step:
  assumes "0 < (n :: int)"
  shows "x div n = (x - 1) div n + (if n dvd x then 1 else 0)"
proof -
  define q where "q = x div n"
  define r where "r = x mod n"
  have x: "x = n * q + r" "0 \<le> r" "r < n" using assms by (simp_all add: q_def r_def)
  have dvd: "n dvd x \<longleftrightarrow> r = 0" by (simp add: r_def dvd_eq_mod_eq_0)
  have xq: "x div n = q" by (simp add: q_def)
  show ?thesis
  proof (cases "r = 0")
    case True
    then have "x - 1 = n * (q - 1) + (n - 1)" using x(1) by (simp add: algebra_simps)
    from int_div_pos_eq [OF this] have "(x - 1) div n = q - 1" using assms by simp
    with True dvd xq show ?thesis by simp
  next
    case False
    then have "x - 1 = n * q + (r - 1)" using x(1) by simp
    from int_div_pos_eq [OF this] have "(x - 1) div n = q" using False x(2,3) by simp
    with False dvd xq show ?thesis by simp
  qed
qed

lemma if_bool_sum:
  "(q \<Longrightarrow> p) \<Longrightarrow> (r \<Longrightarrow> q) \<Longrightarrow>
     (if p then 1 else 0) - (if q then 1 else 0) + (if r then 1 else 0) =
     (if p \<and> (\<not> q \<or> r) then 1 else (0 :: int))"
  by (cases p; cases q; cases r; simp)

lemma year_start_leap: "year_start y = year_start (y - 1) + 365 + (if leap y then 1 else 0)"
proof -
  define a b c where "a = (if 4 dvd y then 1 else 0 :: int)" and
    "b = (if 100 dvd y then 1 else 0 :: int)" and "c = (if 400 dvd y then 1 else 0 :: int)"
  have "4 dvd y" if "100 dvd y" using dvd_trans [OF _ that, of 4] by simp
  moreover have "100 dvd y" if "400 dvd y" using dvd_trans [OF _ that, of 100] by simp
  ultimately have "a - b + c = (if leap y then 1 else 0)"
    unfolding a_def b_def c_def leap_def by (simp only: if_bool_sum)
  moreover have "y div 4 = (y - 1) div 4 + a" "y div 100 = (y - 1) div 100 + b"
    "y div 400 = (y - 1) div 400 + c"
    unfolding a_def b_def c_def by (rule div_step; simp)+
  moreover have "365 * (y - 1) = 365 * y - 365" by simp
  ultimately show ?thesis unfolding year_start_def by linarith
qed

lemma next_day_number:
  assumes "is_date y m d" "next_day (y, m, d) = (y', m', d')"
  shows "is_date y' m' d' \<and> day_number y' m' d' = day_number y m d + 1"
proof (cases "d < month_length y m")
  case True
  then have "y' = y" "m' = m" "d' = d + 1" using assms(2) by (auto simp: next_day_def)
  with True assms(1) show ?thesis
    by (auto simp: is_date_def day_number_def day_of_year_def)
next
  case False
  with assms(1) have d: "d = month_length y m" by (auto simp: is_date_def)
  have m: "m = 1 \<or> m = 2 \<or> m = 3 \<or> m = 4 \<or> m = 5 \<or> m = 6 \<or> m = 7 \<or> m = 8 \<or>
     m = 9 \<or> m = 10 \<or> m = 11 \<or> m = 12"
    using assms(1) month_cases [of m] by (auto simp: is_date_def)
  have len: "1 \<le> month_length y' m'" using month_length_le [of y' m'] by linarith
  show ?thesis
  proof (cases "m = 2")
    case True
    then have n: "y' = y" "m' = 3" "d' = 1" using assms(2) False by (auto simp: next_day_def)
    have "day_of_year 3 1 = 0" by (simp add: day_of_year_def)
    moreover have "day_of_year 2 d = 364 + (if leap y then 1 else 0)"
      using d True by (simp add: day_of_year_def month_length_def)
    ultimately have "day_number y 3 1 = day_number y 2 d + 1"
      using year_start_leap [of y] by (simp add: day_number_def march_year_def)
    then show ?thesis using True n len by (simp add: is_date_def)
  next
    case F: False
    have n: "if m = 12 then y' = y + 1 \<and> m' = 1 else y' = y \<and> m' = m + 1" "d' = 1"
      using False assms(2) m by (auto simp: next_day_def split: if_splits)
    have "day_of_year m' d' = day_of_year m d + 1"
      using m F n unfolding d by (elim disjE) (simp_all add: day_of_year_def month_length_def)
    moreover have "march_year y' m' = march_year y m"
      using m F n(1) by (elim disjE) (simp_all add: march_year_def)
    moreover have "1 \<le> m'" "m' \<le> 12" using m n(1) by auto
    ultimately show ?thesis using len n(2) by (simp add: is_date_def day_number_def)
  qed
qed

text \<open>\<open>civil_from_days\<close> finds the date of a day number, and every day number has one.\<close>

lemma civil_from_day_number:
  assumes "is_date y m d" "0 \<le> march_year y m" "y \<le> 9999"
  shows "civil_from_days (day_number y m d) = (y, m, d)"
proof -
  define k where "k = march_year y m"
  define e where "e = k div 400"
  define yoe where "yoe = k mod 400"
  define doy where "doy = day_of_year m d"
  define doe where "doe = 365 * yoe + yoe div 4 - yoe div 100 + doy"
  define mp where "mp = m + (if 2 < m then - 3 else 9)"
  have k: "k = 400 * e + yoe" "0 \<le> yoe" "yoe < 400" by (simp_all add: e_def yoe_def)
  have kb: "0 \<le> k" "k \<le> 9999" using assms(2,3) by (auto simp: k_def march_year_def)
  then have eb: "0 \<le> e" "e \<le> 24" using k by auto
  note doy_facts = doy_bounds [OF assms(1), folded doy_def k_def mp_def]
  have leap_last: "leap (yoe + 1)" if "doy = 365"
  proof -
    have "leap (k + 1)" using doy_facts(3) that by simp
    moreover have "n dvd 400 * e + (yoe + 1) \<longleftrightarrow> n dvd yoe + 1" if "n dvd 400" for n
      using that by (simp add: dvd_add_right_iff)
    ultimately show ?thesis unfolding leap_def k(1) by (simp add: add.assoc)
  qed
  note era = year_of_era [OF k(2,3) doy_facts(1,2) leap_last doe_def]
  have N: "day_number y m d = e * 146097 + doe"
    unfolding day_number_def year_start_def k_def [symmetric] doy_def [symmetric]
    using era_div [OF k] k(1) doe_def by linarith
  have Nb: "0 \<le> e * 146097 + doe" using era(1) eb by simp
  have "(e * 146097 + doe) div 146097 = e" using era(1,2) by simp
  then have s1: "u32i ((e * 146097 + doe) sdiv 146097) = e"
    using eb by (simp add: sdiv_nonneg [OF Nb] u32i_id)
  have s2: "u32i (e * 146097 + doe - u32i (e * 146097)) = doe"
    using era(1,2) eb by (simp add: u32i_id)
  have s3: "u32i (doe - doe div 1460 + doe div 36524 - doe div 146096) div 365 = yoe"
    using era(3,4,5) by (simp add: u32i_id)
  have s4: "u32i (doe - (365 * yoe + yoe div 4 - yoe div 100)) = doy"
    using doy_facts(1,2) by (simp add: doe_def u32i_id)
  have s5: "u32i (5 * doy + 2) div 153 = mp"
    using doy_facts(1,2,4) by (simp add: u32i_id)
  have mpb: "0 \<le> mp" "mp \<le> 11" using assms(1) by (auto simp: mp_def is_date_def)
  have db: "1 \<le> d" "d \<le> 31" using assms(1) month_length_le(2) [of y m] by (auto simp: is_date_def)
  have "doy - (153 * mp + 2) div 5 + 1 = d" by (simp add: doy_def day_of_year_def mp_def)
  then have s6: "i32 (doy - u32i (153 * mp + 2) div 5 + 1) = d"
    using mpb db by (simp add: u32i_id i32_id)
  have s7: "i32 (mp + (if mp < 10 then 3 else - 9)) = m"
    using assms(1) by (auto simp: mp_def is_date_def i32_id)
  have s8: "i32 (yoe + e * 400) = k" using kb k(1) by (simp add: i32_id algebra_simps)
  have s9: "k + (if m \<le> 2 then 1 else 0) = y" by (simp add: k_def march_year_def)
  show ?thesis
    unfolding civil_from_days_def N Let_def if_P [OF Nb] s1 s2 s3 s4 s5 s6 s7 s8 s9 ..
qed

lemma day_number_surj: "\<exists>y m d. is_date y m d \<and> 0 \<le> march_year y m \<and> day_number y m d = int n"
proof (induction n)
  case 0
  have "is_date 0 3 1 \<and> 0 \<le> march_year 0 3 \<and> day_number 0 3 1 = 0"
    by (simp add: is_date_def month_length_def march_year_def day_number_def year_start_def day_of_year_def)
  then show ?case by (metis int_ops(1))
next
  case (Suc n)
  then obtain y m d where d: "is_date y m d" "0 \<le> march_year y m" "day_number y m d = int n" by blast
  obtain y' m' d' where n: "next_day (y, m, d) = (y', m', d')" by (cases "next_day (y, m, d)")
  have "march_year y m \<le> march_year y' m'"
    using n by (auto simp: next_day_def march_year_def split: if_splits)
  with next_day_number [OF d(1) n] d(2,3)
  have "is_date y' m' d' \<and> 0 \<le> march_year y' m' \<and> day_number y' m' d' = int (Suc n)" by auto
  then show ?case by blast
qed

lemma day_number_year:
  assumes "is_date y m d" "0 \<le> march_year y m"
  shows "365 * march_year y m \<le> day_number y m d"
proof -
  have "march_year y m div 100 \<le> march_year y m div 4" using assms(2) by (intro zdiv_mono2) auto
  moreover have "0 \<le> march_year y m div 400" using assms(2) by simp
  ultimately show ?thesis
    using doy_bounds(1) [OF assms(1)] unfolding day_number_def year_start_def by linarith
qed

text \<open>Both conversions between dates and day numbers, for the four-digit years.\<close>

lemma civil_from_days_spec:
  assumes "0 \<le> n" "n < 3649000"
  shows "\<exists>y m d. civil_from_days n = (y, m, d) \<and> is_date y m d \<and> 0 \<le> march_year y m \<and> y \<le> 9999 \<and>
    day_number y m d = n"
proof -
  from day_number_surj [of "nat n"] assms(1) obtain y m d where
    d: "is_date y m d" "0 \<le> march_year y m" "day_number y m d = n" by auto
  have "y \<le> 9999"
    using day_number_year [OF d(1,2)] d(3) assms(2) by (auto simp: march_year_def split: if_splits)
  with civil_from_day_number [OF d(1,2)] d show ?thesis by auto
qed

section \<open>Time points to parts\<close>

text \<open>The specification: the date of the day, and the time within it.\<close>

definition time_of_day :: "int \<Rightarrow> int \<times> int \<times> int" where
  "time_of_day s = (s div 3600, s mod 3600 div 60, s mod 60)"

lemma lane_div:
  assumes "0 \<le> (q :: int)" "0 \<le> r" "r < b"
  shows "(q * b + r) sdiv b = q"
proof -
  have "0 \<le> q * b + r" using assms by simp
  moreover have "(q * b + r) div b = q" using assms by simp
  ultimately show ?thesis using assms by (simp add: sdiv_nonneg)
qed

lemma split_time:
  assumes "0 \<le> (h :: int)" "0 \<le> mi" "mi < 60" "0 \<le> se" "se < 60" "0 \<le> f" "f < u"
    and ms: "ms = (h * 3600 + mi * 60 + se) * u + f"
  shows "ms sdiv (60 * 60 * u) = h"
    and "(ms - h * 60 * 60 * u) sdiv (60 * u) = mi"
    and "(ms - h * 60 * 60 * u - mi * 60 * u) sdiv u = se"
    and "ms - h * 60 * 60 * u - mi * 60 * u - se * u = f"
proof -
  have u: "0 < u" using assms by simp
  have r3: "0 \<le> se * u + f" "se * u + f < 60 * u"
  proof -
    have "se * u \<le> 59 * u" using assms u by (intro mult_right_mono) auto
    then show "se * u + f < 60 * u" using assms by linarith
  qed (use assms u in simp)
  have r2: "0 \<le> mi * (60 * u) + (se * u + f)" "mi * (60 * u) + (se * u + f) < 60 * 60 * u"
  proof -
    have "mi * (60 * u) \<le> 59 * (60 * u)" using assms u by (intro mult_right_mono) auto
    then show "mi * (60 * u) + (se * u + f) < 60 * 60 * u" using r3 by linarith
  qed (use assms u r3 in simp)
  have e1: "ms = h * (60 * 60 * u) + (mi * (60 * u) + (se * u + f))"
    unfolding ms by (simp add: algebra_simps)
  show "ms sdiv (60 * 60 * u) = h"
    unfolding e1 using assms(1) r2 by (rule lane_div)
  have e2: "ms - h * 60 * 60 * u = mi * (60 * u) + (se * u + f)" unfolding e1 by (simp add: algebra_simps)
  show "(ms - h * 60 * 60 * u) sdiv (60 * u) = mi"
    unfolding e2 using assms(2) r3 by (rule lane_div)
  have e3: "ms - h * 60 * 60 * u - mi * 60 * u = se * u + f" unfolding e2 by (simp add: algebra_simps)
  show "(ms - h * 60 * 60 * u - mi * 60 * u) sdiv u = se"
    unfolding e3 using assms(4,6,7) by (rule lane_div)
  show "ms - h * 60 * 60 * u - mi * 60 * u - se * u = f" unfolding e3 by simp
qed

text \<open>
  The parts of a time point of day \<open>n\<close> after the epoch: the date of the day and the time in it,
  for a unit of \<open>1 / den\<close> seconds that divides the milliseconds (nanoseconds) evenly.
\<close>

lemma day_and_time:
  assumes den: "0 < den" and s: "0 \<le> (sec :: int)" "sec < 86400" and f: "0 \<le> f" "f < den" and n: "0 \<le> n"
  shows "((n * 86400 + sec) * den + f) sdiv den = n * 86400 + sec"
    and "(n * 86400 + sec) - (n * 86400 + sec) smod 86400 = n * 86400"
    and "(n * 86400) sdiv 86400 = n"
  using lane_div [of "n * 86400 + sec" f den] lane_div [of n 0 86400] assms
  by (simp_all add: smod_nonneg)

lemma timepointtoparts_eq:
  assumes n: "0 \<le> n" "n < 2900000" and date: "civil_from_days (n + 719468) = (y, m, d)"
    and t: "0 \<le> h" "h < 24" "0 \<le> mi" "mi < 60" "0 \<le> se" "se < 60" "0 \<le> ms" "ms < 1000"
  shows "timepointtoparts 1000 ((n * 86400 + (h * 3600 + mi * 60 + se)) * 1000 + ms) = (y, m, d, h, mi, se, ms)"
proof -
  define sec where "sec = h * 3600 + mi * 60 + se"
  define tp where "tp = (n * 86400 + sec) * 1000 + ms"
  have sec: "0 \<le> sec" "sec < 86400" using t by (auto simp: sec_def)
  have thousand: "0 < (1000 :: int)" by simp
  note dt = day_and_time [OF thousand sec t(7,8) n(1), folded tp_def]
  have in_day: "tp - n * 86400 * 1000 = sec * 1000 + ms" by (simp add: tp_def)
  have "(sec * 1000 + ms) * 1000 sdiv 1000 = sec * 1000 + ms"
    using lane_div [of "sec * 1000 + ms" 0 1000] sec t by simp
  moreover have "i32 (sec * 1000 + ms) = sec * 1000 + ms" using sec t by (simp add: i32_id)
  ultimately have ims: "i32 ((sec * 1000 + ms) * 1000 sdiv 1000) = sec * 1000 + ms" by simp
  note st = split_time [OF t(1,3-8), of "sec * 1000 + ms", folded sec_def, OF refl]
  show ?thesis
    unfolding sec_def [symmetric] tp_def [symmetric] timepointtoparts_def Let_def dt in_day ims date
    by (simp only: prod.case st)
qed

lemma timepointtoparts_nano_eq:
  assumes n: "0 \<le> n" "n < 2900000" and date: "civil_from_days (n + 719468) = (y, m, d)"
    and t: "0 \<le> h" "h < 24" "0 \<le> mi" "mi < 60" "0 \<le> se" "se < 60" "0 \<le> ns" "ns < 1000000000"
  shows "timepointtoparts_nano 1000000000
    ((n * 86400 + (h * 3600 + mi * 60 + se)) * 1000000000 + ns) = (y, m, d, h, mi, se, ns)"
proof -
  define sec where "sec = h * 3600 + mi * 60 + se"
  define tp where "tp = (n * 86400 + sec) * 1000000000 + ns"
  have sec: "0 \<le> sec" "sec < 86400" using t by (auto simp: sec_def)
  have giga: "0 < (1000000000 :: int)" by simp
  note dt = day_and_time [OF giga sec t(7,8) n(1), folded tp_def]
  have in_day: "tp - n * 86400 * 1000000000 = sec * 1000000000 + ns" by (simp add: tp_def)
  have lns: "(sec * 1000000000 + ns) * 1000000000 sdiv 1000000000 = sec * 1000000000 + ns"
    using lane_div [of "sec * 1000000000 + ns" 0 1000000000] sec t by simp
  have i: "i32 h = h" "i32 mi = mi" "i32 se = se" "i32 ns = ns" using t by (simp_all add: i32_id)
  note st = split_time [OF t(1,3-8), of "sec * 1000000000 + ns", folded sec_def, OF refl]
  show ?thesis
    unfolding sec_def [symmetric] tp_def [symmetric] timepointtoparts_nano_def Let_def dt in_day lns date
    by (simp only: prod.case st i)
qed

section \<open>The supported years\<close>

lemma year_start_step: "year_start k + 365 \<le> year_start (k + 1)"
  using year_start_leap [of "k + 1"] by simp

lemma year_start_mono: "year_start k + 365 * int j \<le> year_start (k + int j)"
proof (induction j)
  case 0
  show ?case by simp
next
  case (Suc j)
  have "year_start k + 365 * int (Suc j) \<le> year_start (k + int j) + 365" using Suc by simp
  also have "\<dots> \<le> year_start (k + int j + 1)" by (rule year_start_step)
  also have "k + int j + 1 = k + int (Suc j)" by simp
  finally show ?case .
qed

lemma year_start_le: "k \<le> K \<Longrightarrow> year_start k + 365 * (K - k) \<le> year_start K"
  using year_start_mono [of k "nat (K - k)"] by simp

lemma year_start_le0: "k \<le> K \<Longrightarrow> year_start k \<le> year_start K"
  using year_start_le [of k K] by (simp add: algebra_simps)

lemma doy_parts:
  assumes "is_date y m d"
  shows "m \<le> 2 \<Longrightarrow> 306 \<le> day_of_year m d" "2 < m \<Longrightarrow> day_of_year m d \<le> 305"
proof -
  have m: "m = 1 \<or> m = 2 \<or> m = 3 \<or> m = 4 \<or> m = 5 \<or> m = 6 \<or> m = 7 \<or> m = 8 \<or>
     m = 9 \<or> m = 10 \<or> m = 11 \<or> m = 12" and d: "1 \<le> d" "d \<le> 31"
    using assms month_cases [of m] month_length_le(2) [of y m] by (auto simp: is_date_def)
  show "306 \<le> day_of_year m d" if "m \<le> 2"
    using m d that by (elim disjE) (simp_all add: day_of_year_def)
  show "day_of_year m d \<le> 305" if "2 < m"
    using m d that by (elim disjE) (simp_all add: day_of_year_def)
qed

text \<open>The days from 1970-01-01 to 2200-12-31 are the day numbers from 0 to 84370.\<close>

lemma supported_days:
  assumes "is_date y m d" "day_number y m d = n + 719468"
  shows "1970 \<le> y \<and> y \<le> 2200 \<longleftrightarrow> 0 \<le> n \<and> n < 84371"
proof -
  define k where "k = march_year y m"
  define doy where "doy = day_of_year m d"
  have N: "n + 719468 = year_start k + doy"
    using assms(2) by (simp add: day_number_def k_def doy_def)
  have doy: "0 \<le> doy" "doy \<le> 365" using doy_bounds(1,2) [OF assms(1)] by (simp_all add: doy_def)
  have c: "year_start 1968 = 718797" "year_start 1969 = 719162" "year_start 1970 = 719527"
    "year_start 2199 = 803168" "year_start 2200 = 803533" "year_start 2201 = 803898"
    by (simp_all add: year_start_def)
  have lower: "year_start k \<le> year_start K" if "k \<le> K" for K
    by (rule year_start_le0 [OF that])
  have upper: "year_start K \<le> year_start k" if "K \<le> k" for K
    by (rule year_start_le0 [OF that])
  show ?thesis
  proof (cases "m \<le> 2")
    case True
    then have k: "k = y - 1" "306 \<le> doy" using doy_parts(1) [OF assms(1)] by (auto simp: k_def march_year_def doy_def)
    consider "k \<le> 1968" | "1969 \<le> k" "k \<le> 2199" | "2200 \<le> k" by linarith
    then show ?thesis
      using k N doy c lower [of 1968] upper [of 1969] lower [of 2199] upper [of 2200] by cases auto
  next
    case False
    then have k: "k = y" "doy \<le> 305" using doy_parts(2) [OF assms(1)] by (auto simp: k_def march_year_def doy_def)
    consider "k \<le> 1969" | "1970 \<le> k" "k \<le> 2200" | "2201 \<le> k" by linarith
    then show ?thesis
      using k N doy c lower [of 1969] upper [of 1970] lower [of 2200] upper [of 2201] by cases auto
  qed
qed

end
