(* ===== verification/Date_Text.thy ===== *)
theory Date_Text
  imports Date_Time
begin

text \<open>
  The parsers of \<open>Date_Time\<close> on texts of digits: what they read from the fixed-width texts the
  writer produces (\<open>low_digits\<close>, the meaning of \<open>itoa_padded_unchecked\<close>), and the bounds
  that keep the conversion to a time point in 64 bits for every text.
\<close>

section \<open>Digit runs\<close>

lemma parse_two_list:
  assumes "length ds = 2" "\<forall>c \<in> set ds. is_digit c"
  shows "parse_two_digits (ds @ cs) = Some (of_nat (dec_val ds))"
proof -
  from assms(1) obtain a b where "ds = [a, b]" by (auto simp: length_Suc_conv numeral_2_eq_2)
  with assms(2) show ?thesis using parse_two_digits_eq [of a b cs] by simp
qed

lemma parse_four_list:
  assumes "length ds = 4" "\<forall>c \<in> set ds. is_digit c"
  shows "parse_four_digits (ds @ cs) = Some (of_nat (dec_val ds))"
proof -
  from assms(1) obtain a b c d where "ds = [a, b, c, d]"
    by (auto simp: length_Suc_conv numeral_eq_Suc)
  with assms(2) show ?thesis using parse_four_digits_eq [of a b c d cs] by simp
qed

lemma parse_eight_list:
  assumes "length ds = 8" "\<forall>c \<in> set ds. is_digit c"
  shows "parse_eight_digits (ds @ cs) = Some (of_nat (dec_val ds))"
proof -
  from assms(1) obtain a b c d e f g h where "ds = [a, b, c, d, e, f, g, h]"
    by (auto simp: length_Suc_conv numeral_eq_Suc)
  with assms(2) show ?thesis using parse_eight_digits_eq [of a b c d e f g h cs] by simp
qed

lemma int_of_u32_nat: "n < 2 ^ 31 \<Longrightarrow> int_of_u32 (of_nat n) = int n"
  using sint_word_of_int [of "int n", where 'a = 32] by (simp add: int_of_u32_def)

lemma u32_div_mod:
  assumes "n < 2 ^ 32" "k < 2 ^ 32"
  shows "(of_nat n :: u32) div of_nat k = of_nat (n div k)" "(of_nat n :: u32) mod of_nat k = of_nat (n mod k)"
proof -
  have n: "unat (of_nat n :: u32) = n" "unat (of_nat k :: u32) = k"
    using unat_of_nat_lt [where 'a = 32, of n] unat_of_nat_lt [where 'a = 32, of k] assms by simp_all
  have "n div k < 2 ^ LENGTH(32)" "n mod k < 2 ^ LENGTH(32)"
    using assms(1) by (auto intro: le_less_trans [OF div_le_dividend] le_less_trans [OF mod_less_eq_dividend])
  then have "unat (of_nat (n div k) :: u32) = n div k" "unat (of_nat (n mod k) :: u32) = n mod k"
    by (simp_all only: unat_of_nat_lt)
  with n show "(of_nat n :: u32) div of_nat k = of_nat (n div k)"
    "(of_nat n :: u32) mod of_nat k = of_nat (n mod k)"
    by (simp_all only: word_unat_eq_iff unat_div unat_mod)
qed

section \<open>Dates and times of the writer's texts\<close>

lemma dec_val_low: "dec_val (low_digits k n) = n mod 10 ^ k"
  by (simp add: dec_acc_low_digits)

lemma lane: "d < 100 \<Longrightarrow> (a * 100 + d) div 100 = (a :: nat) \<and> (a * 100 + d) mod 100 = d"
  by simp

lemma atodate_text:
  assumes "y < 10000" "m < 100" "d < 100"
  shows "atodate (low_digits 4 y @ low_digits 2 m @ low_digits 2 d) = Some (Some (int y, int m, int d))"
proof -
  let ?ds = "low_digits 4 y @ low_digits 2 m @ low_digits 2 d"
  let ?n = "(y * 100 + m) * 100 + d"
  have "dec_val ?ds = ?n" using assms by (simp add: dec_acc_low_digits)
  moreover have "\<forall>c \<in> set ?ds. is_digit c" by (auto simp: low_digits_digit)
  ultimately have p: "parse_eight_digits ?ds = Some (of_nat ?n)"
    using parse_eight_list [of ?ds "[]"] by simp
  define n where "n = ?n"
  have n: "n < 2 ^ 31" "n < 2 ^ 32" using assms by (auto simp: n_def)
  have "(of_nat n :: u32) div 10000 = of_nat (n div 10000)" "(of_nat n :: u32) div 100 = of_nat (n div 100)"
    "(of_nat n :: u32) mod 100 = of_nat (n mod 100)"
    "(of_nat (n div 100) :: u32) mod 100 = of_nat (n div 100 mod 100)"
    using u32_div_mod [of n 10000] u32_div_mod [of n 100] u32_div_mod [of "n div 100" 100] n
    by (simp_all only: of_nat_numeral) auto
  moreover have "n div 100 = y * 100 + m" "n mod 100 = d" "(y * 100 + m) mod 100 = m"
      "(y * 100 + m) div 100 = y"
    using lane [OF assms(3), of "y * 100 + m"] lane [OF assms(2), of y] unfolding n_def by blast+
  moreover from this have "n div 10000 = y"
    using div_mult2_eq [of n 100 100] by simp
  ultimately have q: "(of_nat n :: u32) div 10000 = of_nat y"
    "(of_nat n :: u32) div 100 mod 100 = of_nat m" "(of_nat n :: u32) mod 100 = of_nat d"
    by simp_all
  have "atodate ?ds = Some (Some (int_of_u32 (of_nat y), int_of_u32 (of_nat m), int_of_u32 (of_nat d)))"
    unfolding atodate_def p n_def [symmetric] bind.simps q by simp
  then show ?thesis using assms by (simp add: int_of_u32_nat)
qed

lemma two_digits_at:
  assumes "n < 100"
  shows "parse_two_digits (low_digits 2 n @ cs) = Some (of_nat n)"
  using parse_two_list [of "low_digits 2 n" cs] assms
  by (simp add: low_digits_digit dec_val_low)

abbreviation hms_digits :: "nat \<Rightarrow> nat \<Rightarrow> nat \<Rightarrow> byte list" where
  "hms_digits h m s \<equiv> low_digits 2 h @ [COLON_CH] @ low_digits 2 m @ [COLON_CH] @ low_digits 2 s"

lemma hms_parts:
  assumes "h < 100" "m < 100" "s < 100"
  shows "parse_two_digits (hms_digits h m s @ cs) = Some (of_nat h)"
    and "parse_two_digits (drop 3 (hms_digits h m s @ cs)) = Some (of_nat m)"
    and "parse_two_digits (drop 6 (hms_digits h m s @ cs)) = Some (of_nat s)"
  using two_digits_at [OF assms(1), of "COLON_CH # low_digits 2 m @ COLON_CH # low_digits 2 s @ cs"]
    two_digits_at [OF assms(2), of "COLON_CH # low_digits 2 s @ cs"] two_digits_at [OF assms(3), of cs]
  by simp_all

lemma low_digits_snoc: "low_digits (Suc k) n = low_digits k (n div 10) @ [of_nat (48 + n mod 10)]"
  by simp

lemma sint_low_digit: "sint (of_nat (48 + n mod 10) :: byte) - 48 = int (n mod 10)"
  using digit_int(2) [of "of_nat (48 + n mod 10)"] digit_byte(1,2) [of "n mod 10"] by simp

lemma atotime_s_text:
  assumes "h < 100" "m < 100" "s < 100"
  shows "atotime (hms_digits h m s) = Some (Some (int h, int m, int s, 0))"
  using hms_parts [OF assms, of "[]"] assms by (simp add: atotime_def int_of_u32_nat)

lemma atotime_text:
  assumes "h < 100" "m < 100" "s < 100" "ms < 1000"
  shows "atotime (hms_digits h m s @ [DOT_CH] @ low_digits 3 ms) = Some (Some (int h, int m, int s, int ms))"
proof -
  let ?bs = "hms_digits h m s @ [DOT_CH] @ low_digits 3 ms"
  have three: "low_digits 3 ms = low_digits 2 (ms div 10) @ [of_nat (48 + ms mod 10)]"
    using low_digits_snoc [of 2 ms] by (simp add: numeral_3_eq_3 numeral_2_eq_2)
  have len: "length ?bs = 12" by simp
  have d9: "drop 9 ?bs = low_digits 2 (ms div 10) @ [of_nat (48 + ms mod 10)]" by (simp add: three)
  have p: "parse_two_digits (drop 9 ?bs) = Some (of_nat (ms div 10))"
    unfolding d9 using assms(4) by (intro two_digits_at) simp
  have "?bs ! 11 = of_nat (48 + ms mod 10)" by (simp add: three nth_append)
  then have c: "rd ?bs 11 = Some (of_nat (48 + ms mod 10))" using len by (simp only: rd_def) simp
  have "int (ms div 10) * 10 + int (ms mod 10) = int ms" by presburger
  then have frac: "int_of_u32 (of_nat (ms div 10)) * 10 + (sint (of_nat (48 + ms mod 10) :: byte) - 48) = int ms"
    using assms(4) by (simp only: sint_low_digit) (simp add: int_of_u32_nat)
  have hms: "int_of_u32 (of_nat h) = int h" "int_of_u32 (of_nat m) = int m" "int_of_u32 (of_nat s) = int s"
    using assms(1-3) by (simp_all add: int_of_u32_nat)
  note parts = hms_parts [OF assms(1-3), of "[DOT_CH] @ low_digits 3 ms"]
  show ?thesis
    unfolding atotime_def len parts p c bind.simps if_P [OF refl] frac hms by simp
qed

lemma atotime_nano_text:
  assumes "h < 100" "m < 100" "s < 100" "ns < 1000000000"
  shows "atotime_nano (hms_digits h m s @ [DOT_CH] @ low_digits 9 ns) outs =
    Some (True, int h, int m, int s, int ns)"
proof -
  let ?bs = "hms_digits h m s @ [DOT_CH] @ low_digits 9 ns"
  let ?q = "ns div 10"
  have suc: "Suc 8 = 9" by simp
  have nine: "low_digits 9 ns = low_digits 8 ?q @ [of_nat (48 + ns mod 10)]"
    using low_digits_snoc [of 8 ns] unfolding suc .
  have len: "length ?bs = 18" by simp
  have d9: "drop 9 ?bs = low_digits 8 ?q @ [of_nat (48 + ns mod 10)]" by (simp add: nine)
  have q: "?q < 10 ^ 8" using assms(4) by simp
  have p: "parse_eight_digits (drop 9 ?bs) = Some (of_nat ?q)"
    unfolding d9 using parse_eight_list [of "low_digits 8 ?q"] q
    by (simp add: low_digits_digit dec_val_low)
  have "?bs ! 17 = of_nat (48 + ns mod 10)" by (simp add: nine nth_append)
  then have c: "rd ?bs 17 = Some (of_nat (48 + ns mod 10))" using len by (simp only: rd_def) simp
  have "word_of_int (sint (of_nat (48 + ns mod 10) :: byte) - 48) = (of_nat (ns mod 10) :: u32)"
    by (simp only: sint_low_digit) simp
  moreover have "of_nat ?q * 10 + of_nat (ns mod 10) = (of_nat (?q * 10 + ns mod 10) :: u32)"
    by (simp only: of_nat_add of_nat_mult of_nat_numeral)
  moreover have "?q * 10 + ns mod 10 = ns" by simp
  ultimately have frac:
      "int_of_u32 (of_nat ?q * 10 + word_of_int (sint (of_nat (48 + ns mod 10) :: byte) - 48)) = int ns"
    using assms(4) by (simp only:) (simp add: int_of_u32_nat)
  have hms: "int_of_u32 (of_nat h) = int h" "int_of_u32 (of_nat m) = int m" "int_of_u32 (of_nat s) = int s"
    using assms(1-3) by (simp_all add: int_of_u32_nat)
  note parts = hms_parts [OF assms(1-3), of "[DOT_CH] @ low_digits 9 ns"]
  have "\<not> (18 :: nat) < 8" "(18 :: nat) \<noteq> 12" "(18 :: nat) \<noteq> 15" by simp_all
  then show ?thesis
    unfolding atotime_nano_def len parts p c by (simp only: option.map bind.simps if_False if_True refl frac hms)
qed

section \<open>No access outside the bytes\<close>

lemma atodate_returns: "\<exists>res. atodate bs = Some res"
  using parsers_return(3) [of bs] by (auto simp: atodate_def)

lemma atotime_returns: "\<exists>res. atotime bs = Some res"
proof (cases "length bs = 8 \<or> length bs = 12")
  case True
  then have "\<exists>x. parse_two_digits (drop k bs) = Some x" if "k \<le> 6" for k
    using that by (intro parsers_return) auto
  from this [of 0] this [of 3] this [of 6] obtain x y z where
    "parse_two_digits bs = Some x" "parse_two_digits (drop 3 bs) = Some y" "parse_two_digits (drop 6 bs) = Some z"
    by auto
  moreover have "\<exists>x. parse_two_digits (drop 9 bs) = Some x" if "length bs = 12"
    using that by (intro parsers_return) simp
  ultimately show ?thesis by (auto simp: atotime_def rd_def)
qed (simp add: atotime_def)

lemma atotime_nano_returns: "\<exists>res. atotime_nano bs outs = Some res"
proof (cases "length bs < 8")
  case False
  then have "\<exists>x. parse_two_digits (drop k bs) = Some x" if "k \<le> 6" for k
    using that by (intro parsers_return) auto
  from this [of 0] this [of 3] this [of 6] obtain x y z where
    hms: "parse_two_digits bs = Some x" "parse_two_digits (drop 3 bs) = Some y" "parse_two_digits (drop 6 bs) = Some z"
    by auto
  have "\<exists>x. parse_two_digits (drop 9 bs) = Some x" if "length bs = 12"
    using that by (intro parsers_return) simp
  moreover have "\<exists>x. parse_four_digits (drop 9 bs) = Some x" "\<exists>x. parse_two_digits (drop 13 bs) = Some x"
    if "length bs = 15" using that by (intro parsers_return; simp)+
  moreover have "\<exists>x. parse_eight_digits (drop 9 bs) = Some x" if "length bs = 18"
    using that by (intro parsers_return) simp
  ultimately show ?thesis using hms by (auto simp: atotime_nano_def rd_def simp del: split_paired_Ex)
qed (simp add: atotime_nano_def del: split_paired_Ex)

lemma date_part: "9 \<le> length bs \<Longrightarrow> rd_range bs 0 8 = Some (take 8 bs)"
  by (simp add: rd_range_def)

lemma atotimepoint_returns: "\<exists>res. atotimepoint bs = Some res"
proof (cases "length bs < 9")
  case False
  moreover from atotime_returns obtain t where "atotime (drop 9 bs) = Some t" by blast
  moreover from atodate_returns obtain d where "atodate (take 8 bs) = Some d" by blast
  ultimately show ?thesis by (auto simp: atotimepoint_def date_part split: option.split)
qed (simp add: atotimepoint_def)

lemma atotimepoint_nano_returns: "\<exists>res. atotimepoint_nano bs = Some res"
proof (cases "length bs < 9")
  case False
  moreover from atotime_nano_returns obtain ok h m s ns where
    "atotime_nano (drop 9 bs) (0, 0, 0, 0) = Some (ok, h, m, s, ns)" by (metis prod_cases5)
  moreover from atodate_returns obtain d where "atodate (take 8 bs) = Some d" by blast
  ultimately show ?thesis by (auto simp: atotimepoint_nano_def date_part split: option.split)
qed (simp add: atotimepoint_nano_def)

section \<open>Time points of the writer's texts\<close>

abbreviation ymd_digits :: "nat \<Rightarrow> nat \<Rightarrow> nat \<Rightarrow> byte list" where
  "ymd_digits y m d \<equiv> low_digits 4 y @ low_digits 2 m @ low_digits 2 d"

text \<open>A date, a time of day and a fraction of a second in the supported years.\<close>

definition parts_ok :: "nat \<Rightarrow> nat \<Rightarrow> nat \<Rightarrow> nat \<Rightarrow> nat \<Rightarrow> nat \<Rightarrow> bool" where
  "parts_ok y mo d h mi s \<longleftrightarrow> is_date (int y) (int mo) (int d) \<and> 1970 \<le> y \<and> y \<le> 2200 \<and>
     h < 24 \<and> mi < 60 \<and> s < 60"

lemma parts_bounds:
  assumes "parts_ok y mo d h mi s"
  shows "y < 10000" "mo < 100" "d < 100" "h < 100" "mi < 100" "s < 100"
    "date_supported (int y) (int mo) (int d)" "0 \<le> march_year (int y) (int mo)" "int y \<le> 9999"
proof -
  have "int d \<le> 31" using assms month_length_le(2) [of "int y" "int mo"] by (auto simp: parts_ok_def is_date_def)
  then show "d < 100" "date_supported (int y) (int mo) (int d)"
    using assms by (auto simp: parts_ok_def date_supported_def is_date_def kMinSupportedYear_def kMaxSupportedYear_def)
qed (use assms in \<open>auto simp: parts_ok_def is_date_def march_year_def\<close>)

lemma atotimepoint_text:
  assumes "parts_ok y mo d h mi s" "ms < 1000"
  shows "atotimepoint (ymd_digits y mo d @ [MINUS_CH] @ hms_digits h mi s @ [DOT_CH] @ low_digits 3 ms) =
    Some (Some ((days_from_civil (int y) (int mo) (int d) * 86400 + int h * 3600 + int mi * 60 + int s) * 1000 + int ms))"
proof -
  note b = parts_bounds [OF assms(1)]
  let ?t = "hms_digits h mi s @ [DOT_CH] @ low_digits 3 ms"
  let ?bs = "ymd_digits y mo d @ [MINUS_CH] @ ?t"
  have "drop 9 ?bs = ?t" "rd_range ?bs 0 8 = Some (ymd_digits y mo d)" "\<not> length ?bs < 9"
    by (simp_all add: date_part)
  then show ?thesis
    unfolding atotimepoint_def using atotime_text [OF b(4-6) assms(2)] atodate_text [OF b(1-3)] b(7)
    by simp
qed

lemma atotimepoint_nano_text:
  assumes "parts_ok y mo d h mi s" "ns < 1000000000"
  shows "atotimepoint_nano (ymd_digits y mo d @ [MINUS_CH] @ hms_digits h mi s @ [DOT_CH] @ low_digits 9 ns) =
    Some (Some ((days_from_civil (int y) (int mo) (int d) * 86400 + int h * 3600 + int mi * 60 + int s) *
      1000000000 + int ns))"
proof -
  note b = parts_bounds [OF assms(1)]
  let ?t = "hms_digits h mi s @ [DOT_CH] @ low_digits 9 ns"
  let ?bs = "ymd_digits y mo d @ [MINUS_CH] @ ?t"
  have "drop 9 ?bs = ?t" "rd_range ?bs 0 8 = Some (ymd_digits y mo d)" "\<not> length ?bs < 9"
    by (simp_all add: date_part)
  then show ?thesis
    unfolding atotimepoint_nano_def
    using atotime_nano_text [OF b(4-6) assms(2), of "(0, 0, 0, 0)"] atodate_text [OF b(1-3)] b(7)
    by simp
qed

text \<open>The parts of every time point from 1970 to 2200, and the way back.\<close>

lemma day_parts:
  assumes "0 \<le> n" "n < 84371"
  shows "\<exists>y mo d. civil_from_days (n + 719468) = (int y, int mo, int d) \<and>
    is_date (int y) (int mo) (int d) \<and> 1970 \<le> y \<and> y \<le> 2200 \<and>
    days_from_civil (int y) (int mo) (int d) = n"
proof -
  from civil_from_days_spec [of "n + 719468"] assms obtain y m d where
    c: "civil_from_days (n + 719468) = (y, m, d)" "is_date y m d" "0 \<le> march_year y m" "y \<le> 9999"
      "day_number y m d = n + 719468" by auto
  from supported_days [OF c(2,5)] assms have y: "1970 \<le> y" "y \<le> 2200" by auto
  have "1 \<le> m" "m \<le> 12" "1 \<le> d" "d \<le> 31"
    using c(2) month_length_le(2) [of y m] by (auto simp: is_date_def)
  from days_from_civil_eq [OF this c(3,4)] c(5) have "days_from_civil y m d = n" by simp
  moreover have "0 \<le> m" "0 \<le> d" using c(2) by (auto simp: is_date_def)
  ultimately show ?thesis
    using c(1,2) y by (intro exI [of _ "nat y"] exI [of _ "nat m"] exI [of _ "nat d"]) auto
qed

lemma tick_parts:
  assumes "0 \<le> tp" "tp < 84371 * 86400 * den" "0 < (den :: int)"
  shows "\<exists>n h mi s f. tp = (n * 86400 + (int h * 3600 + int mi * 60 + int s)) * den + int f \<and>
    0 \<le> n \<and> n < 84371 \<and> h < 24 \<and> mi < 60 \<and> s < 60 \<and> int f < den"
proof -
  define sec where "sec = tp div den"
  define n where "n = sec div 86400"
  define r where "r = sec mod 86400"
  have sec: "tp = sec * den + tp mod den" "0 \<le> tp mod den" "tp mod den < den" "0 \<le> sec"
    using assms by (simp_all add: sec_def pos_imp_zdiv_nonneg_iff)
  then have "sec * den < 84371 * 86400 * den" using assms(2) by linarith
  then have sec_lt: "sec < 84371 * 86400" using assms(3) by (simp only: mult_less_cancel_right_pos)
  have r: "sec = n * 86400 + r" "0 \<le> r" "r < 86400" by (simp_all add: n_def r_def)
  then have n: "0 \<le> n" "n < 84371" using sec(4) sec_lt by auto
  define h where "h = r div 3600"
  define q where "q = r mod 3600"
  define mi where "mi = q div 60"
  define s where "s = q mod 60"
  have q: "r = h * 3600 + q" "0 \<le> q" "q < 3600" "q = mi * 60 + s" "0 \<le> s" "s < 60"
    by (simp_all add: h_def q_def mi_def s_def)
  then have b: "0 \<le> h" "h < 24" "0 \<le> mi" "mi < 60" using r by auto
  have "tp = (n * 86400 + (int (nat h) * 3600 + int (nat mi) * 60 + int (nat s))) * den + int (nat (tp mod den))"
    using sec(1) r(1) q b sec(2) by (simp add: add.assoc)
  then show ?thesis
    using n b q(5,6) sec(2,3) by (intro exI conjI) (assumption | simp)+
qed

text \<open>Printing a time point and reading the text gives it back, and the sum stays in 64 bits.\<close>

theorem timepoint_roundtrip:
  assumes "0 \<le> tp" "tp < 84371 * 86400 * 1000"
  shows "\<exists>y mo d h mi s ms. timepointtoparts 1000 tp = (int y, int mo, int d, int h, int mi, int s, int ms) \<and>
    parts_ok y mo d h mi s \<and> ms < 1000 \<and>
    atotimepoint (ymd_digits y mo d @ [MINUS_CH] @ hms_digits h mi s @ [DOT_CH] @ low_digits 3 ms) = Some (Some tp)"
proof -
  from tick_parts [OF assms(1), of 1000] assms(2) obtain n h mi s ms where
    t: "tp = (n * 86400 + (int h * 3600 + int mi * 60 + int s)) * 1000 + int ms"
      "0 \<le> n" "n < 84371" "h < 24" "mi < 60" "s < 60" "int ms < 1000" by auto
  from day_parts [OF t(2,3)] obtain y mo d where
    d: "civil_from_days (n + 719468) = (int y, int mo, int d)" "is_date (int y) (int mo) (int d)"
      "1970 \<le> y" "y \<le> 2200" "days_from_civil (int y) (int mo) (int d) = n" by blast
  have ok: "parts_ok y mo d h mi s" using d t by (simp add: parts_ok_def)
  have "timepointtoparts 1000 tp = (int y, int mo, int d, int h, int mi, int s, int ms)"
    unfolding t(1) using t d(1) by (intro timepointtoparts_eq) auto
  moreover have "ms < 1000" using t(7) by simp
  moreover from atotimepoint_text [OF ok this] d(5) t(1)
  have "atotimepoint (ymd_digits y mo d @ [MINUS_CH] @ hms_digits h mi s @ [DOT_CH] @ low_digits 3 ms) = Some (Some tp)"
    by simp
  ultimately show ?thesis using ok by blast
qed

theorem timepoint_nano_roundtrip:
  assumes "0 \<le> tp" "tp < 84371 * 86400 * 1000000000"
  shows "\<exists>y mo d h mi s ns. timepointtoparts_nano 1000000000 tp = (int y, int mo, int d, int h, int mi, int s, int ns) \<and>
    parts_ok y mo d h mi s \<and> ns < 1000000000 \<and>
    atotimepoint_nano (ymd_digits y mo d @ [MINUS_CH] @ hms_digits h mi s @ [DOT_CH] @ low_digits 9 ns) = Some (Some tp)"
proof -
  from tick_parts [OF assms(1), of 1000000000] assms(2) obtain n h mi s ns where
    t: "tp = (n * 86400 + (int h * 3600 + int mi * 60 + int s)) * 1000000000 + int ns"
      "0 \<le> n" "n < 84371" "h < 24" "mi < 60" "s < 60" "int ns < 1000000000" by auto
  from day_parts [OF t(2,3)] obtain y mo d where
    d: "civil_from_days (n + 719468) = (int y, int mo, int d)" "is_date (int y) (int mo) (int d)"
      "1970 \<le> y" "y \<le> 2200" "days_from_civil (int y) (int mo) (int d) = n" by blast
  have ok: "parts_ok y mo d h mi s" using d t by (simp add: parts_ok_def)
  have "timepointtoparts_nano 1000000000 tp = (int y, int mo, int d, int h, int mi, int s, int ns)"
    unfolding t(1) using t d(1) by (intro timepointtoparts_nano_eq) auto
  moreover have "ns < 1000000000" using t(7) by simp
  moreover from atotimepoint_nano_text [OF ok this] d(5) t(1)
  have "atotimepoint_nano (ymd_digits y mo d @ [MINUS_CH] @ hms_digits h mi s @ [DOT_CH] @ low_digits 9 ns) = Some (Some tp)"
    by simp
  ultimately show ?thesis using ok by blast
qed

section \<open>64-bit bounds for every text\<close>

lemma two_digit_range:
  assumes "parse_two_digits bs = Some x"
  shows "\<bar>int_of_u32 x\<bar> \<le> 2000"
proof -
  have b: "- 128 \<le> sint c" "sint c \<le> 127" for c :: byte
    using sint_greater_eq [of c] sint_less [of c] by simp_all
  from assms obtain a c :: byte where "x = word_of_int (sint a - 48) * 10 + word_of_int (sint c - 48)"
    by (auto simp: parse_two_digits_def bind_eq_Some_conv)
  then have "x = word_of_int ((sint a - 48) * 10 + (sint c - 48))" by simp
  then have "int_of_u32 x = (sint a - 48) * 10 + (sint c - 48)"
    using b [of a] b [of c] by (simp only: int_of_u32_def) (intro sint_word_of_int, auto)
  then show ?thesis using b [of a] b [of c] by (auto simp: abs_le_iff)
qed

lemma days_range:
  assumes "date_supported y m d"
  shows "- 400 \<le> days_from_civil y m d \<and> days_from_civil y m d \<le> 84500"
proof -
  from assms have r: "1 \<le> m" "m \<le> 12" "1 \<le> d" "d \<le> 31" "1970 \<le> y" "y \<le> 2200"
    by (auto simp: date_supported_def kMinSupportedYear_def kMaxSupportedYear_def)
  then have k: "1969 \<le> march_year y m" "march_year y m \<le> 2200" by (auto simp: march_year_def)
  then have "days_from_civil y m d = year_start (march_year y m) + day_of_year m d - 719468"
    using days_from_civil_eq [OF r(1-4)] r(6) by (simp add: day_number_def)
  moreover have "year_start 1969 = 719162" "year_start 2200 = 803533" by (simp_all add: year_start_def)
  ultimately show ?thesis
    using year_start_le0 [OF k(1)] year_start_le0 [OF k(2)] day_of_year_range [OF r(1-4)] by auto
qed

lemma atotime_range:
  assumes "atotime bs = Some (Some (h, m, s, ms))"
  shows "\<bar>h\<bar> \<le> 2000 \<and> \<bar>m\<bar> \<le> 2000 \<and> \<bar>s\<bar> \<le> 2000 \<and> \<bar>ms\<bar> \<le> 21000"
proof -
  have c: "\<bar>int_of_u32 x * 10 + (sint c - 48)\<bar> \<le> 21000" if "parse_two_digits p = Some x" for p x and c :: byte
    using two_digit_range [OF that] sint_greater_eq [of c] sint_less [of c] by (auto simp: abs_le_iff)
  show ?thesis
    using assms
    by (auto simp: atotime_def bind_eq_Some_conv two_digit_range c split: if_splits)
qed

theorem atotimepoint_range:
  assumes "atotimepoint bs = Some (Some tp)"
  shows "\<bar>tp * 1000000\<bar> < 2 ^ 63"
proof -
  from assms obtain h mi s ms y mo d where
    t: "atotime (drop 9 bs) = Some (Some (h, mi, s, ms))" and
    d: "date_supported y mo d" and
    tp: "tp = (days_from_civil y mo d * 86400 + h * 3600 + mi * 60 + s) * 1000 + ms"
    by (auto simp: atotimepoint_def bind_eq_Some_conv accepted)
  from atotime_range [OF t] days_range [OF d]
  have "- 9000000000000 \<le> tp" "tp \<le> 9000000000000" unfolding tp by auto
  then show ?thesis by (auto simp: abs_less_iff)
qed

lemma i32_range: "- (2 ^ 31) \<le> i32 x" "i32 x < 2 ^ 31"
  using pos_mod_bound [of "2 ^ 32" "x + 2 ^ 31"] pos_mod_sign [of "2 ^ 32" "x + 2 ^ 31"]
  by (simp_all add: i32_def)

lemma int_of_u32_range: "- (2 ^ 31) \<le> int_of_u32 w" "int_of_u32 w < 2 ^ 31"
  using sint_greater_eq [of w] sint_less [of w] by (simp_all add: int_of_u32_def)

lemma atotime_nano_range:
  assumes "atotime_nano bs outs = Some (True, h, m, s, ns)"
  shows "\<bar>h\<bar> \<le> 2000 \<and> \<bar>m\<bar> \<le> 2000 \<and> \<bar>s\<bar> \<le> 2000 \<and> \<bar>ns\<bar> \<le> 2 ^ 31"
proof -
  have "\<bar>h\<bar> \<le> 2000 \<and> \<bar>m\<bar> \<le> 2000 \<and> \<bar>s\<bar> \<le> 2000"
    using assms by (auto simp: atotime_nano_def bind_eq_Some_conv two_digit_range split: if_splits)
  moreover have "- (2 ^ 31) \<le> ns \<and> ns < 2 ^ 31"
    using assms i32_range int_of_u32_range
    by (auto simp: atotime_nano_def bind_eq_Some_conv split: if_splits)
  ultimately show ?thesis by (auto simp: abs_le_iff)
qed

theorem atotimepoint_nano_range:
  assumes "atotimepoint_nano bs = Some (Some tp)"
  shows "\<bar>tp\<bar> < 2 ^ 63"
proof -
  from assms obtain h mi s ns y mo d where
    t: "atotime_nano (drop 9 bs) (0, 0, 0, 0) = Some (True, h, mi, s, ns)" and
    d: "date_supported y mo d" and
    tp: "tp = (days_from_civil y mo d * 86400 + h * 3600 + mi * 60 + s) * 1000000000 + ns"
    by (auto simp: atotimepoint_nano_def bind_eq_Some_conv accepted)
  from atotime_nano_range [OF t] days_range [OF d]
  have "- 9000000000000000000 \<le> tp" "tp \<le> 9000000000000000000" unfolding tp by auto
  then show ?thesis by (auto simp: abs_less_iff)
qed

end
