(* ===== verification/Message_Writer.thy ===== *)
theory Message_Writer
  imports Date_Time
begin

text \<open>
  \<open>hffix::message_writer\<close>. The record holds the bytes of the caller's buffer
  \<open>[buffer_, buffer_end_)\<close> and the object's other members; \<open>buffer_\<close> is offset 0, \<open>next_\<close> and
  \<open>body_length_\<close> are offsets, the null \<open>body_length_\<close> is \<open>None\<close>. Every operation returns the new
  writer, or \<open>None\<close> when a store would fall outside the buffer. A value range \<open>[begin, end)\<close>
  that the caller passes is the list of its bytes; \<open>push_back_data\<close>, which tests
  \<open>end < begin\<close>, takes the two pointers and the memory they point into.
  An \<open>int\<close> argument that is only printed with \<open>itoa_padded_unchecked\<close> is an \<open>int\<close>; a tag
  and an \<open>Int_type\<close> argument are words.
\<close>

section \<open>State\<close>

record writer =
  w_buffer :: "byte list"
  w_next :: ptr
  w_body_length :: "ptr option"
  w_error :: bool

definition message_writer :: "byte list \<Rightarrow> writer" where
  "message_writer buffer = \<lparr>w_buffer = buffer, w_next = 0, w_body_length = None, w_error = False\<rparr>"

definition writer_ok :: "writer \<Rightarrow> bool" where
  "writer_ok w \<longleftrightarrow> \<not> w_error w"

definition has_error :: "writer \<Rightarrow> bool" where
  "has_error w \<longleftrightarrow> w_error w"

definition writer_message_end :: "writer \<Rightarrow> ptr" where
  "writer_message_end w = w_next w"

definition writer_message_size :: "writer \<Rightarrow> nat" where
  "writer_message_size w = w_next w"

definition writer_buffer_size :: "writer \<Rightarrow> nat" where
  "writer_buffer_size w = length (w_buffer w)"

definition buffer_size_remaining :: "writer \<Rightarrow> nat" where
  "buffer_size_remaining w = length (w_buffer w) - w_next w"

text \<open>The bytes of the message so far, \<open>[message_begin(), message_end())\<close>.\<close>

definition written :: "writer \<Rightarrow> byte list" where
  "written w = take (w_next w) (w_buffer w)"

text \<open>\<open>*next_++ = c\<close>, \<open>memcpy(next_, ...); next_ += n\<close>, and the digit printers at \<open>next_\<close>.\<close>

definition put :: "byte list \<Rightarrow> writer \<Rightarrow> writer option" where
  "put bs w = do {
     mem \<leftarrow> wr (w_buffer w) (w_next w) bs;
     Some (w\<lparr>w_buffer := mem, w_next := w_next w + length bs\<rparr>)
   }"

text \<open>\<open>buffer_end_ - next_ < need\<close>\<close>

definition no_room :: "writer \<Rightarrow> nat \<Rightarrow> bool" where
  "no_room w need \<longleftrightarrow> int (length (w_buffer w)) - int (w_next w) < int need"

definition fail :: "writer \<Rightarrow> writer" where
  "fail w = w\<lparr>w_error := True\<rparr>"

section \<open>Header and trailer\<close>

definition push_back_header :: "byte list \<Rightarrow> writer \<Rightarrow> writer option" where
  "push_back_header v w =
     (if w_error w then Some w
      else if w_body_length w \<noteq> None then Some (fail w)
      else if no_room w (2 + length v + 3 + 7) then Some (fail w)
      else do {
        w \<leftarrow> put (lit ''8='') w;
        w \<leftarrow> put v w;
        w \<leftarrow> put [SOH] w;
        w \<leftarrow> put (lit ''9='') w;
        let w = w\<lparr>w_body_length := Some (w_next w)\<rparr>;
        let w = w\<lparr>w_next := w_next w + 6\<rparr>;
        put [SOH] w
      })"

definition checksum_digits :: "byte \<Rightarrow> byte list" where
  "checksum_digits checksum =
     [ZERO_CH + checksum div 100 mod 10, ZERO_CH + checksum div 10 mod 10, ZERO_CH + checksum mod 10]"

text \<open>
  The result is the \<open>bool\<close> the code returns, with the writer after the call. \<open>len\<close> is a
  \<open>size_t\<close> in the code: a negative difference would convert to a value above the limit.
\<close>

definition push_back_trailer :: "bool \<Rightarrow> writer \<Rightarrow> (bool \<times> writer) option" where
  "push_back_trailer CalculateChecksum w =
     (if w_error w then Some (False, w)
      else case w_body_length w of
        None \<Rightarrow> Some (False, fail w)
      | Some bl \<Rightarrow>
          let len = int (w_next w) - int (bl + 7) in
          if len < 0 \<or> 999999 < len then Some (False, fail w)
          else do {
            mem \<leftarrow> wr (w_buffer w) bl (itoa_padded_unchecked len 6);
            let w = w\<lparr>w_buffer := mem\<rparr>;
            if no_room w 7 then Some (False, fail w)
            else if CalculateChecksum then do {
              let checksum = checksum_bytes 0 (take (w_next w) (w_buffer w));
              w \<leftarrow> put (lit ''10='') w;
              w \<leftarrow> put (checksum_digits checksum) w;
              w \<leftarrow> put [SOH] w;
              Some (True, w)
            }
            else do {
              w \<leftarrow> put (lit ''10=000'' @ [SOH]) w;
              Some (True, w)
            }
          })"

section \<open>Fields\<close>

definition push_back_string :: "u32 \<Rightarrow> byte list \<Rightarrow> writer \<Rightarrow> writer option" where
  "push_back_string tag s w =
     (if w_error w then Some w
      else if no_room w (max_ascii_chars_int + 1 + length s + 1) then Some (fail w)
      else do {
        w \<leftarrow> put (utoa_unchecked tag) w;
        w \<leftarrow> put [EQ_CH] w;
        w \<leftarrow> put s w;
        put [SOH] w
      })"

definition push_back_char :: "u32 \<Rightarrow> byte \<Rightarrow> writer \<Rightarrow> writer option" where
  "push_back_char tag c w =
     (if w_error w then Some w
      else if no_room w (max_ascii_chars_int + 1 + 1 + 1) then Some (fail w)
      else do {
        w \<leftarrow> put (utoa_unchecked tag) w;
        w \<leftarrow> put [EQ_CH] w;
        w \<leftarrow> put [c] w;
        put [SOH] w
      })"

text \<open>
  \<open>max_ascii_chars<Int_type>\<close> depends on the template argument: 11 for \<open>int\<close>, 20 for
  \<open>std::int64_t\<close>; it is an argument of the model.
\<close>

definition push_back_int :: "nat \<Rightarrow> u32 \<Rightarrow> 'a::len word \<Rightarrow> writer \<Rightarrow> writer option" where
  "push_back_int max_ascii_chars tag n w =
     (if w_error w then Some w
      else if no_room w (max_ascii_chars_int + 1 + max_ascii_chars + 1) then Some (fail w)
      else do {
        w \<leftarrow> put (utoa_unchecked tag) w;
        w \<leftarrow> put [EQ_CH] w;
        w \<leftarrow> put (itoa_unchecked n) w;
        put [SOH] w
      })"

definition push_back_decimal ::
  "nat \<Rightarrow> u32 \<Rightarrow> 'a::len word \<Rightarrow> 'a word \<Rightarrow> writer \<Rightarrow> writer option" where
  "push_back_decimal max_ascii_chars tag mantissa exponent w =
     (if w_error w then Some w
      else if no_room w (max_ascii_chars_int + 1 + max_ascii_chars + 1 + 1) then Some (fail w)
      else do {
        w \<leftarrow> put (utoa_unchecked tag) w;
        w \<leftarrow> put [EQ_CH] w;
        w \<leftarrow> put (dtoa_unchecked mantissa (sint exponent)) w;
        put [SOH] w
      })"

definition push_back_data ::
  "u32 \<Rightarrow> u32 \<Rightarrow> byte list \<Rightarrow> ptr \<Rightarrow> ptr \<Rightarrow> writer \<Rightarrow> writer option" where
  "push_back_data tag_data_length tag_data src b e w =
     (if w_error w then Some w
      else if e < b then Some (fail w)
      else let dlen = e - b in
        if no_room w (max_ascii_chars_int + 1 + max_ascii_chars_int + 1 +
                      max_ascii_chars_int + 1 + dlen + 1) then Some (fail w)
        else do {
          w \<leftarrow> put (utoa_unchecked tag_data_length) w;
          w \<leftarrow> put [EQ_CH] w;
          w \<leftarrow> put (itoa_unchecked (of_nat dlen :: 32 word)) w;
          w \<leftarrow> put [SOH] w;
          w \<leftarrow> put (utoa_unchecked tag_data) w;
          w \<leftarrow> put [EQ_CH] w;
          bs \<leftarrow> rd_range src b e;
          w \<leftarrow> put bs w;
          put [SOH] w
        })"

text \<open>Fields of fixed width: \<open>YYYYMMDD\<close>, \<open>YYYYMM\<close>, \<open>HH:MM:SS\<close> and their combinations.\<close>

definition put_ymd :: "int \<Rightarrow> int \<Rightarrow> int \<Rightarrow> writer \<Rightarrow> writer option" where
  "put_ymd y m d w = do {
     w \<leftarrow> put (itoa_padded_unchecked y 4) w;
     w \<leftarrow> put (itoa_padded_unchecked m 2) w;
     put (itoa_padded_unchecked d 2) w
   }"

definition put_hms :: "int \<Rightarrow> int \<Rightarrow> int \<Rightarrow> writer \<Rightarrow> writer option" where
  "put_hms h m s w = do {
     w \<leftarrow> put (itoa_padded_unchecked h 2) w;
     w \<leftarrow> put [COLON_CH] w;
     w \<leftarrow> put (itoa_padded_unchecked m 2) w;
     w \<leftarrow> put [COLON_CH] w;
     put (itoa_padded_unchecked s 2) w
   }"

definition push_back_date :: "u32 \<Rightarrow> int \<Rightarrow> int \<Rightarrow> int \<Rightarrow> writer \<Rightarrow> writer option" where
  "push_back_date tag y m d w =
     (if w_error w then Some w
      else if no_room w (max_ascii_chars_int + 1 + 8 + 1) then Some (fail w)
      else do {
        w \<leftarrow> put (utoa_unchecked tag) w;
        w \<leftarrow> put [EQ_CH] w;
        w \<leftarrow> put_ymd y m d w;
        put [SOH] w
      })"

definition push_back_monthyear :: "u32 \<Rightarrow> int \<Rightarrow> int \<Rightarrow> writer \<Rightarrow> writer option" where
  "push_back_monthyear tag y m w =
     (if w_error w then Some w
      else if no_room w (max_ascii_chars_int + 1 + 6 + 1) then Some (fail w)
      else do {
        w \<leftarrow> put (utoa_unchecked tag) w;
        w \<leftarrow> put [EQ_CH] w;
        w \<leftarrow> put (itoa_padded_unchecked y 4) w;
        w \<leftarrow> put (itoa_padded_unchecked m 2) w;
        put [SOH] w
      })"

definition push_back_timeonly_s :: "u32 \<Rightarrow> int \<Rightarrow> int \<Rightarrow> int \<Rightarrow> writer \<Rightarrow> writer option" where
  "push_back_timeonly_s tag h m s w =
     (if w_error w then Some w
      else if no_room w (max_ascii_chars_int + 1 + 8 + 1) then Some (fail w)
      else do {
        w \<leftarrow> put (utoa_unchecked tag) w;
        w \<leftarrow> put [EQ_CH] w;
        w \<leftarrow> put_hms h m s w;
        put [SOH] w
      })"

definition push_back_timeonly :: "u32 \<Rightarrow> int \<Rightarrow> int \<Rightarrow> int \<Rightarrow> int \<Rightarrow> writer \<Rightarrow> writer option" where
  "push_back_timeonly tag h m s ms w =
     (if w_error w then Some w
      else if no_room w (max_ascii_chars_int + 1 + 12 + 1) then Some (fail w)
      else do {
        w \<leftarrow> put (utoa_unchecked tag) w;
        w \<leftarrow> put [EQ_CH] w;
        w \<leftarrow> put_hms h m s w;
        w \<leftarrow> put [DOT_CH] w;
        w \<leftarrow> put (itoa_padded_unchecked ms 3) w;
        put [SOH] w
      })"

definition push_back_timeonly_nano :: "u32 \<Rightarrow> int \<Rightarrow> int \<Rightarrow> int \<Rightarrow> int \<Rightarrow> writer \<Rightarrow> writer option" where
  "push_back_timeonly_nano tag h m s ns w =
     (if w_error w then Some w
      else if no_room w (max_ascii_chars_int + 1 + 18 + 1) then Some (fail w)
      else do {
        w \<leftarrow> put (utoa_unchecked tag) w;
        w \<leftarrow> put [EQ_CH] w;
        w \<leftarrow> put_hms h m s w;
        w \<leftarrow> put [DOT_CH] w;
        w \<leftarrow> put (itoa_padded_unchecked ns 9) w;
        put [SOH] w
      })"

definition push_back_timestamp_s ::
  "u32 \<Rightarrow> int \<Rightarrow> int \<Rightarrow> int \<Rightarrow> int \<Rightarrow> int \<Rightarrow> int \<Rightarrow> writer \<Rightarrow> writer option" where
  "push_back_timestamp_s tag y mo d h mi s w =
     (if w_error w then Some w
      else if no_room w (max_ascii_chars_int + 1 + 17 + 1) then Some (fail w)
      else do {
        w \<leftarrow> put (utoa_unchecked tag) w;
        w \<leftarrow> put [EQ_CH] w;
        w \<leftarrow> put_ymd y mo d w;
        w \<leftarrow> put [MINUS_CH] w;
        w \<leftarrow> put_hms h mi s w;
        put [SOH] w
      })"

definition push_back_timestamp ::
  "u32 \<Rightarrow> int \<Rightarrow> int \<Rightarrow> int \<Rightarrow> int \<Rightarrow> int \<Rightarrow> int \<Rightarrow> int \<Rightarrow> writer \<Rightarrow> writer option" where
  "push_back_timestamp tag y mo d h mi s ms w =
     (if w_error w then Some w
      else if no_room w (max_ascii_chars_int + 1 + 21 + 1) then Some (fail w)
      else do {
        w \<leftarrow> put (utoa_unchecked tag) w;
        w \<leftarrow> put [EQ_CH] w;
        w \<leftarrow> put_ymd y mo d w;
        w \<leftarrow> put [MINUS_CH] w;
        w \<leftarrow> put_hms h mi s w;
        w \<leftarrow> put [DOT_CH] w;
        w \<leftarrow> put (itoa_padded_unchecked ms 3) w;
        put [SOH] w
      })"

definition push_back_timestamp_nano ::
  "u32 \<Rightarrow> int \<Rightarrow> int \<Rightarrow> int \<Rightarrow> int \<Rightarrow> int \<Rightarrow> int \<Rightarrow> int \<Rightarrow> writer \<Rightarrow> writer option" where
  "push_back_timestamp_nano tag y mo d h mi s ns w =
     (if w_error w then Some w
      else if no_room w (max_ascii_chars_int + 1 + 27 + 1) then Some (fail w)
      else do {
        w \<leftarrow> put (utoa_unchecked tag) w;
        w \<leftarrow> put [EQ_CH] w;
        w \<leftarrow> put_ymd y mo d w;
        w \<leftarrow> put [MINUS_CH] w;
        w \<leftarrow> put_hms h mi s w;
        w \<leftarrow> put [DOT_CH] w;
        w \<leftarrow> put (itoa_padded_unchecked ns 9) w;
        put [SOH] w
      })"

text \<open>
  The overloads for \<open>std::chrono\<close>: a duration or a time point is its count of ticks, \<open>den\<close> of
  them in a second.
\<close>

definition push_back_timeonly_duration :: "int \<Rightarrow> u32 \<Rightarrow> int \<Rightarrow> writer \<Rightarrow> writer option" where
  "push_back_timeonly_duration den tag t =
     push_back_timeonly tag (i32 (t sdiv (3600 * den))) (i32 (t smod (3600 * den) sdiv (60 * den)))
       (i32 (t smod (60 * den) sdiv den)) (i32 (t smod den * 1000 sdiv den))"

definition push_back_timeonly_nano_duration :: "int \<Rightarrow> u32 \<Rightarrow> int \<Rightarrow> writer \<Rightarrow> writer option" where
  "push_back_timeonly_nano_duration den tag t =
     push_back_timeonly_nano tag (i32 (t sdiv (3600 * den))) (i32 (t smod (3600 * den) sdiv (60 * den)))
       (i32 (t smod (60 * den) sdiv den)) (i32 (t smod den * 1000000000 sdiv den))"

definition push_back_timestamp_tp :: "int \<Rightarrow> u32 \<Rightarrow> int \<Rightarrow> writer \<Rightarrow> writer option" where
  "push_back_timestamp_tp den tag tp =
     (case timepointtoparts den tp of (year, month, day, hour, minute, second, millisecond) \<Rightarrow>
        push_back_timestamp tag year month day hour minute second millisecond)"

definition push_back_timestamp_nano_tp :: "int \<Rightarrow> u32 \<Rightarrow> int \<Rightarrow> writer \<Rightarrow> writer option" where
  "push_back_timestamp_nano_tp den tag tp =
     (case timepointtoparts_nano den tp of (year, month, day, hour, minute, second, nanosecond) \<Rightarrow>
        push_back_timestamp_nano tag year month day hour minute second nanosecond)"

definition push_back_timestamp_epoch_millis :: "u32 \<Rightarrow> u64 \<Rightarrow> writer \<Rightarrow> writer option" where
  "push_back_timestamp_epoch_millis tag epoch_millis =
     push_back_timestamp_tp 1000 tag (sint epoch_millis)"

definition push_back_timestamp_epoch_nanos :: "u32 \<Rightarrow> u64 \<Rightarrow> writer \<Rightarrow> writer option" where
  "push_back_timestamp_epoch_nanos tag epoch_nanos =
     push_back_timestamp_nano_tp 1000000000 tag (sint epoch_nanos)"

text \<open>
  \<open>try_write_message\<close>: a fresh writer, the caller's body, the trailer. The result is the end
  of the message (the out-parameter \<open>end_out\<close>, set on success only) and the buffer.
\<close>

definition try_write_message ::
  "byte list \<Rightarrow> (writer \<Rightarrow> writer option) \<Rightarrow> (ptr option \<times> byte list) option" where
  "try_write_message buffer body = do {
     w \<leftarrow> body (message_writer buffer);
     (ok, w) \<leftarrow> push_back_trailer True w;
     Some (if ok then Some (writer_message_end w) else None, w_buffer w)
   }"

end
