(* ===== verification/Writer_Lemmas.thy ===== *)
theory Writer_Lemmas
  imports Message_Writer
begin

text \<open>
  The contract of the writer. Every \<open>push_back_*\<close> is one guarded append
  (\<open>guarded_put\<close>): nothing when the error flag is set, the flag when the worst-case size
  does not fit, else its text at \<open>next_\<close>. The locale \<open>appender\<close> states that contract for an
  operation and derives from it memory safety, the invariant, what is written and the
  stickiness of the error flag; it is interpreted for every field operation of the writer.
\<close>

section \<open>Invariant and appends\<close>

definition writer_inv :: "writer \<Rightarrow> bool" where
  "writer_inv w \<longleftrightarrow> w_next w \<le> length (w_buffer w) \<and>
     (case w_body_length w of None \<Rightarrow> True | Some bl \<Rightarrow> bl + 7 \<le> w_next w)"

definition guarded_put :: "nat \<Rightarrow> byte list \<Rightarrow> writer \<Rightarrow> writer option" where
  "guarded_put need bs w =
     (if w_error w then Some w else if no_room w need then Some (fail w) else put bs w)"

lemma message_writer_inv: "writer_inv (message_writer buffer)"
  by (simp add: writer_inv_def message_writer_def)

lemma writer_inv_fail [simp]: "writer_inv (fail w) = writer_inv w"
  by (auto simp: writer_inv_def fail_def split: option.split)

lemma put_append: "Option.bind (put a w) (put b) = put (a @ b) w"
  by (auto simp: put_def wr_def bind_eq_None_conv add.assoc) (simp_all add: add.commute add.left_commute)

lemma put_nil: "w_next w \<le> length (w_buffer w) \<Longrightarrow> put [] w = Some w"
  by (simp add: put_def wr_def)

lemma put_append3:
  "Option.bind (put a w) (\<lambda>w. Option.bind (put b w) k) = Option.bind (put (a @ b) w) k"
  by (simp add: put_append [symmetric])

lemma put_ok:
  "w_next w + length bs \<le> length (w_buffer w) \<Longrightarrow>
     \<exists>w'. put bs w = Some w' \<and> w_next w' = w_next w + length bs \<and>
       length (w_buffer w') = length (w_buffer w) \<and> written w' = written w @ bs \<and>
       w_body_length w' = w_body_length w \<and> w_error w' = w_error w"
  by (simp add: put_def wr_def written_def)

lemma not_no_room: "\<not> no_room w need \<longleftrightarrow> w_next w + need \<le> length (w_buffer w)"
  by (auto simp: no_room_def)

section \<open>The contract of a field operation\<close>

locale appender =
  fixes op :: "writer \<Rightarrow> writer option"
    and need :: nat
    and contents :: "byte list"
    and fits :: bool
  assumes op_guarded: "op w = guarded_put need contents w"
    and contents_fit: "fits \<Longrightarrow> length contents \<le> need"
begin

lemma op_error: "w_error w \<Longrightarrow> op w = Some w"
  by (simp add: op_guarded guarded_put_def)

lemma op_full: "\<not> w_error w \<Longrightarrow> no_room w need \<Longrightarrow> op w = Some (fail w)"
  by (simp add: op_guarded guarded_put_def)

lemma op_writes:
  assumes fits "\<not> w_error w" "\<not> no_room w need"
  shows "\<exists>w'. op w = Some w' \<and> w_next w' = w_next w + length contents \<and>
       length (w_buffer w') = length (w_buffer w) \<and> written w' = written w @ contents \<and>
       w_body_length w' = w_body_length w \<and> \<not> w_error w'"
proof -
  have "w_next w + length contents \<le> length (w_buffer w)"
    using assms contents_fit by (simp add: not_no_room)
  from put_ok [OF this] assms show ?thesis by (auto simp: op_guarded guarded_put_def)
qed

lemma op_safe: "fits \<Longrightarrow> \<exists>w'. op w = Some w'"
  using op_error op_full op_writes by blast

lemma op_inv:
  assumes fits "writer_inv w" "op w = Some w'"
  shows "writer_inv w'"
proof -
  consider "w_error w" | "\<not> w_error w" "no_room w need" | "\<not> w_error w" "\<not> no_room w need"
    by blast
  then show ?thesis
  proof cases
    case 1
    then show ?thesis using assms op_error by simp
  next
    case 2
    then show ?thesis using assms op_full by (auto simp: writer_inv_def fail_def split: option.splits)
  next
    case 3
    then have "w_next w + need \<le> length (w_buffer w)" by (simp add: not_no_room)
    then show ?thesis
      using assms op_writes [OF assms(1) 3] contents_fit
      by (auto simp: writer_inv_def split: option.splits)
  qed
qed

lemma op_safe_inv: "fits \<Longrightarrow> writer_inv w \<Longrightarrow> \<exists>w'. op w = Some w' \<and> writer_inv w'"
  using op_safe op_inv by blast

text \<open>Either the error flag is set and the message is unchanged, or the text was appended.\<close>

lemma op_result:
  assumes fits "op w = Some w'"
  shows "if w_error w' then written w' = written w \<and> w_next w' = w_next w \<and> w_buffer w' = w_buffer w
         else \<not> w_error w \<and> written w' = written w @ contents \<and>
              w_next w' = w_next w + length contents"
    and "length (w_buffer w') = length (w_buffer w)"
    and "w_body_length w' = w_body_length w"
  using assms op_error [of w] op_full [of w] op_writes [OF assms(1), of w]
  by (cases "w_error w"; cases "no_room w need"; auto simp: fail_def written_def)+

lemma op_sticky: "fits \<Longrightarrow> op w = Some w' \<Longrightarrow> w_error w \<Longrightarrow> w_error w'"
  using op_error by auto

end

section \<open>The field operations fulfil it\<close>

lemma length_utoa32 [simp]: "length (utoa_unchecked (tag :: u32)) \<le> 10"
proof -
  have "unat tag < 2 ^ LENGTH(32)" by (rule unsigned_less)
  then have "unat tag < 10 ^ 10" by simp
  then show ?thesis by (simp add: utoa_eq dec_digits_length)
qed

lemma length_int_digits:
  "\<bar>k\<bar> < 10 ^ n \<Longrightarrow> 0 < n \<Longrightarrow> length (int_digits k) \<le> Suc n"
proof -
  assume k: "\<bar>k\<bar> < 10 ^ n" "0 < n"
  then have "nat \<bar>k\<bar> < 10 ^ n" by (simp add: nat_less_iff)
  from dec_digits_length [OF k(2) this] show ?thesis by (cases "k < 0") (simp_all add: int_digits_def)
qed

lemma length_itoa32: "length (itoa_unchecked (n :: 32 word)) \<le> 11"
proof -
  have "\<bar>sint n\<bar> < 10 ^ 10" using sint_in_range [of n] by (auto simp: in_range_def abs_less_iff)
  from length_int_digits [OF this] show ?thesis by (simp add: itoa_eq)
qed

lemma length_itoa64: "length (itoa_unchecked (n :: 64 word)) \<le> 20"
proof -
  have "\<bar>sint n\<bar> < 10 ^ 19" using sint_in_range [of n] by (auto simp: in_range_def abs_less_iff)
  from length_int_digits [OF this] show ?thesis by (simp add: itoa_eq)
qed

text \<open>
  Each operation is \<open>guarded_put\<close> of the bytes of its field, \<open>tag=value<SOH>\<close>.
\<close>

definition field_text :: "u32 \<Rightarrow> byte list \<Rightarrow> byte list" where
  "field_text tag v = utoa_unchecked tag @ [EQ_CH] @ v @ [SOH]"

lemma length_field_text: "length (field_text tag v) \<le> 12 + length v"
  using length_utoa32 [of tag] by (simp add: field_text_def)

lemma field_fits: "length v + 12 \<le> n \<Longrightarrow> length (field_text tag v) \<le> n"
  using length_field_text [of tag v] by linarith

definition ymd_text :: "int \<Rightarrow> int \<Rightarrow> int \<Rightarrow> byte list" where
  "ymd_text y m d =
     itoa_padded_unchecked y 4 @ itoa_padded_unchecked m 2 @ itoa_padded_unchecked d 2"

definition hms_text :: "int \<Rightarrow> int \<Rightarrow> int \<Rightarrow> byte list" where
  "hms_text h m s = itoa_padded_unchecked h 2 @ [COLON_CH] @
     itoa_padded_unchecked m 2 @ [COLON_CH] @ itoa_padded_unchecked s 2"

lemma length_ymd_text [simp]: "length (ymd_text y m d) = 8"
  by (simp add: ymd_text_def)

lemma length_hms_text [simp]: "length (hms_text h m s) = 8"
  by (simp add: hms_text_def)

lemma put_ymd_eq: "put_ymd y m d = put (ymd_text y m d)"
  by (simp add: put_ymd_def ymd_text_def put_append put_append3 fun_eq_iff)

lemma put_hms_eq: "put_hms h m s = put (hms_text h m s)"
  by (simp add: put_hms_def hms_text_def put_append put_append3 fun_eq_iff)

lemmas push_simps = guarded_put_def put_append put_append3 put_ymd_eq put_hms_eq
  field_text_def max_ascii_chars_int_def

interpretation string_op: appender "push_back_string tag s" "13 + length s"
    "field_text tag s" "True"
  for tag s
  by (unfold_locales, simp add: push_back_string_def push_simps, simp add: field_fits)

interpretation char_op: appender "push_back_char tag c" "14"
    "field_text tag [c]" "True"
  for tag c
  by (unfold_locales, simp add: push_back_char_def push_simps, simp add: field_fits)

interpretation int_op: appender "push_back_int k tag n" "13 + k"
    "field_text tag (itoa_unchecked n)" "length (itoa_unchecked n) \<le> k"
  for k tag and n :: "'a::len word"
  by (unfold_locales, simp add: push_back_int_def push_simps, simp add: field_fits)

interpretation decimal_op: appender "push_back_decimal k tag m e" "14 + k"
    "field_text tag (dtoa_unchecked m (sint e))" "length (dtoa_unchecked m (sint e)) \<le> k + 1"
  for k tag and m e :: "'a::len word"
  by (unfold_locales, simp add: push_back_decimal_def push_simps, simp add: field_fits)

interpretation date_op: appender "push_back_date tag y m d" "21"
    "field_text tag (ymd_text y m d)" "True"
  for tag y m d
  by (unfold_locales, simp add: push_back_date_def push_simps, simp add: field_fits)

interpretation monthyear_op: appender "push_back_monthyear tag y m" "19"
    "field_text tag (itoa_padded_unchecked y 4 @ itoa_padded_unchecked m 2)" "True"
  for tag y m
  by (unfold_locales, simp add: push_back_monthyear_def push_simps, simp add: field_fits)

interpretation timeonly_s_op: appender "push_back_timeonly_s tag h m s" "21"
    "field_text tag (hms_text h m s)" "True"
  for tag h m s
  by (unfold_locales, simp add: push_back_timeonly_s_def push_simps, simp add: field_fits)

interpretation timeonly_op: appender "push_back_timeonly tag h m s ms" "25"
    "field_text tag (hms_text h m s @ [DOT_CH] @ itoa_padded_unchecked ms 3)" "True"
  for tag h m s ms
  by (unfold_locales, simp add: push_back_timeonly_def push_simps, simp add: field_fits)

interpretation timeonly_nano_op: appender "push_back_timeonly_nano tag h m s ns" "31"
    "field_text tag (hms_text h m s @ [DOT_CH] @ itoa_padded_unchecked ns 9)" "True"
  for tag h m s ns
  by (unfold_locales, simp add: push_back_timeonly_nano_def push_simps, simp add: field_fits)

interpretation timestamp_s_op: appender "push_back_timestamp_s tag y mo d h mi s" "30"
    "field_text tag (ymd_text y mo d @ [MINUS_CH] @ hms_text h mi s)" "True"
  for tag y mo d h mi s
  by (unfold_locales, simp add: push_back_timestamp_s_def push_simps, simp add: field_fits)

interpretation timestamp_op: appender "push_back_timestamp tag y mo d h mi s ms" "34"
    "field_text tag (ymd_text y mo d @ [MINUS_CH] @ hms_text h mi s @ [DOT_CH] @
      itoa_padded_unchecked ms 3)" "True"
  for tag y mo d h mi s ms
  by (unfold_locales, simp add: push_back_timestamp_def push_simps, simp add: field_fits)

interpretation timestamp_nano_op: appender "push_back_timestamp_nano tag y mo d h mi s ns" "40"
    "field_text tag (ymd_text y mo d @ [MINUS_CH] @ hms_text h mi s @ [DOT_CH] @
      itoa_padded_unchecked ns 9)" "True"
  for tag y mo d h mi s ns
  by (unfold_locales, simp add: push_back_timestamp_nano_def push_simps, simp add: field_fits)

end
