(* ===== verification/Writer_Runs.thy ===== *)
theory Writer_Runs
  imports Writer_Lemmas
begin

text \<open>
  Whole sessions with a writer. \<open>writer_op\<close> names the calls a client can make, \<open>run_ops\<close>
  makes them in order. The results: no sequence of calls stores outside the buffer (given
  the one condition \<open>push_back_decimal\<close> needs on its exponent), and a header, fields and a
  trailer that all fit leave exactly the message text \<open>fix_message\<close> in the buffer.
\<close>

section \<open>Header and trailer\<close>

definition header_text :: "byte list \<Rightarrow> byte list" where
  "header_text v = lit ''8='' @ v @ [SOH] @ lit ''9=''"

lemma length_lit [simp]: "length (lit s) = length s"
  by (simp add: lit_def)

lemma length_header_text [simp]: "length (header_text v) = length v + 5"
  by (simp add: header_text_def)

text \<open>A message under construction: header written, BodyLength still open, body so far.\<close>

definition open_message :: "byte list \<Rightarrow> byte list \<Rightarrow> writer \<Rightarrow> bool" where
  "open_message v body w \<longleftrightarrow> \<not> w_error w \<and> w_body_length w = Some (length v + 5) \<and>
     w_next w = length v + 12 + length body \<and> w_next w \<le> length (w_buffer w) \<and>
     take (length v + 5) (w_buffer w) = header_text v \<and>
     drop (length v + 11) (written w) = [SOH] @ body"

lemma push_header_eq:
  assumes "\<not> w_error w" "w_body_length w = None" "\<not> no_room w (length v + 12)"
  shows "push_back_header v w =
    put [SOH] (w\<lparr>w_buffer := take (w_next w) (w_buffer w) @ header_text v @
                   drop (w_next w + length (header_text v)) (w_buffer w),
                w_next := w_next w + length v + 11,
                w_body_length := Some (w_next w + length v + 5)\<rparr>)"
proof -
  have room: "w_next w + length (header_text v) \<le> length (w_buffer w)"
    using assms(3) by (simp add: not_no_room)
  have "push_back_header v w =
    Option.bind (put (header_text v) w)
      (\<lambda>w. put [SOH] (w\<lparr>w_body_length := Some (w_next w), w_next := w_next w + 6\<rparr>))"
    using assms by (simp add: push_back_header_def header_text_def put_append3 Let_def algebra_simps)
  with room show ?thesis by (simp add: put_def wr_def algebra_simps)
qed

lemma open_message_header:
  assumes "\<not> no_room (message_writer buf) (length v + 12)"
  shows "\<exists>w. push_back_header v (message_writer buf) = Some w \<and> open_message v [] w"
  using assms
  by (subst push_header_eq)
     (auto simp: message_writer_def not_no_room put_def wr_def open_message_def written_def)

lemma put_open_message:
  assumes "open_message v body w" "w_next w + length bs \<le> length (w_buffer w)"
  shows "\<exists>w'. put bs w = Some w' \<and> open_message v (body @ bs) w'"
proof -
  let ?k = "length v + 11"
  have k: "?k \<le> w_next w" "length v + 5 \<le> w_next w"
    using assms(1) by (simp_all add: open_message_def)
  have "w_next w \<le> length (w_buffer w)" using assms(1) by (simp add: open_message_def)
  then have "length (written w) = w_next w" by (simp add: written_def)
  moreover from put_ok [OF assms(2)] obtain w' where w': "put bs w = Some w'"
    "w_next w' = w_next w + length bs" "length (w_buffer w') = length (w_buffer w)"
    "written w' = written w @ bs" "w_body_length w' = w_body_length w" "w_error w' = w_error w"
    by blast
  moreover have "take (length v + 5) (w_buffer w') = take (length v + 5) (w_buffer w)"
    using w'(1) k(2) by (auto simp: put_def bind_eq_Some_conv dest: wr_take)
  ultimately show ?thesis
    using assms k by (auto simp: open_message_def)
qed

text \<open>The finished message, as the FIX wire format has it.\<close>

definition message_head :: "byte list \<Rightarrow> byte list \<Rightarrow> byte list" where
  "message_head v body = header_text v @ low_digits 6 (length body) @ [SOH] @ body"

definition trailer_text :: "byte list \<Rightarrow> byte list" where
  "trailer_text cs = lit ''10='' @ cs @ [SOH]"

definition fix_message :: "byte list \<Rightarrow> byte list \<Rightarrow> byte list" where
  "fix_message v body =
     (let h = message_head v body
      in h @ trailer_text (low_digits 3 (unat (checksum_bytes 0 h))))"

lemma length_message_head [simp]: "length (message_head v body) = length v + 12 + length body"
  by (simp add: message_head_def)

lemma length_fix_message [simp]: "length (fix_message v body) = length v + length body + 19"
  by (simp add: fix_message_def Let_def trailer_text_def)

lemma checksum_digits_eq: "checksum_digits c = low_digits 3 (unat c)"
proof -
  have "ZERO_CH + x mod 10 = of_nat (48 + unat x mod 10)" for x :: byte
    using digit_byte_word [of x] by simp
  moreover have "unat (c div 10) = unat c div 10" "unat (c div 100) = unat c div 100"
    by (simp_all add: unat_div)
  ultimately show ?thesis
    by (simp add: checksum_digits_def numeral_3_eq_3 div_mult2_eq [symmetric])
qed

lemma trailer_patch:
  assumes "open_message v body w" "length body \<le> 999999"
  shows "\<exists>mem. wr (w_buffer w) (length v + 5) (itoa_padded_unchecked (int (length body)) 6) = Some mem \<and>
    take (w_next w) mem = message_head v body \<and> length mem = length (w_buffer w)"
proof -
  let ?d = "low_digits 6 (length body)"
  have o: "w_next w = length v + 12 + length body" "w_next w \<le> length (w_buffer w)"
    "take (length v + 5) (w_buffer w) = header_text v"
    "drop (length v + 11) (take (w_next w) (w_buffer w)) = SOH # body"
    using assms(1) by (auto simp: open_message_def written_def)
  let ?mem = "take (length v + 5) (w_buffer w) @ ?d @ drop (length v + 5 + 6) (w_buffer w)"
  have "take (w_next w) ?mem = header_text v @ ?d @ take (Suc (length body)) (drop (length v + 11) (w_buffer w))"
    using o by (simp add: add.commute)
  also have "take (Suc (length body)) (drop (length v + 11) (w_buffer w)) = SOH # body"
    using o(1,4) by (simp add: drop_take)
  finally have "take (w_next w) ?mem = message_head v body"
    by (simp add: message_head_def)
  with o(1,2) show ?thesis by (simp add: wr_def itoa_padded_eq)
qed

lemma push_back_trailer_open:
  assumes "open_message v body w" "length body \<le> 999999" "\<not> no_room w 7"
  shows "\<exists>w'. push_back_trailer True w = Some (True, w') \<and> written w' = fix_message v body \<and>
    \<not> w_error w' \<and> w_next w' \<le> length (w_buffer w')"
proof -
  have o: "\<not> w_error w" "w_body_length w = Some (length v + 5)"
    "w_next w = length v + 12 + length body"
    using assms(1) by (simp_all add: open_message_def)
  have len: "int (w_next w) - int (length v + 5 + 7) = int (length body)" using o by simp
  from trailer_patch [OF assms(1,2)] obtain mem where mem:
    "wr (w_buffer w) (length v + 5) (itoa_padded_unchecked (int (length body)) 6) = Some mem"
    "take (w_next w) mem = message_head v body" "length mem = length (w_buffer w)" by blast
  let ?w = "w\<lparr>w_buffer := mem\<rparr>"
  let ?t = "trailer_text (low_digits 3 (unat (checksum_bytes 0 (message_head v body))))"
  have room: "\<not> no_room ?w 7" using assms(3) mem(3) by (simp add: no_room_def)
  have "push_back_trailer True w = Option.bind (put ?t ?w) (\<lambda>w. Some (True, w))"
    using o len mem(1,2) assms(2) room
    by (simp add: push_back_trailer_def Let_def checksum_digits_eq trailer_text_def put_append3)
  moreover have "w_next ?w + length ?t \<le> length (w_buffer ?w)"
    using room by (simp add: not_no_room trailer_text_def)
  from put_ok [OF this] obtain w' where "put ?t ?w = Some w'" "written w' = written ?w @ ?t"
    "w_error w' = w_error ?w" "w_next w' = w_next ?w + length ?t"
    "length (w_buffer w') = length (w_buffer ?w)" by blast
  moreover have "written ?w @ ?t = fix_message v body"
    using mem(2) by (simp add: written_def fix_message_def Let_def)
  ultimately show ?thesis
    using o(1) \<open>w_next ?w + length ?t \<le> length (w_buffer ?w)\<close> by simp
qed

section \<open>Sequences of calls\<close>

text \<open>
  The calls of the interface. Integer and decimal fields are given at the two widths the
  library is used with, \<open>int\<close> and \<open>std::int64_t\<close>.
\<close>

datatype writer_op =
    Header "byte list"
  | Str u32 "byte list"
  | Chr u32 byte
  | Int32 u32 "32 word"
  | Int64 u32 "64 word"
  | Dec32 u32 "32 word" "32 word"
  | Dec64 u32 "64 word" "64 word"
  | Data u32 u32 "byte list" ptr ptr
  | Date u32 int int int
  | Monthyear u32 int int
  | Timeonly_s u32 int int int
  | Timeonly u32 int int int int
  | Timeonly_nano u32 int int int int
  | Timestamp_s u32 int int int int int int
  | Timestamp u32 int int int int int int int
  | Timestamp_nano u32 int int int int int int int
  | Trailer bool

fun run_op :: "writer_op \<Rightarrow> writer \<Rightarrow> writer option" where
  "run_op (Header v) w = push_back_header v w"
| "run_op (Str tag s) w = push_back_string tag s w"
| "run_op (Chr tag c) w = push_back_char tag c w"
| "run_op (Int32 tag n) w = push_back_int max_ascii_chars_int tag n w"
| "run_op (Int64 tag n) w = push_back_int max_ascii_chars_int64 tag n w"
| "run_op (Dec32 tag m e) w = push_back_decimal max_ascii_chars_int tag m e w"
| "run_op (Dec64 tag m e) w = push_back_decimal max_ascii_chars_int64 tag m e w"
| "run_op (Data tg td src b e) w = push_back_data tg td src b e w"
| "run_op (Date tag y m d) w = push_back_date tag y m d w"
| "run_op (Monthyear tag y m) w = push_back_monthyear tag y m w"
| "run_op (Timeonly_s tag h m s) w = push_back_timeonly_s tag h m s w"
| "run_op (Timeonly tag h m s ms) w = push_back_timeonly tag h m s ms w"
| "run_op (Timeonly_nano tag h m s ns) w = push_back_timeonly_nano tag h m s ns w"
| "run_op (Timestamp_s tag y mo d h mi s) w = push_back_timestamp_s tag y mo d h mi s w"
| "run_op (Timestamp tag y mo d h mi s ms) w = push_back_timestamp tag y mo d h mi s ms w"
| "run_op (Timestamp_nano tag y mo d h mi s ns) w = push_back_timestamp_nano tag y mo d h mi s ns w"
| "run_op (Trailer cs) w = map_option snd (push_back_trailer cs w)"

fun run_ops :: "writer_op list \<Rightarrow> writer \<Rightarrow> writer option" where
  "run_ops [] w = Some w"
| "run_ops (x # xs) w = do { w \<leftarrow> run_op x w; run_ops xs w }"

text \<open>
  What a caller must respect: the decimal text must not be longer than the size
  \<open>push_back_decimal\<close> reserves, and a data range must lie in its memory.
\<close>

fun op_pre :: "writer_op \<Rightarrow> bool" where
  "op_pre (Dec32 tag m e) \<longleftrightarrow> length (dtoa_unchecked m (sint e)) \<le> max_ascii_chars_int + 1"
| "op_pre (Dec64 tag m e) \<longleftrightarrow> length (dtoa_unchecked m (sint e)) \<le> max_ascii_chars_int64 + 1"
| "op_pre (Data tg td src b e) \<longleftrightarrow> e \<le> length src"
| "op_pre _ \<longleftrightarrow> True"

text \<open>\<open>push_back_data\<close> on a range of its memory, as one guarded append.\<close>

definition data_text :: "u32 \<Rightarrow> u32 \<Rightarrow> byte list \<Rightarrow> byte list" where
  "data_text tg td bs =
     field_text tg (itoa_unchecked (of_nat (length bs) :: 32 word)) @ field_text td bs"

interpretation data_op: appender "push_back_data tg td bs 0 (length bs)" "37 + length bs"
    "data_text tg td bs" True
  for tg td bs
  by (unfold_locales, simp add: push_back_data_def push_simps rd_range_all Let_def data_text_def,
      use length_field_text [of tg "itoa_unchecked (of_nat (length bs) :: 32 word)"]
        length_itoa32 [of "of_nat (length bs)"] length_field_text [of td bs] in
      \<open>simp add: data_text_def\<close>)

lemma push_back_data_range:
  assumes "b \<le> e" "e \<le> length src"
  shows "push_back_data tg td src b e =
    push_back_data tg td (take (e - b) (drop b src)) 0 (length (take (e - b) (drop b src)))"
  using assms by (auto simp: push_back_data_def rd_range_def fun_eq_iff Let_def)

section \<open>No call stores outside the buffer\<close>

lemma header_result:
  assumes "push_back_header v w = Some w'" "writer_inv w"
  shows "writer_inv w' \<and> length (w_buffer w') = length (w_buffer w)"
proof (cases "\<not> w_error w \<and> w_body_length w = None \<and> \<not> no_room w (length v + 12)")
  case True
  then show ?thesis
    using assms push_header_eq [of w v]
    by (auto simp: put_def wr_def not_no_room writer_inv_def split: if_splits)
next
  case False
  then show ?thesis
    using assms by (auto simp: push_back_header_def writer_inv_def fail_def algebra_simps
        split: if_splits option.splits)
qed

lemma header_safe:
  "writer_inv w \<Longrightarrow> \<exists>w'. push_back_header v w = Some w'"
proof (cases "\<not> w_error w \<and> w_body_length w = None \<and> \<not> no_room w (length v + 12)")
  case True
  then show ?thesis
    using push_header_eq [of w v] by (simp add: put_def wr_def not_no_room)
next
  case False
  then show ?thesis by (auto simp: push_back_header_def algebra_simps)
qed

lemma trailer_store:
  assumes "writer_inv w" "w_body_length w = Some bl"
  shows "\<exists>mem. wr (w_buffer w) bl (itoa_padded_unchecked x 6) = Some mem \<and>
    length mem = length (w_buffer w)"
  using assms by (auto simp: writer_inv_def wr_def)

lemma trailer_safe:
  assumes "writer_inv w"
  shows "\<exists>ok w'. push_back_trailer cs w = Some (ok, w') \<and> writer_inv w'"
proof (cases "w_body_length w")
  case None
  then show ?thesis
    using assms by (auto simp: push_back_trailer_def writer_inv_def fail_def)
next
  case (Some bl)
  let ?len = "int (w_next w) - int (bl + 7)"
  from trailer_store [OF assms Some, of ?len] obtain mem where mem:
    "wr (w_buffer w) bl (itoa_padded_unchecked ?len 6) = Some mem" "length mem = length (w_buffer w)"
    by blast
  let ?w = "w\<lparr>w_buffer := mem\<rparr>"
  show ?thesis
  proof (cases "no_room ?w 7")
    case True
    then show ?thesis using assms Some mem
      by (auto simp: push_back_trailer_def Let_def writer_inv_def fail_def)
  next
    case False
    then have room: "w_next ?w + 7 \<le> length (w_buffer ?w)" by (simp add: not_no_room)
    let ?t = "if cs then lit ''10='' @ checksum_digits (checksum_bytes 0 (take (w_next w) mem)) @ [SOH]
      else lit ''10=000'' @ [SOH]"
    have "w_next ?w + length ?t \<le> length (w_buffer ?w)"
      using room by (simp add: checksum_digits_def)
    from put_ok [OF this] obtain w' where w': "put ?t ?w = Some w'"
      "w_next w' = w_next ?w + length ?t" "length (w_buffer w') = length (w_buffer ?w)"
      "w_body_length w' = w_body_length ?w" by blast
    have "push_back_trailer cs w = (if w_error w then Some (False, w)
      else if ?len < 0 \<or> 999999 < ?len then Some (False, fail w)
      else Option.bind (put ?t ?w) (\<lambda>w. Some (True, w)))"
      using Some mem(1) False by (simp add: push_back_trailer_def Let_def put_append3)
    then show ?thesis
      using assms Some w' \<open>w_next ?w + length ?t \<le> length (w_buffer ?w)\<close>
      by (auto simp: writer_inv_def fail_def)
  qed
qed

lemma run_op_safe:
  assumes inv: "writer_inv w" and pre: "op_pre x"
  shows "\<exists>w'. run_op x w = Some w' \<and> writer_inv w'"
proof (cases x)
  case (Data tg td src b e)
  show ?thesis
  proof (cases "b \<le> e")
    case True
    let ?bs = "take (e - b) (drop b src)"
    have "run_op x w = push_back_data tg td ?bs 0 (length ?bs) w"
      using Data pre push_back_data_range [OF True, of src tg td] by simp
    then show ?thesis using data_op.op_safe_inv [OF TrueI inv, of tg td ?bs] by simp
  next
    case False
    then show ?thesis
      using Data inv by (auto simp: push_back_data_def)
  qed
next
  case (Trailer cs)
  then show ?thesis using trailer_safe [OF inv, of cs] by auto
next
  case (Header v)
  then show ?thesis using header_safe [OF inv] header_result [OF _ inv] by fastforce
next
  case (Int32 tag n)
  then show ?thesis
    using int_op.op_safe_inv [OF _ inv] length_itoa32 [of n] by (simp add: max_ascii_chars_int_def)
next
  case (Int64 tag n)
  then show ?thesis
    using int_op.op_safe_inv [OF _ inv] length_itoa64 [of n] by (simp add: max_ascii_chars_int64_def)
next
  case (Dec32 tag m e)
  then show ?thesis using decimal_op.op_safe_inv [OF _ inv] pre by simp
next
  case (Dec64 tag m e)
  then show ?thesis using decimal_op.op_safe_inv [OF _ inv] pre by simp
qed (use inv in \<open>simp_all add: string_op.op_safe_inv char_op.op_safe_inv date_op.op_safe_inv
  monthyear_op.op_safe_inv timeonly_s_op.op_safe_inv timeonly_op.op_safe_inv
  timeonly_nano_op.op_safe_inv timestamp_s_op.op_safe_inv timestamp_op.op_safe_inv
  timestamp_nano_op.op_safe_inv\<close>)

theorem run_ops_safe:
  "writer_inv w \<Longrightarrow> \<forall>x \<in> set xs. op_pre x \<Longrightarrow> \<exists>w'. run_ops xs w = Some w' \<and> writer_inv w'"
proof (induction xs arbitrary: w)
  case Nil
  then show ?case by simp
next
  case (Cons x xs)
  from run_op_safe [OF Cons.prems(1), of x] Cons.prems(2)
  obtain w' where "run_op x w = Some w'" "writer_inv w'" by auto
  with Cons.IH [of w'] Cons.prems(2) show ?case by auto
qed

section \<open>What a session writes\<close>

text \<open>The field calls, their text and the size each reserves.\<close>

fun op_text :: "writer_op \<Rightarrow> byte list" where
  "op_text (Str tag s) = field_text tag s"
| "op_text (Chr tag c) = field_text tag [c]"
| "op_text (Int32 tag n) = field_text tag (itoa_unchecked n)"
| "op_text (Int64 tag n) = field_text tag (itoa_unchecked n)"
| "op_text (Dec32 tag m e) = field_text tag (dtoa_unchecked m (sint e))"
| "op_text (Dec64 tag m e) = field_text tag (dtoa_unchecked m (sint e))"
| "op_text (Data tg td src b e) = data_text tg td (take (e - b) (drop b src))"
| "op_text (Date tag y m d) = field_text tag (ymd_text y m d)"
| "op_text (Monthyear tag y m) =
     field_text tag (itoa_padded_unchecked y 4 @ itoa_padded_unchecked m 2)"
| "op_text (Timeonly_s tag h m s) = field_text tag (hms_text h m s)"
| "op_text (Timeonly tag h m s ms) =
     field_text tag (hms_text h m s @ [DOT_CH] @ itoa_padded_unchecked ms 3)"
| "op_text (Timeonly_nano tag h m s ns) =
     field_text tag (hms_text h m s @ [DOT_CH] @ itoa_padded_unchecked ns 9)"
| "op_text (Timestamp_s tag y mo d h mi s) =
     field_text tag (ymd_text y mo d @ [MINUS_CH] @ hms_text h mi s)"
| "op_text (Timestamp tag y mo d h mi s ms) =
     field_text tag (ymd_text y mo d @ [MINUS_CH] @ hms_text h mi s @ [DOT_CH] @
       itoa_padded_unchecked ms 3)"
| "op_text (Timestamp_nano tag y mo d h mi s ns) =
     field_text tag (ymd_text y mo d @ [MINUS_CH] @ hms_text h mi s @ [DOT_CH] @
       itoa_padded_unchecked ns 9)"
| "op_text _ = []"

fun op_need :: "writer_op \<Rightarrow> nat" where
  "op_need (Str tag s) = 13 + length s"
| "op_need (Int32 tag n) = 13 + max_ascii_chars_int"
| "op_need (Int64 tag n) = 13 + max_ascii_chars_int64"
| "op_need (Dec32 tag m e) = 14 + max_ascii_chars_int"
| "op_need (Dec64 tag m e) = 14 + max_ascii_chars_int64"
| "op_need (Data tg td src b e) = 37 + (e - b)"
| "op_need (Chr tag c) = 14"
| "op_need (Date tag y m d) = 21"
| "op_need (Monthyear tag y m) = 19"
| "op_need (Timeonly_s tag h m s) = 21"
| "op_need (Timeonly tag h m s ms) = 25"
| "op_need (Timeonly_nano tag h m s ns) = 31"
| "op_need (Timestamp_s tag y mo d h mi s) = 30"
| "op_need (Timestamp tag y mo d h mi s ms) = 34"
| "op_need (Timestamp_nano tag y mo d h mi s ns) = 40"
| "op_need (Header v) = length v + 12"
| "op_need (Trailer cs) = 7"

fun is_field_op :: "writer_op \<Rightarrow> bool" where
  "is_field_op (Header v) \<longleftrightarrow> False"
| "is_field_op (Trailer cs) \<longleftrightarrow> False"
| "is_field_op (Data tg td src b e) \<longleftrightarrow> b \<le> e \<and> e \<le> length src"
| "is_field_op x \<longleftrightarrow> op_pre x"

lemma data_guarded:
  assumes "b \<le> e" "e \<le> length src"
  shows "push_back_data tg td src b e w =
    guarded_put (37 + (e - b)) (data_text tg td (take (e - b) (drop b src))) w"
proof -
  let ?bs = "take (e - b) (drop b src)"
  have "length ?bs = e - b" using assms by simp
  with data_op.op_guarded [of tg td ?bs w] show ?thesis
    by (simp only: push_back_data_range [OF assms])
qed

lemmas op_guarded_facts = data_guarded string_op.op_guarded char_op.op_guarded int_op.op_guarded
  decimal_op.op_guarded date_op.op_guarded monthyear_op.op_guarded timeonly_s_op.op_guarded
  timeonly_op.op_guarded timeonly_nano_op.op_guarded timestamp_s_op.op_guarded
  timestamp_op.op_guarded timestamp_nano_op.op_guarded

lemma run_field_op: "is_field_op x \<Longrightarrow> run_op x w = guarded_put (op_need x) (op_text x) w"
  by (cases x) (simp_all add: op_guarded_facts)

lemma op_text_fits: "is_field_op x \<Longrightarrow> length (op_text x) \<le> op_need x"
proof (cases x)
  case (Data tg td src b e)
  assume "is_field_op x"
  then have "length (take (e - b) (drop b src)) = e - b" using Data by auto
  with data_op.contents_fit [OF TrueI, of tg td "take (e - b) (drop b src)"] Data
  show ?thesis by (simp only: op_text.simps op_need.simps)
next
  case (Int32 tag n)
  then show ?thesis using length_itoa32 [of n]
    by (simp add: field_fits max_ascii_chars_int_def)
next
  case (Int64 tag n)
  then show ?thesis using length_itoa64 [of n]
    by (simp add: field_fits max_ascii_chars_int64_def)
qed (simp_all add: field_fits)

abbreviation body_text :: "writer_op list \<Rightarrow> byte list" where
  "body_text xs \<equiv> concat (map op_text xs)"

lemma body_text_bound:
  "\<forall>x \<in> set xs. is_field_op x \<Longrightarrow> length (body_text xs) \<le> sum_list (map op_need xs)"
  by (induction xs) (auto intro: add_mono op_text_fits)

lemma guarded_put_error: "w_error w \<Longrightarrow> guarded_put need bs w = Some w"
  by (simp add: guarded_put_def)

lemma run_fields_error:
  "\<forall>x \<in> set xs. is_field_op x \<Longrightarrow> w_error w \<Longrightarrow> run_ops xs w = Some w"
  by (induction xs) (auto simp: run_field_op guarded_put_error)

text \<open>The field calls after a header: every text is appended, or the error flag is set.\<close>

lemma run_fields:
  assumes "\<forall>x \<in> set xs. is_field_op x" "open_message v body w"
  shows "\<exists>w'. run_ops xs w = Some w' \<and>
    (w_error w' \<or> open_message v (body @ body_text xs) w') \<and>
    (w_next w + sum_list (map op_need xs) \<le> length (w_buffer w) \<longrightarrow> \<not> w_error w') \<and>
    length (w_buffer w') = length (w_buffer w)"
  using assms
proof (induction xs arbitrary: body w)
  case Nil
  then show ?case by (simp add: open_message_def)
next
  case (Cons x xs)
  have x: "is_field_op x" and xs: "\<forall>x \<in> set xs. is_field_op x" using Cons.prems by auto
  have err: "\<not> w_error w" using Cons.prems(2) by (simp add: open_message_def)
  show ?case
  proof (cases "no_room w (op_need x)")
    case True
    then have "run_op x w = Some (fail w)"
      using x err by (simp add: run_field_op guarded_put_def)
    moreover have "run_ops xs (fail w) = Some (fail w)"
      using xs by (rule run_fields_error) (simp add: fail_def)
    moreover have "\<not> w_next w + op_need x \<le> length (w_buffer w)"
      using True not_no_room by blast
    ultimately show ?thesis by (auto simp: fail_def)
  next
    case False
    then have room: "w_next w + length (op_text x) \<le> length (w_buffer w)"
      using op_text_fits [OF x] by (simp add: not_no_room)
    from put_open_message [OF Cons.prems(2) this] put_ok [OF room]
    obtain w' where w': "put (op_text x) w = Some w'" "open_message v (body @ op_text x) w'"
      "w_next w' = w_next w + length (op_text x)" "length (w_buffer w') = length (w_buffer w)"
      by auto
    have "run_op x w = Some w'"
      using x err False w'(1) by (simp add: run_field_op guarded_put_def)
    with Cons.IH [OF xs w'(2)] w'(3,4) op_text_fits [OF x] show ?thesis by auto
  qed
qed

lemma trailer_error: "w_error w \<Longrightarrow> push_back_trailer cs w = Some (False, w)"
  by (simp add: push_back_trailer_def)

text \<open>
  A session: header, fields, trailer. The trailer's result tells the caller whether the buffer
  holds the message, and it is true whenever the sizes the calls reserve fit the buffer.
\<close>

definition write_message :: "byte list \<Rightarrow> writer_op list \<Rightarrow> byte list \<Rightarrow> (bool \<times> writer) option" where
  "write_message v xs buf =
     Option.bind (run_ops (Header v # xs) (message_writer buf)) (push_back_trailer True)"

lemma header_full:
  "no_room (message_writer buf) (length v + 12) \<Longrightarrow>
     push_back_header v (message_writer buf) = Some (fail (message_writer buf))"
  by (simp add: push_back_header_def message_writer_def algebra_simps)

lemma trailer_refused:
  assumes om: "open_message v body w" and e: "\<not> w_error w" and bad: "\<not> (length body \<le> 999999 \<and> \<not> no_room w 7)"
  shows "\<exists>w'. push_back_trailer True w = Some (False, w')"
proof -
  have n: "w_next w = length v + 12 + length body" "w_body_length w = Some (length v + 5)" "w_next w \<le> length (w_buffer w)"
    using om by (simp_all add: open_message_def)
  show ?thesis
  proof (cases "length body \<le> 999999")
    case True
    from trailer_patch [OF om True] obtain mem where
      "wr (w_buffer w) (length v + 5) (itoa_padded_unchecked (int (length body)) 6) = Some mem"
      "length mem = length (w_buffer w)" by blast
    then show ?thesis using True bad n e by (simp add: push_back_trailer_def Let_def no_room_def)
  next
    case False
    then show ?thesis using n e by (simp add: push_back_trailer_def Let_def)
  qed
qed

theorem write_message_result:
  assumes "\<forall>x \<in> set xs. is_field_op x"
  shows "\<exists>ok w. write_message v xs buf = Some (ok, w) \<and>
    (ok \<longrightarrow> written w = fix_message v (body_text xs) \<and> w_next w \<le> length (w_buffer w) \<and>
       length (body_text xs) \<le> 999999) \<and>
    (length v + 19 + sum_list (map op_need xs) \<le> length buf \<and> length (body_text xs) \<le> 999999 \<longrightarrow> ok)"
proof (cases "no_room (message_writer buf) (length v + 12)")
  case True
  have "run_ops xs (fail (message_writer buf)) = Some (fail (message_writer buf))"
    using assms by (rule run_fields_error) (simp add: fail_def)
  then have "write_message v xs buf = Some (False, fail (message_writer buf))"
    using header_full [OF True] by (simp add: write_message_def trailer_error fail_def)
  moreover have "\<not> length v + 12 \<le> length buf"
    using True not_no_room [of "message_writer buf" "length v + 12"] by (simp add: message_writer_def)
  ultimately show ?thesis by auto
next
  case False
  from open_message_header [OF this] obtain w0 where
    w0: "push_back_header v (message_writer buf) = Some w0" "open_message v [] w0" by blast
  have len0: "length (w_buffer w0) = length buf"
    using header_result [OF w0(1) message_writer_inv] by (simp add: message_writer_def)
  have next0: "w_next w0 = length v + 12" using w0(2) by (simp add: open_message_def)
  from run_fields [OF assms w0(2)] obtain w1 where
    w1: "run_ops xs w0 = Some w1" "w_error w1 \<or> open_message v (body_text xs) w1"
      "w_next w0 + sum_list (map op_need xs) \<le> length (w_buffer w0) \<longrightarrow> \<not> w_error w1"
      "length (w_buffer w1) = length (w_buffer w0)" by auto
  have eq: "write_message v xs buf = push_back_trailer True w1"
    using w0(1) w1(1) by (simp add: write_message_def)
  have sz: "length (body_text xs) \<le> sum_list (map op_need xs)"
    using assms by (rule body_text_bound)
  show ?thesis
  proof (cases "w_error w1")
    case True
    then show ?thesis using eq w1(3) len0 next0 by (auto simp: trailer_error)
  next
    case False
    with w1(2) have om: "open_message v (body_text xs) w1" by blast
    then have n1: "w_next w1 = length v + 12 + length (body_text xs)"
        "w_body_length w1 = Some (length v + 5)" "w_next w1 \<le> length (w_buffer w1)"
      by (simp_all add: open_message_def)
    show ?thesis
    proof (cases "length (body_text xs) \<le> 999999 \<and> \<not> no_room w1 7")
      case True
      with push_back_trailer_open [OF om] eq show ?thesis by auto
    next
      case bad: False
      have "\<exists>w'. push_back_trailer True w1 = Some (False, w')" by (rule trailer_refused [OF om False bad])
      moreover have "\<not> (length v + 19 + sum_list (map op_need xs) \<le> length buf \<and> length (body_text xs) \<le> 999999)"
        using bad n1 w1(4) len0 sz by (auto simp: not_no_room)
      ultimately show ?thesis using eq by auto
    qed
  qed
qed

text \<open>The size of the buffer stays.\<close>

lemma trailer_length:
  "push_back_trailer cs w = Some (ok, w') \<Longrightarrow> length (w_buffer w') = length (w_buffer w)"
  by (auto simp: push_back_trailer_def put_def fail_def Let_def bind_eq_Some_conv dest!: wr_length
      split: if_splits option.splits)

lemma write_message_length:
  assumes "\<forall>x \<in> set xs. is_field_op x" "write_message v xs buf = Some (ok, w)"
  shows "length (w_buffer w) = length buf"
proof -
  from assms(2) obtain w0 w1 where w: "push_back_header v (message_writer buf) = Some w0"
    "run_ops xs w0 = Some w1" "push_back_trailer True w1 = Some (ok, w)"
    by (auto simp: write_message_def bind_eq_Some_conv)
  have len0: "length (w_buffer w0) = length buf"
    using header_result [OF w(1) message_writer_inv] by (simp add: message_writer_def)
  have "length (w_buffer w1) = length (w_buffer w0)"
  proof (cases "no_room (message_writer buf) (length v + 12)")
    case True
    then have "w_error w0" using header_full [OF True] w(1) by (simp add: fail_def)
    with run_fields_error [OF assms(1)] w(2) show ?thesis by simp
  next
    case False
    from open_message_header [OF this] w(1) have "open_message v [] w0" by simp
    from run_fields [OF assms(1) this] w(2) show ?thesis by auto
  qed
  with trailer_length [OF w(3)] len0 show ?thesis by simp
qed

end
