(* ===== verification/Length_Tags.thy ===== *)
theory Length_Tags
  imports Fix_Prelude
begin

text \<open>
  \<open>details::length_tag_index\<close>: the table of tags that announce the length of a binary data
  field. The constructor splits the sorted list \<open>length_fields\<close> at 1024 into a bitmap and a
  tail searched with \<open>std::binary_search\<close>; \<open>contains\<close> is the lookup the field iterator makes
  for every field. The result is that the lookup decides membership in the list, for every
  sorted list of non-negative tags and so for the generated one.
\<close>

unbundle bit_operations_syntax

section \<open>The generated list of length tags\<close>

definition length_fields :: "int list" where
  "length_fields = [
     90, 93, 95, 212, 348, 350, 352, 354, 356, 358, 360, 362,
     364, 445, 618, 621, 1184, 1277, 1280, 1282, 1397, 1401, 1403, 1468,
     1525, 1578, 1620, 1664, 1678, 1733, 1871, 1874, 2072, 2074, 2111, 2179,
     2287, 2351, 2372, 2481, 2494, 2522, 2637, 2651, 2665, 2715, 2718, 2721,
     2797, 2802, 2809, 2815, 40004, 40008, 40978, 40980, 40982, 40984, 40986, 40988,
     41083, 41101, 41107, 41256, 41320, 41324, 41458, 41476, 41482, 41653, 41710, 41806,
     41811, 41873, 41969, 42025, 42171, 42451, 42652, 42947, 43109, 43110, 43111
  ]"

section \<open>The index\<close>

definition kBitmapSize :: int where "kBitmapSize = 1024"

record length_tag_index =
  bitmap :: "64 word list"
  overflow :: "int list"

text \<open>\<open>while (split < n && length_fields[split] < kBitmapSize) ++split;\<close>\<close>

fun split_loop :: "nat \<Rightarrow> int list \<Rightarrow> nat" where
  "split_loop split [] = split"
| "split_loop split (t # ts) = (if t < kBitmapSize then split_loop (split + 1) ts else split)"

text \<open>\<open>bitmap[t / 64] |= std::uint64_t(1) << (t % 64);\<close>\<close>

fun set_bits_loop :: "64 word list \<Rightarrow> int list \<Rightarrow> 64 word list" where
  "set_bits_loop bm [] = bm"
| "set_bits_loop bm (t # ts) =
     (let i = nat (t div 64)
      in set_bits_loop (bm[i := bm ! i OR push_bit (nat (t mod 64)) 1]) ts)"

definition make_length_tag_index :: "int list \<Rightarrow> length_tag_index" where
  "make_length_tag_index lfs =
     (let split = split_loop 0 lfs
      in \<lparr>bitmap = set_bits_loop (replicate 16 0) (take split lfs),
          overflow = drop split lfs\<rparr>)"

text \<open>\<open>std::lower_bound\<close> and \<open>std::binary_search\<close> on the range of \<open>count\<close> elements from \<open>first\<close>.\<close>

function lower_bound :: "int list \<Rightarrow> nat \<Rightarrow> nat \<Rightarrow> int \<Rightarrow> nat" where
  "lower_bound xs first count key =
     (if count > 0 then
        let step = count div 2; it = first + step in
        if xs ! it < key then lower_bound xs (it + 1) (count - (step + 1)) key
        else lower_bound xs first step key
      else first)"
  by pat_completeness auto
termination
  by (relation "measure (\<lambda>(xs, first, count, key). count)") auto

declare lower_bound.simps [simp del]

definition binary_search :: "int list \<Rightarrow> int \<Rightarrow> bool" where
  "binary_search xs key =
     (let first = lower_bound xs 0 (length xs) key
      in first \<noteq> length xs \<and> \<not> key < xs ! first)"

definition contains :: "length_tag_index \<Rightarrow> int \<Rightarrow> bool" where
  "contains ix tag =
     (if 0 \<le> tag \<and> tag < kBitmapSize
      then drop_bit (nat (tag mod 64)) (bitmap ix ! nat (tag div 64)) AND 1 \<noteq> 0
      else binary_search (overflow ix) tag)"

definition g_length_tag_table :: length_tag_index where
  "g_length_tag_table = make_length_tag_index length_fields"

definition is_tag_a_data_length :: "32 word \<Rightarrow> bool" where
  "is_tag_a_data_length tag = contains g_length_tag_table (sint tag)"

section \<open>The lookup decides membership\<close>

lemma split_loop_takeWhile: "split_loop n ts = n + length (takeWhile (\<lambda>t. t < kBitmapSize) ts)"
  by (induction ts arbitrary: n) auto

lemma take_split: "take (split_loop 0 ts) ts = takeWhile (\<lambda>t. t < kBitmapSize) ts"
  and drop_split: "drop (split_loop 0 ts) ts = dropWhile (\<lambda>t. t < kBitmapSize) ts"
  by (simp_all add: split_loop_takeWhile takeWhile_eq_take [symmetric] dropWhile_eq_drop [symmetric])

lemma set_bits_length [simp]: "length (set_bits_loop bm ts) = length bm"
  by (induction bm ts rule: set_bits_loop.induct) (auto simp: Let_def)

lemma bit_push_one:
  "k < 64 \<Longrightarrow> bit (2 ^ j :: 64 word) k \<longleftrightarrow> k = j"
  by (auto simp: bit_exp_iff)

lemma set_bits_bit:
  assumes "0 \<le> x" "x < 64 * int (length bm)" "\<forall>t \<in> set ts. 0 \<le> t \<and> t < 64 * int (length bm)"
  shows "bit (set_bits_loop bm ts ! nat (x div 64)) (nat (x mod 64)) \<longleftrightarrow>
    bit (bm ! nat (x div 64)) (nat (x mod 64)) \<or> x \<in> set ts"
  using assms
proof (induction bm ts rule: set_bits_loop.induct)
  case (1 bm)
  then show ?case by simp
next
  case (2 bm t ts)
  let ?i = "nat (t div 64)"
  let ?bm = "bm[?i := bm ! ?i OR push_bit (nat (t mod 64)) 1]"
  have t: "0 \<le> t" "t < 64 * int (length bm)" using "2.prems" by auto
  then have i: "?i < length bm" by (simp add: nat_less_iff)
  have IH: "bit (set_bits_loop ?bm ts ! nat (x div 64)) (nat (x mod 64)) \<longleftrightarrow>
    bit (?bm ! nat (x div 64)) (nat (x mod 64)) \<or> x \<in> set ts"
    using "2.IH" [OF refl] "2.prems" by simp
  have "bit (?bm ! nat (x div 64)) (nat (x mod 64)) \<longleftrightarrow>
    bit (bm ! nat (x div 64)) (nat (x mod 64)) \<or> x = t"
  proof (cases "nat (x div 64) = ?i")
    case True
    then have q: "x div 64 = t div 64" using "2.prems"(1) t(1)
      by (simp add: nat_eq_iff pos_imp_zdiv_nonneg_iff)
    have lt: "nat (x mod 64) < 64" by (simp add: nat_less_iff)
    have "nat (x mod 64) = nat (t mod 64) \<longleftrightarrow> x mod 64 = t mod 64"
      by (metis eq_nat_nat_iff pos_mod_sign zero_less_numeral)
    also have "\<dots> \<longleftrightarrow> x = t"
      using q by (metis mult_div_mod_eq)
    finally show ?thesis
      using True i lt by (simp add: bit_or_iff bit_push_one)
  next
    case False
    then show ?thesis by auto
  qed
  with IH show ?case by (auto simp: Let_def)
qed

lemma lower_bound_spec:
  assumes "sorted xs" "first + count \<le> length xs"
    and "\<forall>i < first. xs ! i < key" "\<forall>i. first + count \<le> i \<and> i < length xs \<longrightarrow> key \<le> xs ! i"
  shows "(\<forall>i < lower_bound xs first count key. xs ! i < key) \<and>
    (\<forall>i. lower_bound xs first count key \<le> i \<and> i < length xs \<longrightarrow> key \<le> xs ! i) \<and>
    lower_bound xs first count key \<le> length xs"
  using assms
proof (induction xs first count key rule: lower_bound.induct)
  case (1 xs first count key)
  let ?it = "first + count div 2"
  show ?case
  proof (cases "count > 0")
    case False
    then have "lower_bound xs first count key = first" by (subst lower_bound.simps) simp
    with "1.prems" False show ?thesis by simp
  next
    case True
    then have it: "?it < length xs" using "1.prems"(2) by linarith
    show ?thesis
    proof (cases "xs ! ?it < key")
      case less: True
      have "\<forall>i < ?it + 1. xs ! i < key"
      proof (intro allI impI)
        fix i assume "i < ?it + 1"
        then have "xs ! i \<le> xs ! ?it" using "1.prems"(1) it by (intro sorted_nth_mono) auto
        with less show "xs ! i < key" by simp
      qed
      with "1.IH"(1) [OF True refl refl less "1.prems"(1)] "1.prems"(2,4) True less
      show ?thesis by (simp add: lower_bound.simps [of xs first count key] Let_def)
    next
      case False
      have "\<forall>i. ?it \<le> i \<and> i < length xs \<longrightarrow> key \<le> xs ! i"
      proof (intro allI impI)
        fix i assume i: "?it \<le> i \<and> i < length xs"
        then have "xs ! ?it \<le> xs ! i" using "1.prems"(1) by (intro sorted_nth_mono) auto
        with False show "key \<le> xs ! i" by simp
      qed
      with "1.IH"(2) [OF True refl refl False "1.prems"(1)] "1.prems"(2,3) True False
      show ?thesis by (simp add: lower_bound.simps [of xs first count key] Let_def)
    qed
  qed
qed

lemma binary_search_iff:
  assumes "sorted xs"
  shows "binary_search xs key \<longleftrightarrow> key \<in> set xs"
proof -
  let ?f = "lower_bound xs 0 (length xs) key"
  have f: "\<forall>i < ?f. xs ! i < key" "\<forall>i. ?f \<le> i \<and> i < length xs \<longrightarrow> key \<le> xs ! i" "?f \<le> length xs"
    using lower_bound_spec [OF assms, of 0 "length xs" key] by auto
  show ?thesis
  proof
    assume "binary_search xs key"
    then have lt: "?f < length xs" "\<not> key < xs ! ?f"
      using f(3) by (auto simp: binary_search_def Let_def)
    then have "xs ! ?f = key" using f(2) by fastforce
    with lt(1) show "key \<in> set xs" by (metis nth_mem)
  next
    assume "key \<in> set xs"
    then obtain i where i: "i < length xs" "xs ! i = key" by (metis in_set_conv_nth)
    then have le: "?f \<le> i" using f(1) by (metis less_irrefl not_le)
    then have "xs ! ?f \<le> key" using i assms by (metis sorted_nth_mono)
    with le i show "binary_search xs key" by (simp add: binary_search_def Let_def)
  qed
qed

theorem contains_iff:
  assumes "sorted lfs" "\<forall>t \<in> set lfs. 0 \<le> t"
  shows "contains (make_length_tag_index lfs) tag \<longleftrightarrow> tag \<in> set lfs"
proof (cases "0 \<le> tag \<and> tag < kBitmapSize")
  case True
  let ?low = "takeWhile (\<lambda>t. t < kBitmapSize) lfs"
  have low: "\<forall>t \<in> set ?low. 0 \<le> t \<and> t < 64 * int (length (replicate 16 (0 :: 64 word)))"
    using assms(2) by (auto simp: kBitmapSize_def dest: set_takeWhileD)
  have "tag div 64 < 16" using True unfolding kBitmapSize_def by presburger
  then have "nat (tag div 64) < 16" by simp
  with set_bits_bit [OF _ _ low, of tag] True
  have "contains (make_length_tag_index lfs) tag \<longleftrightarrow> tag \<in> set ?low"
    by (simp add: contains_def make_length_tag_index_def Let_def take_split and_one_eq
        kBitmapSize_def bit_iff_odd_drop_bit flip: odd_iff_mod_2_eq_one)
  moreover have "tag \<in> set ?low \<longleftrightarrow> tag \<in> set lfs"
  proof
    assume t: "tag \<in> set lfs"
    show "tag \<in> set ?low"
    proof (rule ccontr)
      assume "tag \<notin> set ?low"
      with t have "tag \<in> set (dropWhile (\<lambda>t. t < kBitmapSize) lfs)"
        by (metis Un_iff set_append takeWhile_dropWhile_id)
      moreover from this obtain x xs where d: "dropWhile (\<lambda>t. t < kBitmapSize) lfs = x # xs"
        by (cases "dropWhile (\<lambda>t. t < kBitmapSize) lfs") auto
      then have "\<not> x < kBitmapSize" by (metis dropWhile_eq_Cons_conv)
      moreover have "sorted (x # xs)" using assms(1) d by (metis sorted_dropWhile)
      ultimately show False using True d by auto
    qed
  qed (auto dest: set_takeWhileD)
  ultimately show ?thesis by simp
next
  case False
  let ?high = "dropWhile (\<lambda>t. t < kBitmapSize) lfs"
  have "sorted ?high" using assms(1) by (rule sorted_dropWhile)
  with False have "contains (make_length_tag_index lfs) tag \<longleftrightarrow> tag \<in> set ?high"
    by (auto simp: contains_def make_length_tag_index_def Let_def drop_split binary_search_iff)
  moreover have "tag \<in> set ?high \<longleftrightarrow> tag \<in> set lfs"
    using False assms(2) by (metis Un_iff set_append set_dropWhileD set_takeWhileD takeWhile_dropWhile_id)
  ultimately show ?thesis by simp
qed

lemma length_fields_sorted: "sorted length_fields"
  by code_simp

lemma length_fields_nonneg: "\<forall>t \<in> set length_fields. 0 \<le> t"
  by (simp add: length_fields_def)

lemma is_tag_a_data_length_iff: "is_tag_a_data_length tag \<longleftrightarrow> sint tag \<in> set length_fields"
  by (simp add: is_tag_a_data_length_def g_length_tag_table_def
      contains_iff [OF length_fields_sorted length_fields_nonneg])

end
