(* ===== verification/Iteration.thy ===== *)
theory Iteration
  imports Fix_Prelude
begin

text \<open>
  The iterator algorithms, templates over the iterator type in the code: \<open>std::find_if\<close>,
  \<open>hffix::find_with_hint\<close> and the loop \<open>for (i = begin; i != end; ++i)\<close> that every client
  writes. \<open>step\<close> is the iterator's \<open>operator++\<close>, \<open>eq\<close> its \<open>operator==\<close>, \<open>pred\<close> the predicate on
  what it points to. They are \<open>partial_function\<close>s: a range whose end is never met is a loop
  that does not return, the value \<open>None\<close>.
  The locale \<open>forward_iterator\<close> states what an iterator type must provide for them, and derives
  that the loops return and what they find; the field iterator of a reader and the entry
  iterator of a group view are its instances.
\<close>

section \<open>The algorithms\<close>

partial_function (option) visit ::
  "('i \<Rightarrow> 'i option) \<Rightarrow> ('i \<Rightarrow> 'i \<Rightarrow> bool) \<Rightarrow> 'i \<Rightarrow> 'i \<Rightarrow> 'i list option" where
  "visit step eq i stop =
     (if eq i stop then Some []
      else do {
        j \<leftarrow> step i;
        js \<leftarrow> visit step eq j stop;
        Some (i # js)
      })"

partial_function (option) find_if ::
  "('i \<Rightarrow> 'i option) \<Rightarrow> ('i \<Rightarrow> 'i \<Rightarrow> bool) \<Rightarrow> ('i \<Rightarrow> bool) \<Rightarrow> 'i \<Rightarrow> 'i \<Rightarrow> 'i option" where
  "find_if step eq pred start stop =
     (if eq start stop \<or> pred start then Some start
      else do { start \<leftarrow> step start; find_if step eq pred start stop })"

definition find_with_hint ::
  "('i \<Rightarrow> 'i option) \<Rightarrow> ('i \<Rightarrow> 'i \<Rightarrow> bool) \<Rightarrow> 'i \<Rightarrow> 'i \<Rightarrow> ('i \<Rightarrow> bool) \<Rightarrow> 'i \<Rightarrow> (bool \<times> 'i) option" where
  "find_with_hint step eq start stop pred i = do {
     j \<leftarrow> find_if step eq pred i stop;
     if \<not> eq j stop then Some (True, j)
     else do {
       j \<leftarrow> find_if step eq pred start i;
       if \<not> eq j i then Some (True, j) else Some (False, i)
     }
   }"

text \<open>The visited iterators, as a relation: each is one step after the previous one.\<close>

fun visits ::
  "('i \<Rightarrow> 'i option) \<Rightarrow> ('i \<Rightarrow> 'i \<Rightarrow> bool) \<Rightarrow> 'i \<Rightarrow> 'i \<Rightarrow> 'i list \<Rightarrow> bool" where
  "visits step eq stop i [] \<longleftrightarrow> eq i stop"
| "visits step eq stop i (x # xs) \<longleftrightarrow>
     x = i \<and> \<not> eq i stop \<and> (\<exists>j. step i = Some j \<and> visits step eq stop j xs)"

lemma visit_iff: "visit step eq i stop = Some xs \<longleftrightarrow> visits step eq stop i xs"
proof (induction xs arbitrary: i)
  case Nil
  show ?case
    by (subst visit.simps) (auto simp: bind_eq_Some_conv)
next
  case (Cons x xs)
  then show ?case
    by (subst visit.simps) (auto simp: bind_eq_Some_conv)
qed

lemma visits_cong:
  "(\<And>a. eq a stop \<longleftrightarrow> eq a stop') \<Longrightarrow> visits step eq stop i xs = visits step eq stop' i xs"
  by (induction xs arbitrary: i) auto

lemma visits_inv:
  assumes "visits step eq stop a xs" "eq a stop \<or> P a"
    and "\<And>a c. P a \<Longrightarrow> step a = Some c \<Longrightarrow> eq c stop \<or> P c"
  shows "\<forall>x \<in> set xs. P x"
  using assms(1,2)
proof (induction xs arbitrary: a)
  case Nil
  show ?case by simp
next
  case (Cons x xs)
  then obtain c where "x = a" "P a" "step a = Some c" "visits step eq stop c xs" by auto
  with Cons.IH [of c] assms(3) show ?case by auto
qed

text \<open>\<open>find_if\<close> on a range that a loop over it visits.\<close>

lemma find_if_visits:
  "visits step eq stop a xs \<Longrightarrow>
     \<exists>j. find_if step eq pred a stop = Some j \<and>
       (case find pred xs of None \<Rightarrow> eq j stop | Some x \<Rightarrow> j = x \<and> \<not> eq j stop)"
proof (induction xs arbitrary: a)
  case Nil
  then show ?case by (subst find_if.simps) simp
next
  case (Cons x xs)
  then show ?case by (subst find_if.simps) (cases "pred x", auto)
qed

text \<open>A search that stays among iterators that are neither the end nor a match does not return.\<close>

lemma find_if_diverges:
  assumes "S i" and S: "\<And>x. S x \<Longrightarrow> \<not> eq x stop \<and> \<not> pred x \<and> (\<exists>y. step x = Some y \<and> S y)"
  shows "find_if step eq pred i stop = None"
proof -
  let ?P = "\<lambda>st e p x s j. \<not> (st = step \<and> e = eq \<and> p = pred \<and> s = stop \<and> S x)"
  have never: "?P st e p x s j" if h: "find_if st e p x s = Some j" for st e p x s j
  proof (rule find_if.raw_induct [OF _ h, where P = ?P])
    fix f st e p x s j
    assume IH: "\<And>st e p x s j. f st e p x s = Some j \<Longrightarrow> ?P st e p x s j"
      and body: "(if e x s \<or> p x then Some x else Option.bind (st x) (\<lambda>x. f st e p x s)) = Some j"
    show "?P st e p x s j"
    proof
      assume a: "st = step \<and> e = eq \<and> p = pred \<and> s = stop \<and> S x"
      with S [of x] body obtain y where y: "S y" "f step eq pred y stop = Some j" by auto
      from IH [OF y(2)] y(1) show False by simp
    qed
  qed
  show ?thesis
    using never [of step eq pred i stop] \<open>S i\<close> by (cases "find_if step eq pred i stop") auto
qed

section \<open>What an iterator type provides\<close>

text \<open>Iterators are equal when their \<open>key\<close> is; those of a range have different keys.\<close>

locale keyed_iterator =
  fixes step :: "'i \<Rightarrow> 'i option"
    and eq :: "'i \<Rightarrow> 'i \<Rightarrow> bool"
    and key :: "'i \<Rightarrow> 'k::linorder"
  assumes eq_key: "eq a b \<longleftrightarrow> key a = key b"
begin

lemma visits_prefix:
  "visits step eq b a (xs @ y # ys) \<Longrightarrow> distinct (map key (xs @ y # ys)) \<Longrightarrow> visits step eq y a xs"
proof (induction xs arbitrary: a)
  case Nil
  then show ?case by (simp add: eq_key)
next
  case (Cons x xs)
  from Cons.prems obtain c where
    c: "x = a" "step a = Some c" "visits step eq b c (xs @ y # ys)" by auto
  have "key a \<noteq> key y" using Cons.prems(2) c(1) by auto
  with Cons.IH [OF c(3)] Cons.prems(2) c(1,2) show ?case by (auto simp: eq_key [of a y])
qed

lemma visits_suffix:
  "visits step eq b a (xs @ ys) \<Longrightarrow> ys \<noteq> [] \<Longrightarrow> visits step eq b (hd ys) ys"
proof (induction xs arbitrary: a)
  case Nil
  then show ?case by (cases ys) auto
qed auto

text \<open>The search finds its target, wherever the hint is in the range, and it returns.\<close>

lemma find_with_hint_spec:
  assumes v: "visit step eq a b = Some (xs @ ys)" "distinct (map key (xs @ ys))"
    and i: "if ys = [] then eq i b else i = hd ys"
  shows "find_with_hint step eq a b pred i =
    Some (case find pred (ys @ xs) of None \<Rightarrow> (False, i) | Some j \<Rightarrow> (True, j))"
proof -
  have v': "visits step eq b a (xs @ ys)" using v by (simp add: visit_iff)
  have later: "visits step eq b i ys"
    using i v' visits_suffix [of b a xs ys] by (cases "ys = []") (auto simp: eq_key)
  have earlier: "visits step eq i a xs"
  proof (cases ys)
    case Nil
    then show ?thesis using v' i visits_cong [of eq b i step a xs] by (simp add: eq_key)
  next
    case (Cons y zs)
    then show ?thesis using i v' v(2) visits_prefix [of b a xs y zs] by simp
  qed
  from find_if_visits [OF later, of pred] obtain j where
    j: "find_if step eq pred i b = Some j"
      "case find pred ys of None \<Rightarrow> eq j b | Some x \<Rightarrow> j = x \<and> \<not> eq j b" by blast
  from find_if_visits [OF earlier, of pred] obtain k where
    k: "find_if step eq pred a i = Some k"
      "case find pred xs of None \<Rightarrow> eq k i | Some x \<Rightarrow> k = x \<and> \<not> eq k i" by blast
  have f: "find pred (ys @ xs) = (case find pred ys of None \<Rightarrow> find pred xs | Some x \<Rightarrow> Some x)"
    by (induction ys) auto
  show ?thesis
    unfolding f find_with_hint_def j(1) k(1)
    using j(2) k(2) by (auto split: option.splits)
qed

end

text \<open>
  \<open>reaches a b\<close>: \<open>[a, b)\<close> is a range. A step inside a range stays in it, comes closer to its end
  and increases the key, unless it meets the end.
\<close>

locale forward_iterator = keyed_iterator step eq key
  for step :: "'i \<Rightarrow> 'i option"
    and eq :: "'i \<Rightarrow> 'i \<Rightarrow> bool"
    and key :: "'i \<Rightarrow> 'k::linorder" +
  fixes reaches :: "'i \<Rightarrow> 'i \<Rightarrow> bool"
    and dist :: "'i \<Rightarrow> 'i \<Rightarrow> nat"
  assumes step_reaches: "reaches a b \<Longrightarrow> key a \<noteq> key b \<Longrightarrow>
      \<exists>c. step a = Some c \<and> reaches c b \<and> dist c b < dist a b \<and> (key c = key b \<or> key a < key c)"
begin

text \<open>The client's loop over a range returns, and visits different iterators.\<close>

lemma visit_total: "reaches a b \<Longrightarrow> \<exists>xs. visit step eq a b = Some xs"
proof (induction "dist a b" arbitrary: a rule: less_induct)
  case less
  show ?case
  proof (cases "key a = key b")
    case True
    then show ?thesis by (subst visit.simps) (simp add: eq_key)
  next
    case False
    from step_reaches [OF less.prems False] obtain c where
      "step a = Some c" "reaches c b" "dist c b < dist a b" by blast
    with less.hyps [of c] False show ?thesis by (subst visit.simps) (auto simp: eq_key)
  qed
qed

lemma visits_keys:
  "reaches a b \<Longrightarrow> visits step eq b a xs \<Longrightarrow>
     sorted_wrt (<) (map key xs) \<and> (\<forall>x \<in> set xs. key x \<noteq> key b \<and> (x = a \<or> key a < key x))"
proof (induction xs arbitrary: a)
  case Nil
  show ?case by simp
next
  case (Cons x xs)
  from Cons.prems obtain c where c: "x = a" "key a \<noteq> key b" "step a = Some c" "visits step eq b c xs"
    by (auto simp: eq_key [of a b])
  from step_reaches [OF Cons.prems(1) c(2)] c(3) have r: "reaches c b" "key c = key b \<or> key a < key c"
    by auto
  show ?case
  proof (cases "key c = key b")
    case True
    then have "xs = []" using c(4) by (cases xs) (auto simp: eq_key)
    with c show ?thesis by simp
  next
    case False
    with r have "key a < key c" by simp
    with Cons.IH [OF r(1) c(4)] c(1,2) show ?thesis by force
  qed
qed

lemma visit_sorted: "reaches a b \<Longrightarrow> visit step eq a b = Some xs \<Longrightarrow> sorted_wrt (<) (map key xs)"
  using visits_keys by (simp add: visit_iff)

lemma visit_distinct: "reaches a b \<Longrightarrow> visit step eq a b = Some xs \<Longrightarrow> distinct (map key xs)"
  using visit_sorted strict_sorted_iff by blast

end

end
