(* ===== verification/Message_Reader.thy ===== *)
theory Message_Reader
  imports Ascii_Numbers Length_Tags Iteration
begin

text \<open>
  \<open>hffix::basic_message_reader\<close> with its fields, field values and field iterator.
  All pointers are offsets into one memory \<open>mem\<close>, the caller's bytes; a reader of
  \<open>[buffer_, buffer_end_)\<close> never changes it. A null pointer is offset 0: no message ends
  there, so an iterator or a value of a reader that found no message is recognised by it, and
  pointer arithmetic on it is \<open>None\<close>. A failed \<open>HFFIX_ASSERT\<close> is \<open>None\<close> as well.
\<close>

section \<open>Field values, fields, iterators\<close>

record field_value =
  fv_begin :: ptr
  fv_end :: ptr

record field =
  f_tag :: u32
  f_value :: field_value

record iter =
  it_buffer :: ptr
  it_message_end :: ptr
  it_current :: field

abbreviation (input) null :: ptr where "null \<equiv> 0"

definition mk_value :: "ptr \<Rightarrow> ptr \<Rightarrow> field_value" where
  "mk_value b e = \<lparr>fv_begin = b, fv_end = e\<rparr>"

definition mk_field :: "u32 \<Rightarrow> ptr \<Rightarrow> ptr \<Rightarrow> field" where
  "mk_field tag b e = \<lparr>f_tag = tag, f_value = mk_value b e\<rparr>"

definition null_iter :: iter where
  "null_iter = \<lparr>it_buffer = null, it_message_end = null, it_current = mk_field 0 null null\<rparr>"

definition value_size :: "field_value \<Rightarrow> nat" where
  "value_size v = fv_end v - fv_begin v"

text \<open>\<open>operator==\<close> of iterators compares the buffer pointers only.\<close>

definition iter_eq :: "iter \<Rightarrow> iter \<Rightarrow> bool" where
  "iter_eq a b \<longleftrightarrow> it_buffer a = it_buffer b"

text \<open>The other comparisons.\<close>

definition iter_ne :: "iter \<Rightarrow> iter \<Rightarrow> bool" where
  "iter_ne a b \<longleftrightarrow> it_buffer a \<noteq> it_buffer b"

definition iter_less :: "iter \<Rightarrow> iter \<Rightarrow> bool" where
  "iter_less a b \<longleftrightarrow> it_buffer a < it_buffer b"

definition iter_greater :: "iter \<Rightarrow> iter \<Rightarrow> bool" where
  "iter_greater a b \<longleftrightarrow> it_buffer a > it_buffer b"

definition iter_less_eq :: "iter \<Rightarrow> iter \<Rightarrow> bool" where
  "iter_less_eq a b \<longleftrightarrow> it_buffer a \<le> it_buffer b"

definition iter_greater_eq :: "iter \<Rightarrow> iter \<Rightarrow> bool" where
  "iter_greater_eq a b \<longleftrightarrow> it_buffer a \<ge> it_buffer b"

section \<open>Advancing the iterator\<close>

function find_soh :: "byte list \<Rightarrow> ptr \<Rightarrow> ptr \<Rightarrow> ptr option" where
  "find_soh mem b e =
     (if b < e then do {
        c \<leftarrow> rd mem b;
        if c \<noteq> SOH then find_soh mem (b + 1) e else Some b
      }
      else Some b)"
  by pat_completeness auto
termination
  by (relation "measure (\<lambda>(mem, b, e). e - b)") auto

text \<open>
  The tag loops of \<open>increment\<close>: digits are accumulated in an \<open>unsigned\<close> until one of the
  stop bytes (\<open>'='\<close> and SOH in the first loop, \<open>'='\<close> only in the second) or the end.
\<close>

function tag_scan :: "byte list \<Rightarrow> byte list \<Rightarrow> ptr \<Rightarrow> ptr \<Rightarrow> u32 \<Rightarrow> (ptr \<times> u32) option" where
  "tag_scan stops mem p e utag =
     (if p < e then do {
        c \<leftarrow> rd mem p;
        if c \<notin> set stops then tag_scan stops mem (p + 1) e (utag * 10 + word_of_int (sint c - 48))
        else Some (p, utag)
      }
      else Some (p, utag))"
  by pat_completeness auto
termination
  by (relation "measure (\<lambda>(stops, mem, p, e, utag). e - p)") auto

declare find_soh.simps [simp del] tag_scan.simps [simp del]

definition set_at_end :: "iter \<Rightarrow> iter" where
  "set_at_end it = it\<lparr>it_buffer := it_message_end it - 7,
     it_current := mk_field 10 (it_message_end it - 4) (it_message_end it - 1)\<rparr>"

definition increment :: "byte list \<Rightarrow> iter \<Rightarrow> iter option" where
  "increment mem it0 =
     (if it_message_end it0 = null then None
      else do {
        let message_end = it_message_end it0;
        let p = fv_end (f_value (it_current it0)) + 1;
        let it = it0\<lparr>it_buffer := p\<rparr>;
        (p, tag) \<leftarrow> tag_scan [EQ_CH, SOH] mem p message_end 0;
        if message_end \<le> p then Some (set_at_end it)
        else do {
          c \<leftarrow> rd mem p;
          if c = SOH then Some (it\<lparr>it_current := mk_field tag p p\<rparr>)
          else do {
            let value_begin = p + 1;
            value_end \<leftarrow> find_soh mem value_begin message_end;
            if is_tag_a_data_length tag then do {
              digits \<leftarrow> rd_range mem value_begin value_end;
              let data_len = unat (atou digits :: u64);
              let p = value_end + 1;
              let it = it\<lparr>it_buffer := p\<rparr>;
              (p, next_tag) \<leftarrow> tag_scan [EQ_CH] mem p message_end 0;
              if message_end \<le> p then Some (set_at_end it)
              else let p = p + 1 in
                if message_end - p < data_len then Some (set_at_end it)
                else Some (it\<lparr>it_current := mk_field next_tag p (p + data_len)\<rparr>)
            }
            else Some (it\<lparr>it_current := mk_field tag value_begin value_end\<rparr>)
          }
        }
      })"

text \<open>\<open>it++\<close>: the old value, and the iterator afterwards.\<close>

definition iter_post_increment :: "byte list \<Rightarrow> iter \<Rightarrow> (iter \<times> iter) option" where
  "iter_post_increment mem it = do { it' \<leftarrow> increment mem it; Some (it, it') }"

text \<open>\<open>operator+(a, addend)\<close>, with its assertion.\<close>

fun advance :: "byte list \<Rightarrow> nat \<Rightarrow> iter \<Rightarrow> iter option" where
  "advance mem 0 a = Some a"
| "advance mem (Suc n) a = do { a \<leftarrow> increment mem a; advance mem n a }"

definition iter_plus :: "byte list \<Rightarrow> iter \<Rightarrow> int \<Rightarrow> iter option" where
  "iter_plus mem a addend = (if 0 \<le> addend then advance mem (nat addend) a else None)"

section \<open>Searching by tag\<close>

definition tag_equal :: "u32 \<Rightarrow> iter \<Rightarrow> bool" where
  "tag_equal tag it \<longleftrightarrow> f_tag (it_current it) = tag"

section \<open>The reader\<close>

record reader =
  r_end :: iter
  r_buffer :: ptr
  r_buffer_end :: ptr
  r_complete :: bool
  r_valid :: bool
  r_begin :: iter
  r_prefix_end :: ptr

definition invalid :: "reader \<Rightarrow> reader" where
  "invalid r = r\<lparr>r_complete := True, r_valid := False\<rparr>"

definition incomplete :: "reader \<Rightarrow> reader" where
  "incomplete r = r\<lparr>r_complete := False\<rparr>"

text \<open>What a scanning loop of \<open>init\<close> ends with.\<close>

datatype 'a scan = Incomplete | Invalid | Found 'a

text \<open>The search for the SOH that ends BeginString, from \<open>buffer_ + 9\<close>.\<close>

function scan_prefix :: "byte list \<Rightarrow> ptr \<Rightarrow> ptr \<Rightarrow> ptr \<Rightarrow> ptr scan option" where
  "scan_prefix mem buffer buffer_end b =
     (if buffer_end \<le> b then Some Incomplete
      else do {
        c \<leftarrow> rd mem b;
        if c = SOH then Some (Found b)
        else if 11 < b - buffer then Some Invalid
        else scan_prefix mem buffer buffer_end (b + 1)
      })"
  by pat_completeness auto
termination
  by (relation "measure (\<lambda>(mem, buffer, buffer_end, b). buffer_end - b)") auto

text \<open>The digits of BodyLength, accumulated in a \<open>size_t\<close>.\<close>

function scan_bodylength :: "byte list \<Rightarrow> ptr \<Rightarrow> ptr \<Rightarrow> u64 \<Rightarrow> (ptr \<times> u64) scan option" where
  "scan_bodylength mem buffer_end b bodylength =
     (if buffer_end \<le> b then Some Incomplete
      else do {
        c \<leftarrow> rd mem b;
        if c = SOH then Some (Found (b, bodylength))
        else if c <s ZERO_CH \<or> NINE_CH <s c then Some Invalid
        else scan_bodylength mem buffer_end (b + 1) (bodylength * 10 + word_of_int (sint c - 48))
      })"
  by pat_completeness auto
termination
  by (relation "measure (\<lambda>(mem, buffer_end, b, bodylength). buffer_end - b)") auto

declare scan_prefix.simps [simp del] scan_bodylength.simps [simp del]

text \<open>The part of \<open>init\<close> after BodyLength: \<open>b\<close> is past its SOH.\<close>

definition init_body :: "byte list \<Rightarrow> reader \<Rightarrow> ptr \<Rightarrow> u64 \<Rightarrow> reader option" where
  "init_body mem r b bodylength =
     (let buffer_end = r_buffer_end r in
      if buffer_end \<le> b + 3 then Some (incomplete r)
      else do {
        c0 \<leftarrow> rd mem b;
        c1 \<leftarrow> rd mem (b + 1);
        if c0 \<noteq> 51 \<or> c1 \<noteq> 53 then Some (invalid r)
        else if buffer_end - b < unat bodylength then Some (incomplete r)
        else let checksum = b + unat bodylength in
          if buffer_end < checksum + 7 then Some (incomplete r)
          else do {
            s0 \<leftarrow> rd mem (checksum - 1);
            if s0 \<noteq> SOH then Some (invalid r)
            else do {
              s1 \<leftarrow> rd mem (checksum + 6);
              if s1 \<noteq> SOH then Some (invalid r)
              else do {
                msgtype_end \<leftarrow> find_soh mem (b + 3) checksum;
                if checksum \<le> msgtype_end
                then Some (invalid (r\<lparr>r_begin := (r_begin r)\<lparr>it_buffer := b,
                       it_current := mk_field 35 (b + 3) null\<rparr>\<rparr>))
                else Some (r\<lparr>
                  r_begin := \<lparr>it_buffer = b, it_message_end = checksum + 7,
                    it_current = mk_field 35 (b + 3) msgtype_end\<rparr>,
                  r_end := \<lparr>it_buffer = checksum, it_message_end = checksum + 7,
                    it_current = mk_field 10 (checksum + 3) (checksum + 6)\<rparr>,
                  r_complete := True\<rparr>)
              }
            }
          }
      })"

definition init :: "byte list \<Rightarrow> reader \<Rightarrow> reader option" where
  "init mem r =
     (let buffer = r_buffer r; buffer_end = r_buffer_end r in
      if int buffer_end - int buffer < 9 then Some (incomplete r)
      else do {
        s \<leftarrow> scan_prefix mem buffer buffer_end (buffer + 9);
        case s of
          Incomplete \<Rightarrow> Some (incomplete r)
        | Invalid \<Rightarrow> Some (invalid r)
        | Found b \<Rightarrow> do {
            let r = r\<lparr>r_prefix_end := b\<rparr>;
            if buffer_end \<le> b + 1 then Some (incomplete r)
            else do {
              c \<leftarrow> rd mem (b + 1);
              if c \<noteq> 57 then Some (invalid r)
              else do {
                s \<leftarrow> scan_bodylength mem buffer_end (b + 3) 0;
                case s of
                  Incomplete \<Rightarrow> Some (incomplete r)
                | Invalid \<Rightarrow> Some (invalid r)
                | Found (b, bodylength) \<Rightarrow> init_body mem r (b + 1) bodylength
              }
            }
          }
      })"

text \<open>The constructors: the range \<open>[b, e)\<close> of the memory.\<close>

definition message_reader :: "byte list \<Rightarrow> ptr \<Rightarrow> ptr \<Rightarrow> reader option" where
  "message_reader mem b e =
     init mem \<lparr>r_end = null_iter, r_buffer = b, r_buffer_end = e, r_complete = False,
       r_valid = True, r_begin = null_iter, r_prefix_end = null\<rparr>"

text \<open>The resynchronisation loop: the next \<open>8=FIX\<close> before \<open>buffer_end_ - 10\<close>, or that place.\<close>

function resync :: "byte list \<Rightarrow> ptr \<Rightarrow> ptr \<Rightarrow> ptr option" where
  "resync mem buffer_end b =
     (if int b < int buffer_end - 10 then do {
        bs \<leftarrow> rd_range mem b (b + 5);
        if bs = lit ''8=FIX'' then Some b else resync mem buffer_end (b + 1)
      }
      else Some b)"
  by pat_completeness auto
termination
  by (relation "measure (\<lambda>(mem, buffer_end, b). buffer_end - b)") auto

declare resync.simps [simp del]

definition next_message_reader :: "byte list \<Rightarrow> reader \<Rightarrow> reader option" where
  "next_message_reader mem r =
     (if \<not> r_complete r then None
      else if \<not> r_valid r then
        (if r_buffer_end r - r_buffer r < 10
         then message_reader mem (r_buffer_end r) (r_buffer_end r)
         else do {
           b \<leftarrow> resync mem (r_buffer_end r) (r_buffer r + 1);
           message_reader mem b (r_buffer_end r)
         })
      else message_reader mem (fv_end (f_value (it_current (r_end r))) + 1) (r_buffer_end r))"

section \<open>Access\<close>

definition reader_begin :: "reader \<Rightarrow> iter option" where
  "reader_begin r = (if r_valid r then Some (r_begin r) else None)"

definition reader_end :: "reader \<Rightarrow> iter option" where
  "reader_end r = (if r_valid r then Some (r_end r) else None)"

definition message_type :: "reader \<Rightarrow> iter option" where
  "message_type r = (if r_valid r then Some (r_begin r) else None)"

definition check_sum :: "reader \<Rightarrow> iter option" where
  "check_sum r = (if r_valid r then Some (r_end r) else None)"

definition prefix_begin :: "reader \<Rightarrow> ptr" where
  "prefix_begin r = r_buffer r + 2"

definition reader_buffer_size :: "reader \<Rightarrow> nat" where
  "reader_buffer_size r = r_buffer_end r - r_buffer r"

definition prefix_size :: "reader \<Rightarrow> nat" where
  "prefix_size r = r_prefix_end r - r_buffer r - 2"

definition message_end :: "reader \<Rightarrow> ptr option" where
  "message_end r =
     (let e = fv_end (f_value (it_current (r_end r)))
      in if r_valid r \<and> e \<noteq> null then Some (e + 1) else None)"

definition message_size :: "reader \<Rightarrow> nat option" where
  "message_size r =
     (let e = fv_end (f_value (it_current (r_end r)))
      in if r_valid r \<and> e \<noteq> null then Some (e - r_buffer r + 1) else None)"

text \<open>The loop of the sum runs while \<open>begin != end\<close>: it does not stop at an end that is null or in front.\<close>

definition check_sum_range :: "byte list \<Rightarrow> reader \<Rightarrow> byte list option" where
  "check_sum_range mem r =
     (let e = it_buffer (r_end r)
      in if e = null \<or> e < r_buffer r then None else rd_range mem (r_buffer r) e)"

definition calculate_check_sum :: "byte list \<Rightarrow> reader \<Rightarrow> byte option" where
  "calculate_check_sum mem r =
     (if r_valid r then do {
        bs \<leftarrow> check_sum_range mem r;
        Some (checksum_bytes 0 bs)
      }
      else None)"

definition reader_find_with_hint :: "byte list \<Rightarrow> reader \<Rightarrow> u32 \<Rightarrow> iter \<Rightarrow> (bool \<times> iter) option" where
  "reader_find_with_hint mem r tag i = do {
     b \<leftarrow> reader_begin r;
     e \<leftarrow> reader_end r;
     find_with_hint (increment mem) iter_eq b e (tag_equal tag) i
   }"

text \<open>The bytes of a field's value.\<close>

definition value_bytes :: "byte list \<Rightarrow> field_value \<Rightarrow> byte list option" where
  "value_bytes mem v = rd_range mem (fv_begin v) (fv_end v)"

end
