(* ===== verification/Reader_Lemmas.thy ===== *)
theory Reader_Lemmas
  imports Message_Reader
begin

text \<open>
  The reader on arbitrary bytes. Construction never reads outside \<open>[buffer_, buffer_end_)\<close> and
  ends in one of three results: incomplete, invalid, or a frame whose parts lie in order in the
  buffer (\<open>framed\<close>). On a frame the field iterator never reads outside the message, always
  gets nearer to the end of the message and so a loop over the fields returns; every value it
  shows lies inside the message (\<open>field_it\<close>, an interpretation of \<open>forward_iterator\<close>).
\<close>

section \<open>Scans\<close>

lemma find_soh_spec:
  "e \<le> length mem \<Longrightarrow> \<exists>p. find_soh mem b e = Some p \<and> b \<le> p \<and> (p = b \<or> p \<le> e) \<and>
     (p < e \<longrightarrow> mem ! p = SOH) \<and> (\<forall>q. b \<le> q \<and> q < p \<longrightarrow> mem ! q \<noteq> SOH)"
proof (induction mem b e rule: find_soh.induct)
  case (1 mem b e)
  show ?case
  proof (cases "b < e \<and> mem ! b \<noteq> SOH")
    case True
    with "1.prems" "1.IH" [of "mem ! b"] obtain p where
      p: "find_soh mem (b + 1) e = Some p" "b + 1 \<le> p" "p = b + 1 \<or> p \<le> e"
      "p < e \<longrightarrow> mem ! p = SOH" "\<forall>q. b + 1 \<le> q \<and> q < p \<longrightarrow> mem ! q \<noteq> SOH"
      by (auto simp: rd_def)
    have "find_soh mem b e = Some p"
      using True "1.prems" p(1) by (subst find_soh.simps) (simp add: rd_def)
    moreover have "\<forall>q. b \<le> q \<and> q < p \<longrightarrow> mem ! q \<noteq> SOH"
      using True p(5) by (metis Suc_eq_plus1 le_antisym not_less_eq_eq)
    ultimately show ?thesis using True p by auto
  next
    case False
    then have "find_soh mem b e = Some b"
      using "1.prems" by (subst find_soh.simps) (auto simp: rd_def)
    with False show ?thesis by auto
  qed
qed

lemma tag_scan_spec:
  "e \<le> length mem \<Longrightarrow> \<exists>p t. tag_scan stops mem b e u = Some (p, t) \<and> b \<le> p \<and>
     (p = b \<or> p \<le> e) \<and> (p < e \<longrightarrow> mem ! p \<in> set stops)"
proof (induction stops mem b e u rule: tag_scan.induct)
  case (1 stops mem b e u)
  show ?case
  proof (cases "b < e \<and> mem ! b \<notin> set stops")
    case True
    with "1.prems" "1.IH" [of "mem ! b"] obtain p t where
      p: "tag_scan stops mem (b + 1) e (u * 10 + word_of_int (sint (mem ! b) - 48)) = Some (p, t)"
      "b + 1 \<le> p" "p = b + 1 \<or> p \<le> e" "p < e \<longrightarrow> mem ! p \<in> set stops"
      by (auto simp: rd_def)
    then have "tag_scan stops mem b e u = Some (p, t)"
      using True "1.prems" by (subst tag_scan.simps) (simp add: rd_def)
    with True p show ?thesis by auto
  next
    case False
    then have "tag_scan stops mem b e u = Some (b, u)"
      using "1.prems" by (subst tag_scan.simps) (auto simp: rd_def)
    with False show ?thesis by auto
  qed
qed

lemma scan_prefix_total:
  "e \<le> length mem \<Longrightarrow> \<exists>s. scan_prefix mem buf e b = Some s \<and>
     (\<forall>p. s = Found p \<longrightarrow> b \<le> p \<and> p < e \<and> mem ! p = SOH) \<and> (s = Invalid \<longrightarrow> buf + 11 < e)"
proof (induction mem buf e b rule: scan_prefix.induct)
  case (1 mem buf e b)
  then show ?case
    by (cases "e \<le> b"; cases "mem ! b = SOH"; cases "11 < b - buf"; subst scan_prefix.simps)
       (auto simp: rd_def)
qed

lemma scan_bodylength_total:
  "e \<le> length mem \<Longrightarrow> \<exists>s. scan_bodylength mem e b n = Some s \<and>
     (\<forall>p m. s = Found (p, m) \<longrightarrow> b \<le> p \<and> p < e \<and> mem ! p = SOH)"
proof (induction mem e b n rule: scan_bodylength.induct)
  case (1 mem e b n)
  then show ?case
    by (cases "e \<le> b"; cases "mem ! b = SOH"; cases "mem ! b <s ZERO_CH \<or> NINE_CH <s mem ! b";
        subst scan_bodylength.simps) (auto simp: rd_def)
qed

section \<open>Construction\<close>

text \<open>
  The result of a successful construction: BeginString ends at \<open>p\<close>, MsgType starts at \<open>b\<close>, the
  checksum field at \<open>c\<close>; the SOH that the code relies on are there.
\<close>

definition framed :: "byte list \<Rightarrow> reader \<Rightarrow> bool" where
  "framed mem r \<longleftrightarrow> r_complete r \<and> r_valid r \<and>
     (\<exists>b v c. r_buffer r + 9 \<le> r_prefix_end r \<and> r_prefix_end r + 3 < b \<and> b + 3 \<le> v \<and> v < c \<and>
        c + 7 \<le> r_buffer_end r \<and> r_buffer_end r \<le> length mem \<and>
        mem ! r_prefix_end r = SOH \<and> mem ! v = SOH \<and> mem ! (c - 1) = SOH \<and> mem ! (c + 6) = SOH \<and>
        (\<forall>q. b + 3 \<le> q \<and> q < v \<longrightarrow> mem ! q \<noteq> SOH) \<and>
        r_begin r = \<lparr>it_buffer = b, it_message_end = c + 7, it_current = mk_field 35 (b + 3) v\<rparr> \<and>
        r_end r = \<lparr>it_buffer = c, it_message_end = c + 7,
          it_current = mk_field 10 (c + 3) (c + 6)\<rparr>)"

lemma framedI:
  assumes "r_complete r" "r_valid r" "r_buffer r + 9 \<le> r_prefix_end r" "r_prefix_end r + 3 < b"
    "b + 3 \<le> v" "v < c" "c + 7 \<le> r_buffer_end r" "r_buffer_end r \<le> length mem"
    "mem ! r_prefix_end r = SOH" "mem ! v = SOH" "mem ! (c - 1) = SOH" "mem ! (c + 6) = SOH"
    "\<forall>q. b + 3 \<le> q \<and> q < v \<longrightarrow> mem ! q \<noteq> SOH"
    "r_begin r = \<lparr>it_buffer = b, it_message_end = c + 7, it_current = mk_field 35 (b + 3) v\<rparr>"
    "r_end r = \<lparr>it_buffer = c, it_message_end = c + 7, it_current = mk_field 10 (c + 3) (c + 6)\<rparr>"
  shows "framed mem r"
  unfolding framed_def using assms by blast

lemma init_body_eq:
  assumes "r_buffer_end r \<le> length mem" "b + 3 < r_buffer_end r" "unat n = k"
    "b + k + 7 \<le> r_buffer_end r" "0 < b + k"
  shows "init_body mem r b n =
    (if mem ! b \<noteq> 51 \<or> mem ! (b + 1) \<noteq> 53 \<or> mem ! (b + k - 1) \<noteq> SOH \<or> mem ! (b + k + 6) \<noteq> SOH
     then Some (invalid r)
     else Option.bind (find_soh mem (b + 3) (b + k)) (\<lambda>v.
       if b + k \<le> v
       then Some (invalid (r\<lparr>r_begin := (r_begin r)\<lparr>it_buffer := b,
              it_current := mk_field 35 (b + 3) null\<rparr>\<rparr>))
       else Some (r\<lparr>
         r_begin := \<lparr>it_buffer = b, it_message_end = b + k + 7, it_current = mk_field 35 (b + 3) v\<rparr>,
         r_end := \<lparr>it_buffer = b + k, it_message_end = b + k + 7,
           it_current = mk_field 10 (b + k + 3) (b + k + 6)\<rparr>,
         r_complete := True\<rparr>)))"
proof -
  have at: "rd mem b = Some (mem ! b)" "rd mem (b + 1) = Some (mem ! (b + 1))"
    "rd mem (b + k - 1) = Some (mem ! (b + k - 1))" "rd mem (b + k + 6) = Some (mem ! (b + k + 6))"
    using assms by (auto intro: rd_Some)
  have room: "\<not> r_buffer_end r \<le> b + 3" "\<not> r_buffer_end r - b < k" "\<not> r_buffer_end r < b + k + 7"
    using assms(2,4) by auto
  show ?thesis
    unfolding init_body_def Let_def assms(3) at if_not_P [OF room(1)] if_not_P [OF room(2)]
      if_not_P [OF room(3)]
    by auto
qed

lemma init_body_short:
  assumes "r_buffer_end r \<le> length mem" "r_buffer_end r \<le> b + 3 \<or> r_buffer_end r < b + unat n + 7"
  shows "init_body mem r b n = Some (incomplete r) \<or>
    b + 3 < r_buffer_end r \<and> init_body mem r b n = Some (invalid r)"
proof (cases "r_buffer_end r \<le> b + 3")
  case True
  then show ?thesis by (simp add: init_body_def Let_def)
next
  case False
  then have at: "rd mem b = Some (mem ! b)" "rd mem (b + 1) = Some (mem ! (b + 1))"
    using assms(1) by (auto intro: rd_Some)
  from False assms(2) have short: "r_buffer_end r < b + unat n + 7" by simp
  show ?thesis
    unfolding init_body_def Let_def at if_not_P [OF False] if_P [OF short]
    using False by auto
qed

lemma init_body_result:
  assumes "r_buffer_end r \<le> length mem" "r_buffer r + 9 \<le> r_prefix_end r" "r_prefix_end r + 3 < b"
    "mem ! r_prefix_end r = SOH" "\<not> r_complete r" "r_valid r"
  shows "\<exists>r'. init_body mem r b n = Some r' \<and> r_buffer r' = r_buffer r \<and>
    r_buffer_end r' = r_buffer_end r \<and>
    (framed mem r' \<or> \<not> r_complete r' \<and> r_valid r' \<or>
     r_complete r' \<and> \<not> r_valid r' \<and> b < r_buffer_end r')"
proof (cases "r_buffer_end r \<le> b + 3 \<or> r_buffer_end r < b + unat n + 7")
  case True
  from init_body_short [OF assms(1) True] show ?thesis
    using assms(5,6) by (auto simp: incomplete_def invalid_def)
next
  case False
  obtain k where k: "unat n = k" by blast
  let ?c = "b + k"
  have r: "b + 3 < r_buffer_end r" "?c + 7 \<le> r_buffer_end r" "0 < ?c" "?c \<le> length mem"
    using False assms(1,3) k by auto
  note eq = init_body_eq [OF assms(1) r(1) k r(2,3)]
  from find_soh_spec [OF r(4), of "b + 3"] obtain v where
    v: "find_soh mem (b + 3) ?c = Some v" "b + 3 \<le> v" "v < ?c \<longrightarrow> mem ! v = SOH"
      "\<forall>q. b + 3 \<le> q \<and> q < v \<longrightarrow> mem ! q \<noteq> SOH" by blast
  show ?thesis
  proof (cases "mem ! b \<noteq> 51 \<or> mem ! (b + 1) \<noteq> 53 \<or> mem ! (?c - 1) \<noteq> SOH \<or>
      mem ! (?c + 6) \<noteq> SOH \<or> ?c \<le> v")
    case True
    then have "\<exists>r'. init_body mem r b n = Some (invalid r') \<and> r_buffer r' = r_buffer r \<and>
        r_buffer_end r' = r_buffer_end r"
      unfolding eq v(1) by auto
    then show ?thesis using r(1) by (auto simp: invalid_def)
  next
    case ok: False
    let ?r = "r\<lparr>r_begin := \<lparr>it_buffer = b, it_message_end = ?c + 7, it_current = mk_field 35 (b + 3) v\<rparr>,
      r_end := \<lparr>it_buffer = ?c, it_message_end = ?c + 7, it_current = mk_field 10 (?c + 3) (?c + 6)\<rparr>,
      r_complete := True\<rparr>"
    have "init_body mem r b n = Some ?r"
      unfolding eq v(1) using ok by auto
    moreover have "framed mem ?r"
    proof (rule framedI [where b = b and v = v and c = ?c])
      show "v < ?c" using ok by (simp only: not_le de_Morgan_disj simp_thms)
      then show "mem ! v = SOH" using v(3) by blast
      show "mem ! (?c - 1) = SOH" using ok by blast
      show "mem ! (?c + 6) = SOH" using ok by blast
      show "\<forall>q. b + 3 \<le> q \<and> q < v \<longrightarrow> mem ! q \<noteq> SOH" using v(4) .
    qed (use r(2) assms v(2) in simp_all)
    ultimately show ?thesis by auto
  qed
qed

lemma message_reader_result:
  assumes "b \<le> e" "e \<le> length mem"
  shows "\<exists>r. message_reader mem b e = Some r \<and> r_buffer r = b \<and> r_buffer_end r = e \<and>
    (framed mem r \<or> \<not> r_complete r \<and> r_valid r \<or>
     r_complete r \<and> \<not> r_valid r \<and> b + 10 < e)"
proof (cases "int e - int b < 9")
  case True
  then show ?thesis by (simp add: message_reader_def init_def incomplete_def)
next
  case False
  let ?r = "\<lparr>r_end = null_iter, r_buffer = b, r_buffer_end = e, r_complete = False,
    r_valid = True, r_begin = null_iter, r_prefix_end = null\<rparr>"
  from scan_prefix_total [OF assms(2), of b "b + 9"] obtain s where
    s: "scan_prefix mem b e (b + 9) = Some s"
      "\<forall>p. s = Found p \<longrightarrow> b + 9 \<le> p \<and> p < e \<and> mem ! p = SOH"
      "s = Invalid \<Longrightarrow> b + 11 < e" by blast
  show ?thesis
  proof (cases s)
    case Incomplete
    with s(1) False show ?thesis
      by (simp add: message_reader_def init_def Let_def incomplete_def)
  next
    case Invalid
    with s(1,3) False show ?thesis
      by (simp add: message_reader_def init_def Let_def invalid_def)
  next
    case (Found p)
    with s(2) have p: "b + 9 \<le> p" "p < e" "mem ! p = SOH" by auto
    show ?thesis
    proof (cases "e \<le> p + 1 \<or> mem ! (p + 1) \<noteq> 57")
      case True
      with s(1) Found p False assms show ?thesis
        by (auto simp: message_reader_def init_def Let_def incomplete_def invalid_def rd_def)
    next
      case nine: False
      from scan_bodylength_total [OF assms(2), of "p + 3" 0] obtain t where
        t: "scan_bodylength mem e (p + 3) 0 = Some t"
          "\<forall>q m. t = Found (q, m) \<longrightarrow> p + 3 \<le> q \<and> q < e \<and> mem ! q = SOH" by blast
      have eq: "message_reader mem b e = (case t of
          Incomplete \<Rightarrow> Some (incomplete (?r\<lparr>r_prefix_end := p\<rparr>))
        | Invalid \<Rightarrow> Some (invalid (?r\<lparr>r_prefix_end := p\<rparr>))
        | Found (b, n) \<Rightarrow> init_body mem (?r\<lparr>r_prefix_end := p\<rparr>) (b + 1) n)"
        using s(1) t(1) Found p nine False assms
        by (cases t) (auto simp: message_reader_def init_def Let_def rd_Some)
      show ?thesis
      proof (cases t)
        case (Found x)
        obtain q n where x: "x = (q, n)" by (cases x)
        with Found t(2) have q: "p + 3 \<le> q" "q < e" by auto
        have "\<exists>r'. init_body mem (?r\<lparr>r_prefix_end := p\<rparr>) (q + 1) n = Some r' \<and> r_buffer r' = b \<and>
          r_buffer_end r' = e \<and> (framed mem r' \<or> \<not> r_complete r' \<and> r_valid r' \<or>
             r_complete r' \<and> \<not> r_valid r' \<and> q + 1 < r_buffer_end r')"
          using init_body_result [of "?r\<lparr>r_prefix_end := p\<rparr>" mem "q + 1" n] p q assms by simp
        then show ?thesis using eq Found x p q by auto
      qed (use eq p nine in \<open>auto simp: incomplete_def invalid_def\<close>)
    qed
  qed
qed

section \<open>Iteration\<close>

abbreviation it_begin :: "iter \<Rightarrow> ptr" where
  "it_begin it \<equiv> fv_begin (f_value (it_current it))"

abbreviation it_end :: "iter \<Rightarrow> ptr" where
  "it_end it \<equiv> fv_end (f_value (it_current it))"

lemma set_at_end_buffer [simp]: "set_at_end (it\<lparr>it_buffer := p\<rparr>) = set_at_end it"
  by (simp add: set_at_end_def)

lemma mk_field_simps [simp]:
  "f_tag (mk_field t b e) = t" "fv_begin (f_value (mk_field t b e)) = b"
  "fv_end (f_value (mk_field t b e)) = e"
  by (simp_all add: mk_field_def mk_value_def)

text \<open>A step goes to the end position or to a field behind the current one, in the message.\<close>

definition next_field :: "ptr \<Rightarrow> iter \<Rightarrow> iter \<Rightarrow> bool" where
  "next_field M it it' \<longleftrightarrow> it_message_end it' = M \<and> it_end it < it_buffer it' \<and>
     it_buffer it' \<le> it_begin it' \<and> it_begin it' \<le> it_end it' \<and> it_end it' \<le> M"

lemma increment_data:
  assumes "M \<le> length mem" "it_message_end it = M" "it_end it0 < value_end"
  shows "\<exists>it'. (do {
      let p = value_end + 1;
      let it = it\<lparr>it_buffer := p\<rparr>;
      (p, next_tag) \<leftarrow> tag_scan [EQ_CH] mem p M 0;
      if M \<le> p then Some (set_at_end it)
      else let p = p + 1 in
        if M - p < data_len then Some (set_at_end it)
        else Some (it\<lparr>it_current := mk_field next_tag p (p + data_len)\<rparr>)
    }) = Some it' \<and> (it' = set_at_end it \<or> next_field M it0 it')"
proof -
  from tag_scan_spec [OF assms(1), of "[EQ_CH]" "value_end + 1" 0] obtain p t where
    p: "tag_scan [EQ_CH] mem (value_end + 1) M 0 = Some (p, t)" "value_end + 1 \<le> p" by blast
  show ?thesis
  proof (cases "M \<le> p \<or> M - (p + 1) < data_len")
    case True
    then show ?thesis using p by (auto simp: Let_def)
  next
    case False
    then have "p + 1 + data_len \<le> M" by arith
    with False p assms show ?thesis by (auto simp: Let_def next_field_def)
  qed
qed

lemma increment_result:
  assumes "it_message_end it = M" "0 < M" "M \<le> length mem"
  shows "\<exists>it'. increment mem it = Some it' \<and> (it' = set_at_end it \<or> next_field M it it')"
proof -
  let ?b = "it_end it + 1"
  let ?it = "it\<lparr>it_buffer := ?b\<rparr>"
  from tag_scan_spec [OF assms(3), of "[EQ_CH, SOH]" ?b 0] obtain p tag where
    p: "tag_scan [EQ_CH, SOH] mem ?b M 0 = Some (p, tag)" "?b \<le> p" by blast
  show ?thesis
  proof (cases "M \<le> p")
    case True
    then show ?thesis using p assms(1,2) by (simp add: increment_def Let_def)
  next
    case in_msg: False
    then have at: "rd mem p = Some (mem ! p)" using assms(3) by (simp add: rd_Some)
    show ?thesis
    proof (cases "mem ! p = SOH")
      case True
      then show ?thesis
        using p in_msg at assms(1,2) by (simp add: increment_def Let_def next_field_def)
    next
      case False
      from find_soh_spec [OF assms(3), of "p + 1"] obtain v where
        v: "find_soh mem (p + 1) M = Some v" "p + 1 \<le> v" "v = p + 1 \<or> v \<le> M" by blast
      with in_msg have vM: "v \<le> M" by auto
      have rr: "\<exists>ds. rd_range mem (p + 1) v = Some ds"
        using vM assms(3) by (simp add: rd_range_Some)
      show ?thesis
      proof (cases "is_tag_a_data_length tag")
        case True
        from rr obtain ds where ds: "rd_range mem (p + 1) v = Some ds" by blast
        have "it_end it < v" using p(2) v(2) by simp
        from increment_data [OF assms(3) _ this, of ?it "unat (atou ds :: u64)"]
        show ?thesis
          using p in_msg at False v(1) assms(1,2) True ds
          by (simp add: increment_def Let_def)
      next
        case plain: False
        then have "increment mem it = Some (?it\<lparr>it_current := mk_field tag (p + 1) v\<rparr>)"
          using p in_msg at False v(1) assms(1,2) by (simp add: increment_def Let_def)
        then show ?thesis using p(2) v(2) vM assms(1) by (simp add: next_field_def)
      qed
    qed
  qed
qed

section \<open>The field iterator as a forward iterator\<close>

definition iter_range :: "byte list \<Rightarrow> iter \<Rightarrow> iter \<Rightarrow> bool" where
  "iter_range mem it e \<longleftrightarrow> it_message_end it = it_message_end e \<and> 7 \<le> it_message_end e \<and>
     it_message_end e \<le> length mem \<and> it_buffer e = it_message_end e - 7 \<and>
     (it_buffer it = it_buffer e \<or> it_buffer it \<le> it_end it \<and> it_end it \<le> it_message_end e)"

definition iter_dist :: "iter \<Rightarrow> iter \<Rightarrow> nat" where
  "iter_dist it e = (if it_buffer it = it_buffer e then 0 else it_message_end e + 2 - it_end it)"

interpretation field_it: forward_iterator "increment mem" iter_eq it_buffer "iter_range mem" iter_dist
  for mem
proof (unfold_locales, goal_cases)
  case 1
  show ?case by (simp add: iter_eq_def)
next
  case (2 a b)
  let ?M = "it_message_end b"
  from 2 have M: "it_message_end a = ?M" "7 \<le> ?M" "?M \<le> length mem" "it_buffer b = ?M - 7"
    "it_buffer a \<le> it_end a" "it_end a \<le> ?M"
    by (auto simp: iter_range_def)
  from increment_result [OF M(1) _ M(3)] M(2) obtain c where
    c: "increment mem a = Some c" "c = set_at_end a \<or> next_field ?M a c" by auto
  from c(2) have "iter_range mem c b \<and> iter_dist c b < iter_dist a b \<and>
      (it_buffer c = it_buffer b \<or> it_buffer a < it_buffer c)"
    using 2 M by (auto simp: iter_range_def iter_dist_def set_at_end_def next_field_def)
  with c(1) show ?case by blast
qed

lemma framed_range: "framed mem r \<Longrightarrow> iter_range mem (r_begin r) (r_end r)"
  by (auto simp: framed_def iter_range_def)

text \<open>The comparisons order the fields of a message as the loop visits them.\<close>

lemma fields_ordered:
  assumes "framed mem r" "visit (increment mem) iter_eq (r_begin r) (r_end r) = Some its"
  shows "sorted_wrt iter_less its"
  using field_it.visit_sorted [OF framed_range [OF assms(1)] assms(2)]
  by (simp add: sorted_wrt_map iter_less_def [abs_def])

lemma iter_comparisons:
  "iter_less a b \<or> iter_eq a b \<or> iter_greater a b" "iter_less_eq a b \<longleftrightarrow> \<not> iter_greater a b"
  "iter_greater_eq a b \<longleftrightarrow> \<not> iter_less a b" "iter_ne a b \<longleftrightarrow> \<not> iter_eq a b"
  by (auto simp: iter_less_def iter_eq_def iter_greater_def iter_less_eq_def iter_greater_eq_def iter_ne_def)

text \<open>A field that lies in the message, and the order of two fields.\<close>

definition field_inside :: "ptr \<Rightarrow> iter \<Rightarrow> bool" where
  "field_inside M it \<longleftrightarrow> it_message_end it = M \<and> it_buffer it \<le> it_begin it \<and>
     it_begin it \<le> it_end it \<and> it_end it \<le> M"

lemma field_inside_step:
  assumes "field_inside M a" "increment mem a = Some c" "0 < M" "M \<le> length mem"
  shows "c = set_at_end a \<or> field_inside M c \<and> it_end a < it_buffer c"
proof -
  from assms(1) have "it_message_end a = M" by (simp add: field_inside_def)
  from increment_result [OF this assms(3,4)] assms(2) show ?thesis
    by (auto simp: next_field_def field_inside_def)
qed

lemma visits_inside:
  assumes "visits (increment mem) iter_eq e a its" "it_buffer a = it_buffer e \<or> field_inside M a"
    "it_message_end e = M" "it_buffer e = M - 7" "0 < M" "M \<le> length mem"
  shows "(\<forall>it \<in> set its. field_inside M it) \<and>
    sorted_wrt (\<lambda>x y. it_end x < it_buffer y) its \<and> (\<forall>it \<in> set its. it = a \<or> it_end a < it_buffer it)"
  using assms(1,2)
proof (induction its arbitrary: a)
  case Nil
  show ?case by simp
next
  case (Cons x its)
  then obtain c where c: "x = a" "it_buffer a \<noteq> it_buffer e" "increment mem a = Some c"
    "visits (increment mem) iter_eq e c its" by (auto simp: iter_eq_def [of a e])
  with Cons.prems have a: "field_inside M a" by auto
  from field_inside_step [OF a c(3) assms(5,6)]
  consider "c = set_at_end a" | "field_inside M c" "it_end a < it_buffer c" by blast
  then show ?case
  proof cases
    case 1
    then have "it_buffer c = it_buffer e"
      using a assms(3,4) by (simp add: set_at_end_def field_inside_def)
    with c(4) have "its = []" by (cases its) (auto simp: iter_eq_def)
    with a c(1) show ?thesis by simp
  next
    case 2
    from Cons.IH [OF c(4)] 2(1)
    have IH: "\<forall>it \<in> set its. field_inside M it" "sorted_wrt (\<lambda>x y. it_end x < it_buffer y) its"
      "\<forall>it \<in> set its. it = c \<or> it_end c < it_buffer it" by auto
    have "it_end a < it_buffer y" if "y \<in> set its" for y
      using IH(3) that 2 by (fastforce simp: field_inside_def)
    with IH(1,2) a c(1) show ?thesis by auto
  qed
qed

text \<open>A loop over the fields of any valid reader returns, inside the message and in order.\<close>

lemma visit_null: "visit (increment mem) iter_eq null_iter null_iter = Some []"
  by (subst visit.simps) (simp add: iter_eq_def)

lemma visit_framed:
  assumes "framed mem r"
  shows "\<exists>its. visit (increment mem) iter_eq (r_begin r) (r_end r) = Some its \<and> its \<noteq> [] \<and>
    hd its = r_begin r \<and>
    (\<forall>it \<in> set its. r_buffer r < it_buffer it \<and> it_buffer it \<le> it_begin it \<and>
       it_begin it \<le> it_end it \<and> it_end it \<le> it_message_end (r_end r)) \<and>
    sorted_wrt (\<lambda>x y. it_end x < it_buffer y) its"
proof -
  from field_it.visit_total [OF framed_range [OF assms]] obtain its where
    its: "visit (increment mem) iter_eq (r_begin r) (r_end r) = Some its" by blast
  let ?M = "it_message_end (r_end r)"
  from assms have b: "field_inside ?M (r_begin r)" "it_buffer (r_end r) = ?M - 7" "0 < ?M"
    "?M \<le> length mem" "r_buffer r < it_buffer (r_begin r)" "it_buffer (r_begin r) \<noteq> it_buffer (r_end r)"
    by (auto simp: framed_def field_inside_def)
  from its have v: "visits (increment mem) iter_eq (r_end r) (r_begin r) its" by (simp add: visit_iff)
  from visits_inside [OF v _ refl b(2,3,4)] b(1)
  have i: "\<forall>it \<in> set its. field_inside ?M it" "sorted_wrt (\<lambda>x y. it_end x < it_buffer y) its"
    "\<forall>it \<in> set its. it = r_begin r \<or> it_end (r_begin r) < it_buffer it" by auto
  have "its \<noteq> [] \<and> hd its = r_begin r"
    using v b(6) by (cases its) (auto simp: iter_eq_def)
  moreover have "r_buffer r < it_buffer it" if "it \<in> set its" for it
    using i(3) that b(1,5) by (fastforce simp: field_inside_def)
  ultimately show ?thesis using its i by (auto simp: field_inside_def)
qed

text \<open>What a framed reader says of its bounds, and of its fields.\<close>

lemma framed_bounds:
  "framed mem r \<Longrightarrow> r_valid r \<and> it_message_end (r_end r) \<le> length mem \<and>
     r_buffer r \<le> it_buffer (r_end r) \<and> it_buffer (r_end r) \<le> length mem \<and> it_end (r_end r) \<noteq> 0"
  by (auto simp: framed_def mk_field_def mk_value_def)

lemma framed_end: "framed mem r \<Longrightarrow> r_buffer r < it_buffer (r_end r)"
  by (auto simp: framed_def)

lemma framed_value:
  assumes "framed mem r" "visit (increment mem) iter_eq (r_begin r) (r_end r) = Some its" "it \<in> set its"
  shows "\<exists>bs. value_bytes mem (f_value (it_current it)) = Some bs"
proof -
  have "it_begin it \<le> it_end it" "it_end it \<le> length mem"
    using visit_framed [OF assms(1)] framed_bounds [OF assms(1)] assms(2,3) by fastforce+
  then show ?thesis by (simp add: value_bytes_def rd_range_Some)
qed

end
