(* ===== verification/Roundtrip.thy ===== *)
theory Roundtrip
  imports Writer_Runs Reader_Lemmas
begin

text \<open>
  The writer and the reader agree. A message text \<open>fix_message v body\<close>, anywhere in memory, is
  read as a complete and valid message; a loop over its fields shows exactly the fields that
  were written, data fields with their bytes, and the checksum field holds the checksum of the
  message. Together with \<open>write_message_result\<close>: what a session with the writer leaves in its
  buffer is read back.
\<close>

section \<open>Bytes at a place of the memory\<close>

definition holds_at :: "byte list \<Rightarrow> ptr \<Rightarrow> byte list \<Rightarrow> bool" where
  "holds_at mem p bs \<longleftrightarrow> p + length bs \<le> length mem \<and> take (length bs) (drop p mem) = bs"

lemma holds_at_append:
  "holds_at mem p (xs @ ys) \<longleftrightarrow> holds_at mem p xs \<and> holds_at mem (p + length xs) ys"
proof (cases "p + length xs + length ys \<le> length mem")
  case True
  have "take (length xs + length ys) (drop p mem) =
      take (length xs) (drop p mem) @ take (length ys) (drop (p + length xs) mem)"
    by (simp add: take_add add.commute)
  then show ?thesis using True by (auto simp: holds_at_def add.assoc)
next
  case False
  then show ?thesis by (auto simp: holds_at_def)
qed

lemma holds_at_Cons:
  "holds_at mem p (x # xs) \<longleftrightarrow> p < length mem \<and> mem ! p = x \<and> holds_at mem (p + 1) xs"
proof (cases "p < length mem")
  case True
  then have "drop p mem = mem ! p # drop (p + 1) mem" by (simp add: Cons_nth_drop_Suc)
  with True show ?thesis by (auto simp: holds_at_def)
next
  case False
  then show ?thesis by (auto simp: holds_at_def)
qed

lemma holds_at_Nil [simp]: "holds_at mem p [] \<longleftrightarrow> p \<le> length mem"
  by (simp add: holds_at_def)

lemma holds_at_rd_range:
  "holds_at mem p bs \<Longrightarrow> rd_range mem p (p + length bs) = Some bs"
  by (auto simp: holds_at_def rd_range_def)

lemma holds_at_bound: "holds_at mem p bs \<Longrightarrow> p + length bs \<le> length mem"
  by (simp add: holds_at_def)

lemma holds_at_mid: "holds_at (pre @ bs @ post) (length pre) bs"
  by (simp add: holds_at_def)

section \<open>The scans on known bytes\<close>

lemma find_soh_at:
  "holds_at mem b (xs @ [SOH]) \<Longrightarrow> SOH \<notin> set xs \<Longrightarrow> b + length xs < e \<Longrightarrow>
     find_soh mem b e = Some (b + length xs)"
proof (induction xs arbitrary: b)
  case Nil
  then show ?case by (subst find_soh.simps) (simp add: holds_at_Cons rd_Some)
next
  case (Cons x xs)
  then show ?case by (subst find_soh.simps) (auto simp: holds_at_Cons rd_Some)
qed

lemma tag_scan_at:
  "holds_at mem b (xs @ [c]) \<Longrightarrow> set xs \<inter> set stops = {} \<Longrightarrow> c \<in> set stops \<Longrightarrow> b + length xs < e \<Longrightarrow>
     tag_scan stops mem b e u = Some (b + length xs, atou_loop u xs)"
proof (induction xs arbitrary: b u)
  case Nil
  then show ?case by (subst tag_scan.simps) (simp add: holds_at_Cons rd_Some)
next
  case (Cons x xs)
  then show ?case by (subst tag_scan.simps) (auto simp: holds_at_Cons rd_Some)
qed

lemma utoa_clean: "c \<in> set (utoa_unchecked (tag :: u32)) \<Longrightarrow> is_digit c"
  by (simp add: utoa_eq dec_digits_digit)

lemma atou_utoa: "atou_loop 0 (utoa_unchecked (tag :: u32)) = tag"
  using atou_eq [where 'a = 32, of "utoa_unchecked tag"]
  by (simp add: utoa_eq atou_def dec_digits_digit dec_val_digits)

lemma tag_scan_tag:
  assumes "holds_at mem p (utoa_unchecked tag @ [EQ_CH])" "EQ_CH \<in> set stops" "set stops \<subseteq> {EQ_CH, SOH}"
    "p + length (utoa_unchecked tag) < e"
  shows "tag_scan stops mem p e 0 = Some (p + length (utoa_unchecked tag), tag)"
proof -
  have "set (utoa_unchecked tag) \<inter> set stops = {}"
    using assms(3) utoa_clean [of _ tag] by (fastforce dest: digit_not_special)
  from tag_scan_at [OF assms(1) this assms(2,4)] show ?thesis by (simp add: atou_utoa)
qed

section \<open>One field\<close>

text \<open>A field on the wire: \<open>tag=value\<close>, or a length field and the data field it announces.\<close>

datatype wire_field = Plain u32 "byte list" | Binary u32 u32 "byte list"

fun wire_text :: "wire_field \<Rightarrow> byte list" where
  "wire_text (Plain tag val) = field_text tag val"
| "wire_text (Binary tg td val) = data_text tg td val"

fun wire_ok :: "wire_field \<Rightarrow> bool" where
  "wire_ok (Plain tag val) \<longleftrightarrow> \<not> is_tag_a_data_length tag \<and> SOH \<notin> set val"
| "wire_ok (Binary tg td val) \<longleftrightarrow> is_tag_a_data_length tg \<and> length val < 2 ^ 31"

fun wire_tag :: "wire_field \<Rightarrow> u32" where
  "wire_tag (Plain tag val) = tag"
| "wire_tag (Binary tg td val) = td"

fun wire_value :: "wire_field \<Rightarrow> byte list" where
  "wire_value (Plain tag val) = val"
| "wire_value (Binary tg td val) = val"

text \<open>The iterator at a field that starts at \<open>p\<close> in a message that ends at \<open>M\<close>.\<close>

fun wire_iter :: "ptr \<Rightarrow> ptr \<Rightarrow> wire_field \<Rightarrow> iter" where
  "wire_iter M p (Plain tag val) =
     (let b = p + length (utoa_unchecked tag) + 1
      in \<lparr>it_buffer = p, it_message_end = M, it_current = mk_field tag b (b + length val)\<rparr>)"
| "wire_iter M p (Binary tg td val) =
     (let q = p + length (field_text tg (itoa_unchecked (of_nat (length val) :: 32 word)));
          b = q + length (utoa_unchecked td) + 1
      in \<lparr>it_buffer = q, it_message_end = M, it_current = mk_field td b (b + length val)\<rparr>)"

lemma field_text_append: "field_text tag val = (utoa_unchecked tag @ [EQ_CH]) @ val @ [SOH]"
  by (simp add: field_text_def)

lemma wire_iter_end: "Suc (it_end (wire_iter M p f)) = p + length (wire_text f)"
  by (cases f) (simp_all add: Let_def field_text_append data_text_def)

lemma wire_iter_message_end [simp]: "it_message_end (wire_iter M p f) = M"
  by (cases f) (simp_all add: Let_def)

lemma wire_iter_tag [simp]: "f_tag (it_current (wire_iter M p f)) = wire_tag f"
  by (cases f) (simp_all add: Let_def)

lemma wire_iter_size: "it_end (wire_iter M p f) = it_begin (wire_iter M p f) + length (wire_value f)"
  by (cases f) (simp_all add: Let_def)

lemma wire_iter_holds:
  "holds_at mem p (wire_text f) \<Longrightarrow> holds_at mem (it_begin (wire_iter M p f)) (wire_value f)"
  by (cases f) (simp_all add: Let_def field_text_append data_text_def holds_at_append holds_at_Cons ac_simps)

lemma wire_iter_value:
  "holds_at mem p (wire_text f) \<Longrightarrow>
     value_bytes mem (f_value (it_current (wire_iter M p f))) = Some (wire_value f)"
  by (simp add: value_bytes_def wire_iter_size holds_at_rd_range wire_iter_holds)

lemma increment_plain:
  assumes "it_message_end it = M" "it_end it + 1 = p" "holds_at mem p (field_text tag val)"
    "\<not> is_tag_a_data_length tag" "SOH \<notin> set val" "p + length (field_text tag val) \<le> M" "M \<le> length mem"
  shows "increment mem it = Some (wire_iter M p (Plain tag val))"
proof -
  let ?q = "p + length (utoa_unchecked tag)"
  from assms(3) have h: "holds_at mem p (utoa_unchecked tag @ [EQ_CH])"
      "holds_at mem (?q + 1) (val @ [SOH])" "mem ! ?q = EQ_CH"
    by (auto simp: field_text_append holds_at_append holds_at_Cons)
  have len: "?q + 1 + length val + 1 \<le> M" using assms(6) by (simp add: field_text_append)
  from tag_scan_tag [OF h(1), of "[EQ_CH, SOH]" M] len
  have t: "tag_scan [EQ_CH, SOH] mem p M 0 = Some (?q, tag)" by simp
  from find_soh_at [OF h(2) assms(5), of M] len
  have s: "find_soh mem (?q + 1) M = Some (?q + 1 + length val)" by simp
  have at: "rd mem ?q = Some EQ_CH" using h(3) len assms(7) by (simp add: rd_def)
  have "\<not> M \<le> ?q" "M \<noteq> 0" using len by auto
  with assms(1,2,4) t s at show ?thesis
    by (simp add: increment_def Let_def)
qed

lemma itoa_size_clean:
  "n < 2 ^ 31 \<Longrightarrow> itoa_unchecked (of_nat n :: 32 word) = dec_digits n"
proof -
  assume n: "n < 2 ^ 31"
  then have "sint (word_of_int (int n) :: 32 word) = int n"
    by (intro sint_word_of_int) simp_all
  then show ?thesis by (simp add: itoa_eq int_digits_def)
qed

lemma increment_binary:
  assumes "it_message_end it = M" "it_end it + 1 = p" "holds_at mem p (data_text tg td val)"
    "is_tag_a_data_length tg" "length val < 2 ^ 31" "p + length (data_text tg td val) \<le> M"
    "M \<le> length mem"
  shows "increment mem it = Some (wire_iter M p (Binary tg td val))"
proof -
  define n where "n = itoa_unchecked (of_nat (length val) :: 32 word)"
  define q where "q = p + length (utoa_unchecked tg)"
  define v where "v = q + 1 + length n"
  define r where "r = v + 1 + length (utoa_unchecked td)"
  have n: "n = dec_digits (length val)" using assms(5) by (simp add: n_def itoa_size_clean)
  have clean: "\<forall>c \<in> set n. is_digit c" by (auto simp: n dec_digits_digit)
  then have soh: "SOH \<notin> set n" using digit_not_special by blast
  have both: "data_text tg td val = field_text tg n @ field_text td val"
    by (simp add: data_text_def n_def)
  have h: "holds_at mem p (utoa_unchecked tg @ [EQ_CH])" "holds_at mem (q + 1) (n @ [SOH])"
      "mem ! q = EQ_CH" "holds_at mem (v + 1) (utoa_unchecked td @ [EQ_CH])"
    using assms(3) by (simp_all add: both field_text_append holds_at_append holds_at_Cons q_def v_def)
  have len: "r + 1 + length val + 1 \<le> M"
    using assms(6) by (simp add: both field_text_append r_def v_def q_def)
  have t: "tag_scan [EQ_CH, SOH] mem p M 0 = Some (q, tg)"
    using tag_scan_tag [OF h(1), of "[EQ_CH, SOH]" M] len by (simp add: r_def v_def q_def)
  have s: "find_soh mem (q + 1) M = Some v"
    using find_soh_at [OF h(2) soh, of M] len by (simp add: r_def v_def)
  have t2: "tag_scan [EQ_CH] mem (v + 1) M 0 = Some (r, td)"
    using tag_scan_tag [OF h(4), of "[EQ_CH]" M] len by (simp add: r_def)
  have "holds_at mem (q + 1) n" using h(2) by (simp add: holds_at_append)
  from holds_at_rd_range [OF this] have ds: "rd_range mem (q + 1) v = Some n" by (simp add: v_def)
  have "length val < 2 ^ LENGTH(64)" using assms(5) by simp
  then have dl: "unat (atou n :: u64) = length val"
    using atou_eq [where 'a = 64, OF clean] by (simp add: n dec_val_digits unat_of_nat_lt)
  have M: "\<not> M \<le> q" "M \<noteq> 0" "\<not> M \<le> r" "\<not> M - (r + 1) < length val"
    using len by (auto simp: r_def v_def)
  have at: "rd mem q = Some EQ_CH" using h(3) M(1) assms(7) by (simp add: rd_def)
  have wi: "wire_iter M p (Binary tg td val) =
      \<lparr>it_buffer = v + 1, it_message_end = M, it_current = mk_field td (r + 1) (r + 1 + length val)\<rparr>"
    by (simp add: Let_def field_text_def r_def v_def q_def n_def [symmetric])
  have "increment mem it =
      Some (it\<lparr>it_buffer := v + 1, it_current := mk_field td (r + 1) (r + 1 + length val)\<rparr>)"
    using assms(1,2,4) t s t2 ds dl at M by (simp add: increment_def Let_def)
  then show ?thesis unfolding wi using assms(1) by simp
qed

lemma increment_wire:
  assumes "it_message_end it = M" "it_end it + 1 = p" "holds_at mem p (wire_text f)" "wire_ok f"
    "p + length (wire_text f) \<le> M" "M \<le> length mem"
  shows "increment mem it = Some (wire_iter M p f)"
  using assms increment_plain [OF assms(1,2)] increment_binary [OF assms(1,2)] by (cases f) auto

section \<open>All fields of a message\<close>

abbreviation wire_texts :: "wire_field list \<Rightarrow> byte list" where
  "wire_texts fs \<equiv> concat (map wire_text fs)"

fun wire_iters :: "ptr \<Rightarrow> ptr \<Rightarrow> wire_field list \<Rightarrow> iter list" where
  "wire_iters M p [] = []"
| "wire_iters M p (f # fs) = wire_iter M p f # wire_iters M (p + length (wire_text f)) fs"

lemma field_text_nonempty [simp]: "field_text tag val \<noteq> []"
  by (simp add: field_text_def)

lemma wire_iter_before: "it_buffer (wire_iter M p f) < p + length (wire_text f)"
  by (cases f) (simp_all add: Let_def data_text_def)

text \<open>From the iterator at the first field, the loop visits all fields and stops at the checksum.\<close>

lemma visits_wire:
  assumes "wire_ok f" "\<forall>g \<in> set fs. wire_ok g" "it_buffer e = M - 7" "it_message_end e = M"
    "holds_at mem p (wire_texts (f # fs) @ trailer_text [a, b, c])" "M \<le> length mem"
    "p + length (wire_texts (f # fs)) + 7 = M" "SOH \<notin> {a, b, c}"
  shows "visits (increment mem) iter_eq e (wire_iter M p f) (wire_iters M p (f # fs))"
  using assms
proof (induction fs arbitrary: f p)
  case Nil
  let ?p = "p + length (wire_text f)"
  have ten: "utoa_unchecked (10 :: u32) = lit ''10''"
    by (simp add: utoa_eq dec_digits.simps lit_def of_char_def)
  have "holds_at mem ?p (field_text 10 [a, b, c])"
    using Nil.prems(5) by (simp add: holds_at_append trailer_text_def field_text_def ten lit_def)
  moreover have "length (field_text 10 [a, b, c]) = 7"
    by (simp add: field_text_def ten lit_def)
  moreover have "\<not> is_tag_a_data_length 10"
    by (simp add: is_tag_a_data_length_iff length_fields_def)
  ultimately have "increment mem (wire_iter M p f) = Some (wire_iter M ?p (Plain 10 [a, b, c]))"
    using Nil.prems by (intro increment_plain) (simp_all add: wire_iter_end)
  moreover have "it_buffer (wire_iter M ?p (Plain 10 [a, b, c])) = it_buffer e"
    using Nil.prems by (auto simp: Let_def)
  moreover have "it_buffer (wire_iter M p f) \<noteq> it_buffer e"
    using wire_iter_before [of M p f] Nil.prems by auto
  ultimately show ?case by (simp add: iter_eq_def)
next
  case (Cons g fs)
  let ?p = "p + length (wire_text f)"
  have h: "holds_at mem ?p (wire_texts (g # fs) @ trailer_text [a, b, c])"
    using Cons.prems(5) by (simp add: holds_at_append)
  have "visits (increment mem) iter_eq e (wire_iter M ?p g) (wire_iters M ?p (g # fs))"
    using Cons.IH [of g ?p] Cons.prems h by simp
  moreover have "increment mem (wire_iter M p f) = Some (wire_iter M ?p g)"
    using Cons.prems h by (intro increment_wire) (simp_all add: wire_iter_end holds_at_append)
  moreover have "it_buffer (wire_iter M p f) \<noteq> it_buffer e"
    using wire_iter_before [of M p f] Cons.prems by auto
  ultimately show ?case by (simp add: iter_eq_def [of "wire_iter M p f" e])
qed

lemma wire_iters_shown:
  "holds_at mem p (wire_texts fs) \<Longrightarrow>
     map (\<lambda>it. (f_tag (it_current it), value_bytes mem (f_value (it_current it)))) (wire_iters M p fs) =
     map (\<lambda>f. (wire_tag f, Some (wire_value f))) fs"
  by (induction fs arbitrary: p) (simp_all add: holds_at_append wire_iter_value)

section \<open>The frame of a message\<close>

lemma scan_prefix_at:
  "s \<le> p \<Longrightarrow> \<forall>q. s \<le> q \<and> q < p \<longrightarrow> mem ! q \<noteq> SOH \<Longrightarrow> mem ! p = SOH \<Longrightarrow> p \<le> buf + 12 \<Longrightarrow>
     p < e \<Longrightarrow> e \<le> length mem \<Longrightarrow> scan_prefix mem buf e s = Some (Found p)"
proof (induction "p - s" arbitrary: s)
  case 0
  then show ?case by (subst scan_prefix.simps) (simp add: rd_Some)
next
  case (Suc n)
  then have "scan_prefix mem buf e (s + 1) = Some (Found p)" by simp
  moreover have "mem ! s \<noteq> SOH" "s < p" using Suc.prems Suc.hyps(2) by auto
  ultimately show ?case using Suc.prems by (subst scan_prefix.simps) (simp add: rd_Some)
qed

lemma digit_signed: "is_digit c \<Longrightarrow> \<not> (c <s ZERO_CH \<or> NINE_CH <s c)"
proof -
  assume "is_digit c"
  from digit_int(2) [OF this] digit_val_le [OF this] have "48 \<le> sint c" "sint c \<le> 57" by auto
  then show ?thesis by (simp add: word_sless_alt)
qed

lemma scan_bodylength_at:
  "holds_at mem b (ds @ [SOH]) \<Longrightarrow> \<forall>c \<in> set ds. is_digit c \<Longrightarrow> b + length ds < e \<Longrightarrow>
     scan_bodylength mem e b n = Some (Found (b + length ds, atou_loop n ds))"
proof (induction ds arbitrary: b n)
  case Nil
  then show ?case by (subst scan_bodylength.simps) (simp add: holds_at_Cons rd_Some)
next
  case (Cons d ds)
  then have "\<not> (d <s ZERO_CH \<or> NINE_CH <s d)" "d \<noteq> SOH"
    using digit_signed [of d] digit_not_special [of d] by auto
  with Cons show ?case by (subst scan_bodylength.simps) (auto simp: holds_at_Cons rd_Some)
qed

lemma low_digits_atou: "atou_loop 0 (low_digits 6 n) = (of_nat (n mod 10 ^ 6) :: u64)"
  using atou_eq [where 'a = 64, of "low_digits 6 n"] dec_acc_low_digits [of 0 6 n]
  by (simp add: atou_def low_digits_digit)

lemma fix_message_append:
  "fix_message v body = lit ''8='' @ v @ SOH # lit ''9='' @ low_digits 6 (length body) @ SOH #
     body @ trailer_text (low_digits 3 (unat (checksum_bytes 0 (message_head v body))))"
  by (simp add: fix_message_def Let_def message_head_def header_text_def)

lemma lit_codes: "lit ''8='' = [56, EQ_CH]" "lit ''9='' = [57, EQ_CH]" "lit ''10='' = [49, 48, EQ_CH]"
  by (simp_all add: lit_def of_char_def)

text \<open>The reader of a message text: where the frame is.\<close>

definition framed_at :: "byte list \<Rightarrow> ptr \<Rightarrow> ptr \<Rightarrow> byte list \<Rightarrow> byte list \<Rightarrow> wire_field list \<Rightarrow> reader" where
  "framed_at mem b e v mt fs =
     (let p = b + length v + 12;
          c = p + length (wire_texts (Plain 35 mt # fs))
      in \<lparr>r_end = \<lparr>it_buffer = c, it_message_end = c + 7, it_current = mk_field 10 (c + 3) (c + 6)\<rparr>,
          r_buffer = b, r_buffer_end = e, r_complete = True, r_valid = True,
          r_begin = wire_iter (c + 7) p (Plain 35 mt), r_prefix_end = b + length v + 2\<rparr>)"

lemma three_low_digits: "low_digits 3 n = [of_nat (48 + n div 100 mod 10), of_nat (48 + n div 10 mod 10), of_nat (48 + n mod 10)]"
  by (simp add: numeral_3_eq_3 div_mult2_eq [symmetric])

lemma holds_at_nth: "holds_at mem p bs \<Longrightarrow> i < length bs \<Longrightarrow> mem ! (p + i) = bs ! i"
  unfolding holds_at_def by (metis add_leD1 nth_drop nth_take)

lemma holds_at_last: "holds_at mem p bs \<Longrightarrow> bs \<noteq> [] \<Longrightarrow> mem ! (p + length bs - 1) = last bs"
  using holds_at_nth [of mem p bs "length bs - 1"] by (cases bs) (simp_all add: last_conv_nth)

lemma wire_text_last: "wire_text f \<noteq> [] \<and> last (wire_text f) = SOH"
  by (cases f) (simp_all add: data_text_def field_text_def)

lemma wire_texts_last: "fs \<noteq> [] \<Longrightarrow> wire_texts fs \<noteq> [] \<and> last (wire_texts fs) = SOH"
  by (cases fs rule: rev_cases) (auto simp: wire_text_last)

text \<open>Where the parts of a message in the memory are.\<close>

lemma frame_parts:
  assumes h: "holds_at mem b (fix_message v body)"
  shows "holds_at mem (b + length v + 2 + 3) (low_digits 6 (length body) @ [SOH])"
    and "holds_at mem (b + 2) (v @ [SOH])" and "mem ! (b + length v + 2) = SOH" and "mem ! (b + length v + 2 + 1) = 57"
    and "holds_at mem (b + length v + 12) body" and "mem ! (b + length v + 12 + length body + 6) = SOH"
proof -
  obtain x y z where cs: "low_digits 3 (unat (checksum_bytes 0 (message_head v body))) = [x, y, z]"
    by (simp add: three_low_digits)
  define hd where "hd = [56, EQ_CH] @ v @ [SOH, 57, EQ_CH]"
  have "fix_message v body = hd @ (low_digits 6 (length body) @ [SOH]) @ body @
      trailer_text (low_digits 3 (unat (checksum_bytes 0 (message_head v body))))"
    by (simp add: fix_message_append lit_codes hd_def)
  with h have "holds_at mem (b + length hd) (low_digits 6 (length body) @ [SOH])"
    by (simp only: holds_at_append)
  moreover have "b + length hd = b + length v + 2 + 3" by (simp add: hd_def)
  ultimately show "holds_at mem (b + length v + 2 + 3) (low_digits 6 (length body) @ [SOH])" by (simp only:)
  show "holds_at mem (b + 2) (v @ [SOH])" "mem ! (b + length v + 2) = SOH" "mem ! (b + length v + 2 + 1) = 57"
      "holds_at mem (b + length v + 12) body" "mem ! (b + length v + 12 + length body + 6) = SOH"
    using h by (simp_all add: fix_message_append lit_codes holds_at_append holds_at_Cons trailer_text_def cs ac_simps)
qed

lemma frame_no_soh:
  assumes v: "holds_at mem (b + 2) (v @ [SOH])" "SOH \<notin> set v" and k: "b + 9 \<le> k" "k < b + length v + 2"
  shows "mem ! k \<noteq> SOH"
proof -
  define i where "i = k - (b + 2)"
  then have i: "k = b + 2 + i" "i < length v" using k by simp_all
  then have "mem ! k = v ! i" using holds_at_nth [OF v(1), of i] by (simp add: nth_append)
  with i(2) v(2) show ?thesis by (metis nth_mem)
qed

lemma reads_frame:
  fixes v mt fs
  defines "body \<equiv> wire_texts (Plain 35 mt # fs)"
  assumes h: "holds_at mem b (fix_message v body)"
    and e: "b + length (fix_message v body) \<le> e" "e \<le> length mem"
    and v: "SOH \<notin> set v" "7 \<le> length v" "length v \<le> 10"
    and mt: "SOH \<notin> set mt"
    and len: "length body \<le> 999999"
  shows "message_reader mem b e = Some (framed_at mem b e v mt fs)"
proof -
  define q where "q = b + length v + 2"
  define p where "p = b + length v + 12"
  define c where "c = p + length body"
  define r0 where "r0 = \<lparr>r_end = null_iter, r_buffer = b, r_buffer_end = e, r_complete = False,
    r_valid = True, r_begin = null_iter, r_prefix_end = q\<rparr>"
  note at = frame_parts [OF h, folded q_def p_def]
  note bl_at = at(1)
  note m = at(2-5) and lastc = at(6) [folded c_def]
  have le: "c + 7 \<le> e" using e by (simp add: c_def p_def)
  have pre: "scan_prefix mem b e (b + 9) = Some (Found q)"
    using frame_no_soh [OF m(1) v(1)] m(2) v le e by (intro scan_prefix_at) (auto simp: q_def c_def p_def)
  have "q + 3 + length (low_digits 6 (length body)) < e" using le by (simp add: q_def c_def p_def)
  from scan_bodylength_at [OF bl_at _ this, of 0]
  have bl: "scan_bodylength mem e (q + 3) 0 = Some (Found (p - 1, of_nat (length body)))"
    using len by (simp add: low_digits_digit low_digits_atou q_def p_def)
  have nine: "\<not> e \<le> q + 1" "rd mem (q + 1) = Some 57"
    using m(3) le e(2) by (auto simp: rd_def q_def c_def p_def)
  have room: "\<not> int e - int b < 9" "0 < p" using le by (simp_all add: p_def c_def)
  have start: "message_reader mem b e = init_body mem r0 p (of_nat (length body))"
    using pre nine bl room by (simp add: message_reader_def init_def Let_def r0_def)
  have t35: "body = [51, 53, EQ_CH] @ mt @ SOH # wire_texts fs"
    by (simp add: body_def field_text_def utoa_eq dec_digits.simps)
  have "holds_at mem p ([51, 53, EQ_CH] @ mt @ SOH # wire_texts fs)"
    using m(4) unfolding t35 .
  then have h35: "mem ! p = 51" "mem ! (p + 1) = 53" "holds_at mem (p + 3) (mt @ [SOH])"
    by (simp_all add: holds_at_append holds_at_Cons numeral_3_eq_3)
  have "p + 3 + length mt < c" by (simp add: c_def t35)
  from find_soh_at [OF h35(3) mt this] have soh: "find_soh mem (p + 3) c = Some (p + 3 + length mt)" .
  have lastb: "mem ! (c - 1) = SOH"
    using holds_at_last [OF m(4)] wire_texts_last [of "Plain 35 mt # fs"]
    unfolding c_def body_def by simp
  have k: "unat (of_nat (length body) :: u64) = length body"
    using len by (intro unat_of_nat_lt) simp
  have re: "r_buffer_end r0 = e" by (simp add: r0_def)
  have bounds: "p + 3 < e" "p + length body + 7 \<le> e" "0 < p + length body"
    using le by (auto simp: c_def p_def t35)
  have "init_body mem r0 p (of_nat (length body)) = Some (r0\<lparr>
      r_begin := \<lparr>it_buffer = p, it_message_end = c + 7, it_current = mk_field 35 (p + 3) (p + 3 + length mt)\<rparr>,
      r_end := \<lparr>it_buffer = c, it_message_end = c + 7, it_current = mk_field 10 (c + 3) (c + 6)\<rparr>,
      r_complete := True\<rparr>)"
    using init_body_eq [of r0 mem p "of_nat (length body)" "length body"] e(2) bounds k h35 lastb lastc soh
      \<open>p + 3 + length mt < c\<close>
    by (simp add: re c_def)
  moreover have "framed_at mem b e v mt fs = r0\<lparr>
      r_begin := \<lparr>it_buffer = p, it_message_end = c + 7, it_current = mk_field 35 (p + 3) (p + 3 + length mt)\<rparr>,
      r_end := \<lparr>it_buffer = c, it_message_end = c + 7, it_current = mk_field 10 (c + 3) (c + 6)\<rparr>,
      r_complete := True\<rparr>"
    unfolding framed_at_def Let_def body_def [symmetric]
    by (simp add: r0_def c_def p_def q_def utoa_eq dec_digits.simps Let_def)
  ultimately show ?thesis using start by simp
qed

section \<open>What the reader shows of a message\<close>

text \<open>The tag and the bytes of each field the loop over a message visits.\<close>

definition shown :: "byte list \<Rightarrow> iter list \<Rightarrow> (u32 \<times> byte list option) list" where
  "shown mem its = map (\<lambda>it. (f_tag (it_current it), value_bytes mem (f_value (it_current it)))) its"

definition reads_as :: "byte list \<Rightarrow> reader \<Rightarrow> byte list \<Rightarrow> (u32 \<times> byte list) list \<Rightarrow> bool" where
  "reads_as mem r v fs \<longleftrightarrow> r_complete r \<and> r_valid r \<and>
     rd_range mem (prefix_begin r) (r_prefix_end r) = Some v \<and>
     (\<exists>its. visit (increment mem) iter_eq (r_begin r) (r_end r) = Some its \<and>
        shown mem its = map (\<lambda>(t, val). (t, Some val)) fs) \<and>
     (\<exists>cs. value_bytes mem (f_value (it_current (r_end r))) = Some cs \<and>
        calculate_check_sum mem r = Some (atoi cs))"

abbreviation wire_fields :: "wire_field list \<Rightarrow> (u32 \<times> byte list) list" where
  "wire_fields fs \<equiv> map (\<lambda>f. (wire_tag f, wire_value f)) fs"

lemma low_digits_atoi: "(atoi (low_digits 3 (unat c)) :: byte) = c"
proof -
  let ?ds = "low_digits 3 (unat c)"
  have "unat c < 256" using unsigned_less [of c, where 'a = nat] by simp
  then have val: "dec_val ?ds = unat c" by (simp add: dec_acc_low_digits)
  obtain d ds where ds: "?ds = d # ds" by (simp add: three_low_digits)
  have dig: "\<forall>x \<in> set ?ds. is_digit x" by (auto dest: low_digits_digit)
  with ds have "d \<noteq> MINUS_CH" using digit_not_special [of d] by simp
  with dig ds val have n: "is_numeral ?ds" "numeral_val ?ds = int (unat c)"
    by (simp_all only: is_numeral_def numeral_digits_def numeral_val_def) auto
  from atoi_eq [where 'a = 8, OF n(1)] n(2) show ?thesis by simp
qed

text \<open>The CheckSum field of a message, and the sum that is calculated.\<close>

lemma framed_check_sum:
  assumes head: "holds_at mem b (message_head v body)"
    and trailer: "holds_at mem (b + length v + 12 + length body) (trailer_text ck)"
    and ck: "ck = low_digits 3 (unat (checksum_bytes 0 (message_head v body)))"
    and r: "r_buffer r = b" "it_buffer (r_end r) = b + length v + 12 + length body" "r_valid r"
      "it_current (r_end r) = mk_field 10 (b + length v + 12 + length body + 3) (b + length v + 12 + length body + 6)"
  shows "value_bytes mem (f_value (it_current (r_end r))) = Some ck" and "calculate_check_sum mem r = Some (atoi ck)"
proof -
  let ?c = "b + length v + 12 + length body"
  have "holds_at mem (?c + 3) ck"
    using trailer by (simp add: trailer_text_def lit_codes holds_at_append holds_at_Cons numeral_3_eq_3)
  from holds_at_rd_range [OF this] have "rd_range mem (?c + 3) (?c + 6) = Some ck"
    by (simp add: ck ac_simps)
  then show "value_bytes mem (f_value (it_current (r_end r))) = Some ck"
    by (simp only: value_bytes_def r mk_field_simps)
  have "b + length (message_head v body) = ?c" by simp
  with holds_at_rd_range [OF head] have "rd_range mem b ?c = Some (message_head v body)" by (simp only:)
  then show "calculate_check_sum mem r = Some (atoi ck)"
    by (simp add: calculate_check_sum_def check_sum_range_def r ck low_digits_atoi)
qed

theorem reads_message:
  assumes h: "holds_at mem b (fix_message v (wire_texts (Plain 35 mt # fs)))"
    and e: "b + length (fix_message v (wire_texts (Plain 35 mt # fs))) \<le> e" "e \<le> length mem"
    and v: "SOH \<notin> set v" "7 \<le> length v" "length v \<le> 10"
    and mt: "SOH \<notin> set mt"
    and fs: "\<forall>f \<in> set fs. wire_ok f"
    and len: "length (wire_texts (Plain 35 mt # fs)) \<le> 999999"
  shows "message_reader mem b e = Some (framed_at mem b e v mt fs)"
    and "reads_as mem (framed_at mem b e v mt fs) v (wire_fields (Plain 35 mt # fs))"
proof -
  let ?r = "framed_at mem b e v mt fs"
  let ?f = "Plain 35 mt"
  define body where "body = wire_texts (?f # fs)"
  define p where "p = b + length v + 12"
  define M where "M = p + length body + 7"
  define ck where "ck = low_digits 3 (unat (checksum_bytes 0 (message_head v body)))"
  have msg: "fix_message v body = message_head v body @ trailer_text ck"
    by (simp add: fix_message_def Let_def ck_def)
  show "message_reader mem b e = Some ?r"
    using reads_frame [OF h e v mt len] .
  have hm: "holds_at mem b (message_head v body @ trailer_text ck)"
    using h by (simp only: body_def [symmetric] msg)
  then have head: "holds_at mem b (message_head v body)"
    and trailer: "holds_at mem (p + length body) (trailer_text ck)"
    by (simp_all add: holds_at_append p_def add.assoc)
  note at = frame_parts [OF h, folded body_def, folded p_def]
  have hb: "holds_at mem p body" using at(5) .
  have hv: "holds_at mem (b + 2) v" using at(2) by (simp add: holds_at_append)
  have eM: "M \<le> length mem" using e unfolding body_def [symmetric] by (simp add: M_def p_def)
  have r: "r_buffer ?r = b" "r_prefix_end ?r = b + 2 + length v" "r_begin ?r = wire_iter M p ?f"
      "r_end ?r = \<lparr>it_buffer = p + length body, it_message_end = M,
         it_current = mk_field 10 (p + length body + 3) (p + length body + 6)\<rparr>"
      "r_complete ?r" "r_valid ?r"
    unfolding framed_at_def Let_def body_def [symmetric] M_def p_def by simp_all
  obtain x y z where ck: "ck = [x, y, z]" by (simp add: ck_def three_low_digits)
  have "SOH \<notin> set ck" unfolding ck_def using low_digits_digit digit_not_special by blast
  with ck have xyz: "SOH \<notin> {x, y, z}" by simp
  have hall: "holds_at mem p (wire_texts (?f # fs) @ trailer_text [x, y, z])"
    using hb trailer by (simp only: holds_at_append body_def ck)
  have ok: "wire_ok ?f" using mt by (simp add: is_tag_a_data_length_iff length_fields_def)
  have len_M: "p + length (wire_texts (?f # fs)) + 7 = M" by (simp only: body_def M_def)
  have e7: "it_buffer (r_end ?r) = M - 7" "it_message_end (r_end ?r) = M"
    by (simp_all add: r M_def)
  from visits_wire [OF ok fs e7 hall eM len_M xyz]
  have "visit (increment mem) iter_eq (r_begin ?r) (r_end ?r) = Some (wire_iters M p (?f # fs))"
    by (simp only: visit_iff r)
  moreover have "shown mem (wire_iters M p (?f # fs)) =
      map (\<lambda>(t, val). (t, Some val)) (wire_fields (?f # fs))"
    unfolding shown_def using wire_iters_shown [OF hb [unfolded body_def]] by (simp add: comp_def)
  moreover have "value_bytes mem (f_value (it_current (r_end ?r))) = Some ck" "calculate_check_sum mem ?r = Some (atoi ck)"
    using framed_check_sum [OF head trailer [unfolded p_def], of ?r] ck_def by (simp_all add: r p_def)
  moreover have "rd_range mem (prefix_begin ?r) (r_prefix_end ?r) = Some v"
    using holds_at_rd_range [OF hv] by (simp add: prefix_begin_def r)
  ultimately show "reads_as mem ?r v (wire_fields (?f # fs))"
    using r(5,6) unfolding reads_as_def by blast
qed

section \<open>What a session wrote is read back\<close>

text \<open>The texts of numbers and times have no SOH in them.\<close>

lemma smod_ten: "\<bar>x smod 10\<bar> < (10 :: int)"
  by (cases "0 \<le> x") (auto simp: signed_modulo_int_def signed_divide_int_def sgn_if minus_mult_div_eq_mod
      abs_if)

lemma padded_clean: "SOH \<notin> set (itoa_padded_unchecked x k)"
proof -
  have "SOH \<noteq> word_of_int (48 + x smod 10)" for x
  proof
    assume "SOH = word_of_int (48 + x smod 10)"
    then have "uint (1 :: byte) = uint (word_of_int (48 + x smod 10) :: byte)" by (rule arg_cong)
    also have "\<dots> = (48 + x smod 10) mod 256"
      by (simp only: uint_word_of_int) simp
    also have "\<dots> = 48 + x smod 10" using smod_ten [of x] by (intro mod_pos_pos_trivial) auto
    finally show False using smod_ten [of x] by auto
  qed
  then have "SOH \<notin> set (itoa_padded_loop k x)"
    by (induction k x rule: itoa_padded_loop.induct) simp_all
  then show ?thesis by (simp add: itoa_padded_unchecked_def)
qed

lemma itoa_clean: "8 \<le> LENGTH('a::len) \<Longrightarrow> SOH \<notin> set (itoa_unchecked (n :: 'a word))"
  using dec_digits_digit digit_not_special by (auto simp: itoa_eq int_digits_def)

lemma dtoa_loop_clean:
  "8 \<le> LENGTH('a::len) \<Longrightarrow> SOH \<notin> set (dtoa_loop (m :: 'a word) e)"
proof (induction m e rule: dtoa_loop.induct)
  case (1 m e)
  have "SOH \<noteq> ZERO_CH + ucast (m mod 10)"
    using digit_byte_word [OF "1.prems", of m] digit_byte(3) [of "unat m mod 10"] by simp
  moreover have "SOH \<notin> set (if 0 < m div 10 \<or> e + 1 < 1 then dtoa_loop (m div 10) (e + 1) else [])"
    using "1.IH" "1.prems" by auto
  ultimately show ?case by (subst dtoa_loop.simps) auto
qed

lemma dtoa_clean: "8 \<le> LENGTH('a::len) \<Longrightarrow> SOH \<notin> set (dtoa_unchecked (m :: 'a word) e)"
  using dtoa_loop_clean by (auto simp: dtoa_unchecked_def Let_def)

text \<open>
  The field a call writes. \<open>op_clean\<close> is what the caller must respect for it to be read back:
  the tag of a data field's length, and no other, is a length tag; text has no SOH in it.
\<close>

fun op_field :: "writer_op \<Rightarrow> wire_field" where
  "op_field (Str tag s) = Plain tag s"
| "op_field (Chr tag c) = Plain tag [c]"
| "op_field (Int32 tag n) = Plain tag (itoa_unchecked n)"
| "op_field (Int64 tag n) = Plain tag (itoa_unchecked n)"
| "op_field (Dec32 tag m e) = Plain tag (dtoa_unchecked m (sint e))"
| "op_field (Dec64 tag m e) = Plain tag (dtoa_unchecked m (sint e))"
| "op_field (Data tg td src b e) = Binary tg td (take (e - b) (drop b src))"
| "op_field (Date tag y m d) = Plain tag (ymd_text y m d)"
| "op_field (Monthyear tag y m) =
     Plain tag (itoa_padded_unchecked y 4 @ itoa_padded_unchecked m 2)"
| "op_field (Timeonly_s tag h m s) = Plain tag (hms_text h m s)"
| "op_field (Timeonly tag h m s ms) =
     Plain tag (hms_text h m s @ [DOT_CH] @ itoa_padded_unchecked ms 3)"
| "op_field (Timeonly_nano tag h m s ns) =
     Plain tag (hms_text h m s @ [DOT_CH] @ itoa_padded_unchecked ns 9)"
| "op_field (Timestamp_s tag y mo d h mi s) =
     Plain tag (ymd_text y mo d @ [MINUS_CH] @ hms_text h mi s)"
| "op_field (Timestamp tag y mo d h mi s ms) =
     Plain tag (ymd_text y mo d @ [MINUS_CH] @ hms_text h mi s @ [DOT_CH] @
       itoa_padded_unchecked ms 3)"
| "op_field (Timestamp_nano tag y mo d h mi s ns) =
     Plain tag (ymd_text y mo d @ [MINUS_CH] @ hms_text h mi s @ [DOT_CH] @
       itoa_padded_unchecked ns 9)"
| "op_field _ = Plain 0 []"

fun op_clean :: "writer_op \<Rightarrow> bool" where
  "op_clean (Data tg td src b e) \<longleftrightarrow>
     b \<le> e \<and> e \<le> length src \<and> is_tag_a_data_length tg \<and> e - b < 2 ^ 31"
| "op_clean (Str tag s) \<longleftrightarrow> \<not> is_tag_a_data_length tag \<and> SOH \<notin> set s"
| "op_clean (Chr tag c) \<longleftrightarrow> \<not> is_tag_a_data_length tag \<and> c \<noteq> SOH"
| "op_clean x \<longleftrightarrow> is_field_op x \<and> \<not> is_tag_a_data_length (wire_tag (op_field x))"

lemma op_clean_field: "op_clean x \<Longrightarrow> is_field_op x"
  by (cases x) auto

lemma op_text_field: "op_clean x \<Longrightarrow> op_text x = wire_text (op_field x)"
  by (cases x) auto

lemma op_field_ok: "op_clean x \<Longrightarrow> wire_ok (op_field x)"
  by (cases x) (auto simp: itoa_clean dtoa_clean ymd_text_def hms_text_def padded_clean)

lemma body_text_fields:
  "\<forall>x \<in> set xs. op_clean x \<Longrightarrow> body_text xs = wire_texts (map op_field xs)"
  by (induction xs) (auto simp: op_text_field)

theorem write_read:
  assumes xs: "\<forall>x \<in> set xs. op_clean x" and mt: "SOH \<notin> set mt"
    and v: "SOH \<notin> set v" "7 \<le> length v" "length v \<le> 10"
    and w: "write_message v (Str 35 mt # xs) buf = Some (True, w)"
  shows "\<exists>r. message_reader (w_buffer w) 0 (writer_message_end w) = Some r \<and>
    reads_as (w_buffer w) r v (wire_fields (map op_field (Str 35 mt # xs)))"
proof -
  let ?fs = "map op_field xs"
  have clean: "\<forall>x \<in> set (Str 35 mt # xs). op_clean x"
    using xs mt by (simp add: is_tag_a_data_length_iff length_fields_def)
  then have "\<forall>x \<in> set (Str 35 mt # xs). is_field_op x" using op_clean_field by blast
  from write_message_result [OF this, of v buf] w
  have res: "written w = fix_message v (body_text (Str 35 mt # xs))" "w_next w \<le> length (w_buffer w)"
    "length (body_text (Str 35 mt # xs)) \<le> 999999" by auto
  have body: "body_text (Str 35 mt # xs) = wire_texts (Plain 35 mt # ?fs)"
    using body_text_fields [OF clean] by simp
  define msg where "msg = fix_message v (wire_texts (Plain 35 mt # ?fs))"
  have wr: "take (w_next w) (w_buffer w) = msg"
    using res(1) by (simp only: written_def body msg_def)
  then have len: "length msg = w_next w" using res(2) by auto
  with wr res(2) have "holds_at (w_buffer w) 0 msg" by (simp add: holds_at_def)
  then show ?thesis
    using reads_message [of "w_buffer w" 0 v mt ?fs "w_next w", folded msg_def] len res(2,3) v mt xs
      op_field_ok
    unfolding body writer_message_end_def by auto
qed

end
