(* ===== verification/Batch.thy ===== *)
theory Batch
  imports Reader_Lemmas
begin

text \<open>
  Many messages in one buffer: \<open>basic_message_range\<close> with its iterator, and \<open>for_each_message\<close>.
  The callback \<open>fn\<close> of \<open>for_each_message\<close> is not part of the state: the model returns the
  readers it is called with, in order, and the position of the unconsumed tail. Both loops are
  \<open>partial_function\<close>s; that they return for every content of the buffer is a theorem, from the
  fact that the next reader always starts behind the current one.
\<close>

section \<open>The loops\<close>

partial_function (option) for_each_loop :: "byte list \<Rightarrow> reader \<Rightarrow> (reader list \<times> ptr) option" where
  "for_each_loop mem r =
     (if r_complete r then do {
        r' \<leftarrow> next_message_reader mem r;
        (rs, tail) \<leftarrow> for_each_loop mem r';
        Some (if r_valid r then r # rs else rs, tail)
      }
      else Some ([], r_buffer r))"

definition for_each_message :: "byte list \<Rightarrow> ptr \<Rightarrow> ptr \<Rightarrow> (reader list \<times> ptr) option" where
  "for_each_message mem b e = do { r \<leftarrow> message_reader mem b e; for_each_loop mem r }"

partial_function (option) skip_invalid :: "byte list \<Rightarrow> reader \<Rightarrow> reader option" where
  "skip_invalid mem r =
     (if r_complete r \<and> \<not> r_valid r then do {
        r \<leftarrow> next_message_reader mem r;
        skip_invalid mem r
      }
      else Some r)"

definition range_iterator :: "byte list \<Rightarrow> ptr \<Rightarrow> ptr \<Rightarrow> reader option" where
  "range_iterator mem b e = do { r \<leftarrow> message_reader mem b e; skip_invalid mem r }"

definition range_increment :: "byte list \<Rightarrow> reader \<Rightarrow> reader option" where
  "range_increment mem r =
     (if \<not> r_complete r then None
      else do { r \<leftarrow> next_message_reader mem r; skip_invalid mem r })"

definition range_eq :: "reader \<Rightarrow> reader \<Rightarrow> bool" where
  "range_eq a b =
     (let a_end = \<not> r_complete a; b_end = \<not> r_complete b in
      if a_end \<and> b_end then True
      else if a_end \<noteq> b_end then False
      else r_buffer a = r_buffer b)"

definition range_ne :: "reader \<Rightarrow> reader \<Rightarrow> bool" where
  "range_ne a b \<longleftrightarrow> \<not> range_eq a b"

definition range_post_increment :: "byte list \<Rightarrow> reader \<Rightarrow> (reader \<times> reader) option" where
  "range_post_increment mem r = do { r' \<leftarrow> range_increment mem r; Some (r, r') }"

definition remainder :: "reader \<Rightarrow> ptr" where
  "remainder r = r_buffer r"

text \<open>\<open>for (auto const& r : messages(b, e))\<close>: the readers its body sees.\<close>

definition messages :: "byte list \<Rightarrow> ptr \<Rightarrow> ptr \<Rightarrow> reader list option" where
  "messages mem b e = do {
     i \<leftarrow> range_iterator mem b e;
     stop \<leftarrow> range_iterator mem e e;
     visit (range_increment mem) range_eq i stop
   }"

section \<open>The next reader starts behind the current one\<close>

definition constructed :: "byte list \<Rightarrow> reader \<Rightarrow> bool" where
  "constructed mem r \<longleftrightarrow> r_buffer r \<le> r_buffer_end r \<and> r_buffer_end r \<le> length mem \<and>
     message_reader mem (r_buffer r) (r_buffer_end r) = Some r"

lemma message_reader_constructed:
  assumes "b \<le> e" "e \<le> length mem"
  shows "\<exists>r. message_reader mem b e = Some r \<and> constructed mem r \<and> r_buffer r = b \<and> r_buffer_end r = e"
  using message_reader_result [OF assms] assms by (auto simp: constructed_def)

lemma constructed_cases:
  assumes "constructed mem r"
  obtains (frame) "framed mem r" "r_complete r" "r_valid r"
    | (incomplete) "\<not> r_complete r" "r_valid r"
    | (invalid) "r_complete r" "\<not> r_valid r" "r_buffer r + 10 < r_buffer_end r"
proof -
  from assms have "r_buffer r \<le> r_buffer_end r" "r_buffer_end r \<le> length mem"
    "message_reader mem (r_buffer r) (r_buffer_end r) = Some r" by (auto simp: constructed_def)
  with message_reader_result [of "r_buffer r" "r_buffer_end r" mem] show thesis
    using that by (auto simp: framed_def)
qed

lemma resync_spec:
  assumes "e \<le> length mem" "b + 10 \<le> e"
  shows "\<exists>b'. resync mem e b = Some b' \<and> b \<le> b' \<and> b' + 10 \<le> e \<and>
     (b' + 10 < e \<longrightarrow> take 5 (drop b' mem) = lit ''8=FIX'') \<and>
     (\<forall>q. b \<le> q \<and> q < b' \<longrightarrow> take 5 (drop q mem) \<noteq> lit ''8=FIX'')"
  using assms(2)
proof (induction "e - b" arbitrary: b rule: less_induct)
  case less
  show ?case
  proof (cases "b + 10 < e")
    case False
    then have "resync mem e b = Some b" by (subst resync.simps) simp
    with False less.prems show ?thesis by auto
  next
    case True
    then have rd: "rd_range mem b (b + 5) = Some (take 5 (drop b mem))"
      using assms(1) by (simp add: rd_range_Some)
    show ?thesis
    proof (cases "take 5 (drop b mem) = lit ''8=FIX''")
      case found: True
      with True rd have "resync mem e b = Some b" by (subst resync.simps) simp
      with True found show ?thesis by auto
    next
      case step: False
      have lt: "e - (b + 1) < e - b" "b + 1 + 10 \<le> e" using True by auto
      from less.hyps [OF lt] obtain b' where b': "resync mem e (b + 1) = Some b'"
        "b + 1 \<le> b'" "b' + 10 \<le> e" "b' + 10 < e \<longrightarrow> take 5 (drop b' mem) = lit ''8=FIX''"
        "\<forall>q. b + 1 \<le> q \<and> q < b' \<longrightarrow> take 5 (drop q mem) \<noteq> lit ''8=FIX''" by blast
      have "resync mem e b = Some b'"
        using True rd step b'(1) by (subst resync.simps) simp
      moreover have "\<forall>q. b \<le> q \<and> q < b' \<longrightarrow> take 5 (drop q mem) \<noteq> lit ''8=FIX''"
        using b'(5) step by (metis Suc_eq_plus1 le_antisym not_less_eq_eq)
      ultimately show ?thesis using b' by auto
    qed
  qed
qed

text \<open>
  \<open>next_message_reader\<close> on a complete reader: never \<open>None\<close>, and it makes progress. After a valid
  message it starts at its end; after an invalid one at the next \<open>8=FIX\<close>, or ten bytes before
  the end of the buffer. The branch for a buffer shorter than ten bytes is never taken, as
  fewer than ten bytes are never found invalid.
\<close>

lemma next_reader:
  assumes "constructed mem r" "r_complete r"
  shows "\<exists>r'. next_message_reader mem r = Some r' \<and> constructed mem r' \<and>
    r_buffer_end r' = r_buffer_end r \<and> r_buffer r < r_buffer r' \<and>
    (if r_valid r then r_buffer r' = it_message_end (r_end r)
     else resync mem (r_buffer_end r) (r_buffer r + 1) = Some (r_buffer r') \<and>
       r_buffer r' + 10 \<le> r_buffer_end r)"
  using assms(1)
proof (cases rule: constructed_cases)
  case incomplete
  with assms(2) show ?thesis by simp
next
  case frame
  let ?n = "it_end (r_end r) + 1"
  from frame have n: "?n = it_message_end (r_end r)" "r_buffer r < ?n" "?n \<le> r_buffer_end r"
    "r_buffer_end r \<le> length mem" by (auto simp: framed_def)
  from message_reader_constructed [OF n(3,4)] frame n show ?thesis
    by (auto simp: next_message_reader_def)
next
  case invalid
  then have len: "r_buffer_end r \<le> length mem" using assms(1) by (simp add: constructed_def)
  from resync_spec [OF len, of "r_buffer r + 1"] invalid obtain b where
    b: "resync mem (r_buffer_end r) (r_buffer r + 1) = Some b" "r_buffer r + 1 \<le> b"
      "b + 10 \<le> r_buffer_end r" by auto
  then have "b \<le> r_buffer_end r" by simp
  from message_reader_constructed [OF this len] b invalid show ?thesis
    by (auto simp: next_message_reader_def)
qed

section \<open>The loops return\<close>

lemma for_each_step:
  "r_complete r \<Longrightarrow> next_message_reader mem r = Some r' \<Longrightarrow>
     for_each_loop mem r =
       map_option (\<lambda>(rs, tail). (if r_valid r then r # rs else rs, tail)) (for_each_loop mem r')"
  by (subst for_each_loop.simps) (auto simp: map_option_case split: option.split)

lemma for_each_stop: "\<not> r_complete r \<Longrightarrow> for_each_loop mem r = Some ([], r_buffer r)"
  by (subst for_each_loop.simps) simp

lemma reader_induct [consumes 1, case_names stop step]:
  assumes "constructed mem r"
    and "\<And>r. constructed mem r \<Longrightarrow> \<not> r_complete r \<Longrightarrow> P r"
    and "\<And>r r'. \<lbrakk>constructed mem r; r_complete r; next_message_reader mem r = Some r';
           constructed mem r'; r_buffer r < r_buffer r'; r_buffer_end r' = r_buffer_end r; P r'\<rbrakk> \<Longrightarrow> P r"
  shows "P r"
  using assms(1)
proof (induction "r_buffer_end r - r_buffer r" arbitrary: r rule: less_induct)
  case less
  show ?case
  proof (cases "r_complete r")
    case False
    with less.prems assms(2) show ?thesis by blast
  next
    case True
    from next_reader [OF less.prems True] obtain r' where r': "next_message_reader mem r = Some r'"
      "constructed mem r'" "r_buffer_end r' = r_buffer_end r" "r_buffer r < r_buffer r'" by blast
    then have "r_buffer r' \<le> r_buffer_end r'" by (simp add: constructed_def)
    with r' less.hyps [of r'] assms(3) [OF less.prems True] show ?thesis by auto
  qed
qed

text \<open>The readers shown: valid, one behind the other, and the tail is incomplete.\<close>

definition shows_readers :: "byte list \<Rightarrow> ptr \<Rightarrow> ptr \<Rightarrow> reader list \<Rightarrow> ptr \<Rightarrow> bool" where
  "shows_readers mem b e rs tail \<longleftrightarrow>
     (\<forall>r \<in> set rs. framed mem r \<and> b \<le> r_buffer r \<and> r_buffer_end r = e \<and>
        it_message_end (r_end r) \<le> tail) \<and>
     sorted_wrt (\<lambda>r s. it_message_end (r_end r) \<le> r_buffer s) rs \<and>
     b \<le> tail \<and> tail \<le> e \<and>
     (\<exists>r. message_reader mem tail e = Some r \<and> \<not> r_complete r)"

lemma for_each_loop_result:
  "constructed mem r \<Longrightarrow> \<exists>rs tail. for_each_loop mem r = Some (rs, tail) \<and>
     shows_readers mem (r_buffer r) (r_buffer_end r) rs tail"
proof (induction rule: reader_induct)
  case (stop r)
  then show ?case by (auto simp: for_each_stop shows_readers_def constructed_def)
next
  case (step r r')
  from step obtain rs tail where rs: "for_each_loop mem r' = Some (rs, tail)"
    "shows_readers mem (r_buffer r') (r_buffer_end r') rs tail" by blast
  have eq: "for_each_loop mem r = Some (if r_valid r then r # rs else rs, tail)"
    using for_each_step [OF step(2,3)] rs(1) by simp
  show ?case
  proof (cases "r_valid r")
    case False
    with eq rs(2) step(5,6) show ?thesis by (auto simp: shows_readers_def)
  next
    case True
    with step(1,2) have f: "framed mem r" by (auto elim: constructed_cases)
    from next_reader [OF step(1,2)] step(3) True have n: "r_buffer r' = it_message_end (r_end r)" by auto
    have "shows_readers mem (r_buffer r) (r_buffer_end r) (r # rs) tail"
      using rs(2) f n step(5,6) unfolding shows_readers_def by auto
    with eq True show ?thesis by auto
  qed
qed

lemma for_each_result:
  assumes "b \<le> e" "e \<le> length mem"
  shows "\<exists>rs tail. for_each_message mem b e = Some (rs, tail) \<and> shows_readers mem b e rs tail"
  using message_reader_constructed [OF assms] for_each_loop_result
  by (fastforce simp: for_each_message_def)

section \<open>The range shows the same messages\<close>

lemma skip_invalid_result:
  "constructed mem r \<Longrightarrow> \<exists>r'. skip_invalid mem r = Some r' \<and> constructed mem r' \<and>
     r_buffer r \<le> r_buffer r' \<and> r_buffer_end r' = r_buffer_end r \<and> (r_complete r' \<longrightarrow> r_valid r') \<and>
     for_each_loop mem r = for_each_loop mem r'"
proof (induction rule: reader_induct)
  case (stop r)
  then show ?case by (subst skip_invalid.simps) auto
next
  case (step r r')
  show ?case
  proof (cases "r_valid r")
    case True
    with step(1,2) show ?thesis by (subst skip_invalid.simps) auto
  next
    case False
    then have "for_each_loop mem r = for_each_loop mem r'"
      using for_each_step [OF step(2,3)] by (simp add: map_option_case split: option.split)
    moreover have "skip_invalid mem r = skip_invalid mem r'"
      using False step(2,3) by (subst skip_invalid.simps) simp
    ultimately show ?thesis using step(5,6,7) by auto
  qed
qed

definition range_key :: "reader \<Rightarrow> nat" where
  "range_key r = (if r_complete r then Suc (r_buffer r) else 0)"

definition range_reaches :: "byte list \<Rightarrow> reader \<Rightarrow> reader \<Rightarrow> bool" where
  "range_reaches mem a b \<longleftrightarrow> constructed mem a \<and> \<not> r_complete b"

definition range_dist :: "reader \<Rightarrow> reader \<Rightarrow> nat" where
  "range_dist a b = (if r_complete a then Suc (r_buffer_end a - r_buffer a) else 0)"

interpretation range_it: forward_iterator "range_increment mem" range_eq range_key
    "range_reaches mem" range_dist for mem
proof (unfold_locales, goal_cases)
  case 1
  show ?case by (auto simp: range_eq_def range_key_def Let_def)
next
  case (2 a b)
  then have a: "constructed mem a" "r_complete a" "\<not> r_complete b"
    by (auto simp: range_reaches_def range_key_def split: if_splits)
  from next_reader [OF a(1,2)] obtain r where r: "next_message_reader mem a = Some r"
    "constructed mem r" "r_buffer_end r = r_buffer_end a" "r_buffer a < r_buffer r" by blast
  from skip_invalid_result [OF r(2)] obtain c where c: "skip_invalid mem r = Some c"
    "constructed mem c" "r_buffer r \<le> r_buffer c" "r_buffer_end c = r_buffer_end r" by blast
  have "r_buffer c \<le> r_buffer_end c" using c(2) by (simp add: constructed_def)
  then show ?case
    using a r c by (auto simp: range_increment_def range_reaches_def range_dist_def range_key_def)
qed

lemma visit_range:
  assumes "constructed mem r" "\<not> r_complete stop" "r_complete r \<longrightarrow> r_valid r"
    "for_each_loop mem r = Some (rs, tail)"
  shows "visit (range_increment mem) range_eq r stop = Some rs"
proof -
  have "visits (range_increment mem) range_eq stop r rs"
    using assms(1,3,4)
  proof (induction rs arbitrary: r)
    case Nil
    have "\<not> r_complete r"
    proof
      assume c: "r_complete r"
      from next_reader [OF Nil.prems(1) c] obtain r' where
        "next_message_reader mem r = Some r'" "constructed mem r'" by blast
      with for_each_step [OF c, of mem r'] for_each_loop_result [of mem r'] Nil.prems c
      show False by auto
    qed
    with assms(2) show ?case by (simp add: range_eq_def)
  next
    case (Cons x rs)
    have c: "r_complete r" using Cons.prems(3) for_each_stop [of r mem] by fastforce
    with Cons.prems(2) have v: "r_valid r" by simp
    from next_reader [OF Cons.prems(1) c] obtain r' where r': "next_message_reader mem r = Some r'"
      "constructed mem r'" by blast
    with for_each_step [OF c, of mem r'] Cons.prems(3) v
    have x: "x = r" "for_each_loop mem r' = Some (rs, tail)"
      by (auto simp: map_option_case split: option.splits)
    from skip_invalid_result [OF r'(2)] x(2) obtain s where s: "skip_invalid mem r' = Some s"
      "constructed mem s" "r_complete s \<longrightarrow> r_valid s" "for_each_loop mem s = Some (rs, tail)" by auto
    from Cons.IH [OF s(2,3,4)] show ?case
      using x c assms(2) r'(1) s(1) by (simp add: range_increment_def range_eq_def)
  qed
  then show ?thesis by (simp add: visit_iff)
qed

theorem messages_for_each:
  assumes "b \<le> e" "e \<le> length mem"
  shows "messages mem b e = map_option fst (for_each_message mem b e)"
proof -
  from message_reader_constructed [OF assms] obtain r where
    r: "message_reader mem b e = Some r" "constructed mem r" by blast
  have "message_reader mem e e = Some (incomplete \<lparr>r_end = null_iter, r_buffer = e, r_buffer_end = e,
      r_complete = False, r_valid = True, r_begin = null_iter, r_prefix_end = 0\<rparr>)"
    by (simp add: message_reader_def init_def)
  then obtain stop where stop: "message_reader mem e e = Some stop" "\<not> r_complete stop"
    by (simp add: incomplete_def)
  then have "skip_invalid mem stop = Some stop" by (subst skip_invalid.simps) simp
  moreover from skip_invalid_result [OF r(2)] obtain s where s: "skip_invalid mem r = Some s"
    "constructed mem s" "r_complete s \<longrightarrow> r_valid s" "for_each_loop mem r = for_each_loop mem s" by auto
  moreover from for_each_loop_result [OF s(2)] obtain rs tail where
    f: "for_each_loop mem s = Some (rs, tail)" by blast
  ultimately show ?thesis
    using visit_range [OF s(2) stop(2) s(3) f] r(1) stop(1)
    by (simp add: messages_def range_iterator_def for_each_message_def)
qed

end
