(* ===== verification/Message_Stream.thy ===== *)
theory Message_Stream
  imports Roundtrip Batch
begin

text \<open>
  A byte stream of messages as \<open>recv()\<close> delivers it: whole messages, then the beginning of one
  more. \<open>for_each_message\<close> shows every whole message, with its fields, and returns the position
  of the unfinished one; a proper prefix of a message is always incomplete, never invalid.
\<close>

section \<open>A proper prefix of a message is incomplete\<close>

lemma scan_prefix_incomplete:
  "\<forall>q. s \<le> q \<and> q < e \<longrightarrow> mem ! q \<noteq> SOH \<Longrightarrow> e \<le> buf + 12 \<Longrightarrow> e \<le> length mem \<Longrightarrow>
     scan_prefix mem buf e s = Some Incomplete"
proof (induction "e - s" arbitrary: s)
  case 0
  then show ?case by (subst scan_prefix.simps) simp
next
  case (Suc n)
  then have "scan_prefix mem buf e (s + 1) = Some Incomplete" by simp
  moreover have "mem ! s \<noteq> SOH" "s < e" using Suc.prems Suc.hyps(2) by auto
  ultimately show ?case using Suc.prems by (subst scan_prefix.simps) (simp add: rd_Some)
qed

lemma scan_bodylength_incomplete:
  "\<forall>q. s \<le> q \<and> q < e \<longrightarrow> is_digit (mem ! q) \<Longrightarrow> e \<le> length mem \<Longrightarrow>
     scan_bodylength mem e s n = Some Incomplete"
proof (induction "e - s" arbitrary: s n)
  case 0
  then show ?case by (subst scan_bodylength.simps) simp
next
  case (Suc k)
  then have s: "is_digit (mem ! s)" "s < e" by auto
  have "scan_bodylength mem e (s + 1) (n * 10 + word_of_int (sint (mem ! s) - 48)) = Some Incomplete"
    using Suc by simp
  then show ?case
    using s digit_signed [OF s(1)] digit_not_special [OF s(1)] Suc.prems(2)
    by (subst scan_bodylength.simps) (simp add: rd_Some)
qed

text \<open>The bytes of a message, by their place: BeginString, BodyLength, MsgType.\<close>

lemma message_bytes:
  fixes v mt fs
  defines "body \<equiv> wire_texts (Plain 35 mt # fs)"
  defines "m \<equiv> fix_message v body"
  assumes v: "SOH \<notin> set v"
  shows "2 \<le> i \<Longrightarrow> i < length v + 2 \<Longrightarrow> m ! i \<noteq> SOH"
    and "m ! (length v + 2) = SOH" "m ! (length v + 3) = 57"
    and "\<exists>xs ys. m = xs @ (low_digits 6 (length body) @ [SOH]) @ ys \<and> length xs = length v + 5"
    and "length v + 5 \<le> i \<Longrightarrow> i < length v + 11 \<Longrightarrow> is_digit (m ! i)"
    and "m ! (length v + 12) = 51" "m ! (length v + 13) = 53"
    and "length m = length v + length body + 19"
proof -
  define ds where "ds = low_digits 6 (length body)"
  have len: "length ds = 6" by (simp add: ds_def)
  have body: "body = [51, 53, EQ_CH] @ mt @ SOH # wire_texts fs"
    by (simp add: body_def field_text_def utoa_eq dec_digits.simps)
  obtain rest where m: "m = [56, EQ_CH] @ v @ [SOH, 57, EQ_CH] @ ds @ [SOH, 51, 53] @ rest"
    by (simp add: m_def fix_message_append lit_codes ds_def body)
  show "m ! i \<noteq> SOH" if "2 \<le> i" "i < length v + 2"
    using that v by (auto simp: m nth_append in_set_conv_nth dest!: le_Suc_ex)
  show "m ! (length v + 2) = SOH" "m ! (length v + 3) = 57"
    by (simp_all add: m nth_append numeral_3_eq_3)
  show "is_digit (m ! i)" if "length v + 5 \<le> i" "i < length v + 11"
  proof -
    from that(1) obtain j where j: "i = length v + 5 + j" using le_Suc_ex by blast
    with that(2) have "j < 6" by simp
    then have "m ! i = ds ! j" using j len by (simp add: m nth_append)
    moreover have "ds ! j \<in> set ds" using \<open>j < 6\<close> len by simp
    ultimately show ?thesis by (simp add: ds_def low_digits_digit)
  qed
  show "m ! (length v + 12) = 51" "m ! (length v + 13) = 53"
    using len by (simp_all add: m nth_append)
  have "m = ([56, EQ_CH] @ v @ [SOH, 57, EQ_CH]) @ (ds @ [SOH]) @ [51, 53] @ rest" by (simp add: m)
  then show "\<exists>xs ys. m = xs @ (low_digits 6 (length body) @ [SOH]) @ ys \<and> length xs = length v + 5"
    unfolding ds_def by (intro exI conjI, assumption) simp
  show "length m = length v + length body + 19" by (simp add: m_def)
qed

lemma init_body_cut:
  assumes "r_buffer_end r \<le> length mem" "r_buffer_end r < p + unat n + 7"
    "p + 3 < r_buffer_end r \<longrightarrow> mem ! p = 51 \<and> mem ! (p + 1) = 53"
  shows "init_body mem r p n = Some (incomplete r)"
proof (cases "r_buffer_end r \<le> p + 3")
  case True
  then show ?thesis by (simp add: init_body_def Let_def)
next
  case False
  then have "rd mem p = Some 51" "rd mem (p + 1) = Some 53"
    using assms by (simp_all add: rd_def)
  with False assms(2) show ?thesis by (simp add: init_body_def Let_def)
qed

lemma cut_bodylength:
  assumes h: "holds_at mem b (take k (xs @ (low_digits 6 n @ [SOH]) @ ys))" and k: "length xs + 7 \<le> k"
    and bound: "b + k \<le> length mem" and q: "b + length xs = q + 3" and n: "n \<le> 999999"
  shows "scan_bodylength mem (b + k) (q + 3) 0 = Some (Found (q + 9, of_nat n))"
proof -
  from k obtain j where j: "k = length xs + 7 + j" using le_Suc_ex by blast
  then have "take k (xs @ (low_digits 6 n @ [SOH]) @ ys) = xs @ (low_digits 6 n @ [SOH]) @ take j ys" by simp
  with h have "holds_at mem (b + length xs) (low_digits 6 n @ [SOH])" by (simp only: holds_at_append)
  then have ds: "holds_at mem (q + 3) (low_digits 6 n @ [SOH])" by (simp only: q)
  have "q + 3 + length (low_digits 6 n) < b + k" using k q by simp
  from scan_bodylength_at [OF ds _ this, of 0] show ?thesis
    using n by (simp add: low_digits_digit low_digits_atou)
qed

lemma prefix_incomplete:
  fixes v mt fs
  defines "body \<equiv> wire_texts (Plain 35 mt # fs)"
  defines "m \<equiv> fix_message v body"
  assumes h: "holds_at mem b (take k m)" and k: "k < length m"
    and v: "SOH \<notin> set v" "7 \<le> length v" "length v \<le> 10" and len: "length body \<le> 999999"
  shows "\<exists>r. message_reader mem b (b + k) = Some r \<and> \<not> r_complete r \<and> r_buffer r = b"
proof -
  note byte = message_bytes [OF v(1), where mt = mt and fs = fs, folded body_def, folded m_def]
  let ?r = "\<lparr>r_end = null_iter, r_buffer = b, r_buffer_end = b + k, r_complete = False,
    r_valid = True, r_begin = null_iter, r_prefix_end = null\<rparr>"
  define q where "q = b + (length v + 2)"
  have bound: "b + k \<le> length mem" using holds_at_bound [OF h] k by simp
  have at: "mem ! (b + i) = m ! i" if "i < k" for i
    using holds_at_nth [OF h, of i] that k by simp
  have nosoh: "mem ! j \<noteq> SOH" if "b + 9 \<le> j" "j < b + k" "j < q" for j
    using at [of "j - b"] byte(1) [of "j - b"] that by (auto simp: q_def)
  have prefix: "scan_prefix mem b (b + k) (b + 9) = Some (Found q)" if "length v + 2 < k"
    using nosoh at [of "length v + 2"] byte(2) that v k bound by (intro scan_prefix_at) (auto simp: q_def)
  have room: "\<not> int (b + k) - int b < 9" if "9 \<le> k" using that by simp
  have nine: "rd mem (q + 1) = Some 57" if "length v + 3 < k"
    using at [of "length v + 3"] byte(3) that bound by (simp add: rd_def q_def add.assoc numeral_3_eq_3)
  have digits: "is_digit (mem ! j)" if "q + 3 \<le> j" "j < b + k" "j < q + 9" for j
    using at [of "j - b"] byte(5) [of "j - b"] that by (auto simp: q_def)
  consider "k < 9" | "9 \<le> k" "k \<le> length v + 2" | "k = length v + 3"
    | "length v + 3 < k" "k \<le> length v + 11" | "length v + 11 < k" by linarith
  then show ?thesis
  proof cases
    case 1
    then show ?thesis by (simp add: message_reader_def init_def incomplete_def)
  next
    case 2
    then have "scan_prefix mem b (b + k) (b + 9) = Some Incomplete"
      using nosoh v k bound by (intro scan_prefix_incomplete) (auto simp: q_def)
    with room [OF 2(1)] show ?thesis by (simp add: message_reader_def init_def Let_def incomplete_def)
  next
    case 3
    then have "b + k \<le> q + 1" by (simp add: q_def)
    with prefix room 3 v(2) show ?thesis
      by (simp add: message_reader_def init_def Let_def incomplete_def)
  next
    case 4
    then have "\<not> b + k \<le> q + 1" by (simp add: q_def)
    moreover have "scan_bodylength mem (b + k) (q + 3) 0 = Some Incomplete"
      using digits 4 bound by (intro scan_bodylength_incomplete) (auto simp: q_def)
    ultimately show ?thesis
      using prefix nine room 4 v(2)
      by (simp add: message_reader_def init_def Let_def incomplete_def)
  next
    case 5
    then have ne: "\<not> b + k \<le> q + 1" by (simp add: q_def)
    define p where "p = q + 10"
    obtain xs ys where m: "m = xs @ (low_digits 6 (length body) @ [SOH]) @ ys" "length xs = length v + 5"
      using byte(4) by blast
    have bl: "scan_bodylength mem (b + k) (q + 3) 0 = Some (Found (q + 9, of_nat (length body)))"
      using cut_bodylength [OF h [unfolded m(1)] _ bound, of q] m(2) 5 len by (simp add: q_def)
    have ul: "unat (of_nat (length body) :: u64) = length body"
      using len by (intro unat_of_nat_lt) simp
    let ?r1 = "?r\<lparr>r_prefix_end := q\<rparr>"
    have "init_body mem ?r1 p (of_nat (length body)) = Some (incomplete ?r1)"
      using bound k byte(6,7,8) at [of "length v + 12"] at [of "length v + 13"]
      by (intro init_body_cut) (auto simp: ul p_def q_def ac_simps)
    then have "message_reader mem b (b + k) = Some (incomplete ?r1)"
      using prefix nine ne bl room 5 v(2)
      by (simp add: message_reader_def init_def Let_def p_def add.commute)
    then show ?thesis by (simp add: incomplete_def)
  qed
qed

section \<open>A stream of messages\<close>

type_synonym wire_message = "byte list \<times> byte list \<times> wire_field list"

fun message_text :: "wire_message \<Rightarrow> byte list" where
  "message_text (v, mt, fs) = fix_message v (wire_texts (Plain 35 mt # fs))"

fun message_ok :: "wire_message \<Rightarrow> bool" where
  "message_ok (v, mt, fs) \<longleftrightarrow> SOH \<notin> set v \<and> 7 \<le> length v \<and> length v \<le> 10 \<and> SOH \<notin> set mt \<and>
     (\<forall>f \<in> set fs. wire_ok f) \<and> length (wire_texts (Plain 35 mt # fs)) \<le> 999999"

fun reads_message_as :: "byte list \<Rightarrow> reader \<Rightarrow> wire_message \<Rightarrow> bool" where
  "reads_message_as mem r (v, mt, fs) \<longleftrightarrow> reads_as mem r v (wire_fields (Plain 35 mt # fs))"

lemma reads_one:
  assumes "holds_at mem b (message_text m)" "message_ok m" "b + length (message_text m) \<le> e"
    "e \<le> length mem"
  shows "\<exists>r. message_reader mem b e = Some r \<and> reads_message_as mem r m \<and> r_complete r \<and> r_valid r \<and>
    it_end (r_end r) + 1 = b + length (message_text m) \<and> r_buffer_end r = e"
proof -
  obtain v mt fs where m: "m = (v, mt, fs)" by (cases m)
  have "it_end (r_end (framed_at mem b e v mt fs)) + 1 = b + length (message_text m)"
    unfolding framed_at_def Let_def m by (simp add: add.assoc add.left_commute)
  moreover have "r_complete (framed_at mem b e v mt fs)" "r_valid (framed_at mem b e v mt fs)"
    "r_buffer_end (framed_at mem b e v mt fs) = e"
    by (simp_all add: framed_at_def Let_def)
  ultimately show ?thesis
    using reads_message [of mem b v mt fs e] assms m by auto
qed

lemma for_each_stream:
  assumes "\<forall>m \<in> set ms. message_ok m" "holds_at mem b (concat (map message_text ms))"
    "b + length (concat (map message_text ms)) \<le> e" "e \<le> length mem"
    "message_reader mem (b + length (concat (map message_text ms))) e = Some r" "\<not> r_complete r"
    "r_buffer r = b + length (concat (map message_text ms))"
  shows "\<exists>rs. for_each_message mem b e = Some (rs, b + length (concat (map message_text ms))) \<and>
    list_all2 (reads_message_as mem) rs ms"
  using assms
proof (induction ms arbitrary: b)
  case Nil
  then show ?case by (simp add: for_each_message_def for_each_stop)
next
  case (Cons m ms)
  let ?b = "b + length (message_text m)"
  have "holds_at mem b (message_text m)" "message_ok m" "?b \<le> e"
    using Cons.prems by (auto simp: holds_at_append)
  from reads_one [OF this Cons.prems(4)] obtain s where s: "message_reader mem b e = Some s"
    "reads_message_as mem s m" "r_complete s" "r_valid s" "it_end (r_end s) + 1 = ?b"
    "r_buffer_end s = e" by blast
  have "\<exists>rs. for_each_message mem ?b e = Some (rs, ?b + length (concat (map message_text ms))) \<and>
      list_all2 (reads_message_as mem) rs ms"
    using Cons.prems by (intro Cons.IH) (auto simp: holds_at_append add.assoc)
  then obtain rs where rs: "for_each_message mem ?b e = Some (rs, ?b + length (concat (map message_text ms)))"
    "list_all2 (reads_message_as mem) rs ms" by blast
  from rs(1) obtain s' where s': "message_reader mem ?b e = Some s'"
    "for_each_loop mem s' = Some (rs, ?b + length (concat (map message_text ms)))"
    by (auto simp: for_each_message_def bind_eq_Some_conv)
  have "next_message_reader mem s = Some s'"
    using s s'(1) by (simp add: next_message_reader_def)
  from for_each_step [OF s(3) this] s'(2) s(1,2,4) rs(2) show ?case
    by (auto simp: for_each_message_def add.assoc)
qed

text \<open>Whole messages and a proper prefix of one more, as \<open>recv()\<close> returns them.\<close>

theorem stream_delivery:
  fixes ms m k
  defines "mem \<equiv> concat (map message_text ms) @ take k (message_text m)"
  assumes ms: "\<forall>x \<in> set (m # ms). message_ok x" and k: "k < length (message_text m)"
  shows "\<exists>rs. for_each_message mem 0 (length mem) = Some (rs, length (concat (map message_text ms))) \<and>
    list_all2 (reads_message_as mem) rs ms"
proof -
  let ?b = "length (concat (map message_text ms))"
  obtain v mt fs where m: "m = (v, mt, fs)" by (cases m)
  have h: "holds_at mem 0 (concat (map message_text ms))" "holds_at mem ?b (take k (message_text m))"
    using k by (simp_all add: mem_def holds_at_def)
  have len: "length mem = ?b + k" using k by (simp add: mem_def)
  from prefix_incomplete [of mem ?b k v mt fs] h(2) k ms obtain r where
    "message_reader mem ?b (?b + k) = Some r" "\<not> r_complete r" "r_buffer r = ?b"
    unfolding m by auto
  with for_each_stream [of ms mem 0 "length mem" r] h(1) ms len show ?thesis by auto
qed

end
