(* ===== verification/Field_Values.thy ===== *)
theory Field_Values
  imports Date_Text Message_Stream
begin

text \<open>
  The conversions of \<open>hffix::field_value\<close>, on the bytes of a value, and what they read back of
  the texts the writer produces. A \<open>bool\<close> result with out-parameters that are set on success
  only is an \<open>option\<close>; a conversion that reads at fixed offsets is \<open>None\<close> when it reads outside the
  bytes of the value, so that its refusal of a text is \<open>Some None\<close> (\<open>parsed\<close>). The locale \<open>field_codec\<close> states the contract between a \<open>push_back\<close>
  operation's text and the conversion that reads it; from it follows that a value pushed into a
  message is decoded from the field that the reader shows.
\<close>

section \<open>Comparison and text\<close>

text \<open>\<open>!strncmp(a, b, n)\<close> for \<open>a\<close> of \<open>n\<close> bytes and a C string \<open>b\<close> (without its NUL).\<close>

fun strncmp_equal :: "byte list \<Rightarrow> byte list \<Rightarrow> bool" where
  "strncmp_equal [] cs = True"
| "strncmp_equal (a # as) [] = (a = 0)"
| "strncmp_equal (a # as) (c # cs) = (a = c \<and> strncmp_equal as cs)"

definition equals_cstring :: "byte list \<Rightarrow> byte list \<Rightarrow> bool option" where
  "equals_cstring bs cs =
     (if strncmp_equal bs cs then do { c \<leftarrow> rd (cs @ [0]) (length bs); Some (c = 0) }
      else Some False)"

definition equals_string_view :: "byte list \<Rightarrow> byte list \<Rightarrow> bool" where
  "equals_string_view bs s \<longleftrightarrow> list_all2 (=) bs s"

definition as_string_view :: "byte list \<Rightarrow> byte list" where
  "as_string_view bs = bs"

text \<open>The first byte is read unconditionally.\<close>

definition as_char :: "byte list \<Rightarrow> byte option" where
  "as_char bs = rd bs 0"

section \<open>Numbers\<close>

definition as_decimal_unchecked :: "byte list \<Rightarrow> 'a::len word \<times> 'a word" where
  "as_decimal_unchecked bs = atod bs"

definition try_as_decimal :: "byte list \<Rightarrow> ('a::len word \<times> 'a word) option" where
  "try_as_decimal bs = try_atod bs"

definition as_int_unchecked :: "bool \<Rightarrow> byte list \<Rightarrow> 'a::len word" where
  "as_int_unchecked is_signed bs = (if is_signed then atoi bs else atou bs)"

definition try_as_int :: "bool \<Rightarrow> byte list \<Rightarrow> 'a::len word option" where
  "try_as_int is_signed bs = (if is_signed then try_atoi bs else try_atou bs)"

section \<open>Dates and times\<close>

definition as_date :: "byte list \<Rightarrow> (int \<times> int \<times> int) parsed" where
  "as_date bs = atodate bs"

definition as_monthyear :: "byte list \<Rightarrow> (int \<times> int) parsed" where
  "as_monthyear bs =
     (if length bs \<noteq> 6 then Some None
      else do {
        year \<leftarrow> rd_range bs 0 4;
        month \<leftarrow> rd_range bs 4 6;
        Some (Some (int_of_u32 (atoi year), int_of_u32 (atoi month)))
      })"

definition as_timeonly :: "byte list \<Rightarrow> (int \<times> int \<times> int \<times> int) parsed" where
  "as_timeonly bs = atotime bs"

definition as_timeonly_nano ::
  "byte list \<Rightarrow> int \<times> int \<times> int \<times> int \<Rightarrow> (bool \<times> int \<times> int \<times> int \<times> int) option" where
  "as_timeonly_nano bs outs = atotime_nano bs outs"

text \<open>
  The time part starts at \<open>begin() + 9\<close>; for a shorter value its length is negative, and the
  parser answers \<open>false\<close> before it reads.
\<close>

definition as_timestamp :: "byte list \<Rightarrow> (int \<times> int \<times> int \<times> int \<times> int \<times> int \<times> int) parsed" where
  "as_timestamp bs =
     (if length bs < 9 then Some None
      else do {
        time \<leftarrow> atotime (drop 9 bs);
        case time of
          None \<Rightarrow> Some None
        | Some (hour, minute, second, millisecond) \<Rightarrow> do {
            date \<leftarrow> do { ymd \<leftarrow> rd_range bs 0 8; atodate ymd };
            case date of
              None \<Rightarrow> Some None
            | Some (year, month, day) \<Rightarrow> Some (Some (year, month, day, hour, minute, second, millisecond))
          }
      })"

text \<open>
  The nanosecond parser sets its outputs before it looks at the length of the fraction, so the
  outputs are threaded: \<open>(year, month, day, hour, minute, second, nanosecond)\<close>.
\<close>

definition as_timestamp_nano :: "byte list \<Rightarrow> int \<times> int \<times> int \<times> int \<times> int \<times> int \<times> int \<Rightarrow>
    (bool \<times> int \<times> int \<times> int \<times> int \<times> int \<times> int \<times> int) option" where
  "as_timestamp_nano bs outs =
     (if length bs < 9 then Some (False, outs)
      else case outs of (year, month, day, hms) \<Rightarrow> do {
        (ok, hms) \<leftarrow> atotime_nano (drop 9 bs) hms;
        if \<not> ok then Some (False, year, month, day, hms)
        else do {
          date \<leftarrow> do { ymd \<leftarrow> rd_range bs 0 8; atodate ymd };
          case date of
            None \<Rightarrow> Some (False, year, month, day, hms)
          | Some (year, month, day) \<Rightarrow> Some (True, year, month, day, hms)
        }
      })"

definition as_epoch_millis :: "byte list \<Rightarrow> u64 parsed" where
  "as_epoch_millis bs = map_option (map_option word_of_int) (atotimepoint bs)"

definition as_epoch_nanos :: "byte list \<Rightarrow> u64 parsed" where
  "as_epoch_nanos bs = map_option (map_option word_of_int) (atotimepoint_nano bs)"

text \<open>The overloads for \<open>std::chrono\<close>, in milliseconds and in nanoseconds.\<close>

definition as_timestamp_tp :: "byte list \<Rightarrow> int parsed" where
  "as_timestamp_tp bs = atotimepoint bs"

definition as_timestamp_nano_tp :: "byte list \<Rightarrow> int parsed" where
  "as_timestamp_nano_tp bs = atotimepoint_nano bs"

definition as_timeonly_duration :: "byte list \<Rightarrow> int parsed" where
  "as_timeonly_duration bs = do {
     time \<leftarrow> as_timeonly bs;
     case time of
       None \<Rightarrow> Some None
     | Some (hour, minute, second, millisecond) \<Rightarrow>
         Some (Some ((hour * 3600 + minute * 60 + second) * 1000 + millisecond))
   }"

definition as_timeonly_nano_duration :: "byte list \<Rightarrow> int parsed" where
  "as_timeonly_nano_duration bs = do {
     (ok, hour, minute, second, nanosecond) \<leftarrow> as_timeonly_nano bs (0, 0, 0, 0);
     if \<not> ok then Some None
     else Some (Some ((hour * 3600 + minute * 60 + second) * 1000000000 + nanosecond))
   }"

text \<open>No conversion reads outside the bytes of its value.\<close>

lemma conversions_return:
  "\<exists>x. as_date bs = Some x" "\<exists>x. as_monthyear bs = Some x" "\<exists>x. as_timeonly bs = Some x"
  "\<exists>x. as_epoch_millis bs = Some x" "\<exists>x. as_epoch_nanos bs = Some x"
  using atodate_returns [of bs] atotime_returns [of bs] atotimepoint_returns [of bs] atotimepoint_nano_returns [of bs]
  by (auto simp: as_date_def as_monthyear_def as_timeonly_def as_epoch_millis_def as_epoch_nanos_def rd_range_def
      simp del: split_paired_Ex)

section \<open>Comparison with a C string\<close>

text \<open>
  On a value without NUL the comparison is equality; a value with a NUL where the string ends
  compares equal up to there, and the code then reads behind the string's terminator.
\<close>

lemma strncmp_equal_prefix:
  "0 \<notin> set bs \<Longrightarrow> strncmp_equal bs cs \<longleftrightarrow> length bs \<le> length cs \<and> take (length bs) cs = bs"
  by (induction bs cs rule: strncmp_equal.induct) auto

lemma equals_cstring_eq:
  assumes "0 \<notin> set bs" "0 \<notin> set cs"
  shows "equals_cstring bs cs = Some (bs = cs)"
proof (cases "strncmp_equal bs cs")
  case True
  then have pre: "length bs \<le> length cs" "take (length bs) cs = bs"
    using assms(1) by (simp_all add: strncmp_equal_prefix)
  have rd: "rd (cs @ [0]) (length bs) = Some ((cs @ [0]) ! length bs)"
    using pre(1) by (simp add: rd_def)
  have "(cs @ [0]) ! length bs = 0 \<longleftrightarrow> bs = cs"
  proof (cases "length bs = length cs")
    case eq: True
    then have "(cs @ [0]) ! length bs = 0" by (simp only: nth_append_length)
    moreover have "bs = cs" using pre(2) unfolding eq by simp
    ultimately show ?thesis by simp
  next
    case False
    with pre(1) have lt: "length bs < length cs" by simp
    then have "cs ! length bs \<in> set cs" by (rule nth_mem)
    then have "cs ! length bs \<noteq> 0" using assms(2) by metis
    with lt False show ?thesis by (auto simp: nth_append)
  qed
  with True rd show ?thesis by (simp add: equals_cstring_def)
next
  case False
  then have "bs \<noteq> cs" using assms(1) by (auto simp: strncmp_equal_prefix)
  with False show ?thesis by (simp add: equals_cstring_def)
qed

lemma equals_string_view_eq: "equals_string_view bs s \<longleftrightarrow> bs = s"
  by (simp add: equals_string_view_def list.rel_eq)

section \<open>The contract between a push and a conversion\<close>

locale field_codec =
  fixes enc :: "'x \<Rightarrow> byte list"
    and dec :: "byte list \<Rightarrow> 'x parsed"
    and ok :: "'x \<Rightarrow> bool"
  assumes dec_enc: "ok x \<Longrightarrow> dec (enc x) = Some (Some x)"
    and enc_clean: "ok x \<Longrightarrow> SOH \<notin> set (enc x)"
begin

lemma enc_inj: "ok x \<Longrightarrow> ok y \<Longrightarrow> enc x = enc y \<Longrightarrow> x = y"
  by (metis dec_enc option.inject)

lemma wire_ok_enc: "ok x \<Longrightarrow> \<not> is_tag_a_data_length tag \<Longrightarrow> wire_ok (Plain tag (enc x))"
  by (simp add: enc_clean)

text \<open>A value in a message is decoded from a field the reader's loop shows.\<close>

lemma read_value:
  assumes "reads_as mem r v fs" "(tag, enc x) \<in> set fs" "ok x"
  shows "\<exists>its it. visit (increment mem) iter_eq (r_begin r) (r_end r) = Some its \<and> it \<in> set its \<and>
    f_tag (it_current it) = tag \<and> map_option dec (value_bytes mem (f_value (it_current it))) = Some (Some (Some x))"
proof -
  from assms(1) obtain its where its: "visit (increment mem) iter_eq (r_begin r) (r_end r) = Some its"
    "shown mem its = map (\<lambda>(t, val). (t, Some val)) fs" by (auto simp: reads_as_def)
  from assms(2) have "(tag, Some (enc x)) \<in> set (shown mem its)"
    unfolding its(2) by force
  then obtain it where "it \<in> set its" "f_tag (it_current it) = tag"
    "value_bytes mem (f_value (it_current it)) = Some (enc x)" by (auto simp: shown_def)
  with its(1) dec_enc [OF assms(3)] show ?thesis by auto
qed

end

interpretation string_codec: field_codec "\<lambda>s. s" "\<lambda>bs. Some (Some (as_string_view bs))" "\<lambda>s. SOH \<notin> set s"
  by unfold_locales (simp_all add: as_string_view_def)

interpretation char_codec: field_codec "\<lambda>c. [c]" "\<lambda>bs. map_option Some (as_char bs)" "\<lambda>c. c \<noteq> SOH"
  by unfold_locales (auto simp: as_char_def rd_def)

interpretation int32_codec: field_codec itoa_unchecked "\<lambda>bs. Some (try_as_int True bs :: 32 word option)" "\<lambda>n. True"
  by unfold_locales (simp_all add: try_as_int_def itoa_roundtrip itoa_clean)

interpretation int64_codec: field_codec itoa_unchecked "\<lambda>bs. Some (try_as_int True bs :: 64 word option)" "\<lambda>n. True"
  by unfold_locales (simp_all add: try_as_int_def itoa_roundtrip itoa_clean)

interpretation decimal32_codec: field_codec "\<lambda>(m, e). dtoa_unchecked m (sint e)"
    "\<lambda>bs. Some (try_as_decimal bs :: (32 word \<times> 32 word) option)" "\<lambda>(m, e). sint e \<le> 0"
proof (unfold_locales, goal_cases)
  case (1 x)
  obtain m e where x: "x = (m, e)" by (cases x)
  with 1 have "sint e = - int (nat (- sint e))" by simp
  then have "try_atod (dtoa_unchecked m (sint e)) = Some (m, - of_nat (nat (- sint e)))"
    using dtoa_roundtrip [where 'a = 32, of m "nat (- sint e)"] by simp
  moreover have "- of_nat (nat (- sint e)) = (word_of_int (sint e) :: 32 word)"
    using 1 x by simp
  ultimately show ?case by (simp add: x try_as_decimal_def)
qed (auto simp: dtoa_clean)

text \<open>Dates and times of the fixed-width texts; a field of \<open>k\<close> digits holds a value below \<open>10 ^ k\<close>.\<close>

lemma padded_nat: "0 \<le> x \<Longrightarrow> itoa_padded_unchecked x k = low_digits k (nat x)"
  using itoa_padded_eq [of "nat x" k] by simp

definition time_fields_ok :: "int \<Rightarrow> int \<Rightarrow> int \<Rightarrow> bool" where
  "time_fields_ok h m s \<longleftrightarrow> 0 \<le> h \<and> h < 100 \<and> 0 \<le> m \<and> m < 100 \<and> 0 \<le> s \<and> s < 100"

definition date_fields_ok :: "int \<Rightarrow> int \<Rightarrow> int \<Rightarrow> bool" where
  "date_fields_ok y m d \<longleftrightarrow> 0 \<le> y \<and> y < 10000 \<and> 0 \<le> m \<and> m < 100 \<and> 0 \<le> d \<and> d < 100"

lemma ymd_text_digits:
  "date_fields_ok y m d \<Longrightarrow> ymd_text y m d = ymd_digits (nat y) (nat m) (nat d)"
  by (simp add: ymd_text_def padded_nat date_fields_ok_def)

lemma hms_text_digits:
  "time_fields_ok h m s \<Longrightarrow> hms_text h m s = hms_digits (nat h) (nat m) (nat s)"
  by (simp add: hms_text_def padded_nat time_fields_ok_def)

lemma ymd_clean: "SOH \<notin> set (ymd_text y m d)" and hms_clean: "SOH \<notin> set (hms_text h mi s)"
  by (simp_all add: ymd_text_def hms_text_def padded_clean)

lemma atodate_ymd: "date_fields_ok y m d \<Longrightarrow> atodate (ymd_text y m d) = Some (Some (y, m, d))"
proof -
  assume ok: "date_fields_ok y m d"
  then have "nat y < 10000" "nat m < 100" "nat d < 100" "0 \<le> y" "0 \<le> m" "0 \<le> d"
    by (auto simp: date_fields_ok_def)
  then show ?thesis using atodate_text [of "nat y" "nat m" "nat d"] ymd_text_digits [OF ok] by simp
qed

lemma atotime_hms:
  assumes "time_fields_ok h m s"
  shows "atotime (hms_text h m s) = Some (Some (h, m, s, 0))"
    and "0 \<le> ms \<Longrightarrow> ms < 1000 \<Longrightarrow>
      atotime (hms_text h m s @ [DOT_CH] @ itoa_padded_unchecked ms 3) = Some (Some (h, m, s, ms))"
    and "0 \<le> ns \<Longrightarrow> ns < 1000000000 \<Longrightarrow>
      atotime_nano (hms_text h m s @ [DOT_CH] @ itoa_padded_unchecked ns 9) outs = Some (True, h, m, s, ns)"
proof -
  have b: "nat h < 100" "nat m < 100" "nat s < 100" "0 \<le> h" "0 \<le> m" "0 \<le> s"
    using assms by (auto simp: time_fields_ok_def)
  show "atotime (hms_text h m s) = Some (Some (h, m, s, 0))"
    unfolding hms_text_digits [OF assms] using atotime_s_text [OF b(1-3)] b(4-6) by simp
  show "atotime (hms_text h m s @ [DOT_CH] @ itoa_padded_unchecked ms 3) = Some (Some (h, m, s, ms))"
    if "0 \<le> ms" "ms < 1000"
    unfolding hms_text_digits [OF assms] padded_nat [OF that(1)]
    using atotime_text [OF b(1-3), of "nat ms"] b(4-6) that by simp
  show "atotime_nano (hms_text h m s @ [DOT_CH] @ itoa_padded_unchecked ns 9) outs = Some (True, h, m, s, ns)"
    if "0 \<le> ns" "ns < 1000000000"
    unfolding hms_text_digits [OF assms] padded_nat [OF that(1)]
    using atotime_nano_text [OF b(1-3), of "nat ns"] b(4-6) that by simp
qed

interpretation date_codec: field_codec "\<lambda>(y, m, d). ymd_text y m d" as_date
    "\<lambda>(y, m, d). date_fields_ok y m d"
  by unfold_locales (auto simp: as_date_def atodate_ymd ymd_clean)

interpretation timeonly_codec: field_codec
    "\<lambda>(h, m, s, ms). hms_text h m s @ [DOT_CH] @ itoa_padded_unchecked ms 3" as_timeonly
    "\<lambda>(h, m, s, ms). time_fields_ok h m s \<and> 0 \<le> ms \<and> ms < 1000"
  by unfold_locales (auto simp: as_timeonly_def atotime_hms(2) [simplified] hms_clean padded_clean)

interpretation timeonly_nano_codec: field_codec
    "\<lambda>(h, m, s, ns). hms_text h m s @ [DOT_CH] @ itoa_padded_unchecked ns 9"
    "\<lambda>bs. map_option (\<lambda>(ok, parts). if ok then Some parts else None) (as_timeonly_nano bs (0, 0, 0, 0))"
    "\<lambda>(h, m, s, ns). time_fields_ok h m s \<and> 0 \<le> ns \<and> ns < 1000000000"
  by unfold_locales (auto simp: as_timeonly_nano_def atotime_hms(3) [simplified] hms_clean padded_clean)

lemma timestamp_split:
  "drop 9 (ymd_text y mo d @ [MINUS_CH] @ t) = t"
  "rd_range (ymd_text y mo d @ [MINUS_CH] @ t) 0 8 = Some (ymd_text y mo d)"
  "\<not> length (ymd_text y mo d @ [MINUS_CH] @ t) < 9"
  by (simp_all add: date_part)

interpretation timestamp_codec: field_codec
    "\<lambda>(y, mo, d, h, mi, s, ms). ymd_text y mo d @ [MINUS_CH] @ hms_text h mi s @ [DOT_CH] @
       itoa_padded_unchecked ms 3" as_timestamp
    "\<lambda>(y, mo, d, h, mi, s, ms). date_fields_ok y mo d \<and> time_fields_ok h mi s \<and> 0 \<le> ms \<and> ms < 1000"
  by unfold_locales
     (auto simp only: as_timestamp_def timestamp_split if_False atotime_hms(2) atodate_ymd prod.case
        option.case bind.simps set_append ymd_clean hms_clean padded_clean Un_iff, auto)

interpretation timestamp_nano_codec: field_codec
    "\<lambda>(y, mo, d, h, mi, s, ns). ymd_text y mo d @ [MINUS_CH] @ hms_text h mi s @ [DOT_CH] @
       itoa_padded_unchecked ns 9"
    "\<lambda>bs. map_option (\<lambda>(ok, parts). if ok then Some parts else None) (as_timestamp_nano bs (0, 0, 0, 0, 0, 0, 0))"
    "\<lambda>(y, mo, d, h, mi, s, ns). date_fields_ok y mo d \<and> time_fields_ok h mi s \<and> 0 \<le> ns \<and> ns < 1000000000"
  by unfold_locales
     (auto simp only: as_timestamp_nano_def timestamp_split if_False if_True not_True_eq_False
        atotime_hms(3) atodate_ymd prod.case option.case bind.simps option.map set_append ymd_clean hms_clean padded_clean Un_iff, auto)

text \<open>A time point as the writer prints it, and as the epoch conversions read it.\<close>

definition millis_text :: "int \<Rightarrow> byte list" where
  "millis_text tp = (case timepointtoparts 1000 tp of (y, mo, d, h, mi, s, ms) \<Rightarrow>
     ymd_text y mo d @ [MINUS_CH] @ hms_text h mi s @ [DOT_CH] @ itoa_padded_unchecked ms 3)"

definition nanos_text :: "int \<Rightarrow> byte list" where
  "nanos_text tp = (case timepointtoparts_nano 1000000000 tp of (y, mo, d, h, mi, s, ns) \<Rightarrow>
     ymd_text y mo d @ [MINUS_CH] @ hms_text h mi s @ [DOT_CH] @ itoa_padded_unchecked ns 9)"

lemma parts_text:
  assumes "parts_ok y mo d h mi s"
  shows "ymd_text (int y) (int mo) (int d) = ymd_digits y mo d"
    and "hms_text (int h) (int mi) (int s) = hms_digits h mi s"
  using ymd_text_digits [of "int y" "int mo" "int d"] hms_text_digits [of "int h" "int mi" "int s"]
    parts_bounds(1-6) [OF assms]
  by (simp_all add: date_fields_ok_def time_fields_ok_def)

lemma millis_text_read:
  assumes "0 \<le> tp" "tp < 84371 * 86400 * 1000"
  shows "atotimepoint (millis_text tp) = Some (Some tp)"
proof -
  from timepoint_roundtrip [OF assms] obtain y mo d h mi s ms where
    p: "timepointtoparts 1000 tp = (int y, int mo, int d, int h, int mi, int s, int ms)"
      "parts_ok y mo d h mi s"
      "atotimepoint (ymd_digits y mo d @ [MINUS_CH] @ hms_digits h mi s @ [DOT_CH] @ low_digits 3 ms) = Some (Some tp)"
    by blast
  show ?thesis
    unfolding millis_text_def p(1) prod.case parts_text [OF p(2)] itoa_padded_eq by (rule p(3))
qed

lemma nanos_text_read:
  assumes "0 \<le> tp" "tp < 84371 * 86400 * 1000000000"
  shows "atotimepoint_nano (nanos_text tp) = Some (Some tp)"
proof -
  from timepoint_nano_roundtrip [OF assms] obtain y mo d h mi s ns where
    p: "timepointtoparts_nano 1000000000 tp = (int y, int mo, int d, int h, int mi, int s, int ns)"
      "parts_ok y mo d h mi s"
      "atotimepoint_nano (ymd_digits y mo d @ [MINUS_CH] @ hms_digits h mi s @ [DOT_CH] @ low_digits 9 ns) = Some (Some tp)"
    by blast
  show ?thesis
    unfolding nanos_text_def p(1) prod.case parts_text [OF p(2)] itoa_padded_eq by (rule p(3))
qed

lemma time_text_clean: "SOH \<notin> set (millis_text tp)" "SOH \<notin> set (nanos_text tp)"
  by (auto simp: millis_text_def nanos_text_def ymd_clean hms_clean padded_clean split: prod.splits)

interpretation epoch_millis_codec: field_codec "\<lambda>n. millis_text (sint n)" as_epoch_millis
    "\<lambda>n. 0 \<le> sint n \<and> sint n < 84371 * 86400 * 1000"
  by unfold_locales (simp_all only: as_epoch_millis_def millis_text_read time_text_clean option.map, simp_all)

interpretation epoch_nanos_codec: field_codec "\<lambda>n. nanos_text (sint n)" as_epoch_nanos
    "\<lambda>n. 0 \<le> sint n \<and> sint n < 84371 * 86400 * 1000000000"
  by unfold_locales (simp_all only: as_epoch_nanos_def nanos_text_read time_text_clean option.map, simp_all)

lemma push_epoch_millis:
  "push_back_timestamp_epoch_millis tag n w = guarded_put 34 (field_text tag (millis_text (sint n))) w"
  by (simp add: push_back_timestamp_epoch_millis_def push_back_timestamp_tp_def millis_text_def
      timestamp_op.op_guarded split: prod.splits)

lemma push_epoch_nanos:
  "push_back_timestamp_epoch_nanos tag n w = guarded_put 40 (field_text tag (nanos_text (sint n))) w"
  by (simp add: push_back_timestamp_epoch_nanos_def push_back_timestamp_nano_tp_def nanos_text_def
      timestamp_nano_op.op_guarded split: prod.splits)

end
