(* ===== verification/Repeating_Groups.thy ===== *)
theory Repeating_Groups
  imports Field_Values "HOL-Library.Product_Lexorder"
begin

text \<open>
  Repeating groups: \<open>basic_group_entry\<close>, \<open>basic_group_iterator\<close>, \<open>basic_group_view\<close> and the
  \<open>group()\<close> functions of a reader and of an entry. The result: the entries a view iterates are
  the fields from the first delimiter on, cut before every further delimiter, as many of them as
  the count field declares (\<open>chunks\<close>). The entry iterator is a \<open>forward_iterator\<close>.
\<close>

section \<open>Entries, iterators, views\<close>

record group_entry =
  ge_begin :: iter
  ge_end :: iter

record group_iterator =
  entry_begin :: iter
  entry_end :: iter
  group_end :: iter
  delimiter :: u32
  remaining :: nat

record group_view =
  view_begin :: iter
  view_end :: iter
  view_count :: nat
  view_delimiter :: u32

text \<open>\<open>while (it != stop && it->tag() != delimiter) ++it;\<close>\<close>

partial_function (option) skip_to_tag :: "byte list \<Rightarrow> u32 \<Rightarrow> iter \<Rightarrow> iter \<Rightarrow> iter option" where
  "skip_to_tag mem delim it stop =
     (if \<not> iter_eq it stop \<and> f_tag (it_current it) \<noteq> delim
      then do { it \<leftarrow> increment mem it; skip_to_tag mem delim it stop }
      else Some it)"

definition compute_entry_end :: "byte list \<Rightarrow> group_iterator \<Rightarrow> group_iterator option" where
  "compute_entry_end mem g = do {
     e \<leftarrow> increment mem (entry_begin g);
     e \<leftarrow> skip_to_tag mem (delimiter g) e (group_end g);
     Some (g\<lparr>entry_end := e\<rparr>)
   }"

definition at_group_end :: "group_iterator \<Rightarrow> group_iterator" where
  "at_group_end g = g\<lparr>entry_begin := group_end g, entry_end := group_end g, remaining := 0\<rparr>"

definition make_group_iterator :: "byte list \<Rightarrow> iter \<Rightarrow> iter \<Rightarrow> u32 \<Rightarrow> nat \<Rightarrow> group_iterator option" where
  "make_group_iterator mem b e delim n =
     (let g = \<lparr>entry_begin = b, entry_end = b, group_end = e, delimiter = delim, remaining = n\<rparr> in
      if remaining g = 0 \<or> iter_eq (entry_begin g) (group_end g) then Some (at_group_end g)
      else compute_entry_end mem g)"

definition group_deref :: "group_iterator \<Rightarrow> group_entry" where
  "group_deref g = \<lparr>ge_begin = entry_begin g, ge_end = entry_end g\<rparr>"

definition group_increment :: "byte list \<Rightarrow> group_iterator \<Rightarrow> group_iterator option" where
  "group_increment mem g =
     (let g = (if 0 < remaining g then g\<lparr>remaining := remaining g - 1\<rparr> else g) in
      if remaining g = 0 \<or> iter_eq (entry_end g) (group_end g) then Some (at_group_end g)
      else compute_entry_end mem (g\<lparr>entry_begin := entry_end g\<rparr>))"

definition group_iter_eq :: "group_iterator \<Rightarrow> group_iterator \<Rightarrow> bool" where
  "group_iter_eq a b \<longleftrightarrow> iter_eq (entry_begin a) (entry_begin b) \<and> remaining a = remaining b"

definition view_iter_begin :: "byte list \<Rightarrow> group_view \<Rightarrow> group_iterator option" where
  "view_iter_begin mem v = do {
     it \<leftarrow> skip_to_tag mem (view_delimiter v) (view_begin v) (view_end v);
     make_group_iterator mem it (view_end v) (view_delimiter v) (view_count v)
   }"

definition view_iter_end :: "byte list \<Rightarrow> group_view \<Rightarrow> group_iterator option" where
  "view_iter_end mem v = make_group_iterator mem (view_end v) (view_end v) (view_delimiter v) 0"

definition group_size :: "group_view \<Rightarrow> nat" where
  "group_size v = view_count v"

definition group_empty :: "group_view \<Rightarrow> bool" where
  "group_empty g \<longleftrightarrow> view_count g = 0"

definition empty_view :: "iter \<Rightarrow> u32 \<Rightarrow> group_view" where
  "empty_view e delim = \<lparr>view_begin = e, view_end = e, view_count = 0, view_delimiter = delim\<rparr>"

definition entry_empty :: "group_entry \<Rightarrow> bool" where
  "entry_empty en \<longleftrightarrow> iter_eq (ge_begin en) (ge_end en)"

definition entry_find_with_hint :: "byte list \<Rightarrow> group_entry \<Rightarrow> u32 \<Rightarrow> iter \<Rightarrow> (bool \<times> iter) option" where
  "entry_find_with_hint mem en tag it =
     find_with_hint (increment mem) iter_eq (ge_begin en) (ge_end en) (tag_equal tag) it"

section \<open>Finding a group\<close>

text \<open>The body that \<open>basic_message_reader::group\<close> and \<open>basic_group_entry::group\<close> share.\<close>

definition find_group :: "byte list \<Rightarrow> iter \<Rightarrow> iter \<Rightarrow> u32 \<Rightarrow> u32 \<Rightarrow> group_view option" where
  "find_group mem b e count_tag first_tag_in_group = do {
     (found, it) \<leftarrow> find_with_hint (increment mem) iter_eq b e (tag_equal count_tag) b;
     if \<not> found then Some (empty_view e first_tag_in_group)
     else do {
       bs \<leftarrow> value_bytes mem (f_value (it_current it));
       case (try_as_int False bs :: u64 option) of
         None \<Rightarrow> Some (empty_view e first_tag_in_group)
       | Some count \<Rightarrow> do {
           it \<leftarrow> increment mem it;
           Some \<lparr>view_begin = it, view_end = e, view_count = unat count,
             view_delimiter = first_tag_in_group\<rparr>
         }
     }
   }"

definition reader_group :: "byte list \<Rightarrow> reader \<Rightarrow> u32 \<Rightarrow> u32 \<Rightarrow> group_view option" where
  "reader_group mem r count_tag first_tag_in_group = do {
     b \<leftarrow> reader_begin r;
     e \<leftarrow> reader_end r;
     find_group mem b e count_tag first_tag_in_group
   }"

definition entry_group :: "byte list \<Rightarrow> group_entry \<Rightarrow> u32 \<Rightarrow> u32 \<Rightarrow> group_view option" where
  "entry_group mem en count_tag first_tag_in_group =
     find_group mem (ge_begin en) (ge_end en) count_tag first_tag_in_group"

text \<open>The loop of a client: the entries of a view.\<close>

definition group_entries :: "byte list \<Rightarrow> group_view \<Rightarrow> group_entry list option" where
  "group_entries mem v = do {
     b \<leftarrow> view_iter_begin mem v;
     e \<leftarrow> view_iter_end mem v;
     gs \<leftarrow> visit (group_increment mem) group_iter_eq b e;
     Some (map group_deref gs)
   }"

section \<open>What the entries are\<close>

text \<open>A list of fields cut before each field that satisfies \<open>P\<close>, the first one excepted.\<close>

function chunks :: "('a \<Rightarrow> bool) \<Rightarrow> 'a list \<Rightarrow> 'a list list" where
  "chunks P [] = []"
| "chunks P (x # xs) = (x # takeWhile (\<lambda>y. \<not> P y) xs) # chunks P (dropWhile (\<lambda>y. \<not> P y) xs)"
  by pat_completeness auto

termination
  by (relation "measure (\<lambda>(P, xs). length xs)") (auto simp: length_dropWhile_le le_imp_less_Suc)

lemma chunks_concat: "concat (chunks P xs) = xs"
  by (induction P xs rule: chunks.induct) simp_all

abbreviation at_tag :: "u32 \<Rightarrow> iter \<Rightarrow> bool" where
  "at_tag t it \<equiv> f_tag (it_current it) = t"

abbreviation fields_from :: "byte list \<Rightarrow> iter \<Rightarrow> iter \<Rightarrow> iter list \<Rightarrow> bool" where
  "fields_from mem stop it its \<equiv> visits (increment mem) iter_eq stop it its"

lemma skip_to_tag_visits:
  "fields_from mem stop it its \<Longrightarrow>
     \<exists>j. skip_to_tag mem d it stop = Some j \<and>
       fields_from mem stop j (dropWhile (\<lambda>y. \<not> at_tag d y) its)"
proof (induction its arbitrary: it)
  case Nil
  then show ?case by (subst skip_to_tag.simps) simp
next
  case (Cons x its)
  then obtain j where j: "x = it" "\<not> iter_eq it stop" "increment mem it = Some j" "fields_from mem stop j its"
    by auto
  show ?case
  proof (cases "at_tag d it")
    case True
    then show ?thesis using Cons.prems j by (subst skip_to_tag.simps) simp
  next
    case False
    with Cons.IH [OF j(4)] j show ?thesis by (subst skip_to_tag.simps) auto
  qed
qed

text \<open>An iterator at an entry that consists of the first chunk of the fields \<open>its\<close>.\<close>

definition at_entry :: "byte list \<Rightarrow> iter list \<Rightarrow> group_iterator \<Rightarrow> bool" where
  "at_entry mem its g \<longleftrightarrow> its \<noteq> [] \<and> entry_begin g = hd its \<and> 0 < remaining g \<and>
     sorted_wrt (<) (map it_buffer its) \<and>
     fields_from mem (entry_end g) (hd its) (hd its # takeWhile (\<lambda>y. \<not> at_tag (delimiter g) y) (tl its)) \<and>
     fields_from mem (group_end g) (entry_end g) (dropWhile (\<lambda>y. \<not> at_tag (delimiter g) y) (tl its)) \<and>
     (\<forall>it \<in> set its. it_buffer it \<noteq> it_buffer (group_end g))"

lemma visits_not_stop: "fields_from mem stop it its \<Longrightarrow> \<forall>x \<in> set its. it_buffer x \<noteq> it_buffer stop"
  by (induction its arbitrary: it) (auto simp: iter_eq_def)

lemma visits_cong_buffer:
  "it_buffer stop = it_buffer stop' \<Longrightarrow> fields_from mem stop it its = fields_from mem stop' it its"
  by (rule visits_cong) (simp add: iter_eq_def)

lemma compute_entry_end_at:
  assumes v: "fields_from mem (group_end g) (hd its) its" and ne: "its \<noteq> []" and b: "entry_begin g = hd its"
    and s: "sorted_wrt (<) (map it_buffer its)" and n: "0 < remaining g"
  shows "\<exists>e. compute_entry_end mem g = Some (g\<lparr>entry_end := e\<rparr>) \<and> at_entry mem its (g\<lparr>entry_end := e\<rparr>)"
proof -
  let ?P = "\<lambda>y. \<not> at_tag (delimiter g) y"
  obtain x xs where its: "its = x # xs" using ne by (cases its) auto
  with v obtain j where j: "increment mem x = Some j" "fields_from mem (group_end g) j xs" by auto
  from skip_to_tag_visits [OF j(2), of "delimiter g"] obtain e where
    e: "skip_to_tag mem (delimiter g) j (group_end g) = Some e"
      "fields_from mem (group_end g) e (dropWhile ?P xs)" by blast
  have split: "its = (x # takeWhile ?P xs) @ dropWhile ?P xs" by (simp add: its)
  have d: "distinct (map it_buffer its)" using s strict_sorted_iff by blast
  have "fields_from mem e x (x # takeWhile ?P xs)"
  proof (cases "dropWhile ?P xs")
    case Nil
    with e(2) have "it_buffer e = it_buffer (group_end g)" by (simp add: iter_eq_def)
    moreover have "takeWhile ?P xs = xs" using split Nil by (simp add: its)
    moreover have "fields_from mem e x (x # xs)"
      using v calculation(1) visits_cong_buffer [of e "group_end g" mem x its] by (simp add: its)
    ultimately show ?thesis by (simp only:)
  next
    case (Cons y ys)
    with e(2) have "e = y" by simp
    have v': "fields_from mem (group_end g) x its" using v its by simp
    have eq: "its = (x # takeWhile ?P xs) @ y # ys" using split Cons by simp
    show ?thesis unfolding \<open>e = y\<close>
      by (rule field_it.visits_prefix [OF v' [unfolded eq] d [unfolded eq]])
  qed
  then show ?thesis
    using j(1) e its b s n visits_not_stop [OF v]
    by (auto simp: compute_entry_end_def at_entry_def)
qed

text \<open>The iterator one past the last entry.\<close>

abbreviation ends_group :: "group_iterator \<Rightarrow> group_iterator \<Rightarrow> bool" where
  "ends_group stop g \<equiv> it_buffer (entry_begin stop) = it_buffer (group_end g) \<and> remaining stop = 0"

definition group_range :: "byte list \<Rightarrow> group_iterator \<Rightarrow> group_iterator \<Rightarrow> bool" where
  "group_range mem g stop \<longleftrightarrow> ends_group stop g \<and>
     (group_iter_eq g stop \<or> (\<exists>its. at_entry mem its g))"

definition group_key :: "group_iterator \<Rightarrow> nat \<times> int" where
  "group_key g = (it_buffer (entry_begin g), - int (remaining g))"

lemma group_increment_at:
  assumes g: "at_entry mem its g"
  defines "rest \<equiv> dropWhile (\<lambda>y. \<not> at_tag (delimiter g) y) (tl its)"
  shows "\<exists>g'. group_increment mem g = Some g' \<and> group_end g' = group_end g \<and> delimiter g' = delimiter g \<and>
    (if remaining g = 1 \<or> rest = [] then it_buffer (entry_begin g') = it_buffer (group_end g) \<and> remaining g' = 0
     else at_entry mem rest g' \<and> remaining g' = remaining g - 1)"
proof -
  let ?g = "g\<lparr>remaining := remaining g - 1\<rparr>"
  have v: "fields_from mem (group_end g) (entry_end g) rest"
    and n: "0 < remaining g" and ne: "its \<noteq> []" and s: "sorted_wrt (<) (map it_buffer its)"
    using g by (auto simp: at_entry_def rest_def)
  have stop: "iter_eq (entry_end g) (group_end g) \<longleftrightarrow> rest = []"
    using v by (cases rest) auto
  have "its = hd its # takeWhile (\<lambda>y. \<not> at_tag (delimiter g) y) (tl its) @ rest"
    using ne by (simp add: rest_def)
  then have sr: "sorted_wrt (<) (map it_buffer rest)"
    using s by (metis append_Cons map_append sorted_wrt_append)
  show ?thesis
  proof (cases "remaining g = 1 \<or> rest = []")
    case True
    then show ?thesis using n stop by (auto simp: group_increment_def at_group_end_def Let_def)
  next
    case False
    then have h: "entry_end g = hd rest" using v by (cases rest) auto
    from compute_entry_end_at [of mem "?g\<lparr>entry_begin := entry_end ?g\<rparr>" rest] v sr False n h
    obtain e where "compute_entry_end mem (?g\<lparr>entry_begin := entry_end ?g\<rparr>) =
        Some (?g\<lparr>entry_begin := entry_end ?g, entry_end := e\<rparr>)"
      "at_entry mem rest (?g\<lparr>entry_begin := entry_end ?g, entry_end := e\<rparr>)"
      by auto
    with False n stop show ?thesis by (auto simp: group_increment_def Let_def)
  qed
qed

interpretation group_it: forward_iterator "group_increment mem" group_iter_eq group_key
  "group_range mem" "\<lambda>g stop. remaining g" for mem
proof unfold_locales
  show "group_iter_eq a b \<longleftrightarrow> group_key a = group_key b" for a b
    by (simp add: group_iter_eq_def group_key_def iter_eq_def)
  show "\<exists>c. group_increment mem a = Some c \<and> group_range mem c b \<and> remaining c < remaining a \<and>
      (group_key c = group_key b \<or> group_key a < group_key c)"
    if r: "group_range mem a b" and k: "group_key a \<noteq> group_key b" for a b
  proof -
    from r k obtain its where its: "at_entry mem its a" and e: "ends_group b a"
      by (auto simp: group_range_def group_iter_eq_def group_key_def iter_eq_def)
    have n: "0 < remaining a" using its by (simp add: at_entry_def)
    let ?rest = "dropWhile (\<lambda>y. \<not> at_tag (delimiter a) y) (tl its)"
    from group_increment_at [OF its] obtain c where
      c: "group_increment mem a = Some c" "group_end c = group_end a"
        "if remaining a = 1 \<or> ?rest = [] then it_buffer (entry_begin c) = it_buffer (group_end a) \<and> remaining c = 0
         else at_entry mem ?rest c \<and> remaining c = remaining a - 1" by blast
    show ?thesis
    proof (cases "remaining a = 1 \<or> ?rest = []")
      case True
      with c e n show ?thesis
        by (auto simp: group_range_def group_key_def group_iter_eq_def iter_eq_def)
    next
      case False
      then have "hd ?rest \<in> set (tl its)" "?rest \<noteq> []"
        by (meson hd_in_set set_dropWhileD)+
      moreover have c': "at_entry mem ?rest c" "remaining c = remaining a - 1"
        using c(3) by (simp_all only: False if_False)
      then have "entry_begin c = hd ?rest" by (simp only: at_entry_def)
      moreover have "entry_begin a = hd its" "its \<noteq> []" "sorted_wrt (<) (map it_buffer its)"
        using its unfolding at_entry_def by blast+
      ultimately have "it_buffer (entry_begin a) < it_buffer (entry_begin c)"
        by (cases its) auto
      moreover have "group_range mem c b" using c' c(2) e by (auto simp: group_range_def)
      ultimately show ?thesis using c(1) c'(2) n by (simp add: group_key_def)
    qed
  qed
qed

text \<open>The entries from an iterator on are the chunks of the fields, as many as remain.\<close>

abbreviation entry_fields :: "byte list \<Rightarrow> group_entry \<Rightarrow> iter list \<Rightarrow> bool" where
  "entry_fields mem en its \<equiv> fields_from mem (ge_end en) (ge_begin en) its"

lemma entries_at:
  assumes "at_entry mem its g" "ends_group stop g"
  shows "\<exists>gs. visits (group_increment mem) group_iter_eq stop g gs \<and>
    list_all2 (entry_fields mem) (map group_deref gs) (take (remaining g) (chunks (at_tag (delimiter g)) its))"
  using assms
proof (induction "remaining g" arbitrary: g its rule: less_induct)
  case less
  let ?rest = "dropWhile (\<lambda>y. \<not> at_tag (delimiter g) y) (tl its)"
  let ?one = "hd its # takeWhile (\<lambda>y. \<not> at_tag (delimiter g) y) (tl its)"
  have n: "0 < remaining g" and f: "entry_fields mem (group_deref g) ?one"
    and ne: "its \<noteq> []" using less.prems(1) by (simp_all add: at_entry_def group_deref_def)
  have c: "chunks (at_tag (delimiter g)) its = ?one # chunks (at_tag (delimiter g)) ?rest"
    using ne by (cases its) simp_all
  have neq: "\<not> group_iter_eq g stop" using n less.prems(2) by (simp add: group_iter_eq_def)
  from group_increment_at [OF less.prems(1)] obtain h where
    h: "group_increment mem g = Some h" "group_end h = group_end g" "delimiter h = delimiter g"
      "if remaining g = 1 \<or> ?rest = [] then it_buffer (entry_begin h) = it_buffer (group_end g) \<and> remaining h = 0
       else at_entry mem ?rest h \<and> remaining h = remaining g - 1" by blast
  show ?case
  proof (cases "remaining g = 1 \<or> ?rest = []")
    case True
    have "take (remaining g - 1) (chunks (at_tag (delimiter g)) ?rest) = []"
      using True by (elim disjE) (simp, simp only: chunks.simps take_Nil)
    then have t: "take (remaining g) (chunks (at_tag (delimiter g)) its) = [?one]"
      using n by (simp add: c take_Cons')
    have "group_iter_eq h stop" using h(2,4) True less.prems(2)
      by (simp add: group_iter_eq_def iter_eq_def)
    then have "visits (group_increment mem) group_iter_eq stop g [g]" using neq h(1) by simp
    with f t show ?thesis by (metis (no_types, lifting) list.rel_inject(2) list.rel_intros(1) list.simps(8,9))
  next
    case False
    with h(4) have h4: "at_entry mem ?rest h" "remaining h = remaining g - 1" by (simp_all only: if_False)
    from less.hyps [OF _ h4(1)] h4(2) h(2,3) n less.prems(2) obtain gs where
      gs: "visits (group_increment mem) group_iter_eq stop h gs"
        "list_all2 (entry_fields mem) (map group_deref gs)
           (take (remaining g - 1) (chunks (at_tag (delimiter g)) ?rest))" by auto
    have "visits (group_increment mem) group_iter_eq stop g (g # gs)"
      using neq h(1) gs(1) by simp
    moreover have "list_all2 (entry_fields mem) (map group_deref (g # gs))
        (take (remaining g) (chunks (at_tag (delimiter g)) its))"
      unfolding c using n f gs(2) by (simp add: take_Cons')
    ultimately show ?thesis by blast
  qed
qed

lemma group_entries_result:
  assumes v: "fields_from mem (view_end v) (view_begin v) its"
    and s: "sorted_wrt (<) (map it_buffer its)"
  shows "\<exists>es. group_entries mem v = Some es \<and> list_all2 (entry_fields mem) es
    (take (view_count v) (chunks (at_tag (view_delimiter v))
       (dropWhile (\<lambda>it. \<not> at_tag (view_delimiter v) it) its)))"
proof -
  let ?d = "view_delimiter v" and ?rest = "dropWhile (\<lambda>it. \<not> at_tag (view_delimiter v) it) its"
  let ?stop = "at_group_end \<lparr>entry_begin = view_end v, entry_end = view_end v, group_end = view_end v,
      delimiter = ?d, remaining = 0\<rparr>"
  from skip_to_tag_visits [OF v, of ?d] obtain j where
    j: "skip_to_tag mem ?d (view_begin v) (view_end v) = Some j" "fields_from mem (view_end v) j ?rest" by blast
  have e: "view_iter_end mem v = Some ?stop" by (simp add: view_iter_end_def make_group_iterator_def)
  let ?g = "\<lparr>entry_begin = j, entry_end = j, group_end = view_end v, delimiter = ?d, remaining = view_count v\<rparr>"
  show ?thesis
  proof (cases "view_count v = 0 \<or> ?rest = []")
    case True
    then have "take (view_count v) (chunks (at_tag ?d) ?rest) = []"
      by (elim disjE) (simp, simp only: chunks.simps take_Nil)
    moreover have "view_iter_begin mem v = Some (at_group_end ?g)"
    proof (cases "view_count v = 0")
      case False
      with True have "iter_eq j (view_end v)" using j(2) by (metis visits.simps(1))
      then show ?thesis using j(1) by (simp add: view_iter_begin_def make_group_iterator_def)
    qed (simp add: view_iter_begin_def make_group_iterator_def j(1))
    moreover have "visit (group_increment mem) group_iter_eq (at_group_end ?g) ?stop = Some []"
      by (subst visit.simps) (simp add: at_group_end_def group_iter_eq_def iter_eq_def)
    ultimately show ?thesis using e by (auto simp: group_entries_def)
  next
    case False
    have ne: "?rest \<noteq> []" and n: "0 < view_count v" using False by simp_all
    have h: "j = hd ?rest" "\<not> iter_eq j (view_end v)" using j(2) ne by (cases ?rest; simp)+
    have "sorted_wrt (<) (map it_buffer ?rest)"
      using s by (metis map_append sorted_wrt_append takeWhile_dropWhile_id)
    with compute_entry_end_at [of mem ?g ?rest] j(2) ne n h obtain x where
      x: "compute_entry_end mem ?g = Some (?g\<lparr>entry_end := x\<rparr>)" "at_entry mem ?rest (?g\<lparr>entry_end := x\<rparr>)"
      by auto
    have b: "view_iter_begin mem v = Some (?g\<lparr>entry_end := x\<rparr>)"
      using j(1) x(1) n h(2) by (simp add: view_iter_begin_def make_group_iterator_def)
    from entries_at [OF x(2), of ?stop] obtain gs where
      "visits (group_increment mem) group_iter_eq ?stop (?g\<lparr>entry_end := x\<rparr>) gs"
      "list_all2 (entry_fields mem) (map group_deref gs) (take (view_count v) (chunks (at_tag ?d) ?rest))"
      by (auto simp: at_group_end_def)
    with b e show ?thesis by (auto simp: group_entries_def visit_iff [symmetric])
  qed
qed

section \<open>The groups of a message\<close>

text \<open>
  The group of a count field: the fields behind the first field with the count tag. Without such
  a field, or when its value is not a number, the view is empty.
\<close>

lemma find_tag_visits:
  assumes "fields_from mem e b its"
  shows "find_with_hint (increment mem) iter_eq b e (tag_equal tag) b =
    Some (case find (tag_equal tag) its of None \<Rightarrow> (False, b) | Some j \<Rightarrow> (True, j))"
proof -
  from find_if_visits [OF assms, of "tag_equal tag"] obtain j where
    j: "find_if (increment mem) iter_eq (tag_equal tag) b e = Some j"
      "case find (tag_equal tag) its of None \<Rightarrow> iter_eq j e | Some x \<Rightarrow> j = x \<and> \<not> iter_eq j e" by blast
  have "find_if (increment mem) iter_eq (tag_equal tag) b b = Some b"
    by (subst find_if.simps) (simp add: iter_eq_def)
  then show ?thesis
    using j(2) by (auto simp: find_with_hint_def j(1) iter_eq_def split: option.splits)
qed

lemma find_group_absent:
  assumes "fields_from mem e b its"
    and "\<forall>x \<in> set its. \<not> at_tag count_tag x"
  shows "find_group mem b e count_tag d = Some (empty_view e d)"
proof -
  have "find (tag_equal count_tag) its = None"
    using assms(2) by (simp add: find_None_iff tag_equal_def)
  then show ?thesis by (simp add: find_group_def find_tag_visits [OF assms(1)])
qed

lemma find_group_count:
  assumes v: "fields_from mem e b (pre @ x # post)"
    and pre: "\<forall>y \<in> set pre. \<not> at_tag count_tag y" and x: "at_tag count_tag x"
    and bs: "value_bytes mem (f_value (it_current x)) = Some bs"
  shows "\<exists>g. find_group mem b e count_tag d = Some g \<and> view_delimiter g = d \<and>
    (case try_as_int False bs :: u64 option of
       None \<Rightarrow> g = empty_view e d
     | Some n \<Rightarrow> view_count g = unat n \<and> fields_from mem (view_end g) (view_begin g) post)"
proof -
  have "find (tag_equal count_tag) (pre @ x # post) = Some x"
    using pre x by (induction pre) (auto simp: tag_equal_def)
  then have f: "find_with_hint (increment mem) iter_eq b e (tag_equal count_tag) b = Some (True, x)"
    by (simp add: find_tag_visits [OF v])
  have "fields_from mem e x (x # post)"
    using field_it.visits_suffix [OF v] by simp
  then obtain j where "increment mem x = Some j" "fields_from mem e j post" by auto
  then show ?thesis using bs
    by (cases "try_as_int False bs :: u64 option") (auto simp: find_group_def f empty_view_def)
qed

text \<open>The client's view of a group: the fields of its entries.\<close>

definition group_fields :: "nat \<Rightarrow> u32 \<Rightarrow> iter list \<Rightarrow> iter list list" where
  "group_fields n d its = take n (chunks (at_tag d) (dropWhile (\<lambda>it. \<not> at_tag d it) its))"

lemma reader_group_entries:
  assumes fr: "framed mem r"
    and v: "visit (increment mem) iter_eq (r_begin r) (r_end r) = Some (pre @ x # post)"
    and pre: "\<forall>y \<in> set pre. \<not> at_tag count_tag y" and x: "at_tag count_tag x"
    and n: "Option.bind (value_bytes mem (f_value (it_current x))) (try_as_int False) = Some (n :: u64)"
  shows "\<exists>g es. reader_group mem r count_tag d = Some g \<and> group_size g = unat n \<and>
    group_entries mem g = Some es \<and> list_all2 (entry_fields mem) es (group_fields (unat n) d post)"
proof -
  have valid: "r_valid r" using fr by (auto simp: framed_def)
  from n obtain bs where bs: "value_bytes mem (f_value (it_current x)) = Some bs"
    "try_as_int False bs = Some n" by (auto simp: bind_eq_Some_conv)
  from v have "fields_from mem (r_end r) (r_begin r) (pre @ x # post)" by (simp add: visit_iff)
  from find_group_count [OF this pre x bs(1), of d] bs(2) obtain g where
    g: "find_group mem (r_begin r) (r_end r) count_tag d = Some g" "view_delimiter g = d"
      "view_count g = unat n" "fields_from mem (view_end g) (view_begin g) post" by auto
  have "sorted_wrt (<) (map it_buffer post)"
    using field_it.visit_sorted [OF framed_range [OF fr] v] by (simp add: sorted_wrt_append)
  from group_entries_result [OF g(4) this] g valid show ?thesis
    by (auto simp: reader_group_def reader_begin_def reader_end_def group_size_def group_fields_def)
qed

text \<open>
  At the end of a message the field iterator stays where it is, so a search in an entry whose end
  comes earlier never meets its end when it starts there.
\<close>

lemma increment_at_end: "framed mem r \<Longrightarrow> increment mem (r_end r) = Some (r_end r)"
proof -
  assume "framed mem r"
  then obtain c where r: "r_end r = \<lparr>it_buffer = c, it_message_end = c + 7,
      it_current = mk_field 10 (c + 3) (c + 6)\<rparr>" by (auto simp: framed_def)
  have "tag_scan [EQ_CH, SOH] mem (7 + c) (c + 7) 0 = Some (7 + c, 0)"
    by (subst tag_scan.simps) simp
  then show ?thesis
    unfolding r by (simp add: increment_def set_at_end_def mk_field_def mk_value_def Let_def)
qed

text \<open>However often it is incremented, the iterator at the message's end is neither the end of the
  entry nor at a field with the tag: the search makes progress nowhere, and nothing fails.\<close>

lemma stays_at_end: "framed mem r \<Longrightarrow> advance mem n (r_end r) = Some (r_end r)"
  by (induction n) (simp_all add: increment_at_end)

lemma entry_search_diverges:
  assumes "framed mem r" "it_buffer (ge_end en) \<noteq> it_buffer (r_end r)" "tag \<noteq> 10"
  shows "entry_find_with_hint mem en tag (r_end r) = None"
    and "\<exists>it. advance mem n (r_end r) = Some it \<and> \<not> iter_eq it (ge_end en) \<and> \<not> tag_equal tag it"
proof -
  have "f_tag (it_current (r_end r)) = 10" using assms(1) by (auto simp: framed_def mk_field_def)
  then have stuck: "\<not> iter_eq (r_end r) (ge_end en)" "\<not> tag_equal tag (r_end r)"
    using assms(2,3) by (auto simp: iter_eq_def tag_equal_def)
  then have "find_if (increment mem) iter_eq (tag_equal tag) (r_end r) (ge_end en) = None"
    using increment_at_end [OF assms(1)] by (intro find_if_diverges [where S = "\<lambda>x. x = r_end r"]) auto
  then show "entry_find_with_hint mem en tag (r_end r) = None"
    by (simp add: entry_find_with_hint_def find_with_hint_def)
  show "\<exists>it. advance mem n (r_end r) = Some it \<and> \<not> iter_eq it (ge_end en) \<and> \<not> tag_equal tag it"
    using stays_at_end [OF assms(1)] stuck by blast
qed

end
