(* ===== verification/Indexed_Message.thy ===== *)
theory Indexed_Message
  imports Repeating_Groups
begin

text \<open>
  \<open>field_index_buffer<N>\<close>, \<open>basic_indexed_message\<close> and the two \<open>build_field_index\<close> functions:
  the fields of a message or of a group entry, copied into two parallel arrays of the caller.
  The spans of an index are modelled by the lists they show; the arrays' capacity \<open>N\<close> is
  their length. The results: an index shows the first \<open>N\<close> fields of the message, the packed
  offsets give the values back, and a search in an authoritative index finds the field that the
  linear search of the reader finds.
\<close>

section \<open>The arrays and the index\<close>

record field_index_buffer =
  ib_tags :: "u32 list"
  ib_pos_len :: "u64 list"

abbreviation buffer_ok :: "field_index_buffer \<Rightarrow> bool" where
  "buffer_ok buf \<equiv> length (ib_pos_len buf) = length (ib_tags buf)"

record indexed_message =
  im_begin :: ptr
  im_tags :: "u32 list"
  im_pos_len :: "u64 list"
  im_truncated :: bool
  im_overflowed :: bool

definition kMaxIndexableMessageBytes :: nat where
  "kMaxIndexableMessageBytes = 2 ^ 32 - 1"

definition no_index :: indexed_message where
  "no_index = \<lparr>im_begin = null, im_tags = [], im_pos_len = [], im_truncated = False, im_overflowed = False\<rparr>"

definition field_count :: "indexed_message \<Rightarrow> nat" where
  "field_count im = length (im_tags im)"

definition authoritative :: "indexed_message \<Rightarrow> bool" where
  "authoritative im \<longleftrightarrow> \<not> im_truncated im \<and> \<not> im_overflowed im"

definition tag_at :: "indexed_message \<Rightarrow> nat \<Rightarrow> u32 option" where
  "tag_at im i = (if i < length (im_tags im) then Some (im_tags im ! i) else None)"

definition value_at :: "indexed_message \<Rightarrow> nat \<Rightarrow> field_value option" where
  "value_at im i =
     (if i < length (im_pos_len im)
      then let pl = im_pos_len im ! i; b = im_begin im + unat (drop_bit 32 pl)
        in Some (mk_value b (b + unat (ucast pl :: u32)))
      else None)"

text \<open>The first position of a tag, or the number of tags.\<close>

fun find_tag_in_index :: "u32 list \<Rightarrow> u32 \<Rightarrow> nat" where
  "find_tag_in_index [] tag = 0"
| "find_tag_in_index (t # ts) tag = (if t = tag then 0 else Suc (find_tag_in_index ts tag))"

definition has :: "indexed_message \<Rightarrow> u32 \<Rightarrow> bool" where
  "has im tag \<longleftrightarrow> find_tag_in_index (im_tags im) tag \<noteq> length (im_tags im)"

text \<open>The value and the new hint; \<open>{}\<close> is the default value.\<close>

definition indexed_find_with_hint :: "indexed_message \<Rightarrow> u32 \<Rightarrow> nat \<Rightarrow> (field_value \<times> nat) option" where
  "indexed_find_with_hint im tag hint =
     (let n = length (im_tags im);
        hint = (if n < hint then 0 else hint);
        suffix_n = n - hint;
        i = find_tag_in_index (drop hint (im_tags im)) tag
      in if i \<noteq> suffix_n then do { v \<leftarrow> value_at im (hint + i); Some (v, hint + i) }
        else let j = find_tag_in_index (take hint (im_tags im)) tag
          in if j \<noteq> hint then do { v \<leftarrow> value_at im j; Some (v, j) }
            else Some (mk_value null null, hint))"

section \<open>Building an index\<close>

definition pack_pos_len :: "int \<Rightarrow> int \<Rightarrow> u64" where
  "pack_pos_len pos len = or (push_bit 32 (word_of_int pos)) (ucast (word_of_int len :: u32))"

text \<open>
  The loop over the fields; \<open>too_big\<close> is the range check of the entry's overload, absent from
  the reader's. The result is the overflow flag, the number of fields, the iterator and the arrays.
\<close>

function index_loop ::
  "(int \<Rightarrow> int \<Rightarrow> bool) \<Rightarrow> byte list \<Rightarrow> ptr \<Rightarrow> iter \<Rightarrow> iter \<Rightarrow> nat \<Rightarrow> field_index_buffer \<Rightarrow>
     (bool \<times> nat \<times> iter \<times> field_index_buffer) option" where
  "index_loop too_big mem base stop it count buf =
     (if \<not> iter_eq it stop \<and> count < length (ib_tags buf)
      then let v = f_value (it_current it);
          pos = int (fv_begin v) - int base;
          len = int (fv_end v) - int (fv_begin v)
        in if too_big pos len then Some (True, count, it, buf)
          else do {
            let buf = buf\<lparr>ib_tags := (ib_tags buf)[count := f_tag (it_current it)],
              ib_pos_len := (ib_pos_len buf)[count := pack_pos_len pos len]\<rparr>;
            it \<leftarrow> increment mem it;
            index_loop too_big mem base stop it (count + 1) buf
          }
      else Some (False, count, it, buf))"
  by pat_completeness auto

termination
  by (relation "measure (\<lambda>(too_big, mem, base, stop, it, count, buf). length (ib_tags buf) - count)") auto

declare index_loop.simps [simp del]

definition index_of :: "ptr \<Rightarrow> iter \<Rightarrow> bool \<times> nat \<times> iter \<times> field_index_buffer \<Rightarrow> indexed_message" where
  "index_of base stop = (\<lambda>(overflow, count, it, buf).
     if overflow then no_index\<lparr>im_begin := base, im_overflowed := True\<rparr>
     else \<lparr>im_begin = base, im_tags = take count (ib_tags buf), im_pos_len = take count (ib_pos_len buf),
       im_truncated = (\<not> iter_eq it stop), im_overflowed = False\<rparr>)"

definition build_field_index :: "byte list \<Rightarrow> reader \<Rightarrow> field_index_buffer \<Rightarrow>
    (indexed_message \<times> field_index_buffer) option" where
  "build_field_index mem r buf =
     (if \<not> r_valid r then Some (no_index, buf)
      else do {
        let base = r_buffer r;
        msg_size \<leftarrow> message_size r;
        if kMaxIndexableMessageBytes < msg_size
        then Some (no_index\<lparr>im_begin := base, im_overflowed := True\<rparr>, buf)
        else do {
          b \<leftarrow> reader_begin r;
          e \<leftarrow> reader_end r;
          res \<leftarrow> index_loop (\<lambda>pos len. False) mem base e b 0 buf;
          Some (index_of base e res, snd (snd (snd res)))
        }
      })"

definition build_entry_index :: "byte list \<Rightarrow> group_entry \<Rightarrow> field_index_buffer \<Rightarrow>
    (indexed_message \<times> field_index_buffer) option" where
  "build_entry_index mem en buf =
     (let b = ge_begin en; e = ge_end en in
      if iter_eq b e then Some (no_index, buf)
      else do {
        let base = it_buffer b;
        res \<leftarrow> index_loop (\<lambda>pos len. pos < 0 \<or> 2 ^ 32 - 1 < pos \<or> len < 0 \<or> 2 ^ 32 - 1 < len) mem base e b 0 buf;
        Some (index_of base e res, snd (snd (snd res)))
      })"

section \<open>The packed offsets\<close>

lemma small_no_bit: "unat (w :: u64) < 2 ^ 32 \<Longrightarrow> 32 \<le> n \<Longrightarrow> \<not> bit w n"
proof -
  assume "unat w < 2 ^ 32" "32 \<le> n"
  then have "unat w < 2 ^ n" by (meson order_less_le_trans power_increasing one_le_numeral)
  then have "\<not> bit (unat w) n" by (simp add: bit_iff_odd)
  then show ?thesis by (simp add: bit_unsigned_iff)
qed

lemma small_unat:
  "0 \<le> k \<Longrightarrow> k < 2 ^ 32 \<Longrightarrow> unat (word_of_int k :: u64) = nat k"
  "0 \<le> k \<Longrightarrow> k < 2 ^ 32 \<Longrightarrow> unat (word_of_int k :: u32) = nat k"
  by (simp_all add: unat_eq_nat_uint unsigned_of_int take_bit_int_eq_self)

lemma pack_pos:
  assumes "0 \<le> pos" "pos < 2 ^ 32"
  shows "unat (drop_bit 32 (pack_pos_len pos len)) = nat pos"
proof -
  have s: "unat (word_of_int pos :: u64) < 2 ^ 32"
    using assms small_unat(1) [OF assms] by simp
  have "drop_bit 32 (pack_pos_len pos len) = (word_of_int pos :: u64)"
  proof (rule bit_word_eqI)
    fix n assume n: "n < LENGTH(64)"
    show "bit (drop_bit 32 (pack_pos_len pos len)) n = bit (word_of_int pos :: u64) n"
      using n small_no_bit [OF s, of n] by (cases "n < 32")
        (auto simp: pack_pos_len_def bit_drop_bit_eq bit_or_iff bit_push_bit_iff bit_ucast_iff
          dest: bit_imp_le_length)
  qed
  then show ?thesis using small_unat(1) [OF assms] by simp
qed

lemma pack_len:
  assumes "0 \<le> len" "len < 2 ^ 32"
  shows "unat (ucast (pack_pos_len pos len) :: u32) = nat len"
proof -
  have "(ucast (pack_pos_len pos len) :: u32) = word_of_int len"
    by (rule bit_word_eqI) (auto simp: pack_pos_len_def bit_ucast_iff bit_or_iff bit_push_bit_iff)
  then show ?thesis using small_unat(2) [OF assms] by simp
qed

section \<open>What an index shows\<close>

abbreviation field_pos_len :: "ptr \<Rightarrow> iter \<Rightarrow> u64" where
  "field_pos_len base it \<equiv> pack_pos_len (int (fv_begin (f_value (it_current it))) - int base)
     (int (fv_end (f_value (it_current it))) - int (fv_begin (f_value (it_current it))))"

abbreviation field_tag :: "iter \<Rightarrow> u32" where "field_tag it \<equiv> f_tag (it_current it)"

lemma take_update_snoc: "n < length xs \<Longrightarrow> take (Suc n) (xs[n := x]) = take n xs @ [x]"
  by (simp add: take_Suc_conv_app_nth)

lemma index_loop_result:
  assumes "fields_from mem stop it its" "buffer_ok buf" "n \<le> length (ib_tags buf)"
    and "\<forall>x \<in> set its. \<not> too_big (int (fv_begin (f_value (it_current x))) - int base)
      (int (fv_end (f_value (it_current x))) - int (fv_begin (f_value (it_current x))))"
  shows "\<exists>j buf'. index_loop too_big mem base stop it n buf =
      Some (False, min (length (ib_tags buf)) (n + length its), j, buf') \<and>
    (iter_eq j stop \<longleftrightarrow> n + length its \<le> length (ib_tags buf)) \<and>
    length (ib_tags buf') = length (ib_tags buf) \<and> length (ib_pos_len buf') = length (ib_tags buf) \<and>
    take (n + length its) (ib_tags buf') =
      take n (ib_tags buf) @ take (length (ib_tags buf) - n) (map field_tag its) \<and>
    take (n + length its) (ib_pos_len buf') =
      take n (ib_pos_len buf) @ take (length (ib_tags buf) - n) (map (field_pos_len base) its)"
  using assms
proof (induction its arbitrary: it n buf)
  case Nil
  then show ?case by (subst index_loop.simps) simp
next
  case (Cons x its)
  then obtain j where j: "x = it" "\<not> iter_eq it stop" "increment mem it = Some j" "fields_from mem stop j its"
    by auto
  show ?case
  proof (cases "n < length (ib_tags buf)")
    case False
    with Cons.prems j show ?thesis by (subst index_loop.simps) simp
  next
    case True
    let ?buf = "buf\<lparr>ib_tags := (ib_tags buf)[n := field_tag it],
      ib_pos_len := (ib_pos_len buf)[n := field_pos_len base it]\<rparr>"
    have step: "index_loop too_big mem base stop it n buf = index_loop too_big mem base stop j (n + 1) ?buf"
      using True Cons.prems(4) j by (subst index_loop.simps) (simp add: Let_def)
    from True have k: "length (ib_tags buf) - n = Suc (length (ib_tags buf) - Suc n)" by simp
    from Cons.IH [OF j(4), of ?buf "n + 1"] Cons.prems(2-4) True
    show ?thesis unfolding step
      by (simp add: take_update_snoc k j(1))
  qed
qed

lemma index_of_result:
  assumes "fields_from mem stop it its" "buffer_ok buf"
    and "\<forall>x \<in> set its. \<not> too_big (int (fv_begin (f_value (it_current x))) - int base)
      (int (fv_end (f_value (it_current x))) - int (fv_begin (f_value (it_current x))))"
  defines "N \<equiv> length (ib_tags buf)"
  shows "\<exists>res. index_loop too_big mem base stop it 0 buf = Some res \<and> index_of base stop res =
    \<lparr>im_begin = base, im_tags = take N (map field_tag its), im_pos_len = take N (map (field_pos_len base) its),
      im_truncated = (N < length its), im_overflowed = False\<rparr>"
proof -
  from index_loop_result [OF assms(1,2) _ assms(3), of 0] obtain j buf' where
    r: "index_loop too_big mem base stop it 0 buf = Some (False, min N (length its), j, buf')"
      "iter_eq j stop \<longleftrightarrow> length its \<le> N" "length (ib_tags buf') = N" "length (ib_pos_len buf') = N"
      "take (length its) (ib_tags buf') = take N (map field_tag its)"
      "take (length its) (ib_pos_len buf') = take N (map (field_pos_len base) its)"
    by (auto simp: N_def)
  have "take (min N (length its)) (ib_tags buf') = take N (map field_tag its)"
    "take (min N (length its)) (ib_pos_len buf') = take N (map (field_pos_len base) its)"
    using r(3-6) by (cases "length its \<le> N"; simp add: min_def)+
  with r(1,2) show ?thesis by (auto simp: index_of_def)
qed

text \<open>The positions and lengths of fields that lie in the 4 GiB from \<open>base\<close> on.\<close>

definition near_field :: "ptr \<Rightarrow> iter \<Rightarrow> bool" where
  "near_field base it \<longleftrightarrow> base \<le> fv_begin (f_value (it_current it)) \<and>
     fv_begin (f_value (it_current it)) \<le> fv_end (f_value (it_current it)) \<and>
     fv_end (f_value (it_current it)) < base + 2 ^ 32"

text \<open>An index shows the fields \<open>its\<close>.\<close>

definition indexes :: "indexed_message \<Rightarrow> iter list \<Rightarrow> bool" where
  "indexes im its \<longleftrightarrow> im_tags im = map field_tag its \<and>
     im_pos_len im = map (field_pos_len (im_begin im)) its \<and> (\<forall>it \<in> set its. near_field (im_begin im) it)"

lemma value_at_index:
  assumes "indexes im its" "i < length its"
  shows "value_at im i = Some (f_value (it_current (its ! i)))"
proof -
  let ?v = "f_value (it_current (its ! i))" and ?b = "im_begin im"
  have near: "near_field ?b (its ! i)" using assms by (simp add: indexes_def)
  have "im_pos_len im ! i = pack_pos_len (int (fv_begin ?v) - int ?b) (int (fv_end ?v) - int (fv_begin ?v))"
    "i < length (im_pos_len im)" using assms by (simp_all add: indexes_def)
  moreover have "mk_value (?b + nat (int (fv_begin ?v) - int ?b))
      (?b + nat (int (fv_begin ?v) - int ?b) + nat (int (fv_end ?v) - int (fv_begin ?v))) = ?v"
    using near by (cases ?v) (simp add: near_field_def mk_value_def nat_diff_distrib)
  ultimately show ?thesis
    using near by (simp add: value_at_def Let_def near_field_def pack_pos pack_len)
qed

lemma find_tag_find:
  "find_tag_in_index (map field_tag its) tag < length its \<and>
     find (tag_equal tag) its = Some (its ! find_tag_in_index (map field_tag its) tag) \<or>
   find_tag_in_index (map field_tag its) tag = length its \<and> find (tag_equal tag) its = None"
  by (induction its) (auto simp: tag_equal_def)

text \<open>A search in an index finds what the linear search finds in the same fields.\<close>

lemma indexed_find_spec:
  assumes im: "indexes im (xs @ ys)"
  shows "\<exists>h. indexed_find_with_hint im tag (length xs) =
    Some (case find (tag_equal tag) (ys @ xs) of None \<Rightarrow> mk_value null null | Some it \<Rightarrow> f_value (it_current it), h) \<and>
    (case find (tag_equal tag) (ys @ xs) of None \<Rightarrow> h = length xs
     | Some it \<Rightarrow> h < length (xs @ ys) \<and> (xs @ ys) ! h = it)"
proof -
  have t: "im_tags im = map field_tag xs @ map field_tag ys" using im by (simp add: indexes_def)
  have f: "find (tag_equal tag) (ys @ xs) =
      (case find (tag_equal tag) ys of None \<Rightarrow> find (tag_equal tag) xs | Some x \<Rightarrow> Some x)"
    by (induction ys) auto
  from find_tag_find [of ys tag] find_tag_find [of xs tag] show ?thesis
    unfolding f indexed_find_with_hint_def t
    by (elim disjE) (auto simp: Let_def value_at_index [OF im] nth_append)
qed

lemma has_iff: "indexes im its \<Longrightarrow> has im tag \<longleftrightarrow> (\<exists>it \<in> set its. field_tag it = tag)"
proof -
  assume im: "indexes im its"
  have "find_tag_in_index (map field_tag its) tag \<noteq> length its \<longleftrightarrow> (\<exists>it \<in> set its. field_tag it = tag)"
    by (induction its) auto
  with im show ?thesis by (simp add: has_def indexes_def)
qed

text \<open>Building an index of a message returns, and shows its first fields.\<close>

lemma build_index_result:
  assumes fr: "framed mem r" and buf: "buffer_ok buf"
    and size: "it_message_end (r_end r) \<le> r_buffer r + kMaxIndexableMessageBytes"
    and v: "visit (increment mem) iter_eq (r_begin r) (r_end r) = Some its"
  shows "\<exists>im buf'. build_field_index mem r buf = Some (im, buf') \<and>
    indexes im (take (length (ib_tags buf)) its) \<and> \<not> im_overflowed im \<and>
    (im_truncated im \<longleftrightarrow> length (ib_tags buf) < length its)"
proof -
  let ?N = "length (ib_tags buf)" and ?b = "r_buffer r"
  have vs: "fields_from mem (r_end r) (r_begin r) its" using v by (simp add: visit_iff)
  from index_of_result [OF vs buf, of "\<lambda>pos len. False" ?b] obtain res where
    res: "index_loop (\<lambda>pos len. False) mem ?b (r_end r) (r_begin r) 0 buf = Some res"
      "index_of ?b (r_end r) res = \<lparr>im_begin = ?b, im_tags = take ?N (map field_tag its),
        im_pos_len = take ?N (map (field_pos_len ?b) its),
        im_truncated = (?N < length its), im_overflowed = False\<rparr>" by auto
  have "near_field ?b it" if "it \<in> set its" for it
    using visit_framed [OF fr] v that size
    by (fastforce simp: near_field_def kMaxIndexableMessageBytes_def)
  then have "indexes (index_of ?b (r_end r) res) (take ?N its)"
    unfolding res(2) by (auto simp: indexes_def take_map dest: in_set_takeD)
  moreover have "build_field_index mem r buf = Some (index_of ?b (r_end r) res, snd (snd (snd res)))"
    using fr size res(1) by (auto simp: build_field_index_def Let_def framed_def message_size_def
        reader_begin_def reader_end_def)
  ultimately show ?thesis using res(2) by auto
qed

text \<open>So an authoritative index and the reader find the same field.\<close>

lemma reader_finds_first:
  assumes "framed mem r" "visit (increment mem) iter_eq (r_begin r) (r_end r) = Some its"
  shows "reader_find_with_hint mem r tag (r_begin r) =
    Some (case find (tag_equal tag) its of None \<Rightarrow> (False, r_begin r) | Some j \<Rightarrow> (True, j))"
proof -
  have d: "distinct (map it_buffer its)"
    by (rule field_it.visit_distinct [OF framed_range [OF assms(1)] assms(2)])
  have valid: "r_valid r" using assms(1) by (auto simp: framed_def)
  have "visit (increment mem) iter_eq (r_begin r) (r_end r) = Some ([] @ its)"
    "distinct (map it_buffer ([] @ its))"
    "if its = [] then iter_eq (r_begin r) (r_end r) else r_begin r = hd its"
    using visit_framed [OF assms(1)] assms(2) d by auto
  from field_it.find_with_hint_spec [OF this, of "tag_equal tag"] show ?thesis
    by (simp add: reader_find_with_hint_def reader_begin_def reader_end_def valid)
qed

lemma index_finds_reader:
  assumes fr: "framed mem r" and buf: "buffer_ok buf"
    and size: "it_message_end (r_end r) \<le> r_buffer r + kMaxIndexableMessageBytes"
  shows "\<exists>its im buf' found it h. visit (increment mem) iter_eq (r_begin r) (r_end r) = Some its \<and>
    build_field_index mem r buf = Some (im, buf') \<and>
    (authoritative im \<longleftrightarrow> length its \<le> length (ib_tags buf)) \<and>
    reader_find_with_hint mem r tag (r_begin r) = Some (found, it) \<and>
    (authoritative im \<longrightarrow> indexed_find_with_hint im tag 0 =
       Some (if found then f_value (it_current it) else mk_value null null, h) \<and> has im tag = found)"
proof -
  from visit_framed [OF fr] obtain its where
    v: "visit (increment mem) iter_eq (r_begin r) (r_end r) = Some its" by blast
  note reader_finds_first [OF fr v, of tag]
  moreover from build_index_result [OF fr buf size v(1)] obtain im buf' where
    im: "build_field_index mem r buf = Some (im, buf')" "indexes im (take (length (ib_tags buf)) its)"
      "\<not> im_overflowed im" "im_truncated im \<longleftrightarrow> length (ib_tags buf) < length its" by blast
  have auth: "authoritative im \<longleftrightarrow> length its \<le> length (ib_tags buf)" using im(3,4) by (auto simp: authoritative_def)
  have full: "authoritative im \<Longrightarrow> indexes im its"
    using im by (simp add: authoritative_def)
  have "\<exists>h. authoritative im \<longrightarrow> indexed_find_with_hint im tag 0 = Some (case find (tag_equal tag) its of
      None \<Rightarrow> mk_value null null | Some it \<Rightarrow> f_value (it_current it), h) \<and>
      has im tag = (find (tag_equal tag) its \<noteq> None)"
  proof (cases "authoritative im")
    case True
    with full have i: "indexes im ([] @ its)" by simp
    have "has im tag = (find (tag_equal tag) its \<noteq> None)"
      using has_iff [of im its tag] i by (auto simp: tag_equal_def find_None_iff)
    with indexed_find_spec [OF i, of tag] show ?thesis by (simp only: append_Nil append_Nil2 list.size) blast
  qed simp
  then obtain h where h: "authoritative im \<longrightarrow> indexed_find_with_hint im tag 0 = Some (case find (tag_equal tag) its of
      None \<Rightarrow> mk_value null null | Some it \<Rightarrow> f_value (it_current it), h) \<and>
      has im tag = (find (tag_equal tag) its \<noteq> None)" ..
  ultimately show ?thesis using im(1) v auth by (cases "find (tag_equal tag) its") auto
qed

end
