(* ===== verification/Group_Registry.thy ===== *)
theory Group_Registry
  imports Repeating_Groups
begin

text \<open>
  The generated registrations of \<open>src/include/hffix_groups.hpp\<close> (\<open>HFFIX_REGISTER_GROUP(count, first)\<close>, here with the
  numbers the enumerators stand for and their names beside them), the template \<open>groups::group_def\<close> they specialise, and the
  \<open>group<CountTag>()\<close> functions that look the delimiter up at compile time.
\<close>

section \<open>The registrations\<close>

definition registered_groups_1 :: "(int \<times> int) list" where
  "registered_groups_1 = [
     (40000, 40001), \<comment> \<open>NoAdditionalTermBondRefs, AdditionalTermBondSecurityID\<close>
     (40019, 40020), \<comment> \<open>NoAdditionalTerms, AdditionalTermConditionPrecedentBondIndicator\<close>
     (1791, 1792), \<comment> \<open>NoAffectedMarketSegments, AffectedMarketSegmentID\<close>
     (534, 1824), \<comment> \<open>NoAffectedOrders, AffectedOrigClOrdID\<close>
     (2653, 2654), \<comment> \<open>NoAllocCommissions, AllocCommissionAmount\<close>
     (1908, 1909), \<comment> \<open>NoAllocRegulatoryTradeIDs, AllocRegulatoryTradeID\<close>
     (78, 79), \<comment> \<open>NoAllocs, AllocAccount\<close>
     (816, 817), \<comment> \<open>NoAltMDSource, AltMDSourceID\<close>
     (1351, 1355), \<comment> \<open>NoApplIDs, RefApplID\<close>
     (1499, 453), \<comment> \<open>NoAsgnReqs, NoPartyIDs\<close>
     (2304, 2305), \<comment> \<open>NoAssetAttributes, AssetAttributeType\<close>
     (2113, 2114), \<comment> \<open>NoAttachmentKeywords, AttachmentKeyword\<close>
     (2104, 2105), \<comment> \<open>NoAttachments, AttachmentName\<close>
     (2548, 1803), \<comment> \<open>NoAuctionTypeRules, AuctionType\<close>
     (420, 66), \<comment> \<open>NoBidComponents, ListID\<close>
     (398, 399), \<comment> \<open>NoBidDescriptors, BidDescriptorType\<close>
     (40278, 40471), \<comment> \<open>NoBusinessCenters, BusinessCenter\<close>
     (862, 528), \<comment> \<open>NoCapacities, OrderCapacity\<close>
     (42214, 42215), \<comment> \<open>NoCashSettlDateBusinessCenters, CashSettlDateBusinessCenter\<close>
     (40277, 40032), \<comment> \<open>NoCashSettlDealers, CashSettlDealer\<close>
     (40022, 40023), \<comment> \<open>NoCashSettlTerms, CashSettlCurrency\<close>
     (1918, 1816), \<comment> \<open>NoClearingAccountTypes, ClearingAccountType\<close>
     (576, 577), \<comment> \<open>NoClearingInstructions, ClearingInstruction\<close>
     (2580, 2581), \<comment> \<open>NoClearingPriceParameters, BusinessDayType\<close>
     (938, 896), \<comment> \<open>NoCollInquiryQualifier, CollInquiryQualifier\<close>
     (1703, 1704), \<comment> \<open>NoCollateralAmounts, CurrentCollateralAmount\<close>
     (2845, 2844), \<comment> \<open>NoCollateralReinvestments, CollateralReinvestmentType\<close>
     (2639, 2640), \<comment> \<open>NoCommissions, CommissionAmount\<close>
     (936, 930), \<comment> \<open>NoCompIDs, RefCompID\<close>
     (40994, 40995), \<comment> \<open>NoComplexEventAveragingObservations, ComplexEventAveragingObservationNumber\<close>
     (41005, 41006), \<comment> \<open>NoComplexEventCreditEventQualifiers, ComplexEventCreditEventQualifier\<close>
     (41029, 41030), \<comment> \<open>NoComplexEventCreditEventSources, ComplexEventCreditEventSource\<close>
     (40997, 40998), \<comment> \<open>NoComplexEventCreditEvents, ComplexEventCreditEventType\<close>
     (41018, 41019), \<comment> \<open>NoComplexEventDateBusinessCenters, ComplexEventDateBusinessCenter\<close>
     (1491, 1492), \<comment> \<open>NoComplexEventDates, ComplexEventStartDate\<close>
     (41007, 41008), \<comment> \<open>NoComplexEventPeriodDateTimes, ComplexEventPeriodDate\<close>
     (41010, 41011), \<comment> \<open>NoComplexEventPeriods, ComplexEventPeriodType\<close>
     (41013, 41014), \<comment> \<open>NoComplexEventRateSources, ComplexEventRateSource\<close>
     (41031, 41032), \<comment> \<open>NoComplexEventSchedules, ComplexEventScheduleStartDate\<close>
     (1494, 1495), \<comment> \<open>NoComplexEventTimes, ComplexEventStartTime\<close>
     (1483, 1484), \<comment> \<open>NoComplexEvents, ComplexEventType\<close>
     (518, 519), \<comment> \<open>NoContAmts, ContAmtType\<close>
     (382, 375), \<comment> \<open>NoContraBrokers, ContraBroker\<close>
     (40040, 40041), \<comment> \<open>NoContractualDefinitions, ContractualDefinition\<close>
     (40042, 40043), \<comment> \<open>NoContractualMatrices, ContractualMatrixSource\<close>
     (1829, 654), \<comment> \<open>NoCrossLegs, LegRefID\<close>
     (580, 75), \<comment> \<open>NoDates, TradeDate\<close>
     (41051, 41052), \<comment> \<open>NoDeliveryScheduleSettlDays, DeliveryScheduleSettlDay\<close>
     (41054, 41055), \<comment> \<open>NoDeliveryScheduleSettlTimes, DeliveryScheduleSettlStart\<close>
     (41037, 41038), \<comment> \<open>NoDeliverySchedules, DeliveryScheduleType\<close>
     (41085, 41086), \<comment> \<open>NoDeliveryStreamCommoditySources, DeliveryStreamCommoditySource\<close>
     (41081, 41082), \<comment> \<open>NoDeliveryStreamCycles, DeliveryStreamCycleDesc\<close>
     (1286, 1287), \<comment> \<open>NoDerivativeEvents, DerivativeEventType\<close>
     (1311, 1313), \<comment> \<open>NoDerivativeInstrAttrib, DerivativeInstrAttribType\<close>
     (1292, 1293), \<comment> \<open>NoDerivativeInstrumentParties, DerivativeInstrumentPartyID\<close>
     (1296, 1297), \<comment> \<open>NoDerivativeInstrumentPartySubIDs, DerivativeInstrumentPartySubID\<close>
     (1218, 1219), \<comment> \<open>NoDerivativeSecurityAltID, DerivativeSecurityAltID\<close>
     (1812, 1813), \<comment> \<open>NoDisclosureInstructions, DisclosureType\<close>
     (510, 477), \<comment> \<open>NoDistribInsts, DistribPaymentMethod\<close>
     (42236, 42237), \<comment> \<open>NoDividendAccrualPaymentDateBusinessCenters, DividendAccrualPaymentDateBusinessCenter\<close>
     (42272, 42273), \<comment> \<open>NoDividendFXTriggerDateBusinessCenters, DividendFXTriggerDateBusinessCenter\<close>
     (42294, 42295), \<comment> \<open>NoDividendPeriodBusinessCenters, DividendPeriodBusinessCenter\<close>
     (42274, 42275), \<comment> \<open>NoDividendPeriods, DividendPeriodSequence\<close>
     (85, 165), \<comment> \<open>NoDlvyInst, SettlInstSource\<close>
     (1777, 1778), \<comment> \<open>NoEntitlementAttrib, EntitlementAttribType\<close>
     (2345, 1775), \<comment> \<open>NoEntitlementTypes, EntitlementType\<close>
     (1773, 1774), \<comment> \<open>NoEntitlements, EntitlementIndicator\<close>
     (864, 865), \<comment> \<open>NoEvents, EventType\<close>
     (1232, 1308), \<comment> \<open>NoExecInstRules, ExecInstValue\<close>
     (124, 32), \<comment> \<open>NoExecs, LastQty\<close>
     (981, 982), \<comment> \<open>NoExpiration, ExpirationQtyType\<close>
     (42296, 42297), \<comment> \<open>NoExtraordinaryEvents, ExtraordinaryEventType\<close>
     (1362, 1363), \<comment> \<open>NoFills, FillExecID\<close>
     (40046, 40047), \<comment> \<open>NoFinancingTermSupplements, FinancingTermSupplementDesc\<close>
     (2560, 1242), \<comment> \<open>NoFlexProductEligibilities, FlexProductEligibilityIndicator\<close>
     (2849, 2846), \<comment> \<open>NoFundingSources, FundingSource\<close>
     (627, 628), \<comment> \<open>NoHops, HopCompID\<close>
     (199, 104), \<comment> \<open>NoIOIQualifiers, IOIQualifier\<close>
     (2734, 2733), \<comment> \<open>NoIndexRollMonths, IndexRollMonth\<close>
     (870, 871), \<comment> \<open>NoInstrAttrib, InstrAttribType\<close>
     (1889, 55), \<comment> \<open>NoInstrmtMatchSides, Symbol\<close>
     (1018, 1019), \<comment> \<open>NoInstrumentParties, InstrumentPartyID\<close>
     (1052, 1053), \<comment> \<open>NoInstrumentPartySubIDs, InstrumentPartySubID\<close>
     (1540, 1541), \<comment> \<open>NoInstrumentScopeSecurityAltID, InstrumentScopeSecurityAltID\<close>
     (1656, 1535), \<comment> \<open>NoInstrumentScopes, InstrumentScopeOperator\<close>
     (41316, 41317), \<comment> \<open>NoLegAdditionalTermBondRefs, LegAdditionalTermBondSecurityID\<close>
     (41335, 41336), \<comment> \<open>NoLegAdditionalTerms, LegAdditionalTermConditionPrecedentBondIndicator\<close>
     (670, 671), \<comment> \<open>NoLegAllocs, LegAllocAccount\<close>
     (2308, 2309), \<comment> \<open>NoLegAssetAttributes, LegAssetAttributeType\<close>
     (40923, 40924), \<comment> \<open>NoLegBusinessCenters, LegBusinessCenter\<close>
     (42306, 42307), \<comment> \<open>NoLegCashSettlDateBusinessCenters, LegCashSettlDateBusinessCenter\<close>
     (41342, 41343), \<comment> \<open>NoLegCashSettlDealers, LegCashSettlDealer\<close>
     (41344, 41345), \<comment> \<open>NoLegCashSettlTerms, LegCashSettlCurrency\<close>
     (41363, 41364), \<comment> \<open>NoLegComplexEventAveragingObservations, LegComplexEventAveragingObservationNumber\<close>
     (41374, 41375), \<comment> \<open>NoLegComplexEventCreditEventQualifiers, LegComplexEventCreditEventQualifier\<close>
     (41398, 41399), \<comment> \<open>NoLegComplexEventCreditEventSources, LegComplexEventCreditEventSource\<close>
     (41366, 41367), \<comment> \<open>NoLegComplexEventCreditEvents, LegComplexEventCreditEventType\<close>
     (41387, 41388), \<comment> \<open>NoLegComplexEventDateBusinessCenters, LegComplexEventDateBusinessCenter\<close>
     (2250, 2251), \<comment> \<open>NoLegComplexEventDates, LegComplexEventStartDate\<close>
     (41376, 41377), \<comment> \<open>NoLegComplexEventPeriodDateTimes, LegComplexEventPeriodDate\<close>
     (41379, 41380), \<comment> \<open>NoLegComplexEventPeriods, LegComplexEventPeriodType\<close>
     (41382, 41383), \<comment> \<open>NoLegComplexEventRateSources, LegComplexEventRateSource\<close>
     (41400, 41401), \<comment> \<open>NoLegComplexEventSchedules, LegComplexEventScheduleStartDate\<close>
     (2253, 2204), \<comment> \<open>NoLegComplexEventTimes, LegComplexEventStartTime\<close>
     (2218, 2219), \<comment> \<open>NoLegComplexEvents, LegComplexEventType\<close>
     (42198, 42199), \<comment> \<open>NoLegContractualDefinitions, LegContractualDefinition\<close>
     (42203, 42204), \<comment> \<open>NoLegContractualMatrices, LegContractualMatrixSource\<close>
     (41422, 41423), \<comment> \<open>NoLegDeliveryScheduleSettlDays, LegDeliveryScheduleSettlDay\<close>
     (41425, 41426), \<comment> \<open>NoLegDeliveryScheduleSettlTimes, LegDeliveryScheduleSettlStart\<close>
     (41408, 41409), \<comment> \<open>NoLegDeliverySchedules, LegDeliveryScheduleType\<close>
     (41460, 41461), \<comment> \<open>NoLegDeliveryStreamCommoditySources, LegDeliveryStreamCommoditySource\<close>
     (41456, 41457), \<comment> \<open>NoLegDeliveryStreamCycles, LegDeliveryStreamCycleDesc\<close>
     (42310, 42311), \<comment> \<open>NoLegDividendAccrualPaymentDateBusinessCenters, LegDividendAccrualPaymentDateBusinessCenter\<close>
     (42364, 42365), \<comment> \<open>NoLegDividendFXTriggerDateBusinessCenters, LegDividendFXTriggerDateBusinessCenter\<close>
     (42386, 42387), \<comment> \<open>NoLegDividendPeriodBusinessCenters, LegDividendPeriodBusinessCenter\<close>
     (42366, 42367), \<comment> \<open>NoLegDividendPeriods, LegDividendPeriodSequence\<close>
     (2059, 2060), \<comment> \<open>NoLegEvents, LegEventType\<close>
     (1892, 654), \<comment> \<open>NoLegExecs, LegRefID\<close>
     (42388, 42389), \<comment> \<open>NoLegExtraordinaryEvents, LegExtraordinaryEventType\<close>
     (42200, 42201), \<comment> \<open>NoLegFinancingTermSupplements, LegFinancingTermSupplementDesc\<close>
     (2254, 2255), \<comment> \<open>NoLegInstrumentParties, LegInstrumentPartyID\<close>
     (2258, 2259), \<comment> \<open>NoLegInstrumentPartySubIDs, LegInstrumentPartySubID\<close>
     (41467, 41468), \<comment> \<open>NoLegMarketDisruptionEvents, LegMarketDisruptionEvent\<close>
     (41471, 41472), \<comment> \<open>NoLegMarketDisruptionFallbackReferencePrices, LegMarketDisruptionFallbackUnderlierType\<close>
     (41469, 41470), \<comment> \<open>NoLegMarketDisruptionFallbacks, LegMarketDisruptionFallbackType\<close>
     (40367, 40368), \<comment> \<open>NoLegNonDeliverableFixingDates, LegNonDeliverableFixingDate\<close>
     (41491, 41492), \<comment> \<open>NoLegOptionExerciseBusinessCenters, LegOptionExerciseBusinessCenter\<close>
     (41512, 41513), \<comment> \<open>NoLegOptionExerciseDates, LegOptionExerciseDate\<close>
     (41515, 41516), \<comment> \<open>NoLegOptionExerciseExpirationDateBusinessCenters, LegOptionExerciseExpirationDateBusinessCenter\<close>
     (41527, 41528), \<comment> \<open>NoLegOptionExerciseExpirationDates, LegOptionExerciseExpirationDate\<close>
     (40927, 40400), \<comment> \<open>NoLegPaymentScheduleFixingDateBusinessCenters, LegPaymentScheduleFixingDateBusinessCenter\<close>
     (41530, 41531) \<comment> \<open>NoLegPaymentScheduleFixingDays, LegPaymentScheduleFixingDayOfWeek\<close>
   ]"

definition registered_groups_2 :: "(int \<times> int) list" where
  "registered_groups_2 = [
     (40928, 40409), \<comment> \<open>NoLegPaymentScheduleInterimExchangeDateBusinessCenters, LegPaymentScheduleInterimExchangeDatesBusinessCenter\<close>
     (40414, 40415), \<comment> \<open>NoLegPaymentScheduleRateSources, LegPaymentScheduleRateSource\<close>
     (40374, 40375), \<comment> \<open>NoLegPaymentSchedules, LegPaymentScheduleType\<close>
     (42405, 42406), \<comment> \<open>NoLegPaymentStreamCompoundingDates, LegPaymentStreamCompoundingDate\<close>
     (42419, 42420), \<comment> \<open>NoLegPaymentStreamCompoundingDatesBusinessCenters, LegPaymentStreamCompoundingDatesBusinessCenter\<close>
     (40933, 40318), \<comment> \<open>NoLegPaymentStreamFixingDateBusinessCenters, LegPaymentStreamFixingDateBusinessCenter\<close>
     (42459, 42460), \<comment> \<open>NoLegPaymentStreamFixingDates, LegPaymentStreamFixingDate\<close>
     (42485, 43110), \<comment> \<open>NoLegPaymentStreamFormulas, LegPaymentStreamFormulaLength\<close>
     (40932, 40311), \<comment> \<open>NoLegPaymentStreamInitialFixingDateBusinessCenters, LegPaymentStreamInitialFixingDateBusinessCenter\<close>
     (40929, 40361), \<comment> \<open>NoLegPaymentStreamNonDeliverableFixingDateBusinessCenters, LegPaymentStreamNonDeliverableFixingDatesBusinessCenter\<close>
     (40930, 40293), \<comment> \<open>NoLegPaymentStreamPaymentDateBusinessCenters, LegPaymentStreamPaymentDateBusinessCenter\<close>
     (41589, 41590), \<comment> \<open>NoLegPaymentStreamPaymentDates, LegPaymentStreamPaymentDate\<close>
     (41561, 41562), \<comment> \<open>NoLegPaymentStreamPricingBusinessCenters, LegPaymentStreamPricingBusinessCenter\<close>
     (41593, 41594), \<comment> \<open>NoLegPaymentStreamPricingDates, LegPaymentStreamPricingDate\<close>
     (41596, 41597), \<comment> \<open>NoLegPaymentStreamPricingDays, LegPaymentStreamPricingDayOfWeek\<close>
     (40931, 40305), \<comment> \<open>NoLegPaymentStreamResetDateBusinessCenters, LegPaymentStreamResetDateBusinessCenter\<close>
     (42495, 42496), \<comment> \<open>NoLegPaymentStubEndDateBusinessCenters, LegPaymentStubEndDateBusinessCenter\<close>
     (42504, 42505), \<comment> \<open>NoLegPaymentStubStartDateBusinessCenters, LegPaymentStubStartDateBusinessCenter\<close>
     (40418, 40419), \<comment> \<open>NoLegPaymentStubs, LegPaymentStubType\<close>
     (41604, 41605), \<comment> \<open>NoLegPhysicalSettlDeliverableObligations, LegPhysicalSettlDeliverableObligationType\<close>
     (41599, 41604), \<comment> \<open>NoLegPhysicalSettlTerms, NoLegPhysicalSettlDeliverableObligations\<close>
     (1586, 1587), \<comment> \<open>NoLegPosAmt, LegPosAmt\<close>
     (41607, 41608), \<comment> \<open>NoLegPricingDateBusinessCenters, LegPricingDateBusinessCenter\<close>
     (41614, 41615), \<comment> \<open>NoLegProtectionTermEventNewsSources, LegProtectionTermEventNewsSource\<close>
     (41633, 41634), \<comment> \<open>NoLegProtectionTermEventQualifiers, LegProtectionTermEventQualifier\<close>
     (41625, 41626), \<comment> \<open>NoLegProtectionTermEvents, LegProtectionTermEventType\<close>
     (41635, 41636), \<comment> \<open>NoLegProtectionTermObligations, LegProtectionTermObligationType\<close>
     (41616, 41618), \<comment> \<open>NoLegProtectionTerms, LegProtectionTermNotional\<close>
     (40934, 40517), \<comment> \<open>NoLegProvisionCashSettlPaymentDateBusinessCenters, LegProvisionCashSettlPaymentDateBusinessCenter\<close>
     (40473, 40474), \<comment> \<open>NoLegProvisionCashSettlPaymentDates, LegProvisionCashSettlPaymentDate\<close>
     (40935, 40527), \<comment> \<open>NoLegProvisionCashSettlValueDateBusinessCenters, LegProvisionCashSettlValueDateBusinessCenter\<close>
     (40939, 40452), \<comment> \<open>NoLegProvisionDateBusinessCenters, LegProvisionDateBusinessCenter\<close>
     (40936, 40477), \<comment> \<open>NoLegProvisionOptionExerciseBusinessCenters, LegProvisionOptionExerciseBusinessCenter\<close>
     (40495, 40496), \<comment> \<open>NoLegProvisionOptionExerciseFixedDates, LegProvisionOptionExerciseFixedDate\<close>
     (40937, 40500), \<comment> \<open>NoLegProvisionOptionExpirationDateBusinessCenters, LegProvisionOptionExpirationDateBusinessCenter\<close>
     (40938, 40510), \<comment> \<open>NoLegProvisionOptionRelevantUnderlyingDateBusinessCenters, LegProvisionOptionRelevantUnderlyingDateBusinessCenter\<close>
     (40533, 40534), \<comment> \<open>NoLegProvisionPartyIDs, LegProvisionPartyID\<close>
     (40537, 40538), \<comment> \<open>NoLegProvisionPartySubIDs, LegProvisionPartySubID\<close>
     (40448, 40449), \<comment> \<open>NoLegProvisions, LegProvisionType\<close>
     (42508, 42509), \<comment> \<open>NoLegReturnRateDates, LegReturnRateDateMode\<close>
     (42530, 42531), \<comment> \<open>NoLegReturnRateFXConversions, LegReturnRateFXCurrencySymbol\<close>
     (42560, 42561), \<comment> \<open>NoLegReturnRateInformationSources, LegReturnRateInformationSource\<close>
     (42564, 42565), \<comment> \<open>NoLegReturnRatePrices, LegReturnRatePriceBasis\<close>
     (42569, 42570), \<comment> \<open>NoLegReturnRateValuationDateBusinessCenters, LegReturnRateValuationDateBusinessCenter\<close>
     (42571, 42572), \<comment> \<open>NoLegReturnRateValuationDates, LegReturnRateValuationDate\<close>
     (42534, 42535), \<comment> \<open>NoLegReturnRates, LegReturnRatePriceSequence\<close>
     (2076, 2077), \<comment> \<open>NoLegSecondaryAssetClasses, LegSecondaryAssetClass\<close>
     (604, 605), \<comment> \<open>NoLegSecurityAltID, LegSecurityAltID\<close>
     (42581, 42582), \<comment> \<open>NoLegSettlMethodElectionDateBusinessCenters, LegSettlMethodElectionDateBusinessCenter\<close>
     (40902, 40903), \<comment> \<open>NoLegSettlRateFallbacks, LegSettlRatePostponementMaximumDays\<close>
     (683, 688), \<comment> \<open>NoLegStipulations, LegStipulationType\<close>
     (41452, 41453), \<comment> \<open>NoLegStreamAssetAttributes, LegStreamAssetAttributeType\<close>
     (40940, 40266), \<comment> \<open>NoLegStreamCalculationPeriodBusinessCenters, LegStreamCalculationPeriodBusinessCenter\<close>
     (41638, 41639), \<comment> \<open>NoLegStreamCalculationPeriodDates, LegStreamCalculationPeriodDate\<close>
     (41674, 41675), \<comment> \<open>NoLegStreamCommodityAltIDs, LegStreamCommodityAltID\<close>
     (41677, 41678), \<comment> \<open>NoLegStreamCommodityDataSources, LegStreamCommodityDataSourceID\<close>
     (41646, 41647), \<comment> \<open>NoLegStreamCommoditySettlBusinessCenters, LegStreamCommoditySettlBusinessCenter\<close>
     (41680, 41681), \<comment> \<open>NoLegStreamCommoditySettlDays, LegStreamCommoditySettlDay\<close>
     (41686, 41687), \<comment> \<open>NoLegStreamCommoditySettlPeriods, LegStreamCommoditySettlCountry\<close>
     (41683, 41684), \<comment> \<open>NoLegStreamCommoditySettlTimes, LegStreamCommoditySettlStart\<close>
     (40942, 40251), \<comment> \<open>NoLegStreamEffectiveDateBusinessCenters, LegStreamEffectiveDateBusinessCenter\<close>
     (40941, 40269), \<comment> \<open>NoLegStreamFirstPeriodStartDateBusinessCenters, LegStreamFirstPeriodStartDateBusinessCenter\<close>
     (40943, 40259), \<comment> \<open>NoLegStreamTerminationDateBusinessCenters, LegStreamTerminationDateBusinessCenter\<close>
     (40241, 40242), \<comment> \<open>NoLegStreams, LegStreamType\<close>
     (555, 600), \<comment> \<open>NoLegs, LegSymbol\<close>
     (1630, 1631), \<comment> \<open>NoLimitAmts, LimitAmtType\<close>
     (33, 58), \<comment> \<open>NoLinesOfText, Text\<close>
     (1234, 1093), \<comment> \<open>NoLotTypeRules, LotType\<close>
     (268, 269), \<comment> \<open>NoMDEntries, MDEntryType\<close>
     (267, 269), \<comment> \<open>NoMDEntryTypes, MDEntryType\<close>
     (1141, 1022), \<comment> \<open>NoMDFeedTypes, MDFeedType\<close>
     (2474, 2475), \<comment> \<open>NoMDStatistics, MDStatisticID\<close>
     (41312, 41313), \<comment> \<open>NoMandatoryClearingJurisdictions, MandatoryClearingJurisdiction\<close>
     (1643, 1645), \<comment> \<open>NoMarginAmt, MarginAmt\<close>
     (1636, 1637), \<comment> \<open>NoMarginReqmtInqQualifier, MarginReqmtInqQualifier\<close>
     (41092, 41093), \<comment> \<open>NoMarketDisruptionEvents, MarketDisruptionEvent\<close>
     (41096, 41097), \<comment> \<open>NoMarketDisruptionFallbackReferencePrices, MarketDisruptionFallbackUnderlierType\<close>
     (41094, 41095), \<comment> \<open>NoMarketDisruptionFallbacks, MarketDisruptionFallbackType\<close>
     (1310, 1301), \<comment> \<open>NoMarketSegments, MarketID\<close>
     (2772, 2773), \<comment> \<open>NoMatchExceptions, MatchExceptionType\<close>
     (1624, 1625), \<comment> \<open>NoMatchInst, MatchInst\<close>
     (1235, 1142), \<comment> \<open>NoMatchRules, MatchAlgorithm\<close>
     (2781, 2782), \<comment> \<open>NoMatchingDataPoints, MatchingDataPointIndicator\<close>
     (1236, 1222), \<comment> \<open>NoMaturityRules, MaturityRuleID\<close>
     (2633, 2634), \<comment> \<open>NoMiscFeeSubTypes, MiscFeeSubType\<close>
     (136, 137), \<comment> \<open>NoMiscFees, MiscFeeAmt\<close>
     (384, 372), \<comment> \<open>NoMsgTypes, RefMsgType\<close>
     (756, 757), \<comment> \<open>NoNested2PartyIDs, Nested2PartyID\<close>
     (806, 760), \<comment> \<open>NoNested2PartySubIDs, Nested2PartySubID\<close>
     (948, 949), \<comment> \<open>NoNested3PartyIDs, Nested3PartyID\<close>
     (952, 953), \<comment> \<open>NoNested3PartySubIDs, Nested3PartySubID\<close>
     (1414, 1415), \<comment> \<open>NoNested4PartyIDs, Nested4PartyID\<close>
     (1413, 1412), \<comment> \<open>NoNested4PartySubIDs, Nested4PartySubID\<close>
     (1312, 1210), \<comment> \<open>NoNestedInstrAttrib, NestedInstrAttribType\<close>
     (539, 524), \<comment> \<open>NoNestedPartyIDs, NestedPartyID\<close>
     (804, 545), \<comment> \<open>NoNestedPartySubIDs, NestedPartySubID\<close>
     (1475, 1476), \<comment> \<open>NoNewsRefIDs, NewsRefID\<close>
     (40825, 40826), \<comment> \<open>NoNonDeliverableFixingDates, NonDeliverableFixingDate\<close>
     (1793, 1794), \<comment> \<open>NoNotAffectedMarketSegments, NotAffectedMarketSegmentID\<close>
     (1370, 1372), \<comment> \<open>NoNotAffectedOrders, NotAffOrigClOrdID\<close>
     (1342, 1330), \<comment> \<open>NoOfLegUnderlyings, UnderlyingLegSymbol\<close>
     (1177, 1178), \<comment> \<open>NoOfSecSizes, MDSecSizeType\<close>
     (41116, 41117), \<comment> \<open>NoOptionExerciseBusinessCenters, OptionExerciseBusinessCenter\<close>
     (41137, 41138), \<comment> \<open>NoOptionExerciseDates, OptionExerciseDate\<close>
     (41140, 41141), \<comment> \<open>NoOptionExerciseExpirationDateBusinessCenters, OptionExerciseExpirationDateBusinessCenter\<close>
     (41152, 41153), \<comment> \<open>NoOptionExerciseExpirationDates, OptionExerciseExpirationDate\<close>
     (1237, 40), \<comment> \<open>NoOrdTypeRules, OrdType\<close>
     (2593, 2594), \<comment> \<open>NoOrderAttributes, OrderAttributeType\<close>
     (2428, 2429), \<comment> \<open>NoOrderEntries, OrderEntryAction\<close>
     (1795, 1796) \<comment> \<open>NoOrderEvents, OrderEventType\<close>
   ]"

definition registered_groups_3 :: "(int \<times> int) list" where
  "registered_groups_3 = [
     (73, 11), \<comment> \<open>NoOrders, ClOrdID\<close>
     (1516, 1517), \<comment> \<open>NoPartyDetailAltID, PartyDetailAltID\<close>
     (1519, 1520), \<comment> \<open>NoPartyDetailAltSubIDs, PartyDetailAltSubID\<close>
     (1694, 1695), \<comment> \<open>NoPartyDetailSubIDs, PartyDetailSubID\<close>
     (1671, 1691), \<comment> \<open>NoPartyDetails, PartyDetailID\<close>
     (1772, 1671), \<comment> \<open>NoPartyEntitlements, NoPartyDetails\<close>
     (453, 448), \<comment> \<open>NoPartyIDs, PartyID\<close>
     (1514, 1515), \<comment> \<open>NoPartyRelationships, PartyRelationship\<close>
     (1677, 1671), \<comment> \<open>NoPartyRiskLimits, NoPartyDetails\<close>
     (802, 523), \<comment> \<open>NoPartySubIDs, PartySubID\<close>
     (1676, 1324), \<comment> \<open>NoPartyUpdates, ListUpdateAction\<close>
     (1707, 1708), \<comment> \<open>NoPayCollects, PayCollectType\<close>
     (40944, 40221), \<comment> \<open>NoPaymentBusinessCenters, PaymentBusinessCenter\<close>
     (40977, 40854), \<comment> \<open>NoPaymentScheduleFixingDateBusinessCenters, PaymentScheduleFixingDateBusinessCenter\<close>
     (41161, 41162), \<comment> \<open>NoPaymentScheduleFixingDays, PaymentScheduleFixingDayOfWeek\<close>
     (40945, 40863), \<comment> \<open>NoPaymentScheduleInterimExchangeDateBusinessCenters, PaymentScheduleInterimExchangeDatesBusinessCenter\<close>
     (40868, 40869), \<comment> \<open>NoPaymentScheduleRateSources, PaymentScheduleRateSource\<close>
     (40828, 40829), \<comment> \<open>NoPaymentSchedules, PaymentScheduleType\<close>
     (40233, 40234), \<comment> \<open>NoPaymentSettlPartyIDs, PaymentSettlPartyID\<close>
     (40238, 40239), \<comment> \<open>NoPaymentSettlPartySubIDs, PaymentSettlPartySubID\<close>
     (40230, 40231), \<comment> \<open>NoPaymentSettls, PaymentSettlAmount\<close>
     (42606, 42607), \<comment> \<open>NoPaymentStreamCompoundingDates, PaymentStreamCompoundingDate\<close>
     (42620, 42621), \<comment> \<open>NoPaymentStreamCompoundingDatesBusinessCenters, PaymentStreamCompoundingDatesBusinessCenter\<close>
     (40950, 40776), \<comment> \<open>NoPaymentStreamFixingDateBusinessCenters, PaymentStreamFixingDateBusinessCenter\<close>
     (42660, 42661), \<comment> \<open>NoPaymentStreamFixingDates, PaymentStreamFixingDate\<close>
     (42683, 43109), \<comment> \<open>NoPaymentStreamFormulas, PaymentStreamFormulaLength\<close>
     (40949, 40769), \<comment> \<open>NoPaymentStreamInitialFixingDateBusinessCenters, PaymentStreamInitialFixingDateBusinessCenter\<close>
     (40946, 40819), \<comment> \<open>NoPaymentStreamNonDeliverableFixingDatesBusinessCenters, PaymentStreamNonDeliverableFixingDatesBusinessCenter\<close>
     (40947, 40752), \<comment> \<open>NoPaymentStreamPaymentDateBusinessCenters, PaymentStreamPaymentDateBusinessCenter\<close>
     (41220, 41221), \<comment> \<open>NoPaymentStreamPaymentDates, PaymentStreamPaymentDate\<close>
     (41192, 41193), \<comment> \<open>NoPaymentStreamPricingBusinessCenters, PaymentStreamPricingBusinessCenter\<close>
     (41224, 41225), \<comment> \<open>NoPaymentStreamPricingDates, PaymentStreamPricingDate\<close>
     (41227, 41228), \<comment> \<open>NoPaymentStreamPricingDays, PaymentStreamPricingDayOfWeek\<close>
     (40948, 40763), \<comment> \<open>NoPaymentStreamResetDateBusinessCenters, PaymentStreamResetDateBusinessCenter\<close>
     (42696, 42697), \<comment> \<open>NoPaymentStubEndDateBusinessCenters, PaymentStubEndDateBusinessCenter\<close>
     (42705, 42706), \<comment> \<open>NoPaymentStubStartDateBusinessCenters, PaymentStubStartDateBusinessCenter\<close>
     (40872, 40873), \<comment> \<open>NoPaymentStubs, PaymentStubType\<close>
     (40212, 40213), \<comment> \<open>NoPayments, PaymentType\<close>
     (40209, 40210), \<comment> \<open>NoPhysicalSettlDeliverableObligations, PhysicalSettlDeliverableObligationType\<close>
     (40204, 40209), \<comment> \<open>NoPhysicalSettlTerms, NoPhysicalSettlDeliverableObligations\<close>
     (753, 707), \<comment> \<open>NoPosAmt, PosAmtType\<close>
     (702, 703), \<comment> \<open>NoPositions, PosType\<close>
     (1920, 1921), \<comment> \<open>NoPriceMovementValues, PriceMovementValue\<close>
     (1919, 1920), \<comment> \<open>NoPriceMovements, NoPriceMovementValues\<close>
     (2709, 2710), \<comment> \<open>NoPriceQualifiers, PriceQualifier\<close>
     (2550, 2551), \<comment> \<open>NoPriceRangeRules, StartPriceRange\<close>
     (41230, 41231), \<comment> \<open>NoPricingDateBusinessCenters, PricingDateBusinessCenter\<close>
     (40951, 40189), \<comment> \<open>NoProtectionTermEventNewsSources, ProtectionTermEventNewsSource\<close>
     (40199, 40200), \<comment> \<open>NoProtectionTermEventQualifiers, ProtectionTermEventQualifier\<close>
     (40191, 40192), \<comment> \<open>NoProtectionTermEvents, ProtectionTermEventType\<close>
     (40201, 40202), \<comment> \<open>NoProtectionTermObligations, ProtectionTermObligationType\<close>
     (40181, 40182), \<comment> \<open>NoProtectionTerms, ProtectionTermNotional\<close>
     (40952, 40164), \<comment> \<open>NoProvisionCashSettlPaymentDateBusinessCenters, ProvisionCashSettlPaymentDateBusinessCenter\<close>
     (40171, 40172), \<comment> \<open>NoProvisionCashSettlPaymentDates, ProvisionCashSettlPaymentDate\<close>
     (40953, 40117), \<comment> \<open>NoProvisionCashSettlValueDateBusinessCenters, ProvisionCashSettlValueDateBusinessCenter\<close>
     (40957, 40094), \<comment> \<open>NoProvisionDateBusinessCenters, ProvisionDateBusinessCenter\<close>
     (40954, 40124), \<comment> \<open>NoProvisionOptionExerciseBusinessCenters, ProvisionOptionExerciseBusinessCenter\<close>
     (40142, 40143), \<comment> \<open>NoProvisionOptionExerciseFixedDates, ProvisionOptionExerciseFixedDate\<close>
     (40955, 40147), \<comment> \<open>NoProvisionOptionExpirationDateBusinessCenters, ProvisionOptionExpirationDateBusinessCenter\<close>
     (40956, 40157), \<comment> \<open>NoProvisionOptionRelevantUnderlyingDateBusinessCenters, ProvisionOptionRelevantUnderlyingDateBusinessCenter\<close>
     (40174, 40175), \<comment> \<open>NoProvisionPartyIDs, ProvisionPartyID\<close>
     (40178, 40179), \<comment> \<open>NoProvisionPartySubIDs, ProvisionPartySubID\<close>
     (40090, 40091), \<comment> \<open>NoProvisions, ProvisionType\<close>
     (2706, 2707), \<comment> \<open>NoQuoteAttributes, QuoteAttributeType\<close>
     (295, 55), \<comment> \<open>NoQuoteEntries, Symbol\<close>
     (735, 695), \<comment> \<open>NoQuoteQualifiers, QuoteQualifier\<close>
     (296, 302), \<comment> \<open>NoQuoteSets, QuoteSetID\<close>
     (2558, 647), \<comment> \<open>NoQuoteSizeRules, MinBidSize\<close>
     (1445, 1445), \<comment> \<open>NoRateSources, NoRateSources\<close>
     (2746, 2747), \<comment> \<open>NoReferenceDataDates, ReferenceDataDate\<close>
     (473, 509), \<comment> \<open>NoRegistDtls, RegistDtls\<close>
     (1907, 1903), \<comment> \<open>NoRegulatoryTradeIDs, RegulatoryTradeID\<close>
     (1647, 1648), \<comment> \<open>NoRelatedInstruments, RelatedInstrumentType\<close>
     (2545, 2546), \<comment> \<open>NoRelatedMarketSegments, RelatedMarketSegmentID\<close>
     (1569, 1570), \<comment> \<open>NoRelatedPartyDetailAltID, RelatedPartyDetailAltID\<close>
     (1572, 1573), \<comment> \<open>NoRelatedPartyDetailAltSubIDs, RelatedPartyDetailAltSubID\<close>
     (1562, 1563), \<comment> \<open>NoRelatedPartyDetailID, RelatedPartyDetailID\<close>
     (1566, 1567), \<comment> \<open>NoRelatedPartyDetailSubIDs, RelatedPartyDetailSubID\<close>
     (1861, 1862), \<comment> \<open>NoRelatedPositions, RelatedPositionID\<close>
     (146, 55), \<comment> \<open>NoRelatedSym, Symbol\<close>
     (1855, 1856), \<comment> \<open>NoRelatedTrades, RelatedTradeID\<close>
     (2529, 2530), \<comment> \<open>NoRelativeValues, RelativeValueType\<close>
     (1508, 1509), \<comment> \<open>NoRequestedPartyRoles, RequestedPartyRole\<close>
     (1668, 1530), \<comment> \<open>NoRequestedRiskLimitType, RiskLimitType\<close>
     (1657, 1658), \<comment> \<open>NoRequestingPartyIDs, RequestingPartyID\<close>
     (1661, 1662), \<comment> \<open>NoRequestingPartySubIDs, RequestingPartySubID\<close>
     (42709, 42710), \<comment> \<open>NoReturnRateDates, ReturnRateDateMode\<close>
     (42731, 42732), \<comment> \<open>NoReturnRateFXConversions, ReturnRateFXCurrencySymbol\<close>
     (42761, 42762), \<comment> \<open>NoReturnRateInformationSources, ReturnRateInformationSource\<close>
     (42765, 42766), \<comment> \<open>NoReturnRatePrices, ReturnRatePriceBasis\<close>
     (42770, 42771), \<comment> \<open>NoReturnRateValuationDateBusinessCenters, ReturnRateValuationDateBusinessCenter\<close>
     (42772, 42773), \<comment> \<open>NoReturnRateValuationDates, ReturnRateValuationDate\<close>
     (42735, 42736), \<comment> \<open>NoReturnRates, ReturnRatePriceSequence\<close>
     (1534, 1535), \<comment> \<open>NoRiskInstrumentScopes, InstrumentScopeOperator\<close>
     (1529, 1530), \<comment> \<open>NoRiskLimitTypes, RiskLimitType\<close>
     (1669, 1529), \<comment> \<open>NoRiskLimits, NoRiskLimitTypes\<close>
     (1559, 1769), \<comment> \<open>NoRiskWarningLevels, RiskWarningLevelAction\<close>
     (1116, 1117), \<comment> \<open>NoRootPartyIDs, RootPartyID\<close>
     (1120, 1121), \<comment> \<open>NoRootPartySubIDs, RootPartySubID\<close>
     (215, 216), \<comment> \<open>NoRoutingIDs, RoutingType\<close>
     (1976, 1977), \<comment> \<open>NoSecondaryAssetClasses, SecondaryAssetClass\<close>
     (454, 455), \<comment> \<open>NoSecurityAltID, SecurityAltID\<close>
     (1582, 1583), \<comment> \<open>NoSecurityClassifications, SecurityClassificationReason\<close>
     (558, 167), \<comment> \<open>NoSecurityTypes, SecurityType\<close>
     (1158, 1164), \<comment> \<open>NoSettlDetails, SettlObligSource\<close>
     (778, 162), \<comment> \<open>NoSettlInst, SettlInstID\<close>
     (42775, 42776), \<comment> \<open>NoSettlMethodElectionDateBusinessCenters, SettlMethodElectionDateBusinessCenter\<close>
     (1165, 430), \<comment> \<open>NoSettlOblig, NetGrossInd\<close>
     (781, 782), \<comment> \<open>NoSettlPartyIDs, SettlPartyID\<close>
     (801, 785), \<comment> \<open>NoSettlPartySubIDs, SettlPartySubID\<close>
     (40085, 40086), \<comment> \<open>NoSettlRateFallbacks, SettlRatePostponementMaximumDays\<close>
     (1700, 1701), \<comment> \<open>NoSettlementAmounts, SettlementAmount\<close>
     (2691, 2702), \<comment> \<open>NoSideCollateralAmounts, SideCurrentCollateralAmount\<close>
     (2864, 2867), \<comment> \<open>NoSideCollateralReinvestments, SideCollateralReinvestmentType\<close>
     (1971, 1972) \<comment> \<open>NoSideRegulatoryTradeIDs, SideRegulatoryTradeID\<close>
   ]"

definition registered_groups_4 :: "(int \<times> int) list" where
  "registered_groups_4 = [
     (1016, 1012), \<comment> \<open>NoSideTrdRegTS, SideTrdRegTimestamp\<close>
     (552, 54), \<comment> \<open>NoSides, Side\<close>
     (1175, 1176), \<comment> \<open>NoStatsIndicators, StatsType\<close>
     (232, 233), \<comment> \<open>NoStipulations, StipulationType\<close>
     (957, 958), \<comment> \<open>NoStrategyParameters, StrategyParameterName\<close>
     (41237, 41238), \<comment> \<open>NoStreamAssetAttributes, StreamAssetAttributeType\<close>
     (40958, 40074), \<comment> \<open>NoStreamCalculationPeriodBusinessCenters, StreamCalculationPeriodBusinessCenter\<close>
     (41241, 41242), \<comment> \<open>NoStreamCalculationPeriodDates, StreamCalculationPeriodDate\<close>
     (41277, 41278), \<comment> \<open>NoStreamCommodityAltIDs, StreamCommodityAltID\<close>
     (41280, 41281), \<comment> \<open>NoStreamCommodityDataSources, StreamCommodityDataSourceID\<close>
     (41249, 41250), \<comment> \<open>NoStreamCommoditySettlBusinessCenters, StreamCommoditySettlBusinessCenter\<close>
     (41283, 41284), \<comment> \<open>NoStreamCommoditySettlDays, StreamCommoditySettlDay\<close>
     (41289, 41290), \<comment> \<open>NoStreamCommoditySettlPeriods, StreamCommoditySettlCountry\<close>
     (41286, 41287), \<comment> \<open>NoStreamCommoditySettlTimes, StreamCommoditySettlStart\<close>
     (40960, 40909), \<comment> \<open>NoStreamEffectiveDateBusinessCenters, StreamEffectiveDateBusinessCenter\<close>
     (40959, 40077), \<comment> \<open>NoStreamFirstPeriodStartDateBusinessCenters, StreamFirstPeriodStartDateBusinessCenter\<close>
     (40961, 40067), \<comment> \<open>NoStreamTerminationDateBusinessCenters, StreamTerminationDateBusinessCenter\<close>
     (40049, 40050), \<comment> \<open>NoStreams, StreamType\<close>
     (1201, 1223), \<comment> \<open>NoStrikeRules, StrikeRuleID\<close>
     (428, 55), \<comment> \<open>NoStrikes, Symbol\<close>
     (1789, 1790), \<comment> \<open>NoTargetMarketSegments, TargetMarketSegmentID\<close>
     (1461, 1462), \<comment> \<open>NoTargetPartyIDs, TargetPartyID\<close>
     (2433, 2434), \<comment> \<open>NoTargetPartySubIDs, TargetPartySubID\<close>
     (1618, 1619), \<comment> \<open>NoThrottleMsgType, ThrottleMsgType\<close>
     (1610, 1611), \<comment> \<open>NoThrottles, ThrottleAction\<close>
     (1205, 1206), \<comment> \<open>NoTickRules, StartTickPriceRange\<close>
     (1239, 59), \<comment> \<open>NoTimeInForceRules, TimeInForce\<close>
     (1844, 1845), \<comment> \<open>NoTradeAllocAmts, TradeAllocAmtType\<close>
     (1838, 1839), \<comment> \<open>NoTradePriceConditions, TradePriceCondition\<close>
     (1841, 1842), \<comment> \<open>NoTradeQtys, TradeQtyType\<close>
     (897, 571), \<comment> \<open>NoTrades, TradeReportID\<close>
     (1309, 336), \<comment> \<open>NoTradingSessionRules, TradingSessionID\<close>
     (386, 336), \<comment> \<open>NoTradingSessions, TradingSessionID\<close>
     (2871, 2872), \<comment> \<open>NoTransactionAttributes, TransactionAttributeType\<close>
     (1890, 54), \<comment> \<open>NoTrdMatchSides, Side\<close>
     (2668, 2669), \<comment> \<open>NoTrdRegPublications, TrdRegPublicationType\<close>
     (768, 769), \<comment> \<open>NoTrdRegTimestamps, TrdRegTimestamp\<close>
     (1387, 1388), \<comment> \<open>NoTrdRepIndicators, TrdRepPartyRole\<close>
     (41340, 41341), \<comment> \<open>NoUnderlyingAdditionalTermBondRefs, UnderlyingAdditionalTermBondSecurityID\<close>
     (42036, 42037), \<comment> \<open>NoUnderlyingAdditionalTerms, UnderlyingAdditionalTermConditionPrecedentBondIndicator\<close>
     (984, 985), \<comment> \<open>NoUnderlyingAmounts, UnderlyingPayAmount\<close>
     (2312, 2313), \<comment> \<open>NoUnderlyingAssetAttributes, UnderlyingAssetAttributeType\<close>
     (40962, 40963), \<comment> \<open>NoUnderlyingBusinessCenters, UnderlyingBusinessCenter\<close>
     (42788, 42789), \<comment> \<open>NoUnderlyingCashSettlDateBusinessCenters, UnderlyingCashSettlDateBusinessCenter\<close>
     (42039, 42040), \<comment> \<open>NoUnderlyingCashSettlDealers, UnderlyingCashSettlDealer\<close>
     (42041, 42042), \<comment> \<open>NoUnderlyingCashSettlTerms, UnderlyingCashSettlCurrency\<close>
     (41713, 41714), \<comment> \<open>NoUnderlyingComplexEventAveragingObservations, UnderlyingComplexEventAveragingObservationNumber\<close>
     (41724, 41725), \<comment> \<open>NoUnderlyingComplexEventCreditEventQualifiers, UnderlyingComplexEventCreditEventQualifier\<close>
     (41748, 41749), \<comment> \<open>NoUnderlyingComplexEventCreditEventSources, UnderlyingComplexEventCreditEventSource\<close>
     (41716, 41717), \<comment> \<open>NoUnderlyingComplexEventCreditEvents, UnderlyingComplexEventCreditEventType\<close>
     (41737, 41738), \<comment> \<open>NoUnderlyingComplexEventDateBusinessCenters, UnderlyingComplexEventDateBusinessCenter\<close>
     (2053, 2054), \<comment> \<open>NoUnderlyingComplexEventDates, UnderlyingComplexEventStartDate\<close>
     (41726, 41727), \<comment> \<open>NoUnderlyingComplexEventPeriodDateTimes, UnderlyingComplexEventPeriodDate\<close>
     (41729, 41730), \<comment> \<open>NoUnderlyingComplexEventPeriods, UnderlyingComplexEventPeriodType\<close>
     (41732, 41733), \<comment> \<open>NoUnderlyingComplexEventRateSources, UnderlyingComplexEventRateSource\<close>
     (41750, 41751), \<comment> \<open>NoUnderlyingComplexEventSchedules, UnderlyingComplexEventScheduleStartDate\<close>
     (2056, 2057), \<comment> \<open>NoUnderlyingComplexEventTimes, UnderlyingComplexEventStartTime\<close>
     (2045, 2046), \<comment> \<open>NoUnderlyingComplexEvents, UnderlyingComplexEventType\<close>
     (41770, 41771), \<comment> \<open>NoUnderlyingDeliveryScheduleSettlDays, UnderlyingDeliveryScheduleSettlDay\<close>
     (41773, 41774), \<comment> \<open>NoUnderlyingDeliveryScheduleSettlTimes, UnderlyingDeliveryScheduleSettlStart\<close>
     (41756, 41757), \<comment> \<open>NoUnderlyingDeliverySchedules, UnderlyingDeliveryScheduleType\<close>
     (41808, 41809), \<comment> \<open>NoUnderlyingDeliveryStreamCommoditySources, UnderlyingDeliveryStreamCommoditySource\<close>
     (41804, 41805), \<comment> \<open>NoUnderlyingDeliveryStreamCycles, UnderlyingDeliveryStreamCycleDesc\<close>
     (42799, 42800), \<comment> \<open>NoUnderlyingDividendAccrualPaymentDateBusinessCenters, UnderlyingDividendAccrualPaymentDateBusinessCenter\<close>
     (42853, 42854), \<comment> \<open>NoUnderlyingDividendFXTriggerDateBusinessCenters, UnderlyingDividendFXTriggerDateBusinessCenter\<close>
     (42855, 42856), \<comment> \<open>NoUnderlyingDividendPayments, UnderlyingDividendPaymentDate\<close>
     (42882, 42883), \<comment> \<open>NoUnderlyingDividendPeriodBusinessCenters, UnderlyingDividendPeriodBusinessCenter\<close>
     (42862, 42863), \<comment> \<open>NoUnderlyingDividendPeriods, UnderlyingDividendPeriodSequence\<close>
     (1981, 1982), \<comment> \<open>NoUnderlyingEvents, UnderlyingEventType\<close>
     (42884, 42885), \<comment> \<open>NoUnderlyingExtraordinaryEvents, UnderlyingExtraordinaryEventType\<close>
     (1334, 1335), \<comment> \<open>NoUnderlyingLegSecurityAltID, UnderlyingLegSecurityAltID\<close>
     (41864, 41865), \<comment> \<open>NoUnderlyingMarketDisruptionEvents, UnderlyingMarketDisruptionEvent\<close>
     (41868, 41869), \<comment> \<open>NoUnderlyingMarketDisruptionFallbackReferencePrices, UnderlyingMarketDisruptionFallbackUnderlierType\<close>
     (41866, 41867), \<comment> \<open>NoUnderlyingMarketDisruptionFallbacks, UnderlyingMarketDisruptionFallbackType\<close>
     (40656, 40657), \<comment> \<open>NoUnderlyingNonDeliverableFixingDates, UnderlyingNonDeliverableFixingDate\<close>
     (41820, 41821), \<comment> \<open>NoUnderlyingOptionExerciseBusinessCenters, UnderlyingOptionExerciseBusinessCenter\<close>
     (41841, 41842), \<comment> \<open>NoUnderlyingOptionExerciseDates, UnderlyingOptionExerciseDate\<close>
     (41844, 41845), \<comment> \<open>NoUnderlyingOptionExerciseExpirationDateBusinessCenters, UnderlyingOptionExerciseExpirationDateBusinessCenter\<close>
     (41856, 41857), \<comment> \<open>NoUnderlyingOptionExerciseExpirationDates, UnderlyingOptionExerciseExpirationDate\<close>
     (40966, 40690), \<comment> \<open>NoUnderlyingPaymentScheduleFixingDateBusinessCenters, UnderlyingPaymentScheduleFixingDateBusinessCenter\<close>
     (41878, 41879), \<comment> \<open>NoUnderlyingPaymentScheduleFixingDays, UnderlyingPaymentScheduleFixingDayOfWeek\<close>
     (40967, 40699), \<comment> \<open>NoUnderlyingPaymentScheduleInterimExchangeDateBusinessCenters, UnderlyingPaymentScheduleInterimExchangeDatesBusinessCenter\<close>
     (40704, 40705), \<comment> \<open>NoUnderlyingPaymentScheduleRateSources, UnderlyingPaymentScheduleRateSource\<close>
     (40664, 40665), \<comment> \<open>NoUnderlyingPaymentSchedules, UnderlyingPaymentScheduleType\<close>
     (42901, 42902), \<comment> \<open>NoUnderlyingPaymentStreamCompoundingDates, UnderlyingPaymentStreamCompoundingDate\<close>
     (42915, 42916), \<comment> \<open>NoUnderlyingPaymentStreamCompoundingDatesBusinessCenters, UnderlyingPaymentStreamCompoundingDatesBusinessCenter\<close>
     (40972, 40607), \<comment> \<open>NoUnderlyingPaymentStreamFixingDateBusinessCenters, UnderlyingPaymentStreamFixingDateBusinessCenter\<close>
     (42955, 42956), \<comment> \<open>NoUnderlyingPaymentStreamFixingDates, UnderlyingPaymentStreamFixingDate\<close>
     (42981, 43111), \<comment> \<open>NoUnderlyingPaymentStreamFormulas, UnderlyingPaymentStreamFormulaLength\<close>
     (40971, 40600), \<comment> \<open>NoUnderlyingPaymentStreamInitialFixingDateBusinessCenters, UnderlyingPaymentStreamInitialFixingDateBusinessCenter\<close>
     (40968, 40650), \<comment> \<open>NoUnderlyingPaymentStreamNonDeliverableFixingDatesBizCenters, UnderlyingPaymentStreamNonDeliverableFixingDatesBusinessCenter\<close>
     (40969, 40582), \<comment> \<open>NoUnderlyingPaymentStreamPaymentDateBusinessCenters, UnderlyingPaymentStreamPaymentDateBusinessCenter\<close>
     (41937, 41938), \<comment> \<open>NoUnderlyingPaymentStreamPaymentDates, UnderlyingPaymentStreamPaymentDate\<close>
     (41909, 41910), \<comment> \<open>NoUnderlyingPaymentStreamPricingBusinessCenters, UnderlyingPaymentStreamPricingBusinessCenter\<close>
     (41941, 41942), \<comment> \<open>NoUnderlyingPaymentStreamPricingDates, UnderlyingPaymentStreamPricingDate\<close>
     (41944, 41945), \<comment> \<open>NoUnderlyingPaymentStreamPricingDays, UnderlyingPaymentStreamPricingDayOfWeek\<close>
     (40970, 40594), \<comment> \<open>NoUnderlyingPaymentStreamResetDateBusinessCenters, UnderlyingPaymentStreamResetDateBusinessCenter\<close>
     (42991, 42992), \<comment> \<open>NoUnderlyingPaymentStubEndDateBusinessCenters, UnderlyingPaymentStubEndDateBusinessCenter\<close>
     (43000, 43001), \<comment> \<open>NoUnderlyingPaymentStubStartDateBusinessCenters, UnderlyingPaymentStubStartDateBusinessCenter\<close>
     (40708, 40709), \<comment> \<open>NoUnderlyingPaymentStubs, UnderlyingPaymentStubType\<close>
     (42065, 42066), \<comment> \<open>NoUnderlyingPhysicalSettlDeliverableObligations, UnderlyingPhysicalSettlDeliverableObligationType\<close>
     (42060, 42065), \<comment> \<open>NoUnderlyingPhysicalSettlTerms, NoUnderlyingPhysicalSettlDeliverableObligations\<close>
     (41947, 41948), \<comment> \<open>NoUnderlyingPricingDateBusinessCenters, UnderlyingPricingDateBusinessCenter\<close>
     (42090, 42091), \<comment> \<open>NoUnderlyingProtectionTermEventNewsSources, UnderlyingProtectionTermEventNewsSource\<close>
     (42085, 42086), \<comment> \<open>NoUnderlyingProtectionTermEventQualifiers, UnderlyingProtectionTermEventQualifier\<close>
     (42077, 42078), \<comment> \<open>NoUnderlyingProtectionTermEvents, UnderlyingProtectionTermEventType\<close>
     (42087, 42088), \<comment> \<open>NoUnderlyingProtectionTermObligations, UnderlyingProtectionTermObligationType\<close>
     (42068, 42069), \<comment> \<open>NoUnderlyingProtectionTerms, UnderlyingProtectionTermNotional\<close>
     (42180, 42181), \<comment> \<open>NoUnderlyingProvisionCashSettlPaymentDateBusinessCenters, UnderlyingProvisionCashSettlPaymentDateBusinessCenter\<close>
     (42099, 42100), \<comment> \<open>NoUnderlyingProvisionCashSettlPaymentDates, UnderlyingProvisionCashSettlPaymentDate\<close>
     (42182, 42183), \<comment> \<open>NoUnderlyingProvisionCashSettlValueDateBusinessCenters, UnderlyingProvisionCashSettlValueDateBusinessCenter\<close>
     (42190, 42191), \<comment> \<open>NoUnderlyingProvisionDateBusinessCenters, UnderlyingProvisionDateBusinessCenter\<close>
     (42184, 42185), \<comment> \<open>NoUnderlyingProvisionOptionExerciseBusinessCenters, UnderlyingProvisionOptionExerciseBusinessCenter\<close>
     (42112, 42113), \<comment> \<open>NoUnderlyingProvisionOptionExerciseFixedDates, UnderlyingProvisionOptionExerciseFixedDate\<close>
     (42186, 42187) \<comment> \<open>NoUnderlyingProvisionOptionExpirationDateBusinessCenters, UnderlyingProvisionOptionExpirationDateBusinessCenter\<close>
   ]"

definition registered_groups_5 :: "(int \<times> int) list" where
  "registered_groups_5 = [
     (42188, 42189), \<comment> \<open>NoUnderlyingProvisionOptionRelevantUnderlyingDateBusinessCenters, UnderlyingProvisionOptionRelevantUnderlyingDateBusinessCenter\<close>
     (42173, 42174), \<comment> \<open>NoUnderlyingProvisionPartyIDs, UnderlyingProvisionPartyID\<close>
     (42177, 42178), \<comment> \<open>NoUnderlyingProvisionPartySubIDs, UnderlyingProvisionPartySubID\<close>
     (42149, 42150), \<comment> \<open>NoUnderlyingProvisions, UnderlyingProvisionType\<close>
     (43005, 43006), \<comment> \<open>NoUnderlyingRateSpreadSteps, UnderlyingRateSpreadStepDate\<close>
     (43008, 43009), \<comment> \<open>NoUnderlyingReturnRateDates, UnderlyingReturnRateDateMode\<close>
     (43030, 43031), \<comment> \<open>NoUnderlyingReturnRateFXConversions, UnderlyingReturnRateFXCurrencySymbol\<close>
     (43060, 43061), \<comment> \<open>NoUnderlyingReturnRateInformationSources, UnderlyingReturnRateInformationSource\<close>
     (43064, 43065), \<comment> \<open>NoUnderlyingReturnRatePrices, UnderlyingReturnRatePriceBasis\<close>
     (43069, 43070), \<comment> \<open>NoUnderlyingReturnRateValuationDateBusinessCenters, UnderlyingReturnRateValuationDateBusinessCenter\<close>
     (43071, 43072), \<comment> \<open>NoUnderlyingReturnRateValuationDates, UnderlyingReturnRateValuationDate\<close>
     (43034, 43035), \<comment> \<open>NoUnderlyingReturnRates, UnderlyingReturnRatePriceSequence\<close>
     (2080, 2081), \<comment> \<open>NoUnderlyingSecondaryAssetClasses, UnderlyingSecondaryAssetClass\<close>
     (457, 458), \<comment> \<open>NoUnderlyingSecurityAltID, UnderlyingSecurityAltID\<close>
     (43074, 43075), \<comment> \<open>NoUnderlyingSettlMethodElectionDateBusinessCenters, UnderlyingSettlMethodElectionDateBusinessCenter\<close>
     (40659, 40660), \<comment> \<open>NoUnderlyingSettlRateFallbacks, UnderlyingSettlRatePostponementMaximumDays\<close>
     (887, 888), \<comment> \<open>NoUnderlyingStips, UnderlyingStipType\<close>
     (41800, 41801), \<comment> \<open>NoUnderlyingStreamAssetAttributes, UnderlyingStreamAssetAttributeType\<close>
     (40973, 40557), \<comment> \<open>NoUnderlyingStreamCalculationPeriodBusinessCenters, UnderlyingStreamCalculationPeriodBusinessCenter\<close>
     (41954, 41955), \<comment> \<open>NoUnderlyingStreamCalculationPeriodDates, UnderlyingStreamCalculationPeriodDate\<close>
     (41990, 41991), \<comment> \<open>NoUnderlyingStreamCommodityAltIDs, UnderlyingStreamCommodityAltID\<close>
     (41993, 41994), \<comment> \<open>NoUnderlyingStreamCommodityDataSources, UnderlyingStreamCommodityDataSourceID\<close>
     (41962, 41963), \<comment> \<open>NoUnderlyingStreamCommoditySettlBusinessCenters, UnderlyingStreamCommoditySettlBusinessCenter\<close>
     (41996, 41997), \<comment> \<open>NoUnderlyingStreamCommoditySettlDays, UnderlyingStreamCommoditySettlDay\<close>
     (42002, 42003), \<comment> \<open>NoUnderlyingStreamCommoditySettlPeriods, UnderlyingStreamCommoditySettlCountry\<close>
     (41999, 42000), \<comment> \<open>NoUnderlyingStreamCommoditySettlTimes, UnderlyingStreamCommoditySettlStart\<close>
     (40975, 40059), \<comment> \<open>NoUnderlyingStreamEffectiveDateBusinessCenters, UnderlyingStreamEffectiveDateBusinessCenter\<close>
     (40974, 40560), \<comment> \<open>NoUnderlyingStreamFirstPeriodStartDateBusinessCenters, UnderlyingStreamFirstPeriodStartDateBusinessCenter\<close>
     (40976, 40550), \<comment> \<open>NoUnderlyingStreamTerminationDateBusinessCenters, UnderlyingStreamTerminationDateBusinessCenter\<close>
     (40540, 40541), \<comment> \<open>NoUnderlyingStreams, UnderlyingStreamType\<close>
     (711, 311), \<comment> \<open>NoUnderlyings, UnderlyingSymbol\<close>
     (1058, 1059), \<comment> \<open>NoUndlyInstrumentParties, UnderlyingInstrumentPartyID\<close>
     (1062, 1063), \<comment> \<open>NoUndlyInstrumentPartySubIDs, UnderlyingInstrumentPartySubID\<close>
     (809, 553), \<comment> \<open>NoUsernames, Username\<close>
     (1868, 1869) \<comment> \<open>NoValueChecks, ValueCheckType\<close>
   ]"

definition registered_groups :: "(int \<times> int) list" where
  "registered_groups = registered_groups_1 @ registered_groups_2 @ registered_groups_3 @ registered_groups_4 @ registered_groups_5"

section \<open>Compile-time dispatch\<close>

text \<open>\<open>group_def<CountTag>::first_tag\<close>: the specialisation, or the primary template's 0.\<close>

definition first_tag :: "int \<Rightarrow> int" where
  "first_tag count_tag = (case map_of registered_groups count_tag of Some d \<Rightarrow> d | None \<Rightarrow> 0)"

text \<open>A failed \<open>static_assert\<close> is a program that does not exist, here the value \<open>None\<close>.\<close>

definition reader_group_of :: "byte list \<Rightarrow> reader \<Rightarrow> int \<Rightarrow> group_view option" where
  "reader_group_of mem r count_tag =
     (if first_tag count_tag \<noteq> 0
      then reader_group mem r (word_of_int count_tag) (word_of_int (first_tag count_tag))
      else None)"

definition entry_group_of :: "byte list \<Rightarrow> group_entry \<Rightarrow> int \<Rightarrow> group_view option" where
  "entry_group_of mem en count_tag =
     (if first_tag count_tag \<noteq> 0
      then entry_group mem en (word_of_int count_tag) (word_of_int (first_tag count_tag))
      else None)"

section \<open>What the registrations are\<close>

lemmas registered_groups_defs = registered_groups_def registered_groups_1_def registered_groups_2_def registered_groups_3_def registered_groups_4_def registered_groups_5_def

text \<open>All tags are positive, so a registration is told from the primary template.\<close>

abbreviation proper_tags :: "(int \<times> int) list \<Rightarrow> bool" where
  "proper_tags gs \<equiv> list_all (\<lambda>(c, d). 0 < c \<and> c < 2 ^ 31 \<and> 0 < d \<and> d < 2 ^ 31) gs"

lemma registered_proper: "proper_tags registered_groups"
proof -
  have "proper_tags registered_groups_1" "proper_tags registered_groups_2" "proper_tags registered_groups_3"
    "proper_tags registered_groups_4" "proper_tags registered_groups_5"
    by (simp_all add: registered_groups_1_def registered_groups_2_def registered_groups_3_def
        registered_groups_4_def registered_groups_5_def)
  then show ?thesis by (simp add: registered_groups_def)
qed

lemma first_tag_iff: "first_tag c \<noteq> 0 \<longleftrightarrow> c \<in> fst ` set registered_groups"
proof -
  have "d \<noteq> 0" if "map_of registered_groups c = Some d" for d
    using map_of_SomeD [OF that] registered_proper by (auto simp: list_all_iff)
  then show ?thesis
    using map_of_eq_None_iff [of registered_groups c]
    by (cases "map_of registered_groups c") (auto simp: first_tag_def)
qed

lemma reader_group_of_registered:
  "c \<in> fst ` set registered_groups \<Longrightarrow>
     reader_group_of mem r c = reader_group mem r (word_of_int c) (word_of_int (first_tag c))"
  by (simp add: reader_group_of_def first_tag_iff)

text \<open>Groups whose delimiter no field of a message can have: their views have no entries.\<close>

lemma group_without_delimiter:
  assumes "framed mem r"
    "visit (increment mem) iter_eq (r_begin r) (r_end r) = Some (pre @ x # post)"
    "\<forall>y \<in> set pre. \<not> at_tag count_tag y" "at_tag count_tag x"
    "Option.bind (value_bytes mem (f_value (it_current x))) (try_as_int False) = Some (n :: u64)"
    "\<forall>y \<in> set post. \<not> at_tag d y"
  shows "\<exists>g. reader_group mem r count_tag d = Some g \<and> group_size g = unat n \<and> group_entries mem g = Some []"
proof -
  have "dropWhile (\<lambda>it. \<not> at_tag d it) post = []" using assms(6) by simp
  then have "group_fields (unat n) d post = []" by (simp only: group_fields_def chunks.simps take_Nil)
  with reader_group_entries [OF assms(1-5), of d] show ?thesis by auto
qed

text \<open>
  Three registered delimiters are data length tags, which the field iterator consumes together
  with their data field, and one group is registered as its own delimiter.
\<close>

definition unreachable_groups :: "int list" where
  "unreachable_groups = [42485, 42683, 42981, 1445]"

lemma unreachable_1: "map (map_of registered_groups_1) unreachable_groups = [None, None, None, None]"
  by (simp add: unreachable_groups_def registered_groups_1_def)

lemma unreachable_2: "map (map_of registered_groups_2) unreachable_groups = [Some 43110, None, None, None]"
  by (simp add: unreachable_groups_def registered_groups_2_def)

lemma unreachable_3: "map (map_of registered_groups_3) unreachable_groups = [None, Some 43109, None, Some 1445]"
  by (simp add: unreachable_groups_def registered_groups_3_def)

lemma unreachable_4: "map (map_of registered_groups_4) unreachable_groups = [None, None, Some 43111, None]"
  by (simp add: unreachable_groups_def registered_groups_4_def)

lemma unreachable_5: "map (map_of registered_groups_5) unreachable_groups = [None, None, None, None]"
  by (simp add: unreachable_groups_def registered_groups_5_def)

lemma unreachable_first_tags:
  "map first_tag unreachable_groups = [43110, 43109, 43111, 1445]"
  using unreachable_1 unreachable_2 unreachable_3 unreachable_4 unreachable_5
  by (simp add: unreachable_groups_def first_tag_def registered_groups_def map_add_def)

lemma unreachable_delimiters:
  assumes "c \<in> set unreachable_groups"
  shows "first_tag c \<noteq> 0 \<and> (is_tag_a_data_length (word_of_int (first_tag c)) \<or> first_tag c = c)"
proof -
  have "first_tag 42485 = 43110" "first_tag 42683 = 43109" "first_tag 42981 = 43111" "first_tag 1445 = 1445"
    using unreachable_first_tags by (simp_all add: unreachable_groups_def)
  moreover have "is_tag_a_data_length 43110" "is_tag_a_data_length 43109" "is_tag_a_data_length 43111"
    by (simp_all add: is_tag_a_data_length_iff length_fields_def)
  moreover have "c = 42485 \<or> c = 42683 \<or> c = 42981 \<or> c = 1445"
    using assms by (simp add: unreachable_groups_def)
  ultimately show ?thesis by (elim disjE) (simp_all only:, simp_all)
qed

lemma unreachable_own_delimiter: "c \<in> set unreachable_groups \<Longrightarrow> first_tag c = c \<Longrightarrow> c = 1445"
  using unreachable_first_tags by (auto simp: unreachable_groups_def)

text \<open>
  What the reader shows of a well-formed message, cut at one of its fields. The length tag of a data field
  is not shown: the iterator consumes it with the field.
\<close>

lemma map_split: "map f xs = ys @ y # zs \<Longrightarrow> \<exists>as x bs. xs = as @ x # bs \<and> map f as = ys \<and> f x = y \<and> map f bs = zs"
  by (auto simp: map_eq_append_conv map_eq_Cons_conv)

lemma message_split:
  assumes m: "message_ok (v, mt, pre @ Plain t val # post)" and mem: "holds_at mem b (message_text (v, mt, pre @ Plain t val # post))"
    and e: "b + length (message_text (v, mt, pre @ Plain t val # post)) \<le> e" "e \<le> length mem"
  shows "\<exists>r before x after. message_reader mem b e = Some r \<and> framed mem r \<and>
    visit (increment mem) iter_eq (r_begin r) (r_end r) = Some (before @ x # after) \<and>
    map (\<lambda>it. f_tag (it_current it)) before = 35 # map wire_tag pre \<and>
    f_tag (it_current x) = t \<and> value_bytes mem (f_value (it_current x)) = Some val \<and>
    map (\<lambda>it. f_tag (it_current it)) after = map wire_tag post"
proof -
  from reads_one [OF mem m e] obtain r where
    r: "message_reader mem b e = Some r" "reads_message_as mem r (v, mt, pre @ Plain t val # post)" "r_complete r" "r_valid r"
    by blast
  have "b \<le> e" using e(1) by linarith
  with message_reader_result [of b e mem] e(2) r(1,3,4) have f: "framed mem r" by auto
  from r(2) obtain its where its: "visit (increment mem) iter_eq (r_begin r) (r_end r) = Some its"
    "shown mem its = map (\<lambda>(t, val). (t, Some val)) (wire_fields ((Plain 35 mt # pre) @ Plain t val # post))"
    by (auto simp: reads_as_def)
  let ?show = "\<lambda>it. (f_tag (it_current it), value_bytes mem (f_value (it_current it)))"
  have shown: "shown mem = map ?show" by (simp add: fun_eq_iff shown_def)
  have "map ?show its = map (\<lambda>(t, val). (t, Some val)) (wire_fields (Plain 35 mt # pre)) @ (t, Some val) #
      map (\<lambda>(t, val). (t, Some val)) (wire_fields post)" using its(2) by (simp add: shown)
  from map_split [OF this, folded shown] obtain before x after where split: "its = before @ x # after"
    "shown mem before = map (\<lambda>(t, val). (t, Some val)) (wire_fields (Plain 35 mt # pre))"
    "(f_tag (it_current x), value_bytes mem (f_value (it_current x))) = (t, Some val)"
    "shown mem after = map (\<lambda>(t, val). (t, Some val)) (wire_fields post)"
    by (elim exE conjE) (rule that)
  have tags: "map (\<lambda>it. f_tag (it_current it)) js = map wire_tag fs"
    if "shown mem js = map (\<lambda>(t, val). (t, Some val)) (wire_fields fs)" for js fs
    using arg_cong [OF that, of "map fst"] by (simp add: shown_def comp_def split_def)
  have "map (\<lambda>it. f_tag (it_current it)) before = 35 # map wire_tag pre" using tags [OF split(2)] by simp
  moreover have "f_tag (it_current x) = t" "value_bytes mem (f_value (it_current x)) = Some val"
    using split(3) by simp_all
  ultimately show ?thesis
    using tags [OF split(4)] r(1) f its(1) unfolding split(1)
    by (intro exI [of _ r] exI [of _ before] exI [of _ x] exI [of _ after] conjI)
qed

lemma map_tags: "map f xs = ys \<Longrightarrow> x \<in> set xs \<Longrightarrow> f x \<in> set ys"
  by auto

lemma unreachable_group_empty:
  assumes c: "c \<in> set unreachable_groups"
    and m: "message_ok (v, mt, pre @ Plain (word_of_int c) val # post)"
    and mem: "holds_at mem b (message_text (v, mt, pre @ Plain (word_of_int c) val # post))"
    and e: "b + length (message_text (v, mt, pre @ Plain (word_of_int c) val # post)) \<le> e" "e \<le> length mem"
    and first: "word_of_int c \<notin> wire_tag ` set pre" and n: "try_as_int False val = Some (n :: u64)"
    and data: "\<And>tg td bs. Binary tg td bs \<in> set post \<Longrightarrow> \<not> is_tag_a_data_length td"
    and own: "c = 1445 \<Longrightarrow> word_of_int c \<notin> wire_tag ` set post"
  shows "\<exists>r g. message_reader mem b e = Some r \<and> reader_group_of mem r c = Some g \<and> group_size g = unat n \<and>
    group_entries mem g = Some []"
proof -
  from message_split [OF m mem e] obtain r before x after where
    r: "message_reader mem b e = Some r" "framed mem r"
      "visit (increment mem) iter_eq (r_begin r) (r_end r) = Some (before @ x # after)"
      "map (\<lambda>it. f_tag (it_current it)) before = 35 # map wire_tag pre"
      "f_tag (it_current x) = word_of_int c" "value_bytes mem (f_value (it_current x)) = Some val"
      "map (\<lambda>it. f_tag (it_current it)) after = map wire_tag post"
    by (elim exE conjE) (rule that)
  note d = unreachable_delimiters [OF c]
  have shown: "\<not> is_tag_a_data_length (wire_tag f)" if "f \<in> set post" for f
  proof -
    have "wire_ok f" using that m by auto
    then show ?thesis using that data by (cases f) auto
  qed
  have "word_of_int (first_tag c) \<notin> wire_tag ` set post"
  proof (cases "first_tag c = c")
    case True
    then show ?thesis using own unreachable_own_delimiter [OF c] by simp
  next
    case False
    then show ?thesis using d shown by auto
  qed
  then have no: "\<forall>y \<in> set after. f_tag (it_current y) \<noteq> word_of_int (first_tag c)"
    using map_tags [OF r(7)] unfolding set_map by metis
  have "(35 :: u32) \<noteq> word_of_int c" using c by (auto simp: unreachable_groups_def)
  with first have "word_of_int c \<notin> set (35 # map wire_tag pre)" by auto
  then have "\<forall>y \<in> set before. f_tag (it_current y) \<noteq> word_of_int c"
    using map_tags [OF r(4)] by metis
  moreover have "Option.bind (value_bytes mem (f_value (it_current x))) (try_as_int False) = Some n"
    by (simp add: r(6) n)
  ultimately show ?thesis
    using group_without_delimiter [OF r(2,3) _ r(5) _ no, of n] d r(1) by (simp add: reader_group_of_def)
qed

end
