(* ===== verification/Fuzz_Harness.thy ===== *)
theory Fuzz_Harness
  imports Indexed_Message Batch
begin

text \<open>
  The fuzz target of \<open>src/fuzz/fuzz_reader.cpp\<close>: one pass of nearly every reading operation over
  arbitrary bytes. Its discarded results are returned by the model. The result, for all inputs at
  once, is what the fuzzer looks for on some: no access outside the input (for the conversions of a value, none outside the value's bytes), no loop that does not
  return, no failed assertion.
\<close>

section \<open>The harness\<close>

record value_results =
  vr_signed :: "64 word option"
  vr_unsigned :: "64 word option"
  vr_decimal :: "(64 word \<times> 64 word) option"
  vr_date :: "(int \<times> int \<times> int) option"
  vr_monthyear :: "(int \<times> int) option"
  vr_timeonly :: "(int \<times> int \<times> int \<times> int) option"
  vr_millis :: "u64 option"
  vr_nanos :: "u64 option"
  vr_size :: nat
  vr_text :: "byte list"

definition fuzz_field :: "byte list \<Rightarrow> iter \<Rightarrow> value_results option" where
  "fuzz_field mem it = do {
     let v = f_value (it_current it);
     bs \<leftarrow> value_bytes mem v;
     date \<leftarrow> as_date bs;
     monthyear \<leftarrow> as_monthyear bs;
     timeonly \<leftarrow> as_timeonly bs;
     millis \<leftarrow> as_epoch_millis bs;
     nanos \<leftarrow> as_epoch_nanos bs;
     Some \<lparr>vr_signed = try_as_int True bs, vr_unsigned = try_as_int False bs, vr_decimal = try_as_decimal bs,
       vr_date = date, vr_monthyear = monthyear, vr_timeonly = timeonly, vr_millis = millis, vr_nanos = nanos,
       vr_size = value_size v, vr_text = as_string_view bs\<rparr>
   }"

definition tags_between :: "byte list \<Rightarrow> iter \<Rightarrow> iter \<Rightarrow> u32 list option" where
  "tags_between mem b e = map_option (map (\<lambda>it. f_tag (it_current it))) (visit (increment mem) iter_eq b e)"

record message_results =
  mr_fields :: "value_results list"
  mr_checksum :: byte
  mr_msgtype :: iter
  mr_sumfield :: iter
  mr_entries :: "u32 list list"
  mr_search :: "((field_value \<times> nat) \<times> bool) option"

definition fuzz_message :: "byte list \<Rightarrow> reader \<Rightarrow> message_results option" where
  "fuzz_message mem r = do {
     b \<leftarrow> reader_begin r;
     e \<leftarrow> reader_end r;
     its \<leftarrow> visit (increment mem) iter_eq b e;
     fs \<leftarrow> those (map (fuzz_field mem) its);
     c \<leftarrow> calculate_check_sum mem r;
     mt \<leftarrow> message_type r;
     cs \<leftarrow> check_sum r;
     g \<leftarrow> reader_group mem r 268 269;
     es \<leftarrow> group_entries mem g;
     ets \<leftarrow> those (map (\<lambda>en. tags_between mem (ge_begin en) (ge_end en)) es);
     (idx, ibuf) \<leftarrow> build_field_index mem r \<lparr>ib_tags = replicate 256 0, ib_pos_len = replicate 256 0\<rparr>;
     found \<leftarrow> (if 0 < field_count idx
       then map_option (\<lambda>res. Some (res, has idx 34)) (indexed_find_with_hint idx 44 0)
       else Some None);
     Some \<lparr>mr_fields = fs, mr_checksum = c, mr_msgtype = mt, mr_sumfield = cs, mr_entries = ets, mr_search = found\<rparr>
   }"

definition fuzz_one :: "byte list \<Rightarrow> (message_results option \<times> u32 list list \<times> ptr) option" where
  "fuzz_one wire = do {
     r \<leftarrow> message_reader wire 0 (length wire);
     res \<leftarrow> (if r_complete r \<and> r_valid r then map_option Some (fuzz_message wire r) else Some None);
     (rs, tail) \<leftarrow> for_each_message wire 0 (length wire);
     tss \<leftarrow> those (map (\<lambda>m. do { b \<leftarrow> reader_begin m; e \<leftarrow> reader_end m; tags_between wire b e }) rs);
     Some (res, tss, tail)
   }"

section \<open>It always returns\<close>

lemma tags_between_framed: "framed mem r \<Longrightarrow> \<exists>ts. tags_between mem (r_begin r) (r_end r) = Some ts"
  using visit_framed [of mem r] by (auto simp: tags_between_def)

lemma group_total:
  assumes "framed mem r"
  shows "\<exists>g es. reader_group mem r count_tag d = Some g \<and> group_entries mem g = Some es \<and>
    (\<forall>en \<in> set es. \<exists>ts. tags_between mem (ge_begin en) (ge_end en) = Some ts)"
proof -
  have valid: "r_valid r" using framed_bounds [OF assms] by simp
  from visit_framed [OF assms] obtain its where
    its: "visit (increment mem) iter_eq (r_begin r) (r_end r) = Some its" by blast
  have fields: "fields_from mem (r_end r) (r_begin r) its" using its by (simp add: visit_iff)
  have sorted: "sorted_wrt (<) (map it_buffer its)"
    by (rule field_it.visit_sorted [OF framed_range [OF assms] its])
  have "\<exists>g its'. find_group mem (r_begin r) (r_end r) count_tag d = Some g \<and>
      fields_from mem (view_end g) (view_begin g) its' \<and> sorted_wrt (<) (map it_buffer its')"
  proof (cases "\<forall>x \<in> set its. \<not> at_tag count_tag x")
    case True
    have "fields_from mem (view_end (empty_view (r_end r) d)) (view_begin (empty_view (r_end r) d)) []"
      by (simp add: empty_view_def iter_eq_def)
    with find_group_absent [OF fields True] show ?thesis by fastforce
  next
    case False
    then obtain pre x post where split: "its = pre @ x # post" "\<forall>y \<in> set pre. \<not> at_tag count_tag y" "at_tag count_tag x"
      using split_list_first_prop [of its "at_tag count_tag"] by blast
    from framed_value [OF assms its, of x] split(1) obtain bs where bs: "value_bytes mem (f_value (it_current x)) = Some bs" by auto
    from find_group_count [OF fields [unfolded split(1)] split(2,3) bs, of d] obtain g where
      g: "find_group mem (r_begin r) (r_end r) count_tag d = Some g"
        "case try_as_int False bs :: u64 option of None \<Rightarrow> g = empty_view (r_end r) d
         | Some n \<Rightarrow> view_count g = unat n \<and> fields_from mem (view_end g) (view_begin g) post" by blast
    have "sorted_wrt (<) (map it_buffer post)" using sorted split(1) by (simp add: sorted_wrt_append)
    moreover have "\<exists>its'. fields_from mem (view_end g) (view_begin g) its' \<and> (its' = [] \<or> its' = post)"
    proof (cases "try_as_int False bs :: u64 option")
      case None
      then have "fields_from mem (view_end g) (view_begin g) []"
        using g(2) by (simp add: empty_view_def iter_eq_def)
      then show ?thesis by blast
    next
      case (Some n)
      with g(2) have "fields_from mem (view_end g) (view_begin g) post" by simp
      then show ?thesis by blast
    qed
    ultimately show ?thesis using g(1) by auto
  qed
  then obtain g its' where g: "find_group mem (r_begin r) (r_end r) count_tag d = Some g"
    "fields_from mem (view_end g) (view_begin g) its'" "sorted_wrt (<) (map it_buffer its')" by blast
  from group_entries_result [OF g(2,3)] obtain es iss where
    es: "group_entries mem g = Some es" "list_all2 (entry_fields mem) es iss" by blast
  have "\<exists>ts. tags_between mem (ge_begin en) (ge_end en) = Some ts" if "en \<in> set es" for en
    using es(2) that by (auto simp: list_all2_conv_all_nth in_set_conv_nth tags_between_def visit_iff [symmetric])
  with g(1) es(1) valid show ?thesis by (auto simp: reader_group_def reader_begin_def reader_end_def)
qed

lemma index_total:
  assumes "framed mem r" "buffer_ok buf"
  shows "\<exists>im buf'. build_field_index mem r buf = Some (im, buf') \<and>
    (0 < field_count im \<longrightarrow> (\<exists>res. indexed_find_with_hint im tag 0 = Some res))"
proof (cases "it_message_end (r_end r) \<le> r_buffer r + kMaxIndexableMessageBytes")
  case True
  from visit_framed [OF assms(1)] obtain its where
    "visit (increment mem) iter_eq (r_begin r) (r_end r) = Some its" by blast
  from build_index_result [OF assms True this] obtain im buf' where
    im: "build_field_index mem r buf = Some (im, buf')" "indexes im (take (length (ib_tags buf)) its)" by blast
  with indexed_find_spec [of im "[]" "take (length (ib_tags buf)) its" tag] show ?thesis by auto
next
  case False
  obtain c where "r_end r = \<lparr>it_buffer = c, it_message_end = c + 7, it_current = mk_field 10 (c + 3) (c + 6)\<rparr>"
    using assms(1) by (auto simp: framed_def)
  then have "message_size r = Some (it_message_end (r_end r) - r_buffer r)"
    using framed_bounds [OF assms(1)] by (auto simp: message_size_def mk_field_def mk_value_def Let_def)
  with False show ?thesis
    using framed_bounds [OF assms(1)] by (auto simp: build_field_index_def Let_def no_index_def field_count_def)
qed

lemma fuzz_message_total:
  assumes "framed mem r"
  shows "\<exists>res. fuzz_message mem r = Some res"
proof -
  note b = framed_bounds [OF assms]
  from visit_framed [OF assms] obtain its where
    its: "visit (increment mem) iter_eq (r_begin r) (r_end r) = Some its" by blast
  have "\<exists>fs. those (map (fuzz_field mem) its) = Some fs"
  proof (rule those_map_total)
    show "\<exists>y. fuzz_field mem it = Some y" if "it \<in> set its" for it
    proof -
      from framed_value [OF assms its that] obtain bs where "value_bytes mem (f_value (it_current it)) = Some bs" by auto
      with conversions_return [of bs] show ?thesis by (auto simp: fuzz_field_def Let_def simp del: split_paired_Ex)
    qed
  qed
  moreover have "\<exists>c. calculate_check_sum mem r = Some c"
    using b framed_end [OF assms] by (auto simp: calculate_check_sum_def check_sum_range_def rd_range_Some Let_def)
  moreover from group_total [OF assms, of 268 269] obtain g es where
    g: "reader_group mem r 268 269 = Some g" "group_entries mem g = Some es"
      "\<forall>en \<in> set es. \<exists>ts. tags_between mem (ge_begin en) (ge_end en) = Some ts" by blast
  moreover have "\<exists>ets. those (map (\<lambda>en. tags_between mem (ge_begin en) (ge_end en)) es) = Some ets"
    using g(3) by (intro those_map_total) auto
  moreover from index_total [OF assms, of "\<lparr>ib_tags = replicate 256 0, ib_pos_len = replicate 256 0\<rparr>" 44]
  obtain im buf' where "build_field_index mem r \<lparr>ib_tags = replicate 256 0, ib_pos_len = replicate 256 0\<rparr> = Some (im, buf')"
    "0 < field_count im \<longrightarrow> (\<exists>res. indexed_find_with_hint im 44 0 = Some res)" by auto
  ultimately show ?thesis
    using b its by (fastforce simp: fuzz_message_def reader_begin_def reader_end_def message_type_def check_sum_def)
qed

lemma fuzz_one_total: "\<exists>res. fuzz_one wire = Some res"
proof -
  from message_reader_result [of 0 "length wire" wire] obtain r where
    r: "message_reader wire 0 (length wire) = Some r" "r_complete r \<and> r_valid r \<longrightarrow> framed wire r" by auto
  from for_each_result [of 0 "length wire" wire] obtain rs tail where
    rs: "for_each_message wire 0 (length wire) = Some (rs, tail)" "\<forall>m \<in> set rs. framed wire m"
    by (auto simp: shows_readers_def)
  have "\<exists>tss. those (map (\<lambda>m. do { b \<leftarrow> reader_begin m; e \<leftarrow> reader_end m; tags_between wire b e }) rs) = Some tss"
    using rs(2) tags_between_framed [of wire] framed_bounds [of wire]
    by (intro those_map_total) (auto simp: reader_begin_def reader_end_def)
  with r rs(1) fuzz_message_total [of wire r] show ?thesis
    by (cases "r_complete r \<and> r_valid r") (auto simp: fuzz_one_def)
qed

end
