(* ===== verification/Std_Library.thy ===== *)
theory Std_Library
  imports Fix_Prelude
begin

text \<open>
  The parts of the C and C++ standard library that the command line programs under \<open>src/utils\<close> use:
  \<open>std::atol\<close> and \<open>std::atoi\<close>, \<open>operator<<\<close> for integers, and \<open>std::map\<close> as an association list with
  strictly increasing keys, the order in which it is iterated.
\<close>

section \<open>Numbers\<close>

text \<open>
  Blanks, a sign, digits up to the first other character; zero when there are none.
  A value that the result type does not hold is undefined behaviour.
\<close>

definition is_space :: "char \<Rightarrow> bool" where
  "is_space c \<longleftrightarrow> c = CHR '' '' \<or> (9 \<le> (of_char c :: nat) \<and> (of_char c :: nat) \<le> 13)"

definition is_digit_char :: "char \<Rightarrow> bool" where
  "is_digit_char c \<longleftrightarrow> 48 \<le> (of_char c :: nat) \<and> (of_char c :: nat) \<le> 57"

definition c_number :: "string \<Rightarrow> int" where
  "c_number str =
     (let cs = dropWhile is_space str;
          negative = (cs \<noteq> [] \<and> hd cs = CHR ''-'');
          ds = takeWhile is_digit_char (if cs \<noteq> [] \<and> (hd cs = CHR ''-'' \<or> hd cs = CHR ''+'') then tl cs else cs);
          n = foldl (\<lambda>v d. v * 10 + (of_char d - 48)) 0 ds
      in if negative then - n else n)"

definition c_atol :: "string \<Rightarrow> int option" where
  "c_atol str = (let v = c_number str in if - (2 ^ 63) \<le> v \<and> v < 2 ^ 63 then Some v else None)"

definition c_atoi :: "string \<Rightarrow> int option" where
  "c_atoi str = (let v = c_number str in if - (2 ^ 31) \<le> v \<and> v < 2 ^ 31 then Some v else None)"

definition show_nat :: "nat \<Rightarrow> string" where
  "show_nat n = map (\<lambda>b. char_of (unat b)) (dec_digits n)"

definition show_int :: "int \<Rightarrow> string" where
  "show_int i = (if i < 0 then ''-'' @ show_nat (nat (- i)) else show_nat (nat i))"

lemmas c_number_simps = c_number_def is_space_def is_digit_char_def of_char_def

section \<open>Ordered maps\<close>

definition ordered :: "('k :: linorder \<times> 'v) list \<Rightarrow> bool" where
  "ordered m \<longleftrightarrow> sorted_wrt (<) (map fst m)"

text \<open>\<open>m[k] = v\<close>.\<close>

fun map_put :: "'k :: linorder \<Rightarrow> 'v \<Rightarrow> ('k \<times> 'v) list \<Rightarrow> ('k \<times> 'v) list" where
  "map_put k v [] = [(k, v)]"
| "map_put k v ((a, b) # m) =
     (if k < a then (k, v) # (a, b) # m
      else if k = a then (k, v) # m
      else (a, b) # map_put k v m)"

text \<open>\<open>m.try_emplace(k, v)\<close>.\<close>

definition try_emplace :: "'k :: linorder \<Rightarrow> 'v \<Rightarrow> ('k \<times> 'v) list \<Rightarrow> ('k \<times> 'v) list" where
  "try_emplace k v m = (if map_of m k = None then map_put k v m else m)"

text \<open>\<open>m.erase(k)\<close>.\<close>

definition map_erase :: "'k :: linorder \<Rightarrow> ('k \<times> 'v) list \<Rightarrow> ('k \<times> 'v) list" where
  "map_erase k m = filter (\<lambda>p. fst p \<noteq> k) m"

named_theorems ordered_intros

lemma ordered_Nil [ordered_intros]: "ordered []"
  by (simp add: ordered_def)

lemma map_put_keys: "set (map fst (map_put k v m)) = insert k (set (map fst m))"
  by (induction k v m rule: map_put.induct) auto

lemma map_of_put [simp]: "map_of (map_put k v m) = (map_of m)(k \<mapsto> v)"
  by (induction k v m rule: map_put.induct) auto

lemma ordered_put [ordered_intros]: "ordered m \<Longrightarrow> ordered (map_put k v m)"
proof (induction m)
  case (Cons p m)
  obtain a b where p: "p = (a, b)" by (cases p)
  have m: "ordered m" "\<forall>x \<in> fst ` set m. a < x" using Cons.prems by (auto simp: ordered_def p)
  show ?case
  proof (cases "k \<le> a")
    case True
    then show ?thesis using Cons.prems m(2) by (auto simp: ordered_def p)
  next
    case False
    then have "\<forall>x \<in> set (map fst (map_put k v m)). a < x" unfolding map_put_keys using m(2) by simp
    then show ?thesis using False Cons.IH [OF m(1)] m by (auto simp: ordered_def p)
  qed
qed (simp add: ordered_def)

lemma ordered_emplace [ordered_intros]: "ordered m \<Longrightarrow> ordered (try_emplace k v m)"
  by (simp add: try_emplace_def ordered_put)

lemma ordered_erase [ordered_intros]: "ordered m \<Longrightarrow> ordered (map_erase k m)"
  by (induction m) (auto simp: ordered_def map_erase_def)

lemma ordered_distinct: "ordered m \<Longrightarrow> distinct (map fst m)"
  by (simp add: ordered_def strict_sorted_iff)

lemma ordered_mem: "ordered m \<Longrightarrow> (k, v) \<in> set m \<longleftrightarrow> map_of m k = Some v"
  using ordered_distinct by (metis map_of_SomeD map_of_is_SomeI)

end
