(* ===== verification/Fixgen.thy ===== *)
theory Fixgen
  imports Field_Values Std_Library "HOL-Library.Multiset"
begin

text \<open>
  The message generator \<open>src/utils/fixgen/fixgen.cpp\<close>, a client of the writer. The calls that a
  message consists of are data (\<open>writer_op\<close>), made in the order of the code. The random
  numbers are a parameter: \<open>draw g a b\<close> is a \<open>std::uniform_int_distribution<int>(a, b)\<close> and \<open>draw_type g\<close>
  the \<open>std::discrete_distribution\<close> of seven weights, on a generator state \<open>g\<close>; what the standard
  promises of them, a value in the range, is the hypothesis \<open>draws_in_range\<close>. The operands
  of the sum of durations in \<open>base_time\<close>, which C++ leaves unordered, are drawn from left to right.
  Sequence numbers are 32-bit words; the code's \<open>seq * 7\<close> is a product of two \<open>int\<close>s, undefined when it
  leaves their range, which it does behind message 306783378.
  The result: whatever is drawn, the file of up to that many messages is a stream that the reader reads back.
\<close>

type_synonym 'g draw = "'g \<Rightarrow> int \<Rightarrow> int \<Rightarrow> int \<times> 'g"

section \<open>Tables\<close>

definition kBuf :: nat where "kBuf = 2 ^ 18"

definition kSymbols :: "string list" where
  "kSymbols = [
    ''AAPL'', ''MSFT'', ''GOOG'', ''GOOGL'', ''AMZN'', ''TSLA'', ''META'', ''NVDA'', ''BRK-B'', ''V'',
    ''JPM'', ''JNJ'', ''WMT'', ''MA'', ''PG'', ''XOM'', ''UNH'', ''HD'', ''BAC'', ''ABBV'', ''PFE'',
    ''AVGO'', ''CVX'', ''KO'', ''LLY'', ''MRK'', ''COST'', ''PEP'', ''TMO'', ''ADBE'', ''CSCO'', ''DIS'',
    ''NKE'', ''ABT'', ''ACN'', ''MCD'', ''TXN'', ''DHR'', ''CRM'', ''NEE'', ''VZ'', ''ORCL'', ''NFLX'',
    ''AMD'', ''INTC'', ''AMGN'', ''IBM'', ''T'', ''BMY'', ''QCOM'', ''GE'', ''GS'', ''MS'', ''AXP'',
    ''CAT'', ''BLK'', ''RTX'', ''SPGI'', ''BKNG'', ''AMT'', ''NOW'', ''INTU'', ''DE'', ''GILD'', ''ISRG'',
    ''MDT'', ''ELV'', ''ADP'', ''LMT'', ''MMC'', ''SYK'', ''CB'', ''MO'', ''SCHW'', ''CI'', ''ZTS'',
    ''BDX'', ''USB'', ''PNC'', ''TJX'', ''REGN'', ''BSX'', ''EOG'', ''EQIX'', ''SHW'', ''AMAT'', ''SO'',
    ''NSC'', ''PLD'', ''NOC'', ''CSX'', ''FCX'', ''ADI'', ''ITW'', ''FDX'', ''KDP'', ''ICE'', ''GD'',
    ''EW'', ''EMR'', ''COP'', ''MMM'', ''BX'', ''MDLZ'', ''MU'', ''PYPL'', ''PANW'', ''LRCX'', ''KLAC'',
    ''SBUX'', ''SPY'', ''QQQ'', ''IWM'', ''DIA'', ''VOO'', ''VTI'', ''EFA'', ''EEM'', ''AGG'', ''BND'',
    ''GLD'', ''SLV'', ''USO'', ''UNG'', ''TLT'', ''IEF'', ''SHY'', ''LQD'', ''HYG'', ''VEA'', ''VWO'',
    ''IVV'', ''IJR'', ''IJH'', ''IAU'', ''GDX'', ''GDXJ'', ''XLF'', ''XLE'', ''XLK'', ''XLV'', ''XLI'',
    ''XLP'', ''XLY'', ''XLU'', ''XLB'', ''XLRE'', ''XLC'', ''VNQ'', ''DBC'', ''ESH5'', ''ESM5'', ''ESU5'',
    ''ESZ5'', ''NQH5'', ''NQM5'', ''NQU5'', ''NQZ5'', ''YMH5'', ''YMM5'', ''RTYH5'', ''RTYM5'', ''CLG5'',
    ''CLH5'', ''NGG5'', ''NGH5'', ''RBG5'', ''HOG5'', ''BZG5'', ''GCG5'', ''GCJ5'', ''GCM5'', ''SIH5'',
    ''SIK5'', ''HGH5'', ''HGK5'', ''PAH5'', ''PLF5'', ''ZBH5'', ''ZNH5'', ''ZFH5'', ''ZTH5'', ''ZCH5'',
    ''ZSH5'', ''ZWH5'', ''ZLH5'', ''ZMH5'', ''VXG5'', ''VXH5'', ''VXM5'', ''EURUSD'', ''GBPUSD'',
    ''USDJPY'', ''AUDUSD'', ''USDCAD'', ''USDCHF'', ''NZDUSD'', ''USDCNH'', ''EURGBP'', ''EURJPY'',
    ''GBPJPY'', ''AUDJPY'', ''EURCHF'', ''EURAUD'', ''EURNZD'', ''EURCAD'', ''EURSEK'', ''EURNOK'',
    ''USDMXN'', ''USDZAR'', ''6EH5'', ''6JH5'', ''6BH5'', ''6AH5'', ''6CH5'', ''6SH5'', ''BTCH5'',
    ''BTCM5'', ''ETHH5'', ''ETHM5'']"

definition kNumSymbols :: int where "kNumSymbols = 220"

definition kSenders :: "string list" where
  "kSenders = [''A'', ''B'', ''CME'', ''CLNT'', ''EXCH'']"

definition kNumSenders :: int where "kNumSenders = 5"

text \<open>Indexing a table; outside of it the code's behaviour is undefined.\<close>

definition entry_at :: "string list \<Rightarrow> int \<Rightarrow> byte list option" where
  "entry_at table i = (if 0 \<le> i \<and> i < int (length table) then Some (lit (table ! nat i)) else None)"

section \<open>Times and order ids\<close>

text \<open>2024-01-15 (day 19737), in microseconds.\<close>

definition base_time :: "'g draw \<Rightarrow> 'g \<Rightarrow> int \<times> 'g" where
  "base_time draw g =
     (let (hour, g) = draw g 9 15;
          (minute, g) = draw g 0 59;
          (second, g) = draw g 0 59;
          (micro, g) = draw g 0 999999
      in ((((19737 * 24 + hour) * 60 + minute) * 60 + second) * 1000000 + micro, g))"

definition hex :: "byte list" where "hex = lit ''0123456789ABCDEF''"

definition make_clordid :: "32 word \<Rightarrow> byte list" where
  "make_clordid seq =
     (let mix = scast seq * (0x9E3779B97F4A7C15 :: u64) in
      lit ''CL'' @
      map (\<lambda>i. hex ! unat (and (drop_bit ((7 - i) * 4) seq) 0xF)) [0..<8] @
      map (\<lambda>i. hex ! unat (and (drop_bit ((9 - i) * 4) mix) 0xF)) [0..<10])"

section \<open>The calls of a message\<close>

text \<open>\<open>w.push_back_timestamp(tag, tp)\<close> for a time point in microseconds.\<close>

definition timestamp_call :: "u32 \<Rightarrow> int \<Rightarrow> writer_op" where
  "timestamp_call tag tp =
     (case timepointtoparts 1000000 tp of (year, month, day, hour, minute, second, millisecond) \<Rightarrow>
        Timestamp tag year month day hour minute second millisecond)"

definition session_header :: "'g draw \<Rightarrow> byte list \<Rightarrow> 32 word \<Rightarrow> byte list \<Rightarrow> byte list \<Rightarrow> 'g \<Rightarrow>
    writer_op list \<times> 'g" where
  "session_header draw msg_type seq sender target g =
     (let (t, g) = base_time draw g in
      ([Header (lit ''FIXT.1.1''), Str 35 msg_type, Str 49 sender, Str 56 target, Int32 34 seq,
        timestamp_call 52 t], g))"

text \<open>
  What the seven \<open>write_\<close> functions share: a writer on the buffer, the session header, an
  early exit when it failed, the body, the trailer. The size is \<open>None\<close> when \<open>ok\<close> was set to false.
\<close>

definition write_with :: "writer_op list \<Rightarrow> writer_op list \<Rightarrow> byte list \<Rightarrow> (nat option \<times> byte list) option" where
  "write_with head body buf = do {
     w \<leftarrow> run_ops head (message_writer buf);
     if \<not> writer_ok w then Some (None, w_buffer w)
     else do {
       w \<leftarrow> run_ops body w;
       (ok, w) \<leftarrow> push_back_trailer True w;
       Some (if ok then Some (writer_message_end w) else None, w_buffer w)
     }
   }"

definition heartbeat_calls :: "'g draw \<Rightarrow> 32 word \<Rightarrow> byte list \<Rightarrow> byte list \<Rightarrow> 'g \<Rightarrow>
    (writer_op list \<times> writer_op list \<times> 'g) option" where
  "heartbeat_calls draw seq sender target g =
     (let (head, g) = session_header draw (lit ''0'') seq sender target g in Some (head, [], g))"

definition logon_calls :: "'g draw \<Rightarrow> 32 word \<Rightarrow> byte list \<Rightarrow> byte list \<Rightarrow> 'g \<Rightarrow>
    (writer_op list \<times> writer_op list \<times> 'g) option" where
  "logon_calls draw seq sender target g =
     (let (head, g) = session_header draw (lit ''A'') seq sender target g
      in Some (head, [Int32 98 0, Int32 108 30, Int32 1137 9], g))"

definition logout_calls :: "'g draw \<Rightarrow> 32 word \<Rightarrow> byte list \<Rightarrow> byte list \<Rightarrow> 'g \<Rightarrow>
    (writer_op list \<times> writer_op list \<times> 'g) option" where
  "logout_calls draw seq sender target g =
     (let (head, g) = session_header draw (lit ''5'') seq sender target g in Some (head, [], g))"

definition new_order_calls :: "'g draw \<Rightarrow> 32 word \<Rightarrow> byte list \<Rightarrow> byte list \<Rightarrow> byte list \<Rightarrow> int \<Rightarrow> int \<Rightarrow> byte \<Rightarrow>
    'g \<Rightarrow> (writer_op list \<times> writer_op list \<times> 'g) option" where
  "new_order_calls draw seq sender target symbol price qty side g =
     (let (head, g) = session_header draw (lit ''D'') seq sender target g;
          (t, g) = base_time draw g
      in Some (head,
        [Str 11 (make_clordid seq), Chr 21 49, Str 55 symbol, Chr 54 side, timestamp_call 60 t,
         Int32 38 (word_of_int qty), Chr 40 50, Dec32 44 (word_of_int price) (- 2), Chr 59 48], g))"

text \<open>The product of two \<open>int\<close>s: out of their range it is undefined behaviour.\<close>

definition int_product :: "32 word \<Rightarrow> int \<Rightarrow> 32 word option" where
  "int_product x k =
     (let p = sint x * k in if - (2 ^ 31) \<le> p \<and> p < 2 ^ 31 then Some (word_of_int p) else None)"

definition exec_report_calls :: "'g draw \<Rightarrow> 32 word \<Rightarrow> byte list \<Rightarrow> byte list \<Rightarrow> byte list \<Rightarrow> int \<Rightarrow> int \<Rightarrow> byte \<Rightarrow>
    'g \<Rightarrow> (writer_op list \<times> writer_op list \<times> 'g) option" where
  "exec_report_calls draw seq sender target symbol price qty side g =
     (let (head, g) = session_header draw (lit ''8'') seq sender target g
      in do {
        exec_id \<leftarrow> int_product seq 7;
        Some (head,
          [Int32 37 seq, Int32 17 exec_id, Chr 150 50, Chr 39 50, Str 55 symbol, Chr 54 side, Int32 151 0,
           Int32 14 (word_of_int qty), Dec32 6 (word_of_int price) (- 2), Dec32 31 (word_of_int price) (- 2),
           Int32 32 (word_of_int qty)], g)
      })"

text \<open>The loop over the levels of one side; \<open>px i\<close> is the price of level \<open>i\<close>.\<close>

fun md_levels :: "'g draw \<Rightarrow> byte \<Rightarrow> (int \<Rightarrow> int) \<Rightarrow> int \<Rightarrow> nat \<Rightarrow> 'g \<Rightarrow> writer_op list \<times> 'g" where
  "md_levels draw entry_type px i 0 g = ([], g)"
| "md_levels draw entry_type px i (Suc k) g =
     (let (qty, g) = draw g 1 5000;
          (rest, g) = md_levels draw entry_type px (i + 1) k g
      in ([Chr 269 entry_type, Dec32 270 (word_of_int (px i)) (- 2), Int32 271 (word_of_int qty)] @ rest, g))"

definition md_snapshot_calls :: "'g draw \<Rightarrow> 32 word \<Rightarrow> byte list \<Rightarrow> byte list \<Rightarrow> 'g \<Rightarrow>
    (writer_op list \<times> writer_op list \<times> 'g) option" where
  "md_snapshot_calls draw seq sender target g =
     (let (s, g) = draw g 0 (kNumSymbols - 1);
          (n_bid, g) = draw g 3 10;
          (n_ask, g) = draw g 3 10;
          (mid, g) = draw g 50000 600000;
          (spread, g) = draw g 5 50;
          (head, g) = session_header draw (lit ''W'') seq sender target g;
          (bids, g) = md_levels draw 48 (\<lambda>i. mid - spread - i * 10) 0 (nat n_bid) g;
          (asks, g) = md_levels draw 49 (\<lambda>i. mid + spread + i * 10) 0 (nat n_ask) g
      in do {
        symbol \<leftarrow> entry_at kSymbols s;
        Some (head, [Str 55 symbol, Int32 268 (word_of_int (n_bid + n_ask))] @ bids @ asks, g)
      })"

text \<open>The partial Fisher-Yates shuffle of the symbol indices, \<open>k\<close> steps from position \<open>i\<close> on.\<close>

fun shuffle :: "'g draw \<Rightarrow> nat \<Rightarrow> nat \<Rightarrow> int list \<Rightarrow> 'g \<Rightarrow> (int list \<times> 'g) option" where
  "shuffle draw i 0 indices g = Some (indices, g)"
| "shuffle draw i (Suc k) indices g =
     (let (j, g) = draw g (int i) (kNumSymbols - 1) in
      if i < length indices \<and> 0 \<le> j \<and> nat j < length indices
      then shuffle draw (i + 1) k (indices[i := indices ! nat j, nat j := indices ! i]) g
      else None)"

fun md_updates :: "'g draw \<Rightarrow> int list \<Rightarrow> nat \<Rightarrow> nat \<Rightarrow> 'g \<Rightarrow> (writer_op list \<times> 'g) option" where
  "md_updates draw indices i 0 g = Some ([], g)"
| "md_updates draw indices i (Suc k) g =
     (let (px, g) = draw g 50000 600000;
          (qty, g) = draw g 1 5000
      in if i < length indices then do {
        symbol \<leftarrow> entry_at kSymbols (indices ! i);
        (rest, g) \<leftarrow> md_updates draw indices (i + 1) k g;
        Some ([Chr 279 ([48, 49, 50] ! (i mod 3)), Chr 269 (if odd i then 48 else 49), Str 55 symbol,
               Dec32 270 (word_of_int px) (- 2), Int32 271 (word_of_int qty)] @ rest, g)
      } else None)"

definition md_incremental_calls :: "'g draw \<Rightarrow> 32 word \<Rightarrow> byte list \<Rightarrow> byte list \<Rightarrow> 'g \<Rightarrow>
    (writer_op list \<times> writer_op list \<times> 'g) option" where
  "md_incremental_calls draw seq sender target g =
     (let (n, g) = draw g 1 200 in do {
        (indices, g) \<leftarrow> shuffle draw 0 (nat n) (map int [0..<nat kNumSymbols]) g;
        let (head, g) = session_header draw (lit ''X'') seq sender target g;
        (updates, g) \<leftarrow> md_updates draw indices 0 (nat n) g;
        Some (head, [Int32 268 (word_of_int n)] @ updates, g)
      })"

section \<open>The program\<close>

record stats =
  total_bytes :: nat
  min_seen :: nat
  max_seen :: nat

definition add_message :: "nat \<Rightarrow> stats \<Rightarrow> stats" where
  "add_message n st =
     \<lparr>total_bytes = total_bytes st + n, min_seen = (if n < min_seen st then n else min_seen st),
      max_seen = (if max_seen st < n then n else max_seen st)\<rparr>"

text \<open>One round of the loop of \<open>main\<close>: the message with number \<open>seq\<close>, written into \<open>buf\<close>.\<close>

definition message_calls :: "'g draw \<Rightarrow> ('g \<Rightarrow> nat \<times> 'g) \<Rightarrow> 32 word \<Rightarrow> 'g \<Rightarrow>
    ((writer_op list \<times> writer_op list) option \<times> 'g) option" where
  "message_calls draw draw_type seq g =
     (let (t, g) = draw_type g;
          (s, g) = draw g 0 (kNumSymbols - 1);
          (a, g) = draw g 0 (kNumSenders - 1);
          (b, g) = draw g 0 (kNumSenders - 1);
          (price, g) = draw g 50000 600000;
          (qty, g) = draw g 1 500;
          (d, g) = draw g 0 1;
          side = (if d = 0 then 49 else 50)
      in do {
        symbol \<leftarrow> entry_at kSymbols s;
        sender \<leftarrow> entry_at kSenders a;
        target \<leftarrow> entry_at kSenders b;
        let pack = map_option (\<lambda>(head, body, g). (Some (head, body), g));
        if t = 0 then pack (heartbeat_calls draw seq sender target g)
        else if t = 1 then pack (new_order_calls draw seq sender target symbol price qty side g)
        else if t = 2 then pack (exec_report_calls draw seq sender target symbol price qty side g)
        else if t = 3 then pack (md_snapshot_calls draw seq sender target g)
        else if t = 4 then pack (md_incremental_calls draw seq sender target g)
        else if t = 5 then pack (logon_calls draw seq sender target g)
        else if t = 6 then pack (logout_calls draw seq sender target g)
        else Some (None, g)
      })"

text \<open>The exit code, the bytes written to the file, and the statistics.\<close>

fun gen_loop :: "'g draw \<Rightarrow> ('g \<Rightarrow> nat \<times> 'g) \<Rightarrow> nat \<Rightarrow> nat \<Rightarrow> 'g \<Rightarrow> byte list \<Rightarrow> byte list \<Rightarrow> stats \<Rightarrow>
    (int \<times> byte list \<times> stats) option" where
  "gen_loop draw draw_type i 0 g buf out st = Some (0, out, st)"
| "gen_loop draw draw_type i (Suc k) g buf out st = do {
     (calls, g) \<leftarrow> message_calls draw draw_type (of_nat (i + 1)) g;
     (n, buf) \<leftarrow> (case calls of None \<Rightarrow> Some (Some 0, buf) | Some (head, body) \<Rightarrow> write_with head body buf);
     case n of
       None \<Rightarrow> Some (1, out, st)
     | Some n \<Rightarrow> do {
         bs \<leftarrow> rd_range buf 0 n;
         gen_loop draw draw_type (i + 1) k g buf (out @ bs) (add_message n st)
       }
   }"

definition fixgen :: "'g draw \<Rightarrow> ('g \<Rightarrow> nat \<times> 'g) \<Rightarrow> nat \<Rightarrow> 'g \<Rightarrow> byte list \<Rightarrow> (int \<times> byte list \<times> stats) option" where
  "fixgen draw draw_type n_messages g buf =
     gen_loop draw draw_type 0 n_messages g buf [] \<lparr>total_bytes = 0, min_seen = 2 ^ 64 - 1, max_seen = 0\<rparr>"

section \<open>Every call fits\<close>

definition draws_in_range :: "'g draw \<Rightarrow> ('g \<Rightarrow> nat \<times> 'g) \<Rightarrow> bool" where
  "draws_in_range draw draw_type \<longleftrightarrow>
     (\<forall>g a b. a \<le> b \<longrightarrow> a \<le> fst (draw g a b) \<and> fst (draw g a b) \<le> b) \<and> (\<forall>g. fst (draw_type g) \<le> 6)"

lemma drawn:
  assumes "draws_in_range draw draw_type" "a \<le> b"
  obtains x g' where "draw g a b = (x, g')" "a \<le> x" "x \<le> b"
proof -
  have "a \<le> fst (draw g a b) \<and> fst (draw g a b) \<le> b"
    using assms unfolding draws_in_range_def by blast
  with that show thesis by (cases "draw g a b") auto
qed

lemma drawn_index:
  assumes "draws_in_range draw draw_type" "0 < n"
  obtains x g' where "draw g 0 (n - 1) = (x, g')" "0 \<le> x" "x < n"
proof -
  have "0 \<le> n - 1" using assms(2) by simp
  from drawn [OF assms(1) this, of g] obtain x g' where "draw g 0 (n - 1) = (x, g')" "0 \<le> x" "x \<le> n - 1" .
  with that [of x g'] show thesis by simp
qed

lemma kSymbols_ok: "list_all (\<lambda>s. length s \<le> 6 \<and> SOH \<notin> set (lit s)) kSymbols"
  by (simp add: kSymbols_def lit_def of_char_def)

lemma kSymbols_length: "length kSymbols = 220"
  by (simp add: kSymbols_def)

lemma kSenders_ok: "list_all (\<lambda>s. length s \<le> 6 \<and> SOH \<notin> set (lit s)) kSenders" "length kSenders = 5"
  by (simp_all add: kSenders_def lit_def of_char_def)

lemma entry_at_ok:
  assumes "list_all (\<lambda>s. length s \<le> 6 \<and> SOH \<notin> set (lit s)) table" "0 \<le> i" "i < int (length table)"
  obtains bs where "entry_at table i = Some bs" "length bs \<le> 6" "SOH \<notin> set bs"
proof -
  have "nat i < length table" using assms(2,3) by linarith
  then have "length (table ! nat i) \<le> 6 \<and> SOH \<notin> set (lit (table ! nat i))"
    using assms(1) by (simp add: list_all_length)
  with that [of "lit (table ! nat i)"] assms(2,3) show thesis by (simp add: entry_at_def)
qed

text \<open>A field call that can be read back and reserves at most 40 bytes.\<close>

definition small_call :: "writer_op \<Rightarrow> bool" where
  "small_call x \<longleftrightarrow> op_clean x \<and> op_need x \<le> 40"

lemma not_length_tags [simp]:
  "\<not> is_tag_a_data_length 6" "\<not> is_tag_a_data_length 11" "\<not> is_tag_a_data_length 14" "\<not> is_tag_a_data_length 17"
  "\<not> is_tag_a_data_length 21" "\<not> is_tag_a_data_length 31" "\<not> is_tag_a_data_length 32" "\<not> is_tag_a_data_length 34"
  "\<not> is_tag_a_data_length 35" "\<not> is_tag_a_data_length 37" "\<not> is_tag_a_data_length 38" "\<not> is_tag_a_data_length 39"
  "\<not> is_tag_a_data_length 40" "\<not> is_tag_a_data_length 44" "\<not> is_tag_a_data_length 49" "\<not> is_tag_a_data_length 52"
  "\<not> is_tag_a_data_length 54" "\<not> is_tag_a_data_length 55" "\<not> is_tag_a_data_length 56" "\<not> is_tag_a_data_length 59"
  "\<not> is_tag_a_data_length 60" "\<not> is_tag_a_data_length 98" "\<not> is_tag_a_data_length 108" "\<not> is_tag_a_data_length 150"
  "\<not> is_tag_a_data_length 151" "\<not> is_tag_a_data_length 268" "\<not> is_tag_a_data_length 269" "\<not> is_tag_a_data_length 270"
  "\<not> is_tag_a_data_length 271" "\<not> is_tag_a_data_length 279" "\<not> is_tag_a_data_length 1137"
  by (simp_all add: is_tag_a_data_length_iff length_fields_def)

lemma two_decimals_fit: "length (dtoa_unchecked (m :: 32 word) (- 2)) \<le> max_ascii_chars_int + 1"
proof -
  have "nat \<bar>sint m\<bar> \<le> 2 ^ 31"
    using sint_in_range [of m] by (auto simp: in_range_def)
  then have "nat \<bar>sint m\<bar> div 100 < 10 ^ 8" by simp
  then have "length (dec_digits (nat \<bar>sint m\<bar> div 10 ^ 2)) \<le> 8"
    using dec_digits_length [of 8 "nat \<bar>sint m\<bar> div 100"] by simp
  then show ?thesis
    using dtoa_eq [where 'a = 32, of m 2]
    by (cases "sint m < 0") (simp_all add: decimal_digits_length max_ascii_chars_int_def)
qed

lemma small_calls [simp]:
  "\<not> is_tag_a_data_length t \<Longrightarrow> c \<noteq> SOH \<Longrightarrow> small_call (Chr t c)"
  "\<not> is_tag_a_data_length t \<Longrightarrow> small_call (Int32 t n)"
  "\<not> is_tag_a_data_length t \<Longrightarrow> small_call (Dec32 t n (- 2))"
  "\<not> is_tag_a_data_length t \<Longrightarrow> SOH \<notin> set bs \<Longrightarrow> length bs \<le> 20 \<Longrightarrow> small_call (Str t bs)"
  "\<not> is_tag_a_data_length t \<Longrightarrow> small_call (timestamp_call t tp)"
  using two_decimals_fit [of n]
  by (auto simp: small_call_def max_ascii_chars_int_def timestamp_call_def split: prod.splits)

text \<open>The calls of a whole message: header, MsgType, at most a thousand and ten other fields.\<close>

definition message_ok_calls :: "writer_op list \<Rightarrow> writer_op list \<Rightarrow> bool" where
  "message_ok_calls head body \<longleftrightarrow>
     (\<exists>mt hs. head = Header (lit ''FIXT.1.1'') # Str 35 mt # hs \<and> SOH \<notin> set mt \<and> length mt = 1 \<and>
        (\<forall>x \<in> set (hs @ body). small_call x) \<and> length (hs @ body) \<le> 1010)"

lemma session_header_ok:
  assumes "SOH \<notin> set mt" "length mt = 1" "SOH \<notin> set a" "length a \<le> 6" "SOH \<notin> set b" "length b \<le> 6"
    and "\<forall>x \<in> set body. small_call x" "length body \<le> 1001"
  obtains head g' where "session_header draw mt seq a b g = (head, g')" "message_ok_calls head body"
proof -
  obtain t g' where "base_time draw g = (t, g')" by (cases "base_time draw g")
  then have "session_header draw mt seq a b g =
      ([Header (lit ''FIXT.1.1''), Str 35 mt, Str 49 a, Str 56 b, Int32 34 seq, timestamp_call 52 t], g')"
    by (simp add: session_header_def)
  with that assms show thesis by (fastforce simp: message_ok_calls_def)
qed

lemma nibble: "unat (and w 0xF :: 'a::len word) < 16"
proof -
  have "and w 0xF \<le> (0xF :: 'a word)" by (rule word_and_le1)
  then have "unat (and w 0xF) \<le> unat (0xF :: 'a word)" by (simp only: word_le_nat_alt)
  also have "unat (0xF :: 'a word) \<le> 15"
    using take_bit_nat_less_eq_self [of "LENGTH('a)" 15] unat_of_nat [of 15, where 'a = 'a] by simp
  finally show ?thesis by simp
qed

lemma hex_digit: "hex ! unat (and w 0xF :: 'a::len word) \<noteq> SOH"
proof -
  have "SOH \<notin> set hex" "length hex = 16" by (simp_all add: hex_def lit_def of_char_def)
  with nibble [of w] show ?thesis by (metis nth_mem)
qed

lemma clordid_ok: "length (make_clordid seq) = 20" "SOH \<notin> set (make_clordid seq)"
proof -
  show "length (make_clordid seq) = 20" by (simp add: make_clordid_def Let_def lit_def)
  have cl: "SOH \<notin> set (lit ''CL'')" by (simp add: lit_def of_char_def)
  show "SOH \<notin> set (make_clordid seq)"
    unfolding make_clordid_def Let_def set_append using cl hex_digit [where 'a = 32] hex_digit [where 'a = 64] by auto
qed

section \<open>The calls of each message\<close>

lemma md_levels_ok:
  assumes "c \<noteq> SOH"
  shows "(\<forall>x \<in> set (fst (md_levels draw c px i k g)). small_call x) \<and>
    length (fst (md_levels draw c px i k g)) = 3 * k"
proof (induction k arbitrary: i g)
  case (Suc k)
  obtain q g1 where q: "draw g 1 5000 = (q, g1)" by (cases "draw g 1 5000")
  obtain rest g2 where r: "md_levels draw c px (i + 1) k g1 = (rest, g2)"
    by (cases "md_levels draw c px (i + 1) k g1")
  from Suc.IH [of "i + 1" g1] show ?case using assms by (simp add: q r)
qed simp

lemma shuffle_ok:
  assumes "draws_in_range draw draw_type" "int i + int k \<le> kNumSymbols" "length xs = nat kNumSymbols"
  shows "\<exists>ys g'. shuffle draw i k xs g = Some (ys, g') \<and> mset ys = mset xs"
  using assms(2,3)
proof (induction k arbitrary: i xs g)
  case (Suc k)
  have "int i \<le> kNumSymbols - 1" using Suc.prems(1) by simp
  from drawn [OF assms(1) this, of g] obtain j g1 where
    j: "draw g (int i) (kNumSymbols - 1) = (j, g1)" "int i \<le> j" "j \<le> kNumSymbols - 1" by blast
  then have b: "i < length xs" "0 \<le> j" "nat j < length xs" using Suc.prems by linarith+
  let ?xs = "xs[i := xs ! nat j, nat j := xs ! i]"
  from Suc.IH [of "i + 1" ?xs g1] Suc.prems obtain ys g' where
    "shuffle draw (i + 1) k ?xs g1 = Some (ys, g')" "mset ys = mset ?xs" by auto
  with b mset_swap [of "nat j" xs i] show ?case by (simp add: j(1))
qed simp

lemma md_updates_ok:
  assumes "\<forall>s \<in> set (take k (drop i xs)). 0 \<le> s \<and> s < kNumSymbols" "i + k \<le> length xs"
  shows "\<exists>us g'. md_updates draw xs i k g = Some (us, g') \<and> (\<forall>x \<in> set us. small_call x) \<and> length us = 5 * k"
  using assms
proof (induction k arbitrary: i g)
  case (Suc k)
  obtain p g1 where p: "draw g 50000 600000 = (p, g1)" by (cases "draw g 50000 600000")
  obtain q g2 where q: "draw g1 1 5000 = (q, g2)" by (cases "draw g1 1 5000")
  have i: "i < length xs" using Suc.prems(2) by simp
  then have d: "take (Suc k) (drop i xs) = xs ! i # take k (drop (Suc i) xs)"
    by (simp add: Cons_nth_drop_Suc [symmetric])
  with Suc.prems(1) have s: "0 \<le> xs ! i" "xs ! i < int (length kSymbols)"
    by (simp_all add: kSymbols_length kNumSymbols_def)
  from entry_at_ok [OF kSymbols_ok s] obtain bs where bs: "entry_at kSymbols (xs ! i) = Some bs" "length bs \<le> 6"
    "SOH \<notin> set bs" by blast
  from Suc.IH [of "Suc i" g2] Suc.prems d obtain us g' where
    us: "md_updates draw xs (Suc i) k g2 = Some (us, g')" "\<forall>x \<in> set us. small_call x" "length us = 5 * k"
    by auto
  have c: "[48, 49, 50] ! (i mod 3) \<noteq> SOH"
  proof -
    have "i mod 3 = 0 \<or> i mod 3 = 1 \<or> i mod 3 = 2" by presburger
    then show ?thesis by (elim disjE) simp_all
  qed
  show ?case using us bs c i by (simp add: p q)
qed simp

text \<open>The largest sequence number whose execution id is an \<open>int\<close>.\<close>

definition max_exec_seq :: nat where "max_exec_seq = 306783378"

lemma int_product_seq:
  assumes "n \<le> max_exec_seq"
  shows "int_product (of_nat n) 7 = Some (of_nat (n * 7))"
proof -
  have "sint (of_nat n :: 32 word) = int n"
    using sint_word_of_int [of "int n", where 'a = 32] assms by (simp add: max_exec_seq_def)
  then show ?thesis using assms by (simp add: int_product_def max_exec_seq_def)
qed

lemma exec_report_overflows: "exec_report_calls draw (of_nat (max_exec_seq + 1)) a b tk price qty side g = None"
  by (simp add: exec_report_calls_def max_exec_seq_def int_product_def split: prod.split)

lemma plain_calls_ok:
  assumes "SOH \<notin> set a" "length a \<le> 6" "SOH \<notin> set b" "length b \<le> 6"
    and "SOH \<notin> set tk" "length tk \<le> 6" "side \<noteq> SOH"
    and "int_product seq 7 = Some eid"
  shows "\<exists>h bd g'. heartbeat_calls draw seq a b g = Some (h, bd, g') \<and> message_ok_calls h bd"
    and "\<exists>h bd g'. logon_calls draw seq a b g = Some (h, bd, g') \<and> message_ok_calls h bd"
    and "\<exists>h bd g'. logout_calls draw seq a b g = Some (h, bd, g') \<and> message_ok_calls h bd"
    and "\<exists>h bd g'. new_order_calls draw seq a b tk price qty side g = Some (h, bd, g') \<and> message_ok_calls h bd"
    and "\<exists>h bd g'. exec_report_calls draw seq a b tk price qty side g = Some (h, bd, g') \<and> message_ok_calls h bd"
proof -
  have mt: "SOH \<notin> set (lit [c]) \<and> length (lit [c]) = 1" if "c \<in> set ''0A5D8WX''" for c
    using that by (auto simp: lit_def of_char_def)
  note header = session_header_ok [OF _ _ assms(1-4)]
  note c = clordid_ok [of seq]
  show "\<exists>h bd g'. heartbeat_calls draw seq a b g = Some (h, bd, g') \<and> message_ok_calls h bd"
    using header [of "lit ''0''" "[]" draw seq g] mt by (fastforce simp: heartbeat_calls_def)
  show "\<exists>h bd g'. logon_calls draw seq a b g = Some (h, bd, g') \<and> message_ok_calls h bd"
    using header [of "lit ''A''" "[Int32 98 0, Int32 108 30, Int32 1137 9]" draw seq g] mt
    by (fastforce simp: logon_calls_def)
  show "\<exists>h bd g'. logout_calls draw seq a b g = Some (h, bd, g') \<and> message_ok_calls h bd"
    using header [of "lit ''5''" "[]" draw seq g] mt by (fastforce simp: logout_calls_def)
  obtain h g1 where h: "session_header draw (lit ''D'') seq a b g = (h, g1)"
    by (cases "session_header draw (lit ''D'') seq a b g")
  obtain t g2 where t: "base_time draw g1 = (t, g2)" by (cases "base_time draw g1")
  show "\<exists>h bd g'. new_order_calls draw seq a b tk price qty side g = Some (h, bd, g') \<and> message_ok_calls h bd"
    using header [of "lit ''D''" "[Str 11 (make_clordid seq), Chr 21 49, Str 55 tk, Chr 54 side,
        timestamp_call 60 t, Int32 38 (word_of_int qty), Chr 40 50, Dec32 44 (word_of_int price) (- 2), Chr 59 48]"
        draw seq g] mt h t c assms(5-7) by (fastforce simp: new_order_calls_def)
  show "\<exists>h bd g'. exec_report_calls draw seq a b tk price qty side g = Some (h, bd, g') \<and> message_ok_calls h bd"
    using header [of "lit ''8''" "[Int32 37 seq, Int32 17 eid, Chr 150 50, Chr 39 50, Str 55 tk, Chr 54 side,
        Int32 151 0, Int32 14 (word_of_int qty), Dec32 6 (word_of_int price) (- 2),
        Dec32 31 (word_of_int price) (- 2), Int32 32 (word_of_int qty)]" draw seq g] mt assms(5-8)
    by (fastforce simp: exec_report_calls_def)
qed

lemma snapshot_calls_ok:
  assumes r: "draws_in_range draw draw_type"
    and ab: "SOH \<notin> set a" "length a \<le> 6" "SOH \<notin> set b" "length b \<le> 6"
  shows "\<exists>h bd g'. md_snapshot_calls draw seq a b g = Some (h, bd, g') \<and> message_ok_calls h bd"
proof -
  from drawn_index [OF r, of kNumSymbols g] obtain s g1 where
    s: "draw g 0 (kNumSymbols - 1) = (s, g1)" "0 \<le> s" "s < int (length kSymbols)"
    by (metis kNumSymbols_def kSymbols_length of_nat_numeral zero_less_numeral)
  from drawn [OF r, of 3 10 g1] obtain nb g2 where nb: "draw g1 3 10 = (nb, g2)" "3 \<le> nb" "nb \<le> 10" by auto
  from drawn [OF r, of 3 10 g2] obtain na g3 where na: "draw g2 3 10 = (na, g3)" "3 \<le> na" "na \<le> 10" by auto
  obtain mid g4 where m: "draw g3 50000 600000 = (mid, g4)" by (cases "draw g3 50000 600000")
  obtain sp g5 where sp: "draw g4 5 50 = (sp, g5)" by (cases "draw g4 5 50")
  obtain h g6 where h: "session_header draw (lit ''W'') seq a b g5 = (h, g6)"
    by (cases "session_header draw (lit ''W'') seq a b g5")
  obtain bs g7 where bs: "md_levels draw 48 (\<lambda>i. mid - sp - i * 10) 0 (nat nb) g6 = (bs, g7)"
    by (cases "md_levels draw 48 (\<lambda>i. mid - sp - i * 10) 0 (nat nb) g6")
  obtain as g8 where as: "md_levels draw 49 (\<lambda>i. mid + sp + i * 10) 0 (nat na) g7 = (as, g8)"
    by (cases "md_levels draw 49 (\<lambda>i. mid + sp + i * 10) 0 (nat na) g7")
  from entry_at_ok [OF kSymbols_ok s(2,3)] obtain tk where
    tk: "entry_at kSymbols s = Some tk" "length tk \<le> 6" "SOH \<notin> set tk" by blast
  let ?body = "[Str 55 tk, Int32 268 (word_of_int (nb + na))] @ bs @ as"
  have "\<forall>x \<in> set ?body. small_call x" "length ?body \<le> 1001"
    using md_levels_ok [of 48 draw "\<lambda>i. mid - sp - i * 10" 0 "nat nb" g6]
      md_levels_ok [of 49 draw "\<lambda>i. mid + sp + i * 10" 0 "nat na" g7] bs as tk nb na by auto
  from session_header_ok [OF _ _ ab this, of "lit ''W''" draw seq g5] h
  have "message_ok_calls h ?body" by (auto simp: lit_def of_char_def)
  then show ?thesis by (auto simp: md_snapshot_calls_def s(1) nb(1) na(1) m sp h bs as tk(1) Let_def)
qed

lemma incremental_calls_ok:
  assumes r: "draws_in_range draw draw_type"
    and ab: "SOH \<notin> set a" "length a \<le> 6" "SOH \<notin> set b" "length b \<le> 6"
  shows "\<exists>h bd g'. md_incremental_calls draw seq a b g = Some (h, bd, g') \<and> message_ok_calls h bd"
proof -
  from drawn [OF r, of 1 200 g] obtain n g1 where n: "draw g 1 200 = (n, g1)" "1 \<le> n" "n \<le> 200" by auto
  let ?is = "map int [0..<nat kNumSymbols]"
  from shuffle_ok [OF r, of 0 "nat n" ?is g1] n obtain ys g2 where
    ys: "shuffle draw 0 (nat n) ?is g1 = Some (ys, g2)" "mset ys = mset ?is"
    by (auto simp: kNumSymbols_def)
  obtain h g3 where h: "session_header draw (lit ''X'') seq a b g2 = (h, g3)"
    by (cases "session_header draw (lit ''X'') seq a b g2")
  have "set ys = set ?is" "length ys = length ?is" using ys(2) mset_eq_setD mset_eq_length by blast+
  then have "\<forall>s \<in> set (take (nat n) (drop 0 ys)). 0 \<le> s \<and> s < kNumSymbols" "0 + nat n \<le> length ys"
    using n by (auto simp: kNumSymbols_def dest!: in_set_takeD)
  from md_updates_ok [OF this, of draw g3] obtain us g4 where
    us: "md_updates draw ys 0 (nat n) g3 = Some (us, g4)" "\<forall>x \<in> set us. small_call x" "length us = 5 * nat n" by blast
  let ?body = "[Int32 268 (word_of_int n)] @ us"
  have "\<forall>x \<in> set ?body. small_call x" "length ?body \<le> 1001" using us(2,3) n by auto
  from session_header_ok [OF _ _ ab this, of "lit ''X''" draw seq g2] h
  have "message_ok_calls h ?body" by (auto simp: lit_def of_char_def)
  then show ?thesis by (auto simp: md_incremental_calls_def n(1) ys(1) h us(1))
qed

lemma message_calls_ok:
  assumes r: "draws_in_range draw draw_type" and eid: "int_product seq 7 = Some eid"
  shows "\<exists>h bd g'. message_calls draw draw_type seq g = Some (Some (h, bd), g') \<and> message_ok_calls h bd"
proof -
  obtain t g1 where t: "draw_type g = (t, g1)" by (cases "draw_type g")
  have t6: "t \<le> 6" using r t unfolding draws_in_range_def by (metis fst_conv)
  from drawn_index [OF r, of kNumSymbols g1] obtain s g2 where
    s: "draw g1 0 (kNumSymbols - 1) = (s, g2)" "0 \<le> s" "s < int (length kSymbols)"
    by (metis kNumSymbols_def kSymbols_length of_nat_numeral zero_less_numeral)
  from drawn_index [OF r, of kNumSenders g2] obtain a g3 where
    a: "draw g2 0 (kNumSenders - 1) = (a, g3)" "0 \<le> a" "a < int (length kSenders)"
    by (metis kNumSenders_def kSenders_ok(2) of_nat_numeral zero_less_numeral)
  from drawn_index [OF r, of kNumSenders g3] obtain b g4 where
    b: "draw g3 0 (kNumSenders - 1) = (b, g4)" "0 \<le> b" "b < int (length kSenders)"
    by (metis kNumSenders_def kSenders_ok(2) of_nat_numeral zero_less_numeral)
  obtain p g5 where p: "draw g4 50000 600000 = (p, g5)" by (cases "draw g4 50000 600000")
  obtain q g6 where q: "draw g5 1 500 = (q, g6)" by (cases "draw g5 1 500")
  obtain d g7 where d: "draw g6 0 1 = (d, g7)" by (cases "draw g6 0 1")
  from entry_at_ok [OF kSymbols_ok s(2,3)] obtain tk where
    tk: "entry_at kSymbols s = Some tk" "length tk \<le> 6" "SOH \<notin> set tk" by blast
  from entry_at_ok [OF kSenders_ok(1) a(2,3)] obtain sa where
    sa: "entry_at kSenders a = Some sa" "length sa \<le> 6" "SOH \<notin> set sa" by blast
  from entry_at_ok [OF kSenders_ok(1) b(2,3)] obtain sb where
    sb: "entry_at kSenders b = Some sb" "length sb \<le> 6" "SOH \<notin> set sb" by blast
  define side :: byte where "side = (if d = 0 then 49 else 50)"
  have "side \<noteq> SOH" by (simp add: side_def)
  note plain = plain_calls_ok [OF sa(3,2) sb(3,2) tk(3,2) this eid]
  note md = snapshot_calls_ok [OF r sa(3,2) sb(3,2)] incremental_calls_ok [OF r sa(3,2) sb(3,2)]
  consider "t = 0" | "t = 1" | "t = 2" | "t = 3" | "t = 4" | "t = 5" | "t = 6" using t6 by linarith
  then show ?thesis
    unfolding message_calls_def t s(1) a(1) b(1) p q d Let_def prod.case tk(1) sa(1) sb(1) bind.simps side_def [symmetric]
    using plain(1) [of draw g7] plain(2) [of draw g7] plain(3) [of draw g7]
      plain(4) [of draw p q g7] plain(5) [of draw p q g7] md(1) [of seq g7] md(2) [of seq g7]
    by cases auto
qed

section \<open>Every message is written\<close>

lemma small_call_sum: "\<forall>x \<in> set xs. small_call x \<Longrightarrow> sum_list (map op_need xs) \<le> 40 * length xs"
  by (induction xs) (auto simp: small_call_def)

lemma header_open:
  assumes "length (lit ''FIXT.1.1'') + 12 \<le> length buf"
  obtains w where "push_back_header (lit ''FIXT.1.1'') (message_writer buf) = Some w"
    "open_message (lit ''FIXT.1.1'') [] w" "length (w_buffer w) = length buf"
proof -
  have "\<not> no_room (message_writer buf) (length (lit ''FIXT.1.1'') + 12)"
    using assms by (simp add: not_no_room message_writer_def)
  from open_message_header [OF this] obtain w where
    w: "push_back_header (lit ''FIXT.1.1'') (message_writer buf) = Some w" "open_message (lit ''FIXT.1.1'') [] w" by blast
  moreover have "length (w_buffer w) = length buf"
    using header_result [OF w(1) message_writer_inv] by (simp add: message_writer_def)
  ultimately show thesis by (rule that)
qed

text \<open>The message that a list of calls is read back as.\<close>

lemma calls_message:
  assumes clean: "\<forall>x \<in> set (Str 35 mt # xs). op_clean x" and mt: "SOH \<notin> set mt"
    and len: "length (body_text (Str 35 mt # xs)) \<le> 999999"
  shows "\<exists>m. message_ok m \<and> message_text m = fix_message (lit ''FIXT.1.1'') (body_text (Str 35 mt # xs))"
proof -
  let ?v = "lit ''FIXT.1.1''" and ?fs = "map op_field xs"
  have body: "body_text (Str 35 mt # xs) = wire_texts (Plain 35 mt # ?fs)" using body_text_fields [OF clean] by simp
  have "SOH \<notin> set ?v" by (simp add: lit_def of_char_def)
  moreover have "\<forall>f \<in> set ?fs. wire_ok f" using clean op_field_ok by auto
  moreover have "length (wire_texts (Plain 35 mt # ?fs)) \<le> 999999" using len unfolding body .
  ultimately have "message_ok (?v, mt, ?fs)" using mt by simp
  moreover have "message_text (?v, mt, ?fs) = fix_message ?v (body_text (Str 35 mt # xs))"
    by (simp only: message_text.simps body)
  ultimately show ?thesis by blast
qed

lemma write_with_result:
  assumes "message_ok_calls head body" "length buf = kBuf"
  shows "\<exists>m buf'. message_ok m \<and> write_with head body buf = Some (Some (length (message_text m)), buf') \<and>
    rd_range buf' 0 (length (message_text m)) = Some (message_text m) \<and> length buf' = kBuf"
proof -
  let ?v = "lit ''FIXT.1.1''"
  from assms(1) obtain mt hs where head: "head = Header ?v # Str 35 mt # hs" "SOH \<notin> set mt" "length mt = 1"
    and small: "\<forall>x \<in> set (hs @ body). small_call x" and n: "length (hs @ body) \<le> 1010"
    unfolding message_ok_calls_def by blast
  let ?xs = "(Str 35 mt # hs) @ body"
  have smalls: "\<forall>x \<in> set ?xs. small_call x" using small head(2,3) by (auto simp: small_call_def)
  then have clean: "\<forall>x \<in> set ?xs. op_clean x" by (simp add: small_call_def)
  then have field: "\<forall>x \<in> set ?xs. is_field_op x" using op_clean_field by blast
  have "sum_list (map op_need ?xs) \<le> 40 * length ?xs" by (rule small_call_sum [OF smalls])
  then have need: "sum_list (map op_need (Str 35 mt # hs)) + sum_list (map op_need body) \<le> 40440"
    using n by simp
  have len: "length (body_text ?xs) \<le> 40440"
    using body_text_bound [OF field] need by simp
  have "length ?v + 12 \<le> length buf" using assms(2) by (simp add: kBuf_def)
  from header_open [OF this] obtain w0 where
    w0: "push_back_header ?v (message_writer buf) = Some w0" "open_message ?v [] w0" "length (w_buffer w0) = kBuf"
    using assms(2) by metis
  have next0: "w_next w0 = 20" using w0(2) by (simp add: open_message_def)
  from run_fields [OF _ w0(2), of "Str 35 mt # hs"] field obtain w1 where
    w1: "run_ops (Str 35 mt # hs) w0 = Some w1" "w_error w1 \<or> open_message ?v (body_text (Str 35 mt # hs)) w1"
      "w_next w0 + sum_list (map op_need (Str 35 mt # hs)) \<le> length (w_buffer w0) \<longrightarrow> \<not> w_error w1"
      "length (w_buffer w1) = length (w_buffer w0)" by fastforce
  from w1(3) need next0 w0(3) have ok1: "\<not> w_error w1" by (auto simp: kBuf_def)
  with w1(2) have o1: "open_message ?v (body_text (Str 35 mt # hs)) w1" by blast
  have next1: "w_next w1 \<le> 20 + sum_list (map op_need (Str 35 mt # hs))"
    using o1 body_text_bound [of "Str 35 mt # hs"] field by (auto simp: open_message_def)
  from run_fields [OF _ o1, of body] field obtain w2 where
    w2: "run_ops body w1 = Some w2" "w_error w2 \<or> open_message ?v (body_text (Str 35 mt # hs) @ body_text body) w2"
      "w_next w1 + sum_list (map op_need body) \<le> length (w_buffer w1) \<longrightarrow> \<not> w_error w2"
      "length (w_buffer w2) = length (w_buffer w1)" by fastforce
  have "w_next w1 + sum_list (map op_need body) \<le> length (w_buffer w1)"
    using need next1 w1(4) w0(3) by (simp add: kBuf_def)
  with w2(2,3) have o2: "open_message ?v (body_text ?xs) w2" by auto
  then have "\<not> no_room w2 7" using len w2(4) w1(4) w0(3) by (simp add: not_no_room open_message_def kBuf_def)
  from push_back_trailer_open [OF o2 _ this] len obtain w3 where
    w3: "push_back_trailer True w2 = Some (True, w3)" "written w3 = fix_message ?v (body_text ?xs)"
      "w_next w3 \<le> length (w_buffer w3)" by auto
  have len3: "length (w_buffer w3) = kBuf" using trailer_length [OF w3(1)] w2(4) w1(4) w0(3) by simp
  obtain m where m: "message_ok m" "message_text m = fix_message ?v (body_text ?xs)"
    using calls_message [of mt "hs @ body"] clean head(2) len by auto
  have pre: "take (w_next w3) (w_buffer w3) = message_text m"
    by (simp only: m(2) w3(2) [symmetric] written_def)
  moreover from w3(3) have "length (take (w_next w3) (w_buffer w3)) = w_next w3" by simp
  ultimately have wn: "w_next w3 = length (message_text m)" "take (w_next w3) (w_buffer w3) = message_text m"
    by simp_all
  have "write_with head body buf = Some (Some (length (message_text m)), w_buffer w3)"
    using w0(1) w1(1) ok1 w2(1) w3(1) wn(1)
    by (simp add: write_with_def head(1) writer_ok_def writer_message_end_def)
  moreover have "rd_range (w_buffer w3) 0 (length (message_text m)) = Some (message_text m)"
    using wn w3(3) by (simp add: rd_range_Some)
  ultimately show ?thesis using m(1) len3 by blast
qed

section \<open>The data set\<close>

lemma gen_loop_result:
  assumes r: "draws_in_range draw draw_type"
  shows "length buf = kBuf \<Longrightarrow> i + k \<le> max_exec_seq \<Longrightarrow> \<exists>ms st'. gen_loop draw draw_type i k g buf out st =
      Some (0, out @ concat (map message_text ms), st') \<and> length ms = k \<and> (\<forall>m \<in> set ms. message_ok m) \<and>
      total_bytes st' = total_bytes st + length (concat (map message_text ms))"
proof (induction k arbitrary: i g buf out st)
  case 0
  show ?case by (intro exI [of _ "[]"]) simp
next
  case (Suc k)
  have "i + 1 \<le> max_exec_seq" using Suc.prems(2) by simp
  from message_calls_ok [OF r int_product_seq [OF this], of g] obtain h bd g' where
    c: "message_calls draw draw_type (of_nat (i + 1)) g = Some (Some (h, bd), g')" "message_ok_calls h bd" by blast
  from write_with_result [OF c(2) Suc.prems(1)] obtain m buf' where
    m: "message_ok m" "write_with h bd buf = Some (Some (length (message_text m)), buf')"
      "rd_range buf' 0 (length (message_text m)) = Some (message_text m)" "length buf' = kBuf" by blast
  have "i + 1 + k \<le> max_exec_seq" using Suc.prems(2) by simp
  from Suc.IH [OF m(4) this, of g' "out @ message_text m" "add_message (length (message_text m)) st"]
  obtain ms st' where
    IH: "gen_loop draw draw_type (i + 1) k g' buf' (out @ message_text m) (add_message (length (message_text m)) st) =
        Some (0, (out @ message_text m) @ concat (map message_text ms), st')"
      "length ms = k" "\<forall>m \<in> set ms. message_ok m"
      "total_bytes st' = total_bytes (add_message (length (message_text m)) st) + length (concat (map message_text ms))"
    by blast
  have "gen_loop draw draw_type i (Suc k) g buf out st = Some (0, out @ concat (map message_text (m # ms)), st')"
    using c(1) m(2,3) IH(1) by simp
  moreover have "total_bytes st' = total_bytes st + length (concat (map message_text (m # ms)))"
    using IH(4) by (simp add: add_message_def)
  ultimately show ?case using IH(2,3) m(1) by (intro exI [of _ "m # ms"] exI [of _ st']) simp
qed

lemma fixgen_reads_back:
  assumes "draws_in_range draw draw_type" "length buf = kBuf" "0 < k" "k \<le> max_exec_seq"
  shows "\<exists>out st ms rs. fixgen draw draw_type k g buf = Some (0, out, st) \<and> length ms = k \<and>
    out = concat (map message_text ms) \<and> (\<forall>m \<in> set ms. message_ok m) \<and> total_bytes st = length out \<and>
    for_each_message out 0 (length out) = Some (rs, length out) \<and> list_all2 (reads_message_as out) rs ms"
proof -
  from gen_loop_result [OF assms(1,2), of 0 k g "[]" "\<lparr>total_bytes = 0, min_seen = 2 ^ 64 - 1, max_seen = 0\<rparr>"] assms(4)
  obtain ms st where ms: "fixgen draw draw_type k g buf = Some (0, concat (map message_text ms), st)" "length ms = k"
    "\<forall>m \<in> set ms. message_ok m" "total_bytes st = length (concat (map message_text ms))"
    by (auto simp: fixgen_def)
  then obtain m where "m \<in> set ms" using assms(3) by (cases ms) auto
  then have m: "\<forall>x \<in> set (m # ms). message_ok x" using ms(3) by simp
  have "0 < length (message_text m)" by (cases m) simp
  from stream_delivery [OF m this] ms show ?thesis by auto
qed


section \<open>The command line\<close>

record args =
  arg_out :: string
  arg_count :: int
  arg_seed :: u32

definition default_args :: args where
  "default_args = \<lparr>arg_out = [], arg_count = 200000, arg_seed = 42\<rparr>"

text \<open>The outer option is undefined behaviour, the inner one the function's result \<open>false\<close>.\<close>

fun parse_loop :: "string list \<Rightarrow> args \<Rightarrow> args option option" where
  "parse_loop [] a = Some (Some a)"
| "parse_loop (x # rest) a =
     (if x = ''-o'' \<and> rest \<noteq> [] then parse_loop (tl rest) (a\<lparr>arg_out := hd rest\<rparr>)
      else if x = ''-n'' \<and> rest \<noteq> [] then do {
        n \<leftarrow> c_atol (hd rest);
        parse_loop (tl rest) (a\<lparr>arg_count := n\<rparr>)
      } else if x = ''-s'' \<and> rest \<noteq> [] then do {
        n \<leftarrow> c_atol (hd rest);
        parse_loop (tl rest) (a\<lparr>arg_seed := word_of_int n\<rparr>)
      } else Some None)"

definition parse_args :: "string list \<Rightarrow> args option option" where
  "parse_args argv =
     map_option (\<lambda>r. case r of None \<Rightarrow> None | Some a \<Rightarrow>
       if arg_out a = [] then None else if arg_count a \<le> 0 then None else Some a)
       (parse_loop argv default_args)"

text \<open>
  \<open>main\<close> on the arguments behind the program's name: the exit code, and what was written to the
  output. Whether the file can be opened, and the generator with a seed, are parameters.
\<close>

definition fixgen_main :: "'g draw \<Rightarrow> ('g \<Rightarrow> nat \<times> 'g) \<Rightarrow> (u32 \<Rightarrow> 'g) \<Rightarrow> (string \<Rightarrow> bool) \<Rightarrow> byte list \<Rightarrow> string list \<Rightarrow>
    (int \<times> byte list) option" where
  "fixgen_main draw draw_type mt19937 opens buf argv =
     Option.bind (parse_args argv) (\<lambda>r. case r of
       None \<Rightarrow> Some (2, [])
     | Some a \<Rightarrow>
         if arg_out a \<noteq> ''-'' \<and> \<not> opens (arg_out a) then Some (1, [])
         else map_option (\<lambda>(code, out, st). (code, out))
           (fixgen draw draw_type (nat (arg_count a)) (mt19937 (arg_seed a)) buf))"

lemma parse_args_count: "parse_args argv = Some (Some a) \<Longrightarrow> 0 < arg_count a"
proof -
  assume "parse_args argv = Some (Some a)"
  then obtain r where "(case r of None \<Rightarrow> None | Some a \<Rightarrow>
      if arg_out a = [] then None else if arg_count a \<le> 0 then None else Some a) = Some a"
    unfolding parse_args_def by (cases "parse_loop argv default_args") auto
  then show ?thesis by (cases r) (auto split: if_splits)
qed

lemma fixgen_main_result:
  assumes r: "draws_in_range draw draw_type" and buf: "length buf = kBuf"
    and a: "parse_args argv = Some (Some a)" and count: "arg_count a \<le> int max_exec_seq" and f: "arg_out a = ''-'' \<or> opens (arg_out a)"
  shows "\<exists>out ms rs. fixgen_main draw draw_type mt19937 opens buf argv = Some (0, out) \<and>
    length ms = nat (arg_count a) \<and> out = concat (map message_text ms) \<and> (\<forall>m \<in> set ms. message_ok m) \<and>
    for_each_message out 0 (length out) = Some (rs, length out) \<and> list_all2 (reads_message_as out) rs ms"
proof -
  have "0 < nat (arg_count a)" using parse_args_count [OF a] by simp
  moreover have "nat (arg_count a) \<le> max_exec_seq" using count by simp
  ultimately have k: "0 < nat (arg_count a)" "nat (arg_count a) \<le> max_exec_seq" by this+
  from fixgen_reads_back [OF r buf k, of "mt19937 (arg_seed a)"] obtain out st ms rs where
    o: "fixgen draw draw_type (nat (arg_count a)) (mt19937 (arg_seed a)) buf = Some (0, out, st)"
       "length ms = nat (arg_count a)" "out = concat (map message_text ms)" "\<forall>m \<in> set ms. message_ok m"
       "for_each_message out 0 (length out) = Some (rs, length out)"
       "list_all2 (reads_message_as out) rs ms" by blast
  have "fixgen_main draw draw_type mt19937 opens buf argv = Some (0, out)"
    using a f o(1) by (auto simp: fixgen_main_def)
  with o(2-) show ?thesis by blast
qed

section \<open>Order ids\<close>

lemma hex_inj: "i < 16 \<Longrightarrow> j < 16 \<Longrightarrow> hex ! i = hex ! j \<Longrightarrow> i = j"
proof -
  have "distinct hex" by (simp add: hex_def lit_def of_char_def)
  moreover have "length hex = 16" by (simp add: hex_def lit_def)
  ultimately show "i < 16 \<Longrightarrow> j < 16 \<Longrightarrow> hex ! i = hex ! j \<Longrightarrow> i = j" using nth_eq_iff_index_eq by metis
qed

lemma nibbles_determine:
  fixes x y :: "32 word"
  assumes "\<And>i. i < 8 \<Longrightarrow> and (drop_bit (i * 4) x) 0xF = and (drop_bit (i * 4) y) 0xF"
  shows "x = y"
proof (rule bit_word_eqI)
  fix n assume n: "n < LENGTH(32)"
  have "n div 4 < 8" using n by simp
  from assms [OF this] have "bit (and (drop_bit (n div 4 * 4) x) 0xF) (n mod 4) = bit (and (drop_bit (n div 4 * 4) y) 0xF) (n mod 4)"
    by simp
  moreover have "bit (0xF :: 32 word) (n mod 4)"
  proof -
    have "n mod 4 \<in> {0, 1, 2, 3}" by auto
    then show ?thesis by (auto simp: bit_simps)
  qed
  moreover have "n div 4 * 4 + n mod 4 = n" by simp
  ultimately show "bit x n = bit y n" by (simp add: bit_and_iff bit_drop_bit_eq)
qed

lemma make_clordid_digit:
  "i < 8 \<Longrightarrow> make_clordid seq ! (2 + i) = hex ! unat (and (drop_bit ((7 - i) * 4) seq) 0xF)"
  by (simp add: make_clordid_def Let_def lit_def nth_append)

lemma make_clordid_inject: "make_clordid x = make_clordid y \<Longrightarrow> x = y"
proof (rule nibbles_determine)
  fix i :: nat assume e: "make_clordid x = make_clordid y" and i: "i < 8"
  then have "hex ! unat (and (drop_bit (i * 4) x) 0xF) = hex ! unat (and (drop_bit (i * 4) y) 0xF)"
    using make_clordid_digit [of "7 - i" x] make_clordid_digit [of "7 - i" y] by simp
  from hex_inj [OF nibble nibble this]
  show "and (drop_bit (i * 4) x) 0xF = and (drop_bit (i * 4) y) 0xF" by (simp only: word_unat_eq_iff)
qed

end
