(* ===== verification/Fixprint.thy ===== *)
theory Fixprint
  imports Message_Stream
begin

text \<open>
  The printer \<open>src/utils/fixprint/fixprint.cpp\<close>: standard input is read in chunks into a buffer of
  1 MiB, the complete messages at its front are printed, and the rest is moved to the front. The
  model returns the bytes written to standard output and to standard error. \<open>std::fread\<close> returns fewer bytes
  than asked for only at the end of the input. The generated field dictionary, six thousand
  assignments, is the argument \<open>fd\<close>; the message dictionary is the generated one. The field iterator
  throws no exceptions, so the handler is not modelled.
\<close>

section \<open>Dictionaries\<close>

text \<open>The assignments of \<open>dictionary_init_message\<close>; a later one to the same key would win.\<close>

definition message_names_1 :: "(string \<times> string) list" where
  "message_names_1 = [
    (''6'', ''IOI''), (''7'', ''Advertisement''), (''8'', ''ExecutionReport''),
    (''9'', ''OrderCancelReject''), (''B'', ''News''), (''C'', ''Email''), (''D'', ''NewOrderSingle''),
    (''E'', ''NewOrderList''), (''F'', ''OrderCancelRequest''), (''G'', ''OrderCancelReplaceRequest''),
    (''H'', ''OrderStatusRequest''), (''J'', ''AllocationInstruction''), (''K'', ''ListCancelRequest''),
    (''L'', ''ListExecute''), (''M'', ''ListStatusRequest''), (''N'', ''ListStatus''),
    (''P'', ''AllocationInstructionAck''), (''Q'', ''DontKnowTrade''), (''R'', ''QuoteRequest''),
    (''S'', ''Quote''), (''T'', ''SettlementInstructions''), (''V'', ''MarketDataRequest''),
    (''W'', ''MarketDataSnapshotFullRefresh''), (''X'', ''MarketDataIncrementalRefresh''),
    (''Y'', ''MarketDataRequestReject''), (''Z'', ''QuoteCancel''), (''a'', ''QuoteStatusRequest''),
    (''b'', ''MassQuoteAck''), (''c'', ''SecurityDefinitionRequest''), (''d'', ''SecurityDefinition''),
    (''e'', ''SecurityStatusRequest''), (''f'', ''SecurityStatus''),
    (''g'', ''TradingSessionStatusRequest''), (''h'', ''TradingSessionStatus''), (''i'', ''MassQuote''),
    (''j'', ''BusinessMessageReject''), (''k'', ''BidRequest''), (''l'', ''BidResponse''),
    (''m'', ''ListStrikePrice''), (''o'', ''RegistrationInstructions''),
    (''p'', ''RegistrationInstructionsResponse''), (''q'', ''OrderMassCancelRequest''),
    (''r'', ''OrderMassCancelReport''), (''s'', ''NewOrderCross''),
    (''t'', ''CrossOrderCancelReplaceRequest''), (''u'', ''CrossOrderCancelRequest''),
    (''v'', ''SecurityTypeRequest''), (''w'', ''SecurityTypes''), (''x'', ''SecurityListRequest''),
    (''y'', ''SecurityList''), (''z'', ''DerivativeSecurityListRequest''),
    (''AA'', ''DerivativeSecurityList''), (''AB'', ''NewOrderMultileg''),
    (''AC'', ''MultilegOrderCancelReplace''), (''AD'', ''TradeCaptureReportRequest''),
    (''AE'', ''TradeCaptureReport''), (''AF'', ''OrderMassStatusRequest''),
    (''AG'', ''QuoteRequestReject''), (''AH'', ''RFQRequest''), (''AI'', ''QuoteStatusReport''),
    (''AJ'', ''QuoteResponse''), (''AK'', ''Confirmation''), (''AL'', ''PositionMaintenanceRequest''),
    (''AM'', ''PositionMaintenanceReport''), (''AN'', ''RequestForPositions''),
    (''AO'', ''RequestForPositionsAck''), (''AP'', ''PositionReport''),
    (''AQ'', ''TradeCaptureReportRequestAck''), (''AR'', ''TradeCaptureReportAck''),
    (''AS'', ''AllocationReport''), (''AT'', ''AllocationReportAck''), (''AU'', ''ConfirmationAck''),
    (''AV'', ''SettlementInstructionRequest''), (''AW'', ''AssignmentReport''),
    (''AX'', ''CollateralRequest''), (''AY'', ''CollateralAssignment''),
    (''AZ'', ''CollateralResponse''), (''BA'', ''CollateralReport''), (''BB'', ''CollateralInquiry''),
    (''BC'', ''NetworkCounterpartySystemStatusRequest''),
    (''BD'', ''NetworkCounterpartySystemStatusResponse''), (''BE'', ''UserRequest''),
    (''BF'', ''UserResponse''), (''BG'', ''CollateralInquiryAck''), (''BH'', ''ConfirmationRequest'')]"

definition message_names_2 :: "(string \<times> string) list" where
  "message_names_2 = [
    (''BO'', ''ContraryIntentionReport''), (''BP'', ''SecurityDefinitionUpdateReport''),
    (''BK'', ''SecurityListUpdateReport''), (''BL'', ''AdjustedPositionReport''),
    (''BM'', ''AllocationInstructionAlert''), (''BN'', ''ExecutionAck''),
    (''BJ'', ''TradingSessionList''), (''BI'', ''TradingSessionListRequest''),
    (''BQ'', ''SettlementObligationReport''), (''BR'', ''DerivativeSecurityListUpdateReport''),
    (''BS'', ''TradingSessionListUpdateReport''), (''BT'', ''MarketDefinitionRequest''),
    (''BU'', ''MarketDefinition''), (''BV'', ''MarketDefinitionUpdateReport''),
    (''CB'', ''UserNotification''), (''BZ'', ''OrderMassActionReport''),
    (''CA'', ''OrderMassActionRequest''), (''BW'', ''ApplicationMessageRequest''),
    (''BX'', ''ApplicationMessageRequestAck''), (''BY'', ''ApplicationMessageReport''),
    (''CC'', ''StreamAssignmentRequest''), (''CD'', ''StreamAssignmentReport''),
    (''CE'', ''StreamAssignmentReportACK''), (''CH'', ''MarginRequirementInquiry''),
    (''CI'', ''MarginRequirementInquiryAck''), (''CJ'', ''MarginRequirementReport''),
    (''CF'', ''PartyDetailsListRequest''), (''CG'', ''PartyDetailsListReport''),
    (''CK'', ''PartyDetailsListUpdateReport''), (''CL'', ''PartyRiskLimitsRequest''),
    (''CM'', ''PartyRiskLimitsReport''), (''CN'', ''SecurityMassStatusRequest''),
    (''CO'', ''SecurityMassStatus''), (''CQ'', ''AccountSummaryReport''),
    (''CR'', ''PartyRiskLimitsUpdateReport''), (''CS'', ''PartyRiskLimitsDefinitionRequest''),
    (''CT'', ''PartyRiskLimitsDefinitionRequestAck''), (''CU'', ''PartyEntitlementsRequest''),
    (''CV'', ''PartyEntitlementsReport''), (''CW'', ''QuoteAck''),
    (''CX'', ''PartyDetailsDefinitionRequest''), (''CY'', ''PartyDetailsDefinitionRequestAck''),
    (''CZ'', ''PartyEntitlementsUpdateReport''), (''DA'', ''PartyEntitlementsDefinitionRequest''),
    (''DB'', ''PartyEntitlementsDefinitionRequestAck''), (''DC'', ''TradeMatchReport''),
    (''DD'', ''TradeMatchReportAck''), (''DE'', ''PartyRiskLimitsReportAck''),
    (''DF'', ''PartyRiskLimitCheckRequest''), (''DG'', ''PartyRiskLimitCheckRequestAck''),
    (''DH'', ''PartyActionRequest''), (''DI'', ''PartyActionReport''), (''DJ'', ''MassOrder''),
    (''DK'', ''MassOrderAck''), (''DL'', ''PositionTransferInstruction''),
    (''DM'', ''PositionTransferInstructionAck''), (''DN'', ''PositionTransferReport''),
    (''DO'', ''MarketDataStatisticsRequest''), (''DP'', ''MarketDataStatisticsReport''),
    (''DQ'', ''CollateralReportAck''), (''DR'', ''MarketDataReport''), (''DS'', ''CrossRequest''),
    (''DT'', ''CrossRequestAck''), (''DU'', ''AllocationInstructionAlertRequest''),
    (''DV'', ''AllocationInstructionAlertRequestAck''), (''DW'', ''TradeAggregationRequest''),
    (''DX'', ''TradeAggregationReport''), (''EA'', ''PayManagementReport''),
    (''EB'', ''PayManagementReportAck''), (''DY'', ''PayManagementRequest''),
    (''DZ'', ''PayManagementRequestAck''), (''0'', ''Heartbeat''), (''1'', ''TestRequest''),
    (''2'', ''ResendRequest''), (''3'', ''Reject''), (''4'', ''SequenceReset''), (''5'', ''Logout''),
    (''A'', ''Logon''), (''n'', ''XMLnonFIX'')]"

definition message_names :: "(string \<times> string) list" where
  "message_names = message_names_1 @ message_names_2"

definition message_dictionary :: "byte list \<rightharpoonup> byte list" where
  "message_dictionary = map_of (rev (map (\<lambda>(k, v). (lit k, lit v)) message_names))"

text \<open>\<open>os << field_name(tag, dictionary, or_number)\<close>.\<close>

definition field_name :: "u32 \<Rightarrow> (u32 \<rightharpoonup> byte list) \<Rightarrow> bool \<Rightarrow> byte list" where
  "field_name tag fd or_number =
     (case fd tag of Some name \<Rightarrow> name | None \<Rightarrow> if or_number then int_digits (sint tag) else [])"

section \<open>Printing\<close>

definition color_field :: "byte list" where "color_field = 27 # lit ''[33m''"
definition color_value :: "byte list" where "color_value = 27 # lit ''[37m''"
definition color_msgtype :: "byte list" where "color_msgtype = 27 # lit ''[32m''"
definition color_default :: "byte list" where "color_default = 27 # lit ''[39m''"

definition chunksize :: nat where "chunksize = 4096"
definition buffer_bytes :: nat where "buffer_bytes = 2 ^ 20"

text \<open>The body of the loop over the fields, for a tag and the bytes of the value.\<close>

definition field_output :: "bool \<Rightarrow> (u32 \<rightharpoonup> byte list) \<Rightarrow> (byte list \<rightharpoonup> byte list) \<Rightarrow> u32 \<Rightarrow> byte list \<Rightarrow> byte list" where
  "field_output color fd md tag bs =
     (if color then color_field else []) @
     (case fd tag of Some fname \<Rightarrow> fname @ lit ''_'' | None \<Rightarrow> []) @
     int_digits (sint tag) @ lit ''='' @
     (if color then (if tag = 35 then color_msgtype else color_value) else []) @
     bs @
     (if tag = 35 then (case md bs of Some mname \<Rightarrow> lit ''_'' @ mname | None \<Rightarrow> []) else []) @
     lit '' ''"

definition print_field :: "bool \<Rightarrow> (u32 \<rightharpoonup> byte list) \<Rightarrow> (byte list \<rightharpoonup> byte list) \<Rightarrow> byte list \<Rightarrow> iter \<Rightarrow> byte list option" where
  "print_field color fd md mem it =
     map_option (field_output color fd md (f_tag (it_current it))) (value_bytes mem (f_value (it_current it)))"

definition print_message :: "bool \<Rightarrow> (u32 \<rightharpoonup> byte list) \<Rightarrow> (byte list \<rightharpoonup> byte list) \<Rightarrow> byte list \<Rightarrow> reader \<Rightarrow> byte list option" where
  "print_message color fd md mem r = do {
     prefix \<leftarrow> rd_range mem (prefix_begin r) (prefix_begin r + prefix_size r);
     b \<leftarrow> reader_begin r;
     e \<leftarrow> reader_end r;
     its \<leftarrow> visit (increment mem) iter_eq b e;
     fs \<leftarrow> those (map (print_field color fd md mem) its);
     Some ((if color then color_value else []) @ prefix @ lit '' '' @ concat fs @ [10])
   }"

definition corrupt_message :: "byte list \<Rightarrow> reader \<Rightarrow> byte list option" where
  "corrupt_message mem r = do {
     bs \<leftarrow> rd_range mem (r_buffer r) (r_buffer r + min 64 (r_buffer_end r - r_buffer r));
     Some (lit ''Error Corrupt FIX message: '' @ bs @ lit ''...'' @ [10])
   }"

text \<open>The inner loop: what it prints on both streams, and the incomplete reader it ends with.\<close>

partial_function (option) print_loop :: "bool \<Rightarrow> (u32 \<rightharpoonup> byte list) \<Rightarrow> (byte list \<rightharpoonup> byte list) \<Rightarrow> byte list \<Rightarrow> reader \<Rightarrow>
    (byte list \<times> byte list \<times> reader) option" where
  "print_loop color fd md mem r =
     (if r_complete r then do {
        (o1, e1) \<leftarrow> (if r_valid r then do { bs \<leftarrow> print_message color fd md mem r; Some (bs, []) }
                    else do { bs \<leftarrow> corrupt_message mem r; Some ([], bs) });
        r' \<leftarrow> next_message_reader mem r;
        (o2, e2, r'') \<leftarrow> print_loop color fd md mem r';
        Some (o1 @ o2, e1 @ e2, r'')
      }
      else Some ([], [], r))"

text \<open>The read loop: \<open>buffer_length\<close> bytes of the buffer are used, \<open>input\<close> is not read yet.\<close>

function read_loop :: "bool \<Rightarrow> (u32 \<rightharpoonup> byte list) \<Rightarrow> (byte list \<rightharpoonup> byte list) \<Rightarrow> byte list \<Rightarrow> nat \<Rightarrow> byte list \<Rightarrow>
    (byte list \<times> byte list) option" where
  "read_loop color fd md mem buffer_length input =
     (let fred = min (min (length mem - buffer_length) chunksize) (length input) in
      if fred = 0 then Some ([], [])
      else do {
        mem \<leftarrow> wr mem buffer_length (take fred input);
        r \<leftarrow> message_reader mem 0 (buffer_length + fred);
        (o1, e1, r) \<leftarrow> print_loop color fd md mem r;
        let rest = r_buffer_end r - r_buffer r;
        mem \<leftarrow> (if 0 < rest then do { bs \<leftarrow> rd_range mem (r_buffer r) (r_buffer_end r); wr mem 0 bs } else Some mem);
        (o2, e2) \<leftarrow> read_loop color fd md mem rest (drop fred input);
        Some (o1 @ o2, e1 @ e2)
      })"
  by pat_completeness auto
termination
  by (relation "measure (\<lambda>(color, fd, md, mem, buffer_length, input). length input)") (auto simp: chunksize_def)

declare read_loop.simps [simp del]

definition usage_text :: "byte list" where
  "usage_text = lit ''fixprint [Options]'' @ [10, 10] @
     lit ''Reads raw FIX encoded data from stdin and writes annotated human-readable '' @
     lit ''FIX to stdout.'' @ [10, 10] @
     lit ''Options:'' @ [10] @
     lit ''  -c --color     Color output.'' @ [10] @
     lit ''     --no-color  No color output.'' @ [10, 10]"

definition color_option :: "string list \<Rightarrow> bool" where
  "color_option argv = (case argv of [] \<Rightarrow> True | a # _ \<Rightarrow> a \<noteq> ''--no-color'')"

text \<open>\<open>main\<close> on the arguments behind the program's name, the buffer and the standard input.\<close>

definition fixprint :: "(u32 \<rightharpoonup> byte list) \<Rightarrow> byte list \<Rightarrow> string list \<Rightarrow> byte list \<Rightarrow> (byte list \<times> byte list) option" where
  "fixprint fd buf argv input =
     (if argv \<noteq> [] \<and> (hd argv = ''-h'' \<or> hd argv = ''--help'') then Some (usage_text, [])
      else let color = color_option argv in do {
        (out, err) \<leftarrow> read_loop color fd message_dictionary buf 0 input;
        Some (out @ (if color then color_default else []), err)
      })"

section \<open>It always returns\<close>

lemma print_message_total:
  assumes "framed mem r"
  shows "\<exists>bs. print_message color fd md mem r = Some bs"
proof -
  note b = framed_bounds [OF assms]
  from visit_framed [OF assms] obtain its where
    its: "visit (increment mem) iter_eq (r_begin r) (r_end r) = Some its" by blast
  have "\<exists>fs. those (map (print_field color fd md mem) its) = Some fs"
    by (rule those_map_total) (auto simp: print_field_def dest: framed_value [OF assms its])
  moreover have "prefix_begin r + prefix_size r \<le> length mem"
    using assms by (auto simp: framed_def prefix_begin_def prefix_size_def)
  ultimately show ?thesis
    using b its by (auto simp: print_message_def reader_begin_def reader_end_def rd_range_Some)
qed

lemma print_loop_total:
  "constructed mem r \<Longrightarrow> \<exists>o1 e1 r'. print_loop color fd md mem r = Some (o1, e1, r') \<and>
    r_buffer r' \<le> r_buffer_end r' \<and> r_buffer_end r' = r_buffer_end r"
proof (induction rule: reader_induct)
  case (stop r)
  then show ?case by (subst print_loop.simps) (auto simp: constructed_def)
next
  case (step r r')
  obtain o1 e1 where o: "(if r_valid r then do { bs \<leftarrow> print_message color fd md mem r; Some (bs, []) }
      else do { bs \<leftarrow> corrupt_message mem r; Some ([], bs) }) = Some (o1, e1)"
  proof (cases "r_valid r")
    case True
    with step(1,2) have "framed mem r" by (auto elim: constructed_cases)
    from print_message_total [OF this, of color fd md] True that show thesis by auto
  next
    case False
    have "r_buffer r + min 64 (r_buffer_end r - r_buffer r) \<le> length mem"
      using step(1) by (auto simp: constructed_def)
    with False that show thesis by (auto simp: corrupt_message_def rd_range_Some)
  qed
  from step(7) obtain o2 e2 r'' where r'': "print_loop color fd md mem r' = Some (o2, e2, r'')"
    "r_buffer r'' \<le> r_buffer_end r''" "r_buffer_end r'' = r_buffer_end r'" by blast
  have "print_loop color fd md mem r = Some (o1 @ o2, e1 @ e2, r'')"
    using step(2,3) o r''(1) by (subst print_loop.simps) simp
  with r''(2,3) step(6) show ?case by simp
qed

lemma read_loop_step:
  assumes "min (min (length mem - buffer_length) chunksize) (length input) = fred" "fred \<noteq> 0"
    "wr mem buffer_length (take fred input) = Some mem1" "message_reader mem1 0 (buffer_length + fred) = Some r"
    "print_loop color fd md mem1 r = Some (o1, e1, r1)"
    "(if 0 < r_buffer_end r1 - r_buffer r1
      then do { bs \<leftarrow> rd_range mem1 (r_buffer r1) (r_buffer_end r1); wr mem1 0 bs } else Some mem1) = Some mem2"
    "read_loop color fd md mem2 (r_buffer_end r1 - r_buffer r1) (drop fred input) = Some (o2, e2)"
  shows "read_loop color fd md mem buffer_length input = Some (o1 @ o2, e1 @ e2)"
  by (subst read_loop.simps) (simp add: assms Let_def del: zero_less_diff min_less_iff_conj)

lemma read_loop_stop:
  "min (min (length mem - buffer_length) chunksize) (length input) = 0 \<Longrightarrow>
    read_loop color fd md mem buffer_length input = Some ([], [])"
  by (subst read_loop.simps) (simp only: Let_def if_True simp_thms)

lemma read_loop_total: "buffer_length \<le> length mem \<Longrightarrow> \<exists>res. read_loop color fd md mem buffer_length input = Some res"
proof (induction "length input" arbitrary: mem buffer_length input rule: less_induct)
  case less
  define fred where "fred = min (min (length mem - buffer_length) chunksize) (length input)"
  show ?case
  proof (cases "fred = 0")
    case True
    then show ?thesis unfolding fred_def by (auto dest: read_loop_stop)
  next
    case False
    have fits: "buffer_length + fred \<le> length mem" "fred \<le> length input" using less.prems by (auto simp: fred_def)
    then obtain mem1 where m1: "wr mem buffer_length (take fred input) = Some mem1" by (simp add: wr_Some)
    then have l1: "length mem1 = length mem" by (rule wr_length)
    from message_reader_constructed [of 0 "buffer_length + fred" mem1] fits(1) l1 obtain r where
      r: "message_reader mem1 0 (buffer_length + fred) = Some r" "constructed mem1 r" "r_buffer_end r = buffer_length + fred"
      by auto
    from print_loop_total [OF r(2), of color fd md] obtain o1 e1 r1 where
      r1: "print_loop color fd md mem1 r = Some (o1, e1, r1)" "r_buffer r1 \<le> r_buffer_end r1"
        "r_buffer_end r1 = r_buffer_end r" by blast
    let ?rest = "r_buffer_end r1 - r_buffer r1"
    have "r_buffer_end r1 \<le> length mem1" using r1(3) r(3) fits(1) l1 by simp
    then obtain mem2 where m2: "(if 0 < ?rest then do { bs \<leftarrow> rd_range mem1 (r_buffer r1) (r_buffer_end r1); wr mem1 0 bs }
        else Some mem1) = Some mem2" "length mem2 = length mem1"
    proof (cases "0 < ?rest")
      case True
      with \<open>r_buffer_end r1 \<le> length mem1\<close> that show thesis by (simp add: rd_range_Some wr_Some)
    qed (use that in simp)
    have lt: "length (drop fred input) < length input" using False fits(2) by simp
    have "?rest \<le> length mem2" using r1(3) r(3) fits(1) l1 m2(2) by simp
    from less.hyps [OF lt this] obtain o2 e2 where
      "read_loop color fd md mem2 ?rest (drop fred input) = Some (o2, e2)" by auto
    from read_loop_step [OF fred_def [symmetric] False m1 r(1) r1(1) m2(1) this] show ?thesis by blast
  qed
qed

lemma fixprint_total: "\<exists>res. fixprint fd buf argv input = Some res"
  using read_loop_total [of 0 buf "color_option argv" fd message_dictionary input] by (auto simp: fixprint_def Let_def)

section \<open>A stream of messages is printed whole\<close>

text \<open>What is printed for a message.\<close>

fun message_output :: "bool \<Rightarrow> (u32 \<rightharpoonup> byte list) \<Rightarrow> (byte list \<rightharpoonup> byte list) \<Rightarrow> wire_message \<Rightarrow> byte list" where
  "message_output color fd md (v, mt, fs) =
     (if color then color_value else []) @ v @ lit '' '' @
     concat (map (\<lambda>(t, val). field_output color fd md t val) (wire_fields (Plain 35 mt # fs))) @ [10]"

lemma print_fields_shown:
  "shown mem its = map (\<lambda>(t, val). (t, Some val)) fs \<Longrightarrow>
    those (map (print_field color fd md mem) its) = Some (map (\<lambda>(t, val). field_output color fd md t val) fs)"
proof (induction its arbitrary: fs)
  case (Cons it its)
  then obtain t val fs' where fs: "fs = (t, val) # fs'" "shown mem its = map (\<lambda>(t, val). (t, Some val)) fs'"
    "f_tag (it_current it) = t" "value_bytes mem (f_value (it_current it)) = Some val"
    by (cases fs) (auto simp: shown_def)
  from Cons.IH [OF fs(2)] fs show ?case by (simp add: print_field_def)
qed (simp add: shown_def)

lemma print_message_shown:
  assumes "reads_message_as mem r m" "r_prefix_end r = prefix_begin r + prefix_size r"
  shows "print_message color fd md mem r = Some (message_output color fd md m)"
proof -
  obtain v mt fs where m: "m = (v, mt, fs)" by (cases m)
  from assms(1) obtain its where its: "r_valid r" "rd_range mem (prefix_begin r) (r_prefix_end r) = Some v"
    "visit (increment mem) iter_eq (r_begin r) (r_end r) = Some its"
    "shown mem its = map (\<lambda>(t, val). (t, Some val)) (wire_fields (Plain 35 mt # fs))"
    by (auto simp: m reads_as_def)
  from print_fields_shown [OF its(4), of color fd md] its(1-3) assms(2) show ?thesis
    by (simp add: print_message_def reader_begin_def reader_end_def m)
qed

lemma print_loop_stream:
  assumes "\<forall>m \<in> set ms. message_ok m" "holds_at mem b (concat (map message_text ms))"
    "b + length (concat (map message_text ms)) \<le> e" "e \<le> length mem"
    "message_reader mem (b + length (concat (map message_text ms))) e = Some r" "\<not> r_complete r"
    "message_reader mem b e = Some s"
  shows "print_loop color fd md mem s = Some (concat (map (message_output color fd md) ms), [], r)"
  using assms
proof (induction ms arbitrary: b s)
  case Nil
  then show ?case by (subst print_loop.simps) simp
next
  case (Cons m ms)
  let ?b = "b + length (message_text m)"
  have h: "holds_at mem b (message_text m)" "message_ok m" "?b \<le> e"
    using Cons.prems by (auto simp: holds_at_append)
  from reads_one [OF h Cons.prems(4)] Cons.prems(7) have s:
    "reads_message_as mem s m" "r_complete s" "r_valid s" "it_end (r_end s) + 1 = ?b" "r_buffer_end s = e" by auto
  have "r_prefix_end s = prefix_begin s + prefix_size s"
  proof -
    from message_reader_result [of b e mem] h(3) Cons.prems(4,7) s(2,3) have "framed mem s" by auto
    then show ?thesis by (auto simp: framed_def prefix_begin_def prefix_size_def)
  qed
  from print_message_shown [OF s(1) this] have p: "print_message color fd md mem s = Some (message_output color fd md m)" .
  obtain s' where s': "message_reader mem ?b e = Some s'"
    using message_reader_constructed [OF h(3) Cons.prems(4)] by blast
  have next_r: "next_message_reader mem s = Some s'"
    using s s' by (simp add: next_message_reader_def)
  have "print_loop color fd md mem s' = Some (concat (map (message_output color fd md) ms), [], r)"
    using Cons.prems s' by (intro Cons.IH) (auto simp: holds_at_append add.assoc)
  with s(2,3) p next_r show ?case by (subst print_loop.simps) simp
qed

lemma cut_stream:
  assumes "\<And>m. m \<in> set ms \<Longrightarrow> 0 < length (f m)" "n \<le> length (concat (map f ms))"
  shows "\<exists>ms1 ms2 k. ms = ms1 @ ms2 \<and> n = length (concat (map f ms1)) + k \<and>
    (case ms2 of [] \<Rightarrow> k = 0 | m # _ \<Rightarrow> k < length (f m))"
  using assms
proof (induction ms arbitrary: n)
  case (Cons m ms)
  show ?case
  proof (cases "n < length (f m)")
    case True
    then show ?thesis by (intro exI [of _ "[]"] exI [of _ "m # ms"] exI [of _ n]) simp
  next
    case False
    with Cons.prems have "n - length (f m) \<le> length (concat (map f ms))" by auto
    from Cons.IH [OF _ this] Cons.prems(1) obtain ms1 ms2 k where
      "ms = ms1 @ ms2" "n - length (f m) = length (concat (map f ms1)) + k"
      "case ms2 of [] \<Rightarrow> k = 0 | m # _ \<Rightarrow> k < length (f m)" by auto
    with False show ?thesis by (intro exI [of _ "m # ms1"] exI [of _ ms2] exI [of _ k]) auto
  qed
qed simp

lemma message_text_bound: "message_ok m \<Longrightarrow> 0 < length (message_text m) \<and> length (message_text m) \<le> 1000028"
proof -
  obtain v mt fs where m: "m = (v, mt, fs)" by (cases m)
  assume "message_ok m"
  then have ok: "SOH \<notin> set v" "length v \<le> 10" "length (wire_texts (Plain 35 mt # fs)) \<le> 999999" by (simp_all add: m)
  have "length (fix_message v (wire_texts (Plain 35 mt # fs))) = length v + length (wire_texts (Plain 35 mt # fs)) + 19"
    by (rule message_bytes(8) [OF ok(1)])
  with ok(2,3) show ?thesis unfolding m message_text.simps by linarith
qed

text \<open>The part of the input in the buffer: nothing, or a proper prefix of the next message.\<close>

definition pending :: "wire_message list \<Rightarrow> nat \<Rightarrow> bool" where
  "pending ms k \<longleftrightarrow> (case ms of [] \<Rightarrow> k = 0 | m # _ \<Rightarrow> k < length (message_text m))"

lemma pending_reader:
  assumes "pending ms k" "\<forall>m \<in> set ms. message_ok m" "holds_at mem b (take k (concat (map message_text ms)))"
    "b + k \<le> length mem"
  shows "\<exists>r. message_reader mem b (b + k) = Some r \<and> \<not> r_complete r \<and> r_buffer r = b"
proof (cases ms)
  case Nil
  with assms(1) show ?thesis by (simp add: pending_def message_reader_def init_def incomplete_def)
next
  case (Cons m ms')
  obtain v mt fs where m: "m = (v, mt, fs)" by (cases m)
  have "take k (concat (map message_text ms)) = take k (message_text m)" "k < length (message_text m)" "message_ok m"
    using assms(1,2) by (simp_all add: pending_def Cons)
  then show ?thesis using assms(3) by (intro prefix_incomplete [of mem b k v mt fs]) (simp_all add: m)
qed

text \<open>The bytes behind the whole messages are moved to the front of the buffer.\<close>

lemma move_to_front:
  assumes "n + k \<le> length mem"
  shows "\<exists>mem'. (if 0 < n + k - n then do { bs \<leftarrow> rd_range mem n (n + k); wr mem 0 bs } else Some mem) = Some mem' \<and>
    length mem' = length mem \<and> take k mem' = take k (drop n mem)"
proof (cases "0 < k")
  case True
  with assms show ?thesis by (simp add: rd_range_Some wr_Some)
qed simp

text \<open>What is in the buffer, when the whole messages and a part of the rest are.\<close>

lemma stream_split:
  assumes all: "take (length xs + k) mem @ rest = xs @ ys" and bound: "length xs + k \<le> length mem"
  shows "holds_at mem 0 xs" and "holds_at mem (length xs) (take k ys)"
    and "take k (drop (length xs) mem) @ rest = ys"
proof -
  let ?n = "length xs"
  have l: "length (take (?n + k) mem) = ?n + k" using bound by simp
  have "take ?n mem = xs" using arg_cong [OF all, of "take ?n"] l by simp
  with bound show "holds_at mem 0 xs" by (simp add: holds_at_def)
  show mid: "take k (drop ?n mem) @ rest = ys" using arg_cong [OF all, of "drop ?n"] l by (simp add: drop_take)
  have "take k ys = take k (drop ?n mem)" using arg_cong [OF mid, of "take k"] bound by simp
  with bound show "holds_at mem ?n (take k ys)" by (simp add: holds_at_def)
qed

lemma read_chunk:
  assumes fits: "n + fred \<le> length mem" "fred \<le> length input" and ok: "\<forall>m \<in> set ms. message_ok m"
    and fit: "n \<le> length mem" and stream: "take n mem @ input = concat (map message_text ms)"
  shows "\<exists>mem1 ms1 ms2 k. wr mem n (take fred input) = Some mem1 \<and> length mem1 = length mem \<and>
    ms = ms1 @ ms2 \<and> n + fred = length (concat (map message_text ms1)) + k \<and> pending ms2 k \<and>
    length (concat (map message_text ms1)) + k \<le> length mem1 \<and>
    holds_at mem1 0 (concat (map message_text ms1)) \<and>
    holds_at mem1 (length (concat (map message_text ms1))) (take k (concat (map message_text ms2))) \<and>
    take k (drop (length (concat (map message_text ms1))) mem1) @ drop fred input = concat (map message_text ms2)"
proof -
  from fits obtain mem1 where m1: "wr mem n (take fred input) = Some mem1" by (simp add: wr_Some)
  then have l1: "length mem1 = length mem" by (rule wr_length)
  have t1: "take (n + fred) mem1 = take n mem @ take fred input"
    using take_wr_end [OF m1] fits(2) by (simp add: min_absorb2)
  have "n + fred \<le> length (concat (map message_text ms))" using stream [symmetric] fit fits(2) by simp
  from cut_stream [OF _ this] ok message_text_bound obtain ms1 ms2 k where cut: "ms = ms1 @ ms2"
    "n + fred = length (concat (map message_text ms1)) + k" "pending ms2 k"
    unfolding pending_def by blast
  let ?n = "length (concat (map message_text ms1))"
  have bound: "?n + k \<le> length mem1" using fits(1) l1 cut(2) by simp
  have "take (?n + k) mem1 @ drop fred input = concat (map message_text ms1) @ concat (map message_text ms2)"
    using stream t1 unfolding cut(2) [symmetric] by (simp add: cut(1))
  from m1 l1 cut bound stream_split [OF this bound] show ?thesis by blast
qed

lemma read_loop_stream:
  "\<lbrakk>length mem = buffer_bytes; \<forall>m \<in> set ms. message_ok m; buffer_length \<le> length mem;
    take buffer_length mem @ input = concat (map message_text ms); pending ms buffer_length\<rbrakk> \<Longrightarrow>
    read_loop color fd md mem buffer_length input = Some (concat (map (message_output color fd md) ms), [])"
proof (induction "length input" arbitrary: mem buffer_length input ms rule: less_induct)
  case less
  note len = less.prems(1) and ok = less.prems(2) and fit = less.prems(3) and stream = less.prems(4)
  define fred where "fred = min (min (length mem - buffer_length) chunksize) (length input)"
  have room: "buffer_length < length mem"
  proof (cases ms)
    case Nil
    with less.prems(5) show ?thesis by (simp add: pending_def len buffer_bytes_def)
  next
    case (Cons m ms')
    then have "buffer_length < length (message_text m)" "length (message_text m) \<le> 1000028"
      using less.prems(5) ok message_text_bound [of m] by (simp_all add: pending_def)
    then show ?thesis by (simp add: len buffer_bytes_def)
  qed
  show ?case
  proof (cases "fred = 0")
    case True
    then have "input = []" using room by (auto simp: fred_def chunksize_def min_def split: if_splits)
    then have "length (concat (map message_text ms)) = buffer_length" using stream fit by (metis append_Nil2 length_take min.absorb2)
    then have "ms = []" using less.prems(5) by (cases ms) (auto simp: pending_def)
    with True show ?thesis unfolding fred_def by (simp add: read_loop_stop)
  next
    case False
    have fits: "buffer_length + fred \<le> length mem" "fred \<le> length input" using fit by (auto simp: fred_def)
    from read_chunk [OF fits ok fit stream] obtain mem1 ms1 ms2 k where
      m1: "wr mem buffer_length (take fred input) = Some mem1" and l1: "length mem1 = length mem"
      and cut: "ms = ms1 @ ms2" "buffer_length + fred = length (concat (map message_text ms1)) + k" "pending ms2 k"
      and bound: "length (concat (map message_text ms1)) + k \<le> length mem1"
      and h1: "holds_at mem1 0 (concat (map message_text ms1))"
      and h2: "holds_at mem1 (length (concat (map message_text ms1))) (take k (concat (map message_text ms2)))"
      and mid: "take k (drop (length (concat (map message_text ms1))) mem1) @ drop fred input = concat (map message_text ms2)"
      by blast
    let ?n = "length (concat (map message_text ms1))"
    from pending_reader [OF cut(3) _ h2 bound] ok cut(1) obtain r where
      r: "message_reader mem1 ?n (?n + k) = Some r" "\<not> r_complete r" "r_buffer r = ?n" by auto
    from message_reader_constructed [OF _ bound, of ?n] r(1) have re: "r_buffer_end r = ?n + k" by auto
    from message_reader_constructed [OF _ bound, of 0] obtain s where s: "message_reader mem1 0 (?n + k) = Some s" by auto
    have p: "print_loop color fd md mem1 s = Some (concat (map (message_output color fd md) ms1), [], r)"
      using ok cut(1) h1 bound r s by (intro print_loop_stream [of ms1 mem1 0 "?n + k"]) auto
    from move_to_front [OF bound] obtain mem2 where m2: "(if 0 < r_buffer_end r - r_buffer r
        then do { bs \<leftarrow> rd_range mem1 (r_buffer r) (r_buffer_end r); wr mem1 0 bs } else Some mem1) = Some mem2"
        "length mem2 = length mem1" "take k mem2 = take k (drop ?n mem1)"
      unfolding r(3) re by auto
    have "read_loop color fd md mem2 (r_buffer_end r - r_buffer r) (drop fred input) =
        Some (concat (map (message_output color fd md) ms2), [])"
    proof (rule less.hyps)
      show "length (drop fred input) < length input" using False fits(2) by simp
      show "length mem2 = buffer_bytes" using m2(2) l1 len by simp
      show "\<forall>m \<in> set ms2. message_ok m" using ok cut(1) by simp
      show "r_buffer_end r - r_buffer r \<le> length mem2" using m2(2) bound by (simp add: r(3) re)
      show "take (r_buffer_end r - r_buffer r) mem2 @ drop fred input = concat (map message_text ms2)"
        using mid m2(3) by (simp add: r(3) re)
      show "pending ms2 (r_buffer_end r - r_buffer r)" using cut(3) by (simp add: r(3) re)
    qed
    from read_loop_step [OF fred_def [symmetric] False m1 s [folded cut(2)] p m2(1) this] show ?thesis
      by (simp add: cut(1))
  qed
qed

lemma fixprint_stream:
  assumes "length buf = buffer_bytes" "\<forall>m \<in> set ms. message_ok m"
    "argv = [] \<or> hd argv \<noteq> ''-h'' \<and> hd argv \<noteq> ''--help''"
  shows "fixprint fd buf argv (concat (map message_text ms)) =
    Some (concat (map (message_output (color_option argv) fd message_dictionary) ms) @
      (if color_option argv then color_default else []), [])"
proof -
  have "pending ms 0" using assms(2) message_text_bound by (auto simp: pending_def split: list.splits)
  with assms read_loop_stream [of buf ms 0 "concat (map message_text ms)" "color_option argv" fd message_dictionary]
  show ?thesis by (auto simp: fixprint_def Let_def)
qed

end
