(* ===== verification/Spec_Loader.thy ===== *)
theory Spec_Loader
  imports Std_Library Length_Tags "HOL-Library.Monad_Syntax" "HOL-Library.Char_ord" "HOL-Library.List_Lexorder"
begin

text \<open>
  The first half of \<open>src/utils/fixspec-gen-fields/fixspec-gen-fields.cpp\<close>: reading the fields, messages
  and repeating groups of QuickFIX specifications. The XML library is a parameter \<open>xml\<close>, a record
  of what the program asks of a node: its name, the children with a name (\<open>child\<close> is the first of
  them, or the null node), all children, and an attribute's value, the empty string when it is missing.
  The warnings on the error stream are values. \<open>None\<close> is undefined behaviour of \<open>std::atoi\<close>, or
  a recursion over the tree that does not return.
\<close>

record 'n xml =
  xml_name :: "'n \<Rightarrow> string"
  xml_child :: "'n \<Rightarrow> string \<Rightarrow> 'n"
  xml_named :: "'n \<Rightarrow> string \<Rightarrow> 'n list"
  xml_children :: "'n \<Rightarrow> 'n list"
  xml_attribute :: "'n \<Rightarrow> string \<Rightarrow> string"

section \<open>Data\<close>

record spec_field =
  sf_tag :: int
  sf_name :: string
  sf_type :: string
  sf_aliases :: "string list"

record spec_message =
  sm_name :: string
  sm_value :: string
  sm_aliases :: "string list"

record group_def =
  gd_count :: string
  gd_first :: string

record group_alternate =
  ga_first :: string
  ga_messages :: "string list"

datatype warning =
    Field_Alias int string string string
  | Field_Type int string string string string
  | Message_Alias string string string string
  | Cyclic_Component string "string list"
  | Depth_Exceeded string
  | Group_Conflict string "string list"

section \<open>Fields\<close>

definition type_table :: "(string \<times> string) list" where
  "type_table = [
     (''INT'', ''int''), (''LENGTH'', ''Length''), (''NUMINGROUP'', ''NumInGroup''), (''SEQNUM'', ''SeqNum''),
     (''TAGNUM'', ''TagNum''), (''FLOAT'', ''float''), (''QTY'', ''Qty''), (''PRICE'', ''Price''),
     (''PRICEOFFSET'', ''PriceOffset''), (''AMT'', ''Amt''), (''PERCENTAGE'', ''Percentage''),
     (''CHAR'', ''char''), (''BOOLEAN'', ''Boolean''), (''STRING'', ''String''),
     (''MULTIPLECHARVALUE'', ''MultipleCharValue''), (''MULTIPLESTRINGVALUE'', ''MultipleStringValue''),
     (''COUNTRY'', ''Country''), (''CURRENCY'', ''Currency''), (''EXCHANGE'', ''Exchange''),
     (''MONTHYEAR'', ''MonthYear''), (''UTCTIMESTAMP'', ''UTCTimestamp''), (''UTCTIMEONLY'', ''UTCTimeOnly''),
     (''UTCDATEONLY'', ''UTCDateOnly''), (''LOCALMKTDATE'', ''LocalMktDate''),
     (''LOCALMKTTIME'', ''LocalMktTime''), (''TZTIMEONLY'', ''TZTimeOnly''), (''TZTIMESTAMP'', ''TZTimestamp''),
     (''DATA'', ''data''), (''XMLDATA'', ''XMLData''), (''LANGUAGE'', ''Language''), (''XID'', ''XID''),
     (''XIDREF'', ''XIDREF'')]"

definition normalize_type :: "string \<Rightarrow> string" where
  "normalize_type qf = (case map_of type_table qf of Some t \<Rightarrow> t | None \<Rightarrow> qf)"

type_synonym field_map = "(int \<times> spec_field) list"

text \<open>What happens to a field element with a tag, a name and a normalised type.\<close>

definition merge_field :: "string \<Rightarrow> int \<Rightarrow> string \<Rightarrow> string \<Rightarrow> field_map \<times> warning list \<Rightarrow> field_map \<times> warning list" where
  "merge_field source tag name type = (\<lambda>(out, ws).
     case map_of out tag of
       None \<Rightarrow> (map_put tag \<lparr>sf_tag = tag, sf_name = name, sf_type = type, sf_aliases = []\<rparr> out, ws)
     | Some existing \<Rightarrow>
         let is_alias = (sf_name existing \<noteq> name \<and> name \<notin> set (sf_aliases existing));
             aliases = sf_aliases existing @ (if is_alias then [name] else [])
         in (map_put tag (existing\<lparr>sf_aliases := aliases\<rparr>) out,
             ws @ (if is_alias then [Field_Alias tag name (sf_name existing) source] else []) @
             (if sf_type existing \<noteq> type then [Field_Type tag (sf_name existing) (sf_type existing) type source] else [])))"

definition load_field :: "'n xml \<Rightarrow> string \<Rightarrow> 'n \<Rightarrow> field_map \<times> warning list \<Rightarrow> (field_map \<times> warning list) option" where
  "load_field xml source f st =
     (let num = xml_attribute xml f ''number'';
          name = xml_attribute xml f ''name'';
          type = xml_attribute xml f ''type''
      in if num = [] \<or> name = [] \<or> type = [] then Some st
         else do {
           tag \<leftarrow> c_atoi num;
           if tag \<le> 0 then Some st
           else Some (merge_field source tag name (normalize_type type) st)
         })"

definition load_fields :: "'n xml \<Rightarrow> 'n \<Rightarrow> string \<Rightarrow> field_map \<times> warning list \<Rightarrow> (field_map \<times> warning list) option" where
  "load_fields xml doc source =
     try_each (load_field xml source) (xml_named xml (xml_child xml (xml_child xml doc ''fix'') ''fields'') ''field'')"

section \<open>Messages\<close>

text \<open>The messages in order, and the position of each value (\<open>seen_by_value\<close>).\<close>

type_synonym message_state = "spec_message list \<times> (string \<rightharpoonup> nat) \<times> warning list"

definition load_message :: "'n xml \<Rightarrow> string \<Rightarrow> 'n \<Rightarrow> message_state \<Rightarrow> message_state" where
  "load_message xml source m = (\<lambda>(out, seen, ws).
     let name = xml_attribute xml m ''name''; v = xml_attribute xml m ''msgtype'' in
     if name = [] \<or> v = [] then (out, seen, ws)
     else case seen v of
       Some i \<Rightarrow>
         let existing = out ! i in
         if sm_name existing \<noteq> name \<and> name \<notin> set (sm_aliases existing)
         then (out[i := existing\<lparr>sm_aliases := sm_aliases existing @ [name]\<rparr>], seen,
               ws @ [Message_Alias v name (sm_name existing) source])
         else (out, seen, ws)
     | None \<Rightarrow> (out @ [\<lparr>sm_name = name, sm_value = v, sm_aliases = []\<rparr>], seen(v \<mapsto> length out), ws))"

definition load_messages :: "'n xml \<Rightarrow> 'n \<Rightarrow> string \<Rightarrow> message_state \<Rightarrow> message_state" where
  "load_messages xml doc source =
     fold (load_message xml source) (xml_named xml (xml_child xml (xml_child xml doc ''fix'') ''messages'') ''message'')"

text \<open>The loop of \<open>main\<close> over the documents and their paths.\<close>

definition load_doc_pair :: "'n xml \<Rightarrow> 'n \<times> string \<Rightarrow> (field_map \<times> warning list) \<times> message_state \<Rightarrow>
    ((field_map \<times> warning list) \<times> message_state) option" where
  "load_doc_pair xml = (\<lambda>(doc, source) (fs, ms). do {
     fs \<leftarrow> load_fields xml doc source fs;
     Some (fs, load_messages xml doc source ms)
   })"

definition load_docs :: "'n xml \<Rightarrow> ('n \<times> string) list \<Rightarrow> ((field_map \<times> warning list) \<times> message_state) option" where
  "load_docs xml docs = try_each (load_doc_pair xml) docs (([], []), ([], Map.empty, []))"

definition is_data_length :: "spec_field \<Rightarrow> bool" where
  "is_data_length f =
     (if sf_type f \<noteq> ''Length'' then False else if sf_tag f = 9 \<or> sf_tag f = 383 then False else True)"

section \<open>Groups\<close>

type_synonym component_map = "string \<rightharpoonup> string"
type_synonym group_state = "(string \<times> group_def) list \<times> (string \<times> group_alternate list) list"

definition emplace :: "'k \<Rightarrow> 'v \<Rightarrow> ('k \<rightharpoonup> 'v) \<Rightarrow> ('k \<rightharpoonup> 'v)" where
  "emplace k v m = (if m k = None then m(k \<mapsto> v) else m)"

definition component_step :: "'n xml \<Rightarrow> 'n \<Rightarrow> component_map \<Rightarrow> component_map" where
  "component_step xml c out =
     (let name = xml_attribute xml c ''name'' in
      if name = [] then out
      else case find (\<lambda>x. xml_name xml x = ''field'' \<or> xml_name xml x = ''group'' \<or> xml_name xml x = ''component'')
                 (xml_children xml c) of
        None \<Rightarrow> out
      | Some child \<Rightarrow>
          let first = xml_attribute xml child ''name''
          in if first \<noteq> [] then emplace name first out else out)"

definition resolve_component_first :: "'n xml \<Rightarrow> 'n \<Rightarrow> component_map \<Rightarrow> component_map" where
  "resolve_component_first xml fix_root =
     fold (component_step xml) (xml_named xml (xml_child xml fix_root ''components'') ''component'')"

text \<open>\<open>std::find_if\<close> for an alternate with this delimiter, then \<open>update\<close> on it, or on a new one at the end.\<close>

fun update_alternate :: "string \<Rightarrow> (group_alternate \<Rightarrow> group_alternate) \<Rightarrow> group_alternate list \<Rightarrow> group_alternate list" where
  "update_alternate first update [] = [update \<lparr>ga_first = first, ga_messages = []\<rparr>]"
| "update_alternate first update (a # as) =
     (if ga_first a = first then update a # as else a # update_alternate first update as)"

definition add_context :: "string \<Rightarrow> group_alternate \<Rightarrow> group_alternate" where
  "add_context m a =
     (if m \<noteq> [] \<and> m \<notin> set (ga_messages a) then a\<lparr>ga_messages := ga_messages a @ [m]\<rparr> else a)"

definition group_first_name :: "'n xml \<Rightarrow> 'n \<Rightarrow> string" where
  "group_first_name xml child =
     (case find (\<lambda>x. xml_name xml x = ''field'' \<or> xml_name xml x = ''component'' \<or> xml_name xml x = ''group'')
        (xml_children xml child) of
        None \<Rightarrow> [] | Some inner \<Rightarrow> xml_attribute xml inner ''name'')"

text \<open>The body of the loop of \<open>collect_groups\<close> for one child, but for the recursive call.\<close>

definition collect_group :: "'n xml \<Rightarrow> string \<Rightarrow> 'n \<Rightarrow> group_state \<Rightarrow> group_state" where
  "collect_group xml message_context child = (\<lambda>(dedup, conflicts).
     if xml_name xml child = ''group'' then
       let count_name = xml_attribute xml child ''name'';
           first_name = group_first_name xml child
       in if count_name \<noteq> [] \<and> first_name \<noteq> [] then
            (try_emplace count_name \<lparr>gd_count = count_name, gd_first = first_name\<rparr> dedup,
             let alts = (case map_of conflicts count_name of None \<Rightarrow> [] | Some alts \<Rightarrow> alts)
             in map_put count_name (update_alternate first_name (add_context message_context) alts) conflicts)
          else (dedup, conflicts)
     else (dedup, conflicts))"

partial_function (option) collect_nodes :: "'n xml \<Rightarrow> string \<Rightarrow> 'n list \<Rightarrow> group_state \<Rightarrow> group_state option" where
  "collect_nodes xml message_context nodes st =
     (case nodes of
        [] \<Rightarrow> Some st
      | child # rest \<Rightarrow> do {
          st \<leftarrow> collect_nodes xml message_context (xml_children xml child) (collect_group xml message_context child st);
          collect_nodes xml message_context rest st
        })"

definition collect_groups :: "'n xml \<Rightarrow> 'n \<Rightarrow> string \<Rightarrow> group_state \<Rightarrow> group_state option" where
  "collect_groups xml node message_context = collect_nodes xml message_context (xml_children xml node)"

definition collect_in_named :: "'n xml \<Rightarrow> 'n \<Rightarrow> group_state \<Rightarrow> group_state option" where
  "collect_in_named xml m = collect_groups xml m (xml_attribute xml m ''name'')"

definition collect_all_groups :: "'n xml \<Rightarrow> 'n \<Rightarrow> group_state \<Rightarrow> group_state option" where
  "collect_all_groups xml fix_root st = do {
     st \<leftarrow> try_each (collect_in_named xml) (xml_named xml (xml_child xml fix_root ''messages'') ''message'') st;
     st \<leftarrow> try_each (collect_in_named xml) (xml_named xml (xml_child xml fix_root ''components'') ''component'') st;
     st \<leftarrow> collect_groups xml (xml_child xml fix_root ''header'') ''header'' st;
     collect_groups xml (xml_child xml fix_root ''trailer'') ''trailer'' st
   }"

definition kMaxComponentDepth :: nat where "kMaxComponentDepth = 32"

text \<open>The loop of \<open>resolve_first_field\<close>, with the iterations left; an empty name is its failure.\<close>

fun resolve_loop :: "nat \<Rightarrow> component_map \<Rightarrow> string \<Rightarrow> string \<Rightarrow> string list \<Rightarrow> string list \<Rightarrow> string \<times> warning list" where
  "resolve_loop 0 component_first group_name name visited chain = ([], [Depth_Exceeded group_name])"
| "resolve_loop (Suc k) component_first group_name name visited chain =
     (case component_first name of
        None \<Rightarrow> (name, [])
      | Some next \<Rightarrow>
          if name \<in> set visited then ([], [Cyclic_Component group_name chain])
          else resolve_loop k component_first group_name next (name # visited) (chain @ [next]))"

definition resolve_first_field :: "string \<Rightarrow> component_map \<Rightarrow> string \<Rightarrow> string \<times> warning list" where
  "resolve_first_field name component_first group_name =
     resolve_loop kMaxComponentDepth component_first group_name name [] [name]"

text \<open>The four loops of \<open>load_groups\<close> behind the collection.\<close>

definition emit_group :: "component_map \<Rightarrow> string \<times> group_def \<Rightarrow>
    group_def list \<times> (string \<times> group_alternate list) list \<times> warning list \<Rightarrow>
    group_def list \<times> (string \<times> group_alternate list) list \<times> warning list" where
  "emit_group component_first = (\<lambda>(_, g) (out, conflicts, ws).
     let (resolved, w) = resolve_first_field (gd_first g) component_first (gd_count g)
     in if resolved = [] then (out, map_erase (gd_count g) conflicts, ws @ w)
        else (out @ [g\<lparr>gd_first := resolved\<rparr>], conflicts, ws @ w))"

definition resolve_alternate :: "component_map \<Rightarrow> string \<Rightarrow> group_alternate \<Rightarrow> group_alternate \<times> warning list" where
  "resolve_alternate component_first cname a =
     (let (r, w) = resolve_first_field (ga_first a) component_first cname
      in (if r \<noteq> [] then a\<lparr>ga_first := r\<rparr> else a, w))"

definition add_contexts :: "string list \<Rightarrow> group_alternate \<Rightarrow> group_alternate" where
  "add_contexts ms a =
     a\<lparr>ga_messages := fold (\<lambda>m acc. if m \<in> set acc then acc else acc @ [m]) ms (ga_messages a)\<rparr>"

fun merge_alternate :: "group_alternate \<Rightarrow> group_alternate list \<Rightarrow> group_alternate list" where
  "merge_alternate a [] = [a]"
| "merge_alternate a (b # merged) =
     (if ga_first b = ga_first a then add_contexts (ga_messages a) b # merged else b # merge_alternate a merged)"

definition collapse :: "component_map \<Rightarrow> string \<times> group_alternate list \<Rightarrow> (string \<times> group_alternate list) \<times> warning list" where
  "collapse component_first = (\<lambda>(cname, alts).
     let resolved = map (resolve_alternate component_first cname) alts
     in ((cname, fold merge_alternate (map fst resolved) []), concat (map snd resolved)))"

definition load_groups :: "'n xml \<Rightarrow> 'n list \<Rightarrow>
    (group_def list \<times> (string \<times> group_alternate list) list \<times> warning list) option" where
  "load_groups xml docs =
     (let component_first = fold (\<lambda>d. resolve_component_first xml (xml_child xml d ''fix'')) docs Map.empty in do {
        (dedup, conflicts) \<leftarrow> try_each (\<lambda>d. collect_all_groups xml (xml_child xml d ''fix'')) docs ([], []);
        let (out, conflicts, ws) = fold (emit_group component_first) dedup ([], conflicts, []);
        let collapsed = map (collapse component_first) conflicts;
        let kept = filter (\<lambda>(_, alts). 2 \<le> length alts) (map fst collapsed);
        Some (out, kept, ws @ concat (map snd collapsed) @
          map (\<lambda>(cname, alts). Group_Conflict cname (map ga_first alts)) kept)
      })"

end
