(* ===== verification/Spec_Emitter.thy ===== *)
theory Spec_Emitter
  imports Spec_Loader
begin

text \<open>
  The second half of \<open>src/utils/fixspec-gen-fields/fixspec-gen-fields.cpp\<close>: the text of the generated
  headers, and \<open>main\<close>. An output stream is the string written to it.
\<close>

definition nl :: string where "nl = [CHR 0x0A]"
definition dq :: string where "dq = [CHR 0x22]"

definition right_pad :: "nat \<Rightarrow> char \<Rightarrow> string \<Rightarrow> string" where
  "right_pad width pad str = (if length str < width then str @ replicate (width - length str) pad else str)"

section \<open>Fields\<close>

text \<open>The loop over the aliases of a field; \<open>it_last\<close>: the field is the last one.\<close>

fun alias_lines :: "spec_field \<Rightarrow> bool \<Rightarrow> string list \<Rightarrow> string" where
  "alias_lines f it_last [] = []"
| "alias_lines f it_last (a # as) =
     (let alias_last = (it_last \<and> as = []) in
      right_pad 50 CHR '' '' a @ '' = '' @ show_int (sf_tag f) @ (if alias_last then '''' else '','') @
      '' /*!< '' @ show_int (sf_tag f) @ '' alias of '' @ sf_name f @ '' */'' @ nl @ alias_lines f it_last as)"

fun enum_lines :: "field_map \<Rightarrow> string" where
  "enum_lines [] = []"
| "enum_lines ((_, f) # rest) =
     (let is_last = (rest = [] \<and> sf_aliases f = []) in
      right_pad 50 CHR '' '' (sf_name f) @ '' = '' @ show_int (sf_tag f) @ (if is_last then '''' else '','') @
      '' /*!< '' @ show_int (sf_tag f) @ '' ('' @ sf_type f @ '') */'' @ nl @
      alias_lines f (rest = []) (sf_aliases f) @ enum_lines rest)"

definition data_lengths :: "field_map \<Rightarrow> spec_field list" where
  "data_lengths fm = filter is_data_length (map snd fm)"

fun length_lines :: "spec_field list \<Rightarrow> string" where
  "length_lines [] = []"
| "length_lines (f # rest) =
     (let is_last = (rest = []);
          entry = ''tag::'' @ sf_name f;
          entry = (if is_last then entry else entry @ '','')
      in right_pad 35 CHR '' '' entry @ '' // '' @ show_int (sf_tag f) @ nl @ length_lines rest)"

definition field_dictionary_line :: "spec_field \<Rightarrow> string" where
  "field_dictionary_line f =
     right_pad 50 CHR '' '' (''dictionary[tag::'' @ sf_name f @ '']'') @ '' = '' @ dq @ sf_name f @ dq @ '';'' @ nl"

definition message_lines :: "spec_message \<Rightarrow> string" where
  "message_lines m =
     ''static constexpr char const* const '' @ right_pad 40 CHR '' '' (sm_name m) @ '' = '' @ dq @ sm_value m @ dq @ '';'' @ nl @
     concat (map (\<lambda>a. ''static constexpr char const* const '' @ right_pad 40 CHR '' '' a @ '' = '' @ sm_name m @ ''; // alias'' @ nl)
       (sm_aliases m))"

definition message_dictionary_line :: "spec_message \<Rightarrow> string" where
  "message_dictionary_line m =
     right_pad 25 CHR '' '' (''dictionary['' @ dq @ sm_value m @ dq @ '']'') @ '' = '' @ dq @ sm_name m @ dq @ '';'' @ nl"

definition emit_fields :: "field_map \<Rightarrow> spec_message list \<Rightarrow> string" where
  "emit_fields fm messages =
     ''// Generated by utils/fixspec-gen-fields. Do not edit.'' @ nl @ nl @
     ''#pragma once'' @ nl @ nl @
     ''namespace hffix {'' @ nl @ nl @
     ''namespace tag {'' @ nl @
     ''enum {'' @ nl @
     enum_lines fm @
     ''};'' @ nl @
     ''} // namespace tag'' @ nl @ nl @
     ''namespace {'' @ nl @
     ''inline constexpr int length_fields[] = {'' @ nl @
     length_lines (data_lengths fm) @
     ''};'' @ nl @
     ''}'' @ nl @ nl @
     ''template <typename AssociativeContainer>'' @ nl @
     ''void dictionary_init_field(AssociativeContainer& dictionary) {'' @ nl @
     concat (map (field_dictionary_line \<circ> snd) fm) @
     ''}'' @ nl @ nl @
     ''namespace msg_type {'' @ nl @
     concat (map message_lines messages) @
     ''} // namespace msg_type'' @ nl @ nl @
     ''template <typename AssociativeContainer>'' @ nl @
     ''void dictionary_init_message(AssociativeContainer& dictionary) {'' @ nl @
     concat (map message_dictionary_line messages) @
     ''}'' @ nl @
     ''} // namespace hffix'' @ nl"

section \<open>Groups\<close>

fun comma_separated :: "string list \<Rightarrow> string" where
  "comma_separated [] = []"
| "comma_separated [s] = s"
| "comma_separated (s # t # ss) = s @ '', '' @ comma_separated (t # ss)"

definition alternate_line :: "group_alternate \<Rightarrow> string" where
  "alternate_line alt =
     ''//   '' @ right_pad 28 CHR '' '' (ga_first alt) @ ''(in '' @ comma_separated (ga_messages alt) @
     (if ga_messages alt = [] then ''components'' else '''') @ '')'' @ nl"

definition conflict_comment :: "group_def \<Rightarrow> group_alternate list \<Rightarrow> string" where
  "conflict_comment g alts =
     ''// '' @ gd_count g @ '': first-tag conflicts across contexts (messages/components).'' @ nl @
     concat (map alternate_line alts) @
     ''// Compile-time dispatch picks the first-seen ('' @ gd_first g @ '').'' @ nl @
     ''// For other contexts (messages/components), use reader.group(tag::'' @
     gd_count g @ '', tag::<delimiter>) runtime overload.'' @ nl"

definition group_lines :: "(string \<times> group_alternate list) list \<Rightarrow> group_def \<Rightarrow> string" where
  "group_lines conflicts g =
     (case map_of conflicts (gd_count g) of None \<Rightarrow> '''' | Some alts \<Rightarrow> conflict_comment g alts) @
     ''HFFIX_REGISTER_GROUP('' @ gd_count g @ '', '' @ gd_first g @ '');'' @ nl"

definition emit_groups :: "group_def list \<Rightarrow> (string \<times> group_alternate list) list \<Rightarrow> string" where
  "emit_groups groups conflicts =
     ''// Generated by utils/fixspec-gen-fields. Do not edit.'' @ nl @
     ''//'' @ nl @
     ''// One HFFIX_REGISTER_GROUP per repeating group; maps NoXxx to its'' @ nl @
     ''// delimiter (first field) for compile-time dispatch via reader.group<NoXxx>().'' @ nl @ nl @
     ''#pragma once'' @ nl @ nl @
     ''#include <hffix.hpp>'' @ nl @ nl @
     concat (map (group_lines conflicts) groups)"

section \<open>The program\<close>

record gen_args =
  input_paths :: "string list"
  fields_out :: "string option"
  groups_out :: "string option"

fun parse_gen_args :: "string list \<Rightarrow> gen_args \<Rightarrow> gen_args option" where
  "parse_gen_args [] a = Some a"
| "parse_gen_args (x # rest) a =
     (if x = ''-o'' \<and> rest \<noteq> [] then parse_gen_args (tl rest) (a\<lparr>fields_out := Some (hd rest)\<rparr>)
      else if x = ''-go'' \<and> rest \<noteq> [] then parse_gen_args (tl rest) (a\<lparr>groups_out := Some (hd rest)\<rparr>)
      else if x \<noteq> [] \<and> hd x = CHR ''-'' then None
      else parse_gen_args rest (a\<lparr>input_paths := input_paths a @ [x]\<rparr>))"

text \<open>\<open>load_doc\<close> on every path, up to the first that cannot be parsed.\<close>

fun load_all :: "(string \<Rightarrow> 'n option) \<Rightarrow> string list \<Rightarrow> ('n \<times> string) list option" where
  "load_all load_file [] = Some []"
| "load_all load_file (p # ps) =
     (case load_file p of None \<Rightarrow> None | Some d \<Rightarrow> map_option (\<lambda>ds. (d, p) # ds) (load_all load_file ps))"

text \<open>
  The exit code, the standard output, the files written with their contents, and the warnings: those
  about fields, then those about messages, then those about groups.
\<close>

record outcome =
  exit_code :: int
  standard_output :: string
  files :: "(string \<times> string) list"
  warnings :: "warning list"

definition emit_fields_to :: "(string \<Rightarrow> bool) \<Rightarrow> gen_args \<Rightarrow> string \<Rightarrow> warning list \<Rightarrow> outcome" where
  "emit_fields_to opens a contents ws =
     (case fields_out a of
        Some path \<Rightarrow> if opens path then \<lparr>exit_code = 0, standard_output = '''', files = [(path, contents)], warnings = ws\<rparr>
                     else \<lparr>exit_code = 1, standard_output = '''', files = [], warnings = ws\<rparr>
      | None \<Rightarrow> \<lparr>exit_code = 0, standard_output = (if groups_out a = None then contents else ''''), files = [], warnings = ws\<rparr>)"

definition emit_groups_to :: "'n xml \<Rightarrow> (string \<Rightarrow> bool) \<Rightarrow> gen_args \<Rightarrow> 'n list \<Rightarrow> outcome \<Rightarrow> outcome option" where
  "emit_groups_to xml opens a docs oc =
     (case groups_out a of
        None \<Rightarrow> Some oc
      | Some path \<Rightarrow> do {
          (groups, conflicts, ws) \<leftarrow> load_groups xml docs;
          let oc = oc\<lparr>warnings := warnings oc @ ws\<rparr>;
          Some (if opens path then oc\<lparr>files := files oc @ [(path, emit_groups groups conflicts)]\<rparr>
                else oc\<lparr>exit_code := 1\<rparr>)
        })"

definition gen_main :: "'n xml \<Rightarrow> (string \<Rightarrow> 'n option) \<Rightarrow> (string \<Rightarrow> bool) \<Rightarrow> string list \<Rightarrow> outcome option" where
  "gen_main xml load_file opens argv =
     (let fail = (\<lambda>code. \<lparr>exit_code = code, standard_output = '''', files = [], warnings = []\<rparr>) in
      case parse_gen_args argv \<lparr>input_paths = [], fields_out = None, groups_out = None\<rparr> of
        None \<Rightarrow> Some (fail 2)
      | Some a \<Rightarrow>
          if input_paths a = [] then Some (fail 2)
          else case load_all load_file (input_paths a) of
            None \<Rightarrow> Some (fail 1)
          | Some docs \<Rightarrow> do {
              ((fm, ws), (messages, seen, ws')) \<leftarrow> load_docs xml docs;
              let oc = emit_fields_to opens a (emit_fields fm messages) (ws @ ws');
              if exit_code oc \<noteq> 0 then Some oc else emit_groups_to xml opens a (map fst docs) oc
            })"

end
