(* ===== verification/Spec_Lemmas.thy ===== *)
theory Spec_Lemmas
  imports Spec_Emitter
begin

text \<open>
  What the specification loader computes, against descriptions that do not mention maps or
  positions: the fields and messages of the document are grouped by tag and by value, the first
  one gives name and type, and the others' names are the aliases. Resolving a delimiter
  follows the components to the first one that is none. The groups with their conflicts.
\<close>

section \<open>Field and message elements\<close>

definition field_entry :: "'n xml \<Rightarrow> 'n \<Rightarrow> (int \<times> string \<times> string) option" where
  "field_entry xml f =
     (let num = xml_attribute xml f ''number'';
          name = xml_attribute xml f ''name'';
          type = xml_attribute xml f ''type''
      in if num = [] \<or> name = [] \<or> type = [] then None
         else case c_atoi num of
           None \<Rightarrow> None
         | Some tag \<Rightarrow> if 0 < tag then Some (tag, name, normalize_type type) else None)"

definition field_elements :: "'n xml \<Rightarrow> 'n \<Rightarrow> 'n list" where
  "field_elements xml doc = xml_named xml (xml_child xml (xml_child xml doc ''fix'') ''fields'') ''field''"

definition field_entries :: "'n xml \<Rightarrow> 'n list \<Rightarrow> (int \<times> string \<times> string) list" where
  "field_entries xml docs = List.map_filter (field_entry xml) (concat (map (field_elements xml) docs))"

definition message_entry :: "'n xml \<Rightarrow> 'n \<Rightarrow> (string \<times> string) option" where
  "message_entry xml m =
     (let name = xml_attribute xml m ''name''; v = xml_attribute xml m ''msgtype''
      in if name = [] \<or> v = [] then None else Some (v, name))"

definition message_elements :: "'n xml \<Rightarrow> 'n \<Rightarrow> 'n list" where
  "message_elements xml doc = xml_named xml (xml_child xml (xml_child xml doc ''fix'') ''messages'') ''message''"

definition message_entries :: "'n xml \<Rightarrow> 'n list \<Rightarrow> (string \<times> string) list" where
  "message_entries xml docs = List.map_filter (message_entry xml) (concat (map (message_elements xml) docs))"

section \<open>Grouping by key\<close>

definition first_occurrences :: "'a list \<Rightarrow> 'a list" where
  "first_occurrences xs = rev (remdups (rev xs))"

lemma first_occurrences_snoc [simp]:
  "first_occurrences (xs @ [x]) =
     (if x \<in> set xs then first_occurrences xs else first_occurrences xs @ [x])"
  by (simp add: first_occurrences_def)

lemma first_occurrences_simps [simp]:
  "first_occurrences [] = []" "set (first_occurrences xs) = set xs" "distinct (first_occurrences xs)"
  by (simp_all add: first_occurrences_def)

text \<open>The names of a key: the first one, and the others, each once.\<close>

definition names_of :: "('k \<times> 'v) list \<Rightarrow> 'k \<Rightarrow> 'v list" where
  "names_of es k = map snd (filter (\<lambda>e. fst e = k) es)"

definition aliases_of :: "string list \<Rightarrow> string list" where
  "aliases_of names = first_occurrences (filter (\<lambda>n. n \<noteq> hd names) (tl names))"

lemma names_of_snoc [simp]: "names_of (es @ [(k', v)]) k = (if k' = k then names_of es k @ [v] else names_of es k)"
  by (simp add: names_of_def)

lemma names_of_Nil [simp]: "names_of [] k = []"
  by (simp add: names_of_def)

lemma names_of_empty: "names_of es k = [] \<longleftrightarrow> k \<notin> fst ` set es"
  by (induction es) (auto simp: names_of_def)

lemma aliases_of_single [simp]: "aliases_of [n] = []"
  by (simp add: aliases_of_def)

lemma aliases_of_snoc:
  assumes "names \<noteq> []"
  shows "aliases_of (names @ [n]) =
    aliases_of names @ (if hd names \<noteq> n \<and> n \<notin> set (aliases_of names) then [n] else [])"
  using assms by (cases names) (auto simp: aliases_of_def)

section \<open>Fields\<close>

definition field_of :: "(int \<times> string \<times> string) list \<Rightarrow> int \<Rightarrow> spec_field option" where
  "field_of es tag =
     (case names_of es tag of
        [] \<Rightarrow> None
      | e # rest \<Rightarrow> Some \<lparr>sf_tag = tag, sf_name = fst e, sf_type = snd e, sf_aliases = aliases_of (map fst (e # rest))\<rparr>)"

definition fields_refine :: "field_map \<Rightarrow> (int \<times> string \<times> string) list \<Rightarrow> bool" where
  "fields_refine fm es \<longleftrightarrow> ordered fm \<and> map_of fm = field_of es"

lemma merge_field_refines:
  assumes "fields_refine fm es"
  shows "fields_refine (fst (merge_field source tag name type (fm, ws))) (es @ [(tag, name, type)])"
proof (cases "names_of es tag")
  case Nil
  then have n: "map_of fm tag = None" using assms by (simp add: fields_refine_def field_of_def)
  show ?thesis
    using assms Nil unfolding merge_field_def fields_refine_def
    by (auto simp: n field_of_def fun_eq_iff ordered_intros)
next
  case (Cons e rest)
  let ?names = "map fst (e # rest)"
  have n: "map_of fm tag = Some \<lparr>sf_tag = tag, sf_name = fst e, sf_type = snd e, sf_aliases = aliases_of ?names\<rparr>"
    using assms Cons by (simp add: fields_refine_def field_of_def)
  have a: "aliases_of (?names @ [name]) =
      aliases_of ?names @ (if fst e \<noteq> name \<and> name \<notin> set (aliases_of ?names) then [name] else [])"
    using aliases_of_snoc [of ?names name] by simp
  have f: "field_of (es @ [(tag, name, type)]) =
      (field_of es)(tag \<mapsto> \<lparr>sf_tag = tag, sf_name = fst e, sf_type = snd e, sf_aliases = aliases_of (?names @ [name])\<rparr>)"
    using Cons by (auto simp: field_of_def fun_eq_iff)
  have o: "ordered fm" "map_of fm = field_of es" using assms by (simp_all add: fields_refine_def)
  show ?thesis
    unfolding merge_field_def fields_refine_def prod.case n option.case Let_def f a fst_conv
    by (simp add: o ordered_put)
qed

lemma load_field_refines:
  assumes "load_field xml source f (fm, ws) = Some (fm', ws')" "fields_refine fm es"
  shows "fields_refine fm' (es @ (case field_entry xml f of None \<Rightarrow> [] | Some e \<Rightarrow> [e]))"
proof (cases "field_entry xml f")
  case None
  with assms show ?thesis
    by (auto simp: load_field_def field_entry_def Let_def bind_eq_Some_conv split: if_splits option.splits)
next
  case (Some e)
  obtain tag name type where e: "e = (tag, name, type)" by (cases e)
  have "(fm', ws') = merge_field source tag name type (fm, ws)"
    using assms(1) Some unfolding e load_field_def field_entry_def Let_def
    by (auto simp: bind_eq_Some_conv split: if_splits option.splits)
  with merge_field_refines [OF assms(2), of source tag name type ws] show ?thesis
    by (simp add: Some e) (metis fst_conv)
qed

lemma load_field_list_refines:
  "try_each (load_field xml source) fs (fm, ws) = Some (fm', ws') \<Longrightarrow> fields_refine fm es \<Longrightarrow>
    fields_refine fm' (es @ List.map_filter (field_entry xml) fs)"
proof (induction fs arbitrary: fm ws es)
  case Nil
  then show ?case by (simp add: map_filter_simps)
next
  case (Cons f fs)
  from Cons.prems(1) obtain fm1 ws1 where
    1: "load_field xml source f (fm, ws) = Some (fm1, ws1)" "try_each (load_field xml source) fs (fm1, ws1) = Some (fm', ws')"
    by (auto simp: bind_eq_Some_conv)
  from Cons.IH [OF 1(2) load_field_refines [OF 1(1) Cons.prems(2)]] show ?case
    by (cases "field_entry xml f") (simp_all add: map_filter_simps)
qed

section \<open>Messages\<close>

definition message_of :: "(string \<times> string) list \<Rightarrow> string \<Rightarrow> spec_message" where
  "message_of es v = \<lparr>sm_name = hd (names_of es v), sm_value = v, sm_aliases = aliases_of (names_of es v)\<rparr>"

definition messages_of :: "(string \<times> string) list \<Rightarrow> spec_message list" where
  "messages_of es = map (message_of es) (first_occurrences (map fst es))"

definition messages_refine :: "spec_message list \<Rightarrow> (string \<rightharpoonup> nat) \<Rightarrow> (string \<times> string) list \<Rightarrow> bool" where
  "messages_refine out seen es \<longleftrightarrow> out = messages_of es \<and>
     (\<forall>v i. seen v = Some i \<longleftrightarrow> i < length out \<and> first_occurrences (map fst es) ! i = v)"

lemma message_of_snoc: "message_of (es @ [(v, n)]) u =
   (if u = v then \<lparr>sm_name = hd (names_of es v @ [n]), sm_value = v, sm_aliases = aliases_of (names_of es v @ [n])\<rparr>
    else message_of es u)"
  by (simp add: message_of_def)

lemma messages_refine_new:
  assumes "messages_refine out seen es" "seen v = None"
  shows "messages_refine (out @ [\<lparr>sm_name = n, sm_value = v, sm_aliases = []\<rparr>]) (seen(v \<mapsto> length out)) (es @ [(v, n)])"
proof -
  have out: "out = messages_of es" and seen: "\<And>v i. seen v = Some i \<longleftrightarrow> i < length out \<and> first_occurrences (map fst es) ! i = v"
    using assms(1) unfolding messages_refine_def by blast+
  have len: "length out = length (first_occurrences (map fst es))" by (simp add: out messages_of_def)
  have v: "v \<notin> fst ` set es"
  proof
    assume "v \<in> fst ` set es"
    then have "v \<in> set (first_occurrences (map fst es))" by simp
    then obtain i where i: "i < length out" "first_occurrences (map fst es) ! i = v" unfolding in_set_conv_nth len by blast
    then have "seen v = Some i" by (simp only: seen)
    with assms(2) show False by simp
  qed
  then have fo: "first_occurrences (map fst (es @ [(v, n)])) = first_occurrences (map fst es) @ [v]" by simp
  have "names_of es v = []" using v by (simp add: names_of_empty)
  then have "messages_of (es @ [(v, n)]) = messages_of es @ [\<lparr>sm_name = n, sm_value = v, sm_aliases = []\<rparr>]"
    unfolding messages_of_def fo using v by (auto simp: message_of_snoc)
  moreover have "(seen(v \<mapsto> length out)) u = Some i \<longleftrightarrow>
      i < Suc (length out) \<and> (first_occurrences (map fst es) @ [v]) ! i = u" for u i
  proof (cases "i < length out")
    case True
    then have "first_occurrences (map fst es) ! i \<noteq> v" using v nth_mem [of i "first_occurrences (map fst es)"] len by auto
    with True have "(seen(v \<mapsto> length out)) u = Some i \<longleftrightarrow> seen u = Some i"
      using seen [of v i] assms(2) by auto
    with True show ?thesis by (simp add: seen nth_append len)
  next
    case False
    then have "seen u \<noteq> Some i" by (simp add: seen)
    with False show ?thesis by (auto simp: nth_append len less_Suc_eq)
  qed
  ultimately show ?thesis by (simp add: messages_refine_def out fo del: map_append)
qed

lemma messages_refine_old:
  assumes "messages_refine out seen es" "seen v = Some i"
  defines "old \<equiv> out ! i"
  shows "old = message_of es v" "names_of es v \<noteq> []"
    "messages_refine (out[i := old\<lparr>sm_aliases := sm_aliases old @
       (if sm_name old \<noteq> n \<and> n \<notin> set (sm_aliases old) then [n] else [])\<rparr>]) seen (es @ [(v, n)])"
proof -
  have out: "out = messages_of es" and seen: "\<And>v i. seen v = Some i \<longleftrightarrow> i < length out \<and> first_occurrences (map fst es) ! i = v"
    using assms(1) unfolding messages_refine_def by blast+
  let ?vs = "first_occurrences (map fst es)"
  have len: "length out = length ?vs" by (simp add: out messages_of_def)
  have i: "i < length ?vs" "?vs ! i = v" using seen assms(2) len by auto
  then show old: "old = message_of es v" by (simp add: old_def out messages_of_def)
  have v: "v \<in> fst ` set es" using i nth_mem [of i ?vs] by auto
  then show ne: "names_of es v \<noteq> []" by (simp add: names_of_empty)
  have fo: "first_occurrences (map fst (es @ [(v, n)])) = ?vs" using v by auto
  have m: "message_of (es @ [(v, n)]) v = old\<lparr>sm_aliases := sm_aliases old @
       (if sm_name old \<noteq> n \<and> n \<notin> set (sm_aliases old) then [n] else [])\<rparr>"
    using ne by (simp add: old message_of_snoc message_of_def aliases_of_snoc)
  have "messages_of (es @ [(v, n)]) = out[i := message_of (es @ [(v, n)]) v]"
  proof (rule nth_equalityI)
    fix j assume "j < length (messages_of (es @ [(v, n)]))"
    then have j: "j < length ?vs" by (simp add: messages_of_def fo del: map_append)
    have "?vs ! j = v \<longleftrightarrow> j = i" using i j by (metis first_occurrences_simps(3) nth_eq_iff_index_eq)
    then show "messages_of (es @ [(v, n)]) ! j = out[i := message_of (es @ [(v, n)]) v] ! j"
      using i j unfolding messages_of_def fo out by (auto simp: message_of_snoc)
  qed (simp add: messages_of_def fo out del: map_append)
  then show "messages_refine (out[i := old\<lparr>sm_aliases := sm_aliases old @
       (if sm_name old \<noteq> n \<and> n \<notin> set (sm_aliases old) then [n] else [])\<rparr>]) seen (es @ [(v, n)])"
    using seen unfolding messages_refine_def fo m by simp
qed

lemma load_message_refines:
  assumes "messages_refine out seen es" "load_message xml source m (out, seen, ws) = (out', seen', ws')"
  shows "messages_refine out' seen' (es @ (case message_entry xml m of None \<Rightarrow> [] | Some e \<Rightarrow> [e]))"
proof (cases "message_entry xml m")
  case None
  with assms show ?thesis by (auto simp: load_message_def message_entry_def Let_def split: if_splits)
next
  case (Some e)
  obtain v n where e: "e = (v, n)" by (cases e)
  have a: "xml_attribute xml m ''name'' = n" "xml_attribute xml m ''msgtype'' = v" "n \<noteq> []" "v \<noteq> []"
    using Some by (auto simp: e message_entry_def Let_def split: if_splits)
  show ?thesis
  proof (cases "seen v")
    case None
    with assms(2) messages_refine_new [OF assms(1) None, of n] show ?thesis
      by (auto simp: load_message_def Let_def a Some e)
  next
    case s: (Some i)
    from messages_refine_old(3) [OF assms(1) s, of n] assms(2) show ?thesis
      by (auto simp: load_message_def Let_def a Some e s split: if_splits)
  qed
qed

lemma load_message_list_refines:
  "messages_refine out seen es \<Longrightarrow> fold (load_message xml source) ms (out, seen, ws) = (out', seen', ws') \<Longrightarrow>
    messages_refine out' seen' (es @ List.map_filter (message_entry xml) ms)"
proof (induction ms arbitrary: out seen ws es)
  case Nil
  then show ?case by (simp add: map_filter_simps)
next
  case (Cons m ms)
  obtain o1 s1 w1 where 1: "load_message xml source m (out, seen, ws) = (o1, s1, w1)"
    by (cases "load_message xml source m (out, seen, ws)")
  have "fold (load_message xml source) ms (o1, s1, w1) = (out', seen', ws')" using Cons.prems(2) 1 by simp
  from Cons.IH [OF load_message_refines [OF Cons.prems(1) 1] this] show ?case
    by (cases "message_entry xml m") (simp_all add: map_filter_simps)
qed

section \<open>The documents\<close>

lemma map_filter_append: "List.map_filter f (xs @ ys) = List.map_filter f xs @ List.map_filter f ys"
  by (simp add: List.map_filter_def)

lemma load_docs_loop:
  "try_each (load_doc_pair xml) docs ((fm, ws), (out, seen, ws2)) = Some ((fm', ws'), (out', seen', ws2')) \<Longrightarrow>
    fields_refine fm es \<Longrightarrow> messages_refine out seen ems \<Longrightarrow>
    fields_refine fm' (es @ field_entries xml (map fst docs)) \<and>
    messages_refine out' seen' (ems @ message_entries xml (map fst docs))"
proof (induction docs arbitrary: fm ws out seen ws2 es ems)
  case Nil
  then show ?case by (simp add: field_entries_def message_entries_def map_filter_simps)
next
  case (Cons d docs)
  obtain doc source where d: "d = (doc, source)" by (cases d)
  obtain o1 s1 w1 where m: "load_messages xml doc source (out, seen, ws2) = (o1, s1, w1)"
    by (cases "load_messages xml doc source (out, seen, ws2)")
  from Cons.prems(1) m obtain fm1 ws1 where f: "load_fields xml doc source (fm, ws) = Some (fm1, ws1)"
    and rest: "try_each (load_doc_pair xml) docs ((fm1, ws1), (o1, s1, w1)) = Some ((fm', ws'), (out', seen', ws2'))"
    by (auto simp: d load_doc_pair_def bind_eq_Some_conv)
  have "fields_refine fm1 (es @ List.map_filter (field_entry xml) (field_elements xml doc))"
    using load_field_list_refines [OF _ Cons.prems(2)] f by (simp add: load_fields_def field_elements_def)
  moreover have "messages_refine o1 s1 (ems @ List.map_filter (message_entry xml) (message_elements xml doc))"
    using load_message_list_refines [OF Cons.prems(3)] m by (simp add: load_messages_def message_elements_def)
  ultimately show ?case
    by (auto simp: d field_entries_def message_entries_def map_filter_append
        dest: Cons.IH [OF rest, unfolded field_entries_def message_entries_def])
qed

lemma load_docs_result:
  assumes "load_docs xml docs = Some ((fm, ws), (messages, seen, ws'))"
  shows "ordered fm" "map_of fm = field_of (field_entries xml (map fst docs))"
    "messages = messages_of (message_entries xml (map fst docs))"
proof -
  have "fields_refine [] []" by (simp add: fields_refine_def ordered_intros field_of_def fun_eq_iff)
  moreover have "messages_refine [] Map.empty []" by (simp add: messages_refine_def messages_of_def)
  ultimately have "fields_refine fm (field_entries xml (map fst docs))"
    "messages_refine messages seen (message_entries xml (map fst docs))"
    using load_docs_loop [OF assms [unfolded load_docs_def], of "[]" "[]"] by simp_all
  then show "ordered fm" "map_of fm = field_of (field_entries xml (map fst docs))"
    "messages = messages_of (message_entries xml (map fst docs))"
    by (simp_all add: fields_refine_def messages_refine_def)
qed

section \<open>The generated table of length tags\<close>

definition generated_lengths :: "field_map \<Rightarrow> int list" where
  "generated_lengths fm = map sf_tag (data_lengths fm)"

lemma field_of_tag: "field_of es tag = Some f \<Longrightarrow> sf_tag f = tag"
  by (auto simp: field_of_def split: list.splits)

lemma field_entries_positive: "e \<in> set (field_entries xml docs) \<Longrightarrow> 0 < fst e"
  by (auto simp: field_entries_def List.map_filter_def field_entry_def Let_def split: if_splits option.splits)

lemma field_of_positive:
  assumes "field_of (field_entries xml docs) tag = Some f"
  shows "0 < tag"
proof -
  have "names_of (field_entries xml docs) tag \<noteq> []" using assms by (auto simp: field_of_def)
  then show ?thesis unfolding names_of_empty using field_entries_positive by fastforce
qed

lemma sorted_wrt_map_filter: "sorted_wrt (<) (map f xs) \<Longrightarrow> sorted_wrt (<) (map f (filter P xs))"
  by (induction xs) auto

lemma generated_lengths_strict:
  assumes "load_docs xml docs = Some ((fm, ws), ms)"
  shows "sorted_wrt (<) (generated_lengths fm)"
proof -
  obtain messages seen ws' where ms: "ms = (messages, seen, ws')" by (cases ms)
  note r = load_docs_result [OF assms [unfolded ms]]
  have tags: "sf_tag (snd p) = fst p" if "p \<in> set fm" for p
    using that ordered_mem [OF r(1), of "fst p" "snd p"] r(2) field_of_tag [of _ "fst p" "snd p"] by simp
  have "generated_lengths fm = map fst (filter (is_data_length \<circ> snd) fm)"
    using tags by (auto simp: generated_lengths_def data_lengths_def filter_map o_def)
  then show ?thesis
    using r(1) by (simp add: ordered_def sorted_wrt_map_filter)
qed

lemma generated_lengths_result:
  assumes "load_docs xml docs = Some ((fm, ws), ms)"
  shows "sorted (generated_lengths fm)" "\<forall>t \<in> set (generated_lengths fm). 0 \<le> t"
    "t \<in> set (generated_lengths fm) \<longleftrightarrow>
      (\<exists>f. field_of (field_entries xml (map fst docs)) t = Some f \<and> sf_type f = ''Length'') \<and> t \<noteq> 9 \<and> t \<noteq> 383"
proof -
  obtain messages seen ws' where ms: "ms = (messages, seen, ws')" by (cases ms)
  note r = load_docs_result [OF assms [unfolded ms]]
  let ?of = "field_of (field_entries xml (map fst docs))"
  have mem: "(k, f) \<in> set fm \<longleftrightarrow> ?of k = Some f" for k f using ordered_mem [OF r(1)] r(2) by simp
  have tags: "sf_tag (snd p) = fst p" if "p \<in> set fm" for p
    using that mem [of "fst p" "snd p"] field_of_tag [of _ "fst p" "snd p"] by simp
  have "generated_lengths fm = map fst (filter (is_data_length \<circ> snd) fm)"
    using tags by (auto simp: generated_lengths_def data_lengths_def filter_map o_def)
  then show "sorted (generated_lengths fm)"
    using r(1) by (simp add: ordered_def strict_sorted_iff sorted_filter)
  show in_set: "t \<in> set (generated_lengths fm) \<longleftrightarrow> (\<exists>f. ?of t = Some f \<and> sf_type f = ''Length'') \<and> t \<noteq> 9 \<and> t \<noteq> 383" for t
  proof -
    have "t \<in> set (generated_lengths fm) \<longleftrightarrow> (\<exists>f. (t, f) \<in> set fm \<and> is_data_length f)"
      unfolding generated_lengths_def data_lengths_def using tags by (auto simp: image_iff)
    also have "\<dots> \<longleftrightarrow> (\<exists>f. ?of t = Some f \<and> sf_tag f = t \<and> is_data_length f)"
      by (auto simp: mem dest: field_of_tag)
    also have "\<dots> \<longleftrightarrow> (\<exists>f. ?of t = Some f \<and> sf_type f = ''Length'') \<and> t \<noteq> 9 \<and> t \<noteq> 383"
      by (auto simp: is_data_length_def dest: field_of_tag)
    finally show ?thesis .
  qed
  show "\<forall>t \<in> set (generated_lengths fm). 0 \<le> t"
    using field_of_positive [of xml "map fst docs"] by (fastforce simp: in_set)
qed

end
