(* ===== verification/Spec_Groups.thy ===== *)
theory Spec_Groups
  imports Spec_Lemmas
begin

text \<open>
  The repeating groups of the generator: resolving a delimiter through components, termination
  of the collection on finite trees, and what the table of conflicting delimiters says.
\<close>

section \<open>Resolving a delimiter\<close>

fun follow :: "component_map \<Rightarrow> nat \<Rightarrow> string \<Rightarrow> string option" where
  "follow cf 0 n = Some n"
| "follow cf (Suc k) n = (case cf n of None \<Rightarrow> None | Some m \<Rightarrow> follow cf k m)"

lemma follow_add: "follow cf (a + b) n = Option.bind (follow cf a n) (follow cf b)"
  by (induction a arbitrary: n) (auto split: option.splits)

lemma follow_cycle:
  assumes "follow cf d n = Some n"
  shows "follow cf (d * m) n = Some n"
  using assms by (induction m) (simp_all add: follow_add)

lemma cycle_has_no_leaf:
  assumes "follow cf d n = Some n" "0 < d" "follow cf j n = Some r" "cf r = None"
  shows False
proof -
  have "follow cf (d * Suc j) n = Some n" by (rule follow_cycle [OF assms(1)])
  moreover obtain e where "d * Suc j = j + Suc e"
  proof -
    have "1 * Suc j \<le> d * Suc j" using assms(2) by (intro mult_le_mono1) simp
    then have "d * Suc j = j + Suc (d * Suc j - Suc j)" by (simp only: mult_1 add_Suc_right)
    then show thesis by (rule that)
  qed
  ultimately have "follow cf (j + Suc e) n = Some n" by simp
  then show False using assms(3,4) unfolding follow_add by simp
qed

definition resolves_in :: "component_map \<Rightarrow> nat \<Rightarrow> string \<Rightarrow> string \<Rightarrow> bool" where
  "resolves_in cf k n r \<longleftrightarrow> (\<exists>j<k. follow cf j n = Some r \<and> cf r = None)"

lemma resolves_in_0 [simp]: "\<not> resolves_in cf 0 n r"
  by (simp add: resolves_in_def)

lemma resolves_in_leaf [simp]: "cf n = None \<Longrightarrow> resolves_in cf (Suc k) n r \<longleftrightarrow> r = n"
proof -
  assume n: "cf n = None"
  have "follow cf j n = Some r \<longleftrightarrow> j = 0 \<and> r = n" for j using n by (cases j) auto
  then show ?thesis using n by (auto simp: resolves_in_def)
qed

lemma resolves_in_Suc [simp]: "cf n = Some m \<Longrightarrow> resolves_in cf (Suc k) n r \<longleftrightarrow> resolves_in cf k m r"
proof
  assume n: "cf n = Some m" and "resolves_in cf (Suc k) n r"
  then obtain j where j: "j < Suc k" "follow cf j n = Some r" "cf r = None" by (auto simp: resolves_in_def)
  with n have "j \<noteq> 0" by (cases j) auto
  with j n show "resolves_in cf k m r" by (cases j) (auto simp: resolves_in_def)
next
  assume n: "cf n = Some m" and "resolves_in cf k m r"
  then obtain j where "j < k" "follow cf j m = Some r" "cf r = None" by (auto simp: resolves_in_def)
  with n show "resolves_in cf (Suc k) n r" by (auto simp: resolves_in_def intro!: exI [of _ "Suc j"])
qed

lemma resolve_loop_result:
  "\<forall>v \<in> set visited. \<exists>d>0. follow cf d v = Some name \<Longrightarrow>
    (resolve_loop k cf g name visited chain = (r, []) \<longleftrightarrow> resolves_in cf k name r) \<and>
    (snd (resolve_loop k cf g name visited chain) = [] \<or> fst (resolve_loop k cf g name visited chain) = [])"
proof (induction k cf g name visited chain rule: resolve_loop.induct)
  case (2 k cf g name visited chain)
  show ?case
  proof (cases "cf name")
    case None
    then show ?thesis by auto
  next
    case (Some m)
    show ?thesis
    proof (cases "name \<in> set visited")
      case True
      with 2(2) obtain d where "0 < d" "follow cf d name = Some name" by blast
      then have "\<not> resolves_in cf (Suc k) name r" by (auto simp: resolves_in_def dest: cycle_has_no_leaf)
      with True Some show ?thesis by simp
    next
      case False
      have "\<exists>d>0. follow cf d v = Some m" if v: "v \<in> set (name # visited)" for v
      proof (cases "v = name")
        case True
        then show ?thesis using Some by (intro exI [of _ 1]) simp
      next
        case False
        with v 2(2) obtain d where "0 < d" "follow cf d v = Some name" by auto
        then have "follow cf (d + 1) v = Some m" using Some by (simp only: follow_add) simp
        then show ?thesis by (intro exI [of _ "d + 1"]) simp
      qed
      then have all: "\<forall>v \<in> set (name # visited). \<exists>d>0. follow cf d v = Some m" by blast
      have step: "resolve_loop (Suc k) cf g name visited chain = resolve_loop k cf g m (name # visited) (chain @ [m])"
        using Some False by simp
      show ?thesis unfolding step using 2(1) [OF Some False all] Some by simp
    qed
  qed
qed simp

lemma resolve_first_field_result:
  "resolve_first_field name cf g = (r, []) \<longleftrightarrow> resolves_in cf 32 name r"
  "snd (resolve_first_field name cf g) = [] \<or> fst (resolve_first_field name cf g) = []"
  using resolve_loop_result [of "[]" cf name 32 g "[name]" r]
  by (simp_all add: resolve_first_field_def kMaxComponentDepth_def)

section \<open>Collecting the groups\<close>

text \<open>The tree is finite: some measure decreases from a node to its children.\<close>

definition finite_tree :: "'n xml \<Rightarrow> bool" where
  "finite_tree xml \<longleftrightarrow> (\<exists>height :: 'n \<Rightarrow> nat. \<forall>n. \<forall>c \<in> set (xml_children xml n). height c < height n)"

text \<open>
  The two maps belong together: the same keys in order, and the delimiter of a group is the first
  of its alternates, which are different.
\<close>

definition groups_inv :: "group_state \<Rightarrow> bool" where
  "groups_inv st \<longleftrightarrow> ordered (fst st) \<and> ordered (snd st) \<and>
     (\<forall>c. map_of (fst st) c = None \<longleftrightarrow> map_of (snd st) c = None) \<and>
     (\<forall>c g alts. map_of (fst st) c = Some g \<longrightarrow> map_of (snd st) c = Some alts \<longrightarrow>
        gd_count g = c \<and> alts \<noteq> [] \<and> ga_first (hd alts) = gd_first g)"

lemma add_context_first [simp]: "ga_first (add_context m a) = ga_first a"
  by (simp add: add_context_def)

lemma update_alternate_hd [simp]:
  "(\<And>a. ga_first (f a) = ga_first a) \<Longrightarrow> update_alternate first f alts \<noteq> []"
  "(\<And>a. ga_first (f a) = ga_first a) \<Longrightarrow>
    ga_first (hd (update_alternate first f alts)) = (if alts = [] then first else ga_first (hd alts))"
  by (cases alts; simp)+

lemma collect_group_inv:
  assumes "groups_inv st"
  shows "groups_inv (collect_group xml m child st)"
proof -
  obtain dedup conflicts where st: "st = (dedup, conflicts)" by (cases st)
  consider "collect_group xml m child st = st"
    | c f where "collect_group xml m child st =
        (try_emplace c \<lparr>gd_count = c, gd_first = f\<rparr> dedup,
         map_put c (update_alternate f (add_context m) (case map_of conflicts c of None \<Rightarrow> [] | Some alts \<Rightarrow> alts)) conflicts)"
    by (cases "xml_name xml child = ''group'' \<and> xml_attribute xml child ''name'' \<noteq> [] \<and> group_first_name xml child \<noteq> []")
      (auto simp: st collect_group_def Let_def)
  then show ?thesis
  proof cases
    case 1
    with assms show ?thesis by simp
  next
    case 2
    have inv: "ordered dedup" "ordered conflicts" "\<And>c. map_of dedup c = None \<longleftrightarrow> map_of conflicts c = None"
      "\<And>c g alts. map_of dedup c = Some g \<Longrightarrow> map_of conflicts c = Some alts \<Longrightarrow>
        gd_count g = c \<and> alts \<noteq> [] \<and> ga_first (hd alts) = gd_first g"
      using assms unfolding groups_inv_def st fst_conv snd_conv by blast+
    show ?thesis
    proof (cases "map_of dedup c")
      case None
      then have n: "map_of conflicts c = None" using inv(3) by simp
      show ?thesis
        unfolding 2 groups_inv_def fst_conv snd_conv
        using inv None n by (simp add: try_emplace_def ordered_put)
    next
      case (Some g)
      then obtain alts where a: "map_of conflicts c = Some alts" using inv(3) [of c] by auto
      with inv(4) [OF Some a] show ?thesis
        unfolding 2 groups_inv_def fst_conv snd_conv
        using inv Some by (simp add: try_emplace_def ordered_put)
    qed
  qed
qed

lemma collect_nodes_result:
  assumes "finite_tree xml"
  shows "groups_inv st \<Longrightarrow> \<exists>st'. collect_nodes xml m nodes st = Some st' \<and> groups_inv st'"
proof -
  from assms obtain height :: "'a \<Rightarrow> nat" where h: "\<And>n c. c \<in> set (xml_children xml n) \<Longrightarrow> height c < height n"
    unfolding finite_tree_def by blast
  have "\<forall>nodes st. (\<forall>n \<in> set nodes. height n < k) \<longrightarrow> groups_inv st \<longrightarrow>
      (\<exists>st'. collect_nodes xml m nodes st = Some st' \<and> groups_inv st')" for k
  proof (induction k)
    case 0
    then show ?case by (auto simp: collect_nodes.simps)
  next
    case (Suc k)
    have "(\<forall>n \<in> set nodes. height n < Suc k) \<Longrightarrow> groups_inv st \<Longrightarrow>
        \<exists>st'. collect_nodes xml m nodes st = Some st' \<and> groups_inv st'" for nodes st
    proof (induction nodes arbitrary: st)
      case Nil
      then show ?case by (simp add: collect_nodes.simps)
    next
      case (Cons n nodes)
      have "\<forall>c \<in> set (xml_children xml n). height c < k" using h Cons.prems(1) by fastforce
      from Suc.IH [rule_format, of "xml_children xml n", OF bspec [OF this] collect_group_inv [OF Cons.prems(2), of xml m n]]
      obtain s1 where
        s1: "collect_nodes xml m (xml_children xml n) (collect_group xml m n st) = Some s1" "groups_inv s1" by auto
      from Cons.IH [OF _ s1(2)] Cons.prems(1) obtain s2 where
        "collect_nodes xml m nodes s1 = Some s2" "groups_inv s2" by auto
      with s1(1) show ?case by (subst collect_nodes.simps) simp
    qed
    then show ?case by blast
  qed
  moreover obtain k where "\<forall>n \<in> set nodes. height n < k"
  proof -
    have "\<forall>n \<in> set nodes. height n < Suc (Max (height ` set nodes))" by (simp add: le_imp_less_Suc)
    then show thesis by (rule that)
  qed
  ultimately show "groups_inv st \<Longrightarrow> ?thesis" by blast
qed

lemma collect_all_groups_result:
  assumes "finite_tree xml" "groups_inv st"
  shows "\<exists>st'. collect_all_groups xml root st = Some st' \<and> groups_inv st'"
proof -
  have named: "\<exists>s'. collect_in_named xml x s = Some s' \<and> groups_inv s'" if "groups_inv s" for x s
    using collect_nodes_result [OF assms(1) that] by (simp add: collect_in_named_def collect_groups_def)
  have each: "\<exists>s'. try_each (collect_in_named xml) xs s = Some s' \<and> groups_inv s'" if "groups_inv s" for xs s
    using that by (rule try_each_inv [where I = groups_inv, rotated]) (rule named)
  have one: "\<exists>s'. collect_groups xml n c s = Some s' \<and> groups_inv s'" if "groups_inv s" for n c s
    using collect_nodes_result [OF assms(1) that] by (simp add: collect_groups_def)
  obtain s1 where s1: "try_each (collect_in_named xml) (xml_named xml (xml_child xml root ''messages'') ''message'') st = Some s1"
    "groups_inv s1" using each [OF assms(2)] by blast
  obtain s2 where s2: "try_each (collect_in_named xml) (xml_named xml (xml_child xml root ''components'') ''component'') s1 = Some s2"
    "groups_inv s2" using each [OF s1(2)] by blast
  obtain s3 where s3: "collect_groups xml (xml_child xml root ''header'') ''header'' s2 = Some s3" "groups_inv s3"
    using one [OF s2(2)] by blast
  from one [OF s3(2)] s1(1) s2(1) s3(1) show ?thesis by (simp add: collect_all_groups_def)
qed

section \<open>The groups and their conflicts\<close>

lemma merge_alternate_props:
  "merge_alternate a as \<noteq> []"
  "ga_first (hd (merge_alternate a as)) = (if as = [] then ga_first a else ga_first (hd as))"
  "set (map ga_first (merge_alternate a as)) = insert (ga_first a) (set (map ga_first as))"
  "distinct (map ga_first as) \<Longrightarrow> distinct (map ga_first (merge_alternate a as))"
proof -
  show "merge_alternate a as \<noteq> []" by (cases as) auto
  show "ga_first (hd (merge_alternate a as)) = (if as = [] then ga_first a else ga_first (hd as))"
    by (cases as) (auto simp: add_contexts_def)
  show s: "set (map ga_first (merge_alternate a as)) = insert (ga_first a) (set (map ga_first as))" for as
    by (induction as) (auto simp: add_contexts_def)
  show "distinct (map ga_first as) \<Longrightarrow> distinct (map ga_first (merge_alternate a as))"
  proof (induction as)
    case (Cons b as)
    then show ?case using s [of as] by (auto simp: add_contexts_def)
  qed simp
qed

lemma fold_merge_props:
  "distinct (map ga_first acc) \<Longrightarrow> distinct (map ga_first (fold merge_alternate as acc))"
  "acc \<noteq> [] \<Longrightarrow> fold merge_alternate as acc \<noteq> [] \<and> ga_first (hd (fold merge_alternate as acc)) = ga_first (hd acc)"
proof -
  show "distinct (map ga_first acc) \<Longrightarrow> distinct (map ga_first (fold merge_alternate as acc))"
    by (induction as arbitrary: acc) (simp_all add: merge_alternate_props(4))
  show "acc \<noteq> [] \<Longrightarrow> fold merge_alternate as acc \<noteq> [] \<and> ga_first (hd (fold merge_alternate as acc)) = ga_first (hd acc)"
  proof (induction as arbitrary: acc)
    case (Cons a as)
    from Cons.IH [OF merge_alternate_props(1) [of a acc]] Cons.prems merge_alternate_props(2) [of a acc]
    show ?case by simp
  qed simp
qed

text \<open>The group that a definition becomes, if its delimiter resolves.\<close>

definition emitted_group :: "component_map \<Rightarrow> group_def \<Rightarrow> group_def option" where
  "emitted_group cf g =
     (let r = fst (resolve_first_field (gd_first g) cf (gd_count g)) in if r = [] then None else Some (g\<lparr>gd_first := r\<rparr>))"

lemma emit_groups_fold:
  "fold (emit_group cf) dedup (out, conflicts, ws) = (out', conflicts', ws') \<Longrightarrow>
    out' = out @ List.map_filter (emitted_group cf \<circ> snd) dedup \<and>
    conflicts' = filter (\<lambda>(c, _). \<forall>p \<in> set dedup. gd_count (snd p) = c \<longrightarrow> emitted_group cf (snd p) \<noteq> None) conflicts"
proof (induction dedup arbitrary: out conflicts ws)
  case Nil
  then show ?case by (simp add: map_filter_simps)
next
  case (Cons p dedup)
  obtain r w where r: "resolve_first_field (gd_first (snd p)) cf (gd_count (snd p)) = (r, w)"
    by (cases "resolve_first_field (gd_first (snd p)) cf (gd_count (snd p))")
  show ?case
  proof (cases "r = []")
    case True
    then have "fold (emit_group cf) dedup (out, map_erase (gd_count (snd p)) conflicts, ws @ w) = (out', conflicts', ws')"
      using Cons.prems r by (cases p) (simp add: emit_group_def)
    from Cons.IH [OF this] True r show ?thesis
      by (auto simp: map_filter_simps emitted_group_def map_erase_def intro!: filter_cong)
  next
    case False
    then have "fold (emit_group cf) dedup (out @ [(snd p)\<lparr>gd_first := r\<rparr>], conflicts, ws @ w) = (out', conflicts', ws')"
      using Cons.prems r by (cases p) (simp add: emit_group_def)
    from Cons.IH [OF this] False r show ?thesis
      by (auto simp: map_filter_simps emitted_group_def intro!: filter_cong)
  qed
qed

lemma collapse_props:
  assumes "collapse cf (c, alts) = ((c', alts'), w)"
  shows "c' = c" "distinct (map ga_first alts')"
    "alts \<noteq> [] \<Longrightarrow> fst (resolve_first_field (ga_first (hd alts)) cf c) = r \<Longrightarrow> r \<noteq> [] \<Longrightarrow> ga_first (hd alts') = r"
proof -
  have e: "c' = c" "alts' = fold merge_alternate (map fst (map (resolve_alternate cf c) alts)) []"
    using assms by (auto simp: collapse_def Let_def)
  then show "c' = c" by simp
  show "distinct (map ga_first alts')" unfolding e by (rule fold_merge_props(1)) simp
  assume a: "alts \<noteq> []" "fst (resolve_first_field (ga_first (hd alts)) cf c) = r" "r \<noteq> []"
  then obtain a as where alts: "alts = a # as" by (cases alts) auto
  have "ga_first (fst (resolve_alternate cf c a)) = r"
    using a alts by (auto simp: resolve_alternate_def split: prod.splits)
  then show "ga_first (hd alts') = r"
    using fold_merge_props(2) [of "[fst (resolve_alternate cf c a)]"] unfolding e alts by simp
qed

text \<open>What is emitted for groups: named in order, never behind a component, and truly reported.\<close>

definition conflict_ok :: "group_def list \<Rightarrow> string \<times> group_alternate list \<Rightarrow> bool" where
  "conflict_ok groups = (\<lambda>(c, alts). 2 \<le> length alts \<and> distinct (map ga_first alts) \<and>
     \<lparr>gd_count = c, gd_first = ga_first (hd alts)\<rparr> \<in> set groups)"

definition components_of :: "'n xml \<Rightarrow> 'n list \<Rightarrow> component_map" where
  "components_of xml docs = fold (\<lambda>d. resolve_component_first xml (xml_child xml d ''fix'')) docs Map.empty"

text \<open>A group that is emitted has a delimiter that is not a component.\<close>

lemma emitted_group_resolved:
  assumes g0: "emitted_group cf g0 = Some g"
  shows "gd_first g \<noteq> [] \<and> cf (gd_first g) = None"
proof -
  obtain r w where r: "resolve_first_field (gd_first g0) cf (gd_count g0) = (r, w)"
    by (cases "resolve_first_field (gd_first g0) cf (gd_count g0)")
  with g0 have "r \<noteq> []" "g = g0\<lparr>gd_first := r\<rparr>" by (auto simp: emitted_group_def split: if_splits)
  moreover have "w = []" using resolve_first_field_result(2) [of "gd_first g0" cf "gd_count g0"] r calculation by simp
  ultimately show ?thesis
    using resolve_first_field_result(1) [of "gd_first g0" cf "gd_count g0" r] r by (auto simp: resolves_in_def)
qed

text \<open>The alternatives of an emitted group, once resolved and merged, begin with its delimiter.\<close>

lemma collapse_of_emitted:
  assumes col: "collapse cf (c0, alts) = ((c, alts'), w)" and g': "emitted_group cf g = Some g'" and out: "g' \<in> set groups"
    and ga: "gd_count g = c0 \<and> alts \<noteq> [] \<and> ga_first (List.hd alts) = gd_first g" and two: "2 \<le> length alts'"
  shows "conflict_ok groups (c, alts')"
proof -
  note props = collapse_props [OF col]
  let ?r = "fst (resolve_first_field (gd_first g) cf (gd_count g))"
  from g' have r: "?r \<noteq> []" "g' = g\<lparr>gd_first := ?r\<rparr>" by (auto simp: emitted_group_def Let_def split: if_splits)
  have "ga_first (List.hd alts') = ?r" using props(3) [of ?r] ga r(1) by auto
  moreover have "g' = \<lparr>gd_count = c0, gd_first = ?r\<rparr>" using r(2) ga by (cases g) simp
  ultimately show ?thesis using two props(1,2) out by (simp add: conflict_ok_def)
qed

lemma load_groups_result:
  assumes "finite_tree xml"
  shows "\<exists>groups conflicts ws. load_groups xml docs = Some (groups, conflicts, ws) \<and>
    sorted_wrt (<) (map gd_count groups) \<and>
    list_all (\<lambda>g. gd_first g \<noteq> [] \<and> components_of xml docs (gd_first g) = None) groups \<and>
    list_all (conflict_ok groups) conflicts"
proof -
  define cf where "cf = components_of xml docs"
  have "groups_inv ([], [])" by (simp add: groups_inv_def ordered_intros)
  then have "\<exists>st. try_each (\<lambda>d. collect_all_groups xml (xml_child xml d ''fix'')) docs ([], []) = Some st \<and> groups_inv st"
    by (rule try_each_inv [where I = groups_inv, rotated]) (rule collect_all_groups_result [OF assms])
  then obtain dedup conflicts where
    c: "try_each (\<lambda>d. collect_all_groups xml (xml_child xml d ''fix'')) docs ([], []) = Some (dedup, conflicts)"
    and inv: "groups_inv (dedup, conflicts)" by auto
  obtain out conflicts' ws where f: "fold (emit_group cf) dedup ([], conflicts, []) = (out, conflicts', ws)"
    by (cases "fold (emit_group cf) dedup ([], conflicts, [])")
  have inv': "ordered dedup" "ordered conflicts" "\<And>c. map_of dedup c = None \<longleftrightarrow> map_of conflicts c = None"
    "\<And>c g alts. map_of dedup c = Some g \<Longrightarrow> map_of conflicts c = Some alts \<Longrightarrow>
      gd_count g = c \<and> alts \<noteq> [] \<and> ga_first (hd alts) = gd_first g"
    using inv unfolding groups_inv_def fst_conv snd_conv by blast+
  have counts: "gd_count g = k" if "(k, g) \<in> set dedup" for k g
  proof -
    have "map_of dedup k = Some g" using ordered_mem [OF inv'(1)] that by simp
    with inv'(3) [of k] inv'(4) [of k g] show ?thesis by (cases "map_of conflicts k") auto
  qed
  have out: "out = List.map_filter (emitted_group cf \<circ> snd) dedup"
    and conf: "conflicts' = filter (\<lambda>(c, _). \<forall>p \<in> set dedup. gd_count (snd p) = c \<longrightarrow> emitted_group cf (snd p) \<noteq> None) conflicts"
    using emit_groups_fold [OF f] by simp_all
  define kept where "kept = filter (\<lambda>(_, alts). 2 \<le> length alts) (map fst (map (collapse cf) conflicts'))"
  obtain ws' where "load_groups xml docs = Some (out, kept, ws')"
    using c f unfolding cf_def components_of_def kept_def by (simp add: load_groups_def Let_def)
  moreover have "sorted_wrt (<) (map gd_count out)"
  proof -
    have e: "map gd_count out = map fst (filter (\<lambda>p. emitted_group cf (snd p) \<noteq> None) dedup)"
      unfolding out List.map_filter_def
      using counts by (auto simp: emitted_group_def Let_def split: if_splits)
    have "sorted_wrt (<) (filter (\<lambda>k. True) (map fst dedup))" using inv'(1) by (simp add: ordered_def)
    then show ?thesis
      unfolding e by (simp add: sorted_wrt_map sorted_wrt_filter)
  qed
  moreover have "gd_first g \<noteq> [] \<and> cf (gd_first g) = None" if "g \<in> set out" for g
  proof -
    from that obtain g0 where "emitted_group cf g0 = Some g" by (auto simp: out List.map_filter_def)
    then show ?thesis by (rule emitted_group_resolved)
  qed
  moreover have "conflict_ok out p" if "p \<in> set kept" for p
  proof -
    obtain c alts' where p: "p = (c, alts')" by (cases p)
    from that p obtain q where q: "q \<in> set conflicts'" "(c, alts') = fst (collapse cf q)" "2 \<le> length alts'"
      by (auto simp: kept_def)
    obtain c0 alts where c0: "q = (c0, alts)" by (cases q)
    obtain w where "collapse cf q = ((c, alts'), w)" using q(2) by (cases "collapse cf q") simp
    with q c0 have a: "(c0, alts) \<in> set conflicts'" "collapse cf (c0, alts) = ((c, alts'), w)" "2 \<le> length alts'"
      by simp_all
    from a(1) have mem: "(c0, alts) \<in> set conflicts" by (simp add: conf)
    then have m: "map_of conflicts c0 = Some alts" using ordered_mem [OF inv'(2)] by simp
    then obtain g where g: "map_of dedup c0 = Some g" using inv'(3) [of c0] by auto
    note ga = inv'(4) [OF g m]
    from g have gm: "(c0, g) \<in> set dedup" by (rule map_of_SomeD)
    with a(1) ga obtain g' where g': "emitted_group cf g = Some g'" by (fastforce simp: conf)
    moreover have "g' \<in> set out" unfolding out List.map_filter_def using gm g' by force
    ultimately show ?thesis using collapse_of_emitted [OF a(2) _ _ ga a(3)] by (simp add: p)
  qed
  ultimately show ?thesis by (auto simp: list_all_iff cf_def)
qed

end
