(* ===== verification/Fix_Types.thy ===== *)
theory Fix_Types
  imports Fix_Prelude
begin

text \<open>
  The FIX field types, as they stand in the comments of the generated enumerators, and what is asked
  of a table of enumerators: the numbers of the fields of a type, and that the numbers ascend. The
  rules walk along a literal table one entry at a time.
\<close>

datatype fix_type =
    T_int | T_Length | T_NumInGroup | T_SeqNum | T_TagNum | T_float | T_Qty | T_Price | T_PriceOffset | T_Amt
  | T_Percentage | T_char | T_Boolean | T_String | T_MultipleCharValue | T_MultipleStringValue | T_Country
  | T_Currency | T_Exchange | T_MonthYear | T_UTCTimestamp | T_UTCTimeOnly | T_UTCDateOnly | T_LocalMktDate
  | T_LocalMktTime | T_TZTimeOnly | T_TZTimestamp | T_data | T_XMLData | T_Language | T_XID | T_XIDREF

primrec type_text :: "fix_type \<Rightarrow> string" where
  "type_text T_int = ''int''"
| "type_text T_Length = ''Length''"
| "type_text T_NumInGroup = ''NumInGroup''"
| "type_text T_SeqNum = ''SeqNum''"
| "type_text T_TagNum = ''TagNum''"
| "type_text T_float = ''float''"
| "type_text T_Qty = ''Qty''"
| "type_text T_Price = ''Price''"
| "type_text T_PriceOffset = ''PriceOffset''"
| "type_text T_Amt = ''Amt''"
| "type_text T_Percentage = ''Percentage''"
| "type_text T_char = ''char''"
| "type_text T_Boolean = ''Boolean''"
| "type_text T_String = ''String''"
| "type_text T_MultipleCharValue = ''MultipleCharValue''"
| "type_text T_MultipleStringValue = ''MultipleStringValue''"
| "type_text T_Country = ''Country''"
| "type_text T_Currency = ''Currency''"
| "type_text T_Exchange = ''Exchange''"
| "type_text T_MonthYear = ''MonthYear''"
| "type_text T_UTCTimestamp = ''UTCTimestamp''"
| "type_text T_UTCTimeOnly = ''UTCTimeOnly''"
| "type_text T_UTCDateOnly = ''UTCDateOnly''"
| "type_text T_LocalMktDate = ''LocalMktDate''"
| "type_text T_LocalMktTime = ''LocalMktTime''"
| "type_text T_TZTimeOnly = ''TZTimeOnly''"
| "type_text T_TZTimestamp = ''TZTimestamp''"
| "type_text T_data = ''data''"
| "type_text T_XMLData = ''XMLData''"
| "type_text T_Language = ''Language''"
| "type_text T_XID = ''XID''"
| "type_text T_XIDREF = ''XIDREF''"

lemma type_text_Length: "type_text ty = ''Length'' \<longleftrightarrow> ty = T_Length"
  by (cases ty) simp_all

text \<open>Number, name and type of each enumerator.\<close>

type_synonym tag_table = "(int \<times> string \<times> fix_type) list"

definition of_type :: "fix_type \<Rightarrow> tag_table \<Rightarrow> int list" where
  "of_type ty table = map fst (filter (\<lambda>e. snd (snd e) = ty) table)"

lemma of_type_scan:
  "of_type ty [] = []"
  "of_type ty xs = ns \<Longrightarrow> of_type ty ((n, s, ty) # xs) = n # ns"
  "t \<noteq> ty \<Longrightarrow> of_type ty xs = ns \<Longrightarrow> of_type ty ((n, s, t) # xs) = ns"
  by (simp_all add: of_type_def)

lemma of_type_append [simp]: "of_type ty (xs @ ys) = of_type ty xs @ of_type ty ys"
  by (simp add: of_type_def)

lemma of_type_set: "n \<in> set (of_type ty table) \<longleftrightarrow> (\<exists>s. (n, s, ty) \<in> set table)"
  by (force simp: of_type_def)

text \<open>The numbers ascend from above \<open>a\<close>, up to \<open>b\<close>.\<close>

definition ascends :: "int \<Rightarrow> tag_table \<Rightarrow> int \<Rightarrow> bool" where
  "ascends a table b \<longleftrightarrow> sorted_wrt (<) (a # map fst table) \<and> last (a # map fst table) = b"

lemma ascends_scan:
  "ascends a [] a"
  "a < n \<Longrightarrow> ascends n xs b \<Longrightarrow> ascends a ((n, s, t) # xs) b"
proof -
  show "ascends a [] a" by (simp add: ascends_def)
  assume "a < n" "ascends n xs b"
  then show "ascends a ((n, s, t) # xs) b" unfolding ascends_def by (auto dest: less_trans)
qed

lemma ascends_append:
  assumes "ascends a xs b" "ascends b ys c"
  shows "ascends a (xs @ ys) c"
  using assms(1)
proof (induction xs arbitrary: a)
  case Nil
  then show ?case using assms(2) by (simp add: ascends_def)
next
  case (Cons x xs)
  obtain n s t where x: "x = (n, s, t)" by (cases x)
  from Cons.prems have "a < n" "ascends n xs b" by (auto simp: ascends_def x)
  with Cons.IH show ?case by (simp add: x ascends_scan(2))
qed

lemma ascends_distinct: "ascends a table b \<Longrightarrow> distinct (map fst table)"
  by (simp add: ascends_def strict_sorted_iff)

definition tag_name :: "int \<times> string \<times> fix_type \<Rightarrow> int \<times> string" where
  "tag_name e = (fst e, fst (snd e))"

lemma tag_name_scan:
  "map tag_name [] = []"
  "map tag_name xs = ys \<Longrightarrow> map tag_name ((n, s, t) # xs) = (n, s) # ys"
  by (simp_all add: tag_name_def)

end
