(* ===== verification/Tag_Enum_1.thy ===== *)
theory Tag_Enum_1
  imports Fix_Types
begin

text \<open>
  The enumerators of \<open>hffix::tag\<close> (\<open>src/include/hffix_fields.hpp\<close>), first quarter: number, name, and the
  type in the comment, 150 lines in each definition. Which numbers have the types Length and
  NumInGroup, and that the numbers ascend, is read off part by part.
\<close>

definition tag_enum_1 :: "tag_table" where
  "tag_enum_1 = [
    (1, ''Account'', T_String), (2, ''AdvId'', T_String), (3, ''AdvRefID'', T_String),
    (4, ''AdvSide'', T_char), (5, ''AdvTransType'', T_String), (6, ''AvgPx'', T_Price),
    (7, ''BeginSeqNo'', T_SeqNum), (8, ''BeginString'', T_String), (9, ''BodyLength'', T_Length),
    (10, ''CheckSum'', T_String), (11, ''ClOrdID'', T_String), (12, ''Commission'', T_Amt),
    (13, ''CommType'', T_char), (14, ''CumQty'', T_Qty), (15, ''Currency'', T_Currency),
    (16, ''EndSeqNo'', T_SeqNum), (17, ''ExecID'', T_String), (18, ''ExecInst'', T_MultipleCharValue),
    (19, ''ExecRefID'', T_String), (21, ''HandlInst'', T_char), (22, ''SecurityIDSource'', T_String),
    (23, ''IOIID'', T_String), (25, ''IOIQltyInd'', T_char), (26, ''IOIRefID'', T_String),
    (27, ''IOIQty'', T_String), (28, ''IOITransType'', T_char), (29, ''LastCapacity'', T_char),
    (30, ''LastMkt'', T_Exchange), (31, ''LastPx'', T_Price), (32, ''LastQty'', T_Qty),
    (33, ''NoLinesOfText'', T_NumInGroup), (34, ''MsgSeqNum'', T_SeqNum), (35, ''MsgType'', T_String),
    (36, ''NewSeqNo'', T_SeqNum), (37, ''OrderID'', T_String), (38, ''OrderQty'', T_Qty),
    (39, ''OrdStatus'', T_char), (40, ''OrdType'', T_char), (41, ''OrigClOrdID'', T_String),
    (42, ''OrigTime'', T_UTCTimestamp), (43, ''PossDupFlag'', T_Boolean), (44, ''Price'', T_Price),
    (45, ''RefSeqNum'', T_SeqNum), (48, ''SecurityID'', T_String), (49, ''SenderCompID'', T_String),
    (50, ''SenderSubID'', T_String), (52, ''SendingTime'', T_UTCTimestamp), (53, ''Quantity'', T_Qty),
    (54, ''Side'', T_char), (55, ''Symbol'', T_String), (56, ''TargetCompID'', T_String),
    (57, ''TargetSubID'', T_String), (58, ''Text'', T_String), (59, ''TimeInForce'', T_char),
    (60, ''TransactTime'', T_UTCTimestamp), (61, ''Urgency'', T_char),
    (62, ''ValidUntilTime'', T_UTCTimestamp), (63, ''SettlType'', T_String),
    (64, ''SettlDate'', T_LocalMktDate), (65, ''SymbolSfx'', T_String), (66, ''ListID'', T_String),
    (67, ''ListSeqNo'', T_int), (68, ''TotNoOrders'', T_int), (69, ''ListExecInst'', T_String),
    (70, ''AllocID'', T_String), (71, ''AllocTransType'', T_char), (72, ''RefAllocID'', T_String),
    (73, ''NoOrders'', T_NumInGroup), (74, ''AvgPxPrecision'', T_int), (75, ''TradeDate'', T_LocalMktDate),
    (77, ''PositionEffect'', T_char), (78, ''NoAllocs'', T_NumInGroup), (79, ''AllocAccount'', T_String),
    (80, ''AllocQty'', T_Qty), (81, ''ProcessCode'', T_char), (82, ''NoRpts'', T_int),
    (83, ''RptSeq'', T_int), (84, ''CxlQty'', T_Qty), (85, ''NoDlvyInst'', T_NumInGroup),
    (87, ''AllocStatus'', T_int), (88, ''AllocRejCode'', T_int), (89, ''Signature'', T_data),
    (90, ''SecureDataLen'', T_Length), (91, ''SecureData'', T_data), (93, ''SignatureLength'', T_Length),
    (94, ''EmailType'', T_char), (95, ''RawDataLength'', T_Length), (96, ''RawData'', T_data),
    (97, ''PossResend'', T_Boolean), (98, ''EncryptMethod'', T_int), (99, ''StopPx'', T_Price),
    (100, ''ExDestination'', T_Exchange), (102, ''CxlRejReason'', T_int), (103, ''OrdRejReason'', T_int),
    (104, ''IOIQualifier'', T_char), (106, ''Issuer'', T_String), (107, ''SecurityDesc'', T_String),
    (108, ''HeartBtInt'', T_int), (110, ''MinQty'', T_Qty), (111, ''MaxFloor'', T_Qty),
    (112, ''TestReqID'', T_String), (113, ''ReportToExch'', T_Boolean), (114, ''LocateReqd'', T_Boolean),
    (115, ''OnBehalfOfCompID'', T_String), (116, ''OnBehalfOfSubID'', T_String),
    (117, ''QuoteID'', T_String), (118, ''NetMoney'', T_Amt), (119, ''SettlCurrAmt'', T_Amt),
    (120, ''SettlCurrency'', T_Currency), (121, ''ForexReq'', T_Boolean),
    (122, ''OrigSendingTime'', T_UTCTimestamp), (123, ''GapFillFlag'', T_Boolean),
    (124, ''NoExecs'', T_NumInGroup), (126, ''ExpireTime'', T_UTCTimestamp), (127, ''DKReason'', T_char),
    (128, ''DeliverToCompID'', T_String), (129, ''DeliverToSubID'', T_String),
    (130, ''IOINaturalFlag'', T_Boolean), (131, ''QuoteReqID'', T_String), (132, ''BidPx'', T_Price),
    (133, ''OfferPx'', T_Price), (134, ''BidSize'', T_Qty), (135, ''OfferSize'', T_Qty),
    (136, ''NoMiscFees'', T_NumInGroup), (137, ''MiscFeeAmt'', T_Amt), (138, ''MiscFeeCurr'', T_Currency),
    (139, ''MiscFeeType'', T_String), (140, ''PrevClosePx'', T_Price), (141, ''ResetSeqNumFlag'', T_Boolean),
    (142, ''SenderLocationID'', T_String), (143, ''TargetLocationID'', T_String),
    (144, ''OnBehalfOfLocationID'', T_String), (145, ''DeliverToLocationID'', T_String),
    (146, ''NoRelatedSym'', T_NumInGroup), (147, ''Subject'', T_String), (148, ''Headline'', T_String),
    (149, ''URLLink'', T_String), (150, ''ExecType'', T_char), (151, ''LeavesQty'', T_Qty),
    (152, ''CashOrderQty'', T_Qty), (153, ''AllocAvgPx'', T_Price), (154, ''AllocNetMoney'', T_Amt),
    (155, ''SettlCurrFxRate'', T_float), (156, ''SettlCurrFxRateCalc'', T_char),
    (157, ''NumDaysInterest'', T_int), (158, ''AccruedInterestRate'', T_Percentage),
    (159, ''AccruedInterestAmt'', T_Amt), (160, ''SettlInstMode'', T_char), (161, ''AllocText'', T_String),
    (162, ''SettlInstID'', T_String)]"

definition tag_enum_2 :: "tag_table" where
  "tag_enum_2 = [
    (163, ''SettlInstTransType'', T_char), (164, ''EmailThreadID'', T_String),
    (165, ''SettlInstSource'', T_char), (167, ''SecurityType'', T_String),
    (168, ''EffectiveTime'', T_UTCTimestamp), (169, ''StandInstDbType'', T_int),
    (170, ''StandInstDbName'', T_String), (171, ''StandInstDbID'', T_String),
    (172, ''SettlDeliveryType'', T_int), (188, ''BidSpotRate'', T_Price),
    (189, ''BidForwardPoints'', T_PriceOffset), (190, ''OfferSpotRate'', T_Price),
    (191, ''OfferForwardPoints'', T_PriceOffset), (192, ''OrderQty2'', T_Qty),
    (193, ''SettlDate2'', T_LocalMktDate), (194, ''LastSpotRate'', T_Price),
    (195, ''LastForwardPoints'', T_PriceOffset), (196, ''AllocLinkID'', T_String),
    (197, ''AllocLinkType'', T_int), (198, ''SecondaryOrderID'', T_String),
    (199, ''NoIOIQualifiers'', T_NumInGroup), (200, ''MaturityMonthYear'', T_MonthYear),
    (201, ''PutOrCall'', T_int), (202, ''StrikePrice'', T_Price), (203, ''CoveredOrUncovered'', T_int),
    (206, ''OptAttribute'', T_char), (207, ''SecurityExchange'', T_Exchange),
    (208, ''NotifyBrokerOfCredit'', T_Boolean), (209, ''AllocHandlInst'', T_int), (210, ''MaxShow'', T_Qty),
    (211, ''PegOffsetValue'', T_float), (212, ''XmlDataLen'', T_Length), (213, ''XmlData'', T_XMLData),
    (214, ''SettlInstRefID'', T_String), (215, ''NoRoutingIDs'', T_NumInGroup),
    (216, ''RoutingType'', T_int), (217, ''RoutingID'', T_String), (218, ''Spread'', T_PriceOffset),
    (220, ''BenchmarkCurveCurrency'', T_Currency), (221, ''BenchmarkCurveName'', T_String),
    (222, ''BenchmarkCurvePoint'', T_String), (223, ''CouponRate'', T_Percentage),
    (224, ''CouponPaymentDate'', T_LocalMktDate), (225, ''IssueDate'', T_LocalMktDate),
    (226, ''RepurchaseTerm'', T_int), (227, ''RepurchaseRate'', T_Percentage), (228, ''Factor'', T_float),
    (229, ''TradeOriginationDate'', T_LocalMktDate), (230, ''ExDate'', T_LocalMktDate),
    (231, ''ContractMultiplier'', T_float), (232, ''NoStipulations'', T_NumInGroup),
    (233, ''StipulationType'', T_String), (234, ''StipulationValue'', T_String),
    (235, ''YieldType'', T_String), (236, ''Yield'', T_Percentage), (237, ''TotalTakedown'', T_Amt),
    (238, ''Concession'', T_Amt), (239, ''RepoCollateralSecurityType'', T_String),
    (240, ''RedemptionDate'', T_LocalMktDate), (241, ''UnderlyingCouponPaymentDate'', T_LocalMktDate),
    (242, ''UnderlyingIssueDate'', T_LocalMktDate),
    (243, ''UnderlyingRepoCollateralSecurityType'', T_String), (244, ''UnderlyingRepurchaseTerm'', T_int),
    (245, ''UnderlyingRepurchaseRate'', T_Percentage), (246, ''UnderlyingFactor'', T_float),
    (247, ''UnderlyingRedemptionDate'', T_LocalMktDate), (248, ''LegCouponPaymentDate'', T_LocalMktDate),
    (249, ''LegIssueDate'', T_LocalMktDate), (250, ''LegRepoCollateralSecurityType'', T_String),
    (251, ''LegRepurchaseTerm'', T_int), (252, ''LegRepurchaseRate'', T_Percentage),
    (253, ''LegFactor'', T_float), (254, ''LegRedemptionDate'', T_LocalMktDate),
    (255, ''CreditRating'', T_String), (256, ''UnderlyingCreditRating'', T_String),
    (257, ''LegCreditRating'', T_String), (258, ''TradedFlatSwitch'', T_Boolean),
    (259, ''BasisFeatureDate'', T_LocalMktDate), (260, ''BasisFeaturePrice'', T_Price),
    (262, ''MDReqID'', T_String), (263, ''SubscriptionRequestType'', T_char), (264, ''MarketDepth'', T_int),
    (265, ''MDUpdateType'', T_int), (266, ''AggregatedBook'', T_Boolean),
    (267, ''NoMDEntryTypes'', T_NumInGroup), (268, ''NoMDEntries'', T_NumInGroup),
    (269, ''MDEntryType'', T_char), (270, ''MDEntryPx'', T_Price), (271, ''MDEntrySize'', T_Qty),
    (272, ''MDEntryDate'', T_UTCDateOnly), (273, ''MDEntryTime'', T_UTCTimeOnly),
    (274, ''TickDirection'', T_char), (275, ''MDMkt'', T_Exchange),
    (276, ''QuoteCondition'', T_MultipleStringValue), (277, ''TradeCondition'', T_MultipleStringValue),
    (278, ''MDEntryID'', T_String), (279, ''MDUpdateAction'', T_char), (280, ''MDEntryRefID'', T_String),
    (281, ''MDReqRejReason'', T_char), (282, ''MDEntryOriginator'', T_String),
    (283, ''LocationID'', T_String), (284, ''DeskID'', T_String), (285, ''DeleteReason'', T_char),
    (286, ''OpenCloseSettlFlag'', T_MultipleCharValue), (287, ''SellerDays'', T_int),
    (288, ''MDEntryBuyer'', T_String), (289, ''MDEntrySeller'', T_String),
    (290, ''MDEntryPositionNo'', T_int), (291, ''FinancialStatus'', T_MultipleCharValue),
    (292, ''CorporateAction'', T_MultipleCharValue), (293, ''DefBidSize'', T_Qty),
    (294, ''DefOfferSize'', T_Qty), (295, ''NoQuoteEntries'', T_NumInGroup),
    (296, ''NoQuoteSets'', T_NumInGroup), (297, ''QuoteStatus'', T_int), (298, ''QuoteCancelType'', T_int),
    (299, ''QuoteEntryID'', T_String), (300, ''QuoteRejectReason'', T_int),
    (301, ''QuoteResponseLevel'', T_int), (302, ''QuoteSetID'', T_String),
    (303, ''QuoteRequestType'', T_int), (304, ''TotNoQuoteEntries'', T_int),
    (305, ''UnderlyingSecurityIDSource'', T_String), (306, ''UnderlyingIssuer'', T_String),
    (307, ''UnderlyingSecurityDesc'', T_String), (308, ''UnderlyingSecurityExchange'', T_Exchange),
    (309, ''UnderlyingSecurityID'', T_String), (310, ''UnderlyingSecurityType'', T_String),
    (311, ''UnderlyingSymbol'', T_String), (312, ''UnderlyingSymbolSfx'', T_String),
    (313, ''UnderlyingMaturityMonthYear'', T_MonthYear), (315, ''UnderlyingPutOrCall'', T_int),
    (316, ''UnderlyingStrikePrice'', T_Price), (317, ''UnderlyingOptAttribute'', T_char),
    (318, ''UnderlyingCurrency'', T_Currency), (320, ''SecurityReqID'', T_String),
    (321, ''SecurityRequestType'', T_int), (322, ''SecurityResponseID'', T_String),
    (323, ''SecurityResponseType'', T_int), (324, ''SecurityStatusReqID'', T_String),
    (325, ''UnsolicitedIndicator'', T_Boolean), (326, ''SecurityTradingStatus'', T_int),
    (327, ''HaltReasonInt'', T_int), (328, ''InViewOfCommon'', T_Boolean),
    (329, ''DueToRelated'', T_Boolean), (330, ''BuyVolume'', T_Qty), (331, ''SellVolume'', T_Qty),
    (332, ''HighPx'', T_Price), (333, ''LowPx'', T_Price), (334, ''Adjustment'', T_int)]"

definition tag_enum_3 :: "tag_table" where
  "tag_enum_3 = [
    (335, ''TradSesReqID'', T_String), (336, ''TradingSessionID'', T_String),
    (337, ''ContraTrader'', T_String), (338, ''TradSesMethod'', T_int), (339, ''TradSesMode'', T_int),
    (340, ''TradSesStatus'', T_int), (341, ''TradSesStartTime'', T_UTCTimestamp),
    (342, ''TradSesOpenTime'', T_UTCTimestamp), (343, ''TradSesPreCloseTime'', T_UTCTimestamp),
    (344, ''TradSesCloseTime'', T_UTCTimestamp), (345, ''TradSesEndTime'', T_UTCTimestamp),
    (346, ''NumberOfOrders'', T_int), (347, ''MessageEncoding'', T_String),
    (348, ''EncodedIssuerLen'', T_Length), (349, ''EncodedIssuer'', T_data),
    (350, ''EncodedSecurityDescLen'', T_Length), (351, ''EncodedSecurityDesc'', T_data),
    (352, ''EncodedListExecInstLen'', T_Length), (353, ''EncodedListExecInst'', T_data),
    (354, ''EncodedTextLen'', T_Length), (355, ''EncodedText'', T_data),
    (356, ''EncodedSubjectLen'', T_Length), (357, ''EncodedSubject'', T_data),
    (358, ''EncodedHeadlineLen'', T_Length), (359, ''EncodedHeadline'', T_data),
    (360, ''EncodedAllocTextLen'', T_Length), (361, ''EncodedAllocText'', T_data),
    (362, ''EncodedUnderlyingIssuerLen'', T_Length), (363, ''EncodedUnderlyingIssuer'', T_data),
    (364, ''EncodedUnderlyingSecurityDescLen'', T_Length), (365, ''EncodedUnderlyingSecurityDesc'', T_data),
    (366, ''AllocPrice'', T_Price), (367, ''QuoteSetValidUntilTime'', T_UTCTimestamp),
    (368, ''QuoteEntryRejectReason'', T_int), (369, ''LastMsgSeqNumProcessed'', T_SeqNum),
    (371, ''RefTagID'', T_int), (372, ''RefMsgType'', T_String), (373, ''SessionRejectReason'', T_int),
    (374, ''BidRequestTransType'', T_char), (375, ''ContraBroker'', T_String),
    (376, ''ComplianceID'', T_String), (377, ''SolicitedFlag'', T_Boolean),
    (378, ''ExecRestatementReason'', T_int), (379, ''BusinessRejectRefID'', T_String),
    (380, ''BusinessRejectReason'', T_int), (381, ''GrossTradeAmt'', T_Amt),
    (382, ''NoContraBrokers'', T_NumInGroup), (383, ''MaxMessageSize'', T_Length),
    (384, ''NoMsgTypes'', T_NumInGroup), (385, ''MsgDirection'', T_char),
    (386, ''NoTradingSessions'', T_NumInGroup), (387, ''TotalVolumeTraded'', T_Qty),
    (388, ''DiscretionInst'', T_char), (389, ''DiscretionOffsetValue'', T_float), (390, ''BidID'', T_String),
    (391, ''ClientBidID'', T_String), (392, ''ListName'', T_String), (393, ''TotNoRelatedSym'', T_int),
    (394, ''BidType'', T_int), (395, ''NumTickets'', T_int), (396, ''SideValue1'', T_Amt),
    (397, ''SideValue2'', T_Amt), (398, ''NoBidDescriptors'', T_NumInGroup),
    (399, ''BidDescriptorType'', T_int), (400, ''BidDescriptor'', T_String), (401, ''SideValueInd'', T_int),
    (402, ''LiquidityPctLow'', T_Percentage), (403, ''LiquidityPctHigh'', T_Percentage),
    (404, ''LiquidityValue'', T_Amt), (405, ''EFPTrackingError'', T_Percentage), (406, ''FairValue'', T_Amt),
    (407, ''OutsideIndexPct'', T_Percentage), (408, ''ValueOfFutures'', T_Amt),
    (409, ''LiquidityIndType'', T_int), (410, ''WtAverageLiquidity'', T_Percentage),
    (411, ''ExchangeForPhysical'', T_Boolean), (412, ''OutMainCntryUIndex'', T_Amt),
    (413, ''CrossPercent'', T_Percentage), (414, ''ProgRptReqs'', T_int),
    (415, ''ProgPeriodInterval'', T_int), (416, ''IncTaxInd'', T_int), (417, ''NumBidders'', T_int),
    (418, ''BidTradeType'', T_char), (419, ''BasisPxType'', T_char),
    (420, ''NoBidComponents'', T_NumInGroup), (421, ''Country'', T_Country), (422, ''TotNoStrikes'', T_int),
    (423, ''PriceType'', T_int), (424, ''DayOrderQty'', T_Qty), (425, ''DayCumQty'', T_Qty),
    (426, ''DayAvgPx'', T_Price), (427, ''GTBookingInst'', T_int), (428, ''NoStrikes'', T_NumInGroup),
    (429, ''ListStatusType'', T_int), (430, ''NetGrossInd'', T_int), (431, ''ListOrderStatus'', T_int),
    (432, ''ExpireDate'', T_LocalMktDate), (433, ''ListExecInstType'', T_char),
    (434, ''CxlRejResponseTo'', T_char), (435, ''UnderlyingCouponRate'', T_Percentage),
    (436, ''UnderlyingContractMultiplier'', T_float), (437, ''ContraTradeQty'', T_Qty),
    (438, ''ContraTradeTime'', T_UTCTimestamp), (441, ''LiquidityNumSecurities'', T_int),
    (442, ''MultiLegReportingType'', T_char), (443, ''StrikeTime'', T_UTCTimestamp),
    (444, ''ListStatusText'', T_String), (445, ''EncodedListStatusTextLen'', T_Length),
    (446, ''EncodedListStatusText'', T_data), (447, ''PartyIDSource'', T_char), (448, ''PartyID'', T_String),
    (451, ''NetChgPrevDay'', T_PriceOffset), (452, ''PartyRole'', T_int),
    (453, ''NoPartyIDs'', T_NumInGroup), (454, ''NoSecurityAltID'', T_NumInGroup),
    (455, ''SecurityAltID'', T_String), (456, ''SecurityAltIDSource'', T_String),
    (457, ''NoUnderlyingSecurityAltID'', T_NumInGroup), (458, ''UnderlyingSecurityAltID'', T_String),
    (459, ''UnderlyingSecurityAltIDSource'', T_String), (460, ''Product'', T_int),
    (461, ''CFICode'', T_String), (462, ''UnderlyingProduct'', T_int),
    (463, ''UnderlyingCFICode'', T_String), (464, ''TestMessageIndicator'', T_Boolean),
    (466, ''BookingRefID'', T_String), (467, ''IndividualAllocID'', T_String),
    (468, ''RoundingDirection'', T_char), (469, ''RoundingModulus'', T_float),
    (470, ''CountryOfIssue'', T_Country), (471, ''StateOrProvinceOfIssue'', T_String),
    (472, ''LocaleOfIssue'', T_String), (473, ''NoRegistDtls'', T_NumInGroup),
    (474, ''MailingDtls'', T_String), (475, ''InvestorCountryOfResidence'', T_Country),
    (476, ''PaymentRef'', T_String), (477, ''DistribPaymentMethod'', T_int),
    (478, ''CashDistribCurr'', T_Currency), (479, ''CommCurrency'', T_Currency),
    (480, ''CancellationRights'', T_char), (481, ''MoneyLaunderingStatus'', T_char),
    (482, ''MailingInst'', T_String), (483, ''TransBkdTime'', T_UTCTimestamp),
    (484, ''ExecPriceType'', T_char), (485, ''ExecPriceAdjustment'', T_float),
    (486, ''DateOfBirth'', T_LocalMktDate), (487, ''TradeReportTransType'', T_int),
    (488, ''CardHolderName'', T_String), (489, ''CardNumber'', T_String),
    (490, ''CardExpDate'', T_LocalMktDate)]"

definition tag_enum_4 :: "tag_table" where
  "tag_enum_4 = [
    (491, ''CardIssNum'', T_String), (492, ''PaymentMethod'', T_int), (493, ''RegistAcctType'', T_String),
    (494, ''Designation'', T_String), (495, ''TaxAdvantageType'', T_int),
    (496, ''RegistRejReasonText'', T_String), (497, ''FundRenewWaiv'', T_char),
    (498, ''CashDistribAgentName'', T_String), (499, ''CashDistribAgentCode'', T_String),
    (500, ''CashDistribAgentAcctNumber'', T_String), (501, ''CashDistribPayRef'', T_String),
    (502, ''CashDistribAgentAcctName'', T_String), (503, ''CardStartDate'', T_LocalMktDate),
    (504, ''PaymentDate'', T_LocalMktDate), (505, ''PaymentRemitterID'', T_String),
    (506, ''RegistStatus'', T_char), (507, ''RegistRejReasonCode'', T_int), (508, ''RegistRefID'', T_String),
    (509, ''RegistDtls'', T_String), (510, ''NoDistribInsts'', T_NumInGroup),
    (511, ''RegistEmail'', T_String), (512, ''DistribPercentage'', T_Percentage),
    (513, ''RegistID'', T_String), (514, ''RegistTransType'', T_char),
    (515, ''ExecValuationPoint'', T_UTCTimestamp), (516, ''OrderPercent'', T_Percentage),
    (517, ''OwnershipType'', T_char), (518, ''NoContAmts'', T_NumInGroup), (519, ''ContAmtType'', T_int),
    (520, ''ContAmtValue'', T_float), (521, ''ContAmtCurr'', T_Currency), (522, ''OwnerType'', T_int),
    (523, ''PartySubID'', T_String), (524, ''NestedPartyID'', T_String),
    (525, ''NestedPartyIDSource'', T_char), (526, ''SecondaryClOrdID'', T_String),
    (527, ''SecondaryExecID'', T_String), (528, ''OrderCapacity'', T_char),
    (529, ''OrderRestrictions'', T_MultipleCharValue), (530, ''MassCancelRequestType'', T_char),
    (531, ''MassCancelResponse'', T_char), (532, ''MassCancelRejectReason'', T_int),
    (533, ''TotalAffectedOrders'', T_int), (534, ''NoAffectedOrders'', T_NumInGroup),
    (535, ''AffectedOrderID'', T_String), (536, ''AffectedSecondaryOrderID'', T_String),
    (537, ''QuoteType'', T_int), (538, ''NestedPartyRole'', T_int),
    (539, ''NoNestedPartyIDs'', T_NumInGroup), (540, ''TotalAccruedInterestAmt'', T_Amt),
    (541, ''MaturityDate'', T_LocalMktDate), (542, ''UnderlyingMaturityDate'', T_LocalMktDate),
    (543, ''InstrRegistry'', T_String), (544, ''CashMargin'', T_char), (545, ''NestedPartySubID'', T_String),
    (546, ''Scope'', T_MultipleCharValue), (547, ''MDImplicitDelete'', T_Boolean),
    (548, ''CrossID'', T_String), (549, ''CrossType'', T_int), (550, ''CrossPrioritization'', T_int),
    (551, ''OrigCrossID'', T_String), (552, ''NoSides'', T_NumInGroup), (553, ''Username'', T_String),
    (554, ''Password'', T_String), (555, ''NoLegs'', T_NumInGroup), (556, ''LegCurrency'', T_Currency),
    (557, ''TotNoSecurityTypes'', T_int), (558, ''NoSecurityTypes'', T_NumInGroup),
    (559, ''SecurityListRequestType'', T_int), (560, ''SecurityRequestResult'', T_int),
    (561, ''RoundLot'', T_Qty), (562, ''MinTradeVol'', T_Qty), (563, ''MultiLegRptTypeReq'', T_int),
    (564, ''LegPositionEffect'', T_char), (565, ''LegCoveredOrUncovered'', T_int),
    (566, ''LegPrice'', T_Price), (567, ''TradSesStatusRejReason'', T_int),
    (568, ''TradeRequestID'', T_String), (569, ''TradeRequestType'', T_int),
    (570, ''PreviouslyReported'', T_Boolean), (571, ''TradeReportID'', T_String),
    (572, ''TradeReportRefID'', T_String), (573, ''MatchStatus'', T_char), (574, ''MatchType'', T_String),
    (575, ''OddLot'', T_Boolean), (576, ''NoClearingInstructions'', T_NumInGroup),
    (577, ''ClearingInstruction'', T_int), (578, ''TradeInputSource'', T_String),
    (579, ''TradeInputDevice'', T_String), (580, ''NoDates'', T_NumInGroup), (581, ''AccountType'', T_int),
    (582, ''CustOrderCapacity'', T_int), (583, ''ClOrdLinkID'', T_String),
    (584, ''MassStatusReqID'', T_String), (585, ''MassStatusReqType'', T_int),
    (586, ''OrigOrdModTime'', T_UTCTimestamp), (587, ''LegSettlType'', T_String),
    (588, ''LegSettlDate'', T_LocalMktDate), (589, ''DayBookingInst'', T_char),
    (590, ''BookingUnit'', T_char), (591, ''PreallocMethod'', T_char),
    (592, ''UnderlyingCountryOfIssue'', T_Country), (593, ''UnderlyingStateOrProvinceOfIssue'', T_String),
    (594, ''UnderlyingLocaleOfIssue'', T_String), (595, ''UnderlyingInstrRegistry'', T_String),
    (596, ''LegCountryOfIssue'', T_Country), (597, ''LegStateOrProvinceOfIssue'', T_String),
    (598, ''LegLocaleOfIssue'', T_String), (599, ''LegInstrRegistry'', T_String),
    (600, ''LegSymbol'', T_String), (601, ''LegSymbolSfx'', T_String), (602, ''LegSecurityID'', T_String),
    (603, ''LegSecurityIDSource'', T_String), (604, ''NoLegSecurityAltID'', T_NumInGroup),
    (605, ''LegSecurityAltID'', T_String), (606, ''LegSecurityAltIDSource'', T_String),
    (607, ''LegProduct'', T_int), (608, ''LegCFICode'', T_String), (609, ''LegSecurityType'', T_String),
    (610, ''LegMaturityMonthYear'', T_MonthYear), (611, ''LegMaturityDate'', T_LocalMktDate),
    (612, ''LegStrikePrice'', T_Price), (613, ''LegOptAttribute'', T_char),
    (614, ''LegContractMultiplier'', T_float), (615, ''LegCouponRate'', T_Percentage),
    (616, ''LegSecurityExchange'', T_Exchange), (617, ''LegIssuer'', T_String),
    (618, ''EncodedLegIssuerLen'', T_Length), (619, ''EncodedLegIssuer'', T_data),
    (620, ''LegSecurityDesc'', T_String), (621, ''EncodedLegSecurityDescLen'', T_Length),
    (622, ''EncodedLegSecurityDesc'', T_data), (623, ''LegRatioQty'', T_float), (624, ''LegSide'', T_char),
    (625, ''TradingSessionSubID'', T_String), (626, ''AllocType'', T_int), (627, ''NoHops'', T_NumInGroup),
    (628, ''HopCompID'', T_String), (629, ''HopSendingTime'', T_UTCTimestamp), (630, ''HopRefID'', T_SeqNum),
    (631, ''MidPx'', T_Price), (632, ''BidYield'', T_Percentage), (633, ''MidYield'', T_Percentage),
    (634, ''OfferYield'', T_Percentage), (635, ''ClearingFeeIndicator'', T_String),
    (636, ''WorkingIndicator'', T_Boolean), (637, ''LegLastPx'', T_Price),
    (638, ''PriorityIndicator'', T_int), (639, ''PriceImprovement'', T_PriceOffset),
    (640, ''Price2'', T_Price)]"

definition tag_enum_5 :: "tag_table" where
  "tag_enum_5 = [
    (641, ''LastForwardPoints2'', T_PriceOffset), (642, ''BidForwardPoints2'', T_PriceOffset),
    (643, ''OfferForwardPoints2'', T_PriceOffset), (644, ''RFQReqID'', T_String),
    (645, ''MktBidPx'', T_Price), (646, ''MktOfferPx'', T_Price), (647, ''MinBidSize'', T_Qty),
    (648, ''MinOfferSize'', T_Qty), (649, ''QuoteStatusReqID'', T_String),
    (650, ''LegalConfirm'', T_Boolean), (651, ''UnderlyingLastPx'', T_Price),
    (652, ''UnderlyingLastQty'', T_Qty), (654, ''LegRefID'', T_String), (655, ''ContraLegRefID'', T_String),
    (656, ''SettlCurrBidFxRate'', T_float), (657, ''SettlCurrOfferFxRate'', T_float),
    (658, ''QuoteRequestRejectReason'', T_int), (659, ''SideComplianceID'', T_String),
    (660, ''AcctIDSource'', T_int), (661, ''AllocAcctIDSource'', T_int), (662, ''BenchmarkPrice'', T_Price),
    (663, ''BenchmarkPriceType'', T_int), (664, ''ConfirmID'', T_String), (665, ''ConfirmStatus'', T_int),
    (666, ''ConfirmTransType'', T_int), (667, ''ContractSettlMonth'', T_MonthYear),
    (668, ''DeliveryForm'', T_int), (669, ''LastParPx'', T_Price), (670, ''NoLegAllocs'', T_NumInGroup),
    (671, ''LegAllocAccount'', T_String), (672, ''LegIndividualAllocID'', T_String),
    (673, ''LegAllocQty'', T_Qty), (674, ''LegAllocAcctIDSource'', T_int),
    (675, ''LegSettlCurrency'', T_Currency), (676, ''LegBenchmarkCurveCurrency'', T_Currency),
    (677, ''LegBenchmarkCurveName'', T_String), (678, ''LegBenchmarkCurvePoint'', T_String),
    (679, ''LegBenchmarkPrice'', T_Price), (680, ''LegBenchmarkPriceType'', T_int),
    (681, ''LegBidPx'', T_Price), (682, ''LegIOIQty'', T_String), (683, ''NoLegStipulations'', T_NumInGroup),
    (684, ''LegOfferPx'', T_Price), (685, ''LegOrderQty'', T_Qty), (686, ''LegPriceType'', T_int),
    (687, ''LegQty'', T_Qty), (688, ''LegStipulationType'', T_String),
    (689, ''LegStipulationValue'', T_String), (690, ''LegSwapType'', T_int), (691, ''Pool'', T_String),
    (692, ''QuotePriceType'', T_int), (693, ''QuoteRespID'', T_String), (694, ''QuoteRespType'', T_int),
    (695, ''QuoteQualifier'', T_char), (696, ''YieldRedemptionDate'', T_LocalMktDate),
    (697, ''YieldRedemptionPrice'', T_Price), (698, ''YieldRedemptionPriceType'', T_int),
    (699, ''BenchmarkSecurityID'', T_String), (700, ''ReversalIndicator'', T_Boolean),
    (701, ''YieldCalcDate'', T_LocalMktDate), (702, ''NoPositions'', T_NumInGroup),
    (703, ''PosType'', T_String), (704, ''LongQty'', T_Qty), (705, ''ShortQty'', T_Qty),
    (706, ''PosQtyStatus'', T_int), (707, ''PosAmtType'', T_String), (708, ''PosAmt'', T_Amt),
    (709, ''PosTransType'', T_int), (710, ''PosReqID'', T_String), (711, ''NoUnderlyings'', T_NumInGroup),
    (712, ''PosMaintAction'', T_int), (713, ''OrigPosReqRefID'', T_String),
    (714, ''PosMaintRptRefID'', T_String), (715, ''ClearingBusinessDate'', T_LocalMktDate),
    (716, ''SettlSessID'', T_String), (717, ''SettlSessSubID'', T_String), (718, ''AdjustmentType'', T_int),
    (719, ''ContraryInstructionIndicator'', T_Boolean), (720, ''PriorSpreadIndicator'', T_Boolean),
    (721, ''PosMaintRptID'', T_String), (722, ''PosMaintStatus'', T_int), (723, ''PosMaintResult'', T_int),
    (724, ''PosReqType'', T_int), (725, ''ResponseTransportType'', T_int),
    (726, ''ResponseDestination'', T_String), (727, ''TotalNumPosReports'', T_int),
    (728, ''PosReqResult'', T_int), (729, ''PosReqStatus'', T_int), (730, ''SettlPrice'', T_Price),
    (731, ''SettlPriceType'', T_int), (732, ''UnderlyingSettlPrice'', T_Price),
    (733, ''UnderlyingSettlPriceType'', T_int), (734, ''PriorSettlPrice'', T_Price),
    (735, ''NoQuoteQualifiers'', T_NumInGroup), (736, ''AllocSettlCurrency'', T_Currency),
    (737, ''AllocSettlCurrAmt'', T_Amt), (738, ''InterestAtMaturity'', T_Amt),
    (739, ''LegDatedDate'', T_LocalMktDate), (740, ''LegPool'', T_String),
    (741, ''AllocInterestAtMaturity'', T_Amt), (742, ''AllocAccruedInterestAmt'', T_Amt),
    (743, ''DeliveryDate'', T_LocalMktDate), (744, ''AssignmentMethod'', T_char),
    (745, ''AssignmentUnit'', T_Qty), (746, ''OpenInterest'', T_Amt), (747, ''ExerciseMethod'', T_char),
    (748, ''TotNumTradeReports'', T_int), (749, ''TradeRequestResult'', T_int),
    (750, ''TradeRequestStatus'', T_int), (751, ''TradeReportRejectReason'', T_int),
    (752, ''SideMultiLegReportingType'', T_int), (753, ''NoPosAmt'', T_NumInGroup),
    (754, ''AutoAcceptIndicator'', T_Boolean), (755, ''AllocReportID'', T_String),
    (756, ''NoNested2PartyIDs'', T_NumInGroup), (757, ''Nested2PartyID'', T_String),
    (758, ''Nested2PartyIDSource'', T_char), (759, ''Nested2PartyRole'', T_int),
    (760, ''Nested2PartySubID'', T_String), (761, ''BenchmarkSecurityIDSource'', T_String),
    (762, ''SecuritySubType'', T_String), (763, ''UnderlyingSecuritySubType'', T_String),
    (764, ''LegSecuritySubType'', T_String), (765, ''AllowableOneSidednessPct'', T_Percentage),
    (766, ''AllowableOneSidednessValue'', T_Amt), (767, ''AllowableOneSidednessCurr'', T_Currency),
    (768, ''NoTrdRegTimestamps'', T_NumInGroup), (769, ''TrdRegTimestamp'', T_UTCTimestamp),
    (770, ''TrdRegTimestampType'', T_int), (771, ''TrdRegTimestampOrigin'', T_String),
    (772, ''ConfirmRefID'', T_String), (773, ''ConfirmType'', T_int), (774, ''ConfirmRejReason'', T_int),
    (775, ''BookingType'', T_int), (776, ''IndividualAllocRejCode'', T_int),
    (777, ''SettlInstMsgID'', T_String), (778, ''NoSettlInst'', T_NumInGroup),
    (779, ''LastUpdateTime'', T_UTCTimestamp), (780, ''AllocSettlInstType'', T_int),
    (781, ''NoSettlPartyIDs'', T_NumInGroup), (782, ''SettlPartyID'', T_String),
    (783, ''SettlPartyIDSource'', T_char), (784, ''SettlPartyRole'', T_int),
    (785, ''SettlPartySubID'', T_String), (786, ''SettlPartySubIDType'', T_int),
    (787, ''DlvyInstType'', T_char), (788, ''TerminationType'', T_int),
    (789, ''NextExpectedMsgSeqNum'', T_SeqNum), (790, ''OrdStatusReqID'', T_String),
    (791, ''SettlInstReqID'', T_String)]"

definition tag_enum_6 :: "tag_table" where
  "tag_enum_6 = [
    (792, ''SettlInstReqRejCode'', T_int), (793, ''SecondaryAllocID'', T_String),
    (794, ''AllocReportType'', T_int), (795, ''AllocReportRefID'', T_String),
    (796, ''AllocCancReplaceReason'', T_int), (797, ''CopyMsgIndicator'', T_Boolean),
    (798, ''AllocAccountType'', T_int), (799, ''OrderAvgPx'', T_Price), (800, ''OrderBookingQty'', T_Qty),
    (801, ''NoSettlPartySubIDs'', T_NumInGroup), (802, ''NoPartySubIDs'', T_NumInGroup),
    (803, ''PartySubIDType'', T_int), (804, ''NoNestedPartySubIDs'', T_NumInGroup),
    (805, ''NestedPartySubIDType'', T_int), (806, ''NoNested2PartySubIDs'', T_NumInGroup),
    (807, ''Nested2PartySubIDType'', T_int), (808, ''AllocIntermedReqType'', T_int),
    (809, ''NoUsernames'', T_NumInGroup), (810, ''UnderlyingPx'', T_Price), (811, ''PriceDelta'', T_float),
    (812, ''ApplQueueMax'', T_int), (813, ''ApplQueueDepth'', T_int), (814, ''ApplQueueResolution'', T_int),
    (815, ''ApplQueueAction'', T_int), (816, ''NoAltMDSource'', T_NumInGroup),
    (817, ''AltMDSourceID'', T_String), (818, ''SecondaryTradeReportID'', T_String),
    (819, ''AvgPxIndicator'', T_int), (820, ''TradeLinkID'', T_String),
    (821, ''OrderInputDevice'', T_String), (822, ''UnderlyingTradingSessionID'', T_String),
    (823, ''UnderlyingTradingSessionSubID'', T_String), (824, ''TradeLegRefID'', T_String),
    (825, ''ExchangeRule'', T_String), (826, ''TradeAllocIndicator'', T_int),
    (827, ''ExpirationCycle'', T_int), (828, ''TrdType'', T_int), (829, ''TrdSubType'', T_int),
    (830, ''TransferReason'', T_String), (832, ''TotNumAssignmentReports'', T_int),
    (833, ''AsgnRptID'', T_String), (834, ''ThresholdAmount'', T_PriceOffset), (835, ''PegMoveType'', T_int),
    (836, ''PegOffsetType'', T_int), (837, ''PegLimitType'', T_int), (838, ''PegRoundDirection'', T_int),
    (839, ''PeggedPrice'', T_Price), (840, ''PegScope'', T_int), (841, ''DiscretionMoveType'', T_int),
    (842, ''DiscretionOffsetType'', T_int), (843, ''DiscretionLimitType'', T_int),
    (844, ''DiscretionRoundDirection'', T_int), (845, ''DiscretionPrice'', T_Price),
    (846, ''DiscretionScope'', T_int), (847, ''TargetStrategy'', T_int),
    (848, ''TargetStrategyParameters'', T_String), (849, ''ParticipationRate'', T_Percentage),
    (850, ''TargetStrategyPerformance'', T_float), (851, ''LastLiquidityInd'', T_int),
    (852, ''PublishTrdIndicator'', T_Boolean), (853, ''ShortSaleReason'', T_int), (854, ''QtyType'', T_int),
    (855, ''SecondaryTrdType'', T_int), (856, ''TradeReportType'', T_int),
    (857, ''AllocNoOrdersType'', T_int), (858, ''SharedCommission'', T_Amt),
    (859, ''ConfirmReqID'', T_String), (860, ''AvgParPx'', T_Price), (861, ''ReportedPx'', T_Price),
    (862, ''NoCapacities'', T_NumInGroup), (863, ''OrderCapacityQty'', T_Qty),
    (864, ''NoEvents'', T_NumInGroup), (865, ''EventType'', T_int), (866, ''EventDate'', T_LocalMktDate),
    (867, ''EventPx'', T_Price), (868, ''EventText'', T_String), (869, ''PctAtRisk'', T_Percentage),
    (870, ''NoInstrAttrib'', T_NumInGroup), (871, ''InstrAttribType'', T_int),
    (872, ''InstrAttribValue'', T_String), (873, ''DatedDate'', T_LocalMktDate),
    (874, ''InterestAccrualDate'', T_LocalMktDate), (875, ''CPProgram'', T_int),
    (876, ''CPRegType'', T_String), (877, ''UnderlyingCPProgram'', T_int),
    (878, ''UnderlyingCPRegType'', T_String), (879, ''UnderlyingQty'', T_Qty),
    (880, ''TrdMatchID'', T_String), (881, ''SecondaryTradeReportRefID'', T_String),
    (882, ''UnderlyingDirtyPrice'', T_Price), (883, ''UnderlyingEndPrice'', T_Price),
    (884, ''UnderlyingStartValue'', T_Amt), (885, ''UnderlyingCurrentValue'', T_Amt),
    (886, ''UnderlyingEndValue'', T_Amt), (887, ''NoUnderlyingStips'', T_NumInGroup),
    (888, ''UnderlyingStipType'', T_String), (889, ''UnderlyingStipValue'', T_String),
    (890, ''MaturityNetMoney'', T_Amt), (891, ''MiscFeeBasis'', T_int), (892, ''TotNoAllocs'', T_int),
    (893, ''LastFragment'', T_Boolean), (894, ''CollReqID'', T_String), (895, ''CollAsgnReason'', T_int),
    (896, ''CollInquiryQualifier'', T_int), (897, ''NoTrades'', T_NumInGroup),
    (898, ''MarginRatio'', T_Percentage), (899, ''MarginExcess'', T_Amt), (900, ''TotalNetValue'', T_Amt),
    (901, ''CashOutstanding'', T_Amt), (902, ''CollAsgnID'', T_String), (903, ''CollAsgnTransType'', T_int),
    (904, ''CollRespID'', T_String), (905, ''CollAsgnRespType'', T_int),
    (906, ''CollAsgnRejectReason'', T_int), (907, ''CollAsgnRefID'', T_String),
    (908, ''CollRptID'', T_String), (909, ''CollInquiryID'', T_String), (910, ''CollStatus'', T_int),
    (911, ''TotNumReports'', T_int), (912, ''LastRptRequested'', T_Boolean),
    (913, ''AgreementDesc'', T_String), (914, ''AgreementID'', T_String),
    (915, ''AgreementDate'', T_LocalMktDate), (916, ''StartDate'', T_LocalMktDate),
    (917, ''EndDate'', T_LocalMktDate), (918, ''AgreementCurrency'', T_Currency),
    (919, ''DeliveryType'', T_int), (920, ''EndAccruedInterestAmt'', T_Amt), (921, ''StartCash'', T_Amt),
    (922, ''EndCash'', T_Amt), (923, ''UserRequestID'', T_String), (924, ''UserRequestType'', T_int),
    (925, ''NewPassword'', T_String), (926, ''UserStatus'', T_int), (927, ''UserStatusText'', T_String),
    (928, ''StatusValue'', T_int), (929, ''StatusText'', T_String), (930, ''RefCompID'', T_String),
    (931, ''RefSubID'', T_String), (932, ''NetworkResponseID'', T_String),
    (933, ''NetworkRequestID'', T_String), (934, ''LastNetworkResponseID'', T_String),
    (935, ''NetworkRequestType'', T_int), (936, ''NoCompIDs'', T_NumInGroup),
    (937, ''NetworkStatusResponseType'', T_int), (938, ''NoCollInquiryQualifier'', T_NumInGroup),
    (939, ''TrdRptStatus'', T_int), (940, ''AffirmStatus'', T_int),
    (941, ''UnderlyingStrikeCurrency'', T_Currency), (942, ''LegStrikeCurrency'', T_Currency)]"

definition tag_enum_7 :: "tag_table" where
  "tag_enum_7 = [
    (943, ''TimeBracket'', T_String), (944, ''CollAction'', T_int), (945, ''CollInquiryStatus'', T_int),
    (946, ''CollInquiryResult'', T_int), (947, ''StrikeCurrency'', T_Currency),
    (948, ''NoNested3PartyIDs'', T_NumInGroup), (949, ''Nested3PartyID'', T_String),
    (950, ''Nested3PartyIDSource'', T_char), (951, ''Nested3PartyRole'', T_int),
    (952, ''NoNested3PartySubIDs'', T_NumInGroup), (953, ''Nested3PartySubID'', T_String),
    (954, ''Nested3PartySubIDType'', T_int), (955, ''LegContractSettlMonth'', T_MonthYear),
    (956, ''LegInterestAccrualDate'', T_LocalMktDate), (957, ''NoStrategyParameters'', T_NumInGroup),
    (958, ''StrategyParameterName'', T_String), (959, ''StrategyParameterType'', T_int),
    (960, ''StrategyParameterValue'', T_String), (961, ''HostCrossID'', T_String),
    (962, ''SideTimeInForce'', T_UTCTimestamp), (963, ''MDReportID'', T_int),
    (964, ''SecurityReportID'', T_int), (965, ''SecurityStatus'', T_String),
    (966, ''SettleOnOpenFlag'', T_String), (967, ''StrikeMultiplier'', T_float),
    (968, ''StrikeValue'', T_float), (969, ''MinPriceIncrement'', T_float), (970, ''PositionLimit'', T_int),
    (971, ''NTPositionLimit'', T_int), (972, ''UnderlyingAllocationPercent'', T_Percentage),
    (973, ''UnderlyingCashAmount'', T_Amt), (974, ''UnderlyingCashType'', T_String),
    (975, ''UnderlyingSettlementType'', T_int), (976, ''QuantityDate'', T_LocalMktDate),
    (977, ''ContIntRptID'', T_String), (978, ''LateIndicator'', T_Boolean), (979, ''InputSource'', T_String),
    (980, ''SecurityUpdateAction'', T_char), (981, ''NoExpiration'', T_NumInGroup),
    (982, ''ExpirationQtyType'', T_int), (983, ''ExpQty'', T_Qty),
    (984, ''NoUnderlyingAmounts'', T_NumInGroup), (985, ''UnderlyingPayAmount'', T_Amt),
    (986, ''UnderlyingCollectAmount'', T_Amt), (987, ''UnderlyingSettlementDate'', T_LocalMktDate),
    (988, ''UnderlyingSettlementStatus'', T_String), (989, ''SecondaryIndividualAllocID'', T_String),
    (990, ''LegReportID'', T_String), (991, ''RndPx'', T_Price), (992, ''IndividualAllocType'', T_int),
    (993, ''AllocCustomerCapacity'', T_String), (994, ''TierCode'', T_String),
    (996, ''UnitOfMeasure'', T_String), (997, ''TimeUnit'', T_String),
    (998, ''UnderlyingUnitOfMeasure'', T_String), (999, ''LegUnitOfMeasure'', T_String),
    (1000, ''UnderlyingTimeUnit'', T_String), (1001, ''LegTimeUnit'', T_String),
    (1002, ''AllocMethod'', T_int), (1003, ''TradeID'', T_String), (1005, ''SideTradeReportID'', T_String),
    (1006, ''SideFillStationCd'', T_String), (1007, ''SideReasonCd'', T_String),
    (1008, ''SideTrdSubType'', T_int), (1009, ''SideLastQty'', T_Qty),
    (1011, ''MessageEventSource'', T_String), (1012, ''SideTrdRegTimestamp'', T_UTCTimestamp),
    (1013, ''SideTrdRegTimestampType'', T_int), (1014, ''SideTrdRegTimestampSrc'', T_String),
    (1015, ''AsOfIndicator'', T_char), (1016, ''NoSideTrdRegTS'', T_NumInGroup),
    (1017, ''LegOptionRatio'', T_float), (1018, ''NoInstrumentParties'', T_NumInGroup),
    (1019, ''InstrumentPartyID'', T_String), (1020, ''TradeVolume'', T_Qty), (1021, ''MDBookType'', T_int),
    (1022, ''MDFeedType'', T_String), (1023, ''MDPriceLevel'', T_int), (1024, ''MDOriginType'', T_int),
    (1025, ''FirstPx'', T_Price), (1026, ''MDEntrySpotRate'', T_float),
    (1027, ''MDEntryForwardPoints'', T_PriceOffset), (1028, ''ManualOrderIndicator'', T_Boolean),
    (1029, ''CustDirectedOrder'', T_Boolean), (1030, ''ReceivedDeptID'', T_String),
    (1031, ''CustOrderHandlingInst'', T_MultipleStringValue), (1032, ''OrderHandlingInstSource'', T_int),
    (1033, ''DeskType'', T_String), (1034, ''DeskTypeSource'', T_int),
    (1035, ''DeskOrderHandlingInst'', T_MultipleStringValue), (1036, ''ExecAckStatus'', T_char),
    (1037, ''UnderlyingDeliveryAmount'', T_Amt), (1038, ''UnderlyingCapValue'', T_Amt),
    (1039, ''UnderlyingSettlMethod'', T_String), (1040, ''SecondaryTradeID'', T_String),
    (1041, ''FirmTradeID'', T_String), (1042, ''SecondaryFirmTradeID'', T_String),
    (1043, ''CollApplType'', T_int), (1044, ''UnderlyingAdjustedQuantity'', T_Qty),
    (1045, ''UnderlyingFXRate'', T_float), (1046, ''UnderlyingFXRateCalc'', T_char),
    (1047, ''AllocPositionEffect'', T_char), (1048, ''DealingCapacity'', T_char),
    (1049, ''InstrmtAssignmentMethod'', T_char), (1050, ''InstrumentPartyIDSource'', T_char),
    (1051, ''InstrumentPartyRole'', T_int), (1052, ''NoInstrumentPartySubIDs'', T_NumInGroup),
    (1053, ''InstrumentPartySubID'', T_String), (1054, ''InstrumentPartySubIDType'', T_int),
    (1055, ''PositionCurrency'', T_String), (1056, ''CalculatedCcyLastQty'', T_Qty),
    (1057, ''AggressorIndicator'', T_Boolean), (1058, ''NoUndlyInstrumentParties'', T_NumInGroup),
    (1059, ''UnderlyingInstrumentPartyID'', T_String), (1060, ''UnderlyingInstrumentPartyIDSource'', T_char),
    (1061, ''UnderlyingInstrumentPartyRole'', T_int), (1062, ''NoUndlyInstrumentPartySubIDs'', T_NumInGroup),
    (1063, ''UnderlyingInstrumentPartySubID'', T_String),
    (1064, ''UnderlyingInstrumentPartySubIDType'', T_int), (1065, ''BidSwapPoints'', T_PriceOffset),
    (1066, ''OfferSwapPoints'', T_PriceOffset), (1067, ''LegBidForwardPoints'', T_PriceOffset),
    (1068, ''LegOfferForwardPoints'', T_PriceOffset), (1069, ''SwapPoints'', T_PriceOffset),
    (1070, ''MDQuoteType'', T_int), (1071, ''LastSwapPoints'', T_PriceOffset),
    (1072, ''SideGrossTradeAmt'', T_Amt), (1073, ''LegLastForwardPoints'', T_PriceOffset),
    (1074, ''LegCalculatedCcyLastQty'', T_Qty), (1075, ''LegGrossTradeAmt'', T_Amt),
    (1079, ''MaturityTime'', T_TZTimeOnly), (1080, ''RefOrderID'', T_String),
    (1081, ''RefOrderIDSource'', T_char), (1082, ''SecondaryDisplayQty'', T_Qty),
    (1083, ''DisplayWhen'', T_char), (1084, ''DisplayMethod'', T_char), (1085, ''DisplayLowQty'', T_Qty),
    (1086, ''DisplayHighQty'', T_Qty), (1087, ''DisplayMinIncr'', T_Qty), (1088, ''RefreshQty'', T_Qty),
    (1089, ''MatchIncrement'', T_Qty), (1090, ''MaxPriceLevels'', T_int),
    (1091, ''PreTradeAnonymity'', T_Boolean), (1092, ''PriceProtectionScope'', T_char),
    (1093, ''LotType'', T_char), (1094, ''PegPriceType'', T_int), (1095, ''PeggedRefPrice'', T_Price),
    (1096, ''PegSecurityIDSource'', T_String), (1097, ''PegSecurityID'', T_String),
    (1098, ''PegSymbol'', T_String)]"

definition tag_enum_8 :: "tag_table" where
  "tag_enum_8 = [
    (1099, ''PegSecurityDesc'', T_String), (1100, ''TriggerType'', T_char),
    (1101, ''TriggerAction'', T_char), (1102, ''TriggerPrice'', T_Price),
    (1103, ''TriggerSymbol'', T_String), (1104, ''TriggerSecurityID'', T_String),
    (1105, ''TriggerSecurityIDSource'', T_String), (1106, ''TriggerSecurityDesc'', T_String),
    (1107, ''TriggerPriceType'', T_char), (1108, ''TriggerPriceTypeScope'', T_char),
    (1109, ''TriggerPriceDirection'', T_char), (1110, ''TriggerNewPrice'', T_Price),
    (1111, ''TriggerOrderType'', T_char), (1112, ''TriggerNewQty'', T_Qty),
    (1113, ''TriggerTradingSessionID'', T_String), (1114, ''TriggerTradingSessionSubID'', T_String),
    (1115, ''OrderCategory'', T_char), (1116, ''NoRootPartyIDs'', T_NumInGroup),
    (1117, ''RootPartyID'', T_String), (1118, ''RootPartyIDSource'', T_char),
    (1119, ''RootPartyRole'', T_int), (1120, ''NoRootPartySubIDs'', T_NumInGroup),
    (1121, ''RootPartySubID'', T_String), (1122, ''RootPartySubIDType'', T_int),
    (1123, ''TradeHandlingInstr'', T_char), (1124, ''OrigTradeHandlingInstr'', T_char),
    (1125, ''OrigTradeDate'', T_LocalMktDate), (1126, ''OrigTradeID'', T_String),
    (1127, ''OrigSecondaryTradeID'', T_String), (1128, ''ApplVerID'', T_String),
    (1129, ''CstmApplVerID'', T_String), (1130, ''RefApplVerID'', T_String),
    (1131, ''RefCstmApplVerID'', T_String), (1132, ''TZTransactTime'', T_TZTimestamp),
    (1133, ''ExDestinationIDSource'', T_char), (1134, ''ReportedPxDiff'', T_Boolean),
    (1135, ''RptSys'', T_String), (1136, ''AllocClearingFeeIndicator'', T_String),
    (1137, ''DefaultApplVerID'', T_String), (1138, ''DisplayQty'', T_Qty),
    (1139, ''ExchangeSpecialInstructions'', T_String), (1140, ''MaxTradeVol'', T_Qty),
    (1141, ''NoMDFeedTypes'', T_NumInGroup), (1142, ''MatchAlgorithm'', T_String),
    (1143, ''MaxPriceVariation'', T_float), (1144, ''ImpliedMarketIndicator'', T_int),
    (1145, ''EventTime'', T_UTCTimestamp), (1146, ''MinPriceIncrementAmount'', T_Amt),
    (1147, ''UnitOfMeasureQty'', T_Qty), (1148, ''LowLimitPrice'', T_Price),
    (1149, ''HighLimitPrice'', T_Price), (1150, ''TradingReferencePrice'', T_Price),
    (1151, ''SecurityGroup'', T_String), (1152, ''LegNumber'', T_int), (1153, ''SettlementCycleNo'', T_int),
    (1154, ''SideCurrency'', T_Currency), (1155, ''SideSettlCurrency'', T_Currency),
    (1156, ''ApplExtID'', T_int), (1157, ''CcyAmt'', T_Amt), (1158, ''NoSettlDetails'', T_NumInGroup),
    (1159, ''SettlObligMode'', T_int), (1160, ''SettlObligMsgID'', T_String),
    (1161, ''SettlObligID'', T_String), (1162, ''SettlObligTransType'', T_char),
    (1163, ''SettlObligRefID'', T_String), (1164, ''SettlObligSource'', T_char),
    (1165, ''NoSettlOblig'', T_NumInGroup), (1166, ''QuoteMsgID'', T_String),
    (1167, ''QuoteEntryStatus'', T_int), (1168, ''TotNoCxldQuotes'', T_int),
    (1169, ''TotNoAccQuotes'', T_int), (1170, ''TotNoRejQuotes'', T_int),
    (1171, ''PrivateQuote'', T_Boolean), (1172, ''RespondentType'', T_int), (1173, ''MDSubBookType'', T_int),
    (1174, ''SecurityTradingEvent'', T_int), (1175, ''NoStatsIndicators'', T_NumInGroup),
    (1176, ''StatsType'', T_int), (1177, ''NoOfSecSizes'', T_NumInGroup), (1178, ''MDSecSizeType'', T_int),
    (1179, ''MDSecSize'', T_Qty), (1180, ''ApplID'', T_String), (1181, ''ApplSeqNum'', T_SeqNum),
    (1182, ''ApplBegSeqNum'', T_SeqNum), (1183, ''ApplEndSeqNum'', T_SeqNum),
    (1184, ''SecurityXMLLen'', T_Length), (1185, ''SecurityXML'', T_XMLData),
    (1186, ''SecurityXMLSchema'', T_String), (1187, ''RefreshIndicator'', T_Boolean),
    (1188, ''Volatility'', T_float), (1189, ''TimeToExpiration'', T_float),
    (1190, ''RiskFreeRate'', T_float), (1191, ''PriceUnitOfMeasure'', T_String),
    (1192, ''PriceUnitOfMeasureQty'', T_Qty), (1193, ''SettlMethod'', T_String),
    (1194, ''ExerciseStyle'', T_int), (1195, ''OptPayoutAmount'', T_Amt),
    (1196, ''PriceQuoteMethod'', T_String), (1197, ''ValuationMethod'', T_String),
    (1198, ''ListMethod'', T_int), (1199, ''CapPrice'', T_Price), (1200, ''FloorPrice'', T_Price),
    (1201, ''NoStrikeRules'', T_NumInGroup), (1202, ''StartStrikePxRange'', T_Price),
    (1203, ''EndStrikePxRange'', T_Price), (1204, ''StrikeIncrement'', T_float),
    (1205, ''NoTickRules'', T_NumInGroup), (1206, ''StartTickPriceRange'', T_Price),
    (1207, ''EndTickPriceRange'', T_Price), (1208, ''TickIncrement'', T_Price),
    (1209, ''TickRuleType'', T_int), (1210, ''NestedInstrAttribType'', T_int),
    (1211, ''NestedInstrAttribValue'', T_String), (1212, ''LegMaturityTime'', T_TZTimeOnly),
    (1213, ''UnderlyingMaturityTime'', T_TZTimeOnly), (1214, ''DerivativeSymbol'', T_String),
    (1215, ''DerivativeSymbolSfx'', T_String), (1216, ''DerivativeSecurityID'', T_String),
    (1217, ''DerivativeSecurityIDSource'', T_String), (1218, ''NoDerivativeSecurityAltID'', T_NumInGroup),
    (1219, ''DerivativeSecurityAltID'', T_String), (1220, ''DerivativeSecurityAltIDSource'', T_String),
    (1221, ''SecondaryLowLimitPrice'', T_Price), (1222, ''MaturityRuleID'', T_String),
    (1223, ''StrikeRuleID'', T_String), (1224, ''LegUnitOfMeasureQty'', T_Qty),
    (1225, ''DerivativeOptPayAmount'', T_Amt), (1226, ''EndMaturityMonthYear'', T_MonthYear),
    (1227, ''ProductComplex'', T_String), (1228, ''DerivativeProductComplex'', T_String),
    (1229, ''MaturityMonthYearIncrement'', T_int), (1230, ''SecondaryHighLimitPrice'', T_Price),
    (1231, ''MinLotSize'', T_Qty), (1232, ''NoExecInstRules'', T_NumInGroup), (1233, ''CommRate'', T_float),
    (1234, ''NoLotTypeRules'', T_NumInGroup), (1235, ''NoMatchRules'', T_NumInGroup),
    (1236, ''NoMaturityRules'', T_NumInGroup), (1237, ''NoOrdTypeRules'', T_NumInGroup),
    (1238, ''CommUnitOfMeasure'', T_String), (1239, ''NoTimeInForceRules'', T_NumInGroup),
    (1240, ''SecondaryTradingReferencePrice'', T_Price), (1241, ''StartMaturityMonthYear'', T_MonthYear),
    (1242, ''FlexProductEligibilityIndicator'', T_Boolean),
    (1243, ''DerivFlexProductEligibilityIndicator'', T_Boolean), (1244, ''FlexibleIndicator'', T_Boolean),
    (1245, ''TradingCurrency'', T_Currency), (1246, ''DerivativeProduct'', T_int),
    (1247, ''DerivativeSecurityGroup'', T_String), (1248, ''DerivativeCFICode'', T_String)]"

definition tag_enum_9 :: "tag_table" where
  "tag_enum_9 = [
    (1249, ''DerivativeSecurityType'', T_String), (1250, ''DerivativeSecuritySubType'', T_String),
    (1251, ''DerivativeMaturityMonthYear'', T_MonthYear), (1252, ''DerivativeMaturityDate'', T_LocalMktDate),
    (1253, ''DerivativeMaturityTime'', T_TZTimeOnly), (1254, ''DerivativeSettleOnOpenFlag'', T_String),
    (1255, ''DerivativeInstrmtAssignmentMethod'', T_char), (1256, ''DerivativeSecurityStatus'', T_String),
    (1257, ''DerivativeInstrRegistry'', T_String), (1258, ''DerivativeCountryOfIssue'', T_Country),
    (1259, ''DerivativeStateOrProvinceOfIssue'', T_String), (1260, ''DerivativeLocaleOfIssue'', T_String),
    (1261, ''DerivativeStrikePrice'', T_Price), (1262, ''DerivativeStrikeCurrency'', T_Currency),
    (1263, ''DerivativeStrikeMultiplier'', T_float), (1264, ''DerivativeStrikeValue'', T_float),
    (1265, ''DerivativeOptAttribute'', T_char), (1266, ''DerivativeContractMultiplier'', T_float),
    (1267, ''DerivativeMinPriceIncrement'', T_float), (1268, ''DerivativeMinPriceIncrementAmount'', T_Amt),
    (1269, ''DerivativeUnitOfMeasure'', T_String), (1270, ''DerivativeUnitOfMeasureQty'', T_Qty),
    (1271, ''DerivativeTimeUnit'', T_String), (1272, ''DerivativeSecurityExchange'', T_Exchange),
    (1273, ''DerivativePositionLimit'', T_int), (1274, ''DerivativeNTPositionLimit'', T_int),
    (1275, ''DerivativeIssuer'', T_String), (1276, ''DerivativeIssueDate'', T_LocalMktDate),
    (1277, ''DerivativeEncodedIssuerLen'', T_Length), (1278, ''DerivativeEncodedIssuer'', T_data),
    (1279, ''DerivativeSecurityDesc'', T_String), (1280, ''DerivativeEncodedSecurityDescLen'', T_Length),
    (1281, ''DerivativeEncodedSecurityDesc'', T_data), (1282, ''DerivativeSecurityXMLLen'', T_Length),
    (1283, ''DerivativeSecurityXML'', T_XMLData), (1284, ''DerivativeSecurityXMLSchema'', T_String),
    (1285, ''DerivativeContractSettlMonth'', T_MonthYear), (1286, ''NoDerivativeEvents'', T_NumInGroup),
    (1287, ''DerivativeEventType'', T_int), (1288, ''DerivativeEventDate'', T_LocalMktDate),
    (1289, ''DerivativeEventTime'', T_UTCTimestamp), (1290, ''DerivativeEventPx'', T_Price),
    (1291, ''DerivativeEventText'', T_String), (1292, ''NoDerivativeInstrumentParties'', T_NumInGroup),
    (1293, ''DerivativeInstrumentPartyID'', T_String), (1294, ''DerivativeInstrumentPartyIDSource'', T_char),
    (1295, ''DerivativeInstrumentPartyRole'', T_int),
    (1296, ''NoDerivativeInstrumentPartySubIDs'', T_NumInGroup),
    (1297, ''DerivativeInstrumentPartySubID'', T_String),
    (1298, ''DerivativeInstrumentPartySubIDType'', T_int), (1299, ''DerivativeExerciseStyle'', T_int),
    (1300, ''MarketSegmentID'', T_String), (1301, ''MarketID'', T_Exchange),
    (1302, ''MaturityMonthYearIncrementUnits'', T_int), (1303, ''MaturityMonthYearFormat'', T_int),
    (1304, ''StrikeExerciseStyle'', T_int), (1305, ''SecondaryPriceLimitType'', T_int),
    (1306, ''PriceLimitType'', T_int), (1308, ''ExecInstValue'', T_MultipleCharValue),
    (1309, ''NoTradingSessionRules'', T_NumInGroup), (1310, ''NoMarketSegments'', T_NumInGroup),
    (1311, ''NoDerivativeInstrAttrib'', T_NumInGroup), (1312, ''NoNestedInstrAttrib'', T_NumInGroup),
    (1313, ''DerivativeInstrAttribType'', T_int), (1314, ''DerivativeInstrAttribValue'', T_String),
    (1315, ''DerivativePriceUnitOfMeasure'', T_String), (1316, ''DerivativePriceUnitOfMeasureQty'', T_Qty),
    (1317, ''DerivativeSettlMethod'', T_String), (1318, ''DerivativePriceQuoteMethod'', T_String),
    (1319, ''DerivativeValuationMethod'', T_String), (1320, ''DerivativeListMethod'', T_int),
    (1321, ''DerivativeCapPrice'', T_Price), (1322, ''DerivativeFloorPrice'', T_Price),
    (1323, ''DerivativePutOrCall'', T_int), (1324, ''ListUpdateAction'', T_char),
    (1325, ''ParentMktSegmID'', T_String), (1326, ''TradingSessionDesc'', T_String),
    (1327, ''TradSesUpdateAction'', T_char), (1328, ''RejectText'', T_String),
    (1329, ''FeeMultiplier'', T_float), (1330, ''UnderlyingLegSymbol'', T_String),
    (1331, ''UnderlyingLegSymbolSfx'', T_String), (1332, ''UnderlyingLegSecurityID'', T_String),
    (1333, ''UnderlyingLegSecurityIDSource'', T_String),
    (1334, ''NoUnderlyingLegSecurityAltID'', T_NumInGroup), (1335, ''UnderlyingLegSecurityAltID'', T_String),
    (1336, ''UnderlyingLegSecurityAltIDSource'', T_String), (1337, ''UnderlyingLegSecurityType'', T_String),
    (1338, ''UnderlyingLegSecuritySubType'', T_String),
    (1339, ''UnderlyingLegMaturityMonthYear'', T_MonthYear), (1340, ''UnderlyingLegStrikePrice'', T_Price),
    (1341, ''UnderlyingLegSecurityExchange'', T_String), (1342, ''NoOfLegUnderlyings'', T_NumInGroup),
    (1343, ''UnderlyingLegPutOrCall'', T_int), (1344, ''UnderlyingLegCFICode'', T_String),
    (1345, ''UnderlyingLegMaturityDate'', T_LocalMktDate), (1346, ''ApplReqID'', T_String),
    (1347, ''ApplReqType'', T_int), (1348, ''ApplResponseType'', T_int),
    (1349, ''ApplTotalMessageCount'', T_int), (1350, ''ApplLastSeqNum'', T_SeqNum),
    (1351, ''NoApplIDs'', T_NumInGroup), (1352, ''ApplResendFlag'', T_Boolean),
    (1353, ''ApplResponseID'', T_String), (1354, ''ApplResponseError'', T_int),
    (1355, ''RefApplID'', T_String), (1356, ''ApplReportID'', T_String),
    (1357, ''RefApplLastSeqNum'', T_SeqNum), (1358, ''LegPutOrCall'', T_int), (1361, ''TotNoFills'', T_int),
    (1362, ''NoFills'', T_NumInGroup), (1363, ''FillExecID'', T_String), (1364, ''FillPx'', T_Price),
    (1365, ''FillQty'', T_Qty), (1366, ''LegAllocID'', T_String),
    (1367, ''LegAllocSettlCurrency'', T_Currency), (1368, ''TradSesEvent'', T_int),
    (1369, ''MassActionReportID'', T_String), (1370, ''NoNotAffectedOrders'', T_NumInGroup),
    (1371, ''NotAffectedOrderID'', T_String), (1372, ''NotAffOrigClOrdID'', T_String),
    (1373, ''MassActionType'', T_int), (1374, ''MassActionScope'', T_int),
    (1375, ''MassActionResponse'', T_int), (1376, ''MassActionRejectReason'', T_int),
    (1377, ''MultilegModel'', T_int), (1378, ''MultilegPriceMethod'', T_int),
    (1379, ''LegVolatility'', T_float), (1380, ''DividendYield'', T_Percentage),
    (1381, ''LegDividendYield'', T_Percentage), (1382, ''CurrencyRatio'', T_float),
    (1383, ''LegCurrencyRatio'', T_float), (1384, ''LegExecInst'', T_MultipleCharValue),
    (1385, ''ContingencyType'', T_int), (1386, ''ListRejectReason'', T_int),
    (1387, ''NoTrdRepIndicators'', T_NumInGroup), (1388, ''TrdRepPartyRole'', T_int),
    (1389, ''TrdRepIndicator'', T_Boolean), (1390, ''TradePublishIndicator'', T_int),
    (1391, ''UnderlyingLegOptAttribute'', T_char), (1392, ''UnderlyingLegSecurityDesc'', T_String),
    (1393, ''MarketReqID'', T_String), (1394, ''MarketReportID'', T_String),
    (1395, ''MarketUpdateAction'', T_char), (1396, ''MarketSegmentDesc'', T_String),
    (1397, ''EncodedMktSegmDescLen'', T_Length), (1398, ''EncodedMktSegmDesc'', T_data),
    (1399, ''ApplNewSeqNum'', T_SeqNum), (1400, ''EncryptedPasswordMethod'', T_int),
    (1401, ''EncryptedPasswordLen'', T_Length)]"

definition tag_enum_10 :: "tag_table" where
  "tag_enum_10 = [
    (1402, ''EncryptedPassword'', T_data), (1403, ''EncryptedNewPasswordLen'', T_Length),
    (1404, ''EncryptedNewPassword'', T_data), (1405, ''UnderlyingLegMaturityTime'', T_TZTimeOnly),
    (1406, ''RefApplExtID'', T_int), (1407, ''DefaultApplExtID'', T_int),
    (1408, ''DefaultCstmApplVerID'', T_String), (1409, ''SessionStatus'', T_int),
    (1410, ''DefaultVerIndicator'', T_Boolean), (1411, ''Nested4PartySubIDType'', T_int),
    (1412, ''Nested4PartySubID'', T_String), (1413, ''NoNested4PartySubIDs'', T_NumInGroup),
    (1414, ''NoNested4PartyIDs'', T_NumInGroup), (1415, ''Nested4PartyID'', T_String),
    (1416, ''Nested4PartyIDSource'', T_char), (1417, ''Nested4PartyRole'', T_int),
    (1418, ''LegLastQty'', T_Qty), (1419, ''UnderlyingExerciseStyle'', T_int),
    (1420, ''LegExerciseStyle'', T_int), (1421, ''LegPriceUnitOfMeasure'', T_String),
    (1422, ''LegPriceUnitOfMeasureQty'', T_Qty), (1423, ''UnderlyingUnitOfMeasureQty'', T_Qty),
    (1424, ''UnderlyingPriceUnitOfMeasure'', T_String), (1425, ''UnderlyingPriceUnitOfMeasureQty'', T_Qty),
    (1426, ''ApplReportType'', T_int), (1427, ''SideExecID'', T_String), (1428, ''OrderDelay'', T_int),
    (1429, ''OrderDelayUnit'', T_int), (1430, ''VenueType'', T_char), (1431, ''RefOrdIDReason'', T_int),
    (1432, ''OrigCustOrderCapacity'', T_int), (1433, ''RefApplReqID'', T_String),
    (1434, ''ModelType'', T_int), (1435, ''ContractMultiplierUnit'', T_int),
    (1436, ''LegContractMultiplierUnit'', T_int), (1437, ''UnderlyingContractMultiplierUnit'', T_int),
    (1438, ''DerivativeContractMultiplierUnit'', T_int), (1439, ''FlowScheduleType'', T_int),
    (1440, ''LegFlowScheduleType'', T_int), (1441, ''UnderlyingFlowScheduleType'', T_int),
    (1442, ''DerivativeFlowScheduleType'', T_int), (1443, ''FillLiquidityInd'', T_int),
    (1444, ''SideLiquidityInd'', T_int), (1445, ''NoRateSources'', T_NumInGroup),
    (1446, ''RateSource'', T_int), (1447, ''RateSourceType'', T_int), (1448, ''ReferencePage'', T_String),
    (1449, ''RestructuringType'', T_String), (1450, ''Seniority'', T_String),
    (1451, ''NotionalPercentageOutstanding'', T_Percentage),
    (1452, ''OriginalNotionalPercentageOutstanding'', T_Percentage),
    (1453, ''UnderlyingRestructuringType'', T_String), (1454, ''UnderlyingSeniority'', T_String),
    (1455, ''UnderlyingNotionalPercentageOutstanding'', T_Percentage),
    (1456, ''UnderlyingOriginalNotionalPercentageOutstanding'', T_Percentage),
    (1457, ''AttachmentPoint'', T_Percentage), (1458, ''DetachmentPoint'', T_Percentage),
    (1459, ''UnderlyingAttachmentPoint'', T_Percentage), (1460, ''UnderlyingDetachmentPoint'', T_Percentage),
    (1461, ''NoTargetPartyIDs'', T_NumInGroup), (1462, ''TargetPartyID'', T_String),
    (1463, ''TargetPartyIDSource'', T_char), (1464, ''TargetPartyRole'', T_int),
    (1465, ''SecurityListID'', T_String), (1466, ''SecurityListRefID'', T_String),
    (1467, ''SecurityListDesc'', T_String), (1468, ''EncodedSecurityListDescLen'', T_Length),
    (1469, ''EncodedSecurityListDesc'', T_data), (1470, ''SecurityListType'', T_int),
    (1471, ''SecurityListTypeSource'', T_int), (1472, ''NewsID'', T_String), (1473, ''NewsCategory'', T_int),
    (1474, ''LanguageCode'', T_Language), (1475, ''NoNewsRefIDs'', T_NumInGroup),
    (1476, ''NewsRefID'', T_String), (1477, ''NewsRefType'', T_int),
    (1478, ''StrikePriceDeterminationMethod'', T_int), (1479, ''StrikePriceBoundaryMethod'', T_int),
    (1480, ''StrikePriceBoundaryPrecision'', T_Percentage),
    (1481, ''UnderlyingPriceDeterminationMethod'', T_int), (1482, ''OptPayoutType'', T_int),
    (1483, ''NoComplexEvents'', T_NumInGroup), (1484, ''ComplexEventType'', T_int),
    (1485, ''ComplexOptPayoutAmount'', T_Amt), (1486, ''ComplexEventPrice'', T_Price),
    (1487, ''ComplexEventPriceBoundaryMethod'', T_int),
    (1488, ''ComplexEventPriceBoundaryPrecision'', T_Percentage),
    (1489, ''ComplexEventPriceTimeType'', T_int), (1490, ''ComplexEventCondition'', T_int),
    (1491, ''NoComplexEventDates'', T_NumInGroup), (1492, ''ComplexEventStartDate'', T_UTCDateOnly),
    (1493, ''ComplexEventEndDate'', T_UTCDateOnly), (1494, ''NoComplexEventTimes'', T_NumInGroup),
    (1495, ''ComplexEventStartTime'', T_UTCTimeOnly), (1496, ''ComplexEventEndTime'', T_UTCTimeOnly),
    (1497, ''StreamAsgnReqID'', T_String), (1498, ''StreamAsgnReqType'', T_int),
    (1499, ''NoAsgnReqs'', T_NumInGroup), (1500, ''MDStreamID'', T_String),
    (1501, ''StreamAsgnRptID'', T_String), (1502, ''StreamAsgnRejReason'', T_int),
    (1503, ''StreamAsgnAckType'', T_int), (1504, ''RelSymTransactTime'', T_UTCTimestamp),
    (1505, ''PartyDetailsListRequestID'', T_String), (1506, ''SideTradeID'', T_String),
    (1507, ''SideOrigTradeID'', T_String), (1508, ''NoRequestedPartyRoles'', T_NumInGroup),
    (1509, ''RequestedPartyRole'', T_int), (1510, ''PartyDetailsListReportID'', T_String),
    (1511, ''RequestResult'', T_int), (1512, ''TotNoParties'', T_int),
    (1513, ''DocumentationText'', T_String), (1514, ''NoPartyRelationships'', T_NumInGroup),
    (1515, ''PartyRelationship'', T_int), (1516, ''NoPartyDetailAltID'', T_NumInGroup),
    (1517, ''PartyDetailAltID'', T_String), (1518, ''PartyDetailAltIDSource'', T_char),
    (1519, ''NoPartyDetailAltSubIDs'', T_NumInGroup), (1520, ''PartyDetailAltSubID'', T_String),
    (1521, ''PartyDetailAltSubIDType'', T_int), (1522, ''DifferentialPrice'', T_PriceOffset),
    (1523, ''TrdAckStatus'', T_int), (1524, ''PriceQuoteCurrency'', T_Currency),
    (1525, ''EncodedDocumentationTextLen'', T_Length), (1526, ''UnderlyingPriceQuoteCurrency'', T_Currency),
    (1527, ''EncodedDocumentationText'', T_data), (1528, ''LegPriceQuoteCurrency'', T_Currency),
    (1529, ''NoRiskLimitTypes'', T_NumInGroup), (1530, ''RiskLimitType'', T_int),
    (1531, ''RiskLimitAmount'', T_Amt), (1532, ''RiskLimitCurrency'', T_Currency),
    (1533, ''RiskLimitPlatform'', T_String), (1534, ''NoRiskInstrumentScopes'', T_NumInGroup),
    (1535, ''InstrumentScopeOperator'', T_int), (1536, ''InstrumentScopeSymbol'', T_String),
    (1537, ''InstrumentScopeSymbolSfx'', T_String), (1538, ''InstrumentScopeSecurityID'', T_String),
    (1539, ''InstrumentScopeSecurityIDSource'', T_String),
    (1540, ''NoInstrumentScopeSecurityAltID'', T_NumInGroup),
    (1541, ''InstrumentScopeSecurityAltID'', T_String),
    (1542, ''InstrumentScopeSecurityAltIDSource'', T_String), (1543, ''InstrumentScopeProduct'', T_int),
    (1544, ''InstrumentScopeProductComplex'', T_String), (1545, ''InstrumentScopeSecurityGroup'', T_String),
    (1546, ''InstrumentScopeCFICode'', T_String), (1547, ''InstrumentScopeSecurityType'', T_String),
    (1548, ''InstrumentScopeSecuritySubType'', T_String),
    (1549, ''InstrumentScopeMaturityMonthYear'', T_MonthYear),
    (1550, ''InstrumentScopeMaturityTime'', T_TZTimeOnly),
    (1551, ''InstrumentScopeRestructuringType'', T_String)]"

section \<open>What each part contains\<close>

lemma lengths_1: "of_type T_Length tag_enum_1 =
    [9, 90, 93, 95]"
  unfolding tag_enum_1_def by (rule of_type_scan | simp only: fix_type.distinct not_False_eq_True)+

lemma counts_1: "of_type T_NumInGroup tag_enum_1 =
    [33, 73, 78, 85, 124, 136, 146]"
  unfolding tag_enum_1_def by (rule of_type_scan | simp only: fix_type.distinct not_False_eq_True)+

lemma ascending_1: "ascends 0 tag_enum_1 162"
  unfolding tag_enum_1_def by (rule ascends_scan | simp)+

lemma lengths_2: "of_type T_Length tag_enum_2 =
    [212]"
  unfolding tag_enum_2_def by (rule of_type_scan | simp only: fix_type.distinct not_False_eq_True)+

lemma counts_2: "of_type T_NumInGroup tag_enum_2 =
    [199, 215, 232, 267, 268, 295, 296]"
  unfolding tag_enum_2_def by (rule of_type_scan | simp only: fix_type.distinct not_False_eq_True)+

lemma ascending_2: "ascends 162 tag_enum_2 334"
  unfolding tag_enum_2_def by (rule ascends_scan | simp)+

lemma lengths_3: "of_type T_Length tag_enum_3 =
    [348, 350, 352, 354, 356, 358, 360, 362, 364, 383, 445]"
  unfolding tag_enum_3_def by (rule of_type_scan | simp only: fix_type.distinct not_False_eq_True)+

lemma counts_3: "of_type T_NumInGroup tag_enum_3 =
    [382, 384, 386, 398, 420, 428, 453, 454, 457, 473]"
  unfolding tag_enum_3_def by (rule of_type_scan | simp only: fix_type.distinct not_False_eq_True)+

lemma ascending_3: "ascends 334 tag_enum_3 490"
  unfolding tag_enum_3_def by (rule ascends_scan | simp)+

lemma lengths_4: "of_type T_Length tag_enum_4 =
    [618, 621]"
  unfolding tag_enum_4_def by (rule of_type_scan | simp only: fix_type.distinct not_False_eq_True)+

lemma counts_4: "of_type T_NumInGroup tag_enum_4 =
    [510, 518, 534, 539, 552, 555, 558, 576, 580, 604, 627]"
  unfolding tag_enum_4_def by (rule of_type_scan | simp only: fix_type.distinct not_False_eq_True)+

lemma ascending_4: "ascends 490 tag_enum_4 640"
  unfolding tag_enum_4_def by (rule ascends_scan | simp)+

lemma lengths_5: "of_type T_Length tag_enum_5 =
    []"
  unfolding tag_enum_5_def by (rule of_type_scan | simp only: fix_type.distinct not_False_eq_True)+

lemma counts_5: "of_type T_NumInGroup tag_enum_5 =
    [670, 683, 702, 711, 735, 753, 756, 768, 778, 781]"
  unfolding tag_enum_5_def by (rule of_type_scan | simp only: fix_type.distinct not_False_eq_True)+

lemma ascending_5: "ascends 640 tag_enum_5 791"
  unfolding tag_enum_5_def by (rule ascends_scan | simp)+

lemma lengths_6: "of_type T_Length tag_enum_6 =
    []"
  unfolding tag_enum_6_def by (rule of_type_scan | simp only: fix_type.distinct not_False_eq_True)+

lemma counts_6: "of_type T_NumInGroup tag_enum_6 =
    [801, 802, 804, 806, 809, 816, 862, 864, 870, 887, 897, 936, 938]"
  unfolding tag_enum_6_def by (rule of_type_scan | simp only: fix_type.distinct not_False_eq_True)+

lemma ascending_6: "ascends 791 tag_enum_6 942"
  unfolding tag_enum_6_def by (rule ascends_scan | simp)+

lemma lengths_7: "of_type T_Length tag_enum_7 =
    []"
  unfolding tag_enum_7_def by (rule of_type_scan | simp only: fix_type.distinct not_False_eq_True)+

lemma counts_7: "of_type T_NumInGroup tag_enum_7 =
    [948, 952, 957, 981, 984, 1016, 1018, 1052, 1058, 1062]"
  unfolding tag_enum_7_def by (rule of_type_scan | simp only: fix_type.distinct not_False_eq_True)+

lemma ascending_7: "ascends 942 tag_enum_7 1098"
  unfolding tag_enum_7_def by (rule ascends_scan | simp)+

lemma lengths_8: "of_type T_Length tag_enum_8 =
    [1184]"
  unfolding tag_enum_8_def by (rule of_type_scan | simp only: fix_type.distinct not_False_eq_True)+

lemma counts_8: "of_type T_NumInGroup tag_enum_8 =
    [1116, 1120, 1141, 1158, 1165, 1175, 1177, 1201, 1205, 1218, 1232, 1234, 1235, 1236, 1237, 1239]"
  unfolding tag_enum_8_def by (rule of_type_scan | simp only: fix_type.distinct not_False_eq_True)+

lemma ascending_8: "ascends 1098 tag_enum_8 1248"
  unfolding tag_enum_8_def by (rule ascends_scan | simp)+

lemma lengths_9: "of_type T_Length tag_enum_9 =
    [1277, 1280, 1282, 1397, 1401]"
  unfolding tag_enum_9_def by (rule of_type_scan | simp only: fix_type.distinct not_False_eq_True)+

lemma counts_9: "of_type T_NumInGroup tag_enum_9 =
    [1286, 1292, 1296, 1309, 1310, 1311, 1312, 1334, 1342, 1351, 1362, 1370, 1387]"
  unfolding tag_enum_9_def by (rule of_type_scan | simp only: fix_type.distinct not_False_eq_True)+

lemma ascending_9: "ascends 1248 tag_enum_9 1401"
  unfolding tag_enum_9_def by (rule ascends_scan | simp)+

lemma lengths_10: "of_type T_Length tag_enum_10 =
    [1403, 1468, 1525]"
  unfolding tag_enum_10_def by (rule of_type_scan | simp only: fix_type.distinct not_False_eq_True)+

lemma counts_10: "of_type T_NumInGroup tag_enum_10 =
    [1413, 1414, 1445, 1461, 1475, 1483, 1491, 1494, 1499, 1508, 1514, 1516, 1519, 1529, 1534, 1540]"
  unfolding tag_enum_10_def by (rule of_type_scan | simp only: fix_type.distinct not_False_eq_True)+

lemma ascending_10: "ascends 1401 tag_enum_10 1551"
  unfolding tag_enum_10_def by (rule ascends_scan | simp)+

end
