(* ===== verification/Tag_Enum_2.thy ===== *)
theory Tag_Enum_2
  imports Fix_Types
begin

text \<open>
  The enumerators of \<open>hffix::tag\<close> (\<open>src/include/hffix_fields.hpp\<close>), second quarter: number, name, and the
  type in the comment, 150 lines in each definition. Which numbers have the types Length and
  NumInGroup, and that the numbers ascend, is read off part by part.
\<close>

definition tag_enum_11 :: "tag_table" where
  "tag_enum_11 = [
    (1552, ''InstrumentScopeSeniority'', T_String), (1553, ''InstrumentScopePutOrCall'', T_int),
    (1554, ''InstrumentScopeFlexibleIndicator'', T_Boolean),
    (1555, ''InstrumentScopeCouponRate'', T_Percentage), (1556, ''InstrumentScopeSecurityDesc'', T_String),
    (1557, ''InstrumentScopeSettlType'', T_String), (1558, ''RiskInstrumentMultiplier'', T_float),
    (1559, ''NoRiskWarningLevels'', T_NumInGroup), (1560, ''RiskWarningLevelPercent'', T_Percentage),
    (1561, ''RiskWarningLevelName'', T_String), (1562, ''NoRelatedPartyDetailID'', T_NumInGroup),
    (1563, ''RelatedPartyDetailID'', T_String), (1564, ''RelatedPartyDetailIDSource'', T_char),
    (1565, ''RelatedPartyDetailRole'', T_int), (1566, ''NoRelatedPartyDetailSubIDs'', T_NumInGroup),
    (1567, ''RelatedPartyDetailSubID'', T_String), (1568, ''RelatedPartyDetailSubIDType'', T_int),
    (1569, ''NoRelatedPartyDetailAltID'', T_NumInGroup), (1570, ''RelatedPartyDetailAltID'', T_String),
    (1571, ''RelatedPartyDetailAltIDSource'', T_char),
    (1572, ''NoRelatedPartyDetailAltSubIDs'', T_NumInGroup),
    (1573, ''RelatedPartyDetailAltSubID'', T_String), (1574, ''RelatedPartyDetailAltSubIDType'', T_int),
    (1575, ''SwapSubClass'', T_String), (1576, ''DerivativePriceQuoteCurrency'', T_Currency),
    (1577, ''SettlRateIndex'', T_String), (1578, ''EncodedEventTextLen'', T_Length),
    (1579, ''EncodedEventText'', T_data), (1580, ''SettlRateIndexLocation'', T_String),
    (1581, ''OptionExpirationDesc'', T_String), (1582, ''NoSecurityClassifications'', T_NumInGroup),
    (1583, ''SecurityClassificationReason'', T_int), (1584, ''SecurityClassificationValue'', T_String),
    (1585, ''PosAmtReason'', T_int), (1586, ''NoLegPosAmt'', T_NumInGroup), (1587, ''LegPosAmt'', T_Amt),
    (1588, ''LegPosAmtType'', T_String), (1589, ''LegPosCurrency'', T_Currency),
    (1590, ''LegPosAmtReason'', T_int), (1591, ''LegQtyType'', T_int), (1592, ''DiscountFactor'', T_float),
    (1593, ''ParentAllocID'', T_String), (1594, ''LegSecurityGroup'', T_String),
    (1595, ''PositionContingentPrice'', T_Price), (1596, ''ClearingTradePrice'', T_Price),
    (1597, ''SideClearingTradePrice'', T_Price), (1598, ''SideClearingTradePriceType'', T_int),
    (1599, ''SidePriceDifferential'', T_Price), (1600, ''FIXEngineName'', T_String),
    (1601, ''FIXEngineVersion'', T_String), (1602, ''FIXEngineVendor'', T_String),
    (1603, ''ApplicationSystemName'', T_String), (1604, ''ApplicationSystemVersion'', T_String),
    (1605, ''ApplicationSystemVendor'', T_String), (1606, ''NumOfSimpleInstruments'', T_int),
    (1607, ''SecurityRejectReason'', T_int), (1608, ''InitialDisplayQty'', T_Qty),
    (1609, ''ThrottleStatus'', T_int), (1610, ''NoThrottles'', T_NumInGroup),
    (1611, ''ThrottleAction'', T_int), (1612, ''ThrottleType'', T_int), (1613, ''ThrottleNoMsgs'', T_int),
    (1614, ''ThrottleTimeInterval'', T_int), (1615, ''ThrottleTimeUnit'', T_int),
    (1616, ''InstrumentScopeSecurityExchange'', T_Exchange), (1617, ''StreamAsgnType'', T_int),
    (1618, ''NoThrottleMsgType'', T_NumInGroup), (1619, ''ThrottleMsgType'', T_String),
    (1620, ''InstrumentScopeEncodedSecurityDescLen'', T_Length),
    (1621, ''InstrumentScopeEncodedSecurityDesc'', T_data), (1622, ''FillYieldType'', T_String),
    (1623, ''FillYield'', T_Percentage), (1624, ''NoMatchInst'', T_NumInGroup), (1625, ''MatchInst'', T_int),
    (1626, ''MatchAttribTagID'', T_TagNum), (1627, ''MatchAttribValue'', T_String),
    (1628, ''TriggerScope'', T_int), (1629, ''ExposureDuration'', T_int),
    (1630, ''NoLimitAmts'', T_NumInGroup), (1631, ''LimitAmtType'', T_int), (1632, ''LastLimitAmt'', T_Amt),
    (1633, ''LimitAmtRemaining'', T_Amt), (1634, ''LimitAmtCurrency'', T_Currency),
    (1635, ''MarginReqmtInqID'', T_String), (1636, ''NoMarginReqmtInqQualifier'', T_NumInGroup),
    (1637, ''MarginReqmtInqQualifier'', T_int), (1638, ''MarginReqmtRptType'', T_int),
    (1639, ''MarginClass'', T_String), (1640, ''MarginReqmtInqStatus'', T_int),
    (1641, ''MarginReqmtInqResult'', T_int), (1642, ''MarginReqmtRptID'', T_String),
    (1643, ''NoMarginAmt'', T_NumInGroup), (1644, ''MarginAmtType'', T_int), (1645, ''MarginAmt'', T_Amt),
    (1646, ''MarginAmtCcy'', T_Currency), (1647, ''NoRelatedInstruments'', T_NumInGroup),
    (1648, ''RelatedInstrumentType'', T_int), (1649, ''RelatedSymbol'', T_String),
    (1650, ''RelatedSecurityID'', T_String), (1651, ''RelatedSecurityIDSource'', T_String),
    (1652, ''RelatedSecurityType'', T_String), (1653, ''RelatedMaturityMonthYear'', T_MonthYear),
    (1654, ''CoveredQty'', T_Qty), (1655, ''MarketMakerActivity'', T_int),
    (1656, ''NoInstrumentScopes'', T_NumInGroup), (1657, ''NoRequestingPartyIDs'', T_NumInGroup),
    (1658, ''RequestingPartyID'', T_String), (1659, ''RequestingPartyIDSource'', T_char),
    (1660, ''RequestingPartyRole'', T_int), (1661, ''NoRequestingPartySubIDs'', T_NumInGroup),
    (1662, ''RequestingPartySubID'', T_String), (1663, ''RequestingPartySubIDType'', T_int),
    (1664, ''EncodedRejectTextLen'', T_Length), (1665, ''EncodedRejectText'', T_data),
    (1666, ''RiskLimitRequestID'', T_String), (1667, ''RiskLimitReportID'', T_String),
    (1668, ''NoRequestedRiskLimitType'', T_NumInGroup), (1669, ''NoRiskLimits'', T_NumInGroup),
    (1670, ''RiskLimitID'', T_String), (1671, ''NoPartyDetails'', T_NumInGroup),
    (1672, ''PartyDetailStatus'', T_int), (1673, ''MatchInstMarketID'', T_Exchange),
    (1674, ''PartyDetailRoleQualifier'', T_int), (1675, ''RelatedPartyDetailRoleQualifier'', T_int),
    (1676, ''NoPartyUpdates'', T_NumInGroup), (1677, ''NoPartyRiskLimits'', T_NumInGroup),
    (1678, ''EncodedOptionExpirationDescLen'', T_Length), (1679, ''SecurityMassTradingStatus'', T_int),
    (1680, ''SecurityMassTradingEvent'', T_int), (1681, ''MassHaltReason'', T_int),
    (1682, ''MDSecurityTradingStatus'', T_int), (1683, ''MDSubFeedType'', T_String),
    (1684, ''MDHaltReason'', T_int), (1685, ''ThrottleInst'', T_int),
    (1686, ''ThrottleCountIndicator'', T_int), (1687, ''ShortSaleRestriction'', T_int),
    (1688, ''ShortSaleExemptionReason'', T_int), (1689, ''LegShortSaleExemptionReason'', T_int),
    (1690, ''SideShortSaleExemptionReason'', T_int), (1691, ''PartyDetailID'', T_String),
    (1692, ''PartyDetailIDSource'', T_char), (1693, ''PartyDetailRole'', T_int),
    (1694, ''NoPartyDetailSubIDs'', T_NumInGroup), (1695, ''PartyDetailSubID'', T_String),
    (1696, ''PartyDetailSubIDType'', T_int), (1697, ''EncodedOptionExpirationDesc'', T_data),
    (1698, ''StrikeUnitOfMeasure'', T_String), (1699, ''AccountSummaryReportID'', T_String),
    (1700, ''NoSettlementAmounts'', T_NumInGroup), (1701, ''SettlementAmount'', T_Amt)]"

definition tag_enum_12 :: "tag_table" where
  "tag_enum_12 = [
    (1702, ''SettlementAmountCurrency'', T_Currency), (1703, ''NoCollateralAmounts'', T_NumInGroup),
    (1704, ''CurrentCollateralAmount'', T_Amt), (1705, ''CollateralCurrency'', T_Currency),
    (1706, ''CollateralType'', T_String), (1707, ''NoPayCollects'', T_NumInGroup),
    (1708, ''PayCollectType'', T_String), (1709, ''PayCollectCurrency'', T_Currency),
    (1710, ''PayAmount'', T_Amt), (1711, ''CollectAmount'', T_Amt),
    (1712, ''PayCollectMarketSegmentID'', T_String), (1713, ''PayCollectMarketID'', T_String),
    (1714, ''MarginAmountMarketSegmentID'', T_String), (1715, ''MarginAmountMarketID'', T_String),
    (1716, ''UnitOfMeasureCurrency'', T_Currency), (1717, ''PriceUnitOfMeasureCurrency'', T_Currency),
    (1718, ''UnderlyingUnitOfMeasureCurrency'', T_Currency),
    (1719, ''UnderlyingPriceUnitOfMeasureCurrency'', T_Currency),
    (1720, ''LegUnitOfMeasureCurrency'', T_Currency), (1721, ''LegPriceUnitOfMeasureCurrency'', T_Currency),
    (1722, ''DerivativeUnitOfMeasureCurrency'', T_Currency),
    (1723, ''DerivativePriceUnitOfMeasureCurrency'', T_Currency), (1724, ''OrderOrigination'', T_int),
    (1725, ''OriginatingDeptID'', T_String), (1726, ''ReceivingDeptID'', T_String),
    (1727, ''InformationBarrierID'', T_String), (1728, ''FirmGroupID'', T_String),
    (1729, ''FirmMnemonic'', T_String), (1730, ''AllocGroupID'', T_String),
    (1731, ''AvgPxGroupID'', T_String), (1732, ''FirmAllocText'', T_String),
    (1733, ''EncodedFirmAllocTextLen'', T_Length), (1734, ''EncodedFirmAllocText'', T_data),
    (1735, ''AllocationRollupInstruction'', T_int), (1736, ''AllocGroupQuantity'', T_Qty),
    (1737, ''AllocGroupRemainingQuantity'', T_Qty), (1738, ''AllocReversalStatus'', T_int),
    (1739, ''ObligationType'', T_String), (1740, ''TradePriceNegotiationMethod'', T_int),
    (1741, ''UpfrontPriceType'', T_int), (1742, ''UpfrontPrice'', T_Price),
    (1743, ''LastUpfrontPrice'', T_Price), (1744, ''ApplLevelRecoveryIndicator'', T_int),
    (1745, ''BidMDEntryID'', T_String), (1746, ''OfferMDEntryID'', T_String),
    (1747, ''BidQuoteID'', T_String), (1748, ''OfferQuoteID'', T_String), (1749, ''TotalBidSize'', T_Qty),
    (1750, ''TotalOfferSize'', T_Qty), (1751, ''SecondaryQuoteID'', T_String),
    (1752, ''CustodialLotID'', T_String), (1753, ''VersusPurchaseDate'', T_LocalMktDate),
    (1754, ''VersusPurchasePrice'', T_Price), (1755, ''CurrentCostBasis'', T_Amt),
    (1756, ''LegCustodialLotID'', T_String), (1757, ''LegVersusPurchaseDate'', T_LocalMktDate),
    (1758, ''LegVersusPurchasePrice'', T_Price), (1759, ''LegCurrentCostBasis'', T_Amt),
    (1760, ''RiskLimitRequestType'', T_int), (1761, ''RiskLimitRequestResult'', T_int),
    (1762, ''RiskLimitRequestStatus'', T_int), (1763, ''RiskLimitStatus'', T_int),
    (1764, ''RiskLimitResult'', T_int), (1765, ''RiskLimitUtilizationPercent'', T_Percentage),
    (1766, ''RiskLimitUtilizationAmount'', T_Amt), (1767, ''RiskLimitAction'', T_int),
    (1768, ''RiskWarningLevelAmount'', T_int), (1769, ''RiskWarningLevelAction'', T_int),
    (1770, ''EntitlementRequestID'', T_String), (1771, ''EntitlementReportID'', T_String),
    (1772, ''NoPartyEntitlements'', T_NumInGroup), (1773, ''NoEntitlements'', T_NumInGroup),
    (1774, ''EntitlementIndicator'', T_Boolean), (1775, ''EntitlementType'', T_int),
    (1776, ''EntitlementID'', T_String), (1777, ''NoEntitlementAttrib'', T_NumInGroup),
    (1778, ''EntitlementAttribType'', T_int), (1779, ''EntitlementAttribDatatype'', T_int),
    (1780, ''EntitlementAttribValue'', T_String), (1781, ''EntitlementAttribCurrency'', T_Currency),
    (1782, ''EntitlementStartDate'', T_LocalMktDate), (1783, ''EntitlementEndDate'', T_LocalMktDate),
    (1784, ''EntitlementPlatform'', T_String), (1785, ''TradSesControl'', T_int),
    (1786, ''TradeVolType'', T_int), (1787, ''RefTickTableID'', T_int), (1788, ''LegID'', T_String),
    (1789, ''NoTargetMarketSegments'', T_NumInGroup), (1790, ''TargetMarketSegmentID'', T_String),
    (1791, ''NoAffectedMarketSegments'', T_NumInGroup), (1792, ''AffectedMarketSegmentID'', T_String),
    (1793, ''NoNotAffectedMarketSegments'', T_NumInGroup), (1794, ''NotAffectedMarketSegmentID'', T_String),
    (1795, ''NoOrderEvents'', T_NumInGroup), (1796, ''OrderEventType'', T_int),
    (1797, ''OrderEventExecID'', T_String), (1798, ''OrderEventReason'', T_int),
    (1799, ''OrderEventPx'', T_Price), (1800, ''OrderEventQty'', T_Qty),
    (1801, ''OrderEventLiquidityIndicator'', T_int), (1802, ''OrderEventText'', T_String),
    (1803, ''AuctionType'', T_int), (1804, ''AuctionAllocationPct'', T_Percentage),
    (1805, ''AuctionInstruction'', T_int), (1806, ''RefClOrdID'', T_String), (1807, ''LockType'', T_int),
    (1808, ''LockedQty'', T_Qty), (1809, ''SecondaryLockedQty'', T_Qty),
    (1810, ''ReleaseInstruction'', T_int), (1811, ''ReleaseQty'', T_Qty),
    (1812, ''NoDisclosureInstructions'', T_NumInGroup), (1813, ''DisclosureType'', T_int),
    (1814, ''DisclosureInstruction'', T_int), (1815, ''TradingCapacity'', T_int),
    (1816, ''ClearingAccountType'', T_int), (1817, ''LegClearingAccountType'', T_int),
    (1818, ''TargetPartyRoleQualifier'', T_int), (1819, ''RelatedHighPrice'', T_Price),
    (1820, ''RelatedLowPrice'', T_Price), (1821, ''RelatedPriceSource'', T_int),
    (1822, ''MinQtyMethod'', T_int), (1823, ''Triggered'', T_int), (1824, ''AffectedOrigClOrdID'', T_String),
    (1825, ''NotAffSecondaryOrderID'', T_String), (1826, ''EventTimePeriod'', T_int),
    (1827, ''EventTimeUnit'', T_String), (1828, ''LastQtyVariance'', T_Qty),
    (1829, ''NoCrossLegs'', T_NumInGroup), (1830, ''SettlPriceIncrement'', T_Price),
    (1831, ''SettlPriceSecondaryIncrement'', T_Price), (1832, ''ClearedIndicator'', T_int),
    (1833, ''ContractRefPosType'', T_int), (1834, ''PositionCapacity'', T_int),
    (1835, ''PosQtyUnitOfMeasureCurrency'', T_Currency), (1836, ''PosQtyUnitOfMeasure'', T_String),
    (1837, ''UnderlyingContractPriceRefMonth'', T_MonthYear),
    (1838, ''NoTradePriceConditions'', T_NumInGroup), (1839, ''TradePriceCondition'', T_int),
    (1840, ''TradeAllocStatus'', T_int), (1841, ''NoTradeQtys'', T_NumInGroup),
    (1842, ''TradeQtyType'', T_int), (1843, ''TradeQty'', T_Qty), (1844, ''NoTradeAllocAmts'', T_NumInGroup),
    (1845, ''TradeAllocAmtType'', T_String), (1846, ''TradeAllocAmt'', T_Amt),
    (1847, ''TradeAllocCurrency'', T_Currency), (1848, ''TradeAllocGroupInstruction'', T_int),
    (1849, ''OffsetInstruction'', T_int), (1850, ''TradeAllocAmtReason'', T_int),
    (1851, ''StrategyLinkID'', T_String)]"

definition tag_enum_13 :: "tag_table" where
  "tag_enum_13 = [
    (1852, ''SideAvgPx'', T_Price), (1853, ''SideAvgPxIndicator'', T_int),
    (1854, ''SideAvgPxGroupID'', T_String), (1855, ''NoRelatedTrades'', T_NumInGroup),
    (1856, ''RelatedTradeID'', T_String), (1857, ''RelatedTradeIDSource'', T_int),
    (1858, ''RelatedTradeDate'', T_LocalMktDate), (1859, ''RelatedTradeMarketID'', T_Exchange),
    (1860, ''RelatedTradeQuantity'', T_Qty), (1861, ''NoRelatedPositions'', T_NumInGroup),
    (1862, ''RelatedPositionID'', T_String), (1863, ''RelatedPositionIDSource'', T_int),
    (1864, ''RelatedPositionDate'', T_LocalMktDate), (1865, ''QuoteAckStatus'', T_int),
    (1866, ''StrikeIndex'', T_String), (1867, ''OfferID'', T_String),
    (1868, ''NoValueChecks'', T_NumInGroup), (1869, ''ValueCheckType'', T_int),
    (1870, ''ValueCheckAction'', T_int), (1871, ''LegSecurityXMLLen'', T_Length),
    (1872, ''LegSecurityXML'', T_XMLData), (1873, ''LegSecurityXMLSchema'', T_String),
    (1874, ''UnderlyingSecurityXMLLen'', T_Length), (1875, ''UnderlyingSecurityXML'', T_XMLData),
    (1876, ''UnderlyingSecurityXMLSchema'', T_String), (1877, ''PartyDetailRequestResult'', T_int),
    (1878, ''PartyDetailRequestStatus'', T_int), (1879, ''PartyDetailDefinitionStatus'', T_int),
    (1880, ''PartyDetailDefinitionResult'', T_int), (1881, ''EntitlementRequestResult'', T_int),
    (1882, ''EntitlementRequestStatus'', T_int), (1883, ''EntitlementStatus'', T_int),
    (1884, ''EntitlementResult'', T_int), (1885, ''EntitlementRefID'', T_String),
    (1886, ''SettlPriceUnitOfMeasure'', T_String), (1887, ''SettlPriceUnitOfMeasureCurrency'', T_Currency),
    (1888, ''TradeMatchTimestamp'', T_UTCTimestamp), (1889, ''NoInstrmtMatchSides'', T_NumInGroup),
    (1890, ''NoTrdMatchSides'', T_NumInGroup), (1891, ''TrdMatchSubID'', T_String),
    (1892, ''NoLegExecs'', T_NumInGroup), (1893, ''LegExecID'', T_String), (1894, ''LegTradeID'', T_String),
    (1895, ''LegTradeReportID'', T_String), (1896, ''TradeMatchAckStatus'', T_int),
    (1897, ''TradeMatchRejectReason'', T_int), (1898, ''SideMarketSegmentID'', T_String),
    (1899, ''SideVenueType'', T_char), (1900, ''SideExecRefID'', T_String),
    (1901, ''LegExecRefID'', T_String), (1902, ''HaircutIndicator'', T_Boolean),
    (1903, ''RegulatoryTradeID'', T_String), (1904, ''RegulatoryTradeIDEvent'', T_int),
    (1905, ''RegulatoryTradeIDSource'', T_String), (1906, ''RegulatoryTradeIDType'', T_int),
    (1907, ''NoRegulatoryTradeIDs'', T_NumInGroup), (1908, ''NoAllocRegulatoryTradeIDs'', T_NumInGroup),
    (1909, ''AllocRegulatoryTradeID'', T_String), (1910, ''AllocRegulatoryTradeIDSource'', T_String),
    (1911, ''AllocRegulatoryTradeIDEvent'', T_int), (1912, ''AllocRegulatoryTradeIDType'', T_int),
    (1913, ''NumOfCompetitors'', T_int), (1914, ''ResponseTime'', T_UTCTimestamp),
    (1915, ''QuoteDisplayTime'', T_UTCTimestamp), (1916, ''ExposureDurationUnit'', T_int),
    (1917, ''CoverPrice'', T_Price), (1918, ''NoClearingAccountTypes'', T_NumInGroup),
    (1919, ''NoPriceMovements'', T_NumInGroup), (1920, ''NoPriceMovementValues'', T_NumInGroup),
    (1921, ''PriceMovementValue'', T_float), (1922, ''PriceMovementPoint'', T_int),
    (1923, ''PriceMovementType'', T_int), (1924, ''ClearingIntention'', T_int),
    (1925, ''TradeClearingInstruction'', T_int), (1926, ''BackloadedTradeIndicator'', T_Boolean),
    (1927, ''ConfirmationMethod'', T_int), (1928, ''MandatoryClearingIndicator'', T_Boolean),
    (1929, ''MixedSwapIndicator'', T_Boolean), (1930, ''OffMarketPriceIndicator'', T_Boolean),
    (1931, ''VerificationMethod'', T_int), (1932, ''ClearingRequirementException'', T_int),
    (1933, ''IRSDirection'', T_String), (1934, ''RegulatoryReportType'', T_int),
    (1935, ''VoluntaryRegulatoryReport'', T_Boolean), (1936, ''TradeCollateralization'', T_int),
    (1937, ''TradeContinuation'', T_int), (1938, ''AssetClass'', T_int), (1939, ''AssetSubClass'', T_int),
    (1940, ''AssetType'', T_String), (1941, ''SwapClass'', T_String), (1942, ''NthToDefault'', T_int),
    (1943, ''MthToDefault'', T_int), (1944, ''SettledEntityMatrixSource'', T_String),
    (1945, ''SettledEntityMatrixPublicationDate'', T_LocalMktDate), (1946, ''CouponType'', T_int),
    (1947, ''TotalIssuedAmount'', T_Amt), (1948, ''CouponFrequencyPeriod'', T_int),
    (1949, ''CouponFrequencyUnit'', T_String), (1950, ''CouponDayCount'', T_int),
    (1951, ''ConvertibleBondEquityID'', T_String), (1952, ''ConvertibleBondEquityIDSource'', T_String),
    (1953, ''ContractPriceRefMonth'', T_MonthYear), (1954, ''LienSeniority'', T_int),
    (1955, ''LoanFacility'', T_int), (1956, ''ReferenceEntityType'', T_int), (1957, ''IndexSeries'', T_int),
    (1958, ''IndexAnnexVersion'', T_int), (1959, ''IndexAnnexDate'', T_LocalMktDate),
    (1960, ''IndexAnnexSource'', T_String), (1961, ''AgreementVersion'', T_String),
    (1962, ''MasterConfirmationDesc'', T_String), (1963, ''MasterConfirmationDate'', T_LocalMktDate),
    (1964, ''MasterConfirmationAnnexDesc'', T_String),
    (1965, ''MasterConfirmationAnnexDate'', T_LocalMktDate), (1966, ''BrokerConfirmationDesc'', T_String),
    (1967, ''CreditSupportAgreementDesc'', T_String), (1968, ''CreditSupportAgreementDate'', T_LocalMktDate),
    (1969, ''CreditSupportAgreementID'', T_String), (1970, ''GoverningLaw'', T_String),
    (1971, ''NoSideRegulatoryTradeIDs'', T_NumInGroup), (1972, ''SideRegulatoryTradeID'', T_String),
    (1973, ''SideRegulatoryTradeIDSource'', T_String), (1974, ''SideRegulatoryTradeIDEvent'', T_int),
    (1975, ''SideRegulatoryTradeIDType'', T_int), (1976, ''NoSecondaryAssetClasses'', T_NumInGroup),
    (1977, ''SecondaryAssetClass'', T_int), (1978, ''SecondaryAssetSubClass'', T_int),
    (1979, ''SecondaryAssetType'', T_String), (1980, ''BlockTrdAllocIndicator'', T_int),
    (1981, ''NoUnderlyingEvents'', T_NumInGroup), (1982, ''UnderlyingEventType'', T_int),
    (1983, ''UnderlyingEventDate'', T_LocalMktDate), (1984, ''UnderlyingEventTime'', T_UTCTimestamp),
    (1985, ''UnderlyingEventTimeUnit'', T_String), (1986, ''UnderlyingEventTimePeriod'', T_int),
    (1987, ''UnderlyingEventPx'', T_Price), (1988, ''UnderlyingConstituentWeight'', T_float),
    (1989, ''UnderlyingCouponType'', T_int), (1990, ''UnderlyingTotalIssuedAmount'', T_Amt),
    (1991, ''UnderlyingCouponFrequencyPeriod'', T_int), (1992, ''UnderlyingCouponFrequencyUnit'', T_String),
    (1993, ''UnderlyingCouponDayCount'', T_int), (1994, ''UnderlyingObligationID'', T_String),
    (1995, ''UnderlyingObligationIDSource'', T_String), (1996, ''UnderlyingEquityID'', T_String),
    (1997, ''UnderlyingEquityIDSource'', T_String), (1998, ''UnderlyingLienSeniority'', T_int),
    (1999, ''UnderlyingLoanFacility'', T_int), (2000, ''UnderlyingReferenceEntityType'', T_int),
    (2001, ''StrikeIndexSpread'', T_PriceOffset)]"

definition tag_enum_14 :: "tag_table" where
  "tag_enum_14 = [
    (2002, ''ValuationSource'', T_String), (2003, ''UnderlyingIndexSeries'', T_int),
    (2004, ''UnderlyingIndexAnnexVersion'', T_int), (2005, ''UnderlyingIndexAnnexDate'', T_LocalMktDate),
    (2006, ''UnderlyingIndexAnnexSource'', T_String), (2007, ''UnderlyingProductComplex'', T_String),
    (2008, ''UnderlyingSecurityGroup'', T_String), (2009, ''UnderlyingSettleOnOpenFlag'', T_String),
    (2010, ''UnderlyingAssignmentMethod'', T_char), (2011, ''UnderlyingSecurityStatus'', T_String),
    (2012, ''UnderlyingObligationType'', T_String), (2013, ''UnderlyingAssetClass'', T_int),
    (2014, ''UnderlyingAssetSubClass'', T_int), (2015, ''UnderlyingAssetType'', T_String),
    (2016, ''UnderlyingSwapClass'', T_String), (2017, ''UnderlyingNthToDefault'', T_int),
    (2018, ''UnderlyingMthToDefault'', T_int), (2019, ''UnderlyingSettledEntityMatrixSource'', T_String),
    (2020, ''UnderlyingSettledEntityMatrixPublicationDate'', T_LocalMktDate),
    (2021, ''UnderlyingStrikeMultiplier'', T_float), (2022, ''UnderlyingStrikeValue'', T_float),
    (2023, ''UnderlyingStrikePriceDeterminationMethod'', T_int),
    (2024, ''UnderlyingStrikePriceBoundaryMethod'', T_int),
    (2025, ''UnderlyingStrikePriceBoundaryPrecision'', T_Percentage),
    (2026, ''UnderlyingMinPriceIncrement'', T_float), (2027, ''UnderlyingMinPriceIncrementAmount'', T_Amt),
    (2028, ''UnderlyingOptPayoutType'', T_int), (2029, ''UnderlyingOptPayoutAmount'', T_Amt),
    (2030, ''UnderlyingPriceQuoteMethod'', T_String), (2031, ''UnderlyingValuationMethod'', T_String),
    (2032, ''UnderlyingListMethod'', T_int), (2033, ''UnderlyingCapPrice'', T_Price),
    (2034, ''UnderlyingFloorPrice'', T_Price), (2035, ''UnderlyingFlexibleIndicator'', T_Boolean),
    (2036, ''UnderlyingFlexProductEligibilityIndicator'', T_Boolean),
    (2037, ''UnderlyingPositionLimit'', T_int), (2038, ''UnderlyingNTPositionLimit'', T_int),
    (2039, ''UnderlyingPool'', T_String), (2040, ''UnderlyingContractSettlMonth'', T_MonthYear),
    (2041, ''UnderlyingDatedDate'', T_LocalMktDate),
    (2042, ''UnderlyingInterestAccrualDate'', T_LocalMktDate),
    (2043, ''UnderlyingShortSaleRestriction'', T_int), (2044, ''UnderlyingRefTickTableID'', T_int),
    (2045, ''NoUnderlyingComplexEvents'', T_NumInGroup), (2046, ''UnderlyingComplexEventType'', T_int),
    (2047, ''UnderlyingComplexOptPayoutAmount'', T_Amt), (2048, ''UnderlyingComplexEventPrice'', T_Price),
    (2049, ''UnderlyingComplexEventPriceBoundaryMethod'', T_int),
    (2050, ''UnderlyingComplexEventPriceBoundaryPrecision'', T_Percentage),
    (2051, ''UnderlyingComplexEventPriceTimeType'', T_int),
    (2052, ''UnderlyingComplexEventCondition'', T_int),
    (2053, ''NoUnderlyingComplexEventDates'', T_NumInGroup),
    (2054, ''UnderlyingComplexEventStartDate'', T_UTCDateOnly),
    (2055, ''UnderlyingComplexEventEndDate'', T_UTCDateOnly),
    (2056, ''NoUnderlyingComplexEventTimes'', T_NumInGroup),
    (2057, ''UnderlyingComplexEventStartTime'', T_UTCTimeOnly),
    (2058, ''UnderlyingComplexEventEndTime'', T_UTCTimeOnly), (2059, ''NoLegEvents'', T_NumInGroup),
    (2060, ''LegEventType'', T_int), (2061, ''LegEventDate'', T_LocalMktDate),
    (2062, ''LegEventTime'', T_UTCTimestamp), (2063, ''LegEventTimeUnit'', T_String),
    (2064, ''LegEventTimePeriod'', T_int), (2065, ''LegEventPx'', T_Price),
    (2066, ''LegEventText'', T_String), (2067, ''LegAssetClass'', T_int),
    (2068, ''LegAssetSubClass'', T_int), (2069, ''LegAssetType'', T_String),
    (2070, ''LegSwapClass'', T_String), (2071, ''UnderlyingEventText'', T_String),
    (2072, ''EncodedUnderlyingEventTextLen'', T_Length), (2073, ''EncodedUnderlyingEventText'', T_data),
    (2074, ''EncodedLegEventTextLen'', T_Length), (2075, ''EncodedLegEventText'', T_data),
    (2076, ''NoLegSecondaryAssetClasses'', T_NumInGroup), (2077, ''LegSecondaryAssetClass'', T_int),
    (2078, ''LegSecondaryAssetSubClass'', T_int), (2079, ''LegSecondaryAssetType'', T_String),
    (2080, ''NoUnderlyingSecondaryAssetClasses'', T_NumInGroup),
    (2081, ''UnderlyingSecondaryAssetClass'', T_int), (2082, ''UnderlyingSecondaryAssetSubClass'', T_int),
    (2083, ''UnderlyingSecondaryAssetType'', T_String),
    (2084, ''PreviousClearingBusinessDate'', T_LocalMktDate), (2085, ''ValuationDate'', T_LocalMktDate),
    (2086, ''ValuationTime'', T_LocalMktTime), (2087, ''ValuationBusinessCenter'', T_String),
    (2088, ''MarginAmtFXRate'', T_float), (2089, ''MarginAmtFXRateCalc'', T_char),
    (2090, ''CollateralFXRate'', T_float), (2091, ''CollateralFXRateCalc'', T_char),
    (2092, ''CollateralAmountMarketSegmentID'', T_String), (2093, ''CollateralAmountMarketID'', T_String),
    (2094, ''PayCollectFXRate'', T_float), (2095, ''PayCollectFXRateCalc'', T_char),
    (2096, ''PosAmtStreamDesc'', T_String), (2097, ''PositionFXRate'', T_float),
    (2098, ''PositionFXRateCalc'', T_char), (2099, ''PosAmtMarketSegmentID'', T_String),
    (2100, ''PosAmtMarketID'', T_String), (2101, ''TerminatedIndicator'', T_Boolean),
    (2102, ''ShortMarkingExemptIndicator'', T_Boolean), (2103, ''RelatedRegulatoryTradeIDSource'', T_String),
    (2104, ''NoAttachments'', T_NumInGroup), (2105, ''AttachmentName'', T_String),
    (2106, ''AttachmentMediaType'', T_String), (2107, ''AttachmentClassification'', T_String),
    (2108, ''AttachmentExternalURL'', T_String), (2109, ''AttachmentEncodingType'', T_int),
    (2110, ''UnencodedAttachmentLen'', T_int), (2111, ''EncodedAttachmentLen'', T_Length),
    (2112, ''EncodedAttachment'', T_data), (2113, ''NoAttachmentKeywords'', T_NumInGroup),
    (2114, ''AttachmentKeyword'', T_String), (2115, ''NegotiationMethod'', T_int),
    (2116, ''NextAuctionTime'', T_UTCTimestamp), (2117, ''ComplexOptPayoutPaySide'', T_int),
    (2118, ''ComplexOptPayoutReceiveSide'', T_int), (2119, ''ComplexOptPayoutUnderlier'', T_String),
    (2120, ''ComplexOptPayoutPercentage'', T_Percentage), (2121, ''ComplexOptPayoutTime'', T_int),
    (2122, ''ComplexOptPayoutCurrency'', T_Currency), (2123, ''ComplexEventPricePercentage'', T_Percentage),
    (2124, ''ComplexEventCurrencyOne'', T_Currency), (2125, ''ComplexEventCurrencyTwo'', T_Currency),
    (2126, ''ComplexEventQuoteBasis'', T_int), (2127, ''ComplexEventFixedFXRate'', T_float),
    (2128, ''ComplexEventDeterminationMethod'', T_String), (2129, ''ComplexEventCalculationAgent'', T_int),
    (2130, ''ComplexEventStrikePrice'', T_Price), (2131, ''ComplexEventStrikeFactor'', T_float),
    (2132, ''ComplexEventStrikeNumberOfOptions'', T_int),
    (2133, ''ComplexEventCreditEventsXIDRef'', T_XIDREF),
    (2134, ''ComplexEventCreditEventNotifyingParty'', T_int),
    (2135, ''ComplexEventCreditEventBusinessCenter'', T_String),
    (2136, ''ComplexEventCreditEventStandardSources'', T_Boolean),
    (2137, ''ComplexEventCreditEventMinimumSources'', T_int), (2138, ''ComplexEventXID'', T_XID),
    (2139, ''ComplexEventXIDRef'', T_XIDREF), (2140, ''ValuationReferenceModel'', T_String),
    (2141, ''StrategyType'', T_String), (2142, ''CommonPricingIndicator'', T_Boolean),
    (2143, ''SettlDisruptionProvision'', T_int), (2144, ''InstrumentRoundingDirection'', T_char),
    (2145, ''InstrumentRoundingPrecision'', T_int), (2146, ''LegSettleOnOpenFlag'', T_String),
    (2147, ''LegInstrmtAssignmentMethod'', T_char), (2148, ''LegSecurityStatus'', T_String),
    (2149, ''LegRestructuringType'', T_String), (2150, ''LegSeniority'', T_String),
    (2151, ''LegNotionalPercentageOutstanding'', T_Percentage)]"

definition tag_enum_15 :: "tag_table" where
  "tag_enum_15 = [
    (2152, ''LegOriginalNotionalPercentageOutstanding'', T_Percentage),
    (2153, ''LegAttachmentPoint'', T_Percentage), (2154, ''LegDetachmentPoint'', T_Percentage),
    (2155, ''LegObligationType'', T_String), (2156, ''LegSwapSubClass'', T_String),
    (2157, ''LegNthToDefault'', T_int), (2158, ''LegMthToDefault'', T_int),
    (2159, ''LegSettledEntityMatrixSource'', T_String),
    (2160, ''LegSettledEntityMatrixPublicationDate'', T_LocalMktDate), (2161, ''LegCouponType'', T_int),
    (2162, ''LegTotalIssuedAmount'', T_Amt), (2163, ''LegCouponFrequencyPeriod'', T_int),
    (2164, ''LegCouponFrequencyUnit'', T_String), (2165, ''LegCouponDayCount'', T_int),
    (2166, ''LegConvertibleBondEquityID'', T_String), (2167, ''LegConvertibleBondEquityIDSource'', T_String),
    (2168, ''LegContractPriceRefMonth'', T_MonthYear), (2169, ''LegLienSeniority'', T_int),
    (2170, ''LegLoanFacility'', T_int), (2171, ''LegReferenceEntityType'', T_int),
    (2172, ''LegIndexSeries'', T_int), (2173, ''LegIndexAnnexVersion'', T_int),
    (2174, ''LegIndexAnnexDate'', T_LocalMktDate), (2175, ''LegIndexAnnexSource'', T_String),
    (2176, ''LegSettlRateIndex'', T_String), (2177, ''LegSettlRateIndexLocation'', T_String),
    (2178, ''LegOptionExpirationDesc'', T_String), (2179, ''EncodedLegOptionExpirationDescLen'', T_Length),
    (2180, ''EncodedLegOptionExpirationDesc'', T_data), (2181, ''LegStrikeMultiplier'', T_float),
    (2182, ''LegStrikeValue'', T_float), (2183, ''LegStrikeUnitOfMeasure'', T_String),
    (2184, ''LegStrikeIndex'', T_String), (2185, ''LegStrikeIndexSpread'', T_PriceOffset),
    (2186, ''LegStrikePriceDeterminationMethod'', T_int), (2187, ''LegStrikePriceBoundaryMethod'', T_int),
    (2188, ''LegStrikePriceBoundaryPrecision'', T_Percentage),
    (2189, ''LegUnderlyingPriceDeterminationMethod'', T_int), (2190, ''LegMinPriceIncrement'', T_float),
    (2191, ''LegMinPriceIncrementAmount'', T_Amt), (2192, ''LegSettlMethod'', T_String),
    (2193, ''LegOptPayoutType'', T_int), (2194, ''LegOptPayoutAmount'', T_Amt),
    (2195, ''LegPriceQuoteMethod'', T_String), (2196, ''LegValuationMethod'', T_String),
    (2197, ''LegValuationSource'', T_String), (2198, ''LegValuationReferenceModel'', T_String),
    (2199, ''LegListMethod'', T_int), (2200, ''LegCapPrice'', T_Price), (2201, ''LegFloorPrice'', T_Price),
    (2202, ''LegFlexibleIndicator'', T_Boolean), (2203, ''LegFlexProductEligibilityIndicator'', T_Boolean),
    (2204, ''LegComplexEventStartTime'', T_UTCTimeOnly), (2205, ''LegPositionLimit'', T_int),
    (2206, ''LegNTPositionLimit'', T_int), (2207, ''LegCPProgram'', T_int),
    (2208, ''LegCPRegType'', T_String), (2209, ''LegShortSaleRestriction'', T_int),
    (2210, ''AssetGroup'', T_int), (2211, ''LegStrategyType'', T_String),
    (2212, ''LegCommonPricingIndicator'', T_Boolean), (2213, ''LegSettlDisruptionProvision'', T_int),
    (2214, ''LegInstrumentRoundingDirection'', T_char), (2215, ''LegInstrumentRoundingPrecision'', T_int),
    (2216, ''MiscFeeRate'', T_Percentage), (2217, ''MiscFeeAmountDue'', T_Amt),
    (2218, ''NoLegComplexEvents'', T_NumInGroup), (2219, ''LegComplexEventType'', T_int),
    (2220, ''LegComplexOptPayoutPaySide'', T_int), (2221, ''LegComplexOptPayoutReceiveSide'', T_int),
    (2222, ''LegComplexOptPayoutUnderlier'', T_String), (2223, ''LegComplexOptPayoutAmount'', T_Amt),
    (2224, ''LegComplexOptPayoutPercentage'', T_Percentage), (2225, ''LegComplexOptPayoutTime'', T_int),
    (2226, ''LegComplexOptPayoutCurrency'', T_Currency), (2227, ''LegComplexEventPrice'', T_Price),
    (2228, ''LegComplexEventPricePercentage'', T_Percentage),
    (2229, ''LegComplexEventPriceBoundaryMethod'', T_int),
    (2230, ''LegComplexEventPriceBoundaryPrecision'', T_Percentage),
    (2231, ''LegComplexEventPriceTimeType'', T_int), (2232, ''LegComplexEventCondition'', T_int),
    (2233, ''LegComplexEventCurrencyOne'', T_Currency), (2234, ''LegComplexEventCurrencyTwo'', T_Currency),
    (2235, ''LegComplexEventQuoteBasis'', T_int), (2236, ''LegComplexEventFixedFXRate'', T_float),
    (2237, ''LegComplexEventDeterminationMethod'', T_String),
    (2238, ''LegComplexEventCalculationAgent'', T_int), (2239, ''LegComplexEventStrikePrice'', T_Price),
    (2240, ''LegComplexEventStrikeFactor'', T_float),
    (2241, ''LegComplexEventStrikeNumberOfOptions'', T_int),
    (2242, ''LegComplexEventCreditEventsXIDRef'', T_XIDREF),
    (2243, ''LegComplexEventCreditEventNotifyingParty'', T_int),
    (2244, ''LegComplexEventCreditEventBusinessCenter'', T_String),
    (2245, ''LegComplexEventCreditEventStandardSources'', T_Boolean),
    (2246, ''LegComplexEventCreditEventMinimumSources'', T_int),
    (2247, ''LegComplexEventEndTime'', T_UTCTimeOnly), (2248, ''LegComplexEventXID'', T_XID),
    (2249, ''LegComplexEventXIDRef'', T_XIDREF), (2250, ''NoLegComplexEventDates'', T_NumInGroup),
    (2251, ''LegComplexEventStartDate'', T_UTCDateOnly), (2252, ''LegComplexEventEndDate'', T_UTCDateOnly),
    (2253, ''NoLegComplexEventTimes'', T_NumInGroup), (2254, ''NoLegInstrumentParties'', T_NumInGroup),
    (2255, ''LegInstrumentPartyID'', T_String), (2256, ''LegInstrumentPartyIDSource'', T_char),
    (2257, ''LegInstrumentPartyRole'', T_int), (2258, ''NoLegInstrumentPartySubIDs'', T_NumInGroup),
    (2259, ''LegInstrumentPartySubID'', T_String), (2260, ''LegInstrumentPartySubIDType'', T_int),
    (2261, ''UnderlyingComplexOptPayoutPaySide'', T_int),
    (2262, ''UnderlyingComplexOptPayoutReceiveSide'', T_int),
    (2263, ''UnderlyingComplexOptPayoutUnderlier'', T_String),
    (2264, ''UnderlyingComplexOptPayoutPercentage'', T_Percentage),
    (2265, ''UnderlyingComplexOptPayoutTime'', T_int),
    (2266, ''UnderlyingComplexOptPayoutCurrency'', T_Currency),
    (2267, ''UnderlyingComplexEventPricePercentage'', T_Percentage),
    (2268, ''UnderlyingComplexEventCurrencyOne'', T_Currency),
    (2269, ''UnderlyingComplexEventCurrencyTwo'', T_Currency),
    (2270, ''UnderlyingComplexEventQuoteBasis'', T_int),
    (2271, ''UnderlyingComplexEventFixedFXRate'', T_float),
    (2272, ''UnderlyingComplexEventDeterminationMethod'', T_String),
    (2273, ''UnderlyingComplexEventCalculationAgent'', T_int),
    (2274, ''UnderlyingComplexEventStrikePrice'', T_Price),
    (2275, ''UnderlyingComplexEventStrikeFactor'', T_float),
    (2276, ''UnderlyingComplexEventStrikeNumberOfOptions'', T_int),
    (2277, ''UnderlyingComplexEventCreditEventsXIDRef'', T_XIDREF),
    (2278, ''UnderlyingComplexEventCreditEventNotifyingParty'', T_int),
    (2279, ''UnderlyingComplexEventCreditEventBusinessCenter'', T_String),
    (2280, ''UnderlyingComplexEventCreditEventStandardSources'', T_Boolean),
    (2281, ''UnderlyingComplexEventCreditEventMinimumSources'', T_int),
    (2282, ''UnderlyingComplexEventXID'', T_XID), (2283, ''UnderlyingComplexEventXIDRef'', T_XIDREF),
    (2284, ''UnderlyingSettlRateIndex'', T_String), (2285, ''UnderlyingSettlRateIndexLocation'', T_String),
    (2286, ''UnderlyingOptionExpirationDesc'', T_String),
    (2287, ''EncodedUnderlyingOptionExpirationDescLen'', T_Length),
    (2288, ''EncodedUnderlyingOptionExpirationDesc'', T_data), (2289, ''UnderlyingSwapSubClass'', T_String),
    (2290, ''UnderlyingStrikeUnitOfMeasure'', T_String), (2291, ''UnderlyingStrikeIndex'', T_String),
    (2292, ''UnderlyingStrikeIndexSpread'', T_PriceOffset), (2293, ''UnderlyingValuationSource'', T_String),
    (2294, ''UnderlyingValuationReferenceModel'', T_String), (2295, ''UnderlyingStrategyType'', T_String),
    (2296, ''UnderlyingCommonPricingIndicator'', T_Boolean),
    (2297, ''UnderlyingSettlDisruptionProvision'', T_int),
    (2298, ''UnderlyingInstrumentRoundingDirection'', T_char),
    (2299, ''UnderlyingInstrumentRoundingPrecision'', T_int), (2300, ''AllocGrossTradeAmt'', T_Amt),
    (2301, ''LastQtyChanged'', T_Qty)]"

definition tag_enum_16 :: "tag_table" where
  "tag_enum_16 = [
    (2302, ''TradeVersion'', T_String), (2303, ''HistoricalReportIndicator'', T_Boolean),
    (2304, ''NoAssetAttributes'', T_NumInGroup), (2305, ''AssetAttributeType'', T_String),
    (2306, ''AssetAttributeValue'', T_String), (2307, ''AssetAttributeLimit'', T_String),
    (2308, ''NoLegAssetAttributes'', T_NumInGroup), (2309, ''LegAssetAttributeType'', T_String),
    (2310, ''LegAssetAttributeValue'', T_String), (2311, ''LegAssetAttributeLimit'', T_String),
    (2312, ''NoUnderlyingAssetAttributes'', T_NumInGroup),
    (2313, ''UnderlyingAssetAttributeType'', T_String), (2314, ''UnderlyingAssetAttributeValue'', T_String),
    (2315, ''UnderlyingAssetAttributeLimit'', T_String), (2316, ''RiskLimitReportStatus'', T_int),
    (2317, ''RiskLimitReportRejectReason'', T_int), (2318, ''RiskLimitCheckRequestID'', T_String),
    (2319, ''RiskLimitCheckID'', T_String), (2320, ''RiskLimitCheckTransType'', T_int),
    (2321, ''RiskLimitCheckType'', T_int), (2322, ''RiskLimitCheckRequestRefID'', T_int),
    (2323, ''RiskLimitCheckRequestType'', T_int), (2324, ''RiskLimitCheckAmount'', T_Amt),
    (2325, ''RiskLimitCheckRequestStatus'', T_int), (2326, ''RiskLimitCheckRequestResult'', T_int),
    (2327, ''RiskLimitApprovedAmount'', T_Amt), (2328, ''PartyActionRequestID'', T_String),
    (2329, ''PartyActionType'', T_int), (2330, ''ApplTestMessageIndicator'', T_Boolean),
    (2331, ''PartyActionReportID'', T_String), (2332, ''PartyActionResponse'', T_int),
    (2333, ''PartyActionRejectReason'', T_int), (2334, ''RefRiskLimitCheckID'', T_String),
    (2335, ''RefRiskLimitCheckIDType'', T_int), (2336, ''RiskLimitVelocityPeriod'', T_int),
    (2337, ''RiskLimitVelocityUnit'', T_String), (2338, ''RequestingPartyRoleQualifier'', T_int),
    (2339, ''RiskLimitCheckModelType'', T_int), (2340, ''EventMonthYear'', T_MonthYear),
    (2341, ''LegEventMonthYear'', T_MonthYear), (2342, ''UnderlyingEventMonthYear'', T_MonthYear),
    (2343, ''RiskLimitCheckStatus'', T_int), (2344, ''SideRiskLimitCheckStatus'', T_int),
    (2345, ''NoEntitlementTypes'', T_NumInGroup), (2346, ''LegMidPx'', T_Price),
    (2347, ''RegulatoryTransactionType'', T_int), (2348, ''LegAssetGroup'', T_int),
    (2349, ''PricePrecision'', T_int), (2350, ''CollateralPortfolioID'', T_String),
    (2351, ''EncodedComplianceTextLen'', T_Length), (2352, ''EncodedComplianceText'', T_data),
    (2353, ''TradingUnitPeriodMultiplier'', T_int), (2354, ''LegTradingUnitPeriodMultiplier'', T_int),
    (2355, ''PartyRiskLimitStatus'', T_int), (2356, ''RemunerationIndicator'', T_int),
    (2357, ''LegTotalTradeQty'', T_Qty), (2358, ''LegLastMultipliedQty'', T_Qty),
    (2359, ''LegTotalGrossTradeAmt'', T_Amt), (2360, ''LegTotalTradeMultipliedQty'', T_Qty),
    (2361, ''CompressionGroupID'', T_String), (2362, ''SelfMatchPreventionID'', T_String),
    (2363, ''UnderlyingTradingUnitPeriodMultiplier'', T_int), (2364, ''PosReportAction'', T_int),
    (2365, ''SettlForwardPoints'', T_PriceOffset), (2366, ''SettlPriceFxRateCalc'', T_char),
    (2367, ''TotalTradeQty'', T_Qty), (2368, ''LastMultipliedQty'', T_Qty),
    (2369, ''TotalGrossTradeAmt'', T_Amt), (2370, ''TotalTradeMultipliedQty'', T_Qty),
    (2371, ''EncodedTradeContinuationText'', T_data), (2372, ''EncodedTradeContinuationTextLen'', T_Length),
    (2373, ''IntraFirmTradeIndicator'', T_Boolean), (2374, ''TradeContinuationText'', T_String),
    (2375, ''TaxonomyType'', T_char), (2376, ''PartyRoleQualifier'', T_int),
    (2377, ''DerivativeInstrumentPartyRoleQualifier'', T_int),
    (2378, ''InstrumentPartyRoleQualifier'', T_int), (2379, ''LegInstrumentPartyRoleQualifier'', T_int),
    (2380, ''LegProvisionPartyRoleQualifier'', T_int), (2381, ''Nested2PartyRoleQualifier'', T_int),
    (2382, ''Nested3PartyRoleQualifier'', T_int), (2383, ''Nested4PartyRoleQualifier'', T_int),
    (2384, ''NestedPartyRoleQualifier'', T_int), (2385, ''ProvisionPartyRoleQualifier'', T_int),
    (2386, ''RequestedPartyRoleQualifier'', T_int), (2387, ''TradeContingency'', T_int),
    (2388, ''RootPartyRoleQualifier'', T_int), (2389, ''SettlPartyRoleQualifier'', T_int),
    (2390, ''TradeConfirmationReferenceID'', T_String),
    (2391, ''UnderlyingInstrumentPartyRoleQualifier'', T_int),
    (2392, ''AllocRefRiskLimitCheckID'', T_String), (2393, ''AllocRefRiskLimitCheckIDType'', T_int),
    (2394, ''LimitUtilizationAmt'', T_Amt), (2395, ''LimitAmt'', T_Amt), (2396, ''LimitRole'', T_int),
    (2397, ''RegulatoryTradeIDScope'', T_int), (2398, ''SideRegulatoryTradeIDScope'', T_int),
    (2399, ''AllocRegulatoryTradeIDScope'', T_int), (2400, ''EffectiveBusinessDate'', T_LocalMktDate),
    (2401, ''ListManualOrderIndicator'', T_Boolean), (2402, ''EntitlementSubType'', T_int),
    (2403, ''QuoteModelType'', T_int), (2404, ''ComplianceText'', T_String), (2405, ''ExecMethod'', T_int),
    (2406, ''AllocRegulatoryLegRefID'', T_String), (2407, ''ComplexEventSpotRate'', T_Price),
    (2408, ''ComplexEventForwardPoints'', T_PriceOffset), (2409, ''LegComplexEventSpotRate'', T_Price),
    (2410, ''LegComplexEventForwardPoints'', T_PriceOffset), (2411, ''RegulatoryLegRefID'', T_String),
    (2412, ''RateSourceReferemcePageHeading'', T_String), (2413, ''RelatedToSecurityID'', T_String),
    (2414, ''RelatedToSecurityIDSource'', T_String), (2415, ''RelatedToStreamXIDRef'', T_XIDREF),
    (2416, ''SideRegulatoryLegRefID'', T_String), (2417, ''RelatedToDividendPeriodXIDRef'', T_XIDREF),
    (2418, ''FirmTradeEventID'', T_String), (2419, ''UnderlyingComplexEventSpotRate'', T_Price),
    (2420, ''UnderlyingComplexEventForwardPoints'', T_PriceOffset), (2421, ''FillRefID'', T_String),
    (2422, ''OrderRequestID'', T_int), (2423, ''MassOrderRequestID'', T_String),
    (2424, ''MassOrderReportID'', T_String), (2425, ''MassOrderRequestStatus'', T_int),
    (2426, ''MassOrderRequestResult'', T_int), (2427, ''OrderResponseLevel'', T_int),
    (2428, ''NoOrderEntries'', T_NumInGroup), (2429, ''OrderEntryAction'', T_char),
    (2430, ''OrderEntryID'', T_int), (2431, ''ExecTypeReason'', T_int), (2432, ''TotNoOrderEntries'', T_int),
    (2433, ''NoTargetPartySubIDs'', T_NumInGroup), (2434, ''TargetPartySubID'', T_String),
    (2435, ''TargetPartySubIDType'', T_int), (2436, ''TransferInstructionID'', T_String),
    (2437, ''TransferID'', T_String), (2438, ''TransferReportID'', T_String),
    (2439, ''TransferTransType'', T_int), (2440, ''TransferType'', T_int), (2441, ''TransferScope'', T_int),
    (2442, ''TransferStatus'', T_int), (2443, ''TransferRejectReason'', T_int),
    (2444, ''TransferReportType'', T_int), (2445, ''AggressorTime'', T_UTCTimestamp),
    (2446, ''AggressorSide'', T_char), (2447, ''FastMarketIndicator'', T_Boolean),
    (2448, ''LinkageHandlingIndicator'', T_Boolean), (2449, ''NumberOfBuyOrders'', T_int),
    (2450, ''NumberOfSellOrders'', T_int), (2451, ''SettlPriceDeterminationMethod'', T_int)]"

definition tag_enum_17 :: "tag_table" where
  "tag_enum_17 = [
    (2452, ''MDStatisticReqID'', T_String), (2453, ''MDStatisticRptID'', T_String),
    (2454, ''MDStatisticName'', T_String), (2455, ''MDStatisticDesc'', T_String),
    (2456, ''MDStatisticType'', T_int), (2457, ''MDStatisticScope'', T_int),
    (2458, ''MDStatisticSubScope'', T_int), (2459, ''MDStatisticScopeType'', T_int),
    (2460, ''MDStatisticFrequencyPeriod'', T_int), (2461, ''MDStatisticFrequencyUnit'', T_int),
    (2462, ''MDStatisticDelayPeriod'', T_int), (2463, ''MDStatisticDelayUnit'', T_int),
    (2464, ''MDStatisticIntervalType'', T_int), (2465, ''MDStatisticIntervalTypeUnit'', T_String),
    (2466, ''MDStatisticIntervalPeriod'', T_int), (2467, ''MDStatisticIntervalUnit'', T_int),
    (2468, ''MDStatisticStartDate'', T_UTCTimestamp), (2469, ''MDStatisticEndDate'', T_UTCTimestamp),
    (2470, ''MDStatisticStartTime'', T_UTCTimeOnly), (2471, ''MDStatisticEndTime'', T_UTCTimeOnly),
    (2472, ''MDStatisticRatioType'', T_int), (2473, ''MDStatisticRequestResult'', T_int),
    (2474, ''NoMDStatistics'', T_NumInGroup), (2475, ''MDStatisticID'', T_String),
    (2476, ''MDStatisticTime'', T_UTCTimestamp), (2477, ''MDStatisticStatus'', T_int),
    (2478, ''MDStatisticValue'', T_float), (2479, ''MDStatisticValueType'', T_int),
    (2480, ''MDStatisticValueUnit'', T_int), (2481, ''EncodedMDStatisticDescLen'', T_Length),
    (2482, ''EncodedMDStatisticDesc'', T_data), (2483, ''AllocRiskLimitCheckStatus'', T_int),
    (2484, ''FirmTransactionID'', T_String), (2485, ''TransactionID'', T_String),
    (2486, ''WireReference'', T_String), (2487, ''CollRptRejectReason'', T_int),
    (2488, ''CollRptStatus'', T_int), (2489, ''PackageID'', T_String), (2490, ''TradeNumber'', T_int),
    (2491, ''UnderlyingAssetGroup'', T_int), (2492, ''LegDifferentialPrice'', T_PriceOffset),
    (2493, ''EncodedLegDocumentationText'', T_data), (2494, ''EncodedLegDocumentationTextLen'', T_Length),
    (2495, ''LegAgreementCurrency'', T_Currency), (2496, ''LegAgreementDate'', T_LocalMktDate),
    (2497, ''LegAgreementDesc'', T_String), (2498, ''LegAgreementID'', T_String),
    (2499, ''LegAgreementVersion'', T_String), (2500, ''LegBrokerConfirmationDesc'', T_String),
    (2501, ''LegCreditSupportAgreementDate'', T_LocalMktDate),
    (2502, ''LegCreditSupportAgreementDesc'', T_String), (2503, ''LegCreditSupportAgreementID'', T_String),
    (2504, ''LegDeliveryType'', T_int), (2505, ''LegDocumentationText'', T_String),
    (2506, ''LegEndDate'', T_LocalMktDate), (2507, ''LegGoverningLaw'', T_String),
    (2508, ''LegMarginRatio'', T_Percentage), (2509, ''LegMasterConfirmationAnnexDate'', T_LocalMktDate),
    (2510, ''LegMasterConfirmationDate'', T_LocalMktDate), (2511, ''LegMasterConfirmationDesc'', T_String),
    (2512, ''LegMasterConfirmationAnnexDesc'', T_String), (2513, ''LegStartDate'', T_LocalMktDate),
    (2514, ''LegTerminationType'', T_int), (2515, ''AllocCalculatedCcyQty'', T_Qty),
    (2516, ''CollateralRequestInstruction'', T_String), (2517, ''CollateralRequestLinkID'', T_String),
    (2518, ''CollateralRequestNumber'', T_int), (2519, ''TotNumCollateralRequests'', T_int),
    (2520, ''WarningText'', T_String), (2521, ''EncodedWarningText'', T_data),
    (2522, ''EncodedWarningTextLen'', T_Length), (2523, ''CrossedIndicator'', T_int),
    (2524, ''TradeReportingIndicator'', T_int), (2525, ''AffiliatedFirmsTradeIndicator'', T_Boolean),
    (2526, ''InternationalSwapIndicator'', T_Boolean), (2527, ''MultiAssetSwapIndicator'', T_Boolean),
    (2528, ''ClearingSettlPrice'', T_Price), (2529, ''NoRelativeValues'', T_NumInGroup),
    (2530, ''RelativeValueType'', T_int), (2531, ''RelativeValue'', T_float),
    (2532, ''RelativeValueSide'', T_int), (2533, ''BidSpread'', T_float), (2534, ''OfferSpread'', T_float),
    (2535, ''MDReportEvent'', T_int), (2536, ''MDReportCount'', T_int),
    (2537, ''TotNoMarketSegmentReports'', T_int), (2538, ''TotNoInstrumentReports'', T_int),
    (2539, ''TotNoPartyDetailReports'', T_int), (2540, ''TotNoEntitlementReports'', T_int),
    (2541, ''TotNoRiskLimitReports'', T_int), (2542, ''MarketSegmentStatus'', T_int),
    (2543, ''MarketSegmentType'', T_int), (2544, ''MarketSegmentSubType'', T_int),
    (2545, ''NoRelatedMarketSegments'', T_NumInGroup), (2546, ''RelatedMarketSegmentID'', T_String),
    (2547, ''MarketSegmentRelationship'', T_int), (2548, ''NoAuctionTypeRules'', T_NumInGroup),
    (2549, ''AuctionTypeProductComplex'', T_String), (2550, ''NoPriceRangeRules'', T_NumInGroup),
    (2551, ''StartPriceRange'', T_Price), (2552, ''EndPriceRange'', T_Price),
    (2553, ''PriceRangeValue'', T_Price), (2554, ''PriceRangePercentage'', T_Percentage),
    (2555, ''PriceRangeProductComplex'', T_String), (2556, ''PriceRangeRuleID'', T_String),
    (2557, ''FastMarketPercentage'', T_Percentage), (2558, ''NoQuoteSizeRules'', T_NumInGroup),
    (2559, ''QuoteSideIndicator'', T_Boolean), (2560, ''NoFlexProductEligibilities'', T_NumInGroup),
    (2561, ''FlexProductEligibilityComplex'', T_String), (2562, ''NumOfComplexInstruments'', T_int),
    (2563, ''MarketDepthTimeInterval'', T_int), (2564, ''MarketDepthTimeIntervalUnit'', T_int),
    (2565, ''MDRecoveryTimeInterval'', T_int), (2566, ''MDRecoveryTimeIntervalUnit'', T_int),
    (2567, ''PrimaryServiceLocationID'', T_String), (2568, ''SecondaryServiceLocationID'', T_String),
    (2569, ''MatchRuleProductComplex'', T_String), (2570, ''CustomerPriority'', T_int),
    (2571, ''TickRuleProductComplex'', T_String), (2572, ''PreviousAdjustedOpenInterest'', T_Amt),
    (2573, ''PreviousUnadjustedOpenInterest'', T_Amt),
    (2574, ''LowExercisePriceOptionIndicator'', T_Boolean),
    (2575, ''BlockTradeEligibilityIndicator'', T_Boolean), (2576, ''InstrumentPricePrecision'', T_int),
    (2577, ''StrikePricePrecision'', T_int), (2578, ''OrigStrikePrice'', T_Price),
    (2579, ''SettlSubMethod'', T_int), (2580, ''NoClearingPriceParameters'', T_NumInGroup),
    (2581, ''BusinessDayType'', T_int), (2582, ''ClearingPriceOffset'', T_PriceOffset),
    (2583, ''VegaMultiplier'', T_float), (2584, ''AnnualTradingBusinessDays'', T_int),
    (2585, ''TotalTradingBusinessDays'', T_int), (2586, ''TradingBusinessDays'', T_int),
    (2587, ''RealizedVariance'', T_float), (2588, ''StandardVariance'', T_float),
    (2589, ''RelatedClosePrice'', T_Price), (2590, ''OvernightInterestRate'', T_float),
    (2591, ''AccumulatedReturnModifiedVariationMargin'', T_float), (2592, ''CalculationMethod'', T_int),
    (2593, ''NoOrderAttributes'', T_NumInGroup), (2594, ''OrderAttributeType'', T_int),
    (2595, ''OrderAttributeValue'', T_String), (2596, ''DeltaCrossed'', T_Boolean),
    (2597, ''ComplexEventFuturesPriceValuation'', T_Boolean),
    (2598, ''ComplexEventOptionsPriceValuation'', T_Boolean),
    (2599, ''ComplexEventPVFinalPriceElectionFallback'', T_int), (2600, ''StrikeIndexCurvePoint'', T_String),
    (2601, ''StrikeIndexQuote'', T_int)]"

definition tag_enum_18 :: "tag_table" where
  "tag_enum_18 = [
    (2602, ''ExtraordinaryEventAdjustmentMethod'', T_int), (2603, ''ExchangeLookAlike'', T_Boolean),
    (2604, ''LegStrikeIndexCurvePoint'', T_String), (2605, ''LegStrikeIndexQuote'', T_int),
    (2606, ''LegExtraordinaryEventAdjustmentMethod'', T_int), (2607, ''LegExchangeLookAlike'', T_Boolean),
    (2608, ''LegComplexEventFuturesPriceValuation'', T_Boolean),
    (2609, ''LegComplexEventOptionsPriceValuation'', T_Boolean),
    (2610, ''LegComplexEventPVFinalPriceElectionFallback'', T_int),
    (2611, ''UnderlyingComplexEventFuturesPriceValuation'', T_Boolean),
    (2612, ''UnderlyingComplexEventOptionsPriceValuation'', T_Boolean),
    (2613, ''UnderlyingComplexEventPVFinalPriceElectionFallback'', T_int),
    (2614, ''UnderlyingNotional'', T_Amt), (2615, ''UnderlyingNotionalCurrency'', T_Currency),
    (2616, ''UnderlyingNotionalDeterminationMethod'', T_String),
    (2617, ''UnderlyingNotionalAdjustments'', T_int), (2618, ''PositionID'', T_String),
    (2619, ''UnderlyingNotionalXIDRef'', T_XIDREF), (2620, ''UnderlyingFutureID'', T_String),
    (2621, ''UnderlyingFutureIDSource'', T_String), (2622, ''UnderlyingStrikeIndexCurvePoint'', T_String),
    (2623, ''UnderlyingStrikeIndexQuote'', T_int),
    (2624, ''UnderlyingExtraordinaryEventAdjustmentMethod'', T_int),
    (2625, ''UnderlyingExchangeLookAlike'', T_Boolean),
    (2626, ''UnderlyingAverageVolumeLimitationPercentage'', T_Amt),
    (2627, ''UnderlyingAverageVolumeLimitationPeriodDays'', T_int),
    (2628, ''UnderlyingDepositoryReceiptIndicator'', T_Boolean), (2629, ''UnderlyingOpenUnits'', T_Qty),
    (2630, ''UnderlyingBasketDivisor'', T_float), (2631, ''UnderlyingInstrumentXID'', T_XID),
    (2632, ''CollateralAmountType'', T_int), (2633, ''NoMiscFeeSubTypes'', T_NumInGroup),
    (2634, ''MiscFeeSubType'', T_String), (2635, ''MiscFeeSubTypeAmt'', T_Amt),
    (2636, ''MiscFeeSubTypeDesc'', T_String), (2637, ''EncodedMiscFeeSubTypeDescLen'', T_Length),
    (2638, ''EncodedMiscFeeSubTypeDesc'', T_data), (2639, ''NoCommissions'', T_NumInGroup),
    (2640, ''CommissionAmount'', T_Amt), (2641, ''CommissionAmountType'', T_int),
    (2642, ''CommissionBasis'', T_char), (2643, ''CommissionCurrency'', T_Currency),
    (2644, ''CommissionUnitOfMeasure'', T_String), (2645, ''CommissionUnitOfMeasureCurrency'', T_Currency),
    (2646, ''CommissionRate'', T_float), (2647, ''CommissionSharedIndicator'', T_Boolean),
    (2648, ''CommissionAmountShared'', T_Amt), (2649, ''CommissionLegRefID'', T_String),
    (2650, ''CommissionDesc'', T_String), (2651, ''EncodedCommissionDescLen'', T_Length),
    (2652, ''EncodedCommissionDesc'', T_data), (2653, ''NoAllocCommissions'', T_NumInGroup),
    (2654, ''AllocCommissionAmount'', T_Amt), (2655, ''AllocCommissionAmountType'', T_int),
    (2656, ''AllocCommissionBasis'', T_char), (2657, ''AllocCommissionCurrency'', T_Currency),
    (2658, ''AllocCommissionUnitOfMeasure'', T_String),
    (2659, ''AllocCommissionUnitOfMeasureCurrency'', T_Currency), (2660, ''AllocCommissionRate'', T_float),
    (2661, ''AllocCommissionSharedIndicator'', T_Boolean), (2662, ''AllocCommissionAmountShared'', T_Amt),
    (2663, ''AllocCommissionLegRefID'', T_String), (2664, ''AllocCommissionDesc'', T_String),
    (2665, ''EncodedAllocCommissionDescLen'', T_Length), (2666, ''EncodedAllocCommissionDesc'', T_data),
    (2667, ''AlgorithmicTradeIndicator'', T_int), (2668, ''NoTrdRegPublications'', T_NumInGroup),
    (2669, ''TrdRegPublicationType'', T_int), (2670, ''TrdRegPublicationReason'', T_int),
    (2671, ''SideTradeReportingIndicator'', T_int), (2672, ''CrossRequestID'', T_String),
    (2673, ''FillMatchID'', T_String), (2674, ''FillMatchSubID'', T_String),
    (2675, ''MassActionReason'', T_int), (2676, ''MaximumPriceDeviation'', T_Percentage),
    (2677, ''NotAffectedReason'', T_int), (2678, ''TotalNotAffectedOrders'', T_int),
    (2679, ''OrderOwnershipIndicator'', T_int), (2680, ''LegAccount'', T_String),
    (2681, ''InTheMoneyCondition'', T_int), (2682, ''LegInTheMoneyCondition'', T_int),
    (2683, ''UnderlyingInTheMoneyCondition'', T_int), (2684, ''DerivativeInTheMoneyCondition'', T_int),
    (2685, ''ContraryInstructionEligibilityIndicator'', T_Boolean),
    (2686, ''LegContraryInstructionEligibilityIndicator'', T_Boolean),
    (2687, ''UnderlyingContraryInstructionEligibilityIndicator'', T_Boolean),
    (2688, ''DerivativeContraryInstructionEligibilityIndicator'', T_Boolean),
    (2689, ''CollateralMarketPrice'', T_Price), (2690, ''CollateralPercentOverage'', T_Percentage),
    (2691, ''NoSideCollateralAmounts'', T_NumInGroup), (2692, ''SideCollateralAmountMarketID'', T_String),
    (2693, ''SideCollateralAmountMarketSegmentID'', T_String), (2694, ''SideCollateralAmountType'', T_int),
    (2695, ''SideCollateralCurrency'', T_Currency), (2696, ''SideCollateralFXRate'', T_float),
    (2697, ''SideCollateralFXRateCalc'', T_char), (2698, ''SideCollateralMarketPrice'', T_Price),
    (2699, ''SideCollateralPercentOverage'', T_Percentage), (2700, ''SideCollateralPortfolioID'', T_String),
    (2701, ''SideCollateralType'', T_String), (2702, ''SideCurrentCollateralAmount'', T_Amt),
    (2703, ''SideHaircutIndicator'', T_Boolean), (2704, ''ExDestinationType'', T_int),
    (2705, ''MarketCondition'', T_int), (2706, ''NoQuoteAttributes'', T_NumInGroup),
    (2707, ''QuoteAttributeType'', T_int), (2708, ''QuoteAttributeValue'', T_String),
    (2709, ''NoPriceQualifiers'', T_NumInGroup), (2710, ''PriceQualifier'', T_int),
    (2711, ''MDValueTier'', T_int), (2712, ''MiscFeeQualifier'', T_int), (2713, ''MiscFeeDesc'', T_String),
    (2714, ''FinancialInstrumentFullName'', T_String),
    (2715, ''EncodedFinancialInstrumentFullNameLen'', T_Length),
    (2716, ''EncodedFinancialInstrumentFullName'', T_data),
    (2717, ''LegFinancialInstrumentFullName'', T_String),
    (2718, ''EncodedLegFinancialInstrumentFullNameLen'', T_Length),
    (2719, ''EncodedLegFinancialInstrumentFullName'', T_data),
    (2720, ''UnderlyingFinancialInstrumentFullName'', T_String),
    (2721, ''EncodedUnderlyingFinancialInstrumentFullNameLen'', T_Length),
    (2722, ''EncodedUnderlyingFinancialInstrumentFullName'', T_data),
    (2723, ''UnderlyingIndexCurveUnit'', T_String), (2724, ''UnderlyingIndexCurvePeriod'', T_int),
    (2725, ''CommissionAmountSubType'', T_int), (2726, ''AllocCommissionAmountSubType'', T_int),
    (2727, ''AllocLegRefID'', T_String), (2728, ''FloatingRateIndexCurvePeriod'', T_int),
    (2729, ''FloatingRateIndexCurveSpread'', T_PriceOffset),
    (2730, ''FloatingRateIndexCurveUnit'', T_String), (2731, ''FloatingRateIndexID'', T_String),
    (2732, ''FloatingRateIndexIDSource'', T_String), (2733, ''IndexRollMonth'', T_String),
    (2734, ''NoIndexRollMonths'', T_NumInGroup), (2735, ''AssetSubType'', T_String),
    (2736, ''CommodityFinalPriceType'', T_int), (2737, ''FinancialInstrumentShortName'', T_String),
    (2738, ''NextIndexRollDate'', T_LocalMktDate), (2739, ''LegAssetSubType'', T_String),
    (2740, ''LegFinancialInstrumentShortName'', T_String), (2741, ''SecondaryAssetSubType'', T_String),
    (2742, ''UnderlyingFinancialInstrumentShortName'', T_String),
    (2743, ''LegSecondaryAssetSubType'', T_String), (2744, ''UnderlyingAssetSubType'', T_String),
    (2745, ''UnderlyingSecondaryAssetSubType'', T_String), (2746, ''NoReferenceDataDates'', T_NumInGroup),
    (2747, ''ReferenceDataDate'', T_UTCTimestamp), (2748, ''ReferenceDataDateType'', T_int),
    (2749, ''ExecutionTimestamp'', T_UTCTimestamp), (2750, ''ReportingPx'', T_Price),
    (2751, ''ReportingQty'', T_Qty)]"

definition tag_enum_19 :: "tag_table" where
  "tag_enum_19 = [
    (2752, ''DeliveryRouteOrCharter'', T_String), (2753, ''ReturnTrigger'', T_int),
    (2754, ''LegDeliveryRouteOrCharter'', T_String), (2755, ''LegReturnTrigger'', T_int),
    (2756, ''UnderlyingDeliveryRouteOrCharter'', T_String), (2757, ''UnderlyingReturnTrigger'', T_int),
    (2758, ''AllocRequestID'', T_String), (2759, ''GroupAmount'', T_Amt),
    (2760, ''GroupRemainingAmount'', T_Amt), (2761, ''AllocGroupAmount'', T_Amt),
    (2762, ''PriceMarkup'', T_PriceOffset), (2763, ''AveragePriceType'', T_int),
    (2764, ''AveragePriceStartTime'', T_UTCTimestamp), (2765, ''AveragePriceEndTime'', T_UTCTimestamp),
    (2766, ''OrderPercentOfTotalVolume'', T_Percentage), (2767, ''AllocGroupStatus'', T_int),
    (2768, ''AllocRequestStatus'', T_int), (2769, ''AllocAvgPxIndicator'', T_int),
    (2770, ''AllocAvgPxGroupID'', T_String), (2771, ''PreviousAllocGroupID'', T_String),
    (2772, ''NoMatchExceptions'', T_NumInGroup), (2773, ''MatchExceptionType'', T_int),
    (2774, ''MatchExceptionElementType'', T_int), (2775, ''MatchExceptionElementName'', T_String),
    (2776, ''MatchExceptionAllocValue'', T_String), (2777, ''MatchExceptionConfirmValue'', T_String),
    (2778, ''MatchExceptionToleranceValue'', T_float), (2779, ''MatchExceptionToleranceValueType'', T_int),
    (2780, ''MatchExceptionText'', T_String), (2781, ''NoMatchingDataPoints'', T_NumInGroup),
    (2782, ''MatchingDataPointIndicator'', T_int), (2783, ''MatchingDataPointValue'', T_String),
    (2784, ''MatchingDataPointType'', T_int), (2785, ''MatchingDataPointName'', T_String),
    (2786, ''TradeAggregationRequestID'', T_String), (2787, ''TradeAggregationRequestRefID'', T_String),
    (2788, ''TradeAggregationTransType'', T_int), (2789, ''AggregatedQty'', T_Qty),
    (2790, ''TradeAggregationRequestStatus'', T_int), (2791, ''TradeAggregationRejectReason'', T_int),
    (2792, ''TradeAggregationReportID'', T_String), (2793, ''AvgSpotRate'', T_Price),
    (2794, ''AvgForwardPoints'', T_PriceOffset), (2795, ''OffshoreIndicator'', T_int),
    (2796, ''FXBenchmarkRateFix'', T_String), (2797, ''EncodedMatchExceptionTextLen'', T_Length),
    (2798, ''EncodedMatchExceptionText'', T_data), (2799, ''PayReportID'', T_String),
    (2800, ''PayDisputeReason'', T_int), (2801, ''EncodedReplaceText'', T_data),
    (2802, ''EncodedReplaceTextLen'', T_Length), (2803, ''PayReportRefID'', T_String),
    (2804, ''PayReportTransType'', T_int), (2805, ''ReplaceText'', T_String),
    (2806, ''PayReportStatus'', T_int), (2807, ''CancelText'', T_String),
    (2808, ''EncodedCancelText'', T_data), (2809, ''EncodedCancelTextLen'', T_Length),
    (2810, ''PayRequestRefID'', T_String), (2811, ''PayRequestTransType'', T_int),
    (2812, ''PayRequestID'', T_String), (2813, ''PayRequestStatus'', T_int),
    (2814, ''EncodedPostTradePaymentDesc'', T_data), (2815, ''EncodedPostTradePaymentDescLen'', T_Length),
    (2816, ''PostTradePaymentAccount'', T_String), (2817, ''PostTradePaymentAmount'', T_Amt),
    (2818, ''PostTradePaymentCurrency'', T_Currency), (2819, ''PostTradePaymentDebitOrCredit'', T_int),
    (2820, ''PostTradePaymentDesc'', T_String), (2821, ''PostTradePaymentID'', T_String),
    (2822, ''PostTradePaymentLinkID'', T_String), (2823, ''PostTradePaymentStatus'', T_int),
    (2824, ''PostTradePaymentType'', T_String), (2825, ''PostTradePaymentCalculationDate'', T_LocalMktDate),
    (2826, ''PostTradePaymentValueDate'', T_LocalMktDate),
    (2827, ''PostTradePaymentFinalValueDate'', T_LocalMktDate), (2828, ''CurrentDisplayPrice'', T_Price),
    (2829, ''DuplicateClOrdIDIndicator'', T_Boolean), (2830, ''EventInitiatorType'', T_char),
    (2831, ''NBBOEntryType'', T_int), (2832, ''NBBOPrice'', T_Price), (2833, ''NBBOQty'', T_Qty),
    (2834, ''NBBOSource'', T_int), (2835, ''OrderOriginationFirmID'', T_String),
    (2836, ''RelatedOrderTime'', T_UTCTimestamp), (2837, ''SingleQuoteIndicator'', T_Boolean),
    (2838, ''CurrentWorkingPrice'', T_Price), (2839, ''TrdRegTimestampManualIndicator'', T_Boolean),
    (2840, ''CollateralReinvestmentRate'', T_Percentage), (2841, ''UnderlyingRefID'', T_String),
    (2842, ''CollateralReinvestmentAmount'', T_Amt), (2843, ''CollateralReinvestmentCurrency'', T_Currency),
    (2844, ''CollateralReinvestmentType'', T_int), (2845, ''NoCollateralReinvestments'', T_NumInGroup),
    (2846, ''FundingSource'', T_int), (2847, ''FundingSourceCurrency'', T_Currency),
    (2848, ''FundingSourceMarketValue'', T_Amt), (2849, ''NoFundingSources'', T_NumInGroup),
    (2851, ''MarginDirection'', T_int), (2862, ''SideCollateralReinvestmentRate'', T_Percentage),
    (2863, ''SideUnderlyingRefID'', T_String), (2864, ''NoSideCollateralReinvestments'', T_NumInGroup),
    (2865, ''SideCollateralReinvestmentAmount'', T_Amt),
    (2866, ''SideCollateralReinvestmentCurrency'', T_Currency),
    (2867, ''SideCollateralReinvestmentType'', T_int),
    (2868, ''CollateralizationValueDate'', T_LocalMktDate),
    (2869, ''RegulatoryReportTypeBusinessDate'', T_LocalMktDate), (2870, ''ClearingPortfolioID'', T_String),
    (2871, ''NoTransactionAttributes'', T_NumInGroup), (2872, ''TransactionAttributeType'', T_int),
    (2873, ''TransactionAttributeValue'', T_String), (2874, ''UnderlyingID'', T_String),
    (2876, ''PosAmtPrice'', T_Price), (2877, ''PosAmtPriceType'', T_int),
    (2878, ''TerminationDate'', T_LocalMktDate), (2879, ''CouponOtherDayCount'', T_String),
    (2880, ''LegCouponOtherDayCount'', T_String), (2881, ''UnderlyingCouponOtherDayCount'', T_String),
    (2882, ''ContraOrderOrigination'', T_int), (2883, ''RoutingArrangmentIndicator'', T_int),
    (2884, ''ContraRoutingArrangmentIndicator'', T_int), (2885, ''UnderlyingAccruedInterestAmt'', T_Amt),
    (2886, ''UnderlyingNumDaysInterest'', T_int), (2887, ''RelatedOrderID'', T_String),
    (2888, ''RelatedOrderIDSource'', T_int), (2889, ''RelatedOrderQty'', T_Qty),
    (2890, ''OrderRelationship'', T_int), (2891, ''UPICode'', T_String),
    (2892, ''DerivativeUPICode'', T_String), (2893, ''LegUPICode'', T_String),
    (2894, ''UnderlyingUPICode'', T_String), (2895, ''InstrumentScopeUPICode'', T_String),
    (2896, ''TertiaryTrdType'', T_int), (2897, ''CurrencyCodeSource'', T_String),
    (2898, ''LegCurrencyCodeSource'', T_String), (2899, ''SettlCurrencyCodeSource'', T_String),
    (2900, ''LegSettlCurrencyCodeSource'', T_String), (2901, ''SideCurrencyCodeSource'', T_String),
    (2902, ''SideSettlCurrencyCodeSource'', T_String),
    (2903, ''SettlementAmountCurrencyCodeSource'', T_String), (2904, ''StrikeCurrencyCodeSource'', T_String),
    (2905, ''UnitOfMeasureCurrencyCodeSource'', T_String),
    (2906, ''PriceUnitOfMeasureCurrencyCodeSource'', T_String),
    (2907, ''PriceQuoteCurrencyCodeSource'', T_String), (2908, ''LegStrikeCurrencyCodeSource'', T_String),
    (2909, ''LegUnitOfMeasureCurrencyCodeSource'', T_String),
    (2910, ''LegPriceUnitOfMeasureCurrencyCodeSource'', T_String),
    (2911, ''LegPriceQuoteCurrencyCodeSource'', T_String),
    (2912, ''DerivativeStrikeCurrencyCodeSource'', T_String),
    (2913, ''DerivativeUnitOfMeasureCurrencyCodeSource'', T_String)]"

definition tag_enum_20 :: "tag_table" where
  "tag_enum_20 = [
    (2914, ''DerivativePriceUnitOfMeasureCurrencyCodeSource'', T_String),
    (2915, ''DerivativePriceQuoteCurrencyCodeSource'', T_String),
    (2916, ''UnderlyingCurrencyCodeSource'', T_String),
    (2917, ''UnderlyingStrikeCurrencyCodeSource'', T_String),
    (2918, ''UnderlyingUnitOfMeasureCurrencyCodeSource'', T_String),
    (2919, ''UnderlyingPriceUnitOfMeasureCurrencyCodeSource'', T_String),
    (2920, ''UnderlyingPriceQuoteCurrencyCodeSource'', T_String),
    (2921, ''UnderlyingNotionalCurrencyCodeSource'', T_String), (2922, ''CommCurrencyCodeSource'', T_String),
    (2923, ''CommissionCurrencyCodeSource'', T_String),
    (2924, ''CommissionUnitOfMeasureCurrencyCodeSource'', T_String),
    (2925, ''AllocCommissionCurrencyCodeSource'', T_String),
    (2926, ''AllocCommissionUnitOfMeasureCurrencyCodeSource'', T_String),
    (2927, ''AllocSettlCurrencyCodeSource'', T_String),
    (2928, ''LegAllocSettlCurrencyCodeSource'', T_String),
    (2929, ''CollateralCurrencyCodeSource'', T_String),
    (2930, ''SideCollateralCurrencyCodeSource'', T_String),
    (2931, ''CollateralReinvestmentCurrencyCodeSource'', T_String),
    (2932, ''SideCollateralReinvestmentCurrencyCodeSource'', T_String),
    (2933, ''TradeAllocCurrencyCodeSource'', T_String), (2934, ''TradingCurrencyCodeSource'', T_String),
    (2935, ''LimitAmtCurrencyCodeSource'', T_String),
    (2936, ''PosQtyUnitOfMeasureCurrencyCodeSource'', T_String),
    (2937, ''PositionCurrencyCodeSource'', T_String), (2938, ''LegPosCurrencyCodeSource'', T_String),
    (2939, ''RiskLimitCurrencyCodeSource'', T_String),
    (2940, ''EntitlementAttribCurrencyCodeSource'', T_String),
    (2941, ''ComplexOptPayoutCurrencyCodeSource'', T_String),
    (2942, ''ComplexEventCurrencyOneCodeSource'', T_String),
    (2943, ''ComplexEventCurrencyTwoCodeSource'', T_String),
    (2944, ''LegComplexOptPayoutCurrencyCodeSource'', T_String),
    (2945, ''LegComplexEventCurrencyOneCodeSource'', T_String),
    (2946, ''LegComplexEventCurrencyTwoCodeSource'', T_String),
    (2947, ''UnderlyingComplexOptPayoutCurrencyCodeSource'', T_String),
    (2948, ''UnderlyingComplexEventCurrencyOneCodeSource'', T_String),
    (2949, ''UnderlyingComplexEventCurrencyTwoCodeSource'', T_String),
    (2950, ''BenchmarkCurveCurrencyCodeSource'', T_String),
    (2951, ''LegBenchmarkCurveCurrencyCodeSource'', T_String),
    (2952, ''AgreementCurrencyCodeSource'', T_String), (2953, ''LegAgreementCurrencyCodeSource'', T_String),
    (2954, ''FundingSourceCurrencyCodeSource'', T_String),
    (2955, ''PayCollectCurrencyCodeSource'', T_String),
    (2956, ''PostTradePaymentCurrencyCodeSource'', T_String), (2957, ''SymbolPositionNumber'', T_int),
    (2958, ''LegSymbolPositionNumber'', T_int), (2959, ''UnderlyingSymbolPositionNumber'', T_int),
    (2960, ''SettlPriceUnitOfMeasureCurrencyCodeSource'', T_String),
    (2961, ''AnonymousTradeIndicator'', T_Boolean), (2962, ''SecurityReferenceDataSupplement'', T_String),
    (2963, ''MultiJurisdictionReportingIndicator'', T_int),
    (2964, ''SelfMatchPreventionInstruction'', T_int), (40000, ''NoAdditionalTermBondRefs'', T_NumInGroup),
    (40001, ''AdditionalTermBondSecurityID'', T_String),
    (40002, ''AdditionalTermBondSecurityIDSource'', T_String), (40003, ''AdditionalTermBondDesc'', T_String),
    (40004, ''EncodedAdditionalTermBondDescLen'', T_Length),
    (40005, ''EncodedAdditionalTermBondDesc'', T_data), (40006, ''AdditionalTermBondCurrency'', T_Currency),
    (40007, ''AdditionalTermBondIssuer'', T_String),
    (40008, ''EncodedAdditionalTermBondIssuerLen'', T_Length),
    (40009, ''EncodedAdditionalTermBondIssuer'', T_data), (40010, ''AdditionalTermBondSeniority'', T_String),
    (40011, ''AdditionalTermBondCouponType'', T_int),
    (40012, ''AdditionalTermBondCouponRate'', T_Percentage),
    (40013, ''AdditionalTermBondMaturityDate'', T_LocalMktDate),
    (40014, ''AdditionalTermBondParValue'', T_Amt),
    (40015, ''AdditionalTermBondCurrentTotalIssuedAmount'', T_Amt),
    (40016, ''AdditionalTermBondCouponFrequencyPeriod'', T_int),
    (40017, ''AdditionalTermBondCouponFrequencyUnit'', T_String),
    (40018, ''AdditionalTermBondDayCount'', T_int), (40019, ''NoAdditionalTerms'', T_NumInGroup),
    (40020, ''AdditionalTermConditionPrecedentBondIndicator'', T_Boolean),
    (40021, ''AdditionalTermDiscrepancyClauseIndicator'', T_Boolean),
    (40022, ''NoCashSettlTerms'', T_NumInGroup), (40023, ''CashSettlCurrency'', T_Currency),
    (40024, ''CashSettlValuationFirstBusinessDayOffset'', T_int),
    (40025, ''CashSettlValuationTime'', T_LocalMktTime), (40026, ''CashSettlBusinessCenter'', T_String),
    (40027, ''CashSettlQuoteMethod'', T_int), (40028, ''CashSettlQuoteAmount'', T_Amt),
    (40029, ''CashSettlQuoteCurrency'', T_Currency), (40030, ''CashSettlMinimumQuoteAmount'', T_Amt),
    (40031, ''CashSettlMinimumQuoteCurrency'', T_Currency), (40032, ''CashSettlDealer'', T_String),
    (40033, ''CashSettlBusinessDays'', T_int), (40034, ''CashSettlAmount'', T_Amt),
    (40035, ''CashSettlRecoveryFactor'', T_float), (40036, ''CashSettlFixedTermIndicator'', T_Boolean),
    (40037, ''CashSettlAccruedInterestIndicator'', T_Boolean), (40038, ''CashSettlValuationMethod'', T_int),
    (40039, ''CashSettlTermXID'', T_XID), (40040, ''NoContractualDefinitions'', T_NumInGroup),
    (40041, ''ContractualDefinition'', T_String), (40042, ''NoContractualMatrices'', T_NumInGroup),
    (40043, ''ContractualMatrixSource'', T_String), (40044, ''ContractualMatrixDate'', T_LocalMktDate),
    (40045, ''ContractualMatrixTerm'', T_String), (40046, ''NoFinancingTermSupplements'', T_NumInGroup),
    (40047, ''FinancingTermSupplementDesc'', T_String),
    (40048, ''FinancingTermSupplementDate'', T_LocalMktDate), (40049, ''NoStreams'', T_NumInGroup),
    (40050, ''StreamType'', T_int), (40051, ''StreamDesc'', T_String), (40052, ''StreamPaySide'', T_int),
    (40053, ''StreamReceiveSide'', T_int), (40054, ''StreamNotional'', T_Amt),
    (40055, ''StreamCurrency'', T_Currency), (40056, ''StreamText'', T_String),
    (40057, ''UnderlyingStreamEffectiveDateUnadjusted'', T_LocalMktDate),
    (40058, ''UnderlyingStreamEffectiveDateBusinessDayConvention'', T_int),
    (40059, ''UnderlyingStreamEffectiveDateBusinessCenter'', T_String),
    (40060, ''UnderlyingStreamEffectiveDateRelativeTo'', T_int),
    (40061, ''UnderlyingStreamEffectiveDateOffsetPeriod'', T_int),
    (40062, ''UnderlyingStreamEffectiveDateOffsetUnit'', T_String),
    (40063, ''UnderlyingStreamEffectiveDateOffsetDayType'', T_int),
    (40064, ''UnderlyingStreamEffectiveDateAdjusted'', T_LocalMktDate),
    (40065, ''StreamTerminationDateUnadjusted'', T_LocalMktDate),
    (40066, ''StreamTerminationDateBusinessDayConvention'', T_int),
    (40067, ''StreamTerminationDateBusinessCenter'', T_String),
    (40068, ''StreamTerminationDateRelativeTo'', T_int),
    (40069, ''StreamTerminationDateOffsetPeriod'', T_int),
    (40070, ''StreamTerminationDateOffsetUnit'', T_String),
    (40071, ''StreamTerminationDateOffsetDayType'', T_int),
    (40072, ''StreamTerminationDateAdjusted'', T_LocalMktDate),
    (40073, ''StreamCalculationPeriodBusinessDayConvention'', T_int),
    (40074, ''StreamCalculationPeriodBusinessCenter'', T_String),
    (40075, ''StreamFirstPeriodStartDateUnadjusted'', T_LocalMktDate),
    (40076, ''StreamFirstPeriodStartDateBusinessDayConvention'', T_int),
    (40077, ''StreamFirstPeriodStartDateBusinessCenter'', T_String),
    (40078, ''StreamFirstPeriodStartDateAdjusted'', T_LocalMktDate),
    (40079, ''StreamFirstRegularPeriodStartDateUnadjusted'', T_LocalMktDate),
    (40080, ''StreamFirstCompoundingPeriodEndDateUnadjusted'', T_LocalMktDate),
    (40081, ''StreamLastRegularPeriodEndDateUnadjusted'', T_LocalMktDate),
    (40082, ''StreamCalculationFrequencyPeriod'', T_int),
    (40083, ''StreamCalculationFrequencyUnit'', T_String),
    (40084, ''StreamCalculationRollConvention'', T_String), (40085, ''NoSettlRateFallbacks'', T_NumInGroup),
    (40086, ''SettlRatePostponementMaximumDays'', T_int),
    (40087, ''LegPaymentStreamNonDeliverableSettlRateSource'', T_int),
    (40088, ''SettlRatePostponementSurvey'', T_Boolean),
    (40089, ''SettlRatePostponementCalculationAgent'', T_int), (40090, ''NoProvisions'', T_NumInGroup),
    (40091, ''ProvisionType'', T_int), (40092, ''ProvisionDateUnadjusted'', T_LocalMktDate),
    (40093, ''ProvisionDateBusinessDayConvention'', T_int),
    (40094, ''ProvisionDateBusinessCenter'', T_String), (40095, ''ProvisionDateAdjusted'', T_LocalMktDate),
    (40096, ''ProvisionDateTenorPeriod'', T_int), (40097, ''ProvisionDateTenorUnit'', T_String),
    (40098, ''ProvisionCalculationAgent'', T_int)]"

section \<open>What each part contains\<close>

lemma lengths_11: "of_type T_Length tag_enum_11 =
    [1578, 1620, 1664, 1678]"
  unfolding tag_enum_11_def by (rule of_type_scan | simp only: fix_type.distinct not_False_eq_True)+

lemma counts_11: "of_type T_NumInGroup tag_enum_11 =
    [1559, 1562, 1566, 1569, 1572, 1582, 1586, 1610, 1618, 1624, 1630, 1636, 1643, 1647, 1656, 1657, 1661,
    1668, 1669, 1671, 1676, 1677, 1694, 1700]"
  unfolding tag_enum_11_def by (rule of_type_scan | simp only: fix_type.distinct not_False_eq_True)+

lemma ascending_11: "ascends 1551 tag_enum_11 1701"
  unfolding tag_enum_11_def by (rule ascends_scan | simp)+

lemma lengths_12: "of_type T_Length tag_enum_12 =
    [1733]"
  unfolding tag_enum_12_def by (rule of_type_scan | simp only: fix_type.distinct not_False_eq_True)+

lemma counts_12: "of_type T_NumInGroup tag_enum_12 =
    [1703, 1707, 1772, 1773, 1777, 1789, 1791, 1793, 1795, 1812, 1829, 1838, 1841, 1844]"
  unfolding tag_enum_12_def by (rule of_type_scan | simp only: fix_type.distinct not_False_eq_True)+

lemma ascending_12: "ascends 1701 tag_enum_12 1851"
  unfolding tag_enum_12_def by (rule ascends_scan | simp)+

lemma lengths_13: "of_type T_Length tag_enum_13 =
    [1871, 1874]"
  unfolding tag_enum_13_def by (rule of_type_scan | simp only: fix_type.distinct not_False_eq_True)+

lemma counts_13: "of_type T_NumInGroup tag_enum_13 =
    [1855, 1861, 1868, 1889, 1890, 1892, 1907, 1908, 1918, 1919, 1920, 1971, 1976, 1981]"
  unfolding tag_enum_13_def by (rule of_type_scan | simp only: fix_type.distinct not_False_eq_True)+

lemma ascending_13: "ascends 1851 tag_enum_13 2001"
  unfolding tag_enum_13_def by (rule ascends_scan | simp)+

lemma lengths_14: "of_type T_Length tag_enum_14 =
    [2072, 2074, 2111]"
  unfolding tag_enum_14_def by (rule of_type_scan | simp only: fix_type.distinct not_False_eq_True)+

lemma counts_14: "of_type T_NumInGroup tag_enum_14 =
    [2045, 2053, 2056, 2059, 2076, 2080, 2104, 2113]"
  unfolding tag_enum_14_def by (rule of_type_scan | simp only: fix_type.distinct not_False_eq_True)+

lemma ascending_14: "ascends 2001 tag_enum_14 2151"
  unfolding tag_enum_14_def by (rule ascends_scan | simp)+

lemma lengths_15: "of_type T_Length tag_enum_15 =
    [2179, 2287]"
  unfolding tag_enum_15_def by (rule of_type_scan | simp only: fix_type.distinct not_False_eq_True)+

lemma counts_15: "of_type T_NumInGroup tag_enum_15 =
    [2218, 2250, 2253, 2254, 2258]"
  unfolding tag_enum_15_def by (rule of_type_scan | simp only: fix_type.distinct not_False_eq_True)+

lemma ascending_15: "ascends 2151 tag_enum_15 2301"
  unfolding tag_enum_15_def by (rule ascends_scan | simp)+

lemma lengths_16: "of_type T_Length tag_enum_16 =
    [2351, 2372]"
  unfolding tag_enum_16_def by (rule of_type_scan | simp only: fix_type.distinct not_False_eq_True)+

lemma counts_16: "of_type T_NumInGroup tag_enum_16 =
    [2304, 2308, 2312, 2345, 2428, 2433]"
  unfolding tag_enum_16_def by (rule of_type_scan | simp only: fix_type.distinct not_False_eq_True)+

lemma ascending_16: "ascends 2301 tag_enum_16 2451"
  unfolding tag_enum_16_def by (rule ascends_scan | simp)+

lemma lengths_17: "of_type T_Length tag_enum_17 =
    [2481, 2494, 2522]"
  unfolding tag_enum_17_def by (rule of_type_scan | simp only: fix_type.distinct not_False_eq_True)+

lemma counts_17: "of_type T_NumInGroup tag_enum_17 =
    [2474, 2529, 2545, 2548, 2550, 2558, 2560, 2580, 2593]"
  unfolding tag_enum_17_def by (rule of_type_scan | simp only: fix_type.distinct not_False_eq_True)+

lemma ascending_17: "ascends 2451 tag_enum_17 2601"
  unfolding tag_enum_17_def by (rule ascends_scan | simp)+

lemma lengths_18: "of_type T_Length tag_enum_18 =
    [2637, 2651, 2665, 2715, 2718, 2721]"
  unfolding tag_enum_18_def by (rule of_type_scan | simp only: fix_type.distinct not_False_eq_True)+

lemma counts_18: "of_type T_NumInGroup tag_enum_18 =
    [2633, 2639, 2653, 2668, 2691, 2706, 2709, 2734, 2746]"
  unfolding tag_enum_18_def by (rule of_type_scan | simp only: fix_type.distinct not_False_eq_True)+

lemma ascending_18: "ascends 2601 tag_enum_18 2751"
  unfolding tag_enum_18_def by (rule ascends_scan | simp)+

lemma lengths_19: "of_type T_Length tag_enum_19 =
    [2797, 2802, 2809, 2815]"
  unfolding tag_enum_19_def by (rule of_type_scan | simp only: fix_type.distinct not_False_eq_True)+

lemma counts_19: "of_type T_NumInGroup tag_enum_19 =
    [2772, 2781, 2845, 2849, 2864, 2871]"
  unfolding tag_enum_19_def by (rule of_type_scan | simp only: fix_type.distinct not_False_eq_True)+

lemma ascending_19: "ascends 2751 tag_enum_19 2913"
  unfolding tag_enum_19_def by (rule ascends_scan | simp)+

lemma lengths_20: "of_type T_Length tag_enum_20 =
    [40004, 40008]"
  unfolding tag_enum_20_def by (rule of_type_scan | simp only: fix_type.distinct not_False_eq_True)+

lemma counts_20: "of_type T_NumInGroup tag_enum_20 =
    [40000, 40019, 40022, 40040, 40042, 40046, 40049, 40085, 40090]"
  unfolding tag_enum_20_def by (rule of_type_scan | simp only: fix_type.distinct not_False_eq_True)+

lemma ascending_20: "ascends 2913 tag_enum_20 40098"
  unfolding tag_enum_20_def by (rule ascends_scan | simp)+

end
