(* ===== verification/Tag_Enum_3.thy ===== *)
theory Tag_Enum_3
  imports Fix_Types
begin

text \<open>
  The enumerators of \<open>hffix::tag\<close> (\<open>src/include/hffix_fields.hpp\<close>), third quarter: number, name, and the
  type in the comment, 150 lines in each definition. Which numbers have the types Length and
  NumInGroup, and that the numbers ascend, is read off part by part.
\<close>

definition tag_enum_21 :: "tag_table" where
  "tag_enum_21 = [
    (40099, ''ProvisionOptionSinglePartyBuyerSide'', T_int),
    (40100, ''ProvisionOptionSinglePartySellerSide'', T_int),
    (40101, ''ProvisionOptionExerciseStyle'', T_int),
    (40102, ''ProvisionOptionExerciseMultipleNotional'', T_Amt),
    (40103, ''ProvisionOptionExerciseMinimumNotional'', T_Amt),
    (40104, ''ProvisionOptionExerciseMaximumNotional'', T_Amt),
    (40105, ''ProvisionOptionMinimumNumber'', T_int), (40106, ''ProvisionOptionMaximumNumber'', T_int),
    (40107, ''ProvisionOptionExerciseConfirmation'', T_Boolean),
    (40108, ''ProvisionCashSettlMethod'', T_int), (40109, ''ProvisionCashSettlCurrency'', T_Currency),
    (40110, ''ProvisionCashSettlCurrency2'', T_Currency), (40111, ''ProvisionCashSettlQuoteType'', T_int),
    (40112, ''ProvisionCashSettlQuoteSource'', T_int), (40113, ''ProvisionText'', T_String),
    (40114, ''ProvisionCashSettlValueTime'', T_LocalMktTime),
    (40115, ''ProvisionCashSettlValueTimeBusinessCenter'', T_String),
    (40116, ''ProvisionCashSettlValueDateBusinessDayConvention'', T_int),
    (40117, ''ProvisionCashSettlValueDateBusinessCenter'', T_String),
    (40118, ''ProvisionCashSettlValueDateRelativeTo'', T_int),
    (40119, ''ProvisionCashSettlValueDateOffsetPeriod'', T_int),
    (40120, ''ProvisionCashSettlValueDateOffsetUnit'', T_String),
    (40121, ''ProvisionCashSettlValueDateOffsetDayType'', T_int),
    (40122, ''ProvisionCashSettlValueDateAdjusted'', T_LocalMktDate),
    (40123, ''ProvisionOptionExerciseBusinessDayConvention'', T_int),
    (40124, ''ProvisionOptionExerciseBusinessCenter'', T_String),
    (40125, ''ProvisionOptionExerciseEarliestDateOffsetPeriod'', T_int),
    (40126, ''ProvisionOptionExerciseEarliestDateOffsetUnit'', T_String),
    (40127, ''ProvisionOptionExerciseFrequencyPeriod'', T_int),
    (40128, ''ProvisionOptionExerciseFrequencyUnit'', T_String),
    (40129, ''ProvisionOptionExerciseStartDateUnadjusted'', T_LocalMktDate),
    (40130, ''ProvisionOptionExerciseStartDateRelativeTo'', T_int),
    (40131, ''ProvisionOptionExerciseStartDateOffsetPeriod'', T_int),
    (40132, ''ProvisionOptionExerciseStartDateOffsetUnit'', T_String),
    (40133, ''ProvisionOptionExerciseStartDateOffsetDayType'', T_int),
    (40134, ''ProvisionOptionExerciseStartDateAdjusted'', T_LocalMktDate),
    (40135, ''ProvisionOptionExercisePeriodSkip'', T_int),
    (40136, ''ProvisionOptionExerciseBoundsFirstDateUnadjusted'', T_LocalMktDate),
    (40137, ''ProvisionOptionExerciseBoundsLastDateUnadjusted'', T_LocalMktDate),
    (40138, ''ProvisionOptionExerciseEarliestTime'', T_LocalMktTime),
    (40139, ''ProvisionOptionExerciseEarliestTimeBusinessCenter'', T_String),
    (40140, ''ProvisionOptionExerciseLatestTime'', T_LocalMktTime),
    (40141, ''ProvisionOptionExerciseLatestTimeBusinessCenter'', T_String),
    (40142, ''NoProvisionOptionExerciseFixedDates'', T_NumInGroup),
    (40143, ''ProvisionOptionExerciseFixedDate'', T_LocalMktDate),
    (40144, ''ProvisionOptionExerciseFixedDateType'', T_int),
    (40145, ''ProvisionOptionExpirationDateUnadjusted'', T_LocalMktDate),
    (40146, ''ProvisionOptionExpirationDateBusinessDayConvention'', T_int),
    (40147, ''ProvisionOptionExpirationDateBusinessCenter'', T_String),
    (40148, ''ProvisionOptionExpirationDateRelativeTo'', T_int),
    (40149, ''ProvisionOptionExpirationDateOffsetPeriod'', T_int),
    (40150, ''ProvisionOptionExpirationDateOffsetUnit'', T_String),
    (40151, ''ProvisionOptionExpirationDateOffsetDayType'', T_int),
    (40152, ''ProvisionOptionExpirationDateAdjusted'', T_LocalMktDate),
    (40153, ''ProvisionOptionExpirationTime'', T_LocalMktTime),
    (40154, ''ProvisionOptionExpirationTimeBusinessCenter'', T_String),
    (40155, ''ProvisionOptionRelevantUnderlyingDateUnadjusted'', T_LocalMktDate),
    (40156, ''ProvisionOptionRelevantUnderlyingDateBusinessDayConvention'', T_int),
    (40157, ''ProvisionOptionRelevantUnderlyingDateBusinessCenter'', T_String),
    (40158, ''ProvisionOptionRelevantUnderlyingDateRelativeTo'', T_int),
    (40159, ''ProvisionOptionRelevantUnderlyingDateOffsetPeriod'', T_int),
    (40160, ''ProvisionOptionRelevantUnderlyingDateOffsetUnit'', T_String),
    (40161, ''ProvisionOptionRelevantUnderlyingDateOffsetDayType'', T_int),
    (40162, ''ProvisionOptionRelevantUnderlyingDateAdjusted'', T_LocalMktDate),
    (40163, ''ProvisionCashSettlPaymentDateBusinessDayConvention'', T_int),
    (40164, ''ProvisionCashSettlPaymentDateBusinessCenter'', T_String),
    (40165, ''ProvisionCashSettlPaymentDateRelativeTo'', T_int),
    (40166, ''ProvisionCashSettlPaymentDateOffsetPeriod'', T_int),
    (40167, ''ProvisionCashSettlPaymentDateOffsetUnit'', T_String),
    (40168, ''ProvisionCashSettlPaymentDateOffsetDayType'', T_int),
    (40169, ''ProvisionCashSettlPaymentDateRangeFirst'', T_LocalMktDate),
    (40170, ''ProvisionCashSettlPaymentDateRangeLast'', T_LocalMktDate),
    (40171, ''NoProvisionCashSettlPaymentDates'', T_NumInGroup),
    (40172, ''ProvisionCashSettlPaymentDate'', T_LocalMktDate),
    (40173, ''ProvisionCashSettlPaymentDateType'', T_int), (40174, ''NoProvisionPartyIDs'', T_NumInGroup),
    (40175, ''ProvisionPartyID'', T_String), (40176, ''ProvisionPartyIDSource'', T_char),
    (40177, ''ProvisionPartyRole'', T_int), (40178, ''NoProvisionPartySubIDs'', T_NumInGroup),
    (40179, ''ProvisionPartySubID'', T_String), (40180, ''ProvisionPartySubIDType'', T_int),
    (40181, ''NoProtectionTerms'', T_NumInGroup), (40182, ''ProtectionTermNotional'', T_Amt),
    (40183, ''ProtectionTermCurrency'', T_Currency), (40184, ''ProtectionTermSellerNotifies'', T_Boolean),
    (40185, ''ProtectionTermBuyerNotifies'', T_Boolean),
    (40186, ''ProtectionTermEventBusinessCenter'', T_String),
    (40187, ''ProtectionTermStandardSources'', T_Boolean),
    (40188, ''ProtectionTermEventMinimumSources'', T_int),
    (40189, ''ProtectionTermEventNewsSource'', T_String), (40190, ''ProtectionTermXID'', T_XID),
    (40191, ''NoProtectionTermEvents'', T_NumInGroup), (40192, ''ProtectionTermEventType'', T_String),
    (40193, ''ProtectionTermEventValue'', T_String), (40194, ''ProtectionTermEventCurrency'', T_Currency),
    (40195, ''ProtectionTermEventPeriod'', T_int), (40196, ''ProtectionTermEventUnit'', T_String),
    (40197, ''ProtectionTermEventDayType'', T_int), (40198, ''ProtectionTermEventRateSource'', T_String),
    (40199, ''NoProtectionTermEventQualifiers'', T_NumInGroup),
    (40200, ''ProtectionTermEventQualifier'', T_char),
    (40201, ''NoProtectionTermObligations'', T_NumInGroup),
    (40202, ''ProtectionTermObligationType'', T_String),
    (40203, ''ProtectionTermObligationValue'', T_String), (40204, ''NoPhysicalSettlTerms'', T_NumInGroup),
    (40205, ''PhysicalSettlCurrency'', T_Currency), (40206, ''PhysicalSettlBusinessDays'', T_int),
    (40207, ''PhysicalSettlMaximumBusinessDays'', T_int), (40208, ''PhysicalSettlTermXID'', T_XID),
    (40209, ''NoPhysicalSettlDeliverableObligations'', T_NumInGroup),
    (40210, ''PhysicalSettlDeliverableObligationType'', T_String),
    (40211, ''PhysicalSettlDeliverableObligationValue'', T_String), (40212, ''NoPayments'', T_NumInGroup),
    (40213, ''PaymentType'', T_int), (40214, ''PaymentPaySide'', T_int),
    (40215, ''PaymentReceiveSide'', T_int), (40216, ''PaymentCurrency'', T_Currency),
    (40217, ''PaymentAmount'', T_Amt), (40218, ''PaymentPrice'', T_Price),
    (40219, ''PaymentDateUnadjusted'', T_LocalMktDate), (40220, ''PaymentBusinessDayConvention'', T_int),
    (40221, ''PaymentBusinessCenter'', T_String), (40222, ''PaymentDateAdjusted'', T_LocalMktDate),
    (40223, ''LegMarketDisruptionValue'', T_String), (40224, ''PaymentDiscountFactor'', T_float),
    (40225, ''PaymentPresentValueAmount'', T_Amt), (40226, ''PaymentPresentValueCurrency'', T_Currency),
    (40227, ''PaymentSettlStyle'', T_int),
    (40228, ''LegPaymentStreamNonDeliverableSettlReferencePage'', T_String),
    (40229, ''PaymentText'', T_String), (40230, ''NoPaymentSettls'', T_NumInGroup),
    (40231, ''PaymentSettlAmount'', T_Amt), (40232, ''PaymentSettlCurrency'', T_Currency),
    (40233, ''NoPaymentSettlPartyIDs'', T_NumInGroup), (40234, ''PaymentSettlPartyID'', T_String),
    (40235, ''PaymentSettlPartyIDSource'', T_char), (40236, ''PaymentSettlPartyRole'', T_int),
    (40237, ''PaymentSettlPartyRoleQualifier'', T_int), (40238, ''NoPaymentSettlPartySubIDs'', T_NumInGroup),
    (40239, ''PaymentSettlPartySubID'', T_String), (40240, ''PaymentSettlPartySubIDType'', T_int),
    (40241, ''NoLegStreams'', T_NumInGroup), (40242, ''LegStreamType'', T_int),
    (40243, ''LegStreamDesc'', T_String), (40244, ''LegStreamPaySide'', T_int),
    (40245, ''LegStreamReceiveSide'', T_int), (40246, ''LegStreamNotional'', T_Amt),
    (40247, ''LegStreamCurrency'', T_Currency), (40248, ''LegStreamText'', T_String)]"

definition tag_enum_22 :: "tag_table" where
  "tag_enum_22 = [
    (40249, ''LegStreamEffectiveDateUnadjusted'', T_LocalMktDate),
    (40250, ''LegStreamEffectiveDateBusinessDayConvention'', T_int),
    (40251, ''LegStreamEffectiveDateBusinessCenter'', T_String),
    (40252, ''LegStreamEffectiveDateRelativeTo'', T_int),
    (40253, ''LegStreamEffectiveDateOffsetPeriod'', T_int),
    (40254, ''LegStreamEffectiveDateOffsetUnit'', T_String),
    (40255, ''LegStreamEffectiveDateOffsetDayType'', T_int),
    (40256, ''LegStreamEffectiveDateAdjusted'', T_LocalMktDate),
    (40257, ''LegStreamTerminationDateUnadjusted'', T_LocalMktDate),
    (40258, ''LegStreamTerminationDateBusinessDayConvention'', T_int),
    (40259, ''LegStreamTerminationDateBusinessCenter'', T_String),
    (40260, ''LegStreamTerminationDateRelativeTo'', T_int),
    (40261, ''LegStreamTerminationDateOffsetPeriod'', T_int),
    (40262, ''LegStreamTerminationDateOffsetUnit'', T_String),
    (40263, ''LegStreamTerminationDateOffsetDayType'', T_int),
    (40264, ''LegStreamTerminationDateAdjusted'', T_LocalMktDate),
    (40265, ''LegStreamCalculationPeriodBusinessDayConvention'', T_int),
    (40266, ''LegStreamCalculationPeriodBusinessCenter'', T_String),
    (40267, ''LegStreamFirstPeriodStartDateUnadjusted'', T_LocalMktDate),
    (40268, ''LegStreamFirstPeriodStartDateBusinessDayConvention'', T_int),
    (40269, ''LegStreamFirstPeriodStartDateBusinessCenter'', T_String),
    (40270, ''LegStreamFirstPeriodStartDateAdjusted'', T_LocalMktDate),
    (40271, ''LegStreamFirstRegularPeriodStartDateUnadjusted'', T_LocalMktDate),
    (40272, ''LegStreamFirstCompoundingPeriodEndDateUnadjusted'', T_LocalMktDate),
    (40273, ''LegStreamLastRegularPeriodEndDateUnadjusted'', T_LocalMktDate),
    (40274, ''LegStreamCalculationFrequencyPeriod'', T_int),
    (40275, ''LegStreamCalculationFrequencyUnit'', T_String),
    (40276, ''LegStreamCalculationRollConvention'', T_String), (40277, ''NoCashSettlDealers'', T_NumInGroup),
    (40278, ''NoBusinessCenters'', T_NumInGroup), (40279, ''LegPaymentStreamType'', T_int),
    (40280, ''LegPaymentStreamMarketRate'', T_int), (40281, ''LegPaymentStreamDelayIndicator'', T_Boolean),
    (40282, ''LegPaymentStreamSettlCurrency'', T_Currency), (40283, ''LegPaymentStreamDayCount'', T_int),
    (40284, ''LegPaymentStreamAccrualDays'', T_int), (40285, ''LegPaymentStreamDiscountType'', T_int),
    (40286, ''LegPaymentStreamDiscountRate'', T_Percentage),
    (40287, ''LegPaymentStreamDiscountRateDayCount'', T_int),
    (40288, ''LegPaymentStreamCompoundingMethod'', T_int),
    (40289, ''LegPaymentStreamInitialPrincipalExchangeIndicator'', T_Boolean),
    (40290, ''LegPaymentStreamInterimPrincipalExchangeIndicator'', T_Boolean),
    (40291, ''LegPaymentStreamFinalPrincipalExchangeIndicator'', T_Boolean),
    (40292, ''LegPaymentStreamPaymentDateBusinessDayConvention'', T_int),
    (40293, ''LegPaymentStreamPaymentDateBusinessCenter'', T_String),
    (40294, ''LegPaymentStreamPaymentFrequencyPeriod'', T_int),
    (40295, ''LegPaymentStreamPaymentFrequencyUnit'', T_String),
    (40296, ''LegPaymentStreamPaymentRollConvention'', T_String),
    (40297, ''LegPaymentStreamFirstPaymentDateUnadjusted'', T_LocalMktDate),
    (40298, ''LegPaymentStreamLastRegularPaymentDateUnadjusted'', T_LocalMktDate),
    (40299, ''LegPaymentStreamPaymentDateRelativeTo'', T_int),
    (40300, ''LegPaymentStreamPaymentDateOffsetPeriod'', T_int),
    (40301, ''LegPaymentStreamPaymentDateOffsetUnit'', T_String),
    (40302, ''LegPaymentStreamPaymentDateOffsetDayType'', T_int),
    (40303, ''LegPaymentStreamResetDateRelativeTo'', T_int),
    (40304, ''LegPaymentStreamResetDateBusinessDayConvention'', T_int),
    (40305, ''LegPaymentStreamResetDateBusinessCenter'', T_String),
    (40306, ''LegPaymentStreamResetFrequencyPeriod'', T_int),
    (40307, ''LegPaymentStreamResetFrequencyUnit'', T_String),
    (40308, ''LegPaymentStreamResetWeeklyRollConvention'', T_String),
    (40309, ''LegPaymentStreamInitialFixingDateRelativeTo'', T_int),
    (40310, ''LegPaymentStreamInitialFixingDateBusinessDayConvention'', T_int),
    (40311, ''LegPaymentStreamInitialFixingDateBusinessCenter'', T_String),
    (40312, ''LegPaymentStreamInitialFixingDateOffsetPeriod'', T_int),
    (40313, ''LegPaymentStreamInitialFixingDateOffsetUnit'', T_String),
    (40314, ''LegPaymentStreamInitialFixingDateOffsetDayType'', T_int),
    (40315, ''LegPaymentStreamInitialFixingDateAdjusted'', T_LocalMktDate),
    (40316, ''LegPaymentStreamFixingDateRelativeTo'', T_int),
    (40317, ''LegPaymentStreamFixingDateBusinessDayConvention'', T_int),
    (40318, ''LegPaymentStreamFixingDateBusinessCenter'', T_String),
    (40319, ''LegPaymentStreamFixingDateOffsetPeriod'', T_int),
    (40320, ''LegPaymentStreamFixingDateOffsetUnit'', T_String),
    (40321, ''LegPaymentStreamFixingDateOffsetDayType'', T_int),
    (40322, ''LegPaymentStreamFixingDateAdjusted'', T_LocalMktDate),
    (40323, ''LegPaymentStreamRateCutoffDateOffsetPeriod'', T_int),
    (40324, ''LegPaymentStreamRateCutoffDateOffsetUnit'', T_String),
    (40325, ''LegPaymentStreamRateCutoffDateOffsetDayType'', T_int),
    (40326, ''LegPaymentStreamRate'', T_Percentage), (40327, ''LegPaymentStreamFixedAmount'', T_Amt),
    (40328, ''LegPaymentStreamRateOrAmountCurrency'', T_Currency),
    (40329, ''LegPaymentStreamFutureValueNotional'', T_Amt),
    (40330, ''LegPaymentStreamFutureValueDateAdjusted'', T_LocalMktDate),
    (40331, ''LegPaymentStreamRateIndex'', T_String), (40332, ''LegPaymentStreamRateIndexSource'', T_int),
    (40333, ''LegPaymentStreamRateIndexCurveUnit'', T_String),
    (40334, ''LegPaymentStreamRateIndexCurvePeriod'', T_int),
    (40335, ''LegPaymentStreamRateMultiplier'', T_float),
    (40336, ''LegPaymentStreamRateSpread'', T_PriceOffset),
    (40337, ''LegPaymentStreamRateSpreadPositionType'', T_int),
    (40338, ''LegPaymentStreamRateTreatment'', T_int), (40339, ''LegPaymentStreamCapRate'', T_Percentage),
    (40340, ''LegPaymentStreamCapRateBuySide'', T_int), (40341, ''LegPaymentStreamCapRateSellSide'', T_int),
    (40342, ''LegPaymentStreamFloorRate'', T_Percentage),
    (40343, ''LegPaymentStreamFloorRateBuySide'', T_int),
    (40344, ''LegPaymentStreamFloorRateSellSide'', T_int),
    (40345, ''LegPaymentStreamInitialRate'', T_Percentage),
    (40346, ''LegPaymentStreamFinalRateRoundingDirection'', T_char),
    (40347, ''LegPaymentStreamFinalRatePrecision'', T_int),
    (40348, ''LegPaymentStreamAveragingMethod'', T_int),
    (40349, ''LegPaymentStreamNegativeRateTreatment'', T_int),
    (40350, ''LegPaymentStreamInflationLagPeriod'', T_int),
    (40351, ''LegPaymentStreamInflationLagUnit'', T_String),
    (40352, ''LegPaymentStreamInflationLagDayType'', T_int),
    (40353, ''LegPaymentStreamInflationInterpolationMethod'', T_int),
    (40354, ''LegPaymentStreamInflationIndexSource'', T_int),
    (40355, ''LegPaymentStreamInflationPublicationSource'', T_String),
    (40356, ''LegPaymentStreamInflationInitialIndexLevel'', T_float),
    (40357, ''LegPaymentStreamInflationFallbackBondApplicable'', T_Boolean),
    (40358, ''LegPaymentStreamFRADiscounting'', T_int),
    (40359, ''LegPaymentStreamNonDeliverableRefCurrency'', T_Currency),
    (40360, ''LegPaymentStreamNonDeliverableFixingDatesBusinessDayConvention'', T_int),
    (40361, ''LegPaymentStreamNonDeliverableFixingDatesBusinessCenter'', T_String),
    (40362, ''LegPaymentStreamNonDeliverableFixingDatesRelativeTo'', T_int),
    (40363, ''LegPaymentStreamNonDeliverableFixingDatesOffsetPeriod'', T_int),
    (40364, ''LegPaymentStreamNonDeliverableFixingDatesOffsetUnit'', T_String),
    (40365, ''LegPaymentStreamNonDeliverableFixingDatesOffsetDayType'', T_int),
    (40366, ''LegSettlRateFallbackRateSource'', T_int),
    (40367, ''NoLegNonDeliverableFixingDates'', T_NumInGroup),
    (40368, ''LegNonDeliverableFixingDate'', T_LocalMktDate),
    (40369, ''LegNonDeliverableFixingDateType'', T_int),
    (40370, ''LegSettlRateFallbackReferencePage'', T_String),
    (40371, ''PaymentStreamNonDeliverableSettlRateSource'', T_int),
    (40372, ''PaymentStreamNonDeliverableSettlReferencePage'', T_String),
    (40373, ''SettlRateFallbackRateSource'', T_int), (40374, ''NoLegPaymentSchedules'', T_NumInGroup),
    (40375, ''LegPaymentScheduleType'', T_int), (40376, ''LegPaymentScheduleStubType'', T_int),
    (40377, ''LegPaymentScheduleStartDateUnadjusted'', T_LocalMktDate),
    (40378, ''LegPaymentScheduleEndDateUnadjusted'', T_LocalMktDate),
    (40379, ''LegPaymentSchedulePaySide'', T_int), (40380, ''LegPaymentScheduleReceiveSide'', T_int),
    (40381, ''LegPaymentScheduleNotional'', T_Amt), (40382, ''LegPaymentScheduleCurrency'', T_Currency),
    (40383, ''LegPaymentScheduleRate'', T_Percentage),
    (40384, ''LegPaymentScheduleRateMultiplier'', T_float),
    (40385, ''LegPaymentScheduleRateSpread'', T_PriceOffset),
    (40386, ''LegPaymentScheduleRateSpreadPositionType'', T_int),
    (40387, ''LegPaymentScheduleRateTreatment'', T_int), (40388, ''LegPaymentScheduleFixedAmount'', T_Amt),
    (40389, ''LegPaymentScheduleFixedCurrency'', T_Currency),
    (40390, ''LegPaymentScheduleStepFrequencyPeriod'', T_int),
    (40391, ''LegPaymentScheduleStepFrequencyUnit'', T_String),
    (40392, ''LegPaymentScheduleStepOffsetValue'', T_Amt),
    (40393, ''LegPaymentScheduleStepRate'', T_Percentage),
    (40394, ''LegPaymentScheduleStepOffsetRate'', T_Percentage),
    (40395, ''LegPaymentScheduleStepRelativeTo'', T_int),
    (40396, ''LegPaymentScheduleFixingDateUnadjusted'', T_LocalMktDate),
    (40397, ''LegPaymentScheduleWeight'', T_float),
    (40398, ''LegPaymentScheduleFixingDateRelativeTo'', T_int)]"

definition tag_enum_23 :: "tag_table" where
  "tag_enum_23 = [
    (40399, ''LegPaymentScheduleFixingDateBusinessDayConvention'', T_int),
    (40400, ''LegPaymentScheduleFixingDateBusinessCenter'', T_String),
    (40401, ''LegPaymentScheduleFixingDateOffsetPeriod'', T_int),
    (40402, ''LegPaymentScheduleFixingDateOffsetUnit'', T_String),
    (40403, ''LegPaymentScheduleFixingDateOffsetDayType'', T_int),
    (40404, ''LegPaymentScheduleFixingDateAdjusted'', T_LocalMktDate),
    (40405, ''LegPaymentScheduleFixingTime'', T_LocalMktTime),
    (40406, ''LegPaymentScheduleFixingTimeBusinessCenter'', T_String),
    (40407, ''LegPaymentScheduleInterimExchangePaymentDateRelativeTo'', T_int),
    (40408, ''LegPaymentScheduleInterimExchangeDatesBusinessDayConvention'', T_int),
    (40409, ''LegPaymentScheduleInterimExchangeDatesBusinessCenter'', T_String),
    (40410, ''LegPaymentScheduleInterimExchangeDatesOffsetPeriod'', T_int),
    (40411, ''LegPaymentScheduleInterimExchangeDatesOffsetUnit'', T_String),
    (40412, ''LegPaymentScheduleInterimExchangeDatesOffsetDayType'', T_int),
    (40413, ''LegPaymentScheduleInterimExchangeDateAdjusted'', T_LocalMktDate),
    (40414, ''NoLegPaymentScheduleRateSources'', T_NumInGroup),
    (40415, ''LegPaymentScheduleRateSource'', T_int), (40416, ''LegPaymentScheduleRateSourceType'', T_int),
    (40417, ''LegPaymentScheduleReferencePage'', T_String), (40418, ''NoLegPaymentStubs'', T_NumInGroup),
    (40419, ''LegPaymentStubType'', T_int), (40420, ''LegPaymentStubLength'', T_int),
    (40421, ''LegPaymentStubRate'', T_Percentage), (40422, ''LegPaymentStubFixedAmount'', T_Amt),
    (40423, ''LegPaymentStubFixedCurrency'', T_Currency), (40424, ''LegPaymentStubIndex'', T_String),
    (40425, ''LegPaymentStubIndexSource'', T_int), (40426, ''LegPaymentStubIndexCurvePeriod'', T_int),
    (40427, ''LegPaymentStubIndexCurveUnit'', T_String),
    (40428, ''LegPaymentStubIndexRateMultiplier'', T_float),
    (40429, ''LegPaymentStubIndexRateSpread'', T_PriceOffset),
    (40430, ''LegPaymentStubIndexRateSpreadPositionType'', T_int),
    (40431, ''LegPaymentStubIndexRateTreatment'', T_int),
    (40432, ''LegPaymentStubIndexCapRate'', T_Percentage),
    (40433, ''LegPaymentStubIndexCapRateBuySide'', T_int),
    (40434, ''LegPaymentStubIndexCapRateSellSide'', T_int),
    (40435, ''LegPaymentStubIndexFloorRate'', T_Percentage),
    (40436, ''LegPaymentStubIndexFloorRateBuySide'', T_int),
    (40437, ''LegPaymentStubIndexFloorRateSellSide'', T_int), (40438, ''LegPaymentStubIndex2'', T_String),
    (40439, ''LegPaymentStubIndex2Source'', T_int), (40440, ''LegPaymentStubIndex2CurvePeriod'', T_int),
    (40441, ''LegPaymentStubIndex2CurveUnit'', T_String),
    (40442, ''LegPaymentStubIndex2RateMultiplier'', T_float),
    (40443, ''LegPaymentStubIndex2RateSpread'', T_PriceOffset),
    (40444, ''LegPaymentStubIndex2RateSpreadPositionType'', T_int),
    (40445, ''LegPaymentStubIndex2RateTreatment'', T_int),
    (40446, ''LegPaymentStubIndex2CapRate'', T_Percentage),
    (40447, ''LegPaymentStubIndex2FloorRate'', T_Percentage), (40448, ''NoLegProvisions'', T_NumInGroup),
    (40449, ''LegProvisionType'', T_int), (40450, ''LegProvisionDateUnadjusted'', T_LocalMktDate),
    (40451, ''LegProvisionDateBusinessDayConvention'', T_int),
    (40452, ''LegProvisionDateBusinessCenter'', T_String),
    (40453, ''LegProvisionDateAdjusted'', T_LocalMktDate), (40454, ''LegProvisionDateTenorPeriod'', T_int),
    (40455, ''LegProvisionDateTenorUnit'', T_String), (40456, ''LegProvisionCalculationAgent'', T_int),
    (40457, ''LegProvisionOptionSinglePartyBuyerSide'', T_int),
    (40458, ''LegProvisionOptionSinglePartySellerSide'', T_int),
    (40459, ''LegProvisionOptionExerciseStyle'', T_int),
    (40460, ''LegProvisionOptionExerciseMultipleNotional'', T_Amt),
    (40461, ''LegProvisionOptionExerciseMinimumNotional'', T_Amt),
    (40462, ''LegProvisionOptionExerciseMaximumNotional'', T_Amt),
    (40463, ''LegProvisionOptionMinimumNumber'', T_int), (40464, ''LegProvisionOptionMaximumNumber'', T_int),
    (40465, ''LegProvisionOptionExerciseConfirmation'', T_Boolean),
    (40466, ''LegProvisionCashSettlMethod'', T_int), (40467, ''LegProvisionCashSettlCurrency'', T_Currency),
    (40468, ''LegProvisionCashSettlCurrency2'', T_Currency),
    (40469, ''LegProvisionCashSettlQuoteType'', T_int), (40470, ''LegProvisionCashSettlQuoteSource'', T_int),
    (40471, ''BusinessCenter'', T_String), (40472, ''LegProvisionText'', T_String),
    (40473, ''NoLegProvisionCashSettlPaymentDates'', T_NumInGroup),
    (40474, ''LegProvisionCashSettlPaymentDate'', T_LocalMktDate),
    (40475, ''LegProvisionCashSettlPaymentDateType'', T_int),
    (40476, ''LegProvisionOptionExerciseBusinessDayConvention'', T_int),
    (40477, ''LegProvisionOptionExerciseBusinessCenter'', T_String),
    (40478, ''LegProvisionOptionExerciseEarliestDateOffsetPeriod'', T_int),
    (40479, ''LegProvisionOptionExerciseEarliestDateOffsetUnit'', T_String),
    (40480, ''LegProvisionOptionExerciseFrequencyPeriod'', T_int),
    (40481, ''LegProvisionOptionExerciseFrequencyUnit'', T_String),
    (40482, ''LegProvisionOptionExerciseStartDateUnadjusted'', T_LocalMktDate),
    (40483, ''LegProvisionOptionExerciseStartDateRelativeTo'', T_int),
    (40484, ''LegProvisionOptionExerciseStartDateOffsetPeriod'', T_int),
    (40485, ''LegProvisionOptionExerciseStartDateOffsetUnit'', T_String),
    (40486, ''LegProvisionOptionExerciseStartDateOffsetDayType'', T_int),
    (40487, ''LegProvisionOptionExerciseStartDateAdjusted'', T_LocalMktDate),
    (40488, ''LegProvisionOptionExercisePeriodSkip'', T_int),
    (40489, ''LegProvisionOptionExerciseBoundsFirstDateUnadjusted'', T_LocalMktDate),
    (40490, ''LegProvisionOptionExerciseBoundsLastDateUnadjusted'', T_LocalMktDate),
    (40491, ''LegProvisionOptionExerciseEarliestTime'', T_LocalMktTime),
    (40492, ''LegProvisionOptionExerciseEarliestTimeBusinessCenter'', T_String),
    (40493, ''LegProvisionOptionExerciseLatestTime'', T_LocalMktTime),
    (40494, ''LegProvisionOptionExerciseLatestTimeBusinessCenter'', T_String),
    (40495, ''NoLegProvisionOptionExerciseFixedDates'', T_NumInGroup),
    (40496, ''LegProvisionOptionExerciseFixedDate'', T_LocalMktDate),
    (40497, ''LegProvisionOptionExerciseFixedDateType'', T_int),
    (40498, ''LegProvisionOptionExpirationDateUnadjusted'', T_LocalMktDate),
    (40499, ''LegProvisionOptionExpirationDateBusinessDayConvention'', T_int),
    (40500, ''LegProvisionOptionExpirationDateBusinessCenter'', T_String),
    (40501, ''LegProvisionOptionExpirationDateRelativeTo'', T_int),
    (40502, ''LegProvisionOptionExpirationDateOffsetPeriod'', T_int),
    (40503, ''LegProvisionOptionExpirationDateOffsetUnit'', T_String),
    (40504, ''LegProvisionOptionExpirationDateOffsetDayType'', T_int),
    (40505, ''LegProvisionOptionExpirationDateAdjusted'', T_LocalMktDate),
    (40506, ''LegProvisionOptionExpirationTime'', T_LocalMktTime),
    (40507, ''LegProvisionOptionExpirationTimeBusinessCenter'', T_String),
    (40508, ''LegProvisionOptionRelevantUnderlyingDateUnadjusted'', T_LocalMktDate),
    (40509, ''LegProvisionOptionRelevantUnderlyingDateBusinessDayConvention'', T_int),
    (40510, ''LegProvisionOptionRelevantUnderlyingDateBusinessCenter'', T_String),
    (40511, ''LegProvisionOptionRelevantUnderlyingDateRelativeTo'', T_int),
    (40512, ''LegProvisionOptionRelevantUnderlyingDateOffsetPeriod'', T_int),
    (40513, ''LegProvisionOptionRelevantUnderlyingDateOffsetUnit'', T_String),
    (40514, ''LegProvisionOptionRelevantUnderlyingDateOffsetDayType'', T_int),
    (40515, ''LegProvisionOptionRelevantUnderlyingDateAdjusted'', T_LocalMktDate),
    (40516, ''LegProvisionCashSettlPaymentDateBusinessDayConvention'', T_int),
    (40517, ''LegProvisionCashSettlPaymentDateBusinessCenter'', T_String),
    (40518, ''LegProvisionCashSettlPaymentDateRelativeTo'', T_int),
    (40519, ''LegProvisionCashSettlPaymentDateOffsetPeriod'', T_int),
    (40520, ''LegProvisionCashSettlPaymentDateOffsetUnit'', T_String),
    (40521, ''LegProvisionCashSettlPaymentDateOffsetDayType'', T_int),
    (40522, ''LegProvisionCashSettlPaymentDateRangeFirst'', T_LocalMktDate),
    (40523, ''LegProvisionCashSettlPaymentDateRangeLast'', T_LocalMktDate),
    (40524, ''LegProvisionCashSettlValueTime'', T_LocalMktTime),
    (40525, ''LegProvisionCashSettlValueTimeBusinessCenter'', T_String),
    (40526, ''LegProvisionCashSettlValueDateBusinessDayConvention'', T_int),
    (40527, ''LegProvisionCashSettlValueDateBusinessCenter'', T_String),
    (40528, ''LegProvisionCashSettlValueDateRelativeTo'', T_int),
    (40529, ''LegProvisionCashSettlValueDateOffsetPeriod'', T_int),
    (40530, ''LegProvisionCashSettlValueDateOffsetUnit'', T_String),
    (40531, ''LegProvisionCashSettlValueDateOffsetDayType'', T_int),
    (40532, ''LegProvisionCashSettlValueDateAdjusted'', T_LocalMktDate),
    (40533, ''NoLegProvisionPartyIDs'', T_NumInGroup), (40534, ''LegProvisionPartyID'', T_String),
    (40535, ''LegProvisionPartyIDSource'', T_char), (40536, ''LegProvisionPartyRole'', T_int),
    (40537, ''NoLegProvisionPartySubIDs'', T_NumInGroup), (40538, ''LegProvisionPartySubID'', T_String),
    (40539, ''LegProvisionPartySubIDType'', T_int), (40540, ''NoUnderlyingStreams'', T_NumInGroup),
    (40541, ''UnderlyingStreamType'', T_int), (40542, ''UnderlyingStreamDesc'', T_String),
    (40543, ''UnderlyingStreamPaySide'', T_int), (40544, ''UnderlyingStreamReceiveSide'', T_int),
    (40545, ''UnderlyingStreamNotional'', T_Amt), (40546, ''UnderlyingStreamCurrency'', T_Currency),
    (40547, ''UnderlyingStreamText'', T_String),
    (40548, ''UnderlyingStreamTerminationDateUnadjusted'', T_LocalMktDate)]"

definition tag_enum_24 :: "tag_table" where
  "tag_enum_24 = [
    (40549, ''UnderlyingStreamTerminationDateBusinessDayConvention'', T_int),
    (40550, ''UnderlyingStreamTerminationDateBusinessCenter'', T_String),
    (40551, ''UnderlyingStreamTerminationDateRelativeTo'', T_int),
    (40552, ''UnderlyingStreamTerminationDateOffsetPeriod'', T_int),
    (40553, ''UnderlyingStreamTerminationDateOffsetUnit'', T_String),
    (40554, ''UnderlyingStreamTerminationDateOffsetDayType'', T_int),
    (40555, ''UnderlyingStreamTerminationDateAdjusted'', T_LocalMktDate),
    (40556, ''UnderlyingStreamCalculationPeriodBusinessDayConvention'', T_int),
    (40557, ''UnderlyingStreamCalculationPeriodBusinessCenter'', T_String),
    (40558, ''UnderlyingStreamFirstPeriodStartDateUnadjusted'', T_LocalMktDate),
    (40559, ''UnderlyingStreamFirstPeriodStartDateBusinessDayConvention'', T_int),
    (40560, ''UnderlyingStreamFirstPeriodStartDateBusinessCenter'', T_String),
    (40561, ''UnderlyingStreamFirstPeriodStartDateAdjusted'', T_LocalMktDate),
    (40562, ''UnderlyingStreamFirstRegularPeriodStartDateUnadjusted'', T_LocalMktDate),
    (40563, ''UnderlyingStreamFirstCompoundingPeriodEndDateUnadjusted'', T_LocalMktDate),
    (40564, ''UnderlyingStreamLastRegularPeriodEndDateUnadjusted'', T_LocalMktDate),
    (40565, ''UnderlyingStreamCalculationFrequencyPeriod'', T_int),
    (40566, ''UnderlyingStreamCalculationFrequencyUnit'', T_String),
    (40567, ''UnderlyingStreamCalculationRollConvention'', T_String),
    (40568, ''UnderlyingPaymentStreamType'', T_int), (40569, ''UnderlyingPaymentStreamMarketRate'', T_int),
    (40570, ''UnderlyingPaymentStreamDelayIndicator'', T_Boolean),
    (40571, ''UnderlyingPaymentStreamSettlCurrency'', T_Currency),
    (40572, ''UnderlyingPaymentStreamDayCount'', T_int),
    (40573, ''UnderlyingPaymentStreamAccrualDays'', T_int),
    (40574, ''UnderlyingPaymentStreamDiscountType'', T_int),
    (40575, ''UnderlyingPaymentStreamDiscountRate'', T_Percentage),
    (40576, ''UnderlyingPaymentStreamDiscountRateDayCount'', T_int),
    (40577, ''UnderlyingPaymentStreamCompoundingMethod'', T_int),
    (40578, ''UnderlyingPaymentStreamInitialPrincipalExchangeIndicator'', T_Boolean),
    (40579, ''UnderlyingPaymentStreamInterimPrincipalExchangeIndicator'', T_Boolean),
    (40580, ''UnderlyingPaymentStreamFinalPrincipalExchangeIndicator'', T_Boolean),
    (40581, ''UnderlyingPaymentStreamPaymentDateBusinessDayConvention'', T_int),
    (40582, ''UnderlyingPaymentStreamPaymentDateBusinessCenter'', T_String),
    (40583, ''UnderlyingPaymentStreamPaymentFrequencyPeriod'', T_int),
    (40584, ''UnderlyingPaymentStreamPaymentFrequencyUnit'', T_String),
    (40585, ''UnderlyingPaymentStreamPaymentRollConvention'', T_String),
    (40586, ''UnderlyingPaymentStreamFirstPaymentDateUnadjusted'', T_LocalMktDate),
    (40587, ''UnderlyingPaymentStreamLastRegularPaymentDateUnadjusted'', T_LocalMktDate),
    (40588, ''UnderlyingPaymentStreamPaymentDateRelativeTo'', T_int),
    (40589, ''UnderlyingPaymentStreamPaymentDateOffsetPeriod'', T_int),
    (40590, ''UnderlyingPaymentStreamPaymentDateOffsetUnit'', T_String),
    (40591, ''UnderlyingPaymentStreamPaymentDateOffsetDayType'', T_int),
    (40592, ''UnderlyingPaymentStreamResetDateRelativeTo'', T_int),
    (40593, ''UnderlyingPaymentStreamResetDateBusinessDayConvention'', T_int),
    (40594, ''UnderlyingPaymentStreamResetDateBusinessCenter'', T_String),
    (40595, ''UnderlyingPaymentStreamResetFrequencyPeriod'', T_int),
    (40596, ''UnderlyingPaymentStreamResetFrequencyUnit'', T_String),
    (40597, ''UnderlyingPaymentStreamResetWeeklyRollConvention'', T_String),
    (40598, ''UnderlyingPaymentStreamInitialFixingDateRelativeTo'', T_int),
    (40599, ''UnderlyingPaymentStreamInitialFixingDateBusinessDayConvention'', T_int),
    (40600, ''UnderlyingPaymentStreamInitialFixingDateBusinessCenter'', T_String),
    (40601, ''UnderlyingPaymentStreamInitialFixingDateOffsetPeriod'', T_int),
    (40602, ''UnderlyingPaymentStreamInitialFixingDateOffsetUnit'', T_String),
    (40603, ''UnderlyingPaymentStreamInitialFixingDateOffsetDayType'', T_int),
    (40604, ''UnderlyingPaymentStreamInitialFixingDateAdjusted'', T_LocalMktDate),
    (40605, ''UnderlyingPaymentStreamFixingDateRelativeTo'', T_int),
    (40606, ''UnderlyingPaymentStreamFixingDateBusinessDayConvention'', T_int),
    (40607, ''UnderlyingPaymentStreamFixingDateBusinessCenter'', T_String),
    (40608, ''UnderlyingPaymentStreamFixingDateOffsetPeriod'', T_int),
    (40609, ''UnderlyingPaymentStreamFixingDateOffsetUnit'', T_String),
    (40610, ''UnderlyingPaymentStreamFixingDateOffsetDayType'', T_int),
    (40611, ''UnderlyingPaymentStreamFixingDateAdjusted'', T_LocalMktDate),
    (40612, ''UnderlyingPaymentStreamRateCutoffDateOffsetPeriod'', T_int),
    (40613, ''UnderlyingPaymentStreamRateCutoffDateOffsetUnit'', T_String),
    (40614, ''UnderlyingPaymentStreamRateCutoffDateOffsetDayType'', T_int),
    (40615, ''UnderlyingPaymentStreamRate'', T_Percentage),
    (40616, ''UnderlyingPaymentStreamFixedAmount'', T_Amt),
    (40617, ''UnderlyingPaymentStreamRateOrAmountCurrency'', T_Currency),
    (40618, ''UnderlyingPaymentStreamFutureValueNotional'', T_Amt),
    (40619, ''UnderlyingPaymentStreamFutureValueDateAdjusted'', T_LocalMktDate),
    (40620, ''UnderlyingPaymentStreamRateIndex'', T_String),
    (40621, ''UnderlyingPaymentStreamRateIndexSource'', T_int),
    (40622, ''UnderlyingPaymentStreamRateIndexCurveUnit'', T_String),
    (40623, ''UnderlyingPaymentStreamRateIndexCurvePeriod'', T_int),
    (40624, ''UnderlyingPaymentStreamRateMultiplier'', T_float),
    (40625, ''UnderlyingPaymentStreamRateSpread'', T_PriceOffset),
    (40626, ''UnderlyingPaymentStreamRateSpreadPositionType'', T_int),
    (40627, ''UnderlyingPaymentStreamRateTreatment'', T_int),
    (40628, ''UnderlyingPaymentStreamCapRate'', T_Percentage),
    (40629, ''UnderlyingPaymentStreamCapRateBuySide'', T_int),
    (40630, ''UnderlyingPaymentStreamCapRateSellSide'', T_int),
    (40631, ''UnderlyingPaymentStreamFloorRate'', T_Percentage),
    (40632, ''UnderlyingPaymentStreamFloorRateBuySide'', T_int),
    (40633, ''UnderlyingPaymentStreamFloorRateSellSide'', T_int),
    (40634, ''UnderlyingPaymentStreamInitialRate'', T_Percentage),
    (40635, ''UnderlyingPaymentStreamFinalRateRoundingDirection'', T_char),
    (40636, ''UnderlyingPaymentStreamFinalRatePrecision'', T_int),
    (40637, ''UnderlyingPaymentStreamAveragingMethod'', T_int),
    (40638, ''UnderlyingPaymentStreamNegativeRateTreatment'', T_int),
    (40639, ''UnderlyingPaymentStreamInflationLagPeriod'', T_int),
    (40640, ''UnderlyingPaymentStreamInflationLagUnit'', T_String),
    (40641, ''UnderlyingPaymentStreamInflationLagDayType'', T_int),
    (40642, ''UnderlyingPaymentStreamInflationInterpolationMethod'', T_int),
    (40643, ''UnderlyingPaymentStreamInflationIndexSource'', T_int),
    (40644, ''UnderlyingPaymentStreamInflationPublicationSource'', T_String),
    (40645, ''UnderlyingPaymentStreamInflationInitialIndexLevel'', T_float),
    (40646, ''UnderlyingPaymentStreamInflationFallbackBondApplicable'', T_Boolean),
    (40647, ''UnderlyingPaymentStreamFRADiscounting'', T_int),
    (40648, ''UnderlyingPaymentStreamNonDeliverableRefCurrency'', T_Currency),
    (40649, ''UnderlyingPaymentStreamNonDeliverableFixingDatesBizDayConvention'', T_int),
    (40650, ''UnderlyingPaymentStreamNonDeliverableFixingDatesBusinessCenter'', T_String),
    (40651, ''UnderlyingPaymentStreamNonDeliverableFixingDatesRelativeTo'', T_int),
    (40652, ''UnderlyingPaymentStreamNonDeliverableFixingDatesOffsetPeriod'', T_int),
    (40653, ''UnderlyingPaymentStreamNonDeliverableFixingDatesOffsetUnit'', T_String),
    (40654, ''UnderlyingPaymentStreamNonDeliverableFixingDatesOffsetDayType'', T_int),
    (40655, ''SettlRateFallbackReferencePage'', T_String),
    (40656, ''NoUnderlyingNonDeliverableFixingDates'', T_NumInGroup),
    (40657, ''UnderlyingNonDeliverableFixingDate'', T_LocalMktDate),
    (40658, ''UnderlyingNonDeliverableFixingDateType'', T_int),
    (40659, ''NoUnderlyingSettlRateFallbacks'', T_NumInGroup),
    (40660, ''UnderlyingSettlRatePostponementMaximumDays'', T_int),
    (40661, ''UnderlyingPaymentStreamNonDeliverableSettlRateSource'', T_int),
    (40662, ''UnderlyingSettlRatePostponementSurvey'', T_Boolean),
    (40663, ''UnderlyingSettlRatePostponementCalculationAgent'', T_int),
    (40664, ''NoUnderlyingPaymentSchedules'', T_NumInGroup),
    (40665, ''UnderlyingPaymentScheduleType'', T_int), (40666, ''UnderlyingPaymentScheduleStubType'', T_int),
    (40667, ''UnderlyingPaymentScheduleStartDateUnadjusted'', T_LocalMktDate),
    (40668, ''UnderlyingPaymentScheduleEndDateUnadjusted'', T_LocalMktDate),
    (40669, ''UnderlyingPaymentSchedulePaySide'', T_int),
    (40670, ''UnderlyingPaymentScheduleReceiveSide'', T_int),
    (40671, ''UnderlyingPaymentScheduleNotional'', T_Amt),
    (40672, ''UnderlyingPaymentScheduleCurrency'', T_Currency),
    (40673, ''UnderlyingPaymentScheduleRate'', T_Percentage),
    (40674, ''UnderlyingPaymentScheduleRateMultiplier'', T_float),
    (40675, ''UnderlyingPaymentScheduleRateSpread'', T_PriceOffset),
    (40676, ''UnderlyingPaymentScheduleRateSpreadPositionType'', T_int),
    (40677, ''UnderlyingPaymentScheduleRateTreatment'', T_int),
    (40678, ''UnderlyingPaymentScheduleFixedAmount'', T_Amt),
    (40679, ''UnderlyingPaymentScheduleFixedCurrency'', T_Currency),
    (40680, ''UnderlyingPaymentScheduleStepFrequencyPeriod'', T_int),
    (40681, ''UnderlyingPaymentScheduleStepFrequencyUnit'', T_String),
    (40682, ''UnderlyingPaymentScheduleStepOffsetValue'', T_Amt),
    (40683, ''UnderlyingPaymentScheduleStepRate'', T_Percentage),
    (40684, ''UnderlyingPaymentScheduleStepOffsetRate'', T_Percentage),
    (40685, ''UnderlyingPaymentScheduleStepRelativeTo'', T_int),
    (40686, ''UnderlyingPaymentScheduleFixingDateUnadjusted'', T_LocalMktDate),
    (40687, ''UnderlyingPaymentScheduleWeight'', T_float),
    (40688, ''UnderlyingPaymentScheduleFixingDateRelativeTo'', T_int),
    (40689, ''UnderlyingPaymentScheduleFixingDateBusinessDayCnvtn'', T_int),
    (40690, ''UnderlyingPaymentScheduleFixingDateBusinessCenter'', T_String),
    (40691, ''UnderlyingPaymentScheduleFixingDateOffsetPeriod'', T_int),
    (40692, ''UnderlyingPaymentScheduleFixingDateOffsetUnit'', T_String),
    (40693, ''UnderlyingPaymentScheduleFixingDateOffsetDayType'', T_int),
    (40694, ''UnderlyingPaymentScheduleFixingDateAdjusted'', T_LocalMktDate),
    (40695, ''UnderlyingPaymentScheduleFixingTime'', T_LocalMktTime),
    (40696, ''UnderlyingPaymentScheduleFixingTimeBusinessCenter'', T_String),
    (40697, ''UnderlyingPaymentScheduleInterimExchangePaymentDateRelativeTo'', T_int),
    (40698, ''UnderlyingPaymentScheduleInterimExchangeDatesBizDayConvention'', T_int)]"

definition tag_enum_25 :: "tag_table" where
  "tag_enum_25 = [
    (40699, ''UnderlyingPaymentScheduleInterimExchangeDatesBusinessCenter'', T_String),
    (40700, ''UnderlyingPaymentScheduleInterimExchangeDatesOffsetPeriod'', T_int),
    (40701, ''UnderlyingPaymentScheduleInterimExchangeDatesOffsetUnit'', T_String),
    (40702, ''UnderlyingPaymentScheduleInterimExchangeDatesOffsetDayType'', T_int),
    (40703, ''UnderlyingPaymentScheduleInterimExchangeDateAdjusted'', T_LocalMktDate),
    (40704, ''NoUnderlyingPaymentScheduleRateSources'', T_NumInGroup),
    (40705, ''UnderlyingPaymentScheduleRateSource'', T_int),
    (40706, ''UnderlyingPaymentScheduleRateSourceType'', T_int),
    (40707, ''UnderlyingPaymentScheduleReferencePage'', T_String),
    (40708, ''NoUnderlyingPaymentStubs'', T_NumInGroup), (40709, ''UnderlyingPaymentStubType'', T_int),
    (40710, ''UnderlyingPaymentStubLength'', T_int), (40711, ''UnderlyingPaymentStubRate'', T_Percentage),
    (40712, ''UnderlyingPaymentStubFixedAmount'', T_Amt),
    (40713, ''UnderlyingPaymentStubFixedCurrency'', T_Currency),
    (40714, ''UnderlyingPaymentStubIndex'', T_String), (40715, ''UnderlyingPaymentStubIndexSource'', T_int),
    (40716, ''UnderlyingPaymentStubIndexCurvePeriod'', T_int),
    (40717, ''UnderlyingPaymentStubIndexCurveUnit'', T_String),
    (40718, ''UnderlyingPaymentStubIndexRateMultiplier'', T_float),
    (40719, ''UnderlyingPaymentStubIndexRateSpread'', T_PriceOffset),
    (40720, ''UnderlyingPaymentStubIndexRateSpreadPositionType'', T_int),
    (40721, ''UnderlyingPaymentStubIndexRateTreatment'', T_int),
    (40722, ''UnderlyingPaymentStubIndexCapRate'', T_Percentage),
    (40723, ''UnderlyingPaymentStubIndexCapRateBuySide'', T_int),
    (40724, ''UnderlyingPaymentStubIndexCapRateSellSide'', T_int),
    (40725, ''UnderlyingPaymentStubIndexFloorRate'', T_Percentage),
    (40726, ''UnderlyingPaymentStubIndexFloorRateBuySide'', T_int),
    (40727, ''UnderlyingPaymentStubIndexFloorRateSellSide'', T_int),
    (40728, ''UnderlyingPaymentStubIndex2'', T_String),
    (40729, ''UnderlyingPaymentStubIndex2Source'', T_int),
    (40730, ''UnderlyingPaymentStubIndex2CurvePeriod'', T_int),
    (40731, ''UnderlyingPaymentStubIndex2CurveUnit'', T_String),
    (40732, ''UnderlyingPaymentStubIndex2RateMultiplier'', T_float),
    (40733, ''UnderlyingPaymentStubIndex2RateSpread'', T_PriceOffset),
    (40734, ''UnderlyingPaymentStubIndex2RateSpreadPositionType'', T_int),
    (40735, ''UnderlyingPaymentStubIndex2RateTreatment'', T_int),
    (40736, ''UnderlyingPaymentStubIndex2CapRate'', T_Percentage),
    (40737, ''UnderlyingPaymentStubIndex2FloorRate'', T_Percentage), (40738, ''PaymentStreamType'', T_int),
    (40739, ''PaymentStreamMarketRate'', T_int), (40740, ''PaymentStreamDelayIndicator'', T_Boolean),
    (40741, ''PaymentStreamSettlCurrency'', T_Currency), (40742, ''PaymentStreamDayCount'', T_int),
    (40743, ''PaymentStreamAccrualDays'', T_int), (40744, ''PaymentStreamDiscountType'', T_int),
    (40745, ''PaymentStreamDiscountRate'', T_Percentage),
    (40746, ''PaymentStreamDiscountRateDayCount'', T_int),
    (40747, ''PaymentStreamCompoundingMethod'', T_int),
    (40748, ''PaymentStreamInitialPrincipalExchangeIndicator'', T_Boolean),
    (40749, ''PaymentStreamInterimPrincipalExchangeIndicator'', T_Boolean),
    (40750, ''PaymentStreamFinalPrincipalExchangeIndicator'', T_Boolean),
    (40751, ''PaymentStreamPaymentDateBusinessDayConvention'', T_int),
    (40752, ''PaymentStreamPaymentDateBusinessCenter'', T_String),
    (40753, ''PaymentStreamPaymentFrequencyPeriod'', T_int),
    (40754, ''PaymentStreamPaymentFrequencyUnit'', T_String),
    (40755, ''PaymentStreamPaymentRollConvention'', T_String),
    (40756, ''PaymentStreamFirstPaymentDateUnadjusted'', T_LocalMktDate),
    (40757, ''PaymentStreamLastRegularPaymentDateUnadjusted'', T_LocalMktDate),
    (40758, ''PaymentStreamPaymentDateRelativeTo'', T_int),
    (40759, ''PaymentStreamPaymentDateOffsetPeriod'', T_int),
    (40760, ''PaymentStreamPaymentDateOffsetUnit'', T_String),
    (40761, ''PaymentStreamResetDateRelativeTo'', T_int),
    (40762, ''PaymentStreamResetDateBusinessDayConvention'', T_int),
    (40763, ''PaymentStreamResetDateBusinessCenter'', T_String),
    (40764, ''PaymentStreamResetFrequencyPeriod'', T_int),
    (40765, ''PaymentStreamResetFrequencyUnit'', T_String),
    (40766, ''PaymentStreamResetWeeklyRollConvention'', T_String),
    (40767, ''PaymentStreamInitialFixingDateRelativeTo'', T_int),
    (40768, ''PaymentStreamInitialFixingDateBusinessDayConvention'', T_int),
    (40769, ''PaymentStreamInitialFixingDateBusinessCenter'', T_String),
    (40770, ''PaymentStreamInitialFixingDateOffsetPeriod'', T_int),
    (40771, ''PaymentStreamInitialFixingDateOffsetUnit'', T_String),
    (40772, ''PaymentStreamInitialFixingDateOffsetDayType'', T_int),
    (40773, ''PaymentStreamInitialFixingDateAdjusted'', T_LocalMktDate),
    (40774, ''PaymentStreamFixingDateRelativeTo'', T_int),
    (40775, ''PaymentStreamFixingDateBusinessDayConvention'', T_int),
    (40776, ''PaymentStreamFixingDateBusinessCenter'', T_String),
    (40777, ''PaymentStreamFixingDateOffsetPeriod'', T_int),
    (40778, ''PaymentStreamFixingDateOffsetUnit'', T_String),
    (40779, ''PaymentStreamFixingDateOffsetDayType'', T_int),
    (40780, ''PaymentStreamFixingDateAdjusted'', T_LocalMktDate),
    (40781, ''PaymentStreamRateCutoffDateOffsetPeriod'', T_int),
    (40782, ''PaymentStreamRateCutoffDateOffsetUnit'', T_String),
    (40783, ''PaymentStreamRateCutoffDateOffsetDayType'', T_int),
    (40784, ''PaymentStreamRate'', T_Percentage), (40785, ''PaymentStreamFixedAmount'', T_Amt),
    (40786, ''PaymentStreamRateOrAmountCurrency'', T_Currency),
    (40787, ''PaymentStreamFutureValueNotional'', T_Amt),
    (40788, ''PaymentStreamFutureValueDateAdjusted'', T_LocalMktDate),
    (40789, ''PaymentStreamRateIndex'', T_String), (40790, ''PaymentStreamRateIndexSource'', T_int),
    (40791, ''PaymentStreamRateIndexCurveUnit'', T_String),
    (40792, ''PaymentStreamRateIndexCurvePeriod'', T_int), (40793, ''PaymentStreamRateMultiplier'', T_float),
    (40794, ''PaymentStreamRateSpread'', T_PriceOffset),
    (40795, ''PaymentStreamRateSpreadPositionType'', T_int), (40796, ''PaymentStreamRateTreatment'', T_int),
    (40797, ''PaymentStreamCapRate'', T_Percentage), (40798, ''PaymentStreamCapRateBuySide'', T_int),
    (40799, ''PaymentStreamCapRateSellSide'', T_int), (40800, ''PaymentStreamFloorRate'', T_Percentage),
    (40801, ''PaymentStreamFloorRateBuySide'', T_int), (40802, ''PaymentStreamFloorRateSellSide'', T_int),
    (40803, ''PaymentStreamInitialRate'', T_Percentage),
    (40804, ''PaymentStreamFinalRateRoundingDirection'', T_char),
    (40805, ''PaymentStreamFinalRatePrecision'', T_int), (40806, ''PaymentStreamAveragingMethod'', T_int),
    (40807, ''PaymentStreamNegativeRateTreatment'', T_int),
    (40808, ''PaymentStreamInflationLagPeriod'', T_int),
    (40809, ''PaymentStreamInflationLagUnit'', T_String),
    (40810, ''PaymentStreamInflationLagDayType'', T_int),
    (40811, ''PaymentStreamInflationInterpolationMethod'', T_int),
    (40812, ''PaymentStreamInflationIndexSource'', T_int),
    (40813, ''PaymentStreamInflationPublicationSource'', T_String),
    (40814, ''PaymentStreamInflationInitialIndexLevel'', T_float),
    (40815, ''PaymentStreamInflationFallbackBondApplicable'', T_Boolean),
    (40816, ''PaymentStreamFRADiscounting'', T_int),
    (40817, ''PaymentStreamNonDeliverableRefCurrency'', T_Currency),
    (40818, ''PaymentStreamNonDeliverableFixingDatesBusinessDayConvention'', T_int),
    (40819, ''PaymentStreamNonDeliverableFixingDatesBusinessCenter'', T_String),
    (40820, ''PaymentStreamNonDeliverableFixingDatesRelativeTo'', T_int),
    (40821, ''PaymentStreamNonDeliverableFixingDatesOffsetPeriod'', T_int),
    (40822, ''PaymentStreamNonDeliverableFixingDatesOffsetUnit'', T_String),
    (40823, ''PaymentStreamNonDeliverableFixingDatesOffsetDayType'', T_int),
    (40824, ''UnderlyingPaymentStreamNonDeliverableSettlReferencePage'', T_String),
    (40825, ''NoNonDeliverableFixingDates'', T_NumInGroup),
    (40826, ''NonDeliverableFixingDate'', T_LocalMktDate), (40827, ''NonDeliverableFixingDateType'', T_int),
    (40828, ''NoPaymentSchedules'', T_NumInGroup), (40829, ''PaymentScheduleType'', T_int),
    (40830, ''PaymentScheduleStubType'', T_int),
    (40831, ''PaymentScheduleStartDateUnadjusted'', T_LocalMktDate),
    (40832, ''PaymentScheduleEndDateUnadjusted'', T_LocalMktDate),
    (40833, ''PaymentSchedulePaySide'', T_int), (40834, ''PaymentScheduleReceiveSide'', T_int),
    (40835, ''PaymentScheduleNotional'', T_Amt), (40836, ''PaymentScheduleCurrency'', T_Currency),
    (40837, ''PaymentScheduleRate'', T_Percentage), (40838, ''PaymentScheduleRateMultiplier'', T_float),
    (40839, ''PaymentScheduleRateSpread'', T_PriceOffset),
    (40840, ''PaymentScheduleRateSpreadPositionType'', T_int),
    (40841, ''PaymentScheduleRateTreatment'', T_int), (40842, ''PaymentScheduleFixedAmount'', T_Amt),
    (40843, ''PaymentScheduleFixedCurrency'', T_Currency),
    (40844, ''PaymentScheduleStepFrequencyPeriod'', T_int),
    (40845, ''PaymentScheduleStepFrequencyUnit'', T_String),
    (40846, ''PaymentScheduleStepOffsetValue'', T_Amt), (40847, ''PaymentScheduleStepRate'', T_Percentage),
    (40848, ''PaymentScheduleStepOffsetRate'', T_Percentage)]"

definition tag_enum_26 :: "tag_table" where
  "tag_enum_26 = [
    (40849, ''PaymentScheduleStepRelativeTo'', T_int),
    (40850, ''PaymentScheduleFixingDateUnadjusted'', T_LocalMktDate),
    (40851, ''PaymentScheduleWeight'', T_float), (40852, ''PaymentScheduleFixingDateRelativeTo'', T_int),
    (40853, ''PaymentScheduleFixingDateBusinessDayConvention'', T_int),
    (40854, ''PaymentScheduleFixingDateBusinessCenter'', T_String),
    (40855, ''PaymentScheduleFixingDateOffsetPeriod'', T_int),
    (40856, ''PaymentScheduleFixingDateOffsetUnit'', T_String),
    (40857, ''PaymentScheduleFixingDateOffsetDayType'', T_int),
    (40858, ''PaymentScheduleFixingDateAdjusted'', T_LocalMktDate),
    (40859, ''PaymentScheduleFixingTime'', T_LocalMktTime),
    (40860, ''PaymentScheduleFixingTimeBusinessCenter'', T_String),
    (40861, ''PaymentScheduleInterimExchangePaymentDateRelativeTo'', T_int),
    (40862, ''PaymentScheduleInterimExchangeDatesBusinessDayConvention'', T_int),
    (40863, ''PaymentScheduleInterimExchangeDatesBusinessCenter'', T_String),
    (40864, ''PaymentScheduleInterimExchangeDatesOffsetPeriod'', T_int),
    (40865, ''PaymentScheduleInterimExchangeDatesOffsetUnit'', T_String),
    (40866, ''PaymentScheduleInterimExchangeDatesOffsetDayType'', T_int),
    (40867, ''PaymentScheduleInterimExchangeDateAdjusted'', T_LocalMktDate),
    (40868, ''NoPaymentScheduleRateSources'', T_NumInGroup), (40869, ''PaymentScheduleRateSource'', T_int),
    (40870, ''PaymentScheduleRateSourceType'', T_int), (40871, ''PaymentScheduleReferencePage'', T_String),
    (40872, ''NoPaymentStubs'', T_NumInGroup), (40873, ''PaymentStubType'', T_int),
    (40874, ''PaymentStubLength'', T_int), (40875, ''PaymentStubRate'', T_Percentage),
    (40876, ''PaymentStubFixedAmount'', T_Amt), (40877, ''PaymentStubFixedCurrency'', T_Currency),
    (40878, ''PaymentStubIndex'', T_String), (40879, ''PaymentStubIndexSource'', T_int),
    (40880, ''PaymentStubIndexCurvePeriod'', T_int), (40881, ''PaymentStubIndexCurveUnit'', T_String),
    (40882, ''PaymentStubIndexRateMultiplier'', T_float),
    (40883, ''PaymentStubIndexRateSpread'', T_PriceOffset),
    (40884, ''PaymentStubIndexRateSpreadPositionType'', T_int),
    (40885, ''PaymentStubIndexRateTreatment'', T_int), (40886, ''PaymentStubIndexCapRate'', T_Percentage),
    (40887, ''PaymentStubIndexCapRateBuySide'', T_int), (40888, ''PaymentStubIndexCapRateSellSide'', T_int),
    (40889, ''PaymentStubIndexFloorRate'', T_Percentage),
    (40890, ''PaymentStubIndexFloorRateBuySide'', T_int),
    (40891, ''PaymentStubIndexFloorRateSellSide'', T_int), (40892, ''PaymentStubIndex2'', T_String),
    (40893, ''PaymentStubIndex2Source'', T_int), (40894, ''PaymentStubIndex2CurvePeriod'', T_int),
    (40895, ''PaymentStubIndex2CurveUnit'', T_String), (40896, ''PaymentStubIndex2RateMultiplier'', T_float),
    (40897, ''PaymentStubIndex2RateSpread'', T_PriceOffset),
    (40898, ''PaymentStubIndex2RateSpreadPositionType'', T_int),
    (40899, ''PaymentStubIndex2RateTreatment'', T_int), (40900, ''PaymentStubIndex2CapRate'', T_Percentage),
    (40901, ''PaymentStubIndex2FloorRate'', T_Percentage),
    (40902, ''NoLegSettlRateFallbacks'', T_NumInGroup),
    (40903, ''LegSettlRatePostponementMaximumDays'', T_int),
    (40904, ''UnderlyingSettlRateFallbackRateSource'', T_int),
    (40905, ''LegSettlRatePostponementSurvey'', T_Boolean),
    (40906, ''LegSettlRatePostponementCalculationAgent'', T_int),
    (40907, ''StreamEffectiveDateUnadjusted'', T_LocalMktDate),
    (40908, ''StreamEffectiveDateBusinessDayConvention'', T_int),
    (40909, ''StreamEffectiveDateBusinessCenter'', T_String),
    (40910, ''StreamEffectiveDateRelativeTo'', T_int), (40911, ''StreamEffectiveDateOffsetPeriod'', T_int),
    (40912, ''StreamEffectiveDateOffsetUnit'', T_String),
    (40913, ''StreamEffectiveDateOffsetDayType'', T_int),
    (40914, ''StreamEffectiveDateAdjusted'', T_LocalMktDate),
    (40915, ''UnderlyingSettlRateFallbackReferencePage'', T_String),
    (40916, ''CashSettlValuationSubsequentBusinessDaysOffset'', T_int),
    (40917, ''CashSettlNumOfValuationDates'', T_int),
    (40918, ''UnderlyingProvisionPartyRoleQualifier'', T_int), (40919, ''PaymentPriceType'', T_int),
    (40920, ''PaymentStreamPaymentDateOffsetDayType'', T_int), (40921, ''BusinessDayConvention'', T_int),
    (40922, ''DateRollConvention'', T_String), (40923, ''NoLegBusinessCenters'', T_NumInGroup),
    (40924, ''LegBusinessCenter'', T_String), (40925, ''LegBusinessDayConvention'', T_int),
    (40926, ''LegDateRollConvention'', T_String),
    (40927, ''NoLegPaymentScheduleFixingDateBusinessCenters'', T_NumInGroup),
    (40928, ''NoLegPaymentScheduleInterimExchangeDateBusinessCenters'', T_NumInGroup),
    (40929, ''NoLegPaymentStreamNonDeliverableFixingDateBusinessCenters'', T_NumInGroup),
    (40930, ''NoLegPaymentStreamPaymentDateBusinessCenters'', T_NumInGroup),
    (40931, ''NoLegPaymentStreamResetDateBusinessCenters'', T_NumInGroup),
    (40932, ''NoLegPaymentStreamInitialFixingDateBusinessCenters'', T_NumInGroup),
    (40933, ''NoLegPaymentStreamFixingDateBusinessCenters'', T_NumInGroup),
    (40934, ''NoLegProvisionCashSettlPaymentDateBusinessCenters'', T_NumInGroup),
    (40935, ''NoLegProvisionCashSettlValueDateBusinessCenters'', T_NumInGroup),
    (40936, ''NoLegProvisionOptionExerciseBusinessCenters'', T_NumInGroup),
    (40937, ''NoLegProvisionOptionExpirationDateBusinessCenters'', T_NumInGroup),
    (40938, ''NoLegProvisionOptionRelevantUnderlyingDateBusinessCenters'', T_NumInGroup),
    (40939, ''NoLegProvisionDateBusinessCenters'', T_NumInGroup),
    (40940, ''NoLegStreamCalculationPeriodBusinessCenters'', T_NumInGroup),
    (40941, ''NoLegStreamFirstPeriodStartDateBusinessCenters'', T_NumInGroup),
    (40942, ''NoLegStreamEffectiveDateBusinessCenters'', T_NumInGroup),
    (40943, ''NoLegStreamTerminationDateBusinessCenters'', T_NumInGroup),
    (40944, ''NoPaymentBusinessCenters'', T_NumInGroup),
    (40945, ''NoPaymentScheduleInterimExchangeDateBusinessCenters'', T_NumInGroup),
    (40946, ''NoPaymentStreamNonDeliverableFixingDatesBusinessCenters'', T_NumInGroup),
    (40947, ''NoPaymentStreamPaymentDateBusinessCenters'', T_NumInGroup),
    (40948, ''NoPaymentStreamResetDateBusinessCenters'', T_NumInGroup),
    (40949, ''NoPaymentStreamInitialFixingDateBusinessCenters'', T_NumInGroup),
    (40950, ''NoPaymentStreamFixingDateBusinessCenters'', T_NumInGroup),
    (40951, ''NoProtectionTermEventNewsSources'', T_NumInGroup),
    (40952, ''NoProvisionCashSettlPaymentDateBusinessCenters'', T_NumInGroup),
    (40953, ''NoProvisionCashSettlValueDateBusinessCenters'', T_NumInGroup),
    (40954, ''NoProvisionOptionExerciseBusinessCenters'', T_NumInGroup),
    (40955, ''NoProvisionOptionExpirationDateBusinessCenters'', T_NumInGroup),
    (40956, ''NoProvisionOptionRelevantUnderlyingDateBusinessCenters'', T_NumInGroup),
    (40957, ''NoProvisionDateBusinessCenters'', T_NumInGroup),
    (40958, ''NoStreamCalculationPeriodBusinessCenters'', T_NumInGroup),
    (40959, ''NoStreamFirstPeriodStartDateBusinessCenters'', T_NumInGroup),
    (40960, ''NoStreamEffectiveDateBusinessCenters'', T_NumInGroup),
    (40961, ''NoStreamTerminationDateBusinessCenters'', T_NumInGroup),
    (40962, ''NoUnderlyingBusinessCenters'', T_NumInGroup), (40963, ''UnderlyingBusinessCenter'', T_String),
    (40964, ''UnderlyingBusinessDayConvention'', T_int), (40965, ''UnderlyingDateRollConvention'', T_String),
    (40966, ''NoUnderlyingPaymentScheduleFixingDateBusinessCenters'', T_NumInGroup),
    (40967, ''NoUnderlyingPaymentScheduleInterimExchangeDateBusinessCenters'', T_NumInGroup),
    (40968, ''NoUnderlyingPaymentStreamNonDeliverableFixingDatesBizCenters'', T_NumInGroup),
    (40969, ''NoUnderlyingPaymentStreamPaymentDateBusinessCenters'', T_NumInGroup),
    (40970, ''NoUnderlyingPaymentStreamResetDateBusinessCenters'', T_NumInGroup),
    (40971, ''NoUnderlyingPaymentStreamInitialFixingDateBusinessCenters'', T_NumInGroup),
    (40972, ''NoUnderlyingPaymentStreamFixingDateBusinessCenters'', T_NumInGroup),
    (40973, ''NoUnderlyingStreamCalculationPeriodBusinessCenters'', T_NumInGroup),
    (40974, ''NoUnderlyingStreamFirstPeriodStartDateBusinessCenters'', T_NumInGroup),
    (40975, ''NoUnderlyingStreamEffectiveDateBusinessCenters'', T_NumInGroup),
    (40976, ''NoUnderlyingStreamTerminationDateBusinessCenters'', T_NumInGroup),
    (40977, ''NoPaymentScheduleFixingDateBusinessCenters'', T_NumInGroup),
    (40978, ''EncodedLegStreamTextLen'', T_Length), (40979, ''EncodedLegStreamText'', T_data),
    (40980, ''EncodedLegProvisionTextLen'', T_Length), (40981, ''EncodedLegProvisionText'', T_data),
    (40982, ''EncodedStreamTextLen'', T_Length), (40983, ''EncodedStreamText'', T_data),
    (40984, ''EncodedPaymentTextLen'', T_Length), (40985, ''EncodedPaymentText'', T_data),
    (40986, ''EncodedProvisionTextLen'', T_Length), (40987, ''EncodedProvisionText'', T_data),
    (40988, ''EncodedUnderlyingStreamTextLen'', T_Length), (40989, ''EncodedUnderlyingStreamText'', T_data),
    (40990, ''LegMarketDisruptionFallbackValue'', T_String), (40991, ''MarketDisruptionValue'', T_String),
    (40992, ''MarketDisruptionFallbackValue'', T_String), (40993, ''PaymentSubType'', T_int),
    (40994, ''NoComplexEventAveragingObservations'', T_NumInGroup),
    (40995, ''ComplexEventAveragingObservationNumber'', T_int),
    (40996, ''ComplexEventAveragingWeight'', T_float), (40997, ''NoComplexEventCreditEvents'', T_NumInGroup),
    (40998, ''ComplexEventCreditEventType'', T_String)]"

definition tag_enum_27 :: "tag_table" where
  "tag_enum_27 = [
    (40999, ''ComplexEventCreditEventValue'', T_String),
    (41000, ''ComplexEventCreditEventCurrency'', T_Currency),
    (41001, ''ComplexEventCreditEventPeriod'', T_int), (41002, ''ComplexEventCreditEventUnit'', T_String),
    (41003, ''ComplexEventCreditEventDayType'', T_int),
    (41004, ''ComplexEventCreditEventRateSource'', T_int),
    (41005, ''NoComplexEventCreditEventQualifiers'', T_NumInGroup),
    (41006, ''ComplexEventCreditEventQualifier'', T_char),
    (41007, ''NoComplexEventPeriodDateTimes'', T_NumInGroup),
    (41008, ''ComplexEventPeriodDate'', T_LocalMktDate), (41009, ''ComplexEventPeriodTime'', T_LocalMktTime),
    (41010, ''NoComplexEventPeriods'', T_NumInGroup), (41011, ''ComplexEventPeriodType'', T_int),
    (41012, ''ComplexEventBusinessCenter'', T_String), (41013, ''NoComplexEventRateSources'', T_NumInGroup),
    (41014, ''ComplexEventRateSource'', T_int), (41015, ''ComplexEventRateSourceType'', T_int),
    (41016, ''ComplexEventReferencePage'', T_String),
    (41017, ''ComplexEventReferencePageHeading'', T_String),
    (41018, ''NoComplexEventDateBusinessCenters'', T_NumInGroup),
    (41019, ''ComplexEventDateBusinessCenter'', T_String),
    (41020, ''ComplexEventDateUnadjusted'', T_LocalMktDate), (41021, ''ComplexEventDateRelativeTo'', T_int),
    (41022, ''ComplexEventDateOffsetPeriod'', T_int), (41023, ''ComplexEventDateOffsetUnit'', T_String),
    (41024, ''ComplexEventDateOffsetDayType'', T_int),
    (41025, ''ComplexEventDateBusinessDayConvention'', T_int),
    (41026, ''ComplexEventDateAdjusted'', T_LocalMktDate),
    (41027, ''ComplexEventFixingTime'', T_LocalMktTime),
    (41028, ''ComplexEventFixingTimeBusinessCenter'', T_String),
    (41029, ''NoComplexEventCreditEventSources'', T_NumInGroup),
    (41030, ''ComplexEventCreditEventSource'', T_String), (41031, ''NoComplexEventSchedules'', T_NumInGroup),
    (41032, ''ComplexEventScheduleStartDate'', T_LocalMktDate),
    (41033, ''ComplexEventScheduleEndDate'', T_LocalMktDate),
    (41034, ''ComplexEventScheduleFrequencyPeriod'', T_int),
    (41035, ''ComplexEventScheduleFrequencyUnit'', T_String),
    (41036, ''ComplexEventScheduleRollConvention'', T_String),
    (41037, ''NoDeliverySchedules'', T_NumInGroup), (41038, ''DeliveryScheduleType'', T_int),
    (41039, ''DeliveryScheduleXID'', T_XID), (41040, ''DeliveryScheduleNotional'', T_Qty),
    (41041, ''DeliveryScheduleNotionalUnitOfMeasure'', T_String),
    (41042, ''DeliveryScheduleNotionalCommodityFrequency'', T_int),
    (41043, ''DeliveryScheduleNegativeTolerance'', T_float),
    (41044, ''DeliverySchedulePositiveTolerance'', T_float),
    (41045, ''DeliveryScheduleToleranceUnitOfMeasure'', T_String),
    (41046, ''DeliveryScheduleToleranceType'', T_int), (41047, ''DeliveryScheduleSettlCountry'', T_Country),
    (41048, ''DeliveryScheduleSettlTimeZone'', T_String), (41049, ''DeliveryScheduleSettlFlowType'', T_int),
    (41050, ''DeliveryScheduleSettlHolidaysProcessingInstruction'', T_int),
    (41051, ''NoDeliveryScheduleSettlDays'', T_NumInGroup), (41052, ''DeliveryScheduleSettlDay'', T_int),
    (41053, ''DeliveryScheduleSettlTotalHours'', T_int),
    (41054, ''NoDeliveryScheduleSettlTimes'', T_NumInGroup),
    (41055, ''DeliveryScheduleSettlStart'', T_String), (41056, ''DeliveryScheduleSettlEnd'', T_String),
    (41057, ''DeliveryScheduleSettlTimeType'', T_int), (41058, ''DeliveryStreamType'', T_int),
    (41059, ''DeliveryStreamPipeline'', T_String), (41060, ''DeliveryStreamEntryPoint'', T_String),
    (41061, ''DeliveryStreamWithdrawalPoint'', T_String), (41062, ''DeliveryStreamDeliveryPoint'', T_String),
    (41063, ''DeliveryStreamDeliveryRestriction'', T_int),
    (41064, ''DeliveryStreamDeliveryContingency'', T_String),
    (41065, ''DeliveryStreamDeliveryContingentPartySide'', T_int),
    (41066, ''DeliveryStreamDeliverAtSourceIndicator'', T_Boolean),
    (41067, ''DeliveryStreamRiskApportionment'', T_String),
    (41068, ''DeliveryStreamTitleTransferLocation'', T_String),
    (41069, ''DeliveryStreamTitleTransferCondition'', T_int),
    (41070, ''DeliveryStreamImporterOfRecord'', T_String),
    (41071, ''DeliveryStreamNegativeTolerance'', T_float),
    (41072, ''DeliveryStreamPositiveTolerance'', T_float),
    (41073, ''DeliveryStreamToleranceUnitOfMeasure'', T_String),
    (41074, ''DeliveryStreamToleranceType'', T_int), (41075, ''DeliveryStreamToleranceOptionSide'', T_int),
    (41076, ''DeliveryStreamTotalPositiveTolerance'', T_Percentage),
    (41077, ''DeliveryStreamTotalNegativeTolerance'', T_Percentage),
    (41078, ''DeliveryStreamNotionalConversionFactor'', T_float),
    (41079, ''DeliveryStreamTransportEquipment'', T_String),
    (41080, ''DeliveryStreamElectingPartySide'', T_int), (41081, ''NoDeliveryStreamCycles'', T_NumInGroup),
    (41082, ''DeliveryStreamCycleDesc'', T_String), (41083, ''EncodedDeliveryStreamCycleDescLen'', T_Length),
    (41084, ''EncodedDeliveryStreamCycleDesc'', T_data),
    (41085, ''NoDeliveryStreamCommoditySources'', T_NumInGroup),
    (41086, ''DeliveryStreamCommoditySource'', T_String), (41087, ''MarketDisruptionProvision'', T_int),
    (41088, ''MarketDisruptionFallbackProvision'', T_int), (41089, ''MarketDisruptionMaximumDays'', T_int),
    (41090, ''MarketDisruptionMaterialityPercentage'', T_Percentage),
    (41091, ''MarketDisruptionMinimumFuturesContracts'', T_int),
    (41092, ''NoMarketDisruptionEvents'', T_NumInGroup), (41093, ''MarketDisruptionEvent'', T_String),
    (41094, ''NoMarketDisruptionFallbacks'', T_NumInGroup),
    (41095, ''MarketDisruptionFallbackType'', T_String),
    (41096, ''NoMarketDisruptionFallbackReferencePrices'', T_NumInGroup),
    (41097, ''MarketDisruptionFallbackUnderlierType'', T_int),
    (41098, ''MarketDisruptionFallbackUnderlierSecurityID'', T_String),
    (41099, ''MarketDisruptionFallbackUnderlierSecurityIDSource'', T_String),
    (41100, ''MarketDisruptionFallbackUnderlierSecurityDesc'', T_String),
    (41101, ''EncodedMarketDisruptionFallbackUnderlierSecurityDescLen'', T_Length),
    (41102, ''EncodedMarketDisruptionFallbackUnderlierSecurityDesc'', T_data),
    (41103, ''MarketDisruptionFallbackOpenUnits'', T_Qty),
    (41104, ''MarketDisruptionFallbackBasketCurrency'', T_Currency),
    (41105, ''MarketDisruptionFallbackBasketDivisor'', T_float), (41106, ''ExerciseDesc'', T_String),
    (41107, ''EncodedExerciseDescLen'', T_Length), (41108, ''EncodedExerciseDesc'', T_data),
    (41109, ''AutomaticExerciseIndicator'', T_Boolean), (41110, ''AutomaticExerciseThresholdRate'', T_float),
    (41111, ''ExerciseConfirmationMethod'', T_int), (41112, ''ManualNoticeBusinessCenter'', T_String),
    (41113, ''FallbackExerciseIndicator'', T_Boolean),
    (41114, ''LimitedRightToConfirmIndicator'', T_Boolean),
    (41115, ''ExerciseSplitTicketIndicator'', T_Boolean),
    (41116, ''NoOptionExerciseBusinessCenters'', T_NumInGroup),
    (41117, ''OptionExerciseBusinessCenter'', T_String),
    (41118, ''OptionExerciseBusinessDayConvention'', T_int),
    (41119, ''OptionExerciseEarliestDateOffsetDayType'', T_int),
    (41120, ''OptionExerciseEarliestDateOffsetPeriod'', T_int),
    (41121, ''OptionExerciseEarliestDateOffsetUnit'', T_String),
    (41122, ''OptionExerciseFrequencyPeriod'', T_int), (41123, ''OptionExerciseFrequencyUnit'', T_String),
    (41124, ''OptionExerciseStartDateUnadjusted'', T_LocalMktDate),
    (41125, ''OptionExerciseStartDateRelativeTo'', T_int),
    (41126, ''OptionExerciseStartDateOffsetPeriod'', T_int),
    (41127, ''OptionExerciseStartDateOffsetUnit'', T_String),
    (41128, ''OptionExerciseStartDateOffsetDayType'', T_int),
    (41129, ''OptionExerciseStartDateAdjusted'', T_LocalMktDate), (41130, ''OptionExerciseSkip'', T_int),
    (41131, ''OptionExerciseNominationDeadline'', T_LocalMktDate),
    (41132, ''OptionExerciseFirstDateUnadjusted'', T_LocalMktDate),
    (41133, ''OptionExerciseLastDateUnadjusted'', T_LocalMktDate),
    (41134, ''OptionExerciseEarliestTime'', T_LocalMktTime),
    (41135, ''OptionExerciseLatestTime'', T_LocalMktTime),
    (41136, ''OptionExerciseTimeBusinessCenter'', T_String),
    (41137, ''NoOptionExerciseDates'', T_NumInGroup), (41138, ''OptionExerciseDate'', T_LocalMktDate),
    (41139, ''OptionExerciseDateType'', T_int),
    (41140, ''NoOptionExerciseExpirationDateBusinessCenters'', T_NumInGroup),
    (41141, ''OptionExerciseExpirationDateBusinessCenter'', T_String),
    (41142, ''OptionExerciseExpirationDateBusinessDayConvention'', T_int),
    (41143, ''OptionExerciseExpirationDateRelativeTo'', T_int),
    (41144, ''OptionExerciseExpirationDateOffsetPeriod'', T_int),
    (41145, ''OptionExerciseExpirationDateOffsetUnit'', T_String),
    (41146, ''OptionExerciseExpirationFrequencyPeriod'', T_int),
    (41147, ''OptionExerciseExpirationFrequencyUnit'', T_String),
    (41148, ''OptionExerciseExpirationRollConvention'', T_String)]"

definition tag_enum_28 :: "tag_table" where
  "tag_enum_28 = [
    (41149, ''OptionExerciseExpirationDateOffsetDayType'', T_int),
    (41150, ''OptionExerciseExpirationTime'', T_LocalMktTime),
    (41151, ''OptionExerciseExpirationTimeBusinessCenter'', T_String),
    (41152, ''NoOptionExerciseExpirationDates'', T_NumInGroup),
    (41153, ''OptionExerciseExpirationDate'', T_LocalMktDate),
    (41154, ''OptionExerciseExpirationDateType'', T_int), (41155, ''PaymentUnitOfMeasure'', T_String),
    (41156, ''PaymentDateRelativeTo'', T_int), (41157, ''PaymentDateOffsetPeriod'', T_int),
    (41158, ''PaymentDateOffsetUnit'', T_String), (41159, ''PaymentDateOffsetDayType'', T_int),
    (41160, ''PaymentForwardStartType'', T_int), (41161, ''NoPaymentScheduleFixingDays'', T_NumInGroup),
    (41162, ''PaymentScheduleFixingDayOfWeek'', T_int), (41163, ''PaymentScheduleFixingDayNumber'', T_int),
    (41164, ''PaymentScheduleXID'', T_XID), (41165, ''PaymentScheduleXIDRef'', T_XIDREF),
    (41166, ''PaymentScheduleRateCurrency'', T_Currency),
    (41167, ''PaymentScheduleRateUnitOfMeasure'', T_String),
    (41168, ''PaymentScheduleRateConversionFactor'', T_float),
    (41169, ''PaymentScheduleRateSpreadType'', T_int), (41170, ''PaymentScheduleSettlPeriodPrice'', T_Price),
    (41171, ''PaymentScheduleSettlPeriodPriceCurrency'', T_Currency),
    (41172, ''PaymentScheduleSettlPeriodPriceUnitOfMeasure'', T_String),
    (41173, ''PaymentScheduleStepUnitOfMeasure'', T_String),
    (41174, ''PaymentScheduleFixingDayDistribution'', T_int),
    (41175, ''PaymentScheduleFixingDayCount'', T_int), (41176, ''PaymentScheduleFixingLagPeriod'', T_int),
    (41177, ''PaymentScheduleFixingLagUnit'', T_String),
    (41178, ''PaymentScheduleFixingFirstObservationDateOffsetPeriod'', T_int),
    (41179, ''PaymentScheduleFixingFirstObservationDateOffsetUnit'', T_String),
    (41180, ''PaymentStreamFlatRateIndicator'', T_Boolean), (41181, ''PaymentStreamFlatRateAmount'', T_Amt),
    (41182, ''PaymentStreamFlatRateCurrency'', T_Currency),
    (41183, ''PaymentStreamMaximumPaymentAmount'', T_Amt),
    (41184, ''PaymentStreamMaximumPaymentCurrency'', T_Currency),
    (41185, ''PaymentStreamMaximumTransactionAmount'', T_Amt),
    (41186, ''PaymentStreamMaximumTransactionCurrency'', T_Currency),
    (41187, ''PaymentStreamFixedAmountUnitOfMeasure'', T_String),
    (41188, ''PaymentStreamTotalFixedAmount'', T_Amt), (41189, ''PaymentStreamWorldScaleRate'', T_float),
    (41190, ''PaymentStreamContractPrice'', T_Price),
    (41191, ''PaymentStreamContractPriceCurrency'', T_Currency),
    (41192, ''NoPaymentStreamPricingBusinessCenters'', T_NumInGroup),
    (41193, ''PaymentStreamPricingBusinessCenter'', T_String),
    (41194, ''PaymentStreamRateIndex2CurvePeriod'', T_int),
    (41195, ''PaymentStreamRateIndex2CurveUnit'', T_String),
    (41196, ''PaymentStreamRateIndexLocation'', T_String), (41197, ''PaymentStreamRateIndexLevel'', T_Qty),
    (41198, ''PaymentStreamRateIndexUnitOfMeasure'', T_String), (41199, ''PaymentStreamSettlLevel'', T_int),
    (41200, ''PaymentStreamReferenceLevel'', T_Qty),
    (41201, ''PaymentStreamReferenceLevelUnitOfMeasure'', T_String),
    (41202, ''PaymentStreamReferenceLevelEqualsZeroIndicator'', T_Boolean),
    (41203, ''PaymentStreamRateSpreadCurrency'', T_Currency),
    (41204, ''PaymentStreamRateSpreadUnitOfMeasure'', T_String),
    (41205, ''PaymentStreamRateConversionFactor'', T_float), (41206, ''PaymentStreamRateSpreadType'', T_int),
    (41207, ''PaymentStreamLastResetRate'', T_Percentage), (41208, ''PaymentStreamFinalRate'', T_Percentage),
    (41209, ''PaymentStreamCalculationLagPeriod'', T_int),
    (41210, ''PaymentStreamCalculationLagUnit'', T_String),
    (41211, ''PaymentStreamFirstObservationDateOffsetPeriod'', T_int),
    (41212, ''PaymentStreamFirstObservationDateOffsetUnit'', T_String),
    (41213, ''PaymentStreamPricingDayType'', T_int), (41214, ''PaymentStreamPricingDayDistribution'', T_int),
    (41215, ''PaymentStreamPricingDayCount'', T_int),
    (41216, ''PaymentStreamPricingBusinessCalendar'', T_String),
    (41217, ''PaymentStreamPricingBusinessDayConvention'', T_int),
    (41218, ''DeliveryStreamRiskApportionmentSource'', T_String),
    (41219, ''LegDeliveryStreamRiskApportionmentSource'', T_String),
    (41220, ''NoPaymentStreamPaymentDates'', T_NumInGroup),
    (41221, ''PaymentStreamPaymentDate'', T_LocalMktDate), (41222, ''PaymentStreamPaymentDateType'', T_int),
    (41223, ''PaymentStreamMasterAgreementPaymentDatesIndicator'', T_Boolean),
    (41224, ''NoPaymentStreamPricingDates'', T_NumInGroup),
    (41225, ''PaymentStreamPricingDate'', T_LocalMktDate), (41226, ''PaymentStreamPricingDateType'', T_int),
    (41227, ''NoPaymentStreamPricingDays'', T_NumInGroup), (41228, ''PaymentStreamPricingDayOfWeek'', T_int),
    (41229, ''PaymentStreamPricingDayNumber'', T_int),
    (41230, ''NoPricingDateBusinessCenters'', T_NumInGroup),
    (41231, ''PricingDateBusinessCenter'', T_String), (41232, ''PricingDateUnadjusted'', T_LocalMktDate),
    (41233, ''PricingDateBusinessDayConvention'', T_int), (41234, ''PricingDateAdjusted'', T_LocalMktDate),
    (41235, ''PricingTime'', T_LocalMktTime), (41236, ''PricingTimeBusinessCenter'', T_String),
    (41237, ''NoStreamAssetAttributes'', T_NumInGroup), (41238, ''StreamAssetAttributeType'', T_String),
    (41239, ''StreamAssetAttributeValue'', T_String), (41240, ''StreamAssetAttributeLimit'', T_String),
    (41241, ''NoStreamCalculationPeriodDates'', T_NumInGroup),
    (41242, ''StreamCalculationPeriodDate'', T_LocalMktDate),
    (41243, ''StreamCalculationPeriodDateType'', T_int), (41244, ''StreamCalculationPeriodDatesXID'', T_XID),
    (41245, ''StreamCalculationPeriodDatesXIDRef'', T_XIDREF),
    (41246, ''StreamCalculationBalanceOfFirstPeriod'', T_Boolean),
    (41247, ''StreamCalculationCorrectionPeriod'', T_int),
    (41248, ''StreamCalculationCorrectionUnit'', T_String),
    (41249, ''NoStreamCommoditySettlBusinessCenters'', T_NumInGroup),
    (41250, ''StreamCommoditySettlBusinessCenter'', T_String), (41251, ''StreamCommodityBase'', T_String),
    (41252, ''StreamCommodityType'', T_String), (41253, ''StreamCommoditySecurityID'', T_String),
    (41254, ''StreamCommoditySecurityIDSource'', T_String), (41255, ''StreamCommodityDesc'', T_String),
    (41256, ''EncodedStreamCommodityDescLen'', T_Length), (41257, ''EncodedStreamCommodityDesc'', T_data),
    (41258, ''StreamCommodityUnitOfMeasure'', T_String), (41259, ''StreamCommodityCurrency'', T_Currency),
    (41260, ''StreamCommodityExchange'', T_Exchange), (41261, ''StreamCommodityRateSource'', T_int),
    (41262, ''StreamCommodityRateReferencePage'', T_String),
    (41263, ''StreamCommodityRateReferencePageHeading'', T_String),
    (41264, ''StreamDataProvider'', T_String), (41265, ''StreamCommodityPricingType'', T_String),
    (41266, ''StreamCommodityNearbySettlDayPeriod'', T_int),
    (41267, ''StreamCommodityNearbySettlDayUnit'', T_String),
    (41268, ''StreamCommoditySettlDateUnadjusted'', T_LocalMktDate),
    (41269, ''StreamCommoditySettlDateBusinessDayConvention'', T_int),
    (41270, ''StreamCommoditySettlDateAdjusted'', T_LocalMktDate),
    (41271, ''StreamCommoditySettlMonth'', T_int), (41272, ''StreamCommoditySettlDateRollPeriod'', T_int),
    (41273, ''StreamCommoditySettlDateRollUnit'', T_String), (41274, ''StreamCommoditySettlDayType'', T_int),
    (41275, ''StreamCommodityXID'', T_XID), (41276, ''StreamCommodityXIDRef'', T_XIDREF),
    (41277, ''NoStreamCommodityAltIDs'', T_NumInGroup), (41278, ''StreamCommodityAltID'', T_String),
    (41279, ''StreamCommodityAltIDSource'', T_String),
    (41280, ''NoStreamCommodityDataSources'', T_NumInGroup),
    (41281, ''StreamCommodityDataSourceID'', T_String), (41282, ''StreamCommodityDataSourceIDType'', T_int),
    (41283, ''NoStreamCommoditySettlDays'', T_NumInGroup), (41284, ''StreamCommoditySettlDay'', T_int),
    (41285, ''StreamCommoditySettlTotalHours'', T_int),
    (41286, ''NoStreamCommoditySettlTimes'', T_NumInGroup), (41287, ''StreamCommoditySettlStart'', T_String),
    (41288, ''StreamCommoditySettlEnd'', T_String), (41289, ''NoStreamCommoditySettlPeriods'', T_NumInGroup),
    (41290, ''StreamCommoditySettlCountry'', T_Country), (41291, ''StreamCommoditySettlTimeZone'', T_String),
    (41292, ''StreamCommoditySettlFlowType'', T_int), (41293, ''StreamCommoditySettlPeriodNotional'', T_Qty),
    (41294, ''StreamCommoditySettlPeriodNotionalUnitOfMeasure'', T_String),
    (41295, ''StreamCommoditySettlPeriodFrequencyPeriod'', T_int),
    (41296, ''StreamCommoditySettlPeriodFrequencyUnit'', T_String),
    (41297, ''StreamCommoditySettlPeriodPrice'', T_Price),
    (41298, ''StreamCommoditySettlPeriodPriceUnitOfMeasure'', T_String)]"

definition tag_enum_29 :: "tag_table" where
  "tag_enum_29 = [
    (41299, ''StreamCommoditySettlPeriodPriceCurrency'', T_Currency),
    (41300, ''StreamCommoditySettlHolidaysProcessingInstruction'', T_int),
    (41301, ''StreamCommoditySettlPeriodXID'', T_XID),
    (41302, ''StreamCommoditySettlPeriodXIDRef'', T_XIDREF), (41303, ''StreamXID'', T_XID),
    (41304, ''PaymentLegRefID'', T_String), (41305, ''StreamNotionalXIDRef'', T_XIDREF),
    (41306, ''StreamNotionalFrequencyPeriod'', T_int), (41307, ''StreamNotionalFrequencyUnit'', T_String),
    (41308, ''StreamNotionalCommodityFrequency'', T_int), (41309, ''StreamNotionalUnitOfMeasure'', T_String),
    (41310, ''StreamTotalNotional'', T_Qty), (41311, ''StreamTotalNotionalUnitOfMeasure'', T_String),
    (41312, ''NoMandatoryClearingJurisdictions'', T_NumInGroup),
    (41313, ''MandatoryClearingJurisdiction'', T_String),
    (41314, ''UnderlyingProtectionTermXIDRef'', T_XIDREF), (41315, ''UnderlyingSettlTermXIDRef'', T_XIDREF),
    (41316, ''NoLegAdditionalTermBondRefs'', T_NumInGroup),
    (41317, ''LegAdditionalTermBondSecurityID'', T_String),
    (41318, ''LegAdditionalTermBondSecurityIDSource'', T_String),
    (41319, ''LegAdditionalTermBondDesc'', T_String),
    (41320, ''EncodedLegAdditionalTermBondDescLen'', T_Length),
    (41321, ''EncodedLegAdditionalTermBondDesc'', T_data),
    (41322, ''LegAdditionalTermBondCurrency'', T_Currency),
    (41323, ''LegAdditionalTermBondIssuer'', T_String),
    (41324, ''EncodedLegAdditionalTermBondIssuerLen'', T_Length),
    (41325, ''EncodedLegAdditionalTermBondIssuer'', T_data),
    (41326, ''LegAdditionalTermBondSeniority'', T_String),
    (41327, ''LegAdditionalTermBondCouponType'', T_int),
    (41328, ''LegAdditionalTermBondCouponRate'', T_Percentage),
    (41329, ''LegAdditionalTermBondMaturityDate'', T_LocalMktDate),
    (41330, ''LegAdditionalTermBondParValue'', T_Amt),
    (41331, ''LegAdditionalTermBondCurrentTotalIssuedAmount'', T_Amt),
    (41332, ''LegAdditionalTermBondCouponFrequencyPeriod'', T_int),
    (41333, ''LegAdditionalTermBondCouponFrequencyUnit'', T_String),
    (41334, ''LegAdditionalTermBondDayCount'', T_int), (41335, ''NoLegAdditionalTerms'', T_NumInGroup),
    (41336, ''LegAdditionalTermConditionPrecedentBondIndicator'', T_Boolean),
    (41337, ''LegAdditionalTermDiscrepancyClauseIndicator'', T_Boolean),
    (41338, ''UnderlyingMarketDisruptionValue'', T_String),
    (41339, ''UnderlyingMarketDisruptionFallbackValue'', T_String),
    (41340, ''NoUnderlyingAdditionalTermBondRefs'', T_NumInGroup),
    (41341, ''UnderlyingAdditionalTermBondSecurityID'', T_String),
    (41342, ''NoLegCashSettlDealers'', T_NumInGroup), (41343, ''LegCashSettlDealer'', T_String),
    (41344, ''NoLegCashSettlTerms'', T_NumInGroup), (41345, ''LegCashSettlCurrency'', T_Currency),
    (41346, ''LegCasSettlValuationFirstBusinessDayOffset'', T_int),
    (41347, ''LegCashSettlValuationSubsequentBusinessDaysOffset'', T_int),
    (41348, ''LegCashSettlNumOfValuationDates'', T_int),
    (41349, ''LegCashSettlValuationTime'', T_LocalMktTime),
    (41350, ''LegCashSettlBusinessCenter'', T_String), (41351, ''LegCashSettlQuoteMethod'', T_int),
    (41352, ''LegCashSettlQuoteAmount'', T_Amt), (41353, ''LegCashSettlQuoteCurrency'', T_Currency),
    (41354, ''LegCashSettlMinimumQuoteAmount'', T_Amt),
    (41355, ''LegCashSettlMinimumQuoteCurrency'', T_Currency), (41356, ''LegCashSettlBusinessDays'', T_int),
    (41357, ''LegCashSettlAmount'', T_Amt), (41358, ''LegCashSettlRecoveryFactor'', T_float),
    (41359, ''LegCashSettlFixedTermIndicator'', T_Boolean),
    (41360, ''LegCashSettlAccruedInterestIndicator'', T_Boolean),
    (41361, ''LegCashSettlValuationMethod'', T_int), (41362, ''LegCashSettlTermXID'', T_XID),
    (41363, ''NoLegComplexEventAveragingObservations'', T_NumInGroup),
    (41364, ''LegComplexEventAveragingObservationNumber'', T_int),
    (41365, ''LegComplexEventAveragingWeight'', T_float),
    (41366, ''NoLegComplexEventCreditEvents'', T_NumInGroup),
    (41367, ''LegComplexEventCreditEventType'', T_String),
    (41368, ''LegComplexEventCreditEventValue'', T_String),
    (41369, ''LegComplexEventCreditEventCurrency'', T_Currency),
    (41370, ''LegComplexEventCreditEventPeriod'', T_int),
    (41371, ''LegComplexEventCreditEventUnit'', T_String),
    (41372, ''LegComplexEventCreditEventDayType'', T_int),
    (41373, ''LegComplexEventCreditEventRateSource'', T_int),
    (41374, ''NoLegComplexEventCreditEventQualifiers'', T_NumInGroup),
    (41375, ''LegComplexEventCreditEventQualifier'', T_char),
    (41376, ''NoLegComplexEventPeriodDateTimes'', T_NumInGroup),
    (41377, ''LegComplexEventPeriodDate'', T_LocalMktDate),
    (41378, ''LegComplexEventPeriodTime'', T_LocalMktTime),
    (41379, ''NoLegComplexEventPeriods'', T_NumInGroup), (41380, ''LegComplexEventPeriodType'', T_int),
    (41381, ''LegComplexEventBusinessCenter'', T_String),
    (41382, ''NoLegComplexEventRateSources'', T_NumInGroup), (41383, ''LegComplexEventRateSource'', T_int),
    (41384, ''LegComplexEventRateSourceType'', T_int), (41385, ''LegComplexEventReferencePage'', T_String),
    (41386, ''LegComplexEvenReferencePageHeading'', T_String),
    (41387, ''NoLegComplexEventDateBusinessCenters'', T_NumInGroup),
    (41388, ''LegComplexEventDateBusinessCenter'', T_String),
    (41389, ''LegComplexEventDateUnadjusted'', T_LocalMktDate),
    (41390, ''LegComplexEventDateRelativeTo'', T_int), (41391, ''LegComplexEventDateOffsetPeriod'', T_int),
    (41392, ''LegComplexEventDateOffsetUnit'', T_String),
    (41393, ''LegComplexEventDateOffsetDayType'', T_int),
    (41394, ''LegComplexEventDateBusinessDayConvention'', T_int),
    (41395, ''LegComplexEventDateAdjusted'', T_LocalMktDate),
    (41396, ''LegComplexEventFixingTime'', T_LocalMktTime),
    (41397, ''LegComplexEventFixingTimeBusinessCenter'', T_String),
    (41398, ''NoLegComplexEventCreditEventSources'', T_NumInGroup),
    (41399, ''LegComplexEventCreditEventSource'', T_String),
    (41400, ''NoLegComplexEventSchedules'', T_NumInGroup),
    (41401, ''LegComplexEventScheduleStartDate'', T_LocalMktDate),
    (41402, ''LegComplexEventScheduleEndDate'', T_LocalMktDate),
    (41403, ''LegComplexEventScheduleFrequencyPeriod'', T_int),
    (41404, ''LegComplexEventScheduleFrequencyUnit'', T_String),
    (41405, ''LegComplexEventScheduleRollConvention'', T_String),
    (41406, ''ProvisionCashSettlQuoteReferencePage'', T_String),
    (41407, ''LegProvisionCashSettlQuoteReferencePage'', T_String),
    (41408, ''NoLegDeliverySchedules'', T_NumInGroup), (41409, ''LegDeliveryScheduleType'', T_int),
    (41410, ''LegDeliveryScheduleXID'', T_XID), (41411, ''LegDeliveryScheduleNotional'', T_Qty),
    (41412, ''LegDeliveryScheduleNotionalUnitOfMeasure'', T_String),
    (41413, ''LegDeliveryScheduleNotionalCommodityFrequency'', T_int),
    (41414, ''LegDeliveryScheduleNegativeTolerance'', T_float),
    (41415, ''LegDeliverySchedulePositiveTolerance'', T_float),
    (41416, ''LegDeliveryScheduleToleranceUnitOfMeasure'', T_String),
    (41417, ''LegDeliveryScheduleToleranceType'', T_int),
    (41418, ''LegDeliveryScheduleSettlCountry'', T_Country),
    (41419, ''LegDeliveryScheduleSettlTimeZone'', T_String),
    (41420, ''LegDeliveryScheduleSettlFlowType'', T_int),
    (41421, ''LegDeliveryScheduleSettlHolidaysProcessingInstruction'', T_int),
    (41422, ''NoLegDeliveryScheduleSettlDays'', T_NumInGroup),
    (41423, ''LegDeliveryScheduleSettlDay'', T_int), (41424, ''LegDeliveryScheduleSettlTotalHours'', T_int),
    (41425, ''NoLegDeliveryScheduleSettlTimes'', T_NumInGroup),
    (41426, ''LegDeliveryScheduleSettlStart'', T_String), (41427, ''LegDeliveryScheduleSettlEnd'', T_String),
    (41428, ''LegDeliveryScheduleSettlTimeType'', T_int), (41429, ''LegDeliveryStreamType'', T_int),
    (41430, ''LegDeliveryStreamPipeline'', T_String), (41431, ''LegDeliveryStreamEntryPoint'', T_String),
    (41432, ''LegDeliveryStreamWithdrawalPoint'', T_String),
    (41433, ''LegDeliveryStreamDeliveryPoint'', T_String),
    (41434, ''LegDeliveryStreamDeliveryRestriction'', T_int),
    (41435, ''LegDeliveryStreamDeliveryContingency'', T_String),
    (41436, ''LegDeliveryStreamDeliveryContingentPartySide'', T_int),
    (41437, ''LegDeliveryStreamDeliverAtSourceIndicator'', T_Boolean),
    (41438, ''LegDeliveryStreamRiskApportionment'', T_String),
    (41439, ''LegDeliveryStreamTitleTransferLocation'', T_String),
    (41440, ''LegDeliveryStreamTitleTransferCondition'', T_int),
    (41441, ''LegDeliveryStreamImporterOfRecord'', T_String),
    (41442, ''LegDeliveryStreamNegativeTolerance'', T_float),
    (41443, ''LegDeliveryStreamPositiveTolerance'', T_float),
    (41444, ''LegDeliveryStreamToleranceUnitOfMeasure'', T_String),
    (41445, ''LegDeliveryStreamToleranceType'', T_int),
    (41446, ''LegDeliveryStreamToleranceOptionSide'', T_int),
    (41447, ''LegDeliveryStreamTotalPositiveTolerance'', T_Percentage),
    (41448, ''LegDeliveryStreamTotalNegativeTolerance'', T_Percentage)]"

definition tag_enum_30 :: "tag_table" where
  "tag_enum_30 = [
    (41449, ''LegDeliveryStreamNotionalConversionFactor'', T_float),
    (41450, ''LegDeliveryStreamTransportEquipment'', T_String),
    (41451, ''LegDeliveryStreamElectingPartySide'', T_int),
    (41452, ''NoLegStreamAssetAttributes'', T_NumInGroup),
    (41453, ''LegStreamAssetAttributeType'', T_String), (41454, ''LegStreamAssetAttributeValue'', T_String),
    (41455, ''LegStreamAssetAttributeLimit'', T_String),
    (41456, ''NoLegDeliveryStreamCycles'', T_NumInGroup), (41457, ''LegDeliveryStreamCycleDesc'', T_String),
    (41458, ''EncodedLegDeliveryStreamCycleDescLen'', T_Length),
    (41459, ''EncodedLegDeliveryStreamCycleDesc'', T_data),
    (41460, ''NoLegDeliveryStreamCommoditySources'', T_NumInGroup),
    (41461, ''LegDeliveryStreamCommoditySource'', T_String),
    (41462, ''LegMarketDisruptionProvision'', T_int),
    (41463, ''LegMarketDisruptionFallbackProvision'', T_int),
    (41464, ''LegMarketDisruptionMaximumDays'', T_int),
    (41465, ''LegMarketDisruptionMaterialityPercentage'', T_Percentage),
    (41466, ''LegMarketDisruptionMinimumFuturesContracts'', T_int),
    (41467, ''NoLegMarketDisruptionEvents'', T_NumInGroup), (41468, ''LegMarketDisruptionEvent'', T_String),
    (41469, ''NoLegMarketDisruptionFallbacks'', T_NumInGroup),
    (41470, ''LegMarketDisruptionFallbackType'', T_String),
    (41471, ''NoLegMarketDisruptionFallbackReferencePrices'', T_NumInGroup),
    (41472, ''LegMarketDisruptionFallbackUnderlierType'', T_int),
    (41473, ''LegMarketDisruptionFallbackUnderlierSecurityID'', T_String),
    (41474, ''LegMarketDisruptionFallbackUnderlierSecurityIDSource'', T_String),
    (41475, ''LegMarketDisruptionFallbackUnderlierSecurityDesc'', T_String),
    (41476, ''EncodedLegMarketDisruptionFallbackUnderlierSecurityDescLen'', T_Length),
    (41477, ''EncodedLegMarketDisruptionFallbackUnderlierSecurityDesc'', T_data),
    (41478, ''LegMarketDisruptionFallbackOpenUnits'', T_Qty),
    (41479, ''LegMarketDisruptionFallbackBasketCurrency'', T_Currency),
    (41480, ''LegMarketDisruptionFallbackBasketDivisor'', T_float), (41481, ''LegExerciseDesc'', T_String),
    (41482, ''EncodedLegExerciseDescLen'', T_Length), (41483, ''EncodedLegExerciseDesc'', T_data),
    (41484, ''LegAutomaticExerciseIndicator'', T_Boolean),
    (41485, ''LegAutomaticExerciseThresholdRate'', T_float),
    (41486, ''LegExerciseConfirmationMethod'', T_int), (41487, ''LegManualNoticeBusinessCenter'', T_String),
    (41488, ''LegFallbackExerciseIndicator'', T_Boolean),
    (41489, ''LegLimitRightToConfirmIndicator'', T_Boolean),
    (41490, ''LegExerciseSplitTicketIndicator'', T_Boolean),
    (41491, ''NoLegOptionExerciseBusinessCenters'', T_NumInGroup),
    (41492, ''LegOptionExerciseBusinessCenter'', T_String),
    (41493, ''LegOptionExerciseBusinessDayConvention'', T_int),
    (41494, ''LegOptionExerciseEarliestDateOffsetDayType'', T_int),
    (41495, ''LegOptionExerciseEarliestDateOffsetPeriod'', T_int),
    (41496, ''LegOptionExerciseEarliestDateOffsetUnit'', T_String),
    (41497, ''LegOptionExerciseFrequencyPeriod'', T_int),
    (41498, ''LegOptionExerciseFrequencyUnit'', T_String),
    (41499, ''LegOptionExerciseStartDateUnadjusted'', T_LocalMktDate),
    (41500, ''LegOptionExerciseStartDateRelativeTo'', T_int),
    (41501, ''LegOptionExerciseStartDateOffsetPeriod'', T_int),
    (41502, ''LegOptionExerciseStartDateOffsetUnit'', T_String),
    (41503, ''LegOptionExerciseStartDateOffsetDayType'', T_int),
    (41504, ''LegOptionExerciseStartDateAdjusted'', T_LocalMktDate),
    (41505, ''LegOptionExerciseSkip'', T_int),
    (41506, ''LegOptionExerciseNominationDeadline'', T_LocalMktDate),
    (41507, ''LegOptionExerciseFirstDateUnadjusted'', T_LocalMktDate),
    (41508, ''LegOptionExerciseLastDateUnadjusted'', T_LocalMktDate),
    (41509, ''LegOptionExerciseEarliestTime'', T_LocalMktTime),
    (41510, ''LegOptionExerciseLatestTime'', T_LocalMktTime),
    (41511, ''LegOptionExerciseTimeBusinessCenter'', T_String),
    (41512, ''NoLegOptionExerciseDates'', T_NumInGroup), (41513, ''LegOptionExerciseDate'', T_LocalMktDate),
    (41514, ''LegOptionExerciseDateType'', T_int),
    (41515, ''NoLegOptionExerciseExpirationDateBusinessCenters'', T_NumInGroup),
    (41516, ''LegOptionExerciseExpirationDateBusinessCenter'', T_String),
    (41517, ''LegOptionExerciseExpirationDateBusinessDayConvention'', T_int),
    (41518, ''LegOptionExerciseExpirationDateRelativeTo'', T_int),
    (41519, ''LegOptionExerciseExpirationDateOffsetPeriod'', T_int),
    (41520, ''LegOptionExerciseExpirationDateOffsetUnit'', T_String),
    (41521, ''LegOptionExerciseExpirationFrequencyPeriod'', T_int),
    (41522, ''LegOptionExerciseExpirationFrequencyUnit'', T_String),
    (41523, ''LegOptionExerciseExpirationRollConvention'', T_String),
    (41524, ''LegOptionExerciseExpirationDateOffsetDayType'', T_int),
    (41525, ''LegOptionExerciseExpirationTime'', T_LocalMktTime),
    (41526, ''LegOptionExerciseExpirationTimeBusinessCenter'', T_String),
    (41527, ''NoLegOptionExerciseExpirationDates'', T_NumInGroup),
    (41528, ''LegOptionExerciseExpirationDate'', T_LocalMktDate),
    (41529, ''LegOptionExerciseExpirationDateType'', T_int),
    (41530, ''NoLegPaymentScheduleFixingDays'', T_NumInGroup),
    (41531, ''LegPaymentScheduleFixingDayOfWeek'', T_int),
    (41532, ''LegPaymentScheduleFixingDayNumber'', T_int), (41533, ''LegPaymentScheduleXID'', T_XID),
    (41534, ''LegPaymentScheduleXIDRef'', T_XIDREF), (41535, ''LegPaymentScheduleRateCurrency'', T_Currency),
    (41536, ''LegPaymentScheduleRateUnitOfMeasure'', T_String),
    (41537, ''LegPaymentScheduleRateConversionFactor'', T_float),
    (41538, ''LegPaymentScheduleRateSpreadType'', T_int),
    (41539, ''LegPaymentScheduleSettlPeriodPrice'', T_Price),
    (41540, ''LegPaymentScheduleSettlPeriodPriceCurrency'', T_Currency),
    (41541, ''LegPaymentScheduleSettlPeriodPriceUnitOfMeasure'', T_String),
    (41542, ''LegPaymentScheduleStepUnitOfMeasure'', T_String),
    (41543, ''LegPaymentScheduleFixingDayDistribution'', T_int),
    (41544, ''LegPaymentScheduleFixingDayCount'', T_int),
    (41545, ''LegPaymentScheduleFixingLagPeriod'', T_int),
    (41546, ''LegPaymentScheduleFixingLagUnit'', T_String),
    (41547, ''LegPaymentScheduleFixingFirstObservationDateOffsetPeriod'', T_int),
    (41548, ''LegPaymentScheduleFixingFirstObservationDateOffsetUnit'', T_String),
    (41549, ''LegPaymentStreamFlatRateIndicator'', T_Boolean),
    (41550, ''LegPaymentStreamFlatRateAmount'', T_Amt),
    (41551, ''LegPaymentStreamFlatRateCurrency'', T_Currency),
    (41552, ''LegStreamMaximumPaymentAmount'', T_Amt),
    (41553, ''LegStreamMaximumPaymentCurrency'', T_Currency),
    (41554, ''LegStreamMaximumTransactionAmount'', T_Amt),
    (41555, ''LegStreamMaximumTransactionCurrency'', T_Currency),
    (41556, ''LegPaymentStreamFixedAmountUnitOfMeasure'', T_String),
    (41557, ''LegPaymentStreamTotalFixedAmount'', T_Amt),
    (41558, ''LegPaymentStreamWorldScaleRate'', T_float),
    (41559, ''LegPaymentStreamContractPrice'', T_Price),
    (41560, ''LegPaymentStreamContractPriceCurrency'', T_Currency),
    (41561, ''NoLegPaymentStreamPricingBusinessCenters'', T_NumInGroup),
    (41562, ''LegPaymentStreamPricingBusinessCenter'', T_String),
    (41563, ''LegPaymentStreamRateIndex2CurveUnit'', T_String),
    (41564, ''LegPaymentStreamRateIndex2CurvePeriod'', T_int),
    (41565, ''LegPaymentStreamRateIndexLocation'', T_String),
    (41566, ''LegPaymentStreamRateIndexLevel'', T_Qty),
    (41567, ''LegPaymentStreamRateIndexUnitOfMeasure'', T_String),
    (41568, ''LegPaymentStreamSettlLevel'', T_int), (41569, ''LegPaymentStreamReferenceLevel'', T_Qty),
    (41570, ''LegPaymentStreamReferenceLevelUnitOfMeasure'', T_String),
    (41571, ''LegPaymentStreamReferenceLevelEqualsZeroIndicator'', T_Boolean),
    (41572, ''LegPaymentStreamRateSpreadCurrency'', T_Currency),
    (41573, ''LegPaymentStreamRateSpreadUnitOfMeasure'', T_String),
    (41574, ''LegPaymentStreamRateConversionFactor'', T_float),
    (41575, ''LegPaymentStreamRateSpreadType'', T_int),
    (41576, ''LegPaymentStreamLastResetRate'', T_Percentage),
    (41577, ''LegPaymentStreamFinalRate'', T_Percentage),
    (41578, ''LegPaymentStreamCalculationLagPeriod'', T_int),
    (41579, ''LegPaymentStreamCalculationLagUnit'', T_String),
    (41580, ''LegPaymentStreamFirstObservationDateOffsetPeriod'', T_int),
    (41581, ''LegPaymentStreamFirstObservationDateOffsetUnit'', T_String),
    (41582, ''LegPaymentStreamPricingDayType'', T_int),
    (41583, ''LegPaymentStreamPricingDayDistribution'', T_int),
    (41584, ''LegPaymentStreamPricingDayCount'', T_int),
    (41585, ''LegPaymentStreamPricingBusinessCalendar'', T_String),
    (41586, ''LegPaymentStreamPricingBusinessDayConvention'', T_int),
    (41587, ''UnderlyingDeliveryStreamRiskApportionmentSource'', T_String),
    (41588, ''StreamCommoditySettlTimeType'', T_int),
    (41589, ''NoLegPaymentStreamPaymentDates'', T_NumInGroup),
    (41590, ''LegPaymentStreamPaymentDate'', T_LocalMktDate),
    (41591, ''LegPaymentStreamPaymentDateType'', T_int),
    (41592, ''LegPaymentStreamMasterAgreementPaymentDatesIndicator'', T_Boolean),
    (41593, ''NoLegPaymentStreamPricingDates'', T_NumInGroup),
    (41594, ''LegPaymentStreamPricingDate'', T_LocalMktDate),
    (41595, ''LegPaymentStreamPricingDateType'', T_int),
    (41596, ''NoLegPaymentStreamPricingDays'', T_NumInGroup),
    (41597, ''LegPaymentStreamPricingDayOfWeek'', T_int),
    (41598, ''LegPaymentStreamPricingDayNumber'', T_int)]"

section \<open>What each part contains\<close>

lemma lengths_21: "of_type T_Length tag_enum_21 =
    []"
  unfolding tag_enum_21_def by (rule of_type_scan | simp only: fix_type.distinct not_False_eq_True)+

lemma counts_21: "of_type T_NumInGroup tag_enum_21 =
    [40142, 40171, 40174, 40178, 40181, 40191, 40199, 40201, 40204, 40209, 40212, 40230, 40233, 40238,
    40241]"
  unfolding tag_enum_21_def by (rule of_type_scan | simp only: fix_type.distinct not_False_eq_True)+

lemma ascending_21: "ascends 40098 tag_enum_21 40248"
  unfolding tag_enum_21_def by (rule ascends_scan | simp)+

lemma lengths_22: "of_type T_Length tag_enum_22 =
    []"
  unfolding tag_enum_22_def by (rule of_type_scan | simp only: fix_type.distinct not_False_eq_True)+

lemma counts_22: "of_type T_NumInGroup tag_enum_22 =
    [40277, 40278, 40367, 40374]"
  unfolding tag_enum_22_def by (rule of_type_scan | simp only: fix_type.distinct not_False_eq_True)+

lemma ascending_22: "ascends 40248 tag_enum_22 40398"
  unfolding tag_enum_22_def by (rule ascends_scan | simp)+

lemma lengths_23: "of_type T_Length tag_enum_23 =
    []"
  unfolding tag_enum_23_def by (rule of_type_scan | simp only: fix_type.distinct not_False_eq_True)+

lemma counts_23: "of_type T_NumInGroup tag_enum_23 =
    [40414, 40418, 40448, 40473, 40495, 40533, 40537, 40540]"
  unfolding tag_enum_23_def by (rule of_type_scan | simp only: fix_type.distinct not_False_eq_True)+

lemma ascending_23: "ascends 40398 tag_enum_23 40548"
  unfolding tag_enum_23_def by (rule ascends_scan | simp)+

lemma lengths_24: "of_type T_Length tag_enum_24 =
    []"
  unfolding tag_enum_24_def by (rule of_type_scan | simp only: fix_type.distinct not_False_eq_True)+

lemma counts_24: "of_type T_NumInGroup tag_enum_24 =
    [40656, 40659, 40664]"
  unfolding tag_enum_24_def by (rule of_type_scan | simp only: fix_type.distinct not_False_eq_True)+

lemma ascending_24: "ascends 40548 tag_enum_24 40698"
  unfolding tag_enum_24_def by (rule ascends_scan | simp)+

lemma lengths_25: "of_type T_Length tag_enum_25 =
    []"
  unfolding tag_enum_25_def by (rule of_type_scan | simp only: fix_type.distinct not_False_eq_True)+

lemma counts_25: "of_type T_NumInGroup tag_enum_25 =
    [40704, 40708, 40825, 40828]"
  unfolding tag_enum_25_def by (rule of_type_scan | simp only: fix_type.distinct not_False_eq_True)+

lemma ascending_25: "ascends 40698 tag_enum_25 40848"
  unfolding tag_enum_25_def by (rule ascends_scan | simp)+

lemma lengths_26: "of_type T_Length tag_enum_26 =
    [40978, 40980, 40982, 40984, 40986, 40988]"
  unfolding tag_enum_26_def by (rule of_type_scan | simp only: fix_type.distinct not_False_eq_True)+

lemma counts_26: "of_type T_NumInGroup tag_enum_26 =
    [40868, 40872, 40902, 40923, 40927, 40928, 40929, 40930, 40931, 40932, 40933, 40934, 40935, 40936, 40937,
    40938, 40939, 40940, 40941, 40942, 40943, 40944, 40945, 40946, 40947, 40948, 40949, 40950, 40951, 40952,
    40953, 40954, 40955, 40956, 40957, 40958, 40959, 40960, 40961, 40962, 40966, 40967, 40968, 40969, 40970,
    40971, 40972, 40973, 40974, 40975, 40976, 40977, 40994, 40997]"
  unfolding tag_enum_26_def by (rule of_type_scan | simp only: fix_type.distinct not_False_eq_True)+

lemma ascending_26: "ascends 40848 tag_enum_26 40998"
  unfolding tag_enum_26_def by (rule ascends_scan | simp)+

lemma lengths_27: "of_type T_Length tag_enum_27 =
    [41083, 41101, 41107]"
  unfolding tag_enum_27_def by (rule of_type_scan | simp only: fix_type.distinct not_False_eq_True)+

lemma counts_27: "of_type T_NumInGroup tag_enum_27 =
    [41005, 41007, 41010, 41013, 41018, 41029, 41031, 41037, 41051, 41054, 41081, 41085, 41092, 41094, 41096,
    41116, 41137, 41140]"
  unfolding tag_enum_27_def by (rule of_type_scan | simp only: fix_type.distinct not_False_eq_True)+

lemma ascending_27: "ascends 40998 tag_enum_27 41148"
  unfolding tag_enum_27_def by (rule ascends_scan | simp)+

lemma lengths_28: "of_type T_Length tag_enum_28 =
    [41256]"
  unfolding tag_enum_28_def by (rule of_type_scan | simp only: fix_type.distinct not_False_eq_True)+

lemma counts_28: "of_type T_NumInGroup tag_enum_28 =
    [41152, 41161, 41192, 41220, 41224, 41227, 41230, 41237, 41241, 41249, 41277, 41280, 41283, 41286,
    41289]"
  unfolding tag_enum_28_def by (rule of_type_scan | simp only: fix_type.distinct not_False_eq_True)+

lemma ascending_28: "ascends 41148 tag_enum_28 41298"
  unfolding tag_enum_28_def by (rule ascends_scan | simp)+

lemma lengths_29: "of_type T_Length tag_enum_29 =
    [41320, 41324]"
  unfolding tag_enum_29_def by (rule of_type_scan | simp only: fix_type.distinct not_False_eq_True)+

lemma counts_29: "of_type T_NumInGroup tag_enum_29 =
    [41312, 41316, 41335, 41340, 41342, 41344, 41363, 41366, 41374, 41376, 41379, 41382, 41387, 41398, 41400,
    41408, 41422, 41425]"
  unfolding tag_enum_29_def by (rule of_type_scan | simp only: fix_type.distinct not_False_eq_True)+

lemma ascending_29: "ascends 41298 tag_enum_29 41448"
  unfolding tag_enum_29_def by (rule ascends_scan | simp)+

lemma lengths_30: "of_type T_Length tag_enum_30 =
    [41458, 41476, 41482]"
  unfolding tag_enum_30_def by (rule of_type_scan | simp only: fix_type.distinct not_False_eq_True)+

lemma counts_30: "of_type T_NumInGroup tag_enum_30 =
    [41452, 41456, 41460, 41467, 41469, 41471, 41491, 41512, 41515, 41527, 41530, 41561, 41589, 41593,
    41596]"
  unfolding tag_enum_30_def by (rule of_type_scan | simp only: fix_type.distinct not_False_eq_True)+

lemma ascending_30: "ascends 41448 tag_enum_30 41598"
  unfolding tag_enum_30_def by (rule ascends_scan | simp)+

end
