(* ===== verification/Tag_Enum_4.thy ===== *)
theory Tag_Enum_4
  imports Fix_Types
begin

text \<open>
  The enumerators of \<open>hffix::tag\<close> (\<open>src/include/hffix_fields.hpp\<close>), last quarter: number, name, and the
  type in the comment, 150 lines in each definition. Which numbers have the types Length and
  NumInGroup, and that the numbers ascend, is read off part by part.
\<close>

definition tag_enum_31 :: "tag_table" where
  "tag_enum_31 = [
    (41599, ''NoLegPhysicalSettlTerms'', T_NumInGroup), (41600, ''LegPhysicalSettlTermXID'', T_XID),
    (41601, ''LegPhysicalSettlCurency'', T_Currency), (41602, ''LegPhysicalSettlBusinessDays'', T_int),
    (41603, ''LegPhysicalSettlMaximumBusinessDays'', T_int),
    (41604, ''NoLegPhysicalSettlDeliverableObligations'', T_NumInGroup),
    (41605, ''LegPhysicalSettlDeliverableObligationType'', T_String),
    (41606, ''LegPhysicalSettlDeliverableObligationValue'', T_String),
    (41607, ''NoLegPricingDateBusinessCenters'', T_NumInGroup),
    (41608, ''LegPricingDateBusinessCenter'', T_String),
    (41609, ''LegPricingDateUnadjusted'', T_LocalMktDate),
    (41610, ''LegPricingDateBusinessDayConvention'', T_int),
    (41611, ''LegPricingDateAdjusted'', T_LocalMktDate), (41612, ''LegPricingTime'', T_LocalMktTime),
    (41613, ''LegPricingTimeBusinessCenter'', T_String),
    (41614, ''NoLegProtectionTermEventNewsSources'', T_NumInGroup),
    (41615, ''LegProtectionTermEventNewsSource'', T_String), (41616, ''NoLegProtectionTerms'', T_NumInGroup),
    (41617, ''LegProtectionTermXID'', T_XID), (41618, ''LegProtectionTermNotional'', T_Amt),
    (41619, ''LegProtectionTermCurrency'', T_Currency),
    (41620, ''LegProtectionTermSellerNotifies'', T_Boolean),
    (41621, ''LegProtectionTermBuyerNotifies'', T_Boolean),
    (41622, ''LegProtectionTermEventBusinessCenter'', T_String),
    (41623, ''LegProtectionTermStandardSources'', T_Boolean),
    (41624, ''LegProtectionTermEventMinimumSources'', T_int),
    (41625, ''NoLegProtectionTermEvents'', T_NumInGroup), (41626, ''LegProtectionTermEventType'', T_String),
    (41627, ''LegProtectionTermEventValue'', T_String),
    (41628, ''LegProtectionTermEventCurrency'', T_Currency),
    (41629, ''LegProtectionTermEventPeriod'', T_int), (41630, ''LegProtectionTermEventUnit'', T_String),
    (41631, ''LegProtectionTermEventDayType'', T_int),
    (41632, ''LegProtectionTermEventRateSource'', T_String),
    (41633, ''NoLegProtectionTermEventQualifiers'', T_NumInGroup),
    (41634, ''LegProtectionTermEventQualifier'', T_char),
    (41635, ''NoLegProtectionTermObligations'', T_NumInGroup),
    (41636, ''LegProtectionTermObligationType'', T_String),
    (41637, ''LegProtectionTermObligationValue'', T_String),
    (41638, ''NoLegStreamCalculationPeriodDates'', T_NumInGroup),
    (41639, ''LegStreamCalculationPeriodDate'', T_LocalMktDate),
    (41640, ''LegStreamCalculationPeriodDateType'', T_int),
    (41641, ''LegStreamCalculationPeriodDatesXID'', T_XID),
    (41642, ''LegStreamCalculationPeriodDatesXIDRef'', T_XIDREF),
    (41643, ''LegStreamCalculationBalanceOfFirstPeriod'', T_Boolean),
    (41644, ''LegStreamCalculationCorrectionPeriod'', T_int),
    (41645, ''LegStreamCalculationCorrectionUnit'', T_String),
    (41646, ''NoLegStreamCommoditySettlBusinessCenters'', T_NumInGroup),
    (41647, ''LegStreamCommoditySettlBusinessCenter'', T_String),
    (41648, ''LegStreamCommodityBase'', T_String), (41649, ''LegStreamCommodityType'', T_String),
    (41650, ''LegStreamCommoditySecurityID'', T_String),
    (41651, ''LegStreamCommoditySecurityIDSource'', T_String), (41652, ''LegStreamCommodityDesc'', T_String),
    (41653, ''EncodedLegStreamCommodityDescLen'', T_Length),
    (41654, ''EncodedLegStreamCommodityDesc'', T_data),
    (41655, ''LegStreamCommodityUnitOfMeasure'', T_String),
    (41656, ''LegStreamCommodityCurrency'', T_Currency), (41657, ''LegStreamCommodityExchange'', T_Exchange),
    (41658, ''LegStreamCommodityRateSource'', T_int),
    (41659, ''LegStreamCommodityRateReferencePage'', T_String),
    (41660, ''LegStreamCommodityRateReferencePageHeading'', T_String),
    (41661, ''LegStreamDataProvider'', T_String), (41662, ''LegStreamCommodityPricingType'', T_String),
    (41663, ''LegStreamCommodityNearbySettlDayPeriod'', T_int),
    (41664, ''LegStreamCommodityNearbySettlDayUnit'', T_String),
    (41665, ''LegStreamCommoditySettlDateUnadjusted'', T_LocalMktDate),
    (41666, ''LegStreamCommoditySettlDateBusinessDayConvention'', T_int),
    (41667, ''LegStreamCommoditySettlDateAdjusted'', T_LocalMktDate),
    (41668, ''LegStreamCommoditySettlMonth'', T_int),
    (41669, ''LegStreamCommoditySettlDateRollPeriod'', T_int),
    (41670, ''LegStreamCommoditySettlDateRollUnit'', T_String),
    (41671, ''LegStreamCommoditySettlDayType'', T_int), (41672, ''LegStreamCommodityXID'', T_XID),
    (41673, ''LegStreamCommodityXIDRef'', T_XIDREF), (41674, ''NoLegStreamCommodityAltIDs'', T_NumInGroup),
    (41675, ''LegStreamCommodityAltID'', T_String), (41676, ''LegStreamCommodityAltIDSource'', T_String),
    (41677, ''NoLegStreamCommodityDataSources'', T_NumInGroup),
    (41678, ''LegStreamCommodityDataSourceID'', T_String),
    (41679, ''LegStreamCommodityDataSourceIDType'', T_int),
    (41680, ''NoLegStreamCommoditySettlDays'', T_NumInGroup), (41681, ''LegStreamCommoditySettlDay'', T_int),
    (41682, ''LegStreamCommoditySettlTotalHours'', T_int),
    (41683, ''NoLegStreamCommoditySettlTimes'', T_NumInGroup),
    (41684, ''LegStreamCommoditySettlStart'', T_String), (41685, ''LegStreamCommoditySettlEnd'', T_String),
    (41686, ''NoLegStreamCommoditySettlPeriods'', T_NumInGroup),
    (41687, ''LegStreamCommoditySettlCountry'', T_Country),
    (41688, ''LegStreamCommoditySettlTimeZone'', T_String),
    (41689, ''LegStreamCommoditySettlFlowType'', T_int),
    (41690, ''LegStreamCommoditySettlPeriodNotional'', T_Qty),
    (41691, ''LegStreamCommoditySettlPeriodNotionalUnitOfMeasure'', T_String),
    (41692, ''LegStreamCommoditySettlPeriodFrequencyPeriod'', T_int),
    (41693, ''LegStreamCommoditySettlPeriodFrequencyUnit'', T_String),
    (41694, ''LegStreamCommoditySettlPeriodPrice'', T_Price),
    (41695, ''LegStreamCommoditySettlPeriodPriceUnitOfMeasure'', T_String),
    (41696, ''LegStreamCommoditySettlPeriodPriceCurrency'', T_Currency),
    (41697, ''LegStreamCommoditySettlHolidaysProcessingInstruction'', T_int),
    (41698, ''LegStreamCommoditySettlPeriodXID'', T_XID),
    (41699, ''LegStreamCommoditySettlPeriodXIDRef'', T_XIDREF), (41700, ''LegStreamXID'', T_XID),
    (41701, ''UnderlyingAdditionalTermBondSecurityIDSource'', T_String),
    (41702, ''LegStreamNotionalXIDRef'', T_XIDREF), (41703, ''LegStreamNotionalFrequencyPeriod'', T_int),
    (41704, ''LegStreamNotionalFrequencyUnit'', T_String),
    (41705, ''LegStreamNotionalCommodityFrequency'', T_int),
    (41706, ''LegStreamNotionalUnitOfMeasure'', T_String), (41707, ''LegStreamTotalNotional'', T_Qty),
    (41708, ''LegStreamTotalNotionalUnitOfMeasure'', T_String),
    (41709, ''UnderlyingAdditionalTermBondDesc'', T_String),
    (41710, ''EncodedUnderlyingAdditionalTermBondDescLen'', T_Length),
    (41711, ''EncodedUnderlyingAdditionalTermBondDesc'', T_data),
    (41712, ''UnderlyingAdditionalTermBondCurrency'', T_Currency),
    (41713, ''NoUnderlyingComplexEventAveragingObservations'', T_NumInGroup),
    (41714, ''UnderlyingComplexEventAveragingObservationNumber'', T_int),
    (41715, ''UnderlyingComplexEventAveragingWeight'', T_float),
    (41716, ''NoUnderlyingComplexEventCreditEvents'', T_NumInGroup),
    (41717, ''UnderlyingComplexEventCreditEventType'', T_String),
    (41718, ''UnderlyingComplexEventCreditEventValue'', T_String),
    (41719, ''UnderlyingComplexEventCreditEventCurrency'', T_Currency),
    (41720, ''UnderlyingComplexEventCreditEventPeriod'', T_int),
    (41721, ''UnderlyingComplexEventCreditEventUnit'', T_String),
    (41722, ''UnderlyingComplexEventCreditEventDayType'', T_int),
    (41723, ''UnderlyingComplexEventCreditEventRateSource'', T_int),
    (41724, ''NoUnderlyingComplexEventCreditEventQualifiers'', T_NumInGroup),
    (41725, ''UnderlyingComplexEventCreditEventQualifier'', T_char),
    (41726, ''NoUnderlyingComplexEventPeriodDateTimes'', T_NumInGroup),
    (41727, ''UnderlyingComplexEventPeriodDate'', T_LocalMktDate),
    (41728, ''UnderlyingComplexEventPeriodTime'', T_LocalMktTime),
    (41729, ''NoUnderlyingComplexEventPeriods'', T_NumInGroup),
    (41730, ''UnderlyingComplexEventPeriodType'', T_int),
    (41731, ''UnderlyingComplexEventBusinessCenter'', T_String),
    (41732, ''NoUnderlyingComplexEventRateSources'', T_NumInGroup),
    (41733, ''UnderlyingComplexEventRateSource'', T_int),
    (41734, ''UnderlyingComplexEventRateSourceType'', T_int),
    (41735, ''UnderlyingComplexEventReferencePage'', T_String),
    (41736, ''UnderlyingComplexEventReferencePageHeading'', T_String),
    (41737, ''NoUnderlyingComplexEventDateBusinessCenters'', T_NumInGroup),
    (41738, ''UnderlyingComplexEventDateBusinessCenter'', T_String),
    (41739, ''UnderlyingComplexEventDateUnadjusted'', T_LocalMktDate),
    (41740, ''UnderlyingComplexEventDateRelativeTo'', T_int),
    (41741, ''UnderlyingComplexEventDateOffsetPeriod'', T_int),
    (41742, ''UnderlyingComplexEventDateOffsetUnit'', T_String),
    (41743, ''UnderlyingComplexEventDateOffsetDayType'', T_int),
    (41744, ''UnderlyingComplexEventDateBusinessDayConvention'', T_int),
    (41745, ''UnderlyingComplexEventDateAdjusted'', T_LocalMktDate),
    (41746, ''UnderlyingComplexEventFixingTime'', T_LocalMktTime),
    (41747, ''UnderlyingComplexEventFixingTimeBusinessCenter'', T_String),
    (41748, ''NoUnderlyingComplexEventCreditEventSources'', T_NumInGroup)]"

definition tag_enum_32 :: "tag_table" where
  "tag_enum_32 = [
    (41749, ''UnderlyingComplexEventCreditEventSource'', T_String),
    (41750, ''NoUnderlyingComplexEventSchedules'', T_NumInGroup),
    (41751, ''UnderlyingComplexEventScheduleStartDate'', T_LocalMktDate),
    (41752, ''UnderlyingComplexEventScheduleEndDate'', T_LocalMktDate),
    (41753, ''UnderlyingComplexEventScheduleFrequencyPeriod'', T_int),
    (41754, ''UnderlyingComplexEventScheduleFrequencyUnit'', T_String),
    (41755, ''UnderlyingComplexEventScheduleRollConvention'', T_String),
    (41756, ''NoUnderlyingDeliverySchedules'', T_NumInGroup),
    (41757, ''UnderlyingDeliveryScheduleType'', T_int), (41758, ''UnderlyingDeliveryScheduleXID'', T_XID),
    (41759, ''UnderlyingDeliveryScheduleNotional'', T_Qty),
    (41760, ''UnderlyingDeliveryScheduleNotionalUnitOfMeasure'', T_String),
    (41761, ''UnderlyingDeliveryScheduleNotionalCommodityFrequency'', T_int),
    (41762, ''UnderlyingDeliveryScheduleNegativeTolerance'', T_float),
    (41763, ''UnderlyingDeliverySchedulePositiveTolerance'', T_float),
    (41764, ''UnderlyingDeliveryScheduleToleranceUnitOfMeasure'', T_String),
    (41765, ''UnderlyingDeliveryScheduleToleranceType'', T_int),
    (41766, ''UnderlyingDeliveryScheduleSettlCountry'', T_Country),
    (41767, ''UnderlyingDeliveryScheduleSettlTimeZone'', T_String),
    (41768, ''UnderlyingDeliveryScheduleSettlFlowType'', T_int),
    (41769, ''UnderlyingDeliveryScheduleSettlHolidaysProcessingInstruction'', T_int),
    (41770, ''NoUnderlyingDeliveryScheduleSettlDays'', T_NumInGroup),
    (41771, ''UnderlyingDeliveryScheduleSettlDay'', T_int),
    (41772, ''UnderlyingDeliveryScheduleSettlTotalHours'', T_int),
    (41773, ''NoUnderlyingDeliveryScheduleSettlTimes'', T_NumInGroup),
    (41774, ''UnderlyingDeliveryScheduleSettlStart'', T_String),
    (41775, ''UnderlyingDeliveryScheduleSettlEnd'', T_String),
    (41776, ''UnderlyingDeliveryScheduleSettlTimeType'', T_int),
    (41777, ''UnderlyingDeliveryStreamType'', T_int),
    (41778, ''UnderlyingDeliveryStreamPipeline'', T_String),
    (41779, ''UnderlyingDeliveryStreamEntryPoint'', T_String),
    (41780, ''UnderlyingDeliveryStreamWithdrawalPoint'', T_String),
    (41781, ''UnderlyingDeliveryStreamDeliveryPoint'', T_String),
    (41782, ''UnderlyingDeliveryStreamDeliveryRestriction'', T_int),
    (41783, ''UnderlyingDeliveryStreamDeliveryContingency'', T_String),
    (41784, ''UnderlyingDeliveryStreamDeliveryContingentPartySide'', T_int),
    (41785, ''UnderlyingDeliveryStreamDeliverAtSourceIndicator'', T_Boolean),
    (41786, ''UnderlyingDeliveryStreamRiskApportionment'', T_String),
    (41787, ''UnderlyingDeliveryStreamTitleTransferLocation'', T_String),
    (41788, ''UnderlyingDeliveryStreamTitleTransferCondition'', T_int),
    (41789, ''UnderlyingDeliveryStreamImporterOfRecord'', T_String),
    (41790, ''UnderlyingDeliveryStreamNegativeTolerance'', T_float),
    (41791, ''UnderlyingDeliveryStreamPositiveTolerance'', T_float),
    (41792, ''UnderlyingDeliveryStreamToleranceUnitOfMeasure'', T_String),
    (41793, ''UnderlyingDeliveryStreamToleranceType'', T_int),
    (41794, ''UnderlyingDeliveryStreamToleranceOptionSide'', T_int),
    (41795, ''UnderlyingDeliveryStreamTotalPositiveTolerance'', T_Percentage),
    (41796, ''UnderlyingDeliveryStreamTotalNegativeTolerance'', T_Percentage),
    (41797, ''UnderlyingDeliveryStreamNotionalConversionFactor'', T_float),
    (41798, ''UnderlyingDeliveryStreamTransportEquipment'', T_String),
    (41799, ''UnderlyingDeliveryStreamElectingPartySide'', T_int),
    (41800, ''NoUnderlyingStreamAssetAttributes'', T_NumInGroup),
    (41801, ''UnderlyingStreamAssetAttributeType'', T_String),
    (41802, ''UnderlyingStreamAssetAttributeValue'', T_String),
    (41803, ''UnderlyingStreamAssetAttributeLimit'', T_String),
    (41804, ''NoUnderlyingDeliveryStreamCycles'', T_NumInGroup),
    (41805, ''UnderlyingDeliveryStreamCycleDesc'', T_String),
    (41806, ''EncodedUnderlyingDeliveryStreamCycleDescLen'', T_Length),
    (41807, ''EncodedUnderlyingDeliveryStreamCycleDesc'', T_data),
    (41808, ''NoUnderlyingDeliveryStreamCommoditySources'', T_NumInGroup),
    (41809, ''UnderlyingDeliveryStreamCommoditySource'', T_String),
    (41810, ''UnderlyingExerciseDesc'', T_String), (41811, ''EncodedUnderlyingExerciseDescLen'', T_Length),
    (41812, ''EncodedUnderlyingExerciseDesc'', T_data),
    (41813, ''UnderlyingAutomaticExerciseIndicator'', T_Boolean),
    (41814, ''UnderlyingAutomaticExerciseThresholdRate'', T_float),
    (41815, ''UnderlyingExerciseConfirmationMethod'', T_int),
    (41816, ''UnderlyingManualNoticeBusinessCenter'', T_String),
    (41817, ''UnderlyingFallbackExerciseIndicator'', T_Boolean),
    (41818, ''UnderlyingLimitedRightToConfirmIndicator'', T_Boolean),
    (41819, ''UnderlyingExerciseSplitTicketIndicator'', T_Boolean),
    (41820, ''NoUnderlyingOptionExerciseBusinessCenters'', T_NumInGroup),
    (41821, ''UnderlyingOptionExerciseBusinessCenter'', T_String),
    (41822, ''UnderlyingOptionExerciseBusinessDayConvention'', T_int),
    (41823, ''UnderlyingOptionExerciseEarliestDateOffsetDayType'', T_int),
    (41824, ''UnderlyingOptionExerciseEarliestDateOffsetPeriod'', T_int),
    (41825, ''UnderlyingOptionExerciseEarliestDateOffsetUnit'', T_String),
    (41826, ''UnderlyingOptionExerciseFrequencyPeriod'', T_int),
    (41827, ''UnderlyingOptionExerciseFrequencyUnit'', T_String),
    (41828, ''UnderlyingOptionExerciseStartDateUnadjusted'', T_LocalMktDate),
    (41829, ''UnderlyingOptionExerciseStartDateRelativeTo'', T_int),
    (41830, ''UnderlyingOptionExerciseStartDateOffsetPeriod'', T_int),
    (41831, ''UnderlyingOptionExerciseStartDateOffsetUnit'', T_String),
    (41832, ''UnderlyingOptionExerciseStartDateOffsetDayType'', T_int),
    (41833, ''UnderlyingOptionExerciseStartDateAdjusted'', T_LocalMktDate),
    (41834, ''UnderlyingOptionExerciseSkip'', T_int),
    (41835, ''UnderlyingOptionExerciseNominationDeadline'', T_LocalMktDate),
    (41836, ''UnderlyingOptionExerciseFirstDateUnadjusted'', T_LocalMktDate),
    (41837, ''UnderlyingOptionExerciseLastDateUnadjusted'', T_LocalMktDate),
    (41838, ''UnderlyingOptionExerciseEarliestTime'', T_LocalMktTime),
    (41839, ''UnderlyingOptionExerciseLatestTime'', T_LocalMktTime),
    (41840, ''UnderlyingOptionExerciseTimeBusinessCenter'', T_String),
    (41841, ''NoUnderlyingOptionExerciseDates'', T_NumInGroup),
    (41842, ''UnderlyingOptionExerciseDate'', T_LocalMktDate),
    (41843, ''UnderlyingOptionExerciseDateType'', T_int),
    (41844, ''NoUnderlyingOptionExerciseExpirationDateBusinessCenters'', T_NumInGroup),
    (41845, ''UnderlyingOptionExerciseExpirationDateBusinessCenter'', T_String),
    (41846, ''UnderlyingOptionExerciseExpirationDateBusinessDayConvention'', T_int),
    (41847, ''UnderlyingOptionExerciseExpirationDateRelativeTo'', T_int),
    (41848, ''UnderlyingOptionExerciseExpirationDateOffsetPeriod'', T_int),
    (41849, ''UnderlyingOptionExerciseExpirationDateOffsetUnit'', T_String),
    (41850, ''UnderlyingOptionExerciseExpirationFrequencyPeriod'', T_int),
    (41851, ''UnderlyingOptionExerciseExpirationFrequencyUnit'', T_String),
    (41852, ''UnderlyingOptionExerciseExpirationRollConvention'', T_String),
    (41853, ''UnderlyingOptionExerciseExpirationDateOffsetDayType'', T_int),
    (41854, ''UnderlyingOptionExerciseExpirationTime'', T_LocalMktTime),
    (41855, ''UnderlyingOptionExerciseExpirationTimeBusinessCenter'', T_String),
    (41856, ''NoUnderlyingOptionExerciseExpirationDates'', T_NumInGroup),
    (41857, ''UnderlyingOptionExerciseExpirationDate'', T_LocalMktDate),
    (41858, ''UnderlyingOptionExerciseExpirationDateType'', T_int),
    (41859, ''UnderlyingMarketDisruptionProvision'', T_int),
    (41860, ''UnderlyingMarketDisruptionFallbackProvision'', T_int),
    (41861, ''UnderlyingMarketDisruptionMaximumDays'', T_int),
    (41862, ''UnderlyingMarketDisruptionMaterialityPercentage'', T_Percentage),
    (41863, ''UnderlyingMarketDisruptionMinimumFuturesContracts'', T_int),
    (41864, ''NoUnderlyingMarketDisruptionEvents'', T_NumInGroup),
    (41865, ''UnderlyingMarketDisruptionEvent'', T_String),
    (41866, ''NoUnderlyingMarketDisruptionFallbacks'', T_NumInGroup),
    (41867, ''UnderlyingMarketDisruptionFallbackType'', T_String),
    (41868, ''NoUnderlyingMarketDisruptionFallbackReferencePrices'', T_NumInGroup),
    (41869, ''UnderlyingMarketDisruptionFallbackUnderlierType'', T_int),
    (41870, ''UnderlyingMarketDisruptionFallbackUnderlierSecurityID'', T_String),
    (41871, ''UnderlyingMarketDisruptionFallbackUnderlierSecurityIDSource'', T_String),
    (41872, ''UnderlyingMarketDisruptionFallbackUnderlierSecurityDesc'', T_String),
    (41873, ''EncodedUnderlyingMarketDisruptionFallbackUnderlierSecDescLen'', T_Length),
    (41874, ''EncodedUnderlyingMarketDisruptionFallbackUnderlierSecurityDesc'', T_data),
    (41875, ''UnderlyingMarketDisruptionFallbackOpenUnits'', T_Qty),
    (41876, ''UnderlyingMarketDisruptionFallbackBasketCurrency'', T_Currency),
    (41877, ''UnderlyingMarketDisruptionFallbackBasketDivisor'', T_float),
    (41878, ''NoUnderlyingPaymentScheduleFixingDays'', T_NumInGroup),
    (41879, ''UnderlyingPaymentScheduleFixingDayOfWeek'', T_int),
    (41880, ''UnderlyingPaymentScheduleFixingDayNumber'', T_int),
    (41881, ''UnderlyingPaymentScheduleXID'', T_XID), (41882, ''UnderlyingPaymentScheduleXIDRef'', T_XIDREF),
    (41883, ''UnderlyingPaymentScheduleRateCurrency'', T_Currency),
    (41884, ''UnderlyingPaymentScheduleRateUnitOfMeasure'', T_String),
    (41885, ''UnderlyingPaymentScheduleRateConversionFactor'', T_float),
    (41886, ''UnderlyingPaymentScheduleRateSpreadType'', T_int),
    (41887, ''UnderlyingPaymentScheduleSettlPeriodPrice'', T_Price),
    (41888, ''UnderlyingPaymentScheduleSettlPeriodPriceCurrency'', T_Currency),
    (41889, ''UnderlyingPaymentScheduleSettlPeriodPriceUnitOfMeasure'', T_String),
    (41890, ''UnderlyingPaymentScheduleStepUnitOfMeasure'', T_String),
    (41891, ''UnderlyingPaymentScheduleFixingDayDistribution'', T_int),
    (41892, ''UnderlyingPaymentScheduleFixingDayCount'', T_int),
    (41893, ''UnderlyingPaymentScheduleFixingLagPeriod'', T_int),
    (41894, ''UnderlyingPaymentScheduleFixingLagUnit'', T_String),
    (41895, ''UnderlyingPaymentScheduleFixingFirstObservationDateOffsetPeriod'', T_int),
    (41896, ''UnderlyingPaymentScheduleFixingFirstObservationDateOffsetUnit'', T_String),
    (41897, ''UnderlyingPaymentStreamFlatRateIndicator'', T_Boolean),
    (41898, ''UnderlyingPaymentStreamFlatRateAmount'', T_Amt)]"

definition tag_enum_33 :: "tag_table" where
  "tag_enum_33 = [
    (41899, ''UnderlyingPaymentStreamFlatRateCurrency'', T_Currency),
    (41900, ''UnderlyingPaymentStreamMaximumPaymentAmount'', T_Amt),
    (41901, ''UnderlyingPaymentStreamMaximumPaymentCurrency'', T_Currency),
    (41902, ''UnderlyingPaymentStreamMaximumTransactionAmount'', T_Amt),
    (41903, ''UnderlyingPaymentStreamMaximumTransactionCurrency'', T_Currency),
    (41904, ''UnderlyingPaymentStreamFixedAmountUnitOfMeasure'', T_String),
    (41905, ''UnderlyingPaymentStreamTotalFixedAmount'', T_Amt),
    (41906, ''UnderlyingPaymentStreamWorldScaleRate'', T_float),
    (41907, ''UnderlyingPaymentStreamContractPrice'', T_Price),
    (41908, ''UnderlyingPaymentStreamContractPriceCurrency'', T_Currency),
    (41909, ''NoUnderlyingPaymentStreamPricingBusinessCenters'', T_NumInGroup),
    (41910, ''UnderlyingPaymentStreamPricingBusinessCenter'', T_String),
    (41911, ''UnderlyingPaymentStreamRateIndex2CurveUnit'', T_String),
    (41912, ''UnderlyingPaymentStreamRateIndex2CurvePeriod'', T_int),
    (41913, ''UnderlyingPaymentStreamRateIndexLocation'', T_String),
    (41914, ''UnderlyingPaymentStreamRateIndexLevel'', T_Qty),
    (41915, ''UnderlyingPaymentStreamRateIndexUnitOfMeasure'', T_String),
    (41916, ''UnderlyingPaymentStreamSettlLevel'', T_int),
    (41917, ''UnderlyingPaymentStreamReferenceLevel'', T_Qty),
    (41918, ''UnderlyingPaymentStreamReferenceLevelUnitOfMeasure'', T_String),
    (41919, ''UnderlyingPaymentStreamReferenceLevelEqualsZeroIndicator'', T_Boolean),
    (41920, ''UnderlyingPaymentStreamRateSpreadCurrency'', T_Currency),
    (41921, ''UnderlyingPaymentStreamRateSpreadUnitOfMeasure'', T_String),
    (41922, ''UnderlyingPaymentStreamRateConversionFactor'', T_float),
    (41923, ''UnderlyingPaymentStreamRateSpreadType'', T_int),
    (41924, ''UnderlyingPaymentStreamLastResetRate'', T_Percentage),
    (41925, ''UnderlyingPaymentStreamFinalRate'', T_Percentage),
    (41926, ''UnderlyingPaymentStreamCalculationLagPeriod'', T_int),
    (41927, ''UnderlyingPaymentStreamCalculationLagUnit'', T_String),
    (41928, ''UnderlyingPaymentStreamFirstObservationDateOffsetPeriod'', T_int),
    (41929, ''UnderlyingPaymentStreamFirstObservationDateOffsetUnit'', T_String),
    (41930, ''UnderlyingPaymentStreamPricingDayType'', T_int),
    (41931, ''UnderlyingPaymentStreamPricingDayDistribution'', T_int),
    (41932, ''UnderlyingPaymentStreamPricingDayCount'', T_int),
    (41933, ''UnderlyingPaymentStreamPricingBusinessCalendar'', T_String),
    (41934, ''UnderlyingPaymentStreamPricingBusinessDayConvention'', T_int),
    (41935, ''LegStreamCommoditySettlTimeType'', T_int),
    (41936, ''UnderlyingStreamCommoditySettlTimeType'', T_int),
    (41937, ''NoUnderlyingPaymentStreamPaymentDates'', T_NumInGroup),
    (41938, ''UnderlyingPaymentStreamPaymentDate'', T_LocalMktDate),
    (41939, ''UnderlyingPaymentStreamPaymentDateType'', T_int),
    (41940, ''UnderlyingPaymentStreamMasterAgreementPaymentDatesIndicator'', T_Boolean),
    (41941, ''NoUnderlyingPaymentStreamPricingDates'', T_NumInGroup),
    (41942, ''UnderlyingPaymentStreamPricingDate'', T_LocalMktDate),
    (41943, ''UnderlyingPaymentStreamPricingDateType'', T_int),
    (41944, ''NoUnderlyingPaymentStreamPricingDays'', T_NumInGroup),
    (41945, ''UnderlyingPaymentStreamPricingDayOfWeek'', T_int),
    (41946, ''UnderlyingPaymentStreamPricingDayNumber'', T_int),
    (41947, ''NoUnderlyingPricingDateBusinessCenters'', T_NumInGroup),
    (41948, ''UnderlyingPricingDateBusinessCenter'', T_String),
    (41949, ''UnderlyingPricingDateUnadjusted'', T_LocalMktDate),
    (41950, ''UnderlyingPricingDateBusinessDayConvention'', T_int),
    (41951, ''UnderlyingPricingDateAdjusted'', T_LocalMktDate),
    (41952, ''UnderlyingPricingTime'', T_LocalMktTime),
    (41953, ''UnderlyingPricingTimeBusinessCenter'', T_String),
    (41954, ''NoUnderlyingStreamCalculationPeriodDates'', T_NumInGroup),
    (41955, ''UnderlyingStreamCalculationPeriodDate'', T_LocalMktDate),
    (41956, ''UnderlyingStreamCalculationPeriodDateType'', T_int),
    (41957, ''UnderlyingStreamCalculationPeriodDatesXID'', T_XID),
    (41958, ''UnderlyingStreamCalculationPeriodDatesXIDRef'', T_XIDREF),
    (41959, ''UnderlyingStreamCalculationBalanceOfFirstPeriod'', T_Boolean),
    (41960, ''UnderlyingStreamCalculationCorrectionPeriod'', T_int),
    (41961, ''UnderlyingStreamCalculationCorrectionUnit'', T_String),
    (41962, ''NoUnderlyingStreamCommoditySettlBusinessCenters'', T_NumInGroup),
    (41963, ''UnderlyingStreamCommoditySettlBusinessCenter'', T_String),
    (41964, ''UnderlyingStreamCommodityBase'', T_String),
    (41965, ''UnderlyingStreamCommodityType'', T_String),
    (41966, ''UnderlyingStreamCommoditySecurityID'', T_String),
    (41967, ''UnderlyingStreamCommoditySecurityIDSource'', T_String),
    (41968, ''UnderlyingStreamCommodityDesc'', T_String),
    (41969, ''EncodedUnderlyingStreamCommodityDescLen'', T_Length),
    (41970, ''EncodedUnderlyingStreamCommodityDesc'', T_data),
    (41971, ''UnderlyingStreamCommodityUnitOfMeasure'', T_String),
    (41972, ''UnderlyingStreamCommodityCurrency'', T_Currency),
    (41973, ''UnderlyingStreamCommodityExchange'', T_Exchange),
    (41974, ''UnderlyingStreamCommodityRateSource'', T_int),
    (41975, ''UnderlyingStreamCommodityRateReferencePage'', T_String),
    (41976, ''UnderlyingStreamCommodityRateReferencePageHeading'', T_String),
    (41977, ''UnderlyingStreamDataProvider'', T_String),
    (41978, ''UnderlyingStreamCommodityPricingType'', T_String),
    (41979, ''UnderlyingStreamCommodityNearbySettlDayPeriod'', T_int),
    (41980, ''UnderlyingStreamCommodityNearbySettlDayUnit'', T_String),
    (41981, ''UnderlyingStreamCommoditySettlDateUnadjusted'', T_LocalMktDate),
    (41982, ''UnderlyingStreamCommoditySettlDateBusinessDayConvention'', T_int),
    (41983, ''UnderlyingStreamCommoditySettlDateAdjusted'', T_LocalMktDate),
    (41984, ''UnderlyingStreamCommoditySettlMonth'', T_int),
    (41985, ''UnderlyingStreamCommoditySettlDateRollPeriod'', T_int),
    (41986, ''UnderlyingStreamCommoditySettlDateRollUnit'', T_String),
    (41987, ''UnderlyingStreamCommoditySettlDayType'', T_int),
    (41988, ''UnderlyingStreamCommodityXID'', T_XID), (41989, ''UnderlyingStreamCommodityXIDRef'', T_XIDREF),
    (41990, ''NoUnderlyingStreamCommodityAltIDs'', T_NumInGroup),
    (41991, ''UnderlyingStreamCommodityAltID'', T_String),
    (41992, ''UnderlyingStreamCommodityAltIDSource'', T_String),
    (41993, ''NoUnderlyingStreamCommodityDataSources'', T_NumInGroup),
    (41994, ''UnderlyingStreamCommodityDataSourceID'', T_String),
    (41995, ''UnderlyingStreamCommodityDataSourceIDType'', T_int),
    (41996, ''NoUnderlyingStreamCommoditySettlDays'', T_NumInGroup),
    (41997, ''UnderlyingStreamCommoditySettlDay'', T_int),
    (41998, ''UnderlyingStreamCommoditySettlTotalHours'', T_int),
    (41999, ''NoUnderlyingStreamCommoditySettlTimes'', T_NumInGroup),
    (42000, ''UnderlyingStreamCommoditySettlStart'', T_String),
    (42001, ''UnderlyingStreamCommoditySettlEnd'', T_String),
    (42002, ''NoUnderlyingStreamCommoditySettlPeriods'', T_NumInGroup),
    (42003, ''UnderlyingStreamCommoditySettlCountry'', T_Country),
    (42004, ''UnderlyingStreamCommoditySettlTimeZone'', T_String),
    (42005, ''UnderlyingStreamCommoditySettlFlowType'', T_int),
    (42006, ''UnderlyingStreamCommoditySettlPeriodNotional'', T_Qty),
    (42007, ''UnderlyingStreamCommoditySettlPeriodNotionalUnitOfMeasure'', T_String),
    (42008, ''UnderlyingStreamCommoditySettlPeriodFrequencyPeriod'', T_int),
    (42009, ''UnderlyingStreamCommoditySettlPeriodFrequencyUnit'', T_String),
    (42010, ''UnderlyingStreamCommoditySettlPeriodPrice'', T_Price),
    (42011, ''UnderlyingStreamCommoditySettlPeriodPriceUnitOfMeasure'', T_String),
    (42012, ''UnderlyingStreamCommoditySettlPeriodPriceCurrency'', T_Currency),
    (42013, ''UnderlyingStreamCommoditySettlHolidaysProcessingInstruction'', T_int),
    (42014, ''UnderlyingStreamCommoditySettlPeriodXID'', T_XID),
    (42015, ''UnderlyingStreamCommoditySettlPeriodXIDRef'', T_XIDREF),
    (42016, ''UnderlyingStreamXID'', T_XID), (42017, ''UnderlyingAdditionalTermBondIssuer'', T_String),
    (42018, ''UnderlyingStreamNotionalXIDRef'', T_XIDREF),
    (42019, ''UnderlyingStreamNotionalFrequencyPeriod'', T_int),
    (42020, ''UnderlyingStreamNotionalFrequencyUnit'', T_String),
    (42021, ''UnderlyingStreamNotionalCommodityFrequency'', T_int),
    (42022, ''UnderlyingStreamNotionalUnitOfMeasure'', T_String),
    (42023, ''UnderlyingStreamTotalNotional'', T_Qty),
    (42024, ''UnderlyingStreamTotalNotionalUnitOfMeasure'', T_String),
    (42025, ''EncodedUnderlyingAdditionalTermBondIssuerLen'', T_Length),
    (42026, ''EncodedUnderlyingAdditionalTermBondIssuer'', T_data),
    (42027, ''UnderlyingAdditionalTermBondSeniority'', T_String),
    (42028, ''UnderlyingAdditionalTermBondCouponType'', T_int),
    (42029, ''UnderlyingAdditionalTermBondCouponRate'', T_Percentage),
    (42030, ''UnderlyingAdditionalTermBondMaturityDate'', T_LocalMktDate),
    (42031, ''UnderlyingAdditionalTermBondParValue'', T_Amt),
    (42032, ''UnderlyingAdditionalTermBondCurrentTotalIssuedAmount'', T_Amt),
    (42033, ''UnderlyingAdditionalTermBondCouponFrequencyPeriod'', T_int),
    (42034, ''UnderlyingAdditionalTermBondCouponFrequencyUnit'', T_String),
    (42035, ''UnderlyingAdditionalTermBondDayCount'', T_int),
    (42036, ''NoUnderlyingAdditionalTerms'', T_NumInGroup),
    (42037, ''UnderlyingAdditionalTermConditionPrecedentBondIndicator'', T_Boolean),
    (42038, ''UnderlyingAdditionalTermDiscrepancyClauseIndicator'', T_Boolean),
    (42039, ''NoUnderlyingCashSettlDealers'', T_NumInGroup),
    (42040, ''UnderlyingCashSettlDealer'', T_String), (42041, ''NoUnderlyingCashSettlTerms'', T_NumInGroup),
    (42042, ''UnderlyingCashSettlCurrency'', T_Currency),
    (42043, ''UnderlyingCashSettlValuationFirstBusinessDayOffset'', T_int),
    (42044, ''UnderlyingCashSettlValuationSubsequentBusinessDaysOffset'', T_int),
    (42045, ''UnderlyingCashSettlNumOfValuationDates'', T_int),
    (42046, ''UnderlyingCashSettlValuationTime'', T_LocalMktTime),
    (42047, ''UnderlyingCashSettlBusinessCenter'', T_String),
    (42048, ''UnderlyingCashSettlQuoteMethod'', T_int)]"

definition tag_enum_34 :: "tag_table" where
  "tag_enum_34 = [
    (42049, ''UnderlyingCashSettlQuoteAmount'', T_Amt),
    (42050, ''UnderlyingCashSettlQuoteCurrency'', T_Currency),
    (42051, ''UnderlyingCashSettlMinimumQuoteAmount'', T_Amt),
    (42052, ''UnderlyingCashSettlMinimumQuoteCurrency'', T_Currency),
    (42053, ''UnderlyingCashSettlBusinessDays'', T_int), (42054, ''UnderlyingCashSettlAmount'', T_Amt),
    (42055, ''UnderlyingCashSettlRecoveryFactor'', T_float),
    (42056, ''UnderlyingCashSettlFixedTermIndicator'', T_Boolean),
    (42057, ''UnderlyingCashSettlAccruedInterestIndicator'', T_Boolean),
    (42058, ''UnderlyingCashSettlValuationMethod'', T_int), (42059, ''UnderlyingCashSettlTermXID'', T_XID),
    (42060, ''NoUnderlyingPhysicalSettlTerms'', T_NumInGroup),
    (42061, ''UnderlyingPhysicalSettlCurrency'', T_Currency),
    (42062, ''UnderlyingPhysicalSettlBusinessDays'', T_int),
    (42063, ''UnderlyingPhysicalSettlMaximumBusinessDays'', T_int),
    (42064, ''UnderlyingPhysicalSettlTermXID'', T_XID),
    (42065, ''NoUnderlyingPhysicalSettlDeliverableObligations'', T_NumInGroup),
    (42066, ''UnderlyingPhysicalSettlDeliverableObligationType'', T_String),
    (42067, ''UnderlyingPhysicalSettlDeliverableObligationValue'', T_String),
    (42068, ''NoUnderlyingProtectionTerms'', T_NumInGroup),
    (42069, ''UnderlyingProtectionTermNotional'', T_Amt),
    (42070, ''UnderlyingProtectionTermCurrency'', T_Currency),
    (42071, ''UnderlyingProtectionTermSellerNotifies'', T_Boolean),
    (42072, ''UnderlyingProtectionTermBuyerNotifies'', T_Boolean),
    (42073, ''UnderlyingProtectionTermEventBusinessCenter'', T_String),
    (42074, ''UnderlyingProtectionTermStandardSources'', T_Boolean),
    (42075, ''UnderlyingProtectionTermEventMinimumSources'', T_int),
    (42076, ''UnderlyingProtectionTermXID'', T_XID),
    (42077, ''NoUnderlyingProtectionTermEvents'', T_NumInGroup),
    (42078, ''UnderlyingProtectionTermEventType'', T_String),
    (42079, ''UnderlyingProtectionTermEventValue'', T_String),
    (42080, ''UnderlyingProtectionTermEventCurrency'', T_Currency),
    (42081, ''UnderlyingProtectionTermEventPeriod'', T_int),
    (42082, ''UnderlyingProtectionTermEventUnit'', T_String),
    (42083, ''UnderlyingProtectionTermEventDayType'', T_int),
    (42084, ''UnderlyingProtectionTermEventRateSource'', T_String),
    (42085, ''NoUnderlyingProtectionTermEventQualifiers'', T_NumInGroup),
    (42086, ''UnderlyingProtectionTermEventQualifier'', T_char),
    (42087, ''NoUnderlyingProtectionTermObligations'', T_NumInGroup),
    (42088, ''UnderlyingProtectionTermObligationType'', T_String),
    (42089, ''UnderlyingProtectionTermObligationValue'', T_String),
    (42090, ''NoUnderlyingProtectionTermEventNewsSources'', T_NumInGroup),
    (42091, ''UnderlyingProtectionTermEventNewsSource'', T_String),
    (42092, ''UnderlyingProvisionCashSettlPaymentDateBusinessDayConvention'', T_int),
    (42093, ''UnderlyingProvisionCashSettlPaymentDateRelativeTo'', T_int),
    (42094, ''UnderlyingProvisionCashSettlPaymentDateOffsetPeriod'', T_int),
    (42095, ''UnderlyingProvisionCashSettlPaymentDateOffsetUnit'', T_String),
    (42096, ''UnderlyingProvisionCashSettlPaymentDateOffsetDayType'', T_int),
    (42097, ''UnderlyingProvisionCashSettlPaymentDateRangeFirst'', T_LocalMktDate),
    (42098, ''UnderlyingProvisionCashSettlPaymentDateRangeLast'', T_LocalMktDate),
    (42099, ''NoUnderlyingProvisionCashSettlPaymentDates'', T_NumInGroup),
    (42100, ''UnderlyingProvisionCashSettlPaymentDate'', T_LocalMktDate),
    (42101, ''UnderlyingProvisionCashSettlPaymentDateType'', T_int),
    (42102, ''UnderlyingProvisionCashSettlQuoteSource'', T_int),
    (42103, ''UnderlyingProvisionCashSettlQuoteReferencePage'', T_String),
    (42104, ''UnderlyingProvisionCashSettlValueTime'', T_LocalMktTime),
    (42105, ''UnderlyingProvisionCashSettlValueTimeBusinessCenter'', T_String),
    (42106, ''UnderlyingProvisionCashSettlValueDateBusinessDayConvention'', T_int),
    (42107, ''UnderlyingProvisionCashSettlValueDateRelativeTo'', T_int),
    (42108, ''UnderlyingProvisionCashSettlValueDateOffsetPeriod'', T_int),
    (42109, ''UnderlyingProvisionCashSettlValueDateOffsetUnit'', T_String),
    (42110, ''UnderlyingProvisionCashSettlValueDateOffsetDayType'', T_int),
    (42111, ''UnderlyingProvisionCashSettlValueDateAdjusted'', T_LocalMktDate),
    (42112, ''NoUnderlyingProvisionOptionExerciseFixedDates'', T_NumInGroup),
    (42113, ''UnderlyingProvisionOptionExerciseFixedDate'', T_LocalMktDate),
    (42114, ''UnderlyingProvisionOptionExerciseFixedDateType'', T_int),
    (42115, ''UnderlyingProvisionOptionExerciseBusinessDayConvention'', T_int),
    (42116, ''UnderlyingProvisionOptionExerciseEarliestDateOffsetPeriod'', T_int),
    (42117, ''UnderlyingProvisionOptionExerciseEarliestDateOffsetUnit'', T_String),
    (42118, ''UnderlyingProvisionOptionExerciseFrequencyPeriod'', T_int),
    (42119, ''UnderlyingProvisionOptionExerciseFrequencyUnit'', T_String),
    (42120, ''UnderlyingProvisionOptionExerciseStartDateUnadjusted'', T_LocalMktDate),
    (42121, ''UnderlyingProvisionOptionExerciseStartDateRelativeTo'', T_int),
    (42122, ''UnderlyingProvisionOptionExerciseStartDateOffsetPeriod'', T_int),
    (42123, ''UnderlyingProvisionOptionExerciseStartDateOffsetUnit'', T_String),
    (42124, ''UnderlyingProvisionOptionExerciseStartDateOffsetDayType'', T_int),
    (42125, ''UnderlyingProvisionOptionExerciseStartDateAdjusted'', T_LocalMktDate),
    (42126, ''UnderlyingProvisionOptionExercisePeriodSkip'', T_int),
    (42127, ''UnderlyingProvisionOptionExerciseBoundsFirstDateUnadjusted'', T_LocalMktDate),
    (42128, ''UnderlyingProvisionOptionExerciseBoundsLastDateUnadjusted'', T_LocalMktDate),
    (42129, ''UnderlyingProvisionOptionExerciseEarliestTime'', T_LocalMktTime),
    (42130, ''UnderlyingProvisionOptionExerciseEarliestTimeBusinessCenter'', T_String),
    (42131, ''UnderlyingProvisionOptionExerciseLatestTime'', T_LocalMktTime),
    (42132, ''UnderlyingProvisionOptionExerciseLatestTimeBusinessCenter'', T_String),
    (42133, ''UnderlyingProvisionOptionExpirationDateUnadjusted'', T_LocalMktDate),
    (42134, ''UnderlyingProvisionOptionExpirationDateBusinessDayConvention'', T_int),
    (42135, ''UnderlyingProvisionOptionExpirationDateRelativeTo'', T_int),
    (42136, ''UnderlyingProvisionOptionExpirationDateOffsetPeriod'', T_int),
    (42137, ''UnderlyingProvisionOptionExpirationDateOffsetUnit'', T_String),
    (42138, ''UnderlyingProvisionOptionExpirationDateOffsetDayType'', T_int),
    (42139, ''UnderlyingProvisionOptionExpirationDateAdjusted'', T_LocalMktDate),
    (42140, ''UnderlyingProvisionOptionExpirationTime'', T_LocalMktTime),
    (42141, ''UnderlyingProvisionOptionExpirationTimeBusinessCenter'', T_String),
    (42142, ''UnderlyingProvisionOptionRelevantUnderlyingDateUnadjusted'', T_LocalMktDate),
    (42143, ''UnderlyingProvisionOptionRelevantUnderlyingDateBizDayConvention'', T_int),
    (42144, ''UnderlyingProvisionOptionRelevantUnderlyingDateRelativeTo'', T_int),
    (42145, ''UnderlyingProvisionOptionRelevantUnderlyingDateOffsetPeriod'', T_int),
    (42146, ''UnderlyingProvisionOptionRelevantUnderlyingDateOffsetUnit'', T_String),
    (42147, ''UnderlyingProvisionOptionRelevantUnderlyingDateOffsetDayType'', T_int),
    (42148, ''UnderlyingProvisionOptionRelevantUnderlyingDateAdjusted'', T_LocalMktDate),
    (42149, ''NoUnderlyingProvisions'', T_NumInGroup), (42150, ''UnderlyingProvisionType'', T_int),
    (42151, ''UnderlyingProvisionDateUnadjusted'', T_LocalMktDate),
    (42152, ''UnderlyingProvisionDateBusinessDayConvention'', T_int),
    (42153, ''UnderlyingProvisionDateAdjusted'', T_LocalMktDate),
    (42154, ''UnderlyingProvisionDateTenorPeriod'', T_int),
    (42155, ''UnderlyingProvisionDateTenorUnit'', T_String),
    (42156, ''UnderlyingProvisionCalculationAgent'', T_int),
    (42157, ''UnderlyingProvisionOptionSinglePartyBuyerSide'', T_int),
    (42158, ''UnderlyingProvisionOptionSinglePartySellerSide'', T_int),
    (42159, ''UnderlyingProvisionOptionExerciseStyle'', T_int),
    (42160, ''UnderlyingProvisionOptionExerciseMultipleNotional'', T_Amt),
    (42161, ''UnderlyingProvisionOptionExerciseMinimumNotional'', T_Amt),
    (42162, ''UnderlyingProvisionOptionExerciseMaximumNotional'', T_Amt),
    (42163, ''UnderlyingProvisionOptionMinimumNumber'', T_int),
    (42164, ''UnderlyingProvisionOptionMaximumNumber'', T_int),
    (42165, ''UnderlyingProvisionOptionExerciseConfirmation'', T_Boolean),
    (42166, ''UnderlyingProvisionCashSettlMethod'', T_int),
    (42167, ''UnderlyingProvisionCashSettlCurrency'', T_Currency),
    (42168, ''UnderlyingProvisionCashSettlCurrency2'', T_Currency),
    (42169, ''UnderlyingProvisionCashSettlQuoteType'', T_int),
    (42170, ''UnderlyingProvisionText'', T_String), (42171, ''EncodedUnderlyingProvisionTextLen'', T_Length),
    (42172, ''EncodedUnderlyingProvisionText'', T_data),
    (42173, ''NoUnderlyingProvisionPartyIDs'', T_NumInGroup),
    (42174, ''UnderlyingProvisionPartyID'', T_String), (42175, ''UnderlyingProvisionPartyIDSource'', T_char),
    (42176, ''UnderlyingProvisionPartyRole'', T_int),
    (42177, ''NoUnderlyingProvisionPartySubIDs'', T_NumInGroup),
    (42178, ''UnderlyingProvisionPartySubID'', T_String),
    (42179, ''UnderlyingProvisionPartySubIDType'', T_int),
    (42180, ''NoUnderlyingProvisionCashSettlPaymentDateBusinessCenters'', T_NumInGroup),
    (42181, ''UnderlyingProvisionCashSettlPaymentDateBusinessCenter'', T_String),
    (42182, ''NoUnderlyingProvisionCashSettlValueDateBusinessCenters'', T_NumInGroup),
    (42183, ''UnderlyingProvisionCashSettlValueDateBusinessCenter'', T_String),
    (42184, ''NoUnderlyingProvisionOptionExerciseBusinessCenters'', T_NumInGroup),
    (42185, ''UnderlyingProvisionOptionExerciseBusinessCenter'', T_String),
    (42186, ''NoUnderlyingProvisionOptionExpirationDateBusinessCenters'', T_NumInGroup),
    (42187, ''UnderlyingProvisionOptionExpirationDateBusinessCenter'', T_String),
    (42188, ''NoUnderlyingProvisionOptionRelevantUnderlyingDateBusinessCenters'', T_NumInGroup),
    (42189, ''UnderlyingProvisionOptionRelevantUnderlyingDateBusinessCenter'', T_String),
    (42190, ''NoUnderlyingProvisionDateBusinessCenters'', T_NumInGroup),
    (42191, ''UnderlyingProvisionDateBusinessCenter'', T_String),
    (42192, ''DeliveryStreamDeliveryPointSource'', T_int),
    (42193, ''DeliveryStreamDeliveryPointDesc'', T_String),
    (42194, ''LegDeliveryStreamDeliveryPointSource'', T_int),
    (42195, ''LegDeliveryStreamDeliveryPointDesc'', T_String),
    (42196, ''UnderlyingDeliveryStreamDeliveryPointSource'', T_int),
    (42197, ''UnderlyingDeliveryStreamDeliveryPointDesc'', T_String),
    (42198, ''NoLegContractualDefinitions'', T_NumInGroup)]"

definition tag_enum_35 :: "tag_table" where
  "tag_enum_35 = [
    (42199, ''LegContractualDefinition'', T_String),
    (42200, ''NoLegFinancingTermSupplements'', T_NumInGroup),
    (42201, ''LegFinancingTermSupplementDesc'', T_String),
    (42202, ''LegFinancingTermSupplementDate'', T_LocalMktDate),
    (42203, ''NoLegContractualMatrices'', T_NumInGroup), (42204, ''LegContractualMatrixSource'', T_String),
    (42205, ''LegContractualMatrixDate'', T_LocalMktDate), (42206, ''LegContractualMatrixTerm'', T_String),
    (42207, ''CashSettlDateUnadjusted'', T_LocalMktDate),
    (42208, ''CashSettlDateBusinessDayConvention'', T_int), (42209, ''CashSettlDateRelativeTo'', T_int),
    (42210, ''CashSettlDateOffsetPeriod'', T_int), (42211, ''CashSettlDateOffsetUnit'', T_String),
    (42212, ''CashSettlDateOffsetDayType'', T_int), (42213, ''CashSettlDateAdjusted'', T_LocalMktDate),
    (42214, ''NoCashSettlDateBusinessCenters'', T_NumInGroup),
    (42215, ''CashSettlDateBusinessCenter'', T_String), (42216, ''CashSettlPriceSource'', T_String),
    (42217, ''CashSettlPriceDefault'', T_int), (42218, ''DividendFloatingRateIndex'', T_String),
    (42219, ''DividendFloatingRateIndexCurvePeriod'', T_int),
    (42220, ''DividendFloatingRateIndexCurveUnit'', T_String),
    (42221, ''DividendFloatingRateMultiplier'', T_float),
    (42222, ''DividendFloatingRateSpread'', T_PriceOffset),
    (42223, ''DividendFloatingRateSpreadPositionType'', T_int),
    (42224, ''DividendFloatingRateTreatment'', T_int), (42225, ''DividendCapRate'', T_Percentage),
    (42226, ''DividendCapRateBuySide'', T_int), (42227, ''DividendCapRateSellSide'', T_int),
    (42228, ''DividendFloorRate'', T_Percentage), (42229, ''DividendFloorRateBuySide'', T_int),
    (42230, ''DividendFloorRateSellSide'', T_int), (42231, ''DividendInitialRate'', T_Percentage),
    (42232, ''DividendFinalRateRoundingDirection'', T_char), (42233, ''DividendFinalRatePrecision'', T_int),
    (42234, ''DividendAveragingMethod'', T_int), (42235, ''DividendNegativeRateTreatment'', T_int),
    (42236, ''NoDividendAccrualPaymentDateBusinessCenters'', T_NumInGroup),
    (42237, ''DividendAccrualPaymentDateBusinessCenter'', T_String),
    (42238, ''DividendAccrualPaymentDateRelativeTo'', T_int),
    (42239, ''DividendAccrualPaymentDateOffsetPeriod'', T_int),
    (42240, ''DividendAccrualPaymentDateOffsetUnit'', T_String),
    (42241, ''DividendAccrualPaymentDateOffsetDayType'', T_int),
    (42242, ''DividendAccrualPaymentDateUnadjusted'', T_LocalMktDate),
    (42243, ''DividendAccrualPaymeentDateBusinessDayConvention'', T_int),
    (42244, ''DividendAccrualPaymentDateAdjusted'', T_LocalMktDate),
    (42245, ''DividendReinvestmentIndicator'', T_Boolean), (42246, ''DividendEntitlementEvent'', T_int),
    (42247, ''DividendAmountType'', T_int), (42248, ''DividendUnderlierRefID'', T_String),
    (42249, ''ExtraordinaryDividendPartySide'', T_int), (42250, ''ExtraordinaryDividendAmountType'', T_int),
    (42251, ''ExtraordinaryDividendCurrency'', T_Currency),
    (42252, ''ExtraordinaryDividendDeterminationMethod'', T_String),
    (42253, ''DividendAccrualFixedRate'', T_Percentage), (42254, ''DividendCompoundingMethod'', T_int),
    (42255, ''DividendNumOfIndexUnits'', T_int), (42256, ''DividendCashPercentage'', T_Percentage),
    (42257, ''DividendCashEquivalentPercentage'', T_Percentage),
    (42258, ''NonCashDividendTreatment'', T_int), (42259, ''DividendComposition'', T_int),
    (42260, ''SpecialDividendsIndicator'', T_Boolean), (42261, ''MaterialDividendsIndicator'', T_Boolean),
    (42262, ''OptionsExchangeDividendsIndicator'', T_Boolean),
    (42263, ''AdditionalDividendsIndicator'', T_Boolean), (42264, ''AllDividendsIndicator'', T_Boolean),
    (42265, ''DividendFXTriggerDateRelativeTo'', T_int),
    (42266, ''DividendFXTriggerDateOffsetPeriod'', T_int),
    (42267, ''DividendFXTriggerDateOffsetUnit'', T_String),
    (42268, ''DividendFXTriggerDateOffsetDayType'', T_int),
    (42269, ''DividendFXTriggerDateUnadjusted'', T_LocalMktDate),
    (42270, ''DividendFXTriggerDateBusinessDayConvention'', T_int),
    (42271, ''DividendFXTriggerDateAdjusted'', T_LocalMktDate),
    (42272, ''NoDividendFXTriggerDateBusinessCenters'', T_NumInGroup),
    (42273, ''DividendFXTriggerDateBusinessCenter'', T_String), (42274, ''NoDividendPeriods'', T_NumInGroup),
    (42275, ''DividendPeriodSequence'', T_int),
    (42276, ''DividendPeriodStartDateUnadjusted'', T_LocalMktDate),
    (42277, ''DividendPeriodEndDateUnadjusted'', T_LocalMktDate),
    (42278, ''DividendPeriodUnderlierRefID'', T_String), (42279, ''DividendPeriodStrikePrice'', T_Price),
    (42280, ''DividendPeriodBusinessDayConvention'', T_int),
    (42281, ''DividendPeriodValuationDateUnadjusted'', T_LocalMktDate),
    (42282, ''DividendPeriodValuationDateRelativeTo'', T_int),
    (42283, ''DividendPeriodValuationDateOffsetPeriod'', T_int),
    (42284, ''DividendPeriodValuationDateOffsetUnit'', T_String),
    (42285, ''DividendPeriodValuationDateOffsetDayType'', T_int),
    (42286, ''DividendPeriodValuationDateAdjusted'', T_LocalMktDate),
    (42287, ''DividendPeriodPaymentDateUnadjusted'', T_LocalMktDate),
    (42288, ''DividendPeriodPaymentDateRelativeTo'', T_int),
    (42289, ''DividendPeriodPaymentDateOffsetPeriod'', T_int),
    (42290, ''DividendPeriodPaymentDateOffsetUnit'', T_String),
    (42291, ''DividendPeriodPaymentDateOffsetDayType'', T_int),
    (42292, ''DividendPeriodPaymentDateAdjusted'', T_LocalMktDate), (42293, ''DividendPeriodXID'', T_XID),
    (42294, ''NoDividendPeriodBusinessCenters'', T_NumInGroup),
    (42295, ''DividendPeriodBusinessCenter'', T_String), (42296, ''NoExtraordinaryEvents'', T_NumInGroup),
    (42297, ''ExtraordinaryEventType'', T_String), (42298, ''ExtraordinaryEventValue'', T_String),
    (42299, ''LegCashSettlDateUnadjusted'', T_LocalMktDate),
    (42300, ''LegCashSettlDateBusinessDayConvention'', T_int),
    (42301, ''LegCashSettlDateRelativeTo'', T_int), (42302, ''LegCashSettlDateOffsetPeriod'', T_int),
    (42303, ''LegCashSettlDateOffsetUnit'', T_String), (42304, ''LegCashSettlDateOffsetDayType'', T_int),
    (42305, ''LegCashSettlDateAdjusted'', T_LocalMktDate),
    (42306, ''NoLegCashSettlDateBusinessCenters'', T_NumInGroup),
    (42307, ''LegCashSettlDateBusinessCenter'', T_String), (42308, ''LegCashSettlPriceSource'', T_String),
    (42309, ''LegCashSettlPriceDefault'', T_int),
    (42310, ''NoLegDividendAccrualPaymentDateBusinessCenters'', T_NumInGroup),
    (42311, ''LegDividendAccrualPaymentDateBusinessCenter'', T_String),
    (42312, ''LegDividendFloatingRateIndex'', T_String),
    (42313, ''LegDividendFloatingRateIndexCurvePeriod'', T_int),
    (42314, ''LegDividendFloatingRateIndexCurveUnit'', T_String),
    (42315, ''LegDividendFloatingRateMultiplier'', T_float),
    (42316, ''LegDividendFloatingRateSpread'', T_PriceOffset),
    (42317, ''LegDividendFloatingRateSpreadPositionType'', T_int),
    (42318, ''LegDividendFloatingRateTreatment'', T_int), (42319, ''LegDividendCapRate'', T_Percentage),
    (42320, ''LegDividendCapRateBuySide'', T_int), (42321, ''LegDividendCapRateSellSide'', T_int),
    (42322, ''LegDividendFloorRate'', T_Percentage), (42323, ''LegDividendFloorRateBuySide'', T_int),
    (42324, ''LegDividendFloorRateSellSide'', T_int), (42325, ''LegDividendInitialRate'', T_Percentage),
    (42326, ''LegDividendFinalRateRoundingDirection'', T_char),
    (42327, ''LegDividendFinalRatePrecision'', T_int), (42328, ''LegDividendAveragingMethod'', T_int),
    (42329, ''LegDividendNegativeRateTreatment'', T_int),
    (42330, ''LegDividendAccrualPaymentDateRelativeTo'', T_int),
    (42331, ''LegDividendAccrualPaymentDateOffsetPeriod'', T_int),
    (42332, ''LegDividendAccrualPaymentDateOffsetUnit'', T_String),
    (42333, ''LegDividendAccrualPaymentDateOffsetDayType'', T_int),
    (42334, ''LegDividendAccrualPaymentDateUnadjusted'', T_LocalMktDate),
    (42335, ''LegDividendAccrualPaymentDateBusinessDayConvention'', T_int),
    (42336, ''LegDividendAccrualPaymentDateAdjusted'', T_LocalMktDate),
    (42337, ''LegDividendReinvestmentIndicator'', T_Boolean),
    (42338, ''LegDividendEntitlementEvent'', T_int), (42339, ''LegDividendAmountType'', T_int),
    (42340, ''LegDividendUnderlierRefID'', T_String), (42341, ''LegExtraordinaryDividendPartySide'', T_int),
    (42342, ''LegExtraordinaryDividendAmountType'', T_int),
    (42343, ''LegExtraordinaryDividendCurrency'', T_Currency),
    (42344, ''LegExtraordinaryDividendDeterminationMethod'', T_String),
    (42345, ''LegDividendAccrualFixedRate'', T_Percentage), (42346, ''LegDividendCompoundingMethod'', T_int),
    (42347, ''LegDividendNumOfIndexUnits'', T_int), (42348, ''LegDividendCashPercentage'', T_Percentage)]"

definition tag_enum_36 :: "tag_table" where
  "tag_enum_36 = [
    (42349, ''LegDividendCashEquivalentPercentage'', T_Percentage),
    (42350, ''LegNonCashDividendTreatment'', T_int), (42351, ''LegDividendComposition'', T_int),
    (42352, ''LegSpecialDividendsIndicator'', T_Boolean),
    (42353, ''LegMaterialDividendsIndicator'', T_Boolean),
    (42354, ''LegOptionsExchangeDividendsIndicator'', T_Boolean),
    (42355, ''LegAdditionalDividendsIndicator'', T_Boolean),
    (42356, ''LegAllDividendsIndicator'', T_Boolean), (42357, ''LegDividendFXTriggerDateRelativeTo'', T_int),
    (42358, ''LegDividendFXTriggerDateOffsetPeriod'', T_int),
    (42359, ''LegDividendFXTriggerDateOffsetUnit'', T_String),
    (42360, ''LegDividendFXTriggerDateOffsetDayType'', T_int),
    (42361, ''LegDividendFXTriggerDateUnadjusted'', T_LocalMktDate),
    (42362, ''LegDividendFXTriggerDateBusinessDayConvention'', T_int),
    (42363, ''LegDividendFXTriggerDateAdjusted'', T_LocalMktDate),
    (42364, ''NoLegDividendFXTriggerDateBusinessCenters'', T_NumInGroup),
    (42365, ''LegDividendFXTriggerDateBusinessCenter'', T_String),
    (42366, ''NoLegDividendPeriods'', T_NumInGroup), (42367, ''LegDividendPeriodSequence'', T_int),
    (42368, ''LegDividendPeriodStartDateUnadjusted'', T_LocalMktDate),
    (42369, ''LegDividendPeriodEndDateUnadjusted'', T_LocalMktDate),
    (42370, ''LegDividendPeriodUnderlierRefID'', T_String),
    (42371, ''LegDividendPeriodStrikePrice'', T_Price),
    (42372, ''LegDividendPeriodBusinessDayConvention'', T_int),
    (42373, ''LegDividendPeriodValuationDateUnadjusted'', T_LocalMktDate),
    (42374, ''LegDividendPeriodValuationDateRelativeTo'', T_int),
    (42375, ''LegDividendPeriodValuationDateOffsetPeriod'', T_int),
    (42376, ''LegDividendPeriodValuationDateOffsetUnit'', T_String),
    (42377, ''LegDividendPeriodValuationDateOffsetDayType'', T_int),
    (42378, ''LegDividendPeriodValuationDateAdjusted'', T_LocalMktDate),
    (42379, ''LegDividendPeriodPaymentDateUnadjusted'', T_LocalMktDate),
    (42380, ''LegDividendPeriodPaymentDateRelativeTo'', T_int),
    (42381, ''LegDividendPeriodPaymentDateOffsetPeriod'', T_int),
    (42382, ''LegDividendPeriodPaymentDateOffsetUnit'', T_String),
    (42383, ''LegDividendPeriodPaymentDateOffsetDayType'', T_int),
    (42384, ''LegDividendPeriodPaymentDateAdjusted'', T_LocalMktDate),
    (42385, ''LegDividendPeriodXID'', T_XID), (42386, ''NoLegDividendPeriodBusinessCenters'', T_NumInGroup),
    (42387, ''LegDividendPeriodBusinessCenter'', T_String),
    (42388, ''NoLegExtraordinaryEvents'', T_NumInGroup), (42389, ''LegExtraordinaryEventType'', T_String),
    (42390, ''LegExtraordinaryEventValue'', T_String), (42391, ''LegSettlMethodElectingPartySide'', T_int),
    (42392, ''LegMakeWholeDate'', T_LocalMktDate), (42393, ''LegMakeWholeAmount'', T_Amt),
    (42394, ''LegMakeWholeBenchmarkCurveName'', T_String),
    (42395, ''LegMakeWholeBenchmarkCurvePoint'', T_String),
    (42396, ''LegMakeWholeRecallSpread'', T_PriceOffset), (42397, ''LegMakeWholeBenchmarkQuote'', T_int),
    (42398, ''LegMakeWholeInterpolationMethod'', T_int),
    (42399, ''LegPaymentStreamCashSettlIndicator'', T_Boolean),
    (42400, ''LegPaymentStreamCompoundingXIDRef'', T_XIDREF),
    (42401, ''LegPaymentStreamCompoundingSpread'', T_PriceOffset),
    (42402, ''LegPaymentStreamInterpolationMethod'', T_int),
    (42403, ''LegPaymentStreamInterpolationPeriod'', T_int),
    (42404, ''LegPaymentStreamCompoundingFixedRate'', T_float),
    (42405, ''NoLegPaymentStreamCompoundingDates'', T_NumInGroup),
    (42406, ''LegPaymentStreamCompoundingDate'', T_LocalMktDate),
    (42407, ''LegPaymentStreamCompoundingDateType'', T_int),
    (42408, ''LegPaymentStreamCompoundingDatesBusinessDayConvention'', T_int),
    (42409, ''LegPaymentStreamCompoundingDatesRelativeTo'', T_int),
    (42410, ''LegPaymentStreamCompoundingDatesOffsetPeriod'', T_int),
    (42411, ''LegPaymentStreamCompoundingDatesOffsetUnit'', T_String),
    (42412, ''LegPaymentStreamCompoundingDatesOffsetDayType'', T_int),
    (42413, ''LegPaymentStreamCompoundingPeriodSkip'', T_int),
    (42414, ''LegPaymentStreamCompoundingFrequencyPeriod'', T_int),
    (42415, ''LegPaymentStreamCompoundingFrequencyUnit'', T_String),
    (42416, ''LegPaymentStreamCompoundingRollConvention'', T_String),
    (42417, ''LegPaymentStreamBoundsFirstDateUnadjusted'', T_LocalMktDate),
    (42418, ''LegPaymentStreamBoundsLastDateUnadjusted'', T_LocalMktDate),
    (42419, ''NoLegPaymentStreamCompoundingDatesBusinessCenters'', T_NumInGroup),
    (42420, ''LegPaymentStreamCompoundingDatesBusinessCenter'', T_String),
    (42421, ''LegPaymentStreamCompoundingEndDateUnadjusted'', T_LocalMktDate),
    (42422, ''LegPaymentStreamCompoundingEndDateRelativeTo'', T_int),
    (42423, ''LegPaymentStreamCompoundingEndDateOffsetPeriod'', T_int),
    (42424, ''LegPaymentStreamCompoundingEndDateOffsetUnit'', T_String),
    (42425, ''LegPaymentStreamCompoundingEndDateOffsetDayType'', T_int),
    (42426, ''LegPaymentStreamCompoundingEndDateAdjusted'', T_LocalMktDate),
    (42427, ''LegPaymentStreamCompoundingRateIndex'', T_String),
    (42428, ''LegPaymentStreamCompoundingRateIndexCurvePeriod'', T_int),
    (42429, ''LegPaymentStreamCompoundingRateIndexCurveUnit'', T_String),
    (42430, ''LegPaymentStreamCompoundingRateMultiplier'', T_float),
    (42431, ''LegPaymentStreamCompoundingRateSpread'', T_PriceOffset),
    (42432, ''LegPaymentStreamCompoundingRateSpreadPositionType'', T_int),
    (42433, ''LegPaymentStreamCompoundingRateTreatment'', T_int),
    (42434, ''LegPaymentStreamCompoundingCapRate'', T_Percentage),
    (42435, ''LegPaymentStreamCompoundingCapRateBuySide'', T_int),
    (42436, ''LegPaymentStreamCompoundingCapRateSellSide'', T_int),
    (42437, ''LegPaymentStreamCompoundingFloorRate'', T_Percentage),
    (42438, ''LegPaymentStreamCompoundingFloorRateBuySide'', T_int),
    (42439, ''LegPaymentStreamCompoundingFloorRateSellSide'', T_int),
    (42440, ''LegPaymentStreamCompoundingInitialRate'', T_Percentage),
    (42441, ''LegPaymentStreamCompoundingFinalRateRoundingDirection'', T_char),
    (42442, ''LegPaymentStreamCompoundingFinalRatePrecision'', T_int),
    (42443, ''LegPaymentStreamCompoundingAveragingMethod'', T_int),
    (42444, ''LegPaymentStreamCompoundingNegativeRateTreatment'', T_int),
    (42445, ''LegPaymentStreamCompoundingStartDateUnadjusted'', T_LocalMktDate),
    (42446, ''LegPaymentStreamCompoundingStartDateRelativeTo'', T_int),
    (42447, ''LegPaymentStreamCompoundingStartDateOffsetPeriod'', T_int),
    (42448, ''LegPaymentStreamCompoundingStartDateOffsetUnit'', T_String),
    (42449, ''LegPaymentStreamCompoundingStartDateOffsetDayType'', T_int),
    (42450, ''LegPaymentStreamCompoundingStartDateAdjusted'', T_LocalMktDate),
    (42451, ''LegPaymentStreamFormulaImageLength'', T_Length),
    (42452, ''LegPaymentStreamFormulaImage'', T_data),
    (42453, ''LegPaymentStreamFinalPricePaymentDateUnadjusted'', T_LocalMktDate),
    (42454, ''LegPaymentStreamFinalPricePaymentDateRelativeTo'', T_int),
    (42455, ''LegPaymentStreamFinalPricePaymentDateOffsetPeriod'', T_int),
    (42456, ''LegPaymentStreamFinalPricePaymentDateOffsetUnit'', T_String),
    (42457, ''LegPaymentStreamFinalPricePaymentDateOffsetDayType'', T_int),
    (42458, ''LegPaymentStreamFinalPricePaymentDateAdjusted'', T_LocalMktDate),
    (42459, ''NoLegPaymentStreamFixingDates'', T_NumInGroup),
    (42460, ''LegPaymentStreamFixingDate'', T_LocalMktDate),
    (42461, ''LegPaymentStreamFixingDateType'', T_int),
    (42462, ''LegPaymentStreamFirstObservationDateUnadjusted'', T_LocalMktDate),
    (42463, ''LegPaymentStreamFirstObservationDateRelativeTo'', T_int),
    (42464, ''LegPaymentStreamFirstObservationDateOffsetDayType'', T_int),
    (42465, ''LegPaymentStreamFirstObservationDateAdjusted'', T_LocalMktDate),
    (42466, ''LegPaymentStreamUnderlierRefID'', T_String),
    (42467, ''LegReturnRateNotionalReset'', T_Boolean),
    (42468, ''LegPaymentStreamLinkInitialLevel'', T_Price),
    (42469, ''LegPaymentStreamLinkClosingLevelIndicator'', T_Boolean),
    (42470, ''LegPaymentStreamLinkExpiringLevelIndicator'', T_Boolean),
    (42471, ''LegPaymentStreamLinkEstimatedTradingDays'', T_int),
    (42472, ''LegPaymentStreamLinkStrikePrice'', T_Price),
    (42473, ''LegPaymentStreamLinkStrikePriceType'', T_int),
    (42474, ''LegPaymentStreamLinkMaximumBoundary'', T_float),
    (42475, ''LegPaymentStreamLinkMinimumBoundary'', T_float),
    (42476, ''LegPaymentStreamLinkNumberOfDataSeries'', T_int),
    (42477, ''LegPaymentStreamVarianceUnadjustedCap'', T_float),
    (42478, ''LegPaymentStreamRealizedVarianceMethod'', T_int),
    (42479, ''LegPaymentStreamDaysAdjustmentIndicator'', T_Boolean),
    (42480, ''LegPaymentStreamNearestExchangeContractRefID'', T_String),
    (42481, ''LegPaymentStreamVegaNotionalAmount'', T_float),
    (42482, ''LegPaymentStreamFormulaCurrency'', T_Currency),
    (42483, ''LegPaymentStreamFormulaCurrencyDeterminationMethod'', T_String),
    (42484, ''LegPaymentStreamFormulaReferenceAmount'', T_int),
    (42485, ''NoLegPaymentStreamFormulas'', T_NumInGroup), (42486, ''LegPaymentStreamFormula'', T_XMLData),
    (42487, ''LegPaymentStreamFormulaDesc'', T_String),
    (42488, ''LegPaymentStubEndDateUnadjusted'', T_LocalMktDate),
    (42489, ''LegPaymentStubEndDateBusinessDayConvention'', T_int),
    (42490, ''LegPaymentStubEndDateRelativeTo'', T_int),
    (42491, ''LegPaymentStubEndDateOffsetPeriod'', T_int),
    (42492, ''LegPaymentStubEndDateOffsetUnit'', T_String),
    (42493, ''LegPaymentStubEndDateOffsetDayType'', T_int),
    (42494, ''LegPaymentStubEndDateAdjusted'', T_LocalMktDate),
    (42495, ''NoLegPaymentStubEndDateBusinessCenters'', T_NumInGroup),
    (42496, ''LegPaymentStubEndDateBusinessCenter'', T_String),
    (42497, ''LegPaymentStubStartDateUnadjusted'', T_LocalMktDate),
    (42498, ''LegPaymentStubStartDateBusinessDayConvention'', T_int)]"

definition tag_enum_37 :: "tag_table" where
  "tag_enum_37 = [
    (42499, ''LegPaymentStubStartDateRelativeTo'', T_int),
    (42500, ''LegPaymentStubStartDateOffsetPeriod'', T_int),
    (42501, ''LegPaymentStubStartDateOffsetUnit'', T_String),
    (42502, ''LegPaymentStubStartDateOffsetDayType'', T_int),
    (42503, ''LegPaymentStubStartDateAdjusted'', T_LocalMktDate),
    (42504, ''NoLegPaymentStubStartDateBusinessCenters'', T_NumInGroup),
    (42505, ''LegPaymentStubStartDateBusinessCenter'', T_String),
    (42506, ''LegProvisionBreakFeeElection'', T_int), (42507, ''LegProvisionBreakFeeRate'', T_Percentage),
    (42508, ''NoLegReturnRateDates'', T_NumInGroup), (42509, ''LegReturnRateDateMode'', T_int),
    (42510, ''LegReturnRateValuationDateRelativeTo'', T_int),
    (42511, ''LegReturnRateValuationDateOffsetPeriod'', T_int),
    (42512, ''LegReturnRateValuationDateOffsetUnit'', T_String),
    (42513, ''LegReturnRateValuationDateOffsetDayType'', T_int),
    (42514, ''LegReturnRateValuationStartDateUnadjusted'', T_LocalMktDate),
    (42515, ''LegReturnRateValuationStartDateRelativeTo'', T_int),
    (42516, ''LegReturnRateValuationStartDateOffsetPeriod'', T_int),
    (42517, ''LegReturnRateValuationStartDateOffsetUnit'', T_String),
    (42518, ''LegReturnRateValuationStartDateOffsetDayType'', T_int),
    (42519, ''LegReturnRateValuationStartDateAdjusted'', T_LocalMktDate),
    (42520, ''LegReturnRateValuationEndDateUnadjusted'', T_LocalMktDate),
    (42521, ''LegReturnRateValuationEndDateRelativeTo'', T_int),
    (42522, ''LegReturnRateValuationEndDateOffsetPeriod'', T_int),
    (42523, ''LegReturnRateValuationEndDateOffsetUnit'', T_String),
    (42524, ''LegReturnRateValuationEndDateOffsetDayType'', T_int),
    (42525, ''LegReturnRateValuationEndDateAdjusted'', T_LocalMktDate),
    (42526, ''LegReturnRateValuationFrequencyPeriod'', T_int),
    (42527, ''LegReturnRateValuationFrequencyUnit'', T_String),
    (42528, ''LegReturnRateValuationFrequencyRollConvention'', T_String),
    (42529, ''LegReturnRateValuationDateBusinessDayConvention'', T_int),
    (42530, ''NoLegReturnRateFXConversions'', T_NumInGroup),
    (42531, ''LegReturnRateFXCurrencySymbol'', T_String), (42532, ''LegReturnRateFXRate'', T_float),
    (42533, ''LegReturnRateFXRateCalc'', T_char), (42534, ''NoLegReturnRates'', T_NumInGroup),
    (42535, ''LegReturnRatePriceSequence'', T_int), (42536, ''LegReturnRateCommissionBasis'', T_char),
    (42537, ''LegReturnRateCommissionAmount'', T_Amt),
    (42538, ''LegReturnRateCommissionCurrency'', T_Currency),
    (42539, ''LegReturnRateTotalCommissionPerTrade'', T_Amt),
    (42540, ''LegReturnRateDeterminationMethod'', T_String),
    (42541, ''LegReturnRateAmountRelativeTo'', T_int), (42542, ''LegReturnRateQuoteMeasureType'', T_String),
    (42543, ''LegReturnRateQuoteUnits'', T_String), (42544, ''LegReturnRateQuoteMethod'', T_int),
    (42545, ''LegReturnRateQuoteCurrency'', T_Currency),
    (42546, ''LegReturnRateQuoteCurrencyType'', T_String), (42547, ''LegReturnRateQuoteTimeType'', T_int),
    (42548, ''LegReturnRateQuoteTime'', T_LocalMktTime), (42549, ''LegReturnRateQuoteDate'', T_LocalMktDate),
    (42550, ''LegReturnRateQuoteExpirationTime'', T_LocalMktTime),
    (42551, ''LegReturnRateQuoteBusinessCenter'', T_String),
    (42552, ''LegReturnRateQuoteExchange'', T_Exchange),
    (42553, ''LegReturnRateQuotePricingModel'', T_String), (42554, ''LegReturnRateCashFlowType'', T_String),
    (42555, ''LegReturnRateValuationTimeType'', T_int),
    (42556, ''LegReturnRateValuationTime'', T_LocalMktTime),
    (42557, ''LegReturnRateValuationTimeBusinessCenter'', T_String),
    (42558, ''LegReturnRateValuationPriceOption'', T_int),
    (42559, ''LegReturnRateFinalPriceFallback'', T_int),
    (42560, ''NoLegReturnRateInformationSources'', T_NumInGroup),
    (42561, ''LegReturnRateInformationSource'', T_int), (42562, ''LegReturnRateReferencePage'', T_String),
    (42563, ''LegReturnRateReferencePageHeading'', T_String),
    (42564, ''NoLegReturnRatePrices'', T_NumInGroup), (42565, ''LegReturnRatePriceBasis'', T_int),
    (42566, ''LegReturnRatePrice'', T_Price), (42567, ''LegReturnRatePriceCurrency'', T_Currency),
    (42568, ''LegReturnRatePriceType'', T_int),
    (42569, ''NoLegReturnRateValuationDateBusinessCenters'', T_NumInGroup),
    (42570, ''LegReturnRateValuationDateBusinessCenter'', T_String),
    (42571, ''NoLegReturnRateValuationDates'', T_NumInGroup),
    (42572, ''LegReturnRateValuationDate'', T_LocalMktDate),
    (42573, ''LegReturnRateValuationDateType'', T_int),
    (42574, ''LegSettlMethodElectionDateUnadjusted'', T_LocalMktDate),
    (42575, ''LegSettlMethodElectionDateBusinessDayConvention'', T_int),
    (42576, ''LegSettlMethodElectionDateRelativeTo'', T_int),
    (42577, ''LegSettlMethodElectionDateOffsetPeriod'', T_int),
    (42578, ''LegSettlMethodElectionDateOffsetUnit'', T_String),
    (42579, ''LegSettlMethodElectionDateOffsetDayType'', T_int),
    (42580, ''LegSettlMethodElectionDateAdjusted'', T_LocalMktDate),
    (42581, ''NoLegSettlMethodElectionDateBusinessCenters'', T_NumInGroup),
    (42582, ''LegSettlMethodElectionDateBusinessCenter'', T_String), (42583, ''LegStreamVersion'', T_String),
    (42584, ''LegStreamVersionEffectiveDate'', T_LocalMktDate),
    (42585, ''LegStreamNotionalDeterminationMethod'', T_String),
    (42586, ''LegStreamNotionalAdjustments'', T_int),
    (42587, ''StreamCommodityDeliveryPricingRegion'', T_String),
    (42588, ''LegStreamCommodityDeliveryPricingRegion'', T_String),
    (42589, ''UnderlyingStreamCommodityDeliveryPricingRegion'', T_String),
    (42590, ''SettlMethodElectingPartySide'', T_int), (42591, ''MakeWholeDate'', T_LocalMktDate),
    (42592, ''MakeWholeAmount'', T_Amt), (42593, ''MakeWholeBenchmarkCurveName'', T_String),
    (42594, ''MakeWholeBenchmarkCurvePoint'', T_String), (42595, ''MakeWholeRecallSpread'', T_PriceOffset),
    (42596, ''MakeWholeBenchmarkQuote'', T_int), (42597, ''MakeWholeInterpolationMethod'', T_int),
    (42598, ''PaymentAmountRelativeTo'', T_int), (42599, ''PaymentAmountDeterminationMethod'', T_String),
    (42600, ''PaymentStreamCashSettlIndicator'', T_Boolean),
    (42601, ''PaymentStreamCompoundingXIDRef'', T_XIDREF),
    (42602, ''PaymentStreamCompoundingSpread'', T_PriceOffset),
    (42603, ''PaymentStreamInterpolationMethod'', T_int),
    (42604, ''PaymentStreamInterpolationPeriod'', T_int),
    (42605, ''PaymentStreamCompoundingFixedRate'', T_float),
    (42606, ''NoPaymentStreamCompoundingDates'', T_NumInGroup),
    (42607, ''PaymentStreamCompoundingDate'', T_LocalMktDate),
    (42608, ''PaymentStreamCompoundingDateType'', T_int),
    (42609, ''PaymentStreamCompoundingDatesBusinessDayConvention'', T_int),
    (42610, ''PaymentStreamCompoundingDatesRelativeTo'', T_int),
    (42611, ''PaymentStreamCompoundingDatesOffsetPeriod'', T_int),
    (42612, ''PaymentStreamCompoundingDatesOffsetUnit'', T_String),
    (42613, ''PaymentStreamCompoundingDatesOffsetDayType'', T_int),
    (42614, ''PaymentStreamCompoundingPeriodSkip'', T_int),
    (42615, ''PaymentStreamCompoundingFrequencyPeriod'', T_int),
    (42616, ''PaymentStreamCompoundingFrequencyUnit'', T_String),
    (42617, ''PaymentStreamCompoundingRollConvention'', T_String),
    (42618, ''PaymentStreamBoundsFirstDateUnadjusted'', T_LocalMktDate),
    (42619, ''PaymentStreamBoundsLastDateUnadjusted'', T_LocalMktDate),
    (42620, ''NoPaymentStreamCompoundingDatesBusinessCenters'', T_NumInGroup),
    (42621, ''PaymentStreamCompoundingDatesBusinessCenter'', T_String),
    (42622, ''PaymentStreamCompoundingEndDateUnadjusted'', T_LocalMktDate),
    (42623, ''PaymentStreamCompoundingEndDateRelativeTo'', T_int),
    (42624, ''PaymentStreamCompoundingEndDateOffsetPeriod'', T_int),
    (42625, ''PaymentStreamCompoundingEndDateOffsetUnit'', T_String),
    (42626, ''PaymentStreamCompoundingEndDateOffsetDayType'', T_int),
    (42627, ''PaymentStreamCompoundingEndDateAdjusted'', T_LocalMktDate),
    (42628, ''PaymentStreamCompoundingRateIndex'', T_String),
    (42629, ''PaymentStreamCompoundingRateIndexCurvePeriod'', T_int),
    (42630, ''PaymentStreamCompoundingRateIndexCurveUnit'', T_String),
    (42631, ''PaymentStreamCompoundingRateMultiplier'', T_float),
    (42632, ''PaymentStreamCompoundingRateSpread'', T_PriceOffset),
    (42633, ''PaymentStreamCompoundingRateSpreadPositionType'', T_int),
    (42634, ''PaymentStreamCompoundingRateTreatment'', T_int),
    (42635, ''PaymentStreamCompoundingCapRate'', T_Percentage),
    (42636, ''PaymentStreamCompoundingCapRateBuySide'', T_int),
    (42637, ''PaymentStreamCompoundingCapRateSellSide'', T_int),
    (42638, ''PaymentStreamCompoundingFloorRate'', T_Percentage),
    (42639, ''PaymentStreamCompoundingFloorRateBuySide'', T_int),
    (42640, ''PaymentStreamCompoundingFloorRateSellSide'', T_int),
    (42641, ''PaymentStreamCompoundingInitialRate'', T_Percentage),
    (42642, ''PaymentStreamCompoundingFinalRateRoundingDirection'', T_char),
    (42643, ''PaymentStreamCompoundingFinalRatePrecision'', T_int),
    (42644, ''PaymentStreamCompoundingAveragingMethod'', T_int),
    (42645, ''PaymentStreamCompoundingNegativeRateTreatment'', T_int),
    (42646, ''PaymentStreamCompoundingStartDateUnadjusted'', T_LocalMktDate),
    (42647, ''PaymentStreamCompoundingStartDateRelativeTo'', T_int),
    (42648, ''PaymentStreamCompoundingStartDateOffsetPeriod'', T_int)]"

definition tag_enum_38 :: "tag_table" where
  "tag_enum_38 = [
    (42649, ''PaymentStreamCompoundingStartDateOffsetUnit'', T_String),
    (42650, ''PaymentStreamCompoundingStartDateOffsetDayType'', T_int),
    (42651, ''PaymentStreamCompoundingStartDateAdjusted'', T_LocalMktDate),
    (42652, ''PaymentStreamFormulaImageLength'', T_Length), (42653, ''PaymentStreamFormulaImage'', T_data),
    (42654, ''PaymentStreamFinalPricePaymentDateUnadjusted'', T_LocalMktDate),
    (42655, ''PaymentStreamFinalPricePaymentDateRelativeTo'', T_int),
    (42656, ''PaymentStreamFinalPricePaymentDateOffsetfPeriod'', T_int),
    (42657, ''PaymentStreamFinalPricePaymentDateOffsetUnit'', T_String),
    (42658, ''PaymentStreamFinalPricePaymentDateOffsetDayType'', T_int),
    (42659, ''PaymentStreamFinalPricePaymentDateAdjusted'', T_LocalMktDate),
    (42660, ''NoPaymentStreamFixingDates'', T_NumInGroup),
    (42661, ''PaymentStreamFixingDate'', T_LocalMktDate), (42662, ''PaymentStreamFixingDateType'', T_int),
    (42663, ''PaymentStreamFirstObservationDateUnadjusted'', T_LocalMktDate),
    (42664, ''PaymentStreamFirstObservationDateRelativeTo'', T_int),
    (42665, ''PaymentStreamFirstObservationDateOffsetDayType'', T_int),
    (42666, ''PaymentStreamFirstObservationDateAdjusted'', T_LocalMktDate),
    (42667, ''PaymentStreamUnderlierRefID'', T_String), (42668, ''ReturnRateNotionalReset'', T_Boolean),
    (42669, ''PaymentStreamLinkInitialLevel'', T_Price),
    (42670, ''PaymentStreamLinkClosingLevelIndicator'', T_Boolean),
    (42671, ''PaymentStreamLinkExpiringLevelIndicator'', T_Boolean),
    (42672, ''PaymentStreamLinkEstimatedTradingDays'', T_int),
    (42673, ''PaymentStreamLinkStrikePrice'', T_Price), (42674, ''PaymentStreamLinkStrikePriceType'', T_int),
    (42675, ''PaymentStreamLinkMaximumBoundary'', T_float),
    (42676, ''PaymentStreamLinkMinimumBoundary'', T_float),
    (42677, ''PaymentStreamLinkNumberOfDataSeries'', T_int),
    (42678, ''PaymentStreamVarianceUnadjustedCap'', T_float),
    (42679, ''PaymentStreamRealizedVarianceMethod'', T_int),
    (42680, ''PaymentStreamDaysAdjustmentIndicator'', T_Boolean),
    (42681, ''PaymentStreamNearestExchangeContractRefID'', T_String),
    (42682, ''PaymentStreamVegaNotionalAmount'', T_float),
    (42683, ''NoPaymentStreamFormulas'', T_NumInGroup), (42684, ''PaymentStreamFormula'', T_XMLData),
    (42685, ''PaymentStreamFormulaDesc'', T_String), (42686, ''PaymentStreamFormulaCurrency'', T_Currency),
    (42687, ''PaymentStreamFormulaCurrencyDeterminationMethod'', T_String),
    (42688, ''PaymentStreamFormulaReferenceAmount'', T_int),
    (42689, ''PaymentStubEndDateUnadjusted'', T_LocalMktDate),
    (42690, ''PaymentStubEndDateBusinessDayConvention'', T_int),
    (42691, ''PaymentStubEndDateRelativeTo'', T_int), (42692, ''PaymentStubEndDateOffsetPeriod'', T_int),
    (42693, ''PaymentStubEndDateOffsetUnit'', T_String), (42694, ''PaymentStubEndDateOffsetDayType'', T_int),
    (42695, ''PaymentStubEndDateAdjusted'', T_LocalMktDate),
    (42696, ''NoPaymentStubEndDateBusinessCenters'', T_NumInGroup),
    (42697, ''PaymentStubEndDateBusinessCenter'', T_String),
    (42698, ''PaymentStubStartDateUnadjusted'', T_LocalMktDate),
    (42699, ''PaymentStubStartDateBusinessDayConvention'', T_int),
    (42700, ''PaymentStubStartDateRelativeTo'', T_int), (42701, ''PaymentStubStartDateOffsetPeriod'', T_int),
    (42702, ''PaymentStubStartDateOffsetUnit'', T_String),
    (42703, ''PaymentStubStartDateOffsetDayType'', T_int),
    (42704, ''PaymentStubStartDateAdjusted'', T_LocalMktDate),
    (42705, ''NoPaymentStubStartDateBusinessCenters'', T_NumInGroup),
    (42706, ''PaymentStubStartDateBusinessCenter'', T_String), (42707, ''ProvisionBreakFeeElection'', T_int),
    (42708, ''ProvisionBreakFeeRate'', T_Percentage), (42709, ''NoReturnRateDates'', T_NumInGroup),
    (42710, ''ReturnRateDateMode'', T_int), (42711, ''ReturnRateValuationDateRelativeTo'', T_int),
    (42712, ''ReturnRateValuationDateOffsetPeriod'', T_int),
    (42713, ''ReturnRateValuationDateOffsetUnit'', T_String),
    (42714, ''ReturnRateValuationDateOffsetDayType'', T_int),
    (42715, ''ReturnRateValuationStartDateUnadjusted'', T_LocalMktDate),
    (42716, ''ReturnRateValuationStartDateRelativeTo'', T_int),
    (42717, ''ReturnRateValuationStartDateOffsetPeriod'', T_int),
    (42718, ''ReturnRateValuationStartDateOffsetUnit'', T_String),
    (42719, ''ReturnRateValuationStartDateOffsetDayType'', T_int),
    (42720, ''ReturnRateValuationStartDateAdjusted'', T_LocalMktDate),
    (42721, ''ReturnRateValuationEndDateUnadjusted'', T_LocalMktDate),
    (42722, ''ReturnRateValuationEndDateRelativeTo'', T_int),
    (42723, ''ReturnRateValuationEndDateOffsetPeriod'', T_int),
    (42724, ''ReturnRateValuationEndDateOffsetUnit'', T_String),
    (42725, ''ReturnRateValuationEndDateOffsetDayType'', T_int),
    (42726, ''ReturnRateValuationEndDateAdjusted'', T_LocalMktDate),
    (42727, ''ReturnRateValuationFrequencyPeriod'', T_int),
    (42728, ''ReturnRateValuationFrequencyUnit'', T_String),
    (42729, ''ReturnRateValuationFrequencyRollConvention'', T_String),
    (42730, ''ReturnRateValuationDateBusinessDayConvention'', T_int),
    (42731, ''NoReturnRateFXConversions'', T_NumInGroup), (42732, ''ReturnRateFXCurrencySymbol'', T_String),
    (42733, ''ReturnRateFXRate'', T_float), (42734, ''ReturnRateFXRateCalc'', T_char),
    (42735, ''NoReturnRates'', T_NumInGroup), (42736, ''ReturnRatePriceSequence'', T_int),
    (42737, ''ReturnRateCommissionBasis'', T_char), (42738, ''ReturnRateCommissionAmount'', T_Amt),
    (42739, ''ReturnRateCommissionCurrency'', T_Currency),
    (42740, ''ReturnRateTotalCommissionPerTrade'', T_Amt),
    (42741, ''ReturnRateDeterminationMethod'', T_String), (42742, ''ReturnRateAmountRelativeTo'', T_int),
    (42743, ''ReturnRateQuoteMeasureType'', T_String), (42744, ''ReturnRateQuoteUnits'', T_String),
    (42745, ''ReturnRateQuoteMethod'', T_int), (42746, ''ReturnRateQuoteCurrency'', T_Currency),
    (42747, ''ReturnRateQuoteCurrencyType'', T_String), (42748, ''ReturnRateQuoteTimeType'', T_int),
    (42749, ''ReturnRateQuoteTime'', T_LocalMktTime), (42750, ''ReturnRateQuoteDate'', T_LocalMktDate),
    (42751, ''ReturnRateQuoteExpirationTime'', T_LocalMktTime),
    (42752, ''ReturnRateQuoteBusinessCenter'', T_String), (42753, ''ReturnRateQuoteExchange'', T_Exchange),
    (42754, ''ReturnRateQuotePricingModel'', T_String), (42755, ''ReturnRateCashFlowType'', T_String),
    (42756, ''ReturnRateValuationTimeType'', T_int), (42757, ''ReturnRateValuationTime'', T_LocalMktTime),
    (42758, ''ReturnRateValuationTimeBusinessCenter'', T_String),
    (42759, ''ReturnRateValuationPriceOption'', T_int), (42760, ''ReturnRateFinalPriceFallback'', T_int),
    (42761, ''NoReturnRateInformationSources'', T_NumInGroup),
    (42762, ''ReturnRateInformationSource'', T_int), (42763, ''ReturnRateReferencePage'', T_String),
    (42764, ''ReturnRateReferencePageHeading'', T_String), (42765, ''NoReturnRatePrices'', T_NumInGroup),
    (42766, ''ReturnRatePriceBasis'', T_int), (42767, ''ReturnRatePrice'', T_Price),
    (42768, ''ReturnRatePriceCurrency'', T_Currency), (42769, ''ReturnRatePriceType'', T_int),
    (42770, ''NoReturnRateValuationDateBusinessCenters'', T_NumInGroup),
    (42771, ''ReturnRateValuationDateBusinessCenter'', T_String),
    (42772, ''NoReturnRateValuationDates'', T_NumInGroup),
    (42773, ''ReturnRateValuationDate'', T_LocalMktDate), (42774, ''ReturnRateValuationDateType'', T_int),
    (42775, ''NoSettlMethodElectionDateBusinessCenters'', T_NumInGroup),
    (42776, ''SettlMethodElectionDateBusinessCenter'', T_String),
    (42777, ''SettlMethodElectionDateUnadjusted'', T_LocalMktDate),
    (42778, ''SettlMethodElectionDateBusinessDayConvention'', T_int),
    (42779, ''SettlMethodElectionDateRelativeTo'', T_int),
    (42780, ''SettlMethodElectionDateOffsetPeriod'', T_int),
    (42781, ''SettlMethodElectionDateOffsetUnit'', T_String),
    (42782, ''SettlMethodElectionDateOffsetDayType'', T_int),
    (42783, ''SettlMethodElectionDateAdjusted'', T_LocalMktDate), (42784, ''StreamVersion'', T_String),
    (42785, ''StreamVersionEffectiveDate'', T_LocalMktDate),
    (42786, ''StreamNotionalDeterminationMethod'', T_String), (42787, ''StreamNotionalAdjustments'', T_int),
    (42788, ''NoUnderlyingCashSettlDateBusinessCenters'', T_NumInGroup),
    (42789, ''UnderlyingCashSettlDateBusinessCenter'', T_String),
    (42790, ''UnderlyingCashSettlDateUnadjusted'', T_LocalMktDate),
    (42791, ''UnderlyingCashSettlDateBusinessDayConvention'', T_int),
    (42792, ''UnderlyingCashSettlDateRelativeTo'', T_int),
    (42793, ''UnderlyingCashSettlDateOffsetPeriod'', T_int),
    (42794, ''UnderlyingCashSettlDateOffsetUnit'', T_String),
    (42795, ''UnderlyingCashSettlDateOffsetDayType'', T_int),
    (42796, ''UnderlyingCashSettlDateAdjusted'', T_LocalMktDate),
    (42797, ''UnderlyingCashSettlPriceSource'', T_String),
    (42798, ''UnderlyingCashSettlPriceDefault'', T_int)]"

definition tag_enum_39 :: "tag_table" where
  "tag_enum_39 = [
    (42799, ''NoUnderlyingDividendAccrualPaymentDateBusinessCenters'', T_NumInGroup),
    (42800, ''UnderlyingDividendAccrualPaymentDateBusinessCenter'', T_String),
    (42801, ''UnderlyingDividendFloatingRateIndex'', T_String),
    (42802, ''UnderlyingDividendFloatingRateIndexCurvePeriod'', T_int),
    (42803, ''UnderlyingDividendFloatingRateIndexCurveUnit'', T_String),
    (42804, ''UnderlyingDividendFloatingRateMultiplier'', T_float),
    (42805, ''UnderlyingDividendFloatingRateSpread'', T_PriceOffset),
    (42806, ''UnderlyingDividendFloatingRateSpreadPositionType'', T_int),
    (42807, ''UnderlyingDividendFloatingRateTreatment'', T_int),
    (42808, ''UnderlyingDividendCapRate'', T_Percentage),
    (42809, ''UnderlyingDividendCapRateBuySide'', T_int),
    (42810, ''UnderlyingDividendCapRateSellSide'', T_int),
    (42811, ''UnderlyingDividendFloorRate'', T_Percentage),
    (42812, ''UnderlyingDividendFloorRateBuySide'', T_int),
    (42813, ''UnderlyingDividendFloorRateSellSide'', T_int),
    (42814, ''UnderlyingDividendInitialRate'', T_Percentage),
    (42815, ''UnderlyingDividendFinalRateRoundingDirection'', T_char),
    (42816, ''UnderlyingDividendFinalRatePrecision'', T_int),
    (42817, ''UnderlyingDividendAveragingMethod'', T_int),
    (42818, ''UnderlyingDividendNegativeRateTreatment'', T_int),
    (42819, ''UnderlyingDividendAccrualPaymentDateRelativeTo'', T_int),
    (42820, ''UnderlyingDividendAccrualPaymentDateOffsetPeriod'', T_int),
    (42821, ''UnderlyingDividendAccrualPaymentDateOffsetUnit'', T_String),
    (42822, ''UnderlyingDividendAccrualPaymentDateOffsetDayType'', T_int),
    (42823, ''UnderlyingDividendAccrualPaymentDateUnadjusted'', T_LocalMktDate),
    (42824, ''UnderlyingDividendAccrualPaymentDateBusinessDayConvention'', T_int),
    (42825, ''UnderlyingDividendAccrualPaymentDateAdjusted'', T_LocalMktDate),
    (42826, ''UnderlyingDividendReinvestmentIndicator'', T_Boolean),
    (42827, ''UnderlyingDividendEntitlementEvent'', T_int), (42828, ''UnderlyingDividendAmountType'', T_int),
    (42829, ''UnderlyingDividendUnderlierRefID'', T_String),
    (42830, ''UnderlyingExtraordinaryDividendPartySide'', T_int),
    (42831, ''UnderlyingExtraordinaryDividendAmountType'', T_int),
    (42832, ''UnderlyingExtraordinaryDividendCurrency'', T_Currency),
    (42833, ''UnderlyingExtraordinaryDividendDeterminationMethod'', T_String),
    (42834, ''UnderlyingDividendAccrualFixedRate'', T_Percentage),
    (42835, ''UnderlyingDividendCompoundingMethod'', T_int),
    (42836, ''UnderlyingDividendNumOfIndexUnits'', T_int),
    (42837, ''UnderlyingDividendCashPercentage'', T_Percentage),
    (42838, ''UnderlyingDividendCashEquivalentPercentage'', T_Percentage),
    (42839, ''UnderlyingNonCashDividendTreatment'', T_int),
    (42840, ''UnderlyingDividendComposition'', T_int),
    (42841, ''UnderlyingSpecialDividendsIndicator'', T_Boolean),
    (42842, ''UnderlyingMaterialDividendsIndicator'', T_Boolean),
    (42843, ''UnderlyingOptionsExchangeDividendsIndicator'', T_Boolean),
    (42844, ''UnderlyingAdditionalDividendsIndicator'', T_Boolean),
    (42845, ''UnderlyingAllDividendsIndicator'', T_Boolean),
    (42846, ''UnderlyingDividendFXTriggerDateRelativeTo'', T_int),
    (42847, ''UnderlyingDividendFXTriggerDateOffsetPeriod'', T_int),
    (42848, ''UnderlyingDividendFXTriggerDateOffsetUnit'', T_String),
    (42849, ''UnderlyingDividendFXTriggerDateOffsetDayType'', T_int),
    (42850, ''UnderlyingDividendFXTriggerDateUnadjusted'', T_LocalMktDate),
    (42851, ''UnderlyingDividendFXTriggerDateBusinessDayConvention'', T_int),
    (42852, ''UnderlyingDividendFXTriggerDateAdjusted'', T_LocalMktDate),
    (42853, ''NoUnderlyingDividendFXTriggerDateBusinessCenters'', T_NumInGroup),
    (42854, ''UnderlyingDividendFXTriggerDateBusinessCenter'', T_String),
    (42855, ''NoUnderlyingDividendPayments'', T_NumInGroup),
    (42856, ''UnderlyingDividendPaymentDate'', T_LocalMktDate),
    (42857, ''UnderlyingDividendPaymentAmount'', T_Amt),
    (42858, ''UnderlyingDividendPaymentCurrency'', T_Currency),
    (42859, ''UnderlyingDividendAccruedInterest'', T_Amt),
    (42860, ''UnderlyingDividendPayoutRatio'', T_float),
    (42861, ''UnderlyingDividendPayoutConditions'', T_String),
    (42862, ''NoUnderlyingDividendPeriods'', T_NumInGroup),
    (42863, ''UnderlyingDividendPeriodSequence'', T_int),
    (42864, ''UnderlyingDividendPeriodStartDateUnadjusted'', T_LocalMktDate),
    (42865, ''UnderlyingDividendPeriodEndDateUnadjusted'', T_LocalMktDate),
    (42866, ''UnderlyingDividendPeriodUnderlierRefID'', T_String),
    (42867, ''UnderlyingDividendPeriodStrikePrice'', T_Price),
    (42868, ''UnderlyingDividendPeriodBusinessDayConvention'', T_int),
    (42869, ''UnderlyingDividendPeriodValuationDateUnadjusted'', T_LocalMktDate),
    (42870, ''UnderlyingDividendPeriodValuationDateRelativeTo'', T_int),
    (42871, ''UnderlyingDividendPeriodValuationDateOffsetPeriod'', T_int),
    (42872, ''UnderlyingDividendPeriodValuationDateOffsetUnit'', T_String),
    (42873, ''UnderlyingDividendPeriodValuationDateOffsetDayType'', T_int),
    (42874, ''UnderlyingDividendPeriodValuationDateAdjusted'', T_LocalMktDate),
    (42875, ''UnderlyingDividendPeriodPaymentDateUnadjusted'', T_LocalMktDate),
    (42876, ''UnderlyingDividendPeriodPaymentDateRelativeTo'', T_int),
    (42877, ''UnderlyingDividendPeriodPaymentDateOffsetPeriod'', T_int),
    (42878, ''UnderlyingDividendPeriodPaymentDateOffsetUnit'', T_String),
    (42879, ''UnderlyingDividendPeriodPaymentDateOffsetDayType'', T_int),
    (42880, ''UnderlyingDividendPeriodPaymentDateAdjusted'', T_LocalMktDate),
    (42881, ''UnderlyingDividendPeriodXID'', T_XID),
    (42882, ''NoUnderlyingDividendPeriodBusinessCenters'', T_NumInGroup),
    (42883, ''UnderlyingDividendPeriodBusinessCenter'', T_String),
    (42884, ''NoUnderlyingExtraordinaryEvents'', T_NumInGroup),
    (42885, ''UnderlyingExtraordinaryEventType'', T_String),
    (42886, ''UnderlyingExtraordinaryEventValue'', T_String),
    (42887, ''UnderlyingSettlMethodElectingPartySide'', T_int),
    (42888, ''UnderlyingMakeWholeDate'', T_LocalMktDate), (42889, ''UnderlyingMakeWholeAmount'', T_Amt),
    (42890, ''UnderlyingMakeWholeBenchmarkCurveName'', T_String),
    (42891, ''UnderlyingMakeWholeBenchmarkCurvePoint'', T_String),
    (42892, ''UnderlyingMakeWholeRecallSpread'', T_PriceOffset),
    (42893, ''UnderlyingMakeWholeBenchmarkQuote'', T_int),
    (42894, ''UnderlyingMakeWholeInterpolationMethod'', T_int),
    (42895, ''UnderlyingPaymentStreamCashSettlIndicator'', T_Boolean),
    (42896, ''UnderlyingPaymentStreamCompoundingXIDRef'', T_XIDREF),
    (42897, ''UnderlyingPaymentStreamCompoundingSpread'', T_PriceOffset),
    (42898, ''UnderlyingPaymentStreamInterpolationMethod'', T_int),
    (42899, ''UnderlyingPaymentStreamInterpolationPeriod'', T_int),
    (42900, ''UnderlyingPaymentStreamCompoundingFixedRate'', T_float),
    (42901, ''NoUnderlyingPaymentStreamCompoundingDates'', T_NumInGroup),
    (42902, ''UnderlyingPaymentStreamCompoundingDate'', T_LocalMktDate),
    (42903, ''UnderlyingPaymentStreamCompoundingDateType'', T_int),
    (42904, ''UnderlyingPaymentStreamCompoundingDatesBusinessDayConvention'', T_int),
    (42905, ''UnderlyingPaymentStreamCompoundingDatesRelativeTo'', T_int),
    (42906, ''UnderlyingPaymentStreamCompoundingDatesOffsetPeriod'', T_int),
    (42907, ''UnderlyingPaymentStreamCompoundingDatesOffsetUnit'', T_String),
    (42908, ''UnderlyingPaymentStreamCompoundingDatesOffsetDayType'', T_int),
    (42909, ''UnderlyingPaymentStreamCompoundingPeriodSkip'', T_int),
    (42910, ''UnderlyingPaymentStreamCompoundingFrequencyPeriod'', T_int),
    (42911, ''UnderlyingPaymentStreamCompoundingFrequencyUnit'', T_String),
    (42912, ''UnderlyingPaymentStreamCompoundingRollConvention'', T_String),
    (42913, ''UnderlyingPaymentStreamBoundsFirstDateUnadjusted'', T_LocalMktDate),
    (42914, ''UnderlyingPaymentStreamBoundsLastDateUnadjusted'', T_LocalMktDate),
    (42915, ''NoUnderlyingPaymentStreamCompoundingDatesBusinessCenters'', T_NumInGroup),
    (42916, ''UnderlyingPaymentStreamCompoundingDatesBusinessCenter'', T_String),
    (42917, ''UnderlyingPaymentStreamCompoundingEndDateUnadjusted'', T_LocalMktDate),
    (42918, ''UnderlyingPaymentStreamCompoundingEndDateRelativeTo'', T_int),
    (42919, ''UnderlyingPaymentStreamCompoundingEndDateOffsetPeriod'', T_int),
    (42920, ''UnderlyingPaymentStreamCompoundingEndDateOffsetUnit'', T_String),
    (42921, ''UnderlyingPaymentStreamCompoundingEndDateOffsetDayType'', T_int),
    (42922, ''UnderlyingPaymentStreamCompoundingEndDateAdjusted'', T_LocalMktDate),
    (42923, ''UnderlyingPaymentStreamCompoundingRateIndex'', T_String),
    (42924, ''UnderlyingPaymentStreamCompoundingRateIndexCurvePeriod'', T_int),
    (42925, ''UnderlyingPaymentStreamCompoundingRateIndexCurveUnit'', T_String),
    (42926, ''UnderlyingPaymentStreamCompoundingRateMultiplier'', T_float),
    (42927, ''UnderlyingPaymentStreamCompoundingRateSpread'', T_PriceOffset),
    (42928, ''UnderlyingPaymentStreamCompoundingRateSpreadPositionType'', T_int),
    (42929, ''UnderlyingPaymentStreamCompoundingRateTreatment'', T_int),
    (42930, ''UnderlyingPaymentStreamCompoundingCapRate'', T_Percentage),
    (42931, ''UnderlyingPaymentStreamCompoundingCapRateBuySide'', T_int),
    (42932, ''UnderlyingPaymentStreamCompoundingCapRateSellSide'', T_int),
    (42933, ''UnderlyingPaymentStreamCompoundingFloorRate'', T_Percentage),
    (42934, ''UnderlyingPaymentStreamCompoundingFloorRateBuySide'', T_int),
    (42935, ''UnderlyingPaymentStreamCompoundingFloorRateSellSide'', T_int),
    (42936, ''UnderlyingPaymentStreamCompoundingInitialRate'', T_Percentage),
    (42937, ''UnderlyingPaymentStreamCompoundingFinalRateRoundingDirection'', T_char),
    (42938, ''UnderlyingPaymentStreamCompoundingFinalRatePrecision'', T_int),
    (42939, ''UnderlyingPaymentStreamCompoundingAveragingMethod'', T_int),
    (42940, ''UnderlyingPaymentStreamCompoundingNegativeRateTreatment'', T_int),
    (42941, ''UnderlyingPaymentStreamCompoundingStartDateUnadjusted'', T_LocalMktDate),
    (42942, ''UnderlyingPaymentStreamCompoundingStartDateRelativeTo'', T_int),
    (42943, ''UnderlyingPaymentStreamCompoundingStartDateOffsetPeriod'', T_int),
    (42944, ''UnderlyingPaymentStreamCompoundingStartDateOffsetUnit'', T_String),
    (42945, ''UnderlyingPaymentStreamCompoundingStartDateOffsetDayType'', T_int),
    (42946, ''UnderlyingPaymentStreamCompoundingStartDateAdjusted'', T_LocalMktDate),
    (42947, ''UnderlyingPaymentStreamFormulaImageLength'', T_Length),
    (42948, ''UnderlyingPaymentStreamFormulaImage'', T_data)]"

definition tag_enum_40 :: "tag_table" where
  "tag_enum_40 = [
    (42949, ''UnderlyingPaymentStreamFinalPricePaymentDateUnadjusted'', T_LocalMktDate),
    (42950, ''UnderlyingPaymentStreamFinalPricePaymentDateRelativeTo'', T_int),
    (42951, ''UnderlyingPaymentStreamFinalPricePaymentDateOffsetPeriod'', T_int),
    (42952, ''UnderlyingPaymentStreamFinalPricePaymentDateOffsetUnit'', T_String),
    (42953, ''UnderlyingPaymentStreamFinalPricePaymentDateOffsetDayType'', T_int),
    (42954, ''UnderlyingPaymentStreamFinalPricePaymentDateAdjusted'', T_LocalMktDate),
    (42955, ''NoUnderlyingPaymentStreamFixingDates'', T_NumInGroup),
    (42956, ''UnderlyingPaymentStreamFixingDate'', T_LocalMktDate),
    (42957, ''UnderlyingPaymentStreamFixingDateType'', T_int),
    (42958, ''UnderlyingPaymentStreamFirstObservationDateUnadjusted'', T_LocalMktDate),
    (42959, ''UnderlyingPaymentStreamFirstObservationDateRelativeTo'', T_int),
    (42960, ''UnderlyingPaymentStreamFirstObservationDateOffsetDayType'', T_int),
    (42961, ''UnderlyingPaymentStreamFirstObservationDateAdjusted'', T_LocalMktDate),
    (42962, ''UnderlyingPaymentStreamUnderlierRefID'', T_String),
    (42963, ''UnderlyingReturnRateNotionalReset'', T_Boolean),
    (42964, ''UnderlyingPaymentStreamLinkInitialLevel'', T_Price),
    (42965, ''UnderlyingPaymentStreamLinkClosingLevelIndicator'', T_Boolean),
    (42966, ''UnderlyingPaymentStreamLinkExpiringLevelIndicator'', T_Boolean),
    (42967, ''UnderlyingPaymentStreamLinkEstimatedTradingDays'', T_int),
    (42968, ''UnderlyingPaymentStreamLinkStrikePrice'', T_Price),
    (42969, ''UnderlyingPaymentStreamLinkStrikePriceType'', T_int),
    (42970, ''UnderlyingPaymentStreamLinkMaximumBoundary'', T_float),
    (42971, ''UnderlyingPaymentStreamLinkMinimumBoundary'', T_float),
    (42972, ''UnderlyingPaymentStreamLinkNumberOfDataSeries'', T_int),
    (42973, ''UnderlyingPaymentStreamVarianceUnadjustedCap'', T_float),
    (42974, ''UnderlyingPaymentStreamRealizedVarianceMethod'', T_int),
    (42975, ''UnderlyingPaymentStreamDaysAdjustmentIndicator'', T_Boolean),
    (42976, ''UnderlyingPaymentStreamNearestExchangeContractRefID'', T_String),
    (42977, ''UnderlyingPaymentStreamVegaNotionalAmount'', T_float),
    (42978, ''UnderlyingPaymentStreamFormulaCurrency'', T_Currency),
    (42979, ''UnderlyingPaymentStreamFormulaCurrencyDeterminationMethod'', T_String),
    (42980, ''UnderlyingPaymentStreamFormulaReferenceAmount'', T_int),
    (42981, ''NoUnderlyingPaymentStreamFormulas'', T_NumInGroup),
    (42982, ''UnderlyingPaymentStreamFormula'', T_XMLData),
    (42983, ''UnderlyingPaymentStreamFormulaDesc'', T_String),
    (42984, ''UnderlyingPaymentStubEndDateUnadjusted'', T_LocalMktDate),
    (42985, ''UnderlyingPaymentStubEndDateBusinessDayConvention'', T_int),
    (42986, ''UnderlyingPaymentStubEndDateRelativeTo'', T_int),
    (42987, ''UnderlyingPaymentStubEndDateOffsetPeriod'', T_int),
    (42988, ''UnderlyingPaymentStubEndDateOffsetUnit'', T_String),
    (42989, ''UnderlyingPaymentStubEndDateOffsetDayType'', T_int),
    (42990, ''UnderlyingPaymentStubEndDateAdjusted'', T_LocalMktDate),
    (42991, ''NoUnderlyingPaymentStubEndDateBusinessCenters'', T_NumInGroup),
    (42992, ''UnderlyingPaymentStubEndDateBusinessCenter'', T_String),
    (42993, ''UnderlyingPaymentStubStartDateUnadjusted'', T_LocalMktDate),
    (42994, ''UnderlyingPaymentStubStartDateBusinessDayConvention'', T_int),
    (42995, ''UnderlyingPaymentStubStartDateRelativeTo'', T_int),
    (42996, ''UnderlyingPaymentStubStartDateOffsetPeriod'', T_int),
    (42997, ''UnderlyingPaymentStubStartDateOffsetUnit'', T_String),
    (42998, ''UnderlyingPaymentStubStartDateOffsetDayType'', T_int),
    (42999, ''UnderlyingPaymentStubStartDateAdjusted'', T_LocalMktDate),
    (43000, ''NoUnderlyingPaymentStubStartDateBusinessCenters'', T_NumInGroup),
    (43001, ''UnderlyingPaymentStubStartDateBusinessCenter'', T_String),
    (43002, ''UnderlyingProvisionBreakFeeElection'', T_int),
    (43003, ''UnderlyingProvisionBreakFeeRate'', T_Percentage),
    (43004, ''UnderlyingRateSpreadInitialValue'', T_float),
    (43005, ''NoUnderlyingRateSpreadSteps'', T_NumInGroup),
    (43006, ''UnderlyingRateSpreadStepDate'', T_LocalMktDate),
    (43007, ''UnderlyingRateSpreadStepValue'', T_float),
    (43008, ''NoUnderlyingReturnRateDates'', T_NumInGroup), (43009, ''UnderlyingReturnRateDateMode'', T_int),
    (43010, ''UnderlyingReturnRateValuationDateRelativeTo'', T_int),
    (43011, ''UnderlyingReturnRateValuationDateOffsetPeriod'', T_int),
    (43012, ''UnderlyingReturnRateValuationDateOffsetUnit'', T_String),
    (43013, ''UnderlyingReturnRateValuationDateOffsetDayType'', T_int),
    (43014, ''UnderlyingReturnRateValuationStartDateUnadjusted'', T_LocalMktDate),
    (43015, ''UnderlyingReturnRateValuationStartDateRelativeTo'', T_int),
    (43016, ''UnderlyingReturnRateValuationStartDateOffsetPeriod'', T_int),
    (43017, ''UnderlyingReturnRateValuationStartDateOffsetUnit'', T_String),
    (43018, ''UnderlyingReturnRateValuationStartDateOffsetDayType'', T_int),
    (43019, ''UnderlyingReturnRateValuationStartDateAdjusted'', T_LocalMktDate),
    (43020, ''UnderlyingReturnRateValuationEndDateUnadjusted'', T_LocalMktDate),
    (43021, ''UnderlyingReturnRateValuationEndDateRelativeTo'', T_int),
    (43022, ''UnderlyingReturnRateValuationEndDateOffsetPeriod'', T_int),
    (43023, ''UnderlyingReturnRateValuationEndDateOffsetUnit'', T_String),
    (43024, ''UnderlyingReturnRateValuationEndDateOffsetDayType'', T_int),
    (43025, ''UnderlyingReturnRateValuationEndDateAdjusted'', T_LocalMktDate),
    (43026, ''UnderlyingReturnRateValuationFrequencyPeriod'', T_int),
    (43027, ''UnderlyingReturnRateValuationFrequencyUnit'', T_String),
    (43028, ''UnderlyingReturnRateValuationFrequencyRollConvention'', T_String),
    (43029, ''UnderlyingReturnRateValuationDateBusinessDayConvention'', T_int),
    (43030, ''NoUnderlyingReturnRateFXConversions'', T_NumInGroup),
    (43031, ''UnderlyingReturnRateFXCurrencySymbol'', T_String),
    (43032, ''UnderlyingReturnRateFXRate'', T_float), (43033, ''UnderlyingReturnRateFXRateCalc'', T_char),
    (43034, ''NoUnderlyingReturnRates'', T_NumInGroup),
    (43035, ''UnderlyingReturnRatePriceSequence'', T_int),
    (43036, ''UnderlyingReturnRateCommissionBasis'', T_char),
    (43037, ''UnderlyingReturnRateCommissionAmount'', T_Amt),
    (43038, ''UnderlyingReturnRateCommissionCurrency'', T_Currency),
    (43039, ''UnderlyingReturnRateTotalCommissionPerTrade'', T_Amt),
    (43040, ''UnderlyingReturnRateDeterminationMethod'', T_String),
    (43041, ''UnderlyingReturnRateAmountRelativeTo'', T_int),
    (43042, ''UnderlyingReturnRateQuoteMeasureType'', T_String),
    (43043, ''UnderlyingReturnRateQuoteUnits'', T_String),
    (43044, ''UnderlyingReturnRateQuoteMethod'', T_int),
    (43045, ''UnderlyingReturnRateQuoteCurrency'', T_Currency),
    (43046, ''UnderlyingReturnRateQuoteCurrencyType'', T_String),
    (43047, ''UnderlyingReturnRateQuoteTimeType'', T_int),
    (43048, ''UnderlyingReturnRateQuoteTime'', T_LocalMktDate),
    (43049, ''UnderlyingReturnRateQuoteDate'', T_LocalMktDate),
    (43050, ''UnderlyingReturnRateQuoteExpirationTime'', T_LocalMktTime),
    (43051, ''UnderlyingReturnRateQuoteBusinessCenter'', T_String),
    (43052, ''UnderlyingReturnRateQuoteExchange'', T_Exchange),
    (43053, ''UnderlyingReturnRateQuotePricingModel'', T_String),
    (43054, ''UnderlyingReturnRateCashFlowType'', T_String),
    (43055, ''UnderlyingReturnRateValuationTimeType'', T_int),
    (43056, ''UnderlyingReturnRateValuationTime'', T_LocalMktTime),
    (43057, ''UnderlyingReturnRateValuationTimeBusinessCenter'', T_String),
    (43058, ''UnderlyingReturnRateValuationPriceOption'', T_int),
    (43059, ''UnderlyingReturnRateFinalPriceFallback'', T_int),
    (43060, ''NoUnderlyingReturnRateInformationSources'', T_NumInGroup),
    (43061, ''UnderlyingReturnRateInformationSource'', T_int),
    (43062, ''UnderlyingReturnRateReferencePage'', T_String),
    (43063, ''UnderlyingReturnRateReferencePageHeading'', T_String),
    (43064, ''NoUnderlyingReturnRatePrices'', T_NumInGroup),
    (43065, ''UnderlyingReturnRatePriceBasis'', T_int), (43066, ''UnderlyingReturnRatePrice'', T_Price),
    (43067, ''UnderlyingReturnRatePriceCurrency'', T_Currency),
    (43068, ''UnderlyingReturnRatePriceType'', T_int),
    (43069, ''NoUnderlyingReturnRateValuationDateBusinessCenters'', T_NumInGroup),
    (43070, ''UnderlyingReturnRateValuationDateBusinessCenter'', T_String),
    (43071, ''NoUnderlyingReturnRateValuationDates'', T_NumInGroup),
    (43072, ''UnderlyingReturnRateValuationDate'', T_LocalMktDate),
    (43073, ''UnderlyingReturnRateValuationDateType'', T_int),
    (43074, ''NoUnderlyingSettlMethodElectionDateBusinessCenters'', T_NumInGroup),
    (43075, ''UnderlyingSettlMethodElectionDateBusinessCenter'', T_String),
    (43076, ''UnderlyingSettlMethodElectionDateUnadjusted'', T_LocalMktDate),
    (43077, ''UnderlyingSettlMethodElectionDateBusinessDayConvention'', T_int),
    (43078, ''UnderlyingSettlMethodElectionDateRelativeTo'', T_int),
    (43079, ''UnderlyingSettlMethodElectionDateOffsetPeriod'', T_int),
    (43080, ''UnderlyingSettlMethodElectionDateOffsetUnit'', T_String),
    (43081, ''UnderlyingSettlMethodElectionDateOffsetDayType'', T_int),
    (43082, ''UnderlyingSettlMethodElectionDateAdjusted'', T_LocalMktDate),
    (43083, ''UnderlyingStreamVersion'', T_String),
    (43084, ''UnderlyingStreamVersionEffectiveDate'', T_LocalMktDate),
    (43085, ''UnderlyingStreamNotionalDeterminationMethod'', T_String),
    (43086, ''UnderlyingStreamNotionalAdjustments'', T_int), (43087, ''PaymentDesc'', T_String),
    (43088, ''LegPaymentStreamRateIndexID'', T_String),
    (43089, ''LegPaymentStreamRateIndexIDSource'', T_String),
    (43090, ''PaymentStreamRateIndexID'', T_String), (43091, ''PaymentStreamRateIndexIDSource'', T_String),
    (43092, ''UnderlyingPaymentStreamRateIndexID'', T_String),
    (43093, ''UnderlyingPaymentStreamRateIndexIDSource'', T_String),
    (43094, ''DeliveryStreamRouteOrCharter'', T_String),
    (43095, ''LegDeliveryStreamRouteOrCharter'', T_String),
    (43096, ''UnderlyingDeliveryStreamRouteOrCharter'', T_String),
    (43097, ''PaymentFixedRate'', T_Percentage), (43098, ''PaymentFloatingRateIndex'', T_String)]"

definition tag_enum_41 :: "tag_table" where
  "tag_enum_41 = [
    (43099, ''PaymentFloatingRateIndexCurvePeriod'', T_int),
    (43100, ''PaymentFloatingRateIndexCurveUnit'', T_String),
    (43101, ''PaymentFloatingRateSpread'', T_PriceOffset), (43102, ''PaymentFrequencyPeriod'', T_int),
    (43103, ''PaymentFrequencyUnit'', T_String), (43104, ''PaymentRateResetFrequencyPeriod'', T_int),
    (43105, ''PaymentRateResetFrequencyUnit'', T_String), (43106, ''PaymentStreamOtherDayCount'', T_String),
    (43107, ''UnderlyingPaymentStreamOtherDayCount'', T_String),
    (43108, ''LegPaymentStreamOtherDayCount'', T_String), (43109, ''PaymentStreamFormulaLength'', T_Length),
    (43110, ''LegPaymentStreamFormulaLength'', T_Length),
    (43111, ''UnderlyingPaymentStreamFormulaLength'', T_Length),
    (43112, ''PaymentStreamRateIndex2'', T_String), (43113, ''PaymentStreamRateIndex2Source'', T_int),
    (43114, ''PaymentStreamRateIndex2ID'', T_String), (43115, ''PaymentStreamRateIndex2IDSource'', T_String),
    (43116, ''LegPaymentStreamRateIndex2'', T_String), (43117, ''LegPaymentStreamRateIndex2Source'', T_int),
    (43118, ''LegPaymentStreamRateIndex2ID'', T_String),
    (43119, ''LegPaymentStreamRateIndex2IDSource'', T_String),
    (43120, ''UnderlyingPaymentStreamRateIndex2'', T_String),
    (43121, ''UnderlyingPaymentStreamRateIndex2Source'', T_int),
    (43122, ''UnderlyingPaymentStreamRateIndex2ID'', T_String),
    (43123, ''UnderlyingPaymentStreamRateIndex2IDSource'', T_String), (50000, ''BatchID'', T_String),
    (50001, ''BatchTotalMessages'', T_int), (50002, ''BatchProcessMode'', T_int)]"

section \<open>What each part contains\<close>

lemma lengths_31: "of_type T_Length tag_enum_31 =
    [41653, 41710]"
  unfolding tag_enum_31_def by (rule of_type_scan | simp only: fix_type.distinct not_False_eq_True)+

lemma counts_31: "of_type T_NumInGroup tag_enum_31 =
    [41599, 41604, 41607, 41614, 41616, 41625, 41633, 41635, 41638, 41646, 41674, 41677, 41680, 41683, 41686,
    41713, 41716, 41724, 41726, 41729, 41732, 41737, 41748]"
  unfolding tag_enum_31_def by (rule of_type_scan | simp only: fix_type.distinct not_False_eq_True)+

lemma ascending_31: "ascends 41598 tag_enum_31 41748"
  unfolding tag_enum_31_def by (rule ascends_scan | simp)+

lemma lengths_32: "of_type T_Length tag_enum_32 =
    [41806, 41811, 41873]"
  unfolding tag_enum_32_def by (rule of_type_scan | simp only: fix_type.distinct not_False_eq_True)+

lemma counts_32: "of_type T_NumInGroup tag_enum_32 =
    [41750, 41756, 41770, 41773, 41800, 41804, 41808, 41820, 41841, 41844, 41856, 41864, 41866, 41868,
    41878]"
  unfolding tag_enum_32_def by (rule of_type_scan | simp only: fix_type.distinct not_False_eq_True)+

lemma ascending_32: "ascends 41748 tag_enum_32 41898"
  unfolding tag_enum_32_def by (rule ascends_scan | simp)+

lemma lengths_33: "of_type T_Length tag_enum_33 =
    [41969, 42025]"
  unfolding tag_enum_33_def by (rule of_type_scan | simp only: fix_type.distinct not_False_eq_True)+

lemma counts_33: "of_type T_NumInGroup tag_enum_33 =
    [41909, 41937, 41941, 41944, 41947, 41954, 41962, 41990, 41993, 41996, 41999, 42002, 42036, 42039,
    42041]"
  unfolding tag_enum_33_def by (rule of_type_scan | simp only: fix_type.distinct not_False_eq_True)+

lemma ascending_33: "ascends 41898 tag_enum_33 42048"
  unfolding tag_enum_33_def by (rule ascends_scan | simp)+

lemma lengths_34: "of_type T_Length tag_enum_34 =
    [42171]"
  unfolding tag_enum_34_def by (rule of_type_scan | simp only: fix_type.distinct not_False_eq_True)+

lemma counts_34: "of_type T_NumInGroup tag_enum_34 =
    [42060, 42065, 42068, 42077, 42085, 42087, 42090, 42099, 42112, 42149, 42173, 42177, 42180, 42182, 42184,
    42186, 42188, 42190, 42198]"
  unfolding tag_enum_34_def by (rule of_type_scan | simp only: fix_type.distinct not_False_eq_True)+

lemma ascending_34: "ascends 42048 tag_enum_34 42198"
  unfolding tag_enum_34_def by (rule ascends_scan | simp)+

lemma lengths_35: "of_type T_Length tag_enum_35 =
    []"
  unfolding tag_enum_35_def by (rule of_type_scan | simp only: fix_type.distinct not_False_eq_True)+

lemma counts_35: "of_type T_NumInGroup tag_enum_35 =
    [42200, 42203, 42214, 42236, 42272, 42274, 42294, 42296, 42306, 42310]"
  unfolding tag_enum_35_def by (rule of_type_scan | simp only: fix_type.distinct not_False_eq_True)+

lemma ascending_35: "ascends 42198 tag_enum_35 42348"
  unfolding tag_enum_35_def by (rule ascends_scan | simp)+

lemma lengths_36: "of_type T_Length tag_enum_36 =
    [42451]"
  unfolding tag_enum_36_def by (rule of_type_scan | simp only: fix_type.distinct not_False_eq_True)+

lemma counts_36: "of_type T_NumInGroup tag_enum_36 =
    [42364, 42366, 42386, 42388, 42405, 42419, 42459, 42485, 42495]"
  unfolding tag_enum_36_def by (rule of_type_scan | simp only: fix_type.distinct not_False_eq_True)+

lemma ascending_36: "ascends 42348 tag_enum_36 42498"
  unfolding tag_enum_36_def by (rule ascends_scan | simp)+

lemma lengths_37: "of_type T_Length tag_enum_37 =
    []"
  unfolding tag_enum_37_def by (rule of_type_scan | simp only: fix_type.distinct not_False_eq_True)+

lemma counts_37: "of_type T_NumInGroup tag_enum_37 =
    [42504, 42508, 42530, 42534, 42560, 42564, 42569, 42571, 42581, 42606, 42620]"
  unfolding tag_enum_37_def by (rule of_type_scan | simp only: fix_type.distinct not_False_eq_True)+

lemma ascending_37: "ascends 42498 tag_enum_37 42648"
  unfolding tag_enum_37_def by (rule ascends_scan | simp)+

lemma lengths_38: "of_type T_Length tag_enum_38 =
    [42652]"
  unfolding tag_enum_38_def by (rule of_type_scan | simp only: fix_type.distinct not_False_eq_True)+

lemma counts_38: "of_type T_NumInGroup tag_enum_38 =
    [42660, 42683, 42696, 42705, 42709, 42731, 42735, 42761, 42765, 42770, 42772, 42775, 42788]"
  unfolding tag_enum_38_def by (rule of_type_scan | simp only: fix_type.distinct not_False_eq_True)+

lemma ascending_38: "ascends 42648 tag_enum_38 42798"
  unfolding tag_enum_38_def by (rule ascends_scan | simp)+

lemma lengths_39: "of_type T_Length tag_enum_39 =
    [42947]"
  unfolding tag_enum_39_def by (rule of_type_scan | simp only: fix_type.distinct not_False_eq_True)+

lemma counts_39: "of_type T_NumInGroup tag_enum_39 =
    [42799, 42853, 42855, 42862, 42882, 42884, 42901, 42915]"
  unfolding tag_enum_39_def by (rule of_type_scan | simp only: fix_type.distinct not_False_eq_True)+

lemma ascending_39: "ascends 42798 tag_enum_39 42948"
  unfolding tag_enum_39_def by (rule ascends_scan | simp)+

lemma lengths_40: "of_type T_Length tag_enum_40 =
    []"
  unfolding tag_enum_40_def by (rule of_type_scan | simp only: fix_type.distinct not_False_eq_True)+

lemma counts_40: "of_type T_NumInGroup tag_enum_40 =
    [42955, 42981, 42991, 43000, 43005, 43008, 43030, 43034, 43060, 43064, 43069, 43071, 43074]"
  unfolding tag_enum_40_def by (rule of_type_scan | simp only: fix_type.distinct not_False_eq_True)+

lemma ascending_40: "ascends 42948 tag_enum_40 43098"
  unfolding tag_enum_40_def by (rule ascends_scan | simp)+

lemma lengths_41: "of_type T_Length tag_enum_41 =
    [43109, 43110, 43111]"
  unfolding tag_enum_41_def by (rule of_type_scan | simp only: fix_type.distinct not_False_eq_True)+

lemma counts_41: "of_type T_NumInGroup tag_enum_41 =
    []"
  unfolding tag_enum_41_def by (rule of_type_scan | simp only: fix_type.distinct not_False_eq_True)+

lemma ascending_41: "ascends 43098 tag_enum_41 50002"
  unfolding tag_enum_41_def by (rule ascends_scan | simp)+

end
