(* ===== verification/Field_Names_2.thy ===== *)
theory Field_Names_2
  imports Fix_Types
begin

text \<open>
  The assignments of \<open>dictionary_init_field\<close> (\<open>src/include/hffix_fields.hpp\<close>), second quarter, with the
  tag constants as their numbers.
\<close>

definition field_names_11 :: "(int \<times> string) list" where
  "field_names_11 = [
    (1552, ''InstrumentScopeSeniority''), (1553, ''InstrumentScopePutOrCall''),
    (1554, ''InstrumentScopeFlexibleIndicator''), (1555, ''InstrumentScopeCouponRate''),
    (1556, ''InstrumentScopeSecurityDesc''), (1557, ''InstrumentScopeSettlType''),
    (1558, ''RiskInstrumentMultiplier''), (1559, ''NoRiskWarningLevels''),
    (1560, ''RiskWarningLevelPercent''), (1561, ''RiskWarningLevelName''),
    (1562, ''NoRelatedPartyDetailID''), (1563, ''RelatedPartyDetailID''),
    (1564, ''RelatedPartyDetailIDSource''), (1565, ''RelatedPartyDetailRole''),
    (1566, ''NoRelatedPartyDetailSubIDs''), (1567, ''RelatedPartyDetailSubID''),
    (1568, ''RelatedPartyDetailSubIDType''), (1569, ''NoRelatedPartyDetailAltID''),
    (1570, ''RelatedPartyDetailAltID''), (1571, ''RelatedPartyDetailAltIDSource''),
    (1572, ''NoRelatedPartyDetailAltSubIDs''), (1573, ''RelatedPartyDetailAltSubID''),
    (1574, ''RelatedPartyDetailAltSubIDType''), (1575, ''SwapSubClass''),
    (1576, ''DerivativePriceQuoteCurrency''), (1577, ''SettlRateIndex''), (1578, ''EncodedEventTextLen''),
    (1579, ''EncodedEventText''), (1580, ''SettlRateIndexLocation''), (1581, ''OptionExpirationDesc''),
    (1582, ''NoSecurityClassifications''), (1583, ''SecurityClassificationReason''),
    (1584, ''SecurityClassificationValue''), (1585, ''PosAmtReason''), (1586, ''NoLegPosAmt''),
    (1587, ''LegPosAmt''), (1588, ''LegPosAmtType''), (1589, ''LegPosCurrency''),
    (1590, ''LegPosAmtReason''), (1591, ''LegQtyType''), (1592, ''DiscountFactor''),
    (1593, ''ParentAllocID''), (1594, ''LegSecurityGroup''), (1595, ''PositionContingentPrice''),
    (1596, ''ClearingTradePrice''), (1597, ''SideClearingTradePrice''),
    (1598, ''SideClearingTradePriceType''), (1599, ''SidePriceDifferential''), (1600, ''FIXEngineName''),
    (1601, ''FIXEngineVersion''), (1602, ''FIXEngineVendor''), (1603, ''ApplicationSystemName''),
    (1604, ''ApplicationSystemVersion''), (1605, ''ApplicationSystemVendor''),
    (1606, ''NumOfSimpleInstruments''), (1607, ''SecurityRejectReason''), (1608, ''InitialDisplayQty''),
    (1609, ''ThrottleStatus''), (1610, ''NoThrottles''), (1611, ''ThrottleAction''),
    (1612, ''ThrottleType''), (1613, ''ThrottleNoMsgs''), (1614, ''ThrottleTimeInterval''),
    (1615, ''ThrottleTimeUnit''), (1616, ''InstrumentScopeSecurityExchange''), (1617, ''StreamAsgnType''),
    (1618, ''NoThrottleMsgType''), (1619, ''ThrottleMsgType''),
    (1620, ''InstrumentScopeEncodedSecurityDescLen''), (1621, ''InstrumentScopeEncodedSecurityDesc''),
    (1622, ''FillYieldType''), (1623, ''FillYield''), (1624, ''NoMatchInst''), (1625, ''MatchInst''),
    (1626, ''MatchAttribTagID''), (1627, ''MatchAttribValue''), (1628, ''TriggerScope''),
    (1629, ''ExposureDuration''), (1630, ''NoLimitAmts''), (1631, ''LimitAmtType''),
    (1632, ''LastLimitAmt''), (1633, ''LimitAmtRemaining''), (1634, ''LimitAmtCurrency''),
    (1635, ''MarginReqmtInqID''), (1636, ''NoMarginReqmtInqQualifier''), (1637, ''MarginReqmtInqQualifier''),
    (1638, ''MarginReqmtRptType''), (1639, ''MarginClass''), (1640, ''MarginReqmtInqStatus''),
    (1641, ''MarginReqmtInqResult''), (1642, ''MarginReqmtRptID''), (1643, ''NoMarginAmt''),
    (1644, ''MarginAmtType''), (1645, ''MarginAmt''), (1646, ''MarginAmtCcy''),
    (1647, ''NoRelatedInstruments''), (1648, ''RelatedInstrumentType''), (1649, ''RelatedSymbol''),
    (1650, ''RelatedSecurityID''), (1651, ''RelatedSecurityIDSource''), (1652, ''RelatedSecurityType''),
    (1653, ''RelatedMaturityMonthYear''), (1654, ''CoveredQty''), (1655, ''MarketMakerActivity''),
    (1656, ''NoInstrumentScopes''), (1657, ''NoRequestingPartyIDs''), (1658, ''RequestingPartyID''),
    (1659, ''RequestingPartyIDSource''), (1660, ''RequestingPartyRole''),
    (1661, ''NoRequestingPartySubIDs''), (1662, ''RequestingPartySubID''),
    (1663, ''RequestingPartySubIDType''), (1664, ''EncodedRejectTextLen''), (1665, ''EncodedRejectText''),
    (1666, ''RiskLimitRequestID''), (1667, ''RiskLimitReportID''), (1668, ''NoRequestedRiskLimitType''),
    (1669, ''NoRiskLimits''), (1670, ''RiskLimitID''), (1671, ''NoPartyDetails''),
    (1672, ''PartyDetailStatus''), (1673, ''MatchInstMarketID''), (1674, ''PartyDetailRoleQualifier''),
    (1675, ''RelatedPartyDetailRoleQualifier''), (1676, ''NoPartyUpdates''), (1677, ''NoPartyRiskLimits''),
    (1678, ''EncodedOptionExpirationDescLen''), (1679, ''SecurityMassTradingStatus''),
    (1680, ''SecurityMassTradingEvent''), (1681, ''MassHaltReason''), (1682, ''MDSecurityTradingStatus''),
    (1683, ''MDSubFeedType''), (1684, ''MDHaltReason''), (1685, ''ThrottleInst''),
    (1686, ''ThrottleCountIndicator''), (1687, ''ShortSaleRestriction''),
    (1688, ''ShortSaleExemptionReason''), (1689, ''LegShortSaleExemptionReason''),
    (1690, ''SideShortSaleExemptionReason''), (1691, ''PartyDetailID''), (1692, ''PartyDetailIDSource''),
    (1693, ''PartyDetailRole''), (1694, ''NoPartyDetailSubIDs''), (1695, ''PartyDetailSubID''),
    (1696, ''PartyDetailSubIDType''), (1697, ''EncodedOptionExpirationDesc''),
    (1698, ''StrikeUnitOfMeasure''), (1699, ''AccountSummaryReportID''), (1700, ''NoSettlementAmounts''),
    (1701, ''SettlementAmount'')]"

definition field_names_12 :: "(int \<times> string) list" where
  "field_names_12 = [
    (1702, ''SettlementAmountCurrency''), (1703, ''NoCollateralAmounts''),
    (1704, ''CurrentCollateralAmount''), (1705, ''CollateralCurrency''), (1706, ''CollateralType''),
    (1707, ''NoPayCollects''), (1708, ''PayCollectType''), (1709, ''PayCollectCurrency''),
    (1710, ''PayAmount''), (1711, ''CollectAmount''), (1712, ''PayCollectMarketSegmentID''),
    (1713, ''PayCollectMarketID''), (1714, ''MarginAmountMarketSegmentID''),
    (1715, ''MarginAmountMarketID''), (1716, ''UnitOfMeasureCurrency''),
    (1717, ''PriceUnitOfMeasureCurrency''), (1718, ''UnderlyingUnitOfMeasureCurrency''),
    (1719, ''UnderlyingPriceUnitOfMeasureCurrency''), (1720, ''LegUnitOfMeasureCurrency''),
    (1721, ''LegPriceUnitOfMeasureCurrency''), (1722, ''DerivativeUnitOfMeasureCurrency''),
    (1723, ''DerivativePriceUnitOfMeasureCurrency''), (1724, ''OrderOrigination''),
    (1725, ''OriginatingDeptID''), (1726, ''ReceivingDeptID''), (1727, ''InformationBarrierID''),
    (1728, ''FirmGroupID''), (1729, ''FirmMnemonic''), (1730, ''AllocGroupID''), (1731, ''AvgPxGroupID''),
    (1732, ''FirmAllocText''), (1733, ''EncodedFirmAllocTextLen''), (1734, ''EncodedFirmAllocText''),
    (1735, ''AllocationRollupInstruction''), (1736, ''AllocGroupQuantity''),
    (1737, ''AllocGroupRemainingQuantity''), (1738, ''AllocReversalStatus''), (1739, ''ObligationType''),
    (1740, ''TradePriceNegotiationMethod''), (1741, ''UpfrontPriceType''), (1742, ''UpfrontPrice''),
    (1743, ''LastUpfrontPrice''), (1744, ''ApplLevelRecoveryIndicator''), (1745, ''BidMDEntryID''),
    (1746, ''OfferMDEntryID''), (1747, ''BidQuoteID''), (1748, ''OfferQuoteID''), (1749, ''TotalBidSize''),
    (1750, ''TotalOfferSize''), (1751, ''SecondaryQuoteID''), (1752, ''CustodialLotID''),
    (1753, ''VersusPurchaseDate''), (1754, ''VersusPurchasePrice''), (1755, ''CurrentCostBasis''),
    (1756, ''LegCustodialLotID''), (1757, ''LegVersusPurchaseDate''), (1758, ''LegVersusPurchasePrice''),
    (1759, ''LegCurrentCostBasis''), (1760, ''RiskLimitRequestType''), (1761, ''RiskLimitRequestResult''),
    (1762, ''RiskLimitRequestStatus''), (1763, ''RiskLimitStatus''), (1764, ''RiskLimitResult''),
    (1765, ''RiskLimitUtilizationPercent''), (1766, ''RiskLimitUtilizationAmount''),
    (1767, ''RiskLimitAction''), (1768, ''RiskWarningLevelAmount''), (1769, ''RiskWarningLevelAction''),
    (1770, ''EntitlementRequestID''), (1771, ''EntitlementReportID''), (1772, ''NoPartyEntitlements''),
    (1773, ''NoEntitlements''), (1774, ''EntitlementIndicator''), (1775, ''EntitlementType''),
    (1776, ''EntitlementID''), (1777, ''NoEntitlementAttrib''), (1778, ''EntitlementAttribType''),
    (1779, ''EntitlementAttribDatatype''), (1780, ''EntitlementAttribValue''),
    (1781, ''EntitlementAttribCurrency''), (1782, ''EntitlementStartDate''), (1783, ''EntitlementEndDate''),
    (1784, ''EntitlementPlatform''), (1785, ''TradSesControl''), (1786, ''TradeVolType''),
    (1787, ''RefTickTableID''), (1788, ''LegID''), (1789, ''NoTargetMarketSegments''),
    (1790, ''TargetMarketSegmentID''), (1791, ''NoAffectedMarketSegments''),
    (1792, ''AffectedMarketSegmentID''), (1793, ''NoNotAffectedMarketSegments''),
    (1794, ''NotAffectedMarketSegmentID''), (1795, ''NoOrderEvents''), (1796, ''OrderEventType''),
    (1797, ''OrderEventExecID''), (1798, ''OrderEventReason''), (1799, ''OrderEventPx''),
    (1800, ''OrderEventQty''), (1801, ''OrderEventLiquidityIndicator''), (1802, ''OrderEventText''),
    (1803, ''AuctionType''), (1804, ''AuctionAllocationPct''), (1805, ''AuctionInstruction''),
    (1806, ''RefClOrdID''), (1807, ''LockType''), (1808, ''LockedQty''), (1809, ''SecondaryLockedQty''),
    (1810, ''ReleaseInstruction''), (1811, ''ReleaseQty''), (1812, ''NoDisclosureInstructions''),
    (1813, ''DisclosureType''), (1814, ''DisclosureInstruction''), (1815, ''TradingCapacity''),
    (1816, ''ClearingAccountType''), (1817, ''LegClearingAccountType''),
    (1818, ''TargetPartyRoleQualifier''), (1819, ''RelatedHighPrice''), (1820, ''RelatedLowPrice''),
    (1821, ''RelatedPriceSource''), (1822, ''MinQtyMethod''), (1823, ''Triggered''),
    (1824, ''AffectedOrigClOrdID''), (1825, ''NotAffSecondaryOrderID''), (1826, ''EventTimePeriod''),
    (1827, ''EventTimeUnit''), (1828, ''LastQtyVariance''), (1829, ''NoCrossLegs''),
    (1830, ''SettlPriceIncrement''), (1831, ''SettlPriceSecondaryIncrement''), (1832, ''ClearedIndicator''),
    (1833, ''ContractRefPosType''), (1834, ''PositionCapacity''), (1835, ''PosQtyUnitOfMeasureCurrency''),
    (1836, ''PosQtyUnitOfMeasure''), (1837, ''UnderlyingContractPriceRefMonth''),
    (1838, ''NoTradePriceConditions''), (1839, ''TradePriceCondition''), (1840, ''TradeAllocStatus''),
    (1841, ''NoTradeQtys''), (1842, ''TradeQtyType''), (1843, ''TradeQty''), (1844, ''NoTradeAllocAmts''),
    (1845, ''TradeAllocAmtType''), (1846, ''TradeAllocAmt''), (1847, ''TradeAllocCurrency''),
    (1848, ''TradeAllocGroupInstruction''), (1849, ''OffsetInstruction''), (1850, ''TradeAllocAmtReason''),
    (1851, ''StrategyLinkID'')]"

definition field_names_13 :: "(int \<times> string) list" where
  "field_names_13 = [
    (1852, ''SideAvgPx''), (1853, ''SideAvgPxIndicator''), (1854, ''SideAvgPxGroupID''),
    (1855, ''NoRelatedTrades''), (1856, ''RelatedTradeID''), (1857, ''RelatedTradeIDSource''),
    (1858, ''RelatedTradeDate''), (1859, ''RelatedTradeMarketID''), (1860, ''RelatedTradeQuantity''),
    (1861, ''NoRelatedPositions''), (1862, ''RelatedPositionID''), (1863, ''RelatedPositionIDSource''),
    (1864, ''RelatedPositionDate''), (1865, ''QuoteAckStatus''), (1866, ''StrikeIndex''),
    (1867, ''OfferID''), (1868, ''NoValueChecks''), (1869, ''ValueCheckType''), (1870, ''ValueCheckAction''),
    (1871, ''LegSecurityXMLLen''), (1872, ''LegSecurityXML''), (1873, ''LegSecurityXMLSchema''),
    (1874, ''UnderlyingSecurityXMLLen''), (1875, ''UnderlyingSecurityXML''),
    (1876, ''UnderlyingSecurityXMLSchema''), (1877, ''PartyDetailRequestResult''),
    (1878, ''PartyDetailRequestStatus''), (1879, ''PartyDetailDefinitionStatus''),
    (1880, ''PartyDetailDefinitionResult''), (1881, ''EntitlementRequestResult''),
    (1882, ''EntitlementRequestStatus''), (1883, ''EntitlementStatus''), (1884, ''EntitlementResult''),
    (1885, ''EntitlementRefID''), (1886, ''SettlPriceUnitOfMeasure''),
    (1887, ''SettlPriceUnitOfMeasureCurrency''), (1888, ''TradeMatchTimestamp''),
    (1889, ''NoInstrmtMatchSides''), (1890, ''NoTrdMatchSides''), (1891, ''TrdMatchSubID''),
    (1892, ''NoLegExecs''), (1893, ''LegExecID''), (1894, ''LegTradeID''), (1895, ''LegTradeReportID''),
    (1896, ''TradeMatchAckStatus''), (1897, ''TradeMatchRejectReason''), (1898, ''SideMarketSegmentID''),
    (1899, ''SideVenueType''), (1900, ''SideExecRefID''), (1901, ''LegExecRefID''),
    (1902, ''HaircutIndicator''), (1903, ''RegulatoryTradeID''), (1904, ''RegulatoryTradeIDEvent''),
    (1905, ''RegulatoryTradeIDSource''), (1906, ''RegulatoryTradeIDType''), (1907, ''NoRegulatoryTradeIDs''),
    (1908, ''NoAllocRegulatoryTradeIDs''), (1909, ''AllocRegulatoryTradeID''),
    (1910, ''AllocRegulatoryTradeIDSource''), (1911, ''AllocRegulatoryTradeIDEvent''),
    (1912, ''AllocRegulatoryTradeIDType''), (1913, ''NumOfCompetitors''), (1914, ''ResponseTime''),
    (1915, ''QuoteDisplayTime''), (1916, ''ExposureDurationUnit''), (1917, ''CoverPrice''),
    (1918, ''NoClearingAccountTypes''), (1919, ''NoPriceMovements''), (1920, ''NoPriceMovementValues''),
    (1921, ''PriceMovementValue''), (1922, ''PriceMovementPoint''), (1923, ''PriceMovementType''),
    (1924, ''ClearingIntention''), (1925, ''TradeClearingInstruction''),
    (1926, ''BackloadedTradeIndicator''), (1927, ''ConfirmationMethod''),
    (1928, ''MandatoryClearingIndicator''), (1929, ''MixedSwapIndicator''),
    (1930, ''OffMarketPriceIndicator''), (1931, ''VerificationMethod''),
    (1932, ''ClearingRequirementException''), (1933, ''IRSDirection''), (1934, ''RegulatoryReportType''),
    (1935, ''VoluntaryRegulatoryReport''), (1936, ''TradeCollateralization''), (1937, ''TradeContinuation''),
    (1938, ''AssetClass''), (1939, ''AssetSubClass''), (1940, ''AssetType''), (1941, ''SwapClass''),
    (1942, ''NthToDefault''), (1943, ''MthToDefault''), (1944, ''SettledEntityMatrixSource''),
    (1945, ''SettledEntityMatrixPublicationDate''), (1946, ''CouponType''), (1947, ''TotalIssuedAmount''),
    (1948, ''CouponFrequencyPeriod''), (1949, ''CouponFrequencyUnit''), (1950, ''CouponDayCount''),
    (1951, ''ConvertibleBondEquityID''), (1952, ''ConvertibleBondEquityIDSource''),
    (1953, ''ContractPriceRefMonth''), (1954, ''LienSeniority''), (1955, ''LoanFacility''),
    (1956, ''ReferenceEntityType''), (1957, ''IndexSeries''), (1958, ''IndexAnnexVersion''),
    (1959, ''IndexAnnexDate''), (1960, ''IndexAnnexSource''), (1961, ''AgreementVersion''),
    (1962, ''MasterConfirmationDesc''), (1963, ''MasterConfirmationDate''),
    (1964, ''MasterConfirmationAnnexDesc''), (1965, ''MasterConfirmationAnnexDate''),
    (1966, ''BrokerConfirmationDesc''), (1967, ''CreditSupportAgreementDesc''),
    (1968, ''CreditSupportAgreementDate''), (1969, ''CreditSupportAgreementID''), (1970, ''GoverningLaw''),
    (1971, ''NoSideRegulatoryTradeIDs''), (1972, ''SideRegulatoryTradeID''),
    (1973, ''SideRegulatoryTradeIDSource''), (1974, ''SideRegulatoryTradeIDEvent''),
    (1975, ''SideRegulatoryTradeIDType''), (1976, ''NoSecondaryAssetClasses''),
    (1977, ''SecondaryAssetClass''), (1978, ''SecondaryAssetSubClass''), (1979, ''SecondaryAssetType''),
    (1980, ''BlockTrdAllocIndicator''), (1981, ''NoUnderlyingEvents''), (1982, ''UnderlyingEventType''),
    (1983, ''UnderlyingEventDate''), (1984, ''UnderlyingEventTime''), (1985, ''UnderlyingEventTimeUnit''),
    (1986, ''UnderlyingEventTimePeriod''), (1987, ''UnderlyingEventPx''),
    (1988, ''UnderlyingConstituentWeight''), (1989, ''UnderlyingCouponType''),
    (1990, ''UnderlyingTotalIssuedAmount''), (1991, ''UnderlyingCouponFrequencyPeriod''),
    (1992, ''UnderlyingCouponFrequencyUnit''), (1993, ''UnderlyingCouponDayCount''),
    (1994, ''UnderlyingObligationID''), (1995, ''UnderlyingObligationIDSource''),
    (1996, ''UnderlyingEquityID''), (1997, ''UnderlyingEquityIDSource''),
    (1998, ''UnderlyingLienSeniority''), (1999, ''UnderlyingLoanFacility''),
    (2000, ''UnderlyingReferenceEntityType''), (2001, ''StrikeIndexSpread'')]"

definition field_names_14 :: "(int \<times> string) list" where
  "field_names_14 = [
    (2002, ''ValuationSource''), (2003, ''UnderlyingIndexSeries''), (2004, ''UnderlyingIndexAnnexVersion''),
    (2005, ''UnderlyingIndexAnnexDate''), (2006, ''UnderlyingIndexAnnexSource''),
    (2007, ''UnderlyingProductComplex''), (2008, ''UnderlyingSecurityGroup''),
    (2009, ''UnderlyingSettleOnOpenFlag''), (2010, ''UnderlyingAssignmentMethod''),
    (2011, ''UnderlyingSecurityStatus''), (2012, ''UnderlyingObligationType''),
    (2013, ''UnderlyingAssetClass''), (2014, ''UnderlyingAssetSubClass''), (2015, ''UnderlyingAssetType''),
    (2016, ''UnderlyingSwapClass''), (2017, ''UnderlyingNthToDefault''), (2018, ''UnderlyingMthToDefault''),
    (2019, ''UnderlyingSettledEntityMatrixSource''),
    (2020, ''UnderlyingSettledEntityMatrixPublicationDate''), (2021, ''UnderlyingStrikeMultiplier''),
    (2022, ''UnderlyingStrikeValue''), (2023, ''UnderlyingStrikePriceDeterminationMethod''),
    (2024, ''UnderlyingStrikePriceBoundaryMethod''), (2025, ''UnderlyingStrikePriceBoundaryPrecision''),
    (2026, ''UnderlyingMinPriceIncrement''), (2027, ''UnderlyingMinPriceIncrementAmount''),
    (2028, ''UnderlyingOptPayoutType''), (2029, ''UnderlyingOptPayoutAmount''),
    (2030, ''UnderlyingPriceQuoteMethod''), (2031, ''UnderlyingValuationMethod''),
    (2032, ''UnderlyingListMethod''), (2033, ''UnderlyingCapPrice''), (2034, ''UnderlyingFloorPrice''),
    (2035, ''UnderlyingFlexibleIndicator''), (2036, ''UnderlyingFlexProductEligibilityIndicator''),
    (2037, ''UnderlyingPositionLimit''), (2038, ''UnderlyingNTPositionLimit''), (2039, ''UnderlyingPool''),
    (2040, ''UnderlyingContractSettlMonth''), (2041, ''UnderlyingDatedDate''),
    (2042, ''UnderlyingInterestAccrualDate''), (2043, ''UnderlyingShortSaleRestriction''),
    (2044, ''UnderlyingRefTickTableID''), (2045, ''NoUnderlyingComplexEvents''),
    (2046, ''UnderlyingComplexEventType''), (2047, ''UnderlyingComplexOptPayoutAmount''),
    (2048, ''UnderlyingComplexEventPrice''), (2049, ''UnderlyingComplexEventPriceBoundaryMethod''),
    (2050, ''UnderlyingComplexEventPriceBoundaryPrecision''),
    (2051, ''UnderlyingComplexEventPriceTimeType''), (2052, ''UnderlyingComplexEventCondition''),
    (2053, ''NoUnderlyingComplexEventDates''), (2054, ''UnderlyingComplexEventStartDate''),
    (2055, ''UnderlyingComplexEventEndDate''), (2056, ''NoUnderlyingComplexEventTimes''),
    (2057, ''UnderlyingComplexEventStartTime''), (2058, ''UnderlyingComplexEventEndTime''),
    (2059, ''NoLegEvents''), (2060, ''LegEventType''), (2061, ''LegEventDate''), (2062, ''LegEventTime''),
    (2063, ''LegEventTimeUnit''), (2064, ''LegEventTimePeriod''), (2065, ''LegEventPx''),
    (2066, ''LegEventText''), (2067, ''LegAssetClass''), (2068, ''LegAssetSubClass''),
    (2069, ''LegAssetType''), (2070, ''LegSwapClass''), (2071, ''UnderlyingEventText''),
    (2072, ''EncodedUnderlyingEventTextLen''), (2073, ''EncodedUnderlyingEventText''),
    (2074, ''EncodedLegEventTextLen''), (2075, ''EncodedLegEventText''),
    (2076, ''NoLegSecondaryAssetClasses''), (2077, ''LegSecondaryAssetClass''),
    (2078, ''LegSecondaryAssetSubClass''), (2079, ''LegSecondaryAssetType''),
    (2080, ''NoUnderlyingSecondaryAssetClasses''), (2081, ''UnderlyingSecondaryAssetClass''),
    (2082, ''UnderlyingSecondaryAssetSubClass''), (2083, ''UnderlyingSecondaryAssetType''),
    (2084, ''PreviousClearingBusinessDate''), (2085, ''ValuationDate''), (2086, ''ValuationTime''),
    (2087, ''ValuationBusinessCenter''), (2088, ''MarginAmtFXRate''), (2089, ''MarginAmtFXRateCalc''),
    (2090, ''CollateralFXRate''), (2091, ''CollateralFXRateCalc''),
    (2092, ''CollateralAmountMarketSegmentID''), (2093, ''CollateralAmountMarketID''),
    (2094, ''PayCollectFXRate''), (2095, ''PayCollectFXRateCalc''), (2096, ''PosAmtStreamDesc''),
    (2097, ''PositionFXRate''), (2098, ''PositionFXRateCalc''), (2099, ''PosAmtMarketSegmentID''),
    (2100, ''PosAmtMarketID''), (2101, ''TerminatedIndicator''), (2102, ''ShortMarkingExemptIndicator''),
    (2103, ''RelatedRegulatoryTradeIDSource''), (2104, ''NoAttachments''), (2105, ''AttachmentName''),
    (2106, ''AttachmentMediaType''), (2107, ''AttachmentClassification''), (2108, ''AttachmentExternalURL''),
    (2109, ''AttachmentEncodingType''), (2110, ''UnencodedAttachmentLen''), (2111, ''EncodedAttachmentLen''),
    (2112, ''EncodedAttachment''), (2113, ''NoAttachmentKeywords''), (2114, ''AttachmentKeyword''),
    (2115, ''NegotiationMethod''), (2116, ''NextAuctionTime''), (2117, ''ComplexOptPayoutPaySide''),
    (2118, ''ComplexOptPayoutReceiveSide''), (2119, ''ComplexOptPayoutUnderlier''),
    (2120, ''ComplexOptPayoutPercentage''), (2121, ''ComplexOptPayoutTime''),
    (2122, ''ComplexOptPayoutCurrency''), (2123, ''ComplexEventPricePercentage''),
    (2124, ''ComplexEventCurrencyOne''), (2125, ''ComplexEventCurrencyTwo''),
    (2126, ''ComplexEventQuoteBasis''), (2127, ''ComplexEventFixedFXRate''),
    (2128, ''ComplexEventDeterminationMethod''), (2129, ''ComplexEventCalculationAgent''),
    (2130, ''ComplexEventStrikePrice''), (2131, ''ComplexEventStrikeFactor''),
    (2132, ''ComplexEventStrikeNumberOfOptions''), (2133, ''ComplexEventCreditEventsXIDRef''),
    (2134, ''ComplexEventCreditEventNotifyingParty''), (2135, ''ComplexEventCreditEventBusinessCenter''),
    (2136, ''ComplexEventCreditEventStandardSources''), (2137, ''ComplexEventCreditEventMinimumSources''),
    (2138, ''ComplexEventXID''), (2139, ''ComplexEventXIDRef''), (2140, ''ValuationReferenceModel''),
    (2141, ''StrategyType''), (2142, ''CommonPricingIndicator''), (2143, ''SettlDisruptionProvision''),
    (2144, ''InstrumentRoundingDirection''), (2145, ''InstrumentRoundingPrecision''),
    (2146, ''LegSettleOnOpenFlag''), (2147, ''LegInstrmtAssignmentMethod''), (2148, ''LegSecurityStatus''),
    (2149, ''LegRestructuringType''), (2150, ''LegSeniority''),
    (2151, ''LegNotionalPercentageOutstanding'')]"

definition field_names_15 :: "(int \<times> string) list" where
  "field_names_15 = [
    (2152, ''LegOriginalNotionalPercentageOutstanding''), (2153, ''LegAttachmentPoint''),
    (2154, ''LegDetachmentPoint''), (2155, ''LegObligationType''), (2156, ''LegSwapSubClass''),
    (2157, ''LegNthToDefault''), (2158, ''LegMthToDefault''), (2159, ''LegSettledEntityMatrixSource''),
    (2160, ''LegSettledEntityMatrixPublicationDate''), (2161, ''LegCouponType''),
    (2162, ''LegTotalIssuedAmount''), (2163, ''LegCouponFrequencyPeriod''),
    (2164, ''LegCouponFrequencyUnit''), (2165, ''LegCouponDayCount''),
    (2166, ''LegConvertibleBondEquityID''), (2167, ''LegConvertibleBondEquityIDSource''),
    (2168, ''LegContractPriceRefMonth''), (2169, ''LegLienSeniority''), (2170, ''LegLoanFacility''),
    (2171, ''LegReferenceEntityType''), (2172, ''LegIndexSeries''), (2173, ''LegIndexAnnexVersion''),
    (2174, ''LegIndexAnnexDate''), (2175, ''LegIndexAnnexSource''), (2176, ''LegSettlRateIndex''),
    (2177, ''LegSettlRateIndexLocation''), (2178, ''LegOptionExpirationDesc''),
    (2179, ''EncodedLegOptionExpirationDescLen''), (2180, ''EncodedLegOptionExpirationDesc''),
    (2181, ''LegStrikeMultiplier''), (2182, ''LegStrikeValue''), (2183, ''LegStrikeUnitOfMeasure''),
    (2184, ''LegStrikeIndex''), (2185, ''LegStrikeIndexSpread''),
    (2186, ''LegStrikePriceDeterminationMethod''), (2187, ''LegStrikePriceBoundaryMethod''),
    (2188, ''LegStrikePriceBoundaryPrecision''), (2189, ''LegUnderlyingPriceDeterminationMethod''),
    (2190, ''LegMinPriceIncrement''), (2191, ''LegMinPriceIncrementAmount''), (2192, ''LegSettlMethod''),
    (2193, ''LegOptPayoutType''), (2194, ''LegOptPayoutAmount''), (2195, ''LegPriceQuoteMethod''),
    (2196, ''LegValuationMethod''), (2197, ''LegValuationSource''), (2198, ''LegValuationReferenceModel''),
    (2199, ''LegListMethod''), (2200, ''LegCapPrice''), (2201, ''LegFloorPrice''),
    (2202, ''LegFlexibleIndicator''), (2203, ''LegFlexProductEligibilityIndicator''),
    (2204, ''LegComplexEventStartTime''), (2205, ''LegPositionLimit''), (2206, ''LegNTPositionLimit''),
    (2207, ''LegCPProgram''), (2208, ''LegCPRegType''), (2209, ''LegShortSaleRestriction''),
    (2210, ''AssetGroup''), (2211, ''LegStrategyType''), (2212, ''LegCommonPricingIndicator''),
    (2213, ''LegSettlDisruptionProvision''), (2214, ''LegInstrumentRoundingDirection''),
    (2215, ''LegInstrumentRoundingPrecision''), (2216, ''MiscFeeRate''), (2217, ''MiscFeeAmountDue''),
    (2218, ''NoLegComplexEvents''), (2219, ''LegComplexEventType''), (2220, ''LegComplexOptPayoutPaySide''),
    (2221, ''LegComplexOptPayoutReceiveSide''), (2222, ''LegComplexOptPayoutUnderlier''),
    (2223, ''LegComplexOptPayoutAmount''), (2224, ''LegComplexOptPayoutPercentage''),
    (2225, ''LegComplexOptPayoutTime''), (2226, ''LegComplexOptPayoutCurrency''),
    (2227, ''LegComplexEventPrice''), (2228, ''LegComplexEventPricePercentage''),
    (2229, ''LegComplexEventPriceBoundaryMethod''), (2230, ''LegComplexEventPriceBoundaryPrecision''),
    (2231, ''LegComplexEventPriceTimeType''), (2232, ''LegComplexEventCondition''),
    (2233, ''LegComplexEventCurrencyOne''), (2234, ''LegComplexEventCurrencyTwo''),
    (2235, ''LegComplexEventQuoteBasis''), (2236, ''LegComplexEventFixedFXRate''),
    (2237, ''LegComplexEventDeterminationMethod''), (2238, ''LegComplexEventCalculationAgent''),
    (2239, ''LegComplexEventStrikePrice''), (2240, ''LegComplexEventStrikeFactor''),
    (2241, ''LegComplexEventStrikeNumberOfOptions''), (2242, ''LegComplexEventCreditEventsXIDRef''),
    (2243, ''LegComplexEventCreditEventNotifyingParty''),
    (2244, ''LegComplexEventCreditEventBusinessCenter''),
    (2245, ''LegComplexEventCreditEventStandardSources''),
    (2246, ''LegComplexEventCreditEventMinimumSources''), (2247, ''LegComplexEventEndTime''),
    (2248, ''LegComplexEventXID''), (2249, ''LegComplexEventXIDRef''), (2250, ''NoLegComplexEventDates''),
    (2251, ''LegComplexEventStartDate''), (2252, ''LegComplexEventEndDate''),
    (2253, ''NoLegComplexEventTimes''), (2254, ''NoLegInstrumentParties''), (2255, ''LegInstrumentPartyID''),
    (2256, ''LegInstrumentPartyIDSource''), (2257, ''LegInstrumentPartyRole''),
    (2258, ''NoLegInstrumentPartySubIDs''), (2259, ''LegInstrumentPartySubID''),
    (2260, ''LegInstrumentPartySubIDType''), (2261, ''UnderlyingComplexOptPayoutPaySide''),
    (2262, ''UnderlyingComplexOptPayoutReceiveSide''), (2263, ''UnderlyingComplexOptPayoutUnderlier''),
    (2264, ''UnderlyingComplexOptPayoutPercentage''), (2265, ''UnderlyingComplexOptPayoutTime''),
    (2266, ''UnderlyingComplexOptPayoutCurrency''), (2267, ''UnderlyingComplexEventPricePercentage''),
    (2268, ''UnderlyingComplexEventCurrencyOne''), (2269, ''UnderlyingComplexEventCurrencyTwo''),
    (2270, ''UnderlyingComplexEventQuoteBasis''), (2271, ''UnderlyingComplexEventFixedFXRate''),
    (2272, ''UnderlyingComplexEventDeterminationMethod''),
    (2273, ''UnderlyingComplexEventCalculationAgent''), (2274, ''UnderlyingComplexEventStrikePrice''),
    (2275, ''UnderlyingComplexEventStrikeFactor''), (2276, ''UnderlyingComplexEventStrikeNumberOfOptions''),
    (2277, ''UnderlyingComplexEventCreditEventsXIDRef''),
    (2278, ''UnderlyingComplexEventCreditEventNotifyingParty''),
    (2279, ''UnderlyingComplexEventCreditEventBusinessCenter''),
    (2280, ''UnderlyingComplexEventCreditEventStandardSources''),
    (2281, ''UnderlyingComplexEventCreditEventMinimumSources''), (2282, ''UnderlyingComplexEventXID''),
    (2283, ''UnderlyingComplexEventXIDRef''), (2284, ''UnderlyingSettlRateIndex''),
    (2285, ''UnderlyingSettlRateIndexLocation''), (2286, ''UnderlyingOptionExpirationDesc''),
    (2287, ''EncodedUnderlyingOptionExpirationDescLen''), (2288, ''EncodedUnderlyingOptionExpirationDesc''),
    (2289, ''UnderlyingSwapSubClass''), (2290, ''UnderlyingStrikeUnitOfMeasure''),
    (2291, ''UnderlyingStrikeIndex''), (2292, ''UnderlyingStrikeIndexSpread''),
    (2293, ''UnderlyingValuationSource''), (2294, ''UnderlyingValuationReferenceModel''),
    (2295, ''UnderlyingStrategyType''), (2296, ''UnderlyingCommonPricingIndicator''),
    (2297, ''UnderlyingSettlDisruptionProvision''), (2298, ''UnderlyingInstrumentRoundingDirection''),
    (2299, ''UnderlyingInstrumentRoundingPrecision''), (2300, ''AllocGrossTradeAmt''),
    (2301, ''LastQtyChanged'')]"

definition field_names_16 :: "(int \<times> string) list" where
  "field_names_16 = [
    (2302, ''TradeVersion''), (2303, ''HistoricalReportIndicator''), (2304, ''NoAssetAttributes''),
    (2305, ''AssetAttributeType''), (2306, ''AssetAttributeValue''), (2307, ''AssetAttributeLimit''),
    (2308, ''NoLegAssetAttributes''), (2309, ''LegAssetAttributeType''), (2310, ''LegAssetAttributeValue''),
    (2311, ''LegAssetAttributeLimit''), (2312, ''NoUnderlyingAssetAttributes''),
    (2313, ''UnderlyingAssetAttributeType''), (2314, ''UnderlyingAssetAttributeValue''),
    (2315, ''UnderlyingAssetAttributeLimit''), (2316, ''RiskLimitReportStatus''),
    (2317, ''RiskLimitReportRejectReason''), (2318, ''RiskLimitCheckRequestID''),
    (2319, ''RiskLimitCheckID''), (2320, ''RiskLimitCheckTransType''), (2321, ''RiskLimitCheckType''),
    (2322, ''RiskLimitCheckRequestRefID''), (2323, ''RiskLimitCheckRequestType''),
    (2324, ''RiskLimitCheckAmount''), (2325, ''RiskLimitCheckRequestStatus''),
    (2326, ''RiskLimitCheckRequestResult''), (2327, ''RiskLimitApprovedAmount''),
    (2328, ''PartyActionRequestID''), (2329, ''PartyActionType''), (2330, ''ApplTestMessageIndicator''),
    (2331, ''PartyActionReportID''), (2332, ''PartyActionResponse''), (2333, ''PartyActionRejectReason''),
    (2334, ''RefRiskLimitCheckID''), (2335, ''RefRiskLimitCheckIDType''),
    (2336, ''RiskLimitVelocityPeriod''), (2337, ''RiskLimitVelocityUnit''),
    (2338, ''RequestingPartyRoleQualifier''), (2339, ''RiskLimitCheckModelType''),
    (2340, ''EventMonthYear''), (2341, ''LegEventMonthYear''), (2342, ''UnderlyingEventMonthYear''),
    (2343, ''RiskLimitCheckStatus''), (2344, ''SideRiskLimitCheckStatus''), (2345, ''NoEntitlementTypes''),
    (2346, ''LegMidPx''), (2347, ''RegulatoryTransactionType''), (2348, ''LegAssetGroup''),
    (2349, ''PricePrecision''), (2350, ''CollateralPortfolioID''), (2351, ''EncodedComplianceTextLen''),
    (2352, ''EncodedComplianceText''), (2353, ''TradingUnitPeriodMultiplier''),
    (2354, ''LegTradingUnitPeriodMultiplier''), (2355, ''PartyRiskLimitStatus''),
    (2356, ''RemunerationIndicator''), (2357, ''LegTotalTradeQty''), (2358, ''LegLastMultipliedQty''),
    (2359, ''LegTotalGrossTradeAmt''), (2360, ''LegTotalTradeMultipliedQty''),
    (2361, ''CompressionGroupID''), (2362, ''SelfMatchPreventionID''),
    (2363, ''UnderlyingTradingUnitPeriodMultiplier''), (2364, ''PosReportAction''),
    (2365, ''SettlForwardPoints''), (2366, ''SettlPriceFxRateCalc''), (2367, ''TotalTradeQty''),
    (2368, ''LastMultipliedQty''), (2369, ''TotalGrossTradeAmt''), (2370, ''TotalTradeMultipliedQty''),
    (2371, ''EncodedTradeContinuationText''), (2372, ''EncodedTradeContinuationTextLen''),
    (2373, ''IntraFirmTradeIndicator''), (2374, ''TradeContinuationText''), (2375, ''TaxonomyType''),
    (2376, ''PartyRoleQualifier''), (2377, ''DerivativeInstrumentPartyRoleQualifier''),
    (2378, ''InstrumentPartyRoleQualifier''), (2379, ''LegInstrumentPartyRoleQualifier''),
    (2380, ''LegProvisionPartyRoleQualifier''), (2381, ''Nested2PartyRoleQualifier''),
    (2382, ''Nested3PartyRoleQualifier''), (2383, ''Nested4PartyRoleQualifier''),
    (2384, ''NestedPartyRoleQualifier''), (2385, ''ProvisionPartyRoleQualifier''),
    (2386, ''RequestedPartyRoleQualifier''), (2387, ''TradeContingency''),
    (2388, ''RootPartyRoleQualifier''), (2389, ''SettlPartyRoleQualifier''),
    (2390, ''TradeConfirmationReferenceID''), (2391, ''UnderlyingInstrumentPartyRoleQualifier''),
    (2392, ''AllocRefRiskLimitCheckID''), (2393, ''AllocRefRiskLimitCheckIDType''),
    (2394, ''LimitUtilizationAmt''), (2395, ''LimitAmt''), (2396, ''LimitRole''),
    (2397, ''RegulatoryTradeIDScope''), (2398, ''SideRegulatoryTradeIDScope''),
    (2399, ''AllocRegulatoryTradeIDScope''), (2400, ''EffectiveBusinessDate''),
    (2401, ''ListManualOrderIndicator''), (2402, ''EntitlementSubType''), (2403, ''QuoteModelType''),
    (2404, ''ComplianceText''), (2405, ''ExecMethod''), (2406, ''AllocRegulatoryLegRefID''),
    (2407, ''ComplexEventSpotRate''), (2408, ''ComplexEventForwardPoints''),
    (2409, ''LegComplexEventSpotRate''), (2410, ''LegComplexEventForwardPoints''),
    (2411, ''RegulatoryLegRefID''), (2412, ''RateSourceReferemcePageHeading''),
    (2413, ''RelatedToSecurityID''), (2414, ''RelatedToSecurityIDSource''),
    (2415, ''RelatedToStreamXIDRef''), (2416, ''SideRegulatoryLegRefID''),
    (2417, ''RelatedToDividendPeriodXIDRef''), (2418, ''FirmTradeEventID''),
    (2419, ''UnderlyingComplexEventSpotRate''), (2420, ''UnderlyingComplexEventForwardPoints''),
    (2421, ''FillRefID''), (2422, ''OrderRequestID''), (2423, ''MassOrderRequestID''),
    (2424, ''MassOrderReportID''), (2425, ''MassOrderRequestStatus''), (2426, ''MassOrderRequestResult''),
    (2427, ''OrderResponseLevel''), (2428, ''NoOrderEntries''), (2429, ''OrderEntryAction''),
    (2430, ''OrderEntryID''), (2431, ''ExecTypeReason''), (2432, ''TotNoOrderEntries''),
    (2433, ''NoTargetPartySubIDs''), (2434, ''TargetPartySubID''), (2435, ''TargetPartySubIDType''),
    (2436, ''TransferInstructionID''), (2437, ''TransferID''), (2438, ''TransferReportID''),
    (2439, ''TransferTransType''), (2440, ''TransferType''), (2441, ''TransferScope''),
    (2442, ''TransferStatus''), (2443, ''TransferRejectReason''), (2444, ''TransferReportType''),
    (2445, ''AggressorTime''), (2446, ''AggressorSide''), (2447, ''FastMarketIndicator''),
    (2448, ''LinkageHandlingIndicator''), (2449, ''NumberOfBuyOrders''), (2450, ''NumberOfSellOrders''),
    (2451, ''SettlPriceDeterminationMethod'')]"

definition field_names_17 :: "(int \<times> string) list" where
  "field_names_17 = [
    (2452, ''MDStatisticReqID''), (2453, ''MDStatisticRptID''), (2454, ''MDStatisticName''),
    (2455, ''MDStatisticDesc''), (2456, ''MDStatisticType''), (2457, ''MDStatisticScope''),
    (2458, ''MDStatisticSubScope''), (2459, ''MDStatisticScopeType''),
    (2460, ''MDStatisticFrequencyPeriod''), (2461, ''MDStatisticFrequencyUnit''),
    (2462, ''MDStatisticDelayPeriod''), (2463, ''MDStatisticDelayUnit''),
    (2464, ''MDStatisticIntervalType''), (2465, ''MDStatisticIntervalTypeUnit''),
    (2466, ''MDStatisticIntervalPeriod''), (2467, ''MDStatisticIntervalUnit''),
    (2468, ''MDStatisticStartDate''), (2469, ''MDStatisticEndDate''), (2470, ''MDStatisticStartTime''),
    (2471, ''MDStatisticEndTime''), (2472, ''MDStatisticRatioType''), (2473, ''MDStatisticRequestResult''),
    (2474, ''NoMDStatistics''), (2475, ''MDStatisticID''), (2476, ''MDStatisticTime''),
    (2477, ''MDStatisticStatus''), (2478, ''MDStatisticValue''), (2479, ''MDStatisticValueType''),
    (2480, ''MDStatisticValueUnit''), (2481, ''EncodedMDStatisticDescLen''),
    (2482, ''EncodedMDStatisticDesc''), (2483, ''AllocRiskLimitCheckStatus''), (2484, ''FirmTransactionID''),
    (2485, ''TransactionID''), (2486, ''WireReference''), (2487, ''CollRptRejectReason''),
    (2488, ''CollRptStatus''), (2489, ''PackageID''), (2490, ''TradeNumber''),
    (2491, ''UnderlyingAssetGroup''), (2492, ''LegDifferentialPrice''),
    (2493, ''EncodedLegDocumentationText''), (2494, ''EncodedLegDocumentationTextLen''),
    (2495, ''LegAgreementCurrency''), (2496, ''LegAgreementDate''), (2497, ''LegAgreementDesc''),
    (2498, ''LegAgreementID''), (2499, ''LegAgreementVersion''), (2500, ''LegBrokerConfirmationDesc''),
    (2501, ''LegCreditSupportAgreementDate''), (2502, ''LegCreditSupportAgreementDesc''),
    (2503, ''LegCreditSupportAgreementID''), (2504, ''LegDeliveryType''), (2505, ''LegDocumentationText''),
    (2506, ''LegEndDate''), (2507, ''LegGoverningLaw''), (2508, ''LegMarginRatio''),
    (2509, ''LegMasterConfirmationAnnexDate''), (2510, ''LegMasterConfirmationDate''),
    (2511, ''LegMasterConfirmationDesc''), (2512, ''LegMasterConfirmationAnnexDesc''),
    (2513, ''LegStartDate''), (2514, ''LegTerminationType''), (2515, ''AllocCalculatedCcyQty''),
    (2516, ''CollateralRequestInstruction''), (2517, ''CollateralRequestLinkID''),
    (2518, ''CollateralRequestNumber''), (2519, ''TotNumCollateralRequests''), (2520, ''WarningText''),
    (2521, ''EncodedWarningText''), (2522, ''EncodedWarningTextLen''), (2523, ''CrossedIndicator''),
    (2524, ''TradeReportingIndicator''), (2525, ''AffiliatedFirmsTradeIndicator''),
    (2526, ''InternationalSwapIndicator''), (2527, ''MultiAssetSwapIndicator''),
    (2528, ''ClearingSettlPrice''), (2529, ''NoRelativeValues''), (2530, ''RelativeValueType''),
    (2531, ''RelativeValue''), (2532, ''RelativeValueSide''), (2533, ''BidSpread''), (2534, ''OfferSpread''),
    (2535, ''MDReportEvent''), (2536, ''MDReportCount''), (2537, ''TotNoMarketSegmentReports''),
    (2538, ''TotNoInstrumentReports''), (2539, ''TotNoPartyDetailReports''),
    (2540, ''TotNoEntitlementReports''), (2541, ''TotNoRiskLimitReports''), (2542, ''MarketSegmentStatus''),
    (2543, ''MarketSegmentType''), (2544, ''MarketSegmentSubType''), (2545, ''NoRelatedMarketSegments''),
    (2546, ''RelatedMarketSegmentID''), (2547, ''MarketSegmentRelationship''),
    (2548, ''NoAuctionTypeRules''), (2549, ''AuctionTypeProductComplex''), (2550, ''NoPriceRangeRules''),
    (2551, ''StartPriceRange''), (2552, ''EndPriceRange''), (2553, ''PriceRangeValue''),
    (2554, ''PriceRangePercentage''), (2555, ''PriceRangeProductComplex''), (2556, ''PriceRangeRuleID''),
    (2557, ''FastMarketPercentage''), (2558, ''NoQuoteSizeRules''), (2559, ''QuoteSideIndicator''),
    (2560, ''NoFlexProductEligibilities''), (2561, ''FlexProductEligibilityComplex''),
    (2562, ''NumOfComplexInstruments''), (2563, ''MarketDepthTimeInterval''),
    (2564, ''MarketDepthTimeIntervalUnit''), (2565, ''MDRecoveryTimeInterval''),
    (2566, ''MDRecoveryTimeIntervalUnit''), (2567, ''PrimaryServiceLocationID''),
    (2568, ''SecondaryServiceLocationID''), (2569, ''MatchRuleProductComplex''),
    (2570, ''CustomerPriority''), (2571, ''TickRuleProductComplex''),
    (2572, ''PreviousAdjustedOpenInterest''), (2573, ''PreviousUnadjustedOpenInterest''),
    (2574, ''LowExercisePriceOptionIndicator''), (2575, ''BlockTradeEligibilityIndicator''),
    (2576, ''InstrumentPricePrecision''), (2577, ''StrikePricePrecision''), (2578, ''OrigStrikePrice''),
    (2579, ''SettlSubMethod''), (2580, ''NoClearingPriceParameters''), (2581, ''BusinessDayType''),
    (2582, ''ClearingPriceOffset''), (2583, ''VegaMultiplier''), (2584, ''AnnualTradingBusinessDays''),
    (2585, ''TotalTradingBusinessDays''), (2586, ''TradingBusinessDays''), (2587, ''RealizedVariance''),
    (2588, ''StandardVariance''), (2589, ''RelatedClosePrice''), (2590, ''OvernightInterestRate''),
    (2591, ''AccumulatedReturnModifiedVariationMargin''), (2592, ''CalculationMethod''),
    (2593, ''NoOrderAttributes''), (2594, ''OrderAttributeType''), (2595, ''OrderAttributeValue''),
    (2596, ''DeltaCrossed''), (2597, ''ComplexEventFuturesPriceValuation''),
    (2598, ''ComplexEventOptionsPriceValuation''), (2599, ''ComplexEventPVFinalPriceElectionFallback''),
    (2600, ''StrikeIndexCurvePoint''), (2601, ''StrikeIndexQuote'')]"

definition field_names_18 :: "(int \<times> string) list" where
  "field_names_18 = [
    (2602, ''ExtraordinaryEventAdjustmentMethod''), (2603, ''ExchangeLookAlike''),
    (2604, ''LegStrikeIndexCurvePoint''), (2605, ''LegStrikeIndexQuote''),
    (2606, ''LegExtraordinaryEventAdjustmentMethod''), (2607, ''LegExchangeLookAlike''),
    (2608, ''LegComplexEventFuturesPriceValuation''), (2609, ''LegComplexEventOptionsPriceValuation''),
    (2610, ''LegComplexEventPVFinalPriceElectionFallback''),
    (2611, ''UnderlyingComplexEventFuturesPriceValuation''),
    (2612, ''UnderlyingComplexEventOptionsPriceValuation''),
    (2613, ''UnderlyingComplexEventPVFinalPriceElectionFallback''), (2614, ''UnderlyingNotional''),
    (2615, ''UnderlyingNotionalCurrency''), (2616, ''UnderlyingNotionalDeterminationMethod''),
    (2617, ''UnderlyingNotionalAdjustments''), (2618, ''PositionID''), (2619, ''UnderlyingNotionalXIDRef''),
    (2620, ''UnderlyingFutureID''), (2621, ''UnderlyingFutureIDSource''),
    (2622, ''UnderlyingStrikeIndexCurvePoint''), (2623, ''UnderlyingStrikeIndexQuote''),
    (2624, ''UnderlyingExtraordinaryEventAdjustmentMethod''), (2625, ''UnderlyingExchangeLookAlike''),
    (2626, ''UnderlyingAverageVolumeLimitationPercentage''),
    (2627, ''UnderlyingAverageVolumeLimitationPeriodDays''),
    (2628, ''UnderlyingDepositoryReceiptIndicator''), (2629, ''UnderlyingOpenUnits''),
    (2630, ''UnderlyingBasketDivisor''), (2631, ''UnderlyingInstrumentXID''),
    (2632, ''CollateralAmountType''), (2633, ''NoMiscFeeSubTypes''), (2634, ''MiscFeeSubType''),
    (2635, ''MiscFeeSubTypeAmt''), (2636, ''MiscFeeSubTypeDesc''), (2637, ''EncodedMiscFeeSubTypeDescLen''),
    (2638, ''EncodedMiscFeeSubTypeDesc''), (2639, ''NoCommissions''), (2640, ''CommissionAmount''),
    (2641, ''CommissionAmountType''), (2642, ''CommissionBasis''), (2643, ''CommissionCurrency''),
    (2644, ''CommissionUnitOfMeasure''), (2645, ''CommissionUnitOfMeasureCurrency''),
    (2646, ''CommissionRate''), (2647, ''CommissionSharedIndicator''), (2648, ''CommissionAmountShared''),
    (2649, ''CommissionLegRefID''), (2650, ''CommissionDesc''), (2651, ''EncodedCommissionDescLen''),
    (2652, ''EncodedCommissionDesc''), (2653, ''NoAllocCommissions''), (2654, ''AllocCommissionAmount''),
    (2655, ''AllocCommissionAmountType''), (2656, ''AllocCommissionBasis''),
    (2657, ''AllocCommissionCurrency''), (2658, ''AllocCommissionUnitOfMeasure''),
    (2659, ''AllocCommissionUnitOfMeasureCurrency''), (2660, ''AllocCommissionRate''),
    (2661, ''AllocCommissionSharedIndicator''), (2662, ''AllocCommissionAmountShared''),
    (2663, ''AllocCommissionLegRefID''), (2664, ''AllocCommissionDesc''),
    (2665, ''EncodedAllocCommissionDescLen''), (2666, ''EncodedAllocCommissionDesc''),
    (2667, ''AlgorithmicTradeIndicator''), (2668, ''NoTrdRegPublications''),
    (2669, ''TrdRegPublicationType''), (2670, ''TrdRegPublicationReason''),
    (2671, ''SideTradeReportingIndicator''), (2672, ''CrossRequestID''), (2673, ''FillMatchID''),
    (2674, ''FillMatchSubID''), (2675, ''MassActionReason''), (2676, ''MaximumPriceDeviation''),
    (2677, ''NotAffectedReason''), (2678, ''TotalNotAffectedOrders''), (2679, ''OrderOwnershipIndicator''),
    (2680, ''LegAccount''), (2681, ''InTheMoneyCondition''), (2682, ''LegInTheMoneyCondition''),
    (2683, ''UnderlyingInTheMoneyCondition''), (2684, ''DerivativeInTheMoneyCondition''),
    (2685, ''ContraryInstructionEligibilityIndicator''),
    (2686, ''LegContraryInstructionEligibilityIndicator''),
    (2687, ''UnderlyingContraryInstructionEligibilityIndicator''),
    (2688, ''DerivativeContraryInstructionEligibilityIndicator''), (2689, ''CollateralMarketPrice''),
    (2690, ''CollateralPercentOverage''), (2691, ''NoSideCollateralAmounts''),
    (2692, ''SideCollateralAmountMarketID''), (2693, ''SideCollateralAmountMarketSegmentID''),
    (2694, ''SideCollateralAmountType''), (2695, ''SideCollateralCurrency''),
    (2696, ''SideCollateralFXRate''), (2697, ''SideCollateralFXRateCalc''),
    (2698, ''SideCollateralMarketPrice''), (2699, ''SideCollateralPercentOverage''),
    (2700, ''SideCollateralPortfolioID''), (2701, ''SideCollateralType''),
    (2702, ''SideCurrentCollateralAmount''), (2703, ''SideHaircutIndicator''), (2704, ''ExDestinationType''),
    (2705, ''MarketCondition''), (2706, ''NoQuoteAttributes''), (2707, ''QuoteAttributeType''),
    (2708, ''QuoteAttributeValue''), (2709, ''NoPriceQualifiers''), (2710, ''PriceQualifier''),
    (2711, ''MDValueTier''), (2712, ''MiscFeeQualifier''), (2713, ''MiscFeeDesc''),
    (2714, ''FinancialInstrumentFullName''), (2715, ''EncodedFinancialInstrumentFullNameLen''),
    (2716, ''EncodedFinancialInstrumentFullName''), (2717, ''LegFinancialInstrumentFullName''),
    (2718, ''EncodedLegFinancialInstrumentFullNameLen''), (2719, ''EncodedLegFinancialInstrumentFullName''),
    (2720, ''UnderlyingFinancialInstrumentFullName''),
    (2721, ''EncodedUnderlyingFinancialInstrumentFullNameLen''),
    (2722, ''EncodedUnderlyingFinancialInstrumentFullName''), (2723, ''UnderlyingIndexCurveUnit''),
    (2724, ''UnderlyingIndexCurvePeriod''), (2725, ''CommissionAmountSubType''),
    (2726, ''AllocCommissionAmountSubType''), (2727, ''AllocLegRefID''),
    (2728, ''FloatingRateIndexCurvePeriod''), (2729, ''FloatingRateIndexCurveSpread''),
    (2730, ''FloatingRateIndexCurveUnit''), (2731, ''FloatingRateIndexID''),
    (2732, ''FloatingRateIndexIDSource''), (2733, ''IndexRollMonth''), (2734, ''NoIndexRollMonths''),
    (2735, ''AssetSubType''), (2736, ''CommodityFinalPriceType''), (2737, ''FinancialInstrumentShortName''),
    (2738, ''NextIndexRollDate''), (2739, ''LegAssetSubType''), (2740, ''LegFinancialInstrumentShortName''),
    (2741, ''SecondaryAssetSubType''), (2742, ''UnderlyingFinancialInstrumentShortName''),
    (2743, ''LegSecondaryAssetSubType''), (2744, ''UnderlyingAssetSubType''),
    (2745, ''UnderlyingSecondaryAssetSubType''), (2746, ''NoReferenceDataDates''),
    (2747, ''ReferenceDataDate''), (2748, ''ReferenceDataDateType''), (2749, ''ExecutionTimestamp''),
    (2750, ''ReportingPx''), (2751, ''ReportingQty'')]"

definition field_names_19 :: "(int \<times> string) list" where
  "field_names_19 = [
    (2752, ''DeliveryRouteOrCharter''), (2753, ''ReturnTrigger''), (2754, ''LegDeliveryRouteOrCharter''),
    (2755, ''LegReturnTrigger''), (2756, ''UnderlyingDeliveryRouteOrCharter''),
    (2757, ''UnderlyingReturnTrigger''), (2758, ''AllocRequestID''), (2759, ''GroupAmount''),
    (2760, ''GroupRemainingAmount''), (2761, ''AllocGroupAmount''), (2762, ''PriceMarkup''),
    (2763, ''AveragePriceType''), (2764, ''AveragePriceStartTime''), (2765, ''AveragePriceEndTime''),
    (2766, ''OrderPercentOfTotalVolume''), (2767, ''AllocGroupStatus''), (2768, ''AllocRequestStatus''),
    (2769, ''AllocAvgPxIndicator''), (2770, ''AllocAvgPxGroupID''), (2771, ''PreviousAllocGroupID''),
    (2772, ''NoMatchExceptions''), (2773, ''MatchExceptionType''), (2774, ''MatchExceptionElementType''),
    (2775, ''MatchExceptionElementName''), (2776, ''MatchExceptionAllocValue''),
    (2777, ''MatchExceptionConfirmValue''), (2778, ''MatchExceptionToleranceValue''),
    (2779, ''MatchExceptionToleranceValueType''), (2780, ''MatchExceptionText''),
    (2781, ''NoMatchingDataPoints''), (2782, ''MatchingDataPointIndicator''),
    (2783, ''MatchingDataPointValue''), (2784, ''MatchingDataPointType''), (2785, ''MatchingDataPointName''),
    (2786, ''TradeAggregationRequestID''), (2787, ''TradeAggregationRequestRefID''),
    (2788, ''TradeAggregationTransType''), (2789, ''AggregatedQty''),
    (2790, ''TradeAggregationRequestStatus''), (2791, ''TradeAggregationRejectReason''),
    (2792, ''TradeAggregationReportID''), (2793, ''AvgSpotRate''), (2794, ''AvgForwardPoints''),
    (2795, ''OffshoreIndicator''), (2796, ''FXBenchmarkRateFix''), (2797, ''EncodedMatchExceptionTextLen''),
    (2798, ''EncodedMatchExceptionText''), (2799, ''PayReportID''), (2800, ''PayDisputeReason''),
    (2801, ''EncodedReplaceText''), (2802, ''EncodedReplaceTextLen''), (2803, ''PayReportRefID''),
    (2804, ''PayReportTransType''), (2805, ''ReplaceText''), (2806, ''PayReportStatus''),
    (2807, ''CancelText''), (2808, ''EncodedCancelText''), (2809, ''EncodedCancelTextLen''),
    (2810, ''PayRequestRefID''), (2811, ''PayRequestTransType''), (2812, ''PayRequestID''),
    (2813, ''PayRequestStatus''), (2814, ''EncodedPostTradePaymentDesc''),
    (2815, ''EncodedPostTradePaymentDescLen''), (2816, ''PostTradePaymentAccount''),
    (2817, ''PostTradePaymentAmount''), (2818, ''PostTradePaymentCurrency''),
    (2819, ''PostTradePaymentDebitOrCredit''), (2820, ''PostTradePaymentDesc''),
    (2821, ''PostTradePaymentID''), (2822, ''PostTradePaymentLinkID''), (2823, ''PostTradePaymentStatus''),
    (2824, ''PostTradePaymentType''), (2825, ''PostTradePaymentCalculationDate''),
    (2826, ''PostTradePaymentValueDate''), (2827, ''PostTradePaymentFinalValueDate''),
    (2828, ''CurrentDisplayPrice''), (2829, ''DuplicateClOrdIDIndicator''), (2830, ''EventInitiatorType''),
    (2831, ''NBBOEntryType''), (2832, ''NBBOPrice''), (2833, ''NBBOQty''), (2834, ''NBBOSource''),
    (2835, ''OrderOriginationFirmID''), (2836, ''RelatedOrderTime''), (2837, ''SingleQuoteIndicator''),
    (2838, ''CurrentWorkingPrice''), (2839, ''TrdRegTimestampManualIndicator''),
    (2840, ''CollateralReinvestmentRate''), (2841, ''UnderlyingRefID''),
    (2842, ''CollateralReinvestmentAmount''), (2843, ''CollateralReinvestmentCurrency''),
    (2844, ''CollateralReinvestmentType''), (2845, ''NoCollateralReinvestments''), (2846, ''FundingSource''),
    (2847, ''FundingSourceCurrency''), (2848, ''FundingSourceMarketValue''), (2849, ''NoFundingSources''),
    (2851, ''MarginDirection''), (2862, ''SideCollateralReinvestmentRate''), (2863, ''SideUnderlyingRefID''),
    (2864, ''NoSideCollateralReinvestments''), (2865, ''SideCollateralReinvestmentAmount''),
    (2866, ''SideCollateralReinvestmentCurrency''), (2867, ''SideCollateralReinvestmentType''),
    (2868, ''CollateralizationValueDate''), (2869, ''RegulatoryReportTypeBusinessDate''),
    (2870, ''ClearingPortfolioID''), (2871, ''NoTransactionAttributes''),
    (2872, ''TransactionAttributeType''), (2873, ''TransactionAttributeValue''), (2874, ''UnderlyingID''),
    (2876, ''PosAmtPrice''), (2877, ''PosAmtPriceType''), (2878, ''TerminationDate''),
    (2879, ''CouponOtherDayCount''), (2880, ''LegCouponOtherDayCount''),
    (2881, ''UnderlyingCouponOtherDayCount''), (2882, ''ContraOrderOrigination''),
    (2883, ''RoutingArrangmentIndicator''), (2884, ''ContraRoutingArrangmentIndicator''),
    (2885, ''UnderlyingAccruedInterestAmt''), (2886, ''UnderlyingNumDaysInterest''),
    (2887, ''RelatedOrderID''), (2888, ''RelatedOrderIDSource''), (2889, ''RelatedOrderQty''),
    (2890, ''OrderRelationship''), (2891, ''UPICode''), (2892, ''DerivativeUPICode''),
    (2893, ''LegUPICode''), (2894, ''UnderlyingUPICode''), (2895, ''InstrumentScopeUPICode''),
    (2896, ''TertiaryTrdType''), (2897, ''CurrencyCodeSource''), (2898, ''LegCurrencyCodeSource''),
    (2899, ''SettlCurrencyCodeSource''), (2900, ''LegSettlCurrencyCodeSource''),
    (2901, ''SideCurrencyCodeSource''), (2902, ''SideSettlCurrencyCodeSource''),
    (2903, ''SettlementAmountCurrencyCodeSource''), (2904, ''StrikeCurrencyCodeSource''),
    (2905, ''UnitOfMeasureCurrencyCodeSource''), (2906, ''PriceUnitOfMeasureCurrencyCodeSource''),
    (2907, ''PriceQuoteCurrencyCodeSource''), (2908, ''LegStrikeCurrencyCodeSource''),
    (2909, ''LegUnitOfMeasureCurrencyCodeSource''), (2910, ''LegPriceUnitOfMeasureCurrencyCodeSource''),
    (2911, ''LegPriceQuoteCurrencyCodeSource''), (2912, ''DerivativeStrikeCurrencyCodeSource''),
    (2913, ''DerivativeUnitOfMeasureCurrencyCodeSource'')]"

definition field_names_20 :: "(int \<times> string) list" where
  "field_names_20 = [
    (2914, ''DerivativePriceUnitOfMeasureCurrencyCodeSource''),
    (2915, ''DerivativePriceQuoteCurrencyCodeSource''), (2916, ''UnderlyingCurrencyCodeSource''),
    (2917, ''UnderlyingStrikeCurrencyCodeSource''), (2918, ''UnderlyingUnitOfMeasureCurrencyCodeSource''),
    (2919, ''UnderlyingPriceUnitOfMeasureCurrencyCodeSource''),
    (2920, ''UnderlyingPriceQuoteCurrencyCodeSource''), (2921, ''UnderlyingNotionalCurrencyCodeSource''),
    (2922, ''CommCurrencyCodeSource''), (2923, ''CommissionCurrencyCodeSource''),
    (2924, ''CommissionUnitOfMeasureCurrencyCodeSource''), (2925, ''AllocCommissionCurrencyCodeSource''),
    (2926, ''AllocCommissionUnitOfMeasureCurrencyCodeSource''), (2927, ''AllocSettlCurrencyCodeSource''),
    (2928, ''LegAllocSettlCurrencyCodeSource''), (2929, ''CollateralCurrencyCodeSource''),
    (2930, ''SideCollateralCurrencyCodeSource''), (2931, ''CollateralReinvestmentCurrencyCodeSource''),
    (2932, ''SideCollateralReinvestmentCurrencyCodeSource''), (2933, ''TradeAllocCurrencyCodeSource''),
    (2934, ''TradingCurrencyCodeSource''), (2935, ''LimitAmtCurrencyCodeSource''),
    (2936, ''PosQtyUnitOfMeasureCurrencyCodeSource''), (2937, ''PositionCurrencyCodeSource''),
    (2938, ''LegPosCurrencyCodeSource''), (2939, ''RiskLimitCurrencyCodeSource''),
    (2940, ''EntitlementAttribCurrencyCodeSource''), (2941, ''ComplexOptPayoutCurrencyCodeSource''),
    (2942, ''ComplexEventCurrencyOneCodeSource''), (2943, ''ComplexEventCurrencyTwoCodeSource''),
    (2944, ''LegComplexOptPayoutCurrencyCodeSource''), (2945, ''LegComplexEventCurrencyOneCodeSource''),
    (2946, ''LegComplexEventCurrencyTwoCodeSource''),
    (2947, ''UnderlyingComplexOptPayoutCurrencyCodeSource''),
    (2948, ''UnderlyingComplexEventCurrencyOneCodeSource''),
    (2949, ''UnderlyingComplexEventCurrencyTwoCodeSource''), (2950, ''BenchmarkCurveCurrencyCodeSource''),
    (2951, ''LegBenchmarkCurveCurrencyCodeSource''), (2952, ''AgreementCurrencyCodeSource''),
    (2953, ''LegAgreementCurrencyCodeSource''), (2954, ''FundingSourceCurrencyCodeSource''),
    (2955, ''PayCollectCurrencyCodeSource''), (2956, ''PostTradePaymentCurrencyCodeSource''),
    (2957, ''SymbolPositionNumber''), (2958, ''LegSymbolPositionNumber''),
    (2959, ''UnderlyingSymbolPositionNumber''), (2960, ''SettlPriceUnitOfMeasureCurrencyCodeSource''),
    (2961, ''AnonymousTradeIndicator''), (2962, ''SecurityReferenceDataSupplement''),
    (2963, ''MultiJurisdictionReportingIndicator''), (2964, ''SelfMatchPreventionInstruction''),
    (40000, ''NoAdditionalTermBondRefs''), (40001, ''AdditionalTermBondSecurityID''),
    (40002, ''AdditionalTermBondSecurityIDSource''), (40003, ''AdditionalTermBondDesc''),
    (40004, ''EncodedAdditionalTermBondDescLen''), (40005, ''EncodedAdditionalTermBondDesc''),
    (40006, ''AdditionalTermBondCurrency''), (40007, ''AdditionalTermBondIssuer''),
    (40008, ''EncodedAdditionalTermBondIssuerLen''), (40009, ''EncodedAdditionalTermBondIssuer''),
    (40010, ''AdditionalTermBondSeniority''), (40011, ''AdditionalTermBondCouponType''),
    (40012, ''AdditionalTermBondCouponRate''), (40013, ''AdditionalTermBondMaturityDate''),
    (40014, ''AdditionalTermBondParValue''), (40015, ''AdditionalTermBondCurrentTotalIssuedAmount''),
    (40016, ''AdditionalTermBondCouponFrequencyPeriod''), (40017, ''AdditionalTermBondCouponFrequencyUnit''),
    (40018, ''AdditionalTermBondDayCount''), (40019, ''NoAdditionalTerms''),
    (40020, ''AdditionalTermConditionPrecedentBondIndicator''),
    (40021, ''AdditionalTermDiscrepancyClauseIndicator''), (40022, ''NoCashSettlTerms''),
    (40023, ''CashSettlCurrency''), (40024, ''CashSettlValuationFirstBusinessDayOffset''),
    (40025, ''CashSettlValuationTime''), (40026, ''CashSettlBusinessCenter''),
    (40027, ''CashSettlQuoteMethod''), (40028, ''CashSettlQuoteAmount''),
    (40029, ''CashSettlQuoteCurrency''), (40030, ''CashSettlMinimumQuoteAmount''),
    (40031, ''CashSettlMinimumQuoteCurrency''), (40032, ''CashSettlDealer''),
    (40033, ''CashSettlBusinessDays''), (40034, ''CashSettlAmount''), (40035, ''CashSettlRecoveryFactor''),
    (40036, ''CashSettlFixedTermIndicator''), (40037, ''CashSettlAccruedInterestIndicator''),
    (40038, ''CashSettlValuationMethod''), (40039, ''CashSettlTermXID''),
    (40040, ''NoContractualDefinitions''), (40041, ''ContractualDefinition''),
    (40042, ''NoContractualMatrices''), (40043, ''ContractualMatrixSource''),
    (40044, ''ContractualMatrixDate''), (40045, ''ContractualMatrixTerm''),
    (40046, ''NoFinancingTermSupplements''), (40047, ''FinancingTermSupplementDesc''),
    (40048, ''FinancingTermSupplementDate''), (40049, ''NoStreams''), (40050, ''StreamType''),
    (40051, ''StreamDesc''), (40052, ''StreamPaySide''), (40053, ''StreamReceiveSide''),
    (40054, ''StreamNotional''), (40055, ''StreamCurrency''), (40056, ''StreamText''),
    (40057, ''UnderlyingStreamEffectiveDateUnadjusted''),
    (40058, ''UnderlyingStreamEffectiveDateBusinessDayConvention''),
    (40059, ''UnderlyingStreamEffectiveDateBusinessCenter''),
    (40060, ''UnderlyingStreamEffectiveDateRelativeTo''),
    (40061, ''UnderlyingStreamEffectiveDateOffsetPeriod''),
    (40062, ''UnderlyingStreamEffectiveDateOffsetUnit''),
    (40063, ''UnderlyingStreamEffectiveDateOffsetDayType''),
    (40064, ''UnderlyingStreamEffectiveDateAdjusted''), (40065, ''StreamTerminationDateUnadjusted''),
    (40066, ''StreamTerminationDateBusinessDayConvention''),
    (40067, ''StreamTerminationDateBusinessCenter''), (40068, ''StreamTerminationDateRelativeTo''),
    (40069, ''StreamTerminationDateOffsetPeriod''), (40070, ''StreamTerminationDateOffsetUnit''),
    (40071, ''StreamTerminationDateOffsetDayType''), (40072, ''StreamTerminationDateAdjusted''),
    (40073, ''StreamCalculationPeriodBusinessDayConvention''),
    (40074, ''StreamCalculationPeriodBusinessCenter''), (40075, ''StreamFirstPeriodStartDateUnadjusted''),
    (40076, ''StreamFirstPeriodStartDateBusinessDayConvention''),
    (40077, ''StreamFirstPeriodStartDateBusinessCenter''), (40078, ''StreamFirstPeriodStartDateAdjusted''),
    (40079, ''StreamFirstRegularPeriodStartDateUnadjusted''),
    (40080, ''StreamFirstCompoundingPeriodEndDateUnadjusted''),
    (40081, ''StreamLastRegularPeriodEndDateUnadjusted''), (40082, ''StreamCalculationFrequencyPeriod''),
    (40083, ''StreamCalculationFrequencyUnit''), (40084, ''StreamCalculationRollConvention''),
    (40085, ''NoSettlRateFallbacks''), (40086, ''SettlRatePostponementMaximumDays''),
    (40087, ''LegPaymentStreamNonDeliverableSettlRateSource''), (40088, ''SettlRatePostponementSurvey''),
    (40089, ''SettlRatePostponementCalculationAgent''), (40090, ''NoProvisions''),
    (40091, ''ProvisionType''), (40092, ''ProvisionDateUnadjusted''),
    (40093, ''ProvisionDateBusinessDayConvention''), (40094, ''ProvisionDateBusinessCenter''),
    (40095, ''ProvisionDateAdjusted''), (40096, ''ProvisionDateTenorPeriod''),
    (40097, ''ProvisionDateTenorUnit''), (40098, ''ProvisionCalculationAgent'')]"

end
