(* ===== verification/Field_Names_3.thy ===== *)
theory Field_Names_3
  imports Fix_Types
begin

text \<open>
  The assignments of \<open>dictionary_init_field\<close> (\<open>src/include/hffix_fields.hpp\<close>), third quarter, with the
  tag constants as their numbers.
\<close>

definition field_names_21 :: "(int \<times> string) list" where
  "field_names_21 = [
    (40099, ''ProvisionOptionSinglePartyBuyerSide''), (40100, ''ProvisionOptionSinglePartySellerSide''),
    (40101, ''ProvisionOptionExerciseStyle''), (40102, ''ProvisionOptionExerciseMultipleNotional''),
    (40103, ''ProvisionOptionExerciseMinimumNotional''), (40104, ''ProvisionOptionExerciseMaximumNotional''),
    (40105, ''ProvisionOptionMinimumNumber''), (40106, ''ProvisionOptionMaximumNumber''),
    (40107, ''ProvisionOptionExerciseConfirmation''), (40108, ''ProvisionCashSettlMethod''),
    (40109, ''ProvisionCashSettlCurrency''), (40110, ''ProvisionCashSettlCurrency2''),
    (40111, ''ProvisionCashSettlQuoteType''), (40112, ''ProvisionCashSettlQuoteSource''),
    (40113, ''ProvisionText''), (40114, ''ProvisionCashSettlValueTime''),
    (40115, ''ProvisionCashSettlValueTimeBusinessCenter''),
    (40116, ''ProvisionCashSettlValueDateBusinessDayConvention''),
    (40117, ''ProvisionCashSettlValueDateBusinessCenter''),
    (40118, ''ProvisionCashSettlValueDateRelativeTo''), (40119, ''ProvisionCashSettlValueDateOffsetPeriod''),
    (40120, ''ProvisionCashSettlValueDateOffsetUnit''),
    (40121, ''ProvisionCashSettlValueDateOffsetDayType''), (40122, ''ProvisionCashSettlValueDateAdjusted''),
    (40123, ''ProvisionOptionExerciseBusinessDayConvention''),
    (40124, ''ProvisionOptionExerciseBusinessCenter''),
    (40125, ''ProvisionOptionExerciseEarliestDateOffsetPeriod''),
    (40126, ''ProvisionOptionExerciseEarliestDateOffsetUnit''),
    (40127, ''ProvisionOptionExerciseFrequencyPeriod''), (40128, ''ProvisionOptionExerciseFrequencyUnit''),
    (40129, ''ProvisionOptionExerciseStartDateUnadjusted''),
    (40130, ''ProvisionOptionExerciseStartDateRelativeTo''),
    (40131, ''ProvisionOptionExerciseStartDateOffsetPeriod''),
    (40132, ''ProvisionOptionExerciseStartDateOffsetUnit''),
    (40133, ''ProvisionOptionExerciseStartDateOffsetDayType''),
    (40134, ''ProvisionOptionExerciseStartDateAdjusted''), (40135, ''ProvisionOptionExercisePeriodSkip''),
    (40136, ''ProvisionOptionExerciseBoundsFirstDateUnadjusted''),
    (40137, ''ProvisionOptionExerciseBoundsLastDateUnadjusted''),
    (40138, ''ProvisionOptionExerciseEarliestTime''),
    (40139, ''ProvisionOptionExerciseEarliestTimeBusinessCenter''),
    (40140, ''ProvisionOptionExerciseLatestTime''),
    (40141, ''ProvisionOptionExerciseLatestTimeBusinessCenter''),
    (40142, ''NoProvisionOptionExerciseFixedDates''), (40143, ''ProvisionOptionExerciseFixedDate''),
    (40144, ''ProvisionOptionExerciseFixedDateType''), (40145, ''ProvisionOptionExpirationDateUnadjusted''),
    (40146, ''ProvisionOptionExpirationDateBusinessDayConvention''),
    (40147, ''ProvisionOptionExpirationDateBusinessCenter''),
    (40148, ''ProvisionOptionExpirationDateRelativeTo''),
    (40149, ''ProvisionOptionExpirationDateOffsetPeriod''),
    (40150, ''ProvisionOptionExpirationDateOffsetUnit''),
    (40151, ''ProvisionOptionExpirationDateOffsetDayType''),
    (40152, ''ProvisionOptionExpirationDateAdjusted''), (40153, ''ProvisionOptionExpirationTime''),
    (40154, ''ProvisionOptionExpirationTimeBusinessCenter''),
    (40155, ''ProvisionOptionRelevantUnderlyingDateUnadjusted''),
    (40156, ''ProvisionOptionRelevantUnderlyingDateBusinessDayConvention''),
    (40157, ''ProvisionOptionRelevantUnderlyingDateBusinessCenter''),
    (40158, ''ProvisionOptionRelevantUnderlyingDateRelativeTo''),
    (40159, ''ProvisionOptionRelevantUnderlyingDateOffsetPeriod''),
    (40160, ''ProvisionOptionRelevantUnderlyingDateOffsetUnit''),
    (40161, ''ProvisionOptionRelevantUnderlyingDateOffsetDayType''),
    (40162, ''ProvisionOptionRelevantUnderlyingDateAdjusted''),
    (40163, ''ProvisionCashSettlPaymentDateBusinessDayConvention''),
    (40164, ''ProvisionCashSettlPaymentDateBusinessCenter''),
    (40165, ''ProvisionCashSettlPaymentDateRelativeTo''),
    (40166, ''ProvisionCashSettlPaymentDateOffsetPeriod''),
    (40167, ''ProvisionCashSettlPaymentDateOffsetUnit''),
    (40168, ''ProvisionCashSettlPaymentDateOffsetDayType''),
    (40169, ''ProvisionCashSettlPaymentDateRangeFirst''),
    (40170, ''ProvisionCashSettlPaymentDateRangeLast''), (40171, ''NoProvisionCashSettlPaymentDates''),
    (40172, ''ProvisionCashSettlPaymentDate''), (40173, ''ProvisionCashSettlPaymentDateType''),
    (40174, ''NoProvisionPartyIDs''), (40175, ''ProvisionPartyID''), (40176, ''ProvisionPartyIDSource''),
    (40177, ''ProvisionPartyRole''), (40178, ''NoProvisionPartySubIDs''), (40179, ''ProvisionPartySubID''),
    (40180, ''ProvisionPartySubIDType''), (40181, ''NoProtectionTerms''),
    (40182, ''ProtectionTermNotional''), (40183, ''ProtectionTermCurrency''),
    (40184, ''ProtectionTermSellerNotifies''), (40185, ''ProtectionTermBuyerNotifies''),
    (40186, ''ProtectionTermEventBusinessCenter''), (40187, ''ProtectionTermStandardSources''),
    (40188, ''ProtectionTermEventMinimumSources''), (40189, ''ProtectionTermEventNewsSource''),
    (40190, ''ProtectionTermXID''), (40191, ''NoProtectionTermEvents''),
    (40192, ''ProtectionTermEventType''), (40193, ''ProtectionTermEventValue''),
    (40194, ''ProtectionTermEventCurrency''), (40195, ''ProtectionTermEventPeriod''),
    (40196, ''ProtectionTermEventUnit''), (40197, ''ProtectionTermEventDayType''),
    (40198, ''ProtectionTermEventRateSource''), (40199, ''NoProtectionTermEventQualifiers''),
    (40200, ''ProtectionTermEventQualifier''), (40201, ''NoProtectionTermObligations''),
    (40202, ''ProtectionTermObligationType''), (40203, ''ProtectionTermObligationValue''),
    (40204, ''NoPhysicalSettlTerms''), (40205, ''PhysicalSettlCurrency''),
    (40206, ''PhysicalSettlBusinessDays''), (40207, ''PhysicalSettlMaximumBusinessDays''),
    (40208, ''PhysicalSettlTermXID''), (40209, ''NoPhysicalSettlDeliverableObligations''),
    (40210, ''PhysicalSettlDeliverableObligationType''),
    (40211, ''PhysicalSettlDeliverableObligationValue''), (40212, ''NoPayments''), (40213, ''PaymentType''),
    (40214, ''PaymentPaySide''), (40215, ''PaymentReceiveSide''), (40216, ''PaymentCurrency''),
    (40217, ''PaymentAmount''), (40218, ''PaymentPrice''), (40219, ''PaymentDateUnadjusted''),
    (40220, ''PaymentBusinessDayConvention''), (40221, ''PaymentBusinessCenter''),
    (40222, ''PaymentDateAdjusted''), (40223, ''LegMarketDisruptionValue''),
    (40224, ''PaymentDiscountFactor''), (40225, ''PaymentPresentValueAmount''),
    (40226, ''PaymentPresentValueCurrency''), (40227, ''PaymentSettlStyle''),
    (40228, ''LegPaymentStreamNonDeliverableSettlReferencePage''), (40229, ''PaymentText''),
    (40230, ''NoPaymentSettls''), (40231, ''PaymentSettlAmount''), (40232, ''PaymentSettlCurrency''),
    (40233, ''NoPaymentSettlPartyIDs''), (40234, ''PaymentSettlPartyID''),
    (40235, ''PaymentSettlPartyIDSource''), (40236, ''PaymentSettlPartyRole''),
    (40237, ''PaymentSettlPartyRoleQualifier''), (40238, ''NoPaymentSettlPartySubIDs''),
    (40239, ''PaymentSettlPartySubID''), (40240, ''PaymentSettlPartySubIDType''), (40241, ''NoLegStreams''),
    (40242, ''LegStreamType''), (40243, ''LegStreamDesc''), (40244, ''LegStreamPaySide''),
    (40245, ''LegStreamReceiveSide''), (40246, ''LegStreamNotional''), (40247, ''LegStreamCurrency''),
    (40248, ''LegStreamText'')]"

definition field_names_22 :: "(int \<times> string) list" where
  "field_names_22 = [
    (40249, ''LegStreamEffectiveDateUnadjusted''), (40250, ''LegStreamEffectiveDateBusinessDayConvention''),
    (40251, ''LegStreamEffectiveDateBusinessCenter''), (40252, ''LegStreamEffectiveDateRelativeTo''),
    (40253, ''LegStreamEffectiveDateOffsetPeriod''), (40254, ''LegStreamEffectiveDateOffsetUnit''),
    (40255, ''LegStreamEffectiveDateOffsetDayType''), (40256, ''LegStreamEffectiveDateAdjusted''),
    (40257, ''LegStreamTerminationDateUnadjusted''),
    (40258, ''LegStreamTerminationDateBusinessDayConvention''),
    (40259, ''LegStreamTerminationDateBusinessCenter''), (40260, ''LegStreamTerminationDateRelativeTo''),
    (40261, ''LegStreamTerminationDateOffsetPeriod''), (40262, ''LegStreamTerminationDateOffsetUnit''),
    (40263, ''LegStreamTerminationDateOffsetDayType''), (40264, ''LegStreamTerminationDateAdjusted''),
    (40265, ''LegStreamCalculationPeriodBusinessDayConvention''),
    (40266, ''LegStreamCalculationPeriodBusinessCenter''),
    (40267, ''LegStreamFirstPeriodStartDateUnadjusted''),
    (40268, ''LegStreamFirstPeriodStartDateBusinessDayConvention''),
    (40269, ''LegStreamFirstPeriodStartDateBusinessCenter''),
    (40270, ''LegStreamFirstPeriodStartDateAdjusted''),
    (40271, ''LegStreamFirstRegularPeriodStartDateUnadjusted''),
    (40272, ''LegStreamFirstCompoundingPeriodEndDateUnadjusted''),
    (40273, ''LegStreamLastRegularPeriodEndDateUnadjusted''),
    (40274, ''LegStreamCalculationFrequencyPeriod''), (40275, ''LegStreamCalculationFrequencyUnit''),
    (40276, ''LegStreamCalculationRollConvention''), (40277, ''NoCashSettlDealers''),
    (40278, ''NoBusinessCenters''), (40279, ''LegPaymentStreamType''),
    (40280, ''LegPaymentStreamMarketRate''), (40281, ''LegPaymentStreamDelayIndicator''),
    (40282, ''LegPaymentStreamSettlCurrency''), (40283, ''LegPaymentStreamDayCount''),
    (40284, ''LegPaymentStreamAccrualDays''), (40285, ''LegPaymentStreamDiscountType''),
    (40286, ''LegPaymentStreamDiscountRate''), (40287, ''LegPaymentStreamDiscountRateDayCount''),
    (40288, ''LegPaymentStreamCompoundingMethod''),
    (40289, ''LegPaymentStreamInitialPrincipalExchangeIndicator''),
    (40290, ''LegPaymentStreamInterimPrincipalExchangeIndicator''),
    (40291, ''LegPaymentStreamFinalPrincipalExchangeIndicator''),
    (40292, ''LegPaymentStreamPaymentDateBusinessDayConvention''),
    (40293, ''LegPaymentStreamPaymentDateBusinessCenter''),
    (40294, ''LegPaymentStreamPaymentFrequencyPeriod''), (40295, ''LegPaymentStreamPaymentFrequencyUnit''),
    (40296, ''LegPaymentStreamPaymentRollConvention''),
    (40297, ''LegPaymentStreamFirstPaymentDateUnadjusted''),
    (40298, ''LegPaymentStreamLastRegularPaymentDateUnadjusted''),
    (40299, ''LegPaymentStreamPaymentDateRelativeTo''), (40300, ''LegPaymentStreamPaymentDateOffsetPeriod''),
    (40301, ''LegPaymentStreamPaymentDateOffsetUnit''),
    (40302, ''LegPaymentStreamPaymentDateOffsetDayType''), (40303, ''LegPaymentStreamResetDateRelativeTo''),
    (40304, ''LegPaymentStreamResetDateBusinessDayConvention''),
    (40305, ''LegPaymentStreamResetDateBusinessCenter''), (40306, ''LegPaymentStreamResetFrequencyPeriod''),
    (40307, ''LegPaymentStreamResetFrequencyUnit''), (40308, ''LegPaymentStreamResetWeeklyRollConvention''),
    (40309, ''LegPaymentStreamInitialFixingDateRelativeTo''),
    (40310, ''LegPaymentStreamInitialFixingDateBusinessDayConvention''),
    (40311, ''LegPaymentStreamInitialFixingDateBusinessCenter''),
    (40312, ''LegPaymentStreamInitialFixingDateOffsetPeriod''),
    (40313, ''LegPaymentStreamInitialFixingDateOffsetUnit''),
    (40314, ''LegPaymentStreamInitialFixingDateOffsetDayType''),
    (40315, ''LegPaymentStreamInitialFixingDateAdjusted''),
    (40316, ''LegPaymentStreamFixingDateRelativeTo''),
    (40317, ''LegPaymentStreamFixingDateBusinessDayConvention''),
    (40318, ''LegPaymentStreamFixingDateBusinessCenter''),
    (40319, ''LegPaymentStreamFixingDateOffsetPeriod''), (40320, ''LegPaymentStreamFixingDateOffsetUnit''),
    (40321, ''LegPaymentStreamFixingDateOffsetDayType''), (40322, ''LegPaymentStreamFixingDateAdjusted''),
    (40323, ''LegPaymentStreamRateCutoffDateOffsetPeriod''),
    (40324, ''LegPaymentStreamRateCutoffDateOffsetUnit''),
    (40325, ''LegPaymentStreamRateCutoffDateOffsetDayType''), (40326, ''LegPaymentStreamRate''),
    (40327, ''LegPaymentStreamFixedAmount''), (40328, ''LegPaymentStreamRateOrAmountCurrency''),
    (40329, ''LegPaymentStreamFutureValueNotional''), (40330, ''LegPaymentStreamFutureValueDateAdjusted''),
    (40331, ''LegPaymentStreamRateIndex''), (40332, ''LegPaymentStreamRateIndexSource''),
    (40333, ''LegPaymentStreamRateIndexCurveUnit''), (40334, ''LegPaymentStreamRateIndexCurvePeriod''),
    (40335, ''LegPaymentStreamRateMultiplier''), (40336, ''LegPaymentStreamRateSpread''),
    (40337, ''LegPaymentStreamRateSpreadPositionType''), (40338, ''LegPaymentStreamRateTreatment''),
    (40339, ''LegPaymentStreamCapRate''), (40340, ''LegPaymentStreamCapRateBuySide''),
    (40341, ''LegPaymentStreamCapRateSellSide''), (40342, ''LegPaymentStreamFloorRate''),
    (40343, ''LegPaymentStreamFloorRateBuySide''), (40344, ''LegPaymentStreamFloorRateSellSide''),
    (40345, ''LegPaymentStreamInitialRate''), (40346, ''LegPaymentStreamFinalRateRoundingDirection''),
    (40347, ''LegPaymentStreamFinalRatePrecision''), (40348, ''LegPaymentStreamAveragingMethod''),
    (40349, ''LegPaymentStreamNegativeRateTreatment''), (40350, ''LegPaymentStreamInflationLagPeriod''),
    (40351, ''LegPaymentStreamInflationLagUnit''), (40352, ''LegPaymentStreamInflationLagDayType''),
    (40353, ''LegPaymentStreamInflationInterpolationMethod''),
    (40354, ''LegPaymentStreamInflationIndexSource''),
    (40355, ''LegPaymentStreamInflationPublicationSource''),
    (40356, ''LegPaymentStreamInflationInitialIndexLevel''),
    (40357, ''LegPaymentStreamInflationFallbackBondApplicable''),
    (40358, ''LegPaymentStreamFRADiscounting''), (40359, ''LegPaymentStreamNonDeliverableRefCurrency''),
    (40360, ''LegPaymentStreamNonDeliverableFixingDatesBusinessDayConvention''),
    (40361, ''LegPaymentStreamNonDeliverableFixingDatesBusinessCenter''),
    (40362, ''LegPaymentStreamNonDeliverableFixingDatesRelativeTo''),
    (40363, ''LegPaymentStreamNonDeliverableFixingDatesOffsetPeriod''),
    (40364, ''LegPaymentStreamNonDeliverableFixingDatesOffsetUnit''),
    (40365, ''LegPaymentStreamNonDeliverableFixingDatesOffsetDayType''),
    (40366, ''LegSettlRateFallbackRateSource''), (40367, ''NoLegNonDeliverableFixingDates''),
    (40368, ''LegNonDeliverableFixingDate''), (40369, ''LegNonDeliverableFixingDateType''),
    (40370, ''LegSettlRateFallbackReferencePage''), (40371, ''PaymentStreamNonDeliverableSettlRateSource''),
    (40372, ''PaymentStreamNonDeliverableSettlReferencePage''), (40373, ''SettlRateFallbackRateSource''),
    (40374, ''NoLegPaymentSchedules''), (40375, ''LegPaymentScheduleType''),
    (40376, ''LegPaymentScheduleStubType''), (40377, ''LegPaymentScheduleStartDateUnadjusted''),
    (40378, ''LegPaymentScheduleEndDateUnadjusted''), (40379, ''LegPaymentSchedulePaySide''),
    (40380, ''LegPaymentScheduleReceiveSide''), (40381, ''LegPaymentScheduleNotional''),
    (40382, ''LegPaymentScheduleCurrency''), (40383, ''LegPaymentScheduleRate''),
    (40384, ''LegPaymentScheduleRateMultiplier''), (40385, ''LegPaymentScheduleRateSpread''),
    (40386, ''LegPaymentScheduleRateSpreadPositionType''), (40387, ''LegPaymentScheduleRateTreatment''),
    (40388, ''LegPaymentScheduleFixedAmount''), (40389, ''LegPaymentScheduleFixedCurrency''),
    (40390, ''LegPaymentScheduleStepFrequencyPeriod''), (40391, ''LegPaymentScheduleStepFrequencyUnit''),
    (40392, ''LegPaymentScheduleStepOffsetValue''), (40393, ''LegPaymentScheduleStepRate''),
    (40394, ''LegPaymentScheduleStepOffsetRate''), (40395, ''LegPaymentScheduleStepRelativeTo''),
    (40396, ''LegPaymentScheduleFixingDateUnadjusted''), (40397, ''LegPaymentScheduleWeight''),
    (40398, ''LegPaymentScheduleFixingDateRelativeTo'')]"

definition field_names_23 :: "(int \<times> string) list" where
  "field_names_23 = [
    (40399, ''LegPaymentScheduleFixingDateBusinessDayConvention''),
    (40400, ''LegPaymentScheduleFixingDateBusinessCenter''),
    (40401, ''LegPaymentScheduleFixingDateOffsetPeriod''),
    (40402, ''LegPaymentScheduleFixingDateOffsetUnit''),
    (40403, ''LegPaymentScheduleFixingDateOffsetDayType''),
    (40404, ''LegPaymentScheduleFixingDateAdjusted''), (40405, ''LegPaymentScheduleFixingTime''),
    (40406, ''LegPaymentScheduleFixingTimeBusinessCenter''),
    (40407, ''LegPaymentScheduleInterimExchangePaymentDateRelativeTo''),
    (40408, ''LegPaymentScheduleInterimExchangeDatesBusinessDayConvention''),
    (40409, ''LegPaymentScheduleInterimExchangeDatesBusinessCenter''),
    (40410, ''LegPaymentScheduleInterimExchangeDatesOffsetPeriod''),
    (40411, ''LegPaymentScheduleInterimExchangeDatesOffsetUnit''),
    (40412, ''LegPaymentScheduleInterimExchangeDatesOffsetDayType''),
    (40413, ''LegPaymentScheduleInterimExchangeDateAdjusted''), (40414, ''NoLegPaymentScheduleRateSources''),
    (40415, ''LegPaymentScheduleRateSource''), (40416, ''LegPaymentScheduleRateSourceType''),
    (40417, ''LegPaymentScheduleReferencePage''), (40418, ''NoLegPaymentStubs''),
    (40419, ''LegPaymentStubType''), (40420, ''LegPaymentStubLength''), (40421, ''LegPaymentStubRate''),
    (40422, ''LegPaymentStubFixedAmount''), (40423, ''LegPaymentStubFixedCurrency''),
    (40424, ''LegPaymentStubIndex''), (40425, ''LegPaymentStubIndexSource''),
    (40426, ''LegPaymentStubIndexCurvePeriod''), (40427, ''LegPaymentStubIndexCurveUnit''),
    (40428, ''LegPaymentStubIndexRateMultiplier''), (40429, ''LegPaymentStubIndexRateSpread''),
    (40430, ''LegPaymentStubIndexRateSpreadPositionType''), (40431, ''LegPaymentStubIndexRateTreatment''),
    (40432, ''LegPaymentStubIndexCapRate''), (40433, ''LegPaymentStubIndexCapRateBuySide''),
    (40434, ''LegPaymentStubIndexCapRateSellSide''), (40435, ''LegPaymentStubIndexFloorRate''),
    (40436, ''LegPaymentStubIndexFloorRateBuySide''), (40437, ''LegPaymentStubIndexFloorRateSellSide''),
    (40438, ''LegPaymentStubIndex2''), (40439, ''LegPaymentStubIndex2Source''),
    (40440, ''LegPaymentStubIndex2CurvePeriod''), (40441, ''LegPaymentStubIndex2CurveUnit''),
    (40442, ''LegPaymentStubIndex2RateMultiplier''), (40443, ''LegPaymentStubIndex2RateSpread''),
    (40444, ''LegPaymentStubIndex2RateSpreadPositionType''), (40445, ''LegPaymentStubIndex2RateTreatment''),
    (40446, ''LegPaymentStubIndex2CapRate''), (40447, ''LegPaymentStubIndex2FloorRate''),
    (40448, ''NoLegProvisions''), (40449, ''LegProvisionType''), (40450, ''LegProvisionDateUnadjusted''),
    (40451, ''LegProvisionDateBusinessDayConvention''), (40452, ''LegProvisionDateBusinessCenter''),
    (40453, ''LegProvisionDateAdjusted''), (40454, ''LegProvisionDateTenorPeriod''),
    (40455, ''LegProvisionDateTenorUnit''), (40456, ''LegProvisionCalculationAgent''),
    (40457, ''LegProvisionOptionSinglePartyBuyerSide''),
    (40458, ''LegProvisionOptionSinglePartySellerSide''), (40459, ''LegProvisionOptionExerciseStyle''),
    (40460, ''LegProvisionOptionExerciseMultipleNotional''),
    (40461, ''LegProvisionOptionExerciseMinimumNotional''),
    (40462, ''LegProvisionOptionExerciseMaximumNotional''), (40463, ''LegProvisionOptionMinimumNumber''),
    (40464, ''LegProvisionOptionMaximumNumber''), (40465, ''LegProvisionOptionExerciseConfirmation''),
    (40466, ''LegProvisionCashSettlMethod''), (40467, ''LegProvisionCashSettlCurrency''),
    (40468, ''LegProvisionCashSettlCurrency2''), (40469, ''LegProvisionCashSettlQuoteType''),
    (40470, ''LegProvisionCashSettlQuoteSource''), (40471, ''BusinessCenter''),
    (40472, ''LegProvisionText''), (40473, ''NoLegProvisionCashSettlPaymentDates''),
    (40474, ''LegProvisionCashSettlPaymentDate''), (40475, ''LegProvisionCashSettlPaymentDateType''),
    (40476, ''LegProvisionOptionExerciseBusinessDayConvention''),
    (40477, ''LegProvisionOptionExerciseBusinessCenter''),
    (40478, ''LegProvisionOptionExerciseEarliestDateOffsetPeriod''),
    (40479, ''LegProvisionOptionExerciseEarliestDateOffsetUnit''),
    (40480, ''LegProvisionOptionExerciseFrequencyPeriod''),
    (40481, ''LegProvisionOptionExerciseFrequencyUnit''),
    (40482, ''LegProvisionOptionExerciseStartDateUnadjusted''),
    (40483, ''LegProvisionOptionExerciseStartDateRelativeTo''),
    (40484, ''LegProvisionOptionExerciseStartDateOffsetPeriod''),
    (40485, ''LegProvisionOptionExerciseStartDateOffsetUnit''),
    (40486, ''LegProvisionOptionExerciseStartDateOffsetDayType''),
    (40487, ''LegProvisionOptionExerciseStartDateAdjusted''),
    (40488, ''LegProvisionOptionExercisePeriodSkip''),
    (40489, ''LegProvisionOptionExerciseBoundsFirstDateUnadjusted''),
    (40490, ''LegProvisionOptionExerciseBoundsLastDateUnadjusted''),
    (40491, ''LegProvisionOptionExerciseEarliestTime''),
    (40492, ''LegProvisionOptionExerciseEarliestTimeBusinessCenter''),
    (40493, ''LegProvisionOptionExerciseLatestTime''),
    (40494, ''LegProvisionOptionExerciseLatestTimeBusinessCenter''),
    (40495, ''NoLegProvisionOptionExerciseFixedDates''), (40496, ''LegProvisionOptionExerciseFixedDate''),
    (40497, ''LegProvisionOptionExerciseFixedDateType''),
    (40498, ''LegProvisionOptionExpirationDateUnadjusted''),
    (40499, ''LegProvisionOptionExpirationDateBusinessDayConvention''),
    (40500, ''LegProvisionOptionExpirationDateBusinessCenter''),
    (40501, ''LegProvisionOptionExpirationDateRelativeTo''),
    (40502, ''LegProvisionOptionExpirationDateOffsetPeriod''),
    (40503, ''LegProvisionOptionExpirationDateOffsetUnit''),
    (40504, ''LegProvisionOptionExpirationDateOffsetDayType''),
    (40505, ''LegProvisionOptionExpirationDateAdjusted''), (40506, ''LegProvisionOptionExpirationTime''),
    (40507, ''LegProvisionOptionExpirationTimeBusinessCenter''),
    (40508, ''LegProvisionOptionRelevantUnderlyingDateUnadjusted''),
    (40509, ''LegProvisionOptionRelevantUnderlyingDateBusinessDayConvention''),
    (40510, ''LegProvisionOptionRelevantUnderlyingDateBusinessCenter''),
    (40511, ''LegProvisionOptionRelevantUnderlyingDateRelativeTo''),
    (40512, ''LegProvisionOptionRelevantUnderlyingDateOffsetPeriod''),
    (40513, ''LegProvisionOptionRelevantUnderlyingDateOffsetUnit''),
    (40514, ''LegProvisionOptionRelevantUnderlyingDateOffsetDayType''),
    (40515, ''LegProvisionOptionRelevantUnderlyingDateAdjusted''),
    (40516, ''LegProvisionCashSettlPaymentDateBusinessDayConvention''),
    (40517, ''LegProvisionCashSettlPaymentDateBusinessCenter''),
    (40518, ''LegProvisionCashSettlPaymentDateRelativeTo''),
    (40519, ''LegProvisionCashSettlPaymentDateOffsetPeriod''),
    (40520, ''LegProvisionCashSettlPaymentDateOffsetUnit''),
    (40521, ''LegProvisionCashSettlPaymentDateOffsetDayType''),
    (40522, ''LegProvisionCashSettlPaymentDateRangeFirst''),
    (40523, ''LegProvisionCashSettlPaymentDateRangeLast''), (40524, ''LegProvisionCashSettlValueTime''),
    (40525, ''LegProvisionCashSettlValueTimeBusinessCenter''),
    (40526, ''LegProvisionCashSettlValueDateBusinessDayConvention''),
    (40527, ''LegProvisionCashSettlValueDateBusinessCenter''),
    (40528, ''LegProvisionCashSettlValueDateRelativeTo''),
    (40529, ''LegProvisionCashSettlValueDateOffsetPeriod''),
    (40530, ''LegProvisionCashSettlValueDateOffsetUnit''),
    (40531, ''LegProvisionCashSettlValueDateOffsetDayType''),
    (40532, ''LegProvisionCashSettlValueDateAdjusted''), (40533, ''NoLegProvisionPartyIDs''),
    (40534, ''LegProvisionPartyID''), (40535, ''LegProvisionPartyIDSource''),
    (40536, ''LegProvisionPartyRole''), (40537, ''NoLegProvisionPartySubIDs''),
    (40538, ''LegProvisionPartySubID''), (40539, ''LegProvisionPartySubIDType''),
    (40540, ''NoUnderlyingStreams''), (40541, ''UnderlyingStreamType''), (40542, ''UnderlyingStreamDesc''),
    (40543, ''UnderlyingStreamPaySide''), (40544, ''UnderlyingStreamReceiveSide''),
    (40545, ''UnderlyingStreamNotional''), (40546, ''UnderlyingStreamCurrency''),
    (40547, ''UnderlyingStreamText''), (40548, ''UnderlyingStreamTerminationDateUnadjusted'')]"

definition field_names_24 :: "(int \<times> string) list" where
  "field_names_24 = [
    (40549, ''UnderlyingStreamTerminationDateBusinessDayConvention''),
    (40550, ''UnderlyingStreamTerminationDateBusinessCenter''),
    (40551, ''UnderlyingStreamTerminationDateRelativeTo''),
    (40552, ''UnderlyingStreamTerminationDateOffsetPeriod''),
    (40553, ''UnderlyingStreamTerminationDateOffsetUnit''),
    (40554, ''UnderlyingStreamTerminationDateOffsetDayType''),
    (40555, ''UnderlyingStreamTerminationDateAdjusted''),
    (40556, ''UnderlyingStreamCalculationPeriodBusinessDayConvention''),
    (40557, ''UnderlyingStreamCalculationPeriodBusinessCenter''),
    (40558, ''UnderlyingStreamFirstPeriodStartDateUnadjusted''),
    (40559, ''UnderlyingStreamFirstPeriodStartDateBusinessDayConvention''),
    (40560, ''UnderlyingStreamFirstPeriodStartDateBusinessCenter''),
    (40561, ''UnderlyingStreamFirstPeriodStartDateAdjusted''),
    (40562, ''UnderlyingStreamFirstRegularPeriodStartDateUnadjusted''),
    (40563, ''UnderlyingStreamFirstCompoundingPeriodEndDateUnadjusted''),
    (40564, ''UnderlyingStreamLastRegularPeriodEndDateUnadjusted''),
    (40565, ''UnderlyingStreamCalculationFrequencyPeriod''),
    (40566, ''UnderlyingStreamCalculationFrequencyUnit''),
    (40567, ''UnderlyingStreamCalculationRollConvention''), (40568, ''UnderlyingPaymentStreamType''),
    (40569, ''UnderlyingPaymentStreamMarketRate''), (40570, ''UnderlyingPaymentStreamDelayIndicator''),
    (40571, ''UnderlyingPaymentStreamSettlCurrency''), (40572, ''UnderlyingPaymentStreamDayCount''),
    (40573, ''UnderlyingPaymentStreamAccrualDays''), (40574, ''UnderlyingPaymentStreamDiscountType''),
    (40575, ''UnderlyingPaymentStreamDiscountRate''),
    (40576, ''UnderlyingPaymentStreamDiscountRateDayCount''),
    (40577, ''UnderlyingPaymentStreamCompoundingMethod''),
    (40578, ''UnderlyingPaymentStreamInitialPrincipalExchangeIndicator''),
    (40579, ''UnderlyingPaymentStreamInterimPrincipalExchangeIndicator''),
    (40580, ''UnderlyingPaymentStreamFinalPrincipalExchangeIndicator''),
    (40581, ''UnderlyingPaymentStreamPaymentDateBusinessDayConvention''),
    (40582, ''UnderlyingPaymentStreamPaymentDateBusinessCenter''),
    (40583, ''UnderlyingPaymentStreamPaymentFrequencyPeriod''),
    (40584, ''UnderlyingPaymentStreamPaymentFrequencyUnit''),
    (40585, ''UnderlyingPaymentStreamPaymentRollConvention''),
    (40586, ''UnderlyingPaymentStreamFirstPaymentDateUnadjusted''),
    (40587, ''UnderlyingPaymentStreamLastRegularPaymentDateUnadjusted''),
    (40588, ''UnderlyingPaymentStreamPaymentDateRelativeTo''),
    (40589, ''UnderlyingPaymentStreamPaymentDateOffsetPeriod''),
    (40590, ''UnderlyingPaymentStreamPaymentDateOffsetUnit''),
    (40591, ''UnderlyingPaymentStreamPaymentDateOffsetDayType''),
    (40592, ''UnderlyingPaymentStreamResetDateRelativeTo''),
    (40593, ''UnderlyingPaymentStreamResetDateBusinessDayConvention''),
    (40594, ''UnderlyingPaymentStreamResetDateBusinessCenter''),
    (40595, ''UnderlyingPaymentStreamResetFrequencyPeriod''),
    (40596, ''UnderlyingPaymentStreamResetFrequencyUnit''),
    (40597, ''UnderlyingPaymentStreamResetWeeklyRollConvention''),
    (40598, ''UnderlyingPaymentStreamInitialFixingDateRelativeTo''),
    (40599, ''UnderlyingPaymentStreamInitialFixingDateBusinessDayConvention''),
    (40600, ''UnderlyingPaymentStreamInitialFixingDateBusinessCenter''),
    (40601, ''UnderlyingPaymentStreamInitialFixingDateOffsetPeriod''),
    (40602, ''UnderlyingPaymentStreamInitialFixingDateOffsetUnit''),
    (40603, ''UnderlyingPaymentStreamInitialFixingDateOffsetDayType''),
    (40604, ''UnderlyingPaymentStreamInitialFixingDateAdjusted''),
    (40605, ''UnderlyingPaymentStreamFixingDateRelativeTo''),
    (40606, ''UnderlyingPaymentStreamFixingDateBusinessDayConvention''),
    (40607, ''UnderlyingPaymentStreamFixingDateBusinessCenter''),
    (40608, ''UnderlyingPaymentStreamFixingDateOffsetPeriod''),
    (40609, ''UnderlyingPaymentStreamFixingDateOffsetUnit''),
    (40610, ''UnderlyingPaymentStreamFixingDateOffsetDayType''),
    (40611, ''UnderlyingPaymentStreamFixingDateAdjusted''),
    (40612, ''UnderlyingPaymentStreamRateCutoffDateOffsetPeriod''),
    (40613, ''UnderlyingPaymentStreamRateCutoffDateOffsetUnit''),
    (40614, ''UnderlyingPaymentStreamRateCutoffDateOffsetDayType''),
    (40615, ''UnderlyingPaymentStreamRate''), (40616, ''UnderlyingPaymentStreamFixedAmount''),
    (40617, ''UnderlyingPaymentStreamRateOrAmountCurrency''),
    (40618, ''UnderlyingPaymentStreamFutureValueNotional''),
    (40619, ''UnderlyingPaymentStreamFutureValueDateAdjusted''),
    (40620, ''UnderlyingPaymentStreamRateIndex''), (40621, ''UnderlyingPaymentStreamRateIndexSource''),
    (40622, ''UnderlyingPaymentStreamRateIndexCurveUnit''),
    (40623, ''UnderlyingPaymentStreamRateIndexCurvePeriod''),
    (40624, ''UnderlyingPaymentStreamRateMultiplier''), (40625, ''UnderlyingPaymentStreamRateSpread''),
    (40626, ''UnderlyingPaymentStreamRateSpreadPositionType''),
    (40627, ''UnderlyingPaymentStreamRateTreatment''), (40628, ''UnderlyingPaymentStreamCapRate''),
    (40629, ''UnderlyingPaymentStreamCapRateBuySide''), (40630, ''UnderlyingPaymentStreamCapRateSellSide''),
    (40631, ''UnderlyingPaymentStreamFloorRate''), (40632, ''UnderlyingPaymentStreamFloorRateBuySide''),
    (40633, ''UnderlyingPaymentStreamFloorRateSellSide''), (40634, ''UnderlyingPaymentStreamInitialRate''),
    (40635, ''UnderlyingPaymentStreamFinalRateRoundingDirection''),
    (40636, ''UnderlyingPaymentStreamFinalRatePrecision''),
    (40637, ''UnderlyingPaymentStreamAveragingMethod''),
    (40638, ''UnderlyingPaymentStreamNegativeRateTreatment''),
    (40639, ''UnderlyingPaymentStreamInflationLagPeriod''),
    (40640, ''UnderlyingPaymentStreamInflationLagUnit''),
    (40641, ''UnderlyingPaymentStreamInflationLagDayType''),
    (40642, ''UnderlyingPaymentStreamInflationInterpolationMethod''),
    (40643, ''UnderlyingPaymentStreamInflationIndexSource''),
    (40644, ''UnderlyingPaymentStreamInflationPublicationSource''),
    (40645, ''UnderlyingPaymentStreamInflationInitialIndexLevel''),
    (40646, ''UnderlyingPaymentStreamInflationFallbackBondApplicable''),
    (40647, ''UnderlyingPaymentStreamFRADiscounting''),
    (40648, ''UnderlyingPaymentStreamNonDeliverableRefCurrency''),
    (40649, ''UnderlyingPaymentStreamNonDeliverableFixingDatesBizDayConvention''),
    (40650, ''UnderlyingPaymentStreamNonDeliverableFixingDatesBusinessCenter''),
    (40651, ''UnderlyingPaymentStreamNonDeliverableFixingDatesRelativeTo''),
    (40652, ''UnderlyingPaymentStreamNonDeliverableFixingDatesOffsetPeriod''),
    (40653, ''UnderlyingPaymentStreamNonDeliverableFixingDatesOffsetUnit''),
    (40654, ''UnderlyingPaymentStreamNonDeliverableFixingDatesOffsetDayType''),
    (40655, ''SettlRateFallbackReferencePage''), (40656, ''NoUnderlyingNonDeliverableFixingDates''),
    (40657, ''UnderlyingNonDeliverableFixingDate''), (40658, ''UnderlyingNonDeliverableFixingDateType''),
    (40659, ''NoUnderlyingSettlRateFallbacks''), (40660, ''UnderlyingSettlRatePostponementMaximumDays''),
    (40661, ''UnderlyingPaymentStreamNonDeliverableSettlRateSource''),
    (40662, ''UnderlyingSettlRatePostponementSurvey''),
    (40663, ''UnderlyingSettlRatePostponementCalculationAgent''), (40664, ''NoUnderlyingPaymentSchedules''),
    (40665, ''UnderlyingPaymentScheduleType''), (40666, ''UnderlyingPaymentScheduleStubType''),
    (40667, ''UnderlyingPaymentScheduleStartDateUnadjusted''),
    (40668, ''UnderlyingPaymentScheduleEndDateUnadjusted''), (40669, ''UnderlyingPaymentSchedulePaySide''),
    (40670, ''UnderlyingPaymentScheduleReceiveSide''), (40671, ''UnderlyingPaymentScheduleNotional''),
    (40672, ''UnderlyingPaymentScheduleCurrency''), (40673, ''UnderlyingPaymentScheduleRate''),
    (40674, ''UnderlyingPaymentScheduleRateMultiplier''), (40675, ''UnderlyingPaymentScheduleRateSpread''),
    (40676, ''UnderlyingPaymentScheduleRateSpreadPositionType''),
    (40677, ''UnderlyingPaymentScheduleRateTreatment''), (40678, ''UnderlyingPaymentScheduleFixedAmount''),
    (40679, ''UnderlyingPaymentScheduleFixedCurrency''),
    (40680, ''UnderlyingPaymentScheduleStepFrequencyPeriod''),
    (40681, ''UnderlyingPaymentScheduleStepFrequencyUnit''),
    (40682, ''UnderlyingPaymentScheduleStepOffsetValue''), (40683, ''UnderlyingPaymentScheduleStepRate''),
    (40684, ''UnderlyingPaymentScheduleStepOffsetRate''),
    (40685, ''UnderlyingPaymentScheduleStepRelativeTo''),
    (40686, ''UnderlyingPaymentScheduleFixingDateUnadjusted''), (40687, ''UnderlyingPaymentScheduleWeight''),
    (40688, ''UnderlyingPaymentScheduleFixingDateRelativeTo''),
    (40689, ''UnderlyingPaymentScheduleFixingDateBusinessDayCnvtn''),
    (40690, ''UnderlyingPaymentScheduleFixingDateBusinessCenter''),
    (40691, ''UnderlyingPaymentScheduleFixingDateOffsetPeriod''),
    (40692, ''UnderlyingPaymentScheduleFixingDateOffsetUnit''),
    (40693, ''UnderlyingPaymentScheduleFixingDateOffsetDayType''),
    (40694, ''UnderlyingPaymentScheduleFixingDateAdjusted''),
    (40695, ''UnderlyingPaymentScheduleFixingTime''),
    (40696, ''UnderlyingPaymentScheduleFixingTimeBusinessCenter''),
    (40697, ''UnderlyingPaymentScheduleInterimExchangePaymentDateRelativeTo''),
    (40698, ''UnderlyingPaymentScheduleInterimExchangeDatesBizDayConvention'')]"

definition field_names_25 :: "(int \<times> string) list" where
  "field_names_25 = [
    (40699, ''UnderlyingPaymentScheduleInterimExchangeDatesBusinessCenter''),
    (40700, ''UnderlyingPaymentScheduleInterimExchangeDatesOffsetPeriod''),
    (40701, ''UnderlyingPaymentScheduleInterimExchangeDatesOffsetUnit''),
    (40702, ''UnderlyingPaymentScheduleInterimExchangeDatesOffsetDayType''),
    (40703, ''UnderlyingPaymentScheduleInterimExchangeDateAdjusted''),
    (40704, ''NoUnderlyingPaymentScheduleRateSources''), (40705, ''UnderlyingPaymentScheduleRateSource''),
    (40706, ''UnderlyingPaymentScheduleRateSourceType''),
    (40707, ''UnderlyingPaymentScheduleReferencePage''), (40708, ''NoUnderlyingPaymentStubs''),
    (40709, ''UnderlyingPaymentStubType''), (40710, ''UnderlyingPaymentStubLength''),
    (40711, ''UnderlyingPaymentStubRate''), (40712, ''UnderlyingPaymentStubFixedAmount''),
    (40713, ''UnderlyingPaymentStubFixedCurrency''), (40714, ''UnderlyingPaymentStubIndex''),
    (40715, ''UnderlyingPaymentStubIndexSource''), (40716, ''UnderlyingPaymentStubIndexCurvePeriod''),
    (40717, ''UnderlyingPaymentStubIndexCurveUnit''), (40718, ''UnderlyingPaymentStubIndexRateMultiplier''),
    (40719, ''UnderlyingPaymentStubIndexRateSpread''),
    (40720, ''UnderlyingPaymentStubIndexRateSpreadPositionType''),
    (40721, ''UnderlyingPaymentStubIndexRateTreatment''), (40722, ''UnderlyingPaymentStubIndexCapRate''),
    (40723, ''UnderlyingPaymentStubIndexCapRateBuySide''),
    (40724, ''UnderlyingPaymentStubIndexCapRateSellSide''), (40725, ''UnderlyingPaymentStubIndexFloorRate''),
    (40726, ''UnderlyingPaymentStubIndexFloorRateBuySide''),
    (40727, ''UnderlyingPaymentStubIndexFloorRateSellSide''), (40728, ''UnderlyingPaymentStubIndex2''),
    (40729, ''UnderlyingPaymentStubIndex2Source''), (40730, ''UnderlyingPaymentStubIndex2CurvePeriod''),
    (40731, ''UnderlyingPaymentStubIndex2CurveUnit''),
    (40732, ''UnderlyingPaymentStubIndex2RateMultiplier''),
    (40733, ''UnderlyingPaymentStubIndex2RateSpread''),
    (40734, ''UnderlyingPaymentStubIndex2RateSpreadPositionType''),
    (40735, ''UnderlyingPaymentStubIndex2RateTreatment''), (40736, ''UnderlyingPaymentStubIndex2CapRate''),
    (40737, ''UnderlyingPaymentStubIndex2FloorRate''), (40738, ''PaymentStreamType''),
    (40739, ''PaymentStreamMarketRate''), (40740, ''PaymentStreamDelayIndicator''),
    (40741, ''PaymentStreamSettlCurrency''), (40742, ''PaymentStreamDayCount''),
    (40743, ''PaymentStreamAccrualDays''), (40744, ''PaymentStreamDiscountType''),
    (40745, ''PaymentStreamDiscountRate''), (40746, ''PaymentStreamDiscountRateDayCount''),
    (40747, ''PaymentStreamCompoundingMethod''), (40748, ''PaymentStreamInitialPrincipalExchangeIndicator''),
    (40749, ''PaymentStreamInterimPrincipalExchangeIndicator''),
    (40750, ''PaymentStreamFinalPrincipalExchangeIndicator''),
    (40751, ''PaymentStreamPaymentDateBusinessDayConvention''),
    (40752, ''PaymentStreamPaymentDateBusinessCenter''), (40753, ''PaymentStreamPaymentFrequencyPeriod''),
    (40754, ''PaymentStreamPaymentFrequencyUnit''), (40755, ''PaymentStreamPaymentRollConvention''),
    (40756, ''PaymentStreamFirstPaymentDateUnadjusted''),
    (40757, ''PaymentStreamLastRegularPaymentDateUnadjusted''),
    (40758, ''PaymentStreamPaymentDateRelativeTo''), (40759, ''PaymentStreamPaymentDateOffsetPeriod''),
    (40760, ''PaymentStreamPaymentDateOffsetUnit''), (40761, ''PaymentStreamResetDateRelativeTo''),
    (40762, ''PaymentStreamResetDateBusinessDayConvention''),
    (40763, ''PaymentStreamResetDateBusinessCenter''), (40764, ''PaymentStreamResetFrequencyPeriod''),
    (40765, ''PaymentStreamResetFrequencyUnit''), (40766, ''PaymentStreamResetWeeklyRollConvention''),
    (40767, ''PaymentStreamInitialFixingDateRelativeTo''),
    (40768, ''PaymentStreamInitialFixingDateBusinessDayConvention''),
    (40769, ''PaymentStreamInitialFixingDateBusinessCenter''),
    (40770, ''PaymentStreamInitialFixingDateOffsetPeriod''),
    (40771, ''PaymentStreamInitialFixingDateOffsetUnit''),
    (40772, ''PaymentStreamInitialFixingDateOffsetDayType''),
    (40773, ''PaymentStreamInitialFixingDateAdjusted''), (40774, ''PaymentStreamFixingDateRelativeTo''),
    (40775, ''PaymentStreamFixingDateBusinessDayConvention''),
    (40776, ''PaymentStreamFixingDateBusinessCenter''), (40777, ''PaymentStreamFixingDateOffsetPeriod''),
    (40778, ''PaymentStreamFixingDateOffsetUnit''), (40779, ''PaymentStreamFixingDateOffsetDayType''),
    (40780, ''PaymentStreamFixingDateAdjusted''), (40781, ''PaymentStreamRateCutoffDateOffsetPeriod''),
    (40782, ''PaymentStreamRateCutoffDateOffsetUnit''),
    (40783, ''PaymentStreamRateCutoffDateOffsetDayType''), (40784, ''PaymentStreamRate''),
    (40785, ''PaymentStreamFixedAmount''), (40786, ''PaymentStreamRateOrAmountCurrency''),
    (40787, ''PaymentStreamFutureValueNotional''), (40788, ''PaymentStreamFutureValueDateAdjusted''),
    (40789, ''PaymentStreamRateIndex''), (40790, ''PaymentStreamRateIndexSource''),
    (40791, ''PaymentStreamRateIndexCurveUnit''), (40792, ''PaymentStreamRateIndexCurvePeriod''),
    (40793, ''PaymentStreamRateMultiplier''), (40794, ''PaymentStreamRateSpread''),
    (40795, ''PaymentStreamRateSpreadPositionType''), (40796, ''PaymentStreamRateTreatment''),
    (40797, ''PaymentStreamCapRate''), (40798, ''PaymentStreamCapRateBuySide''),
    (40799, ''PaymentStreamCapRateSellSide''), (40800, ''PaymentStreamFloorRate''),
    (40801, ''PaymentStreamFloorRateBuySide''), (40802, ''PaymentStreamFloorRateSellSide''),
    (40803, ''PaymentStreamInitialRate''), (40804, ''PaymentStreamFinalRateRoundingDirection''),
    (40805, ''PaymentStreamFinalRatePrecision''), (40806, ''PaymentStreamAveragingMethod''),
    (40807, ''PaymentStreamNegativeRateTreatment''), (40808, ''PaymentStreamInflationLagPeriod''),
    (40809, ''PaymentStreamInflationLagUnit''), (40810, ''PaymentStreamInflationLagDayType''),
    (40811, ''PaymentStreamInflationInterpolationMethod''), (40812, ''PaymentStreamInflationIndexSource''),
    (40813, ''PaymentStreamInflationPublicationSource''),
    (40814, ''PaymentStreamInflationInitialIndexLevel''),
    (40815, ''PaymentStreamInflationFallbackBondApplicable''), (40816, ''PaymentStreamFRADiscounting''),
    (40817, ''PaymentStreamNonDeliverableRefCurrency''),
    (40818, ''PaymentStreamNonDeliverableFixingDatesBusinessDayConvention''),
    (40819, ''PaymentStreamNonDeliverableFixingDatesBusinessCenter''),
    (40820, ''PaymentStreamNonDeliverableFixingDatesRelativeTo''),
    (40821, ''PaymentStreamNonDeliverableFixingDatesOffsetPeriod''),
    (40822, ''PaymentStreamNonDeliverableFixingDatesOffsetUnit''),
    (40823, ''PaymentStreamNonDeliverableFixingDatesOffsetDayType''),
    (40824, ''UnderlyingPaymentStreamNonDeliverableSettlReferencePage''),
    (40825, ''NoNonDeliverableFixingDates''), (40826, ''NonDeliverableFixingDate''),
    (40827, ''NonDeliverableFixingDateType''), (40828, ''NoPaymentSchedules''),
    (40829, ''PaymentScheduleType''), (40830, ''PaymentScheduleStubType''),
    (40831, ''PaymentScheduleStartDateUnadjusted''), (40832, ''PaymentScheduleEndDateUnadjusted''),
    (40833, ''PaymentSchedulePaySide''), (40834, ''PaymentScheduleReceiveSide''),
    (40835, ''PaymentScheduleNotional''), (40836, ''PaymentScheduleCurrency''),
    (40837, ''PaymentScheduleRate''), (40838, ''PaymentScheduleRateMultiplier''),
    (40839, ''PaymentScheduleRateSpread''), (40840, ''PaymentScheduleRateSpreadPositionType''),
    (40841, ''PaymentScheduleRateTreatment''), (40842, ''PaymentScheduleFixedAmount''),
    (40843, ''PaymentScheduleFixedCurrency''), (40844, ''PaymentScheduleStepFrequencyPeriod''),
    (40845, ''PaymentScheduleStepFrequencyUnit''), (40846, ''PaymentScheduleStepOffsetValue''),
    (40847, ''PaymentScheduleStepRate''), (40848, ''PaymentScheduleStepOffsetRate'')]"

definition field_names_26 :: "(int \<times> string) list" where
  "field_names_26 = [
    (40849, ''PaymentScheduleStepRelativeTo''), (40850, ''PaymentScheduleFixingDateUnadjusted''),
    (40851, ''PaymentScheduleWeight''), (40852, ''PaymentScheduleFixingDateRelativeTo''),
    (40853, ''PaymentScheduleFixingDateBusinessDayConvention''),
    (40854, ''PaymentScheduleFixingDateBusinessCenter''), (40855, ''PaymentScheduleFixingDateOffsetPeriod''),
    (40856, ''PaymentScheduleFixingDateOffsetUnit''), (40857, ''PaymentScheduleFixingDateOffsetDayType''),
    (40858, ''PaymentScheduleFixingDateAdjusted''), (40859, ''PaymentScheduleFixingTime''),
    (40860, ''PaymentScheduleFixingTimeBusinessCenter''),
    (40861, ''PaymentScheduleInterimExchangePaymentDateRelativeTo''),
    (40862, ''PaymentScheduleInterimExchangeDatesBusinessDayConvention''),
    (40863, ''PaymentScheduleInterimExchangeDatesBusinessCenter''),
    (40864, ''PaymentScheduleInterimExchangeDatesOffsetPeriod''),
    (40865, ''PaymentScheduleInterimExchangeDatesOffsetUnit''),
    (40866, ''PaymentScheduleInterimExchangeDatesOffsetDayType''),
    (40867, ''PaymentScheduleInterimExchangeDateAdjusted''), (40868, ''NoPaymentScheduleRateSources''),
    (40869, ''PaymentScheduleRateSource''), (40870, ''PaymentScheduleRateSourceType''),
    (40871, ''PaymentScheduleReferencePage''), (40872, ''NoPaymentStubs''), (40873, ''PaymentStubType''),
    (40874, ''PaymentStubLength''), (40875, ''PaymentStubRate''), (40876, ''PaymentStubFixedAmount''),
    (40877, ''PaymentStubFixedCurrency''), (40878, ''PaymentStubIndex''),
    (40879, ''PaymentStubIndexSource''), (40880, ''PaymentStubIndexCurvePeriod''),
    (40881, ''PaymentStubIndexCurveUnit''), (40882, ''PaymentStubIndexRateMultiplier''),
    (40883, ''PaymentStubIndexRateSpread''), (40884, ''PaymentStubIndexRateSpreadPositionType''),
    (40885, ''PaymentStubIndexRateTreatment''), (40886, ''PaymentStubIndexCapRate''),
    (40887, ''PaymentStubIndexCapRateBuySide''), (40888, ''PaymentStubIndexCapRateSellSide''),
    (40889, ''PaymentStubIndexFloorRate''), (40890, ''PaymentStubIndexFloorRateBuySide''),
    (40891, ''PaymentStubIndexFloorRateSellSide''), (40892, ''PaymentStubIndex2''),
    (40893, ''PaymentStubIndex2Source''), (40894, ''PaymentStubIndex2CurvePeriod''),
    (40895, ''PaymentStubIndex2CurveUnit''), (40896, ''PaymentStubIndex2RateMultiplier''),
    (40897, ''PaymentStubIndex2RateSpread''), (40898, ''PaymentStubIndex2RateSpreadPositionType''),
    (40899, ''PaymentStubIndex2RateTreatment''), (40900, ''PaymentStubIndex2CapRate''),
    (40901, ''PaymentStubIndex2FloorRate''), (40902, ''NoLegSettlRateFallbacks''),
    (40903, ''LegSettlRatePostponementMaximumDays''), (40904, ''UnderlyingSettlRateFallbackRateSource''),
    (40905, ''LegSettlRatePostponementSurvey''), (40906, ''LegSettlRatePostponementCalculationAgent''),
    (40907, ''StreamEffectiveDateUnadjusted''), (40908, ''StreamEffectiveDateBusinessDayConvention''),
    (40909, ''StreamEffectiveDateBusinessCenter''), (40910, ''StreamEffectiveDateRelativeTo''),
    (40911, ''StreamEffectiveDateOffsetPeriod''), (40912, ''StreamEffectiveDateOffsetUnit''),
    (40913, ''StreamEffectiveDateOffsetDayType''), (40914, ''StreamEffectiveDateAdjusted''),
    (40915, ''UnderlyingSettlRateFallbackReferencePage''),
    (40916, ''CashSettlValuationSubsequentBusinessDaysOffset''), (40917, ''CashSettlNumOfValuationDates''),
    (40918, ''UnderlyingProvisionPartyRoleQualifier''), (40919, ''PaymentPriceType''),
    (40920, ''PaymentStreamPaymentDateOffsetDayType''), (40921, ''BusinessDayConvention''),
    (40922, ''DateRollConvention''), (40923, ''NoLegBusinessCenters''), (40924, ''LegBusinessCenter''),
    (40925, ''LegBusinessDayConvention''), (40926, ''LegDateRollConvention''),
    (40927, ''NoLegPaymentScheduleFixingDateBusinessCenters''),
    (40928, ''NoLegPaymentScheduleInterimExchangeDateBusinessCenters''),
    (40929, ''NoLegPaymentStreamNonDeliverableFixingDateBusinessCenters''),
    (40930, ''NoLegPaymentStreamPaymentDateBusinessCenters''),
    (40931, ''NoLegPaymentStreamResetDateBusinessCenters''),
    (40932, ''NoLegPaymentStreamInitialFixingDateBusinessCenters''),
    (40933, ''NoLegPaymentStreamFixingDateBusinessCenters''),
    (40934, ''NoLegProvisionCashSettlPaymentDateBusinessCenters''),
    (40935, ''NoLegProvisionCashSettlValueDateBusinessCenters''),
    (40936, ''NoLegProvisionOptionExerciseBusinessCenters''),
    (40937, ''NoLegProvisionOptionExpirationDateBusinessCenters''),
    (40938, ''NoLegProvisionOptionRelevantUnderlyingDateBusinessCenters''),
    (40939, ''NoLegProvisionDateBusinessCenters''), (40940, ''NoLegStreamCalculationPeriodBusinessCenters''),
    (40941, ''NoLegStreamFirstPeriodStartDateBusinessCenters''),
    (40942, ''NoLegStreamEffectiveDateBusinessCenters''),
    (40943, ''NoLegStreamTerminationDateBusinessCenters''), (40944, ''NoPaymentBusinessCenters''),
    (40945, ''NoPaymentScheduleInterimExchangeDateBusinessCenters''),
    (40946, ''NoPaymentStreamNonDeliverableFixingDatesBusinessCenters''),
    (40947, ''NoPaymentStreamPaymentDateBusinessCenters''),
    (40948, ''NoPaymentStreamResetDateBusinessCenters''),
    (40949, ''NoPaymentStreamInitialFixingDateBusinessCenters''),
    (40950, ''NoPaymentStreamFixingDateBusinessCenters''), (40951, ''NoProtectionTermEventNewsSources''),
    (40952, ''NoProvisionCashSettlPaymentDateBusinessCenters''),
    (40953, ''NoProvisionCashSettlValueDateBusinessCenters''),
    (40954, ''NoProvisionOptionExerciseBusinessCenters''),
    (40955, ''NoProvisionOptionExpirationDateBusinessCenters''),
    (40956, ''NoProvisionOptionRelevantUnderlyingDateBusinessCenters''),
    (40957, ''NoProvisionDateBusinessCenters''), (40958, ''NoStreamCalculationPeriodBusinessCenters''),
    (40959, ''NoStreamFirstPeriodStartDateBusinessCenters''),
    (40960, ''NoStreamEffectiveDateBusinessCenters''), (40961, ''NoStreamTerminationDateBusinessCenters''),
    (40962, ''NoUnderlyingBusinessCenters''), (40963, ''UnderlyingBusinessCenter''),
    (40964, ''UnderlyingBusinessDayConvention''), (40965, ''UnderlyingDateRollConvention''),
    (40966, ''NoUnderlyingPaymentScheduleFixingDateBusinessCenters''),
    (40967, ''NoUnderlyingPaymentScheduleInterimExchangeDateBusinessCenters''),
    (40968, ''NoUnderlyingPaymentStreamNonDeliverableFixingDatesBizCenters''),
    (40969, ''NoUnderlyingPaymentStreamPaymentDateBusinessCenters''),
    (40970, ''NoUnderlyingPaymentStreamResetDateBusinessCenters''),
    (40971, ''NoUnderlyingPaymentStreamInitialFixingDateBusinessCenters''),
    (40972, ''NoUnderlyingPaymentStreamFixingDateBusinessCenters''),
    (40973, ''NoUnderlyingStreamCalculationPeriodBusinessCenters''),
    (40974, ''NoUnderlyingStreamFirstPeriodStartDateBusinessCenters''),
    (40975, ''NoUnderlyingStreamEffectiveDateBusinessCenters''),
    (40976, ''NoUnderlyingStreamTerminationDateBusinessCenters''),
    (40977, ''NoPaymentScheduleFixingDateBusinessCenters''), (40978, ''EncodedLegStreamTextLen''),
    (40979, ''EncodedLegStreamText''), (40980, ''EncodedLegProvisionTextLen''),
    (40981, ''EncodedLegProvisionText''), (40982, ''EncodedStreamTextLen''), (40983, ''EncodedStreamText''),
    (40984, ''EncodedPaymentTextLen''), (40985, ''EncodedPaymentText''),
    (40986, ''EncodedProvisionTextLen''), (40987, ''EncodedProvisionText''),
    (40988, ''EncodedUnderlyingStreamTextLen''), (40989, ''EncodedUnderlyingStreamText''),
    (40990, ''LegMarketDisruptionFallbackValue''), (40991, ''MarketDisruptionValue''),
    (40992, ''MarketDisruptionFallbackValue''), (40993, ''PaymentSubType''),
    (40994, ''NoComplexEventAveragingObservations''), (40995, ''ComplexEventAveragingObservationNumber''),
    (40996, ''ComplexEventAveragingWeight''), (40997, ''NoComplexEventCreditEvents''),
    (40998, ''ComplexEventCreditEventType'')]"

definition field_names_27 :: "(int \<times> string) list" where
  "field_names_27 = [
    (40999, ''ComplexEventCreditEventValue''), (41000, ''ComplexEventCreditEventCurrency''),
    (41001, ''ComplexEventCreditEventPeriod''), (41002, ''ComplexEventCreditEventUnit''),
    (41003, ''ComplexEventCreditEventDayType''), (41004, ''ComplexEventCreditEventRateSource''),
    (41005, ''NoComplexEventCreditEventQualifiers''), (41006, ''ComplexEventCreditEventQualifier''),
    (41007, ''NoComplexEventPeriodDateTimes''), (41008, ''ComplexEventPeriodDate''),
    (41009, ''ComplexEventPeriodTime''), (41010, ''NoComplexEventPeriods''),
    (41011, ''ComplexEventPeriodType''), (41012, ''ComplexEventBusinessCenter''),
    (41013, ''NoComplexEventRateSources''), (41014, ''ComplexEventRateSource''),
    (41015, ''ComplexEventRateSourceType''), (41016, ''ComplexEventReferencePage''),
    (41017, ''ComplexEventReferencePageHeading''), (41018, ''NoComplexEventDateBusinessCenters''),
    (41019, ''ComplexEventDateBusinessCenter''), (41020, ''ComplexEventDateUnadjusted''),
    (41021, ''ComplexEventDateRelativeTo''), (41022, ''ComplexEventDateOffsetPeriod''),
    (41023, ''ComplexEventDateOffsetUnit''), (41024, ''ComplexEventDateOffsetDayType''),
    (41025, ''ComplexEventDateBusinessDayConvention''), (41026, ''ComplexEventDateAdjusted''),
    (41027, ''ComplexEventFixingTime''), (41028, ''ComplexEventFixingTimeBusinessCenter''),
    (41029, ''NoComplexEventCreditEventSources''), (41030, ''ComplexEventCreditEventSource''),
    (41031, ''NoComplexEventSchedules''), (41032, ''ComplexEventScheduleStartDate''),
    (41033, ''ComplexEventScheduleEndDate''), (41034, ''ComplexEventScheduleFrequencyPeriod''),
    (41035, ''ComplexEventScheduleFrequencyUnit''), (41036, ''ComplexEventScheduleRollConvention''),
    (41037, ''NoDeliverySchedules''), (41038, ''DeliveryScheduleType''), (41039, ''DeliveryScheduleXID''),
    (41040, ''DeliveryScheduleNotional''), (41041, ''DeliveryScheduleNotionalUnitOfMeasure''),
    (41042, ''DeliveryScheduleNotionalCommodityFrequency''), (41043, ''DeliveryScheduleNegativeTolerance''),
    (41044, ''DeliverySchedulePositiveTolerance''), (41045, ''DeliveryScheduleToleranceUnitOfMeasure''),
    (41046, ''DeliveryScheduleToleranceType''), (41047, ''DeliveryScheduleSettlCountry''),
    (41048, ''DeliveryScheduleSettlTimeZone''), (41049, ''DeliveryScheduleSettlFlowType''),
    (41050, ''DeliveryScheduleSettlHolidaysProcessingInstruction''),
    (41051, ''NoDeliveryScheduleSettlDays''), (41052, ''DeliveryScheduleSettlDay''),
    (41053, ''DeliveryScheduleSettlTotalHours''), (41054, ''NoDeliveryScheduleSettlTimes''),
    (41055, ''DeliveryScheduleSettlStart''), (41056, ''DeliveryScheduleSettlEnd''),
    (41057, ''DeliveryScheduleSettlTimeType''), (41058, ''DeliveryStreamType''),
    (41059, ''DeliveryStreamPipeline''), (41060, ''DeliveryStreamEntryPoint''),
    (41061, ''DeliveryStreamWithdrawalPoint''), (41062, ''DeliveryStreamDeliveryPoint''),
    (41063, ''DeliveryStreamDeliveryRestriction''), (41064, ''DeliveryStreamDeliveryContingency''),
    (41065, ''DeliveryStreamDeliveryContingentPartySide''),
    (41066, ''DeliveryStreamDeliverAtSourceIndicator''), (41067, ''DeliveryStreamRiskApportionment''),
    (41068, ''DeliveryStreamTitleTransferLocation''), (41069, ''DeliveryStreamTitleTransferCondition''),
    (41070, ''DeliveryStreamImporterOfRecord''), (41071, ''DeliveryStreamNegativeTolerance''),
    (41072, ''DeliveryStreamPositiveTolerance''), (41073, ''DeliveryStreamToleranceUnitOfMeasure''),
    (41074, ''DeliveryStreamToleranceType''), (41075, ''DeliveryStreamToleranceOptionSide''),
    (41076, ''DeliveryStreamTotalPositiveTolerance''), (41077, ''DeliveryStreamTotalNegativeTolerance''),
    (41078, ''DeliveryStreamNotionalConversionFactor''), (41079, ''DeliveryStreamTransportEquipment''),
    (41080, ''DeliveryStreamElectingPartySide''), (41081, ''NoDeliveryStreamCycles''),
    (41082, ''DeliveryStreamCycleDesc''), (41083, ''EncodedDeliveryStreamCycleDescLen''),
    (41084, ''EncodedDeliveryStreamCycleDesc''), (41085, ''NoDeliveryStreamCommoditySources''),
    (41086, ''DeliveryStreamCommoditySource''), (41087, ''MarketDisruptionProvision''),
    (41088, ''MarketDisruptionFallbackProvision''), (41089, ''MarketDisruptionMaximumDays''),
    (41090, ''MarketDisruptionMaterialityPercentage''), (41091, ''MarketDisruptionMinimumFuturesContracts''),
    (41092, ''NoMarketDisruptionEvents''), (41093, ''MarketDisruptionEvent''),
    (41094, ''NoMarketDisruptionFallbacks''), (41095, ''MarketDisruptionFallbackType''),
    (41096, ''NoMarketDisruptionFallbackReferencePrices''),
    (41097, ''MarketDisruptionFallbackUnderlierType''),
    (41098, ''MarketDisruptionFallbackUnderlierSecurityID''),
    (41099, ''MarketDisruptionFallbackUnderlierSecurityIDSource''),
    (41100, ''MarketDisruptionFallbackUnderlierSecurityDesc''),
    (41101, ''EncodedMarketDisruptionFallbackUnderlierSecurityDescLen''),
    (41102, ''EncodedMarketDisruptionFallbackUnderlierSecurityDesc''),
    (41103, ''MarketDisruptionFallbackOpenUnits''), (41104, ''MarketDisruptionFallbackBasketCurrency''),
    (41105, ''MarketDisruptionFallbackBasketDivisor''), (41106, ''ExerciseDesc''),
    (41107, ''EncodedExerciseDescLen''), (41108, ''EncodedExerciseDesc''),
    (41109, ''AutomaticExerciseIndicator''), (41110, ''AutomaticExerciseThresholdRate''),
    (41111, ''ExerciseConfirmationMethod''), (41112, ''ManualNoticeBusinessCenter''),
    (41113, ''FallbackExerciseIndicator''), (41114, ''LimitedRightToConfirmIndicator''),
    (41115, ''ExerciseSplitTicketIndicator''), (41116, ''NoOptionExerciseBusinessCenters''),
    (41117, ''OptionExerciseBusinessCenter''), (41118, ''OptionExerciseBusinessDayConvention''),
    (41119, ''OptionExerciseEarliestDateOffsetDayType''),
    (41120, ''OptionExerciseEarliestDateOffsetPeriod''), (41121, ''OptionExerciseEarliestDateOffsetUnit''),
    (41122, ''OptionExerciseFrequencyPeriod''), (41123, ''OptionExerciseFrequencyUnit''),
    (41124, ''OptionExerciseStartDateUnadjusted''), (41125, ''OptionExerciseStartDateRelativeTo''),
    (41126, ''OptionExerciseStartDateOffsetPeriod''), (41127, ''OptionExerciseStartDateOffsetUnit''),
    (41128, ''OptionExerciseStartDateOffsetDayType''), (41129, ''OptionExerciseStartDateAdjusted''),
    (41130, ''OptionExerciseSkip''), (41131, ''OptionExerciseNominationDeadline''),
    (41132, ''OptionExerciseFirstDateUnadjusted''), (41133, ''OptionExerciseLastDateUnadjusted''),
    (41134, ''OptionExerciseEarliestTime''), (41135, ''OptionExerciseLatestTime''),
    (41136, ''OptionExerciseTimeBusinessCenter''), (41137, ''NoOptionExerciseDates''),
    (41138, ''OptionExerciseDate''), (41139, ''OptionExerciseDateType''),
    (41140, ''NoOptionExerciseExpirationDateBusinessCenters''),
    (41141, ''OptionExerciseExpirationDateBusinessCenter''),
    (41142, ''OptionExerciseExpirationDateBusinessDayConvention''),
    (41143, ''OptionExerciseExpirationDateRelativeTo''),
    (41144, ''OptionExerciseExpirationDateOffsetPeriod''),
    (41145, ''OptionExerciseExpirationDateOffsetUnit''),
    (41146, ''OptionExerciseExpirationFrequencyPeriod''), (41147, ''OptionExerciseExpirationFrequencyUnit''),
    (41148, ''OptionExerciseExpirationRollConvention'')]"

definition field_names_28 :: "(int \<times> string) list" where
  "field_names_28 = [
    (41149, ''OptionExerciseExpirationDateOffsetDayType''), (41150, ''OptionExerciseExpirationTime''),
    (41151, ''OptionExerciseExpirationTimeBusinessCenter''), (41152, ''NoOptionExerciseExpirationDates''),
    (41153, ''OptionExerciseExpirationDate''), (41154, ''OptionExerciseExpirationDateType''),
    (41155, ''PaymentUnitOfMeasure''), (41156, ''PaymentDateRelativeTo''),
    (41157, ''PaymentDateOffsetPeriod''), (41158, ''PaymentDateOffsetUnit''),
    (41159, ''PaymentDateOffsetDayType''), (41160, ''PaymentForwardStartType''),
    (41161, ''NoPaymentScheduleFixingDays''), (41162, ''PaymentScheduleFixingDayOfWeek''),
    (41163, ''PaymentScheduleFixingDayNumber''), (41164, ''PaymentScheduleXID''),
    (41165, ''PaymentScheduleXIDRef''), (41166, ''PaymentScheduleRateCurrency''),
    (41167, ''PaymentScheduleRateUnitOfMeasure''), (41168, ''PaymentScheduleRateConversionFactor''),
    (41169, ''PaymentScheduleRateSpreadType''), (41170, ''PaymentScheduleSettlPeriodPrice''),
    (41171, ''PaymentScheduleSettlPeriodPriceCurrency''),
    (41172, ''PaymentScheduleSettlPeriodPriceUnitOfMeasure''), (41173, ''PaymentScheduleStepUnitOfMeasure''),
    (41174, ''PaymentScheduleFixingDayDistribution''), (41175, ''PaymentScheduleFixingDayCount''),
    (41176, ''PaymentScheduleFixingLagPeriod''), (41177, ''PaymentScheduleFixingLagUnit''),
    (41178, ''PaymentScheduleFixingFirstObservationDateOffsetPeriod''),
    (41179, ''PaymentScheduleFixingFirstObservationDateOffsetUnit''),
    (41180, ''PaymentStreamFlatRateIndicator''), (41181, ''PaymentStreamFlatRateAmount''),
    (41182, ''PaymentStreamFlatRateCurrency''), (41183, ''PaymentStreamMaximumPaymentAmount''),
    (41184, ''PaymentStreamMaximumPaymentCurrency''), (41185, ''PaymentStreamMaximumTransactionAmount''),
    (41186, ''PaymentStreamMaximumTransactionCurrency''), (41187, ''PaymentStreamFixedAmountUnitOfMeasure''),
    (41188, ''PaymentStreamTotalFixedAmount''), (41189, ''PaymentStreamWorldScaleRate''),
    (41190, ''PaymentStreamContractPrice''), (41191, ''PaymentStreamContractPriceCurrency''),
    (41192, ''NoPaymentStreamPricingBusinessCenters''), (41193, ''PaymentStreamPricingBusinessCenter''),
    (41194, ''PaymentStreamRateIndex2CurvePeriod''), (41195, ''PaymentStreamRateIndex2CurveUnit''),
    (41196, ''PaymentStreamRateIndexLocation''), (41197, ''PaymentStreamRateIndexLevel''),
    (41198, ''PaymentStreamRateIndexUnitOfMeasure''), (41199, ''PaymentStreamSettlLevel''),
    (41200, ''PaymentStreamReferenceLevel''), (41201, ''PaymentStreamReferenceLevelUnitOfMeasure''),
    (41202, ''PaymentStreamReferenceLevelEqualsZeroIndicator''),
    (41203, ''PaymentStreamRateSpreadCurrency''), (41204, ''PaymentStreamRateSpreadUnitOfMeasure''),
    (41205, ''PaymentStreamRateConversionFactor''), (41206, ''PaymentStreamRateSpreadType''),
    (41207, ''PaymentStreamLastResetRate''), (41208, ''PaymentStreamFinalRate''),
    (41209, ''PaymentStreamCalculationLagPeriod''), (41210, ''PaymentStreamCalculationLagUnit''),
    (41211, ''PaymentStreamFirstObservationDateOffsetPeriod''),
    (41212, ''PaymentStreamFirstObservationDateOffsetUnit''), (41213, ''PaymentStreamPricingDayType''),
    (41214, ''PaymentStreamPricingDayDistribution''), (41215, ''PaymentStreamPricingDayCount''),
    (41216, ''PaymentStreamPricingBusinessCalendar''),
    (41217, ''PaymentStreamPricingBusinessDayConvention''),
    (41218, ''DeliveryStreamRiskApportionmentSource''),
    (41219, ''LegDeliveryStreamRiskApportionmentSource''), (41220, ''NoPaymentStreamPaymentDates''),
    (41221, ''PaymentStreamPaymentDate''), (41222, ''PaymentStreamPaymentDateType''),
    (41223, ''PaymentStreamMasterAgreementPaymentDatesIndicator''), (41224, ''NoPaymentStreamPricingDates''),
    (41225, ''PaymentStreamPricingDate''), (41226, ''PaymentStreamPricingDateType''),
    (41227, ''NoPaymentStreamPricingDays''), (41228, ''PaymentStreamPricingDayOfWeek''),
    (41229, ''PaymentStreamPricingDayNumber''), (41230, ''NoPricingDateBusinessCenters''),
    (41231, ''PricingDateBusinessCenter''), (41232, ''PricingDateUnadjusted''),
    (41233, ''PricingDateBusinessDayConvention''), (41234, ''PricingDateAdjusted''),
    (41235, ''PricingTime''), (41236, ''PricingTimeBusinessCenter''), (41237, ''NoStreamAssetAttributes''),
    (41238, ''StreamAssetAttributeType''), (41239, ''StreamAssetAttributeValue''),
    (41240, ''StreamAssetAttributeLimit''), (41241, ''NoStreamCalculationPeriodDates''),
    (41242, ''StreamCalculationPeriodDate''), (41243, ''StreamCalculationPeriodDateType''),
    (41244, ''StreamCalculationPeriodDatesXID''), (41245, ''StreamCalculationPeriodDatesXIDRef''),
    (41246, ''StreamCalculationBalanceOfFirstPeriod''), (41247, ''StreamCalculationCorrectionPeriod''),
    (41248, ''StreamCalculationCorrectionUnit''), (41249, ''NoStreamCommoditySettlBusinessCenters''),
    (41250, ''StreamCommoditySettlBusinessCenter''), (41251, ''StreamCommodityBase''),
    (41252, ''StreamCommodityType''), (41253, ''StreamCommoditySecurityID''),
    (41254, ''StreamCommoditySecurityIDSource''), (41255, ''StreamCommodityDesc''),
    (41256, ''EncodedStreamCommodityDescLen''), (41257, ''EncodedStreamCommodityDesc''),
    (41258, ''StreamCommodityUnitOfMeasure''), (41259, ''StreamCommodityCurrency''),
    (41260, ''StreamCommodityExchange''), (41261, ''StreamCommodityRateSource''),
    (41262, ''StreamCommodityRateReferencePage''), (41263, ''StreamCommodityRateReferencePageHeading''),
    (41264, ''StreamDataProvider''), (41265, ''StreamCommodityPricingType''),
    (41266, ''StreamCommodityNearbySettlDayPeriod''), (41267, ''StreamCommodityNearbySettlDayUnit''),
    (41268, ''StreamCommoditySettlDateUnadjusted''),
    (41269, ''StreamCommoditySettlDateBusinessDayConvention''),
    (41270, ''StreamCommoditySettlDateAdjusted''), (41271, ''StreamCommoditySettlMonth''),
    (41272, ''StreamCommoditySettlDateRollPeriod''), (41273, ''StreamCommoditySettlDateRollUnit''),
    (41274, ''StreamCommoditySettlDayType''), (41275, ''StreamCommodityXID''),
    (41276, ''StreamCommodityXIDRef''), (41277, ''NoStreamCommodityAltIDs''),
    (41278, ''StreamCommodityAltID''), (41279, ''StreamCommodityAltIDSource''),
    (41280, ''NoStreamCommodityDataSources''), (41281, ''StreamCommodityDataSourceID''),
    (41282, ''StreamCommodityDataSourceIDType''), (41283, ''NoStreamCommoditySettlDays''),
    (41284, ''StreamCommoditySettlDay''), (41285, ''StreamCommoditySettlTotalHours''),
    (41286, ''NoStreamCommoditySettlTimes''), (41287, ''StreamCommoditySettlStart''),
    (41288, ''StreamCommoditySettlEnd''), (41289, ''NoStreamCommoditySettlPeriods''),
    (41290, ''StreamCommoditySettlCountry''), (41291, ''StreamCommoditySettlTimeZone''),
    (41292, ''StreamCommoditySettlFlowType''), (41293, ''StreamCommoditySettlPeriodNotional''),
    (41294, ''StreamCommoditySettlPeriodNotionalUnitOfMeasure''),
    (41295, ''StreamCommoditySettlPeriodFrequencyPeriod''),
    (41296, ''StreamCommoditySettlPeriodFrequencyUnit''), (41297, ''StreamCommoditySettlPeriodPrice''),
    (41298, ''StreamCommoditySettlPeriodPriceUnitOfMeasure'')]"

definition field_names_29 :: "(int \<times> string) list" where
  "field_names_29 = [
    (41299, ''StreamCommoditySettlPeriodPriceCurrency''),
    (41300, ''StreamCommoditySettlHolidaysProcessingInstruction''),
    (41301, ''StreamCommoditySettlPeriodXID''), (41302, ''StreamCommoditySettlPeriodXIDRef''),
    (41303, ''StreamXID''), (41304, ''PaymentLegRefID''), (41305, ''StreamNotionalXIDRef''),
    (41306, ''StreamNotionalFrequencyPeriod''), (41307, ''StreamNotionalFrequencyUnit''),
    (41308, ''StreamNotionalCommodityFrequency''), (41309, ''StreamNotionalUnitOfMeasure''),
    (41310, ''StreamTotalNotional''), (41311, ''StreamTotalNotionalUnitOfMeasure''),
    (41312, ''NoMandatoryClearingJurisdictions''), (41313, ''MandatoryClearingJurisdiction''),
    (41314, ''UnderlyingProtectionTermXIDRef''), (41315, ''UnderlyingSettlTermXIDRef''),
    (41316, ''NoLegAdditionalTermBondRefs''), (41317, ''LegAdditionalTermBondSecurityID''),
    (41318, ''LegAdditionalTermBondSecurityIDSource''), (41319, ''LegAdditionalTermBondDesc''),
    (41320, ''EncodedLegAdditionalTermBondDescLen''), (41321, ''EncodedLegAdditionalTermBondDesc''),
    (41322, ''LegAdditionalTermBondCurrency''), (41323, ''LegAdditionalTermBondIssuer''),
    (41324, ''EncodedLegAdditionalTermBondIssuerLen''), (41325, ''EncodedLegAdditionalTermBondIssuer''),
    (41326, ''LegAdditionalTermBondSeniority''), (41327, ''LegAdditionalTermBondCouponType''),
    (41328, ''LegAdditionalTermBondCouponRate''), (41329, ''LegAdditionalTermBondMaturityDate''),
    (41330, ''LegAdditionalTermBondParValue''), (41331, ''LegAdditionalTermBondCurrentTotalIssuedAmount''),
    (41332, ''LegAdditionalTermBondCouponFrequencyPeriod''),
    (41333, ''LegAdditionalTermBondCouponFrequencyUnit''), (41334, ''LegAdditionalTermBondDayCount''),
    (41335, ''NoLegAdditionalTerms''), (41336, ''LegAdditionalTermConditionPrecedentBondIndicator''),
    (41337, ''LegAdditionalTermDiscrepancyClauseIndicator''), (41338, ''UnderlyingMarketDisruptionValue''),
    (41339, ''UnderlyingMarketDisruptionFallbackValue''), (41340, ''NoUnderlyingAdditionalTermBondRefs''),
    (41341, ''UnderlyingAdditionalTermBondSecurityID''), (41342, ''NoLegCashSettlDealers''),
    (41343, ''LegCashSettlDealer''), (41344, ''NoLegCashSettlTerms''), (41345, ''LegCashSettlCurrency''),
    (41346, ''LegCasSettlValuationFirstBusinessDayOffset''),
    (41347, ''LegCashSettlValuationSubsequentBusinessDaysOffset''),
    (41348, ''LegCashSettlNumOfValuationDates''), (41349, ''LegCashSettlValuationTime''),
    (41350, ''LegCashSettlBusinessCenter''), (41351, ''LegCashSettlQuoteMethod''),
    (41352, ''LegCashSettlQuoteAmount''), (41353, ''LegCashSettlQuoteCurrency''),
    (41354, ''LegCashSettlMinimumQuoteAmount''), (41355, ''LegCashSettlMinimumQuoteCurrency''),
    (41356, ''LegCashSettlBusinessDays''), (41357, ''LegCashSettlAmount''),
    (41358, ''LegCashSettlRecoveryFactor''), (41359, ''LegCashSettlFixedTermIndicator''),
    (41360, ''LegCashSettlAccruedInterestIndicator''), (41361, ''LegCashSettlValuationMethod''),
    (41362, ''LegCashSettlTermXID''), (41363, ''NoLegComplexEventAveragingObservations''),
    (41364, ''LegComplexEventAveragingObservationNumber''), (41365, ''LegComplexEventAveragingWeight''),
    (41366, ''NoLegComplexEventCreditEvents''), (41367, ''LegComplexEventCreditEventType''),
    (41368, ''LegComplexEventCreditEventValue''), (41369, ''LegComplexEventCreditEventCurrency''),
    (41370, ''LegComplexEventCreditEventPeriod''), (41371, ''LegComplexEventCreditEventUnit''),
    (41372, ''LegComplexEventCreditEventDayType''), (41373, ''LegComplexEventCreditEventRateSource''),
    (41374, ''NoLegComplexEventCreditEventQualifiers''), (41375, ''LegComplexEventCreditEventQualifier''),
    (41376, ''NoLegComplexEventPeriodDateTimes''), (41377, ''LegComplexEventPeriodDate''),
    (41378, ''LegComplexEventPeriodTime''), (41379, ''NoLegComplexEventPeriods''),
    (41380, ''LegComplexEventPeriodType''), (41381, ''LegComplexEventBusinessCenter''),
    (41382, ''NoLegComplexEventRateSources''), (41383, ''LegComplexEventRateSource''),
    (41384, ''LegComplexEventRateSourceType''), (41385, ''LegComplexEventReferencePage''),
    (41386, ''LegComplexEvenReferencePageHeading''), (41387, ''NoLegComplexEventDateBusinessCenters''),
    (41388, ''LegComplexEventDateBusinessCenter''), (41389, ''LegComplexEventDateUnadjusted''),
    (41390, ''LegComplexEventDateRelativeTo''), (41391, ''LegComplexEventDateOffsetPeriod''),
    (41392, ''LegComplexEventDateOffsetUnit''), (41393, ''LegComplexEventDateOffsetDayType''),
    (41394, ''LegComplexEventDateBusinessDayConvention''), (41395, ''LegComplexEventDateAdjusted''),
    (41396, ''LegComplexEventFixingTime''), (41397, ''LegComplexEventFixingTimeBusinessCenter''),
    (41398, ''NoLegComplexEventCreditEventSources''), (41399, ''LegComplexEventCreditEventSource''),
    (41400, ''NoLegComplexEventSchedules''), (41401, ''LegComplexEventScheduleStartDate''),
    (41402, ''LegComplexEventScheduleEndDate''), (41403, ''LegComplexEventScheduleFrequencyPeriod''),
    (41404, ''LegComplexEventScheduleFrequencyUnit''), (41405, ''LegComplexEventScheduleRollConvention''),
    (41406, ''ProvisionCashSettlQuoteReferencePage''), (41407, ''LegProvisionCashSettlQuoteReferencePage''),
    (41408, ''NoLegDeliverySchedules''), (41409, ''LegDeliveryScheduleType''),
    (41410, ''LegDeliveryScheduleXID''), (41411, ''LegDeliveryScheduleNotional''),
    (41412, ''LegDeliveryScheduleNotionalUnitOfMeasure''),
    (41413, ''LegDeliveryScheduleNotionalCommodityFrequency''),
    (41414, ''LegDeliveryScheduleNegativeTolerance''), (41415, ''LegDeliverySchedulePositiveTolerance''),
    (41416, ''LegDeliveryScheduleToleranceUnitOfMeasure''), (41417, ''LegDeliveryScheduleToleranceType''),
    (41418, ''LegDeliveryScheduleSettlCountry''), (41419, ''LegDeliveryScheduleSettlTimeZone''),
    (41420, ''LegDeliveryScheduleSettlFlowType''),
    (41421, ''LegDeliveryScheduleSettlHolidaysProcessingInstruction''),
    (41422, ''NoLegDeliveryScheduleSettlDays''), (41423, ''LegDeliveryScheduleSettlDay''),
    (41424, ''LegDeliveryScheduleSettlTotalHours''), (41425, ''NoLegDeliveryScheduleSettlTimes''),
    (41426, ''LegDeliveryScheduleSettlStart''), (41427, ''LegDeliveryScheduleSettlEnd''),
    (41428, ''LegDeliveryScheduleSettlTimeType''), (41429, ''LegDeliveryStreamType''),
    (41430, ''LegDeliveryStreamPipeline''), (41431, ''LegDeliveryStreamEntryPoint''),
    (41432, ''LegDeliveryStreamWithdrawalPoint''), (41433, ''LegDeliveryStreamDeliveryPoint''),
    (41434, ''LegDeliveryStreamDeliveryRestriction''), (41435, ''LegDeliveryStreamDeliveryContingency''),
    (41436, ''LegDeliveryStreamDeliveryContingentPartySide''),
    (41437, ''LegDeliveryStreamDeliverAtSourceIndicator''), (41438, ''LegDeliveryStreamRiskApportionment''),
    (41439, ''LegDeliveryStreamTitleTransferLocation''),
    (41440, ''LegDeliveryStreamTitleTransferCondition''), (41441, ''LegDeliveryStreamImporterOfRecord''),
    (41442, ''LegDeliveryStreamNegativeTolerance''), (41443, ''LegDeliveryStreamPositiveTolerance''),
    (41444, ''LegDeliveryStreamToleranceUnitOfMeasure''), (41445, ''LegDeliveryStreamToleranceType''),
    (41446, ''LegDeliveryStreamToleranceOptionSide''), (41447, ''LegDeliveryStreamTotalPositiveTolerance''),
    (41448, ''LegDeliveryStreamTotalNegativeTolerance'')]"

definition field_names_30 :: "(int \<times> string) list" where
  "field_names_30 = [
    (41449, ''LegDeliveryStreamNotionalConversionFactor''), (41450, ''LegDeliveryStreamTransportEquipment''),
    (41451, ''LegDeliveryStreamElectingPartySide''), (41452, ''NoLegStreamAssetAttributes''),
    (41453, ''LegStreamAssetAttributeType''), (41454, ''LegStreamAssetAttributeValue''),
    (41455, ''LegStreamAssetAttributeLimit''), (41456, ''NoLegDeliveryStreamCycles''),
    (41457, ''LegDeliveryStreamCycleDesc''), (41458, ''EncodedLegDeliveryStreamCycleDescLen''),
    (41459, ''EncodedLegDeliveryStreamCycleDesc''), (41460, ''NoLegDeliveryStreamCommoditySources''),
    (41461, ''LegDeliveryStreamCommoditySource''), (41462, ''LegMarketDisruptionProvision''),
    (41463, ''LegMarketDisruptionFallbackProvision''), (41464, ''LegMarketDisruptionMaximumDays''),
    (41465, ''LegMarketDisruptionMaterialityPercentage''),
    (41466, ''LegMarketDisruptionMinimumFuturesContracts''), (41467, ''NoLegMarketDisruptionEvents''),
    (41468, ''LegMarketDisruptionEvent''), (41469, ''NoLegMarketDisruptionFallbacks''),
    (41470, ''LegMarketDisruptionFallbackType''), (41471, ''NoLegMarketDisruptionFallbackReferencePrices''),
    (41472, ''LegMarketDisruptionFallbackUnderlierType''),
    (41473, ''LegMarketDisruptionFallbackUnderlierSecurityID''),
    (41474, ''LegMarketDisruptionFallbackUnderlierSecurityIDSource''),
    (41475, ''LegMarketDisruptionFallbackUnderlierSecurityDesc''),
    (41476, ''EncodedLegMarketDisruptionFallbackUnderlierSecurityDescLen''),
    (41477, ''EncodedLegMarketDisruptionFallbackUnderlierSecurityDesc''),
    (41478, ''LegMarketDisruptionFallbackOpenUnits''),
    (41479, ''LegMarketDisruptionFallbackBasketCurrency''),
    (41480, ''LegMarketDisruptionFallbackBasketDivisor''), (41481, ''LegExerciseDesc''),
    (41482, ''EncodedLegExerciseDescLen''), (41483, ''EncodedLegExerciseDesc''),
    (41484, ''LegAutomaticExerciseIndicator''), (41485, ''LegAutomaticExerciseThresholdRate''),
    (41486, ''LegExerciseConfirmationMethod''), (41487, ''LegManualNoticeBusinessCenter''),
    (41488, ''LegFallbackExerciseIndicator''), (41489, ''LegLimitRightToConfirmIndicator''),
    (41490, ''LegExerciseSplitTicketIndicator''), (41491, ''NoLegOptionExerciseBusinessCenters''),
    (41492, ''LegOptionExerciseBusinessCenter''), (41493, ''LegOptionExerciseBusinessDayConvention''),
    (41494, ''LegOptionExerciseEarliestDateOffsetDayType''),
    (41495, ''LegOptionExerciseEarliestDateOffsetPeriod''),
    (41496, ''LegOptionExerciseEarliestDateOffsetUnit''), (41497, ''LegOptionExerciseFrequencyPeriod''),
    (41498, ''LegOptionExerciseFrequencyUnit''), (41499, ''LegOptionExerciseStartDateUnadjusted''),
    (41500, ''LegOptionExerciseStartDateRelativeTo''), (41501, ''LegOptionExerciseStartDateOffsetPeriod''),
    (41502, ''LegOptionExerciseStartDateOffsetUnit''), (41503, ''LegOptionExerciseStartDateOffsetDayType''),
    (41504, ''LegOptionExerciseStartDateAdjusted''), (41505, ''LegOptionExerciseSkip''),
    (41506, ''LegOptionExerciseNominationDeadline''), (41507, ''LegOptionExerciseFirstDateUnadjusted''),
    (41508, ''LegOptionExerciseLastDateUnadjusted''), (41509, ''LegOptionExerciseEarliestTime''),
    (41510, ''LegOptionExerciseLatestTime''), (41511, ''LegOptionExerciseTimeBusinessCenter''),
    (41512, ''NoLegOptionExerciseDates''), (41513, ''LegOptionExerciseDate''),
    (41514, ''LegOptionExerciseDateType''), (41515, ''NoLegOptionExerciseExpirationDateBusinessCenters''),
    (41516, ''LegOptionExerciseExpirationDateBusinessCenter''),
    (41517, ''LegOptionExerciseExpirationDateBusinessDayConvention''),
    (41518, ''LegOptionExerciseExpirationDateRelativeTo''),
    (41519, ''LegOptionExerciseExpirationDateOffsetPeriod''),
    (41520, ''LegOptionExerciseExpirationDateOffsetUnit''),
    (41521, ''LegOptionExerciseExpirationFrequencyPeriod''),
    (41522, ''LegOptionExerciseExpirationFrequencyUnit''),
    (41523, ''LegOptionExerciseExpirationRollConvention''),
    (41524, ''LegOptionExerciseExpirationDateOffsetDayType''), (41525, ''LegOptionExerciseExpirationTime''),
    (41526, ''LegOptionExerciseExpirationTimeBusinessCenter''),
    (41527, ''NoLegOptionExerciseExpirationDates''), (41528, ''LegOptionExerciseExpirationDate''),
    (41529, ''LegOptionExerciseExpirationDateType''), (41530, ''NoLegPaymentScheduleFixingDays''),
    (41531, ''LegPaymentScheduleFixingDayOfWeek''), (41532, ''LegPaymentScheduleFixingDayNumber''),
    (41533, ''LegPaymentScheduleXID''), (41534, ''LegPaymentScheduleXIDRef''),
    (41535, ''LegPaymentScheduleRateCurrency''), (41536, ''LegPaymentScheduleRateUnitOfMeasure''),
    (41537, ''LegPaymentScheduleRateConversionFactor''), (41538, ''LegPaymentScheduleRateSpreadType''),
    (41539, ''LegPaymentScheduleSettlPeriodPrice''), (41540, ''LegPaymentScheduleSettlPeriodPriceCurrency''),
    (41541, ''LegPaymentScheduleSettlPeriodPriceUnitOfMeasure''),
    (41542, ''LegPaymentScheduleStepUnitOfMeasure''), (41543, ''LegPaymentScheduleFixingDayDistribution''),
    (41544, ''LegPaymentScheduleFixingDayCount''), (41545, ''LegPaymentScheduleFixingLagPeriod''),
    (41546, ''LegPaymentScheduleFixingLagUnit''),
    (41547, ''LegPaymentScheduleFixingFirstObservationDateOffsetPeriod''),
    (41548, ''LegPaymentScheduleFixingFirstObservationDateOffsetUnit''),
    (41549, ''LegPaymentStreamFlatRateIndicator''), (41550, ''LegPaymentStreamFlatRateAmount''),
    (41551, ''LegPaymentStreamFlatRateCurrency''), (41552, ''LegStreamMaximumPaymentAmount''),
    (41553, ''LegStreamMaximumPaymentCurrency''), (41554, ''LegStreamMaximumTransactionAmount''),
    (41555, ''LegStreamMaximumTransactionCurrency''), (41556, ''LegPaymentStreamFixedAmountUnitOfMeasure''),
    (41557, ''LegPaymentStreamTotalFixedAmount''), (41558, ''LegPaymentStreamWorldScaleRate''),
    (41559, ''LegPaymentStreamContractPrice''), (41560, ''LegPaymentStreamContractPriceCurrency''),
    (41561, ''NoLegPaymentStreamPricingBusinessCenters''),
    (41562, ''LegPaymentStreamPricingBusinessCenter''), (41563, ''LegPaymentStreamRateIndex2CurveUnit''),
    (41564, ''LegPaymentStreamRateIndex2CurvePeriod''), (41565, ''LegPaymentStreamRateIndexLocation''),
    (41566, ''LegPaymentStreamRateIndexLevel''), (41567, ''LegPaymentStreamRateIndexUnitOfMeasure''),
    (41568, ''LegPaymentStreamSettlLevel''), (41569, ''LegPaymentStreamReferenceLevel''),
    (41570, ''LegPaymentStreamReferenceLevelUnitOfMeasure''),
    (41571, ''LegPaymentStreamReferenceLevelEqualsZeroIndicator''),
    (41572, ''LegPaymentStreamRateSpreadCurrency''), (41573, ''LegPaymentStreamRateSpreadUnitOfMeasure''),
    (41574, ''LegPaymentStreamRateConversionFactor''), (41575, ''LegPaymentStreamRateSpreadType''),
    (41576, ''LegPaymentStreamLastResetRate''), (41577, ''LegPaymentStreamFinalRate''),
    (41578, ''LegPaymentStreamCalculationLagPeriod''), (41579, ''LegPaymentStreamCalculationLagUnit''),
    (41580, ''LegPaymentStreamFirstObservationDateOffsetPeriod''),
    (41581, ''LegPaymentStreamFirstObservationDateOffsetUnit''), (41582, ''LegPaymentStreamPricingDayType''),
    (41583, ''LegPaymentStreamPricingDayDistribution''), (41584, ''LegPaymentStreamPricingDayCount''),
    (41585, ''LegPaymentStreamPricingBusinessCalendar''),
    (41586, ''LegPaymentStreamPricingBusinessDayConvention''),
    (41587, ''UnderlyingDeliveryStreamRiskApportionmentSource''), (41588, ''StreamCommoditySettlTimeType''),
    (41589, ''NoLegPaymentStreamPaymentDates''), (41590, ''LegPaymentStreamPaymentDate''),
    (41591, ''LegPaymentStreamPaymentDateType''),
    (41592, ''LegPaymentStreamMasterAgreementPaymentDatesIndicator''),
    (41593, ''NoLegPaymentStreamPricingDates''), (41594, ''LegPaymentStreamPricingDate''),
    (41595, ''LegPaymentStreamPricingDateType''), (41596, ''NoLegPaymentStreamPricingDays''),
    (41597, ''LegPaymentStreamPricingDayOfWeek''), (41598, ''LegPaymentStreamPricingDayNumber'')]"

end
