(* ===== verification/Field_Names_4.thy ===== *)
theory Field_Names_4
  imports Fix_Types
begin

text \<open>
  The assignments of \<open>dictionary_init_field\<close> (\<open>src/include/hffix_fields.hpp\<close>), last quarter, with the
  tag constants as their numbers.
\<close>

definition field_names_31 :: "(int \<times> string) list" where
  "field_names_31 = [
    (41599, ''NoLegPhysicalSettlTerms''), (41600, ''LegPhysicalSettlTermXID''),
    (41601, ''LegPhysicalSettlCurency''), (41602, ''LegPhysicalSettlBusinessDays''),
    (41603, ''LegPhysicalSettlMaximumBusinessDays''), (41604, ''NoLegPhysicalSettlDeliverableObligations''),
    (41605, ''LegPhysicalSettlDeliverableObligationType''),
    (41606, ''LegPhysicalSettlDeliverableObligationValue''), (41607, ''NoLegPricingDateBusinessCenters''),
    (41608, ''LegPricingDateBusinessCenter''), (41609, ''LegPricingDateUnadjusted''),
    (41610, ''LegPricingDateBusinessDayConvention''), (41611, ''LegPricingDateAdjusted''),
    (41612, ''LegPricingTime''), (41613, ''LegPricingTimeBusinessCenter''),
    (41614, ''NoLegProtectionTermEventNewsSources''), (41615, ''LegProtectionTermEventNewsSource''),
    (41616, ''NoLegProtectionTerms''), (41617, ''LegProtectionTermXID''),
    (41618, ''LegProtectionTermNotional''), (41619, ''LegProtectionTermCurrency''),
    (41620, ''LegProtectionTermSellerNotifies''), (41621, ''LegProtectionTermBuyerNotifies''),
    (41622, ''LegProtectionTermEventBusinessCenter''), (41623, ''LegProtectionTermStandardSources''),
    (41624, ''LegProtectionTermEventMinimumSources''), (41625, ''NoLegProtectionTermEvents''),
    (41626, ''LegProtectionTermEventType''), (41627, ''LegProtectionTermEventValue''),
    (41628, ''LegProtectionTermEventCurrency''), (41629, ''LegProtectionTermEventPeriod''),
    (41630, ''LegProtectionTermEventUnit''), (41631, ''LegProtectionTermEventDayType''),
    (41632, ''LegProtectionTermEventRateSource''), (41633, ''NoLegProtectionTermEventQualifiers''),
    (41634, ''LegProtectionTermEventQualifier''), (41635, ''NoLegProtectionTermObligations''),
    (41636, ''LegProtectionTermObligationType''), (41637, ''LegProtectionTermObligationValue''),
    (41638, ''NoLegStreamCalculationPeriodDates''), (41639, ''LegStreamCalculationPeriodDate''),
    (41640, ''LegStreamCalculationPeriodDateType''), (41641, ''LegStreamCalculationPeriodDatesXID''),
    (41642, ''LegStreamCalculationPeriodDatesXIDRef''),
    (41643, ''LegStreamCalculationBalanceOfFirstPeriod''), (41644, ''LegStreamCalculationCorrectionPeriod''),
    (41645, ''LegStreamCalculationCorrectionUnit''), (41646, ''NoLegStreamCommoditySettlBusinessCenters''),
    (41647, ''LegStreamCommoditySettlBusinessCenter''), (41648, ''LegStreamCommodityBase''),
    (41649, ''LegStreamCommodityType''), (41650, ''LegStreamCommoditySecurityID''),
    (41651, ''LegStreamCommoditySecurityIDSource''), (41652, ''LegStreamCommodityDesc''),
    (41653, ''EncodedLegStreamCommodityDescLen''), (41654, ''EncodedLegStreamCommodityDesc''),
    (41655, ''LegStreamCommodityUnitOfMeasure''), (41656, ''LegStreamCommodityCurrency''),
    (41657, ''LegStreamCommodityExchange''), (41658, ''LegStreamCommodityRateSource''),
    (41659, ''LegStreamCommodityRateReferencePage''),
    (41660, ''LegStreamCommodityRateReferencePageHeading''), (41661, ''LegStreamDataProvider''),
    (41662, ''LegStreamCommodityPricingType''), (41663, ''LegStreamCommodityNearbySettlDayPeriod''),
    (41664, ''LegStreamCommodityNearbySettlDayUnit''), (41665, ''LegStreamCommoditySettlDateUnadjusted''),
    (41666, ''LegStreamCommoditySettlDateBusinessDayConvention''),
    (41667, ''LegStreamCommoditySettlDateAdjusted''), (41668, ''LegStreamCommoditySettlMonth''),
    (41669, ''LegStreamCommoditySettlDateRollPeriod''), (41670, ''LegStreamCommoditySettlDateRollUnit''),
    (41671, ''LegStreamCommoditySettlDayType''), (41672, ''LegStreamCommodityXID''),
    (41673, ''LegStreamCommodityXIDRef''), (41674, ''NoLegStreamCommodityAltIDs''),
    (41675, ''LegStreamCommodityAltID''), (41676, ''LegStreamCommodityAltIDSource''),
    (41677, ''NoLegStreamCommodityDataSources''), (41678, ''LegStreamCommodityDataSourceID''),
    (41679, ''LegStreamCommodityDataSourceIDType''), (41680, ''NoLegStreamCommoditySettlDays''),
    (41681, ''LegStreamCommoditySettlDay''), (41682, ''LegStreamCommoditySettlTotalHours''),
    (41683, ''NoLegStreamCommoditySettlTimes''), (41684, ''LegStreamCommoditySettlStart''),
    (41685, ''LegStreamCommoditySettlEnd''), (41686, ''NoLegStreamCommoditySettlPeriods''),
    (41687, ''LegStreamCommoditySettlCountry''), (41688, ''LegStreamCommoditySettlTimeZone''),
    (41689, ''LegStreamCommoditySettlFlowType''), (41690, ''LegStreamCommoditySettlPeriodNotional''),
    (41691, ''LegStreamCommoditySettlPeriodNotionalUnitOfMeasure''),
    (41692, ''LegStreamCommoditySettlPeriodFrequencyPeriod''),
    (41693, ''LegStreamCommoditySettlPeriodFrequencyUnit''), (41694, ''LegStreamCommoditySettlPeriodPrice''),
    (41695, ''LegStreamCommoditySettlPeriodPriceUnitOfMeasure''),
    (41696, ''LegStreamCommoditySettlPeriodPriceCurrency''),
    (41697, ''LegStreamCommoditySettlHolidaysProcessingInstruction''),
    (41698, ''LegStreamCommoditySettlPeriodXID''), (41699, ''LegStreamCommoditySettlPeriodXIDRef''),
    (41700, ''LegStreamXID''), (41701, ''UnderlyingAdditionalTermBondSecurityIDSource''),
    (41702, ''LegStreamNotionalXIDRef''), (41703, ''LegStreamNotionalFrequencyPeriod''),
    (41704, ''LegStreamNotionalFrequencyUnit''), (41705, ''LegStreamNotionalCommodityFrequency''),
    (41706, ''LegStreamNotionalUnitOfMeasure''), (41707, ''LegStreamTotalNotional''),
    (41708, ''LegStreamTotalNotionalUnitOfMeasure''), (41709, ''UnderlyingAdditionalTermBondDesc''),
    (41710, ''EncodedUnderlyingAdditionalTermBondDescLen''),
    (41711, ''EncodedUnderlyingAdditionalTermBondDesc''), (41712, ''UnderlyingAdditionalTermBondCurrency''),
    (41713, ''NoUnderlyingComplexEventAveragingObservations''),
    (41714, ''UnderlyingComplexEventAveragingObservationNumber''),
    (41715, ''UnderlyingComplexEventAveragingWeight''), (41716, ''NoUnderlyingComplexEventCreditEvents''),
    (41717, ''UnderlyingComplexEventCreditEventType''), (41718, ''UnderlyingComplexEventCreditEventValue''),
    (41719, ''UnderlyingComplexEventCreditEventCurrency''),
    (41720, ''UnderlyingComplexEventCreditEventPeriod''), (41721, ''UnderlyingComplexEventCreditEventUnit''),
    (41722, ''UnderlyingComplexEventCreditEventDayType''),
    (41723, ''UnderlyingComplexEventCreditEventRateSource''),
    (41724, ''NoUnderlyingComplexEventCreditEventQualifiers''),
    (41725, ''UnderlyingComplexEventCreditEventQualifier''),
    (41726, ''NoUnderlyingComplexEventPeriodDateTimes''), (41727, ''UnderlyingComplexEventPeriodDate''),
    (41728, ''UnderlyingComplexEventPeriodTime''), (41729, ''NoUnderlyingComplexEventPeriods''),
    (41730, ''UnderlyingComplexEventPeriodType''), (41731, ''UnderlyingComplexEventBusinessCenter''),
    (41732, ''NoUnderlyingComplexEventRateSources''), (41733, ''UnderlyingComplexEventRateSource''),
    (41734, ''UnderlyingComplexEventRateSourceType''), (41735, ''UnderlyingComplexEventReferencePage''),
    (41736, ''UnderlyingComplexEventReferencePageHeading''),
    (41737, ''NoUnderlyingComplexEventDateBusinessCenters''),
    (41738, ''UnderlyingComplexEventDateBusinessCenter''), (41739, ''UnderlyingComplexEventDateUnadjusted''),
    (41740, ''UnderlyingComplexEventDateRelativeTo''), (41741, ''UnderlyingComplexEventDateOffsetPeriod''),
    (41742, ''UnderlyingComplexEventDateOffsetUnit''), (41743, ''UnderlyingComplexEventDateOffsetDayType''),
    (41744, ''UnderlyingComplexEventDateBusinessDayConvention''),
    (41745, ''UnderlyingComplexEventDateAdjusted''), (41746, ''UnderlyingComplexEventFixingTime''),
    (41747, ''UnderlyingComplexEventFixingTimeBusinessCenter''),
    (41748, ''NoUnderlyingComplexEventCreditEventSources'')]"

definition field_names_32 :: "(int \<times> string) list" where
  "field_names_32 = [
    (41749, ''UnderlyingComplexEventCreditEventSource''), (41750, ''NoUnderlyingComplexEventSchedules''),
    (41751, ''UnderlyingComplexEventScheduleStartDate''), (41752, ''UnderlyingComplexEventScheduleEndDate''),
    (41753, ''UnderlyingComplexEventScheduleFrequencyPeriod''),
    (41754, ''UnderlyingComplexEventScheduleFrequencyUnit''),
    (41755, ''UnderlyingComplexEventScheduleRollConvention''), (41756, ''NoUnderlyingDeliverySchedules''),
    (41757, ''UnderlyingDeliveryScheduleType''), (41758, ''UnderlyingDeliveryScheduleXID''),
    (41759, ''UnderlyingDeliveryScheduleNotional''),
    (41760, ''UnderlyingDeliveryScheduleNotionalUnitOfMeasure''),
    (41761, ''UnderlyingDeliveryScheduleNotionalCommodityFrequency''),
    (41762, ''UnderlyingDeliveryScheduleNegativeTolerance''),
    (41763, ''UnderlyingDeliverySchedulePositiveTolerance''),
    (41764, ''UnderlyingDeliveryScheduleToleranceUnitOfMeasure''),
    (41765, ''UnderlyingDeliveryScheduleToleranceType''),
    (41766, ''UnderlyingDeliveryScheduleSettlCountry''),
    (41767, ''UnderlyingDeliveryScheduleSettlTimeZone''),
    (41768, ''UnderlyingDeliveryScheduleSettlFlowType''),
    (41769, ''UnderlyingDeliveryScheduleSettlHolidaysProcessingInstruction''),
    (41770, ''NoUnderlyingDeliveryScheduleSettlDays''), (41771, ''UnderlyingDeliveryScheduleSettlDay''),
    (41772, ''UnderlyingDeliveryScheduleSettlTotalHours''),
    (41773, ''NoUnderlyingDeliveryScheduleSettlTimes''), (41774, ''UnderlyingDeliveryScheduleSettlStart''),
    (41775, ''UnderlyingDeliveryScheduleSettlEnd''), (41776, ''UnderlyingDeliveryScheduleSettlTimeType''),
    (41777, ''UnderlyingDeliveryStreamType''), (41778, ''UnderlyingDeliveryStreamPipeline''),
    (41779, ''UnderlyingDeliveryStreamEntryPoint''), (41780, ''UnderlyingDeliveryStreamWithdrawalPoint''),
    (41781, ''UnderlyingDeliveryStreamDeliveryPoint''),
    (41782, ''UnderlyingDeliveryStreamDeliveryRestriction''),
    (41783, ''UnderlyingDeliveryStreamDeliveryContingency''),
    (41784, ''UnderlyingDeliveryStreamDeliveryContingentPartySide''),
    (41785, ''UnderlyingDeliveryStreamDeliverAtSourceIndicator''),
    (41786, ''UnderlyingDeliveryStreamRiskApportionment''),
    (41787, ''UnderlyingDeliveryStreamTitleTransferLocation''),
    (41788, ''UnderlyingDeliveryStreamTitleTransferCondition''),
    (41789, ''UnderlyingDeliveryStreamImporterOfRecord''),
    (41790, ''UnderlyingDeliveryStreamNegativeTolerance''),
    (41791, ''UnderlyingDeliveryStreamPositiveTolerance''),
    (41792, ''UnderlyingDeliveryStreamToleranceUnitOfMeasure''),
    (41793, ''UnderlyingDeliveryStreamToleranceType''),
    (41794, ''UnderlyingDeliveryStreamToleranceOptionSide''),
    (41795, ''UnderlyingDeliveryStreamTotalPositiveTolerance''),
    (41796, ''UnderlyingDeliveryStreamTotalNegativeTolerance''),
    (41797, ''UnderlyingDeliveryStreamNotionalConversionFactor''),
    (41798, ''UnderlyingDeliveryStreamTransportEquipment''),
    (41799, ''UnderlyingDeliveryStreamElectingPartySide''), (41800, ''NoUnderlyingStreamAssetAttributes''),
    (41801, ''UnderlyingStreamAssetAttributeType''), (41802, ''UnderlyingStreamAssetAttributeValue''),
    (41803, ''UnderlyingStreamAssetAttributeLimit''), (41804, ''NoUnderlyingDeliveryStreamCycles''),
    (41805, ''UnderlyingDeliveryStreamCycleDesc''), (41806, ''EncodedUnderlyingDeliveryStreamCycleDescLen''),
    (41807, ''EncodedUnderlyingDeliveryStreamCycleDesc''),
    (41808, ''NoUnderlyingDeliveryStreamCommoditySources''),
    (41809, ''UnderlyingDeliveryStreamCommoditySource''), (41810, ''UnderlyingExerciseDesc''),
    (41811, ''EncodedUnderlyingExerciseDescLen''), (41812, ''EncodedUnderlyingExerciseDesc''),
    (41813, ''UnderlyingAutomaticExerciseIndicator''), (41814, ''UnderlyingAutomaticExerciseThresholdRate''),
    (41815, ''UnderlyingExerciseConfirmationMethod''), (41816, ''UnderlyingManualNoticeBusinessCenter''),
    (41817, ''UnderlyingFallbackExerciseIndicator''), (41818, ''UnderlyingLimitedRightToConfirmIndicator''),
    (41819, ''UnderlyingExerciseSplitTicketIndicator''),
    (41820, ''NoUnderlyingOptionExerciseBusinessCenters''),
    (41821, ''UnderlyingOptionExerciseBusinessCenter''),
    (41822, ''UnderlyingOptionExerciseBusinessDayConvention''),
    (41823, ''UnderlyingOptionExerciseEarliestDateOffsetDayType''),
    (41824, ''UnderlyingOptionExerciseEarliestDateOffsetPeriod''),
    (41825, ''UnderlyingOptionExerciseEarliestDateOffsetUnit''),
    (41826, ''UnderlyingOptionExerciseFrequencyPeriod''), (41827, ''UnderlyingOptionExerciseFrequencyUnit''),
    (41828, ''UnderlyingOptionExerciseStartDateUnadjusted''),
    (41829, ''UnderlyingOptionExerciseStartDateRelativeTo''),
    (41830, ''UnderlyingOptionExerciseStartDateOffsetPeriod''),
    (41831, ''UnderlyingOptionExerciseStartDateOffsetUnit''),
    (41832, ''UnderlyingOptionExerciseStartDateOffsetDayType''),
    (41833, ''UnderlyingOptionExerciseStartDateAdjusted''), (41834, ''UnderlyingOptionExerciseSkip''),
    (41835, ''UnderlyingOptionExerciseNominationDeadline''),
    (41836, ''UnderlyingOptionExerciseFirstDateUnadjusted''),
    (41837, ''UnderlyingOptionExerciseLastDateUnadjusted''),
    (41838, ''UnderlyingOptionExerciseEarliestTime''), (41839, ''UnderlyingOptionExerciseLatestTime''),
    (41840, ''UnderlyingOptionExerciseTimeBusinessCenter''), (41841, ''NoUnderlyingOptionExerciseDates''),
    (41842, ''UnderlyingOptionExerciseDate''), (41843, ''UnderlyingOptionExerciseDateType''),
    (41844, ''NoUnderlyingOptionExerciseExpirationDateBusinessCenters''),
    (41845, ''UnderlyingOptionExerciseExpirationDateBusinessCenter''),
    (41846, ''UnderlyingOptionExerciseExpirationDateBusinessDayConvention''),
    (41847, ''UnderlyingOptionExerciseExpirationDateRelativeTo''),
    (41848, ''UnderlyingOptionExerciseExpirationDateOffsetPeriod''),
    (41849, ''UnderlyingOptionExerciseExpirationDateOffsetUnit''),
    (41850, ''UnderlyingOptionExerciseExpirationFrequencyPeriod''),
    (41851, ''UnderlyingOptionExerciseExpirationFrequencyUnit''),
    (41852, ''UnderlyingOptionExerciseExpirationRollConvention''),
    (41853, ''UnderlyingOptionExerciseExpirationDateOffsetDayType''),
    (41854, ''UnderlyingOptionExerciseExpirationTime''),
    (41855, ''UnderlyingOptionExerciseExpirationTimeBusinessCenter''),
    (41856, ''NoUnderlyingOptionExerciseExpirationDates''),
    (41857, ''UnderlyingOptionExerciseExpirationDate''),
    (41858, ''UnderlyingOptionExerciseExpirationDateType''),
    (41859, ''UnderlyingMarketDisruptionProvision''),
    (41860, ''UnderlyingMarketDisruptionFallbackProvision''),
    (41861, ''UnderlyingMarketDisruptionMaximumDays''),
    (41862, ''UnderlyingMarketDisruptionMaterialityPercentage''),
    (41863, ''UnderlyingMarketDisruptionMinimumFuturesContracts''),
    (41864, ''NoUnderlyingMarketDisruptionEvents''), (41865, ''UnderlyingMarketDisruptionEvent''),
    (41866, ''NoUnderlyingMarketDisruptionFallbacks''), (41867, ''UnderlyingMarketDisruptionFallbackType''),
    (41868, ''NoUnderlyingMarketDisruptionFallbackReferencePrices''),
    (41869, ''UnderlyingMarketDisruptionFallbackUnderlierType''),
    (41870, ''UnderlyingMarketDisruptionFallbackUnderlierSecurityID''),
    (41871, ''UnderlyingMarketDisruptionFallbackUnderlierSecurityIDSource''),
    (41872, ''UnderlyingMarketDisruptionFallbackUnderlierSecurityDesc''),
    (41873, ''EncodedUnderlyingMarketDisruptionFallbackUnderlierSecDescLen''),
    (41874, ''EncodedUnderlyingMarketDisruptionFallbackUnderlierSecurityDesc''),
    (41875, ''UnderlyingMarketDisruptionFallbackOpenUnits''),
    (41876, ''UnderlyingMarketDisruptionFallbackBasketCurrency''),
    (41877, ''UnderlyingMarketDisruptionFallbackBasketDivisor''),
    (41878, ''NoUnderlyingPaymentScheduleFixingDays''),
    (41879, ''UnderlyingPaymentScheduleFixingDayOfWeek''),
    (41880, ''UnderlyingPaymentScheduleFixingDayNumber''), (41881, ''UnderlyingPaymentScheduleXID''),
    (41882, ''UnderlyingPaymentScheduleXIDRef''), (41883, ''UnderlyingPaymentScheduleRateCurrency''),
    (41884, ''UnderlyingPaymentScheduleRateUnitOfMeasure''),
    (41885, ''UnderlyingPaymentScheduleRateConversionFactor''),
    (41886, ''UnderlyingPaymentScheduleRateSpreadType''),
    (41887, ''UnderlyingPaymentScheduleSettlPeriodPrice''),
    (41888, ''UnderlyingPaymentScheduleSettlPeriodPriceCurrency''),
    (41889, ''UnderlyingPaymentScheduleSettlPeriodPriceUnitOfMeasure''),
    (41890, ''UnderlyingPaymentScheduleStepUnitOfMeasure''),
    (41891, ''UnderlyingPaymentScheduleFixingDayDistribution''),
    (41892, ''UnderlyingPaymentScheduleFixingDayCount''),
    (41893, ''UnderlyingPaymentScheduleFixingLagPeriod''),
    (41894, ''UnderlyingPaymentScheduleFixingLagUnit''),
    (41895, ''UnderlyingPaymentScheduleFixingFirstObservationDateOffsetPeriod''),
    (41896, ''UnderlyingPaymentScheduleFixingFirstObservationDateOffsetUnit''),
    (41897, ''UnderlyingPaymentStreamFlatRateIndicator''),
    (41898, ''UnderlyingPaymentStreamFlatRateAmount'')]"

definition field_names_33 :: "(int \<times> string) list" where
  "field_names_33 = [
    (41899, ''UnderlyingPaymentStreamFlatRateCurrency''),
    (41900, ''UnderlyingPaymentStreamMaximumPaymentAmount''),
    (41901, ''UnderlyingPaymentStreamMaximumPaymentCurrency''),
    (41902, ''UnderlyingPaymentStreamMaximumTransactionAmount''),
    (41903, ''UnderlyingPaymentStreamMaximumTransactionCurrency''),
    (41904, ''UnderlyingPaymentStreamFixedAmountUnitOfMeasure''),
    (41905, ''UnderlyingPaymentStreamTotalFixedAmount''), (41906, ''UnderlyingPaymentStreamWorldScaleRate''),
    (41907, ''UnderlyingPaymentStreamContractPrice''),
    (41908, ''UnderlyingPaymentStreamContractPriceCurrency''),
    (41909, ''NoUnderlyingPaymentStreamPricingBusinessCenters''),
    (41910, ''UnderlyingPaymentStreamPricingBusinessCenter''),
    (41911, ''UnderlyingPaymentStreamRateIndex2CurveUnit''),
    (41912, ''UnderlyingPaymentStreamRateIndex2CurvePeriod''),
    (41913, ''UnderlyingPaymentStreamRateIndexLocation''),
    (41914, ''UnderlyingPaymentStreamRateIndexLevel''),
    (41915, ''UnderlyingPaymentStreamRateIndexUnitOfMeasure''),
    (41916, ''UnderlyingPaymentStreamSettlLevel''), (41917, ''UnderlyingPaymentStreamReferenceLevel''),
    (41918, ''UnderlyingPaymentStreamReferenceLevelUnitOfMeasure''),
    (41919, ''UnderlyingPaymentStreamReferenceLevelEqualsZeroIndicator''),
    (41920, ''UnderlyingPaymentStreamRateSpreadCurrency''),
    (41921, ''UnderlyingPaymentStreamRateSpreadUnitOfMeasure''),
    (41922, ''UnderlyingPaymentStreamRateConversionFactor''),
    (41923, ''UnderlyingPaymentStreamRateSpreadType''), (41924, ''UnderlyingPaymentStreamLastResetRate''),
    (41925, ''UnderlyingPaymentStreamFinalRate''), (41926, ''UnderlyingPaymentStreamCalculationLagPeriod''),
    (41927, ''UnderlyingPaymentStreamCalculationLagUnit''),
    (41928, ''UnderlyingPaymentStreamFirstObservationDateOffsetPeriod''),
    (41929, ''UnderlyingPaymentStreamFirstObservationDateOffsetUnit''),
    (41930, ''UnderlyingPaymentStreamPricingDayType''),
    (41931, ''UnderlyingPaymentStreamPricingDayDistribution''),
    (41932, ''UnderlyingPaymentStreamPricingDayCount''),
    (41933, ''UnderlyingPaymentStreamPricingBusinessCalendar''),
    (41934, ''UnderlyingPaymentStreamPricingBusinessDayConvention''),
    (41935, ''LegStreamCommoditySettlTimeType''), (41936, ''UnderlyingStreamCommoditySettlTimeType''),
    (41937, ''NoUnderlyingPaymentStreamPaymentDates''), (41938, ''UnderlyingPaymentStreamPaymentDate''),
    (41939, ''UnderlyingPaymentStreamPaymentDateType''),
    (41940, ''UnderlyingPaymentStreamMasterAgreementPaymentDatesIndicator''),
    (41941, ''NoUnderlyingPaymentStreamPricingDates''), (41942, ''UnderlyingPaymentStreamPricingDate''),
    (41943, ''UnderlyingPaymentStreamPricingDateType''), (41944, ''NoUnderlyingPaymentStreamPricingDays''),
    (41945, ''UnderlyingPaymentStreamPricingDayOfWeek''),
    (41946, ''UnderlyingPaymentStreamPricingDayNumber''),
    (41947, ''NoUnderlyingPricingDateBusinessCenters''), (41948, ''UnderlyingPricingDateBusinessCenter''),
    (41949, ''UnderlyingPricingDateUnadjusted''), (41950, ''UnderlyingPricingDateBusinessDayConvention''),
    (41951, ''UnderlyingPricingDateAdjusted''), (41952, ''UnderlyingPricingTime''),
    (41953, ''UnderlyingPricingTimeBusinessCenter''), (41954, ''NoUnderlyingStreamCalculationPeriodDates''),
    (41955, ''UnderlyingStreamCalculationPeriodDate''),
    (41956, ''UnderlyingStreamCalculationPeriodDateType''),
    (41957, ''UnderlyingStreamCalculationPeriodDatesXID''),
    (41958, ''UnderlyingStreamCalculationPeriodDatesXIDRef''),
    (41959, ''UnderlyingStreamCalculationBalanceOfFirstPeriod''),
    (41960, ''UnderlyingStreamCalculationCorrectionPeriod''),
    (41961, ''UnderlyingStreamCalculationCorrectionUnit''),
    (41962, ''NoUnderlyingStreamCommoditySettlBusinessCenters''),
    (41963, ''UnderlyingStreamCommoditySettlBusinessCenter''), (41964, ''UnderlyingStreamCommodityBase''),
    (41965, ''UnderlyingStreamCommodityType''), (41966, ''UnderlyingStreamCommoditySecurityID''),
    (41967, ''UnderlyingStreamCommoditySecurityIDSource''), (41968, ''UnderlyingStreamCommodityDesc''),
    (41969, ''EncodedUnderlyingStreamCommodityDescLen''), (41970, ''EncodedUnderlyingStreamCommodityDesc''),
    (41971, ''UnderlyingStreamCommodityUnitOfMeasure''), (41972, ''UnderlyingStreamCommodityCurrency''),
    (41973, ''UnderlyingStreamCommodityExchange''), (41974, ''UnderlyingStreamCommodityRateSource''),
    (41975, ''UnderlyingStreamCommodityRateReferencePage''),
    (41976, ''UnderlyingStreamCommodityRateReferencePageHeading''),
    (41977, ''UnderlyingStreamDataProvider''), (41978, ''UnderlyingStreamCommodityPricingType''),
    (41979, ''UnderlyingStreamCommodityNearbySettlDayPeriod''),
    (41980, ''UnderlyingStreamCommodityNearbySettlDayUnit''),
    (41981, ''UnderlyingStreamCommoditySettlDateUnadjusted''),
    (41982, ''UnderlyingStreamCommoditySettlDateBusinessDayConvention''),
    (41983, ''UnderlyingStreamCommoditySettlDateAdjusted''),
    (41984, ''UnderlyingStreamCommoditySettlMonth''),
    (41985, ''UnderlyingStreamCommoditySettlDateRollPeriod''),
    (41986, ''UnderlyingStreamCommoditySettlDateRollUnit''),
    (41987, ''UnderlyingStreamCommoditySettlDayType''), (41988, ''UnderlyingStreamCommodityXID''),
    (41989, ''UnderlyingStreamCommodityXIDRef''), (41990, ''NoUnderlyingStreamCommodityAltIDs''),
    (41991, ''UnderlyingStreamCommodityAltID''), (41992, ''UnderlyingStreamCommodityAltIDSource''),
    (41993, ''NoUnderlyingStreamCommodityDataSources''), (41994, ''UnderlyingStreamCommodityDataSourceID''),
    (41995, ''UnderlyingStreamCommodityDataSourceIDType''),
    (41996, ''NoUnderlyingStreamCommoditySettlDays''), (41997, ''UnderlyingStreamCommoditySettlDay''),
    (41998, ''UnderlyingStreamCommoditySettlTotalHours''),
    (41999, ''NoUnderlyingStreamCommoditySettlTimes''), (42000, ''UnderlyingStreamCommoditySettlStart''),
    (42001, ''UnderlyingStreamCommoditySettlEnd''), (42002, ''NoUnderlyingStreamCommoditySettlPeriods''),
    (42003, ''UnderlyingStreamCommoditySettlCountry''), (42004, ''UnderlyingStreamCommoditySettlTimeZone''),
    (42005, ''UnderlyingStreamCommoditySettlFlowType''),
    (42006, ''UnderlyingStreamCommoditySettlPeriodNotional''),
    (42007, ''UnderlyingStreamCommoditySettlPeriodNotionalUnitOfMeasure''),
    (42008, ''UnderlyingStreamCommoditySettlPeriodFrequencyPeriod''),
    (42009, ''UnderlyingStreamCommoditySettlPeriodFrequencyUnit''),
    (42010, ''UnderlyingStreamCommoditySettlPeriodPrice''),
    (42011, ''UnderlyingStreamCommoditySettlPeriodPriceUnitOfMeasure''),
    (42012, ''UnderlyingStreamCommoditySettlPeriodPriceCurrency''),
    (42013, ''UnderlyingStreamCommoditySettlHolidaysProcessingInstruction''),
    (42014, ''UnderlyingStreamCommoditySettlPeriodXID''),
    (42015, ''UnderlyingStreamCommoditySettlPeriodXIDRef''), (42016, ''UnderlyingStreamXID''),
    (42017, ''UnderlyingAdditionalTermBondIssuer''), (42018, ''UnderlyingStreamNotionalXIDRef''),
    (42019, ''UnderlyingStreamNotionalFrequencyPeriod''), (42020, ''UnderlyingStreamNotionalFrequencyUnit''),
    (42021, ''UnderlyingStreamNotionalCommodityFrequency''),
    (42022, ''UnderlyingStreamNotionalUnitOfMeasure''), (42023, ''UnderlyingStreamTotalNotional''),
    (42024, ''UnderlyingStreamTotalNotionalUnitOfMeasure''),
    (42025, ''EncodedUnderlyingAdditionalTermBondIssuerLen''),
    (42026, ''EncodedUnderlyingAdditionalTermBondIssuer''),
    (42027, ''UnderlyingAdditionalTermBondSeniority''), (42028, ''UnderlyingAdditionalTermBondCouponType''),
    (42029, ''UnderlyingAdditionalTermBondCouponRate''),
    (42030, ''UnderlyingAdditionalTermBondMaturityDate''), (42031, ''UnderlyingAdditionalTermBondParValue''),
    (42032, ''UnderlyingAdditionalTermBondCurrentTotalIssuedAmount''),
    (42033, ''UnderlyingAdditionalTermBondCouponFrequencyPeriod''),
    (42034, ''UnderlyingAdditionalTermBondCouponFrequencyUnit''),
    (42035, ''UnderlyingAdditionalTermBondDayCount''), (42036, ''NoUnderlyingAdditionalTerms''),
    (42037, ''UnderlyingAdditionalTermConditionPrecedentBondIndicator''),
    (42038, ''UnderlyingAdditionalTermDiscrepancyClauseIndicator''),
    (42039, ''NoUnderlyingCashSettlDealers''), (42040, ''UnderlyingCashSettlDealer''),
    (42041, ''NoUnderlyingCashSettlTerms''), (42042, ''UnderlyingCashSettlCurrency''),
    (42043, ''UnderlyingCashSettlValuationFirstBusinessDayOffset''),
    (42044, ''UnderlyingCashSettlValuationSubsequentBusinessDaysOffset''),
    (42045, ''UnderlyingCashSettlNumOfValuationDates''), (42046, ''UnderlyingCashSettlValuationTime''),
    (42047, ''UnderlyingCashSettlBusinessCenter''), (42048, ''UnderlyingCashSettlQuoteMethod'')]"

definition field_names_34 :: "(int \<times> string) list" where
  "field_names_34 = [
    (42049, ''UnderlyingCashSettlQuoteAmount''), (42050, ''UnderlyingCashSettlQuoteCurrency''),
    (42051, ''UnderlyingCashSettlMinimumQuoteAmount''), (42052, ''UnderlyingCashSettlMinimumQuoteCurrency''),
    (42053, ''UnderlyingCashSettlBusinessDays''), (42054, ''UnderlyingCashSettlAmount''),
    (42055, ''UnderlyingCashSettlRecoveryFactor''), (42056, ''UnderlyingCashSettlFixedTermIndicator''),
    (42057, ''UnderlyingCashSettlAccruedInterestIndicator''),
    (42058, ''UnderlyingCashSettlValuationMethod''), (42059, ''UnderlyingCashSettlTermXID''),
    (42060, ''NoUnderlyingPhysicalSettlTerms''), (42061, ''UnderlyingPhysicalSettlCurrency''),
    (42062, ''UnderlyingPhysicalSettlBusinessDays''),
    (42063, ''UnderlyingPhysicalSettlMaximumBusinessDays''), (42064, ''UnderlyingPhysicalSettlTermXID''),
    (42065, ''NoUnderlyingPhysicalSettlDeliverableObligations''),
    (42066, ''UnderlyingPhysicalSettlDeliverableObligationType''),
    (42067, ''UnderlyingPhysicalSettlDeliverableObligationValue''), (42068, ''NoUnderlyingProtectionTerms''),
    (42069, ''UnderlyingProtectionTermNotional''), (42070, ''UnderlyingProtectionTermCurrency''),
    (42071, ''UnderlyingProtectionTermSellerNotifies''), (42072, ''UnderlyingProtectionTermBuyerNotifies''),
    (42073, ''UnderlyingProtectionTermEventBusinessCenter''),
    (42074, ''UnderlyingProtectionTermStandardSources''),
    (42075, ''UnderlyingProtectionTermEventMinimumSources''), (42076, ''UnderlyingProtectionTermXID''),
    (42077, ''NoUnderlyingProtectionTermEvents''), (42078, ''UnderlyingProtectionTermEventType''),
    (42079, ''UnderlyingProtectionTermEventValue''), (42080, ''UnderlyingProtectionTermEventCurrency''),
    (42081, ''UnderlyingProtectionTermEventPeriod''), (42082, ''UnderlyingProtectionTermEventUnit''),
    (42083, ''UnderlyingProtectionTermEventDayType''), (42084, ''UnderlyingProtectionTermEventRateSource''),
    (42085, ''NoUnderlyingProtectionTermEventQualifiers''),
    (42086, ''UnderlyingProtectionTermEventQualifier''), (42087, ''NoUnderlyingProtectionTermObligations''),
    (42088, ''UnderlyingProtectionTermObligationType''),
    (42089, ''UnderlyingProtectionTermObligationValue''),
    (42090, ''NoUnderlyingProtectionTermEventNewsSources''),
    (42091, ''UnderlyingProtectionTermEventNewsSource''),
    (42092, ''UnderlyingProvisionCashSettlPaymentDateBusinessDayConvention''),
    (42093, ''UnderlyingProvisionCashSettlPaymentDateRelativeTo''),
    (42094, ''UnderlyingProvisionCashSettlPaymentDateOffsetPeriod''),
    (42095, ''UnderlyingProvisionCashSettlPaymentDateOffsetUnit''),
    (42096, ''UnderlyingProvisionCashSettlPaymentDateOffsetDayType''),
    (42097, ''UnderlyingProvisionCashSettlPaymentDateRangeFirst''),
    (42098, ''UnderlyingProvisionCashSettlPaymentDateRangeLast''),
    (42099, ''NoUnderlyingProvisionCashSettlPaymentDates''),
    (42100, ''UnderlyingProvisionCashSettlPaymentDate''),
    (42101, ''UnderlyingProvisionCashSettlPaymentDateType''),
    (42102, ''UnderlyingProvisionCashSettlQuoteSource''),
    (42103, ''UnderlyingProvisionCashSettlQuoteReferencePage''),
    (42104, ''UnderlyingProvisionCashSettlValueTime''),
    (42105, ''UnderlyingProvisionCashSettlValueTimeBusinessCenter''),
    (42106, ''UnderlyingProvisionCashSettlValueDateBusinessDayConvention''),
    (42107, ''UnderlyingProvisionCashSettlValueDateRelativeTo''),
    (42108, ''UnderlyingProvisionCashSettlValueDateOffsetPeriod''),
    (42109, ''UnderlyingProvisionCashSettlValueDateOffsetUnit''),
    (42110, ''UnderlyingProvisionCashSettlValueDateOffsetDayType''),
    (42111, ''UnderlyingProvisionCashSettlValueDateAdjusted''),
    (42112, ''NoUnderlyingProvisionOptionExerciseFixedDates''),
    (42113, ''UnderlyingProvisionOptionExerciseFixedDate''),
    (42114, ''UnderlyingProvisionOptionExerciseFixedDateType''),
    (42115, ''UnderlyingProvisionOptionExerciseBusinessDayConvention''),
    (42116, ''UnderlyingProvisionOptionExerciseEarliestDateOffsetPeriod''),
    (42117, ''UnderlyingProvisionOptionExerciseEarliestDateOffsetUnit''),
    (42118, ''UnderlyingProvisionOptionExerciseFrequencyPeriod''),
    (42119, ''UnderlyingProvisionOptionExerciseFrequencyUnit''),
    (42120, ''UnderlyingProvisionOptionExerciseStartDateUnadjusted''),
    (42121, ''UnderlyingProvisionOptionExerciseStartDateRelativeTo''),
    (42122, ''UnderlyingProvisionOptionExerciseStartDateOffsetPeriod''),
    (42123, ''UnderlyingProvisionOptionExerciseStartDateOffsetUnit''),
    (42124, ''UnderlyingProvisionOptionExerciseStartDateOffsetDayType''),
    (42125, ''UnderlyingProvisionOptionExerciseStartDateAdjusted''),
    (42126, ''UnderlyingProvisionOptionExercisePeriodSkip''),
    (42127, ''UnderlyingProvisionOptionExerciseBoundsFirstDateUnadjusted''),
    (42128, ''UnderlyingProvisionOptionExerciseBoundsLastDateUnadjusted''),
    (42129, ''UnderlyingProvisionOptionExerciseEarliestTime''),
    (42130, ''UnderlyingProvisionOptionExerciseEarliestTimeBusinessCenter''),
    (42131, ''UnderlyingProvisionOptionExerciseLatestTime''),
    (42132, ''UnderlyingProvisionOptionExerciseLatestTimeBusinessCenter''),
    (42133, ''UnderlyingProvisionOptionExpirationDateUnadjusted''),
    (42134, ''UnderlyingProvisionOptionExpirationDateBusinessDayConvention''),
    (42135, ''UnderlyingProvisionOptionExpirationDateRelativeTo''),
    (42136, ''UnderlyingProvisionOptionExpirationDateOffsetPeriod''),
    (42137, ''UnderlyingProvisionOptionExpirationDateOffsetUnit''),
    (42138, ''UnderlyingProvisionOptionExpirationDateOffsetDayType''),
    (42139, ''UnderlyingProvisionOptionExpirationDateAdjusted''),
    (42140, ''UnderlyingProvisionOptionExpirationTime''),
    (42141, ''UnderlyingProvisionOptionExpirationTimeBusinessCenter''),
    (42142, ''UnderlyingProvisionOptionRelevantUnderlyingDateUnadjusted''),
    (42143, ''UnderlyingProvisionOptionRelevantUnderlyingDateBizDayConvention''),
    (42144, ''UnderlyingProvisionOptionRelevantUnderlyingDateRelativeTo''),
    (42145, ''UnderlyingProvisionOptionRelevantUnderlyingDateOffsetPeriod''),
    (42146, ''UnderlyingProvisionOptionRelevantUnderlyingDateOffsetUnit''),
    (42147, ''UnderlyingProvisionOptionRelevantUnderlyingDateOffsetDayType''),
    (42148, ''UnderlyingProvisionOptionRelevantUnderlyingDateAdjusted''),
    (42149, ''NoUnderlyingProvisions''), (42150, ''UnderlyingProvisionType''),
    (42151, ''UnderlyingProvisionDateUnadjusted''),
    (42152, ''UnderlyingProvisionDateBusinessDayConvention''), (42153, ''UnderlyingProvisionDateAdjusted''),
    (42154, ''UnderlyingProvisionDateTenorPeriod''), (42155, ''UnderlyingProvisionDateTenorUnit''),
    (42156, ''UnderlyingProvisionCalculationAgent''),
    (42157, ''UnderlyingProvisionOptionSinglePartyBuyerSide''),
    (42158, ''UnderlyingProvisionOptionSinglePartySellerSide''),
    (42159, ''UnderlyingProvisionOptionExerciseStyle''),
    (42160, ''UnderlyingProvisionOptionExerciseMultipleNotional''),
    (42161, ''UnderlyingProvisionOptionExerciseMinimumNotional''),
    (42162, ''UnderlyingProvisionOptionExerciseMaximumNotional''),
    (42163, ''UnderlyingProvisionOptionMinimumNumber''), (42164, ''UnderlyingProvisionOptionMaximumNumber''),
    (42165, ''UnderlyingProvisionOptionExerciseConfirmation''),
    (42166, ''UnderlyingProvisionCashSettlMethod''), (42167, ''UnderlyingProvisionCashSettlCurrency''),
    (42168, ''UnderlyingProvisionCashSettlCurrency2''), (42169, ''UnderlyingProvisionCashSettlQuoteType''),
    (42170, ''UnderlyingProvisionText''), (42171, ''EncodedUnderlyingProvisionTextLen''),
    (42172, ''EncodedUnderlyingProvisionText''), (42173, ''NoUnderlyingProvisionPartyIDs''),
    (42174, ''UnderlyingProvisionPartyID''), (42175, ''UnderlyingProvisionPartyIDSource''),
    (42176, ''UnderlyingProvisionPartyRole''), (42177, ''NoUnderlyingProvisionPartySubIDs''),
    (42178, ''UnderlyingProvisionPartySubID''), (42179, ''UnderlyingProvisionPartySubIDType''),
    (42180, ''NoUnderlyingProvisionCashSettlPaymentDateBusinessCenters''),
    (42181, ''UnderlyingProvisionCashSettlPaymentDateBusinessCenter''),
    (42182, ''NoUnderlyingProvisionCashSettlValueDateBusinessCenters''),
    (42183, ''UnderlyingProvisionCashSettlValueDateBusinessCenter''),
    (42184, ''NoUnderlyingProvisionOptionExerciseBusinessCenters''),
    (42185, ''UnderlyingProvisionOptionExerciseBusinessCenter''),
    (42186, ''NoUnderlyingProvisionOptionExpirationDateBusinessCenters''),
    (42187, ''UnderlyingProvisionOptionExpirationDateBusinessCenter''),
    (42188, ''NoUnderlyingProvisionOptionRelevantUnderlyingDateBusinessCenters''),
    (42189, ''UnderlyingProvisionOptionRelevantUnderlyingDateBusinessCenter''),
    (42190, ''NoUnderlyingProvisionDateBusinessCenters''),
    (42191, ''UnderlyingProvisionDateBusinessCenter''), (42192, ''DeliveryStreamDeliveryPointSource''),
    (42193, ''DeliveryStreamDeliveryPointDesc''), (42194, ''LegDeliveryStreamDeliveryPointSource''),
    (42195, ''LegDeliveryStreamDeliveryPointDesc''),
    (42196, ''UnderlyingDeliveryStreamDeliveryPointSource''),
    (42197, ''UnderlyingDeliveryStreamDeliveryPointDesc''), (42198, ''NoLegContractualDefinitions'')]"

definition field_names_35 :: "(int \<times> string) list" where
  "field_names_35 = [
    (42199, ''LegContractualDefinition''), (42200, ''NoLegFinancingTermSupplements''),
    (42201, ''LegFinancingTermSupplementDesc''), (42202, ''LegFinancingTermSupplementDate''),
    (42203, ''NoLegContractualMatrices''), (42204, ''LegContractualMatrixSource''),
    (42205, ''LegContractualMatrixDate''), (42206, ''LegContractualMatrixTerm''),
    (42207, ''CashSettlDateUnadjusted''), (42208, ''CashSettlDateBusinessDayConvention''),
    (42209, ''CashSettlDateRelativeTo''), (42210, ''CashSettlDateOffsetPeriod''),
    (42211, ''CashSettlDateOffsetUnit''), (42212, ''CashSettlDateOffsetDayType''),
    (42213, ''CashSettlDateAdjusted''), (42214, ''NoCashSettlDateBusinessCenters''),
    (42215, ''CashSettlDateBusinessCenter''), (42216, ''CashSettlPriceSource''),
    (42217, ''CashSettlPriceDefault''), (42218, ''DividendFloatingRateIndex''),
    (42219, ''DividendFloatingRateIndexCurvePeriod''), (42220, ''DividendFloatingRateIndexCurveUnit''),
    (42221, ''DividendFloatingRateMultiplier''), (42222, ''DividendFloatingRateSpread''),
    (42223, ''DividendFloatingRateSpreadPositionType''), (42224, ''DividendFloatingRateTreatment''),
    (42225, ''DividendCapRate''), (42226, ''DividendCapRateBuySide''), (42227, ''DividendCapRateSellSide''),
    (42228, ''DividendFloorRate''), (42229, ''DividendFloorRateBuySide''),
    (42230, ''DividendFloorRateSellSide''), (42231, ''DividendInitialRate''),
    (42232, ''DividendFinalRateRoundingDirection''), (42233, ''DividendFinalRatePrecision''),
    (42234, ''DividendAveragingMethod''), (42235, ''DividendNegativeRateTreatment''),
    (42236, ''NoDividendAccrualPaymentDateBusinessCenters''),
    (42237, ''DividendAccrualPaymentDateBusinessCenter''), (42238, ''DividendAccrualPaymentDateRelativeTo''),
    (42239, ''DividendAccrualPaymentDateOffsetPeriod''), (42240, ''DividendAccrualPaymentDateOffsetUnit''),
    (42241, ''DividendAccrualPaymentDateOffsetDayType''), (42242, ''DividendAccrualPaymentDateUnadjusted''),
    (42243, ''DividendAccrualPaymeentDateBusinessDayConvention''),
    (42244, ''DividendAccrualPaymentDateAdjusted''), (42245, ''DividendReinvestmentIndicator''),
    (42246, ''DividendEntitlementEvent''), (42247, ''DividendAmountType''),
    (42248, ''DividendUnderlierRefID''), (42249, ''ExtraordinaryDividendPartySide''),
    (42250, ''ExtraordinaryDividendAmountType''), (42251, ''ExtraordinaryDividendCurrency''),
    (42252, ''ExtraordinaryDividendDeterminationMethod''), (42253, ''DividendAccrualFixedRate''),
    (42254, ''DividendCompoundingMethod''), (42255, ''DividendNumOfIndexUnits''),
    (42256, ''DividendCashPercentage''), (42257, ''DividendCashEquivalentPercentage''),
    (42258, ''NonCashDividendTreatment''), (42259, ''DividendComposition''),
    (42260, ''SpecialDividendsIndicator''), (42261, ''MaterialDividendsIndicator''),
    (42262, ''OptionsExchangeDividendsIndicator''), (42263, ''AdditionalDividendsIndicator''),
    (42264, ''AllDividendsIndicator''), (42265, ''DividendFXTriggerDateRelativeTo''),
    (42266, ''DividendFXTriggerDateOffsetPeriod''), (42267, ''DividendFXTriggerDateOffsetUnit''),
    (42268, ''DividendFXTriggerDateOffsetDayType''), (42269, ''DividendFXTriggerDateUnadjusted''),
    (42270, ''DividendFXTriggerDateBusinessDayConvention''), (42271, ''DividendFXTriggerDateAdjusted''),
    (42272, ''NoDividendFXTriggerDateBusinessCenters''), (42273, ''DividendFXTriggerDateBusinessCenter''),
    (42274, ''NoDividendPeriods''), (42275, ''DividendPeriodSequence''),
    (42276, ''DividendPeriodStartDateUnadjusted''), (42277, ''DividendPeriodEndDateUnadjusted''),
    (42278, ''DividendPeriodUnderlierRefID''), (42279, ''DividendPeriodStrikePrice''),
    (42280, ''DividendPeriodBusinessDayConvention''), (42281, ''DividendPeriodValuationDateUnadjusted''),
    (42282, ''DividendPeriodValuationDateRelativeTo''), (42283, ''DividendPeriodValuationDateOffsetPeriod''),
    (42284, ''DividendPeriodValuationDateOffsetUnit''),
    (42285, ''DividendPeriodValuationDateOffsetDayType''), (42286, ''DividendPeriodValuationDateAdjusted''),
    (42287, ''DividendPeriodPaymentDateUnadjusted''), (42288, ''DividendPeriodPaymentDateRelativeTo''),
    (42289, ''DividendPeriodPaymentDateOffsetPeriod''), (42290, ''DividendPeriodPaymentDateOffsetUnit''),
    (42291, ''DividendPeriodPaymentDateOffsetDayType''), (42292, ''DividendPeriodPaymentDateAdjusted''),
    (42293, ''DividendPeriodXID''), (42294, ''NoDividendPeriodBusinessCenters''),
    (42295, ''DividendPeriodBusinessCenter''), (42296, ''NoExtraordinaryEvents''),
    (42297, ''ExtraordinaryEventType''), (42298, ''ExtraordinaryEventValue''),
    (42299, ''LegCashSettlDateUnadjusted''), (42300, ''LegCashSettlDateBusinessDayConvention''),
    (42301, ''LegCashSettlDateRelativeTo''), (42302, ''LegCashSettlDateOffsetPeriod''),
    (42303, ''LegCashSettlDateOffsetUnit''), (42304, ''LegCashSettlDateOffsetDayType''),
    (42305, ''LegCashSettlDateAdjusted''), (42306, ''NoLegCashSettlDateBusinessCenters''),
    (42307, ''LegCashSettlDateBusinessCenter''), (42308, ''LegCashSettlPriceSource''),
    (42309, ''LegCashSettlPriceDefault''), (42310, ''NoLegDividendAccrualPaymentDateBusinessCenters''),
    (42311, ''LegDividendAccrualPaymentDateBusinessCenter''), (42312, ''LegDividendFloatingRateIndex''),
    (42313, ''LegDividendFloatingRateIndexCurvePeriod''), (42314, ''LegDividendFloatingRateIndexCurveUnit''),
    (42315, ''LegDividendFloatingRateMultiplier''), (42316, ''LegDividendFloatingRateSpread''),
    (42317, ''LegDividendFloatingRateSpreadPositionType''), (42318, ''LegDividendFloatingRateTreatment''),
    (42319, ''LegDividendCapRate''), (42320, ''LegDividendCapRateBuySide''),
    (42321, ''LegDividendCapRateSellSide''), (42322, ''LegDividendFloorRate''),
    (42323, ''LegDividendFloorRateBuySide''), (42324, ''LegDividendFloorRateSellSide''),
    (42325, ''LegDividendInitialRate''), (42326, ''LegDividendFinalRateRoundingDirection''),
    (42327, ''LegDividendFinalRatePrecision''), (42328, ''LegDividendAveragingMethod''),
    (42329, ''LegDividendNegativeRateTreatment''), (42330, ''LegDividendAccrualPaymentDateRelativeTo''),
    (42331, ''LegDividendAccrualPaymentDateOffsetPeriod''),
    (42332, ''LegDividendAccrualPaymentDateOffsetUnit''),
    (42333, ''LegDividendAccrualPaymentDateOffsetDayType''),
    (42334, ''LegDividendAccrualPaymentDateUnadjusted''),
    (42335, ''LegDividendAccrualPaymentDateBusinessDayConvention''),
    (42336, ''LegDividendAccrualPaymentDateAdjusted''), (42337, ''LegDividendReinvestmentIndicator''),
    (42338, ''LegDividendEntitlementEvent''), (42339, ''LegDividendAmountType''),
    (42340, ''LegDividendUnderlierRefID''), (42341, ''LegExtraordinaryDividendPartySide''),
    (42342, ''LegExtraordinaryDividendAmountType''), (42343, ''LegExtraordinaryDividendCurrency''),
    (42344, ''LegExtraordinaryDividendDeterminationMethod''), (42345, ''LegDividendAccrualFixedRate''),
    (42346, ''LegDividendCompoundingMethod''), (42347, ''LegDividendNumOfIndexUnits''),
    (42348, ''LegDividendCashPercentage'')]"

definition field_names_36 :: "(int \<times> string) list" where
  "field_names_36 = [
    (42349, ''LegDividendCashEquivalentPercentage''), (42350, ''LegNonCashDividendTreatment''),
    (42351, ''LegDividendComposition''), (42352, ''LegSpecialDividendsIndicator''),
    (42353, ''LegMaterialDividendsIndicator''), (42354, ''LegOptionsExchangeDividendsIndicator''),
    (42355, ''LegAdditionalDividendsIndicator''), (42356, ''LegAllDividendsIndicator''),
    (42357, ''LegDividendFXTriggerDateRelativeTo''), (42358, ''LegDividendFXTriggerDateOffsetPeriod''),
    (42359, ''LegDividendFXTriggerDateOffsetUnit''), (42360, ''LegDividendFXTriggerDateOffsetDayType''),
    (42361, ''LegDividendFXTriggerDateUnadjusted''),
    (42362, ''LegDividendFXTriggerDateBusinessDayConvention''),
    (42363, ''LegDividendFXTriggerDateAdjusted''), (42364, ''NoLegDividendFXTriggerDateBusinessCenters''),
    (42365, ''LegDividendFXTriggerDateBusinessCenter''), (42366, ''NoLegDividendPeriods''),
    (42367, ''LegDividendPeriodSequence''), (42368, ''LegDividendPeriodStartDateUnadjusted''),
    (42369, ''LegDividendPeriodEndDateUnadjusted''), (42370, ''LegDividendPeriodUnderlierRefID''),
    (42371, ''LegDividendPeriodStrikePrice''), (42372, ''LegDividendPeriodBusinessDayConvention''),
    (42373, ''LegDividendPeriodValuationDateUnadjusted''),
    (42374, ''LegDividendPeriodValuationDateRelativeTo''),
    (42375, ''LegDividendPeriodValuationDateOffsetPeriod''),
    (42376, ''LegDividendPeriodValuationDateOffsetUnit''),
    (42377, ''LegDividendPeriodValuationDateOffsetDayType''),
    (42378, ''LegDividendPeriodValuationDateAdjusted''), (42379, ''LegDividendPeriodPaymentDateUnadjusted''),
    (42380, ''LegDividendPeriodPaymentDateRelativeTo''),
    (42381, ''LegDividendPeriodPaymentDateOffsetPeriod''),
    (42382, ''LegDividendPeriodPaymentDateOffsetUnit''),
    (42383, ''LegDividendPeriodPaymentDateOffsetDayType''),
    (42384, ''LegDividendPeriodPaymentDateAdjusted''), (42385, ''LegDividendPeriodXID''),
    (42386, ''NoLegDividendPeriodBusinessCenters''), (42387, ''LegDividendPeriodBusinessCenter''),
    (42388, ''NoLegExtraordinaryEvents''), (42389, ''LegExtraordinaryEventType''),
    (42390, ''LegExtraordinaryEventValue''), (42391, ''LegSettlMethodElectingPartySide''),
    (42392, ''LegMakeWholeDate''), (42393, ''LegMakeWholeAmount''),
    (42394, ''LegMakeWholeBenchmarkCurveName''), (42395, ''LegMakeWholeBenchmarkCurvePoint''),
    (42396, ''LegMakeWholeRecallSpread''), (42397, ''LegMakeWholeBenchmarkQuote''),
    (42398, ''LegMakeWholeInterpolationMethod''), (42399, ''LegPaymentStreamCashSettlIndicator''),
    (42400, ''LegPaymentStreamCompoundingXIDRef''), (42401, ''LegPaymentStreamCompoundingSpread''),
    (42402, ''LegPaymentStreamInterpolationMethod''), (42403, ''LegPaymentStreamInterpolationPeriod''),
    (42404, ''LegPaymentStreamCompoundingFixedRate''), (42405, ''NoLegPaymentStreamCompoundingDates''),
    (42406, ''LegPaymentStreamCompoundingDate''), (42407, ''LegPaymentStreamCompoundingDateType''),
    (42408, ''LegPaymentStreamCompoundingDatesBusinessDayConvention''),
    (42409, ''LegPaymentStreamCompoundingDatesRelativeTo''),
    (42410, ''LegPaymentStreamCompoundingDatesOffsetPeriod''),
    (42411, ''LegPaymentStreamCompoundingDatesOffsetUnit''),
    (42412, ''LegPaymentStreamCompoundingDatesOffsetDayType''),
    (42413, ''LegPaymentStreamCompoundingPeriodSkip''),
    (42414, ''LegPaymentStreamCompoundingFrequencyPeriod''),
    (42415, ''LegPaymentStreamCompoundingFrequencyUnit''),
    (42416, ''LegPaymentStreamCompoundingRollConvention''),
    (42417, ''LegPaymentStreamBoundsFirstDateUnadjusted''),
    (42418, ''LegPaymentStreamBoundsLastDateUnadjusted''),
    (42419, ''NoLegPaymentStreamCompoundingDatesBusinessCenters''),
    (42420, ''LegPaymentStreamCompoundingDatesBusinessCenter''),
    (42421, ''LegPaymentStreamCompoundingEndDateUnadjusted''),
    (42422, ''LegPaymentStreamCompoundingEndDateRelativeTo''),
    (42423, ''LegPaymentStreamCompoundingEndDateOffsetPeriod''),
    (42424, ''LegPaymentStreamCompoundingEndDateOffsetUnit''),
    (42425, ''LegPaymentStreamCompoundingEndDateOffsetDayType''),
    (42426, ''LegPaymentStreamCompoundingEndDateAdjusted''),
    (42427, ''LegPaymentStreamCompoundingRateIndex''),
    (42428, ''LegPaymentStreamCompoundingRateIndexCurvePeriod''),
    (42429, ''LegPaymentStreamCompoundingRateIndexCurveUnit''),
    (42430, ''LegPaymentStreamCompoundingRateMultiplier''),
    (42431, ''LegPaymentStreamCompoundingRateSpread''),
    (42432, ''LegPaymentStreamCompoundingRateSpreadPositionType''),
    (42433, ''LegPaymentStreamCompoundingRateTreatment''), (42434, ''LegPaymentStreamCompoundingCapRate''),
    (42435, ''LegPaymentStreamCompoundingCapRateBuySide''),
    (42436, ''LegPaymentStreamCompoundingCapRateSellSide''),
    (42437, ''LegPaymentStreamCompoundingFloorRate''),
    (42438, ''LegPaymentStreamCompoundingFloorRateBuySide''),
    (42439, ''LegPaymentStreamCompoundingFloorRateSellSide''),
    (42440, ''LegPaymentStreamCompoundingInitialRate''),
    (42441, ''LegPaymentStreamCompoundingFinalRateRoundingDirection''),
    (42442, ''LegPaymentStreamCompoundingFinalRatePrecision''),
    (42443, ''LegPaymentStreamCompoundingAveragingMethod''),
    (42444, ''LegPaymentStreamCompoundingNegativeRateTreatment''),
    (42445, ''LegPaymentStreamCompoundingStartDateUnadjusted''),
    (42446, ''LegPaymentStreamCompoundingStartDateRelativeTo''),
    (42447, ''LegPaymentStreamCompoundingStartDateOffsetPeriod''),
    (42448, ''LegPaymentStreamCompoundingStartDateOffsetUnit''),
    (42449, ''LegPaymentStreamCompoundingStartDateOffsetDayType''),
    (42450, ''LegPaymentStreamCompoundingStartDateAdjusted''),
    (42451, ''LegPaymentStreamFormulaImageLength''), (42452, ''LegPaymentStreamFormulaImage''),
    (42453, ''LegPaymentStreamFinalPricePaymentDateUnadjusted''),
    (42454, ''LegPaymentStreamFinalPricePaymentDateRelativeTo''),
    (42455, ''LegPaymentStreamFinalPricePaymentDateOffsetPeriod''),
    (42456, ''LegPaymentStreamFinalPricePaymentDateOffsetUnit''),
    (42457, ''LegPaymentStreamFinalPricePaymentDateOffsetDayType''),
    (42458, ''LegPaymentStreamFinalPricePaymentDateAdjusted''), (42459, ''NoLegPaymentStreamFixingDates''),
    (42460, ''LegPaymentStreamFixingDate''), (42461, ''LegPaymentStreamFixingDateType''),
    (42462, ''LegPaymentStreamFirstObservationDateUnadjusted''),
    (42463, ''LegPaymentStreamFirstObservationDateRelativeTo''),
    (42464, ''LegPaymentStreamFirstObservationDateOffsetDayType''),
    (42465, ''LegPaymentStreamFirstObservationDateAdjusted''), (42466, ''LegPaymentStreamUnderlierRefID''),
    (42467, ''LegReturnRateNotionalReset''), (42468, ''LegPaymentStreamLinkInitialLevel''),
    (42469, ''LegPaymentStreamLinkClosingLevelIndicator''),
    (42470, ''LegPaymentStreamLinkExpiringLevelIndicator''),
    (42471, ''LegPaymentStreamLinkEstimatedTradingDays''), (42472, ''LegPaymentStreamLinkStrikePrice''),
    (42473, ''LegPaymentStreamLinkStrikePriceType''), (42474, ''LegPaymentStreamLinkMaximumBoundary''),
    (42475, ''LegPaymentStreamLinkMinimumBoundary''), (42476, ''LegPaymentStreamLinkNumberOfDataSeries''),
    (42477, ''LegPaymentStreamVarianceUnadjustedCap''), (42478, ''LegPaymentStreamRealizedVarianceMethod''),
    (42479, ''LegPaymentStreamDaysAdjustmentIndicator''),
    (42480, ''LegPaymentStreamNearestExchangeContractRefID''),
    (42481, ''LegPaymentStreamVegaNotionalAmount''), (42482, ''LegPaymentStreamFormulaCurrency''),
    (42483, ''LegPaymentStreamFormulaCurrencyDeterminationMethod''),
    (42484, ''LegPaymentStreamFormulaReferenceAmount''), (42485, ''NoLegPaymentStreamFormulas''),
    (42486, ''LegPaymentStreamFormula''), (42487, ''LegPaymentStreamFormulaDesc''),
    (42488, ''LegPaymentStubEndDateUnadjusted''), (42489, ''LegPaymentStubEndDateBusinessDayConvention''),
    (42490, ''LegPaymentStubEndDateRelativeTo''), (42491, ''LegPaymentStubEndDateOffsetPeriod''),
    (42492, ''LegPaymentStubEndDateOffsetUnit''), (42493, ''LegPaymentStubEndDateOffsetDayType''),
    (42494, ''LegPaymentStubEndDateAdjusted''), (42495, ''NoLegPaymentStubEndDateBusinessCenters''),
    (42496, ''LegPaymentStubEndDateBusinessCenter''), (42497, ''LegPaymentStubStartDateUnadjusted''),
    (42498, ''LegPaymentStubStartDateBusinessDayConvention'')]"

definition field_names_37 :: "(int \<times> string) list" where
  "field_names_37 = [
    (42499, ''LegPaymentStubStartDateRelativeTo''), (42500, ''LegPaymentStubStartDateOffsetPeriod''),
    (42501, ''LegPaymentStubStartDateOffsetUnit''), (42502, ''LegPaymentStubStartDateOffsetDayType''),
    (42503, ''LegPaymentStubStartDateAdjusted''), (42504, ''NoLegPaymentStubStartDateBusinessCenters''),
    (42505, ''LegPaymentStubStartDateBusinessCenter''), (42506, ''LegProvisionBreakFeeElection''),
    (42507, ''LegProvisionBreakFeeRate''), (42508, ''NoLegReturnRateDates''),
    (42509, ''LegReturnRateDateMode''), (42510, ''LegReturnRateValuationDateRelativeTo''),
    (42511, ''LegReturnRateValuationDateOffsetPeriod''), (42512, ''LegReturnRateValuationDateOffsetUnit''),
    (42513, ''LegReturnRateValuationDateOffsetDayType''),
    (42514, ''LegReturnRateValuationStartDateUnadjusted''),
    (42515, ''LegReturnRateValuationStartDateRelativeTo''),
    (42516, ''LegReturnRateValuationStartDateOffsetPeriod''),
    (42517, ''LegReturnRateValuationStartDateOffsetUnit''),
    (42518, ''LegReturnRateValuationStartDateOffsetDayType''),
    (42519, ''LegReturnRateValuationStartDateAdjusted''),
    (42520, ''LegReturnRateValuationEndDateUnadjusted''),
    (42521, ''LegReturnRateValuationEndDateRelativeTo''),
    (42522, ''LegReturnRateValuationEndDateOffsetPeriod''),
    (42523, ''LegReturnRateValuationEndDateOffsetUnit''),
    (42524, ''LegReturnRateValuationEndDateOffsetDayType''),
    (42525, ''LegReturnRateValuationEndDateAdjusted''), (42526, ''LegReturnRateValuationFrequencyPeriod''),
    (42527, ''LegReturnRateValuationFrequencyUnit''),
    (42528, ''LegReturnRateValuationFrequencyRollConvention''),
    (42529, ''LegReturnRateValuationDateBusinessDayConvention''), (42530, ''NoLegReturnRateFXConversions''),
    (42531, ''LegReturnRateFXCurrencySymbol''), (42532, ''LegReturnRateFXRate''),
    (42533, ''LegReturnRateFXRateCalc''), (42534, ''NoLegReturnRates''),
    (42535, ''LegReturnRatePriceSequence''), (42536, ''LegReturnRateCommissionBasis''),
    (42537, ''LegReturnRateCommissionAmount''), (42538, ''LegReturnRateCommissionCurrency''),
    (42539, ''LegReturnRateTotalCommissionPerTrade''), (42540, ''LegReturnRateDeterminationMethod''),
    (42541, ''LegReturnRateAmountRelativeTo''), (42542, ''LegReturnRateQuoteMeasureType''),
    (42543, ''LegReturnRateQuoteUnits''), (42544, ''LegReturnRateQuoteMethod''),
    (42545, ''LegReturnRateQuoteCurrency''), (42546, ''LegReturnRateQuoteCurrencyType''),
    (42547, ''LegReturnRateQuoteTimeType''), (42548, ''LegReturnRateQuoteTime''),
    (42549, ''LegReturnRateQuoteDate''), (42550, ''LegReturnRateQuoteExpirationTime''),
    (42551, ''LegReturnRateQuoteBusinessCenter''), (42552, ''LegReturnRateQuoteExchange''),
    (42553, ''LegReturnRateQuotePricingModel''), (42554, ''LegReturnRateCashFlowType''),
    (42555, ''LegReturnRateValuationTimeType''), (42556, ''LegReturnRateValuationTime''),
    (42557, ''LegReturnRateValuationTimeBusinessCenter''), (42558, ''LegReturnRateValuationPriceOption''),
    (42559, ''LegReturnRateFinalPriceFallback''), (42560, ''NoLegReturnRateInformationSources''),
    (42561, ''LegReturnRateInformationSource''), (42562, ''LegReturnRateReferencePage''),
    (42563, ''LegReturnRateReferencePageHeading''), (42564, ''NoLegReturnRatePrices''),
    (42565, ''LegReturnRatePriceBasis''), (42566, ''LegReturnRatePrice''),
    (42567, ''LegReturnRatePriceCurrency''), (42568, ''LegReturnRatePriceType''),
    (42569, ''NoLegReturnRateValuationDateBusinessCenters''),
    (42570, ''LegReturnRateValuationDateBusinessCenter''), (42571, ''NoLegReturnRateValuationDates''),
    (42572, ''LegReturnRateValuationDate''), (42573, ''LegReturnRateValuationDateType''),
    (42574, ''LegSettlMethodElectionDateUnadjusted''),
    (42575, ''LegSettlMethodElectionDateBusinessDayConvention''),
    (42576, ''LegSettlMethodElectionDateRelativeTo''), (42577, ''LegSettlMethodElectionDateOffsetPeriod''),
    (42578, ''LegSettlMethodElectionDateOffsetUnit''), (42579, ''LegSettlMethodElectionDateOffsetDayType''),
    (42580, ''LegSettlMethodElectionDateAdjusted''),
    (42581, ''NoLegSettlMethodElectionDateBusinessCenters''),
    (42582, ''LegSettlMethodElectionDateBusinessCenter''), (42583, ''LegStreamVersion''),
    (42584, ''LegStreamVersionEffectiveDate''), (42585, ''LegStreamNotionalDeterminationMethod''),
    (42586, ''LegStreamNotionalAdjustments''), (42587, ''StreamCommodityDeliveryPricingRegion''),
    (42588, ''LegStreamCommodityDeliveryPricingRegion''),
    (42589, ''UnderlyingStreamCommodityDeliveryPricingRegion''), (42590, ''SettlMethodElectingPartySide''),
    (42591, ''MakeWholeDate''), (42592, ''MakeWholeAmount''), (42593, ''MakeWholeBenchmarkCurveName''),
    (42594, ''MakeWholeBenchmarkCurvePoint''), (42595, ''MakeWholeRecallSpread''),
    (42596, ''MakeWholeBenchmarkQuote''), (42597, ''MakeWholeInterpolationMethod''),
    (42598, ''PaymentAmountRelativeTo''), (42599, ''PaymentAmountDeterminationMethod''),
    (42600, ''PaymentStreamCashSettlIndicator''), (42601, ''PaymentStreamCompoundingXIDRef''),
    (42602, ''PaymentStreamCompoundingSpread''), (42603, ''PaymentStreamInterpolationMethod''),
    (42604, ''PaymentStreamInterpolationPeriod''), (42605, ''PaymentStreamCompoundingFixedRate''),
    (42606, ''NoPaymentStreamCompoundingDates''), (42607, ''PaymentStreamCompoundingDate''),
    (42608, ''PaymentStreamCompoundingDateType''),
    (42609, ''PaymentStreamCompoundingDatesBusinessDayConvention''),
    (42610, ''PaymentStreamCompoundingDatesRelativeTo''),
    (42611, ''PaymentStreamCompoundingDatesOffsetPeriod''),
    (42612, ''PaymentStreamCompoundingDatesOffsetUnit''),
    (42613, ''PaymentStreamCompoundingDatesOffsetDayType''), (42614, ''PaymentStreamCompoundingPeriodSkip''),
    (42615, ''PaymentStreamCompoundingFrequencyPeriod''), (42616, ''PaymentStreamCompoundingFrequencyUnit''),
    (42617, ''PaymentStreamCompoundingRollConvention''), (42618, ''PaymentStreamBoundsFirstDateUnadjusted''),
    (42619, ''PaymentStreamBoundsLastDateUnadjusted''),
    (42620, ''NoPaymentStreamCompoundingDatesBusinessCenters''),
    (42621, ''PaymentStreamCompoundingDatesBusinessCenter''),
    (42622, ''PaymentStreamCompoundingEndDateUnadjusted''),
    (42623, ''PaymentStreamCompoundingEndDateRelativeTo''),
    (42624, ''PaymentStreamCompoundingEndDateOffsetPeriod''),
    (42625, ''PaymentStreamCompoundingEndDateOffsetUnit''),
    (42626, ''PaymentStreamCompoundingEndDateOffsetDayType''),
    (42627, ''PaymentStreamCompoundingEndDateAdjusted''), (42628, ''PaymentStreamCompoundingRateIndex''),
    (42629, ''PaymentStreamCompoundingRateIndexCurvePeriod''),
    (42630, ''PaymentStreamCompoundingRateIndexCurveUnit''),
    (42631, ''PaymentStreamCompoundingRateMultiplier''), (42632, ''PaymentStreamCompoundingRateSpread''),
    (42633, ''PaymentStreamCompoundingRateSpreadPositionType''),
    (42634, ''PaymentStreamCompoundingRateTreatment''), (42635, ''PaymentStreamCompoundingCapRate''),
    (42636, ''PaymentStreamCompoundingCapRateBuySide''),
    (42637, ''PaymentStreamCompoundingCapRateSellSide''), (42638, ''PaymentStreamCompoundingFloorRate''),
    (42639, ''PaymentStreamCompoundingFloorRateBuySide''),
    (42640, ''PaymentStreamCompoundingFloorRateSellSide''), (42641, ''PaymentStreamCompoundingInitialRate''),
    (42642, ''PaymentStreamCompoundingFinalRateRoundingDirection''),
    (42643, ''PaymentStreamCompoundingFinalRatePrecision''),
    (42644, ''PaymentStreamCompoundingAveragingMethod''),
    (42645, ''PaymentStreamCompoundingNegativeRateTreatment''),
    (42646, ''PaymentStreamCompoundingStartDateUnadjusted''),
    (42647, ''PaymentStreamCompoundingStartDateRelativeTo''),
    (42648, ''PaymentStreamCompoundingStartDateOffsetPeriod'')]"

definition field_names_38 :: "(int \<times> string) list" where
  "field_names_38 = [
    (42649, ''PaymentStreamCompoundingStartDateOffsetUnit''),
    (42650, ''PaymentStreamCompoundingStartDateOffsetDayType''),
    (42651, ''PaymentStreamCompoundingStartDateAdjusted''), (42652, ''PaymentStreamFormulaImageLength''),
    (42653, ''PaymentStreamFormulaImage''), (42654, ''PaymentStreamFinalPricePaymentDateUnadjusted''),
    (42655, ''PaymentStreamFinalPricePaymentDateRelativeTo''),
    (42656, ''PaymentStreamFinalPricePaymentDateOffsetfPeriod''),
    (42657, ''PaymentStreamFinalPricePaymentDateOffsetUnit''),
    (42658, ''PaymentStreamFinalPricePaymentDateOffsetDayType''),
    (42659, ''PaymentStreamFinalPricePaymentDateAdjusted''), (42660, ''NoPaymentStreamFixingDates''),
    (42661, ''PaymentStreamFixingDate''), (42662, ''PaymentStreamFixingDateType''),
    (42663, ''PaymentStreamFirstObservationDateUnadjusted''),
    (42664, ''PaymentStreamFirstObservationDateRelativeTo''),
    (42665, ''PaymentStreamFirstObservationDateOffsetDayType''),
    (42666, ''PaymentStreamFirstObservationDateAdjusted''), (42667, ''PaymentStreamUnderlierRefID''),
    (42668, ''ReturnRateNotionalReset''), (42669, ''PaymentStreamLinkInitialLevel''),
    (42670, ''PaymentStreamLinkClosingLevelIndicator''),
    (42671, ''PaymentStreamLinkExpiringLevelIndicator''), (42672, ''PaymentStreamLinkEstimatedTradingDays''),
    (42673, ''PaymentStreamLinkStrikePrice''), (42674, ''PaymentStreamLinkStrikePriceType''),
    (42675, ''PaymentStreamLinkMaximumBoundary''), (42676, ''PaymentStreamLinkMinimumBoundary''),
    (42677, ''PaymentStreamLinkNumberOfDataSeries''), (42678, ''PaymentStreamVarianceUnadjustedCap''),
    (42679, ''PaymentStreamRealizedVarianceMethod''), (42680, ''PaymentStreamDaysAdjustmentIndicator''),
    (42681, ''PaymentStreamNearestExchangeContractRefID''), (42682, ''PaymentStreamVegaNotionalAmount''),
    (42683, ''NoPaymentStreamFormulas''), (42684, ''PaymentStreamFormula''),
    (42685, ''PaymentStreamFormulaDesc''), (42686, ''PaymentStreamFormulaCurrency''),
    (42687, ''PaymentStreamFormulaCurrencyDeterminationMethod''),
    (42688, ''PaymentStreamFormulaReferenceAmount''), (42689, ''PaymentStubEndDateUnadjusted''),
    (42690, ''PaymentStubEndDateBusinessDayConvention''), (42691, ''PaymentStubEndDateRelativeTo''),
    (42692, ''PaymentStubEndDateOffsetPeriod''), (42693, ''PaymentStubEndDateOffsetUnit''),
    (42694, ''PaymentStubEndDateOffsetDayType''), (42695, ''PaymentStubEndDateAdjusted''),
    (42696, ''NoPaymentStubEndDateBusinessCenters''), (42697, ''PaymentStubEndDateBusinessCenter''),
    (42698, ''PaymentStubStartDateUnadjusted''), (42699, ''PaymentStubStartDateBusinessDayConvention''),
    (42700, ''PaymentStubStartDateRelativeTo''), (42701, ''PaymentStubStartDateOffsetPeriod''),
    (42702, ''PaymentStubStartDateOffsetUnit''), (42703, ''PaymentStubStartDateOffsetDayType''),
    (42704, ''PaymentStubStartDateAdjusted''), (42705, ''NoPaymentStubStartDateBusinessCenters''),
    (42706, ''PaymentStubStartDateBusinessCenter''), (42707, ''ProvisionBreakFeeElection''),
    (42708, ''ProvisionBreakFeeRate''), (42709, ''NoReturnRateDates''), (42710, ''ReturnRateDateMode''),
    (42711, ''ReturnRateValuationDateRelativeTo''), (42712, ''ReturnRateValuationDateOffsetPeriod''),
    (42713, ''ReturnRateValuationDateOffsetUnit''), (42714, ''ReturnRateValuationDateOffsetDayType''),
    (42715, ''ReturnRateValuationStartDateUnadjusted''), (42716, ''ReturnRateValuationStartDateRelativeTo''),
    (42717, ''ReturnRateValuationStartDateOffsetPeriod''),
    (42718, ''ReturnRateValuationStartDateOffsetUnit''),
    (42719, ''ReturnRateValuationStartDateOffsetDayType''),
    (42720, ''ReturnRateValuationStartDateAdjusted''), (42721, ''ReturnRateValuationEndDateUnadjusted''),
    (42722, ''ReturnRateValuationEndDateRelativeTo''), (42723, ''ReturnRateValuationEndDateOffsetPeriod''),
    (42724, ''ReturnRateValuationEndDateOffsetUnit''), (42725, ''ReturnRateValuationEndDateOffsetDayType''),
    (42726, ''ReturnRateValuationEndDateAdjusted''), (42727, ''ReturnRateValuationFrequencyPeriod''),
    (42728, ''ReturnRateValuationFrequencyUnit''), (42729, ''ReturnRateValuationFrequencyRollConvention''),
    (42730, ''ReturnRateValuationDateBusinessDayConvention''), (42731, ''NoReturnRateFXConversions''),
    (42732, ''ReturnRateFXCurrencySymbol''), (42733, ''ReturnRateFXRate''),
    (42734, ''ReturnRateFXRateCalc''), (42735, ''NoReturnRates''), (42736, ''ReturnRatePriceSequence''),
    (42737, ''ReturnRateCommissionBasis''), (42738, ''ReturnRateCommissionAmount''),
    (42739, ''ReturnRateCommissionCurrency''), (42740, ''ReturnRateTotalCommissionPerTrade''),
    (42741, ''ReturnRateDeterminationMethod''), (42742, ''ReturnRateAmountRelativeTo''),
    (42743, ''ReturnRateQuoteMeasureType''), (42744, ''ReturnRateQuoteUnits''),
    (42745, ''ReturnRateQuoteMethod''), (42746, ''ReturnRateQuoteCurrency''),
    (42747, ''ReturnRateQuoteCurrencyType''), (42748, ''ReturnRateQuoteTimeType''),
    (42749, ''ReturnRateQuoteTime''), (42750, ''ReturnRateQuoteDate''),
    (42751, ''ReturnRateQuoteExpirationTime''), (42752, ''ReturnRateQuoteBusinessCenter''),
    (42753, ''ReturnRateQuoteExchange''), (42754, ''ReturnRateQuotePricingModel''),
    (42755, ''ReturnRateCashFlowType''), (42756, ''ReturnRateValuationTimeType''),
    (42757, ''ReturnRateValuationTime''), (42758, ''ReturnRateValuationTimeBusinessCenter''),
    (42759, ''ReturnRateValuationPriceOption''), (42760, ''ReturnRateFinalPriceFallback''),
    (42761, ''NoReturnRateInformationSources''), (42762, ''ReturnRateInformationSource''),
    (42763, ''ReturnRateReferencePage''), (42764, ''ReturnRateReferencePageHeading''),
    (42765, ''NoReturnRatePrices''), (42766, ''ReturnRatePriceBasis''), (42767, ''ReturnRatePrice''),
    (42768, ''ReturnRatePriceCurrency''), (42769, ''ReturnRatePriceType''),
    (42770, ''NoReturnRateValuationDateBusinessCenters''),
    (42771, ''ReturnRateValuationDateBusinessCenter''), (42772, ''NoReturnRateValuationDates''),
    (42773, ''ReturnRateValuationDate''), (42774, ''ReturnRateValuationDateType''),
    (42775, ''NoSettlMethodElectionDateBusinessCenters''),
    (42776, ''SettlMethodElectionDateBusinessCenter''), (42777, ''SettlMethodElectionDateUnadjusted''),
    (42778, ''SettlMethodElectionDateBusinessDayConvention''),
    (42779, ''SettlMethodElectionDateRelativeTo''), (42780, ''SettlMethodElectionDateOffsetPeriod''),
    (42781, ''SettlMethodElectionDateOffsetUnit''), (42782, ''SettlMethodElectionDateOffsetDayType''),
    (42783, ''SettlMethodElectionDateAdjusted''), (42784, ''StreamVersion''),
    (42785, ''StreamVersionEffectiveDate''), (42786, ''StreamNotionalDeterminationMethod''),
    (42787, ''StreamNotionalAdjustments''), (42788, ''NoUnderlyingCashSettlDateBusinessCenters''),
    (42789, ''UnderlyingCashSettlDateBusinessCenter''), (42790, ''UnderlyingCashSettlDateUnadjusted''),
    (42791, ''UnderlyingCashSettlDateBusinessDayConvention''),
    (42792, ''UnderlyingCashSettlDateRelativeTo''), (42793, ''UnderlyingCashSettlDateOffsetPeriod''),
    (42794, ''UnderlyingCashSettlDateOffsetUnit''), (42795, ''UnderlyingCashSettlDateOffsetDayType''),
    (42796, ''UnderlyingCashSettlDateAdjusted''), (42797, ''UnderlyingCashSettlPriceSource''),
    (42798, ''UnderlyingCashSettlPriceDefault'')]"

definition field_names_39 :: "(int \<times> string) list" where
  "field_names_39 = [
    (42799, ''NoUnderlyingDividendAccrualPaymentDateBusinessCenters''),
    (42800, ''UnderlyingDividendAccrualPaymentDateBusinessCenter''),
    (42801, ''UnderlyingDividendFloatingRateIndex''),
    (42802, ''UnderlyingDividendFloatingRateIndexCurvePeriod''),
    (42803, ''UnderlyingDividendFloatingRateIndexCurveUnit''),
    (42804, ''UnderlyingDividendFloatingRateMultiplier''), (42805, ''UnderlyingDividendFloatingRateSpread''),
    (42806, ''UnderlyingDividendFloatingRateSpreadPositionType''),
    (42807, ''UnderlyingDividendFloatingRateTreatment''), (42808, ''UnderlyingDividendCapRate''),
    (42809, ''UnderlyingDividendCapRateBuySide''), (42810, ''UnderlyingDividendCapRateSellSide''),
    (42811, ''UnderlyingDividendFloorRate''), (42812, ''UnderlyingDividendFloorRateBuySide''),
    (42813, ''UnderlyingDividendFloorRateSellSide''), (42814, ''UnderlyingDividendInitialRate''),
    (42815, ''UnderlyingDividendFinalRateRoundingDirection''),
    (42816, ''UnderlyingDividendFinalRatePrecision''), (42817, ''UnderlyingDividendAveragingMethod''),
    (42818, ''UnderlyingDividendNegativeRateTreatment''),
    (42819, ''UnderlyingDividendAccrualPaymentDateRelativeTo''),
    (42820, ''UnderlyingDividendAccrualPaymentDateOffsetPeriod''),
    (42821, ''UnderlyingDividendAccrualPaymentDateOffsetUnit''),
    (42822, ''UnderlyingDividendAccrualPaymentDateOffsetDayType''),
    (42823, ''UnderlyingDividendAccrualPaymentDateUnadjusted''),
    (42824, ''UnderlyingDividendAccrualPaymentDateBusinessDayConvention''),
    (42825, ''UnderlyingDividendAccrualPaymentDateAdjusted''),
    (42826, ''UnderlyingDividendReinvestmentIndicator''), (42827, ''UnderlyingDividendEntitlementEvent''),
    (42828, ''UnderlyingDividendAmountType''), (42829, ''UnderlyingDividendUnderlierRefID''),
    (42830, ''UnderlyingExtraordinaryDividendPartySide''),
    (42831, ''UnderlyingExtraordinaryDividendAmountType''),
    (42832, ''UnderlyingExtraordinaryDividendCurrency''),
    (42833, ''UnderlyingExtraordinaryDividendDeterminationMethod''),
    (42834, ''UnderlyingDividendAccrualFixedRate''), (42835, ''UnderlyingDividendCompoundingMethod''),
    (42836, ''UnderlyingDividendNumOfIndexUnits''), (42837, ''UnderlyingDividendCashPercentage''),
    (42838, ''UnderlyingDividendCashEquivalentPercentage''), (42839, ''UnderlyingNonCashDividendTreatment''),
    (42840, ''UnderlyingDividendComposition''), (42841, ''UnderlyingSpecialDividendsIndicator''),
    (42842, ''UnderlyingMaterialDividendsIndicator''),
    (42843, ''UnderlyingOptionsExchangeDividendsIndicator''),
    (42844, ''UnderlyingAdditionalDividendsIndicator''), (42845, ''UnderlyingAllDividendsIndicator''),
    (42846, ''UnderlyingDividendFXTriggerDateRelativeTo''),
    (42847, ''UnderlyingDividendFXTriggerDateOffsetPeriod''),
    (42848, ''UnderlyingDividendFXTriggerDateOffsetUnit''),
    (42849, ''UnderlyingDividendFXTriggerDateOffsetDayType''),
    (42850, ''UnderlyingDividendFXTriggerDateUnadjusted''),
    (42851, ''UnderlyingDividendFXTriggerDateBusinessDayConvention''),
    (42852, ''UnderlyingDividendFXTriggerDateAdjusted''),
    (42853, ''NoUnderlyingDividendFXTriggerDateBusinessCenters''),
    (42854, ''UnderlyingDividendFXTriggerDateBusinessCenter''), (42855, ''NoUnderlyingDividendPayments''),
    (42856, ''UnderlyingDividendPaymentDate''), (42857, ''UnderlyingDividendPaymentAmount''),
    (42858, ''UnderlyingDividendPaymentCurrency''), (42859, ''UnderlyingDividendAccruedInterest''),
    (42860, ''UnderlyingDividendPayoutRatio''), (42861, ''UnderlyingDividendPayoutConditions''),
    (42862, ''NoUnderlyingDividendPeriods''), (42863, ''UnderlyingDividendPeriodSequence''),
    (42864, ''UnderlyingDividendPeriodStartDateUnadjusted''),
    (42865, ''UnderlyingDividendPeriodEndDateUnadjusted''),
    (42866, ''UnderlyingDividendPeriodUnderlierRefID''), (42867, ''UnderlyingDividendPeriodStrikePrice''),
    (42868, ''UnderlyingDividendPeriodBusinessDayConvention''),
    (42869, ''UnderlyingDividendPeriodValuationDateUnadjusted''),
    (42870, ''UnderlyingDividendPeriodValuationDateRelativeTo''),
    (42871, ''UnderlyingDividendPeriodValuationDateOffsetPeriod''),
    (42872, ''UnderlyingDividendPeriodValuationDateOffsetUnit''),
    (42873, ''UnderlyingDividendPeriodValuationDateOffsetDayType''),
    (42874, ''UnderlyingDividendPeriodValuationDateAdjusted''),
    (42875, ''UnderlyingDividendPeriodPaymentDateUnadjusted''),
    (42876, ''UnderlyingDividendPeriodPaymentDateRelativeTo''),
    (42877, ''UnderlyingDividendPeriodPaymentDateOffsetPeriod''),
    (42878, ''UnderlyingDividendPeriodPaymentDateOffsetUnit''),
    (42879, ''UnderlyingDividendPeriodPaymentDateOffsetDayType''),
    (42880, ''UnderlyingDividendPeriodPaymentDateAdjusted''), (42881, ''UnderlyingDividendPeriodXID''),
    (42882, ''NoUnderlyingDividendPeriodBusinessCenters''),
    (42883, ''UnderlyingDividendPeriodBusinessCenter''), (42884, ''NoUnderlyingExtraordinaryEvents''),
    (42885, ''UnderlyingExtraordinaryEventType''), (42886, ''UnderlyingExtraordinaryEventValue''),
    (42887, ''UnderlyingSettlMethodElectingPartySide''), (42888, ''UnderlyingMakeWholeDate''),
    (42889, ''UnderlyingMakeWholeAmount''), (42890, ''UnderlyingMakeWholeBenchmarkCurveName''),
    (42891, ''UnderlyingMakeWholeBenchmarkCurvePoint''), (42892, ''UnderlyingMakeWholeRecallSpread''),
    (42893, ''UnderlyingMakeWholeBenchmarkQuote''), (42894, ''UnderlyingMakeWholeInterpolationMethod''),
    (42895, ''UnderlyingPaymentStreamCashSettlIndicator''),
    (42896, ''UnderlyingPaymentStreamCompoundingXIDRef''),
    (42897, ''UnderlyingPaymentStreamCompoundingSpread''),
    (42898, ''UnderlyingPaymentStreamInterpolationMethod''),
    (42899, ''UnderlyingPaymentStreamInterpolationPeriod''),
    (42900, ''UnderlyingPaymentStreamCompoundingFixedRate''),
    (42901, ''NoUnderlyingPaymentStreamCompoundingDates''),
    (42902, ''UnderlyingPaymentStreamCompoundingDate''),
    (42903, ''UnderlyingPaymentStreamCompoundingDateType''),
    (42904, ''UnderlyingPaymentStreamCompoundingDatesBusinessDayConvention''),
    (42905, ''UnderlyingPaymentStreamCompoundingDatesRelativeTo''),
    (42906, ''UnderlyingPaymentStreamCompoundingDatesOffsetPeriod''),
    (42907, ''UnderlyingPaymentStreamCompoundingDatesOffsetUnit''),
    (42908, ''UnderlyingPaymentStreamCompoundingDatesOffsetDayType''),
    (42909, ''UnderlyingPaymentStreamCompoundingPeriodSkip''),
    (42910, ''UnderlyingPaymentStreamCompoundingFrequencyPeriod''),
    (42911, ''UnderlyingPaymentStreamCompoundingFrequencyUnit''),
    (42912, ''UnderlyingPaymentStreamCompoundingRollConvention''),
    (42913, ''UnderlyingPaymentStreamBoundsFirstDateUnadjusted''),
    (42914, ''UnderlyingPaymentStreamBoundsLastDateUnadjusted''),
    (42915, ''NoUnderlyingPaymentStreamCompoundingDatesBusinessCenters''),
    (42916, ''UnderlyingPaymentStreamCompoundingDatesBusinessCenter''),
    (42917, ''UnderlyingPaymentStreamCompoundingEndDateUnadjusted''),
    (42918, ''UnderlyingPaymentStreamCompoundingEndDateRelativeTo''),
    (42919, ''UnderlyingPaymentStreamCompoundingEndDateOffsetPeriod''),
    (42920, ''UnderlyingPaymentStreamCompoundingEndDateOffsetUnit''),
    (42921, ''UnderlyingPaymentStreamCompoundingEndDateOffsetDayType''),
    (42922, ''UnderlyingPaymentStreamCompoundingEndDateAdjusted''),
    (42923, ''UnderlyingPaymentStreamCompoundingRateIndex''),
    (42924, ''UnderlyingPaymentStreamCompoundingRateIndexCurvePeriod''),
    (42925, ''UnderlyingPaymentStreamCompoundingRateIndexCurveUnit''),
    (42926, ''UnderlyingPaymentStreamCompoundingRateMultiplier''),
    (42927, ''UnderlyingPaymentStreamCompoundingRateSpread''),
    (42928, ''UnderlyingPaymentStreamCompoundingRateSpreadPositionType''),
    (42929, ''UnderlyingPaymentStreamCompoundingRateTreatment''),
    (42930, ''UnderlyingPaymentStreamCompoundingCapRate''),
    (42931, ''UnderlyingPaymentStreamCompoundingCapRateBuySide''),
    (42932, ''UnderlyingPaymentStreamCompoundingCapRateSellSide''),
    (42933, ''UnderlyingPaymentStreamCompoundingFloorRate''),
    (42934, ''UnderlyingPaymentStreamCompoundingFloorRateBuySide''),
    (42935, ''UnderlyingPaymentStreamCompoundingFloorRateSellSide''),
    (42936, ''UnderlyingPaymentStreamCompoundingInitialRate''),
    (42937, ''UnderlyingPaymentStreamCompoundingFinalRateRoundingDirection''),
    (42938, ''UnderlyingPaymentStreamCompoundingFinalRatePrecision''),
    (42939, ''UnderlyingPaymentStreamCompoundingAveragingMethod''),
    (42940, ''UnderlyingPaymentStreamCompoundingNegativeRateTreatment''),
    (42941, ''UnderlyingPaymentStreamCompoundingStartDateUnadjusted''),
    (42942, ''UnderlyingPaymentStreamCompoundingStartDateRelativeTo''),
    (42943, ''UnderlyingPaymentStreamCompoundingStartDateOffsetPeriod''),
    (42944, ''UnderlyingPaymentStreamCompoundingStartDateOffsetUnit''),
    (42945, ''UnderlyingPaymentStreamCompoundingStartDateOffsetDayType''),
    (42946, ''UnderlyingPaymentStreamCompoundingStartDateAdjusted''),
    (42947, ''UnderlyingPaymentStreamFormulaImageLength''),
    (42948, ''UnderlyingPaymentStreamFormulaImage'')]"

definition field_names_40 :: "(int \<times> string) list" where
  "field_names_40 = [
    (42949, ''UnderlyingPaymentStreamFinalPricePaymentDateUnadjusted''),
    (42950, ''UnderlyingPaymentStreamFinalPricePaymentDateRelativeTo''),
    (42951, ''UnderlyingPaymentStreamFinalPricePaymentDateOffsetPeriod''),
    (42952, ''UnderlyingPaymentStreamFinalPricePaymentDateOffsetUnit''),
    (42953, ''UnderlyingPaymentStreamFinalPricePaymentDateOffsetDayType''),
    (42954, ''UnderlyingPaymentStreamFinalPricePaymentDateAdjusted''),
    (42955, ''NoUnderlyingPaymentStreamFixingDates''), (42956, ''UnderlyingPaymentStreamFixingDate''),
    (42957, ''UnderlyingPaymentStreamFixingDateType''),
    (42958, ''UnderlyingPaymentStreamFirstObservationDateUnadjusted''),
    (42959, ''UnderlyingPaymentStreamFirstObservationDateRelativeTo''),
    (42960, ''UnderlyingPaymentStreamFirstObservationDateOffsetDayType''),
    (42961, ''UnderlyingPaymentStreamFirstObservationDateAdjusted''),
    (42962, ''UnderlyingPaymentStreamUnderlierRefID''), (42963, ''UnderlyingReturnRateNotionalReset''),
    (42964, ''UnderlyingPaymentStreamLinkInitialLevel''),
    (42965, ''UnderlyingPaymentStreamLinkClosingLevelIndicator''),
    (42966, ''UnderlyingPaymentStreamLinkExpiringLevelIndicator''),
    (42967, ''UnderlyingPaymentStreamLinkEstimatedTradingDays''),
    (42968, ''UnderlyingPaymentStreamLinkStrikePrice''),
    (42969, ''UnderlyingPaymentStreamLinkStrikePriceType''),
    (42970, ''UnderlyingPaymentStreamLinkMaximumBoundary''),
    (42971, ''UnderlyingPaymentStreamLinkMinimumBoundary''),
    (42972, ''UnderlyingPaymentStreamLinkNumberOfDataSeries''),
    (42973, ''UnderlyingPaymentStreamVarianceUnadjustedCap''),
    (42974, ''UnderlyingPaymentStreamRealizedVarianceMethod''),
    (42975, ''UnderlyingPaymentStreamDaysAdjustmentIndicator''),
    (42976, ''UnderlyingPaymentStreamNearestExchangeContractRefID''),
    (42977, ''UnderlyingPaymentStreamVegaNotionalAmount''),
    (42978, ''UnderlyingPaymentStreamFormulaCurrency''),
    (42979, ''UnderlyingPaymentStreamFormulaCurrencyDeterminationMethod''),
    (42980, ''UnderlyingPaymentStreamFormulaReferenceAmount''),
    (42981, ''NoUnderlyingPaymentStreamFormulas''), (42982, ''UnderlyingPaymentStreamFormula''),
    (42983, ''UnderlyingPaymentStreamFormulaDesc''), (42984, ''UnderlyingPaymentStubEndDateUnadjusted''),
    (42985, ''UnderlyingPaymentStubEndDateBusinessDayConvention''),
    (42986, ''UnderlyingPaymentStubEndDateRelativeTo''),
    (42987, ''UnderlyingPaymentStubEndDateOffsetPeriod''),
    (42988, ''UnderlyingPaymentStubEndDateOffsetUnit''),
    (42989, ''UnderlyingPaymentStubEndDateOffsetDayType''),
    (42990, ''UnderlyingPaymentStubEndDateAdjusted''),
    (42991, ''NoUnderlyingPaymentStubEndDateBusinessCenters''),
    (42992, ''UnderlyingPaymentStubEndDateBusinessCenter''),
    (42993, ''UnderlyingPaymentStubStartDateUnadjusted''),
    (42994, ''UnderlyingPaymentStubStartDateBusinessDayConvention''),
    (42995, ''UnderlyingPaymentStubStartDateRelativeTo''),
    (42996, ''UnderlyingPaymentStubStartDateOffsetPeriod''),
    (42997, ''UnderlyingPaymentStubStartDateOffsetUnit''),
    (42998, ''UnderlyingPaymentStubStartDateOffsetDayType''),
    (42999, ''UnderlyingPaymentStubStartDateAdjusted''),
    (43000, ''NoUnderlyingPaymentStubStartDateBusinessCenters''),
    (43001, ''UnderlyingPaymentStubStartDateBusinessCenter''),
    (43002, ''UnderlyingProvisionBreakFeeElection''), (43003, ''UnderlyingProvisionBreakFeeRate''),
    (43004, ''UnderlyingRateSpreadInitialValue''), (43005, ''NoUnderlyingRateSpreadSteps''),
    (43006, ''UnderlyingRateSpreadStepDate''), (43007, ''UnderlyingRateSpreadStepValue''),
    (43008, ''NoUnderlyingReturnRateDates''), (43009, ''UnderlyingReturnRateDateMode''),
    (43010, ''UnderlyingReturnRateValuationDateRelativeTo''),
    (43011, ''UnderlyingReturnRateValuationDateOffsetPeriod''),
    (43012, ''UnderlyingReturnRateValuationDateOffsetUnit''),
    (43013, ''UnderlyingReturnRateValuationDateOffsetDayType''),
    (43014, ''UnderlyingReturnRateValuationStartDateUnadjusted''),
    (43015, ''UnderlyingReturnRateValuationStartDateRelativeTo''),
    (43016, ''UnderlyingReturnRateValuationStartDateOffsetPeriod''),
    (43017, ''UnderlyingReturnRateValuationStartDateOffsetUnit''),
    (43018, ''UnderlyingReturnRateValuationStartDateOffsetDayType''),
    (43019, ''UnderlyingReturnRateValuationStartDateAdjusted''),
    (43020, ''UnderlyingReturnRateValuationEndDateUnadjusted''),
    (43021, ''UnderlyingReturnRateValuationEndDateRelativeTo''),
    (43022, ''UnderlyingReturnRateValuationEndDateOffsetPeriod''),
    (43023, ''UnderlyingReturnRateValuationEndDateOffsetUnit''),
    (43024, ''UnderlyingReturnRateValuationEndDateOffsetDayType''),
    (43025, ''UnderlyingReturnRateValuationEndDateAdjusted''),
    (43026, ''UnderlyingReturnRateValuationFrequencyPeriod''),
    (43027, ''UnderlyingReturnRateValuationFrequencyUnit''),
    (43028, ''UnderlyingReturnRateValuationFrequencyRollConvention''),
    (43029, ''UnderlyingReturnRateValuationDateBusinessDayConvention''),
    (43030, ''NoUnderlyingReturnRateFXConversions''), (43031, ''UnderlyingReturnRateFXCurrencySymbol''),
    (43032, ''UnderlyingReturnRateFXRate''), (43033, ''UnderlyingReturnRateFXRateCalc''),
    (43034, ''NoUnderlyingReturnRates''), (43035, ''UnderlyingReturnRatePriceSequence''),
    (43036, ''UnderlyingReturnRateCommissionBasis''), (43037, ''UnderlyingReturnRateCommissionAmount''),
    (43038, ''UnderlyingReturnRateCommissionCurrency''),
    (43039, ''UnderlyingReturnRateTotalCommissionPerTrade''),
    (43040, ''UnderlyingReturnRateDeterminationMethod''), (43041, ''UnderlyingReturnRateAmountRelativeTo''),
    (43042, ''UnderlyingReturnRateQuoteMeasureType''), (43043, ''UnderlyingReturnRateQuoteUnits''),
    (43044, ''UnderlyingReturnRateQuoteMethod''), (43045, ''UnderlyingReturnRateQuoteCurrency''),
    (43046, ''UnderlyingReturnRateQuoteCurrencyType''), (43047, ''UnderlyingReturnRateQuoteTimeType''),
    (43048, ''UnderlyingReturnRateQuoteTime''), (43049, ''UnderlyingReturnRateQuoteDate''),
    (43050, ''UnderlyingReturnRateQuoteExpirationTime''),
    (43051, ''UnderlyingReturnRateQuoteBusinessCenter''), (43052, ''UnderlyingReturnRateQuoteExchange''),
    (43053, ''UnderlyingReturnRateQuotePricingModel''), (43054, ''UnderlyingReturnRateCashFlowType''),
    (43055, ''UnderlyingReturnRateValuationTimeType''), (43056, ''UnderlyingReturnRateValuationTime''),
    (43057, ''UnderlyingReturnRateValuationTimeBusinessCenter''),
    (43058, ''UnderlyingReturnRateValuationPriceOption''),
    (43059, ''UnderlyingReturnRateFinalPriceFallback''),
    (43060, ''NoUnderlyingReturnRateInformationSources''),
    (43061, ''UnderlyingReturnRateInformationSource''), (43062, ''UnderlyingReturnRateReferencePage''),
    (43063, ''UnderlyingReturnRateReferencePageHeading''), (43064, ''NoUnderlyingReturnRatePrices''),
    (43065, ''UnderlyingReturnRatePriceBasis''), (43066, ''UnderlyingReturnRatePrice''),
    (43067, ''UnderlyingReturnRatePriceCurrency''), (43068, ''UnderlyingReturnRatePriceType''),
    (43069, ''NoUnderlyingReturnRateValuationDateBusinessCenters''),
    (43070, ''UnderlyingReturnRateValuationDateBusinessCenter''),
    (43071, ''NoUnderlyingReturnRateValuationDates''), (43072, ''UnderlyingReturnRateValuationDate''),
    (43073, ''UnderlyingReturnRateValuationDateType''),
    (43074, ''NoUnderlyingSettlMethodElectionDateBusinessCenters''),
    (43075, ''UnderlyingSettlMethodElectionDateBusinessCenter''),
    (43076, ''UnderlyingSettlMethodElectionDateUnadjusted''),
    (43077, ''UnderlyingSettlMethodElectionDateBusinessDayConvention''),
    (43078, ''UnderlyingSettlMethodElectionDateRelativeTo''),
    (43079, ''UnderlyingSettlMethodElectionDateOffsetPeriod''),
    (43080, ''UnderlyingSettlMethodElectionDateOffsetUnit''),
    (43081, ''UnderlyingSettlMethodElectionDateOffsetDayType''),
    (43082, ''UnderlyingSettlMethodElectionDateAdjusted''), (43083, ''UnderlyingStreamVersion''),
    (43084, ''UnderlyingStreamVersionEffectiveDate''),
    (43085, ''UnderlyingStreamNotionalDeterminationMethod''),
    (43086, ''UnderlyingStreamNotionalAdjustments''), (43087, ''PaymentDesc''),
    (43088, ''LegPaymentStreamRateIndexID''), (43089, ''LegPaymentStreamRateIndexIDSource''),
    (43090, ''PaymentStreamRateIndexID''), (43091, ''PaymentStreamRateIndexIDSource''),
    (43092, ''UnderlyingPaymentStreamRateIndexID''), (43093, ''UnderlyingPaymentStreamRateIndexIDSource''),
    (43094, ''DeliveryStreamRouteOrCharter''), (43095, ''LegDeliveryStreamRouteOrCharter''),
    (43096, ''UnderlyingDeliveryStreamRouteOrCharter''), (43097, ''PaymentFixedRate''),
    (43098, ''PaymentFloatingRateIndex'')]"

definition field_names_41 :: "(int \<times> string) list" where
  "field_names_41 = [
    (43099, ''PaymentFloatingRateIndexCurvePeriod''), (43100, ''PaymentFloatingRateIndexCurveUnit''),
    (43101, ''PaymentFloatingRateSpread''), (43102, ''PaymentFrequencyPeriod''),
    (43103, ''PaymentFrequencyUnit''), (43104, ''PaymentRateResetFrequencyPeriod''),
    (43105, ''PaymentRateResetFrequencyUnit''), (43106, ''PaymentStreamOtherDayCount''),
    (43107, ''UnderlyingPaymentStreamOtherDayCount''), (43108, ''LegPaymentStreamOtherDayCount''),
    (43109, ''PaymentStreamFormulaLength''), (43110, ''LegPaymentStreamFormulaLength''),
    (43111, ''UnderlyingPaymentStreamFormulaLength''), (43112, ''PaymentStreamRateIndex2''),
    (43113, ''PaymentStreamRateIndex2Source''), (43114, ''PaymentStreamRateIndex2ID''),
    (43115, ''PaymentStreamRateIndex2IDSource''), (43116, ''LegPaymentStreamRateIndex2''),
    (43117, ''LegPaymentStreamRateIndex2Source''), (43118, ''LegPaymentStreamRateIndex2ID''),
    (43119, ''LegPaymentStreamRateIndex2IDSource''), (43120, ''UnderlyingPaymentStreamRateIndex2''),
    (43121, ''UnderlyingPaymentStreamRateIndex2Source''), (43122, ''UnderlyingPaymentStreamRateIndex2ID''),
    (43123, ''UnderlyingPaymentStreamRateIndex2IDSource''), (50000, ''BatchID''),
    (50001, ''BatchTotalMessages''), (50002, ''BatchProcessMode'')]"

end
