(* ===== verification/Generated_Tables.thy ===== *)
theory Generated_Tables
  imports Tag_Enum_1 Tag_Enum_2 Tag_Enum_3 Tag_Enum_4 Field_Names_1 Field_Names_2 Field_Names_3 Field_Names_4
begin

text \<open>
  The whole generated tables: the enumerators of \<open>hffix::tag\<close> and the field dictionary. The dictionary
  gives each enumerator's number its name, and nothing else.
\<close>

definition enumerators :: "tag_table" where
  "enumerators =
    tag_enum_1 @ tag_enum_2 @ tag_enum_3 @ tag_enum_4 @ tag_enum_5 @ tag_enum_6 @ tag_enum_7 @ tag_enum_8 @
    tag_enum_9 @ tag_enum_10 @ tag_enum_11 @ tag_enum_12 @ tag_enum_13 @ tag_enum_14 @ tag_enum_15 @
    tag_enum_16 @ tag_enum_17 @ tag_enum_18 @ tag_enum_19 @ tag_enum_20 @ tag_enum_21 @ tag_enum_22 @
    tag_enum_23 @ tag_enum_24 @ tag_enum_25 @ tag_enum_26 @ tag_enum_27 @ tag_enum_28 @ tag_enum_29 @
    tag_enum_30 @ tag_enum_31 @ tag_enum_32 @ tag_enum_33 @ tag_enum_34 @ tag_enum_35 @ tag_enum_36 @
    tag_enum_37 @ tag_enum_38 @ tag_enum_39 @ tag_enum_40 @ tag_enum_41"

definition field_names :: "(int \<times> string) list" where
  "field_names =
    field_names_1 @ field_names_2 @ field_names_3 @ field_names_4 @ field_names_5 @ field_names_6 @
    field_names_7 @ field_names_8 @ field_names_9 @ field_names_10 @ field_names_11 @ field_names_12 @
    field_names_13 @ field_names_14 @ field_names_15 @ field_names_16 @ field_names_17 @ field_names_18 @
    field_names_19 @ field_names_20 @ field_names_21 @ field_names_22 @ field_names_23 @ field_names_24 @
    field_names_25 @ field_names_26 @ field_names_27 @ field_names_28 @ field_names_29 @ field_names_30 @
    field_names_31 @ field_names_32 @ field_names_33 @ field_names_34 @ field_names_35 @ field_names_36 @
    field_names_37 @ field_names_38 @ field_names_39 @ field_names_40 @ field_names_41"

text \<open>The dictionary after the assignments, made in this order.\<close>

definition field_dictionary :: "int \<rightharpoonup> string" where
  "field_dictionary = fold (\<lambda>(tag, name) d. d(tag \<mapsto> name)) field_names Map.empty"

section \<open>The parts together\<close>

lemma names_1: "map tag_name tag_enum_1 = field_names_1"
  unfolding tag_enum_1_def field_names_1_def by (rule tag_name_scan)+

lemma names_2: "map tag_name tag_enum_2 = field_names_2"
  unfolding tag_enum_2_def field_names_2_def by (rule tag_name_scan)+

lemma names_3: "map tag_name tag_enum_3 = field_names_3"
  unfolding tag_enum_3_def field_names_3_def by (rule tag_name_scan)+

lemma names_4: "map tag_name tag_enum_4 = field_names_4"
  unfolding tag_enum_4_def field_names_4_def by (rule tag_name_scan)+

lemma names_5: "map tag_name tag_enum_5 = field_names_5"
  unfolding tag_enum_5_def field_names_5_def by (rule tag_name_scan)+

lemma names_6: "map tag_name tag_enum_6 = field_names_6"
  unfolding tag_enum_6_def field_names_6_def by (rule tag_name_scan)+

lemma names_7: "map tag_name tag_enum_7 = field_names_7"
  unfolding tag_enum_7_def field_names_7_def by (rule tag_name_scan)+

lemma names_8: "map tag_name tag_enum_8 = field_names_8"
  unfolding tag_enum_8_def field_names_8_def by (rule tag_name_scan)+

lemma names_9: "map tag_name tag_enum_9 = field_names_9"
  unfolding tag_enum_9_def field_names_9_def by (rule tag_name_scan)+

lemma names_10: "map tag_name tag_enum_10 = field_names_10"
  unfolding tag_enum_10_def field_names_10_def by (rule tag_name_scan)+

lemma names_11: "map tag_name tag_enum_11 = field_names_11"
  unfolding tag_enum_11_def field_names_11_def by (rule tag_name_scan)+

lemma names_12: "map tag_name tag_enum_12 = field_names_12"
  unfolding tag_enum_12_def field_names_12_def by (rule tag_name_scan)+

lemma names_13: "map tag_name tag_enum_13 = field_names_13"
  unfolding tag_enum_13_def field_names_13_def by (rule tag_name_scan)+

lemma names_14: "map tag_name tag_enum_14 = field_names_14"
  unfolding tag_enum_14_def field_names_14_def by (rule tag_name_scan)+

lemma names_15: "map tag_name tag_enum_15 = field_names_15"
  unfolding tag_enum_15_def field_names_15_def by (rule tag_name_scan)+

lemma names_16: "map tag_name tag_enum_16 = field_names_16"
  unfolding tag_enum_16_def field_names_16_def by (rule tag_name_scan)+

lemma names_17: "map tag_name tag_enum_17 = field_names_17"
  unfolding tag_enum_17_def field_names_17_def by (rule tag_name_scan)+

lemma names_18: "map tag_name tag_enum_18 = field_names_18"
  unfolding tag_enum_18_def field_names_18_def by (rule tag_name_scan)+

lemma names_19: "map tag_name tag_enum_19 = field_names_19"
  unfolding tag_enum_19_def field_names_19_def by (rule tag_name_scan)+

lemma names_20: "map tag_name tag_enum_20 = field_names_20"
  unfolding tag_enum_20_def field_names_20_def by (rule tag_name_scan)+

lemma names_21: "map tag_name tag_enum_21 = field_names_21"
  unfolding tag_enum_21_def field_names_21_def by (rule tag_name_scan)+

lemma names_22: "map tag_name tag_enum_22 = field_names_22"
  unfolding tag_enum_22_def field_names_22_def by (rule tag_name_scan)+

lemma names_23: "map tag_name tag_enum_23 = field_names_23"
  unfolding tag_enum_23_def field_names_23_def by (rule tag_name_scan)+

lemma names_24: "map tag_name tag_enum_24 = field_names_24"
  unfolding tag_enum_24_def field_names_24_def by (rule tag_name_scan)+

lemma names_25: "map tag_name tag_enum_25 = field_names_25"
  unfolding tag_enum_25_def field_names_25_def by (rule tag_name_scan)+

lemma names_26: "map tag_name tag_enum_26 = field_names_26"
  unfolding tag_enum_26_def field_names_26_def by (rule tag_name_scan)+

lemma names_27: "map tag_name tag_enum_27 = field_names_27"
  unfolding tag_enum_27_def field_names_27_def by (rule tag_name_scan)+

lemma names_28: "map tag_name tag_enum_28 = field_names_28"
  unfolding tag_enum_28_def field_names_28_def by (rule tag_name_scan)+

lemma names_29: "map tag_name tag_enum_29 = field_names_29"
  unfolding tag_enum_29_def field_names_29_def by (rule tag_name_scan)+

lemma names_30: "map tag_name tag_enum_30 = field_names_30"
  unfolding tag_enum_30_def field_names_30_def by (rule tag_name_scan)+

lemma names_31: "map tag_name tag_enum_31 = field_names_31"
  unfolding tag_enum_31_def field_names_31_def by (rule tag_name_scan)+

lemma names_32: "map tag_name tag_enum_32 = field_names_32"
  unfolding tag_enum_32_def field_names_32_def by (rule tag_name_scan)+

lemma names_33: "map tag_name tag_enum_33 = field_names_33"
  unfolding tag_enum_33_def field_names_33_def by (rule tag_name_scan)+

lemma names_34: "map tag_name tag_enum_34 = field_names_34"
  unfolding tag_enum_34_def field_names_34_def by (rule tag_name_scan)+

lemma names_35: "map tag_name tag_enum_35 = field_names_35"
  unfolding tag_enum_35_def field_names_35_def by (rule tag_name_scan)+

lemma names_36: "map tag_name tag_enum_36 = field_names_36"
  unfolding tag_enum_36_def field_names_36_def by (rule tag_name_scan)+

lemma names_37: "map tag_name tag_enum_37 = field_names_37"
  unfolding tag_enum_37_def field_names_37_def by (rule tag_name_scan)+

lemma names_38: "map tag_name tag_enum_38 = field_names_38"
  unfolding tag_enum_38_def field_names_38_def by (rule tag_name_scan)+

lemma names_39: "map tag_name tag_enum_39 = field_names_39"
  unfolding tag_enum_39_def field_names_39_def by (rule tag_name_scan)+

lemma names_40: "map tag_name tag_enum_40 = field_names_40"
  unfolding tag_enum_40_def field_names_40_def by (rule tag_name_scan)+

lemma names_41: "map tag_name tag_enum_41 = field_names_41"
  unfolding tag_enum_41_def field_names_41_def by (rule tag_name_scan)+

lemmas lengths_all =
    lengths_1 lengths_2 lengths_3 lengths_4 lengths_5 lengths_6 lengths_7 lengths_8 lengths_9 lengths_10
    lengths_11 lengths_12 lengths_13 lengths_14 lengths_15 lengths_16 lengths_17 lengths_18 lengths_19
    lengths_20 lengths_21 lengths_22 lengths_23 lengths_24 lengths_25 lengths_26 lengths_27 lengths_28
    lengths_29 lengths_30 lengths_31 lengths_32 lengths_33 lengths_34 lengths_35 lengths_36 lengths_37
    lengths_38 lengths_39 lengths_40 lengths_41

lemmas counts_all =
    counts_1 counts_2 counts_3 counts_4 counts_5 counts_6 counts_7 counts_8 counts_9 counts_10 counts_11
    counts_12 counts_13 counts_14 counts_15 counts_16 counts_17 counts_18 counts_19 counts_20 counts_21
    counts_22 counts_23 counts_24 counts_25 counts_26 counts_27 counts_28 counts_29 counts_30 counts_31
    counts_32 counts_33 counts_34 counts_35 counts_36 counts_37 counts_38 counts_39 counts_40 counts_41

lemmas names_all =
    names_1 names_2 names_3 names_4 names_5 names_6 names_7 names_8 names_9 names_10 names_11 names_12
    names_13 names_14 names_15 names_16 names_17 names_18 names_19 names_20 names_21 names_22 names_23
    names_24 names_25 names_26 names_27 names_28 names_29 names_30 names_31 names_32 names_33 names_34
    names_35 names_36 names_37 names_38 names_39 names_40 names_41

lemma enumerators_ascend: "ascends 0 enumerators 50002"
  unfolding enumerators_def
  by (rule 
    ascends_append [OF ascending_1], rule ascends_append [OF ascending_2], rule
    ascends_append [OF ascending_3], rule ascends_append [OF ascending_4], rule
    ascends_append [OF ascending_5], rule ascends_append [OF ascending_6], rule
    ascends_append [OF ascending_7], rule ascends_append [OF ascending_8], rule
    ascends_append [OF ascending_9], rule ascends_append [OF ascending_10], rule
    ascends_append [OF ascending_11], rule ascends_append [OF ascending_12], rule
    ascends_append [OF ascending_13], rule ascends_append [OF ascending_14], rule
    ascends_append [OF ascending_15], rule ascends_append [OF ascending_16], rule
    ascends_append [OF ascending_17], rule ascends_append [OF ascending_18], rule
    ascends_append [OF ascending_19], rule ascends_append [OF ascending_20], rule
    ascends_append [OF ascending_21], rule ascends_append [OF ascending_22], rule
    ascends_append [OF ascending_23], rule ascends_append [OF ascending_24], rule
    ascends_append [OF ascending_25], rule ascends_append [OF ascending_26], rule
    ascends_append [OF ascending_27], rule ascends_append [OF ascending_28], rule
    ascends_append [OF ascending_29], rule ascends_append [OF ascending_30], rule
    ascends_append [OF ascending_31], rule ascends_append [OF ascending_32], rule
    ascends_append [OF ascending_33], rule ascends_append [OF ascending_34], rule
    ascends_append [OF ascending_35], rule ascends_append [OF ascending_36], rule
    ascends_append [OF ascending_37], rule ascends_append [OF ascending_38], rule
    ascends_append [OF ascending_39], rule ascends_append [OF ascending_40], rule ascending_41)

lemma enumerators_distinct: "distinct (map fst enumerators)"
  using ascends_distinct [OF enumerators_ascend] .

lemma field_names_enumerators: "field_names = map tag_name enumerators"
  unfolding field_names_def enumerators_def map_append names_all ..

lemma fold_update_map_of: "fold (\<lambda>(k, v) d. d(k \<mapsto> v)) xs m = m ++ map_of (rev xs)"
  by (induction xs arbitrary: m) (auto simp: map_add_def fun_eq_iff split: option.splits)

lemma field_dictionary_iff: "field_dictionary tag = Some name \<longleftrightarrow> (\<exists>ty. (tag, name, ty) \<in> set enumerators)"
proof -
  have keys: "map fst (map tag_name enumerators) = map fst enumerators"
    by (simp add: tag_name_def comp_def)
  have "field_dictionary = map_of (rev (map tag_name enumerators))"
    by (simp add: field_dictionary_def fold_update_map_of field_names_enumerators)
  then have "field_dictionary tag = Some name \<longleftrightarrow> map_of (rev (map tag_name enumerators)) tag = Some name" by simp
  moreover have "distinct (map fst (rev (map tag_name enumerators)))"
    using enumerators_distinct keys by (simp only: rev_map [symmetric] distinct_rev)
  then have "map_of (rev (map tag_name enumerators)) tag = Some name \<longleftrightarrow> (tag, name) \<in> set (rev (map tag_name enumerators))"
    by (rule map_of_eq_Some_iff)
  ultimately show ?thesis by (force simp: tag_name_def)
qed

end
