(* ===== verification/Generated_Header.thy ===== *)
theory Generated_Header
  imports Generated_Tables Group_Registry Spec_Groups Fixprint
begin

text \<open>
  The generated headers against each other and against their generator: the table of data lengths is
  the one \<open>fixspec-gen-fields\<close> makes of the enumerators, the registered groups are exactly those
  counted by a field of type NumInGroup, and the message type constants and the message
  dictionary are inverse to each other.
\<close>

section \<open>The data lengths\<close>

text \<open>The enumerators as the generator's map of fields.\<close>

definition header_field :: "int \<times> string \<times> fix_type \<Rightarrow> int \<times> spec_field" where
  "header_field = (\<lambda>(tag, name, ty). (tag, \<lparr>sf_tag = tag, sf_name = name, sf_type = type_text ty, sf_aliases = []\<rparr>))"

definition header_fields :: field_map where
  "header_fields = map header_field enumerators"

lemma generated_lengths_header_field:
  "generated_lengths (map header_field table) = filter (\<lambda>t. t \<noteq> 9 \<and> t \<noteq> 383) (of_type T_Length table)"
  by (induction table)
    (auto simp: generated_lengths_def data_lengths_def header_field_def is_data_length_def type_text_Length of_type_def)

lemma length_fields_generated: "generated_lengths header_fields = length_fields"
  unfolding header_fields_def generated_lengths_header_field enumerators_def of_type_append lengths_all
  by (simp add: length_fields_def)

lemma header_fields_ordered: "ordered header_fields"
proof -
  have "map fst header_fields = map fst enumerators" by (auto simp: header_fields_def header_field_def)
  then show ?thesis using enumerators_ascend by (simp add: ordered_def ascends_def)
qed

lemma length_fields_iff: "t \<in> set length_fields \<longleftrightarrow> (\<exists>name. (t, name, T_Length) \<in> set enumerators) \<and> t \<noteq> 9 \<and> t \<noteq> 383"
  unfolding length_fields_generated [symmetric] header_fields_def generated_lengths_header_field
  by (simp add: of_type_set)

section \<open>The groups\<close>

lemma registry_keys_1: "map fst registered_groups_1 = [
    40000, 40019, 1791, 534, 2653, 1908, 78, 816, 1351, 1499, 2304, 2113, 2104, 2548, 420, 398, 40278,
    862, 42214, 40277, 40022, 1918, 576, 2580, 938, 1703, 2845, 2639, 936, 40994, 41005, 41029, 40997,
    41018, 1491, 41007, 41010, 41013, 41031, 1494, 1483, 518, 382, 40040, 40042, 1829, 580, 41051, 41054,
    41037, 41085, 41081, 1286, 1311, 1292, 1296, 1218, 1812, 510, 42236, 42272, 42294, 42274, 85, 1777,
    2345, 1773, 864, 1232, 124, 981, 42296, 1362, 40046, 2560, 2849, 627, 199, 2734, 870, 1889, 1018,
    1052, 1540, 1656, 41316, 41335, 670, 2308, 40923, 42306, 41342, 41344, 41363, 41374, 41398, 41366,
    41387, 2250, 41376, 41379, 41382, 41400, 2253, 2218, 42198, 42203, 41422, 41425, 41408, 41460, 41456,
    42310, 42364, 42386, 42366, 2059, 1892, 42388, 42200, 2254, 2258, 41467, 41471, 41469, 40367, 41491,
    41512, 41515, 41527, 40927, 41530]"
  by (simp add: registered_groups_1_def)

lemma registry_keys_2: "map fst registered_groups_2 = [
    40928, 40414, 40374, 42405, 42419, 40933, 42459, 42485, 40932, 40929, 40930, 41589, 41561, 41593,
    41596, 40931, 42495, 42504, 40418, 41604, 41599, 1586, 41607, 41614, 41633, 41625, 41635, 41616,
    40934, 40473, 40935, 40939, 40936, 40495, 40937, 40938, 40533, 40537, 40448, 42508, 42530, 42560,
    42564, 42569, 42571, 42534, 2076, 604, 42581, 40902, 683, 41452, 40940, 41638, 41674, 41677, 41646,
    41680, 41686, 41683, 40942, 40941, 40943, 40241, 555, 1630, 33, 1234, 268, 267, 1141, 2474, 41312,
    1643, 1636, 41092, 41096, 41094, 1310, 2772, 1624, 1235, 2781, 1236, 2633, 136, 384, 756, 806, 948,
    952, 1414, 1413, 1312, 539, 804, 1475, 40825, 1793, 1370, 1342, 1177, 41116, 41137, 41140, 41152,
    1237, 2593, 2428, 1795]"
  by (simp add: registered_groups_2_def)

lemma registry_keys_3: "map fst registered_groups_3 = [
    73, 1516, 1519, 1694, 1671, 1772, 453, 1514, 1677, 802, 1676, 1707, 40944, 40977, 41161, 40945,
    40868, 40828, 40233, 40238, 40230, 42606, 42620, 40950, 42660, 42683, 40949, 40946, 40947, 41220,
    41192, 41224, 41227, 40948, 42696, 42705, 40872, 40212, 40209, 40204, 753, 702, 1920, 1919, 2709,
    2550, 41230, 40951, 40199, 40191, 40201, 40181, 40952, 40171, 40953, 40957, 40954, 40142, 40955,
    40956, 40174, 40178, 40090, 2706, 295, 735, 296, 2558, 1445, 2746, 473, 1907, 1647, 2545, 1569, 1572,
    1562, 1566, 1861, 146, 1855, 2529, 1508, 1668, 1657, 1661, 42709, 42731, 42761, 42765, 42770, 42772,
    42735, 1534, 1529, 1669, 1559, 1116, 1120, 215, 1976, 454, 1582, 558, 1158, 778, 42775, 1165, 781,
    801, 40085, 1700, 2691, 2864, 1971]"
  by (simp add: registered_groups_3_def)

lemma registry_keys_4: "map fst registered_groups_4 = [
    1016, 552, 1175, 232, 957, 41237, 40958, 41241, 41277, 41280, 41249, 41283, 41289, 41286, 40960,
    40959, 40961, 40049, 1201, 428, 1789, 1461, 2433, 1618, 1610, 1205, 1239, 1844, 1838, 1841, 897,
    1309, 386, 2871, 1890, 2668, 768, 1387, 41340, 42036, 984, 2312, 40962, 42788, 42039, 42041, 41713,
    41724, 41748, 41716, 41737, 2053, 41726, 41729, 41732, 41750, 2056, 2045, 41770, 41773, 41756, 41808,
    41804, 42799, 42853, 42855, 42882, 42862, 1981, 42884, 1334, 41864, 41868, 41866, 40656, 41820,
    41841, 41844, 41856, 40966, 41878, 40967, 40704, 40664, 42901, 42915, 40972, 42955, 42981, 40971,
    40968, 40969, 41937, 41909, 41941, 41944, 40970, 42991, 43000, 40708, 42065, 42060, 41947, 42090,
    42085, 42077, 42087, 42068, 42180, 42099, 42182, 42190, 42184, 42112, 42186]"
  by (simp add: registered_groups_4_def)

lemma registry_keys_5: "map fst registered_groups_5 = [
    42188, 42173, 42177, 42149, 43005, 43008, 43030, 43060, 43064, 43069, 43071, 43034, 2080, 457, 43074,
    40659, 887, 41800, 40973, 41954, 41990, 41993, 41962, 41996, 42002, 41999, 40975, 40974, 40976,
    40540, 711, 1058, 1062, 809, 1868]"
  by (simp add: registered_groups_5_def)

definition registered_counts :: "int list" where
  "registered_counts = map fst registered_groups"

lemma registered_counts_split:
  "c \<in> set registered_counts \<longleftrightarrow> c \<in> set (map fst registered_groups_1) \<or> c \<in> set (map fst registered_groups_2) \<or>
    c \<in> set (map fst registered_groups_3) \<or> c \<in> set (map fst registered_groups_4) \<or> c \<in> set (map fst registered_groups_5)"
  by (simp add: registered_counts_def registered_groups_def disj_assoc)

lemmas registry_lengths = arg_cong [OF registry_keys_1, of length, simplified] arg_cong [OF registry_keys_2, of length, simplified]
  arg_cong [OF registry_keys_3, of length, simplified] arg_cong [OF registry_keys_4, of length, simplified]
  arg_cong [OF registry_keys_5, of length, simplified]

lemmas registry_keys = registered_counts_split registry_keys_1 registry_keys_2 registry_keys_3 registry_keys_4 registry_keys_5

text \<open>Every number of type NumInGroup, in parts, is a registered count.\<close>

lemma counted_1: "list_all (\<lambda>c. c \<in> set registered_counts) [
    33, 73, 78, 85, 124, 136, 146, 199, 215, 232, 267, 268, 295, 296, 382, 384, 386, 398, 420, 428, 453,
    454, 457, 473, 510, 518, 534, 539, 552, 555, 558, 576, 580, 604, 627, 670, 683, 702, 711, 735, 753,
    756, 768, 778, 781, 801, 802, 804, 806, 809, 816, 862, 864, 870, 887, 897, 936, 938, 948, 952]"
  by (simp add: registry_keys)

lemma counted_2: "list_all (\<lambda>c. c \<in> set registered_counts) [
    957, 981, 984, 1016, 1018, 1052, 1058, 1062, 1116, 1120, 1141, 1158, 1165, 1175, 1177, 1201, 1205,
    1218, 1232, 1234, 1235, 1236, 1237, 1239, 1286, 1292, 1296, 1309, 1310, 1311, 1312, 1334, 1342, 1351,
    1362, 1370, 1387, 1413, 1414, 1445, 1461, 1475, 1483, 1491, 1494, 1499, 1508, 1514, 1516, 1519, 1529,
    1534, 1540, 1559, 1562, 1566, 1569, 1572, 1582, 1586]"
  by (simp add: registry_keys)

lemma counted_3: "list_all (\<lambda>c. c \<in> set registered_counts) [
    1610, 1618, 1624, 1630, 1636, 1643, 1647, 1656, 1657, 1661, 1668, 1669, 1671, 1676, 1677, 1694, 1700,
    1703, 1707, 1772, 1773, 1777, 1789, 1791, 1793, 1795, 1812, 1829, 1838, 1841, 1844, 1855, 1861, 1868,
    1889, 1890, 1892, 1907, 1908, 1918, 1919, 1920, 1971, 1976, 1981, 2045, 2053, 2056, 2059, 2076, 2080,
    2104, 2113, 2218, 2250, 2253, 2254, 2258, 2304, 2308]"
  by (simp add: registry_keys)

lemma counted_4: "list_all (\<lambda>c. c \<in> set registered_counts) [
    2312, 2345, 2428, 2433, 2474, 2529, 2545, 2548, 2550, 2558, 2560, 2580, 2593, 2633, 2639, 2653, 2668,
    2691, 2706, 2709, 2734, 2746, 2772, 2781, 2845, 2849, 2864, 2871, 40000, 40019, 40022, 40040, 40042,
    40046, 40049, 40085, 40090, 40142, 40171, 40174, 40178, 40181, 40191, 40199, 40201, 40204, 40209,
    40212, 40230, 40233, 40238, 40241, 40277, 40278, 40367, 40374, 40414, 40418, 40448, 40473]"
  by (simp add: registry_keys)

lemma counted_5: "list_all (\<lambda>c. c \<in> set registered_counts) [
    40495, 40533, 40537, 40540, 40656, 40659, 40664, 40704, 40708, 40825, 40828, 40868, 40872, 40902,
    40923, 40927, 40928, 40929, 40930, 40931, 40932, 40933, 40934, 40935, 40936, 40937, 40938, 40939,
    40940, 40941, 40942, 40943, 40944, 40945, 40946, 40947, 40948, 40949, 40950, 40951, 40952, 40953,
    40954, 40955, 40956, 40957, 40958, 40959, 40960, 40961, 40962, 40966, 40967, 40968, 40969, 40970,
    40971, 40972, 40973, 40974]"
  by (simp add: registry_keys)

lemma counted_6: "list_all (\<lambda>c. c \<in> set registered_counts) [
    40975, 40976, 40977, 40994, 40997, 41005, 41007, 41010, 41013, 41018, 41029, 41031, 41037, 41051,
    41054, 41081, 41085, 41092, 41094, 41096, 41116, 41137, 41140, 41152, 41161, 41192, 41220, 41224,
    41227, 41230, 41237, 41241, 41249, 41277, 41280, 41283, 41286, 41289, 41312, 41316, 41335, 41340,
    41342, 41344, 41363, 41366, 41374, 41376, 41379, 41382, 41387, 41398, 41400, 41408, 41422, 41425,
    41452, 41456, 41460, 41467]"
  by (simp add: registry_keys)

lemma counted_7: "list_all (\<lambda>c. c \<in> set registered_counts) [
    41469, 41471, 41491, 41512, 41515, 41527, 41530, 41561, 41589, 41593, 41596, 41599, 41604, 41607,
    41614, 41616, 41625, 41633, 41635, 41638, 41646, 41674, 41677, 41680, 41683, 41686, 41713, 41716,
    41724, 41726, 41729, 41732, 41737, 41748, 41750, 41756, 41770, 41773, 41800, 41804, 41808, 41820,
    41841, 41844, 41856, 41864, 41866, 41868, 41878, 41909, 41937, 41941, 41944, 41947, 41954, 41962,
    41990, 41993, 41996, 41999]"
  by (simp add: registry_keys)

lemma counted_8: "list_all (\<lambda>c. c \<in> set registered_counts) [
    42002, 42036, 42039, 42041, 42060, 42065, 42068, 42077, 42085, 42087, 42090, 42099, 42112, 42149,
    42173, 42177, 42180, 42182, 42184, 42186, 42188, 42190, 42198, 42200, 42203, 42214, 42236, 42272,
    42274, 42294, 42296, 42306, 42310, 42364, 42366, 42386, 42388, 42405, 42419, 42459, 42485, 42495,
    42504, 42508, 42530, 42534, 42560, 42564, 42569, 42571, 42581, 42606, 42620, 42660, 42683, 42696,
    42705, 42709, 42731, 42735]"
  by (simp add: registry_keys)

lemma counted_9: "list_all (\<lambda>c. c \<in> set registered_counts) [
    42761, 42765, 42770, 42772, 42775, 42788, 42799, 42853, 42855, 42862, 42882, 42884, 42901, 42915,
    42955, 42981, 42991, 43000, 43005, 43008, 43030, 43034, 43060, 43064, 43069, 43071, 43074]"
  by (simp add: registry_keys)

lemma group_counts: "of_type T_NumInGroup enumerators =
    [33, 73, 78, 85, 124, 136, 146, 199, 215, 232, 267, 268, 295, 296, 382, 384, 386, 398, 420, 428, 453,
    454, 457, 473, 510, 518, 534, 539, 552, 555, 558, 576, 580, 604, 627, 670, 683, 702, 711, 735, 753,
    756, 768, 778, 781, 801, 802, 804, 806, 809, 816, 862, 864, 870, 887, 897, 936, 938, 948, 952] @
    [957, 981, 984, 1016, 1018, 1052, 1058, 1062, 1116, 1120, 1141, 1158, 1165, 1175, 1177, 1201, 1205,
    1218, 1232, 1234, 1235, 1236, 1237, 1239, 1286, 1292, 1296, 1309, 1310, 1311, 1312, 1334, 1342, 1351,
    1362, 1370, 1387, 1413, 1414, 1445, 1461, 1475, 1483, 1491, 1494, 1499, 1508, 1514, 1516, 1519, 1529,
    1534, 1540, 1559, 1562, 1566, 1569, 1572, 1582, 1586] @
    [1610, 1618, 1624, 1630, 1636, 1643, 1647, 1656, 1657, 1661, 1668, 1669, 1671, 1676, 1677, 1694, 1700,
    1703, 1707, 1772, 1773, 1777, 1789, 1791, 1793, 1795, 1812, 1829, 1838, 1841, 1844, 1855, 1861, 1868,
    1889, 1890, 1892, 1907, 1908, 1918, 1919, 1920, 1971, 1976, 1981, 2045, 2053, 2056, 2059, 2076, 2080,
    2104, 2113, 2218, 2250, 2253, 2254, 2258, 2304, 2308] @
    [2312, 2345, 2428, 2433, 2474, 2529, 2545, 2548, 2550, 2558, 2560, 2580, 2593, 2633, 2639, 2653, 2668,
    2691, 2706, 2709, 2734, 2746, 2772, 2781, 2845, 2849, 2864, 2871, 40000, 40019, 40022, 40040, 40042,
    40046, 40049, 40085, 40090, 40142, 40171, 40174, 40178, 40181, 40191, 40199, 40201, 40204, 40209,
    40212, 40230, 40233, 40238, 40241, 40277, 40278, 40367, 40374, 40414, 40418, 40448, 40473] @
    [40495, 40533, 40537, 40540, 40656, 40659, 40664, 40704, 40708, 40825, 40828, 40868, 40872, 40902,
    40923, 40927, 40928, 40929, 40930, 40931, 40932, 40933, 40934, 40935, 40936, 40937, 40938, 40939,
    40940, 40941, 40942, 40943, 40944, 40945, 40946, 40947, 40948, 40949, 40950, 40951, 40952, 40953,
    40954, 40955, 40956, 40957, 40958, 40959, 40960, 40961, 40962, 40966, 40967, 40968, 40969, 40970,
    40971, 40972, 40973, 40974] @
    [40975, 40976, 40977, 40994, 40997, 41005, 41007, 41010, 41013, 41018, 41029, 41031, 41037, 41051,
    41054, 41081, 41085, 41092, 41094, 41096, 41116, 41137, 41140, 41152, 41161, 41192, 41220, 41224,
    41227, 41230, 41237, 41241, 41249, 41277, 41280, 41283, 41286, 41289, 41312, 41316, 41335, 41340,
    41342, 41344, 41363, 41366, 41374, 41376, 41379, 41382, 41387, 41398, 41400, 41408, 41422, 41425,
    41452, 41456, 41460, 41467] @
    [41469, 41471, 41491, 41512, 41515, 41527, 41530, 41561, 41589, 41593, 41596, 41599, 41604, 41607,
    41614, 41616, 41625, 41633, 41635, 41638, 41646, 41674, 41677, 41680, 41683, 41686, 41713, 41716,
    41724, 41726, 41729, 41732, 41737, 41748, 41750, 41756, 41770, 41773, 41800, 41804, 41808, 41820,
    41841, 41844, 41856, 41864, 41866, 41868, 41878, 41909, 41937, 41941, 41944, 41947, 41954, 41962,
    41990, 41993, 41996, 41999] @
    [42002, 42036, 42039, 42041, 42060, 42065, 42068, 42077, 42085, 42087, 42090, 42099, 42112, 42149,
    42173, 42177, 42180, 42182, 42184, 42186, 42188, 42190, 42198, 42200, 42203, 42214, 42236, 42272,
    42274, 42294, 42296, 42306, 42310, 42364, 42366, 42386, 42388, 42405, 42419, 42459, 42485, 42495,
    42504, 42508, 42530, 42534, 42560, 42564, 42569, 42571, 42581, 42606, 42620, 42660, 42683, 42696,
    42705, 42709, 42731, 42735] @
    [42761, 42765, 42770, 42772, 42775, 42788, 42799, 42853, 42855, 42862, 42882, 42884, 42901, 42915,
    42955, 42981, 42991, 43000, 43005, 43008, 43030, 43034, 43060, 43064, 43069, 43071, 43074]"
  unfolding enumerators_def of_type_append counts_all append.simps ..

lemma group_counts_registered: "set (of_type T_NumInGroup enumerators) = set registered_counts"
proof -
  have "list_all (\<lambda>c. c \<in> set registered_counts) (of_type T_NumInGroup enumerators)"
    by (simp only: group_counts list_all_append counted_1 counted_2 counted_3 counted_4 counted_5 counted_6 counted_7 counted_8 counted_9 simp_thms)
  then have sub: "set (of_type T_NumInGroup enumerators) \<subseteq> set registered_counts" by (auto simp: list_all_iff)
  have "distinct (of_type T_NumInGroup enumerators)"
    using enumerators_distinct unfolding of_type_def by (rule distinct_map_filter)
  then have "card (set (of_type T_NumInGroup enumerators)) = length (of_type T_NumInGroup enumerators)"
    by (rule distinct_card)
  also have "\<dots> = 507" by (simp add: group_counts)
  finally have "card (set (of_type T_NumInGroup enumerators)) = 507" .
  moreover have "card (set registered_counts) \<le> 507"
  proof -
    have "length registered_counts = 507"
      by (simp add: registered_counts_def registered_groups_def registry_lengths)
    then show ?thesis using card_length [of registered_counts] by simp
  qed
  ultimately show ?thesis using sub by (intro card_seteq) auto
qed

lemma first_tag_group_count: "first_tag c \<noteq> 0 \<longleftrightarrow> (\<exists>name. (c, name, T_NumInGroup) \<in> set enumerators)"
proof -
  have "first_tag c \<noteq> 0 \<longleftrightarrow> c \<in> set registered_counts"
    unfolding first_tag_iff registered_counts_def by simp
  then show ?thesis by (simp add: group_counts_registered [symmetric] of_type_set)
qed

section \<open>Message types\<close>

text \<open>The constants of \<open>hffix::msg_type\<close>: name and value.\<close>

definition msg_type_1 :: "(string \<times> string) list" where
  "msg_type_1 = [
    (''IOI'', ''6''), (''Advertisement'', ''7''), (''ExecutionReport'', ''8''),
    (''OrderCancelReject'', ''9''), (''News'', ''B''), (''Email'', ''C''), (''NewOrderSingle'', ''D''),
    (''NewOrderList'', ''E''), (''OrderCancelRequest'', ''F''), (''OrderCancelReplaceRequest'', ''G''),
    (''OrderStatusRequest'', ''H''), (''AllocationInstruction'', ''J''), (''ListCancelRequest'', ''K''),
    (''ListExecute'', ''L''), (''ListStatusRequest'', ''M''), (''ListStatus'', ''N''),
    (''AllocationInstructionAck'', ''P''), (''DontKnowTrade'', ''Q''), (''QuoteRequest'', ''R''),
    (''Quote'', ''S''), (''SettlementInstructions'', ''T''), (''MarketDataRequest'', ''V''),
    (''MarketDataSnapshotFullRefresh'', ''W''), (''MarketDataIncrementalRefresh'', ''X''),
    (''MarketDataRequestReject'', ''Y''), (''QuoteCancel'', ''Z''), (''QuoteStatusRequest'', ''a''),
    (''MassQuoteAck'', ''b''), (''SecurityDefinitionRequest'', ''c''), (''SecurityDefinition'', ''d''),
    (''SecurityStatusRequest'', ''e''), (''SecurityStatus'', ''f''),
    (''TradingSessionStatusRequest'', ''g''), (''TradingSessionStatus'', ''h''), (''MassQuote'', ''i''),
    (''BusinessMessageReject'', ''j''), (''BidRequest'', ''k''), (''BidResponse'', ''l''),
    (''ListStrikePrice'', ''m''), (''RegistrationInstructions'', ''o''),
    (''RegistrationInstructionsResponse'', ''p''), (''OrderMassCancelRequest'', ''q''),
    (''OrderMassCancelReport'', ''r''), (''NewOrderCross'', ''s''),
    (''CrossOrderCancelReplaceRequest'', ''t''), (''CrossOrderCancelRequest'', ''u''),
    (''SecurityTypeRequest'', ''v''), (''SecurityTypes'', ''w''), (''SecurityListRequest'', ''x''),
    (''SecurityList'', ''y''), (''DerivativeSecurityListRequest'', ''z''),
    (''DerivativeSecurityList'', ''AA''), (''NewOrderMultileg'', ''AB''),
    (''MultilegOrderCancelReplace'', ''AC''), (''TradeCaptureReportRequest'', ''AD''),
    (''TradeCaptureReport'', ''AE''), (''OrderMassStatusRequest'', ''AF''),
    (''QuoteRequestReject'', ''AG''), (''RFQRequest'', ''AH''), (''QuoteStatusReport'', ''AI''),
    (''QuoteResponse'', ''AJ''), (''Confirmation'', ''AK''), (''PositionMaintenanceRequest'', ''AL''),
    (''PositionMaintenanceReport'', ''AM''), (''RequestForPositions'', ''AN''),
    (''RequestForPositionsAck'', ''AO''), (''PositionReport'', ''AP''),
    (''TradeCaptureReportRequestAck'', ''AQ''), (''TradeCaptureReportAck'', ''AR''),
    (''AllocationReport'', ''AS''), (''AllocationReportAck'', ''AT''), (''ConfirmationAck'', ''AU''),
    (''SettlementInstructionRequest'', ''AV''), (''AssignmentReport'', ''AW''),
    (''CollateralRequest'', ''AX''), (''CollateralAssignment'', ''AY''),
    (''CollateralResponse'', ''AZ''), (''CollateralReport'', ''BA''), (''CollateralInquiry'', ''BB''),
    (''NetworkCounterpartySystemStatusRequest'', ''BC''),
    (''NetworkCounterpartySystemStatusResponse'', ''BD''), (''UserRequest'', ''BE''),
    (''UserResponse'', ''BF''), (''CollateralInquiryAck'', ''BG''), (''ConfirmationRequest'', ''BH'')]"

definition msg_type_2 :: "(string \<times> string) list" where
  "msg_type_2 = [
    (''ContraryIntentionReport'', ''BO''), (''SecurityDefinitionUpdateReport'', ''BP''),
    (''SecurityListUpdateReport'', ''BK''), (''AdjustedPositionReport'', ''BL''),
    (''AllocationInstructionAlert'', ''BM''), (''ExecutionAck'', ''BN''),
    (''TradingSessionList'', ''BJ''), (''TradingSessionListRequest'', ''BI''),
    (''SettlementObligationReport'', ''BQ''), (''DerivativeSecurityListUpdateReport'', ''BR''),
    (''TradingSessionListUpdateReport'', ''BS''), (''MarketDefinitionRequest'', ''BT''),
    (''MarketDefinition'', ''BU''), (''MarketDefinitionUpdateReport'', ''BV''),
    (''UserNotification'', ''CB''), (''OrderMassActionReport'', ''BZ''),
    (''OrderMassActionRequest'', ''CA''), (''ApplicationMessageRequest'', ''BW''),
    (''ApplicationMessageRequestAck'', ''BX''), (''ApplicationMessageReport'', ''BY''),
    (''StreamAssignmentRequest'', ''CC''), (''StreamAssignmentReport'', ''CD''),
    (''StreamAssignmentReportACK'', ''CE''), (''MarginRequirementInquiry'', ''CH''),
    (''MarginRequirementInquiryAck'', ''CI''), (''MarginRequirementReport'', ''CJ''),
    (''PartyDetailsListRequest'', ''CF''), (''PartyDetailsListReport'', ''CG''),
    (''PartyDetailsListUpdateReport'', ''CK''), (''PartyRiskLimitsRequest'', ''CL''),
    (''PartyRiskLimitsReport'', ''CM''), (''SecurityMassStatusRequest'', ''CN''),
    (''SecurityMassStatus'', ''CO''), (''AccountSummaryReport'', ''CQ''),
    (''PartyRiskLimitsUpdateReport'', ''CR''), (''PartyRiskLimitsDefinitionRequest'', ''CS''),
    (''PartyRiskLimitsDefinitionRequestAck'', ''CT''), (''PartyEntitlementsRequest'', ''CU''),
    (''PartyEntitlementsReport'', ''CV''), (''QuoteAck'', ''CW''),
    (''PartyDetailsDefinitionRequest'', ''CX''), (''PartyDetailsDefinitionRequestAck'', ''CY''),
    (''PartyEntitlementsUpdateReport'', ''CZ''), (''PartyEntitlementsDefinitionRequest'', ''DA''),
    (''PartyEntitlementsDefinitionRequestAck'', ''DB''), (''TradeMatchReport'', ''DC''),
    (''TradeMatchReportAck'', ''DD''), (''PartyRiskLimitsReportAck'', ''DE''),
    (''PartyRiskLimitCheckRequest'', ''DF''), (''PartyRiskLimitCheckRequestAck'', ''DG''),
    (''PartyActionRequest'', ''DH''), (''PartyActionReport'', ''DI''), (''MassOrder'', ''DJ''),
    (''MassOrderAck'', ''DK''), (''PositionTransferInstruction'', ''DL''),
    (''PositionTransferInstructionAck'', ''DM''), (''PositionTransferReport'', ''DN''),
    (''MarketDataStatisticsRequest'', ''DO''), (''MarketDataStatisticsReport'', ''DP''),
    (''CollateralReportAck'', ''DQ''), (''MarketDataReport'', ''DR''), (''CrossRequest'', ''DS''),
    (''CrossRequestAck'', ''DT''), (''AllocationInstructionAlertRequest'', ''DU''),
    (''AllocationInstructionAlertRequestAck'', ''DV''), (''TradeAggregationRequest'', ''DW''),
    (''TradeAggregationReport'', ''DX''), (''PayManagementReport'', ''EA''),
    (''PayManagementReportAck'', ''EB''), (''PayManagementRequest'', ''DY''),
    (''PayManagementRequestAck'', ''DZ''), (''Heartbeat'', ''0''), (''TestRequest'', ''1''),
    (''ResendRequest'', ''2''), (''Reject'', ''3''), (''SequenceReset'', ''4''), (''Logout'', ''5''),
    (''Logon'', ''A''), (''XMLnonFIX'', ''n'')]"

definition msg_types :: "(string \<times> string) list" where
  "msg_types = msg_type_1 @ msg_type_2"

lemma message_names_swap: "message_names = map (\<lambda>(name, v). (v, name)) msg_types"
  by (simp add: message_names_def message_names_1_def message_names_2_def msg_types_def msg_type_1_def msg_type_2_def)

lemma message_values_distinct: "distinct (map snd msg_types)"
  by (simp add: msg_types_def msg_type_1_def msg_type_2_def)

lemma of_char_byte: "(of_char a :: byte) = of_char b \<longleftrightarrow> a = b"
proof -
  have u: "unat (of_char c :: byte) = (of_char c :: nat)" for c
  proof -
    have "(of_char c :: nat) < 256" by (rule nat_of_char_less_256)
    then have "unat (of_nat (of_char c) :: byte) = (of_char c :: nat)" by (intro unat_of_nat_lt) simp
    then show ?thesis by (simp only: of_nat_of_char)
  qed
  have "of_char a = (of_char b :: byte) \<Longrightarrow> (of_char a :: nat) = of_char b" by (metis u)
  then show ?thesis by auto
qed

lemma lit_inject: "lit a = lit b \<longleftrightarrow> a = b"
proof
  assume "lit a = lit b"
  then have "map (of_char :: char \<Rightarrow> byte) a = map of_char b" by (simp add: lit_def)
  then show "a = b" by (rule map_injective) (simp add: inj_on_def of_char_byte)
qed simp

lemma message_dictionary_iff: "message_dictionary (lit v) = Some (lit name) \<longleftrightarrow> (name, v) \<in> set msg_types"
proof -
  let ?xs = "map (\<lambda>(name, v). (lit v, lit name)) msg_types"
  have "map (\<lambda>(k, v). (lit k, lit v)) message_names = ?xs" by (simp add: message_names_swap case_prod_beta)
  then have e: "message_dictionary = map_of (rev ?xs)" by (simp only: message_dictionary_def)
  have "map fst ?xs = map lit (map snd msg_types)" by (simp add: case_prod_beta)
  then have "distinct (map fst (rev ?xs))"
    using message_values_distinct by (simp add: rev_map [symmetric] distinct_map inj_on_def lit_inject del: map_map)
  from map_of_eq_Some_iff [OF this, of "lit v" "lit name"]
  moreover have "(lit v, lit name) \<in> set (rev ?xs) \<longleftrightarrow> (name, v) \<in> set msg_types"
    by (force simp: lit_inject)
  ultimately show ?thesis unfolding e by simp
qed

end
