(* ===== verification/Upstream_Benchmarks.thy ===== *)
theory Upstream_Benchmarks
  imports Field_Values
begin

text \<open>
  The work that \<open>src/upstream-benchmarks/upstream_benchmarks.cpp\<close> measures: messages written, read,
  scanned and searched. The program is compiled against the original hffix, which is not in the
  repository, to be compared with this library in the same loops; so the library is a parameter, a
  record of the operations that the loops call, and \<open>hffix\<close> is this library as its value. The
  locale \<open>message_library\<close> is what the loops rely on. A \<open>benchmark::State\<close> is its number of iterations,
  and a result is the number of bytes and of items processed. The values passed to \<open>DoNotOptimize\<close>
  are computed and dropped. The clocks are parameters: a time point, or the nanoseconds that each
  call of \<open>steady_clock::now()\<close> returns.
\<close>

section \<open>The library\<close>

datatype bench_call =
    B_Str u32 "byte list"
  | B_Chr u32 byte
  | B_Int u32 "32 word"
  | B_Decimal u32 "32 word" "32 word"
  | B_Time u32 int

text \<open>
  \<open>api_write\<close>: a writer on a buffer, \<open>push_back_header\<close>, the calls, \<open>push_back_trailer\<close>; the distance of
  \<open>message_end\<close> from the buffer, and the buffer. The other operations take the memory they read.
\<close>

record ('r, 'i) hffix_api =
  api_write :: "byte list \<Rightarrow> bench_call list \<Rightarrow> byte list \<Rightarrow> (nat \<times> byte list) option"
  api_reader :: "byte list \<Rightarrow> ptr \<Rightarrow> ptr \<Rightarrow> 'r option"
  api_complete :: "'r \<Rightarrow> bool"
  api_valid :: "'r \<Rightarrow> bool"
  api_next :: "byte list \<Rightarrow> 'r \<Rightarrow> 'r option"
  api_begin :: "'r \<Rightarrow> 'i option"
  api_end :: "'r \<Rightarrow> 'i option"
  api_step :: "byte list \<Rightarrow> 'i \<Rightarrow> 'i option"
  api_eq :: "'i \<Rightarrow> 'i \<Rightarrow> bool"
  api_find :: "byte list \<Rightarrow> 'r \<Rightarrow> u32 \<Rightarrow> 'i \<Rightarrow> (bool \<times> 'i) option"
  api_tag :: "'i \<Rightarrow> u32"
  api_value :: "byte list \<Rightarrow> 'i \<Rightarrow> byte list option"
  api_as_int :: "byte list \<Rightarrow> 32 word"

section \<open>Messages and tags\<close>

definition kBufSize :: nat where "kBufSize = 2 ^ 13"

definition write_logon :: "('r, 'i) hffix_api \<Rightarrow> byte list \<Rightarrow> 32 word \<Rightarrow> int \<Rightarrow> (nat \<times> byte list) option" where
  "write_logon api buffer seq tsend =
     api_write api (lit ''FIXT.1.1'')
       [B_Str 35 (lit ''A''), B_Str 49 (lit ''AAAA''), B_Str 56 (lit ''BBBB''), B_Int 34 seq, B_Time 52 tsend,
        B_Int 98 0, B_Int 108 10] buffer"

definition write_new_order :: "('r, 'i) hffix_api \<Rightarrow> byte list \<Rightarrow> 32 word \<Rightarrow> int \<Rightarrow> (nat \<times> byte list) option" where
  "write_new_order api buffer seq tsend =
     api_write api (lit ''FIXT.1.1'')
       [B_Str 35 (lit ''D''), B_Str 49 (lit ''AAAA''), B_Str 56 (lit ''BBBB''), B_Int 34 seq, B_Time 52 tsend,
        B_Str 11 (lit ''A1''), B_Chr 21 49, B_Str 55 (lit ''OIH''), B_Chr 54 49, B_Time 60 tsend,
        B_Int 38 100, B_Chr 40 50, B_Decimal 44 50001 (- 2), B_Chr 59 49] buffer"

definition kCommonTags :: "u32 list" where "kCommonTags = [35, 49, 56, 34, 52]"

definition kManyTags :: "u32 list" where
  "kManyTags = [35, 49, 56, 34, 52, 55, 268, 269, 270, 271, 11, 38, 44, 40, 59]"

definition kWideTags :: "u32 list" where
  "kWideTags = [35, 49, 56, 34, 52, 55, 268, 269, 270, 271, 11, 38, 44, 40, 59,
     1, 126, 54, 37, 17, 21, 60, 6, 31, 32, 48, 14, 151, 39, 150]"

definition kSeqOrderTags :: "u32 list" where "kSeqOrderTags = [35, 49, 56, 34, 52, 55, 268, 269, 270, 271]"

definition kRandOrderTags :: "u32 list" where "kRandOrderTags = [271, 270, 269, 268, 55, 52, 34, 56, 49, 35]"

section \<open>Loops\<close>

text \<open>\<open>for (auto _ : state)\<close>.\<close>

fun iterations :: "nat \<Rightarrow> ('s \<Rightarrow> 's option) \<Rightarrow> 's \<Rightarrow> 's option" where
  "iterations 0 body s = Some s"
| "iterations (Suc n) body s = do { s \<leftarrow> body s; iterations n body s }"

text \<open>\<open>for (; r.is_complete(); r = r.next_message_reader())\<close>, with \<open>body\<close> for the valid messages.\<close>

partial_function (option) message_loop ::
  "('r, 'i) hffix_api \<Rightarrow> byte list \<Rightarrow> ('r \<Rightarrow> 's \<Rightarrow> 's option) \<Rightarrow> 'r \<Rightarrow> 's \<Rightarrow> 's option" where
  "message_loop api mem body r s =
     (if api_complete api r then do {
        s \<leftarrow> (if api_valid api r then body r s else Some s);
        r \<leftarrow> api_next api mem r;
        message_loop api mem body r s
      }
      else Some s)"

definition parse :: "('r, 'i) hffix_api \<Rightarrow> byte list \<Rightarrow> ('r \<Rightarrow> 's \<Rightarrow> 's option) \<Rightarrow> 's \<Rightarrow> 's option" where
  "parse api ds body s = do { r \<leftarrow> api_reader api ds 0 (length ds); message_loop api ds body r s }"

text \<open>\<open>for (auto it = r.begin(); it != r.end(); ++it)\<close>.\<close>

definition all_fields :: "('r, 'i) hffix_api \<Rightarrow> byte list \<Rightarrow> 'r \<Rightarrow> 'i list option" where
  "all_fields api mem r = do {
     b \<leftarrow> api_begin api r;
     e \<leftarrow> api_end api r;
     visit (api_step api mem) (api_eq api) b e
   }"

text \<open>The searches for a list of tags, each with the place the last one left as its hint.\<close>

definition found_value :: "('r, 'i) hffix_api \<Rightarrow> byte list \<Rightarrow> bool \<Rightarrow> 'i \<Rightarrow> byte list option option" where
  "found_value api mem found it = (if found then map_option Some (api_value api mem it) else Some None)"

fun find_tags :: "('r, 'i) hffix_api \<Rightarrow> byte list \<Rightarrow> 'r \<Rightarrow> u32 list \<Rightarrow> 'i \<Rightarrow> byte list option list option" where
  "find_tags api mem r [] it = Some []"
| "find_tags api mem r (tag # tags) it = do {
     (found, it) \<leftarrow> api_find api mem r tag it;
     v \<leftarrow> found_value api mem found it;
     vs \<leftarrow> find_tags api mem r tags it;
     Some (v # vs)
   }"

definition find_in_message :: "('r, 'i) hffix_api \<Rightarrow> byte list \<Rightarrow> u32 list \<Rightarrow> 'r \<Rightarrow> byte list option list option" where
  "find_in_message api mem tags r = do { it \<leftarrow> api_begin api r; find_tags api mem r tags it }"

section \<open>The benchmarks\<close>

definition BM_WriteLogon :: "('r, 'i) hffix_api \<Rightarrow> nat \<Rightarrow> int \<Rightarrow> byte list \<Rightarrow> (nat \<times> byte list) option" where
  "BM_WriteLogon api n tsend buffer =
     iterations n (\<lambda>(total, buffer). do {
       (len, buffer) \<leftarrow> write_logon api buffer 1 tsend;
       Some (total + len, buffer)
     }) (0, buffer)"

definition BM_WriteNewOrder :: "('r, 'i) hffix_api \<Rightarrow> nat \<Rightarrow> int \<Rightarrow> byte list \<Rightarrow> (nat \<times> byte list) option" where
  "BM_WriteNewOrder api n tsend buffer =
     iterations n (\<lambda>(total, buffer). do {
       (len, buffer) \<leftarrow> write_new_order api buffer 1 tsend;
       Some (total + len, buffer)
     }) (0, buffer)"

definition BM_ReadMessageScan :: "('r, 'i) hffix_api \<Rightarrow> nat \<Rightarrow> int \<Rightarrow> byte list \<Rightarrow> nat option" where
  "BM_ReadMessageScan api n tsend buffer = do {
     (len, buffer) \<leftarrow> write_new_order api buffer 1 tsend;
     iterations n (\<lambda>total. do {
       r \<leftarrow> api_reader api buffer 0 len;
       fs \<leftarrow> (if api_complete api r \<and> api_valid api r then all_fields api buffer r else Some []);
       Some (total + len)
     }) 0
   }"

definition order_fields ::
  "('r, 'i) hffix_api \<Rightarrow> byte list \<Rightarrow> 'r \<Rightarrow>
     (byte list option \<times> byte list option \<times> 32 word option \<times> byte list option) option" where
  "order_fields api mem r = do {
     it \<leftarrow> api_begin api r;
     (found, it) \<leftarrow> api_find api mem r 11 it;
     cl_ord_id \<leftarrow> found_value api mem found it;
     (found, it) \<leftarrow> api_find api mem r 55 it;
     symbol \<leftarrow> found_value api mem found it;
     (found, it) \<leftarrow> api_find api mem r 38 it;
     order_qty \<leftarrow> found_value api mem found it;
     (found, it) \<leftarrow> api_find api mem r 44 it;
     price \<leftarrow> found_value api mem found it;
     Some (cl_ord_id, symbol, map_option (api_as_int api) order_qty, price)
   }"

definition BM_ReadMessageFindFields :: "('r, 'i) hffix_api \<Rightarrow> nat \<Rightarrow> int \<Rightarrow> byte list \<Rightarrow> nat option" where
  "BM_ReadMessageFindFields api n tsend buffer = do {
     (len, buffer) \<leftarrow> write_new_order api buffer 1 tsend;
     iterations n (\<lambda>total. do {
       r \<leftarrow> api_reader api buffer 0 len;
       vs \<leftarrow> (if api_complete api r \<and> api_valid api r then map_option Some (order_fields api buffer r)
          else Some None);
       Some (total + len)
     }) 0
   }"

definition BM_RoundTrip :: "('r, 'i) hffix_api \<Rightarrow> nat \<Rightarrow> int \<Rightarrow> byte list \<Rightarrow> (nat \<times> byte list) option" where
  "BM_RoundTrip api n tsend buffer =
     iterations n (\<lambda>(total, buffer). do {
       (len, buffer) \<leftarrow> write_new_order api buffer 1 tsend;
       r \<leftarrow> api_reader api buffer 0 len;
       its \<leftarrow> all_fields api buffer r;
       vs \<leftarrow> those (map (api_value api buffer) its);
       Some (total + len, buffer)
     }) (0, buffer)"

definition BM_Parse_ScanMessages :: "('r, 'i) hffix_api \<Rightarrow> nat \<Rightarrow> byte list \<Rightarrow> (nat \<times> nat) option" where
  "BM_Parse_ScanMessages api n ds =
     iterations n (\<lambda>(total_bytes, total_messages). do {
       messages \<leftarrow> parse api ds (\<lambda>r messages. Some (messages + 1)) 0;
       Some (total_bytes + length ds, total_messages + messages)
     }) (0, 0)"

definition BM_Parse_IterAllFields :: "('r, 'i) hffix_api \<Rightarrow> nat \<Rightarrow> byte list \<Rightarrow> (nat \<times> nat) option" where
  "BM_Parse_IterAllFields api n ds =
     iterations n (\<lambda>(total_bytes, total_fields). do {
       fields \<leftarrow> parse api ds (\<lambda>r fields. do { its \<leftarrow> all_fields api ds r; Some (fields + length its) }) 0;
       Some (total_bytes + length ds, total_fields + fields)
     }) (0, 0)"

definition BM_Parse_FindTags :: "('r, 'i) hffix_api \<Rightarrow> u32 list \<Rightarrow> nat \<Rightarrow> byte list \<Rightarrow> (nat \<times> nat) option" where
  "BM_Parse_FindTags api tags n ds =
     iterations n (\<lambda>(total_bytes, total_messages). do {
       messages \<leftarrow> parse api ds (\<lambda>r messages. do { vs \<leftarrow> find_in_message api ds tags r; Some (messages + 1) }) 0;
       Some (total_bytes + length ds, total_messages + messages)
     }) (0, 0)"

section \<open>Tail latencies\<close>

text \<open>
  \<open>static_cast<std::size_t>(q * (samples.size() - 1))\<close>. A \<open>double\<close> below one, and not below a half, is \<open>m / 2 ^ 53\<close>
  for an integer \<open>m\<close>; the size converts to a \<open>double\<close> exactly below \<open>2 ^ 53\<close>. The product is rounded to
  53 bits, to the nearest and in a tie to the even one, and the conversion truncates it.
\<close>

fun bit_size :: "nat \<Rightarrow> nat" where
  "bit_size n = (if n = 0 then 0 else Suc (bit_size (n div 2)))"

declare bit_size.simps [simp del]

definition round_even :: "nat \<Rightarrow> nat \<Rightarrow> nat" where
  "round_even d p =
     (let q = p div d in if d < 2 * (p mod d) \<or> d = 2 * (p mod d) \<and> odd q then (q + 1) * d else q * d)"

definition double_product :: "nat \<Rightarrow> nat" where
  "double_product p = round_even (2 ^ (bit_size p - 53)) p"

definition pct_index :: "nat \<Rightarrow> nat \<Rightarrow> nat" where
  "pct_index m n = double_product (m * (n - 1)) div 2 ^ 53"

text \<open>The literals \<open>0.95\<close>, \<open>0.99\<close> and \<open>0.999\<close>.\<close>

definition q95 :: nat where "q95 = 8556839292003942"
definition q99 :: nat where "q99 = 8917127262193582"
definition q999 :: nat where "q999 = 8998192055486251"

text \<open>The counters, each the sample that the \<open>double\<close> is converted from, and the number of samples.\<close>

datatype latency = Skip_With_Error | Counters (p95: u64) (p99: u64) (p999: u64) (p_max: u64) (p_samples: nat)

definition tail_latency :: "u64 list \<Rightarrow> latency option" where
  "tail_latency samples =
     (if samples = [] then Some Skip_With_Error
      else do {
        let samples = sort samples;
        let pct = (\<lambda>q. elem_at samples (pct_index q (length samples)));
        p95 \<leftarrow> pct q95;
        p99 \<leftarrow> pct q99;
        p999 \<leftarrow> pct q999;
        back \<leftarrow> elem_at samples (length samples - 1);
        Some (Counters p95 p99 p999 back (length samples))
      })"

text \<open>\<open>clk k\<close>: what the \<open>k\<close>-th call of \<open>now()\<close> returns. The samples are cleared in every iteration.\<close>

definition BM_Parse_TailLatency_Iter ::
  "('r, 'i) hffix_api \<Rightarrow> u32 list \<Rightarrow> nat \<Rightarrow> byte list \<Rightarrow> (nat \<Rightarrow> int) \<Rightarrow> latency option" where
  "BM_Parse_TailLatency_Iter api tags n ds clk =
     do {
       (calls, samples) \<leftarrow> iterations n (\<lambda>(calls, samples).
         parse api ds (\<lambda>r (calls, samples). do {
           vs \<leftarrow> find_in_message api ds tags r;
           Some (calls + 2, samples @ [word_of_int (clk (calls + 1) - clk calls)])
         }) (calls, [])) (0, []);
       tail_latency samples
     }"

section \<open>The data sets\<close>

text \<open>
  The file system is a parameter: whether the directory exists, its entries, the extension and stem
  of a path, and the contents of a file that can be opened.
\<close>

record 'p file_system =
  fs_exists :: "string \<Rightarrow> bool"
  fs_entries :: "string \<Rightarrow> 'p list"
  fs_extension :: "'p \<Rightarrow> string"
  fs_stem :: "'p \<Rightarrow> string"
  fs_contents :: "'p \<Rightarrow> byte list option"

definition load_file :: "'p file_system \<Rightarrow> 'p \<Rightarrow> byte list" where
  "load_file fs p = (case fs_contents fs p of None \<Rightarrow> [] | Some bs \<Rightarrow> bs)"

definition load_datasets :: "('p :: linorder) file_system \<Rightarrow> string \<Rightarrow> (string \<times> byte list) list" where
  "load_datasets fs dir =
     (if dir = [] \<or> \<not> fs_exists fs dir then []
      else
        let paths = sort (filter (\<lambda>p. fs_extension fs p = ''.fix'') (fs_entries fs dir))
        in List.map_filter (\<lambda>p. let buf = load_file fs p in if buf = [] then None else Some (fs_stem fs p, buf)) paths)"

datatype benchmark =
    Write_Logon | Write_New_Order | Read_Message_Scan | Read_Message_Find_Fields | Round_Trip | No_Dataset
  | Parse_Scan_Messages "byte list"
  | Parse_Iter_All_Fields "byte list"
  | Parse_Find_Tags "u32 list" "byte list"
  | Parse_Tail_Latency "u32 list" "byte list"

definition dataset_benches :: "string \<times> byte list \<Rightarrow> (string \<times> benchmark) list" where
  "dataset_benches = (\<lambda>(name, data). [
     (''BM_Parse_ScanMessages/'' @ name, Parse_Scan_Messages data),
     (''BM_Parse_IterAllFields/'' @ name, Parse_Iter_All_Fields data),
     (''BM_Parse_FindCommonFields/'' @ name, Parse_Find_Tags kCommonTags data),
     (''BM_Parse_FindManyFields_Iter/'' @ name, Parse_Find_Tags kManyTags data),
     (''BM_Parse_FindLotsFields_Iter/'' @ name, Parse_Find_Tags kWideTags data),
     (''BM_Parse_Sequential_Iter/'' @ name, Parse_Find_Tags kSeqOrderTags data),
     (''BM_Parse_Random_Iter/'' @ name, Parse_Find_Tags kRandOrderTags data),
     (''BM_Parse_TailLatency_Sequential_Iter/'' @ name, Parse_Tail_Latency kSeqOrderTags data),
     (''BM_Parse_TailLatency_Random_Iter/'' @ name, Parse_Tail_Latency kRandOrderTags data)])"

definition register_benches :: "(string \<times> byte list) list \<Rightarrow> (string \<times> benchmark) list" where
  "register_benches datasets =
     [(''BM_WriteLogon'', Write_Logon), (''BM_WriteNewOrder'', Write_New_Order),
      (''BM_ReadMessageScan'', Read_Message_Scan), (''BM_ReadMessageFindFields'', Read_Message_Find_Fields),
      (''BM_RoundTrip'', Round_Trip)] @
     (if datasets = [] then [(''BM_Parse/<no-dataset>'', No_Dataset)] else concat (map dataset_benches datasets))"

section \<open>Loops and percentiles\<close>

lemma iterations_sum:
  "(\<And>a b. body (a, b) = Some (a + x, b + y)) \<Longrightarrow> iterations n body (a, b) = Some (a + n * x, b + n * (y :: nat))"
  by (induction n arbitrary: a b) simp_all

lemma try_each_count:
  "(\<And>x s. x \<in> set xs \<Longrightarrow> f x s = Some (s + g x)) \<Longrightarrow> try_each f xs s = Some (s + (\<Sum>x\<leftarrow>xs. g x :: nat))"
  by (induction xs arbitrary: s) (simp_all add: add.assoc)

lemma bit_size_bounds: "n < 2 ^ bit_size n" "0 < n \<Longrightarrow> 2 ^ (bit_size n - 1) \<le> n"
proof (induction n rule: bit_size.induct)
  case (1 n)
  { case 1 show ?case using "1.IH"(1) by (subst bit_size.simps) auto }
  { case 2 then show ?case
      using "1.IH"(2) by (cases "n div 2 = 0"; subst bit_size.simps)
        (auto simp: bit_size.simps [of 0] bit_size.simps [of "n div 2"]) }
qed

lemma bit_size_mono: "m \<le> n \<Longrightarrow> bit_size m \<le> bit_size n"
proof (induction m arbitrary: n rule: bit_size.induct)
  case (1 m)
  then show ?case
    by (cases "m = 0") (simp_all add: bit_size.simps [of 0] bit_size.simps [of m] bit_size.simps [of n] div_le_mono)
qed

text \<open>Rounding keeps the order, and does not cross a multiple of the unit.\<close>

lemma round_even_le:
  assumes "0 < d" "p \<le> x" "d dvd x"
  shows "round_even d p \<le> x"
proof -
  obtain k where x: "x = d * k" using assms(3) by blast
  have q: "p div d \<le> k" using assms(1,2) x by (metis div_le_mono nonzero_mult_div_cancel_left not_gr0)
  show ?thesis
  proof (cases "p div d = k")
    case True
    then have "p mod d = 0" using assms x by (metis dvd_imp_mod_0 dvd_triv_left le_antisym times_div_less_eq_dividend)
    with True x show ?thesis by (simp add: round_even_def mult.commute)
  next
    case False
    with q have "(p div d + 1) * d \<le> x" using x by (metis Suc_eq_plus1 Suc_leI le_neq_implies_less mult.commute mult_le_mono2)
    then show ?thesis by (auto simp: round_even_def Let_def)
  qed
qed

lemma round_even_ge:
  assumes "0 < d" "x \<le> p" "d dvd x"
  shows "x \<le> round_even d p"
proof -
  obtain k where x: "x = d * k" using assms(3) by blast
  have "k \<le> p div d" using assms(1,2) x by (metis div_le_mono nonzero_mult_div_cancel_left not_gr0)
  then have "x \<le> p div d * d" using x by (simp add: mult.commute)
  then show ?thesis by (auto simp: round_even_def Let_def intro: order_trans)
qed

lemma round_even_between: "p div d * d \<le> round_even d p \<and> round_even d p \<le> (p div d + 1) * d"
  by (simp add: round_even_def Let_def)

lemma round_even_mono:
  assumes "p \<le> p'"
  shows "round_even d p \<le> round_even d p'"
proof (cases "p div d = p' div d")
  case True
  then have "p mod d \<le> p' mod d" using assms by (metis add_le_cancel_left div_mult_mod_eq)
  with True show ?thesis by (auto simp: round_even_def Let_def)
next
  case False
  with assms have "p div d + 1 \<le> p' div d" using div_le_mono [of p p' d] by simp
  then have "(p div d + 1) * d \<le> p' div d * d" by (rule mult_le_mono1)
  with round_even_between [of p d] round_even_between [of p' d] show ?thesis by linarith
qed

lemma double_product_mono:
  assumes "p \<le> p'"
  shows "double_product p \<le> double_product p'"
proof -
  let ?j = "bit_size p - 53" and ?k = "bit_size p' - 53"
  have le: "?j \<le> ?k" using bit_size_mono [OF assms] by simp
  show ?thesis
  proof (cases "?j = ?k")
    case True
    with round_even_mono [OF assms] show ?thesis by (simp add: double_product_def)
  next
    case False
    define x :: nat where "x = 2 ^ (52 + ?k)"
    have k: "0 < ?k" "?j < ?k" using le False by auto
    have "p < 2 ^ bit_size p" by (rule bit_size_bounds)
    also have "(2 :: nat) ^ bit_size p \<le> x" unfolding x_def using k by (intro power_increasing) auto
    finally have p: "p \<le> x" by simp
    have "0 < p'" using k(1) by (cases "p' = 0") (simp_all add: bit_size.simps [of 0])
    moreover have "52 + ?k = bit_size p' - 1" using k(1) by linarith
    then have x: "x = 2 ^ (bit_size p' - 1)" unfolding x_def by (rule arg_cong)
    ultimately have p': "x \<le> p'" by (simp only: x bit_size_bounds)
    have "2 ^ ?j dvd x" "2 ^ ?k dvd x" unfolding x_def using le by (auto intro!: le_imp_power_dvd)
    with p p' round_even_le [of "2 ^ ?j" p x] round_even_ge [of "2 ^ ?k" x p'] show ?thesis
      by (simp add: double_product_def)
  qed
qed

text \<open>A percentile is a sample, and a higher one is not a smaller sample.\<close>

lemma pct_index_less:
  assumes "m < 2 ^ 53" "0 < n" "n \<le> 2 ^ 53"
  shows "pct_index m n < n"
proof -
  let ?p = "m * (n - 1)"
  have "?p < 2 ^ 53 * 2 ^ 53" using assms by (intro mult_strict_mono) auto
  then have small: "?p < 2 ^ 106" by simp
  have "bit_size ?p \<le> 106"
  proof (cases "?p = 0")
    case True
    then show ?thesis by (simp only: bit_size.simps [of 0]) simp
  next
    case False
    then have "(2 :: nat) ^ (bit_size ?p - 1) < 2 ^ 106" using bit_size_bounds(2) [of ?p] small by linarith
    then have "bit_size ?p - 1 < 106" by (rule power_less_imp_less_exp [rotated]) simp
    then show ?thesis by simp
  qed
  then have "(2 :: nat) ^ (bit_size ?p - 53) dvd 2 ^ 53" by (intro le_imp_power_dvd) simp
  then have dvd: "2 ^ (bit_size ?p - 53) dvd 2 ^ 53 * (n - 1)" by (rule dvd_mult2)
  have "?p \<le> 2 ^ 53 * (n - 1)" using assms(1) by (intro mult_le_mono1) simp
  then have "double_product ?p \<le> 2 ^ 53 * (n - 1)"
    unfolding double_product_def using dvd by (intro round_even_le) auto
  then have "double_product ?p div 2 ^ 53 \<le> 2 ^ 53 * (n - 1) div 2 ^ 53" by (rule div_le_mono)
  then have "pct_index m n \<le> n - 1" by (simp add: pct_index_def)
  with assms(2) show ?thesis by linarith
qed

lemma pct_index_mono: "m \<le> m' \<Longrightarrow> pct_index m n \<le> pct_index m' n"
  unfolding pct_index_def by (intro div_le_mono double_product_mono mult_le_mono1)

lemma tail_latency_counters:
  fixes samples :: "u64 list"
  assumes "samples \<noteq> []" "length samples \<le> 2 ^ 53"
  defines "s \<equiv> sort samples" and "k \<equiv> length samples"
  shows "pct_index q95 k \<le> pct_index q99 k" "pct_index q99 k \<le> pct_index q999 k" "pct_index q999 k < k"
    and "tail_latency samples =
      Some (Counters (s ! pct_index q95 k) (s ! pct_index q99 k) (s ! pct_index q999 k) (s ! (k - 1)) k)"
    and "s ! pct_index q95 k \<le> s ! pct_index q99 k" "s ! pct_index q99 k \<le> s ! pct_index q999 k"
    and "s ! pct_index q999 k \<le> s ! (k - 1)" "\<forall>x \<in> set samples. x \<le> s ! (k - 1)"
proof -
  have k: "0 < k" "length s = k" using assms(1) by (simp_all add: s_def k_def)
  have i: "pct_index q95 k < k" "pct_index q99 k < k" "pct_index q999 k < k"
    using assms k(1) by (auto intro!: pct_index_less simp: q95_def q99_def q999_def)
  show m: "pct_index q95 k \<le> pct_index q99 k" "pct_index q99 k \<le> pct_index q999 k" and "pct_index q999 k < k"
    using i(3) by (auto intro!: pct_index_mono simp: q95_def q99_def q999_def)
  have ord: "j \<le> l \<Longrightarrow> l < k \<Longrightarrow> s ! j \<le> s ! l" for j l
    using k(2) by (simp add: sorted_nth_mono s_def)
  show "s ! pct_index q95 k \<le> s ! pct_index q99 k" "s ! pct_index q99 k \<le> s ! pct_index q999 k"
    "s ! pct_index q999 k \<le> s ! (k - 1)"
    using m i k(1) by (auto intro!: ord)
  show "\<forall>x \<in> set samples. x \<le> s ! (k - 1)"
  proof
    fix x assume "x \<in> set samples"
    then obtain l where "l < k" "x = s ! l" using k(2) by (metis in_set_conv_nth s_def set_sort)
    then show "x \<le> s ! (k - 1)" using ord [of l "k - 1"] by simp
  qed
  have "elem_at s j = Some (s ! j)" if "j < k" for j using that k(2) by (simp add: elem_at_def)
  with i k assms(1) show "tail_latency samples =
      Some (Counters (s ! pct_index q95 k) (s ! pct_index q99 k) (s ! pct_index q999 k) (s ! (k - 1)) k)"
    by (simp add: tail_latency_def Let_def s_def [symmetric])
qed

text \<open>
  The samples of the last of \<open>n\<close> iterations over \<open>k\<close> messages: the clock is read twice for each message,
  and every iteration before has read it for all of them.
\<close>

definition last_samples :: "(nat \<Rightarrow> int) \<Rightarrow> nat \<Rightarrow> nat \<Rightarrow> u64 list" where
  "last_samples clk n k =
     map (\<lambda>i. let calls = 2 * ((n - 1) * k + i) in word_of_int (clk (calls + 1) - clk calls)) [0..<k]"

lemma length_last_samples [simp]: "length (last_samples clk n k) = k"
  by (simp add: last_samples_def)

section \<open>What the loops rely on\<close>

text \<open>
  \<open>ok\<close>: a reader the loops can hold; \<open>rest\<close> decreases with the next one; \<open>valid_readers\<close> are the
  readers with a valid message from a reader on, \<open>fields\<close> the places in a message. A search returns a
  place in it that has the tag, when there is one.
\<close>

locale message_library =
  fixes api :: "('r, 'i) hffix_api"
    and mem :: "byte list"
    and ok :: "'r \<Rightarrow> bool"
    and rest :: "'r \<Rightarrow> nat"
    and valid_readers :: "'r \<Rightarrow> 'r list"
    and fields :: "'r \<Rightarrow> 'i list"
    and start :: 'r
  assumes first_reader: "api_reader api mem 0 (length mem) = Some start" "ok start"
    and next_reader: "ok r \<Longrightarrow> api_complete api r \<Longrightarrow>
      \<exists>r'. api_next api mem r = Some r' \<and> ok r' \<and> rest r' < rest r \<and>
        valid_readers r = (if api_valid api r then r # valid_readers r' else valid_readers r')"
    and last_reader: "ok r \<Longrightarrow> \<not> api_complete api r \<Longrightarrow> valid_readers r = []"
    and reader_fields: "ok r \<Longrightarrow> api_complete api r \<Longrightarrow> api_valid api r \<Longrightarrow>
      all_fields api mem r = Some (fields r) \<and> fields r \<noteq> [] \<and> api_begin api r = Some (hd (fields r))"
    and search: "ok r \<Longrightarrow> api_complete api r \<Longrightarrow> api_valid api r \<Longrightarrow> it \<in> set (fields r) \<Longrightarrow>
      \<exists>found it'. api_find api mem r tag it = Some (found, it') \<and> it' \<in> set (fields r) \<and>
        (if found then api_tag api it' = tag else tag \<notin> api_tag api ` set (fields r))"
    and field_value: "ok r \<Longrightarrow> api_complete api r \<Longrightarrow> api_valid api r \<Longrightarrow> it \<in> set (fields r) \<Longrightarrow>
      \<exists>bs. api_value api mem it = Some bs"
begin

text \<open>The loop over a data set returns when its body does, and does the body for the valid messages.\<close>

lemma message_loop_eq: "ok r \<Longrightarrow> message_loop api mem body r s = try_each body (valid_readers r) s"
proof (induction "rest r" arbitrary: r s rule: less_induct)
  case less
  show ?case
  proof (cases "api_complete api r")
    case False
    with last_reader [OF less.prems] show ?thesis by (subst message_loop.simps) simp
  next
    case True
    from next_reader [OF less.prems True] obtain r' where r': "api_next api mem r = Some r'" "ok r'"
      "rest r' < rest r"
      "valid_readers r = (if api_valid api r then r # valid_readers r' else valid_readers r')" by blast
    have IH: "message_loop api mem body r' s = try_each body (valid_readers r') s" for s
      using less.hyps [OF r'(3,2)] .
    show ?thesis
      using True r'(1) by (subst message_loop.simps) (simp add: r'(4) IH)
  qed
qed

lemma valid_readers_ok:
  "ok r \<Longrightarrow> r1 \<in> set (valid_readers r) \<Longrightarrow> ok r1 \<and> api_complete api r1 \<and> api_valid api r1"
proof (induction "rest r" arbitrary: r rule: less_induct)
  case less
  show ?case
  proof (cases "api_complete api r")
    case False
    with last_reader [OF less.prems(1)] less.prems(2) show ?thesis by simp
  next
    case True
    from next_reader [OF less.prems(1) True] less.hyps less.prems True show ?thesis
      by (auto split: if_splits)
  qed
qed

text \<open>The searches of a message return, and answer what its fields say, whatever their order.\<close>

lemma found_value_ok:
  assumes "ok r" "api_complete api r" "api_valid api r" "it \<in> set (fields r)"
    "if found then api_tag api it = tag else tag \<notin> api_tag api ` set (fields r)"
  shows "\<exists>v. found_value api mem found it = Some v \<and>
    (case v of None \<Rightarrow> tag \<notin> api_tag api ` set (fields r)
     | Some bs \<Rightarrow> \<exists>it \<in> set (fields r). api_tag api it = tag \<and> api_value api mem it = Some bs)"
  using field_value [OF assms(1-4)] assms(4,5) by (auto simp: found_value_def split: if_splits)

lemma find_tags_ok:
  assumes "ok r" "api_complete api r" "api_valid api r" "it \<in> set (fields r)"
  shows "\<exists>vs. find_tags api mem r tags it = Some vs \<and>
    list_all2 (\<lambda>tag v. case v of None \<Rightarrow> tag \<notin> api_tag api ` set (fields r)
      | Some bs \<Rightarrow> \<exists>it \<in> set (fields r). api_tag api it = tag \<and> api_value api mem it = Some bs) tags vs"
  using assms(4)
proof (induction tags arbitrary: it)
  case Nil
  show ?case by simp
next
  case (Cons tag tags)
  from search [OF assms(1-3) Cons.prems, of tag] obtain found it' where
    s: "api_find api mem r tag it = Some (found, it')" "it' \<in> set (fields r)"
      "if found then api_tag api it' = tag else tag \<notin> api_tag api ` set (fields r)" by blast
  from found_value_ok [OF assms(1-3) s(2,3)] Cons.IH [OF s(2)] s(1) show ?case by auto
qed

lemma find_in_message_ok:
  assumes "ok r" "api_complete api r" "api_valid api r"
  shows "\<exists>vs. find_in_message api mem tags r = Some vs \<and>
    list_all2 (\<lambda>tag v. case v of None \<Rightarrow> tag \<notin> api_tag api ` set (fields r)
      | Some bs \<Rightarrow> \<exists>it \<in> set (fields r). api_tag api it = tag \<and> api_value api mem it = Some bs) tags vs"
  using reader_fields [OF assms] find_tags_ok [OF assms, of "hd (fields r)" tags]
  by (auto simp: find_in_message_def)

text \<open>The benchmarks over the data set.\<close>

lemma parse_eq: "parse api mem body s = try_each body (valid_readers start) s"
  using first_reader message_loop_eq by (simp add: parse_def)

lemma scan_messages: "BM_Parse_ScanMessages api n mem = Some (n * length mem, n * length (valid_readers start))"
proof -
  have "try_each (\<lambda>r messages. Some (messages + 1)) (valid_readers start) 0 = Some (length (valid_readers start))"
    using try_each_count [of "valid_readers start" "\<lambda>r messages. Some (messages + 1)" "\<lambda>r. 1" 0]
    by (simp add: sum_list_triv)
  then show ?thesis
    unfolding BM_Parse_ScanMessages_def parse_eq
    by (subst iterations_sum [of _ "length mem" "length (valid_readers start)"]) simp_all
qed

lemma iter_all_fields: "BM_Parse_IterAllFields api n mem =
    Some (n * length mem, n * (\<Sum>r\<leftarrow>valid_readers start. length (fields r)))"
proof -
  have "try_each (\<lambda>r k. do { its \<leftarrow> all_fields api mem r; Some (k + length its) }) (valid_readers start) 0 =
      Some (0 + (\<Sum>r\<leftarrow>valid_readers start. length (fields r)))"
    using valid_readers_ok [OF first_reader(2)] reader_fields by (intro try_each_count) force
  then show ?thesis
    unfolding BM_Parse_IterAllFields_def parse_eq
    by (subst iterations_sum [of _ "length mem" "\<Sum>r\<leftarrow>valid_readers start. length (fields r)"]) simp_all
qed

lemma find_in_message_total: "r \<in> set (valid_readers start) \<Longrightarrow> \<exists>vs. find_in_message api mem tags r = Some vs"
  using valid_readers_ok [OF first_reader(2), of r] find_in_message_ok [of r tags] by auto

lemma find_tags_messages:
  "BM_Parse_FindTags api tags n mem = Some (n * length mem, n * length (valid_readers start))"
proof -
  have "try_each (\<lambda>r k. do { vs \<leftarrow> find_in_message api mem tags r; Some (k + 1) }) (valid_readers start) 0 =
      Some (0 + (\<Sum>r\<leftarrow>valid_readers start. 1 :: nat))"
    using find_in_message_total [where tags = tags] by (intro try_each_count) force
  then show ?thesis
    unfolding BM_Parse_FindTags_def parse_eq
    by (subst iterations_sum [of _ "length mem" "length (valid_readers start)"]) (simp_all add: sum_list_triv)
qed

text \<open>Every iteration measures each valid message once; the samples of the last one are evaluated.\<close>

lemma sample_loop:
  assumes "set rs \<subseteq> set (valid_readers start)"
  shows "try_each (\<lambda>r (calls, samples). do {
        vs \<leftarrow> find_in_message api mem tags r;
        Some (calls + 2, samples @ [word_of_int (clk (calls + 1) - clk calls) :: u64])
      }) rs (c, ss) =
    Some (c + 2 * length rs, ss @ map (\<lambda>i. word_of_int (clk (c + 2 * i + 1) - clk (c + 2 * i))) [0..<length rs])"
  using assms
proof (induction rs arbitrary: c ss)
  case Nil
  show ?case by simp
next
  case (Cons r rs)
  from Cons.prems find_in_message_total [of r tags] obtain vs where
    "find_in_message api mem tags r = Some vs" by auto
  moreover have "map f [0..<Suc k] = f 0 # map (\<lambda>i. f (Suc i)) [0..<k]" for f :: "nat \<Rightarrow> u64" and k
    by (simp add: upt_conv_Cons map_Suc_upt [symmetric] comp_def del: upt_Suc)
  ultimately show ?case
    using Cons.IH [of "c + 2" "ss @ [word_of_int (clk (c + 1) - clk c)]"] Cons.prems
    by (simp add: add.assoc del: upt_Suc)
qed

lemma tail_latency_samples:
  assumes "0 < n"
  shows "BM_Parse_TailLatency_Iter api tags n mem clk =
    tail_latency (last_samples clk n (length (valid_readers start)))"
proof -
  let ?k = "length (valid_readers start)"
  let ?body = "\<lambda>(calls, samples). parse api mem (\<lambda>r (calls, samples). do {
      vs \<leftarrow> find_in_message api mem tags r;
      Some (calls + 2, samples @ [word_of_int (clk (calls + 1) - clk calls) :: u64])
    }) (calls, [])"
  let ?from = "\<lambda>c. map (\<lambda>i. word_of_int (clk (c + 2 * i + 1) - clk (c + 2 * i)) :: u64) [0..<?k]"
  have step: "?body (c, ss) = Some (c + 2 * ?k, ?from c)" for c ss
    using sample_loop [OF order_refl, of tags clk c "[]"] by (simp only: parse_eq prod.case append_Nil)
  have "iterations (Suc j) ?body (c, ss) = Some (c + 2 * ?k * Suc j, ?from (c + 2 * ?k * j))" for j c ss
  proof (induction j arbitrary: c ss)
    case 0
    show ?case using step [of c ss] by simp
  next
    case (Suc j)
    show ?case
      using Suc [of "c + 2 * ?k" "?from c"] step [of c ss] unfolding iterations.simps(2) [of "Suc j"]
      by (simp add: algebra_simps)
  qed
  from this [of "n - 1" 0 "[]"] assms have
    "iterations n ?body (0, []) = Some (2 * ?k * n, ?from (2 * ?k * (n - 1)))" by simp
  moreover have "2 * ?k * m + 2 * i = 2 * (m * ?k + i)" for m i by (simp add: algebra_simps)
  then have "?from (2 * ?k * (n - 1)) = last_samples clk n ?k" by (simp only: last_samples_def Let_def)
  ultimately show ?thesis by (simp add: BM_Parse_TailLatency_Iter_def)
qed

end

end
