(* ===== verification/Benchmark_Runs.thy ===== *)
theory Benchmark_Runs
  imports Upstream_Benchmarks
begin

text \<open>
  The benchmarks on this library, as \<open>src/benchmarks/benchmarks.cpp\<close> repeats them: \<open>hffix\<close> is the
  library's value as a record of operations, and its reader, field iterator and search give the
  contract \<open>message_library\<close>. The messages that the benchmarks write are the ones they read.
\<close>

section \<open>This library\<close>

text \<open>\<open>ticks\<close>: how many ticks of the clock are a second.\<close>

fun bench_op :: "int \<Rightarrow> bench_call \<Rightarrow> writer_op" where
  "bench_op ticks (B_Str tag s) = Str tag s"
| "bench_op ticks (B_Chr tag c) = Chr tag c"
| "bench_op ticks (B_Int tag n) = Int32 tag n"
| "bench_op ticks (B_Decimal tag m e) = Dec32 tag m e"
| "bench_op ticks (B_Time tag tp) =
     (case timepointtoparts ticks tp of (year, month, day, hour, minute, second, millisecond) \<Rightarrow>
        Timestamp tag year month day hour minute second millisecond)"

lemma run_bench_time: "run_op (bench_op ticks (B_Time tag tp)) w = push_back_timestamp_tp ticks tag tp w"
  by (simp add: push_back_timestamp_tp_def split: prod.split)

definition hffix :: "int \<Rightarrow> (reader, iter) hffix_api" where
  "hffix ticks = \<lparr>
     api_write = (\<lambda>version calls buffer.
       map_option (\<lambda>(ok, w). (writer_message_end w, w_buffer w))
         (write_message version (map (bench_op ticks) calls) buffer)),
     api_reader = message_reader,
     api_complete = r_complete,
     api_valid = r_valid,
     api_next = next_message_reader,
     api_begin = reader_begin,
     api_end = reader_end,
     api_step = increment,
     api_eq = iter_eq,
     api_find = reader_find_with_hint,
     api_tag = (\<lambda>it. f_tag (it_current it)),
     api_value = (\<lambda>mem it. value_bytes mem (f_value (it_current it))),
     api_as_int = as_int_unchecked True\<rparr>"

lemma hffix_sel [simp]:
  "api_reader (hffix ticks) = message_reader" "api_complete (hffix ticks) = r_complete"
  "api_valid (hffix ticks) = r_valid" "api_next (hffix ticks) = next_message_reader"
  "api_begin (hffix ticks) = reader_begin" "api_end (hffix ticks) = reader_end"
  "api_step (hffix ticks) = increment" "api_eq (hffix ticks) = iter_eq"
  "api_find (hffix ticks) = reader_find_with_hint" "api_tag (hffix ticks) it = f_tag (it_current it)"
  "api_value (hffix ticks) mem it = value_bytes mem (f_value (it_current it))"
  "api_as_int (hffix ticks) = as_int_unchecked True"
  by (simp_all add: hffix_def)

section \<open>It is a message library\<close>

definition message_fields :: "byte list \<Rightarrow> reader \<Rightarrow> iter list" where
  "message_fields mem r = the (visit (increment mem) iter_eq (r_begin r) (r_end r))"

definition shown_readers :: "byte list \<Rightarrow> reader \<Rightarrow> reader list" where
  "shown_readers mem r = fst (the (for_each_loop mem r))"

definition first_reader :: "byte list \<Rightarrow> reader" where
  "first_reader mem = the (message_reader mem 0 (length mem))"

lemma constructed_framed: "constructed mem r \<Longrightarrow> r_complete r \<Longrightarrow> r_valid r \<Longrightarrow> framed mem r"
  by (auto elim: constructed_cases)

lemma visit_message_fields:
  "framed mem r \<Longrightarrow> visit (increment mem) iter_eq (r_begin r) (r_end r) = Some (message_fields mem r) \<and>
     message_fields mem r \<noteq> [] \<and> hd (message_fields mem r) = r_begin r"
  using visit_framed [of mem r] by (auto simp: message_fields_def)

text \<open>What a search answers, from a place in the message.\<close>

lemma search_message_eq:
  assumes fr: "framed mem r" and its: "message_fields mem r = xs @ it # ys"
  shows "reader_find_with_hint mem r tag it =
    Some (case find (tag_equal tag) ((it # ys) @ xs) of None \<Rightarrow> (False, it) | Some j \<Rightarrow> (True, j))"
proof -
  have v: "visit (increment mem) iter_eq (r_begin r) (r_end r) = Some (xs @ it # ys)"
    using visit_message_fields [OF fr] its by simp
  have d: "distinct (map it_buffer (xs @ it # ys))"
    by (rule field_it.visit_distinct [OF framed_range [OF fr] v])
  have valid: "r_valid r" using framed_bounds [OF fr] by simp
  show ?thesis
    using field_it.find_with_hint_spec [OF v d, of it "tag_equal tag"] valid
    by (simp add: reader_find_with_hint_def reader_begin_def reader_end_def)
qed

lemma search_message:
  assumes "framed mem r" "it \<in> set (message_fields mem r)"
  shows "\<exists>found it'. reader_find_with_hint mem r tag it = Some (found, it') \<and>
    it' \<in> set (message_fields mem r) \<and>
    (if found then f_tag (it_current it') = tag
     else tag \<notin> (\<lambda>it. f_tag (it_current it)) ` set (message_fields mem r))"
proof -
  let ?P = "tag_equal tag"
  from assms(2) obtain xs ys where its: "message_fields mem r = xs @ it # ys" by (meson split_list)
  note f = search_message_eq [OF assms(1) its, of tag]
  have set: "set ((it # ys) @ xs) = set (message_fields mem r)" by (auto simp: its)
  show ?thesis
  proof (cases "find ?P ((it # ys) @ xs)")
    case None
    then have "\<not> (\<exists>x \<in> set (message_fields mem r). ?P x)" unfolding set [symmetric] find_None_iff by auto
    with f None assms(2) show ?thesis by (auto simp: tag_equal_def)
  next
    case (Some j)
    then have "j \<in> set ((it # ys) @ xs)" "?P j" by (auto simp only: find_Some_iff in_set_conv_nth)
    with f Some show ?thesis unfolding set by (auto simp: tag_equal_def)
  qed
qed

interpretation this_library: message_library "hffix ticks" mem "constructed mem"
    "\<lambda>r. r_buffer_end r - r_buffer r" "shown_readers mem" "message_fields mem" "first_reader mem"
  for ticks mem
proof (unfold_locales, goal_cases)
  case 1
  show ?case using message_reader_constructed [of 0 "length mem" mem] by (auto simp: first_reader_def)
next
  case 2
  show ?case using message_reader_constructed [of 0 "length mem" mem] by (auto simp: first_reader_def)
next
  case (3 r)
  from next_reader [OF 3(1)] 3(2) obtain r' where r': "next_message_reader mem r = Some r'"
    "constructed mem r'" "r_buffer_end r' = r_buffer_end r" "r_buffer r < r_buffer r'" by auto
  have "r_buffer r' \<le> r_buffer_end r'" using r'(2) by (simp add: constructed_def)
  moreover from for_each_loop_result [OF r'(2)] obtain rs tail where
    "for_each_loop mem r' = Some (rs, tail)" by blast
  with for_each_step [OF _ r'(1)] 3(2)
  have "shown_readers mem r = (if r_valid r then r # shown_readers mem r' else shown_readers mem r')"
    by (simp add: shown_readers_def)
  ultimately show ?case using r' by auto
next
  case (4 r)
  then show ?case by (simp add: shown_readers_def for_each_stop)
next
  case (5 r)
  then have f: "framed mem r" by (simp add: constructed_framed)
  from visit_message_fields [OF f] 5(3) show ?case
    by (simp add: all_fields_def reader_begin_def reader_end_def)
next
  case (6 r it tag)
  then have f: "framed mem r" by (simp add: constructed_framed)
  have tags: "api_tag (hffix ticks) = (\<lambda>it. f_tag (it_current it))" by (simp add: fun_eq_iff)
  from search_message [OF f 6(4), of tag] show ?case by (simp only: tags hffix_sel)
next
  case (7 r it)
  then have f: "framed mem r" by (simp add: constructed_framed)
  from framed_value [OF f] visit_message_fields [OF f] 7(4) show ?case by auto
qed

lemma shown_readers_for_each:
  "for_each_message mem 0 (length mem) = Some (rs, tail) \<Longrightarrow> shown_readers mem (first_reader mem) = rs"
  by (auto simp: shown_readers_def first_reader_def for_each_message_def bind_eq_Some_conv)

section \<open>The order that the benchmarks write and read\<close>

text \<open>A search in a message that is read as a list of fields, for a tag that only one value has.\<close>

lemma find_read_field:
  assumes "framed mem r" "reads_as mem r v fs" "it \<in> set (message_fields mem r)"
    and tag: "map_of fs tag = Some bs" "\<forall>f \<in> set fs. fst f = tag \<longrightarrow> snd f = bs"
  shows "\<exists>it'. reader_find_with_hint mem r tag it = Some (True, it') \<and> it' \<in> set (message_fields mem r) \<and>
    found_value (hffix ticks) mem True it' = Some (Some bs)"
proof -
  let ?its = "message_fields mem r"
  from visit_message_fields [OF assms(1)] assms(2)
  have shown: "shown mem ?its = map (\<lambda>(t, val). (t, Some val)) fs" by (auto simp: reads_as_def)
  have field: "(f_tag (it_current i), value_bytes mem (f_value (it_current i))) \<in> (\<lambda>(t, val). (t, Some val)) ` set fs"
    if "i \<in> set ?its" for i
    using that arg_cong [OF shown, of set] by (auto simp: shown_def)
  have "(tag, Some bs) \<in> set (shown mem ?its)"
    using map_of_SomeD [OF tag(1)] unfolding shown by force
  then have "tag \<in> (\<lambda>i. f_tag (it_current i)) ` set ?its" by (auto simp: shown_def)
  with search_message [OF assms(1,3), of tag] obtain it' where it':
    "reader_find_with_hint mem r tag it = Some (True, it')" "it' \<in> set ?its" "f_tag (it_current it') = tag"
    by (auto split: if_splits)
  from field [OF it'(2)] it'(3) tag(2) have "value_bytes mem (f_value (it_current it')) = Some bs" by force
  with it' show ?thesis by (simp add: found_value_def)
qed

definition order_ops :: "int \<Rightarrow> 32 word \<Rightarrow> int \<Rightarrow> writer_op list" where
  "order_ops ticks seq tsend =
     map (bench_op ticks) [B_Str 49 (lit ''AAAA''), B_Str 56 (lit ''BBBB''), B_Int 34 seq, B_Time 52 tsend,
       B_Str 11 (lit ''A1''), B_Chr 21 49, B_Str 55 (lit ''OIH''), B_Chr 54 49, B_Time 60 tsend,
       B_Int 38 100, B_Chr 40 50, B_Decimal 44 50001 (- 2), B_Chr 59 49]"

lemma write_new_order_ops:
  "write_new_order (hffix ticks) buffer seq tsend =
     map_option (\<lambda>(ok, w). (writer_message_end w, w_buffer w))
       (write_message (lit ''FIXT.1.1'') (Str 35 (lit ''D'') # order_ops ticks seq tsend) buffer)"
  by (simp add: write_new_order_def hffix_def order_ops_def)

lemma price_text: "dtoa_unchecked (50001 :: 32 word) (- 2) = lit ''500.01''"
  by code_simp

lemma quantity_text: "itoa_unchecked (100 :: 32 word) = lit ''100''"
  by code_simp

lemma order_ops_clean: "\<forall>x \<in> set (order_ops ticks seq tsend). op_clean x"
  by (simp add: order_ops_def price_text max_ascii_chars_int_def is_tag_a_data_length_iff length_fields_def
      lit_def of_char_def split: prod.split)

lemma order_ops_need: "sum_list (map op_need (Str 35 (lit ''D'') # order_ops ticks seq tsend)) \<le> 400"
  by (simp add: order_ops_def max_ascii_chars_int_def split: prod.split)

lemma order_ops_fields:
  fixes ticks seq tsend
  defines "fs \<equiv> wire_fields (map op_field (Str 35 (lit ''D'') # order_ops ticks seq tsend))"
  shows "map_of fs 11 = Some (lit ''A1'') \<and> map_of fs 55 = Some (lit ''OIH'') \<and>
    map_of fs 38 = Some (lit ''100'') \<and> map_of fs 44 = Some (lit ''500.01'') \<and> distinct (map fst fs)"
  by (simp add: fs_def order_ops_def price_text quantity_text split: prod.split)

text \<open>The length of the order does not depend on what the buffer held.\<close>

definition order_size :: "int \<Rightarrow> 32 word \<Rightarrow> int \<Rightarrow> nat" where
  "order_size ticks seq tsend =
     length (fix_message (lit ''FIXT.1.1'') (body_text (Str 35 (lit ''D'') # order_ops ticks seq tsend)))"

text \<open>A message of 400 bytes is written into the benchmarks' buffer and read back.\<close>

definition small_size :: "writer_op list \<Rightarrow> nat" where
  "small_size xs = length (fix_message (lit ''FIXT.1.1'') (body_text (Str 35 (lit ''D'') # xs)))"

lemma small_message_read:
  assumes buf: "length buffer = kBufSize" and ops: "\<forall>x \<in> set xs. op_clean x"
    and need: "sum_list (map op_need (Str 35 (lit ''D'') # xs)) \<le> 400"
  shows "\<exists>w r. write_message (lit ''FIXT.1.1'') (Str 35 (lit ''D'') # xs) buffer = Some (True, w) \<and>
    writer_message_end w = small_size xs \<and> small_size xs \<le> length (w_buffer w) \<and> length (w_buffer w) = kBufSize \<and>
    message_reader (w_buffer w) 0 (small_size xs) = Some r \<and> framed (w_buffer w) r \<and>
    reads_as (w_buffer w) r (lit ''FIXT.1.1'') (wire_fields (map op_field (Str 35 (lit ''D'') # xs)))"
proof -
  let ?v = "lit ''FIXT.1.1''" and ?xs = "Str 35 (lit ''D'') # xs"
  have clean: "\<forall>x \<in> set ?xs. op_clean x"
    using ops by (simp add: is_tag_a_data_length_iff length_fields_def lit_def of_char_def)
  then have field: "\<forall>x \<in> set ?xs. is_field_op x" using op_clean_field by blast
  have len: "length (body_text ?xs) \<le> 400" using body_text_bound [OF field] need order_trans by blast
  from write_message_result [OF field, of ?v buffer] obtain ok w where
    w: "write_message ?v ?xs buffer = Some (ok, w)" "ok \<longrightarrow> written w = fix_message ?v (body_text ?xs) \<and> w_next w \<le> length (w_buffer w)"
      "length ?v + 19 + sum_list (map op_need ?xs) \<le> length buffer \<and> length (body_text ?xs) \<le> 999999 \<longrightarrow> ok"
    by blast
  have "length ?v + 19 + sum_list (map op_need ?xs) \<le> length buffer"
    using need buf by (simp only: kBufSize_def length_lit) simp
  with w(3) len have ok by linarith
  have "length (take (w_next w) (w_buffer w)) = small_size xs"
    using w(2) \<open>ok\<close> by (simp only: written_def small_size_def)
  with w(2) \<open>ok\<close> have size: "writer_message_end w = small_size xs"
    "small_size xs \<le> length (w_buffer w)" by (auto simp: writer_message_end_def)
  have len_buf: "length (w_buffer w) = kBufSize" using write_message_length [OF field w(1)] buf by simp
  have v: "SOH \<notin> set (lit ''D'')" "SOH \<notin> set ?v" "7 \<le> length ?v" "length ?v \<le> 10"
    by (simp_all add: lit_def of_char_def)
  from w(1) \<open>ok\<close> have res: "write_message ?v ?xs buffer = Some (True, w)" by simp
  from write_read [OF ops v res] obtain r where
    r: "message_reader (w_buffer w) 0 (small_size xs) = Some r"
      "reads_as (w_buffer w) r ?v (wire_fields (map op_field ?xs))" unfolding size(1) by blast
  have "framed (w_buffer w) r"
    using message_reader_result [of 0 "small_size xs" "w_buffer w"] r size(2) by (auto simp: reads_as_def)
  with res size len_buf r show ?thesis by blast
qed

lemma order_size_small: "order_size ticks seq tsend = small_size (order_ops ticks seq tsend)"
  by (simp add: order_size_def small_size_def)

lemma order_message_written:
  assumes "length buffer = kBufSize"
  shows "\<exists>w. write_message (lit ''FIXT.1.1'') (Str 35 (lit ''D'') # order_ops ticks seq tsend) buffer = Some (True, w) \<and>
    writer_message_end w = order_size ticks seq tsend \<and> order_size ticks seq tsend \<le> length (w_buffer w) \<and>
    length (w_buffer w) = kBufSize"
  using small_message_read [OF assms order_ops_clean order_ops_need, of ticks seq tsend]
  unfolding order_size_small by blast

lemma order_written:
  assumes "length buffer = kBufSize"
  shows "\<exists>mem r. write_new_order (hffix ticks) buffer seq tsend = Some (order_size ticks seq tsend, mem) \<and>
    length mem = kBufSize \<and> message_reader mem 0 (order_size ticks seq tsend) = Some r \<and> framed mem r \<and>
    reads_as mem r (lit ''FIXT.1.1'') (wire_fields (map op_field (Str 35 (lit ''D'') # order_ops ticks seq tsend)))"
proof -
  from small_message_read [OF assms order_ops_clean order_ops_need, of ticks seq tsend] obtain w r where
    w: "write_message (lit ''FIXT.1.1'') (Str 35 (lit ''D'') # order_ops ticks seq tsend) buffer = Some (True, w)"
      "writer_message_end w = small_size (order_ops ticks seq tsend)"
    and r: "length (w_buffer w) = kBufSize" "message_reader (w_buffer w) 0 (small_size (order_ops ticks seq tsend)) = Some r"
      "framed (w_buffer w) r"
      "reads_as (w_buffer w) r (lit ''FIXT.1.1'') (wire_fields (map op_field (Str 35 (lit ''D'') # order_ops ticks seq tsend)))"
    by blast
  have "write_new_order (hffix ticks) buffer seq tsend = Some (order_size ticks seq tsend, w_buffer w)"
    unfolding write_new_order_ops w order_size_small by (simp add: w(2))
  with r show ?thesis unfolding order_size_small by blast
qed

lemma order_found:
  assumes "framed mem r"
    "reads_as mem r v (wire_fields (map op_field (Str 35 (lit ''D'') # order_ops ticks seq tsend)))"
  shows "order_fields (hffix ticks) mem r = Some (Some (lit ''A1''), Some (lit ''OIH''), Some 100, Some (lit ''500.01''))"
proof -
  let ?fs = "wire_fields (map op_field (Str 35 (lit ''D'') # order_ops ticks seq tsend))"
  note fs = order_ops_fields [of ticks seq tsend]
  have tag: "\<forall>f \<in> set ?fs. fst f = t \<longrightarrow> snd f = bs" if "map_of ?fs t = Some bs" for t bs
    using fs that map_of_is_SomeI [of ?fs] by fastforce
  note find = find_read_field [OF assms, of _ _ _ ticks]
  have first: "reader_begin r = Some (hd (message_fields mem r))" "hd (message_fields mem r) \<in> set (message_fields mem r)"
    using visit_message_fields [OF assms(1)] framed_bounds [OF assms(1)] hd_in_set [of "message_fields mem r"]
    by (auto simp: reader_begin_def)
  from find [OF first(2) _ tag, of 11] fs obtain i1 where
    i1: "reader_find_with_hint mem r 11 (hd (message_fields mem r)) = Some (True, i1)" "i1 \<in> set (message_fields mem r)"
      "found_value (hffix ticks) mem True i1 = Some (Some (lit ''A1''))" by blast
  from find [OF i1(2) _ tag, of 55] fs obtain i2 where
    i2: "reader_find_with_hint mem r 55 i1 = Some (True, i2)" "i2 \<in> set (message_fields mem r)"
      "found_value (hffix ticks) mem True i2 = Some (Some (lit ''OIH''))" by blast
  from find [OF i2(2) _ tag, of 38] fs obtain i3 where
    i3: "reader_find_with_hint mem r 38 i2 = Some (True, i3)" "i3 \<in> set (message_fields mem r)"
      "found_value (hffix ticks) mem True i3 = Some (Some (lit ''100''))" by blast
  from find [OF i3(2) _ tag, of 44] fs obtain i4 where
    i4: "reader_find_with_hint mem r 44 i3 = Some (True, i4)"
      "found_value (hffix ticks) mem True i4 = Some (Some (lit ''500.01''))" by blast
  have "as_int_unchecked True (lit ''100'') = (100 :: 32 word)" by code_simp
  with i1 i2 i3 i4 first(1) show ?thesis by (simp add: order_fields_def)
qed

text \<open>The loops over the order return, and find it in every iteration.\<close>

lemma iterations_total_by:
  "(\<And>a b. I b \<Longrightarrow> \<exists>b'. body (a, b) = Some (a + x, b') \<and> I b') \<Longrightarrow> I b \<Longrightarrow>
     \<exists>b'. iterations n body (a, b) = Some (a + n * (x :: nat), b') \<and> I b'"
proof (induction n arbitrary: a b)
  case (Suc n)
  from Suc.prems obtain b1 where "body (a, b) = Some (a + x, b1)" "I b1" by blast
  with Suc.IH [of b1 "a + x"] Suc.prems(1) show ?case by (auto simp: algebra_simps)
qed simp

lemma iterations_add: "(\<And>a. body a = Some (a + x)) \<Longrightarrow> iterations n body a = Some (a + n * (x :: nat))"
  by (induction n arbitrary: a) (simp_all add: algebra_simps)

lemma all_fields_framed: "framed mem r \<Longrightarrow> all_fields (hffix ticks) mem r = Some (message_fields mem r)"
  using visit_message_fields [of mem r] framed_bounds [of mem r]
  by (simp add: all_fields_def reader_begin_def reader_end_def)

lemma write_new_order_loop:
  assumes "length buffer = kBufSize"
  shows "\<exists>buffer'. BM_WriteNewOrder (hffix ticks) n tsend buffer = Some (n * order_size ticks 1 tsend, buffer') \<and>
    length buffer' = kBufSize"
proof -
  have "\<exists>b'. BM_WriteNewOrder (hffix ticks) n tsend buffer = Some (0 + n * order_size ticks 1 tsend, b') \<and>
      length b' = kBufSize"
    unfolding BM_WriteNewOrder_def
  proof (rule iterations_total_by [where I = "\<lambda>b. length b = kBufSize"])
    fix a b assume b: "length (b :: byte list) = kBufSize"
    from order_written [OF b, of ticks 1 tsend] obtain mem where
      "write_new_order (hffix ticks) b 1 tsend = Some (order_size ticks 1 tsend, mem)" "length mem = kBufSize" by blast
    then show "\<exists>b'. (case (a, b) of (k, buffer) \<Rightarrow> do {
        (len, buffer) \<leftarrow> write_new_order (hffix ticks) buffer 1 tsend;
        Some (k + len, buffer) }) = Some (a + order_size ticks 1 tsend, b') \<and> length b' = kBufSize" by simp
  qed (fact assms)
  then show ?thesis by simp
qed

lemma scan_loop_order:
  assumes "length buffer = kBufSize"
  shows "BM_ReadMessageScan (hffix ticks) n tsend buffer = Some (n * order_size ticks 1 tsend)"
proof -
  from order_written [OF assms, of ticks 1 tsend] obtain mem r where
    o: "write_new_order (hffix ticks) buffer 1 tsend = Some (order_size ticks 1 tsend, mem)"
      "message_reader mem 0 (order_size ticks 1 tsend) = Some r" "framed mem r" by blast
  show ?thesis
    unfolding BM_ReadMessageScan_def o(1)
    by (simp add: o(2) all_fields_framed [OF o(3)] iterations_add [where x = "order_size ticks 1 tsend"])
qed

lemma find_fields_loop:
  assumes "length buffer = kBufSize"
  shows "BM_ReadMessageFindFields (hffix ticks) n tsend buffer = Some (n * order_size ticks 1 tsend)"
proof -
  from order_written [OF assms, of ticks 1 tsend] obtain mem r where
    o: "write_new_order (hffix ticks) buffer 1 tsend = Some (order_size ticks 1 tsend, mem)"
      "message_reader mem 0 (order_size ticks 1 tsend) = Some r" "framed mem r"
      "reads_as mem r (lit ''FIXT.1.1'') (wire_fields (map op_field (Str 35 (lit ''D'') # order_ops ticks 1 tsend)))"
    by blast
  show ?thesis
    unfolding BM_ReadMessageFindFields_def o(1)
    by (simp add: o(2) order_found [OF o(3,4)] iterations_add [where x = "order_size ticks 1 tsend"])
qed

lemma round_trip_loop:
  assumes "length buffer = kBufSize"
  shows "\<exists>buffer'. BM_RoundTrip (hffix ticks) n tsend buffer = Some (n * order_size ticks 1 tsend, buffer') \<and>
    length buffer' = kBufSize"
proof -
  let ?L = "order_size ticks 1 tsend"
  have "\<exists>b'. BM_RoundTrip (hffix ticks) n tsend buffer = Some (0 + n * ?L, b') \<and> length b' = kBufSize"
    unfolding BM_RoundTrip_def
  proof (rule iterations_total_by [where I = "\<lambda>b. length b = kBufSize"])
    fix a b assume b: "length (b :: byte list) = kBufSize"
    from order_written [OF b, of ticks 1 tsend] obtain mem r where
      o: "write_new_order (hffix ticks) b 1 tsend = Some (?L, mem)" "length mem = kBufSize"
        "message_reader mem 0 ?L = Some r" "framed mem r" by blast
    have "\<exists>ys. those (map (api_value (hffix ticks) mem) (message_fields mem r)) = Some ys"
      using framed_value [OF o(4)] visit_message_fields [OF o(4)] by (intro those_map_total) simp
    with o show "\<exists>b'. (case (a, b) of (k, buffer) \<Rightarrow> do {
        (len, buffer) \<leftarrow> write_new_order (hffix ticks) buffer 1 tsend;
        r \<leftarrow> api_reader (hffix ticks) buffer 0 len;
        its \<leftarrow> all_fields (hffix ticks) buffer r;
        vs \<leftarrow> those (map (api_value (hffix ticks) buffer) its);
        Some (k + len, buffer) }) = Some (a + ?L, b') \<and> length b' = kBufSize"
      by (auto simp: all_fields_framed)
  qed (fact assms)
  then show ?thesis by simp
qed

end
