(* ===== verification/Benchmarks.thy ===== *)
theory Benchmarks
  imports Benchmark_Runs Indexed_Message Group_Registry
begin

text \<open>
  The benchmarks of \<open>src/benchmarks/benchmarks.cpp\<close> that the upstream program does not have: the
  other ways to write an order, the timestamp parsers, the random-access index and the groups. Each is
  compared with the plain benchmark that it competes with. \<open>write_logon\<close>, \<open>write_new_order\<close>, the tag
  lists, \<open>load_datasets\<close> and the loops that both programs share are in \<open>Upstream_Benchmarks\<close>.
\<close>

section \<open>Writing an order\<close>

definition write_new_order_epoch_nanos :: "byte list \<Rightarrow> 32 word \<Rightarrow> u64 \<Rightarrow> (nat \<times> byte list) option" where
  "write_new_order_epoch_nanos buffer seq epoch_nanos = do {
     w \<leftarrow> push_back_header (lit ''FIXT.1.1'') (message_writer buffer);
     w \<leftarrow> push_back_string 35 (lit ''D'') w;
     w \<leftarrow> push_back_string 49 (lit ''AAAA'') w;
     w \<leftarrow> push_back_string 56 (lit ''BBBB'') w;
     w \<leftarrow> push_back_int max_ascii_chars_int 34 seq w;
     w \<leftarrow> push_back_timestamp_epoch_nanos 52 epoch_nanos w;
     w \<leftarrow> push_back_string 11 (lit ''A1'') w;
     w \<leftarrow> push_back_char 21 49 w;
     w \<leftarrow> push_back_string 55 (lit ''OIH'') w;
     w \<leftarrow> push_back_char 54 49 w;
     w \<leftarrow> push_back_timestamp_epoch_nanos 60 epoch_nanos w;
     w \<leftarrow> push_back_int max_ascii_chars_int 38 (100 :: 32 word) w;
     w \<leftarrow> push_back_char 40 50 w;
     w \<leftarrow> push_back_decimal max_ascii_chars_int 44 (50001 :: 32 word) (- 2) w;
     w \<leftarrow> push_back_char 59 49 w;
     (ok, w) \<leftarrow> push_back_trailer True w;
     Some (writer_message_end w, w_buffer w)
   }"

definition BM_WriteNewOrder_EpochNanos :: "nat \<Rightarrow> u64 \<Rightarrow> byte list \<Rightarrow> (nat \<times> byte list) option" where
  "BM_WriteNewOrder_EpochNanos n epoch_nanos buffer =
     iterations n (\<lambda>(total, buffer). do {
       (len, buffer) \<leftarrow> write_new_order_epoch_nanos buffer 1 epoch_nanos;
       Some (total + len, buffer)
     }) (0, buffer)"

text \<open>The difference of a null \<open>end_out\<close> and the buffer is undefined.\<close>

definition write_closure :: "int \<Rightarrow> int \<Rightarrow> byte list \<Rightarrow> (nat \<times> byte list) option" where
  "write_closure ticks tsend buffer = do {
     (end_out, buffer) \<leftarrow> try_write_message buffer (\<lambda>w. do {
       w \<leftarrow> push_back_header (lit ''FIXT.1.1'') w;
       w \<leftarrow> push_back_string 35 (lit ''D'') w;
       w \<leftarrow> push_back_string 49 (lit ''AAAA'') w;
       w \<leftarrow> push_back_string 56 (lit ''BBBB'') w;
       w \<leftarrow> push_back_int max_ascii_chars_int 34 (1 :: 32 word) w;
       w \<leftarrow> push_back_timestamp_tp ticks 52 tsend w;
       w \<leftarrow> push_back_string 11 (lit ''A1'') w;
       w \<leftarrow> push_back_char 21 49 w;
       w \<leftarrow> push_back_string 55 (lit ''OIH'') w;
       w \<leftarrow> push_back_char 54 49 w;
       w \<leftarrow> push_back_timestamp_tp ticks 60 tsend w;
       w \<leftarrow> push_back_int max_ascii_chars_int 38 (100 :: 32 word) w;
       w \<leftarrow> push_back_char 40 50 w;
       w \<leftarrow> push_back_decimal max_ascii_chars_int 44 (50001 :: 32 word) (- 2) w;
       push_back_char 59 49 w
     });
     e \<leftarrow> end_out;
     Some (e, buffer)
   }"

definition BM_WriteNewOrder_Closure :: "int \<Rightarrow> nat \<Rightarrow> int \<Rightarrow> byte list \<Rightarrow> (nat \<times> byte list) option" where
  "BM_WriteNewOrder_Closure ticks n tsend buffer =
     iterations n (\<lambda>(total, buffer). do {
       (len, buffer) \<leftarrow> write_closure ticks tsend buffer;
       Some (total + len, buffer)
     }) (0, buffer)"

section \<open>Timestamps\<close>

definition kBenchTimestampPool :: nat where "kBenchTimestampPool = 1024"

text \<open>\<open>%0kd\<close> of \<open>snprintf\<close> for a number that is not negative.\<close>

definition print_padded :: "nat \<Rightarrow> nat \<Rightarrow> byte list" where
  "print_padded k n = replicate (k - length (dec_digits n)) ZERO_CH @ dec_digits n"

definition pool_text :: "nat \<Rightarrow> byte list" where
  "pool_text i =
     (let year = 2000 + (i * 13) mod 99;
          month = 1 + (i * 7) mod 12;
          day = 1 + (i * 11) mod 28;
          hour = (i * 5) mod 24;
          minute = (i * 17) mod 60;
          second = (i * 31) mod 60
      in print_padded 4 year @ print_padded 2 month @ print_padded 2 day @ [MINUS_CH] @
        print_padded 2 hour @ [COLON_CH] @ print_padded 2 minute @ [COLON_CH] @ print_padded 2 second @ [DOT_CH])"

definition make_timestamp_pool_millis :: "byte list list" where
  "make_timestamp_pool_millis =
     map (\<lambda>i. take 31 (pool_text i @ print_padded 3 ((i * 137) mod 1000))) [0..<kBenchTimestampPool]"

definition make_timestamp_pool_nanos :: "byte list list" where
  "make_timestamp_pool_nanos =
     map (\<lambda>i. take 39 (pool_text i @
       print_padded 9 (unat ((of_nat i :: u64) * 0x9E3779B97F4A7C15 mod 1000000000)))) [0..<kBenchTimestampPool]"

text \<open>The bytes processed and what the parser returned in each iteration.\<close>

definition parse_pool :: "(byte list \<Rightarrow> int parsed) \<Rightarrow> byte list list \<Rightarrow> nat \<Rightarrow> (nat \<times> int option list) option" where
  "parse_pool parser pool n =
     map_option snd (iterations n (\<lambda>(i, total, tps). do {
       let s = pool ! (i mod length pool);
       tp \<leftarrow> parser s;
       Some (i + 1, total + length s, tps @ [tp])
     }) (0, 0, []))"

definition BM_ParseTimestampMillis :: "nat \<Rightarrow> (nat \<times> int option list) option" where
  "BM_ParseTimestampMillis n = parse_pool atotimepoint make_timestamp_pool_millis n"

definition BM_ParseTimestampNanos :: "nat \<Rightarrow> (nat \<times> int option list) option" where
  "BM_ParseTimestampNanos n = parse_pool atotimepoint_nano make_timestamp_pool_nanos n"

section \<open>Searches in an index\<close>

definition kFieldIndexCapacity :: nat where "kFieldIndexCapacity = 2048"

definition kWideTagsHighHit :: "u32 list" where
  "kWideTagsHighHit = [35, 49, 56, 34, 52, 55, 54, 37, 17, 39, 150, 151, 14, 6, 31]"

definition kSingleMsgTags :: "u32 list" where
  "kSingleMsgTags = [35, 49, 56, 34, 52, 11, 21, 55, 54, 38, 40, 44, 59, 60, 1]"

text \<open>One hint for all tags, and a new one for each tag.\<close>

fun find_tags_indexed_hint :: "indexed_message \<Rightarrow> u32 list \<Rightarrow> nat \<Rightarrow> field_value list option" where
  "find_tags_indexed_hint idx [] h = Some []"
| "find_tags_indexed_hint idx (tag # tags) h = do {
     (v, h) \<leftarrow> indexed_find_with_hint idx tag h;
     vs \<leftarrow> find_tags_indexed_hint idx tags h;
     Some (v # vs)
   }"

definition find_tags_indexed :: "indexed_message \<Rightarrow> u32 list \<Rightarrow> field_value list option" where
  "find_tags_indexed idx tags = those (map (\<lambda>tag. map_option fst (indexed_find_with_hint idx tag 0)) tags)"

text \<open>\<open>tags[0]\<close> to \<open>tags[n - 1]\<close>, the tags that a loop of \<open>n\<close> lookups reads from a table.\<close>

definition first_tags :: "u32 list \<Rightarrow> nat \<Rightarrow> u32 list option" where
  "first_tags tags n = those (map (elem_at tags) [0..<n])"

text \<open>The searches of \<open>BM_FindManyFields_Iterator\<close>: each from the first field.\<close>

definition find_tags_first :: "byte list \<Rightarrow> reader \<Rightarrow> u32 list \<Rightarrow> byte list option list option" where
  "find_tags_first mem r tags = those (map (\<lambda>tag. do {
     it \<leftarrow> reader_begin r;
     (found, it) \<leftarrow> reader_find_with_hint mem r tag it;
     if found then map_option Some (value_bytes mem (f_value (it_current it))) else Some None
   }) tags)"

definition BM_FindManyFields_Iterator :: "int \<Rightarrow> nat \<Rightarrow> nat \<Rightarrow> int \<Rightarrow> byte list \<Rightarrow> nat option" where
  "BM_FindManyFields_Iterator ticks n_lookups n tsend buffer = do {
     (len, buffer) \<leftarrow> write_new_order (hffix ticks) buffer 1 tsend;
     iterations n (\<lambda>total. do {
       r \<leftarrow> message_reader buffer 0 len;
       if \<not> r_valid r then Some total
       else do {
         tags \<leftarrow> first_tags kSingleMsgTags n_lookups;
         vs \<leftarrow> find_tags_first buffer r tags;
         Some (total + len)
       }
     }) 0
   }"

definition BM_FindManyFields_Indexed ::
  "int \<Rightarrow> nat \<Rightarrow> nat \<Rightarrow> int \<Rightarrow> byte list \<Rightarrow> field_index_buffer \<Rightarrow> (nat \<times> field_index_buffer) option" where
  "BM_FindManyFields_Indexed ticks n_lookups n tsend buffer idx_buffer = do {
     (len, buffer) \<leftarrow> write_new_order (hffix ticks) buffer 1 tsend;
     iterations n (\<lambda>(total, idx_buffer). do {
       r \<leftarrow> message_reader buffer 0 len;
       if \<not> r_valid r then Some (total, idx_buffer)
       else do {
         (idx, idx_buffer) \<leftarrow> build_field_index buffer r idx_buffer;
         tags \<leftarrow> first_tags kSingleMsgTags n_lookups;
         vs \<leftarrow> find_tags_indexed idx tags;
         Some (total + len, idx_buffer)
       }
     }) (0, idx_buffer)
   }"

section \<open>Loops that can be skipped\<close>

text \<open>
  \<open>state.SkipWithError(...); return;\<close> leaves the function from inside its loops: the left value.
  \<open>scan_loop\<close> is the loop over a data set with such a body.
\<close>

datatype skipped = Skip_With_Error_Index

partial_function (option) scan_loop ::
  "byte list \<Rightarrow> (reader \<Rightarrow> 's \<Rightarrow> (skipped + 's) option) \<Rightarrow> reader \<Rightarrow> 's \<Rightarrow> (skipped + 's) option" where
  "scan_loop mem body r s =
     (if r_complete r then do {
        res \<leftarrow> (if r_valid r then body r s else Some (Inr s));
        case res of
          Inl e \<Rightarrow> Some (Inl e)
        | Inr s \<Rightarrow> do { r \<leftarrow> next_message_reader mem r; scan_loop mem body r s }
      }
      else Some (Inr s))"

fun skip_iterations :: "nat \<Rightarrow> ('s \<Rightarrow> (skipped + 's) option) \<Rightarrow> 's \<Rightarrow> (skipped + 's) option" where
  "skip_iterations 0 body s = Some (Inr s)"
| "skip_iterations (Suc n) body s = do {
     res \<leftarrow> body s;
     case res of Inl e \<Rightarrow> Some (Inl e) | Inr s \<Rightarrow> skip_iterations n body s
   }"

text \<open>The frame of the four indexed benchmarks: \<open>search\<close> is what they do with the index.\<close>

definition indexed_benchmark ::
  "(indexed_message \<Rightarrow> unit option) \<Rightarrow> nat \<Rightarrow> byte list \<Rightarrow> field_index_buffer \<Rightarrow>
     (skipped + nat \<times> nat \<times> field_index_buffer) option" where
  "indexed_benchmark search n ds idx_buffer =
     skip_iterations n (\<lambda>(total_bytes, total_messages, idx_buffer). do {
       r \<leftarrow> message_reader ds 0 (length ds);
       res \<leftarrow> scan_loop ds (\<lambda>r (messages, idx_buffer). do {
         let messages = messages + 1;
         (idx, idx_buffer) \<leftarrow> build_field_index ds r idx_buffer;
         search idx;
         if \<not> authoritative idx then Some (Inl Skip_With_Error_Index) else Some (Inr (messages, idx_buffer))
       }) r (0, idx_buffer);
       case res of
         Inl e \<Rightarrow> Some (Inl e)
       | Inr (k, idx_buffer) \<Rightarrow>
           Some (Inr (total_bytes + length ds, total_messages + k, idx_buffer))
     }) (0, 0, idx_buffer)"

definition BM_Parse_FindTagsIndexed_Hint ::
  "u32 list \<Rightarrow> nat \<Rightarrow> byte list \<Rightarrow> field_index_buffer \<Rightarrow> (skipped + nat \<times> nat \<times> field_index_buffer) option" where
  "BM_Parse_FindTagsIndexed_Hint tags =
     indexed_benchmark (\<lambda>idx. map_option (\<lambda>vs. ()) (find_tags_indexed_hint idx tags 0))"

definition BM_Parse_FindTagsIndexed ::
  "u32 list \<Rightarrow> nat \<Rightarrow> byte list \<Rightarrow> field_index_buffer \<Rightarrow> (skipped + nat \<times> nat \<times> field_index_buffer) option" where
  "BM_Parse_FindTagsIndexed tags = indexed_benchmark (\<lambda>idx. map_option (\<lambda>vs. ()) (find_tags_indexed idx tags))"

definition BM_Parse_BuildFieldIndex ::
  "nat \<Rightarrow> byte list \<Rightarrow> field_index_buffer \<Rightarrow> (skipped + nat \<times> nat \<times> field_index_buffer) option" where
  "BM_Parse_BuildFieldIndex = indexed_benchmark (\<lambda>idx. Some ())"

definition BM_Parse_FindN_Indexed ::
  "nat \<Rightarrow> nat \<Rightarrow> byte list \<Rightarrow> field_index_buffer \<Rightarrow> (skipped + nat \<times> nat \<times> field_index_buffer) option" where
  "BM_Parse_FindN_Indexed k = indexed_benchmark (\<lambda>idx. map_option (\<lambda>vs. ()) (do {
     tags \<leftarrow> first_tags kWideTags k;
     find_tags_indexed idx tags
   }))"

definition BM_Parse_FindN_Iter :: "int \<Rightarrow> nat \<Rightarrow> nat \<Rightarrow> byte list \<Rightarrow> (nat \<times> nat) option" where
  "BM_Parse_FindN_Iter ticks k n ds =
     iterations n (\<lambda>(total_bytes, total_messages). do {
       messages \<leftarrow> parse (hffix ticks) ds (\<lambda>r messages. do {
         tags \<leftarrow> first_tags kWideTags k;
         vs \<leftarrow> find_in_message (hffix ticks) ds tags r;
         Some (messages + 1)
       }) 0;
       Some (total_bytes + length ds, total_messages + messages)
     }) (0, 0)"

section \<open>Groups\<close>

text \<open>What both benchmarks do with an entry: two searches, each from its first field.\<close>

definition entry_search :: "byte list \<Rightarrow> iter \<Rightarrow> iter \<Rightarrow> u32 \<Rightarrow> byte list option option" where
  "entry_search mem b e tag = do {
     (found, it) \<leftarrow> find_with_hint (increment mem) iter_eq b e (tag_equal tag) b;
     if found then map_option Some (value_bytes mem (f_value (it_current it))) else Some None
   }"

definition entry_prices :: "byte list \<Rightarrow> group_entry \<Rightarrow> (byte list option \<times> byte list option) option" where
  "entry_prices mem en = do {
     px \<leftarrow> entry_search mem (ge_begin en) (ge_end en) 270;
     sz \<leftarrow> entry_search mem (ge_begin en) (ge_end en) 271;
     Some (px, sz)
   }"

definition group_access_sugared :: "byte list \<Rightarrow> reader \<Rightarrow> (byte list option \<times> byte list option) list option" where
  "group_access_sugared mem r = do {
     g \<leftarrow> reader_group_of mem r 268;
     es \<leftarrow> group_entries mem g;
     those (map (entry_prices mem) es)
   }"

text \<open>The hand-written loop: \<open>n\<close> is \<open>count - seen\<close>.\<close>

fun manual_entries :: "byte list \<Rightarrow> iter \<Rightarrow> u32 \<Rightarrow> nat \<Rightarrow> iter \<Rightarrow> group_entry list option" where
  "manual_entries mem end_it delim 0 it = Some []"
| "manual_entries mem end_it delim (Suc n) it =
     (if iter_eq it end_it then Some []
      else do {
        let entry_begin = it;
        it \<leftarrow> increment mem it;
        it \<leftarrow> skip_to_tag mem delim it end_it;
        es \<leftarrow> manual_entries mem end_it delim n it;
        Some (\<lparr>ge_begin = entry_begin, ge_end = it\<rparr> # es)
      })"

definition group_access_manual :: "byte list \<Rightarrow> reader \<Rightarrow> (byte list option \<times> byte list option) list option" where
  "group_access_manual mem r = do {
     it \<leftarrow> reader_begin r;
     end_it \<leftarrow> reader_end r;
     (found, it) \<leftarrow> reader_find_with_hint mem r 268 it;
     if \<not> found then Some []
     else do {
       bs \<leftarrow> value_bytes mem (f_value (it_current it));
       case try_as_int False bs :: u64 option of
         None \<Rightarrow> Some []
       | Some count \<Rightarrow> do {
           it \<leftarrow> increment mem it;
           it \<leftarrow> skip_to_tag mem 269 it end_it;
           es \<leftarrow> manual_entries mem end_it 269 (unat count) it;
           those (map (entry_prices mem) es)
         }
     }
   }"

definition group_benchmark ::
  "int \<Rightarrow> (byte list \<Rightarrow> reader \<Rightarrow> (byte list option \<times> byte list option) list option) \<Rightarrow> nat \<Rightarrow> byte list \<Rightarrow> (nat \<times> nat) option" where
  "group_benchmark ticks access n ds =
     iterations n (\<lambda>(total_bytes, total_messages). do {
       messages \<leftarrow> parse (hffix ticks) ds (\<lambda>r messages. do { vs \<leftarrow> access ds r; Some (messages + 1) }) 0;
       Some (total_bytes + length ds, total_messages + messages)
     }) (0, 0)"

definition BM_Parse_GroupAccess_Sugared :: "int \<Rightarrow> nat \<Rightarrow> byte list \<Rightarrow> (nat \<times> nat) option" where
  "BM_Parse_GroupAccess_Sugared ticks = group_benchmark ticks group_access_sugared"

definition BM_Parse_GroupAccess_Manual :: "int \<Rightarrow> nat \<Rightarrow> byte list \<Rightarrow> (nat \<times> nat) option" where
  "BM_Parse_GroupAccess_Manual ticks = group_benchmark ticks group_access_manual"

section \<open>Tail latencies\<close>

text \<open>
  The body of the loop, with the index and without it, over the calls of \<open>now()\<close> so far, the samples and
  the index buffer. What the samples say is computed as in the upstream program.
\<close>

definition measured_body ::
  "int \<Rightarrow> u32 list \<Rightarrow> bool \<Rightarrow> byte list \<Rightarrow> (nat \<Rightarrow> int) \<Rightarrow> reader \<Rightarrow> nat \<times> u64 list \<times> field_index_buffer \<Rightarrow>
     (nat \<times> u64 list \<times> field_index_buffer) option" where
  "measured_body ticks tags use_index ds clk r = (\<lambda>(calls, samples, idx_buffer). do {
     idx_buffer \<leftarrow>
       (if use_index then do {
          (idx, idx_buffer) \<leftarrow> build_field_index ds r idx_buffer;
          vs \<leftarrow> find_tags_indexed_hint idx tags 0;
          Some idx_buffer
        }
        else do {
          vs \<leftarrow> find_in_message (hffix ticks) ds tags r;
          Some idx_buffer
        });
     Some (calls + 2, samples @ [word_of_int (clk (calls + 1) - clk calls)], idx_buffer)
   })"

definition BM_Parse_TailLatency ::
  "int \<Rightarrow> u32 list \<Rightarrow> bool \<Rightarrow> nat \<Rightarrow> byte list \<Rightarrow> (nat \<Rightarrow> int) \<Rightarrow> field_index_buffer \<Rightarrow> latency option" where
  "BM_Parse_TailLatency ticks tags use_index n ds clk idx_buffer =
     do {
       (calls, samples, idx_buffer) \<leftarrow> iterations n (\<lambda>(calls, samples, idx_buffer).
         parse (hffix ticks) ds (measured_body ticks tags use_index ds clk) (calls, [], idx_buffer))
         (0, [], idx_buffer);
       tail_latency samples
     }"

section \<open>The registered benchmarks\<close>

text \<open>A function, with the template or call arguments it is registered with.\<close>

definition kAmortizeN :: "nat list" where "kAmortizeN = [3, 5, 7, 8, 10, 13, 15, 20, 30]"

datatype bench =
    Shared benchmark
  | Write_New_Order_Epoch_Nanos | Write_New_Order_Closure
  | Parse_Timestamp_Millis | Parse_Timestamp_Nanos
  | Find_Many_Fields_Iterator nat | Find_Many_Fields_Indexed nat
  | Parse_Find_Tags_Indexed "u32 list" "byte list"
  | Parse_Find_Tags_Indexed_Hint "u32 list" "byte list"
  | Parse_Build_Field_Index "byte list"
  | Group_Access_Sugared "byte list" | Group_Access_Manual "byte list"
  | Tail_Latency_Indexed "u32 list" "byte list"
  | Find_N_Iter "byte list" nat | Find_N_Indexed "byte list" nat

definition indexed_dataset_benches :: "string \<times> byte list \<Rightarrow> (string \<times> bench) list" where
  "indexed_dataset_benches = (\<lambda>(name, data). [
     (''BM_Parse_ScanMessages/'' @ name, Shared (Parse_Scan_Messages data)),
     (''BM_Parse_IterAllFields/'' @ name, Shared (Parse_Iter_All_Fields data)),
     (''BM_Parse_FindCommonFields/'' @ name, Shared (Parse_Find_Tags kCommonTags data)),
     (''BM_Parse_FindManyFields_Iter/'' @ name, Shared (Parse_Find_Tags kManyTags data)),
     (''BM_Parse_FindLotsFields_Iter/'' @ name, Shared (Parse_Find_Tags kWideTags data)),
     (''BM_Parse_FindCommonFields_Indexed/'' @ name, Parse_Find_Tags_Indexed kCommonTags data),
     (''BM_Parse_FindManyFields_Indexed/'' @ name, Parse_Find_Tags_Indexed kManyTags data),
     (''BM_Parse_FindLotsFields_Indexed/'' @ name, Parse_Find_Tags_Indexed kWideTags data),
     (''BM_Parse_FindManyFields_Iter_HighHit/'' @ name, Shared (Parse_Find_Tags kWideTagsHighHit data)),
     (''BM_Parse_FindManyFields_Indexed_HighHit/'' @ name, Parse_Find_Tags_Indexed kWideTagsHighHit data),
     (''BM_Parse_BuildFieldIndex/'' @ name, Parse_Build_Field_Index data),
     (''BM_Parse_GroupAccess_Sugared/'' @ name, Group_Access_Sugared data),
     (''BM_Parse_GroupAccess_Manual/'' @ name, Group_Access_Manual data),
     (''BM_Parse_Sequential_Iter/'' @ name, Shared (Parse_Find_Tags kSeqOrderTags data)),
     (''BM_Parse_Random_Iter/'' @ name, Shared (Parse_Find_Tags kRandOrderTags data)),
     (''BM_Parse_Sequential_Indexed/'' @ name, Parse_Find_Tags_Indexed_Hint kSeqOrderTags data),
     (''BM_Parse_Random_Indexed/'' @ name, Parse_Find_Tags_Indexed_Hint kRandOrderTags data),
     (''BM_Parse_TailLatency_Sequential_Iter/'' @ name, Shared (Parse_Tail_Latency kSeqOrderTags data)),
     (''BM_Parse_TailLatency_Random_Iter/'' @ name, Shared (Parse_Tail_Latency kRandOrderTags data)),
     (''BM_Parse_TailLatency_Sequential_Indexed/'' @ name, Tail_Latency_Indexed kSeqOrderTags data),
     (''BM_Parse_TailLatency_Random_Indexed/'' @ name, Tail_Latency_Indexed kRandOrderTags data)] @
     concat (map (\<lambda>n. [
       (''BM_Parse_FindN_Iter/'' @ map (\<lambda>b. char_of (unat b)) (dec_digits n) @ ''/'' @ name, Find_N_Iter data n),
       (''BM_Parse_FindN_Indexed/'' @ map (\<lambda>b. char_of (unat b)) (dec_digits n) @ ''/'' @ name, Find_N_Indexed data n)])
       kAmortizeN))"

text \<open>A benchmark registered with several \<open>Arg(n)\<close> is listed once for each.\<close>

definition register_indexed_benches :: "(string \<times> byte list) list \<Rightarrow> (string \<times> bench) list" where
  "register_indexed_benches datasets =
     [(''BM_WriteLogon'', Shared Write_Logon), (''BM_WriteNewOrder'', Shared Write_New_Order),
      (''BM_WriteNewOrder_EpochNanos'', Write_New_Order_Epoch_Nanos),
      (''BM_WriteNewOrder_Closure'', Write_New_Order_Closure),
      (''BM_ReadMessageScan'', Shared Read_Message_Scan),
      (''BM_ReadMessageFindFields'', Shared Read_Message_Find_Fields), (''BM_RoundTrip'', Shared Round_Trip),
      (''BM_ParseTimestampMillis'', Parse_Timestamp_Millis), (''BM_ParseTimestampNanos'', Parse_Timestamp_Nanos)] @
     map (\<lambda>n. (''BM_FindManyFields_Iterator'', Find_Many_Fields_Iterator n)) [3, 5, 8, 13, 15] @
     map (\<lambda>n. (''BM_FindManyFields_Indexed'', Find_Many_Fields_Indexed n)) [3, 5, 8, 13, 15] @
     (if datasets = [] then [(''BM_Parse/<no-dataset>'', Shared No_Dataset)]
      else concat (map indexed_dataset_benches datasets))"

section \<open>The two group loops are the same\<close>

text \<open>From an entry on, the group iterator visits what the hand-written loop collects.\<close>

lemma visit_manual:
  "remaining g = Suc n \<Longrightarrow> ends_group stop g \<Longrightarrow>
     map_option (map group_deref) (visit (group_increment mem) group_iter_eq g stop) =
     map_option (\<lambda>es. group_deref g # es) (manual_entries mem (group_end g) (delimiter g) n (entry_end g))"
proof (induction n arbitrary: g)
  case 0
  then have "visit (group_increment mem) group_iter_eq (at_group_end g) stop = Some []"
    by (subst visit.simps) (simp add: at_group_end_def group_iter_eq_def iter_eq_def)
  with 0 show ?case
    by (subst visit.simps) (simp add: group_iter_eq_def group_increment_def at_group_end_def)
next
  case (Suc n)
  let ?h = "g\<lparr>remaining := Suc n\<rparr>"
  have step: "visit (group_increment mem) group_iter_eq g stop = do {
      h \<leftarrow> group_increment mem g;
      gs \<leftarrow> visit (group_increment mem) group_iter_eq h stop;
      Some (g # gs) }"
    using Suc.prems by (subst visit.simps) (simp add: group_iter_eq_def)
  show ?case
  proof (cases "iter_eq (entry_end g) (group_end g)")
    case True
    have "visit (group_increment mem) group_iter_eq (at_group_end ?h) stop = Some []"
      using Suc.prems by (subst visit.simps) (simp add: at_group_end_def group_iter_eq_def iter_eq_def)
    moreover have "group_increment mem g = Some (at_group_end ?h)"
      using True Suc.prems by (simp add: group_increment_def)
    ultimately show ?thesis using True by (simp add: step)
  next
    case False
    have inc: "group_increment mem g = do {
        e \<leftarrow> increment mem (entry_end g);
        e \<leftarrow> skip_to_tag mem (delimiter g) e (group_end g);
        Some (?h\<lparr>entry_begin := entry_end g, entry_end := e\<rparr>) }"
      using False Suc.prems by (simp add: group_increment_def compute_entry_end_def)
    show ?thesis
    proof (cases "Option.bind (increment mem (entry_end g)) (\<lambda>e. skip_to_tag mem (delimiter g) e (group_end g))")
      case None
      with False step inc show ?thesis by (cases "increment mem (entry_end g)") simp_all
    next
      case (Some e)
      then obtain j where j: "increment mem (entry_end g) = Some j"
        "skip_to_tag mem (delimiter g) j (group_end g) = Some e" by (auto simp: bind_eq_Some_conv)
      let ?g' = "?h\<lparr>entry_begin := entry_end g, entry_end := e\<rparr>"
      have "map_option (map group_deref) (visit (group_increment mem) group_iter_eq ?g' stop) =
          map_option (\<lambda>es. group_deref ?g' # es) (manual_entries mem (group_end g) (delimiter g) n e)"
        using Suc.IH [of ?g'] Suc.prems by simp
      moreover have "group_increment mem g = Some ?g'" by (simp add: inc j)
      ultimately show ?thesis using False j
        by (cases "visit (group_increment mem) group_iter_eq ?g' stop";
            cases "manual_entries mem (group_end g) (delimiter g) n e") (auto simp: step group_deref_def)
    qed
  qed
qed

lemma group_entries_manual:
  "group_entries mem \<lparr>view_begin = b, view_end = e, view_count = n, view_delimiter = d\<rparr> = do {
     it \<leftarrow> skip_to_tag mem d b e;
     manual_entries mem e d n it
   }"
proof (cases "skip_to_tag mem d b e")
  case None
  then show ?thesis by (simp add: group_entries_def view_iter_begin_def)
next
  case (Some it)
  let ?stop = "\<lparr>entry_begin = e, entry_end = e, group_end = e, delimiter = d, remaining = 0\<rparr>"
  let ?g = "\<lparr>entry_begin = it, entry_end = it, group_end = e, delimiter = d, remaining = n\<rparr>"
  have stop: "view_iter_end mem \<lparr>view_begin = b, view_end = e, view_count = n, view_delimiter = d\<rparr> = Some ?stop"
    by (simp add: view_iter_end_def make_group_iterator_def at_group_end_def)
  show ?thesis
  proof (cases "n = 0 \<or> iter_eq it e")
    case True
    have "visit (group_increment mem) group_iter_eq (at_group_end ?g) ?stop = Some []"
      by (subst visit.simps) (simp add: at_group_end_def group_iter_eq_def iter_eq_def)
    with True Some stop show ?thesis
      by (cases n) (auto simp: group_entries_def view_iter_begin_def make_group_iterator_def)
  next
    case False
    then obtain k where k: "n = Suc k" by (cases n) auto
    have first: "view_iter_begin mem \<lparr>view_begin = b, view_end = e, view_count = n, view_delimiter = d\<rparr> =
        compute_entry_end mem ?g"
      using False Some k by (simp add: view_iter_begin_def make_group_iterator_def)
    show ?thesis
    proof (cases "Option.bind (increment mem it) (\<lambda>j. skip_to_tag mem d j e)")
      case none: None
      then have "compute_entry_end mem ?g = None"
        by (cases "increment mem it") (simp_all add: compute_entry_end_def)
      moreover have "manual_entries mem e d n it = None"
        using none False k by (cases "increment mem it") simp_all
      ultimately show ?thesis using Some by (simp add: group_entries_def first)
    next
      case (Some x)
      then obtain j where j: "increment mem it = Some j" "skip_to_tag mem d j e = Some x"
        by (auto simp: bind_eq_Some_conv)
      have "compute_entry_end mem ?g = Some (?g\<lparr>entry_end := x\<rparr>)" by (simp add: compute_entry_end_def j)
      moreover have "map_option (map group_deref) (visit (group_increment mem) group_iter_eq (?g\<lparr>entry_end := x\<rparr>) ?stop) =
          map_option (\<lambda>es. group_deref (?g\<lparr>entry_end := x\<rparr>) # es) (manual_entries mem e d k x)"
        using visit_manual [of "?g\<lparr>entry_end := x\<rparr>" k ?stop mem] k by simp
      ultimately show ?thesis
        using False stop \<open>skip_to_tag mem d b e = Some it\<close> j k
        by (cases "visit (group_increment mem) group_iter_eq (?g\<lparr>entry_end := x\<rparr>) ?stop"; cases "manual_entries mem e d k x")
          (auto simp: group_entries_def first [unfolded k] group_deref_def)
    qed
  qed
qed

lemma registered_md: "map_of registered_groups_1 268 = None" "map_of registered_groups_2 268 = Some 269"
  "map_of registered_groups_3 268 = None" "map_of registered_groups_4 268 = None" "map_of registered_groups_5 268 = None"
  by (simp_all add: registered_groups_1_def registered_groups_2_def registered_groups_3_def registered_groups_4_def
      registered_groups_5_def)

lemma first_tag_md: "first_tag 268 = 269"
  by (simp add: first_tag_def registered_groups_def map_add_def registered_md)

theorem group_access_same: "r_valid r \<Longrightarrow> group_access_sugared mem r = group_access_manual mem r"
proof -
  assume v: "r_valid r"
  have "reader_group_of mem r 268 = find_group mem (r_begin r) (r_end r) 268 269"
    using v by (simp add: reader_group_of_def first_tag_md reader_group_def reader_begin_def reader_end_def)
  moreover have "group_entries mem (empty_view e d) = Some []" for e d
    unfolding empty_view_def group_entries_manual by (subst skip_to_tag.simps) (simp add: iter_eq_def)
  ultimately show ?thesis using v
    by (auto simp: group_access_sugared_def group_access_manual_def find_group_def reader_begin_def reader_end_def
        reader_find_with_hint_def group_entries_manual split: option.split intro!: Option.bind_cong)
qed

text \<open>A search in a field list of a framed message returns a value.\<close>

lemma entry_search_total:
  assumes fr: "framed mem r" and v: "visit (increment mem) iter_eq (r_begin r) (r_end r) = Some its"
    and en: "fields_from mem e b xs" and sub: "set xs \<subseteq> set its"
  shows "\<exists>v. entry_search mem b e tag = Some v"
proof (cases "find (tag_equal tag) xs")
  case None
  then show ?thesis using find_tag_visits [OF en, of tag] by (simp add: entry_search_def)
next
  case (Some x)
  then have "x \<in> set its" using sub by (auto simp: find_Some_iff)
  from framed_value [OF fr v this] Some find_tag_visits [OF en, of tag] show ?thesis
    by (auto simp: entry_search_def)
qed

lemma list_all2_elem: "list_all2 P xs ys \<Longrightarrow> x \<in> set xs \<Longrightarrow> \<exists>y \<in> set ys. P x y"
  by (induction rule: list_all2_induct) auto

lemma group_access_total:
  assumes fr: "framed mem r"
  shows "\<exists>vs. group_access_sugared mem r = Some vs"
proof -
  from visit_framed [OF fr] obtain its where
    v: "visit (increment mem) iter_eq (r_begin r) (r_end r) = Some its" by blast
  then have vs: "fields_from mem (r_end r) (r_begin r) its" by (simp add: visit_iff)
  have valid: "r_valid r" using framed_bounds [OF fr] by simp
  have of: "reader_group_of mem r 268 = reader_group mem r 268 269"
    by (simp add: reader_group_of_def first_tag_md)
  have empty: "group_entries mem (empty_view e d) = Some []" for e d
    unfolding empty_view_def group_entries_manual by (subst skip_to_tag.simps) (simp add: iter_eq_def)
  show ?thesis
  proof (cases "\<exists>x \<in> set its. at_tag 268 x")
    case False
    then have "reader_group mem r 268 269 = Some (empty_view (r_end r) 269)"
      using find_group_absent [OF vs] valid by (simp add: reader_group_def reader_begin_def reader_end_def)
    then show ?thesis by (simp add: group_access_sugared_def of empty)
  next
    case True
    then obtain pre x post where its: "its = pre @ x # post" "at_tag 268 x" "\<forall>y \<in> set pre. \<not> at_tag 268 y"
      using split_list_first_propE [of its "at_tag 268"] by metis
    from framed_value [OF fr v] its(1) obtain bs where bs: "value_bytes mem (f_value (it_current x)) = Some bs" by auto
    show ?thesis
    proof (cases "try_as_int False bs :: u64 option")
      case None
      from find_group_count [OF vs [unfolded its(1)] its(3,2) bs, of 269] None valid
      have "reader_group mem r 268 269 = Some (empty_view (r_end r) 269)"
        by (auto simp: reader_group_def reader_begin_def reader_end_def)
      then show ?thesis by (simp add: group_access_sugared_def of empty)
    next
      case (Some n)
      with bs have n: "Option.bind (value_bytes mem (f_value (it_current x))) (try_as_int False) = Some n" by simp
      from reader_group_entries [OF fr v [unfolded its(1)] its(3,2) n, of 269] obtain g es where
        g: "reader_group mem r 268 269 = Some g" "group_entries mem g = Some es"
          "list_all2 (entry_fields mem) es (group_fields (unat n) 269 post)" by blast
      have "\<exists>y. entry_prices mem en = Some y" if "en \<in> set es" for en
      proof -
        from list_all2_elem [OF g(3) that] obtain xs where
          xs: "xs \<in> set (group_fields (unat n) 269 post)" "entry_fields mem en xs" by blast
        have "set xs \<subseteq> set (concat (chunks (at_tag 269) (dropWhile (\<lambda>it. \<not> at_tag 269 it) post)))"
          using xs(1) by (auto simp: group_fields_def dest: in_set_takeD)
        then have sub: "set xs \<subseteq> set its" unfolding chunks_concat using its(1) by (auto dest: set_dropWhileD)
        from entry_search_total [OF fr v xs(2) sub, of 270] entry_search_total [OF fr v xs(2) sub, of 271]
        show ?thesis by (auto simp: entry_prices_def)
      qed
      then have "\<exists>ys. those (map (entry_prices mem) es) = Some ys" by (rule those_map_total)
      with g show ?thesis by (simp add: group_access_sugared_def of)
    qed
  qed
qed

lemma group_benchmarks:
  assumes "for_each_message ds 0 (length ds) = Some (rs, tail)"
  shows "BM_Parse_GroupAccess_Sugared ticks n ds = Some (n * length ds, n * length rs) \<and>
    BM_Parse_GroupAccess_Manual ticks n ds = Some (n * length ds, n * length rs)"
proof -
  have fr: "framed ds r" if "r \<in> set rs" for r
    using for_each_result [of 0 "length ds" ds] assms that by (auto simp: shows_readers_def)
  have "group_benchmark ticks access n ds = Some (n * length ds, n * length rs)"
    if "\<And>r. r \<in> set rs \<Longrightarrow> \<exists>vs. access ds r = Some vs" for access
  proof -
    have "try_each (\<lambda>r k. do { vs \<leftarrow> access ds r; Some (k + 1) }) rs 0 = Some (0 + (\<Sum>r\<leftarrow>rs. 1 :: nat))"
      using that by (intro try_each_count) force
    then show ?thesis
      unfolding group_benchmark_def this_library.parse_eq shown_readers_for_each [OF assms]
      by (subst iterations_sum [of _ "length ds" "length rs"]) (simp_all add: sum_list_triv)
  qed
  moreover have "\<exists>vs. group_access_sugared ds r = Some vs" "\<exists>vs. group_access_manual ds r = Some vs"
    if "r \<in> set rs" for r
    using group_access_total [OF fr [OF that]] group_access_same [of r ds] framed_bounds [OF fr [OF that]] by simp_all
  ultimately show ?thesis
    by (simp add: BM_Parse_GroupAccess_Sugared_def BM_Parse_GroupAccess_Manual_def)
qed

section \<open>The index finds what the iterator finds\<close>

text \<open>The bytes an indexed search stands for: the default value is no field.\<close>

definition indexed_bytes :: "byte list \<Rightarrow> field_value \<Rightarrow> byte list option" where
  "indexed_bytes mem v = (if v = mk_value null null then None else value_bytes mem v)"

lemma indexed_bytes_field:
  assumes "framed mem r" "it \<in> set (message_fields mem r)"
  shows "indexed_bytes mem (f_value (it_current it)) = value_bytes mem (f_value (it_current it))"
proof -
  have "0 < it_begin it"
    using visit_framed [OF assms(1)] visit_message_fields [OF assms(1)] assms(2) by fastforce
  then show ?thesis by (auto simp: indexed_bytes_def mk_value_def)
qed

lemma hint_step:
  assumes fr: "framed mem r" and im: "indexes im (message_fields mem r)"
    and h: "h < length (message_fields mem r)"
  shows "\<exists>found it h' w v. reader_find_with_hint mem r tag (message_fields mem r ! h) = Some (found, it) \<and>
    indexed_find_with_hint im tag h = Some (w, h') \<and> h' < length (message_fields mem r) \<and>
    it = message_fields mem r ! h' \<and> found_value (hffix ticks) mem found it = Some v \<and> indexed_bytes mem w = v"
proof -
  let ?its = "message_fields mem r"
  let ?xs = "take h ?its" and ?it = "?its ! h" and ?ys = "drop (Suc h) ?its"
  have its: "?its = ?xs @ ?it # ?ys" using h by (simp add: id_take_nth_drop [symmetric])
  note s = search_message_eq [OF fr its, of tag]
  have im': "indexes im (?xs @ ?it # ?ys)" using im its by simp
  have hl: "length ?xs = h" using h by simp
  from indexed_find_spec [OF im', of tag] obtain h' where
    i: "indexed_find_with_hint im tag h = Some (case find (tag_equal tag) ((?it # ?ys) @ ?xs) of
          None \<Rightarrow> mk_value null null | Some it \<Rightarrow> f_value (it_current it), h')"
      "case find (tag_equal tag) ((?it # ?ys) @ ?xs) of None \<Rightarrow> h' = h
       | Some it \<Rightarrow> h' < length ?its \<and> ?its ! h' = it" unfolding hl its [symmetric] by blast
  show ?thesis
  proof (cases "find (tag_equal tag) ((?it # ?ys) @ ?xs)")
    case None
    then show ?thesis using s i h by (auto simp: found_value_def indexed_bytes_def)
  next
    case (Some j)
    then have j: "h' < length ?its" "?its ! h' = j" using i(2) by simp_all
    then have m: "j \<in> set ?its" by auto
    from framed_value [OF fr] visit_message_fields [OF fr] m obtain bs where
      "value_bytes mem (f_value (it_current j)) = Some bs" by blast
    with Some s i(1) j indexed_bytes_field [OF fr m] show ?thesis by (auto simp: found_value_def)
  qed
qed

text \<open>Whole lists of searches, each continuing where the last one ended.\<close>

lemma hint_agrees:
  assumes fr: "framed mem r" and im: "indexes im (message_fields mem r)"
  shows "h < length (message_fields mem r) \<Longrightarrow>
    \<exists>vs ws. find_tags (hffix ticks) mem r tags (message_fields mem r ! h) = Some vs \<and>
      find_tags_indexed_hint im tags h = Some ws \<and> vs = map (indexed_bytes mem) ws"
proof (induction tags arbitrary: h)
  case Nil
  show ?case by simp
next
  case (Cons tag tags)
  from hint_step [OF fr im Cons.prems, of tag ticks] obtain found it h' w v where
    s: "reader_find_with_hint mem r tag (message_fields mem r ! h) = Some (found, it)"
      "indexed_find_with_hint im tag h = Some (w, h')" "h' < length (message_fields mem r)"
      "it = message_fields mem r ! h'" "found_value (hffix ticks) mem found it = Some v" "indexed_bytes mem w = v" by blast
  from Cons.IH [OF s(3)] s show ?case by auto
qed

lemma searches_agree:
  assumes fr: "framed mem r" and buf: "buffer_ok buf" "length (message_fields mem r) \<le> length (ib_tags buf)"
    and size: "length mem \<le> kMaxIndexableMessageBytes"
  shows "\<exists>idx buf' vs ws. build_field_index mem r buf = Some (idx, buf') \<and> authoritative idx \<and>
    find_in_message (hffix ticks) mem tags r = Some vs \<and> find_tags_indexed_hint idx tags 0 = Some ws \<and>
    vs = map (indexed_bytes mem) ws"
proof -
  have v: "visit (increment mem) iter_eq (r_begin r) (r_end r) = Some (message_fields mem r)"
    "message_fields mem r \<noteq> []" "hd (message_fields mem r) = r_begin r" using visit_message_fields [OF fr] by auto
  have sz: "it_message_end (r_end r) \<le> r_buffer r + kMaxIndexableMessageBytes"
    using framed_bounds [OF fr] size by simp
  from build_index_result [OF fr buf(1) sz v(1)] buf(2) obtain im buf' where
    im: "build_field_index mem r buf = Some (im, buf')" "indexes im (message_fields mem r)" "authoritative im"
    by (auto simp: authoritative_def)
  have "message_fields mem r ! 0 = r_begin r" using v(2,3) by (simp add: hd_conv_nth)
  with hint_agrees [OF fr im(2), of 0 ticks tags] v(2) im framed_bounds [OF fr] show ?thesis
    by (auto simp: find_in_message_def reader_begin_def)
qed

section \<open>The indexed benchmarks\<close>

fun try_sum :: "('r \<Rightarrow> 's \<Rightarrow> (skipped + 's) option) \<Rightarrow> 'r list \<Rightarrow> 's \<Rightarrow> (skipped + 's) option" where
  "try_sum body [] s = Some (Inr s)"
| "try_sum body (r # rs) s = do {
     res \<leftarrow> body r s;
     case res of Inl e \<Rightarrow> Some (Inl e) | Inr s \<Rightarrow> try_sum body rs s
   }"

lemma scan_loop_eq: "constructed mem r \<Longrightarrow> scan_loop mem body r s = try_sum body (shown_readers mem r) s"
proof (induction arbitrary: s rule: reader_induct)
  case (stop r)
  then show ?case by (subst scan_loop.simps) (simp add: shown_readers_def for_each_stop)
next
  case (step r r')
  from for_each_loop_result [OF step(4)] obtain rs tail where "for_each_loop mem r' = Some (rs, tail)" by blast
  with for_each_step [OF step(2,3)]
  have "shown_readers mem r = (if r_valid r then r # shown_readers mem r' else shown_readers mem r')"
    by (simp add: shown_readers_def)
  with step(2,3,7) show ?case
    by (subst scan_loop.simps) (auto intro!: Option.bind_cong split: sum.split)
qed

lemma index_loop_buffer:
  "index_loop too_big mem base stop it n buf = Some (ov, c, j, buf') \<Longrightarrow>
     length (ib_tags buf') = length (ib_tags buf) \<and> length (ib_pos_len buf') = length (ib_pos_len buf)"
proof (induction too_big mem base stop it n buf rule: index_loop.induct)
  case (1 too_big mem base stop it n buf)
  note p = "1.prems" [unfolded index_loop.simps [of too_big mem base stop it n buf]]
  show ?case using p "1.IH" by (auto simp: Let_def bind_eq_Some_conv split: if_splits)
qed

lemma build_field_index_buffer:
  "build_field_index mem r buf = Some (idx, buf') \<Longrightarrow>
     length (ib_tags buf') = length (ib_tags buf) \<and> length (ib_pos_len buf') = length (ib_pos_len buf)"
  by (auto simp: build_field_index_def bind_eq_Some_conv Let_def split: if_splits dest!: index_loop_buffer)

text \<open>A search returns on any index, one that is truncated too.\<close>

lemma find_tags_indexed_hint_total:
  "indexes im its \<Longrightarrow> h \<le> length its \<Longrightarrow> \<exists>ws. find_tags_indexed_hint im tags h = Some ws"
proof (induction tags arbitrary: h)
  case Nil
  show ?case by simp
next
  case (Cons tag tags)
  have im: "indexes im (take h its @ drop h its)" using Cons.prems(1) by simp
  have hl: "length (take h its) = h" using Cons.prems(2) by simp
  from indexed_find_spec [OF im, of tag, unfolded hl append_take_drop_id] Cons.prems(2) obtain w h' where
    "indexed_find_with_hint im tag h = Some (w, h')" "h' \<le> length its"
    by (auto split: option.splits)
  moreover from Cons.IH [OF Cons.prems(1) calculation(2)] obtain ws where "find_tags_indexed_hint im tags h' = Some ws"
    by blast
  ultimately show ?case by simp
qed

lemma find_tags_indexed_total: "indexes im its \<Longrightarrow> \<exists>ws. find_tags_indexed im tags = Some ws"
  unfolding find_tags_indexed_def
  using indexed_find_spec [of im "[]" its] by (intro those_map_total) fastforce

definition capacity_ok :: "field_index_buffer \<Rightarrow> bool" where
  "capacity_ok buf \<longleftrightarrow> buffer_ok buf \<and> length (ib_tags buf) = kFieldIndexCapacity"

lemma indexed_step:
  assumes fr: "framed mem r" and buf: "capacity_ok buf" and size: "length mem \<le> kMaxIndexableMessageBytes"
    and search: "\<And>im its. indexes im its \<Longrightarrow> search im = Some ()"
  shows "\<exists>idx buf'. build_field_index mem r buf = Some (idx, buf') \<and> search idx = Some () \<and> capacity_ok buf' \<and>
    (authoritative idx \<longleftrightarrow> length (message_fields mem r) \<le> kFieldIndexCapacity)"
proof -
  have sz: "it_message_end (r_end r) \<le> r_buffer r + kMaxIndexableMessageBytes"
    using framed_bounds [OF fr] size by simp
  from visit_message_fields [OF fr] build_index_result [OF fr _ sz, of buf "message_fields mem r"] buf obtain im buf' where
    im: "build_field_index mem r buf = Some (im, buf')" "indexes im (take (length (ib_tags buf)) (message_fields mem r))"
      "\<not> im_overflowed im" "im_truncated im \<longleftrightarrow> length (ib_tags buf) < length (message_fields mem r)"
    by (auto simp: capacity_ok_def)
  with build_field_index_buffer [OF im(1)] search [OF im(2)] buf show ?thesis
    by (auto simp: capacity_ok_def authoritative_def)
qed

lemma indexed_scan:
  assumes rs: "\<forall>r \<in> set rs. framed mem r" and size: "length mem \<le> kMaxIndexableMessageBytes"
    and search: "\<And>im its. indexes im its \<Longrightarrow> search im = Some ()"
  shows "capacity_ok buf \<Longrightarrow> \<exists>buf'. capacity_ok buf' \<and> try_sum (\<lambda>r (messages, idx_buffer). do {
      let messages = messages + 1;
      (idx, idx_buffer) \<leftarrow> build_field_index mem r idx_buffer;
      search idx;
      if \<not> authoritative idx then Some (Inl Skip_With_Error_Index) else Some (Inr (messages, idx_buffer))
    }) rs (k, buf) =
    Some (if \<forall>r \<in> set rs. length (message_fields mem r) \<le> kFieldIndexCapacity then Inr (k + length rs, buf')
      else Inl Skip_With_Error_Index)"
  using rs
proof (induction rs arbitrary: k buf)
  case Nil
  then show ?case by auto
next
  case (Cons r rs)
  from Cons.prems(2) have fr: "framed mem r" by simp
  obtain idx b1 where
    s: "build_field_index mem r buf = Some (idx, b1)" "search idx = Some ()" "capacity_ok b1"
      "authoritative idx \<longleftrightarrow> length (message_fields mem r) \<le> kFieldIndexCapacity"
    using indexed_step [OF fr Cons.prems(1) size, of search] search by blast
  show ?case
  proof (cases "authoritative idx")
    case False
    with s Cons.prems(1) show ?thesis by auto
  next
    case True
    from Cons.IH [OF s(3), of "k + 1"] Cons.prems(2) s True show ?thesis by auto
  qed
qed

lemma skip_iterations_cond:
  assumes step: "\<And>tb tm b. ok b \<Longrightarrow> \<exists>b'. ok b' \<and> step (tb, tm, b) = Some (if c then Inr (tb + x, tm + y, b') else Inl e)"
  shows "ok b \<Longrightarrow> \<exists>b'. skip_iterations (Suc n) step (tb, tm, b) =
    Some (if c then Inr (tb + Suc n * (x :: nat), tm + Suc n * (y :: nat), b') else Inl e)"
proof (induction n arbitrary: tb tm b)
  case 0
  from step [OF 0, of tb tm] show ?case by auto
next
  case (Suc n)
  from step [OF Suc.prems, of tb tm] obtain b' where b': "ok b'"
    "step (tb, tm, b) = Some (if c then Inr (tb + x, tm + y, b') else Inl e)" by blast
  from Suc.IH [OF b'(1), of "tb + x" "tm + y"] b'(2) show ?case
    by (subst skip_iterations.simps(2)) (cases c, auto simp: algebra_simps)
qed

lemma indexed_benchmark_result:
  assumes rs: "for_each_message ds 0 (length ds) = Some (rs, tail)" and size: "length ds \<le> kMaxIndexableMessageBytes"
    and search: "\<And>im its. indexes im its \<Longrightarrow> search im = Some ()" and buf: "capacity_ok buf"
  shows "\<exists>buf'. indexed_benchmark search (Suc n) ds buf =
    Some (if \<forall>r \<in> set rs. length (message_fields ds r) \<le> kFieldIndexCapacity
      then Inr (Suc n * length ds, Suc n * length rs, buf') else Inl Skip_With_Error_Index)"
proof -
  let ?small = "\<forall>r \<in> set rs. length (message_fields ds r) \<le> kFieldIndexCapacity"
  let ?step = "\<lambda>(total_bytes, total_messages, idx_buffer). do {
       r \<leftarrow> message_reader ds 0 (length ds);
       res \<leftarrow> scan_loop ds (\<lambda>r (messages, idx_buffer). do {
         let messages = messages + 1;
         (idx, idx_buffer) \<leftarrow> build_field_index ds r idx_buffer;
         search idx;
         if \<not> authoritative idx then Some (Inl Skip_With_Error_Index) else Some (Inr (messages, idx_buffer))
       }) r (0, idx_buffer);
       case res of
         Inl e \<Rightarrow> Some (Inl e)
       | Inr (k, idx_buffer) \<Rightarrow> Some (Inr (total_bytes + length ds, total_messages + k, idx_buffer))
     }"
  have fr: "\<forall>r \<in> set rs. framed ds r"
    using for_each_result [of 0 "length ds" ds] rs by (auto simp: shows_readers_def)
  from message_reader_constructed [of 0 "length ds" ds] obtain r0 where
    r0: "message_reader ds 0 (length ds) = Some r0" "constructed ds r0" by auto
  have shown: "shown_readers ds r0 = rs"
    using shown_readers_for_each [OF rs] r0(1) by (simp add: first_reader_def)
  have step: "\<exists>b'. capacity_ok b' \<and> ?step (tb, tm, b) =
      Some (if ?small then Inr (tb + length ds, tm + length rs, b') else Inl Skip_With_Error_Index)"
    if ok: "capacity_ok b" for tb tm b
  proof -
    obtain b' where
      "capacity_ok b'" "try_sum (\<lambda>r (messages, idx_buffer). do {
         let messages = messages + 1;
         (idx, idx_buffer) \<leftarrow> build_field_index ds r idx_buffer;
         search idx;
         if \<not> authoritative idx then Some (Inl Skip_With_Error_Index) else Some (Inr (messages, idx_buffer))
       }) rs (0, b) = Some (if ?small then Inr (0 + length rs, b') else Inl Skip_With_Error_Index)"
      using indexed_scan [OF fr size, of search b 0] search ok by blast
    then show ?thesis by (auto simp: r0(1) scan_loop_eq [OF r0(2)] shown)
  qed
  from skip_iterations_cond [where ok = capacity_ok and step = ?step and x = "length ds" and y = "length rs" and
      c = ?small and e = Skip_With_Error_Index, OF step buf, of n 0 0]
  show ?thesis unfolding indexed_benchmark_def by (simp only: add_0)
qed

section \<open>The other ways to write the order\<close>

text \<open>The closure of \<open>try_write_message\<close> writes the same message.\<close>

lemma run_ops_fun: "run_ops [] = Some" "run_ops (x # xs) = (\<lambda>w. Option.bind (run_op x w) (run_ops xs))"
  by (rule ext, simp)+

lemma write_closure_same:
  assumes "length buffer = kBufSize"
  shows "write_closure ticks tsend buffer = write_new_order (hffix ticks) buffer 1 tsend"
proof -
  let ?v = "lit ''FIXT.1.1''" and ?xs = "Str 35 (lit ''D'') # order_ops ticks 1 tsend"
  have ops: "(\<lambda>w. do {
       w \<leftarrow> push_back_header (lit ''FIXT.1.1'') w;
       w \<leftarrow> push_back_string 35 (lit ''D'') w;
       w \<leftarrow> push_back_string 49 (lit ''AAAA'') w;
       w \<leftarrow> push_back_string 56 (lit ''BBBB'') w;
       w \<leftarrow> push_back_int max_ascii_chars_int 34 (1 :: 32 word) w;
       w \<leftarrow> push_back_timestamp_tp ticks 52 tsend w;
       w \<leftarrow> push_back_string 11 (lit ''A1'') w;
       w \<leftarrow> push_back_char 21 49 w;
       w \<leftarrow> push_back_string 55 (lit ''OIH'') w;
       w \<leftarrow> push_back_char 54 49 w;
       w \<leftarrow> push_back_timestamp_tp ticks 60 tsend w;
       w \<leftarrow> push_back_int max_ascii_chars_int 38 (100 :: 32 word) w;
       w \<leftarrow> push_back_char 40 50 w;
       w \<leftarrow> push_back_decimal max_ascii_chars_int 44 (50001 :: 32 word) (- 2) w;
       push_back_char 59 49 w
     }) = run_ops (Header ?v # ?xs)"
    by (simp add: order_ops_def run_ops_fun run_bench_time del: bench_op.simps(5) run_ops.simps)
  from order_message_written [OF assms, of ticks 1 tsend] obtain w where
    w: "write_message ?v ?xs buffer = Some (True, w)" by blast
  have "try_write_message buffer (run_ops (Header ?v # ?xs)) = Some (Some (writer_message_end w), w_buffer w)"
    using w by (auto simp: try_write_message_def write_message_def bind_eq_Some_conv)
  then show ?thesis unfolding write_closure_def ops write_new_order_ops w by simp
qed

lemma closure_benchmark_same:
  assumes "length buffer = kBufSize"
  shows "BM_WriteNewOrder_Closure ticks n tsend buffer = BM_WriteNewOrder (hffix ticks) n tsend buffer"
proof -
  have "iterations n (\<lambda>(k, buffer). do { (len, buffer) \<leftarrow> write_closure ticks tsend buffer; Some (k + len, buffer) }) (k, b) =
      iterations n (\<lambda>(k, buffer). do { (len, buffer) \<leftarrow> write_new_order (hffix ticks) buffer 1 tsend; Some (k + len, buffer) }) (k, b)"
    if "length b = kBufSize" for k b
    using that
  proof (induction n arbitrary: k b)
    case (Suc n)
    from order_written [OF Suc.prems, of ticks 1 tsend] obtain mem where
      o: "write_new_order (hffix ticks) b 1 tsend = Some (order_size ticks 1 tsend, mem)" "length mem = kBufSize" by blast
    with Suc.IH [OF o(2)] show ?case by (simp add: write_closure_same [OF Suc.prems])
  qed simp
  from this [OF assms, of 0] show ?thesis by (simp add: BM_WriteNewOrder_Closure_def BM_WriteNewOrder_def)
qed

section \<open>The pools of timestamps\<close>

lemma print_padded_low: "0 < k \<Longrightarrow> n < 10 ^ k \<Longrightarrow> print_padded k n = low_digits k n"
proof (induction k arbitrary: n)
  case (Suc k)
  show ?case
  proof (cases "n < 10")
    case True
    have zero: "low_digits k 0 = replicate k ZERO_CH" for k
      by (induction k) (simp_all add: replicate_append_same)
    have "dec_digits n = [of_nat (48 + n)]" using True by (subst dec_digits.simps) simp
    with True zero show ?thesis by (simp add: print_padded_def)
  next
    case False
    then have "0 < k" using Suc.prems by (cases k) auto
    moreover have "n div 10 < 10 ^ k" using Suc.prems(2) by auto
    ultimately have "print_padded k (n div 10) = low_digits k (n div 10)" by (rule Suc.IH)
    moreover have "dec_digits n = dec_digits (n div 10) @ [of_nat (48 + n mod 10)]"
      using False by (subst dec_digits.simps) simp
    ultimately show ?thesis by (simp add: print_padded_def)
  qed
qed simp

text \<open>Every text of the pools is a timestamp that its parser accepts.\<close>

lemma pool_text_eq: "pool_text i =
    ymd_digits (2000 + i * 13 mod 99) (1 + i * 7 mod 12) (1 + i * 11 mod 28) @ [MINUS_CH] @
    hms_digits (i * 5 mod 24) (i * 17 mod 60) (i * 31 mod 60) @ [DOT_CH]"
proof -
  have "2000 + i * 13 mod 99 < 10 ^ 4" "1 + i * 7 mod 12 < 10 ^ 2" "1 + i * 11 mod 28 < 10 ^ 2" "i * 5 mod 24 < 10 ^ 2"
    "i * 17 mod 60 < 10 ^ 2" "i * 31 mod 60 < 10 ^ 2"
    using mod_less_divisor [of 99 "i * 13"] mod_less_divisor [of 12 "i * 7"] mod_less_divisor [of 28 "i * 11"]
      mod_less_divisor [of 24 "i * 5"] mod_less_divisor [of 60 "i * 17"] mod_less_divisor [of 60 "i * 31"] by simp_all
  then show ?thesis by (simp add: pool_text_def Let_def print_padded_low)
qed

lemma pool_parts_ok:
  assumes "a < 99" "b < 12" "c < 28" "h < 24" "m < 60" "s < 60"
  shows "parts_ok (2000 + a) (1 + b) (1 + c) h m s"
  using assms month_length_le(1) [of "int (2000 + a)" "int (1 + b)"] by (simp add: parts_ok_def is_date_def)

lemma pool_parts: "parts_ok (2000 + i * 13 mod 99) (1 + i * 7 mod 12) (1 + i * 11 mod 28) (i * 5 mod 24) (i * 17 mod 60) (i * 31 mod 60)"
  by (rule pool_parts_ok) simp_all

lemma millis_pool:
  assumes "s \<in> set make_timestamp_pool_millis"
  shows "length s = 21 \<and> (\<exists>tp. atotimepoint s = Some (Some tp))"
proof -
  from assms obtain i where s: "s = take 31 (pool_text i @ print_padded 3 (i * 137 mod 1000))"
    by (auto simp: make_timestamp_pool_millis_def)
  have "i * 137 mod 1000 < 10 ^ 3" by simp
  then have "s = take 31 (pool_text i @ low_digits 3 (i * 137 mod 1000))" unfolding s by (simp only: print_padded_low)
  then have "s = ymd_digits (2000 + i * 13 mod 99) (1 + i * 7 mod 12) (1 + i * 11 mod 28) @ [MINUS_CH] @
      hms_digits (i * 5 mod 24) (i * 17 mod 60) (i * 31 mod 60) @ [DOT_CH] @ low_digits 3 (i * 137 mod 1000)"
    unfolding pool_text_eq by simp
  with atotimepoint_text [OF pool_parts [of i], of "i * 137 mod 1000"] show ?thesis by simp
qed

lemma nanos_pool:
  assumes "s \<in> set make_timestamp_pool_nanos"
  shows "length s = 27 \<and> (\<exists>tp. atotimepoint_nano s = Some (Some tp))"
proof -
  define ns where "ns i = unat ((of_nat i :: u64) * 0x9E3779B97F4A7C15 mod 1000000000)" for i :: nat
  from assms obtain i where s: "s = take 39 (pool_text i @ print_padded 9 (ns i))"
    by (auto simp: make_timestamp_pool_nanos_def ns_def)
  have n: "ns i < 1000000000" by (simp add: ns_def unat_mod)
  then have "ns i < 10 ^ 9" by simp
  then have "s = take 39 (pool_text i @ low_digits 9 (ns i))" unfolding s by (simp only: print_padded_low)
  then have "s = ymd_digits (2000 + i * 13 mod 99) (1 + i * 7 mod 12) (1 + i * 11 mod 28) @ [MINUS_CH] @
      hms_digits (i * 5 mod 24) (i * 17 mod 60) (i * 31 mod 60) @ [DOT_CH] @ low_digits 9 (ns i)"
    unfolding pool_text_eq by simp
  with atotimepoint_nano_text [OF pool_parts [of i] n] show ?thesis by simp
qed

lemma parse_pool_result:
  assumes pool: "\<And>s. s \<in> set pool \<Longrightarrow> length s = k \<and> (\<exists>tp. parser s = Some (Some tp))" and ne: "pool \<noteq> []"
  shows "\<exists>tps. parse_pool parser pool n = Some (n * k, tps) \<and> length tps = n \<and> None \<notin> set tps"
proof -
  let ?body = "\<lambda>(i, total, tps). do {
    let s = pool ! (i mod length pool); tp \<leftarrow> parser s; Some (i + 1, total + length s, tps @ [tp]) }"
  have "\<exists>i' more. iterations n ?body (i, total, tps) = Some (i', total + n * k, tps @ more) \<and> length more = n \<and> None \<notin> set more"
    for i total tps
  proof (induction n arbitrary: i total tps)
    case 0
    show ?case by simp
  next
    case (Suc n)
    let ?s = "pool ! (i mod length pool)"
    have "?s \<in> set pool" using ne by simp
    with pool obtain tp where s: "length ?s = k" "parser ?s = Some (Some tp)" by blast
    with Suc [of "i + 1" "total + k" "tps @ [Some tp]"] show ?case by (auto simp: Let_def algebra_simps)
  qed
  from this [of 0 0 "[]"] show ?thesis by (auto simp: parse_pool_def)
qed

lemma parse_timestamps:
  "\<exists>tps. BM_ParseTimestampMillis n = Some (n * 21, tps) \<and> length tps = n \<and> None \<notin> set tps"
  "\<exists>tps. BM_ParseTimestampNanos n = Some (n * 27, tps) \<and> length tps = n \<and> None \<notin> set tps"
proof -
  have ne: "make_timestamp_pool_millis \<noteq> []" "make_timestamp_pool_nanos \<noteq> []"
    by (simp_all add: make_timestamp_pool_millis_def make_timestamp_pool_nanos_def kBenchTimestampPool_def del: upt_Suc)
  show "\<exists>tps. BM_ParseTimestampMillis n = Some (n * 21, tps) \<and> length tps = n \<and> None \<notin> set tps"
    unfolding BM_ParseTimestampMillis_def by (rule parse_pool_result [OF millis_pool ne(1)])
  show "\<exists>tps. BM_ParseTimestampNanos n = Some (n * 27, tps) \<and> length tps = n \<and> None \<notin> set tps"
    unfolding BM_ParseTimestampNanos_def by (rule parse_pool_result [OF nanos_pool ne(2)])
qed

end
