(* ===== verification/Benchmark_Variants.thy ===== *)
theory Benchmark_Variants
  imports Benchmarks
begin

text \<open>
  The benchmarks of \<open>Benchmarks\<close> side by side: with the index and without it, and by whole data set.
\<close>

section \<open>The tail latencies\<close>

text \<open>With or without the index, a sample is taken of the same messages at the same calls of \<open>now()\<close>.\<close>

lemma latency_samples_same:
  assumes rs: "\<forall>r \<in> set rs. framed mem r \<and> (\<exists>vs. find_in_message (hffix ticks) mem tags r = Some vs)"
    and size: "length mem \<le> kMaxIndexableMessageBytes"
  shows "capacity_ok buf \<Longrightarrow> \<exists>buf'. capacity_ok buf' \<and>
    try_each (measured_body ticks tags use_index mem clk) rs (calls, samples, buf) =
      map_option (\<lambda>(calls, samples). (calls, samples, buf'))
        (try_each (\<lambda>r (calls, samples). do {
           vs \<leftarrow> find_in_message (hffix ticks) mem tags r;
           Some (calls + 2, samples @ [word_of_int (clk (calls + 1) - clk calls)])
         }) rs (calls, samples))"
  using rs
proof (induction rs arbitrary: calls samples buf)
  case Nil
  then show ?case by auto
next
  case (Cons r rs)
  from Cons.prems(2) obtain vs where fr: "framed mem r" and vs: "find_in_message (hffix ticks) mem tags r = Some vs" by auto
  have search: "map_option (\<lambda>vs. ()) (find_tags_indexed_hint im tags 0) = Some ()" if "indexes im its" for im its
    using find_tags_indexed_hint_total [OF that, of 0 tags] by auto
  obtain idx b1 where b1: "build_field_index mem r buf = Some (idx, b1)" "capacity_ok b1"
    "map_option (\<lambda>vs. ()) (find_tags_indexed_hint idx tags 0) = Some ()"
    using indexed_step [OF fr Cons.prems(1) size, of "\<lambda>im. map_option (\<lambda>vs. ()) (find_tags_indexed_hint im tags 0)"]
      search by blast
  let ?samples = "samples @ [word_of_int (clk (calls + 1) - clk calls)]"
  from Cons.prems(2) have rest: "\<forall>r \<in> set rs. framed mem r \<and> (\<exists>vs. find_in_message (hffix ticks) mem tags r = Some vs)"
    by simp
  from b1(3) obtain ws where ws: "find_tags_indexed_hint idx tags 0 = Some ws" by auto
  show ?case
  proof (cases use_index)
    case True
    with Cons.IH [OF b1(2) rest, of "calls + 2" ?samples] b1(1) ws vs show ?thesis by (simp add: measured_body_def)
  next
    case False
    with Cons.IH [OF Cons.prems(1) rest, of "calls + 2" ?samples] vs show ?thesis by (simp add: measured_body_def)
  qed
qed

lemma iterations_same:
  "(\<And>s t. R s t \<Longrightarrow> rel_option R (f s) (g t)) \<Longrightarrow> R s t \<Longrightarrow> rel_option R (iterations n f s) (iterations n g t)"
proof (induction n arbitrary: s t)
  case (Suc n)
  from Suc.prems(1) [OF Suc.prems(2)] show ?case
    by (cases "f s"; cases "g t") (auto intro: Suc.IH [OF Suc.prems(1)])
qed simp

lemma rel_option_annotated: "(\<And>y. R (f y) y) \<Longrightarrow> rel_option R (map_option f x) x"
  by (cases x) auto

lemma rel_option_bind: "rel_option R x y \<Longrightarrow> (\<And>s t. R s t \<Longrightarrow> f s = g t) \<Longrightarrow> Option.bind x f = Option.bind y g"
  by (cases x; cases y) auto

lemma tail_latency_same:
  assumes size: "length ds \<le> kMaxIndexableMessageBytes" and buf: "capacity_ok buf"
  shows "BM_Parse_TailLatency ticks tags use_index n ds clk buf = BM_Parse_TailLatency_Iter (hffix ticks) tags n ds clk"
proof -
  obtain rs tail where rs: "for_each_message ds 0 (length ds) = Some (rs, tail)"
    using for_each_result [of 0 "length ds" ds] by blast
  have "framed ds r" if "r \<in> set rs" for r
    using for_each_result [of 0 "length ds" ds] rs that by (auto simp: shows_readers_def)
  moreover have "\<exists>vs. find_in_message (hffix ticks) ds tags r = Some vs" if "r \<in> set rs" for r
    using this_library.find_in_message_total [of r ds ticks tags] that by (simp add: shown_readers_for_each [OF rs])
  ultimately have ok: "\<forall>r \<in> set rs. framed ds r \<and> (\<exists>vs. find_in_message (hffix ticks) ds tags r = Some vs)" by blast
  let ?R = "\<lambda>(calls, samples, b) (calls', samples'). calls = calls' \<and> samples = samples' \<and> capacity_ok b"
  let ?f = "\<lambda>(calls, samples, idx_buffer).
      parse (hffix ticks) ds (measured_body ticks tags use_index ds clk) (calls, [], idx_buffer)"
  let ?g = "\<lambda>(calls, samples). parse (hffix ticks) ds (\<lambda>r (calls, samples). do {
      vs \<leftarrow> find_in_message (hffix ticks) ds tags r;
      Some (calls + 2, samples @ [word_of_int (clk (calls + 1) - clk calls)])
    }) (calls, [])"
  have step: "rel_option ?R (?f s) (?g t)" if R: "?R s t" for s t
  proof -
    obtain calls samples b where s: "s = (calls, samples, b)" "t = (calls, samples)" "capacity_ok b"
      using R by (cases s; cases t) auto
    from latency_samples_same [OF ok size s(3), of use_index clk calls "[]"] obtain b' where
      "capacity_ok b'" "?f s = map_option (\<lambda>(calls, samples). (calls, samples, b')) (?g t)"
      unfolding s prod.case this_library.parse_eq shown_readers_for_each [OF rs] by blast
    then show ?thesis by (simp only:) (rule rel_option_annotated, simp split: prod.split)
  qed
  have first: "?R (0, [], buf) (0, [])" unfolding prod.case using buf by blast
  have "rel_option ?R (iterations n ?f (0, [], buf)) (iterations n ?g (0, []))"
    by (rule iterations_same [where R = ?R, OF step first])
  then show ?thesis
    unfolding BM_Parse_TailLatency_def BM_Parse_TailLatency_Iter_def
    by (rule rel_option_bind) (auto split: prod.splits)
qed

section \<open>The order with nanoseconds\<close>

definition nano_time :: "u32 \<Rightarrow> u64 \<Rightarrow> writer_op" where
  "nano_time tag epoch_nanos = (case timepointtoparts_nano 1000000000 (sint epoch_nanos) of
     (year, month, day, hour, minute, second, nanosecond) \<Rightarrow>
       Timestamp_nano tag year month day hour minute second nanosecond)"

lemma nano_time [simp]:
  "run_op (nano_time tag k) w = push_back_timestamp_epoch_nanos tag k w"
  "op_field (nano_time tag k) = Plain tag (nanos_text (sint k))"
  "op_need (nano_time tag k) = 40"
  "op_clean (nano_time tag k) \<longleftrightarrow> \<not> is_tag_a_data_length tag"
  by (simp_all add: nano_time_def push_back_timestamp_epoch_nanos_def push_back_timestamp_nano_tp_def nanos_text_def
      split: prod.splits)

definition nano_order_ops :: "32 word \<Rightarrow> u64 \<Rightarrow> writer_op list" where
  "nano_order_ops seq k = [Str 49 (lit ''AAAA''), Str 56 (lit ''BBBB''), Int32 34 seq, nano_time 52 k,
     Str 11 (lit ''A1''), Chr 21 49, Str 55 (lit ''OIH''), Chr 54 49, nano_time 60 k,
     Int32 38 100, Chr 40 50, Dec32 44 50001 (- 2), Chr 59 49]"

lemma write_nano_order_ops:
  "write_new_order_epoch_nanos buffer seq k =
     map_option (\<lambda>(ok, w). (writer_message_end w, w_buffer w))
       (write_message (lit ''FIXT.1.1'') (Str 35 (lit ''D'') # nano_order_ops seq k) buffer)"
  by (simp add: write_new_order_epoch_nanos_def nano_order_ops_def write_message_def map_conv_bind_option comp_def split_def)

lemma nano_order_written:
  assumes "length buffer = kBufSize"
  shows "\<exists>mem r. write_new_order_epoch_nanos buffer seq k = Some (small_size (nano_order_ops seq k), mem) \<and>
    length mem = kBufSize \<and> message_reader mem 0 (small_size (nano_order_ops seq k)) = Some r \<and> framed mem r \<and>
    reads_as mem r (lit ''FIXT.1.1'') (wire_fields (map op_field (Str 35 (lit ''D'') # nano_order_ops seq k)))"
proof -
  have "\<forall>x \<in> set (nano_order_ops seq k). op_clean x"
    by (simp add: nano_order_ops_def price_text max_ascii_chars_int_def is_tag_a_data_length_iff length_fields_def
        lit_def of_char_def)
  moreover have "sum_list (map op_need (Str 35 (lit ''D'') # nano_order_ops seq k)) \<le> 400"
    by (simp add: nano_order_ops_def max_ascii_chars_int_def)
  ultimately obtain w r where
    w: "write_message (lit ''FIXT.1.1'') (Str 35 (lit ''D'') # nano_order_ops seq k) buffer = Some (True, w)"
      "writer_message_end w = small_size (nano_order_ops seq k)"
    and r: "length (w_buffer w) = kBufSize" "message_reader (w_buffer w) 0 (small_size (nano_order_ops seq k)) = Some r"
      "framed (w_buffer w) r"
      "reads_as (w_buffer w) r (lit ''FIXT.1.1'') (wire_fields (map op_field (Str 35 (lit ''D'') # nano_order_ops seq k)))"
    using small_message_read [OF assms] by blast
  have "write_new_order_epoch_nanos buffer seq k = Some (small_size (nano_order_ops seq k), w_buffer w)"
    unfolding write_nano_order_ops w by (simp add: w(2))
  with r show ?thesis by blast
qed

lemma nano_order_loop:
  assumes "length buffer = kBufSize"
  shows "\<exists>buffer'. BM_WriteNewOrder_EpochNanos n k buffer = Some (n * small_size (nano_order_ops 1 k), buffer') \<and>
    length buffer' = kBufSize"
proof -
  have "\<exists>b'. BM_WriteNewOrder_EpochNanos n k buffer = Some (0 + n * small_size (nano_order_ops 1 k), b') \<and>
      length b' = kBufSize"
    unfolding BM_WriteNewOrder_EpochNanos_def
  proof (rule iterations_total_by [where I = "\<lambda>b. length b = kBufSize"])
    fix a b assume b: "length (b :: byte list) = kBufSize"
    from nano_order_written [OF b, of 1 k] obtain mem where
      "write_new_order_epoch_nanos b 1 k = Some (small_size (nano_order_ops 1 k), mem)" "length mem = kBufSize" by blast
    then show "\<exists>b'. (case (a, b) of (k0, buffer) \<Rightarrow> do {
        (len, buffer) \<leftarrow> write_new_order_epoch_nanos buffer 1 k;
        Some (k0 + len, buffer) }) = Some (a + small_size (nano_order_ops 1 k), b') \<and> length b' = kBufSize" by simp
  qed (fact assms)
  then show ?thesis by simp
qed

section \<open>Many searches in one message\<close>

lemma first_searches_agree:
  assumes fr: "framed mem r" and im: "indexes im (message_fields mem r)"
  shows "\<exists>vs ws. find_tags_first mem r tags = Some vs \<and> find_tags_indexed im tags = Some ws \<and>
    vs = map (indexed_bytes mem) ws"
proof (induction tags)
  case Nil
  show ?case by (simp add: find_tags_first_def find_tags_indexed_def)
next
  case (Cons tag tags)
  have v: "message_fields mem r \<noteq> []" "reader_begin r = Some (message_fields mem r ! 0)"
    using visit_message_fields [OF fr] framed_bounds [OF fr] by (auto simp: reader_begin_def hd_conv_nth)
  from hint_step [OF fr im, of 0 tag 0] v(1) obtain found it h' w x where
    s: "reader_find_with_hint mem r tag (message_fields mem r ! 0) = Some (found, it)"
      "indexed_find_with_hint im tag 0 = Some (w, h')" "found_value (hffix 0) mem found it = Some x"
      "indexed_bytes mem w = x" by auto
  from Cons.IH obtain vs ws where "find_tags_first mem r tags = Some vs" "find_tags_indexed im tags = Some ws"
    "vs = map (indexed_bytes mem) ws" by blast
  moreover have "do { it \<leftarrow> reader_begin r;
      (found, it) \<leftarrow> reader_find_with_hint mem r tag it;
      if found then map_option Some (value_bytes mem (f_value (it_current it))) else Some None } = Some x"
    using s v(2) by (cases found) (auto simp: found_value_def)
  ultimately show ?case using s(2,4) by (simp add: find_tags_first_def find_tags_indexed_def)
qed

lemma find_tags_first_total:
  assumes fr: "framed mem r"
  shows "\<exists>vs. find_tags_first mem r tags = Some vs"
  unfolding find_tags_first_def
proof (rule those_map_total)
  fix tag
  let ?it = "hd (message_fields mem r)"
  have v: "?it \<in> set (message_fields mem r)" "reader_begin r = Some ?it"
    using visit_message_fields [OF fr] framed_bounds [OF fr] hd_in_set [of "message_fields mem r"]
    by (auto simp: reader_begin_def)
  from search_message [OF fr v(1), of tag] obtain found it where
    s: "reader_find_with_hint mem r tag ?it = Some (found, it)" "it \<in> set (message_fields mem r)" by blast
  from framed_value [OF fr] visit_message_fields [OF fr] s(2) obtain bs where
    "value_bytes mem (f_value (it_current it)) = Some bs" by blast
  with s v(2) show "\<exists>y. do { it \<leftarrow> reader_begin r;
      (found, it) \<leftarrow> reader_find_with_hint mem r tag it;
      if found then map_option Some (value_bytes mem (f_value (it_current it))) else Some None } = Some y" by simp
qed

text \<open>A loop of lookups stays in its table exactly when it is not longer than the table.\<close>

lemma first_tags_iff: "first_tags tags n = (if n \<le> length tags then Some (take n tags) else None)"
proof (cases "n \<le> length tags")
  case True
  have "map (elem_at tags) [0..<n] = map Some (take n tags)"
    using True by (intro nth_equalityI) (simp_all add: elem_at_def)
  then show ?thesis using True by (simp add: first_tags_def those_Some_iff)
next
  case False
  then have "None \<in> set (map (elem_at tags) [0..<n])" by (force simp: elem_at_def)
  then have "map (elem_at tags) [0..<n] \<noteq> map Some ys" for ys by (metis ex_map_conv option.distinct(1) list.set_map imageE)
  then have "first_tags tags n \<noteq> Some ys" for ys by (simp only: first_tags_def those_Some_iff not_False_eq_True)
  then show ?thesis using False by (cases "first_tags tags n") auto
qed

lemma find_many_fields:
  assumes buf: "length buffer = kBufSize" and idx: "buffer_ok idx_buffer" and k: "k \<le> length kSingleMsgTags"
  shows "BM_FindManyFields_Iterator ticks k n tsend buffer = Some (n * order_size ticks 1 tsend) \<and>
    (\<exists>idx_buffer'. BM_FindManyFields_Indexed ticks k n tsend buffer idx_buffer =
       Some (n * order_size ticks 1 tsend, idx_buffer'))"
proof
  let ?L = "order_size ticks 1 tsend" and ?tags = "take k kSingleMsgTags"
  from order_written [OF buf, of ticks 1 tsend] obtain mem r where
    o: "write_new_order (hffix ticks) buffer 1 tsend = Some (?L, mem)" "length mem = kBufSize"
      "message_reader mem 0 ?L = Some r" "framed mem r" by blast
  have valid: "r_valid r" using framed_bounds [OF o(4)] by simp
  have size: "it_message_end (r_end r) \<le> r_buffer r + kMaxIndexableMessageBytes"
    using framed_bounds [OF o(4)] o(2) by (simp add: kBufSize_def kMaxIndexableMessageBytes_def)
  note visit = conjunct1 [OF visit_message_fields [OF o(4)]]
  have tags: "first_tags kSingleMsgTags k = Some ?tags" using k by (simp add: first_tags_iff)
  obtain vs where "find_tags_first mem r ?tags = Some vs" using find_tags_first_total [OF o(4)] by blast
  then show "BM_FindManyFields_Iterator ticks k n tsend buffer = Some (n * ?L)"
    unfolding BM_FindManyFields_Iterator_def o(1) tags
    by (simp add: o(3) valid iterations_add [where x = ?L])
  have "\<exists>b'. BM_FindManyFields_Indexed ticks k n tsend buffer idx_buffer = Some (0 + n * ?L, b') \<and> buffer_ok b'"
    unfolding BM_FindManyFields_Indexed_def o(1) tags Option.bind.bind_lunit prod.case
  proof (rule iterations_total_by [where I = buffer_ok])
    fix a b assume b: "buffer_ok b"
    from build_index_result [OF o(4) b size visit] obtain im b' where
      i: "build_field_index mem r b = Some (im, b')" "indexes im (take (length (ib_tags b)) (message_fields mem r))" by blast
    from find_tags_indexed_total [OF i(2), of ?tags] obtain ws where "find_tags_indexed im ?tags = Some ws" by blast
    moreover have "buffer_ok b'" using build_field_index_buffer [OF i(1)] b by simp
    ultimately show "\<exists>b'. (case (a, b) of (k0, idx_buffer) \<Rightarrow> do {
        r \<leftarrow> message_reader mem 0 ?L;
        if \<not> r_valid r then Some (k0, idx_buffer)
        else do {
          (idx, idx_buffer) \<leftarrow> build_field_index mem r idx_buffer;
          vs \<leftarrow> find_tags_indexed idx ?tags;
          Some (k0 + ?L, idx_buffer)
        } }) = Some (a + ?L, b') \<and> buffer_ok b'" using i(1) by (simp add: o(3) valid)
  qed (fact idx)
  then show "\<exists>idx_buffer'. BM_FindManyFields_Indexed ticks k n tsend buffer idx_buffer = Some (n * ?L, idx_buffer')" by auto
qed

lemma find_many_fields_iterator:
  "length buffer = kBufSize \<Longrightarrow> k \<le> length kSingleMsgTags \<Longrightarrow>
     BM_FindManyFields_Iterator ticks k n tsend buffer = Some (n * order_size ticks 1 tsend)"
  using find_many_fields [of buffer "\<lparr>ib_tags = [], ib_pos_len = []\<rparr>"] by simp

section \<open>The variants on a data set\<close>

definition all_indexable :: "byte list \<Rightarrow> reader list \<Rightarrow> bool" where
  "all_indexable ds rs \<longleftrightarrow> (\<forall>r \<in> set rs. length (message_fields ds r) \<le> kFieldIndexCapacity)"

lemma indexed_searches_result:
  assumes "for_each_message ds 0 (length ds) = Some (rs, tail)" "length ds \<le> kMaxIndexableMessageBytes" "capacity_ok buf"
    "\<And>im its. indexes im its \<Longrightarrow> \<exists>ws. search im = Some ws"
  shows "\<exists>buf'. indexed_benchmark (\<lambda>idx. map_option (\<lambda>vs. ()) (search idx)) (Suc n) ds buf =
    Some (if all_indexable ds rs then Inr (Suc n * length ds, Suc n * length rs, buf') else Inl Skip_With_Error_Index)"
proof -
  have "map_option (\<lambda>vs. ()) (search im) = Some ()" if "indexes im its" for im its
    using assms(4) [OF that] by auto
  from indexed_benchmark_result [where search = "\<lambda>idx. map_option (\<lambda>vs. ()) (search idx)", OF assms(1,2) this assms(3)]
  show ?thesis by (simp only: all_indexable_def)
qed

text \<open>Every benchmark that builds an index, whatever it then searches for.\<close>

lemma indexed_benchmarks:
  fixes n :: nat
  assumes "for_each_message ds 0 (length ds) = Some (rs, tail)" "length ds \<le> kMaxIndexableMessageBytes" "capacity_ok buf"
  defines "res buf' \<equiv>
    Some (if all_indexable ds rs then Inr (Suc n * length ds, Suc n * length rs, buf') else Inl Skip_With_Error_Index)"
  shows "\<exists>buf'. BM_Parse_FindTagsIndexed_Hint tags (Suc n) ds buf = res buf'"
    and "\<exists>buf'. BM_Parse_FindTagsIndexed tags (Suc n) ds buf = res buf'"
    and "k \<le> length kWideTags \<Longrightarrow> \<exists>buf'. BM_Parse_FindN_Indexed k (Suc n) ds buf = res buf'"
    and "\<exists>buf'. BM_Parse_BuildFieldIndex (Suc n) ds buf = res buf'"
proof -
  note result = indexed_searches_result [OF assms(1-3), of _ n, folded res_def]
  show "\<exists>buf'. BM_Parse_FindTagsIndexed_Hint tags (Suc n) ds buf = res buf'"
    unfolding BM_Parse_FindTagsIndexed_Hint_def
    by (rule result) (rule find_tags_indexed_hint_total, assumption, simp)
  show "\<exists>buf'. BM_Parse_FindTagsIndexed tags (Suc n) ds buf = res buf'"
    unfolding BM_Parse_FindTagsIndexed_def by (rule result) (rule find_tags_indexed_total)
  show "\<exists>buf'. BM_Parse_FindN_Indexed k (Suc n) ds buf = res buf'" if "k \<le> length kWideTags"
    unfolding BM_Parse_FindN_Indexed_def
    by (rule result) (use that in \<open>simp add: first_tags_iff find_tags_indexed_total\<close>)
  show "\<exists>buf'. BM_Parse_BuildFieldIndex (Suc n) ds buf = res buf'"
    using result [of "\<lambda>idx. Some ()"] by (simp add: BM_Parse_BuildFieldIndex_def)
qed

lemma find_n_iter:
  "k \<le> length kWideTags \<Longrightarrow> BM_Parse_FindN_Iter ticks k n ds = BM_Parse_FindTags (hffix ticks) (take k kWideTags) n ds"
  by (simp add: BM_Parse_FindN_Iter_def BM_Parse_FindTags_def first_tags_iff)

text \<open>What the variants find in a message of the data set.\<close>

lemma variants_find_same:
  assumes fr: "framed ds r" and size: "length ds \<le> kMaxIndexableMessageBytes" and buf: "capacity_ok buf"
  shows "(\<exists>gs. group_access_sugared ds r = Some gs \<and> group_access_manual ds r = Some gs) \<and>
    (length (message_fields ds r) \<le> kFieldIndexCapacity \<longrightarrow> (\<exists>idx buf' vs ws.
       build_field_index ds r buf = Some (idx, buf') \<and> find_in_message (hffix ticks) ds tags r = Some vs \<and>
       find_tags_indexed_hint idx tags 0 = Some ws \<and> vs = map (indexed_bytes ds) ws))"
  using group_access_total [OF fr] group_access_same [of r ds] framed_bounds [OF fr]
    searches_agree [OF fr _ _ size, of buf ticks tags] buf by (auto simp: capacity_ok_def)

end
