(* ===== verification/Assertions.thy ===== *)
theory Assertions
  imports Batch
begin

text \<open>
  \<open>HFFIX_ASSERT\<close>. In a build without \<open>NDEBUG\<close>, and in the programs that include
  \<open>assert_override.hpp\<close>, a failed assertion stops the program: the value \<open>None\<close> of the operations in
  \<open>Message_Reader\<close> and \<open>Batch\<close>. With \<open>NDEBUG\<close> it adds one to a counter, and the operation goes on:
  here each operation takes the counter and returns it. The two builds agree exactly on the calls
  that do not count.
\<close>

section \<open>The counter\<close>

type_synonym failures = u64

definition assert_override :: "bool \<Rightarrow> unit option" where
  "assert_override cond = (if \<not> cond then None else Some ())"

definition hffix_assert :: "bool \<Rightarrow> failures \<Rightarrow> failures" where
  "hffix_assert cond counter = (if \<not> cond then counter + 1 else counter)"

definition assert_failure_counter :: failures where
  "assert_failure_counter = 0"

definition assert_failure_count :: "failures \<Rightarrow> u64" where
  "assert_failure_count counter = counter"

definition reset_assert_failure_count :: "failures \<Rightarrow> failures" where
  "reset_assert_failure_count counter = 0"

lemma hffix_assert_same [simp]: "hffix_assert cond counter = counter \<longleftrightarrow> cond"
  by (simp add: hffix_assert_def)

section \<open>The operations with an assertion\<close>

text \<open>
  An operation that goes on to compute with a null pointer is undefined, as \<open>None\<close>.
\<close>

definition begin_ndebug :: "reader \<Rightarrow> failures \<Rightarrow> iter \<times> failures" where
  "begin_ndebug r counter = (let counter = hffix_assert (r_valid r) counter in (r_begin r, counter))"

definition end_ndebug :: "reader \<Rightarrow> failures \<Rightarrow> iter \<times> failures" where
  "end_ndebug r counter = (let counter = hffix_assert (r_valid r) counter in (r_end r, counter))"

definition message_type_ndebug :: "reader \<Rightarrow> failures \<Rightarrow> iter \<times> failures" where
  "message_type_ndebug r counter = (let counter = hffix_assert (r_valid r) counter in (r_begin r, counter))"

definition check_sum_ndebug :: "reader \<Rightarrow> failures \<Rightarrow> iter \<times> failures" where
  "check_sum_ndebug r counter = (let counter = hffix_assert (r_valid r) counter in (r_end r, counter))"

definition iter_plus_ndebug :: "byte list \<Rightarrow> iter \<Rightarrow> int \<Rightarrow> failures \<Rightarrow> (iter \<times> failures) option" where
  "iter_plus_ndebug mem a addend counter = do {
     let counter = hffix_assert (0 \<le> addend) counter;
     a \<leftarrow> advance mem (nat addend) a;
     Some (a, counter)
   }"

definition message_end_ndebug :: "reader \<Rightarrow> failures \<Rightarrow> (ptr \<times> failures) option" where
  "message_end_ndebug r counter =
     (let counter = hffix_assert (r_valid r) counter;
          e = fv_end (f_value (it_current (r_end r)))
      in if e = null then None else Some (e + 1, counter))"

definition message_size_ndebug :: "reader \<Rightarrow> failures \<Rightarrow> (nat \<times> failures) option" where
  "message_size_ndebug r counter =
     (let counter = hffix_assert (r_valid r) counter;
          e = fv_end (f_value (it_current (r_end r)))
      in if e = null then None else Some (e - r_buffer r + 1, counter))"

definition calculate_check_sum_ndebug :: "byte list \<Rightarrow> reader \<Rightarrow> failures \<Rightarrow> (byte \<times> failures) option" where
  "calculate_check_sum_ndebug mem r counter = do {
     let counter = hffix_assert (r_valid r) counter;
     bs \<leftarrow> check_sum_range mem r;
     Some (checksum_bytes 0 bs, counter)
   }"

definition next_message_reader_ndebug :: "byte list \<Rightarrow> reader \<Rightarrow> failures \<Rightarrow> (reader \<times> failures) option" where
  "next_message_reader_ndebug mem r counter = do {
     let counter = hffix_assert (r_complete r) counter;
     r \<leftarrow> (if \<not> r_valid r then
        (if r_buffer_end r - r_buffer r < 10
         then message_reader mem (r_buffer_end r) (r_buffer_end r)
         else do {
           b \<leftarrow> resync mem (r_buffer_end r) (r_buffer r + 1);
           message_reader mem b (r_buffer_end r)
         })
       else
         let e = fv_end (f_value (it_current (r_end r)))
         in if e = null then None else message_reader mem (e + 1) (r_buffer_end r));
     Some (r, counter)
   }"

definition range_increment_ndebug :: "byte list \<Rightarrow> reader \<Rightarrow> failures \<Rightarrow> (reader \<times> failures) option" where
  "range_increment_ndebug mem r counter = do {
     let counter = hffix_assert (r_complete r) counter;
     (r, counter) \<leftarrow> next_message_reader_ndebug mem r counter;
     r \<leftarrow> skip_invalid mem r;
     Some (r, counter)
   }"

section \<open>The builds agree on the calls that do not count\<close>

lemma access_agree:
  "begin_ndebug r counter = (i, counter) \<longleftrightarrow> reader_begin r = Some i"
  "end_ndebug r counter = (i, counter) \<longleftrightarrow> reader_end r = Some i"
  "message_type_ndebug r counter = (i, counter) \<longleftrightarrow> message_type r = Some i"
  "check_sum_ndebug r counter = (i, counter) \<longleftrightarrow> check_sum r = Some i"
  by (auto simp: begin_ndebug_def end_ndebug_def message_type_ndebug_def check_sum_ndebug_def reader_begin_def
      reader_end_def message_type_def check_sum_def)

lemma iter_plus_agree:
  "iter_plus_ndebug mem a addend counter = Some (i, counter) \<longleftrightarrow> iter_plus mem a addend = Some i"
  by (auto simp: iter_plus_ndebug_def iter_plus_def bind_eq_Some_conv)

lemma extent_agree:
  "message_end_ndebug r counter = Some (p, counter) \<longleftrightarrow> message_end r = Some p"
  "message_size_ndebug r counter = Some (n, counter) \<longleftrightarrow> message_size r = Some n"
  by (auto simp: message_end_ndebug_def message_end_def message_size_ndebug_def message_size_def Let_def)

lemma check_sum_agree:
  "calculate_check_sum_ndebug mem r counter = Some (c, counter) \<longleftrightarrow> calculate_check_sum mem r = Some c"
  by (auto simp: calculate_check_sum_ndebug_def calculate_check_sum_def bind_eq_Some_conv)

lemma next_reader_agree:
  assumes "constructed mem r"
  shows "next_message_reader_ndebug mem r counter = Some (s, counter) \<longleftrightarrow> next_message_reader mem r = Some s"
  using assms
proof (cases rule: constructed_cases)
  case frame
  then have "fv_end (f_value (it_current (r_end r))) \<noteq> null" using framed_bounds [of mem r] by simp
  with frame show ?thesis
    by (auto simp: next_message_reader_ndebug_def next_message_reader_def Let_def hffix_assert_def bind_eq_Some_conv)
next
  case incomplete
  then show ?thesis
    by (auto simp: next_message_reader_ndebug_def next_message_reader_def bind_eq_Some_conv)
next
  case invalid
  then show ?thesis
    by (auto simp: next_message_reader_ndebug_def next_message_reader_def hffix_assert_def bind_eq_Some_conv)
qed

lemma range_increment_agree:
  assumes "constructed mem r"
  shows "range_increment_ndebug mem r counter = Some (s, counter) \<longleftrightarrow> range_increment mem r = Some s"
proof (cases "r_complete r")
  case False
  then show ?thesis using assms
    by (auto simp: range_increment_ndebug_def range_increment_def next_message_reader_ndebug_def hffix_assert_def
        bind_eq_Some_conv add.assoc elim: constructed_cases)
next
  case True
  from next_reader [OF assms True] obtain r' where r': "next_message_reader mem r = Some r'" by blast
  then have "next_message_reader_ndebug mem r counter = Some (r', counter)" using next_reader_agree [OF assms] by blast
  with r' True show ?thesis
    by (auto simp: range_increment_ndebug_def range_increment_def hffix_assert_def bind_eq_Some_conv)
qed

text \<open>After a reset, an assertion counts when it fails.\<close>

lemma count_after_reset:
  "assert_failure_count (hffix_assert cond (reset_assert_failure_count counter)) = (if cond then 0 else 1)"
  by (simp add: assert_failure_count_def reset_assert_failure_count_def hffix_assert_def)

end
