(* ===== verification/Writer_Machine.thy ===== *)
theory Writer_Machine
  imports Writer_Runs
begin

text \<open>
  The contract of a \<open>message_writer\<close>, for calls in any order: a machine on texts. Before the header it
  holds the text so far; from the header on, the text up to the BodyLength digits and the text behind
  them; a call that has no room, or that comes in the wrong state, fails, and nothing leads out of that.
  \<open>view\<close> reads the state of the machine off a writer, and every call of the writer is a step of it.
\<close>

section \<open>The machine\<close>

datatype text_state = Failed | Unstarted "byte list" | Started "byte list" "byte list"

fun text_size :: "text_state \<Rightarrow> nat" where
  "text_size Failed = 0"
| "text_size (Unstarted t) = length t"
| "text_size (Started h b) = length h + 7 + length b"

fun add_text :: "byte list \<Rightarrow> text_state \<Rightarrow> text_state" where
  "add_text bs Failed = Failed"
| "add_text bs (Unstarted t) = Unstarted (t @ bs)"
| "add_text bs (Started h b) = Started h (b @ bs)"

text \<open>The bytes the checksum is over: those of the whole message so far.\<close>

definition summed_text :: "byte list \<Rightarrow> byte list \<Rightarrow> byte list" where
  "summed_text h b = h @ low_digits 6 (length b) @ [SOH] @ b"

definition trailer_of :: "bool \<Rightarrow> byte list \<Rightarrow> byte list" where
  "trailer_of cs bs = trailer_text (if cs then low_digits 3 (unat (checksum_bytes 0 bs)) else lit ''000'')"

definition text_op :: "nat \<Rightarrow> writer_op \<Rightarrow> text_state \<Rightarrow> text_state" where
  "text_op n x s =
     (case x of
        Header v \<Rightarrow> (case s of
            Unstarted t \<Rightarrow> if length t + (length v + 12) \<le> n then Started (t @ header_text v) [] else Failed
          | _ \<Rightarrow> Failed)
      | Trailer cs \<Rightarrow> (case s of
            Started h b \<Rightarrow>
              if length b \<le> 999999 \<and> text_size s + 7 \<le> n then Started h (b @ trailer_of cs (summed_text h b)) else Failed
          | _ \<Rightarrow> Failed)
      | _ \<Rightarrow> if text_size s + op_need x \<le> n then add_text (op_text x) s else Failed)"

definition view :: "writer \<Rightarrow> text_state" where
  "view w =
     (if w_error w then Failed
      else case w_body_length w of
        None \<Rightarrow> Unstarted (written w)
      | Some bl \<Rightarrow> Started (take bl (written w)) (drop (bl + 7) (written w)))"

fun call_ok :: "writer_op \<Rightarrow> bool" where
  "call_ok (Header v) \<longleftrightarrow> True"
| "call_ok (Trailer cs) \<longleftrightarrow> True"
| "call_ok x \<longleftrightarrow> is_field_op x"

section \<open>The writer is that machine\<close>

definition machine_inv :: "writer \<Rightarrow> bool" where
  "machine_inv w \<longleftrightarrow> writer_inv w \<and> (\<forall>bl. w_body_length w = Some bl \<longrightarrow> w_buffer w ! (bl + 6) = SOH)"

lemma machine_inv_start: "machine_inv (message_writer buf)" "view (message_writer buf) = Unstarted []"
  by (simp_all add: machine_inv_def message_writer_inv view_def) (simp_all add: message_writer_def written_def)

lemma fail_machine [simp]: "view (fail w) = Failed" "machine_inv (fail w) = machine_inv w" "w_buffer (fail w) = w_buffer w"
  by (simp_all add: view_def machine_inv_def) (simp_all add: fail_def)

lemma view_failed: "view w = Failed \<longleftrightarrow> w_error w"
  by (simp add: view_def split: option.split)

lemma view_size: "machine_inv w \<Longrightarrow> \<not> w_error w \<Longrightarrow> text_size (view w) = w_next w"
  by (auto simp: machine_inv_def writer_inv_def view_def written_def split: option.splits)

lemma put_machine:
  assumes inv: "machine_inv w" and e: "\<not> w_error w" and room: "w_next w + length bs \<le> length (w_buffer w)"
  shows "\<exists>w'. put bs w = Some w' \<and> machine_inv w' \<and> view w' = add_text bs (view w) \<and>
    length (w_buffer w') = length (w_buffer w) \<and> written w' = written w @ bs \<and> w_body_length w' = w_body_length w"
proof -
  from put_ok [OF room] obtain w' where w': "put bs w = Some w'"
    "w_next w' = w_next w + length bs" "length (w_buffer w') = length (w_buffer w)"
    "written w' = written w @ bs" "w_body_length w' = w_body_length w" "w_error w' = w_error w" by blast
  have next_le: "w_next w \<le> length (w_buffer w)" using room by simp
  have keep: "w_buffer w' ! i = w_buffer w ! i" if "i < w_next w" for i
    using w'(1) that next_le by (auto simp: put_def wr_def nth_append split: if_splits)
  have "machine_inv w'"
    using inv w' room keep by (auto simp: machine_inv_def writer_inv_def split: option.splits)
  moreover have "view w' = add_text bs (view w)"
    using inv e w' next_le by (auto simp: machine_inv_def writer_inv_def view_def written_def split: option.splits)
  ultimately show ?thesis using w' by blast
qed

lemma field_machine:
  assumes x: "is_field_op x" and inv: "machine_inv w"
  shows "\<exists>w'. run_op x w = Some w' \<and> machine_inv w' \<and> length (w_buffer w') = length (w_buffer w) \<and>
    view w' = (if text_size (view w) + op_need x \<le> length (w_buffer w) then add_text (op_text x) (view w) else Failed)"
proof -
  note run = run_field_op [OF x, of w]
  consider "w_error w" | "\<not> w_error w" "no_room w (op_need x)" | "\<not> w_error w" "\<not> no_room w (op_need x)" by blast
  then show ?thesis
  proof cases
    case 1
    then have "view w = Failed" by (simp add: view_failed)
    with 1 inv show ?thesis by (simp add: run guarded_put_error)
  next
    case 2
    then have "\<not> text_size (view w) + op_need x \<le> length (w_buffer w)"
      using view_size [OF inv] not_no_room [of w "op_need x"] by simp
    with 2 inv show ?thesis by (simp add: run guarded_put_def)
  next
    case 3
    then have room: "w_next w + op_need x \<le> length (w_buffer w)" by (simp add: not_no_room)
    then have "w_next w + length (op_text x) \<le> length (w_buffer w)" using op_text_fits [OF x] by linarith
    from put_machine [OF inv 3(1) this] 3 room show ?thesis
      by (auto simp: run guarded_put_def view_size [OF inv 3(1)])
  qed
qed

lemma header_machine:
  assumes inv: "machine_inv w"
  shows "\<exists>w'. run_op (Header v) w = Some w' \<and> machine_inv w' \<and> length (w_buffer w') = length (w_buffer w) \<and>
    view w' = text_op (length (w_buffer w)) (Header v) (view w)"
proof -
  consider "w_error w" | "\<not> w_error w" "w_body_length w \<noteq> None"
    | "\<not> w_error w" "w_body_length w = None" "no_room w (length v + 12)"
    | "\<not> w_error w" "w_body_length w = None" "\<not> no_room w (length v + 12)" by blast
  then show ?thesis
  proof cases
    case 1
    with inv show ?thesis by (simp add: push_back_header_def view_def text_op_def)
  next
    case 2
    with inv show ?thesis by (auto simp: push_back_header_def view_def [of w] text_op_def)
  next
    case 3
    moreover have "\<not> length (written w) + (length v + 12) \<le> length (w_buffer w)"
      using 3 inv not_no_room [of w "length v + 12"] by (simp add: machine_inv_def writer_inv_def written_def)
    ultimately show ?thesis using inv
      by (simp add: push_back_header_def view_def [of w] text_op_def algebra_simps)
  next
    case 4
    let ?n = "w_next w + length v + 5"
    let ?w = "w\<lparr>w_buffer := take (w_next w) (w_buffer w) @ header_text v @ drop (w_next w + length (header_text v)) (w_buffer w),
      w_next := ?n + 6, w_body_length := Some ?n\<rparr>"
    have room: "w_next w + (length v + 12) \<le> length (w_buffer w)" using 4(3) by (simp add: not_no_room)
    have eq: "push_back_header v w = put [SOH] ?w" using push_header_eq [OF 4] by (simp add: algebra_simps)
    from put_ok [of ?w "[SOH]"] room obtain w' where w': "put [SOH] ?w = Some w'" "w_next w' = ?n + 7"
      "length (w_buffer w') = length (w_buffer w)" "written w' = written ?w @ [SOH]" "w_body_length w' = Some ?n"
      "w_error w' = w_error w" by auto
    have next_le: "w_next w \<le> length (w_buffer w)" using room by simp
    have len: "length (written ?w) = ?n + 6" using room by (simp add: written_def)
    have "take ?n (written w') = written w @ header_text v"
      using w'(4) len next_le by (simp add: written_def min_def)
    moreover have "drop (?n + 7) (written w') = []" using w'(4) len by simp
    ultimately have "view w' = Started (written w @ header_text v) []" using w'(5,6) 4(1) by (simp add: view_def)
    moreover have "w_buffer w' ! (?n + 6) = SOH"
    proof -
      have "written w' ! (?n + 6) = SOH" using w'(4) len by (simp add: nth_append)
      then show ?thesis using w'(2) by (simp add: written_def)
    qed
    moreover have "text_op (length (w_buffer w)) (Header v) (view w) = Started (written w @ header_text v) []"
      using room 4(1,2) next_le by (simp add: view_def text_op_def written_def)
    ultimately show ?thesis
      using w'(2,3,5) room eq [unfolded w'(1)] by (simp add: machine_inv_def writer_inv_def)
  qed
qed

text \<open>The length is patched into its place; the text behind it stays.\<close>

lemma patched_text:
  assumes "bl + 7 \<le> n" "n \<le> length buf" "buf ! (bl + 6) = SOH"
  shows "take n (take bl buf @ low_digits 6 k @ drop (bl + 6) buf) =
    take bl (take n buf) @ low_digits 6 k @ [SOH] @ drop (bl + 7) (take n buf)"
proof -
  have "drop (bl + 6) buf = SOH # drop (bl + 7) buf"
    using assms Cons_nth_drop_Suc [of "bl + 6" buf] by (simp add: add.commute)
  with assms show ?thesis by (simp add: drop_take min_def take_Cons' add.commute [of 7])
qed

lemma patched_inv:
  assumes inv: "machine_inv w" and bl: "w_body_length w = Some bl"
  shows "machine_inv (w\<lparr>w_buffer := take bl (w_buffer w) @ low_digits 6 k @ drop (bl + 6) (w_buffer w)\<rparr>)"
  using inv bl by (auto simp: machine_inv_def writer_inv_def nth_append)

lemma no_checksum: "lit ''10=000'' = lit ''10='' @ lit ''000''"
  by (simp add: lit_def)

lemma trailer_machine:
  assumes inv: "machine_inv w"
  shows "\<exists>ok w'. push_back_trailer cs w = Some (ok, w') \<and> machine_inv w' \<and> length (w_buffer w') = length (w_buffer w) \<and>
    view w' = text_op (length (w_buffer w)) (Trailer cs) (view w) \<and> (ok \<longleftrightarrow> view w' \<noteq> Failed) \<and>
    (\<forall>h b. ok \<longrightarrow> view w = Started h b \<longrightarrow>
      written w' = summed_text h b @ trailer_of cs (summed_text h b))"
proof (cases "w_error w \<or> w_body_length w = None")
  case True
  then consider "w_error w" | "\<not> w_error w" "w_body_length w = None" by (cases "w_error w") auto
  then show ?thesis
  proof cases
    case 1
    with inv show ?thesis by (auto simp: push_back_trailer_def view_def text_op_def)
  next
    case 2
    with inv show ?thesis by (auto simp: push_back_trailer_def view_def [of w] text_op_def)
  qed
next
  case False
  then obtain bl where bl: "w_body_length w = Some bl" and e: "\<not> w_error w" by auto
  define h where "h = take bl (written w)"
  define b where "b = drop (bl + 7) (written w)"
  let ?n = "length (w_buffer w)"
  have v: "view w = Started h b" using bl e by (simp add: view_def h_def b_def)
  have le: "bl + 7 \<le> w_next w" "w_next w \<le> ?n" "w_buffer w ! (bl + 6) = SOH"
    using inv bl by (simp_all add: machine_inv_def writer_inv_def)
  then have lb: "length b = w_next w - (bl + 7)" "length h = bl" by (simp_all add: written_def h_def b_def)
  let ?len = "int (w_next w) - int (bl + 7)"
  have len: "?len = int (length b)" using le(1) lb(1) by simp
  show ?thesis
  proof (cases "length b \<le> 999999")
    case False
    then have "push_back_trailer cs w = Some (False, fail w)"
      unfolding push_back_trailer_def Let_def bl option.case len using e by simp
    moreover have "text_op ?n (Trailer cs) (view w) = Failed" using False by (simp only: v text_op_def) simp
    ultimately show ?thesis using inv by auto
  next
    case small: True
    let ?mem = "take bl (w_buffer w) @ low_digits 6 (length b) @ drop (bl + 6) (w_buffer w)"
    let ?w = "w\<lparr>w_buffer := ?mem\<rparr>"
    have wr: "wr (w_buffer w) bl (itoa_padded_unchecked ?len 6) = Some ?mem"
      unfolding len using le by (simp add: wr_def itoa_padded_eq)
    have lm: "length ?mem = ?n" using le by simp
    have wrt: "written ?w = summed_text h b"
      using patched_text [OF le] le(1) by (simp add: written_def summed_text_def h_def b_def)
    have size: "text_size (view w) = w_next w" by (rule view_size [OF inv e])
    show ?thesis
    proof (cases "no_room ?w 7")
      case True
      then have "\<not> text_size (view w) + 7 \<le> ?n" using not_no_room [of ?w 7] lm by (simp add: size)
      moreover have "push_back_trailer cs w = Some (False, fail ?w)"
        unfolding push_back_trailer_def Let_def bl option.case len using e small wr [unfolded len] True by simp
      moreover have "machine_inv ?w" by (rule patched_inv [OF inv bl])
      ultimately show ?thesis using lm by (auto simp: v text_op_def)
    next
      case False
      then have room: "w_next ?w + 7 \<le> length (w_buffer ?w)" by (simp add: not_no_room)
      let ?t = "trailer_of cs (summed_text h b)"
      have lt: "length ?t = 7" by (simp add: trailer_of_def trailer_text_def)
      from put_machine [OF patched_inv [OF inv bl, of "length b"], of ?t] room e lt obtain w' where
        w': "put ?t ?w = Some w'" "machine_inv w'" "view w' = add_text ?t (view ?w)" "length (w_buffer w') = ?n"
          "written w' = written ?w @ ?t" using lm by auto
      have "push_back_trailer cs w = Option.bind (put ?t ?w) (\<lambda>w. Some (True, w))"
        unfolding push_back_trailer_def Let_def bl option.case len using e small wr [unfolded len] False wrt
        by (simp add: no_checksum checksum_digits_eq trailer_of_def trailer_text_def put_append3 written_def)
      moreover have "view ?w = Started h b"
        using bl e wrt lb by (simp add: view_def summed_text_def)
      moreover have "text_size (view w) + 7 \<le> ?n" using room lm size by simp
      ultimately show ?thesis using w' small wrt by (auto simp: v text_op_def)
    qed
  qed
qed

text \<open>One call, and any sequence of calls.\<close>

lemma run_op_machine:
  assumes x: "call_ok x" and inv: "machine_inv w"
  shows "\<exists>w'. run_op x w = Some w' \<and> machine_inv w' \<and> length (w_buffer w') = length (w_buffer w) \<and>
    view w' = text_op (length (w_buffer w)) x (view w)"
proof (cases "is_field_op x")
  case True
  then have "text_op (length (w_buffer w)) x (view w) =
      (if text_size (view w) + op_need x \<le> length (w_buffer w) then add_text (op_text x) (view w) else Failed)"
    by (cases x) (simp_all add: text_op_def)
  with field_machine [OF True inv] show ?thesis by simp
next
  case False
  with x consider v where "x = Header v" | cs where "x = Trailer cs" by (cases x) auto
  then show ?thesis
  proof cases
    case 1
    with header_machine [OF inv] show ?thesis by simp
  next
    case 2
    from trailer_machine [OF inv, of cs] obtain ok w' where "push_back_trailer cs w = Some (ok, w')" "machine_inv w'"
      "length (w_buffer w') = length (w_buffer w)" "view w' = text_op (length (w_buffer w)) (Trailer cs) (view w)" by blast
    with 2 show ?thesis by simp
  qed
qed

lemma run_ops_machine:
  "\<forall>x \<in> set xs. call_ok x \<Longrightarrow> machine_inv w \<Longrightarrow>
     \<exists>w'. run_ops xs w = Some w' \<and> machine_inv w' \<and> length (w_buffer w') = length (w_buffer w) \<and>
       view w' = fold (text_op (length (w_buffer w))) xs (view w)"
proof (induction xs arbitrary: w)
  case Nil
  then show ?case by simp
next
  case (Cons x xs)
  from run_op_machine [of x w] Cons.prems obtain w1 where
    w1: "run_op x w = Some w1" "machine_inv w1" "length (w_buffer w1) = length (w_buffer w)"
      "view w1 = text_op (length (w_buffer w)) x (view w)" by auto
  from Cons.IH [OF _ w1(2)] Cons.prems(1) show ?case using w1 by auto
qed

text \<open>Nothing leads out of the failed state.\<close>

lemma text_op_failed [simp]: "text_op n x Failed = Failed"
  by (cases x) (simp_all add: text_op_def)

lemma fold_failed [simp]: "fold (text_op n) xs Failed = Failed"
  by (induction xs) simp_all

section \<open>The states that can be reached\<close>

text \<open>\<open>n\<close> is the size of the buffer.\<close>

inductive reachable :: "nat \<Rightarrow> text_state \<Rightarrow> bool" for n where
  start: "reachable n (Unstarted [])"
| early_field: "reachable n (Unstarted t) \<Longrightarrow> is_field_op x \<Longrightarrow> length t + op_need x \<le> n \<Longrightarrow>
    reachable n (Unstarted (t @ op_text x))"
| header: "reachable n (Unstarted t) \<Longrightarrow> length t + (length v + 12) \<le> n \<Longrightarrow> reachable n (Started (t @ header_text v) [])"
| body_field: "reachable n (Started h b) \<Longrightarrow> is_field_op x \<Longrightarrow> length h + 7 + length b + op_need x \<le> n \<Longrightarrow>
    reachable n (Started h (b @ op_text x))"
| trailer: "reachable n (Started h b) \<Longrightarrow> length b \<le> 999999 \<Longrightarrow> length h + 7 + length b + 7 \<le> n \<Longrightarrow>
    reachable n (Started h (b @ trailer_of cs (summed_text h b)))"
| failure: "reachable n s \<Longrightarrow> reachable n Failed"

lemma call_reachable:
  assumes x: "call_ok x" and s: "reachable n s"
  shows "reachable n (text_op n x s)"
proof (cases "is_field_op x")
  case True
  then have "text_op n x s = (if text_size s + op_need x \<le> n then add_text (op_text x) s else Failed)"
    by (cases x) (simp_all add: text_op_def)
  with True s show ?thesis by (cases s) (auto intro: reachable.intros)
next
  case False
  with x s show ?thesis
    by (cases x; cases s) (auto simp: text_op_def intro: reachable.intros split: if_splits)
qed

lemma calls_reachable: "\<forall>x \<in> set xs. call_ok x \<Longrightarrow> reachable n s \<Longrightarrow> reachable n (fold (text_op n) xs s)"
  by (induction xs arbitrary: s) (simp_all add: call_reachable)

text \<open>What is written stays within the buffer, and one header is all that a started message has in front.\<close>

lemma reachable_bounded: "reachable n s \<Longrightarrow> text_size s \<le> n"
proof (induction rule: reachable.induct)
  case (early_field t x)
  then show ?case using op_text_fits [of x] by simp
next
  case (body_field h b x)
  then show ?case using op_text_fits [of x] by simp
qed (simp_all add: trailer_of_def trailer_text_def)

lemma started_header:
  assumes "reachable n (Started h b)"
  shows "\<exists>t v. h = t @ header_text v \<and> reachable n (Unstarted t)"
proof -
  have "\<forall>h b. s = Started h b \<longrightarrow> (\<exists>t v. h = t @ header_text v \<and> reachable n (Unstarted t))" if "reachable n s" for s
    using that by (induction rule: reachable.induct) auto
  with assms show ?thesis by blast
qed

end
