(* ===== verification/Spec2Isabelle.thy ===== *)
theory Spec2Isabelle
  imports Indexed_Message Batch Group_Registry Fuzz_Harness Fixgen Fixprint Spec_Groups Generated_Header
    Benchmark_Variants Assertions Writer_Machine
begin

text \<open>
  A model of hffix, a header-only C++ library that writes and reads FIX protocol messages in the
  caller's memory (\<open>src/include/hffix.hpp\<close> and its generated tables), and of the programs around it.

  \<^bold>\<open>The program and the theories.\<close> A message is \<open>8=version|9=length|35=type|...|10=checksum|\<close> with SOH
  for \<open>|\<close>.
  \<^item> \<open>Fix_Prelude\<close>: bytes as \<open>8 word\<close>, the memory as a list of bytes, pointers as offsets; \<open>rd\<close>,
    \<open>rd_range\<close> and \<open>wr\<close> are the only accesses, and one outside the memory is \<open>None\<close>. \<open>None\<close> is also
    a failed \<open>HFFIX_ASSERT\<close> and a loop that does not return. The elements of the clients' arrays and
    vectors are read with \<open>elem_at\<close>, likewise. Decimal digits and their values.
  \<^item> \<open>Ascii_Numbers\<close> (\<open>details::atoi\<close> to \<open>itoa_padded_unchecked\<close>, on words of any width, with
    wrap-around), \<open>Number_Lemmas\<close>; \<open>Swar\<close> (\<open>parse_two/four/eight_digits\<close>,
    loads of a fixed width that fault behind the bytes they are given).
  \<^item> \<open>Date_Time\<close> (\<open>atodate\<close> to \<open>timepointtoparts_nano\<close>; the \<open>int\<close> and \<open>unsigned\<close> arithmetic with its
    conversions, a time point as an integer count of ticks; the outer option of a parser is the
    fault, the inner one the rejected text) with the calendar it is compared to,
    \<open>Date_Text\<close> for the texts.
  \<^item> \<open>Message_Writer\<close> (\<open>message_writer\<close>: a record of the buffer, the position, the error flag and the
    place of BodyLength), \<open>Writer_Lemmas\<close>, \<open>Writer_Runs\<close> (calls as data, and sequences of them),
    \<open>Writer_Machine\<close> (the machine on texts that the writer refines, for calls in any order). The
    locale \<open>appender\<close> is the contract of every \<open>push_back\<close> operation.
  \<^item> \<open>Length_Tags\<close> (\<open>length_tag_index\<close> over the generated \<open>length_fields\<close>).
  \<^item> \<open>Iteration\<close> (\<open>std::find_if\<close>, \<open>find_with_hint\<close> and the client's loop, as functions that may not
    return, with the locales \<open>keyed_iterator\<close> and \<open>forward_iterator\<close>), \<open>Message_Reader\<close> (the reader,
    its field iterator, resynchronisation), \<open>Reader_Lemmas\<close> (any bytes), \<open>Roundtrip\<close> (bytes that the
    writer wrote), \<open>Message_Stream\<close>, \<open>Batch\<close> (\<open>for_each_message\<close>, \<open>messages\<close>). The field iterator, the
    range iterator and the group iterator are instances of \<open>forward_iterator\<close>.
  \<^item> \<open>Field_Values\<close> (the conversions of \<open>field_value\<close>; the locale \<open>field_codec\<close> ties each to the push
    operation it reads), \<open>Repeating_Groups\<close>, \<open>Indexed_Message\<close>.
  \<^item> \<open>Group_Registry\<close> (the generated registrations of \<open>hffix_groups.hpp\<close> and the compile-time overloads).
  \<^item> The clients: \<open>Fuzz_Harness\<close> (\<open>src/fuzz/fuzz_reader.cpp\<close>, every reading operation on arbitrary bytes),
    \<open>Fixgen\<close> (\<open>src/utils/fixgen\<close>: messages as lists of writer calls, random draws as a parameter),
    \<open>Fixprint\<close> (\<open>src/utils/fixprint\<close>: the chunked read loop over the reader; the dictionary of messages).
  \<^item> \<open>Std_Library\<close> (\<open>std::atol\<close>, \<open>std::map\<close>), \<open>Spec_Loader\<close>, \<open>Spec_Emitter\<close>
    (\<open>src/utils/fixspec-gen-fields\<close>, the program that generates the tables, over an XML library that is a
    parameter), \<open>Spec_Lemmas\<close> and \<open>Spec_Groups\<close> (what it loads and collects).
  \<^item> The generated tables of \<open>hffix_fields.hpp\<close>: \<open>Fix_Types\<close> (the types of fields, and rules that read a
    table off entry by entry), \<open>Tag_Enum_1\<close> to \<open>_4\<close> (the enumerators of \<open>hffix::tag\<close>), \<open>Field_Names_1\<close> to
    \<open>_4\<close> (\<open>dictionary_init_field\<close>), \<open>Generated_Tables\<close> (both whole), \<open>Generated_Header\<close> (the message types,
    and the tables against each other, the generator and the registered groups).
  \<^item> \<open>Upstream_Benchmarks\<close> (\<open>src/upstream-benchmarks\<close>, over a library that is a parameter; the locale
    \<open>message_library\<close> is what its loops rely on), \<open>Benchmark_Runs\<close> (this library as that parameter),
    \<open>Benchmarks\<close> (what \<open>src/benchmarks/benchmarks.cpp\<close> has beyond it: indexes, groups, timestamps),
    \<open>Benchmark_Variants\<close> (its variants against each other).
  \<^item> \<open>Assertions\<close> (\<open>HFFIX_ASSERT\<close> with and without \<open>NDEBUG\<close>, and the counter of failures).

  \<^bold>\<open>What is shown.\<close> The properties are numbered C1, C2, ... in this file. They say that
  the reader never reads, and the writer never stores, outside the caller's memory (with the
  exceptions found); that every loop returns on any input, but for one; that what was written is
  read back, message by message and value by value; that the searches, groups and indexes
  return what a plain list of the fields says; and that the number and date arithmetic is exact.
  The programs: the fuzz target returns on every input, \<open>fixgen\<close> writes streams that are read back,
  \<open>fixprint\<close> prints them whole, and the generator's tables are those the reader needs; the checked-in
  headers are consistent: the dictionaries invert the constants, the length table and the registered
  groups are those of the declared types. The benchmarks return on every data set, their counts are
  those of the batch loop, and the variants that compete, with an index or without, find the same.
  The section ``Where the code and its promises part'' proves the cases in which it is not so.

  \<^bold>\<open>Bounds.\<close> \<open>fixgen\<close> computes \<open>seq * 7\<close> in
  \<open>int\<close>; its overflow is a fault, and what is shown of the program is for at most 306783378
  messages. The exponents that the decimal parsers count are words, so texts of 2^31 digits are not
  considered. BodyLength has six digits, so bodies are below one million bytes; timestamps are those of
  the years 1970 to 2200 that the code accepts; an index covers messages up to 4 GiB. Memory offsets are
  natural numbers: that no object of the caller is larger than the address space is not modelled; nor is
  that the totals and counts of the benchmarks, natural numbers here, are \<open>std::size_t\<close>. The
  end of a reader's prefix, uninitialised in the code until the prefix is scanned, is null in the model;
  nothing reads it before. \<open>fixprint\<close>'s buffer has 1 MiB, more than a message of the writer;
  the components of a specification are followed 32 steps deep, as in the code. No fuel is used: loops are
  total functions with a measure where the code bounds them, and partial functions, proved to return,
  where it does not.

  \<^bold>\<open>Not modelled.\<close> Prefetching and alignment; threads (the counter of failed assertions is atomic in
  the code); the XML parser; \<open>std::ostream\<close> output of a field value;
  the \<open>main\<close> functions of the benchmarks, which hand over to Google Benchmark; the upstream
  header, which is not part of the repository, and Google Benchmark: both are parameters.
\<close>

section \<open>Writing and reading a message\<close>

text \<open>
  C1: What a session with the writer wrote is read back. After a header, a MsgType field and any
  field calls whose tags and texts respect the wire format, a successful trailer leaves a buffer
  on which \<open>basic_message_reader\<close> is complete and valid, has the version as its prefix, shows in
  its loop exactly the fields that were pushed, and whose checksum field is the sum it computes.
\<close>

theorem write_then_read:
  assumes "\<forall>x \<in> set xs. op_clean x" "SOH \<notin> set mt"
    "SOH \<notin> set v" "7 \<le> length v" "length v \<le> 10"
    "write_message v (Str 35 mt # xs) buf = Some (True, w)"
  shows "\<exists>r. message_reader (w_buffer w) 0 (writer_message_end w) = Some r \<and>
    reads_as (w_buffer w) r v (wire_fields (map op_field (Str 35 mt # xs)))"
  using write_read [OF assms] .

definition sample_ops :: "writer_op list" where
  "sample_ops = [Str 35 [48], Int32 34 7, Data 95 96 [1, 61, 1] 0 3, Date 75 2024 2 29]"

lemma sample_written:
  "\<exists>w. write_message (lit ''FIX.4.4'') sample_ops (replicate 256 0) = Some (True, w)"
proof -
  have ok: "\<forall>x \<in> set sample_ops. is_field_op x" by (simp add: sample_ops_def)
  from body_text_bound [OF this] have "length (body_text sample_ops) \<le> 999"
    by (simp add: sample_ops_def max_ascii_chars_int_def)
  with write_message_result [OF ok, of "lit ''FIX.4.4''" "replicate 256 0"] show ?thesis
    by (auto simp: sample_ops_def max_ascii_chars_int_def)
qed

theorem write_then_read_witness:
  "\<exists>w r. write_message (lit ''FIX.4.4'') sample_ops (replicate 256 0) = Some (True, w) \<and>
    message_reader (w_buffer w) 0 (writer_message_end w) = Some r \<and>
    reads_as (w_buffer w) r (lit ''FIX.4.4'') (wire_fields (map op_field sample_ops))"
proof -
  have clean: "\<forall>x \<in> set (tl sample_ops). op_clean x" "SOH \<notin> set (lit ''FIX.4.4'')"
    by (simp_all add: sample_ops_def is_tag_a_data_length_iff length_fields_def lit_def of_char_def)
  obtain w where w: "write_message (lit ''FIX.4.4'') sample_ops (replicate 256 0) = Some (True, w)"
    using sample_written by blast
  have cons: "sample_ops = Str 35 [48] # tl sample_ops" by (simp add: sample_ops_def)
  with w have "write_message (lit ''FIX.4.4'') (Str 35 [48] # tl sample_ops) (replicate 256 0) = Some (True, w)"
    by simp
  from write_then_read [OF clean(1) _ clean(2) _ _ this] w show ?thesis
    unfolding cons [symmetric] by auto
qed

section \<open>A stream of messages\<close>

text \<open>
  C2: Messages packed into one buffer, the last one cut anywhere, as a socket delivers them:
  \<open>for_each_message\<close> visits exactly the complete messages, in their order, each with its version,
  its fields and a matching checksum, and returns the start of the incomplete one.
\<close>

theorem stream_delivered:
  assumes "\<forall>x \<in> set (m # ms). message_ok x" "k < length (message_text m)"
    "mem = concat (map message_text ms) @ take k (message_text m)"
  shows "\<exists>rs. for_each_message mem 0 (length mem) = Some (rs, length (concat (map message_text ms))) \<and>
    list_all2 (reads_message_as mem) rs ms"
  using stream_delivery [OF assms(1,2)] by (simp only: assms(3))

definition sample_message :: wire_message where
  "sample_message = (lit ''FIX.4.4'', [48], [Plain 34 [55], Binary 95 96 [1, 61, 1]])"

lemma sample_message_ok: "message_ok sample_message"
proof -
  have "length (wire_texts [Plain 35 [48], Plain 34 [55], Binary 95 96 [1, 61, 1]]) \<le> 999"
    by (simp add: field_text_def data_text_def utoa_eq itoa_eq int_digits_def dec_digits.simps)
  then show ?thesis
    by (simp add: sample_message_def is_tag_a_data_length_iff length_fields_def lit_def of_char_def)
qed

lemma sample_message_length: "5 < length (message_text sample_message)"
  by (simp add: sample_message_def)

theorem stream_delivered_witness:
  "\<exists>mem rs. mem = message_text sample_message @ take 5 (message_text sample_message) \<and>
    for_each_message mem 0 (length mem) = Some (rs, length (message_text sample_message)) \<and>
    list_all2 (reads_message_as mem) rs [sample_message]"
  using stream_delivered [of sample_message "[sample_message]" 5] sample_message_ok sample_message_length
  by simp

text \<open>
  C3: On any bytes whatsoever the batch loop returns. It stays inside the buffer; the readers it
  hands out are complete, valid and framed by their SOH bytes, do not overlap, lie before the tail
  it returns, and at the tail no further message can be completed.
\<close>

theorem for_each_total:
  assumes "b \<le> e" "e \<le> length mem"
  shows "\<exists>rs tail. for_each_message mem b e = Some (rs, tail) \<and>
    (\<forall>r \<in> set rs. framed mem r \<and> b \<le> r_buffer r \<and> it_message_end (r_end r) \<le> tail) \<and>
    sorted_wrt (\<lambda>r s. it_message_end (r_end r) \<le> r_buffer s) rs \<and> b \<le> tail \<and> tail \<le> e \<and>
    (\<exists>r. message_reader mem tail e = Some r \<and> \<not> r_complete r)"
  using for_each_result [OF assms] unfolding shows_readers_def by blast

theorem for_each_total_witness:
  "\<exists>rs tail. for_each_message (lit ''8=FIX.4.4'' @ [SOH] @ lit ''x=1'') 0 13 = Some (rs, tail) \<and> tail \<le> 13"
  using for_each_total [of 0 13 "lit ''8=FIX.4.4'' @ [SOH] @ lit ''x=1''"] by fastforce

text \<open>
  C4: Iterating a \<open>messages()\<close> range visits the readers that \<open>for_each_message\<close> passes to its
  callback, in the same order.
\<close>

theorem range_is_for_each:
  assumes "b \<le> e" "e \<le> length mem"
  shows "messages mem b e = map_option fst (for_each_message mem b e)"
  using assms by (rule messages_for_each)

theorem range_is_for_each_witness:
  "messages (message_text sample_message) 0 5 = map_option fst (for_each_message (message_text sample_message) 0 5)"
  using range_is_for_each [of 0 5 "message_text sample_message"] sample_message_length by simp

section \<open>Reading one message\<close>

text \<open>
  C5: Constructing a reader on any range of the memory reads inside the range and ends in one of
  three states: a complete valid message whose header, MsgType and trailer are delimited by SOH
  bytes inside the buffer; incomplete; or complete and invalid, with more than ten bytes seen.
\<close>

theorem reader_states:
  assumes "b \<le> e" "e \<le> length mem"
  shows "\<exists>r. message_reader mem b e = Some r \<and> r_buffer r = b \<and> r_buffer_end r = e \<and>
    (framed mem r \<or> \<not> r_complete r \<and> r_valid r \<or> r_complete r \<and> \<not> r_valid r \<and> b + 10 < e)"
  using assms by (rule message_reader_result)

theorem reader_states_witness:
  "\<exists>r. message_reader (message_text sample_message) 0 5 = Some r \<and> (framed (message_text sample_message) r \<or>
    \<not> r_complete r \<and> r_valid r \<or> r_complete r \<and> \<not> r_valid r \<and> 0 + 10 < (5 :: nat))"
  using reader_states [of 0 5 "message_text sample_message"] sample_message_length by auto

text \<open>
  C6: The loop over the fields of a complete valid reader returns, whatever bytes the message is
  made of. It starts at MsgType; every field and its value lie inside the message and behind the
  previous field.
\<close>

theorem field_loop:
  assumes "b \<le> e" "e \<le> length mem" "message_reader mem b e = Some r" "r_complete r" "r_valid r"
  shows "\<exists>its. visit (increment mem) iter_eq (r_begin r) (r_end r) = Some its \<and> its \<noteq> [] \<and>
    hd its = r_begin r \<and>
    (\<forall>it \<in> set its. b < it_buffer it \<and> it_buffer it \<le> it_begin it \<and> it_begin it \<le> it_end it \<and>
       it_end it \<le> it_message_end (r_end r)) \<and>
    it_message_end (r_end r) \<le> e \<and> sorted_wrt (\<lambda>x y. it_end x < it_buffer y) its"
proof -
  from message_reader_result [OF assms(1,2)] assms(3-5) have r: "framed mem r" "r_buffer r = b" "r_buffer_end r = e"
    by auto
  then have "it_message_end (r_end r) \<le> e" by (auto simp: framed_def)
  with visit_framed [OF r(1)] r(2) show ?thesis by auto
qed

lemma sample_reads:
  "\<exists>r. message_reader (message_text sample_message) 0 (length (message_text sample_message)) = Some r \<and>
    reads_message_as (message_text sample_message) r sample_message \<and> r_complete r \<and> r_valid r"
  using reads_one [of "message_text sample_message" 0 sample_message] sample_message_ok
  by (auto simp: holds_at_def)

theorem field_loop_witness:
  "\<exists>r its. message_reader (message_text sample_message) 0 (length (message_text sample_message)) = Some r \<and>
    visit (increment (message_text sample_message)) iter_eq (r_begin r) (r_end r) = Some its \<and> its \<noteq> []"
proof -
  let ?m = "message_text sample_message"
  obtain r where "message_reader ?m 0 (length ?m) = Some r" "r_complete r" "r_valid r"
    using sample_reads by blast
  with field_loop [of 0 "length ?m" ?m r] show ?thesis by auto
qed

text \<open>
  A proper prefix of a message, of any length, is an incomplete reader that keeps its place:
  the reader never reports a cut message, nor an error in it.
\<close>

theorem prefix_not_complete:
  assumes "message_ok (v, mt, fs)" "k < length (message_text (v, mt, fs))"
    "holds_at mem b (take k (message_text (v, mt, fs)))"
  shows "\<exists>r. message_reader mem b (b + k) = Some r \<and> \<not> r_complete r \<and> r_buffer r = b"
  using prefix_incomplete [of mem b k v mt fs] assms by simp

theorem prefix_not_complete_witness:
  "\<exists>r. message_reader (message_text sample_message) 0 (0 + 5) = Some r \<and> \<not> r_complete r \<and> r_buffer r = 0"
proof -
  have "holds_at (message_text sample_message) 0 (take 5 (message_text sample_message))"
    using sample_message_length by (simp add: holds_at_def)
  with prefix_not_complete [of "lit ''FIX.4.4''" "[48]" "[Plain 34 [55], Binary 95 96 [1, 61, 1]]" 5
      "message_text sample_message" 0] sample_message_ok sample_message_length
  show ?thesis unfolding sample_message_def by blast
qed

text \<open>
  C8: \<open>find_with_hint\<close> of a reader, from a hint anywhere in the message, returns the first field
  with the tag at or after the hint, else the first one before it, and otherwise reports absence
  and leaves the hint; it always returns.
\<close>

theorem reader_search:
  assumes "framed mem r"
    "visit (increment mem) iter_eq (r_begin r) (r_end r) = Some (xs @ ys)"
    "if ys = [] then it_buffer i = it_buffer (r_end r) else i = hd ys"
  shows "reader_find_with_hint mem r tag i =
    Some (case find (\<lambda>it. f_tag (it_current it) = tag) (ys @ xs) of
        None \<Rightarrow> (False, i) | Some j \<Rightarrow> (True, j))"
proof -
  have v: "r_valid r" using assms(1) by (auto simp: framed_def)
  have i: "if ys = [] then iter_eq i (r_end r) else i = hd ys" using assms(3) by (simp add: iter_eq_def)
  have d: "distinct (map it_buffer (xs @ ys))"
    by (rule field_it.visit_distinct [OF framed_range [OF assms(1)] assms(2)])
  have t: "tag_equal tag = (\<lambda>it. f_tag (it_current it) = tag)" by (simp add: tag_equal_def fun_eq_iff)
  from field_it.find_with_hint_spec [OF assms(2) d i, of "tag_equal tag"] show ?thesis
    by (simp add: reader_find_with_hint_def reader_begin_def reader_end_def v t)
qed

theorem reader_search_witness:
  "\<exists>r its. visit (increment (message_text sample_message)) iter_eq (r_begin r) (r_end r) = Some its \<and>
    reader_find_with_hint (message_text sample_message) r 34 (r_begin r) =
      Some (case find (\<lambda>it. f_tag (it_current it) = 34) its of None \<Rightarrow> (False, r_begin r) | Some j \<Rightarrow> (True, j))"
proof -
  let ?m = "message_text sample_message"
  obtain r where r: "message_reader ?m 0 (length ?m) = Some r" "r_complete r" "r_valid r"
    using sample_reads by blast
  with message_reader_result [of 0 "length ?m" ?m] have f: "framed ?m r" by auto
  from visit_framed [OF f] obtain its where its:
    "visit (increment ?m) iter_eq (r_begin r) (r_end r) = Some its" "its \<noteq> []" "hd its = r_begin r" by blast
  have v: "visit (increment ?m) iter_eq (r_begin r) (r_end r) = Some ([] @ its)" using its(1) by simp
  have i: "if its = [] then it_buffer (r_begin r) = it_buffer (r_end r) else r_begin r = hd its"
    using its by simp
  from reader_search [OF f v i, of 34] its(1) show ?thesis by auto
qed

section \<open>The writer\<close>




text \<open>
  C10: Header, fields, trailer: when the trailer reports success the buffer holds
  \<open>8=v|9=nnnnnn|\<close>, the fields and \<open>10=ccc|\<close> with the body's length and the checksum, and it does
  report success when the buffer has room for what the calls reserve and the body is below one
  million bytes.
\<close>

theorem message_written:
  assumes "\<forall>x \<in> set xs. is_field_op x"
  shows "\<exists>ok w. write_message v xs buf = Some (ok, w) \<and>
    (ok \<longrightarrow> written w = fix_message v (body_text xs) \<and> length (body_text xs) \<le> 999999) \<and>
    (length v + 19 + sum_list (map op_need xs) \<le> length buf \<and> length (body_text xs) \<le> 999999 \<longrightarrow> ok)"
  using write_message_result [OF assms] by blast

theorem message_written_witness:
  "\<exists>w. write_message (lit ''FIX.4.2'') [Str 35 [48], Chr 54 49] (replicate 80 0) = Some (True, w) \<and>
    written w = fix_message (lit ''FIX.4.2'') (body_text [Str 35 [48], Chr 54 49])"
proof -
  have ok: "\<forall>x \<in> set [Str 35 [48], Chr 54 49]. is_field_op x" by simp
  from body_text_bound [OF this] have "length (body_text [Str 35 [48], Chr 54 49]) \<le> 999999" by simp
  with message_written [OF ok, of "lit ''FIX.4.2''" "replicate 80 0"] show ?thesis by auto
qed

text \<open>
  An error is sticky: once a call did not find room, later field calls change neither the
  buffer nor the position, and the trailer reports the failure.
\<close>

theorem error_is_sticky:
  assumes "w_error w" "\<forall>x \<in> set xs. is_field_op x"
  shows "run_ops xs w = Some w \<and> push_back_trailer cs w = Some (False, w)"
  using run_fields_error [OF assms(2,1)] trailer_error [OF assms(1)] by simp

theorem error_is_sticky_witness:
  "run_ops [Chr 54 49] (fail (message_writer [])) = Some (fail (message_writer [])) \<and>
    push_back_trailer True (fail (message_writer [])) = Some (False, fail (message_writer []))"
  using error_is_sticky [of "fail (message_writer [])" "[Chr 54 49]" True] by (simp add: fail_def)



section \<open>Numbers\<close>

text \<open>
  C12: The validating integer parser, at the widths in use: it accepts exactly the decimal numerals
  (an optional minus sign and digits, or digits only for the unsigned type of a group count) whose
  value is in the type's range, and returns it.
\<close>

theorem try_atoi_exact:
  "(try_atoi bs :: 32 word option) =
     (if is_numeral bs \<and> in_range 32 (numeral_val bs) then Some (word_of_int (numeral_val bs)) else None) \<and>
   (try_atoi bs :: 64 word option) =
     (if is_numeral bs \<and> in_range 64 (numeral_val bs) then Some (word_of_int (numeral_val bs)) else None) \<and>
   (try_atou bs :: 64 word option) =
     (if bs \<noteq> [] \<and> list_all is_digit bs \<and> dec_val bs < 2 ^ 64 then Some (of_nat (dec_val bs)) else None)"
  using try_atoi_eq [where 'a = 32, of bs] try_atoi_eq [where 'a = 64, of bs] try_atou_eq [where 'a = 64, of bs]
  by (simp add: list_all_iff)

text \<open>The parser of group counts alone.\<close>

theorem try_atou_exact:
  "(try_atou bs :: 64 word option) =
     (if bs \<noteq> [] \<and> list_all is_digit bs \<and> dec_val bs < 2 ^ 64 then Some (of_nat (dec_val bs)) else None)"
  using try_atou_eq [where 'a = 64, of bs] by (simp add: list_all_iff)

text \<open>
  C14: Formatting and parsing are inverse for every integer, the smallest negative one included, and
  for every decimal with an exponent that is not positive, at both widths. A positive exponent is not
  printed: the text is the mantissa's, and is read back with the exponent zero (for exponents that the
  loop can count up without overflow).
\<close>

theorem number_roundtrip:
  "try_atoi (itoa_unchecked (n :: 32 word)) = Some n \<and>
   try_atoi (itoa_unchecked (l :: 64 word)) = Some l \<and>
   try_atou (utoa_unchecked (u :: 64 word)) = Some u \<and>
   (sint (e :: 32 word) \<le> 0 \<longrightarrow> try_atod (dtoa_unchecked n (sint e)) = Some (n, e)) \<and>
   (sint (g :: 64 word) \<le> 0 \<longrightarrow> try_atod (dtoa_unchecked l (sint g)) = Some (l, g)) \<and>
   (0 \<le> sint e \<and> sint e + 10 < 2 ^ 31 \<longrightarrow>
     dtoa_unchecked n (sint e) = itoa_unchecked n \<and> try_atod (dtoa_unchecked n (sint e)) = Some (n, 0)) \<and>
   (0 \<le> sint g \<and> sint g + 19 < 2 ^ 63 \<longrightarrow>
     dtoa_unchecked l (sint g) = itoa_unchecked l \<and> try_atod (dtoa_unchecked l (sint g)) = Some (l, 0))"
  using itoa_roundtrip [of n] itoa_roundtrip [of l] utoa_roundtrip [of u] dtoa_exponent [of e n] dtoa_exponent [of g l]
  by simp

theorem number_roundtrip_witness:
  "try_atod (dtoa_unchecked (12345 :: 32 word) (- 2)) = Some (12345, - 2 :: 32 word) \<and>
   try_atod (dtoa_unchecked (- 12345 :: 64 word) (- 7)) = Some (- 12345, - 7 :: 64 word) \<and>
   dtoa_unchecked (5 :: 32 word) 2 = itoa_unchecked (5 :: 32 word) \<and>
   try_atod (dtoa_unchecked (5 :: 32 word) 2) = Some (5, 0 :: 32 word) \<and>
   try_atod (dtoa_unchecked (5 :: 64 word) 2) = Some (5, 0 :: 64 word)"
  using number_roundtrip [of 12345 "- 12345" 0 "- 2" "- 7"] number_roundtrip [of 5 5 0 2 2] by auto

text \<open>
  C15: The SWAR parsers (the eight-digit one is three multiplications on a 64-bit word, without a loop)
  compute the decimal value of two, four and eight digits, whatever comes behind.
\<close>

theorem swar_is_decimal:
  assumes "\<forall>c \<in> set ds. is_digit c"
  shows "(length ds = 2 \<longrightarrow> parse_two_digits (ds @ cs) = Some (of_nat (dec_val ds))) \<and>
    (length ds = 4 \<longrightarrow> parse_four_digits (ds @ cs) = Some (of_nat (dec_val ds))) \<and>
    (length ds = 8 \<longrightarrow> parse_eight_digits (ds @ cs) = Some (of_nat (dec_val ds)))"
proof (intro conjI impI)
  show "parse_two_digits (ds @ cs) = Some (of_nat (dec_val ds))" if "length ds = 2"
  proof -
    from that obtain a b where "ds = [a, b]" by (auto simp: length_Suc_conv numeral_eq_Suc)
    with parse_two_digits_eq [of a b cs] assms show ?thesis by simp
  qed
  show "parse_four_digits (ds @ cs) = Some (of_nat (dec_val ds))" if "length ds = 4"
  proof -
    from that obtain a b c d where "ds = [a, b, c, d]" by (auto simp: length_Suc_conv numeral_eq_Suc)
    with parse_four_digits_eq [of a b c d cs] assms show ?thesis by simp
  qed
  show "parse_eight_digits (ds @ cs) = Some (of_nat (dec_val ds))" if "length ds = 8"
  proof -
    from that obtain a b c d e f g h where "ds = [a, b, c, d, e, f, g, h]"
      by (auto simp: length_Suc_conv numeral_eq_Suc)
    with parse_eight_digits_eq [of a b c d e f g h cs] assms show ?thesis by simp
  qed
qed

theorem swar_is_decimal_witness: "parse_eight_digits (lit ''20240229'' @ [SOH]) = Some (of_nat (dec_val (lit ''20240229'')))"
  using swar_is_decimal [of "lit ''20240229''" "[SOH]"] by (simp add: lit_def of_char_def is_digit_def)

section \<open>Dates and times\<close>

text \<open>
  C16: The day count of the era arithmetic follows the Gregorian calendar: the day after a date
  (with the leap-year rule for the end of February) has the next number, and converting a number
  to a date inverts the conversion of the date, for dates from 1 March of year 0 to year 9999.
\<close>

theorem calendar:
  assumes "is_date y m d" "0 \<le> march_year y m" "y \<le> 9999"
  shows "civil_from_days (days_from_civil y m d + 719468) = (y, m, d) \<and>
    (next_day (y, m, d) = (y', m', d') \<and> y' \<le> 9999 \<longrightarrow>
      days_from_civil y' m' d' = days_from_civil y m d + 1)"
proof (intro conjI impI)
  have md: "1 \<le> m" "m \<le> 12" "1 \<le> d" "d \<le> 31"
    using assms(1) month_length_le [of y m] by (auto simp: is_date_def)
  note eq = days_from_civil_eq [OF md assms(2,3)]
  show "civil_from_days (days_from_civil y m d + 719468) = (y, m, d)"
    unfolding eq using civil_from_day_number [OF assms] by simp
  assume "next_day (y, m, d) = (y', m', d') \<and> y' \<le> 9999"
  then have n: "next_day (y, m, d) = (y', m', d')" "y' \<le> 9999" by simp_all
  from next_day_number [OF assms(1) n(1)] have d': "is_date y' m' d'" "day_number y' m' d' = day_number y m d + 1"
    by simp_all
  have md': "1 \<le> m'" "m' \<le> 12" "1 \<le> d'" "d' \<le> 31"
    using d'(1) month_length_le [of y' m'] by (auto simp: is_date_def)
  have "0 \<le> march_year y' m'"
    using n(1) assms(2) md by (auto simp: next_day_def march_year_def split: if_splits)
  from days_from_civil_eq [OF md' this n(2)] show "days_from_civil y' m' d' = days_from_civil y m d + 1"
    unfolding eq d'(2) by simp
qed

theorem calendar_witness:
  "civil_from_days (days_from_civil 2024 2 28 + 719468) = (2024, 2, 28) \<and>
    days_from_civil 2024 2 29 = days_from_civil 2024 2 28 + 1"
  using calendar [of 2024 2 28 2024 2 29]
  by (simp add: is_date_def month_length_def leap_def march_year_def next_day_def)

text \<open>
  C17: A time point from 1970 to the end of 2200, pushed as epoch milliseconds, is read back from
  its text as the same number; so is one in nanoseconds.
\<close>

theorem epoch_roundtrip:
  assumes "0 \<le> sint n" "sint n < 84371 * 86400 * 1000"
    "0 \<le> sint k" "sint k < 84371 * 86400 * 1000000000"
  shows "as_epoch_millis (millis_text (sint n)) = Some (Some n) \<and>
    as_epoch_nanos (nanos_text (sint k)) = Some (Some k) \<and>
    push_back_timestamp_epoch_millis tag n w = guarded_put 34 (field_text tag (millis_text (sint n))) w \<and>
    push_back_timestamp_epoch_nanos tag k w = guarded_put 40 (field_text tag (nanos_text (sint k))) w"
  using assms by (simp_all add: epoch_millis_codec.dec_enc epoch_nanos_codec.dec_enc push_epoch_millis push_epoch_nanos)

theorem epoch_roundtrip_witness:
  "as_epoch_millis (millis_text (sint (1705312245678 :: u64))) = Some (Some 1705312245678) \<and>
   as_epoch_nanos (nanos_text (sint (1705312245678901234 :: u64))) = Some (Some 1705312245678901234)"
  using epoch_roundtrip [of 1705312245678 1705312245678901234] by simp

text \<open>
  C18: Whatever the bytes, an accepted timestamp is in range: its nanoseconds since 1970 fit a
  signed 64-bit count, also those computed from a millisecond timestamp.
\<close>

theorem timestamp_fits_int64:
  "(atotimepoint_nano bs = Some (Some tp) \<longrightarrow> \<bar>tp\<bar> < 2 ^ 63) \<and>
   (atotimepoint bs = Some (Some tp) \<longrightarrow> \<bar>tp * 1000000\<bar> < 2 ^ 63)"
  by (intro conjI impI atotimepoint_nano_range atotimepoint_range)

theorem timestamp_fits_int64_witness:
  "(\<exists>tp. atotimepoint (lit ''22001231-23:59:59.999'') = Some (Some tp) \<and> 2 ^ 62 < tp * 1000000 \<and> \<bar>tp * 1000000\<bar> < 2 ^ 63) \<and>
   (\<exists>tp. atotimepoint_nano (lit ''22001231-23:59:59.999999999'') = Some (Some tp) \<and> 2 ^ 62 < tp \<and> \<bar>tp\<bar> < 2 ^ 63)"
proof -
  have "atotimepoint (lit ''22001231-23:59:59.999'') = Some (Some 7289654399999)"
    "atotimepoint_nano (lit ''22001231-23:59:59.999999999'') = Some (Some 7289654399999999999)"
    by code_simp+
  with timestamp_fits_int64 [of "lit ''22001231-23:59:59.999''" 7289654399999]
    timestamp_fits_int64 [of "lit ''22001231-23:59:59.999999999''" 7289654399999999999]
  show ?thesis by simp
qed

section \<open>Length tags\<close>

text \<open>
  C19: The two-level table (a 1024-bit map and a sorted overflow range searched by bisection) over
  any sorted list of non-negative tags answers membership in the list.
\<close>

theorem length_index_is_membership:
  assumes "sorted lfs" "\<forall>t \<in> set lfs. 0 \<le> t"
  shows "contains (make_length_tag_index lfs) tag \<longleftrightarrow> tag \<in> set lfs"
  using assms by (rule contains_iff)

theorem length_index_is_membership_witness:
  "contains (make_length_tag_index [90, 93, 1023, 1024, 5000]) 1024 \<and>
    \<not> contains (make_length_tag_index [90, 93, 1023, 1024, 5000]) 91"
  using length_index_is_membership [of "[90, 93, 1023, 1024, 5000]" 1024]
    length_index_is_membership [of "[90, 93, 1023, 1024, 5000]" 91] by simp

text \<open>
  C20: The table of length tags in the header is the one its generator computes from the header's
  fields; so the reader treats a tag as a data length exactly when the header declares a field of type
  Length with it, other than BodyLength and MaxMessageSize.
\<close>

theorem data_length_tags:
  "generated_lengths header_fields = length_fields \<and>
   is_tag_a_data_length tag =
     ((\<exists>name. (sint tag, name, T_Length) \<in> set enumerators) \<and> sint tag \<noteq> 9 \<and> sint tag \<noteq> 383)"
  by (simp only: length_fields_generated is_tag_a_data_length_iff length_fields_iff)

section \<open>Field values\<close>

text \<open>
  C21: Values pushed into a message are decoded from the field the reader shows: any integer with
  \<open>try_as_int\<close>, any decimal whose exponent is not positive with \<open>try_as_decimal\<close>, and a timestamp
  with two-digit parts and a four-digit year with \<open>as_timestamp\<close>.
\<close>

abbreviation decodes :: "byte list \<Rightarrow> reader \<Rightarrow> u32 \<Rightarrow> (byte list \<Rightarrow> 'x) \<Rightarrow> 'x \<Rightarrow> bool" where
  "decodes mem r tag dec x \<equiv> \<exists>its it. visit (increment mem) iter_eq (r_begin r) (r_end r) = Some its \<and>
     it \<in> set its \<and> f_tag (it_current it) = tag \<and>
     map_option dec (value_bytes mem (f_value (it_current it))) = Some x"

theorem pushed_values_decode:
  assumes "reads_as mem r v fs"
    "(t1, itoa_unchecked (n :: 64 word)) \<in> set fs"
    "(t2, dtoa_unchecked (m :: 32 word) (sint (e :: 32 word))) \<in> set fs" "sint e \<le> 0"
    "(t3, ymd_text y mo d @ [MINUS_CH] @ hms_text h mi s @ [DOT_CH] @ itoa_padded_unchecked ms 3) \<in> set fs"
    "date_fields_ok y mo d" "time_fields_ok h mi s" "0 \<le> ms" "ms < 1000"
  shows "decodes mem r t1 (try_as_int True) (Some n) \<and> decodes mem r t2 try_as_decimal (Some (m, e)) \<and>
    decodes mem r t3 as_timestamp (Some (Some (y, mo, d, h, mi, s, ms)))"
  using int64_codec.read_value [OF assms(1,2)]
    decimal32_codec.read_value [of mem r v fs t2 "(m, e)"]
    timestamp_codec.read_value [of mem r v fs t3 "(y, mo, d, h, mi, s, ms)"] assms
  by (simp add: map_option_eq_Some del: split_paired_Ex)

definition sample_values :: wire_message where
  "sample_values = (lit ''FIX.4.4'', [68],
     [Plain 38 (itoa_unchecked (- 25 :: 64 word)), Plain 44 (dtoa_unchecked (12345 :: 32 word) (- 2)),
      Plain 60 (ymd_text 2024 1 15 @ [MINUS_CH] @ hms_text 9 30 1 @ [DOT_CH] @ itoa_padded_unchecked 250 3)])"

lemma sample_values_read:
  "\<exists>r. message_reader (message_text sample_values) 0 (length (message_text sample_values)) = Some r \<and>
    reads_message_as (message_text sample_values) r sample_values"
proof -
  have "low_digits (Suc (Suc 0)) 12345 = [52, 53]" by simp
  then have two: "low_digits 2 12345 = [52, 53]" by (simp only: numeral_2_eq_2)
  have num: "itoa_unchecked (- 25 :: 64 word) = [45, 50, 53]"
    "dtoa_unchecked (12345 :: 32 word) (- 2) = [49, 50, 51, 46, 52, 53]"
    using dtoa_eq [where 'a = 32, of 12345 2] itoa_eq [where 'a = 64, of "- 25"]
    by (simp_all add: int_digits_def dec_digits.simps decimal_digits_def two)
  have len: "length (ymd_text 2024 1 15 @ [MINUS_CH] @ hms_text 9 30 1 @ [DOT_CH] @ itoa_padded_unchecked 250 3) = 21"
    by simp
  have "length (field_text t bs) \<le> 12 + length bs" for t bs by (rule length_field_text)
  from this [of 35 "[68]"] this [of 38 "[45, 50, 53]"] this [of 44 "[49, 50, 51, 46, 52, 53]"]
    this [of 60 "ymd_text 2024 1 15 @ [MINUS_CH] @ hms_text 9 30 1 @ [DOT_CH] @ itoa_padded_unchecked 250 3"] len
  have "length (wire_texts (Plain 35 [68] # snd (snd sample_values))) \<le> 999999"
    unfolding sample_values_def num by simp
  then have "message_ok sample_values"
    by (simp add: sample_values_def num is_tag_a_data_length_iff length_fields_def lit_def of_char_def
        ymd_clean hms_clean padded_clean)
  then show ?thesis using reads_one [of "message_text sample_values" 0 sample_values]
    by (auto simp: holds_at_def)
qed

theorem pushed_values_decode_witness:
  "\<exists>mem r. decodes mem r 38 (try_as_int True) (Some (- 25 :: 64 word)) \<and>
    decodes mem r 44 try_as_decimal (Some (12345 :: 32 word, - 2 :: 32 word)) \<and>
    decodes mem r 60 as_timestamp (Some (Some (2024, 1, 15, 9, 30, 1, 250)))"
proof -
  obtain r where r: "reads_as (message_text sample_values) r (lit ''FIX.4.4'')
      (wire_fields (Plain 35 [68] # snd (snd sample_values)))"
    using sample_values_read by (auto simp: sample_values_def)
  show ?thesis
    by (rule exI, rule exI, rule pushed_values_decode [OF r])
      (simp_all add: sample_values_def date_fields_ok_def time_fields_ok_def)
qed

text \<open>
  Comparing a field value with a C string is equality of the bytes, when neither holds a NUL.
\<close>

theorem cstring_comparison:
  assumes "0 \<notin> set bs" "0 \<notin> set cs"
  shows "equals_cstring bs cs = Some (bs = cs)"
  using assms by (rule equals_cstring_eq)

theorem cstring_comparison_witness: "equals_cstring (lit ''FIX.4.4'') (lit ''FIX.4.2'') = Some False"
  using cstring_comparison [of "lit ''FIX.4.4''" "lit ''FIX.4.2''"] by (simp add: lit_def of_char_def)

section \<open>Repeating groups and indexes\<close>

text \<open>
  C23: The group behind a count field: iterating the view returns, and yields the fields that
  follow the count field from the first delimiter on, cut before every further delimiter, as many
  entries as the count declares and no more than there are.
\<close>

theorem group_is_chunks:
  assumes "framed mem r"
    "visit (increment mem) iter_eq (r_begin r) (r_end r) = Some (pre @ x # post)"
    "\<forall>y \<in> set pre. f_tag (it_current y) \<noteq> count_tag" "f_tag (it_current x) = count_tag"
    "Option.bind (value_bytes mem (f_value (it_current x))) (try_as_int False) = Some (n :: u64)"
  shows "\<exists>g es. reader_group mem r count_tag d = Some g \<and> group_size g = unat n \<and>
    group_entries mem g = Some es \<and>
    list_all2 (\<lambda>en its. visit (increment mem) iter_eq (ge_begin en) (ge_end en) = Some its) es
      (take (unat n) (chunks (\<lambda>it. f_tag (it_current it) = d)
        (dropWhile (\<lambda>it. f_tag (it_current it) \<noteq> d) post)))"
  using reader_group_entries [OF assms, of d] by (simp add: group_fields_def visit_iff)

definition sample_group :: wire_message where
  "sample_group = (lit ''FIX.4.4'', [87], [Plain 268 [50], Plain 269 [48], Plain 270 [53], Plain 269 [49], Plain 270 [54]])"

lemma sample_group_ok: "message_ok sample_group"
proof -
  have "length (wire_texts (Plain 35 [87] # snd (snd sample_group))) \<le> 999"
    by (simp add: sample_group_def field_text_def utoa_eq dec_digits.simps)
  then show ?thesis
    by (simp add: sample_group_def is_tag_a_data_length_iff length_fields_def lit_def of_char_def)
qed

lemma sample_group_read:
  "\<exists>r its. framed (message_text sample_group) r \<and>
    visit (increment (message_text sample_group)) iter_eq (r_begin r) (r_end r) = Some its \<and>
    shown (message_text sample_group) its =
      map (\<lambda>(t, val). (t, Some val)) (wire_fields (Plain 35 [87] # snd (snd sample_group)))"
proof -
  let ?m = "message_text sample_group"
  from reads_one [of ?m 0 sample_group, OF _ sample_group_ok] obtain r where
    r: "message_reader ?m 0 (length ?m) = Some r" "reads_message_as ?m r sample_group" "r_complete r" "r_valid r"
    by (auto simp: holds_at_def)
  with message_reader_result [of 0 "length ?m" ?m] have "framed ?m r" by auto
  with r(2) show ?thesis by (auto simp: reads_as_def sample_group_def)
qed

text \<open>Its two entries; the first ends where the second begins.\<close>

lemma sample_group_entries:
  "\<exists>r g first second. framed (message_text sample_group) r \<and>
    reader_group (message_text sample_group) r 268 269 = Some g \<and>
    group_entries (message_text sample_group) g = Some [first, second] \<and>
    it_buffer (ge_end first) \<noteq> it_buffer (r_end r)"
proof -
  let ?m = "message_text sample_group"
  obtain r its where r: "framed ?m r" "visit (increment ?m) iter_eq (r_begin r) (r_end r) = Some its"
    "shown ?m its = map (\<lambda>(t, val). (t, Some val)) (wire_fields (Plain 35 [87] # snd (snd sample_group)))"
    using sample_group_read by blast
  from r(3) obtain a x p q s t where its: "its = [a] @ x # [p, q, s, t]"
    "f_tag (it_current a) = 35" "f_tag (it_current x) = 268" "f_tag (it_current p) = 269"
    "f_tag (it_current q) = 270" "f_tag (it_current s) = 269" "f_tag (it_current t) = 270"
    "value_bytes ?m (f_value (it_current x)) = Some [50]"
    by (auto simp: shown_def sample_group_def map_eq_Cons_conv)
  have n: "Option.bind (value_bytes ?m (f_value (it_current x))) (try_as_int False) = Some (2 :: u64)"
    using try_atou_eq [where 'a = 64, of "[50]"]
    by (simp add: its(8) try_as_int_def is_digit_def digit_val_def)
  from reader_group_entries [OF r(1) _ _ _ n, of "[a]" "[p, q, s, t]" 268 269] r(2) its
  obtain g es where g: "reader_group ?m r 268 269 = Some g" "group_entries ?m g = Some es"
    "list_all2 (\<lambda>en its. visit (increment ?m) iter_eq (ge_begin en) (ge_end en) = Some its) es [[p, q], [s, t]]"
    by (auto simp: group_fields_def visit_iff)
  then obtain first second where es: "es = [first, second]"
    "visit (increment ?m) iter_eq (ge_begin first) (ge_end first) = Some [p, q]"
    by (auto simp: list_all2_Cons2)
  have "increment ?m q = Some s" "\<not> iter_eq s (r_end r)" using r(2) unfolding its(1) by (auto simp: visit_iff)
  moreover from es(2) obtain j where "increment ?m q = Some j" "iter_eq j (ge_end first)" by (auto simp: visit_iff)
  ultimately have "it_buffer (ge_end first) \<noteq> it_buffer (r_end r)" by (simp add: iter_eq_def)
  with r(1) g(1,2) es(1) show ?thesis by blast
qed

theorem group_is_chunks_witness:
  "\<exists>r g es. reader_group (message_text sample_group) r 268 269 = Some g \<and>
    group_entries (message_text sample_group) g = Some es \<and> length es = 2"
proof -
  let ?m = "message_text sample_group"
  obtain r its where r: "framed ?m r" "visit (increment ?m) iter_eq (r_begin r) (r_end r) = Some its"
    "shown ?m its = map (\<lambda>(t, val). (t, Some val)) (wire_fields (Plain 35 [87] # snd (snd sample_group)))"
    using sample_group_read by blast
  from r(3) obtain a x p q s t where its: "its = [a] @ x # [p, q, s, t]"
    "f_tag (it_current a) = 35" "f_tag (it_current x) = 268" "f_tag (it_current p) = 269"
    "f_tag (it_current q) = 270" "f_tag (it_current s) = 269" "f_tag (it_current t) = 270"
    "value_bytes ?m (f_value (it_current x)) = Some [50]"
    by (auto simp: shown_def sample_group_def map_eq_Cons_conv)
  have n: "Option.bind (value_bytes ?m (f_value (it_current x))) (try_as_int False) = Some (2 :: u64)"
    using try_atou_eq [where 'a = 64, of "[50]"]
    by (simp add: its(8) try_as_int_def is_digit_def digit_val_def)
  from group_is_chunks [OF r(1) _ _ _ n, of "[a]" "[p, q, s, t]" 268 269] r(2) its
  obtain g es where g: "reader_group ?m r 268 269 = Some g" "group_entries ?m g = Some es"
    "list_all2 (\<lambda>en its. visit (increment ?m) iter_eq (ge_begin en) (ge_end en) = Some its) es [[p, q], [s, t]]"
    by auto
  from list_all2_lengthD [OF g(3)] have "length es = 2" by simp
  with g(1,2) show ?thesis by blast
qed

text \<open>
  C24: A random-access index and the reader agree: building an index of a complete valid message (up
  to 4 GiB) into an array of any capacity succeeds; the index is authoritative exactly when the array
  has room for all fields; and then searching it from the front returns the value of the field the
  reader's linear search finds, or the null value when there is none, and \<open>has\<close> tells
  whether there is one.
\<close>

theorem index_agrees:
  assumes "framed mem r" "length (ib_pos_len buf) = length (ib_tags buf)"
    "it_message_end (r_end r) \<le> r_buffer r + kMaxIndexableMessageBytes"
  shows "\<exists>its im buf' found it h. visit (increment mem) iter_eq (r_begin r) (r_end r) = Some its \<and>
    build_field_index mem r buf = Some (im, buf') \<and>
    (authoritative im \<longleftrightarrow> length its \<le> length (ib_tags buf)) \<and>
    reader_find_with_hint mem r tag (r_begin r) = Some (found, it) \<and>
    (authoritative im \<longrightarrow> indexed_find_with_hint im tag 0 =
       Some (if found then f_value (it_current it) else mk_value null null, h) \<and> has im tag = found)"
  using assms by (rule index_finds_reader)

text \<open>
  C25: Which fields an index shows: the first \<open>N\<close> of the message, each with its tag and, through
  the packed offset and length, its very value; it says that it is truncated exactly when the
  message has more than \<open>N\<close> fields.
\<close>

theorem index_shows_fields:
  assumes "framed mem r" "length (ib_pos_len buf) = length (ib_tags buf)"
    "it_message_end (r_end r) \<le> r_buffer r + kMaxIndexableMessageBytes"
    "visit (increment mem) iter_eq (r_begin r) (r_end r) = Some its"
  shows "\<exists>im buf'. build_field_index mem r buf = Some (im, buf') \<and>
    field_count im = min (length (ib_tags buf)) (length its) \<and>
    (\<forall>i < field_count im. tag_at im i = Some (f_tag (it_current (its ! i))) \<and>
       value_at im i = Some (f_value (it_current (its ! i)))) \<and>
    (im_truncated im \<longleftrightarrow> length (ib_tags buf) < length its)"
proof -
  from build_index_result [OF assms] obtain im buf' where
    im: "build_field_index mem r buf = Some (im, buf')" "indexes im (take (length (ib_tags buf)) its)"
      "im_truncated im \<longleftrightarrow> length (ib_tags buf) < length its" by blast
  then have "field_count im = min (length (ib_tags buf)) (length its)"
    by (simp add: field_count_def indexes_def min.commute)
  moreover have "tag_at im i = Some (f_tag (it_current (its ! i))) \<and>
      value_at im i = Some (f_value (it_current (its ! i)))" if "i < min (length (ib_tags buf)) (length its)" for i
    using im(2) that value_at_index [OF im(2), of i] by (simp add: tag_at_def indexes_def)
  ultimately show ?thesis using im(1,3) by auto
qed

lemma sample_group_size: "length (message_text sample_group) < 999"
  by (simp add: sample_group_def field_text_def utoa_eq dec_digits.simps)

abbreviation sample_arrays :: field_index_buffer where
  "sample_arrays \<equiv> \<lparr>ib_tags = replicate 4 0, ib_pos_len = replicate 4 0\<rparr>"

text \<open>Two slots more than the sample has fields.\<close>

abbreviation sample_room :: field_index_buffer where
  "sample_room \<equiv> \<lparr>ib_tags = replicate 8 0, ib_pos_len = replicate 8 0\<rparr>"

lemma framed_small:
  assumes "framed mem r" "length mem < 999"
  shows "it_message_end (r_end r) \<le> r_buffer r + kMaxIndexableMessageBytes"
  using assms by (auto simp: framed_def kMaxIndexableMessageBytes_def)

theorem index_agrees_witness:
  "\<exists>r im buf' it h. build_field_index (message_text sample_group) r sample_room = Some (im, buf') \<and> authoritative im \<and>
    reader_find_with_hint (message_text sample_group) r 270 (r_begin r) = Some (True, it) \<and>
    value_bytes (message_text sample_group) (f_value (it_current it)) = Some [53] \<and>
    indexed_find_with_hint im 270 0 = Some (f_value (it_current it), h) \<and> has im 270"
proof -
  let ?m = "message_text sample_group"
  obtain r its where r: "framed ?m r" "visit (increment ?m) iter_eq (r_begin r) (r_end r) = Some its"
    "shown ?m its = map (\<lambda>(t, val). (t, Some val)) (wire_fields (Plain 35 [87] # snd (snd sample_group)))"
    using sample_group_read by blast
  from r(3) obtain a b c d its' where its: "its = a # b # c # d # its'" "f_tag (it_current a) = 35" "f_tag (it_current b) = 268"
    "f_tag (it_current c) = 269" "f_tag (it_current d) = 270" "value_bytes ?m (f_value (it_current d)) = Some [53]"
    "length its' = 2"
    by (auto simp: shown_def sample_group_def map_eq_Cons_conv)
  then have d: "reader_find_with_hint ?m r 270 (r_begin r) = Some (True, d)"
    using reader_finds_first [OF r(1,2), of 270] by (simp add: tag_equal_def)
  have room: "length (ib_pos_len sample_room) = length (ib_tags sample_room)" "length its \<le> length (ib_tags sample_room)"
    using its(1,7) by simp_all
  from index_agrees [OF r(1) room(1) framed_small [OF r(1) sample_group_size], of 270] obtain im buf' h where
    "build_field_index ?m r sample_room = Some (im, buf')" "authoritative im \<longleftrightarrow> length its \<le> length (ib_tags sample_room)"
    "authoritative im \<longrightarrow> indexed_find_with_hint im 270 0 = Some (f_value (it_current d), h) \<and> has im 270 = True"
    using d r(2) by auto
  with room(2) d its(6) show ?thesis by blast
qed

theorem index_shows_fields_witness:
  "\<exists>r im buf'. build_field_index (message_text sample_group) r sample_arrays = Some (im, buf') \<and>
    field_count im = 4 \<and> tag_at im 1 = Some 268 \<and> im_truncated im"
proof -
  let ?m = "message_text sample_group"
  obtain r its where r: "framed ?m r" "visit (increment ?m) iter_eq (r_begin r) (r_end r) = Some its"
    "shown ?m its = map (\<lambda>(t, val). (t, Some val)) (wire_fields (Plain 35 [87] # snd (snd sample_group)))"
    using sample_group_read by blast
  from r(3) have "length its = 6" "f_tag (it_current (its ! 1)) = 268"
    by (auto simp: shown_def sample_group_def map_eq_Cons_conv)
  with index_shows_fields [OF r(1) _ framed_small [OF r(1) sample_group_size] r(2), of sample_arrays]
  obtain im buf' where "build_field_index ?m r sample_arrays = Some (im, buf')" "field_count im = 4"
    "tag_at im 1 = Some 268" "im_truncated im" by auto
  then show ?thesis by blast
qed

section \<open>Where the code and its promises part\<close>

text \<open>
  C26: \<open>push_back_decimal\<close> reserves room for the mantissa only: with a negative exponent beyond the
  type's digits the leading zeros do not fit, and although the room check passes the call stores
  behind the buffer.
\<close>

theorem decimal_overruns:
  "\<not> no_room (message_writer (replicate 25 0)) (max_ascii_chars_int + 1 + max_ascii_chars_int + 1 + 1) \<and>
   push_back_decimal max_ascii_chars_int 44 (1 :: 32 word) (- 100) (message_writer (replicate 25 0)) = None"
proof -
  have "length (dtoa_unchecked (1 :: 32 word) (- int 100)) > 100"
    using dtoa_eq [where 'a = 32, of 1 100] by (simp add: decimal_digits_length)
  then have "put (field_text 44 (dtoa_unchecked (1 :: 32 word) (sint (- 100 :: 32 word)))) (message_writer (replicate 25 0)) = None"
    by (simp add: put_def wr_def message_writer_def field_text_def)
  then show ?thesis
    using decimal_op.op_guarded [of max_ascii_chars_int 44 "1 :: 32 word" "- 100" "message_writer (replicate 25 0)"]
    by (simp add: guarded_put_def no_room_def message_writer_def max_ascii_chars_int_def)
qed

text \<open>
  C27: \<open>find_with_hint\<close> of a group entry does not return when the hint is the end of the
  message, the entry ends before it and the tag is not that of the CheckSum field. It is a loop that
  never ends, and not a fault: after any number of increments the iterator is still a valid one, not
  at the end of the entry and not at a field with the tag.
\<close>

theorem entry_search_hangs:
  assumes "framed mem r" "it_buffer (ge_end en) \<noteq> it_buffer (r_end r)" "tag \<noteq> 10"
  shows "entry_find_with_hint mem en tag (r_end r) = None \<and>
    (\<exists>it. advance mem n (r_end r) = Some it \<and> \<not> iter_eq it (ge_end en) \<and> \<not> tag_equal tag it)"
  using entry_search_diverges [OF assms] by blast

theorem entry_search_hangs_witness:
  "\<exists>r g first second. framed (message_text sample_group) r \<and>
    reader_group (message_text sample_group) r 268 269 = Some g \<and>
    group_entries (message_text sample_group) g = Some [first, second] \<and>
    entry_find_with_hint (message_text sample_group) first 55 (r_end r) = None \<and>
    (\<exists>it. advance (message_text sample_group) 1000 (r_end r) = Some it \<and>
      \<not> iter_eq it (ge_end first) \<and> \<not> tag_equal 55 it)"
proof -
  let ?m = "message_text sample_group"
  from sample_group_entries obtain r g first second where
    v: "framed ?m r" "reader_group ?m r 268 269 = Some g" "group_entries ?m g = Some [first, second]"
      "it_buffer (ge_end first) \<noteq> it_buffer (r_end r)" by blast
  have "(55 :: u32) \<noteq> 10" by simp
  from entry_search_hangs [OF v(1,4) this, of 1000] v(1-3) show ?thesis by blast
qed

text \<open>
  An epoch before 1970 that is not a midnight is split toward zero: one millisecond before the
  epoch is printed as 1 January 1970 with a fraction that is not a digit.
\<close>

theorem negative_epoch_text:
  "push_back_timestamp_epoch_millis 60 (- 1) w =
     guarded_put 34 (field_text 60 (lit ''19700101-00:00:00.00/'')) w"
proof -
  have "timepointtoparts 1000 (- 1) = (1970, 1, 1, 0, 0, 0, - 1)" by code_simp
  then have "millis_text (- 1) = lit ''19700101-00:00:00.00/''"
    unfolding millis_text_def by (simp only: prod.case) code_simp
  then show ?thesis by (simp add: push_epoch_millis)
qed

text \<open>
  Comparing a value that has a NUL byte where a shorter C string ends reads behind the string's
  terminator.
\<close>

theorem cstring_overread: "equals_cstring (lit ''8'' @ [0, 0]) (lit ''8'') = None"
  by (simp add: equals_cstring_def lit_def rd_def)

text \<open>
  The last entry of a group is not bounded by the group's own fields: whatever follows it in
  the message up to the trailer is part of the entry, when no further delimiter comes.
\<close>

theorem last_entry_takes_the_rest:
  assumes "framed mem r"
    "visit (increment mem) iter_eq (r_begin r) (r_end r) = Some (pre @ x # y # rest)"
    "\<forall>z \<in> set pre. f_tag (it_current z) \<noteq> count_tag" "f_tag (it_current x) = count_tag"
    "Option.bind (value_bytes mem (f_value (it_current x))) (try_as_int False) = Some (1 :: u64)"
    "f_tag (it_current y) = d" "\<forall>z \<in> set rest. f_tag (it_current z) \<noteq> d"
  shows "\<exists>g en. reader_group mem r count_tag d = Some g \<and> group_entries mem g = Some [en] \<and>
    visit (increment mem) iter_eq (ge_begin en) (ge_end en) = Some (y # rest)"
proof -
  have "takeWhile (\<lambda>z. f_tag (it_current z) \<noteq> d) rest = rest" "dropWhile (\<lambda>z. f_tag (it_current z) \<noteq> d) rest = []"
    using assms(7) by (simp_all add: takeWhile_eq_all_conv)
  then have "group_fields (unat (1 :: u64)) d (y # rest) = [y # rest]"
    using assms(6) by (simp add: group_fields_def)
  with reader_group_entries [OF assms(1-5), of d] show ?thesis
    by (auto simp: list_all2_Cons2 visit_iff)
qed

definition sample_trailing :: wire_message where
  "sample_trailing = (lit ''FIX.4.4'', [87], [Plain 268 [49], Plain 269 [48], Plain 58 [120]])"

theorem last_entry_takes_the_rest_witness:
  "\<exists>r g en y z. reader_group (message_text sample_trailing) r 268 269 = Some g \<and>
    group_entries (message_text sample_trailing) g = Some [en] \<and>
    visit (increment (message_text sample_trailing)) iter_eq (ge_begin en) (ge_end en) = Some [y, z] \<and>
    f_tag (it_current z) = 58"
proof -
  let ?m = "message_text sample_trailing"
  have "length (wire_texts (Plain 35 [87] # snd (snd sample_trailing))) \<le> 999"
    by (simp add: sample_trailing_def field_text_def utoa_eq dec_digits.simps)
  then have "message_ok sample_trailing"
    by (simp add: sample_trailing_def is_tag_a_data_length_iff length_fields_def lit_def of_char_def)
  from reads_one [of ?m 0 sample_trailing, OF _ this] obtain r where
    r: "message_reader ?m 0 (length ?m) = Some r" "reads_message_as ?m r sample_trailing" "r_complete r" "r_valid r"
    by (auto simp: holds_at_def)
  with message_reader_result [of 0 "length ?m" ?m] have f: "framed ?m r" by auto
  from r(2) obtain its where its: "visit (increment ?m) iter_eq (r_begin r) (r_end r) = Some its"
    "shown ?m its = map (\<lambda>(t, val). (t, Some val)) (wire_fields (Plain 35 [87] # snd (snd sample_trailing)))"
    by (auto simp: reads_as_def sample_trailing_def)
  from its(2) obtain a x y z where i: "its = [a] @ x # y # [z]"
    "f_tag (it_current a) = 35" "f_tag (it_current x) = 268" "f_tag (it_current y) = 269"
    "f_tag (it_current z) = 58" "value_bytes ?m (f_value (it_current x)) = Some [49]"
    by (auto simp: shown_def sample_trailing_def map_eq_Cons_conv)
  have n: "Option.bind (value_bytes ?m (f_value (it_current x))) (try_as_int False) = Some (1 :: u64)"
    using try_atou_eq [where 'a = 64, of "[49]"] by (simp add: i(6) try_as_int_def is_digit_def digit_val_def)
  from last_entry_takes_the_rest [OF f _ _ i(3) n i(4), of "[a]" "[z]"] its(1) i(1,2,5)
  obtain g en where "reader_group ?m r 268 269 = Some g" "group_entries ?m g = Some [en]"
    "visit (increment ?m) iter_eq (ge_begin en) (ge_end en) = Some [y, z]" by auto
  with i(5) show ?thesis by blast
qed

section \<open>Registered groups\<close>

text \<open>
  C31: \<open>group<CountTag>()\<close> compiles exactly for the tags that the generated header declares with type
  NumInGroup, and then is the runtime \<open>group\<close> with a delimiter registered for the tag.
\<close>

theorem compile_time_dispatch:
  "if \<exists>name. (c, name, T_NumInGroup) \<in> set enumerators
   then (c, first_tag c) \<in> set registered_groups \<and>
     reader_group_of mem r c = reader_group mem r (word_of_int c) (word_of_int (first_tag c))
   else reader_group_of mem r c = None"
proof (cases "c \<in> fst ` set registered_groups")
  case True
  then have "map_of registered_groups c \<noteq> None" by (simp add: map_of_eq_None_iff)
  then have "(c, first_tag c) \<in> set registered_groups"
    by (auto simp: first_tag_def dest: map_of_SomeD)
  with True show ?thesis
    using first_tag_group_count [of c] first_tag_iff [of c] by (simp add: reader_group_of_registered)
next
  case False
  then show ?thesis
    using first_tag_group_count [of c] first_tag_iff [of c] by (simp add: reader_group_of_def)
qed


text \<open>Two formulas, each a length and an encoded text.\<close>

definition sample_formula :: wire_message where
  "sample_formula = (lit ''FIX.5.0'', [87],
     [] @ Plain (word_of_int 42683) [50] # [Binary 43109 42684 [97, 98], Binary 43109 42684 [99]])"

lemma sample_formula_ok: "message_ok sample_formula"
proof -
  have "length (wire_texts (Plain 35 [87] # snd (snd sample_formula))) \<le> 999"
    by (simp add: sample_formula_def field_text_def data_text_def utoa_eq itoa_eq int_digits_def dec_digits.simps)
  then show ?thesis
    by (simp add: sample_formula_def is_tag_a_data_length_iff length_fields_def lit_def of_char_def)
qed


section \<open>The programs around the library\<close>

text \<open>
  C33: The fuzz target returns on every input: no operation it makes reads outside the bytes it was
  given, fails an assertion or loops for ever.
\<close>

theorem fuzz_target_returns: "\<exists>res. fuzz_one wire = Some res"
  by (rule fuzz_one_total)

text \<open>
  C34: Whatever the arguments and the random numbers, when \<open>fixgen\<close> accepts its command
  line, for at most 306783378 messages (behind them \<open>seq * 7\<close> overflows), and can open
  its output, it exits with 0, and its output is exactly as many messages as asked for:
  \<open>for_each_message\<close> consumes all of it, and each reader shows the version, type, fields
  and checksum of the message it was made from.
\<close>

theorem fixgen_output_reads_back:
  assumes "draws_in_range draw draw_type" "length buf = kBuf" "parse_args argv = Some (Some a)"
    "arg_count a \<le> 306783378" "arg_out a = ''-'' \<or> opens (arg_out a)"
  shows "\<exists>out ms rs. fixgen_main draw draw_type mt19937 opens buf argv = Some (0, out) \<and>
    length ms = nat (arg_count a) \<and> for_each_message out 0 (length out) = Some (rs, length out) \<and>
    list_all2 (reads_message_as out) rs ms"
  using fixgen_main_result [of draw draw_type buf argv a opens mt19937, OF assms(1-3) _ assms(5)] assms(4)
  by (auto simp: max_exec_seq_def)

theorem fixgen_output_reads_back_witness:
  "\<exists>out ms rs. fixgen_main (\<lambda>g a b. (a, g)) (\<lambda>g. (3, g)) (\<lambda>seed. ()) (\<lambda>path. False) (replicate kBuf 0)
      [''-o'', ''-'', ''-n'', ''3''] = Some (0, out) \<and> length ms = 3 \<and>
    for_each_message out 0 (length out) = Some (rs, length out) \<and> list_all2 (reads_message_as out) rs ms"
proof -
  have "draws_in_range (\<lambda>(g :: unit) a b. (a, g)) (\<lambda>g. (3, g))" by (simp add: draws_in_range_def)
  moreover have "length (replicate kBuf (0 :: byte)) = kBuf" by simp
  moreover have "parse_args [''-o'', ''-'', ''-n'', ''3''] =
      Some (Some \<lparr>arg_out = ''-'', arg_count = 3, arg_seed = 42\<rparr>)"
    by (simp add: parse_args_def default_args_def c_atol_def c_number_simps)
  ultimately show ?thesis
    using fixgen_output_reads_back [of "\<lambda>(g :: unit) a b. (a, g)" "\<lambda>g. (3, g)" "replicate kBuf 0"
      "[''-o'', ''-'', ''-n'', ''3'']" "\<lparr>arg_out = ''-'', arg_count = 3, arg_seed = 42\<rparr>" "\<lambda>path. False" "\<lambda>seed. ()"]
    by simp
qed

text \<open>A tree of elements with attributes, as an instance of the XML library's interface.\<close>

datatype element = Element string "(string \<times> string) list" "element list"

fun element_name :: "element \<Rightarrow> string" where "element_name (Element n as es) = n"
fun element_children :: "element \<Rightarrow> element list" where "element_children (Element n as es) = es"
fun element_attribute :: "element \<Rightarrow> string \<Rightarrow> string" where
  "element_attribute (Element n as es) a = (case map_of as a of None \<Rightarrow> [] | Some v \<Rightarrow> v)"

definition element_named :: "element \<Rightarrow> string \<Rightarrow> element list" where
  "element_named e n = filter (\<lambda>c. element_name c = n) (element_children e)"

definition element_xml :: "element xml" where
  "element_xml = \<lparr>xml_name = element_name,
     xml_child = (\<lambda>e n. case element_named e n of [] \<Rightarrow> Element [] [] [] | c # _ \<Rightarrow> c),
     xml_named = element_named, xml_children = element_children, xml_attribute = element_attribute\<rparr>"

definition sample_field :: "string \<Rightarrow> string \<Rightarrow> string \<Rightarrow> element" where
  "sample_field num name type = Element ''field'' [(''number'', num), (''name'', name), (''type'', type)] []"

definition sample_msg :: "string \<Rightarrow> string \<Rightarrow> element" where
  "sample_msg name msgtype = Element ''message'' [(''name'', name), (''msgtype'', msgtype)] []"

definition sample_spec :: element where
  "sample_spec = Element [] [] [Element ''fix'' [] [
     Element ''fields'' [] [sample_field ''95'' ''RawDataLength'' ''LENGTH'', sample_field ''9'' ''BodyLength'' ''LENGTH'',
       sample_field ''95'' ''RawLen'' ''LENGTH''],
     Element ''messages'' [] [sample_msg ''News'' ''B'', sample_msg ''Logon'' ''A'', sample_msg ''NewsFlash'' ''B'']]]"

lemma element_xml_simps [simp]:
  "xml_name element_xml = element_name" "xml_named element_xml = element_named"
  "xml_children element_xml = element_children" "xml_attribute element_xml = element_attribute"
  "xml_child element_xml e n = (case element_named e n of [] \<Rightarrow> Element [] [] [] | c # _ \<Rightarrow> c)"
  by (simp_all add: element_xml_def)

lemma element_tree_finite: "finite_tree element_xml"
proof -
  have "size c < size e" if "c \<in> set (element_children e)" for c e :: element
    using that by (cases e) (auto dest: size_list_estimation' [of c _ _ size] simp: less_Suc_eq_le)
  then show ?thesis unfolding finite_tree_def element_xml_simps by blast
qed

lemma sample_spec_loads: "load_docs element_xml [(sample_spec, ''a.xml'')] =
  Some (([(9, \<lparr>sf_tag = 9, sf_name = ''BodyLength'', sf_type = ''Length'', sf_aliases = []\<rparr>),
          (95, \<lparr>sf_tag = 95, sf_name = ''RawDataLength'', sf_type = ''Length'', sf_aliases = [''RawLen'']\<rparr>)],
         [Field_Alias 95 ''RawLen'' ''RawDataLength'' ''a.xml'']),
        [\<lparr>sm_name = ''News'', sm_value = ''B'', sm_aliases = [''NewsFlash'']\<rparr>,
         \<lparr>sm_name = ''Logon'', sm_value = ''A'', sm_aliases = []\<rparr>], [''B'' \<mapsto> 0, ''A'' \<mapsto> 1],
        [Message_Alias ''B'' ''NewsFlash'' ''News'' ''a.xml''])"
  by (simp add: load_docs_def load_doc_pair_def load_fields_def load_field_def merge_field_def load_messages_def
      load_message_def sample_spec_def sample_field_def sample_msg_def element_named_def c_atoi_def c_number_simps
      normalize_type_def type_table_def Let_def)

text \<open>
  C35: The table of length tags that \<open>fixspec-gen-fields\<close> generates, whatever the
  documents, is sorted, without repetitions, and one the reader's lookup answers correctly: a tag is
  found exactly when the first field element with that number has type LENGTH, but for BodyLength and
  MaxMessageSize.
\<close>

theorem generated_table_is_looked_up:
  assumes "load_docs xml docs = Some ((fm, ws), ms)"
  shows "sorted_wrt (<) (generated_lengths fm) \<and>
    (contains (make_length_tag_index (generated_lengths fm)) t \<longleftrightarrow>
      (\<exists>f. field_of (field_entries xml (map fst docs)) t = Some f \<and> sf_type f = ''Length'') \<and> t \<noteq> 9 \<and> t \<noteq> 383)"
  using generated_lengths_result [OF assms] contains_iff generated_lengths_strict [OF assms] by simp

theorem generated_table_is_looked_up_witness:
  "\<exists>fm ws ms. load_docs element_xml [(sample_spec, ''a.xml'')] = Some ((fm, ws), ms) \<and>
    contains (make_length_tag_index (generated_lengths fm)) 95 \<and>
    \<not> contains (make_length_tag_index (generated_lengths fm)) 9"
  using generated_table_is_looked_up [OF sample_spec_loads, of 95] generated_table_is_looked_up [OF sample_spec_loads, of 9]
    generated_lengths_result(3) [OF sample_spec_loads, of 95]
  by (simp add: sample_spec_loads generated_lengths_def data_lengths_def is_data_length_def)

text \<open>
  C36: The loaded dictionaries are the elements of the documents grouped by tag and by message value:
  the first element of a group gives the name and the type, the other names are its aliases, each
  once; fields come in the order of their tags, messages in the order of their first elements.
\<close>

theorem specification_is_grouped:
  assumes "load_docs xml docs = Some ((fm, ws), (loaded, seen, ws'))"
  shows "ordered fm \<and> map_of fm = field_of (field_entries xml (map fst docs)) \<and>
    loaded = messages_of (message_entries xml (map fst docs))"
  using load_docs_result [OF assms] by simp

theorem specification_is_grouped_witness:
  "\<exists>fm ws loaded seen ws'. load_docs element_xml [(sample_spec, ''a.xml'')] = Some ((fm, ws), (loaded, seen, ws')) \<and>
    ordered fm \<and> map fst fm = [9, 95] \<and> map_of fm = field_of (field_entries element_xml [sample_spec]) \<and>
    map_of fm 95 = Some \<lparr>sf_tag = 95, sf_name = ''RawDataLength'', sf_type = ''Length'', sf_aliases = [''RawLen'']\<rparr> \<and>
    loaded = messages_of (message_entries element_xml [sample_spec]) \<and>
    map sm_value loaded = [''B'', ''A''] \<and> map sm_aliases loaded = [[''NewsFlash''], []]"
proof -
  note grouped = specification_is_grouped [OF sample_spec_loads, unfolded list.map fst_conv]
  show ?thesis
    by (intro exI conjI, rule sample_spec_loads)
      (rule grouped [THEN conjunct1] grouped [THEN conjunct2, THEN conjunct1] grouped [THEN conjunct2, THEN conjunct2] | simp)+
qed

text \<open>
  C37: Resolving the first field of a group succeeds exactly when following the components from it
  reaches, in fewer than 32 steps, a name that is no component, and gives that name; otherwise it
  gives no name and a warning. So a cycle of components never hides a resolvable name.
\<close>

theorem delimiter_resolution:
  "(resolve_first_field name cf group_name = (r, [])) = resolves_in cf 32 name r \<and>
    (snd (resolve_first_field name cf group_name) = [] \<or> fst (resolve_first_field name cf group_name) = [])"
  by (simp add: resolve_first_field_result)

text \<open>
  C38: On finite trees the collection of groups returns. The registrations come in the order of
  their names, each once, with a delimiter that is no component; and every conflict reported has at
  least two different delimiters, of which the first is the one registered, as the comment that is
  written says.
\<close>

theorem registrations_and_conflicts:
  assumes "finite_tree xml"
  shows "\<exists>groups conflicts ws. load_groups xml docs = Some (groups, conflicts, ws) \<and>
    sorted_wrt (<) (map gd_count groups) \<and>
    list_all (\<lambda>g. gd_first g \<noteq> [] \<and> components_of xml docs (gd_first g) = None) groups \<and>
    list_all (conflict_ok groups) conflicts"
  using load_groups_result [OF assms] .

definition sample_message_group :: "string \<Rightarrow> string \<Rightarrow> element" where
  "sample_message_group m first = Element ''message'' [(''name'', m)]
     [Element ''group'' [(''name'', ''NoX'')] [Element ''field'' [(''name'', first)] []]]"

definition sample_groups :: element where
  "sample_groups = Element [] [] [Element ''fix'' [] [Element ''messages'' [] [sample_message_group ''M'' ''F'', sample_message_group ''N'' ''G'']]]"

lemma sample_groups_load: "load_groups element_xml [sample_groups] =
  Some ([\<lparr>gd_count = ''NoX'', gd_first = ''F''\<rparr>],
    [(''NoX'', [\<lparr>ga_first = ''F'', ga_messages = [''M'']\<rparr>, \<lparr>ga_first = ''G'', ga_messages = [''N'']\<rparr>])],
    [Group_Conflict ''NoX'' [''F'', ''G'']])"
  by (simp add: load_groups_def resolve_component_first_def collect_all_groups_def collect_in_named_def
      collect_groups_def collect_nodes.simps collect_group_def group_first_name_def sample_groups_def sample_message_group_def
      element_named_def try_emplace_def add_context_def emit_group_def resolve_first_field_def kMaxComponentDepth_def
      collapse_def resolve_alternate_def numeral_eq_Suc Let_def)

theorem registrations_and_conflicts_witness:
  "\<exists>groups conflicts ws. load_groups element_xml [sample_groups] = Some (groups, conflicts, ws) \<and>
    length groups = 1 \<and> length conflicts = 1 \<and> list_all (conflict_ok groups) conflicts"
  using registrations_and_conflicts [OF element_tree_finite, of "[sample_groups]"] by (auto simp: sample_groups_load)

text \<open>
  C39: On a stream of messages \<open>fixprint\<close> prints every message once and in order, with its version
  and its fields, and reports no error, however the 4096-byte chunks cut the messages.
\<close>

theorem printed_stream:
  assumes "length buf = buffer_bytes" "\<forall>m \<in> set ms. message_ok m"
    "argv = [] \<or> hd argv \<noteq> ''-h'' \<and> hd argv \<noteq> ''--help''"
  shows "fixprint fd buf argv (concat (map message_text ms)) =
    Some (concat (map (message_output (color_option argv) fd message_dictionary) ms) @
      (if color_option argv then color_default else []), [])"
  by (rule fixprint_stream [OF assms])

theorem printed_stream_witness:
  "fixprint Map.empty (replicate buffer_bytes 0) [''--no-color''] (message_text sample_formula) =
    Some (message_output False Map.empty message_dictionary sample_formula, [])"
  using printed_stream [of "replicate buffer_bytes 0" "[sample_formula]" "[''--no-color'']" Map.empty] sample_formula_ok
  by (simp add: color_option_def del: message_output.simps message_text.simps)

text \<open>
  C40: \<open>fixprint\<close> returns on every input: valid messages or not, it never reads or writes outside its
  buffer.
\<close>

theorem printer_returns: "\<exists>out err. fixprint fd buf argv input = Some (out, err)"
  using fixprint_total by fastforce

section \<open>The generated header\<close>

text \<open>
  C7: The two dictionaries that the generated header fills are the inverses of its constants: a tag
  has a name exactly when the header declares a constant of that name and value, and a message type
  exactly the name of its constant. No tag and no message type is declared twice.
\<close>

theorem dictionaries_invert_constants:
  "(field_dictionary tag = Some name) = (\<exists>ty. (tag, name, ty) \<in> set enumerators) \<and>
   (message_dictionary (lit v) = Some (lit mname)) = ((mname, v) \<in> set msg_types) \<and>
   distinct (map fst enumerators) \<and> distinct (map snd msg_types)"
  by (simp only: field_dictionary_iff message_dictionary_iff enumerators_distinct message_values_distinct simp_thms)

section \<open>The benchmarks\<close>

text \<open>
  C13: On any data set, of valid messages or not, the parsing benchmarks return. In every iteration
  they count the messages that \<open>for_each_message\<close> shows, or the fields of those; the searches of a list
  of tags in each message return whatever the tags and their order.
\<close>

theorem parse_benchmarks:
  "\<exists>rs tail. for_each_message ds 0 (length ds) = Some (rs, tail) \<and>
    BM_Parse_ScanMessages (hffix ticks) n ds = Some (n * length ds, n * length rs) \<and>
    BM_Parse_FindTags (hffix ticks) tags n ds = Some (n * length ds, n * length rs) \<and>
    BM_Parse_IterAllFields (hffix ticks) n ds = Some (n * length ds, n * (\<Sum>r\<leftarrow>rs. length (message_fields ds r)))"
proof -
  obtain rs tail where rs: "for_each_message ds 0 (length ds) = Some (rs, tail)"
    using for_each_result [of 0 "length ds" ds] by blast
  then show ?thesis
    using shown_readers_for_each [OF rs] this_library.scan_messages [of ticks n ds]
      this_library.find_tags_messages [of ticks tags n ds] this_library.iter_all_fields [of ticks n ds] by simp
qed

text \<open>
  C28: The order that the benchmarks write into their 8192-byte buffer is a message in which the four
  searches, each from the place the last one left, find what was written, whatever the time and the
  buffer before; the loops that write it, scan it, search it and do both return, with its size in
  every iteration, and so does the one with up to 15 lookups, as many as its table of tags has.
  Written by a closure through \<open>try_write_message\<close> it is the same.
\<close>

theorem order_benchmarks:
  assumes "length buffer = kBufSize" "k \<le> length kSingleMsgTags"
  shows "\<exists>len mem r buffer1 buffer2.
    write_new_order (hffix ticks) buffer 1 tsend = Some (len, mem) \<and>
    message_reader mem 0 len = Some r \<and> r_complete r \<and> r_valid r \<and>
    order_fields (hffix ticks) mem r = Some (Some (lit ''A1''), Some (lit ''OIH''), Some 100, Some (lit ''500.01'')) \<and>
    BM_WriteNewOrder (hffix ticks) n tsend buffer = Some (n * len, buffer1) \<and>
    BM_ReadMessageScan (hffix ticks) n tsend buffer = Some (n * len) \<and>
    BM_ReadMessageFindFields (hffix ticks) n tsend buffer = Some (n * len) \<and>
    BM_FindManyFields_Iterator ticks k n tsend buffer = Some (n * len) \<and>
    BM_RoundTrip (hffix ticks) n tsend buffer = Some (n * len, buffer2) \<and>
    BM_WriteNewOrder_Closure ticks n tsend buffer = Some (n * len, buffer1)"
proof -
  from order_written [OF assms(1), of ticks 1 tsend] obtain mem r where
    o: "write_new_order (hffix ticks) buffer 1 tsend = Some (order_size ticks 1 tsend, mem)"
      "message_reader mem 0 (order_size ticks 1 tsend) = Some r" "framed mem r"
      "reads_as mem r (lit ''FIXT.1.1'') (wire_fields (map op_field (Str 35 (lit ''D'') # order_ops ticks 1 tsend)))"
    by blast
  from o(4) have "r_complete r" "r_valid r" by (simp_all add: reads_as_def)
  moreover from write_new_order_loop [OF assms(1), of ticks n tsend] obtain buffer1 where
    "BM_WriteNewOrder (hffix ticks) n tsend buffer = Some (n * order_size ticks 1 tsend, buffer1)" by blast
  moreover from this closure_benchmark_same [OF assms(1), of ticks n tsend] have
    "BM_WriteNewOrder_Closure ticks n tsend buffer = Some (n * order_size ticks 1 tsend, buffer1)" by simp
  ultimately show ?thesis
    using o order_found [OF o(3,4)] scan_loop_order [OF assms(1), of ticks n tsend]
      find_fields_loop [OF assms(1), of ticks n tsend] round_trip_loop [OF assms(1), of ticks n tsend]
      find_many_fields_iterator [OF assms, of ticks n tsend]
    by blast
qed

theorem order_benchmarks_witness:
  "\<exists>len mem r. write_new_order (hffix 1000) (replicate kBufSize 0) 1 86400000 = Some (len, mem) \<and>
    message_reader mem 0 len = Some r \<and>
    order_fields (hffix 1000) mem r = Some (Some (lit ''A1''), Some (lit ''OIH''), Some 100, Some (lit ''500.01'')) \<and>
    BM_ReadMessageScan (hffix 1000) 3 86400000 (replicate kBufSize 0) = Some (3 * len) \<and>
    BM_FindManyFields_Iterator 1000 15 3 86400000 (replicate kBufSize 0) = Some (3 * len)"
proof -
  have "15 \<le> length kSingleMsgTags" by (simp add: kSingleMsgTags_def)
  from order_benchmarks [of "replicate kBufSize 0" 15 1000 86400000 3, OF length_replicate this] show ?thesis by blast
qed

text \<open>
  C29: The tail-latency benchmark returns, with one sample per message of the last iteration: the
  difference of the two readings of the clock around its searches. The indexes of the percentiles,
  computed in \<open>double\<close>s, are inside the sorted samples, in the order of the percentiles;
  the counters are the samples there, so a higher percentile is not a smaller one, and the maximum,
  the last of them, is not exceeded.
\<close>

theorem tail_latencies:
  assumes "for_each_message ds 0 (length ds) = Some (rs, tail)" "rs \<noteq> []" "length rs \<le> 2 ^ 53" "0 < n"
  shows "\<exists>s k. k = length rs \<and> s = sort (last_samples clk n k) \<and>
    pct_index q95 k \<le> pct_index q99 k \<and> pct_index q99 k \<le> pct_index q999 k \<and> pct_index q999 k < k \<and>
    BM_Parse_TailLatency_Iter (hffix ticks) tags n ds clk =
      Some (Counters (s ! pct_index q95 k) (s ! pct_index q99 k) (s ! pct_index q999 k) (s ! (k - 1)) k) \<and>
    s ! pct_index q95 k \<le> s ! pct_index q99 k \<and> s ! pct_index q99 k \<le> s ! pct_index q999 k \<and>
    s ! pct_index q999 k \<le> s ! (k - 1) \<and> (\<forall>x \<in> set (last_samples clk n k). x \<le> s ! (k - 1))"
proof -
  let ?xs = "last_samples clk n (length rs)"
  have "BM_Parse_TailLatency_Iter (hffix ticks) tags n ds clk = tail_latency ?xs"
    using this_library.tail_latency_samples [OF assms(4), of ticks tags ds clk]
    by (simp add: shown_readers_for_each [OF assms(1)])
  moreover have "?xs \<noteq> []" "length ?xs \<le> 2 ^ 53" using assms(2,3) by (auto simp: last_samples_def)
  ultimately show ?thesis
    using tail_latency_counters [of ?xs] unfolding length_last_samples by (intro exI conjI) (simp | blast)+
qed

theorem tail_latencies_witness:
  "BM_Parse_TailLatency_Iter (hffix 1000) kSeqOrderTags 3 (message_text sample_message) (\<lambda>i. int (i * i)) =
      Some (Counters 9 9 9 9 1)"
proof -
  let ?m = "message_text sample_message"
  have "\<forall>x \<in> set [sample_message, sample_message]. message_ok x" "0 < length ?m"
    using sample_message_ok sample_message_length by (simp, linarith)
  from stream_delivery [OF this] obtain rs where
    "for_each_message ?m 0 (length ?m) = Some (rs, length ?m)" "list_all2 (reads_message_as ?m) rs [sample_message]" by auto
  then have rs: "for_each_message ?m 0 (length ?m) = Some (rs, length ?m)" "rs \<noteq> []" "length rs \<le> 2 ^ 53" "length rs = 1"
    by (auto dest: list_all2_lengthD)
  have "last_samples (\<lambda>i. int (i * i)) 3 1 = [9]" by (simp add: last_samples_def)
  with tail_latencies [OF rs(1-3), of 3 "\<lambda>i. int (i * i)" 1000 kSeqOrderTags] rs(4) show ?thesis by auto
qed

text \<open>
  C30: On any data set below 4 GiB the variants that compete find the same. In each of its messages the
  group loop of the library and the hand-written one give the same values for every entry, and an
  index with room for the fields answers a list of searches as the field iterator does. The indexed
  benchmarks count what the plain ones count, or, when a message has more fields than the index, end
  with the error. With the index or without it, the latencies are sampled at the same calls of the clock.
\<close>

theorem benchmark_variants_agree:
  assumes size: "length ds \<le> kMaxIndexableMessageBytes" and buf: "capacity_ok buf"
  shows "\<exists>rs tail buf1 buf2. for_each_message ds 0 (length ds) = Some (rs, tail) \<and>
    (\<forall>r \<in> set rs. (\<exists>gs. group_access_sugared ds r = Some gs \<and> group_access_manual ds r = Some gs) \<and>
      (length (message_fields ds r) \<le> kFieldIndexCapacity \<longrightarrow> (\<exists>idx buf' vs ws.
        build_field_index ds r buf = Some (idx, buf') \<and> find_in_message (hffix ticks) ds tags r = Some vs \<and>
        find_tags_indexed_hint idx tags 0 = Some ws \<and> vs = map (indexed_bytes ds) ws))) \<and>
    BM_Parse_GroupAccess_Sugared ticks n ds = Some (n * length ds, n * length rs) \<and>
    BM_Parse_GroupAccess_Manual ticks n ds = Some (n * length ds, n * length rs) \<and>
    BM_Parse_FindTagsIndexed_Hint tags (Suc n) ds buf =
      Some (if all_indexable ds rs then Inr (Suc n * length ds, Suc n * length rs, buf1) else Inl Skip_With_Error_Index) \<and>
    BM_Parse_FindTagsIndexed tags (Suc n) ds buf =
      Some (if all_indexable ds rs then Inr (Suc n * length ds, Suc n * length rs, buf2) else Inl Skip_With_Error_Index) \<and>
    BM_Parse_TailLatency ticks tags use_index n ds clk buf = BM_Parse_TailLatency_Iter (hffix ticks) tags n ds clk"
proof -
  obtain rs tail where rs: "for_each_message ds 0 (length ds) = Some (rs, tail)" "\<forall>r \<in> set rs. framed ds r"
    using for_each_result [of 0 "length ds" ds] by (auto simp: shows_readers_def)
  from rs(2) variants_find_same [OF _ size buf, of _ ticks tags] have
    "\<forall>r \<in> set rs. (\<exists>gs. group_access_sugared ds r = Some gs \<and> group_access_manual ds r = Some gs) \<and>
      (length (message_fields ds r) \<le> kFieldIndexCapacity \<longrightarrow> (\<exists>idx buf' vs ws.
        build_field_index ds r buf = Some (idx, buf') \<and> find_in_message (hffix ticks) ds tags r = Some vs \<and>
        find_tags_indexed_hint idx tags 0 = Some ws \<and> vs = map (indexed_bytes ds) ws))" by blast
  moreover from indexed_benchmarks(1,2) [OF rs(1) size buf, where tags = tags and n = n] obtain buf1 buf2 where
    "BM_Parse_FindTagsIndexed_Hint tags (Suc n) ds buf =
      Some (if all_indexable ds rs then Inr (Suc n * length ds, Suc n * length rs, buf1) else Inl Skip_With_Error_Index)"
    "BM_Parse_FindTagsIndexed tags (Suc n) ds buf =
      Some (if all_indexable ds rs then Inr (Suc n * length ds, Suc n * length rs, buf2) else Inl Skip_With_Error_Index)"
    by blast
  ultimately show ?thesis
    using rs(1) group_benchmarks [OF rs(1), of ticks n] tail_latency_same [OF size buf, of ticks tags use_index n clk]
    by (intro exI conjI) (assumption | simp only:)+
qed

definition sample_capacity :: field_index_buffer where
  "sample_capacity = \<lparr>ib_tags = replicate kFieldIndexCapacity 0, ib_pos_len = replicate kFieldIndexCapacity 0\<rparr>"

theorem benchmark_variants_agree_witness:
  "\<exists>rs tail r vs. for_each_message (message_text sample_group) 0 (length (message_text sample_group)) = Some (rs, tail) \<and>
    r \<in> set rs \<and> group_access_sugared (message_text sample_group) r = Some vs \<and>
    group_access_manual (message_text sample_group) r = Some vs \<and>
    BM_Parse_TailLatency 1000 kSeqOrderTags True 2 (message_text sample_group) (\<lambda>i. int i) sample_capacity =
      BM_Parse_TailLatency_Iter (hffix 1000) kSeqOrderTags 2 (message_text sample_group) (\<lambda>i. int i)"
proof -
  let ?m = "message_text sample_group"
  have "length ?m \<le> kMaxIndexableMessageBytes" using sample_group_size by (simp add: kMaxIndexableMessageBytes_def)
  moreover have "capacity_ok sample_capacity" by (simp add: capacity_ok_def sample_capacity_def)
  ultimately obtain rs tail where
    v: "for_each_message ?m 0 (length ?m) = Some (rs, tail)"
      "\<forall>r \<in> set rs. \<exists>gs. group_access_sugared ?m r = Some gs \<and> group_access_manual ?m r = Some gs"
      "BM_Parse_TailLatency 1000 kSeqOrderTags True 2 ?m (\<lambda>i. int i) sample_capacity =
        BM_Parse_TailLatency_Iter (hffix 1000) kSeqOrderTags 2 ?m (\<lambda>i. int i)"
    using benchmark_variants_agree [of ?m sample_capacity 1000 kSeqOrderTags 2 True "\<lambda>i. int i"] by blast
  have "0 < length ?m" by (simp add: sample_group_def)
  moreover have "\<forall>x \<in> set [sample_group, sample_group]. message_ok x" using sample_group_ok by simp
  ultimately have "0 < length ?m" "\<forall>x \<in> set [sample_group, sample_group]. message_ok x" by this+
  from stream_delivery [OF this(2,1)] obtain rs' where
    "for_each_message ?m 0 (length ?m) = Some (rs', length ?m)" "list_all2 (reads_message_as ?m) rs' [sample_group]" by auto
  then have "rs \<noteq> []" using v(1) by (auto dest: list_all2_lengthD)
  then obtain r where "r \<in> set rs" by (cases rs) auto
  with v show ?thesis by blast
qed

section \<open>The programs in a row\<close>

text \<open>
  C22: What \<open>fixgen\<close> wrote, with any arguments it accepts (for at most 306783378
  messages, behind which \<open>seq * 7\<close> overflows) and any random numbers, is what the other
  programs expect: \<open>fixprint\<close> prints exactly its messages, in order and without an error,
  though it reads them in chunks that cut them; and a benchmark that scans it counts as many messages
  as were asked for in every iteration.
\<close>

theorem generated_stream_printed_and_counted:
  assumes "draws_in_range draw draw_type" "length buf = kBuf" "parse_args argv = Some (Some a)"
    "arg_count a \<le> 306783378" "arg_out a = ''-'' \<or> opens (arg_out a)" "length pbuf = buffer_bytes"
    "pargv = [] \<or> hd pargv \<noteq> ''-h'' \<and> hd pargv \<noteq> ''--help''"
  shows "\<exists>out ms. fixgen_main draw draw_type mt19937 opens buf argv = Some (0, out) \<and>
    length ms = nat (arg_count a) \<and>
    fixprint fd pbuf pargv out = Some (concat (map (message_output (color_option pargv) fd message_dictionary) ms) @
      (if color_option pargv then color_default else []), []) \<and>
    BM_Parse_ScanMessages (hffix ticks) n out = Some (n * length out, n * nat (arg_count a))"
proof -
  have "arg_count a \<le> int max_exec_seq" using assms(4) by (simp add: max_exec_seq_def)
  from fixgen_main_result [of draw draw_type buf argv a opens mt19937, OF assms(1-3) this assms(5)] obtain out ms rs where
    o: "fixgen_main draw draw_type mt19937 opens buf argv = Some (0, out)" "length ms = nat (arg_count a)"
      "out = concat (map message_text ms)" "\<forall>m \<in> set ms. message_ok m"
      "for_each_message out 0 (length out) = Some (rs, length out)" "list_all2 (reads_message_as out) rs ms" by blast
  have "length rs = nat (arg_count a)" using list_all2_lengthD [OF o(6)] o(2) by simp
  moreover have "BM_Parse_ScanMessages (hffix ticks) n out = Some (n * length out, n * length rs)"
    using this_library.scan_messages [of ticks n out] by (simp add: shown_readers_for_each [OF o(5)])
  ultimately show ?thesis
    using o(1,2) fixprint_stream [OF assms(6) o(4) assms(7), of fd] unfolding o(3) by fastforce
qed

theorem generated_stream_printed_and_counted_witness:
  "\<exists>out ms. fixgen_main (\<lambda>g a b. (a, g)) (\<lambda>g. (3, g)) (\<lambda>seed. ()) (\<lambda>path. False) (replicate kBuf 0)
      [''-o'', ''-'', ''-n'', ''3''] = Some (0, out) \<and> length ms = 3 \<and>
    fixprint Map.empty (replicate buffer_bytes 0) [''--no-color''] out =
      Some (concat (map (message_output False Map.empty message_dictionary) ms), []) \<and>
    BM_Parse_ScanMessages (hffix 1000) 2 out = Some (2 * length out, 6)"
proof -
  have "draws_in_range (\<lambda>(g :: unit) a b. (a, g)) (\<lambda>g. (3, g))" by (simp add: draws_in_range_def)
  moreover have "length (replicate kBuf (0 :: byte)) = kBuf" by simp
  moreover have "parse_args [''-o'', ''-'', ''-n'', ''3''] =
      Some (Some \<lparr>arg_out = ''-'', arg_count = 3, arg_seed = 42\<rparr>)"
    by (simp add: parse_args_def default_args_def c_atol_def c_number_simps)
  moreover have "length (replicate buffer_bytes (0 :: byte)) = buffer_bytes" by simp
  moreover have "\<not> color_option [''--no-color'']" by (simp add: color_option_def)
  ultimately show ?thesis
    using generated_stream_printed_and_counted [of "\<lambda>(g :: unit) a b. (a, g)" "\<lambda>g. (3, g)" "replicate kBuf 0"
      "[''-o'', ''-'', ''-n'', ''3'']" "\<lparr>arg_out = ''-'', arg_count = 3, arg_seed = 42\<rparr>" "\<lambda>path. False"
      "replicate buffer_bytes 0" "[''--no-color'']" "\<lambda>seed. ()" Map.empty 1000 2]
    by (simp del: message_output.simps message_text.simps)
qed

end
